(* ===== verification/Prelude.thy ===== *)
theory Prelude
  imports Main "HOL-Library.Word" "HOL-Library.Product_Lexorder"
begin

text \<open>
  Shared vocabulary of the development: Python strings as lists of code points, UUIDs and
  their canonical text, JSON payloads, the exceptions the backend raises, and the relational
  operations (\<open>SELECT\<close>, \<open>UPDATE \<dots> WHERE\<close>, \<open>INSERT\<close> with unique constraints, \<open>ORDER BY\<close>
  and \<open>LIMIT\<close>) in which the repositories under
  \<open>src/backend/src/laoshiren/infrastructure/persistence/repositories\<close> are written.
\<close>

named_theorems sql "facts about the relational table operations"
named_theorems entity_defs "the transition methods of the domain entities, unfolded"
named_theorems repo_defs "the repository operations, unfolded"

section \<open>Strings\<close>

text \<open>
  A Python \<open>str\<close> is the list of its Unicode code points, so that \<open>len\<close> and slicing count
  what Python counts. \<open>u\<close> embeds an ASCII literal.
\<close>

type_synonym str = "nat list"

definition u :: "string \<Rightarrow> str" where
  "u s = map of_char s"

lemma u_inject [simp]: "u s = u t \<longleftrightarrow> s = t"
proof -
  have "inj (of_char :: char \<Rightarrow> nat)"
    by (auto intro!: injI)
  then have "inj (map (of_char :: char \<Rightarrow> nat))"
    by (rule inj_mapI)
  then show ?thesis
    by (auto simp: u_def dest: injD)
qed

lemma u_Nil [simp]: "u [] = []"
  by (simp add: u_def)

lemma u_eq_Nil [simp]: "u s = [] \<longleftrightarrow> s = []" "[] = u s \<longleftrightarrow> s = []"
  by (auto simp: u_def)

lemma length_u [simp]: "length (u s) = length s"
  by (simp add: u_def)

text \<open>\<open>str.isspace\<close>, the characters \<open>str.strip\<close> removes.\<close>

definition is_space :: "nat \<Rightarrow> bool" where
  "is_space c \<longleftrightarrow>
     9 \<le> c \<and> c \<le> 13 \<or> 28 \<le> c \<and> c \<le> 32 \<or> c = 0x85 \<or> c = 0xA0 \<or> c = 0x1680 \<or>
     0x2000 \<le> c \<and> c \<le> 0x200A \<or> c = 0x2028 \<or> c = 0x2029 \<or> c = 0x202F \<or> c = 0x205F \<or> c = 0x3000"

definition lstrip :: "str \<Rightarrow> str" where
  "lstrip s = dropWhile is_space s"

definition rstrip :: "str \<Rightarrow> str" where
  "rstrip s = rev (dropWhile is_space (rev s))"

definition strip :: "str \<Rightarrow> str" where
  "strip s = rstrip (lstrip s)"

lemma strip_Nil [simp]: "strip [] = []"
  by (simp add: strip_def lstrip_def rstrip_def)

lemma strip_eq_Nil_iff: "strip s = [] \<longleftrightarrow> (\<forall>c \<in> set s. is_space c)"
proof -
  have "strip s = [] \<longleftrightarrow> (\<forall>c \<in> set (dropWhile is_space s). is_space c)"
    by (simp add: strip_def lstrip_def rstrip_def dropWhile_eq_Nil_conv)
  also have "\<dots> \<longleftrightarrow> (\<forall>c \<in> set s. is_space c)"
    by (induction s) simp_all
  finally show ?thesis .
qed

lemma strip_ends:
  assumes "strip s \<noteq> []"
  shows "\<not> is_space (hd (strip s))" and "\<not> is_space (last (strip s))"
proof -
  let ?l = "dropWhile is_space s"
  let ?d = "dropWhile is_space (rev ?l)"
  have d: "?d \<noteq> []"
    using assms by (simp add: strip_def lstrip_def rstrip_def)
  have "last (strip s) = hd ?d"
    using d by (simp add: strip_def lstrip_def rstrip_def last_rev)
  then show "\<not> is_space (last (strip s))"
    using d hd_dropWhile [of is_space "rev ?l"] by simp
  have l: "?l \<noteq> []"
    using d by (cases ?l) simp_all
  have "rev (rev ?l) = rev (takeWhile is_space (rev ?l) @ ?d)"
    by (simp only: takeWhile_dropWhile_id)
  then have "?l = rev ?d @ rev (takeWhile is_space (rev ?l))"
    by (simp only: rev_append rev_rev_ident)
  then have "hd ?l = hd (rev ?d)"
    using d hd_append2 [of "rev ?d" "rev (takeWhile is_space (rev ?l))"] by simp
  then have "hd (strip s) = hd ?l"
    by (simp add: strip_def lstrip_def rstrip_def)
  then show "\<not> is_space (hd (strip s))"
    using l hd_dropWhile [of is_space s] by simp
qed

lemma strip_id:
  assumes "s = [] \<or> \<not> is_space (hd s) \<and> \<not> is_space (last s)"
  shows "strip s = s"
proof (cases "s = []")
  case False
  have 1: "dropWhile is_space s = s"
    using assms False by (cases s) auto
  have "dropWhile is_space (rev s) = rev s"
    using assms False by (cases s rule: rev_cases) simp_all
  then show ?thesis
    by (simp add: strip_def lstrip_def rstrip_def 1)
qed simp

lemma strip_strip [simp]: "strip (strip s) = strip s"
  by (rule strip_id) (use strip_ends in blast)

section \<open>UUIDs and instants\<close>

text \<open>
  A UUID is its 128-bit value; PostgreSQL orders UUIDs by that value. An aware \<open>datetime\<close> is
  an instant in microseconds since the epoch with the offset of its zone, which only its text
  shows; \<open>Aware\<close> is one in UTC, as \<open>datetime.now(UTC)\<close> and the database give them. A naive one
  is a local reading; where the code lets one pass, it counts as a reading in UTC.
\<close>

type_synonym uuid = "128 word"
type_synonym time = int

datatype pydatetime = Naive int | AwareAt time int

abbreviation Aware :: "time \<Rightarrow> pydatetime" where
  "Aware t \<equiv> AwareAt t 0"

primrec is_aware :: "pydatetime \<Rightarrow> bool" where
  "is_aware (Naive _) = False"
| "is_aware (AwareAt _ _) = True"

primrec instant :: "pydatetime \<Rightarrow> time" where
  "instant (Naive t) = t"
| "instant (AwareAt t _) = t"

definition hex_digit :: "nat \<Rightarrow> nat" where
  "hex_digit n = (if n < 10 then 48 + n else 87 + n)"

primrec hex_of :: "nat \<Rightarrow> nat \<Rightarrow> str" where
  "hex_of 0 n = []"
| "hex_of (Suc k) n = hex_of k (n div 16) @ [hex_digit (n mod 16)]"

text \<open>\<open>str(uuid)\<close>: 32 lower-case hexadecimal digits grouped 8-4-4-4-12.\<close>

definition dash_groups :: "str \<Rightarrow> str" where
  "dash_groups h = take 8 h @ [45] @ take 4 (drop 8 h) @ [45] @ take 4 (drop 12 h) @ [45] @
     take 4 (drop 16 h) @ [45] @ drop 20 h"

definition uuid_str :: "uuid \<Rightarrow> str" where
  "uuid_str x = dash_groups (hex_of 32 (unat x))"

definition unhex_digit :: "nat \<Rightarrow> nat option" where
  "unhex_digit c =
     (if 48 \<le> c \<and> c \<le> 57 then Some (c - 48)
      else if 97 \<le> c \<and> c \<le> 102 then Some (c - 87)
      else if 65 \<le> c \<and> c \<le> 70 then Some (c - 55) else None)"

fun unhex :: "str \<Rightarrow> nat \<Rightarrow> nat option" where
  "unhex [] acc = Some acc"
| "unhex (c # cs) acc =
     (case unhex_digit c of None \<Rightarrow> None | Some d \<Rightarrow> unhex cs (16 * acc + d))"

text \<open>
  \<open>UUID(text)\<close> for the text forms the backend stores: dashes removed, then exactly 32
  hexadecimal digits; anything else is the \<open>ValueError\<close> of the constructor. The other
  spellings the constructor accepts (\<open>urn:uuid:\<close> prefixes, braces, and the underscores and
  signs that \<open>int(_, 16)\<close> tolerates) are never produced by \<open>str(uuid)\<close> and are rejected here.
\<close>

definition uuid_parse :: "str \<Rightarrow> uuid option" where
  "uuid_parse s =
     (let h = filter (\<lambda>c. c \<noteq> 45) s in
      if length h \<noteq> 32 then None else map_option of_nat (unhex h 0))"

lemma length_hex_of [simp]: "length (hex_of k n) = k"
  by (induction k arbitrary: n) auto

lemma hex_digit_not_dash [simp]: "n < 16 \<Longrightarrow> hex_digit n \<noteq> 45"
  by (auto simp: hex_digit_def)

lemma hex_of_no_dash: "45 \<notin> set (hex_of k n)"
proof (induction k arbitrary: n)
  case (Suc k)
  have "hex_digit (n mod 16) \<noteq> 45"
    by (rule hex_digit_not_dash) simp
  with Suc show ?case by simp
qed simp

lemma unhex_hex_digit [simp]: "n < 16 \<Longrightarrow> unhex_digit (hex_digit n) = Some n"
  by (auto simp: hex_digit_def unhex_digit_def)

lemma unhex_append:
  "unhex (xs @ ys) acc = (case unhex xs acc of None \<Rightarrow> None | Some a \<Rightarrow> unhex ys a)"
  by (induction xs arbitrary: acc) (auto split: option.splits)

lemma unhex_hex_of: "unhex (hex_of k n) acc = Some (acc * 16 ^ k + n mod 16 ^ k)"
proof (induction k arbitrary: n acc)
  case (Suc k)
  have d: "unhex_digit (hex_digit (n mod 16)) = Some (n mod 16)"
    by (rule unhex_hex_digit) simp
  have "n mod 16 ^ Suc k = 16 * (n div 16 mod 16 ^ k) + n mod 16"
    by (simp add: mod_mult2_eq mult.commute)
  with Suc d show ?case
    by (simp add: unhex_append algebra_simps)
qed simp

lemma split_groups:
  "take 8 h @ take 4 (drop 8 h) @ take 4 (drop 12 h) @ take 4 (drop 16 h) @ drop 20 h = h"
proof -
  have "take 4 (drop n h) @ drop (4 + n) h = drop n h" for n
    using append_take_drop_id [of 4 "drop n h"] by (simp only: drop_drop)
  from this [of 8] this [of 12] this [of 16] show ?thesis
    by simp
qed

lemma filter_dash_groups:
  assumes "45 \<notin> set h"
  shows "filter (\<lambda>c. c \<noteq> 45) (dash_groups h) = h"
proof -
  have keep: "filter (\<lambda>c. c \<noteq> 45) xs = xs" if "set xs \<subseteq> set h" for xs
    using that assms by (auto simp: filter_id_conv)
  have sub: "set (take n (drop m h)) \<subseteq> set h" "set (drop m h) \<subseteq> set h" "set (take n h) \<subseteq> set h" for m n
    by (auto dest: in_set_takeD in_set_dropD)
  have "take 8 h @ take 4 (drop 8 h) @ take 4 (drop 12 h) @ take 4 (drop 16 h) @ drop 20 h = h"
    by (rule split_groups)
  then show ?thesis
    by (simp add: dash_groups_def keep sub)
qed

lemma uuid_parse_str [simp]: "uuid_parse (uuid_str x) = Some x"
proof -
  have "unat x < 16 ^ 32"
    using unsigned_less [of x] by simp
  then show ?thesis
    by (simp add: uuid_parse_def uuid_str_def filter_dash_groups hex_of_no_dash unhex_hex_of)
qed

lemma uuid_str_inject [simp]: "uuid_str x = uuid_str y \<longleftrightarrow> x = y"
  by (metis uuid_parse_str option.inject)

section \<open>JSON payloads\<close>

text \<open>
  A JSON object is a finite map from member names: Python compares dictionaries without
  regard to the order of their keys, as equality of maps does. JSON numbers are integers
  here; no modelled operation computes with a fractional one.
\<close>

datatype json =
    JNull
  | JBool bool
  | JInt int
  | JStr str
  | JList "json list"
  | JObj "str \<Rightarrow> json option"

type_synonym jdict = "str \<Rightarrow> json option"

text \<open>\<open>payload.get(key, default)\<close>, and the values \<open>str | None\<close> and \<open>dict | None\<close> as JSON.\<close>

definition jget :: "jdict \<Rightarrow> str \<Rightarrow> json \<Rightarrow> json" where
  "jget d k v = (case d k of None \<Rightarrow> v | Some w \<Rightarrow> w)"

primrec jopt_str :: "str option \<Rightarrow> json" where
  "jopt_str None = JNull"
| "jopt_str (Some s) = JStr s"

definition juuid :: "uuid \<Rightarrow> json" where
  "juuid x = JStr (uuid_str x)"

section \<open>Exceptions\<close>

text \<open>
  The exceptions the modelled code raises, with their messages (\<open>ModelGatewayError\<close> with its code,
  message and \<open>retryable\<close>). \<open>IntegrityError\<close> is the
  database's refusal of a duplicate key. A function that may raise returns \<open>py_error + 'a\<close>.
\<close>

datatype py_error =
    ValueError str
  | InvalidStateTransition str
  | EntityNotFound str
  | VersionConflict str
  | RuntimeError str
  | KeyError str
  | AssertionError
  | IntegrityError
  | TypeError str
  | AttributeError str
  | ModelGatewayError str str bool

definition bindE :: "'e + 'a \<Rightarrow> ('a \<Rightarrow> 'e + 'b) \<Rightarrow> 'e + 'b" where
  "bindE m f = (case m of Inl e \<Rightarrow> Inl e | Inr a \<Rightarrow> f a)"

lemma bindE_simps [simp]: "bindE (Inl e) f = Inl e" "bindE (Inr a) f = f a"
  by (simp_all add: bindE_def)

lemma bindE_eq_Inr [simp]: "bindE m f = Inr b \<longleftrightarrow> (\<exists>a. m = Inr a \<and> f a = Inr b)"
  by (cases m) auto

lemma bindE_cong [fundef_cong]:
  "m = m' \<Longrightarrow> (\<And>a. m' = Inr a \<Longrightarrow> f a = g a) \<Longrightarrow> bindE m f = bindE m' g"
  by (cases m') auto

text \<open>\<open>raise e unless b\<close>.\<close>

definition require :: "bool \<Rightarrow> 'e \<Rightarrow> 'e + unit" where
  "require b e = (if b then Inr () else Inl e)"

lemma require_eq_Inr [simp]: "require b e = Inr x \<longleftrightarrow> b"
  by (simp add: require_def)

lemma require_True [simp]: "require True e = Inr ()"
  and require_False [simp]: "require False e = Inl e"
  by (simp_all add: require_def)

definition ofopt :: "'e \<Rightarrow> 'a option \<Rightarrow> 'e + 'a" where
  "ofopt e x = (case x of None \<Rightarrow> Inl e | Some a \<Rightarrow> Inr a)"

lemma ofopt_simps [simp]: "ofopt e None = Inl e" "ofopt e (Some a) = Inr a"
  by (simp_all add: ofopt_def)

lemma ofopt_eq_Inr [simp]: "ofopt e x = Inr a \<longleftrightarrow> x = Some a"
  by (cases x) auto

text \<open>\<open>except ValueError as e: raise InvalidStateTransition(str(e))\<close>.\<close>

primrec value_error_to_transition :: "py_error + 'a \<Rightarrow> py_error + 'a" where
  "value_error_to_transition (Inl e) =
     Inl (case e of ValueError m \<Rightarrow> InvalidStateTransition m | _ \<Rightarrow> e)"
| "value_error_to_transition (Inr a) = Inr a"

lemma value_error_to_transition_Inr [simp]:
  "value_error_to_transition m = Inr a \<longleftrightarrow> m = Inr a"
  by (cases m) auto

section \<open>Relational tables\<close>

text \<open>
  A table is the list of its rows. \<open>upd\<close> is \<open>UPDATE \<dots> SET f WHERE p\<close> and \<open>cnt\<close> its row count,
  \<open>sel\<close> is \<open>SELECT \<dots> WHERE p\<close>, \<open>sel1\<close> its first row or nothing (\<open>session.scalar\<close>), and \<open>ins\<close>
  appends a row unless it clashes with a stored one on a primary key or unique constraint.
\<close>

definition sel :: "('r \<Rightarrow> bool) \<Rightarrow> 'r list \<Rightarrow> 'r list" where
  "sel p t = filter p t"

fun sel1 :: "('r \<Rightarrow> bool) \<Rightarrow> 'r list \<Rightarrow> 'r option" where
  "sel1 p [] = None"
| "sel1 p (r # t) = (if p r then Some r else sel1 p t)"

definition upd :: "('r \<Rightarrow> bool) \<Rightarrow> ('r \<Rightarrow> 'r) \<Rightarrow> 'r list \<Rightarrow> 'r list" where
  "upd p f t = map (\<lambda>r. if p r then f r else r) t"

definition cnt :: "('r \<Rightarrow> bool) \<Rightarrow> 'r list \<Rightarrow> nat" where
  "cnt p t = length (filter p t)"

definition ins :: "('r \<Rightarrow> 'r \<Rightarrow> bool) \<Rightarrow> 'r \<Rightarrow> 'r list \<Rightarrow> py_error + 'r list" where
  "ins clash r t = (if \<exists>x \<in> set t. clash x r then Inl IntegrityError else Inr (t @ [r]))"

lemma sel_simps [simp]: "sel p [] = []" "sel p (r # t) = (if p r then r # sel p t else sel p t)"
  by (simp_all add: sel_def)

lemma sel1_Some [sql]: "sel1 p t = Some r \<Longrightarrow> r \<in> set t \<and> p r"
  by (induction t) (auto split: if_splits)

lemma sel1_SomeD: "sel1 p t = Some r \<Longrightarrow> r \<in> set t" "sel1 p t = Some r \<Longrightarrow> p r"
  by (auto dest: sel1_Some)

lemma sel1_None [sql]: "sel1 p t = None \<longleftrightarrow> (\<forall>r \<in> set t. \<not> p r)"
  by (induction t) auto

lemma sel1_append [sql]:
  "sel1 p (t @ t') = (case sel1 p t of None \<Rightarrow> sel1 p t' | Some r \<Rightarrow> Some r)"
  by (induction t) auto

lemma sel1_cong: "(\<And>r. r \<in> set t \<Longrightarrow> p r = q r) \<Longrightarrow> sel1 p t = sel1 q t"
  by (induction t) auto

lemma length_upd [simp]: "length (upd p f t) = length t"
  by (simp add: upd_def)

lemma upd_Nil [simp]: "upd p f [] = []"
  by (simp add: upd_def)

lemma upd_Cons [simp]: "upd p f (r # t) = (if p r then f r else r) # upd p f t"
  by (simp add: upd_def)

lemma upd_append [simp]: "upd p f (t @ t') = upd p f t @ upd p f t'"
  by (simp add: upd_def)

lemma set_upd: "set (upd p f t) = (\<lambda>r. if p r then f r else r) ` set t"
  by (simp add: upd_def)

lemma upd_id [sql]: "(\<And>r. r \<in> set t \<Longrightarrow> \<not> p r) \<Longrightarrow> upd p f t = t"
  by (induction t) auto

lemma map_upd [sql]: "(\<And>r. p r \<Longrightarrow> k (f r) = k r) \<Longrightarrow> map k (upd p f t) = map k t"
  by (induction t) auto

lemma in_set_updE:
  assumes "r \<in> set (upd p f t)"
  obtains (same) "r \<in> set t" "\<not> p r" | (changed) x where "x \<in> set t" "p x" "r = f x"
  using assms by (auto simp: set_upd split: if_splits)

lemma cnt_eq_0 [sql]: "cnt p t = 0 \<longleftrightarrow> (\<forall>r \<in> set t. \<not> p r)"
  by (auto simp: cnt_def filter_empty_conv)

lemma cnt_Nil [simp]: "cnt p [] = 0"
  by (simp add: cnt_def)

lemma cnt_Cons [simp]: "cnt p (r # t) = (if p r then Suc (cnt p t) else cnt p t)"
  by (simp add: cnt_def)

lemma ins_Inr [simp]:
  "ins clash r t = Inr t' \<longleftrightarrow> (\<forall>x \<in> set t. \<not> clash x r) \<and> t' = t @ [r]"
  by (auto simp: ins_def)

subsection \<open>Tables with a key\<close>

text \<open>
  With a primary key \<open>k\<close> (no two rows share it), a statement that pins the key touches at most
  one row, so its row count is 1 exactly when the pinned row satisfies the rest of the clause.
\<close>

definition keyed :: "('r \<Rightarrow> 'k) \<Rightarrow> 'r list \<Rightarrow> bool" where
  "keyed k t \<longleftrightarrow> distinct (map k t)"

definition row :: "('r \<Rightarrow> 'k) \<Rightarrow> 'k \<Rightarrow> 'r list \<Rightarrow> 'r option" where
  "row k x t = sel1 (\<lambda>r. k r = x) t"

lemma row_Nil [simp]: "row k x [] = None"
  by (simp add: row_def)

lemma row_Cons [simp]: "row k x (r # t) = (if k r = x then Some r else row k x t)"
  by (simp add: row_def)

lemma row_Some: "row k x t = Some r \<Longrightarrow> r \<in> set t \<and> k r = x"
  by (auto simp: row_def dest: sel1_Some)

lemma row_None: "row k x t = None \<longleftrightarrow> x \<notin> k ` set t"
  by (auto simp: row_def sel1_None)

lemma keyed_Nil [simp]: "keyed k []"
  by (simp add: keyed_def)

lemma keyed_Cons [simp]: "keyed k (r # t) \<longleftrightarrow> k r \<notin> k ` set t \<and> keyed k t"
  by (auto simp: keyed_def)

lemma keyed_snoc [simp]: "keyed k (t @ [r]) \<longleftrightarrow> k r \<notin> k ` set t \<and> keyed k t"
  by (auto simp: keyed_def)

lemma keyed_row: "keyed k t \<Longrightarrow> r \<in> set t \<Longrightarrow> row k (k r) t = Some r"
  by (induction t) force+

lemma keyed_unique: "keyed k t \<Longrightarrow> r \<in> set t \<Longrightarrow> s \<in> set t \<Longrightarrow> k r = k s \<Longrightarrow> r = s"
  by (metis keyed_row option.inject)

lemma keyed_upd [sql]: "(\<And>r. p r \<Longrightarrow> k (f r) = k r) \<Longrightarrow> keyed k (upd p f t) = keyed k t"
  by (simp add: keyed_def map_upd)

lemma row_upd [sql]:
  assumes "\<And>r. p r \<Longrightarrow> k (f r) = k r"
  shows "row k x (upd p f t) = map_option (\<lambda>r. if p r then f r else r) (row k x t)"
  using assms by (induction t) auto

lemma row_append [sql]:
  "row k x (t @ t') = (case row k x t of None \<Rightarrow> row k x t' | Some r \<Rightarrow> Some r)"
  by (induction t) auto

lemma sel1_keyed [sql]:
  assumes "keyed k t" and "\<And>r. p r \<Longrightarrow> k r = x"
  shows "sel1 p t = (case row k x t of None \<Rightarrow> None | Some r \<Rightarrow> if p r then Some r else None)"
proof (cases "row k x t")
  case None
  then have "sel1 p t = None"
    using assms(2) by (force simp: row_None sel1_None)
  with None show ?thesis
    by simp
next
  case (Some r)
  show ?thesis
  proof (cases "sel1 p t")
    case None
    with Some show ?thesis
      by (auto simp: sel1_None dest: row_Some)
  next
    case (Some s)
    then have s: "s \<in> set t" "p s"
      by (auto dest: sel1_Some)
    moreover have "r \<in> set t" "k r = x"
      using \<open>row k x t = Some r\<close> by (auto dest: row_Some)
    ultimately have "r = s"
      using assms by (metis keyed_unique)
    with Some s \<open>row k x t = Some r\<close> show ?thesis
      by simp
  qed
qed

lemma cnt_keyed [sql]:
  assumes "keyed k t" and "\<And>r. p r \<Longrightarrow> k r = x"
  shows "cnt p t = (case row k x t of None \<Rightarrow> 0 | Some r \<Rightarrow> if p r then 1 else 0)"
  using assms
proof (induction t)
  case (Cons r t)
  show ?case
  proof (cases "k r = x")
    case True
    have "row k x t = None"
      using Cons.prems True by (auto simp: row_None)
    with Cons True show ?thesis
      by simp
  next
    case False
    with Cons show ?thesis
      by auto
  qed
qed simp

section \<open>Clocks and identifier supplies\<close>

text \<open>
  The readings of \<open>datetime.now(UTC)\<close> and the results of \<open>uuid4()\<close> during one operation, in
  the order in which the operation asks for them.
\<close>

record env =
  clk :: "nat \<Rightarrow> time"
  uid4 :: "nat \<Rightarrow> uuid"

end
