(* ===== verification/Interfaces.thy ===== *)
theory Interfaces
  imports Prelude
begin

text \<open>
  The contracts several components share, as locales, with what follows from each of them:
  systems with an invariant, records that persist, fences that only a claim opens, epochs that
  only grow, and stores updated by compare-and-set on a version. Each is interpreted on the
  definitions of the model where these are known.
\<close>

section \<open>Traces\<close>

text \<open>The labels of a trace are what the environment supplied to each step.\<close>

inductive trace :: "('e \<Rightarrow> 's \<Rightarrow> 's \<Rightarrow> bool) \<Rightarrow> 'e list \<Rightarrow> 's \<Rightarrow> 's \<Rightarrow> bool" for step where
  none: "trace step [] s s"
| more: "trace step es s s' \<Longrightarrow> step e s' s'' \<Longrightarrow> trace step (es @ [e]) s s''"

inductive_cases trace_NilE: "trace step [] s s'"

lemma trace_one: "step e s s' \<Longrightarrow> trace step [e] s s'"
  using trace.more [OF trace.none, of step e s s'] by simp

lemma trace_append: "trace step es' s' s'' \<Longrightarrow> trace step es s s' \<Longrightarrow> trace step (es @ es') s s''"
proof (induction rule: trace.induct)
  case (more es' s' s2 e s3)
  then have "trace step ((es @ es') @ [e]) s s3"
    by (blast intro: trace.more)
  then show ?case
    by simp
qed simp

section \<open>Systems with an invariant\<close>

locale invariant_system =
  fixes step :: "'e \<Rightarrow> 's \<Rightarrow> 's \<Rightarrow> bool" and inv :: "'s \<Rightarrow> bool"
  assumes step_inv: "inv s \<Longrightarrow> step e s s' \<Longrightarrow> inv s'"
begin

lemma trace_inv: "trace step es s s' \<Longrightarrow> inv s \<Longrightarrow> inv s'"
  by (induction rule: trace.induct) (auto intro: step_inv)

lemma trace_stable:
  assumes "\<And>e s s'. inv s \<Longrightarrow> P s \<Longrightarrow> step e s s' \<Longrightarrow> e \<in> E \<Longrightarrow> P s'"
    and "trace step es s s'" "inv s" "P s" "set es \<subseteq> E"
  shows "P s'"
  using assms(2-)
proof (induction rule: trace.induct)
  case (more es s s' e s'')
  then have "inv s'" "P s'" "e \<in> E"
    by (auto intro: trace_inv)
  with more show ?case
    by (blast intro: assms(1))
qed

lemma trace_relates:
  assumes "\<And>e s s'. inv s \<Longrightarrow> step e s s' \<Longrightarrow> R s s'" "\<And>s. R s s"
    "\<And>s s' s''. R s s' \<Longrightarrow> R s' s'' \<Longrightarrow> R s s''"
    and "trace step es s s'" "inv s"
  shows "R s s'"
  using assms(4-)
proof (induction rule: trace.induct)
  case (more es s s' e s'')
  then have "inv s'" "R s s'"
    by (auto intro: trace_inv)
  with more assms(1,3) show ?case
    by blast
qed (rule assms(2))

end

section \<open>Records that persist\<close>

text \<open>What \<open>lookup\<close> once returned it returns forever: the ledgers of idempotency keys.\<close>

locale persistent = invariant_system +
  fixes lookup :: "'s \<Rightarrow> 'k \<Rightarrow> 'v option"
  assumes keeps: "inv s \<Longrightarrow> step e s s' \<Longrightarrow> lookup s k = Some v \<Longrightarrow> lookup s' k = Some v"
begin

lemma trace_keeps:
  assumes "trace step es s s'" "inv s" "lookup s k = Some v"
  shows "lookup s' k = Some v"
  using trace_stable [of "\<lambda>s. lookup s k = Some v" UNIV, OF _ assms] keeps by blast

end

section \<open>Fences\<close>

text \<open>
  \<open>holds s t\<close>: the resource is claimed under the token \<open>t\<close>. A step opens the fence only to the
  token it issues, so a lost token stays lost unless it is issued again.
\<close>

locale fenced = invariant_system +
  fixes holds :: "'s \<Rightarrow> 't \<Rightarrow> bool" and issues :: "'e \<Rightarrow> 't"
  assumes only_issued: "inv s \<Longrightarrow> step e s s' \<Longrightarrow> holds s' t \<Longrightarrow> holds s t \<or> t = issues e"
begin

lemma lost_for_good:
  assumes "trace step es s s'" "inv s" "\<not> holds s t" "t \<notin> issues ` set es"
  shows "\<not> holds s' t"
  by (rule trace_stable [of "\<lambda>s. \<not> holds s t" "{e. issues e \<noteq> t}", OF _ assms(1-3)])
     (use only_issued assms(4) in blast)+

end

text \<open>An epoch that no step lowers needs no assumption on tokens.\<close>

locale epochs = invariant_system +
  fixes epoch :: "'s \<Rightarrow> 'k \<Rightarrow> int option"
  assumes epoch_grows: "inv s \<Longrightarrow> step e s s' \<Longrightarrow> epoch s k = Some n \<Longrightarrow> \<exists>m. epoch s' k = Some m \<and> n \<le> m"
begin

lemma trace_epoch_grows:
  assumes "trace step es s s'" "inv s" "epoch s k = Some n"
  shows "\<exists>m. epoch s' k = Some m \<and> n \<le> m"
proof (rule trace_stable [of "\<lambda>s. \<exists>m. epoch s k = Some m \<and> n \<le> m" UNIV, OF _ assms(1,2)])
  fix e s s'
  assume "inv s" "\<exists>m. epoch s k = Some m \<and> n \<le> m" "step e s s'"
  then show "\<exists>m. epoch s' k = Some m \<and> n \<le> m"
    using epoch_grows by (meson order_trans)
qed (use assms in auto)

end

section \<open>Compare-and-set on a version\<close>

locale cas_store =
  fixes ok :: "'s \<Rightarrow> bool" and find :: "'s \<Rightarrow> 'k \<Rightarrow> 'r option"
    and update :: "'r \<Rightarrow> int \<Rightarrow> 's \<Rightarrow> bool \<times> 's" and key :: "'r \<Rightarrow> 'k" and ver :: "'r \<Rightarrow> int"
  assumes update_wins: "ok s \<Longrightarrow> fst (update x v s) \<longleftrightarrow> (\<exists>r. find s (key x) = Some r \<and> ver r = v)"
    and update_lost: "ok s \<Longrightarrow> \<not> fst (update x v s) \<Longrightarrow> snd (update x v s) = s"
    and update_version: "ok s \<Longrightarrow> fst (update x v s) \<Longrightarrow>
      map_option ver (find (snd (update x v s)) (key x)) = Some (ver x)"
    and update_other: "ok s \<Longrightarrow> k \<noteq> key x \<Longrightarrow> find (snd (update x v s)) k = find s k"
    and update_ok: "ok s \<Longrightarrow> ok (snd (update x v s))"
begin

text \<open>Of two writers that read the same version, the second loses and changes nothing.\<close>

lemma one_winner:
  assumes "ok s" "fst (update x v s)" "key y = key x" "ver x \<noteq> v"
  shows "update y v (snd (update x v s)) = (False, snd (update x v s))"
proof -
  let ?s = "snd (update x v s)"
  have ok: "ok ?s"
    using assms(1) by (rule update_ok)
  have "map_option ver (find ?s (key y)) = Some (ver x)"
    using update_version assms(1,2,3) by simp
  then have "\<not> fst (update y v ?s)"
    using update_wins [OF ok, of y v] assms(4) by auto
  with update_lost [OF ok, of y v] show ?thesis
    by (metis prod.collapse)
qed

end

text \<open>
  The optimistic \<open>update(x, expected_version)\<close> of the repositories on a table with a primary key:
  it succeeds exactly when the stored row has the expected version, and then copies the mutable
  columns of \<open>x\<close>.
\<close>

definition cas_rows :: "('r \<Rightarrow> 'k) \<Rightarrow> ('r \<Rightarrow> int) \<Rightarrow> ('r \<Rightarrow> 'r \<Rightarrow> 'r) \<Rightarrow> 'r \<Rightarrow> int \<Rightarrow> 'r list
    \<Rightarrow> bool \<times> 'r list" where
  "cas_rows key ver copy x v t =
     (let p = (\<lambda>r. key r = key x \<and> ver r = v) in (cnt p t = 1, upd p (copy x) t))"

locale versioned_table =
  fixes key :: "'r \<Rightarrow> 'k" and ver :: "'r \<Rightarrow> int" and copy :: "'r \<Rightarrow> 'r \<Rightarrow> 'r"
  assumes copy_key: "key (copy x r) = key r" and copy_ver: "ver (copy x r) = ver x"
begin

lemma wins_iff:
  assumes "keyed key t"
  shows "fst (cas_rows key ver copy x v t) \<longleftrightarrow> (\<exists>r. row key (key x) t = Some r \<and> ver r = v)"
proof -
  have "cnt (\<lambda>r. key r = key x \<and> ver r = v) t = (case row key (key x) t of None \<Rightarrow> 0
      | Some r \<Rightarrow> if key r = key x \<and> ver r = v then 1 else 0)"
    using assms by (rule cnt_keyed) simp
  then show ?thesis
    by (auto simp: cas_rows_def Let_def split: option.splits dest: row_Some)
qed

lemma rows_after: "row key k (snd (cas_rows key ver copy x v t)) =
    map_option (\<lambda>r. if key r = key x \<and> ver r = v then copy x r else r) (row key k t)"
  unfolding cas_rows_def Let_def by (simp, rule row_upd) (simp add: copy_key)

lemma keyed_after [simp]: "keyed key (snd (cas_rows key ver copy x v t)) = keyed key t"
  unfolding cas_rows_def Let_def by (simp, rule keyed_upd) (simp add: copy_key)

lemma lost:
  assumes "keyed key t" "\<not> fst (cas_rows key ver copy x v t)"
  shows "snd (cas_rows key ver copy x v t) = t"
proof -
  have "\<not> (key r = key x \<and> ver r = v)" if "r \<in> set t" for r
    using assms that keyed_row [OF assms(1) that] by (auto simp: wins_iff)
  then show ?thesis
    by (simp add: cas_rows_def Let_def upd_id)
qed

text \<open>A successful update rewrites one row and no other.\<close>

lemma won:
  assumes "keyed key t" "cas_rows key ver copy x v t = (True, t')"
  obtains r where "r \<in> set t" "key r = key x" "ver r = v"
    "t' = upd (\<lambda>r. key r = key x) (copy x) t" "row key (key x) t' = Some (copy x r)"
proof -
  have "fst (cas_rows key ver copy x v t)"
    using assms(2) by simp
  then obtain r where r: "row key (key x) t = Some r" "ver r = v"
    using wins_iff [OF assms(1)] by blast
  have only: "y = r" if "y \<in> set t" "key y = key x" for y
    using r(1) that keyed_row [OF assms(1) that(1)] by simp
  have "t' = upd (\<lambda>r. key r = key x \<and> ver r = v) (copy x) t"
    using assms(2) by (simp add: cas_rows_def Let_def)
  also have "\<dots> = upd (\<lambda>r. key r = key x) (copy x) t"
    using only r(2) by (auto simp: upd_def)
  finally have t': "t' = upd (\<lambda>r. key r = key x) (copy x) t" .
  have "row key (key x) t' = Some (copy x r)"
    using rows_after [of "key x" x v t] assms(2) r by (auto dest: row_Some)
  with r t' row_Some [OF r(1)] show thesis
    by (intro that [of r]) simp_all
qed

end

sublocale versioned_table \<subseteq> cas_store "keyed key" "\<lambda>t k. row key k t" "cas_rows key ver copy" key ver
proof
  fix t x v k
  assume ok: "keyed key t"
  show "fst (cas_rows key ver copy x v t) \<longleftrightarrow> (\<exists>r. row key (key x) t = Some r \<and> ver r = v)"
    using ok by (rule wins_iff)
  show "snd (cas_rows key ver copy x v t) = t" if "\<not> fst (cas_rows key ver copy x v t)"
    using ok that by (rule lost)
  show "map_option ver (row key (key x) (snd (cas_rows key ver copy x v t))) = Some (ver x)"
    if won: "fst (cas_rows key ver copy x v t)"
  proof -
    obtain r where "row key (key x) t = Some r" "ver r = v"
      using won wins_iff [OF ok] by blast
    moreover from this have "key r = key x"
      by (blast dest: row_Some)
    ultimately show ?thesis
      by (simp add: rows_after copy_ver)
  qed
  show "row key k (snd (cas_rows key ver copy x v t)) = row key k t" if "k \<noteq> key x"
    using that by (cases "row key k t") (auto simp: rows_after dest: row_Some)
  show "keyed key (snd (cas_rows key ver copy x v t))"
    using ok by simp
qed

end
