(* ===== verification/PyFloat.thy ===== *)
theory PyFloat
  imports Complex_Main "HOL-Library.Log_Nat"
begin

text \<open>
  The IEEE binary64 arithmetic behind Python's \<open>float\<close>, on the rationals: \<open>f64\<close> rounds an
  exact result to the nearest double, ties to even. The exponent range is unbounded, which is
  exact for every duration and score the backend computes. On top of it, the two conversions
  the backend uses: a \<open>timedelta\<close> read as milliseconds, and a number of seconds turned into
  a \<open>timedelta\<close> of whole microseconds.
\<close>

definition round_half_even :: "rat \<Rightarrow> int" where
  "round_half_even x =
     (let n = \<lfloor>x\<rfloor>; d = x - of_int n in
      if d < 1 / 2 then n else if 1 / 2 < d then n + 1 else if even n then n else n + 1)"

text \<open>The exponent of the last place of the 53-bit significand of a positive number.\<close>

definition ulp_exp :: "rat \<Rightarrow> int" where
  "ulp_exp x =
     (case quotient_of x of (p, q) \<Rightarrow>
        let e = int (floorlog 2 (nat p)) - int (floorlog 2 (nat q)) - 53 in
        if x < 2 powi (e + 53) then e else e + 1)"

definition f64_pos :: "rat \<Rightarrow> rat" where
  "f64_pos x = of_int (round_half_even (x / 2 powi ulp_exp x)) * 2 powi ulp_exp x"

definition f64 :: "rat \<Rightarrow> rat" where
  "f64 x = (if x = 0 then 0 else if 0 < x then f64_pos x else - f64_pos (- x))"

text \<open>\<open>int(x)\<close>, truncation towards zero.\<close>

definition py_trunc :: "rat \<Rightarrow> int" where
  "py_trunc x = (if 0 \<le> x then \<lfloor>x\<rfloor> else \<lceil>x\<rceil>)"

text \<open>\<open>delta.total_seconds()\<close> of a duration in microseconds.\<close>

definition total_seconds :: "int \<Rightarrow> rat" where
  "total_seconds us = f64 (of_int us / 1000000)"

text \<open>\<open>max(0, int(delta.total_seconds() * 1000))\<close>.\<close>

definition elapsed_ms :: "int \<Rightarrow> int" where
  "elapsed_ms us = max 0 (py_trunc (f64 (total_seconds us * 1000)))"

text \<open>
  \<open>timedelta(seconds=s)\<close> in microseconds, for a float \<open>s\<close>: the whole seconds exactly, the
  fractional part multiplied in floating point and rounded to an even microsecond.
\<close>

definition timedelta_seconds :: "rat \<Rightarrow> int" where
  "timedelta_seconds s =
     py_trunc s * 1000000 + round_half_even (f64 (1000000 * (s - of_int (py_trunc s))))"

lemma round_half_even_of_int [simp]: "round_half_even (of_int n) = n"
  by (simp add: round_half_even_def)

lemma round_half_even_error: "\<bar>of_int (round_half_even x) - x\<bar> \<le> 1 / 2"
proof -
  have "of_int \<lfloor>x\<rfloor> \<le> x" "x < of_int \<lfloor>x\<rfloor> + 1"
    by linarith+
  then show ?thesis
    by (auto simp: round_half_even_def Let_def abs_le_iff)
qed

lemma round_half_even_nonneg: "0 \<le> x \<Longrightarrow> 0 \<le> round_half_even x"
proof -
  assume "0 \<le> x"
  then have "0 \<le> \<lfloor>x\<rfloor>" by simp
  then show ?thesis
    by (auto simp: round_half_even_def Let_def)
qed

lemma floorlog_bounds:
  assumes "0 < n"
  shows "2 ^ (floorlog 2 n - 1) \<le> n" and "n < 2 ^ floorlog 2 n" and "0 < floorlog 2 n"
  using floorlog_bounds [of n 2] assms by (auto simp: floorlog_def)

text \<open>A positive number has its last place where a 53-bit significand ends.\<close>

lemma ulp_exp_bounds:
  assumes "0 < x"
  shows "2 powi (ulp_exp x + 52) \<le> x" and "x < 2 powi (ulp_exp x + 53)"
proof -
  obtain p q where pq: "quotient_of x = (p, q)" by (cases "quotient_of x")
  have q: "0 < q" and x: "x = of_int p / of_int q"
    using pq by (auto dest: quotient_of_denom_pos quotient_of_div)
  have p: "0 < p"
    using assms q unfolding x by (simp add: zero_less_divide_iff)
  define a b where "a = floorlog 2 (nat p)" and "b = floorlog 2 (nat q)"
  have A: "2 ^ (a - 1) \<le> nat p" "nat p < 2 ^ a" "0 < a"
    using PyFloat.floorlog_bounds [of "nat p"] p by (auto simp: a_def)
  have B: "2 ^ (b - 1) \<le> nat q" "nat q < 2 ^ b" "0 < b"
    using PyFloat.floorlog_bounds [of "nat q"] q by (auto simp: b_def)
  have p1: "(2 :: rat) ^ (a - 1) \<le> of_int p" and p2: "(of_int p :: rat) < 2 ^ a"
  proof -
    have "int (2 ^ (a - 1)) \<le> p" using A(1) p by linarith
    then have "(of_int (int (2 ^ (a - 1))) :: rat) \<le> of_int p" by (simp only: of_int_le_iff)
    then show "(2 :: rat) ^ (a - 1) \<le> of_int p" by simp
    have "p < int (2 ^ a)" using A(2) p by linarith
    then have "(of_int p :: rat) < of_int (int (2 ^ a))" by (simp only: of_int_less_iff)
    then show "(of_int p :: rat) < 2 ^ a" by simp
  qed
  have q1: "(2 :: rat) ^ (b - 1) \<le> of_int q" and q2: "(of_int q :: rat) < 2 ^ b"
  proof -
    have "int (2 ^ (b - 1)) \<le> q" using B(1) q by linarith
    then have "(of_int (int (2 ^ (b - 1))) :: rat) \<le> of_int q" by (simp only: of_int_le_iff)
    then show "(2 :: rat) ^ (b - 1) \<le> of_int q" by simp
    have "q < int (2 ^ b)" using B(2) q by linarith
    then have "(of_int q :: rat) < of_int (int (2 ^ b))" by (simp only: of_int_less_iff)
    then show "(of_int q :: rat) < 2 ^ b" by simp
  qed
  have lo: "2 powi (int a - int b - 1) \<le> x"
  proof -
    have "(2 :: rat) powi (int a - int b - 1) = 2 ^ (a - 1) / 2 ^ b"
      using A(3) by (simp add: power_int_diff power_int_add power_diff field_simps)
    also have "\<dots> \<le> of_int p / of_int q"
      using p1 q2 q p by (intro frac_le) auto
    finally show ?thesis by (simp add: x)
  qed
  have hi: "x < 2 powi (int a - int b + 1)"
  proof -
    have "of_int p / of_int q < 2 ^ a / (2 :: rat) ^ (b - 1)"
      using p2 q1 q p by (intro frac_less) auto
    also have "\<dots> = 2 powi (int a - int b + 1)"
      using B(3) by (simp add: power_int_diff power_int_add power_diff field_simps)
    finally show ?thesis by (simp add: x)
  qed
  show "2 powi (ulp_exp x + 52) \<le> x" and "x < 2 powi (ulp_exp x + 53)"
    using lo hi by (auto simp: ulp_exp_def pq a_def [symmetric] b_def [symmetric] Let_def algebra_simps)
qed

lemma f64_pos_error:
  assumes "0 < x"
  shows "\<bar>f64_pos x - x\<bar> \<le> x / 2 ^ 53"
proof -
  define s where "s = (2 :: rat) powi ulp_exp x"
  have s: "0 < s" by (simp add: s_def)
  have "\<bar>of_int (round_half_even (x / s)) - x / s\<bar> \<le> 1 / 2"
    by (rule round_half_even_error)
  then have "\<bar>of_int (round_half_even (x / s)) - x / s\<bar> * s \<le> 1 / 2 * s"
    using s by (intro mult_right_mono) auto
  then have "\<bar>(of_int (round_half_even (x / s)) - x / s) * s\<bar> \<le> s / 2"
    using s by (simp add: abs_mult)
  moreover have "(of_int (round_half_even (x / s)) - x / s) * s = f64_pos x - x"
    using s by (simp add: f64_pos_def s_def [symmetric] field_simps)
  ultimately have "\<bar>f64_pos x - x\<bar> \<le> s / 2" by simp
  moreover have "s * 2 ^ 52 \<le> x"
    using ulp_exp_bounds(1) [OF assms] by (simp add: s_def power_int_add)
  ultimately show ?thesis by (simp add: field_simps)
qed

lemma f64_nonneg: "0 \<le> x \<Longrightarrow> 0 \<le> f64 x"
  by (auto simp: f64_def f64_pos_def intro!: mult_nonneg_nonneg round_half_even_nonneg)

lemma f64_error: "\<bar>f64 x - x\<bar> \<le> \<bar>x\<bar> / 2 ^ 53"
  using f64_pos_error [of x] f64_pos_error [of "- x"] by (auto simp: f64_def abs_minus_commute field_simps)

lemma elapsed_ms_nonneg [simp]: "0 \<le> elapsed_ms us"
  by (simp add: elapsed_ms_def)

text \<open>
  Measured over less than \<open>2 ^ 60\<close> microseconds (some 36000 years), the milliseconds are
  within 2 of the exact quotient.
\<close>

lemma elapsed_ms_accurate:
  assumes "0 \<le> us" and "us < 2 ^ 60"
  shows "\<bar>rat_of_int (elapsed_ms us) - of_int us / 1000\<bar> < 2"
proof -
  define y where "y = total_seconds us * 1000"
  define x where "x = rat_of_int us / 1000"
  have x: "0 \<le> x" "x \<le> 2 ^ 60 / 1000"
    using assms by (auto simp: x_def divide_right_mono)
  have "\<bar>total_seconds us - of_int us / 1000000\<bar> \<le> \<bar>rat_of_int us / 1000000\<bar> / 2 ^ 53"
    unfolding total_seconds_def by (rule f64_error)
  then have "\<bar>y - x\<bar> \<le> x / 2 ^ 53"
    using assms by (auto simp: y_def x_def abs_le_iff field_simps)
  then have "y - x \<le> x / 2 ^ 53" "x - y \<le> x / 2 ^ 53"
    by (simp_all only: abs_le_iff minus_diff_eq)
  moreover have y: "0 \<le> y"
    using assms by (simp add: y_def total_seconds_def f64_nonneg)
  moreover have "f64 y - y \<le> y / 2 ^ 53" "y - f64 y \<le> y / 2 ^ 53"
    using f64_error [of y] y by (simp_all only: abs_le_iff minus_diff_eq abs_of_nonneg)
  ultimately have close: "f64 y - x < 1" "x - f64 y < 1"
    using x by (simp_all add: field_simps)
  have "0 \<le> f64 y"
    using y by (rule f64_nonneg)
  then have "elapsed_ms us = \<lfloor>f64 y\<rfloor>"
    by (simp add: elapsed_ms_def py_trunc_def y_def [symmetric])
  then show ?thesis
    using close by (simp add: x_def [symmetric] abs_less_iff) linarith
qed

end
