(* ===== verification/RuntimeEntities.thy ===== *)
theory RuntimeEntities
  imports Prelude PyFloat
begin

text \<open>
  The domain entities of the agent runtime, \<open>domain/runtime/entities.py\<close>: threads, messages,
  runs and their event log, human-in-the-loop interactions, the tool ledger's executions and the
  durable jobs. A dataclass is a record; a method that mutates \<open>self\<close> returns the new record,
  with the clock readings it takes as arguments, and a raised exception as \<open>Inl\<close>. The fields
  of a record carry the record's prefix (\<open>run_\<close>, \<open>job_\<close>, \<open>tex_\<close>, \<open>ixn_\<close>, \<dots>) and otherwise
  the attribute's name.
\<close>

section \<open>Enumerations\<close>

datatype MessageRole = USER | ASSISTANT | SYSTEM_EVENT

datatype RunTrigger = USER_MESSAGE | AUTOMATION | SYSTEM_EVENT

datatype RunStatus = QUEUED | RUNNING | WAITING_FOR_USER | COMPLETED | FAILED | CANCELLED

datatype RunEventType =
    RUN_QUEUED | RUN_STARTED | ASSISTANT_STARTED | ASSISTANT_COMPLETED
  | TOOL_STARTED | TOOL_COMPLETED | TOOL_FAILED | HITL_REQUESTED
  | RUN_WAITING_FOR_USER | RUN_RESUMED | RUN_COMPLETED | RUN_FAILED | RUN_CANCELLED

datatype ToolExecutionStatus = IN_PROGRESS | SUCCEEDED | FAILED | UNKNOWN_OUTCOME

datatype DurableJobKind =
    AGENT_RUN | FILE_PROCESSING | FILE_PURGE | MEMORY_FORMATION
  | AUTOMATION_OCCURRENCE | PUSH_DELIVERY | ACCOUNT_DELETION

datatype DurableJobStatus = READY | CLAIMED | PAUSED | COMPLETED | FAILED | CANCELLED

datatype RunInteractionStatus = PENDING | RESOLVED | CANCELLED

definition TERMINAL_RUN_STATUSES :: "RunStatus set" where
  "TERMINAL_RUN_STATUSES = {RunStatus.COMPLETED, RunStatus.FAILED, RunStatus.CANCELLED}"

lemma in_TERMINAL [simp]:
  "RunStatus.COMPLETED \<in> TERMINAL_RUN_STATUSES" "RunStatus.FAILED \<in> TERMINAL_RUN_STATUSES"
  "RunStatus.CANCELLED \<in> TERMINAL_RUN_STATUSES" "RunStatus.QUEUED \<notin> TERMINAL_RUN_STATUSES"
  "RunStatus.RUNNING \<notin> TERMINAL_RUN_STATUSES" "RunStatus.WAITING_FOR_USER \<notin> TERMINAL_RUN_STATUSES"
  by (simp_all add: TERMINAL_RUN_STATUSES_def)

primrec run_status_value :: "RunStatus \<Rightarrow> str" where
  "run_status_value RunStatus.QUEUED = u ''QUEUED''"
| "run_status_value RunStatus.RUNNING = u ''RUNNING''"
| "run_status_value RunStatus.WAITING_FOR_USER = u ''WAITING_FOR_USER''"
| "run_status_value RunStatus.COMPLETED = u ''COMPLETED''"
| "run_status_value RunStatus.FAILED = u ''FAILED''"
| "run_status_value RunStatus.CANCELLED = u ''CANCELLED''"

section \<open>Threads and messages\<close>

record Thread =
  thr_user_id :: uuid
  thr_title :: str
  thr_idempotency_key :: str
  thr_id :: uuid
  thr_active_thing_id :: "uuid option"
  thr_archived_at :: "time option"
  thr_created_at :: time
  thr_updated_at :: time

definition thread_archive :: "time \<Rightarrow> Thread \<Rightarrow> Thread" where
  "thread_archive now t =
     (if thr_archived_at t = None then t\<lparr>thr_archived_at := Some now, thr_updated_at := now\<rparr> else t)"

record Message =
  msg_user_id :: uuid
  msg_thread_id :: uuid
  msg_role :: MessageRole
  msg_content :: str
  msg_id :: uuid
  msg_run_id :: "uuid option"
  msg_source_ids :: "uuid list"
  msg_metadata :: jdict
  msg_created_at :: time

section \<open>Runs\<close>

record AgentRun =
  run_user_id :: uuid
  run_thread_id :: uuid
  run_trigger :: RunTrigger
  run_idempotency_key :: str
  run_id :: uuid
  run_input_message_id :: "uuid option"
  run_status :: RunStatus
  run_current_phase :: "str option"
  run_status_label :: "str option"
  run_final_message_id :: "uuid option"
  run_interrupt_id :: "uuid option"
  run_interrupt :: "jdict option"
  run_resume_payload :: "jdict option"
  run_error_code :: "str option"
  run_claim_owner :: "str option"
  run_claim_token :: "uuid option"
  run_lease_expires_at :: "time option"
  run_heartbeat_at :: "time option"
  run_attempt_count :: int
  run_version :: int
  run_event_sequence :: int
  run_active_time_used_ms :: int
  run_active_started_at :: "time option"
  run_terminal_output :: "jdict option"
  run_graph_terminal_at :: "time option"
  run_budget_snapshot :: jdict
  run_created_at :: time
  run_started_at :: "time option"
  run_completed_at :: "time option"
  run_updated_at :: time

text \<open>The constructor with its defaults; the identifier and the two clock readings are drawn by
  the default factories, \<open>id\<close> first, then \<open>created_at\<close>, then \<open>updated_at\<close>.\<close>

definition new_run ::
  "uuid \<Rightarrow> uuid \<Rightarrow> RunTrigger \<Rightarrow> str \<Rightarrow> jdict \<Rightarrow> uuid \<Rightarrow> time \<Rightarrow> time \<Rightarrow> AgentRun" where
  "new_run user_id thread_id trigger key budget rid created updated =
     \<lparr>run_user_id = user_id, run_thread_id = thread_id, run_trigger = trigger,
      run_idempotency_key = key, run_id = rid, run_input_message_id = None,
      run_status = RunStatus.QUEUED, run_current_phase = None, run_status_label = None,
      run_final_message_id = None, run_interrupt_id = None, run_interrupt = None,
      run_resume_payload = None, run_error_code = None, run_claim_owner = None,
      run_claim_token = None, run_lease_expires_at = None, run_heartbeat_at = None,
      run_attempt_count = 0, run_version = 1, run_event_sequence = 0,
      run_active_time_used_ms = 0, run_active_started_at = None, run_terminal_output = None,
      run_graph_terminal_at = None, run_budget_snapshot = budget, run_created_at = created,
      run_started_at = None, run_completed_at = None, run_updated_at = updated\<rparr>"

definition run_release_claim :: "AgentRun \<Rightarrow> AgentRun" where
  [entity_defs]: "run_release_claim r =
     r\<lparr>run_claim_owner := None, run_claim_token := None, run_lease_expires_at := None,
       run_heartbeat_at := None\<rparr>"

definition run_pause_active_time :: "time \<Rightarrow> AgentRun \<Rightarrow> AgentRun" where
  [entity_defs]: "run_pause_active_time now r =
     (case run_active_started_at r of
        None \<Rightarrow> r
      | Some t0 \<Rightarrow> r\<lparr>run_active_time_used_ms := run_active_time_used_ms r + elapsed_ms (now - t0),
                      run_active_started_at := None\<rparr>)"

definition run_start ::
  "time \<Rightarrow> str option \<Rightarrow> str option \<Rightarrow> AgentRun \<Rightarrow> py_error + AgentRun" where
  [entity_defs]: "run_start now phase label r =
     (if run_status r \<noteq> RunStatus.QUEUED then Inl (ValueError (u ''Only a queued Run can start.''))
      else Inr (r\<lparr>run_status := RunStatus.RUNNING,
        run_started_at := (case run_started_at r of None \<Rightarrow> Some now | Some t \<Rightarrow> Some t),
        run_active_started_at :=
          (case run_active_started_at r of None \<Rightarrow> Some now | Some t \<Rightarrow> Some t),
        run_current_phase := phase, run_status_label := label,
        run_updated_at := now, run_version := run_version r + 1\<rparr>))"

definition run_recover_after_crash :: "time \<Rightarrow> AgentRun \<Rightarrow> py_error + AgentRun" where
  [entity_defs]: "run_recover_after_crash now r =
     (if run_status r \<noteq> RunStatus.RUNNING
      then Inl (ValueError (u ''Only a running Run can be recovered.''))
      else Inr ((run_release_claim ((run_pause_active_time now r)\<lparr>run_status := RunStatus.QUEUED,
        run_current_phase := Some (u ''recovering''),
        run_status_label := Some (u ''Recovering after service restart'')\<rparr>))
        \<lparr>run_updated_at := now, run_version := run_version r + 1\<rparr>))"

definition run_wait_for_user :: "time \<Rightarrow> uuid \<Rightarrow> jdict \<Rightarrow> AgentRun \<Rightarrow> py_error + AgentRun" where
  [entity_defs]: "run_wait_for_user now interrupt_id payload r =
     (if run_status r \<noteq> RunStatus.RUNNING
      then Inl (ValueError (u ''Only a running Run can wait for user input.''))
      else Inr ((run_release_claim ((run_pause_active_time now r)\<lparr>
        run_status := RunStatus.WAITING_FOR_USER, run_interrupt_id := Some interrupt_id,
        run_interrupt := Some payload\<rparr>))
        \<lparr>run_updated_at := now, run_version := run_version r + 1\<rparr>))"

text \<open>The label of a resumed run is the text with the code points below.\<close>

definition RESUMING_LABEL :: str where
  "RESUMING_LABEL = [0x6B63, 0x5728, 0x7EE7, 0x7EED, 0x5904, 0x7406]"

definition run_resume :: "time \<Rightarrow> uuid \<Rightarrow> jdict \<Rightarrow> AgentRun \<Rightarrow> py_error + AgentRun" where
  [entity_defs]: "run_resume now interrupt_id response r =
     (if run_status r \<noteq> RunStatus.WAITING_FOR_USER
      then Inl (ValueError (u ''Only a Run waiting for user input can resume.''))
      else if run_interrupt_id r \<noteq> Some interrupt_id
      then Inl (ValueError (u ''Interrupt id does not match the active interrupt.''))
      else Inr (r\<lparr>run_status := RunStatus.QUEUED, run_interrupt_id := None, run_interrupt := None,
        run_resume_payload := Some response, run_current_phase := Some (u ''resuming''),
        run_status_label := Some RESUMING_LABEL, run_updated_at := now,
        run_version := run_version r + 1\<rparr>))"

definition run_complete :: "time \<Rightarrow> uuid \<Rightarrow> AgentRun \<Rightarrow> py_error + AgentRun" where
  [entity_defs]: "run_complete now final_message_id r =
     (if run_status r \<noteq> RunStatus.RUNNING
      then Inl (ValueError (u ''Only a running Run can complete.''))
      else Inr ((run_release_claim ((run_pause_active_time now r)\<lparr>
        run_status := RunStatus.COMPLETED, run_final_message_id := Some final_message_id,
        run_completed_at := Some now\<rparr>))
        \<lparr>run_updated_at := now, run_version := run_version r + 1\<rparr>))"

definition run_accept_terminal_output :: "time \<Rightarrow> jdict \<Rightarrow> AgentRun \<Rightarrow> py_error + AgentRun" where
  [entity_defs]: "run_accept_terminal_output now output r =
     (if run_status r \<noteq> RunStatus.RUNNING
      then Inl (ValueError (u ''Only a running Run can accept terminal graph output.''))
      else case run_terminal_output r of
        Some old \<Rightarrow>
          if old \<noteq> output
          then Inl (ValueError (u ''Run already has different terminal graph output.''))
          else Inr r
      | None \<Rightarrow> Inr (r\<lparr>run_terminal_output := Some output, run_graph_terminal_at := Some now,
          run_updated_at := now, run_version := run_version r + 1\<rparr>))"

definition run_fail :: "time \<Rightarrow> str \<Rightarrow> AgentRun \<Rightarrow> py_error + AgentRun" where
  [entity_defs]: "run_fail now error_code r =
     (if run_status r \<in> TERMINAL_RUN_STATUSES
      then Inl (ValueError (u ''A terminal Run cannot fail again.''))
      else Inr ((run_release_claim ((run_pause_active_time now r)\<lparr>
        run_status := RunStatus.FAILED, run_error_code := Some error_code,
        run_completed_at := Some now\<rparr>))
        \<lparr>run_updated_at := now, run_version := run_version r + 1\<rparr>))"

definition run_cancel :: "time \<Rightarrow> AgentRun \<Rightarrow> py_error + AgentRun" where
  [entity_defs]: "run_cancel now r =
     (if run_status r \<in> TERMINAL_RUN_STATUSES
      then Inl (ValueError (u ''A terminal Run cannot be cancelled.''))
      else Inr ((run_release_claim ((run_pause_active_time now r)\<lparr>
        run_status := RunStatus.CANCELLED, run_completed_at := Some now\<rparr>))
        \<lparr>run_updated_at := now, run_version := run_version r + 1\<rparr>))"

section \<open>Events, interactions, tool executions\<close>

record RunEvent =
  evt_run_id :: uuid
  evt_sequence :: int
  evt_event_type :: RunEventType
  evt_data :: jdict
  evt_visibility :: str
  evt_schema_version :: int
  evt_id :: uuid
  evt_occurred_at :: time

record RunInteraction =
  ixn_user_id :: uuid
  ixn_run_id :: uuid
  ixn_interaction_type :: str
  ixn_request_payload :: jdict
  ixn_id :: uuid
  ixn_action_id :: "str option"
  ixn_status :: RunInteractionStatus
  ixn_response_payload :: "jdict option"
  ixn_created_at :: time
  ixn_resolved_at :: "time option"

definition interaction_resolve :: "time \<Rightarrow> jdict \<Rightarrow> RunInteraction \<Rightarrow> py_error + RunInteraction" where
  [entity_defs]: "interaction_resolve now response i =
     (if ixn_status i = RunInteractionStatus.RESOLVED then
        (if ixn_response_payload i \<noteq> Some response
         then Inl (ValueError (u ''Interaction was already resolved differently.''))
         else Inr i)
      else if ixn_status i \<noteq> RunInteractionStatus.PENDING
      then Inl (ValueError (u ''Only a pending Interaction can be resolved.''))
      else Inr (i\<lparr>ixn_status := RunInteractionStatus.RESOLVED,
        ixn_response_payload := Some response, ixn_resolved_at := Some now\<rparr>))"

record ToolExecution =
  tex_run_id :: uuid
  tex_action_id :: str
  tex_tool_name :: str
  tex_arguments_hash :: str
  tex_status :: ToolExecutionStatus
  tex_claim_owner :: str
  tex_claim_token :: uuid
  tex_lease_expires_at :: time
  tex_replay_safe :: bool
  tex_idempotency_key :: "str option"
  tex_id :: uuid
  tex_result :: "jdict option"
  tex_receipt :: "jdict option"
  tex_error_code :: "str option"
  tex_provider_idempotency_key :: "str option"
  tex_provider_request_id :: "str option"
  tex_attempt_count :: int
  tex_created_at :: time
  tex_updated_at :: time

section \<open>Durable jobs\<close>

record DurableJob =
  job_user_id :: uuid
  job_kind :: DurableJobKind
  job_dedupe_key :: str
  job_payload :: jdict
  job_id :: uuid
  job_status :: DurableJobStatus
  job_priority :: int
  job_available_at :: time
  job_delivery_attempt :: int
  job_max_delivery_attempts :: int
  job_claimed_by :: "str option"
  job_claim_epoch :: int
  job_lease_until :: "time option"
  job_last_error_code :: "str option"
  job_created_at :: time
  job_updated_at :: time

text \<open>
  \<open>__post_init__\<close> checks the dedupe key, the timezone of the availability and the number of
  deliveries. \<open>DurableJob_init\<close> is the constructor for the arguments the services pass: the
  rest of the fields keep their defaults.
\<close>

definition DurableJob_init ::
  "uuid \<Rightarrow> DurableJobKind \<Rightarrow> str \<Rightarrow> jdict \<Rightarrow> uuid \<Rightarrow> pydatetime \<Rightarrow> int \<Rightarrow> time \<Rightarrow> time
    \<Rightarrow> py_error + DurableJob" where
  "DurableJob_init user_id kind dedupe_key payload jid available_at max_attempts created updated =
     (if strip dedupe_key = []
      then Inl (ValueError (u ''Durable Job dedupe key must not be empty.''))
      else if \<not> is_aware available_at
      then Inl (ValueError (u ''Durable Job availability must include timezone information.''))
      else if max_attempts < 1
      then Inl (ValueError (u ''Durable Job must allow at least one delivery attempt.''))
      else Inr \<lparr>job_user_id = user_id, job_kind = kind, job_dedupe_key = dedupe_key,
        job_payload = payload, job_id = jid, job_status = DurableJobStatus.READY, job_priority = 0,
        job_available_at = instant available_at, job_delivery_attempt = 0,
        job_max_delivery_attempts = max_attempts, job_claimed_by = None, job_claim_epoch = 0,
        job_lease_until = None, job_last_error_code = None, job_created_at = created,
        job_updated_at = updated\<rparr>)"

definition job_claim :: "time \<Rightarrow> str \<Rightarrow> pydatetime \<Rightarrow> DurableJob \<Rightarrow> py_error + DurableJob" where
  [entity_defs]: "job_claim now owner lease_until j =
     (if job_status j \<noteq> DurableJobStatus.READY
      then Inl (ValueError (u ''Only a ready Durable Job can be claimed.''))
      else if strip owner = [] \<or> \<not> is_aware lease_until
      then Inl (ValueError (u ''Durable Job claim requires an owner and aware lease.''))
      else Inr (j\<lparr>job_status := DurableJobStatus.CLAIMED, job_claimed_by := Some owner,
        job_claim_epoch := job_claim_epoch j + 1,
        job_delivery_attempt := job_delivery_attempt j + 1,
        job_lease_until := Some (instant lease_until), job_updated_at := now\<rparr>))"

definition job_settle :: "time \<Rightarrow> DurableJobStatus \<Rightarrow> DurableJob \<Rightarrow> py_error + DurableJob" where
  [entity_defs]: "job_settle now status j =
     (if status \<notin> {DurableJobStatus.PAUSED, DurableJobStatus.COMPLETED, DurableJobStatus.FAILED,
                    DurableJobStatus.CANCELLED}
      then Inl (ValueError (u ''Durable Job can only settle to a non-running status.''))
      else Inr (j\<lparr>job_status := status, job_claimed_by := None, job_lease_until := None,
        job_updated_at := now\<rparr>))"

end
