(* ===== verification/PyTime.thy ===== *)
theory PyTime
  imports Prelude
begin

text \<open>
  The text of numbers and instants, \<open>str(int)\<close> and \<open>datetime.isoformat()\<close>, which the audit
  records and the idempotency keys carry, and SQL's \<open>ILIKE\<close>.
\<close>

section \<open>Numbers\<close>

fun digits :: "nat \<Rightarrow> str" where
  "digits n = (if n < 10 then [48 + n] else digits (n div 10) @ [48 + n mod 10])"

declare digits.simps [simp del]

definition int_str :: "int \<Rightarrow> str" where
  "int_str n = (if n < 0 then 45 # digits (nat (- n)) else digits (nat n))"

text \<open>Decimal digits padded with zeros to a width.\<close>

primrec padded :: "nat \<Rightarrow> nat \<Rightarrow> str" where
  "padded 0 n = []"
| "padded (Suc k) n = padded k (n div 10) @ [48 + n mod 10]"

lemma padded_numeral [simp]:
  "padded (numeral w) n = padded (pred_numeral w) (n div 10) @ [48 + n mod 10]"
  by (simp only: numeral_eq_Suc [of w] padded.simps)

lemma length_padded [simp]: "length (padded k n) = k"
  by (induction k arbitrary: n) auto

fun undigits :: "str \<Rightarrow> nat \<Rightarrow> nat" where
  "undigits [] acc = acc"
| "undigits (c # cs) acc = undigits cs (10 * acc + (c - 48))"

lemma undigits_append: "undigits (xs @ ys) acc = undigits ys (undigits xs acc)"
  by (induction xs arbitrary: acc) auto

lemma undigits_digits: "undigits (digits n) 0 = n"
proof (induction n rule: digits.induct)
  case (1 n)
  then show ?case
    by (subst digits.simps) (auto simp: undigits_append)
qed

lemma digits_inject [simp]: "digits m = digits n \<longleftrightarrow> m = n"
  by (metis undigits_digits)

lemma digits_head: "digits n \<noteq> [] \<and> hd (digits n) \<noteq> 45"
proof (induction n rule: digits.induct)
  case (1 n)
  then show ?case
    by (subst (1 2) digits.simps) auto
qed

lemma digits_not_minus [simp]: "45 # cs \<noteq> digits n" "digits n \<noteq> 45 # cs"
  using digits_head [of n] by (metis list.sel(1))+

lemma int_str_inject [simp]: "int_str m = int_str n \<longleftrightarrow> m = n"
  by (auto simp: int_str_def)

section \<open>Instants\<close>

text \<open>
  The proleptic Gregorian date of a day counted from 1970-01-01: years begin in March, so that
  the leap day is the last, and repeat every 400 years of 146097 days.
\<close>

definition civil_of_days :: "int \<Rightarrow> int \<times> int \<times> int" where
  "civil_of_days days =
     (let z = days + 719468;
          era = z div 146097;
          doe = z mod 146097;
          yoe = (doe - doe div 1460 + doe div 36524 - doe div 146096) div 365;
          doy = doe - (365 * yoe + yoe div 4 - yoe div 100);
          mp = (5 * doy + 2) div 153;
          d = doy - (153 * mp + 2) div 5 + 1;
          m = (if mp < 10 then mp + 3 else mp - 9)
      in (yoe + era * 400 + (if m \<le> 2 then 1 else 0), m, d))"

abbreviation SECOND_US :: int where
  "SECOND_US \<equiv> 1000000"

definition two :: "int \<Rightarrow> str" where
  "two n = padded 2 (nat n)"

definition DAY_US :: int where
  "DAY_US = 86400000000"

text \<open>A time of day in microseconds: the fraction is printed only when there is one.\<close>

definition clock_str :: "int \<Rightarrow> str" where
  "clock_str us =
     two (us div (3600 * SECOND_US)) @ u '':'' @ two (us div (60 * SECOND_US) mod 60) @ u '':'' @
     two (us div SECOND_US mod 60) @
     (if us mod SECOND_US = 0 then [] else u ''.'' @ padded 6 (nat (us mod SECOND_US)))"

definition offset_str :: "int \<Rightarrow> str" where
  "offset_str off =
     (let a = abs off in
      (if off < 0 then u ''-'' else u ''+'') @
      (if a mod (60 * SECOND_US) = 0
       then two (a div (3600 * SECOND_US)) @ u '':'' @ two (a div (60 * SECOND_US) mod 60)
       else clock_str a))"

definition local_str :: "int \<Rightarrow> str" where
  "local_str us =
     (case civil_of_days (us div DAY_US) of (y, m, d) \<Rightarrow>
        padded 4 (nat y) @ u ''-'' @ two m @ u ''-'' @ two d @ u ''T'' @ clock_str (us mod DAY_US))"

primrec isoformat :: "pydatetime \<Rightarrow> str" where
  "isoformat (Naive t) = local_str t"
| "isoformat (AwareAt t off) = local_str (t + off) @ offset_str off"

text \<open>What the code writes of an instant read from the database: its text, in UTC.\<close>

definition jtime :: "time \<Rightarrow> json" where
  "jtime t = JStr (isoformat (Aware t))"

definition jopt :: "('a \<Rightarrow> json) \<Rightarrow> 'a option \<Rightarrow> json" where
  "jopt f x = (case x of None \<Rightarrow> JNull | Some a \<Rightarrow> f a)"

lemma jopt_simps [simp]: "jopt f None = JNull" "jopt f (Some a) = f a"
  by (simp_all add: jopt_def)

lemma civil_of_days_examples:
  "civil_of_days 0 = (1970, 1, 1)" "civil_of_days 11016 = (2000, 2, 29)"
  "civil_of_days 19782 = (2024, 2, 29)" "civil_of_days (- 1) = (1969, 12, 31)"
  unfolding civil_of_days_def Let_def by simp_all

lemma isoformat_example:
  "isoformat (AwareAt 1709164799000001 28800000000) = u ''2024-02-29T07:59:59.000001+08:00''"
  unfolding isoformat.simps local_str_def DAY_US_def civil_of_days_def clock_str_def two_def
    offset_str_def Let_def by (simp add: u_def)

section \<open>ILIKE\<close>

text \<open>
  \<open>value ILIKE pattern\<close>: a percent sign matches any text, an underscore any character, and a
  backslash makes the next character stand for itself. \<open>lower\<close> is the lower-casing of the
  database's locale.
\<close>

fun like :: "str \<Rightarrow> str \<Rightarrow> bool" where
  "like [] t = (t = [])"
| "like (c # p) t =
     (if c = 37 then like p t \<or> (case t of [] \<Rightarrow> False | _ # t' \<Rightarrow> like (c # p) t')
      else if c = 92 then
        (case p of [] \<Rightarrow> False
         | d # p' \<Rightarrow> (case t of [] \<Rightarrow> False | x # t' \<Rightarrow> x = d \<and> like p' t'))
      else (case t of [] \<Rightarrow> False | x # t' \<Rightarrow> (c = 95 \<or> x = c) \<and> like p t'))"

definition ilike_contains :: "(nat \<Rightarrow> nat) \<Rightarrow> str \<Rightarrow> str \<Rightarrow> bool" where
  "ilike_contains lower query value = like (map lower ([37] @ query @ [37])) (map lower value)"

end
