(* ===== verification/PersonalStateEntities.thy ===== *)
theory PersonalStateEntities
  imports PyTime
begin

text \<open>
  The Personal State entities, \<open>domain/personal_state/\<close>: things, tasks, dates, context entries,
  blockers, relations and the audit records (\<open>StateMutation\<close>, \<open>TimelineEvent\<close>), with the
  methods that change them. Conventions as in \<open>RuntimeEntities\<close>.
\<close>

section \<open>Value objects\<close>

datatype ThingStatus = ACTIVE | COMPLETED | CANCELLED
datatype TaskStatus = TODO | DONE | CANCELLED
datatype DateCertainty = CONFIRMED | PROBABLE | UNCONFIRMED | DISPUTED
datatype DatePrecision = DATE_TIME | DATE | MONTH
datatype ThingDateType = DEADLINE | EVENT | MILESTONE
datatype BlockerStatus = OPEN | RESOLVED
datatype BlockerSeverity = LOW | MEDIUM | HIGH | CRITICAL
datatype ThingRelationType = RELATED_TO | DEPENDS_ON | PART_OF

text \<open>\<open>.value\<close> of the enumerations.\<close>

primrec thing_status_value :: "ThingStatus \<Rightarrow> str" where
  "thing_status_value ThingStatus.ACTIVE = u ''ACTIVE''"
| "thing_status_value ThingStatus.COMPLETED = u ''COMPLETED''"
| "thing_status_value ThingStatus.CANCELLED = u ''CANCELLED''"

primrec task_status_value :: "TaskStatus \<Rightarrow> str" where
  "task_status_value TaskStatus.TODO = u ''TODO''"
| "task_status_value TaskStatus.DONE = u ''DONE''"
| "task_status_value TaskStatus.CANCELLED = u ''CANCELLED''"

primrec certainty_value :: "DateCertainty \<Rightarrow> str" where
  "certainty_value DateCertainty.CONFIRMED = u ''CONFIRMED''"
| "certainty_value DateCertainty.PROBABLE = u ''PROBABLE''"
| "certainty_value DateCertainty.UNCONFIRMED = u ''UNCONFIRMED''"
| "certainty_value DateCertainty.DISPUTED = u ''DISPUTED''"

primrec date_kind_value :: "ThingDateType \<Rightarrow> str" where
  "date_kind_value ThingDateType.DEADLINE = u ''DEADLINE''"
| "date_kind_value ThingDateType.EVENT = u ''EVENT''"
| "date_kind_value ThingDateType.MILESTONE = u ''MILESTONE''"

primrec blocker_status_value :: "BlockerStatus \<Rightarrow> str" where
  "blocker_status_value BlockerStatus.OPEN = u ''OPEN''"
| "blocker_status_value BlockerStatus.RESOLVED = u ''RESOLVED''"

primrec severity_value :: "BlockerSeverity \<Rightarrow> str" where
  "severity_value BlockerSeverity.LOW = u ''LOW''"
| "severity_value BlockerSeverity.MEDIUM = u ''MEDIUM''"
| "severity_value BlockerSeverity.HIGH = u ''HIGH''"
| "severity_value BlockerSeverity.CRITICAL = u ''CRITICAL''"

primrec relation_type_value :: "ThingRelationType \<Rightarrow> str" where
  "relation_type_value ThingRelationType.RELATED_TO = u ''RELATED_TO''"
| "relation_type_value ThingRelationType.DEPENDS_ON = u ''DEPENDS_ON''"
| "relation_type_value ThingRelationType.PART_OF = u ''PART_OF''"

section \<open>Things\<close>

record Thing =
  thing_user_id :: uuid
  thing_name :: str
  thing_id :: uuid
  thing_status :: ThingStatus
  thing_current_stage :: "str option"
  thing_deadline_at :: "time option"
  thing_archived_at :: "time option"
  thing_deleted_at :: "time option"
  thing_merged_into :: "uuid option"
  thing_version :: int
  thing_created_at :: time
  thing_updated_at :: time

definition thing_touch :: "time \<Rightarrow> Thing \<Rightarrow> Thing" where
  [entity_defs]: "thing_touch now t = t\<lparr>thing_updated_at := now, thing_version := thing_version t + 1\<rparr>"

definition thing_set_primary_deadline :: "time \<Rightarrow> pydatetime \<Rightarrow> Thing \<Rightarrow> py_error + Thing" where
  [entity_defs]: "thing_set_primary_deadline now value t =
     (if \<not> is_aware value
      then Inl (ValueError (u ''Deadline must include timezone information.''))
      else Inr (thing_touch now (t\<lparr>thing_deadline_at := Some (instant value)\<rparr>)))"

text \<open>\<open>revise\<close>: absent arguments (\<open>None\<close>) leave the attribute; the stage is rewritten only on
  request, and a missing or empty stage clears it.\<close>

definition thing_revise ::
  "time \<Rightarrow> str option \<Rightarrow> ThingStatus option \<Rightarrow> str option \<Rightarrow> bool \<Rightarrow> Thing \<Rightarrow> py_error + Thing" where
  [entity_defs]: "thing_revise now name status current_stage update_current_stage t =
     (if (case name of None \<Rightarrow> False | Some n \<Rightarrow> strip n = [])
      then Inl (ValueError (u ''Thing name must not be empty.''))
      else
        let t1 = (case name of None \<Rightarrow> t | Some n \<Rightarrow> t\<lparr>thing_name := strip n\<rparr>);
            t2 = (case status of None \<Rightarrow> t1 | Some s \<Rightarrow> t1\<lparr>thing_status := s\<rparr>);
            t3 = (if update_current_stage
                  then t2\<lparr>thing_current_stage :=
                    (case current_stage of None \<Rightarrow> None
                     | Some c \<Rightarrow> if c = [] then None else Some (strip c))\<rparr>
                  else t2)
        in Inr (thing_touch now t3))"

definition thing_archive :: "time \<Rightarrow> Thing \<Rightarrow> Thing" where
  [entity_defs]: "thing_archive now t =
     (if thing_archived_at t \<noteq> None then t
      else t\<lparr>thing_archived_at := Some now, thing_updated_at := now,
             thing_version := thing_version t + 1\<rparr>)"

definition thing_unarchive :: "time \<Rightarrow> Thing \<Rightarrow> Thing" where
  [entity_defs]: "thing_unarchive now t =
     (if thing_archived_at t = None then t
      else t\<lparr>thing_archived_at := None, thing_updated_at := now,
             thing_version := thing_version t + 1\<rparr>)"

definition thing_merge_into :: "time \<Rightarrow> uuid \<Rightarrow> Thing \<Rightarrow> py_error + Thing" where
  [entity_defs]: "thing_merge_into now canonical t =
     (if canonical = thing_id t
      then Inl (ValueError (u ''A Thing cannot merge into itself.''))
      else if thing_merged_into t \<noteq> None
      then Inl (InvalidStateTransition (u ''A merged Thing cannot be merged again.''))
      else Inr (t\<lparr>thing_merged_into := Some canonical, thing_updated_at := now,
                  thing_version := thing_version t + 1\<rparr>))"

definition thing_delete :: "time \<Rightarrow> Thing \<Rightarrow> py_error + Thing" where
  [entity_defs]: "thing_delete now t =
     (if thing_deleted_at t \<noteq> None then Inr t
      else if thing_merged_into t \<noteq> None
      then Inl (InvalidStateTransition (u ''A merged Thing cannot be deleted directly.''))
      else Inr (t\<lparr>thing_deleted_at := Some now, thing_updated_at := now,
                  thing_version := thing_version t + 1\<rparr>))"

section \<open>Tasks\<close>

record Task =
  task_user_id :: uuid
  task_title :: str
  task_thing_id :: "uuid option"
  task_id :: uuid
  task_status :: TaskStatus
  task_version :: int
  task_completed_at :: "time option"
  task_due_at :: "time option"
  task_recurrence_interval_days :: "int option"
  task_created_at :: time
  task_updated_at :: time

text \<open>\<open>complete(occurred_at)\<close>; \<open>now\<close> is the clock reading used when no instant is given.\<close>

definition task_complete :: "time \<Rightarrow> time option \<Rightarrow> Task \<Rightarrow> py_error + Task" where
  [entity_defs]: "task_complete now occurred_at t =
     (if task_status t = TaskStatus.CANCELLED
      then Inl (InvalidStateTransition (u ''A cancelled task cannot be completed directly.''))
      else if task_status t = TaskStatus.DONE then Inr t
      else
        let completed_at = (case occurred_at of None \<Rightarrow> now | Some o' \<Rightarrow> o') in
        case task_recurrence_interval_days t of
          Some days \<Rightarrow>
            (case task_due_at t of
               None \<Rightarrow> Inl (ValueError (u ''Recurring Task requires a due time and a positive interval.''))
             | Some due \<Rightarrow>
                 if days \<le> 0
                 then Inl (ValueError (u ''Recurring Task requires a due time and a positive interval.''))
                 else Inr (t\<lparr>task_status := TaskStatus.TODO, task_completed_at := Some completed_at,
                        task_due_at := Some (due + days * DAY_US),
                        task_updated_at := completed_at, task_version := task_version t + 1\<rparr>))
        | None \<Rightarrow> Inr (t\<lparr>task_status := TaskStatus.DONE, task_completed_at := Some completed_at,
                       task_updated_at := completed_at, task_version := task_version t + 1\<rparr>))"

definition task_reopen :: "time \<Rightarrow> Task \<Rightarrow> py_error + Task" where
  [entity_defs]: "task_reopen now t =
     (if task_status t \<notin> {TaskStatus.DONE, TaskStatus.CANCELLED}
      then Inl (InvalidStateTransition (u ''Only a terminal task can be reopened.''))
      else Inr (t\<lparr>task_status := TaskStatus.TODO, task_completed_at := None,
                  task_updated_at := now, task_version := task_version t + 1\<rparr>))"

definition task_transition_to :: "time \<Rightarrow> TaskStatus \<Rightarrow> Task \<Rightarrow> py_error + Task" where
  [entity_defs]: "task_transition_to now target t =
     (if target = task_status t then Inr t
      else if task_status t \<in> {TaskStatus.DONE, TaskStatus.CANCELLED} then
        (if target = TaskStatus.TODO then task_reopen now t
         else Inl (InvalidStateTransition (u ''A terminal task must be reopened before transition.'')))
      else if target = TaskStatus.DONE then task_complete now None t
      else if target = TaskStatus.CANCELLED
      then Inr (t\<lparr>task_status := target, task_completed_at := None, task_updated_at := now,
                  task_version := task_version t + 1\<rparr>)
      else Inl (InvalidStateTransition (u ''Task transition target is not supported.'')))"

section \<open>Dates, context, blockers, relations\<close>

record ThingDate =
  tdate_thing_id :: uuid
  tdate_kind :: ThingDateType
  tdate_value :: time
  tdate_timezone_name :: str
  tdate_precision :: DatePrecision
  tdate_certainty :: DateCertainty
  tdate_label :: "str option"
  tdate_id :: uuid
  tdate_is_primary :: bool
  tdate_source_id :: "uuid option"
  tdate_version :: int
  tdate_created_at :: time
  tdate_updated_at :: time

definition tdate_revise ::
  "time \<Rightarrow> pydatetime \<Rightarrow> str \<Rightarrow> DatePrecision \<Rightarrow> DateCertainty \<Rightarrow> bool \<Rightarrow> ThingDate
    \<Rightarrow> py_error + ThingDate" where
  [entity_defs]: "tdate_revise now value timezone_name precision certainty is_primary d =
     (if \<not> is_aware value then Inl (ValueError (u ''Date must include timezone information.''))
      else if strip timezone_name = []
      then Inl (ValueError (u ''Date timezone must not be empty.''))
      else if is_primary \<and> certainty \<noteq> DateCertainty.CONFIRMED
      then Inl (ValueError (u ''Only a confirmed date can become primary.''))
      else Inr (d\<lparr>tdate_value := instant value, tdate_timezone_name := strip timezone_name,
        tdate_precision := precision, tdate_certainty := certainty,
        tdate_is_primary := is_primary, tdate_updated_at := now,
        tdate_version := tdate_version d + 1\<rparr>))"

record ThingContextEntry =
  ctx_thing_id :: uuid
  ctx_label :: str
  ctx_content :: str
  ctx_id :: uuid
  ctx_source_id :: "uuid option"
  ctx_version :: int
  ctx_created_at :: time
  ctx_updated_at :: time

definition ctx_revise :: "time \<Rightarrow> str \<Rightarrow> str \<Rightarrow> ThingContextEntry \<Rightarrow> py_error + ThingContextEntry" where
  [entity_defs]: "ctx_revise now label content c =
     (if strip label = [] \<or> strip content = []
      then Inl (ValueError (u ''Thing context label and content must not be empty.''))
      else Inr (c\<lparr>ctx_label := strip label, ctx_content := strip content, ctx_updated_at := now,
                  ctx_version := ctx_version c + 1\<rparr>))"

record Blocker =
  blk_thing_id :: uuid
  blk_description :: str
  blk_severity :: BlockerSeverity
  blk_id :: uuid
  blk_task_id :: "uuid option"
  blk_status :: BlockerStatus
  blk_blocked_since :: time
  blk_resolved_at :: "time option"
  blk_source_id :: "uuid option"
  blk_version :: int
  blk_created_at :: time
  blk_updated_at :: time

definition blocker_resolve :: "time \<Rightarrow> Blocker \<Rightarrow> py_error + Blocker" where
  [entity_defs]: "blocker_resolve now b =
     (if blk_status b \<noteq> BlockerStatus.OPEN
      then Inl (InvalidStateTransition (u ''Only an open blocker can be resolved.''))
      else Inr (b\<lparr>blk_status := BlockerStatus.RESOLVED, blk_resolved_at := Some now,
                  blk_updated_at := now, blk_version := blk_version b + 1\<rparr>))"

record ThingRelation =
  rel_from_thing_id :: uuid
  rel_to_thing_id :: uuid
  rel_relation_type :: ThingRelationType
  rel_note :: "str option"
  rel_created_at :: time

definition ThingRelation_init ::
  "uuid \<Rightarrow> uuid \<Rightarrow> ThingRelationType \<Rightarrow> str option \<Rightarrow> time \<Rightarrow> py_error + ThingRelation" where
  "ThingRelation_init from_id to_id relation_type note created =
     (if from_id = to_id then Inl (ValueError (u ''A Thing cannot relate to itself.''))
      else Inr \<lparr>rel_from_thing_id = from_id, rel_to_thing_id = to_id,
        rel_relation_type = relation_type, rel_note = note, rel_created_at = created\<rparr>)"

section \<open>Audit records\<close>

record StateMutation =
  mut_user_id :: uuid
  mut_thing_id :: "uuid option"
  mut_action_id :: str
  mut_mutation_type :: str
  mut_target_type :: str
  mut_target_id :: uuid
  mut_after :: jdict
  mut_reason :: str
  mut_idempotency_key :: str
  mut_id :: uuid
  mut_run_id :: "uuid option"
  mut_before :: "jdict option"
  mut_source_id :: "uuid option"
  mut_created_at :: time

record TimelineEvent =
  tle_user_id :: uuid
  tle_thing_id :: uuid
  tle_event_type :: str
  tle_title :: str
  tle_occurred_at :: time
  tle_id :: uuid
  tle_summary :: "str option"
  tle_source_id :: "uuid option"
  tle_mutation_id :: "uuid option"
  tle_metadata :: jdict
  tle_created_at :: time

section \<open>Facts about the transitions\<close>

text \<open>Every successful Task transition to a different status raises the version by one.\<close>

lemma task_transition_version:
  assumes "task_transition_to now target t = Inr t'" and "target \<noteq> task_status t"
  shows "task_version t' = task_version t + 1"
  using assms by (auto simp: entity_defs Let_def split: if_splits option.splits)

text \<open>A Task completed for good carries its completion time; an open one that never recurred
  or was reopened carries none.\<close>

definition task_wf :: "Task \<Rightarrow> bool" where
  "task_wf t \<longleftrightarrow>
     (task_status t = TaskStatus.DONE \<longrightarrow> task_completed_at t \<noteq> None) \<and>
     (task_status t = TaskStatus.CANCELLED \<longrightarrow> task_completed_at t = None) \<and>
     (task_status t = TaskStatus.DONE \<longrightarrow> task_recurrence_interval_days t = None)"

lemma task_transition_wf:
  assumes "task_wf t" and "task_transition_to now target t = Inr t'"
  shows "task_wf t'"
  using assms by (auto simp: task_wf_def entity_defs Let_def split: if_splits option.splits)

lemma task_transition_frame:
  assumes "task_transition_to now target t = Inr t'"
  shows "task_id t' = task_id t" "task_user_id t' = task_user_id t" "task_title t' = task_title t"
    "task_thing_id t' = task_thing_id t"
    "task_recurrence_interval_days t' = task_recurrence_interval_days t"
  using assms by (auto simp: entity_defs Let_def split: if_splits option.splits)

end
