(* ===== verification/LibraryEntities.thy ===== *)
theory LibraryEntities
  imports Prelude PyFloat
begin

text \<open>
  The remaining domain entities: users, devices and sessions (\<open>domain/identity/\<close>), sources
  (\<open>domain/sources/\<close>), files (\<open>domain/files/\<close>), long-term memories (\<open>domain/memories/\<close>) and
  evidence references (\<open>domain/evidence/\<close>). Conventions as in \<open>RuntimeEntities\<close>.
\<close>

section \<open>Identity\<close>

datatype UserStatus = ACTIVE | DELETING | DELETED
datatype DevicePlatform = HARMONYOS | OTHER

record User =
  usr_id :: uuid
  usr_status :: UserStatus
  usr_external_subject :: "str option"
  usr_created_at :: time
  usr_updated_at :: time

definition user_begin_deletion :: "time \<Rightarrow> User \<Rightarrow> User" where
  [entity_defs]: "user_begin_deletion now x =
     (if usr_status x = UserStatus.DELETED then x
      else x\<lparr>usr_status := UserStatus.DELETING, usr_updated_at := now\<rparr>)"

definition user_mark_deleted :: "time \<Rightarrow> User \<Rightarrow> User" where
  [entity_defs]: "user_mark_deleted now x = x\<lparr>usr_status := UserStatus.DELETED, usr_updated_at := now\<rparr>"

record Device =
  dev_user_id :: uuid
  dev_timezone_name :: str
  dev_id :: uuid
  dev_platform :: DevicePlatform
  dev_active :: bool
  dev_last_seen_at :: time
  dev_created_at :: time
  dev_updated_at :: time

text \<open>\<open>touch\<close> reads the clock twice.\<close>

definition device_touch :: "time \<Rightarrow> time \<Rightarrow> str option \<Rightarrow> Device \<Rightarrow> Device" where
  [entity_defs]: "device_touch now1 now2 timezone_name d =
     (case timezone_name of None \<Rightarrow> d | Some z \<Rightarrow> d\<lparr>dev_timezone_name := z\<rparr>)
     \<lparr>dev_last_seen_at := now1, dev_updated_at := now2\<rparr>"

definition device_deactivate :: "time \<Rightarrow> Device \<Rightarrow> Device" where
  [entity_defs]: "device_deactivate now d = d\<lparr>dev_active := False, dev_updated_at := now\<rparr>"

record BusinessSession =
  ses_user_id :: uuid
  ses_token_hash :: str
  ses_expires_at :: time
  ses_device_id :: "uuid option"
  ses_id :: uuid
  ses_revoked_at :: "time option"
  ses_created_at :: time

definition session_revoke :: "time \<Rightarrow> BusinessSession \<Rightarrow> BusinessSession" where
  [entity_defs]: "session_revoke now s = s\<lparr>ses_revoked_at := Some now\<rparr>"

definition session_is_active :: "time \<Rightarrow> BusinessSession \<Rightarrow> bool" where
  [entity_defs]: "session_is_active now s \<longleftrightarrow> ses_revoked_at s = None \<and> now < ses_expires_at s"

section \<open>Sources\<close>

datatype SourceType = IMAGE | PDF | WORD | PPT | AUDIO | OTHER
datatype SourceOrigin = CHAT | SHARE | UPLOAD | AUTOMATION | SYSTEM
datatype ProcessingStatus = PENDING | READY | FAILED
datatype SourceRelationType = PRIMARY | SUPPORTING | REFERENCE | EVIDENCE | OTHER

record Source =
  src_user_id :: uuid
  src_source_type :: SourceType
  src_origin :: SourceOrigin
  src_title :: str
  src_mime_type :: str
  src_object_key :: str
  src_content_hash :: str
  src_size :: int
  src_idempotency_key :: str
  src_id :: uuid
  src_external_url :: "str option"
  src_captured_at :: "time option"
  src_metadata :: jdict
  src_processing_status :: ProcessingStatus
  src_extracted_text :: "str option"
  src_processing_error :: "str option"
  src_processed_at :: "time option"
  src_claim_owner :: "str option"
  src_lease_expires_at :: "time option"
  src_heartbeat_at :: "time option"
  src_attempt_count :: int
  src_next_attempt_at :: "time option"
  src_deleted_at :: "time option"
  src_created_at :: time

definition source_mark_ready :: "time \<Rightarrow> str \<Rightarrow> Source \<Rightarrow> Source" where
  [entity_defs]: "source_mark_ready now extracted_text s =
     s\<lparr>src_extracted_text := Some (strip extracted_text),
       src_processing_status := ProcessingStatus.READY, src_processing_error := None,
       src_processed_at := Some now, src_claim_owner := None, src_lease_expires_at := None,
       src_heartbeat_at := None, src_next_attempt_at := None\<rparr>"

definition source_mark_failed :: "time \<Rightarrow> str \<Rightarrow> Source \<Rightarrow> Source" where
  [entity_defs]: "source_mark_failed now error_code s =
     s\<lparr>src_processing_status := ProcessingStatus.FAILED, src_processing_error := Some error_code,
       src_processed_at := Some now, src_claim_owner := None, src_lease_expires_at := None,
       src_heartbeat_at := None, src_next_attempt_at := None\<rparr>"

definition source_mark_deleted :: "time \<Rightarrow> Source \<Rightarrow> Source" where
  [entity_defs]: "source_mark_deleted now s =
     (if src_deleted_at s \<noteq> None then s
      else s\<lparr>src_deleted_at := Some now, src_extracted_text := None,
             src_processing_status := ProcessingStatus.FAILED,
             src_processing_error := Some (u ''SOURCE_DELETED'')\<rparr>)"

section \<open>Files\<close>

datatype FileAssetStatus = ACTIVE | DELETED
datatype FileMediaKind = IMAGE | DOCUMENT | AUDIO | VIDEO | OTHER
datatype GenerationStatus = BUILDING | READY | FAILED | RETIRED
datatype RepresentationKind = TEXT_SPAN | PAGE_TEXT | OCR_BLOCK | TRANSCRIPT_WINDOW | OTHER

record File =
  fil_owner_user_id :: uuid
  fil_validated_mime_type :: str
  fil_media_kind :: FileMediaKind
  fil_size_bytes :: int
  fil_content_sha256 :: str
  fil_storage_key :: str
  fil_idempotency_key :: str
  fil_id :: uuid
  fil_original_filename :: "str option"
  fil_asset_status :: FileAssetStatus
  fil_version :: int
  fil_deleted_at :: "time option"
  fil_purged_at :: "time option"
  fil_created_at :: time

definition file_mark_deleted :: "time \<Rightarrow> File \<Rightarrow> File" where
  [entity_defs]: "file_mark_deleted now f =
     (if fil_deleted_at f \<noteq> None then f
      else f\<lparr>fil_deleted_at := Some now, fil_asset_status := FileAssetStatus.DELETED\<rparr>)"

record FileProcessingGeneration =
  gen_file_id :: uuid
  gen_profile_name :: str
  gen_parser_version :: str
  gen_chunk_version :: str
  gen_embedding_model_version :: "str option"
  gen_id :: uuid
  gen_status :: GenerationStatus
  gen_is_active :: bool
  gen_created_at :: time
  gen_ready_at :: "time option"
  gen_retired_at :: "time option"

definition generation_mark_ready :: "time \<Rightarrow> FileProcessingGeneration \<Rightarrow> FileProcessingGeneration" where
  [entity_defs]: "generation_mark_ready now g =
     g\<lparr>gen_status := GenerationStatus.READY, gen_is_active := True, gen_ready_at := Some now\<rparr>"

definition generation_retire :: "time \<Rightarrow> FileProcessingGeneration \<Rightarrow> FileProcessingGeneration" where
  [entity_defs]: "generation_retire now g =
     g\<lparr>gen_status := GenerationStatus.RETIRED, gen_is_active := False, gen_retired_at := Some now\<rparr>"

section \<open>Memories\<close>

datatype MemoryType = PROFILE | SEMANTIC | EPISODIC
datatype MemoryStatus = ACTIVE | SUPERSEDED | DELETED

text \<open>Scores are the exact values of the stored doubles; embeddings are not read here.\<close>

record Memory =
  mem_user_id :: uuid
  mem_memory_type :: MemoryType
  mem_content :: str
  mem_summary :: str
  mem_importance :: rat
  mem_confidence :: rat
  mem_idempotency_key :: str
  mem_id :: uuid
  mem_thing_id :: "uuid option"
  mem_source_ids :: "uuid list"
  mem_valid_from :: "time option"
  mem_valid_until :: "time option"
  mem_embedding :: "rat list option"
  mem_profile_key :: "str option"
  mem_supersedes_id :: "uuid option"
  mem_provenance_run_id :: "uuid option"
  mem_source_message_ids :: "uuid list"
  mem_status :: MemoryStatus
  mem_version :: int
  mem_created_at :: time
  mem_updated_at :: time
  mem_last_accessed_at :: "time option"

definition memory_revise ::
  "time \<Rightarrow> str option \<Rightarrow> str option \<Rightarrow> rat option \<Rightarrow> rat option \<Rightarrow> Memory \<Rightarrow> py_error + Memory" where
  [entity_defs]: "memory_revise now content summary importance confidence m =
     (if mem_status m \<noteq> MemoryStatus.ACTIVE
      then Inl (ValueError (u ''Only an active memory can be revised.''))
      else if (case content of None \<Rightarrow> False | Some c \<Rightarrow> strip c = [])
      then Inl (ValueError (u ''Memory content must not be empty.''))
      else if (case summary of None \<Rightarrow> False | Some s \<Rightarrow> strip s = [])
      then Inl (ValueError (u ''Memory summary must not be empty.''))
      else
        let m1 = (case content of None \<Rightarrow> m | Some c \<Rightarrow> m\<lparr>mem_content := strip c\<rparr>);
            m2 = (case summary of None \<Rightarrow> m1 | Some s \<Rightarrow> m1\<lparr>mem_summary := strip s\<rparr>);
            m3 = (case importance of None \<Rightarrow> m2 | Some i \<Rightarrow> m2\<lparr>mem_importance := i\<rparr>);
            m4 = (case confidence of None \<Rightarrow> m3 | Some c \<Rightarrow> m3\<lparr>mem_confidence := c\<rparr>)
        in Inr (m4\<lparr>mem_updated_at := now, mem_version := mem_version m + 1\<rparr>))"

definition memory_supersede :: "time \<Rightarrow> Memory \<Rightarrow> py_error + Memory" where
  [entity_defs]: "memory_supersede now m =
     (if mem_status m = MemoryStatus.DELETED
      then Inl (ValueError (u ''A deleted memory cannot be superseded.''))
      else Inr (m\<lparr>mem_status := MemoryStatus.SUPERSEDED, mem_updated_at := now,
                  mem_version := mem_version m + 1\<rparr>))"

definition memory_delete :: "time \<Rightarrow> Memory \<Rightarrow> Memory" where
  [entity_defs]: "memory_delete now m =
     (if mem_status m = MemoryStatus.DELETED then m
      else m\<lparr>mem_status := MemoryStatus.DELETED, mem_updated_at := now,
             mem_version := mem_version m + 1\<rparr>)"

section \<open>Evidence references\<close>

datatype EvidenceSourceKind = MESSAGE | FILE | WEB | TOOL_RESULT

primrec evidence_kind_value :: "EvidenceSourceKind \<Rightarrow> str" where
  "evidence_kind_value EvidenceSourceKind.MESSAGE = u ''MESSAGE''"
| "evidence_kind_value EvidenceSourceKind.FILE = u ''FILE''"
| "evidence_kind_value EvidenceSourceKind.WEB = u ''WEB''"
| "evidence_kind_value EvidenceSourceKind.TOOL_RESULT = u ''TOOL_RESULT''"

definition evidence_kind_of_value :: "str \<Rightarrow> EvidenceSourceKind option" where
  "evidence_kind_of_value s =
     (if s = u ''MESSAGE'' then Some EvidenceSourceKind.MESSAGE
      else if s = u ''FILE'' then Some EvidenceSourceKind.FILE
      else if s = u ''WEB'' then Some EvidenceSourceKind.WEB
      else if s = u ''TOOL_RESULT'' then Some EvidenceSourceKind.TOOL_RESULT else None)"

record EvidenceRef =
  ev_source_kind :: EvidenceSourceKind
  ev_source_id :: uuid
  ev_locator :: "jdict option"

definition evidence_to_json :: "EvidenceRef \<Rightarrow> jdict" where
  "evidence_to_json e =
     (let payload = [u ''source_kind'' \<mapsto> JStr (evidence_kind_value (ev_source_kind e)),
                     u ''source_id'' \<mapsto> JStr (uuid_str (ev_source_id e))] in
      case ev_locator e of
        None \<Rightarrow> payload
      | Some l \<Rightarrow> if l = Map.empty then payload else payload(u ''locator'' \<mapsto> JObj l))"

text \<open>
  \<open>from_json\<close> on members that are strings (what \<open>to_json\<close> writes); \<open>str\<close> of any other JSON
  value is neither a source kind nor the text of a UUID, so it raises like a malformed string.
\<close>

definition evidence_from_json :: "jdict \<Rightarrow> py_error + EvidenceRef" where
  "evidence_from_json d =
     (case d (u ''source_kind'') of
        None \<Rightarrow> Inl (KeyError (u ''source_kind''))
      | Some k \<Rightarrow>
          (case k of
             JStr s \<Rightarrow>
               bindE (ofopt (ValueError (u ''EvidenceSourceKind'')) (evidence_kind_of_value s)) (\<lambda>kind.
                 case d (u ''source_id'') of
                   None \<Rightarrow> Inl (KeyError (u ''source_id''))
                 | Some (JStr i) \<Rightarrow>
                     bindE (ofopt (ValueError (u ''UUID'')) (uuid_parse i)) (\<lambda>sid.
                       Inr \<lparr>ev_source_kind = kind, ev_source_id = sid,
                            ev_locator = (case d (u ''locator'') of Some (JObj l) \<Rightarrow> Some l | _ \<Rightarrow> None)\<rparr>)
                 | Some _ \<Rightarrow> Inl (ValueError (u ''UUID'')))
           | _ \<Rightarrow> Inl (ValueError (u ''EvidenceSourceKind''))))"

lemma evidence_kind_roundtrip [simp]: "evidence_kind_of_value (evidence_kind_value k) = Some k"
  by (cases k) (auto simp: evidence_kind_of_value_def)

end
