(* ===== verification/RuntimeStore.thy ===== *)
theory RuntimeStore
  imports RuntimeEntities PersonalStateEntities LibraryEntities
begin

text \<open>
  The database the runtime works on, and the runtime repositories,
  \<open>infrastructure/persistence/repositories/runtime.py\<close>, over it. The state \<open>db\<close> has one table
  per ORM class; the rows are the domain records, which the \<open>*_to_domain\<close> functions copy
  attribute by attribute. Inserts respect the primary keys and the unique constraints the ORM
  classes declare (\<open>orm/personal_state.py\<close>). Statements are translated clause by clause; a
  comparison with a \<open>NULL\<close> column is not true.
\<close>

section \<open>The database\<close>

text \<open>A row of \<open>run_operations\<close>; its surrogate key and timestamp are never read.\<close>

record RunOperation =
  rop_user_id :: uuid
  rop_run_id :: uuid
  rop_idempotency_key :: str
  rop_operation :: str
  rop_target_version :: int

record db =
  db_users :: "User list"
  db_things :: "Thing list"
  db_sources :: "Source list"
  db_threads :: "Thread list"
  db_messages :: "Message list"
  db_runs :: "AgentRun list"
  db_events :: "RunEvent list"
  db_run_ops :: "RunOperation list"
  db_interactions :: "RunInteraction list"
  db_tools :: "ToolExecution list"
  db_jobs :: "DurableJob list"

definition empty_db :: db where
  "empty_db = \<lparr>db_users = [], db_things = [], db_sources = [], db_threads = [], db_messages = [],
     db_runs = [], db_events = [], db_run_ops = [], db_interactions = [], db_tools = [],
     db_jobs = []\<rparr>"

section \<open>Users, things and sources, as far as the runtime reads them\<close>

definition users_ensure_exists :: "time \<Rightarrow> uuid \<Rightarrow> db \<Rightarrow> db" where
  [repo_defs]: "users_ensure_exists now user_id s =
     (if usr_id ` set (db_users s) \<inter> {user_id} \<noteq> {} then s
      else s\<lparr>db_users := db_users s @ [\<lparr>usr_id = user_id, usr_status = UserStatus.ACTIVE,
        usr_external_subject = None, usr_created_at = now, usr_updated_at = now\<rparr>]\<rparr>)"

definition things_get :: "uuid \<Rightarrow> uuid \<Rightarrow> db \<Rightarrow> Thing option" where
  [repo_defs]: "things_get user_id tid s =
     sel1 (\<lambda>t. thing_id t = tid \<and> thing_user_id t = user_id \<and> thing_deleted_at t = None) (db_things s)"

definition sources_get :: "uuid \<Rightarrow> uuid \<Rightarrow> db \<Rightarrow> Source option" where
  [repo_defs]: "sources_get user_id sid s =
     sel1 (\<lambda>x. src_id x = sid \<and> src_user_id x = user_id \<and> src_deleted_at x = None) (db_sources s)"

section \<open>Threads and messages\<close>

definition thread_clash :: "Thread \<Rightarrow> Thread \<Rightarrow> bool" where
  "thread_clash x r \<longleftrightarrow> thr_id x = thr_id r \<or>
     thr_user_id x = thr_user_id r \<and> thr_idempotency_key x = thr_idempotency_key r"

definition threads_add :: "Thread \<Rightarrow> db \<Rightarrow> py_error + db" where
  [repo_defs]: "threads_add t s =
     bindE (ins thread_clash t (db_threads s)) (\<lambda>rows. Inr (s\<lparr>db_threads := rows\<rparr>))"

definition threads_get :: "uuid \<Rightarrow> uuid \<Rightarrow> db \<Rightarrow> Thread option" where
  [repo_defs]: "threads_get user_id tid s =
     sel1 (\<lambda>t. thr_id t = tid \<and> thr_user_id t = user_id) (db_threads s)"

definition threads_get_by_idempotency :: "uuid \<Rightarrow> str \<Rightarrow> db \<Rightarrow> Thread option" where
  [repo_defs]: "threads_get_by_idempotency user_id key s =
     sel1 (\<lambda>t. thr_user_id t = user_id \<and> thr_idempotency_key t = key) (db_threads s)"

definition threads_list_for_user :: "uuid \<Rightarrow> nat \<Rightarrow> bool \<Rightarrow> db \<Rightarrow> Thread list" where
  [repo_defs]: "threads_list_for_user user_id limit include_archived s =
     take limit (sort_key (\<lambda>t. (- thr_updated_at t, - uint (thr_id t)))
       (sel (\<lambda>t. thr_user_id t = user_id \<and> (include_archived \<or> thr_archived_at t = None))
         (db_threads s)))"

definition threads_archive :: "Thread \<Rightarrow> db \<Rightarrow> db" where
  [repo_defs]: "threads_archive x s = s\<lparr>db_threads :=
     upd (\<lambda>t. thr_id t = thr_id x \<and> thr_user_id t = thr_user_id x)
       (\<lambda>t. t\<lparr>thr_archived_at := thr_archived_at x, thr_updated_at := thr_updated_at x\<rparr>)
       (db_threads s)\<rparr>"

text \<open>A new message also advances the activity time of its thread.\<close>

definition messages_add :: "Message \<Rightarrow> db \<Rightarrow> py_error + db" where
  [repo_defs]: "messages_add m s =
     bindE (ins (\<lambda>x y. msg_id x = msg_id y) m (db_messages s)) (\<lambda>rows.
       Inr (s\<lparr>db_messages := rows,
         db_threads := upd (\<lambda>t. thr_id t = msg_thread_id m \<and> thr_user_id t = msg_user_id m)
           (\<lambda>t. t\<lparr>thr_updated_at := max (thr_updated_at t) (msg_created_at m)\<rparr>) (db_threads s)\<rparr>))"

definition messages_get :: "uuid \<Rightarrow> uuid \<Rightarrow> db \<Rightarrow> Message option" where
  [repo_defs]: "messages_get user_id mid s =
     sel1 (\<lambda>m. msg_id m = mid \<and> msg_user_id m = user_id) (db_messages s)"

definition messages_list_for_thread :: "uuid \<Rightarrow> uuid \<Rightarrow> nat \<Rightarrow> db \<Rightarrow> Message list" where
  [repo_defs]: "messages_list_for_thread user_id tid limit s =
     rev (take limit (sort_key (\<lambda>m. (- msg_created_at m, - uint (msg_id m)))
       (sel (\<lambda>m. msg_user_id m = user_id \<and> msg_thread_id m = tid) (db_messages s))))"

section \<open>Interactions\<close>

text \<open>Besides the primary key, at most one pending interaction per run.\<close>

definition interaction_clash :: "RunInteraction \<Rightarrow> RunInteraction \<Rightarrow> bool" where
  "interaction_clash x r \<longleftrightarrow> ixn_id x = ixn_id r \<or>
     ixn_run_id x = ixn_run_id r \<and> ixn_status x = RunInteractionStatus.PENDING
       \<and> ixn_status r = RunInteractionStatus.PENDING"

definition interactions_add :: "RunInteraction \<Rightarrow> db \<Rightarrow> py_error + db" where
  [repo_defs]: "interactions_add i s =
     bindE (ins interaction_clash i (db_interactions s)) (\<lambda>rows. Inr (s\<lparr>db_interactions := rows\<rparr>))"

definition interactions_get :: "uuid \<Rightarrow> uuid \<Rightarrow> uuid \<Rightarrow> db \<Rightarrow> RunInteraction option" where
  [repo_defs]: "interactions_get user_id rid iid s =
     sel1 (\<lambda>i. ixn_id i = iid \<and> ixn_run_id i = rid \<and> ixn_user_id i = user_id) (db_interactions s)"

definition interactions_resolve :: "RunInteraction \<Rightarrow> db \<Rightarrow> db" where
  [repo_defs]: "interactions_resolve x s = s\<lparr>db_interactions :=
     upd (\<lambda>i. ixn_id i = ixn_id x \<and> ixn_status i = RunInteractionStatus.PENDING)
       (\<lambda>i. i\<lparr>ixn_status := ixn_status x, ixn_response_payload := ixn_response_payload x,
              ixn_resolved_at := ixn_resolved_at x\<rparr>)
       (db_interactions s)\<rparr>"

section \<open>Runs\<close>

definition run_clash :: "AgentRun \<Rightarrow> AgentRun \<Rightarrow> bool" where
  "run_clash x r \<longleftrightarrow> run_id x = run_id r \<or>
     run_user_id x = run_user_id r \<and> run_idempotency_key x = run_idempotency_key r"

text \<open>\<open>add\<close> does not write the four columns of active time and terminal output: they take the
  column defaults.\<close>

definition runs_add :: "AgentRun \<Rightarrow> db \<Rightarrow> py_error + db" where
  [repo_defs]: "runs_add r s =
     bindE (ins run_clash (r\<lparr>run_active_time_used_ms := 0, run_active_started_at := None,
         run_terminal_output := None, run_graph_terminal_at := None\<rparr>) (db_runs s))
       (\<lambda>rows. Inr (s\<lparr>db_runs := rows\<rparr>))"

definition runs_get :: "uuid \<Rightarrow> uuid \<Rightarrow> db \<Rightarrow> AgentRun option" where
  [repo_defs]: "runs_get user_id rid s =
     sel1 (\<lambda>r. run_id r = rid \<and> run_user_id r = user_id) (db_runs s)"

definition runs_get_by_idempotency :: "uuid \<Rightarrow> str \<Rightarrow> db \<Rightarrow> AgentRun option" where
  [repo_defs]: "runs_get_by_idempotency user_id key s =
     sel1 (\<lambda>r. run_user_id r = user_id \<and> run_idempotency_key r = key) (db_runs s)"

text \<open>A lease column at or before \<open>now\<close>, or \<open>NULL\<close>.\<close>

definition lease_free :: "time option \<Rightarrow> time \<Rightarrow> bool" where
  "lease_free lease now \<longleftrightarrow> (case lease of None \<Rightarrow> True | Some t \<Rightarrow> t \<le> now)"

lemma lease_free_simps [simp]: "lease_free None now" "lease_free (Some t) now \<longleftrightarrow> t \<le> now"
  by (simp_all add: lease_free_def)

definition run_claimable :: "time \<Rightarrow> AgentRun \<Rightarrow> bool" where
  "run_claimable now r \<longleftrightarrow>
     run_status r = RunStatus.QUEUED \<or>
     run_status r = RunStatus.RUNNING \<and> lease_free (run_lease_expires_at r) now"

definition runs_list_recoverable :: "time \<Rightarrow> nat \<Rightarrow> db \<Rightarrow> AgentRun list" where
  [repo_defs]: "runs_list_recoverable now limit s =
     take limit (sort_key (\<lambda>r. (run_created_at r, run_id r)) (sel (run_claimable now) (db_runs s)))"

text \<open>The label of a claimed run is the text with the code points below.\<close>

definition WORKING_LABEL :: str where
  "WORKING_LABEL = [0x6B63, 0x5728, 0x7406, 0x89E3, 0x5E76, 0x5904, 0x7406]"

definition claim_row :: "str \<Rightarrow> uuid \<Rightarrow> time \<Rightarrow> time \<Rightarrow> AgentRun \<Rightarrow> AgentRun" where
  "claim_row owner token now lease r =
     r\<lparr>run_status := RunStatus.RUNNING, run_current_phase := Some (u ''executive''),
       run_status_label := Some WORKING_LABEL, run_claim_owner := Some owner,
       run_claim_token := Some token, run_heartbeat_at := Some now,
       run_lease_expires_at := Some lease, run_attempt_count := run_attempt_count r + 1,
       run_started_at := (case run_started_at r of None \<Rightarrow> Some now | Some t \<Rightarrow> Some t),
       run_active_started_at := (case run_active_started_at r of None \<Rightarrow> Some now | Some t \<Rightarrow> Some t),
       run_updated_at := now, run_version := run_version r + 1\<rparr>"

definition runs_claim ::
  "uuid \<Rightarrow> uuid \<Rightarrow> str \<Rightarrow> uuid \<Rightarrow> time \<Rightarrow> time \<Rightarrow> db \<Rightarrow> AgentRun option \<times> db" where
  [repo_defs]: "runs_claim user_id rid owner token now lease s =
     (let p = (\<lambda>r. run_id r = rid \<and> run_user_id r = user_id \<and> run_claimable now r);
          claimed = map_option run_id (sel1 p (db_runs s));
          s' = s\<lparr>db_runs := upd p (claim_row owner token now lease) (db_runs s)\<rparr>
      in (case claimed of None \<Rightarrow> None | Some c \<Rightarrow> sel1 (\<lambda>r. run_id r = c) (db_runs s'), s'))"

definition runs_renew_lease ::
  "uuid \<Rightarrow> uuid \<Rightarrow> str \<Rightarrow> uuid \<Rightarrow> time \<Rightarrow> time \<Rightarrow> db \<Rightarrow> bool \<times> db" where
  [repo_defs]: "runs_renew_lease user_id rid owner token now lease s =
     (let p = (\<lambda>r. run_id r = rid \<and> run_user_id r = user_id \<and> run_status r = RunStatus.RUNNING
                   \<and> run_claim_owner r = Some owner \<and> run_claim_token r = Some token)
      in (cnt p (db_runs s) = 1,
          s\<lparr>db_runs := upd p (\<lambda>r. r\<lparr>run_heartbeat_at := Some now, run_lease_expires_at := Some lease,
            run_updated_at := now\<rparr>) (db_runs s)\<rparr>))"

text \<open>The columns \<open>update\<close> writes: every mutable one except the event sequence.\<close>

definition copy_run :: "AgentRun \<Rightarrow> AgentRun \<Rightarrow> AgentRun" where
  "copy_run x r =
     r\<lparr>run_status := run_status x, run_current_phase := run_current_phase x,
       run_status_label := run_status_label x, run_final_message_id := run_final_message_id x,
       run_interrupt_id := run_interrupt_id x, run_interrupt := run_interrupt x,
       run_resume_payload := run_resume_payload x, run_error_code := run_error_code x,
       run_claim_owner := run_claim_owner x, run_claim_token := run_claim_token x,
       run_lease_expires_at := run_lease_expires_at x, run_heartbeat_at := run_heartbeat_at x,
       run_attempt_count := run_attempt_count x, run_version := run_version x,
       run_started_at := run_started_at x, run_active_time_used_ms := run_active_time_used_ms x,
       run_active_started_at := run_active_started_at x,
       run_terminal_output := run_terminal_output x, run_graph_terminal_at := run_graph_terminal_at x,
       run_budget_snapshot := run_budget_snapshot x, run_completed_at := run_completed_at x,
       run_updated_at := run_updated_at x\<rparr>"

definition runs_update :: "AgentRun \<Rightarrow> int \<Rightarrow> db \<Rightarrow> bool \<times> db" where
  [repo_defs]: "runs_update x expected_version s =
     (let p = (\<lambda>r. run_id r = run_id x \<and> run_version r = expected_version)
      in (cnt p (db_runs s) = 1, s\<lparr>db_runs := upd p (copy_run x) (db_runs s)\<rparr>))"

definition runs_get_operation :: "uuid \<Rightarrow> str \<Rightarrow> db \<Rightarrow> (uuid \<times> int) option" where
  [repo_defs]: "runs_get_operation user_id key s =
     map_option (\<lambda>o'. (rop_run_id o', rop_target_version o'))
       (sel1 (\<lambda>o'. rop_user_id o' = user_id \<and> rop_idempotency_key o' = key) (db_run_ops s))"

definition runs_record_operation :: "uuid \<Rightarrow> uuid \<Rightarrow> str \<Rightarrow> str \<Rightarrow> int \<Rightarrow> db \<Rightarrow> py_error + db" where
  [repo_defs]: "runs_record_operation user_id rid key operation target_version s =
     bindE (ins (\<lambda>x y. rop_user_id x = rop_user_id y \<and> rop_idempotency_key x = rop_idempotency_key y)
       \<lparr>rop_user_id = user_id, rop_run_id = rid, rop_idempotency_key = key,
        rop_operation = operation, rop_target_version = target_version\<rparr> (db_run_ops s))
       (\<lambda>rows. Inr (s\<lparr>db_run_ops := rows\<rparr>))"

definition event_clash :: "RunEvent \<Rightarrow> RunEvent \<Rightarrow> bool" where
  "event_clash x e \<longleftrightarrow> evt_id x = evt_id e \<or>
     evt_run_id x = evt_run_id e \<and> evt_sequence x = evt_sequence e"

text \<open>\<open>append_event\<close> draws the next number from the run's counter and stores the event under it.\<close>

definition runs_append_event ::
  "uuid \<Rightarrow> time \<Rightarrow> uuid \<Rightarrow> RunEventType \<Rightarrow> jdict \<Rightarrow> db \<Rightarrow> py_error + RunEvent \<times> db" where
  [repo_defs]: "runs_append_event eid now rid event_type data s =
     (let rows = upd (\<lambda>r. run_id r = rid)
                   (\<lambda>r. r\<lparr>run_event_sequence := run_event_sequence r + 1\<rparr>) (db_runs s) in
      case sel1 (\<lambda>r. run_id r = rid) rows of
        None \<Rightarrow> Inl (RuntimeError (u ''Cannot append an event to a missing Run.''))
      | Some r \<Rightarrow>
          let event = \<lparr>evt_run_id = rid, evt_sequence = run_event_sequence r,
                evt_event_type = event_type, evt_data = data, evt_visibility = u ''CLIENT'',
                evt_schema_version = 1, evt_id = eid, evt_occurred_at = now\<rparr>
          in bindE (ins event_clash event (db_events s)) (\<lambda>events.
               Inr (event, s\<lparr>db_runs := rows, db_events := events\<rparr>)))"

definition runs_list_events ::
  "uuid \<Rightarrow> uuid \<Rightarrow> uuid option \<Rightarrow> int option \<Rightarrow> nat \<Rightarrow> db \<Rightarrow> RunEvent list" where
  [repo_defs]: "runs_list_events user_id rid after_event_id after_sequence limit s =
     (let visible = sel (\<lambda>e. evt_run_id e = rid \<and>
             (\<exists>r \<in> set (db_runs s). run_id r = evt_run_id e \<and> run_user_id r = user_id))
             (db_events s);
          page = (\<lambda>p. take limit (sort_key evt_sequence (sel p visible))) in
      case after_sequence of
        Some n \<Rightarrow> page (\<lambda>e. n < evt_sequence e)
      | None \<Rightarrow>
          (case after_event_id of
             None \<Rightarrow> page (\<lambda>e. True)
           | Some eid \<Rightarrow>
               (case sel1 (\<lambda>e. evt_id e = eid \<and> evt_run_id e = rid) (db_events s) of
                  None \<Rightarrow> []
                | Some e0 \<Rightarrow> page (\<lambda>e. evt_sequence e0 < evt_sequence e))))"

section \<open>Durable jobs\<close>

definition job_clash :: "DurableJob \<Rightarrow> DurableJob \<Rightarrow> bool" where
  "job_clash x j \<longleftrightarrow> job_id x = job_id j \<or>
     job_user_id x = job_user_id j \<and> job_dedupe_key x = job_dedupe_key j"

definition jobs_add :: "DurableJob \<Rightarrow> db \<Rightarrow> py_error + db" where
  [repo_defs]: "jobs_add j s =
     bindE (ins job_clash j (db_jobs s)) (\<lambda>rows. Inr (s\<lparr>db_jobs := rows\<rparr>))"

definition jobs_get_by_dedupe_key :: "uuid \<Rightarrow> str \<Rightarrow> db \<Rightarrow> DurableJob option" where
  [repo_defs]: "jobs_get_by_dedupe_key user_id key s =
     sel1 (\<lambda>j. job_user_id j = user_id \<and> job_dedupe_key j = key) (db_jobs s)"

text \<open>
  The claim takes the first \<open>limit\<close> due rows in the order of priority, availability, creation
  and key; no other transaction holds a row lock, so \<open>SKIP LOCKED\<close> skips nothing.
\<close>

definition job_due :: "DurableJobKind \<Rightarrow> time \<Rightarrow> DurableJob \<Rightarrow> bool" where
  "job_due kind now j \<longleftrightarrow>
     job_kind j = kind \<and> job_status j = DurableJobStatus.READY \<and> job_available_at j \<le> now"

definition due_order :: "DurableJob \<Rightarrow> int \<times> time \<times> time \<times> uuid" where
  "due_order j = (- job_priority j, job_available_at j, job_created_at j, job_id j)"

definition claim_job_row :: "str \<Rightarrow> time \<Rightarrow> time \<Rightarrow> DurableJob \<Rightarrow> DurableJob" where
  "claim_job_row owner now lease j =
     j\<lparr>job_status := DurableJobStatus.CLAIMED, job_claimed_by := Some owner,
       job_claim_epoch := job_claim_epoch j + 1, job_delivery_attempt := job_delivery_attempt j + 1,
       job_lease_until := Some lease, job_updated_at := now\<rparr>"

definition jobs_claim_ready ::
  "DurableJobKind \<Rightarrow> str \<Rightarrow> time \<Rightarrow> time \<Rightarrow> nat \<Rightarrow> db \<Rightarrow> DurableJob list \<times> db" where
  [repo_defs]: "jobs_claim_ready kind owner now lease limit s =
     (let picked = take limit (sort_key due_order (sel (job_due kind now) (db_jobs s)))
      in (map (claim_job_row owner now lease) picked,
          s\<lparr>db_jobs := upd (\<lambda>j. job_id j \<in> job_id ` set picked)
            (claim_job_row owner now lease) (db_jobs s)\<rparr>))"

text \<open>The fence of a claimed job: status, owner, epoch.\<close>

definition job_fence :: "uuid \<Rightarrow> str \<Rightarrow> int \<Rightarrow> DurableJob \<Rightarrow> bool" where
  "job_fence jid owner epoch j \<longleftrightarrow>
     job_id j = jid \<and> job_status j = DurableJobStatus.CLAIMED \<and> job_claimed_by j = Some owner
     \<and> job_claim_epoch j = epoch"

text \<open>\<open>lease_until >= now\<close> and \<open>lease_until < now\<close> on the nullable column.\<close>

definition lease_live :: "time option \<Rightarrow> time \<Rightarrow> bool" where
  "lease_live lease now \<longleftrightarrow> (case lease of None \<Rightarrow> False | Some t \<Rightarrow> now \<le> t)"

definition lease_dead :: "time option \<Rightarrow> time \<Rightarrow> bool" where
  "lease_dead lease now \<longleftrightarrow> (case lease of None \<Rightarrow> False | Some t \<Rightarrow> t < now)"

lemma lease_live_simps [simp]: "\<not> lease_live None now" "lease_live (Some t) now \<longleftrightarrow> now \<le> t"
  and lease_dead_simps [simp]: "\<not> lease_dead None now" "lease_dead (Some t) now \<longleftrightarrow> t < now"
  by (simp_all add: lease_live_def lease_dead_def)

definition jobs_settle ::
  "uuid \<Rightarrow> str \<Rightarrow> int \<Rightarrow> DurableJobStatus \<Rightarrow> time \<Rightarrow> str option \<Rightarrow> db \<Rightarrow> bool \<times> db" where
  [repo_defs]: "jobs_settle jid owner epoch status now error_code s =
     (let p = (\<lambda>j. job_fence jid owner epoch j \<and> lease_live (job_lease_until j) now)
      in (cnt p (db_jobs s) = 1,
          s\<lparr>db_jobs := upd p (\<lambda>j. j\<lparr>job_status := status, job_claimed_by := None,
            job_lease_until := None, job_last_error_code := error_code, job_updated_at := now\<rparr>)
            (db_jobs s)\<rparr>))"

definition jobs_release_for_retry ::
  "uuid \<Rightarrow> str \<Rightarrow> int \<Rightarrow> time \<Rightarrow> time \<Rightarrow> str \<Rightarrow> db \<Rightarrow> bool \<times> db" where
  [repo_defs]: "jobs_release_for_retry jid owner epoch available_at now error_code s =
     (let p = (\<lambda>j. job_fence jid owner epoch j \<and> lease_live (job_lease_until j) now)
      in (cnt p (db_jobs s) = 1,
          s\<lparr>db_jobs := upd p (\<lambda>j. j\<lparr>job_status := DurableJobStatus.READY, job_claimed_by := None,
            job_lease_until := None, job_available_at := available_at,
            job_last_error_code := Some error_code, job_updated_at := now\<rparr>) (db_jobs s)\<rparr>))"

definition job_expired :: "time \<Rightarrow> DurableJob \<Rightarrow> bool" where
  "job_expired now j \<longleftrightarrow>
     job_status j = DurableJobStatus.CLAIMED \<and> lease_dead (job_lease_until j) now"

definition jobs_requeue_expired :: "time \<Rightarrow> db \<Rightarrow> nat \<times> db" where
  [repo_defs]: "jobs_requeue_expired now s =
     (let p1 = (\<lambda>j. job_expired now j \<and> job_delivery_attempt j < job_max_delivery_attempts j);
          rows1 = upd p1 (\<lambda>j. j\<lparr>job_status := DurableJobStatus.READY, job_claimed_by := None,
            job_lease_until := None, job_available_at := now, job_updated_at := now\<rparr>) (db_jobs s);
          p2 = (\<lambda>j. job_expired now j \<and> job_max_delivery_attempts j \<le> job_delivery_attempt j);
          rows2 = upd p2 (\<lambda>j. j\<lparr>job_status := DurableJobStatus.FAILED, job_claimed_by := None,
            job_lease_until := None, job_last_error_code := Some (u ''RECOVERY_EXHAUSTED''),
            job_updated_at := now\<rparr>) rows1
      in (cnt p1 (db_jobs s) + cnt p2 rows1, s\<lparr>db_jobs := rows2\<rparr>))"

definition jobs_renew :: "uuid \<Rightarrow> str \<Rightarrow> int \<Rightarrow> time \<Rightarrow> time \<Rightarrow> db \<Rightarrow> bool \<times> db" where
  [repo_defs]: "jobs_renew jid owner epoch lease now s =
     (let p = job_fence jid owner epoch
      in (cnt p (db_jobs s) = 1,
          s\<lparr>db_jobs := upd p (\<lambda>j. j\<lparr>job_lease_until := Some lease, job_updated_at := now\<rparr>)
            (db_jobs s)\<rparr>))"

definition jobs_resume :: "uuid \<Rightarrow> str \<Rightarrow> time \<Rightarrow> db \<Rightarrow> bool \<times> db" where
  [repo_defs]: "jobs_resume user_id key now s =
     (let p = (\<lambda>j. job_user_id j = user_id \<and> job_dedupe_key j = key
                 \<and> job_status j \<in> {DurableJobStatus.PAUSED, DurableJobStatus.READY})
      in (cnt p (db_jobs s) = 1,
          s\<lparr>db_jobs := upd p (\<lambda>j. j\<lparr>job_status := DurableJobStatus.READY,
            job_available_at := now, job_updated_at := now\<rparr>) (db_jobs s)\<rparr>))"

definition jobs_cancel :: "uuid \<Rightarrow> str \<Rightarrow> time \<Rightarrow> db \<Rightarrow> bool \<times> db" where
  [repo_defs]: "jobs_cancel user_id key now s =
     (let p = (\<lambda>j. job_user_id j = user_id \<and> job_dedupe_key j = key
                 \<and> job_status j \<in> {DurableJobStatus.READY, DurableJobStatus.CLAIMED,
                                    DurableJobStatus.PAUSED})
      in (cnt p (db_jobs s) = 1,
          s\<lparr>db_jobs := upd p (\<lambda>j. j\<lparr>job_status := DurableJobStatus.CANCELLED,
            job_claimed_by := None, job_lease_until := None, job_updated_at := now\<rparr>)
            (db_jobs s)\<rparr>))"

section \<open>The tool ledger\<close>

definition tool_clash :: "ToolExecution \<Rightarrow> ToolExecution \<Rightarrow> bool" where
  "tool_clash x t \<longleftrightarrow> tex_id x = tex_id t \<or>
     tex_run_id x = tex_run_id t \<and> tex_action_id x = tex_action_id t"

definition tools_get :: "uuid \<Rightarrow> str \<Rightarrow> db \<Rightarrow> ToolExecution option" where
  [repo_defs]: "tools_get rid action_id s =
     sel1 (\<lambda>t. tex_run_id t = rid \<and> tex_action_id t = action_id) (db_tools s)"

definition tools_list_in_progress :: "uuid \<Rightarrow> db \<Rightarrow> ToolExecution list" where
  [repo_defs]: "tools_list_in_progress rid s =
     sel (\<lambda>t. tex_run_id t = rid \<and> tex_status t = ToolExecutionStatus.IN_PROGRESS) (db_tools s)"

text \<open>\<open>ON CONFLICT (run_id, action_id) DO NOTHING\<close>; a clash on the primary key still raises.\<close>

definition tools_add_if_absent :: "ToolExecution \<Rightarrow> db \<Rightarrow> py_error + bool \<times> db" where
  [repo_defs]: "tools_add_if_absent t s =
     (if \<exists>x \<in> set (db_tools s). tex_run_id x = tex_run_id t \<and> tex_action_id x = tex_action_id t
      then Inr (False, s)
      else bindE (ins tool_clash t (db_tools s)) (\<lambda>rows. Inr (True, s\<lparr>db_tools := rows\<rparr>)))"

definition tools_takeover_if_expired ::
  "ToolExecution \<Rightarrow> time \<Rightarrow> str \<Rightarrow> uuid \<Rightarrow> time \<Rightarrow> db \<Rightarrow> bool \<times> db" where
  [repo_defs]: "tools_takeover_if_expired x now owner token lease s =
     (let p = (\<lambda>t. tex_id t = tex_id x \<and> tex_status t = ToolExecutionStatus.IN_PROGRESS
                 \<and> tex_lease_expires_at t \<le> now)
      in (cnt p (db_tools s) = 1,
          s\<lparr>db_tools := upd p (\<lambda>t. t\<lparr>tex_claim_owner := owner, tex_claim_token := token,
            tex_lease_expires_at := lease, tex_attempt_count := tex_attempt_count t + 1,
            tex_updated_at := now\<rparr>) (db_tools s)\<rparr>))"

text \<open>
  \<open>str(result.get("code", "TOOL_FAILURE"))\<close>. The results stored by the callers carry a string
  under \<open>code\<close>; for other JSON values \<open>show_json\<close> stands for \<open>str\<close>.
\<close>

definition result_code :: "(json \<Rightarrow> str) \<Rightarrow> jdict \<Rightarrow> str" where
  "result_code show_json result =
     (case jget result (u ''code'') (JStr (u ''TOOL_FAILURE'')) of
        JStr c \<Rightarrow> c | v \<Rightarrow> show_json v)"

definition settle_tool_row ::
  "(json \<Rightarrow> str) \<Rightarrow> jdict \<Rightarrow> bool \<Rightarrow> time \<Rightarrow> ToolExecution \<Rightarrow> ToolExecution" where
  "settle_tool_row show_json result succeeded now t =
     t\<lparr>tex_status := (if succeeded then ToolExecutionStatus.SUCCEEDED else ToolExecutionStatus.FAILED),
       tex_result := Some result, tex_receipt := (if succeeded then Some result else None),
       tex_error_code := (if succeeded then None else Some (result_code show_json result)),
       tex_updated_at := now\<rparr>"

definition tools_complete ::
  "(json \<Rightarrow> str) \<Rightarrow> uuid \<Rightarrow> str \<Rightarrow> str \<Rightarrow> uuid \<Rightarrow> jdict \<Rightarrow> bool \<Rightarrow> time \<Rightarrow> db \<Rightarrow> bool \<times> db" where
  [repo_defs]: "tools_complete show_json rid action_id owner token result succeeded now s =
     (let p = (\<lambda>t. tex_run_id t = rid \<and> tex_action_id t = action_id
                 \<and> tex_status t = ToolExecutionStatus.IN_PROGRESS
                 \<and> tex_claim_owner t = owner \<and> tex_claim_token t = token)
      in (cnt p (db_tools s) = 1,
          s\<lparr>db_tools := upd p (settle_tool_row show_json result succeeded now) (db_tools s)\<rparr>))"

definition tools_mark_unknown_if_expired :: "uuid \<Rightarrow> time \<Rightarrow> db \<Rightarrow> bool \<times> db" where
  [repo_defs]: "tools_mark_unknown_if_expired eid now s =
     (let p = (\<lambda>t. tex_id t = eid \<and> tex_status t = ToolExecutionStatus.IN_PROGRESS
                 \<and> tex_lease_expires_at t \<le> now \<and> \<not> tex_replay_safe t)
      in (cnt p (db_tools s) = 1,
          s\<lparr>db_tools := upd p (\<lambda>t. t\<lparr>tex_status := ToolExecutionStatus.UNKNOWN_OUTCOME,
            tex_error_code := Some (u ''UNKNOWN_OUTCOME''), tex_updated_at := now\<rparr>)
            (db_tools s)\<rparr>))"

definition tools_reconcile_unknown ::
  "(json \<Rightarrow> str) \<Rightarrow> uuid \<Rightarrow> jdict \<Rightarrow> bool \<Rightarrow> str option \<Rightarrow> time \<Rightarrow> db \<Rightarrow> bool \<times> db" where
  [repo_defs]: "tools_reconcile_unknown show_json eid result succeeded provider_request_id now s =
     (let p = (\<lambda>t. tex_id t = eid \<and> tex_status t = ToolExecutionStatus.UNKNOWN_OUTCOME)
      in (cnt p (db_tools s) = 1,
          s\<lparr>db_tools := upd p (\<lambda>t. (settle_tool_row show_json result succeeded now t)
            \<lparr>tex_provider_request_id := provider_request_id\<rparr>) (db_tools s)\<rparr>))"

end
