(* ===== verification/AutomationEntities.thy ===== *)
theory AutomationEntities
  imports Prelude
begin

text \<open>
  The automation entities, \<open>domain/automations/\<close>: the automation definition and its schedule,
  its materialized occurrences, and the notification records. Conventions as in
  \<open>RuntimeEntities\<close>.
\<close>

section \<open>Value objects\<close>

datatype OccurrenceStatus = MATERIALIZED | SUCCEEDED | NOT_MET | FAILED | CANCELLED | SKIPPED
datatype NotificationKind = REMINDER | CONDITION_MET | CONDITION_WATCH_ENDED
datatype DeliveryStatus = READY | ACCEPTED | DELIVERED | FAILED | UNKNOWN_OUTCOME | CANCELLED
datatype MisfirePolicy = FIRE_ONCE | SKIP
datatype AutomationType = ONE_SHOT | ONCE | RECURRING | RELATIVE | CONDITION_WATCH | CONDITION
datatype AutomationStatus = ACTIVE | PAUSED | COMPLETED | CANCELLED
datatype NotificationStatus = PENDING | SUBMITTED_TO_ADAPTER | FAILED
datatype AttentionSubjectType = THING | TASK | DEADLINE | BLOCKER
datatype AttentionFeedbackAction = SURFACED | ACKNOWLEDGED | DISMISSED

primrec automation_type_value :: "AutomationType \<Rightarrow> str" where
  "automation_type_value AutomationType.ONE_SHOT = u ''ONE_SHOT''"
| "automation_type_value AutomationType.ONCE = u ''ONCE''"
| "automation_type_value AutomationType.RECURRING = u ''RECURRING''"
| "automation_type_value AutomationType.RELATIVE = u ''RELATIVE''"
| "automation_type_value AutomationType.CONDITION_WATCH = u ''CONDITION_WATCH''"
| "automation_type_value AutomationType.CONDITION = u ''CONDITION''"

definition is_one_shot_type :: "str \<Rightarrow> bool" where
  "is_one_shot_type s \<longleftrightarrow> s \<in> {u ''ONE_SHOT'', u ''ONCE'', u ''RELATIVE''}"

lemma is_one_shot_type_value [simp]:
  "is_one_shot_type (automation_type_value a) \<longleftrightarrow>
     a \<in> {AutomationType.ONE_SHOT, AutomationType.ONCE, AutomationType.RELATIVE}"
  by (cases a) (auto simp: is_one_shot_type_def)

lemma is_one_shot_type_u [simp]:
  "is_one_shot_type (u s) \<longleftrightarrow> s \<in> {''ONE_SHOT'', ''ONCE'', ''RELATIVE''}"
  by (simp add: is_one_shot_type_def)

section \<open>Automations\<close>

record Automation =
  aut_user_id :: uuid
  aut_automation_type :: AutomationType
  aut_title :: str
  aut_message :: str
  aut_timezone_name :: str
  aut_next_trigger_at :: "time option"
  aut_idempotency_key :: str
  aut_id :: uuid
  aut_thing_id :: "uuid option"
  aut_task_id :: "uuid option"
  aut_source_id :: "uuid option"
  aut_recurrence_interval_seconds :: "int option"
  aut_definition_revision :: int
  aut_misfire_policy :: MisfirePolicy
  aut_status :: AutomationStatus
  aut_last_triggered_at :: "time option"
  aut_version :: int
  aut_created_at :: time
  aut_updated_at :: time

text \<open>
  \<open>__post_init__\<close> on an automation whose trigger, if any, is the given datetime: it raises
  for a schedule that the type does not allow.
\<close>

definition automation_post_init :: "pydatetime option \<Rightarrow> Automation \<Rightarrow> py_error + Automation" where
  "automation_post_init trigger a =
     (if trigger = None \<and> (\<not> is_one_shot_type (automation_type_value (aut_automation_type a))
                            \<or> aut_last_triggered_at a = None)
      then Inl (ValueError (u ''Only a materialized one-shot Automation may clear its trigger.''))
      else if (case trigger of None \<Rightarrow> False | Some n \<Rightarrow> \<not> is_aware n)
      then Inl (ValueError (u ''Automation trigger must include timezone information.''))
      else if aut_automation_type a = AutomationType.RECURRING then
        (case aut_recurrence_interval_seconds a of
           None \<Rightarrow> Inl (ValueError (u ''Recurring Automation interval must be at least 60 seconds.''))
         | Some n \<Rightarrow>
             if n < 60
             then Inl (ValueError (u ''Recurring Automation interval must be at least 60 seconds.''))
             else Inr (a\<lparr>aut_next_trigger_at := map_option instant trigger\<rparr>))
      else if aut_recurrence_interval_seconds a \<noteq> None
      then Inl (ValueError (u ''Only a recurring Automation can define an interval.''))
      else Inr (a\<lparr>aut_next_trigger_at := map_option instant trigger\<rparr>))"

definition automation_cancel :: "time \<Rightarrow> Automation \<Rightarrow> Automation" where
  [entity_defs]: "automation_cancel now a =
     (if aut_status a \<in> {AutomationStatus.COMPLETED, AutomationStatus.CANCELLED} then a
      else a\<lparr>aut_status := AutomationStatus.CANCELLED, aut_updated_at := now,
             aut_version := aut_version a + 1\<rparr>)"

definition automation_pause :: "time \<Rightarrow> Automation \<Rightarrow> py_error + Automation" where
  [entity_defs]: "automation_pause now a =
     (if aut_status a \<noteq> AutomationStatus.ACTIVE
      then Inl (ValueError (u ''Only an active Automation can be paused.''))
      else Inr (a\<lparr>aut_status := AutomationStatus.PAUSED, aut_updated_at := now,
                  aut_version := aut_version a + 1\<rparr>))"

definition automation_resume :: "time \<Rightarrow> Automation \<Rightarrow> py_error + Automation" where
  [entity_defs]: "automation_resume now a =
     (if aut_status a \<noteq> AutomationStatus.PAUSED
      then Inl (ValueError (u ''Only a paused Automation can be resumed.''))
      else Inr (a\<lparr>aut_status := AutomationStatus.ACTIVE, aut_updated_at := now,
                  aut_version := aut_version a + 1\<rparr>))"

text \<open>
  \<open>mark_triggered\<close>: a one-shot loses its trigger, a recurring one moves it past \<open>occurred_at\<close>
  by its interval (its missing interval is the \<open>assert\<close>), the other types keep it.
\<close>

definition automation_mark_triggered :: "time \<Rightarrow> Automation \<Rightarrow> py_error + Automation" where
  [entity_defs]: "automation_mark_triggered occurred_at a =
     (let a1 = a\<lparr>aut_last_triggered_at := Some occurred_at\<rparr>;
          done = (\<lambda>b. Inr (b\<lparr>aut_updated_at := occurred_at, aut_version := aut_version b + 1\<rparr>)) in
      if is_one_shot_type (automation_type_value (aut_automation_type a))
      then done (a1\<lparr>aut_next_trigger_at := None\<rparr>)
      else if aut_automation_type a = AutomationType.RECURRING
      then (case aut_recurrence_interval_seconds a of
              None \<Rightarrow> Inl AssertionError
            | Some n \<Rightarrow> done (a1\<lparr>aut_next_trigger_at := Some (occurred_at + n * 1000000)\<rparr>))
      else done a1)"

definition automation_complete_one_shot :: "time \<Rightarrow> Automation \<Rightarrow> Automation" where
  [entity_defs]: "automation_complete_one_shot now a =
     (if is_one_shot_type (automation_type_value (aut_automation_type a))
         \<and> aut_status a = AutomationStatus.ACTIVE
      then a\<lparr>aut_status := AutomationStatus.COMPLETED, aut_updated_at := now,
             aut_version := aut_version a + 1\<rparr>
      else a)"

definition automation_bump_definition_revision :: "time \<Rightarrow> Automation \<Rightarrow> Automation" where
  [entity_defs]: "automation_bump_definition_revision now a =
     a\<lparr>aut_definition_revision := aut_definition_revision a + 1, aut_updated_at := now,
       aut_version := aut_version a + 1\<rparr>"

section \<open>Occurrences and notifications\<close>

record AutomationOccurrence =
  occ_user_id :: uuid
  occ_automation_id :: uuid
  occ_definition_revision :: int
  occ_scheduled_for :: time
  occ_id :: uuid
  occ_status :: OccurrenceStatus
  occ_durable_job_id :: "uuid option"
  occ_materialized_at :: time
  occ_settled_at :: "time option"
  occ_created_at :: time

definition occurrence_succeed :: "time \<Rightarrow> AutomationOccurrence \<Rightarrow> AutomationOccurrence" where
  [entity_defs]: "occurrence_succeed now o' =
     o'\<lparr>occ_status := OccurrenceStatus.SUCCEEDED, occ_settled_at := Some now\<rparr>"

definition occurrence_skip :: "time \<Rightarrow> AutomationOccurrence \<Rightarrow> AutomationOccurrence" where
  [entity_defs]: "occurrence_skip now o' =
     o'\<lparr>occ_status := OccurrenceStatus.SKIPPED, occ_settled_at := Some now\<rparr>"

definition occurrence_fail :: "time \<Rightarrow> AutomationOccurrence \<Rightarrow> AutomationOccurrence" where
  [entity_defs]: "occurrence_fail now o' =
     o'\<lparr>occ_status := OccurrenceStatus.FAILED, occ_settled_at := Some now\<rparr>"

record NotificationIntent =
  nti_user_id :: uuid
  nti_kind :: NotificationKind
  nti_title :: str
  nti_body :: str
  nti_occurrence_id :: uuid
  nti_automation_id :: uuid
  nti_dedupe_key :: str
  nti_thing_id :: "uuid option"
  nti_id :: uuid
  nti_created_at :: time

record NotificationDelivery =
  ntd_user_id :: uuid
  ntd_intent_id :: uuid
  ntd_endpoint_id :: uuid
  ntd_id :: uuid
  ntd_status :: DeliveryStatus
  ntd_attempt_count :: int
  ntd_provider_message_id :: "str option"
  ntd_error_code :: "str option"
  ntd_created_at :: time
  ntd_updated_at :: time

definition delivery_accepted :: "time \<Rightarrow> str option \<Rightarrow> NotificationDelivery \<Rightarrow> NotificationDelivery" where
  [entity_defs]: "delivery_accepted now provider_message_id d =
     d\<lparr>ntd_status := DeliveryStatus.ACCEPTED, ntd_attempt_count := ntd_attempt_count d + 1,
       ntd_provider_message_id := provider_message_id, ntd_updated_at := now\<rparr>"

definition delivery_failed :: "time \<Rightarrow> str \<Rightarrow> NotificationDelivery \<Rightarrow> NotificationDelivery" where
  [entity_defs]: "delivery_failed now error_code d =
     d\<lparr>ntd_status := DeliveryStatus.FAILED, ntd_attempt_count := ntd_attempt_count d + 1,
       ntd_error_code := Some error_code, ntd_updated_at := now\<rparr>"

record PushEndpoint =
  pep_user_id :: uuid
  pep_device_id :: uuid
  pep_push_token :: str
  pep_provider :: str
  pep_active :: bool
  pep_notifications_enabled :: bool
  pep_id :: uuid
  pep_last_registered_at :: time
  pep_invalidated_at :: "time option"
  pep_created_at :: time
  pep_updated_at :: time

record NotificationOutbox =
  nob_user_id :: uuid
  nob_automation_id :: uuid
  nob_occurrence_key :: str
  nob_title :: str
  nob_message :: str
  nob_id :: uuid
  nob_thing_id :: "uuid option"
  nob_status :: NotificationStatus
  nob_attempt_count :: int
  nob_submitted_at :: "time option"
  nob_error_code :: "str option"
  nob_claim_owner :: "str option"
  nob_lease_expires_at :: "time option"
  nob_next_attempt_at :: "time option"
  nob_created_at :: time
  nob_updated_at :: time

definition outbox_submitted :: "time \<Rightarrow> NotificationOutbox \<Rightarrow> NotificationOutbox" where
  [entity_defs]: "outbox_submitted now n =
     n\<lparr>nob_status := NotificationStatus.SUBMITTED_TO_ADAPTER,
       nob_attempt_count := nob_attempt_count n + 1, nob_submitted_at := Some now,
       nob_updated_at := now, nob_claim_owner := None, nob_lease_expires_at := None,
       nob_next_attempt_at := None\<rparr>"

definition outbox_failed :: "time \<Rightarrow> str \<Rightarrow> time option \<Rightarrow> NotificationOutbox \<Rightarrow> NotificationOutbox" where
  [entity_defs]: "outbox_failed now error_code retry_at n =
     n\<lparr>nob_status := NotificationStatus.FAILED, nob_attempt_count := nob_attempt_count n + 1,
       nob_error_code := Some error_code, nob_updated_at := now, nob_claim_owner := None,
       nob_lease_expires_at := None, nob_next_attempt_at := retry_at\<rparr>"

record AttentionCandidate =
  atc_subject_type :: AttentionSubjectType
  atc_subject_id :: uuid
  atc_thing_id :: uuid
  atc_candidate_type :: str
  atc_severity :: str
  atc_summary :: str
  atc_due_at :: "time option"
  atc_last_surfaced_at :: "time option"
  atc_next_eligible_at :: "time option"
  atc_acknowledged :: bool

section \<open>Schedule invariant\<close>

text \<open>
  What \<open>__post_init__\<close> accepts: only a triggered one-shot lacks a trigger, exactly the
  recurring automations have an interval, of at least a minute.
\<close>

definition automation_schedule_ok :: "Automation \<Rightarrow> bool" where
  "automation_schedule_ok a \<longleftrightarrow>
     (aut_next_trigger_at a = None \<longrightarrow>
        aut_automation_type a \<in> {AutomationType.ONE_SHOT, AutomationType.ONCE, AutomationType.RELATIVE}
        \<and> aut_last_triggered_at a \<noteq> None) \<and>
     (if aut_automation_type a = AutomationType.RECURRING
      then \<exists>n. aut_recurrence_interval_seconds a = Some n \<and> 60 \<le> n
      else aut_recurrence_interval_seconds a = None)"

lemma automation_post_init_ok:
  assumes "automation_post_init trigger a = Inr a'"
  shows "automation_schedule_ok a'"
proof -
  have "(trigger = None \<longrightarrow> aut_automation_type a \<in> {AutomationType.ONE_SHOT, AutomationType.ONCE, AutomationType.RELATIVE}
      \<and> aut_last_triggered_at a \<noteq> None)"
    using assms by (auto simp: automation_post_init_def split: if_splits)
  then show ?thesis
    using assms
    by (auto simp: automation_post_init_def automation_schedule_ok_def split: if_splits option.splits)
qed

lemma automation_schedule_kept:
  "automation_schedule_ok a \<Longrightarrow> automation_schedule_ok (automation_cancel now a)"
  "automation_schedule_ok a \<Longrightarrow> automation_pause now a = Inr a' \<Longrightarrow> automation_schedule_ok a'"
  "automation_schedule_ok a \<Longrightarrow> automation_resume now a = Inr a' \<Longrightarrow> automation_schedule_ok a'"
  "automation_schedule_ok a \<Longrightarrow> automation_schedule_ok (automation_complete_one_shot now a)"
  "automation_schedule_ok a \<Longrightarrow> automation_schedule_ok (automation_bump_definition_revision now a)"
  by (auto simp: automation_schedule_ok_def entity_defs split: if_splits)

lemma automation_mark_triggered_total:
  assumes "automation_schedule_ok a"
  shows "\<exists>a'. automation_mark_triggered t a = Inr a'"
  using assms
  by (auto simp: automation_schedule_ok_def automation_mark_triggered_def Let_def split: option.splits)

lemma automation_mark_triggered_ok:
  assumes "automation_schedule_ok a" and "automation_mark_triggered t a = Inr a'"
  shows "automation_schedule_ok a'" and "aut_version a' = aut_version a + 1"
    and "aut_last_triggered_at a' = Some t"
    and "aut_automation_type a = AutomationType.RECURRING \<Longrightarrow>
           (\<exists>n. aut_next_trigger_at a' = Some n \<and> t + 60000000 \<le> n)"
  using assms
  by (auto simp: automation_schedule_ok_def automation_mark_triggered_def Let_def
      split: if_splits option.splits)

end
