(* ===== verification/StateStore.thy ===== *)
theory StateStore
  imports Interfaces RuntimeStore AutomationEntities
begin

text \<open>
  The tables of the personal state and of the automations beside the runtime's (\<open>core\<close>), and
  the repositories of \<open>infrastructure/persistence/repositories/personal_state.py\<close>. Conventions as
  in \<open>RuntimeStore\<close>: primary keys, unique constraints and the check constraints of
  \<open>orm/personal_state.py\<close> are respected, the length limits of text columns are not modelled, and
  every foreign key the operations write is a row the operation has just read or written.
\<close>

section \<open>The store\<close>

record ThingSource =
  tsr_thing_id :: uuid
  tsr_source_id :: uuid
  tsr_relation_type :: SourceRelationType
  tsr_relevance :: rat
  tsr_created_at :: time

record AutomationOperation =
  aop_user_id :: uuid
  aop_automation_id :: uuid
  aop_idempotency_key :: str
  aop_target_version :: int

record AttentionFeedback =
  atf_user_id :: uuid
  atf_subject_type :: AttentionSubjectType
  atf_subject_id :: uuid
  atf_last_surfaced_at :: "time option"
  atf_surface_count :: int
  atf_acknowledged_at :: "time option"
  atf_dismissed_until :: "time option"
  atf_updated_at :: time

record store =
  core :: db
  st_tasks :: "Task list"
  st_dates :: "ThingDate list"
  st_entries :: "ThingContextEntry list"
  st_blockers :: "Blocker list"
  st_relations :: "ThingRelation list"
  st_thing_sources :: "ThingSource list"
  st_mutations :: "StateMutation list"
  st_timeline :: "TimelineEvent list"
  st_memories :: "Memory list"
  st_automations :: "Automation list"
  st_automation_ops :: "AutomationOperation list"
  st_occurrences :: "AutomationOccurrence list"
  st_intents :: "NotificationIntent list"
  st_deliveries :: "NotificationDelivery list"
  st_endpoints :: "PushEndpoint list"
  st_outbox :: "NotificationOutbox list"
  st_feedback :: "AttentionFeedback list"

definition empty_store :: store where
  "empty_store = \<lparr>core = empty_db, st_tasks = [], st_dates = [], st_entries = [], st_blockers = [],
     st_relations = [], st_thing_sources = [], st_mutations = [], st_timeline = [], st_memories = [],
     st_automations = [], st_automation_ops = [], st_occurrences = [], st_intents = [],
     st_deliveries = [], st_endpoints = [], st_outbox = [], st_feedback = []\<rparr>"

text \<open>An operation of a unit of work: it raises, or returns a value and the new store.\<close>

type_synonym 'a op = "py_error + ('a \<times> store)"

text \<open>The tables of things and jobs are the runtime's.\<close>

definition set_things :: "Thing list \<Rightarrow> store \<Rightarrow> store" where
  "set_things ts s = s\<lparr>core := (core s)\<lparr>db_things := ts\<rparr>\<rparr>"

abbreviation st_things :: "store \<Rightarrow> Thing list" where
  "st_things s \<equiv> db_things (core s)"

lemma set_things_simps [simp]:
  "core (set_things ts s) = (core s)\<lparr>db_things := ts\<rparr>" "st_tasks (set_things ts s) = st_tasks s"
  "st_dates (set_things ts s) = st_dates s" "st_entries (set_things ts s) = st_entries s"
  "st_blockers (set_things ts s) = st_blockers s" "st_relations (set_things ts s) = st_relations s"
  "st_thing_sources (set_things ts s) = st_thing_sources s"
  "st_mutations (set_things ts s) = st_mutations s" "st_timeline (set_things ts s) = st_timeline s"
  "st_automations (set_things ts s) = st_automations s"
  by (simp_all add: set_things_def)

definition users_ensure :: "time \<Rightarrow> uuid \<Rightarrow> store \<Rightarrow> store" where
  [repo_defs]: "users_ensure now user_id s = s\<lparr>core := users_ensure_exists now user_id (core s)\<rparr>"

text \<open>An update that must respect a unique index: no two rows of the result clash.\<close>

fun clash_free :: "('r \<Rightarrow> 'r \<Rightarrow> bool) \<Rightarrow> 'r list \<Rightarrow> bool" where
  "clash_free clash [] = True"
| "clash_free clash (r # t) = ((\<forall>x \<in> set t. \<not> clash r x \<and> \<not> clash x r) \<and> clash_free clash t)"

definition upd_unique ::
  "('r \<Rightarrow> 'r \<Rightarrow> bool) \<Rightarrow> ('r \<Rightarrow> bool) \<Rightarrow> ('r \<Rightarrow> 'r) \<Rightarrow> 'r list \<Rightarrow> py_error + 'r list" where
  "upd_unique clash p f t =
     (if clash_free clash (upd p f t) then Inr (upd p f t) else Inl IntegrityError)"

lemma upd_unique_Inr [simp]:
  "upd_unique clash p f t = Inr t' \<longleftrightarrow> t' = upd p f t \<and> clash_free clash t'"
  by (auto simp: upd_unique_def)

lemma clash_free_snoc [simp]:
  "clash_free clash (t @ [r]) \<longleftrightarrow> clash_free clash t \<and> (\<forall>x \<in> set t. \<not> clash x r \<and> \<not> clash r x)"
  by (induction t) auto

section \<open>Things\<close>

definition things_add :: "Thing \<Rightarrow> store \<Rightarrow> py_error + store" where
  [repo_defs]: "things_add t s =
     bindE (ins (\<lambda>x y. thing_id x = thing_id y) t (st_things s)) (\<lambda>rows. Inr (set_things rows s))"

definition things_get_including_deleted :: "uuid \<Rightarrow> uuid \<Rightarrow> store \<Rightarrow> Thing option" where
  [repo_defs]: "things_get_including_deleted user_id tid s =
     sel1 (\<lambda>t. thing_id t = tid \<and> thing_user_id t = user_id) (st_things s)"

text \<open>\<open>lower\<close> is the case folding of the database, see \<open>ilike_contains\<close>.\<close>

definition things_list_for_user ::
  "(nat \<Rightarrow> nat) \<Rightarrow> uuid \<Rightarrow> ThingStatus option \<Rightarrow> str option \<Rightarrow> uuid option \<Rightarrow> nat \<Rightarrow> store
    \<Rightarrow> Thing list" where
  [repo_defs]: "things_list_for_user lower user_id status query cursor limit s =
     take limit (sort_key (\<lambda>t. - uint (thing_id t))
       (sel (\<lambda>t. thing_user_id t = user_id \<and> thing_archived_at t = None
          \<and> thing_merged_into t = None \<and> thing_deleted_at t = None
          \<and> (case status of None \<Rightarrow> True | Some x \<Rightarrow> thing_status t = x)
          \<and> (case query of None \<Rightarrow> True
             | Some q \<Rightarrow> q = [] \<or> ilike_contains lower q (thing_name t))
          \<and> (case cursor of None \<Rightarrow> True | Some c \<Rightarrow> thing_id t < c)) (st_things s)))"

definition copy_thing :: "Thing \<Rightarrow> Thing \<Rightarrow> Thing" where
  "copy_thing x t =
     t\<lparr>thing_name := thing_name x, thing_status := thing_status x,
       thing_current_stage := thing_current_stage x, thing_deadline_at := thing_deadline_at x,
       thing_archived_at := thing_archived_at x, thing_merged_into := thing_merged_into x,
       thing_deleted_at := thing_deleted_at x, thing_version := thing_version x,
       thing_updated_at := thing_updated_at x\<rparr>"

definition things_update :: "Thing \<Rightarrow> int \<Rightarrow> store \<Rightarrow> bool \<times> store" where
  [repo_defs]: "things_update x expected_version s =
     (case cas_rows thing_id thing_version copy_thing x expected_version (st_things s) of
        (won, rows) \<Rightarrow> (won, set_things rows s))"

definition things_detach_tasks :: "uuid \<Rightarrow> store \<Rightarrow> store" where
  [repo_defs]: "things_detach_tasks tid s =
     s\<lparr>st_tasks := upd (\<lambda>t. task_thing_id t = Some tid) (\<lambda>t. t\<lparr>task_thing_id := None\<rparr>) (st_tasks s)\<rparr>"

definition things_delete_owned_components :: "uuid \<Rightarrow> store \<Rightarrow> store" where
  [repo_defs]: "things_delete_owned_components tid s =
     s\<lparr>st_entries := filter (\<lambda>c. ctx_thing_id c \<noteq> tid) (st_entries s),
       st_dates := filter (\<lambda>d. tdate_thing_id d \<noteq> tid) (st_dates s),
       st_blockers := filter (\<lambda>b. blk_thing_id b \<noteq> tid) (st_blockers s),
       st_thing_sources := filter (\<lambda>x. tsr_thing_id x \<noteq> tid) (st_thing_sources s),
       st_relations := filter (\<lambda>r. \<not> (rel_from_thing_id r = tid \<or> rel_to_thing_id r = tid))
         (st_relations s)\<rparr>"

text \<open>The partial unique index of the dates: one primary date per thing and kind.\<close>

definition primary_clash :: "ThingDate \<Rightarrow> ThingDate \<Rightarrow> bool" where
  "primary_clash x y \<longleftrightarrow> tdate_is_primary x \<and> tdate_is_primary y \<and>
     tdate_thing_id x = tdate_thing_id y \<and> tdate_kind x = tdate_kind y"

text \<open>
  \<open>rebind_merged_references\<close>: one \<open>UPDATE\<close> per table in the order of the code, then the links to
  sources, of which those the canonical thing already has are dropped.
\<close>

definition copied_sources :: "uuid \<Rightarrow> uuid \<Rightarrow> ThingSource list \<Rightarrow> ThingSource list" where
  "copied_sources dup canon rows =
     (let taken = tsr_source_id ` set (sel (\<lambda>x. tsr_thing_id x = canon) rows) in
      map (\<lambda>x. x\<lparr>tsr_thing_id := canon\<rparr>)
        (sel (\<lambda>x. tsr_thing_id x = dup \<and> tsr_source_id x \<notin> taken) rows))"

definition things_rebind_merged_references :: "uuid \<Rightarrow> uuid \<Rightarrow> store \<Rightarrow> py_error + store" where
  [repo_defs]: "things_rebind_merged_references dup canon s =
     (let s1 = s\<lparr>st_tasks := upd (\<lambda>t. task_thing_id t = Some dup)
           (\<lambda>t. t\<lparr>task_thing_id := Some canon\<rparr>) (st_tasks s)\<rparr> in
      bindE (upd_unique primary_clash (\<lambda>d. tdate_thing_id d = dup)
           (\<lambda>d. d\<lparr>tdate_thing_id := canon\<rparr>) (st_dates s1)) (\<lambda>dates.
      Inr (s1\<lparr>st_dates := dates,
        st_blockers := upd (\<lambda>b. blk_thing_id b = dup) (\<lambda>b. b\<lparr>blk_thing_id := canon\<rparr>) (st_blockers s),
        st_entries := upd (\<lambda>c. ctx_thing_id c = dup) (\<lambda>c. c\<lparr>ctx_thing_id := canon\<rparr>) (st_entries s),
        st_automations := upd (\<lambda>a. aut_thing_id a = Some dup) (\<lambda>a. a\<lparr>aut_thing_id := Some canon\<rparr>)
          (st_automations s),
        st_outbox := upd (\<lambda>n. nob_thing_id n = Some dup) (\<lambda>n. n\<lparr>nob_thing_id := Some canon\<rparr>)
          (st_outbox s),
        st_memories := upd (\<lambda>m. mem_thing_id m = Some dup) (\<lambda>m. m\<lparr>mem_thing_id := Some canon\<rparr>)
          (st_memories s),
        core := (core s)\<lparr>db_threads := upd (\<lambda>x. thr_active_thing_id x = Some dup)
          (\<lambda>x. x\<lparr>thr_active_thing_id := Some canon\<rparr>) (db_threads (core s))\<rparr>,
        st_thing_sources := filter (\<lambda>x. tsr_thing_id x \<noteq> dup)
          (st_thing_sources s @ copied_sources dup canon (st_thing_sources s))\<rparr>)))"

definition things_list_upcoming :: "uuid \<Rightarrow> time \<Rightarrow> time \<Rightarrow> nat \<Rightarrow> store \<Rightarrow> Thing list" where
  [repo_defs]: "things_list_upcoming user_id now window_end limit s =
     take limit (sort_key (\<lambda>t. (the (thing_deadline_at t), thing_id t))
       (sel (\<lambda>t. thing_user_id t = user_id \<and> thing_archived_at t = None \<and> thing_merged_into t = None
          \<and> (case thing_deadline_at t of None \<Rightarrow> False | Some d \<Rightarrow> now \<le> d \<and> d \<le> window_end))
          (st_things s)))"

definition newest_first :: "Thing \<Rightarrow> int \<times> int" where
  "newest_first t = (- thing_updated_at t, - uint (thing_id t))"

definition things_list_active :: "uuid \<Rightarrow> nat \<Rightarrow> store \<Rightarrow> Thing list" where
  [repo_defs]: "things_list_active user_id limit s =
     take limit (sort_key newest_first
       (sel (\<lambda>t. thing_user_id t = user_id \<and> thing_archived_at t = None \<and> thing_merged_into t = None
          \<and> thing_status t = ThingStatus.ACTIVE) (st_things s)))"

definition things_list_recent :: "uuid \<Rightarrow> nat \<Rightarrow> store \<Rightarrow> Thing list" where
  [repo_defs]: "things_list_recent user_id limit s =
     take limit (sort_key newest_first
       (sel (\<lambda>t. thing_user_id t = user_id \<and> thing_archived_at t = None \<and> thing_merged_into t = None)
          (st_things s)))"

section \<open>Dates\<close>

definition date_clash :: "ThingDate \<Rightarrow> ThingDate \<Rightarrow> bool" where
  "date_clash x y \<longleftrightarrow> tdate_id x = tdate_id y \<or> primary_clash x y"

definition dates_add :: "ThingDate \<Rightarrow> store \<Rightarrow> py_error + store" where
  [repo_defs]: "dates_add d s =
     bindE (ins date_clash d (st_dates s)) (\<lambda>rows. Inr (s\<lparr>st_dates := rows\<rparr>))"

definition dates_unset_primary :: "uuid \<Rightarrow> ThingDateType \<Rightarrow> store \<Rightarrow> store" where
  [repo_defs]: "dates_unset_primary tid kind s =
     s\<lparr>st_dates := upd (\<lambda>d. tdate_thing_id d = tid \<and> tdate_kind d = kind \<and> tdate_is_primary d)
        (\<lambda>d. d\<lparr>tdate_is_primary := False\<rparr>) (st_dates s)\<rparr>"

text \<open>The join with the things of the user, for the tables that carry no user of their own.\<close>

definition owned :: "uuid \<Rightarrow> store \<Rightarrow> uuid \<Rightarrow> bool" where
  "owned user_id s tid \<longleftrightarrow> (\<exists>t \<in> set (st_things s). thing_id t = tid \<and> thing_user_id t = user_id)"

definition dates_list_for_thing :: "uuid \<Rightarrow> uuid \<Rightarrow> nat \<Rightarrow> store \<Rightarrow> ThingDate list" where
  [repo_defs]: "dates_list_for_thing user_id tid limit s =
     take limit (sort_key (\<lambda>d. (tdate_value d, tdate_id d))
       (sel (\<lambda>d. tdate_thing_id d = tid \<and> owned user_id s (tdate_thing_id d)) (st_dates s)))"

definition dates_get :: "uuid \<Rightarrow> uuid \<Rightarrow> store \<Rightarrow> ThingDate option" where
  [repo_defs]: "dates_get user_id did s =
     sel1 (\<lambda>d. tdate_id d = did \<and> owned user_id s (tdate_thing_id d)) (st_dates s)"

definition copy_date :: "ThingDate \<Rightarrow> ThingDate \<Rightarrow> ThingDate" where
  "copy_date x d =
     d\<lparr>tdate_value := tdate_value x, tdate_timezone_name := tdate_timezone_name x,
       tdate_precision := tdate_precision x, tdate_certainty := tdate_certainty x,
       tdate_is_primary := tdate_is_primary x, tdate_version := tdate_version x,
       tdate_updated_at := tdate_updated_at x\<rparr>"

definition dates_update :: "ThingDate \<Rightarrow> int \<Rightarrow> store \<Rightarrow> py_error + (bool \<times> store)" where
  [repo_defs]: "dates_update x expected_version s =
     (case cas_rows tdate_id tdate_version copy_date x expected_version (st_dates s) of
        (won, rows) \<Rightarrow>
          if clash_free primary_clash rows then Inr (won, s\<lparr>st_dates := rows\<rparr>)
          else Inl IntegrityError)"

section \<open>Context entries\<close>

definition entries_add :: "ThingContextEntry \<Rightarrow> store \<Rightarrow> py_error + store" where
  [repo_defs]: "entries_add c s =
     bindE (ins (\<lambda>x y. ctx_id x = ctx_id y) c (st_entries s)) (\<lambda>rows. Inr (s\<lparr>st_entries := rows\<rparr>))"

definition entries_get :: "uuid \<Rightarrow> uuid \<Rightarrow> store \<Rightarrow> ThingContextEntry option" where
  [repo_defs]: "entries_get user_id cid s =
     sel1 (\<lambda>c. ctx_id c = cid \<and> owned user_id s (ctx_thing_id c)) (st_entries s)"

definition entries_list_for_thing :: "uuid \<Rightarrow> uuid \<Rightarrow> store \<Rightarrow> ThingContextEntry list" where
  [repo_defs]: "entries_list_for_thing user_id tid s =
     sort_key (\<lambda>c. (- ctx_updated_at c, - uint (ctx_id c)))
       (sel (\<lambda>c. ctx_thing_id c = tid \<and> owned user_id s (ctx_thing_id c)) (st_entries s))"

definition copy_entry :: "ThingContextEntry \<Rightarrow> ThingContextEntry \<Rightarrow> ThingContextEntry" where
  "copy_entry x c =
     c\<lparr>ctx_label := ctx_label x, ctx_content := ctx_content x, ctx_version := ctx_version x,
       ctx_updated_at := ctx_updated_at x\<rparr>"

definition entries_update :: "ThingContextEntry \<Rightarrow> int \<Rightarrow> store \<Rightarrow> bool \<times> store" where
  [repo_defs]: "entries_update x expected_version s =
     (case cas_rows ctx_id ctx_version copy_entry x expected_version (st_entries s) of
        (won, rows) \<Rightarrow> (won, s\<lparr>st_entries := rows\<rparr>))"

section \<open>Tasks\<close>

text \<open>The check constraint: a recurring task has a due time and a positive interval.\<close>

definition task_check :: "Task \<Rightarrow> bool" where
  "task_check t \<longleftrightarrow> (case task_recurrence_interval_days t of None \<Rightarrow> True
     | Some days \<Rightarrow> 0 < days \<and> task_due_at t \<noteq> None)"

definition tasks_add :: "Task \<Rightarrow> store \<Rightarrow> py_error + store" where
  [repo_defs]: "tasks_add t s =
     bindE (require (task_check t) IntegrityError) (\<lambda>_.
     bindE (ins (\<lambda>x y. task_id x = task_id y) t (st_tasks s)) (\<lambda>rows. Inr (s\<lparr>st_tasks := rows\<rparr>)))"

definition tasks_get :: "uuid \<Rightarrow> uuid \<Rightarrow> store \<Rightarrow> Task option" where
  [repo_defs]: "tasks_get user_id tid s =
     sel1 (\<lambda>t. task_id t = tid \<and> task_user_id t = user_id) (st_tasks s)"

definition oldest_first :: "Task \<Rightarrow> time \<times> uuid" where
  "oldest_first t = (task_created_at t, task_id t)"

definition tasks_list_for_thing :: "uuid \<Rightarrow> uuid \<Rightarrow> store \<Rightarrow> Task list" where
  [repo_defs]: "tasks_list_for_thing user_id tid s =
     sort_key oldest_first
       (sel (\<lambda>t. task_thing_id t = Some tid \<and> task_user_id t = user_id) (st_tasks s))"

definition tasks_list_standalone :: "uuid \<Rightarrow> store \<Rightarrow> Task list" where
  [repo_defs]: "tasks_list_standalone user_id s =
     sort_key oldest_first (sel (\<lambda>t. task_user_id t = user_id \<and> task_thing_id t = None) (st_tasks s))"

definition copy_task :: "Task \<Rightarrow> Task \<Rightarrow> Task" where
  "copy_task x t =
     t\<lparr>task_status := task_status x, task_version := task_version x,
       task_completed_at := task_completed_at x, task_due_at := task_due_at x,
       task_recurrence_interval_days := task_recurrence_interval_days x,
       task_updated_at := task_updated_at x\<rparr>"

definition tasks_update :: "Task \<Rightarrow> int \<Rightarrow> store \<Rightarrow> bool \<times> store" where
  [repo_defs]: "tasks_update x expected_version s =
     (case cas_rows task_id task_version copy_task x expected_version (st_tasks s) of
        (won, rows) \<Rightarrow> (won, s\<lparr>st_tasks := rows\<rparr>))"

text \<open>
  \<open>count_open\<close>: the groups of the open tasks of the given things, as a dictionary: a thing with
  none has no entry.
\<close>

definition tasks_count_open :: "uuid \<Rightarrow> uuid list \<Rightarrow> store \<Rightarrow> uuid \<Rightarrow> nat option" where
  [repo_defs]: "tasks_count_open user_id thing_ids s = (\<lambda>tid.
     (let n = cnt (\<lambda>t. task_thing_id t = Some tid \<and> task_user_id t = user_id
             \<and> task_status t = TaskStatus.TODO) (st_tasks s)
      in if tid \<in> set thing_ids \<and> 0 < n then Some n else None))"

section \<open>The audit trail\<close>

text \<open>The idempotency key of a mutation is unique for all users; it is looked up per user.\<close>

definition mutation_clash :: "StateMutation \<Rightarrow> StateMutation \<Rightarrow> bool" where
  "mutation_clash x m \<longleftrightarrow> mut_id x = mut_id m \<or> mut_idempotency_key x = mut_idempotency_key m"

definition audit_get_mutation :: "uuid \<Rightarrow> str \<Rightarrow> store \<Rightarrow> StateMutation option" where
  [repo_defs]: "audit_get_mutation user_id key s =
     sel1 (\<lambda>m. mut_user_id m = user_id \<and> mut_idempotency_key m = key) (st_mutations s)"

definition audit_add_mutation :: "StateMutation \<Rightarrow> store \<Rightarrow> py_error + store" where
  [repo_defs]: "audit_add_mutation m s =
     bindE (ins mutation_clash m (st_mutations s)) (\<lambda>rows. Inr (s\<lparr>st_mutations := rows\<rparr>))"

definition audit_add_timeline_event :: "TimelineEvent \<Rightarrow> store \<Rightarrow> py_error + store" where
  [repo_defs]: "audit_add_timeline_event ev s =
     bindE (ins (\<lambda>x y. tle_id x = tle_id y) ev (st_timeline s))
       (\<lambda>rows. Inr (s\<lparr>st_timeline := rows\<rparr>))"

definition audit_list_timeline ::
  "uuid \<Rightarrow> uuid \<Rightarrow> str option \<Rightarrow> nat \<Rightarrow> store \<Rightarrow> TimelineEvent list" where
  [repo_defs]: "audit_list_timeline user_id tid event_type limit s =
     take limit (sort_key (\<lambda>ev. (- tle_occurred_at ev, - uint (tle_id ev)))
       (sel (\<lambda>ev. tle_user_id ev = user_id \<and> tle_thing_id ev = tid
          \<and> (case event_type of None \<Rightarrow> True | Some ty \<Rightarrow> tle_event_type ev = ty)) (st_timeline s)))"

definition audit_list_mutations :: "uuid \<Rightarrow> uuid \<Rightarrow> nat \<Rightarrow> store \<Rightarrow> StateMutation list" where
  [repo_defs]: "audit_list_mutations user_id tid limit s =
     take limit (sort_key (\<lambda>m. (- mut_created_at m, - uint (mut_id m)))
       (sel (\<lambda>m. mut_user_id m = user_id \<and> mut_thing_id m = Some tid) (st_mutations s)))"

section \<open>Blockers and relations\<close>

definition blockers_add :: "Blocker \<Rightarrow> store \<Rightarrow> py_error + store" where
  [repo_defs]: "blockers_add b s =
     bindE (ins (\<lambda>x y. blk_id x = blk_id y) b (st_blockers s)) (\<lambda>rows. Inr (s\<lparr>st_blockers := rows\<rparr>))"

definition blockers_get :: "uuid \<Rightarrow> uuid \<Rightarrow> store \<Rightarrow> Blocker option" where
  [repo_defs]: "blockers_get user_id bid s =
     sel1 (\<lambda>b. blk_id b = bid \<and> owned user_id s (blk_thing_id b)) (st_blockers s)"

definition blockers_list_for_thing :: "uuid \<Rightarrow> uuid \<Rightarrow> store \<Rightarrow> Blocker list" where
  [repo_defs]: "blockers_list_for_thing user_id tid s =
     sort_key (\<lambda>b. (- blk_created_at b, - uint (blk_id b)))
       (sel (\<lambda>b. blk_thing_id b = tid \<and> owned user_id s (blk_thing_id b)) (st_blockers s))"

definition copy_blocker :: "Blocker \<Rightarrow> Blocker \<Rightarrow> Blocker" where
  "copy_blocker x b =
     b\<lparr>blk_status := blk_status x, blk_resolved_at := blk_resolved_at x,
       blk_version := blk_version x, blk_updated_at := blk_updated_at x\<rparr>"

definition blockers_update :: "Blocker \<Rightarrow> int \<Rightarrow> store \<Rightarrow> bool \<times> store" where
  [repo_defs]: "blockers_update x expected_version s =
     (case cas_rows blk_id blk_version copy_blocker x expected_version (st_blockers s) of
        (won, rows) \<Rightarrow> (won, s\<lparr>st_blockers := rows\<rparr>))"

text \<open>The join of the open blockers with their things.\<close>

definition blockers_list_open :: "uuid \<Rightarrow> nat \<Rightarrow> store \<Rightarrow> (Blocker \<times> str) list" where
  [repo_defs]: "blockers_list_open user_id limit s =
     take limit (sort_key (\<lambda>(b, name). (- blk_blocked_since b, - uint (blk_id b)))
       (concat (map (\<lambda>b. map (\<lambda>t. (b, thing_name t))
           (sel (\<lambda>t. thing_id t = blk_thing_id b \<and> thing_user_id t = user_id
              \<and> thing_archived_at t = None) (st_things s)))
         (sel (\<lambda>b. blk_status b = BlockerStatus.OPEN) (st_blockers s)))))"

text \<open>\<open>ON CONFLICT DO NOTHING\<close> on the primary key; the result says whether a row was inserted.\<close>

definition relations_add :: "ThingRelation \<Rightarrow> store \<Rightarrow> bool \<times> store" where
  [repo_defs]: "relations_add r s =
     (if \<exists>x \<in> set (st_relations s). rel_from_thing_id x = rel_from_thing_id r
           \<and> rel_to_thing_id x = rel_to_thing_id r \<and> rel_relation_type x = rel_relation_type r
      then (False, s) else (True, s\<lparr>st_relations := st_relations s @ [r]\<rparr>))"

definition relations_list_for_thing :: "uuid \<Rightarrow> uuid \<Rightarrow> store \<Rightarrow> ThingRelation list" where
  [repo_defs]: "relations_list_for_thing user_id tid s =
     sort_key (\<lambda>r. (rel_created_at r, rel_to_thing_id r))
       (sel (\<lambda>r. rel_from_thing_id r = tid \<and> owned user_id s (rel_from_thing_id r)) (st_relations s))"

section \<open>The optimistic updates\<close>

interpretation thing_rows: versioned_table thing_id thing_version copy_thing
  by unfold_locales (simp_all add: copy_thing_def)

interpretation date_rows: versioned_table tdate_id tdate_version copy_date
  by unfold_locales (simp_all add: copy_date_def)

interpretation entry_rows: versioned_table ctx_id ctx_version copy_entry
  by unfold_locales (simp_all add: copy_entry_def)

interpretation task_rows: versioned_table task_id task_version copy_task
  by unfold_locales (simp_all add: copy_task_def)

interpretation blocker_rows: versioned_table blk_id blk_version copy_blocker
  by unfold_locales (simp_all add: copy_blocker_def)

end
