(* ===== verification/RuntimeDto.thy ===== *)
theory RuntimeDto
  imports RuntimeEntities
begin

text \<open>
  The transfer objects of the runtime, \<open>application/runtime/dto.py\<close> and the conversions at the
  head of \<open>application/runtime/service.py\<close>; the receipt of a tool (\<open>receipts.py\<close>); and the
  decision how a claimed run continues from its checkpoint (\<open>reconcile_checkpoint\<close>).
\<close>

section \<open>Transfer objects\<close>

record ThreadDTO =
  tdo_id :: uuid
  tdo_title :: str
  tdo_active_thing_id :: "uuid option"
  tdo_archived_at :: "time option"
  tdo_created_at :: time
  tdo_updated_at :: time
  tdo_replayed :: bool

record MessageDTO =
  mdo_id :: uuid
  mdo_thread_id :: uuid
  mdo_role :: MessageRole
  mdo_content :: str
  mdo_run_id :: "uuid option"
  mdo_source_ids :: "uuid list"
  mdo_metadata :: jdict
  mdo_created_at :: time

record RunDTO =
  rdo_id :: uuid
  rdo_thread_id :: uuid
  rdo_trigger :: RunTrigger
  rdo_input_message_id :: "uuid option"
  rdo_status :: RunStatus
  rdo_current_phase :: "str option"
  rdo_status_label :: "str option"
  rdo_final_message_id :: "uuid option"
  rdo_interrupt_id :: "uuid option"
  rdo_interrupt :: "jdict option"
  rdo_resume_payload :: "jdict option"
  rdo_error_code :: "str option"
  rdo_claim_owner :: "str option"
  rdo_claim_token :: "uuid option"
  rdo_lease_expires_at :: "time option"
  rdo_heartbeat_at :: "time option"
  rdo_attempt_count :: int
  rdo_version :: int
  rdo_last_event_sequence :: int
  rdo_pending_interaction :: "jdict option"
  rdo_active_time_used_ms :: int
  rdo_active_started_at :: "time option"
  rdo_terminal_output :: "jdict option"
  rdo_graph_terminal_at :: "time option"
  rdo_budget_snapshot :: jdict
  rdo_created_at :: time
  rdo_started_at :: "time option"
  rdo_completed_at :: "time option"
  rdo_updated_at :: time
  rdo_stream_url :: str
  rdo_replayed :: bool

record RunEventDTO =
  edo_id :: uuid
  edo_run_id :: uuid
  edo_sequence :: int
  edo_event :: RunEventType
  edo_occurred_at :: time
  edo_data :: jdict
  edo_visibility :: str
  edo_schema_version :: int

record ToolExecutionClaimDTO =
  tcl_acquired :: bool
  tcl_claim_token :: "uuid option"
  tcl_cached_result :: "jdict option"
  tcl_blocked_reason :: "str option"

record DurableJobClaimDTO =
  jcl_job_id :: uuid
  jcl_user_id :: uuid
  jcl_run_id :: uuid
  jcl_claim_epoch :: int

record EphemeralFrameDTO =
  frm_run_id :: uuid
  frm_frame_type :: str
  frm_data :: jdict
  frm_emitted_at :: time

definition to_thread_dto :: "bool \<Rightarrow> Thread \<Rightarrow> ThreadDTO" where
  "to_thread_dto replayed t =
     \<lparr>tdo_id = thr_id t, tdo_title = thr_title t, tdo_active_thing_id = thr_active_thing_id t,
      tdo_archived_at = thr_archived_at t, tdo_created_at = thr_created_at t,
      tdo_updated_at = thr_updated_at t, tdo_replayed = replayed\<rparr>"

definition to_message_dto :: "Message \<Rightarrow> MessageDTO" where
  "to_message_dto m =
     \<lparr>mdo_id = msg_id m, mdo_thread_id = msg_thread_id m, mdo_role = msg_role m,
      mdo_content = msg_content m, mdo_run_id = msg_run_id m, mdo_source_ids = msg_source_ids m,
      mdo_metadata = msg_metadata m, mdo_created_at = msg_created_at m\<rparr>"

definition pending_interaction :: "AgentRun \<Rightarrow> jdict option" where
  "pending_interaction r =
     (case (run_interrupt_id r, run_interrupt r) of
        (Some i, Some p) \<Rightarrow> Some
          [u ''interaction_id'' \<mapsto> JStr (uuid_str i),
           u ''type'' \<mapsto> jget p (u ''type'') (JStr (u ''CONFIRMATION'')),
           u ''action_id'' \<mapsto> jget p (u ''action_id'') JNull,
           u ''request'' \<mapsto> JObj p]
      | _ \<Rightarrow> None)"

definition to_run_dto :: "bool \<Rightarrow> AgentRun \<Rightarrow> RunDTO" where
  "to_run_dto replayed r =
     \<lparr>rdo_id = run_id r, rdo_thread_id = run_thread_id r, rdo_trigger = run_trigger r,
      rdo_input_message_id = run_input_message_id r, rdo_status = run_status r,
      rdo_current_phase = run_current_phase r, rdo_status_label = run_status_label r,
      rdo_final_message_id = run_final_message_id r, rdo_interrupt_id = run_interrupt_id r,
      rdo_interrupt = run_interrupt r, rdo_resume_payload = run_resume_payload r,
      rdo_error_code = run_error_code r, rdo_claim_owner = run_claim_owner r,
      rdo_claim_token = run_claim_token r, rdo_lease_expires_at = run_lease_expires_at r,
      rdo_heartbeat_at = run_heartbeat_at r, rdo_attempt_count = run_attempt_count r,
      rdo_version = run_version r, rdo_last_event_sequence = run_event_sequence r,
      rdo_pending_interaction = pending_interaction r,
      rdo_active_time_used_ms = run_active_time_used_ms r,
      rdo_active_started_at = run_active_started_at r,
      rdo_terminal_output = run_terminal_output r, rdo_graph_terminal_at = run_graph_terminal_at r,
      rdo_budget_snapshot = run_budget_snapshot r, rdo_created_at = run_created_at r,
      rdo_started_at = run_started_at r, rdo_completed_at = run_completed_at r,
      rdo_updated_at = run_updated_at r,
      rdo_stream_url = u ''/api/v1/runs/'' @ uuid_str (run_id r) @ u ''/events'',
      rdo_replayed = replayed\<rparr>"

definition to_event_dto :: "RunEvent \<Rightarrow> RunEventDTO" where
  "to_event_dto e =
     \<lparr>edo_id = evt_id e, edo_run_id = evt_run_id e, edo_sequence = evt_sequence e,
      edo_event = evt_event_type e, edo_occurred_at = evt_occurred_at e, edo_data = evt_data e,
      edo_visibility = evt_visibility e, edo_schema_version = evt_schema_version e\<rparr>"

lemma to_run_dto_simps [simp]:
  "rdo_id (to_run_dto b r) = run_id r" "rdo_status (to_run_dto b r) = run_status r"
  "rdo_version (to_run_dto b r) = run_version r" "rdo_replayed (to_run_dto b r) = b"
  "rdo_claim_token (to_run_dto b r) = run_claim_token r"
  "rdo_claim_owner (to_run_dto b r) = run_claim_owner r"
  "rdo_thread_id (to_run_dto b r) = run_thread_id r"
  "rdo_pending_interaction (to_run_dto b r) = pending_interaction r"
  "rdo_final_message_id (to_run_dto b r) = run_final_message_id r"
  "rdo_lease_expires_at (to_run_dto b r) = run_lease_expires_at r"
  by (simp_all add: to_run_dto_def)

lemma to_thread_dto_simps [simp]:
  "tdo_id (to_thread_dto b t) = thr_id t" "tdo_title (to_thread_dto b t) = thr_title t"
  "tdo_replayed (to_thread_dto b t) = b"
  by (simp_all add: to_thread_dto_def)

section \<open>Tool receipts\<close>

definition jstrs :: "str list \<Rightarrow> json" where
  "jstrs xs = JList (map JStr xs)"

text \<open>\<open>build_tool_receipt\<close> with the optional arguments as given; an absent \<open>error\<close> or
  \<open>current_state\<close> is null, absent or empty \<open>warnings\<close> are the empty list.\<close>

definition build_tool_receipt ::
  "str \<Rightarrow> str \<Rightarrow> str \<Rightarrow> str \<Rightarrow> jdict \<Rightarrow> str list \<Rightarrow> str list \<Rightarrow> bool \<Rightarrow> str list option
    \<Rightarrow> jdict option \<Rightarrow> jdict option \<Rightarrow> jdict" where
  "build_tool_receipt tool_name status code message data mutation_refs source_refs retryable
       warnings current_state error =
     [u ''status'' \<mapsto> JStr status, u ''code'' \<mapsto> JStr code, u ''message'' \<mapsto> JStr message,
      u ''data'' \<mapsto> JObj data, u ''retryable'' \<mapsto> JBool retryable,
      u ''mutation_refs'' \<mapsto> jstrs mutation_refs, u ''source_refs'' \<mapsto> jstrs source_refs,
      u ''receipt'' \<mapsto> JObj
        [u ''code'' \<mapsto> JStr code, u ''data'' \<mapsto> JObj data,
         u ''mutation_refs'' \<mapsto> jstrs mutation_refs, u ''source_refs'' \<mapsto> jstrs source_refs],
      u ''error'' \<mapsto> (case error of None \<Rightarrow> JNull | Some d \<Rightarrow> JObj d),
      u ''warnings'' \<mapsto> jstrs (case warnings of None \<Rightarrow> [] | Some w \<Rightarrow> w),
      u ''current_state'' \<mapsto> (case current_state of None \<Rightarrow> JNull | Some d \<Rightarrow> JObj d),
      u ''tool_name'' \<mapsto> JStr tool_name]"

section \<open>Checkpoint reconciliation\<close>

record CheckpointSnapshotDTO =
  cps_exists :: bool
  cps_terminal_output :: "jdict option"
  cps_pending_interrupt :: "jdict option"
  cps_pending_actions :: "jdict list"
  cps_pending_interrupt_id :: "str option"

datatype CheckpointReconciliation =
  REEXECUTE | RECONCILE_TOOLS | WAIT_FOR_USER | FINALIZE | FAIL_INCONSISTENCY

text \<open>A member that is a string with something besides white space.\<close>

definition named_member :: "jdict \<Rightarrow> str \<Rightarrow> bool" where
  "named_member d k \<longleftrightarrow> (case d k of Some (JStr v) \<Rightarrow> strip v \<noteq> [] | _ \<Rightarrow> False)"

definition reconcile_checkpoint ::
  "RunStatus \<Rightarrow> CheckpointSnapshotDTO \<Rightarrow> CheckpointReconciliation" where
  "reconcile_checkpoint status snapshot =
     (if cps_terminal_output snapshot \<noteq> None then FINALIZE
      else if cps_pending_interrupt snapshot \<noteq> None then WAIT_FOR_USER
      else if cps_pending_actions snapshot \<noteq> [] then
        (if \<exists>a \<in> set (cps_pending_actions snapshot).
              \<not> named_member a (u ''action_id'') \<or> \<not> named_member a (u ''tool_name'')
         then FAIL_INCONSISTENCY else RECONCILE_TOOLS)
      else if status = RunStatus.WAITING_FOR_USER then FAIL_INCONSISTENCY
      else REEXECUTE)"

end
