(* ===== verification/RuntimeService.thy ===== *)
theory RuntimeService
  imports RuntimeStore RuntimeDto
begin

text \<open>
  The runtime application service, \<open>application/runtime/service.py\<close>, and the shared claim path
  of durable jobs, \<open>durable_job_claim.py\<close>. One call is one unit of work: \<open>Inr (v, s', fx)\<close>
  means that it returned \<open>v\<close>, committed the state \<open>s'\<close> and then performed the external effects
  \<open>fx\<close>; after \<open>Inl e\<close> it has raised \<open>e\<close> and rolled back, so the database is unchanged. A call
  that rolls back and returns gives its old state back. Units of work are serialised: the
  advisory lock on the idempotency key and the row locks order the competing ones.
\<close>

section \<open>Configuration and effects\<close>

record service =
  svc_run_dispatcher :: bool
  svc_wakeup :: bool
  svc_budget_snapshot :: jdict

datatype effect =
    Dispatch uuid uuid
  | Publish uuid int
  | PublishFrame EphemeralFrameDTO

type_synonym 'a svc = "py_error + ('a \<times> db \<times> effect list)"

definition dispatch :: "service \<Rightarrow> uuid \<Rightarrow> uuid \<Rightarrow> effect list" where
  "dispatch c user_id rid = (if svc_run_dispatcher c then [Dispatch user_id rid] else [])"

definition publish_wakeup :: "service \<Rightarrow> uuid \<Rightarrow> int \<Rightarrow> effect list" where
  "publish_wakeup c rid latest = (if svc_wakeup c then [Publish rid latest] else [])"

definition agent_run_key :: "uuid \<Rightarrow> str" where
  "agent_run_key rid = u ''agent-run:'' @ uuid_str rid"

lemma agent_run_key_inject [simp]: "agent_run_key x = agent_run_key y \<longleftrightarrow> x = y"
  by (simp add: agent_run_key_def)

text \<open>The job that drives a run: five deliveries, the default.\<close>

definition agent_run_job ::
  "env \<Rightarrow> nat \<Rightarrow> nat \<Rightarrow> uuid \<Rightarrow> uuid \<Rightarrow> py_error + DurableJob" where
  "agent_run_job e i k user_id rid =
     DurableJob_init user_id DurableJobKind.AGENT_RUN (agent_run_key rid)
       [u ''run_id'' \<mapsto> juuid rid] (uid4 e i) (Aware (clk e k)) 5 (clk e (k + 1)) (clk e (k + 2))"

section \<open>Ephemeral frames\<close>

definition emit_ephemeral_frame ::
  "service \<Rightarrow> env \<Rightarrow> uuid \<Rightarrow> uuid \<Rightarrow> str \<Rightarrow> jdict \<Rightarrow> db \<Rightarrow> unit svc" where
  "emit_ephemeral_frame c e user_id rid frame_type data s =
     (if frame_type \<notin> {u ''assistant.delta'', u ''stream.reset''}
      then Inl (ValueError (u ''Unsupported ephemeral frame type.''))
      else if runs_get user_id rid s = None then Inl (EntityNotFound (u ''Run was not found.''))
      else Inr ((), s,
        if svc_wakeup c
        then [PublishFrame \<lparr>frm_run_id = rid, frm_frame_type = frame_type, frm_data = data,
               frm_emitted_at = clk e 0\<rparr>]
        else []))"

section \<open>Threads\<close>

definition create_thread ::
  "env \<Rightarrow> uuid \<Rightarrow> str \<Rightarrow> str \<Rightarrow> uuid option \<Rightarrow> db \<Rightarrow> ThreadDTO svc" where
  "create_thread e user_id title key active_thing_id s =
     (if strip title = [] then Inl (ValueError (u ''Thread title must not be empty.''))
      else case threads_get_by_idempotency user_id key s of
        Some existing \<Rightarrow> Inr (to_thread_dto True existing, s, [])
      | None \<Rightarrow>
          let s1 = users_ensure_exists (clk e 0) user_id s in
          if (case active_thing_id of None \<Rightarrow> False | Some t \<Rightarrow> things_get user_id t s1 = None)
          then Inl (EntityNotFound (u ''Thing was not found.''))
          else
            let thread = \<lparr>thr_user_id = user_id, thr_title = strip title,
                  thr_idempotency_key = key, thr_id = uid4 e 0,
                  thr_active_thing_id = active_thing_id, thr_archived_at = None,
                  thr_created_at = clk e 1, thr_updated_at = clk e 2\<rparr>
            in bindE (threads_add thread s1) (\<lambda>s2. Inr (to_thread_dto False thread, s2, [])))"

definition get_thread :: "uuid \<Rightarrow> uuid \<Rightarrow> db \<Rightarrow> py_error + ThreadDTO" where
  "get_thread user_id tid s =
     (case threads_get user_id tid s of
        None \<Rightarrow> Inl (EntityNotFound (u ''Thread was not found.''))
      | Some t \<Rightarrow> Inr (to_thread_dto False t))"

definition list_threads :: "uuid \<Rightarrow> nat \<Rightarrow> bool \<Rightarrow> db \<Rightarrow> ThreadDTO list" where
  "list_threads user_id limit include_archived s =
     map (to_thread_dto False) (threads_list_for_user user_id limit include_archived s)"

definition archive_thread :: "env \<Rightarrow> uuid \<Rightarrow> uuid \<Rightarrow> db \<Rightarrow> ThreadDTO svc" where
  "archive_thread e user_id tid s =
     (case threads_get user_id tid s of
        None \<Rightarrow> Inl (EntityNotFound (u ''Thread was not found.''))
      | Some t \<Rightarrow>
          let t' = thread_archive (clk e 0) t
          in Inr (to_thread_dto False t', threads_archive t' s, []))"

definition list_messages :: "uuid \<Rightarrow> uuid \<Rightarrow> nat \<Rightarrow> db \<Rightarrow> py_error + MessageDTO list" where
  "list_messages user_id tid limit s =
     (if threads_get user_id tid s = None
      then Inl (EntityNotFound (u ''Thread was not found.''))
      else Inr (map to_message_dto (messages_list_for_thread user_id tid limit s)))"

section \<open>Creating runs\<close>

text \<open>
  A queued run, its input message, the \<open>run.queued\<close> event and its durable job are one unit of
  work. The event's label is the text with the code points of \<open>QUEUED_LABEL\<close>.
\<close>

definition QUEUED_LABEL :: str where
  "QUEUED_LABEL = [0x7B49, 0x5F85, 0x5F00, 0x59CB]"

definition create_user_run ::
  "service \<Rightarrow> env \<Rightarrow> uuid \<Rightarrow> uuid \<Rightarrow> str \<Rightarrow> uuid list \<Rightarrow> str \<Rightarrow> db \<Rightarrow> RunDTO svc" where
  "create_user_run c e user_id tid content source_ids key s =
     (if strip content = [] then Inl (ValueError (u ''Run message content must not be empty.''))
      else if \<not> distinct source_ids
      then Inl (ValueError (u ''Run source_ids must not contain duplicates.''))
      else case runs_get_by_idempotency user_id key s of
        Some existing \<Rightarrow> Inr (to_run_dto True existing, s, [])
      | None \<Rightarrow>
          (case threads_get user_id tid s of
             None \<Rightarrow> Inl (EntityNotFound (u ''Active Thread was not found.''))
           | Some thread \<Rightarrow>
               if thr_archived_at thread \<noteq> None
               then Inl (EntityNotFound (u ''Active Thread was not found.''))
               else if \<exists>x \<in> set source_ids. sources_get user_id x s = None
               then Inl (EntityNotFound (u ''Source was not found.''))
               else
                 let run0 = new_run user_id tid RunTrigger.USER_MESSAGE key (svc_budget_snapshot c)
                       (uid4 e 0) (clk e 0) (clk e 1);
                     message = \<lparr>msg_user_id = user_id, msg_thread_id = tid,
                       msg_role = MessageRole.USER, msg_content = strip content,
                       msg_id = uid4 e 1, msg_run_id = Some (run_id run0),
                       msg_source_ids = source_ids, msg_metadata = Map.empty,
                       msg_created_at = clk e 2\<rparr>;
                     run = run0\<lparr>run_input_message_id := Some (msg_id message)\<rparr>
                 in bindE (runs_add run s) (\<lambda>s1.
                    bindE (messages_add message s1) (\<lambda>s2.
                    bindE (runs_append_event (uid4 e 2) (clk e 3) (run_id run) RunEventType.RUN_QUEUED
                      [u ''status'' \<mapsto> JStr (run_status_value RunStatus.QUEUED),
                       u ''label'' \<mapsto> JStr QUEUED_LABEL, u ''phase'' \<mapsto> JStr (u ''queued'')] s2)
                      (\<lambda>(event, s3).
                    bindE (agent_run_job e 3 4 user_id (run_id run)) (\<lambda>job.
                    bindE (jobs_add job s3) (\<lambda>s4.
                      Inr (to_run_dto False run, s4, dispatch c user_id (run_id run)))))))))"

definition AUTOMATION_TITLE :: str where
  "AUTOMATION_TITLE = [0x81EA, 0x52A8, 0x5316]"

definition AUTOMATION_LABEL :: str where
  "AUTOMATION_LABEL = [0x81EA, 0x52A8, 0x5316, 0x89E6, 0x53D1]"

definition automation_content :: "str \<Rightarrow> str \<Rightarrow> str" where
  "automation_content title message =
     [0x5B, 0x81EA, 0x52A8, 0x5316, 0x63D0, 0x9192, 0x5D, 0x20] @ title @ [0x0A] @ message"

text \<open>
  The inbox thread of the user is created on first use. For an existing inbox the code assigns
  \<open>thread.active_thing_id\<close> on the domain object only; no statement writes it back.
\<close>

definition automation_inbox ::
  "env \<Rightarrow> uuid \<Rightarrow> str \<Rightarrow> uuid option \<Rightarrow> db \<Rightarrow> py_error + uuid \<times> db" where
  "automation_inbox e user_id thread_key for_thing s =
     (case threads_get_by_idempotency user_id thread_key s of
        Some thread \<Rightarrow>
          Inr (thr_id (case for_thing of None \<Rightarrow> thread
                       | Some t \<Rightarrow> thread\<lparr>thr_active_thing_id := Some t\<rparr>), s)
      | None \<Rightarrow>
          let thread = \<lparr>thr_user_id = user_id, thr_title = AUTOMATION_TITLE,
                thr_idempotency_key = thread_key, thr_id = uid4 e 0,
                thr_active_thing_id = for_thing, thr_archived_at = None,
                thr_created_at = clk e 1, thr_updated_at = clk e 2\<rparr>
          in bindE (threads_add thread (users_ensure_exists (clk e 0) user_id s))
               (\<lambda>s1. Inr (thr_id thread, s1)))"

definition create_automation_run ::
  "service \<Rightarrow> env \<Rightarrow> uuid \<Rightarrow> uuid \<Rightarrow> uuid option \<Rightarrow> str \<Rightarrow> str \<Rightarrow> str \<Rightarrow> db \<Rightarrow> RunDTO svc" where
  "create_automation_run c e user_id automation_id for_thing title message occurrence_key s =
     (if strip title = [] \<or> strip message = []
      then Inl (ValueError (u ''Automation run title and message must not be empty.''))
      else if strip occurrence_key = []
      then Inl (ValueError (u ''Automation occurrence_key must not be empty.''))
      else
        let thread_key = u ''automation-inbox:'' @ uuid_str user_id;
            run_key = u ''automation-run:'' @ occurrence_key in
        case runs_get_by_idempotency user_id run_key s of
          Some existing \<Rightarrow> Inr (to_run_dto True existing, s, [])
        | None \<Rightarrow>
            bindE (automation_inbox e user_id thread_key for_thing s)
              (\<lambda>(tid, s1).
            let run0 = new_run user_id tid RunTrigger.AUTOMATION run_key (svc_budget_snapshot c)
                  (uid4 e 1) (clk e 3) (clk e 4);
                input_message = \<lparr>msg_user_id = user_id, msg_thread_id = tid,
                  msg_role = MessageRole.SYSTEM_EVENT,
                  msg_content = automation_content (strip title) (strip message),
                  msg_id = uid4 e 2, msg_run_id = Some (run_id run0), msg_source_ids = [],
                  msg_metadata = [u ''automation_id'' \<mapsto> juuid automation_id,
                    u ''occurrence_key'' \<mapsto> JStr occurrence_key,
                    u ''thing_id'' \<mapsto> (case for_thing of None \<Rightarrow> JNull | Some t \<Rightarrow> juuid t)],
                  msg_created_at = clk e 5\<rparr>;
                run = run0\<lparr>run_input_message_id := Some (msg_id input_message)\<rparr>
            in bindE (runs_add run s1) (\<lambda>s2.
               bindE (messages_add input_message s2) (\<lambda>s3.
               bindE (runs_append_event (uid4 e 3) (clk e 6) (run_id run) RunEventType.RUN_QUEUED
                 [u ''status'' \<mapsto> JStr (run_status_value RunStatus.QUEUED),
                  u ''label'' \<mapsto> JStr AUTOMATION_LABEL, u ''phase'' \<mapsto> JStr (u ''automation''),
                  u ''automation_id'' \<mapsto> juuid automation_id] s3)
                 (\<lambda>(event, s4).
               bindE (agent_run_job e 4 7 user_id (run_id run)) (\<lambda>job.
               bindE (jobs_add job s4) (\<lambda>s5.
                 Inr (to_run_dto False run, s5, dispatch c user_id (run_id run)))))))))"

definition get_run :: "uuid \<Rightarrow> uuid \<Rightarrow> db \<Rightarrow> py_error + RunDTO" where
  "get_run user_id rid s =
     (case runs_get user_id rid s of
        None \<Rightarrow> Inl (EntityNotFound (u ''Run was not found.''))
      | Some r \<Rightarrow> Inr (to_run_dto False r))"

section \<open>Durable jobs of runs\<close>

definition claim_ready_jobs ::
  "DurableJobKind \<Rightarrow> str \<Rightarrow> time \<Rightarrow> time \<Rightarrow> nat \<Rightarrow> db \<Rightarrow> DurableJob list \<times> db" where
  "claim_ready_jobs kind owner now lease_until limit s =
     (case jobs_requeue_expired now s of (n, s1) \<Rightarrow> jobs_claim_ready kind owner now lease_until limit s1)"

text \<open>
  \<open>UUID(str(job.payload["run_id"]))\<close>: a missing member is a \<open>KeyError\<close>, anything that is not
  the text of a UUID a \<open>ValueError\<close>.
\<close>

definition job_run_id :: "DurableJob \<Rightarrow> py_error + uuid" where
  "job_run_id j =
     (case job_payload j (u ''run_id'') of
        None \<Rightarrow> Inl (KeyError (u ''run_id''))
      | Some (JStr x) \<Rightarrow>
          ofopt (ValueError (u ''badly formed hexadecimal UUID string'')) (uuid_parse x)
      | Some _ \<Rightarrow> Inl (ValueError (u ''badly formed hexadecimal UUID string'')))"

fun job_claims :: "DurableJob list \<Rightarrow> py_error + DurableJobClaimDTO list" where
  "job_claims [] = Inr []"
| "job_claims (j # js) =
     bindE (job_run_id j) (\<lambda>rid.
     bindE (job_claims js) (\<lambda>cs.
       Inr (\<lparr>jcl_job_id = job_id j, jcl_user_id = job_user_id j, jcl_run_id = rid,
             jcl_claim_epoch = job_claim_epoch j\<rparr> # cs)))"

definition claim_agent_run_jobs ::
  "env \<Rightarrow> str \<Rightarrow> rat \<Rightarrow> int \<Rightarrow> db \<Rightarrow> DurableJobClaimDTO list svc" where
  "claim_agent_run_jobs e owner lease_seconds limit s =
     (if strip owner = [] \<or> lease_seconds \<le> 0 \<or> limit \<le> 0
      then Inl (ValueError (u ''Durable Job claim parameters must be positive.''))
      else
        case claim_ready_jobs DurableJobKind.AGENT_RUN owner (clk e 0)
               (clk e 0 + timedelta_seconds lease_seconds) (nat limit) s of
          (jobs, s1) \<Rightarrow> bindE (job_claims jobs) (\<lambda>claims. Inr (claims, s1, [])))"

definition settlement_status :: "AgentRun option \<Rightarrow> DurableJobStatus" where
  "settlement_status r =
     (case r of
        None \<Rightarrow> DurableJobStatus.FAILED
      | Some x \<Rightarrow>
          if run_status x = RunStatus.WAITING_FOR_USER then DurableJobStatus.PAUSED
          else if run_status x = RunStatus.CANCELLED then DurableJobStatus.CANCELLED
          else if run_status x \<in> TERMINAL_RUN_STATUSES then DurableJobStatus.COMPLETED
          else DurableJobStatus.READY)"

definition settle_agent_run_job ::
  "env \<Rightarrow> DurableJobClaimDTO \<Rightarrow> str \<Rightarrow> str option \<Rightarrow> db \<Rightarrow> unit svc" where
  "settle_agent_run_job e claim owner error_code s =
     (let run = runs_get (jcl_user_id claim) (jcl_run_id claim) s;
          status = settlement_status run;
          code = (case run of None \<Rightarrow> Some (u ''RUN_NOT_FOUND'') | Some _ \<Rightarrow> error_code) in
      if status = DurableJobStatus.READY
      then Inl (InvalidStateTransition (u ''Agent Run returned without settling its state.''))
      else case jobs_settle (jcl_job_id claim) owner (jcl_claim_epoch claim) status (clk e 0) code s of
        (settled, s1) \<Rightarrow>
          if \<not> settled
          then Inl (InvalidStateTransition (u ''Durable Job fencing token was lost.''))
          else Inr ((), s1, []))"

definition renew_agent_run_job ::
  "env \<Rightarrow> DurableJobClaimDTO \<Rightarrow> str \<Rightarrow> rat \<Rightarrow> db \<Rightarrow> bool svc" where
  "renew_agent_run_job e claim owner lease_seconds s =
     (case jobs_renew (jcl_job_id claim) owner (jcl_claim_epoch claim)
             (clk e 0 + timedelta_seconds lease_seconds) (clk e 0) s of
        (renewed, s1) \<Rightarrow> Inr (renewed, if renewed then s1 else s, []))"

section \<open>Recovery\<close>

text \<open>
  The loop over the recoverable runs: an abandoned running one goes back to the queue, unless a
  concurrent update wins; every one that is queued then is dispatched. The \<open>i\<close>-th turn draws
  its event id from \<open>uid4 e i\<close> and reads the clock at \<open>2 * i + 1\<close> and \<open>2 * i + 2\<close>.
\<close>

fun recover_loop ::
  "env \<Rightarrow> nat \<Rightarrow> AgentRun list \<Rightarrow> db \<Rightarrow> py_error + ((uuid \<times> uuid) list \<times> db)" where
  "recover_loop e i [] s = Inr ([], s)"
| "recover_loop e i (r # rs) s =
     (if run_status r = RunStatus.RUNNING then
        bindE (run_recover_after_crash (clk e (2 * i + 1)) r) (\<lambda>r'.
        case runs_update r' (run_version r) s of
          (ok, s1) \<Rightarrow>
            if \<not> ok then recover_loop e (i + 1) rs s1
            else
              bindE (runs_append_event (uid4 e i) (clk e (2 * i + 2)) (run_id r') RunEventType.RUN_QUEUED
                [u ''status'' \<mapsto> JStr (run_status_value RunStatus.QUEUED),
                 u ''phase'' \<mapsto> jopt_str (run_current_phase r'),
                 u ''label'' \<mapsto> jopt_str (run_status_label r'),
                 u ''reason'' \<mapsto> JStr (u ''lease_expired'')] s1)
                (\<lambda>(event, s2).
              bindE (recover_loop e (i + 1) rs s2) (\<lambda>(ds, s3).
                Inr ((run_user_id r', run_id r') # ds, s3))))
      else
        bindE (recover_loop e (i + 1) rs s) (\<lambda>(ds, s1).
          Inr ((run_user_id r, run_id r) # ds, s1)))"

definition recover_pending_runs :: "service \<Rightarrow> env \<Rightarrow> nat \<Rightarrow> db \<Rightarrow> nat svc" where
  "recover_pending_runs c e limit s =
     bindE (recover_loop e 0 (runs_list_recoverable (clk e 0) limit s) s) (\<lambda>(ds, s1).
       Inr (length ds, s1, concat (map (\<lambda>(user_id, rid). dispatch c user_id rid) ds)))"

section \<open>Claiming a run\<close>

definition claim_run ::
  "service \<Rightarrow> env \<Rightarrow> uuid \<Rightarrow> uuid \<Rightarrow> str \<Rightarrow> rat \<Rightarrow> db \<Rightarrow> RunDTO option svc" where
  "claim_run c e user_id rid owner lease_seconds s =
     (if strip owner = [] \<or> lease_seconds \<le> 0
      then Inl (ValueError (u ''Run claim owner and lease must be valid.''))
      else
        case runs_claim user_id rid owner (uid4 e 0) (clk e 0)
               (clk e 0 + timedelta_seconds lease_seconds) s of
          (None, s1) \<Rightarrow> Inr (None, s, [])
        | (Some run, s1) \<Rightarrow>
            bindE (runs_append_event (uid4 e 1) (clk e 1) (run_id run) RunEventType.RUN_STARTED
              [u ''phase'' \<mapsto> jopt_str (run_current_phase run),
               u ''label'' \<mapsto> jopt_str (run_status_label run),
               u ''attempt'' \<mapsto> JInt (run_attempt_count run),
               u ''claim_owner'' \<mapsto> JStr owner] s1)
              (\<lambda>(event, s2).
            Inr (Some (to_run_dto False run), s2, publish_wakeup c rid (evt_sequence event))))"

definition renew_run_lease ::
  "env \<Rightarrow> uuid \<Rightarrow> uuid \<Rightarrow> str \<Rightarrow> uuid \<Rightarrow> rat \<Rightarrow> db \<Rightarrow> bool svc" where
  "renew_run_lease e user_id rid owner token lease_seconds s =
     (case runs_renew_lease user_id rid owner token (clk e 0)
             (clk e 0 + timedelta_seconds lease_seconds) s of
        (renewed, s1) \<Rightarrow> Inr (renewed, if renewed then s1 else s, []))"

end
