(* ===== verification/RuntimeTransitions.thy ===== *)
theory RuntimeTransitions
  imports RuntimeService
begin

text \<open>
  The second half of the runtime application service: the tool ledger (claim, completion,
  atomic mutation receipts, reconciliation) and the transitions of a run, by the user (resume,
  cancel) and by its worker (start, wait for input, complete, fail, terminal output, events).
  Units of work as in \<open>RuntimeService\<close>.
\<close>

section \<open>The tool ledger\<close>

text \<open>The constructor of a claimed execution; identifier and clock as in \<open>new_run\<close>.\<close>

definition new_tool_execution ::
  "uuid \<Rightarrow> str \<Rightarrow> str \<Rightarrow> str \<Rightarrow> str \<Rightarrow> uuid \<Rightarrow> time \<Rightarrow> bool \<Rightarrow> str option \<Rightarrow> uuid \<Rightarrow> time \<Rightarrow> time
    \<Rightarrow> ToolExecution" where
  "new_tool_execution rid action_id tool_name arguments_hash owner token lease replay_safe key eid
       created updated =
     \<lparr>tex_run_id = rid, tex_action_id = action_id, tex_tool_name = tool_name,
      tex_arguments_hash = arguments_hash, tex_status = ToolExecutionStatus.IN_PROGRESS,
      tex_claim_owner = owner, tex_claim_token = token, tex_lease_expires_at = lease,
      tex_replay_safe = replay_safe, tex_idempotency_key = key, tex_id = eid,
      tex_result = None, tex_receipt = None, tex_error_code = None,
      tex_provider_idempotency_key = None, tex_provider_request_id = None,
      tex_attempt_count = 1, tex_created_at = created, tex_updated_at = updated\<rparr>"

text \<open>
  The branch for an action that is in the ledger already: the recorded result if there is one,
  the mark \<open>UNKNOWN_OUTCOME\<close> if its lease ran out and it must not be replayed, else a takeover
  if its lease ran out.
\<close>

definition claim_existing_tool ::
  "str \<Rightarrow> str \<Rightarrow> str \<Rightarrow> str \<Rightarrow> uuid \<Rightarrow> time \<Rightarrow> time \<Rightarrow> bool \<Rightarrow> str option \<Rightarrow> ToolExecution \<Rightarrow> db
    \<Rightarrow> ToolExecutionClaimDTO svc" where
  "claim_existing_tool action_id tool_name arguments_hash owner token now lease replay_safe key
       existing s =
     (if tex_tool_name existing \<noteq> tool_name \<or> tex_arguments_hash existing \<noteq> arguments_hash
      then Inl (InvalidStateTransition (u ''Tool action id was reused with different arguments.''))
      else if tex_replay_safe existing \<noteq> replay_safe
         \<or> tex_idempotency_key existing \<noteq> None \<and> tex_idempotency_key existing \<noteq> key
      then Inl (InvalidStateTransition
        (u ''Tool action id was reused with a different replay contract.''))
      else if tex_result existing \<noteq> None
      then Inr (\<lparr>tcl_acquired = False, tcl_claim_token = None,
                 tcl_cached_result = tex_result existing, tcl_blocked_reason = None\<rparr>, s, [])
      else if tex_lease_expires_at existing \<le> now \<and> \<not> tex_replay_safe existing
      then
        (case tools_mark_unknown_if_expired (tex_id existing) now s of
           (marked, s1) \<Rightarrow>
             Inr (\<lparr>tcl_acquired = False, tcl_claim_token = None, tcl_cached_result = None,
                   tcl_blocked_reason = Some
                     (u ''Non-replayable Tool outcome is unknown for idempotency key ''
                      @ (case key of None \<Rightarrow> action_id
                         | Some k \<Rightarrow> if k = [] then action_id else k) @ u ''.'')\<rparr>,
                  if marked then s1 else s, []))
      else
        (case tools_takeover_if_expired existing now owner token lease s of
           (acquired, s1) \<Rightarrow>
             Inr (\<lparr>tcl_acquired = acquired,
                   tcl_claim_token = (if acquired then Some token else None),
                   tcl_cached_result = None, tcl_blocked_reason = None\<rparr>,
                  if acquired then s1 else s, [])))"

definition claim_tool_execution ::
  "env \<Rightarrow> uuid \<Rightarrow> uuid \<Rightarrow> str \<Rightarrow> str \<Rightarrow> str \<Rightarrow> str \<Rightarrow> rat \<Rightarrow> uuid \<Rightarrow> bool \<Rightarrow> str option \<Rightarrow> db
    \<Rightarrow> ToolExecutionClaimDTO svc" where
  "claim_tool_execution e user_id rid action_id tool_name arguments_hash owner lease_seconds
       run_token replay_safe key s =
     (let now = clk e 0;
          token = uid4 e 0;
          lease = now + timedelta_seconds lease_seconds;
          execution = new_tool_execution rid action_id tool_name arguments_hash owner token lease
            replay_safe key (uid4 e 1) (clk e 1) (clk e 2) in
      case runs_get user_id rid s of
        None \<Rightarrow> Inl (EntityNotFound (u ''Run was not found.''))
      | Some run \<Rightarrow>
          if run_claim_owner run \<noteq> Some owner \<or> run_claim_token run \<noteq> Some run_token
             \<or> run_status run \<noteq> RunStatus.RUNNING
          then Inl (InvalidStateTransition (u ''Run is not owned by this Tool worker.''))
          else
            bindE (tools_add_if_absent execution s) (\<lambda>(added, s1).
            if added
            then Inr (\<lparr>tcl_acquired = True, tcl_claim_token = Some token,
                       tcl_cached_result = None, tcl_blocked_reason = None\<rparr>, s1, [])
            else
              case tools_get rid action_id s1 of
                None \<Rightarrow> Inl (RuntimeError (u ''Tool execution conflict points to missing data.''))
              | Some existing \<Rightarrow>
                  claim_existing_tool action_id tool_name arguments_hash owner token now lease
                    replay_safe key existing s1))"

definition complete_tool_execution ::
  "(json \<Rightarrow> str) \<Rightarrow> env \<Rightarrow> uuid \<Rightarrow> uuid \<Rightarrow> str \<Rightarrow> str \<Rightarrow> uuid \<Rightarrow> jdict \<Rightarrow> bool \<Rightarrow> db \<Rightarrow> unit svc" where
  "complete_tool_execution show_json e user_id rid action_id owner claim_token result succeeded s =
     (case runs_get user_id rid s of
        None \<Rightarrow> Inl (EntityNotFound (u ''Run was not found.''))
      | Some run \<Rightarrow>
          if run_claim_owner run \<noteq> Some owner \<or> run_status run \<noteq> RunStatus.RUNNING
          then Inl (InvalidStateTransition (u ''Run is not owned by this Tool worker.''))
          else
            (case tools_complete show_json rid action_id owner claim_token result succeeded
                    (clk e 0) s of
               (completed, s1) \<Rightarrow>
                 if \<not> completed
                 then Inl (InvalidStateTransition (u ''Tool execution lease was lost.''))
                 else Inr ((), s1, [])))"

text \<open>
  The outcome of a domain mutation (\<open>WriteOutcome\<close> of \<open>personal_state/write_ops.py\<close>), and the
  mutation itself: a computation in the same unit of work, which changes the state or raises.
\<close>

record WriteOutcome =
  wo_code :: str
  wo_message :: str
  wo_data :: jdict
  wo_mutation_refs :: "str list"
  wo_mutation_id :: "uuid option"
  wo_replayed :: bool

type_synonym mutation = "db \<Rightarrow> py_error + (WriteOutcome \<times> db)"

definition complete_personal_state_mutation_tool ::
  "(json \<Rightarrow> str) \<Rightarrow> env \<Rightarrow> uuid \<Rightarrow> uuid \<Rightarrow> str \<Rightarrow> str \<Rightarrow> uuid \<Rightarrow> str \<Rightarrow> mutation \<Rightarrow> db
    \<Rightarrow> jdict svc" where
  "complete_personal_state_mutation_tool show_json e user_id rid action_id owner claim_token
       tool_name apply_mutation s =
     (case runs_get user_id rid s of
        None \<Rightarrow> Inl (EntityNotFound (u ''Run was not found.''))
      | Some run \<Rightarrow>
          if run_claim_owner run \<noteq> Some owner \<or> run_status run \<noteq> RunStatus.RUNNING
          then Inl (InvalidStateTransition (u ''Run is not owned by this Tool worker.''))
          else
            bindE (apply_mutation s) (\<lambda>(outcome, s1).
            let receipt = build_tool_receipt tool_name (u ''SUCCESS'') (wo_code outcome)
                  (wo_message outcome) (wo_data outcome) (wo_mutation_refs outcome) [] False
                  None None None in
            case tools_complete show_json rid action_id owner claim_token receipt True (clk e 0) s1 of
              (completed, s2) \<Rightarrow>
                if \<not> completed
                then Inl (InvalidStateTransition (u ''Tool execution lease was lost.''))
                else Inr (wo_data outcome, s2, [])))"

definition complete_mutation_tool ::
  "(json \<Rightarrow> str) \<Rightarrow> env \<Rightarrow> uuid \<Rightarrow> uuid \<Rightarrow> str \<Rightarrow> str \<Rightarrow> uuid \<Rightarrow> str \<Rightarrow> mutation \<Rightarrow> db
    \<Rightarrow> jdict svc" where
  "complete_mutation_tool = complete_personal_state_mutation_tool"

definition reconcile_unknown_tool_execution ::
  "(json \<Rightarrow> str) \<Rightarrow> env \<Rightarrow> uuid \<Rightarrow> uuid \<Rightarrow> str \<Rightarrow> jdict \<Rightarrow> bool \<Rightarrow> str option \<Rightarrow> db \<Rightarrow> unit svc" where
  "reconcile_unknown_tool_execution show_json e user_id rid action_id result succeeded
       provider_request_id s =
     (if runs_get user_id rid s = None then Inl (EntityNotFound (u ''Run was not found.''))
      else case tools_get rid action_id s of
        None \<Rightarrow> Inl (EntityNotFound (u ''Tool execution was not found.''))
      | Some execution \<Rightarrow>
          if tex_status execution \<noteq> ToolExecutionStatus.UNKNOWN_OUTCOME
          then Inl (InvalidStateTransition
            (u ''Only UNKNOWN_OUTCOME Tool executions can be reconciled.''))
          else
            (case tools_reconcile_unknown show_json (tex_id execution) result succeeded
                    provider_request_id (clk e 0) s of
               (reconciled, s1) \<Rightarrow>
                 if \<not> reconciled
                 then Inl (VersionConflict (u ''Tool execution was reconciled concurrently.''))
                 else Inr ((), s1, [])))"

section \<open>Resume and cancel\<close>

text \<open>
  \<open>_change_run\<close>. The body of the \<open>try\<close> is \<open>change_body\<close>: it gives the run after the
  transition and the data of its event, and raises; its \<open>ValueError\<close>s become
  \<open>InvalidStateTransition\<close>. \<open>resume\<close> is \<open>Some (interrupt_id, response)\<close> for the operation
  \<open>RESUME\<close> and \<open>None\<close> for \<open>CANCEL\<close>.
\<close>

definition change_body ::
  "env \<Rightarrow> uuid \<Rightarrow> (uuid \<times> jdict) option \<Rightarrow> AgentRun \<Rightarrow> db \<Rightarrow> py_error + (AgentRun \<times> jdict \<times> db)" where
  "change_body e user_id resume run s =
     (case resume of
        Some (interrupt_id, response) \<Rightarrow>
          (case interactions_get user_id (run_id run) interrupt_id s of
             None \<Rightarrow> Inl (InvalidStateTransition (u ''Run Interaction was not found.''))
           | Some interaction \<Rightarrow>
               bindE (interaction_resolve (clk e 0) response interaction) (\<lambda>interaction'.
               let s1 = interactions_resolve interaction' s in
               bindE (run_resume (clk e 1) interrupt_id response run) (\<lambda>run'.
               case jobs_resume user_id (agent_run_key (run_id run')) (clk e 2) s1 of
                 (resumed, s2) \<Rightarrow>
                   if \<not> resumed
                   then Inl (InvalidStateTransition (u ''Paused Durable Job was not found.''))
                   else Inr (run',
                     [u ''status'' \<mapsto> JStr (run_status_value RunStatus.QUEUED),
                      u ''label'' \<mapsto> jopt_str (run_status_label run'),
                      u ''phase'' \<mapsto> jopt_str (run_current_phase run')], s2))))
      | None \<Rightarrow>
          bindE (run_cancel (clk e 0) run) (\<lambda>run'.
          case jobs_cancel user_id (agent_run_key (run_id run')) (clk e 1) s of
            (cancelled, s1) \<Rightarrow>
              Inr (run', [u ''status'' \<mapsto> JStr (run_status_value RunStatus.CANCELLED)], s1)))"

definition change_run ::
  "env \<Rightarrow> uuid \<Rightarrow> uuid \<Rightarrow> int \<Rightarrow> str \<Rightarrow> (uuid \<times> jdict) option \<Rightarrow> db \<Rightarrow> RunDTO svc" where
  "change_run e user_id rid expected_version key resume s =
     (case runs_get_operation user_id key s of
        Some (previous_run_id, target) \<Rightarrow>
          (case runs_get user_id previous_run_id s of
             None \<Rightarrow> Inl (RuntimeError (u ''Run operation points to missing data.''))
           | Some run \<Rightarrow> Inr (to_run_dto True run, s, []))
      | None \<Rightarrow>
          (case runs_get user_id rid s of
             None \<Rightarrow> Inl (EntityNotFound (u ''Run was not found.''))
           | Some run \<Rightarrow>
               if run_version run \<noteq> expected_version
               then Inl (VersionConflict (u ''Run version is stale.''))
               else
                 bindE (value_error_to_transition (change_body e user_id resume run s))
                   (\<lambda>(run', event_data, s1).
                 case runs_update run' expected_version s1 of
                   (ok, s2) \<Rightarrow>
                     if \<not> ok then Inl (VersionConflict (u ''Run was updated concurrently.''))
                     else
                       bindE (runs_record_operation user_id (run_id run') key
                           (if resume = None then u ''CANCEL'' else u ''RESUME'')
                           (run_version run') s2) (\<lambda>s3.
                       bindE (runs_append_event (uid4 e 0) (clk e 3) (run_id run')
                           (if resume = None then RunEventType.RUN_CANCELLED
                            else RunEventType.RUN_RESUMED) event_data s3) (\<lambda>(event, s4).
                         Inr (to_run_dto False run', s4, []))))))"

definition resume_run ::
  "service \<Rightarrow> env \<Rightarrow> uuid \<Rightarrow> uuid \<Rightarrow> uuid \<Rightarrow> jdict \<Rightarrow> int \<Rightarrow> str \<Rightarrow> db \<Rightarrow> RunDTO svc" where
  "resume_run c e user_id rid interrupt_id response expected_version key s =
     bindE (change_run e user_id rid expected_version key (Some (interrupt_id, response)) s)
       (\<lambda>(result, s1, fx).
       Inr (result, s1, fx @ (if rdo_replayed result then [] else dispatch c user_id rid)))"

definition cancel_run :: "env \<Rightarrow> uuid \<Rightarrow> uuid \<Rightarrow> int \<Rightarrow> str \<Rightarrow> db \<Rightarrow> RunDTO svc" where
  "cancel_run e user_id rid expected_version key s =
     (if runs_get user_id rid s = None then Inl (EntityNotFound (u ''Run was not found.''))
      else if tools_list_in_progress rid s \<noteq> []
      then Inl (InvalidStateTransition
        (u ''Cannot cancel while a Tool execution is in flight; wait for its outcome to be persisted first.''))
      else change_run e user_id rid expected_version key None s)"

section \<open>Events\<close>

definition list_events ::
  "uuid \<Rightarrow> uuid \<Rightarrow> uuid option \<Rightarrow> int option \<Rightarrow> nat \<Rightarrow> db \<Rightarrow> py_error + RunEventDTO list" where
  "list_events user_id rid after_event_id after_sequence limit s =
     (if runs_get user_id rid s = None then Inl (EntityNotFound (u ''Run was not found.''))
      else Inr (map to_event_dto
        (runs_list_events user_id rid after_event_id after_sequence limit s)))"

definition emit_event ::
  "service \<Rightarrow> env \<Rightarrow> uuid \<Rightarrow> uuid \<Rightarrow> RunEventType \<Rightarrow> jdict \<Rightarrow> db \<Rightarrow> RunEventDTO svc" where
  "emit_event c e user_id rid event_type data s =
     (if runs_get user_id rid s = None then Inl (EntityNotFound (u ''Run was not found.''))
      else bindE (runs_append_event (uid4 e 0) (clk e 0) rid event_type data s) (\<lambda>(event, s1).
        Inr (to_event_dto event, s1, publish_wakeup c rid (evt_sequence event))))"

section \<open>Worker transitions\<close>

text \<open>
  \<open>_worker_transition\<close>: the four actions with the arguments they read. \<open>Wait\<close> carries the
  payload and the caller's interaction id, \<open>Complete\<close> the optional content.
\<close>

datatype worker_action =
    Start "str option" "str option"
  | Wait jdict "uuid option"
  | Complete "str option"
  | Fail str

text \<open>
  \<open>str(payload["action_id"])\<close> and \<open>str(payload.get("type", \<dots>))\<close>; the values are strings,
  \<open>show_json\<close> stands for \<open>str\<close> of another JSON value.
\<close>

definition json_text :: "(json \<Rightarrow> str) \<Rightarrow> json \<Rightarrow> str" where
  "json_text show_json v = (case v of JStr x \<Rightarrow> x | _ \<Rightarrow> show_json v)"

definition payload_interaction ::
  "(json \<Rightarrow> str) \<Rightarrow> uuid \<Rightarrow> uuid \<Rightarrow> uuid \<Rightarrow> time \<Rightarrow> jdict \<Rightarrow> RunInteraction" where
  "payload_interaction show_json iid user_id rid now payload =
     \<lparr>ixn_user_id = user_id, ixn_run_id = rid,
      ixn_interaction_type =
        json_text show_json (jget payload (u ''type'') (JStr (u ''CONFIRMATION''))),
      ixn_request_payload = payload, ixn_id = iid,
      ixn_action_id = (case jget payload (u ''action_id'') JNull of
          JNull \<Rightarrow> None | v \<Rightarrow> Some (json_text show_json v)),
      ixn_status = RunInteractionStatus.PENDING, ixn_response_payload = None,
      ixn_created_at = now, ixn_resolved_at = None\<rparr>"

text \<open>
  The body of the \<open>try\<close>: the run after the transition, the type and data of its event and
  the state with the rows added so far. The interaction's id is the caller's or \<open>uid4 e 0\<close>.
\<close>

definition worker_body ::
  "(json \<Rightarrow> str) \<Rightarrow> env \<Rightarrow> uuid \<Rightarrow> worker_action \<Rightarrow> AgentRun \<Rightarrow> db
    \<Rightarrow> py_error + (AgentRun \<times> RunEventType \<times> jdict \<times> db)" where
  "worker_body show_json e user_id action run s =
     (case action of
        Start phase label \<Rightarrow>
          bindE (run_start (clk e 0) phase label run) (\<lambda>run'.
            Inr (run', RunEventType.RUN_STARTED,
              [u ''phase'' \<mapsto> jopt_str phase, u ''label'' \<mapsto> jopt_str label], s))
      | Wait payload interaction_id \<Rightarrow>
          let iid = (case interaction_id of None \<Rightarrow> uid4 e 0 | Some i \<Rightarrow> i) in
          bindE (run_wait_for_user (clk e 0) iid payload run) (\<lambda>run'.
          bindE (interactions_add
              (payload_interaction show_json iid user_id (run_id run') (clk e 1) payload) s) (\<lambda>s1.
            Inr (run', RunEventType.HITL_REQUESTED,
              [u ''interrupt_id'' \<mapsto> juuid iid] ++ payload, s1)))
      | Complete content \<Rightarrow>
          (case content of
             None \<Rightarrow> Inl (ValueError (u ''Assistant message must not be empty.''))
           | Some text \<Rightarrow>
               if strip text = []
               then Inl (ValueError (u ''Assistant message must not be empty.''))
               else
                 let message = \<lparr>msg_user_id = user_id, msg_thread_id = run_thread_id run,
                       msg_role = MessageRole.ASSISTANT, msg_content = strip text,
                       msg_id = uid4 e 0, msg_run_id = Some (run_id run), msg_source_ids = [],
                       msg_metadata = Map.empty, msg_created_at = clk e 0\<rparr>
                 in bindE (messages_add message s) (\<lambda>s1.
                    bindE (run_complete (clk e 1) (msg_id message) run) (\<lambda>run'.
                      Inr (run', RunEventType.RUN_COMPLETED,
                        [u ''message_id'' \<mapsto> juuid (msg_id message)], s1))))
      | Fail error_code \<Rightarrow>
          bindE (run_fail (clk e 0) error_code run) (\<lambda>run'.
            Inr (run', RunEventType.RUN_FAILED, [u ''error_code'' \<mapsto> JStr error_code], s)))"

text \<open>The events after the update: a completion is preceded by \<open>assistant.completed\<close>, a wait is
  followed by \<open>run.waiting_for_user\<close>.\<close>

definition worker_events ::
  "env \<Rightarrow> worker_action \<Rightarrow> uuid \<Rightarrow> RunEventType \<Rightarrow> jdict \<Rightarrow> db \<Rightarrow> py_error + (RunEvent \<times> db)" where
  "worker_events e action rid event_type data s =
     bindE (case action of
         Complete content \<Rightarrow>
           bindE (runs_append_event (uid4 e 1) (clk e 2) rid RunEventType.ASSISTANT_COMPLETED
             [u ''message_id'' \<mapsto> jget data (u ''message_id'') JNull,
              u ''content'' \<mapsto> jopt_str content] s) (\<lambda>(ev, s1). Inr s1)
       | _ \<Rightarrow> Inr s) (\<lambda>s1.
     bindE (runs_append_event (uid4 e 2) (clk e 3) rid event_type data s1) (\<lambda>(ev, s2).
       case action of
         Wait payload interaction_id \<Rightarrow>
           runs_append_event (uid4 e 3) (clk e 4) rid RunEventType.RUN_WAITING_FOR_USER
             [u ''interaction_id'' \<mapsto> jget data (u ''interrupt_id'') JNull] s2
       | _ \<Rightarrow> Inr (ev, s2)))"

definition worker_transition ::
  "(json \<Rightarrow> str) \<Rightarrow> service \<Rightarrow> env \<Rightarrow> uuid \<Rightarrow> uuid \<Rightarrow> worker_action \<Rightarrow> str option \<Rightarrow> uuid option \<Rightarrow> db
    \<Rightarrow> RunDTO svc" where
  "worker_transition show_json c e user_id rid action claim_owner claim_token s =
     (case runs_get user_id rid s of
        None \<Rightarrow> Inl (EntityNotFound (u ''Run was not found.''))
      | Some run \<Rightarrow>
          if claim_owner \<noteq> None
             \<and> (claim_token = None \<or> run_claim_owner run \<noteq> claim_owner
                \<or> run_claim_token run \<noteq> claim_token)
          then Inl (InvalidStateTransition (u ''Run lease is no longer owned by this worker.''))
          else
            bindE (value_error_to_transition (worker_body show_json e user_id action run s))
              (\<lambda>(run', event_type, data, s1).
            case runs_update run' (run_version run) s1 of
              (ok, s2) \<Rightarrow>
                if \<not> ok then Inl (VersionConflict (u ''Run was updated concurrently.''))
                else
                  bindE (worker_events e action (run_id run') event_type data s2)
                    (\<lambda>(last_event, s3).
                  Inr (to_run_dto False run', s3, publish_wakeup c rid (evt_sequence last_event)))))"

definition start_run ::
  "(json \<Rightarrow> str) \<Rightarrow> service \<Rightarrow> env \<Rightarrow> uuid \<Rightarrow> uuid \<Rightarrow> str \<Rightarrow> str \<Rightarrow> db \<Rightarrow> RunDTO svc" where
  "start_run show_json c e user_id rid phase label s =
     worker_transition show_json c e user_id rid (Start (Some phase) (Some label)) None None s"

definition require_input ::
  "(json \<Rightarrow> str) \<Rightarrow> service \<Rightarrow> env \<Rightarrow> uuid \<Rightarrow> uuid \<Rightarrow> jdict \<Rightarrow> uuid option \<Rightarrow> str option
    \<Rightarrow> uuid option \<Rightarrow> db \<Rightarrow> RunDTO svc" where
  "require_input show_json c e user_id rid payload interaction_id claim_owner claim_token s =
     worker_transition show_json c e user_id rid (Wait payload interaction_id) claim_owner
       claim_token s"

definition complete_run ::
  "(json \<Rightarrow> str) \<Rightarrow> service \<Rightarrow> env \<Rightarrow> uuid \<Rightarrow> uuid \<Rightarrow> str \<Rightarrow> str option \<Rightarrow> uuid option \<Rightarrow> db
    \<Rightarrow> RunDTO svc" where
  "complete_run show_json c e user_id rid content claim_owner claim_token s =
     worker_transition show_json c e user_id rid (Complete (Some content)) claim_owner claim_token s"

definition fail_run ::
  "(json \<Rightarrow> str) \<Rightarrow> service \<Rightarrow> env \<Rightarrow> uuid \<Rightarrow> uuid \<Rightarrow> str \<Rightarrow> str option \<Rightarrow> uuid option \<Rightarrow> db
    \<Rightarrow> RunDTO svc" where
  "fail_run show_json c e user_id rid error_code claim_owner claim_token s =
     worker_transition show_json c e user_id rid (Fail error_code) claim_owner claim_token s"

definition accept_terminal_output ::
  "env \<Rightarrow> uuid \<Rightarrow> uuid \<Rightarrow> jdict \<Rightarrow> str \<Rightarrow> uuid \<Rightarrow> db \<Rightarrow> RunDTO svc" where
  "accept_terminal_output e user_id rid output claim_owner claim_token s =
     (case runs_get user_id rid s of
        None \<Rightarrow> Inl (EntityNotFound (u ''Run was not found.''))
      | Some run \<Rightarrow>
          if run_claim_owner run \<noteq> Some claim_owner \<or> run_claim_token run \<noteq> Some claim_token
          then Inl (InvalidStateTransition (u ''Run lease is no longer owned by this worker.''))
          else
            bindE (value_error_to_transition (run_accept_terminal_output (clk e 0) output run))
              (\<lambda>run'.
            if run_version run' = run_version run then Inr (to_run_dto False run', s, [])
            else
              (case runs_update run' (run_version run) s of
                 (ok, s1) \<Rightarrow>
                   if \<not> ok then Inl (VersionConflict (u ''Run was updated concurrently.''))
                   else Inr (to_run_dto False run', s1, []))))"

end
