(* ===== verification/StateOps.thy ===== *)
theory StateOps
  imports StateStore RuntimeTransitions
begin

text \<open>
  The mutations of the personal state, \<open>application/personal_state/write_ops.py\<close>: what one unit of
  work reads, checks, writes and reports. \<open>e\<close> supplies the clock readings and the new identifiers
  of the operation in the order of the code; a reading that a branch skips leaves its index unused.
\<close>

section \<open>Outcomes\<close>

text \<open>\<open>isinstance(v, int)\<close> on a JSON value: Python's booleans are integers.\<close>

primrec is_jint :: "json \<Rightarrow> bool" where
  "is_jint JNull = False"
| "is_jint (JBool _) = True"
| "is_jint (JInt _) = True"
| "is_jint (JStr _) = False"
| "is_jint (JList _) = False"
| "is_jint (JObj _) = False"

definition outcome :: "str \<Rightarrow> str \<Rightarrow> jdict \<Rightarrow> uuid \<Rightarrow> bool \<Rightarrow> WriteOutcome" where
  "outcome code message data mid replayed =
     \<lparr>wo_code = code, wo_message = message, wo_data = data, wo_mutation_refs = [uuid_str mid],
      wo_mutation_id = Some mid, wo_replayed = replayed\<rparr>"

lemma outcome_simps [simp]:
  "wo_data (outcome code message data mid replayed) = data"
  "wo_mutation_id (outcome code message data mid replayed) = Some mid"
  "wo_replayed (outcome code message data mid replayed) = replayed"
  "wo_code (outcome code message data mid replayed) = code"
  "wo_mutation_refs (outcome code message data mid replayed) = [uuid_str mid]"
  by (simp_all add: outcome_def)

text \<open>
  The data of an outcome: the mutation, the changed entity under a name of its own, a version
  under its name, and whether the outcome was replayed; a creation reports \<open>id\<close> only.
\<close>

definition target_data :: "uuid \<Rightarrow> str \<Rightarrow> uuid \<Rightarrow> str \<Rightarrow> json \<Rightarrow> bool \<Rightarrow> jdict" where
  "target_data mid name target version_name version replayed =
     [u ''mutation_id'' \<mapsto> juuid mid, name \<mapsto> juuid target, version_name \<mapsto> version,
      u ''replayed'' \<mapsto> JBool replayed]"

definition created_data :: "uuid \<Rightarrow> int \<Rightarrow> bool \<Rightarrow> jdict" where
  "created_data target version replayed =
     [u ''id'' \<mapsto> juuid target, u ''version'' \<mapsto> JInt version, u ''replayed'' \<mapsto> JBool replayed]"

text \<open>The version a replay reports: the stored one, which must be an integer.\<close>

definition stored_version :: "str \<Rightarrow> str \<Rightarrow> StateMutation \<Rightarrow> py_error + json" where
  "stored_version name err m =
     (let v = jget (mut_after m) name JNull in
      if is_jint v then Inr v else Inl (RuntimeError err))"

text \<open>\<open>_replay_from_mutation\<close>\<close>

definition replay_version :: "StateMutation \<Rightarrow> json" where
  "replay_version m =
     (let v = jget (mut_after m) (u ''version'') JNull in
      if is_jint v then v
      else let d = jget (mut_after m) (u ''date_version'') JNull in
      if is_jint d then d
      else jget (mut_after m) (u ''thing_version'') (JInt 1))"

section \<open>Audit records\<close>

definition new_mutation ::
  "uuid \<Rightarrow> time \<Rightarrow> uuid \<Rightarrow> uuid option \<Rightarrow> uuid option \<Rightarrow> str \<Rightarrow> str \<Rightarrow> str \<Rightarrow> uuid \<Rightarrow>
    jdict option \<Rightarrow> jdict \<Rightarrow> str \<Rightarrow> uuid option \<Rightarrow> str \<Rightarrow> StateMutation" where
  "new_mutation mid created user_id thing run action_id mutation_type target_type target
       before after reason source key =
     \<lparr>mut_user_id = user_id, mut_thing_id = thing, mut_action_id = action_id,
      mut_mutation_type = mutation_type, mut_target_type = target_type, mut_target_id = target,
      mut_after = after, mut_reason = reason, mut_idempotency_key = key, mut_id = mid,
      mut_run_id = run, mut_before = before, mut_source_id = source, mut_created_at = created\<rparr>"

lemma new_mutation_simps [simp]:
  "mut_id (new_mutation mid c uid th r a mt tt tg bf af re so k) = mid"
  "mut_user_id (new_mutation mid c uid th r a mt tt tg bf af re so k) = uid"
  "mut_thing_id (new_mutation mid c uid th r a mt tt tg bf af re so k) = th"
  "mut_idempotency_key (new_mutation mid c uid th r a mt tt tg bf af re so k) = k"
  "mut_target_id (new_mutation mid c uid th r a mt tt tg bf af re so k) = tg"
  "mut_target_type (new_mutation mid c uid th r a mt tt tg bf af re so k) = tt"
  "mut_mutation_type (new_mutation mid c uid th r a mt tt tg bf af re so k) = mt"
  "mut_before (new_mutation mid c uid th r a mt tt tg bf af re so k) = bf"
  "mut_after (new_mutation mid c uid th r a mt tt tg bf af re so k) = af"
  by (simp_all add: new_mutation_def)

definition new_timeline_event ::
  "uuid \<Rightarrow> time \<Rightarrow> uuid \<Rightarrow> uuid \<Rightarrow> str \<Rightarrow> str \<Rightarrow> time \<Rightarrow> uuid option \<Rightarrow> uuid \<Rightarrow> jdict
    \<Rightarrow> TimelineEvent" where
  "new_timeline_event tid created user_id thing event_type title occurred source mid metadata =
     \<lparr>tle_user_id = user_id, tle_thing_id = thing, tle_event_type = event_type, tle_title = title,
      tle_occurred_at = occurred, tle_id = tid, tle_summary = None, tle_source_id = source,
      tle_mutation_id = Some mid, tle_metadata = metadata, tle_created_at = created\<rparr>"

lemma new_timeline_event_simps [simp]:
  "tle_id (new_timeline_event tid c uid th ty ti oc so mid md) = tid"
  "tle_mutation_id (new_timeline_event tid c uid th ty ti oc so mid md) = Some mid"
  "tle_user_id (new_timeline_event tid c uid th ty ti oc so mid md) = uid"
  "tle_thing_id (new_timeline_event tid c uid th ty ti oc so mid md) = th"
  "tle_event_type (new_timeline_event tid c uid th ty ti oc so mid md) = ty"
  by (simp_all add: new_timeline_event_def)

text \<open>The mutation, flushed, and then its event, if it has one.\<close>

definition record_audit :: "StateMutation \<Rightarrow> TimelineEvent option \<Rightarrow> store \<Rightarrow> py_error + store" where
  "record_audit m ev s =
     bindE (audit_add_mutation m s) (\<lambda>s1.
       case ev of None \<Rightarrow> Inr s1 | Some x \<Rightarrow> audit_add_timeline_event x s1)"

text \<open>The fixed parts of the titles, as code points.\<close>

definition TITLE_ARCHIVED :: str where
  "TITLE_ARCHIVED = [0x5F52, 0x6863, 0x4E8B, 0x52A1, 0xFF1A]"

definition TITLE_RESTORED :: str where
  "TITLE_RESTORED = [0x6062, 0x590D, 0x4E8B, 0x52A1, 0xFF1A]"

definition TITLE_DELETED :: str where
  "TITLE_DELETED = [0x5220, 0x9664, 0x4E8B, 0x52A1, 0xFF1A]"

definition TITLE_CREATED :: str where
  "TITLE_CREATED = [0x521B, 0x5EFA, 0x4E8B, 0x52A1, 0xFF1A]"

definition TITLE_UPDATED :: str where
  "TITLE_UPDATED = [0x66F4, 0x65B0, 0x4E8B, 0x52A1, 0xFF1A]"

definition TITLE_TASK_STATUS :: str where
  "TITLE_TASK_STATUS = [0x4EFB, 0x52A1, 0x72B6, 0x6001, 0x53D8, 0x66F4, 0xFF1A]"

definition TITLE_CONTEXT :: str where
  "TITLE_CONTEXT = [0x66F4, 0x65B0, 0x5F53, 0x524D, 0x4E0A, 0x4E0B, 0x6587, 0xFF1A]"

definition TITLE_TASK_CREATED :: str where
  "TITLE_TASK_CREATED = [0x521B, 0x5EFA, 0x4EFB, 0x52A1, 0xFF1A]"

definition TITLE_DATE_SET :: str where
  "TITLE_DATE_SET = [0x8BBE, 0x7F6E, 0x65E5, 0x671F, 0xFF1A]"

definition TITLE_BLOCKER :: str where
  "TITLE_BLOCKER = [0x65B0, 0x589E, 0x963B, 0x788D, 0xFF1A]"

definition TITLE_RESOLVED :: str where
  "TITLE_RESOLVED = [0x89E3, 0x51B3, 0x963B, 0x788D, 0xFF1A]"

definition TITLE_TASK_DONE :: str where
  "TITLE_TASK_DONE = [0x5DF2, 0x5B8C, 0x6210]"

definition TITLE_DATE_UPDATED :: str where
  "TITLE_DATE_UPDATED = [0x66F4, 0x65B0, 0x65E5, 0x671F, 0xFF1A]"

definition ARROW :: str where
  "ARROW = [0x20, 0x2192, 0x20]"

section \<open>Things\<close>

definition new_thing :: "uuid \<Rightarrow> time \<Rightarrow> time \<Rightarrow> uuid \<Rightarrow> str \<Rightarrow> Thing" where
  "new_thing tid created updated user_id name =
     \<lparr>thing_user_id = user_id, thing_name = name, thing_id = tid,
      thing_status = ThingStatus.ACTIVE, thing_current_stage = None, thing_deadline_at = None,
      thing_archived_at = None, thing_deleted_at = None, thing_merged_into = None,
      thing_version = 1, thing_created_at = created, thing_updated_at = updated\<rparr>"

definition apply_change_archive ::
  "env \<Rightarrow> uuid \<Rightarrow> uuid \<Rightarrow> int \<Rightarrow> str \<Rightarrow> str \<Rightarrow> str \<Rightarrow> uuid option \<Rightarrow> bool \<Rightarrow> store
    \<Rightarrow> WriteOutcome op" where
  "apply_change_archive e user_id tid expected_version action_id key reason run archive s =
     (let code = (if archive then u ''THING_ARCHIVED'' else u ''THING_RESTORED'') in
      case audit_get_mutation user_id key s of
        Some m \<Rightarrow> Inr (outcome code (u ''Mutation replayed.'')
            (target_data (mut_id m) (u ''thing_id'') (mut_target_id m) (u ''version'')
              (replay_version m) True) (mut_id m) True, s)
      | None \<Rightarrow>
      (case things_get user_id tid (core s) of
        None \<Rightarrow> Inl (EntityNotFound (u ''Thing was not found.''))
      | Some thing \<Rightarrow>
        if thing_version thing \<noteq> expected_version
        then Inl (VersionConflict (u ''Thing version is stale.''))
        else
          let thing' = (if archive then thing_archive (clk e 0) thing
                        else thing_unarchive (clk e 0) thing);
              image = (\<lambda>t. [u ''archived_at'' \<mapsto> jopt jtime (thing_archived_at t),
                u ''version'' \<mapsto> JInt (thing_version t)]);
              kind = (if archive then u ''THING_ARCHIVED'' else u ''THING_UNARCHIVED'');
              title = (if archive then TITLE_ARCHIVED else TITLE_RESTORED) @ thing_name thing' in
          (case things_update thing' expected_version s of
             (won, s1) \<Rightarrow>
               if \<not> won then Inl (VersionConflict (u ''Thing was updated concurrently.''))
               else
                 let mutation = new_mutation (uid4 e 0) (clk e 1) user_id (Some (thing_id thing')) run
                       action_id kind (u ''THING'') (thing_id thing') (Some (image thing))
                       (image thing') reason None key in
                 bindE (record_audit mutation (Some (new_timeline_event (uid4 e 1) (clk e 2) user_id
                     (thing_id thing') kind title (thing_updated_at thing') None (uid4 e 0)
                     Map.empty)) s1) (\<lambda>s2.
                 Inr (outcome code (if archive then u ''Thing archived.'' else u ''Thing restored.'')
                   (target_data (uid4 e 0) (u ''thing_id'') (thing_id thing') (u ''version'')
                     (JInt (thing_version thing')) False) (uid4 e 0) False, s2)))))"

definition apply_delete_thing ::
  "env \<Rightarrow> uuid \<Rightarrow> uuid \<Rightarrow> int \<Rightarrow> str \<Rightarrow> str \<Rightarrow> str \<Rightarrow> uuid option \<Rightarrow> store \<Rightarrow> WriteOutcome op" where
  "apply_delete_thing e user_id tid expected_version action_id key reason run s =
     (case audit_get_mutation user_id key s of
        Some m \<Rightarrow>
          bindE (stored_version (u ''version'')
              (u ''Stored delete mutation is missing its target version.'') m) (\<lambda>version.
            Inr (outcome (u ''THING_DELETED'') (u ''Thing deleted.'')
              (target_data (mut_id m) (u ''thing_id'') (mut_target_id m) (u ''version'') version True)
              (mut_id m) True, s))
      | None \<Rightarrow>
      (case things_get_including_deleted user_id tid s of
        None \<Rightarrow> Inl (EntityNotFound (u ''Thing was not found.''))
      | Some thing \<Rightarrow>
        if thing_deleted_at thing \<noteq> None
        then Inl (EntityNotFound (u ''Thing was not found.''))
        else if thing_version thing \<noteq> expected_version
        then Inl (VersionConflict (u ''Thing version is stale.''))
        else
          let image = (\<lambda>t. [u ''deleted_at'' \<mapsto> jopt jtime (thing_deleted_at t),
                u ''version'' \<mapsto> JInt (thing_version t)]);
              s1 = things_detach_tasks (thing_id thing) s;
              s2 = things_delete_owned_components (thing_id thing) s1 in
          bindE (thing_delete (clk e 0) thing) (\<lambda>thing'.
          (case things_update thing' expected_version s2 of
             (won, s3) \<Rightarrow>
               if \<not> won then Inl (VersionConflict (u ''Thing was updated concurrently.''))
               else
                 let mutation = new_mutation (uid4 e 0) (clk e 1) user_id (Some (thing_id thing')) run
                       action_id (u ''THING_DELETED'') (u ''THING'') (thing_id thing')
                       (Some (image thing)) (image thing') reason None key in
                 bindE (record_audit mutation (Some (new_timeline_event (uid4 e 1) (clk e 2) user_id
                     (thing_id thing') (u ''THING_DELETED'') (TITLE_DELETED @ thing_name thing')
                     (thing_updated_at thing') None (uid4 e 0) Map.empty)) s3) (\<lambda>s4.
                 Inr (outcome (u ''THING_DELETED'') (u ''Thing deleted.'')
                   (target_data (uid4 e 0) (u ''thing_id'') (thing_id thing') (u ''version'')
                     (JInt (thing_version thing')) False) (uid4 e 0) False, s4))))))"

definition apply_create_thing ::
  "env \<Rightarrow> uuid \<Rightarrow> str \<Rightarrow> str \<Rightarrow> str \<Rightarrow> str \<Rightarrow> uuid option \<Rightarrow> store \<Rightarrow> WriteOutcome op" where
  "apply_create_thing e user_id name action_id key reason run s =
     (if strip name = [] then Inl (ValueError (u ''Thing name must not be empty.''))
      else case audit_get_mutation user_id key s of
        Some m \<Rightarrow>
          (case things_get user_id (mut_target_id m) (core s) of
             None \<Rightarrow> Inl (RuntimeError (u ''Idempotent Thing creation points to a missing Thing.''))
           | Some thing \<Rightarrow> Inr (outcome (u ''THING_CREATED'') (u ''Thing created.'')
               (created_data (thing_id thing) (thing_version thing) True) (mut_id m) True, s))
      | None \<Rightarrow>
          let s1 = users_ensure (clk e 0) user_id s;
              thing = new_thing (uid4 e 0) (clk e 0) (clk e 1) user_id (strip name) in
          bindE (things_add thing s1) (\<lambda>s2.
          let mutation = new_mutation (uid4 e 1) (clk e 2) user_id (Some (thing_id thing)) run
                action_id (u ''THING_CREATED'') (u ''THING'') (thing_id thing) None
                [u ''name'' \<mapsto> JStr (thing_name thing),
                 u ''status'' \<mapsto> JStr (thing_status_value (thing_status thing)),
                 u ''version'' \<mapsto> JInt (thing_version thing)] reason None key in
          bindE (record_audit mutation (Some (new_timeline_event (uid4 e 2) (clk e 3) user_id
              (thing_id thing) (u ''THING_CREATED'') (TITLE_CREATED @ thing_name thing)
              (thing_created_at thing) None (uid4 e 1) Map.empty)) s2) (\<lambda>s3.
          Inr (outcome (u ''THING_CREATED'') (u ''Thing created.'')
            (created_data (thing_id thing) (thing_version thing) False) (uid4 e 1) False, s3))))"

section \<open>Tasks\<close>

definition new_task ::
  "uuid \<Rightarrow> time \<Rightarrow> time \<Rightarrow> uuid \<Rightarrow> uuid option \<Rightarrow> str \<Rightarrow> time option \<Rightarrow> int option \<Rightarrow> Task" where
  "new_task tid created updated user_id thing title due recurrence =
     \<lparr>task_user_id = user_id, task_title = title, task_thing_id = thing, task_id = tid,
      task_status = TaskStatus.TODO, task_version = 1, task_completed_at = None,
      task_due_at = due, task_recurrence_interval_days = recurrence, task_created_at = created,
      task_updated_at = updated\<rparr>"

definition apply_transition_task ::
  "env \<Rightarrow> uuid \<Rightarrow> uuid \<Rightarrow> TaskStatus \<Rightarrow> int \<Rightarrow> str \<Rightarrow> str \<Rightarrow> str \<Rightarrow> uuid option \<Rightarrow> store
    \<Rightarrow> WriteOutcome op" where
  "apply_transition_task e user_id tid target_status expected_version action_id key reason run s =
     (case audit_get_mutation user_id key s of
        Some m \<Rightarrow>
          bindE (stored_version (u ''version'')
              (u ''Stored Task mutation is missing target version.'') m) (\<lambda>version.
            Inr (outcome (u ''TASK_STATUS_CHANGED'') (u ''Task status changed.'')
              (target_data (mut_id m) (u ''task_id'') (mut_target_id m) (u ''version'') version True)
              (mut_id m) True, s))
      | None \<Rightarrow>
      (case tasks_get user_id tid s of
        None \<Rightarrow> Inl (EntityNotFound (u ''Task was not found.''))
      | Some task \<Rightarrow>
        if task_version task \<noteq> expected_version
        then Inl (VersionConflict (u ''Task version is stale.''))
        else
          bindE (task_transition_to (clk e 0) target_status task) (\<lambda>task'.
          if task_version task' = expected_version
          then Inl (ValueError (u ''Task already has the requested status.''))
          else
            (case tasks_update task' expected_version s of
               (won, s1) \<Rightarrow>
                 if \<not> won then Inl (VersionConflict (u ''Task was updated concurrently.''))
                 else
                   let mutation = new_mutation (uid4 e 0) (clk e 1) user_id (task_thing_id task') run
                         action_id (u ''TASK_STATUS_CHANGED'') (u ''TASK'') (task_id task')
                         (Some [u ''status'' \<mapsto> JStr (task_status_value (task_status task)),
                           u ''version'' \<mapsto> JInt expected_version])
                         [u ''status'' \<mapsto> JStr (task_status_value (task_status task')),
                          u ''version'' \<mapsto> JInt (task_version task')] reason None key;
                       event_type = (if task_status task' = TaskStatus.DONE then u ''TASK_COMPLETED''
                         else u ''TASK_STATUS_CHANGED'') in
                   bindE (record_audit mutation (map_option (\<lambda>th.
                       new_timeline_event (uid4 e 1) (clk e 2) user_id th event_type
                         (TITLE_TASK_STATUS @ task_title task' @ ARROW
                           @ task_status_value (task_status task'))
                         (task_updated_at task') None (uid4 e 0) Map.empty) (task_thing_id task')) s1)
                     (\<lambda>s2.
                   Inr (outcome (u ''TASK_STATUS_CHANGED'') (u ''Task status changed.'')
                     (target_data (uid4 e 0) (u ''task_id'') (task_id task') (u ''version'')
                       (JInt (task_version task')) False) (uid4 e 0) False, s2))))))"

definition apply_complete_task ::
  "env \<Rightarrow> uuid \<Rightarrow> uuid \<Rightarrow> int \<Rightarrow> str \<Rightarrow> str \<Rightarrow> str \<Rightarrow> uuid option \<Rightarrow> store \<Rightarrow> WriteOutcome op" where
  "apply_complete_task e user_id tid expected_version action_id key reason run s =
     (case audit_get_mutation user_id key s of
        Some m \<Rightarrow>
          bindE (stored_version (u ''version'')
              (u ''Stored mutation is missing a valid target version.'') m) (\<lambda>version.
            Inr (outcome (u ''TASK_COMPLETED'') (u ''Task completed.'')
              (target_data (mut_id m) (u ''task_id'') (mut_target_id m) (u ''version'') version True)
              (mut_id m) True, s))
      | None \<Rightarrow>
      (case tasks_get user_id tid s of
        None \<Rightarrow> Inl (EntityNotFound (u ''Task was not found.''))
      | Some task \<Rightarrow>
        if task_version task \<noteq> expected_version
        then Inl (VersionConflict (u ''Task version is stale.''))
        else
          bindE (task_complete (clk e 0) None task) (\<lambda>task'.
          (case tasks_update task' expected_version s of
             (won, s1) \<Rightarrow>
               if \<not> won then Inl (VersionConflict (u ''Task was updated concurrently.''))
               else
                 let kind = (if task_recurrence_interval_days task' \<noteq> None
                       then u ''RECURRING_TASK_ADVANCED'' else u ''TASK_COMPLETED'');
                     mutation = new_mutation (uid4 e 0) (clk e 1) user_id (task_thing_id task') run
                       action_id kind (u ''TASK'') (task_id task')
                       (Some [u ''status'' \<mapsto> JStr (task_status_value (task_status task)),
                         u ''version'' \<mapsto> JInt (task_version task)])
                       [u ''status'' \<mapsto> JStr (task_status_value (task_status task')),
                        u ''due_at'' \<mapsto> jopt jtime (task_due_at task'),
                        u ''version'' \<mapsto> JInt (task_version task')] reason None key in
                 bindE (record_audit mutation (map_option (\<lambda>th.
                     new_timeline_event (uid4 e 1) (clk e 3) user_id th (u ''TASK_COMPLETED'')
                       (task_title task' @ TITLE_TASK_DONE)
                       (case task_completed_at task' of Some t \<Rightarrow> t | None \<Rightarrow> clk e 2) None (uid4 e 0)
                       Map.empty) (task_thing_id task')) s1) (\<lambda>s2.
                 Inr (outcome (u ''TASK_COMPLETED'') (u ''Task completed.'')
                   (target_data (uid4 e 0) (u ''task_id'') (task_id task') (u ''version'')
                     (JInt (task_version task')) False) (uid4 e 0) False, s2))))))"

definition apply_create_task ::
  "env \<Rightarrow> uuid \<Rightarrow> uuid option \<Rightarrow> str \<Rightarrow> pydatetime option \<Rightarrow> int option \<Rightarrow> str \<Rightarrow> str \<Rightarrow> str \<Rightarrow>
    uuid option \<Rightarrow> store \<Rightarrow> WriteOutcome op" where
  "apply_create_task e user_id thing_ref title due_at recurrence action_id key reason run s =
     (if strip title = [] then Inl (ValueError (u ''Task title must not be empty.''))
      else if (case recurrence of None \<Rightarrow> False | Some days \<Rightarrow> days \<le> 0 \<or> due_at = None)
      then Inl (ValueError (u ''Recurring Task requires a due time and a positive interval.''))
      else case audit_get_mutation user_id key s of
        Some m \<Rightarrow>
          (case tasks_get user_id (mut_target_id m) s of
             None \<Rightarrow> Inl (RuntimeError (u ''Idempotent Task creation points to a missing Task.''))
           | Some task \<Rightarrow> Inr (outcome (u ''TASK_CREATED'') (u ''Task created.'')
               (created_data (task_id task) (task_version task) True) (mut_id m) True, s))
      | None \<Rightarrow>
          if (case thing_ref of None \<Rightarrow> False | Some th \<Rightarrow> things_get user_id th (core s) = None)
          then Inl (EntityNotFound (u ''Thing was not found.''))
          else
            let s1 = users_ensure (clk e 0) user_id s;
                task = new_task (uid4 e 0) (clk e 0) (clk e 1) user_id thing_ref (strip title)
                  (map_option instant due_at) recurrence in
            bindE (tasks_add task s1) (\<lambda>s2.
            let mutation = new_mutation (uid4 e 1) (clk e 2) user_id thing_ref run
                  action_id (u ''TASK_CREATED'') (u ''TASK'') (task_id task) None
                  [u ''title'' \<mapsto> JStr (task_title task),
                   u ''status'' \<mapsto> JStr (task_status_value (task_status task)),
                   u ''due_at'' \<mapsto> jopt (\<lambda>d. JStr (isoformat d)) due_at,
                   u ''recurrence_interval_days'' \<mapsto> jopt JInt recurrence,
                   u ''version'' \<mapsto> JInt (task_version task)] reason None key in
            bindE (record_audit mutation (map_option (\<lambda>th.
                new_timeline_event (uid4 e 2) (clk e 3) user_id th (u ''TASK_CREATED'')
                  (TITLE_TASK_CREATED @ task_title task) (task_created_at task) None (uid4 e 1)
                  Map.empty) thing_ref) s2) (\<lambda>s3.
            Inr (outcome (u ''TASK_CREATED'') (u ''Task created.'')
              (created_data (task_id task) (task_version task) False) (uid4 e 1) False, s3))))"

end
