(* ===== verification/StateDetailOps.thy ===== *)
theory StateDetailOps
  imports StateOps
begin

text \<open>
  The rest of \<open>application/personal_state/write_ops.py\<close>: context entries, dates, blockers, the merge
  of two things, and the result the services hand out.
\<close>

section \<open>Context entries\<close>

definition new_entry ::
  "uuid \<Rightarrow> time \<Rightarrow> time \<Rightarrow> uuid \<Rightarrow> str \<Rightarrow> str \<Rightarrow> uuid option \<Rightarrow> ThingContextEntry" where
  "new_entry cid created updated thing label content source =
     \<lparr>ctx_thing_id = thing, ctx_label = label, ctx_content = content, ctx_id = cid,
      ctx_source_id = source, ctx_version = 1, ctx_created_at = created, ctx_updated_at = updated\<rparr>"

definition entry_image :: "ThingContextEntry \<Rightarrow> jdict" where
  "entry_image c = [u ''label'' \<mapsto> JStr (ctx_label c), u ''content'' \<mapsto> JStr (ctx_content c),
     u ''version'' \<mapsto> JInt (ctx_version c)]"

text \<open>
  The entry that is added or revised, the kind of the mutation, and the state before it: the two
  branches on \<open>entry_id\<close>.
\<close>

definition write_entry ::
  "env \<Rightarrow> uuid \<Rightarrow> uuid \<Rightarrow> str \<Rightarrow> str \<Rightarrow> uuid option \<Rightarrow> int option \<Rightarrow> uuid option \<Rightarrow> store
    \<Rightarrow> py_error + (ThingContextEntry \<times> str \<times> jdict option \<times> store)" where
  "write_entry e user_id tid label content entry_ref expected_version source s =
     (case entry_ref of
        None \<Rightarrow>
          if expected_version \<noteq> None
          then Inl (ValueError (u ''expected_version is only valid when updating a context entry.''))
          else
            let entry = new_entry (uid4 e 0) (clk e 0) (clk e 1) tid label content source in
            bindE (entries_add entry s) (\<lambda>s1.
              Inr (entry, u ''THING_CONTEXT_CREATED'', None, s1))
      | Some cid \<Rightarrow>
          (case expected_version of
             None \<Rightarrow>
               Inl (ValueError (u ''expected_version is required when updating a context entry.''))
           | Some v \<Rightarrow>
               (case entries_get user_id cid s of
                  None \<Rightarrow> Inl (EntityNotFound (u ''Thing context entry was not found.''))
                | Some entry \<Rightarrow>
                    if ctx_thing_id entry \<noteq> tid
                    then Inl (EntityNotFound (u ''Thing context entry was not found.''))
                    else if ctx_version entry \<noteq> v
                    then Inl (VersionConflict (u ''Thing context entry version is stale.''))
                    else
                      bindE (ctx_revise (clk e 0) label content entry) (\<lambda>entry'.
                      (case entries_update entry' v s of
                         (won, s1) \<Rightarrow>
                           if \<not> won
                           then Inl (VersionConflict
                             (u ''Thing context entry was updated concurrently.''))
                           else Inr (entry', u ''THING_CONTEXT_UPDATED'', Some (entry_image entry),
                             s1))))))"

definition apply_set_thing_context ::
  "env \<Rightarrow> uuid \<Rightarrow> uuid \<Rightarrow> str \<Rightarrow> str \<Rightarrow> uuid option \<Rightarrow> int option \<Rightarrow> uuid option \<Rightarrow> str \<Rightarrow> str \<Rightarrow>
    str \<Rightarrow> uuid option \<Rightarrow> store \<Rightarrow> WriteOutcome op" where
  "apply_set_thing_context e user_id tid label content entry_ref expected_version source
       action_id key reason run s =
     (if strip label = [] \<or> strip content = []
      then Inl (ValueError (u ''Thing context label and content must not be empty.''))
      else case audit_get_mutation user_id key s of
        Some m \<Rightarrow>
          bindE (stored_version (u ''version'')
              (u ''Stored context mutation is missing target version.'') m) (\<lambda>version.
            Inr (outcome (u ''THING_CONTEXT_SET'') (u ''Current Thing context set.'')
              (target_data (mut_id m) (u ''entry_id'') (mut_target_id m) (u ''version'') version True)
              (mut_id m) True, s))
      | None \<Rightarrow>
        if things_get user_id tid (core s) = None
        then Inl (EntityNotFound (u ''Thing was not found.''))
        else
          bindE (write_entry e user_id tid (strip label) (strip content) entry_ref expected_version
              source s) (\<lambda>(entry, kind, before, s1).
          let mutation = new_mutation (uid4 e 1) (clk e 2) user_id (Some tid) run action_id kind
                (u ''THING_CONTEXT_ENTRY'') (ctx_id entry) before (entry_image entry) reason source
                key in
          bindE (record_audit mutation (Some (new_timeline_event (uid4 e 2) (clk e 3) user_id tid
              kind (TITLE_CONTEXT @ ctx_label entry) (ctx_updated_at entry) source (uid4 e 1)
              Map.empty)) s1) (\<lambda>s2.
          Inr (outcome (u ''THING_CONTEXT_SET'') (u ''Current Thing context set.'')
            (target_data (uid4 e 1) (u ''entry_id'') (ctx_id entry) (u ''version'')
              (JInt (ctx_version entry)) False) (uid4 e 1) False, s2))))"

section \<open>Dates\<close>

definition new_date ::
  "uuid \<Rightarrow> time \<Rightarrow> time \<Rightarrow> uuid \<Rightarrow> ThingDateType \<Rightarrow> str option \<Rightarrow> time \<Rightarrow> str \<Rightarrow> DatePrecision \<Rightarrow>
    DateCertainty \<Rightarrow> bool \<Rightarrow> uuid option \<Rightarrow> ThingDate" where
  "new_date did created updated thing kind label value timezone_name precision certainty is_primary
       source =
     \<lparr>tdate_thing_id = thing, tdate_kind = kind, tdate_value = value,
      tdate_timezone_name = timezone_name, tdate_precision = precision,
      tdate_certainty = certainty, tdate_label = label, tdate_id = did,
      tdate_is_primary = is_primary, tdate_source_id = source, tdate_version = 1,
      tdate_created_at = created, tdate_updated_at = updated\<rparr>"

definition apply_set_deadline ::
  "env \<Rightarrow> uuid \<Rightarrow> uuid \<Rightarrow> ThingDateType \<Rightarrow> pydatetime \<Rightarrow> str \<Rightarrow> DatePrecision \<Rightarrow> DateCertainty \<Rightarrow>
    bool \<Rightarrow> int \<Rightarrow> str \<Rightarrow> str \<Rightarrow> str \<Rightarrow> str option \<Rightarrow> uuid option \<Rightarrow> uuid option \<Rightarrow> store
    \<Rightarrow> WriteOutcome op" where
  "apply_set_deadline e user_id tid kind value timezone_name precision certainty is_primary
       expected_version action_id key reason label run source s =
     (if \<not> is_aware value
      then Inl (ValueError (u ''Deadline must include timezone information.''))
      else if strip timezone_name = []
      then Inl (ValueError (u ''Date timezone must not be empty.''))
      else if is_primary \<and> certainty \<noteq> DateCertainty.CONFIRMED
      then Inl (ValueError (u ''Only a confirmed date can become the primary deadline.''))
      else case audit_get_mutation user_id key s of
        Some m \<Rightarrow>
          bindE (stored_version (u ''thing_version'')
              (u ''Stored deadline mutation is missing Thing version.'') m) (\<lambda>version.
            Inr (outcome (u ''DEADLINE_SET'') (u ''Deadline set.'')
              (target_data (mut_id m) (u ''date_id'') (mut_target_id m) (u ''thing_version'') version
                True) (mut_id m) True, s))
      | None \<Rightarrow>
      (case things_get user_id tid (core s) of
        None \<Rightarrow> Inl (EntityNotFound (u ''Thing was not found.''))
      | Some thing \<Rightarrow>
        if thing_version thing \<noteq> expected_version
        then Inl (VersionConflict (u ''Thing version is stale.''))
        else if (case source of None \<Rightarrow> False | Some x \<Rightarrow> sources_get user_id x (core s) = None)
        then Inl (EntityNotFound (u ''Source was not found.''))
        else
          let date = new_date (uid4 e 0) (clk e 0) (clk e 1) (thing_id thing) kind
                (case label of None \<Rightarrow> None | Some l \<Rightarrow> if l = [] then None else Some (strip l))
                (instant value) (strip timezone_name) precision certainty is_primary source in
          bindE (if is_primary
                 then bindE (thing_set_primary_deadline (clk e 2) value thing) (\<lambda>thing'.
                   (case things_update thing' expected_version s of
                      (won, s1) \<Rightarrow>
                        if \<not> won
                        then Inl (VersionConflict (u ''Thing was updated concurrently.''))
                        else Inr (thing', dates_unset_primary (thing_id thing') kind s1)))
                 else Inr (thing, s)) (\<lambda>(thing', s1).
          bindE (dates_add date s1) (\<lambda>s2.
          let mutation = new_mutation (uid4 e 1) (clk e 3) user_id (Some (thing_id thing')) run
                action_id (u ''DEADLINE_SET'') (u ''THING_DATE'') (tdate_id date)
                (Some [u ''deadline_at'' \<mapsto> jopt jtime (thing_deadline_at thing),
                  u ''thing_version'' \<mapsto> JInt expected_version])
                ([u ''value'' \<mapsto> JStr (isoformat value),
                  u ''certainty'' \<mapsto> JStr (certainty_value certainty),
                  u ''is_primary'' \<mapsto> JBool is_primary,
                  u ''source_id'' \<mapsto> jopt juuid source,
                  u ''thing_version'' \<mapsto> JInt (thing_version thing')]
                 ++ (case source of None \<Rightarrow> Map.empty
                     | Some x \<Rightarrow> [u ''evidence_ref'' \<mapsto> JObj (evidence_to_json
                         \<lparr>ev_source_kind = EvidenceSourceKind.FILE, ev_source_id = x,
                          ev_locator = None\<rparr>)])) reason None key in
          bindE (record_audit mutation (Some (new_timeline_event (uid4 e 2) (clk e 5) user_id
              (thing_id thing') (if is_primary then u ''DEADLINE_CHANGED''
                else u ''IMPORTANT_DATE_ADDED'')
              (TITLE_DATE_SET @ date_kind_value kind) (clk e 4) None (uid4 e 1) Map.empty)) s2)
            (\<lambda>s3.
          Inr (outcome (u ''DEADLINE_SET'') (u ''Deadline set.'')
            (target_data (uid4 e 1) (u ''date_id'') (tdate_id date) (u ''thing_version'')
              (JInt (thing_version thing')) False) (uid4 e 1) False, s3))))))"

definition date_image :: "str \<Rightarrow> ThingDate \<Rightarrow> Thing \<Rightarrow> jdict" where
  "date_image value_text d thing =
     [u ''value'' \<mapsto> JStr value_text, u ''certainty'' \<mapsto> JStr (certainty_value (tdate_certainty d)),
      u ''is_primary'' \<mapsto> JBool (tdate_is_primary d), u ''date_version'' \<mapsto> JInt (tdate_version d),
      u ''thing_version'' \<mapsto> JInt (thing_version thing)]"

text \<open>The thing after a date changed: its deadline follows a primary date and its demotion.\<close>

definition redate_thing ::
  "env \<Rightarrow> pydatetime \<Rightarrow> bool \<Rightarrow> bool \<Rightarrow> ThingDateType \<Rightarrow> Thing \<Rightarrow> store \<Rightarrow> py_error + (Thing \<times> store)"
where
  "redate_thing e value is_primary was_primary kind thing s =
     (if is_primary
      then bindE (thing_set_primary_deadline (clk e 1) value thing) (\<lambda>thing'.
        Inr (thing', dates_unset_primary (thing_id thing) kind s))
      else if was_primary
      then Inr (thing_touch (clk e 1) (thing\<lparr>thing_deadline_at := None\<rparr>), s)
      else Inr (thing, s))"

definition apply_update_date ::
  "env \<Rightarrow> uuid \<Rightarrow> uuid \<Rightarrow> pydatetime \<Rightarrow> str \<Rightarrow> DatePrecision \<Rightarrow> DateCertainty \<Rightarrow> bool \<Rightarrow> int \<Rightarrow> int \<Rightarrow>
    str \<Rightarrow> str \<Rightarrow> str \<Rightarrow> store \<Rightarrow> WriteOutcome op" where
  "apply_update_date e user_id did value timezone_name precision certainty is_primary
       expected_version expected_thing_version action_id key reason s =
     (case audit_get_mutation user_id key s of
        Some m \<Rightarrow>
          bindE (stored_version (u ''date_version'')
              (u ''Stored date mutation is missing target version.'') m) (\<lambda>version.
            Inr (outcome (u ''DATE_UPDATED'') (u ''Date updated.'')
              (target_data (mut_id m) (u ''date_id'') (mut_target_id m) (u ''date_version'') version
                True) (mut_id m) True, s))
      | None \<Rightarrow>
      (case dates_get user_id did s of
        None \<Rightarrow> Inl (EntityNotFound (u ''ThingDate was not found.''))
      | Some date \<Rightarrow>
        if tdate_version date \<noteq> expected_version
        then Inl (VersionConflict (u ''ThingDate version is stale.''))
        else
      (case things_get user_id (tdate_thing_id date) (core s) of
        None \<Rightarrow> Inl (EntityNotFound (u ''Thing was not found.''))
      | Some thing \<Rightarrow>
        if thing_version thing \<noteq> expected_thing_version
        then Inl (VersionConflict (u ''Thing version is stale.''))
        else
          bindE (tdate_revise (clk e 0) value timezone_name precision certainty is_primary date)
            (\<lambda>date'.
          bindE (redate_thing e value is_primary (tdate_is_primary date) (tdate_kind date) thing s)
            (\<lambda>(thing', s1).
          bindE (if thing_version thing' \<noteq> expected_thing_version
                 then (case things_update thing' expected_thing_version s1 of
                   (won, s2) \<Rightarrow>
                     if \<not> won then Inl (VersionConflict (u ''Thing was updated concurrently.''))
                     else Inr s2)
                 else Inr s1) (\<lambda>s2.
          bindE (dates_update date' expected_version s2) (\<lambda>(won, s3).
          if \<not> won then Inl (VersionConflict (u ''ThingDate was updated concurrently.''))
          else
            let mutation = new_mutation (uid4 e 0) (clk e 2) user_id (Some (thing_id thing')) None
                  action_id (u ''DATE_UPDATED'') (u ''THING_DATE'') (tdate_id date')
                  (Some (date_image (isoformat (Aware (tdate_value date))) date thing))
                  (date_image (isoformat value) date' thing') reason None key in
            bindE (record_audit mutation (Some (new_timeline_event (uid4 e 1) (clk e 3) user_id
                (thing_id thing') (if is_primary \<or> tdate_is_primary date
                  then u ''DEADLINE_CHANGED'' else u ''DATE_CHANGED'')
                (TITLE_DATE_UPDATED @ date_kind_value (tdate_kind date')) (tdate_updated_at date')
                None (uid4 e 0) Map.empty)) s3) (\<lambda>s4.
            Inr (outcome (u ''DATE_UPDATED'') (u ''Date updated.'')
              ((target_data (uid4 e 0) (u ''date_id'') (tdate_id date') (u ''date_version'')
                 (JInt (tdate_version date')) False)
                 (u ''thing_version'' \<mapsto> JInt (thing_version thing'))) (uid4 e 0) False, s4)))))))))"

section \<open>Blockers\<close>

definition new_blocker ::
  "uuid \<Rightarrow> time \<Rightarrow> time \<Rightarrow> time \<Rightarrow> uuid \<Rightarrow> uuid option \<Rightarrow> str \<Rightarrow> BlockerSeverity \<Rightarrow> uuid option \<Rightarrow> Blocker"
where
  "new_blocker bid since created updated thing task description severity source =
     \<lparr>blk_thing_id = thing, blk_description = description, blk_severity = severity, blk_id = bid,
      blk_task_id = task, blk_status = BlockerStatus.OPEN, blk_blocked_since = since,
      blk_resolved_at = None, blk_source_id = source, blk_version = 1, blk_created_at = created,
      blk_updated_at = updated\<rparr>"

definition blocker_image :: "Blocker \<Rightarrow> jdict" where
  "blocker_image b = [u ''status'' \<mapsto> JStr (blocker_status_value (blk_status b)),
     u ''version'' \<mapsto> JInt (blk_version b)]"

definition apply_create_blocker ::
  "env \<Rightarrow> uuid \<Rightarrow> uuid \<Rightarrow> str \<Rightarrow> BlockerSeverity \<Rightarrow> uuid option \<Rightarrow> uuid option \<Rightarrow> str \<Rightarrow> str \<Rightarrow> str \<Rightarrow>
    store \<Rightarrow> WriteOutcome op" where
  "apply_create_blocker e user_id tid description severity task_ref source action_id key reason s =
     (if strip description = []
      then Inl (ValueError (u ''Blocker description must not be empty.''))
      else case audit_get_mutation user_id key s of
        Some m \<Rightarrow>
          (case blockers_get user_id (mut_target_id m) s of
             None \<Rightarrow> Inl (RuntimeError (u ''Idempotent Blocker creation points to missing data.''))
           | Some blocker \<Rightarrow> Inr (outcome (u ''BLOCKER_ADDED'') (u ''Blocker added.'')
               (created_data (blk_id blocker) (blk_version blocker) True) (mut_id m) True, s))
      | None \<Rightarrow>
        if things_get user_id tid (core s) = None
        then Inl (EntityNotFound (u ''Thing was not found.''))
        else if (case task_ref of None \<Rightarrow> False | Some x \<Rightarrow>
            (case tasks_get user_id x s of None \<Rightarrow> True
             | Some task \<Rightarrow> task_thing_id task \<noteq> Some tid))
        then Inl (EntityNotFound (u ''Task was not found in this Thing.''))
        else if (case source of None \<Rightarrow> False | Some x \<Rightarrow> sources_get user_id x (core s) = None)
        then Inl (EntityNotFound (u ''Source was not found.''))
        else
          let blocker = new_blocker (uid4 e 0) (clk e 0) (clk e 1) (clk e 2) tid task_ref
                (strip description) severity source in
          bindE (blockers_add blocker s) (\<lambda>s1.
          let mutation = new_mutation (uid4 e 1) (clk e 3) user_id (Some tid) None action_id
                (u ''BLOCKER_ADDED'') (u ''BLOCKER'') (blk_id blocker) None (blocker_image blocker)
                reason source key in
          bindE (record_audit mutation (Some (new_timeline_event (uid4 e 2) (clk e 4) user_id tid
              (u ''BLOCKER_ADDED'') (TITLE_BLOCKER @ blk_description blocker)
              (blk_blocked_since blocker) source (uid4 e 1) Map.empty)) s1) (\<lambda>s2.
          Inr (outcome (u ''BLOCKER_ADDED'') (u ''Blocker added.'')
            (created_data (blk_id blocker) (blk_version blocker) False) (uid4 e 1) False, s2))))"

definition apply_resolve_blocker ::
  "env \<Rightarrow> uuid \<Rightarrow> uuid \<Rightarrow> int \<Rightarrow> str \<Rightarrow> str \<Rightarrow> str \<Rightarrow> store \<Rightarrow> WriteOutcome op" where
  "apply_resolve_blocker e user_id bid expected_version action_id key reason s =
     (case audit_get_mutation user_id key s of
        Some m \<Rightarrow>
          bindE (stored_version (u ''version'')
              (u ''Stored Blocker mutation is missing target version.'') m) (\<lambda>version.
            Inr (outcome (u ''BLOCKER_RESOLVED'') (u ''Blocker resolved.'')
              (target_data (mut_id m) (u ''blocker_id'') (mut_target_id m) (u ''version'') version
                True) (mut_id m) True, s))
      | None \<Rightarrow>
      (case blockers_get user_id bid s of
        None \<Rightarrow> Inl (EntityNotFound (u ''Blocker was not found.''))
      | Some blocker \<Rightarrow>
        if blk_version blocker \<noteq> expected_version
        then Inl (VersionConflict (u ''Blocker version is stale.''))
        else
          bindE (blocker_resolve (clk e 0) blocker) (\<lambda>blocker'.
          (case blockers_update blocker' expected_version s of
             (won, s1) \<Rightarrow>
               if \<not> won then Inl (VersionConflict (u ''Blocker was updated concurrently.''))
               else
                 let mutation = new_mutation (uid4 e 0) (clk e 1) user_id
                       (Some (blk_thing_id blocker')) None action_id (u ''BLOCKER_RESOLVED'')
                       (u ''BLOCKER'') (blk_id blocker')
                       (Some [u ''status'' \<mapsto> JStr (u ''OPEN''),
                         u ''version'' \<mapsto> JInt expected_version])
                       (blocker_image blocker') reason None key in
                 bindE (record_audit mutation (Some (new_timeline_event (uid4 e 1) (clk e 3) user_id
                     (blk_thing_id blocker') (u ''BLOCKER_RESOLVED'')
                     (TITLE_RESOLVED @ blk_description blocker')
                     (case blk_resolved_at blocker' of Some t \<Rightarrow> t | None \<Rightarrow> clk e 2) None (uid4 e 0)
                     Map.empty)) s1) (\<lambda>s2.
                 Inr (outcome (u ''BLOCKER_RESOLVED'') (u ''Blocker resolved.'')
                   (target_data (uid4 e 0) (u ''blocker_id'') (blk_id blocker') (u ''version'')
                     (JInt (blk_version blocker')) False) (uid4 e 0) False, s2))))))"

section \<open>Merging two things\<close>

text \<open>\<open>str(v)\<close> of a JSON value, as in \<open>result_code\<close>.\<close>

definition json_str :: "(json \<Rightarrow> str) \<Rightarrow> json \<Rightarrow> str" where
  "json_str show_json v = (case v of JStr t \<Rightarrow> t | _ \<Rightarrow> show_json v)"

definition apply_merge_things ::
  "(json \<Rightarrow> str) \<Rightarrow> env \<Rightarrow> uuid \<Rightarrow> uuid \<Rightarrow> uuid \<Rightarrow> int \<Rightarrow> int \<Rightarrow> str \<Rightarrow> str \<Rightarrow> str \<Rightarrow> uuid option \<Rightarrow>
    store \<Rightarrow> WriteOutcome op" where
  "apply_merge_things show_json e user_id canonical_id duplicate_id expected_canonical_version
       expected_duplicate_version action_id key reason run s =
     (if canonical_id = duplicate_id
      then Inl (ValueError (u ''Canonical and duplicate Thing IDs must differ.''))
      else case audit_get_mutation user_id key s of
        Some m \<Rightarrow>
          bindE (stored_version (u ''version'')
              (u ''Stored merge mutation is missing target version.'') m) (\<lambda>version.
            Inr (outcome (u ''THING_MERGED'') (u ''Things merged.'')
              ((target_data (mut_id m) (u ''duplicate_thing_id'') (mut_target_id m) (u ''version'')
                 version True)
                 (u ''canonical_thing_id'' \<mapsto> JStr (json_str show_json
                    (jget (mut_after m) (u ''canonical_thing_id'') (JStr [])))))
              (mut_id m) True, s))
      | None \<Rightarrow>
      (case (things_get user_id canonical_id (core s), things_get user_id duplicate_id (core s)) of
        (Some canonical, Some duplicate) \<Rightarrow>
          if thing_version canonical \<noteq> expected_canonical_version
          then Inl (VersionConflict (u ''Canonical Thing version is stale.''))
          else if thing_version duplicate \<noteq> expected_duplicate_version
          then Inl (VersionConflict (u ''Duplicate Thing version is stale.''))
          else
            bindE (thing_merge_into (clk e 0) (thing_id canonical) duplicate) (\<lambda>duplicate'.
            (case things_update duplicate' expected_duplicate_version s of
               (won, s1) \<Rightarrow>
                 if \<not> won
                 then Inl (VersionConflict (u ''Duplicate Thing was updated concurrently.''))
                 else
                   bindE (things_rebind_merged_references (thing_id duplicate') (thing_id canonical)
                       s1) (\<lambda>s2.
                   let mutation = new_mutation (uid4 e 0) (clk e 1) user_id
                         (Some (thing_id duplicate')) run action_id (u ''THING_MERGED'') (u ''THING'')
                         (thing_id duplicate')
                         (Some [u ''merged_into_thing_id'' \<mapsto> JNull,
                           u ''version'' \<mapsto> JInt expected_duplicate_version])
                         [u ''merged_into_thing_id'' \<mapsto> juuid (thing_id canonical),
                          u ''canonical_thing_id'' \<mapsto> juuid (thing_id canonical),
                          u ''version'' \<mapsto> JInt (thing_version duplicate')] reason None key in
                   bindE (record_audit mutation (Some (new_timeline_event (uid4 e 1) (clk e 2) user_id
                       (thing_id canonical) (u ''THING_MERGED'')
                       (u ''Merged duplicate Thing: '' @ thing_name duplicate')
                       (thing_updated_at duplicate') None (uid4 e 0)
                       [u ''duplicate_thing_id'' \<mapsto> juuid (thing_id duplicate')])) s2) (\<lambda>s3.
                   Inr (outcome (u ''THING_MERGED'') (u ''Things merged.'')
                     ((target_data (uid4 e 0) (u ''duplicate_thing_id'') (thing_id duplicate')
                        (u ''version'') (JInt (thing_version duplicate')) False)
                        (u ''canonical_thing_id'' \<mapsto> juuid (thing_id canonical)))
                     (uid4 e 0) False, s3)))))
      | _ \<Rightarrow> Inl (EntityNotFound (u ''Canonical or duplicate Thing was not found.''))))"

section \<open>Results\<close>

record MutationResultDTO =
  mrd_mutation_id :: uuid
  mrd_target_id :: uuid
  mrd_target_version :: int
  mrd_replayed :: bool

text \<open>The truth value of a JSON value in an \<open>or\<close>.\<close>

definition json_true :: "json option \<Rightarrow> bool" where
  "json_true v = (case v of None \<Rightarrow> False | Some JNull \<Rightarrow> False | Some (JBool b) \<Rightarrow> b
     | Some (JInt n) \<Rightarrow> n \<noteq> 0 | Some (JStr t) \<Rightarrow> t \<noteq> [] | Some (JList l) \<Rightarrow> l \<noteq> []
     | Some (JObj d) \<Rightarrow> d \<noteq> Map.empty)"

text \<open>\<open>d.get(k1) or d.get(k2) or \<dots>\<close>: the first true value, else the last one.\<close>

fun first_true :: "jdict \<Rightarrow> str list \<Rightarrow> json option" where
  "first_true d [] = None"
| "first_true d [k] = d k"
| "first_true d (k # ks) = (if json_true (d k) then d k else first_true d ks)"

definition TARGET_NAMES :: "str list" where
  "TARGET_NAMES = [u ''target_id'', u ''thing_id'', u ''task_id'', u ''entry_id'', u ''date_id'',
     u ''blocker_id'', u ''duplicate_thing_id'']"

fun jint :: "json option \<Rightarrow> int option" where
  "jint (Some (JInt n)) = Some n"
| "jint (Some (JBool b)) = Some (if b then 1 else 0)"
| "jint _ = None"

definition first_int :: "jdict \<Rightarrow> str list \<Rightarrow> int" where
  "first_int d ks = (case filter (\<lambda>k. jint (d k) \<noteq> None) ks of [] \<Rightarrow> 1 | k # _ \<Rightarrow> the (jint (d k)))"

definition mutation_result_from_outcome :: "WriteOutcome \<Rightarrow> py_error + MutationResultDTO" where
  "mutation_result_from_outcome out =
     bindE (case wo_mutation_id out of
          Some x \<Rightarrow> Inr x
        | None \<Rightarrow> (case wo_data out (u ''mutation_id'') of
            Some (JStr t) \<Rightarrow>
              ofopt (ValueError (u ''badly formed hexadecimal UUID string'')) (uuid_parse t)
          | _ \<Rightarrow> Inl (RuntimeError (u ''Write outcome is missing mutation id.'')))) (\<lambda>mid.
     (case first_true (wo_data out) TARGET_NAMES of
        Some (JStr t) \<Rightarrow>
          let version =
            (if wo_data out (u ''date_id'') = Some (JStr t)
                \<and> jint (wo_data out (u ''date_version'')) \<noteq> None
             then the (jint (wo_data out (u ''date_version'')))
             else first_int (wo_data out)
               [u ''version'', u ''thing_version'', u ''date_version'']) in
          bindE (ofopt (ValueError (u ''badly formed hexadecimal UUID string'')) (uuid_parse t))
            (\<lambda>target. Inr \<lparr>mrd_mutation_id = mid, mrd_target_id = target,
               mrd_target_version = version, mrd_replayed = wo_replayed out\<rparr>)
      | _ \<Rightarrow> Inl (RuntimeError (u ''Write outcome is missing target id.''))))"

end
