(* ===== verification/PyArgs.thy ===== *)
theory PyArgs
  imports StateDetailOps
begin

text \<open>
  How the tools of the agent read the arguments a model sends: Python's \<open>str\<close>, \<open>int\<close> and \<open>bool\<close> of
  a JSON value, \<open>UUID\<close>, the enumerations and \<open>datetime.fromisoformat\<close> of a text.
\<close>

section \<open>Values\<close>

text \<open>\<open>str(v)\<close>; \<open>show_json\<close> stands for the text of a list or an object.\<close>

definition py_str :: "(json \<Rightarrow> str) \<Rightarrow> json \<Rightarrow> str" where
  "py_str show_json v =
     (case v of JStr x \<Rightarrow> x | JInt n \<Rightarrow> int_str n | JBool b \<Rightarrow> (if b then u ''True'' else u ''False'')
      | JNull \<Rightarrow> u ''None'' | _ \<Rightarrow> show_json v)"

definition py_bool :: "json \<Rightarrow> bool" where
  "py_bool v =
     (case v of JNull \<Rightarrow> False | JBool b \<Rightarrow> b | JInt n \<Rightarrow> n \<noteq> 0 | JStr x \<Rightarrow> x \<noteq> [] | JList xs \<Rightarrow> xs \<noteq> []
      | JObj d \<Rightarrow> d \<noteq> Map.empty)"

text \<open>
  \<open>int(text)\<close>: spaces around, a sign, decimal digits with single underscores between them. Only the
  ASCII digits are read.
\<close>

fun decimal :: "bool \<Rightarrow> str \<Rightarrow> int \<Rightarrow> int option" where
  "decimal digit [] acc = (if digit then Some acc else None)"
| "decimal digit (c # cs) acc =
     (if 48 \<le> c \<and> c \<le> 57 then decimal True cs (10 * acc + int (c - 48))
      else if c = 95 \<and> digit then decimal False cs acc else None)"

definition int_of_text :: "str \<Rightarrow> int option" where
  "int_of_text x =
     (case strip x of
        [] \<Rightarrow> None
      | c # cs \<Rightarrow>
          if c = 45 then map_option uminus (decimal False cs 0)
          else if c = 43 then decimal False cs 0 else decimal False (c # cs) 0)"

definition py_int :: "json \<Rightarrow> py_error + int" where
  "py_int v =
     (case v of JInt n \<Rightarrow> Inr n | JBool b \<Rightarrow> Inr (of_bool b)
      | JStr x \<Rightarrow> ofopt (ValueError (u ''invalid literal for int()'')) (int_of_text x)
      | _ \<Rightarrow> Inl (TypeError (u ''int() argument must be a string or a number'')))"

definition py_uuid :: "str \<Rightarrow> py_error + uuid" where
  "py_uuid x = ofopt (ValueError (u ''badly formed hexadecimal UUID string'')) (uuid_parse x)"

text \<open>\<open>Enum(text)\<close>, given the members and their values.\<close>

definition py_enum :: "'a list \<Rightarrow> ('a \<Rightarrow> str) \<Rightarrow> str \<Rightarrow> py_error + 'a" where
  "py_enum members val x = ofopt (ValueError (u ''not a valid value'')) (find (\<lambda>m. val m = x) members)"

lemma py_enum_value:
  assumes "m \<in> set members" "inj val"
  shows "py_enum members val (val m) = Inr m"
proof -
  have "find (\<lambda>x. val x = val m) members = Some m"
    using assms by (induction members) (auto simp: inj_eq)
  then show ?thesis
    by (simp add: py_enum_def)
qed

primrec date_precision_value :: "DatePrecision \<Rightarrow> str" where
  "date_precision_value DATE_TIME = u ''DATE_TIME''"
| "date_precision_value DATE = u ''DATE''"
| "date_precision_value MONTH = u ''MONTH''"

definition task_status_of :: "str \<Rightarrow> py_error + TaskStatus" where
  "task_status_of = py_enum [TaskStatus.TODO, TaskStatus.DONE, TaskStatus.CANCELLED] task_status_value"

definition certainty_of :: "str \<Rightarrow> py_error + DateCertainty" where
  "certainty_of = py_enum [DateCertainty.CONFIRMED, DateCertainty.PROBABLE, DateCertainty.UNCONFIRMED,
     DateCertainty.DISPUTED] certainty_value"

definition precision_of :: "str \<Rightarrow> py_error + DatePrecision" where
  "precision_of = py_enum [DatePrecision.DATE_TIME, DatePrecision.DATE, DatePrecision.MONTH] date_precision_value"

definition date_kind_of :: "str \<Rightarrow> py_error + ThingDateType" where
  "date_kind_of = py_enum [ThingDateType.DEADLINE, ThingDateType.EVENT, ThingDateType.MILESTONE] date_kind_value"

definition severity_of :: "str \<Rightarrow> py_error + BlockerSeverity" where
  "severity_of = py_enum [BlockerSeverity.LOW, BlockerSeverity.MEDIUM, BlockerSeverity.HIGH,
     BlockerSeverity.CRITICAL] severity_value"

section \<open>Arguments\<close>

text \<open>\<open>arguments[key]\<close>, \<open>arguments.get(key)\<close> under a conversion, and \<open>str(arguments.get(key, default))\<close>.\<close>

definition arg :: "jdict \<Rightarrow> str \<Rightarrow> py_error + json" where
  "arg args k = ofopt (KeyError k) (args k)"

definition arg_str :: "(json \<Rightarrow> str) \<Rightarrow> jdict \<Rightarrow> str \<Rightarrow> py_error + str" where
  "arg_str show_json args k = bindE (arg args k) (\<lambda>v. Inr (py_str show_json v))"

definition arg_or :: "(json \<Rightarrow> str) \<Rightarrow> jdict \<Rightarrow> str \<Rightarrow> str \<Rightarrow> str" where
  "arg_or show_json args k d = py_str show_json (jget args k (JStr d))"

definition arg_int :: "jdict \<Rightarrow> str \<Rightarrow> py_error + int" where
  "arg_int args k = bindE (arg args k) py_int"

definition arg_uuid :: "(json \<Rightarrow> str) \<Rightarrow> jdict \<Rightarrow> str \<Rightarrow> py_error + uuid" where
  "arg_uuid show_json args k = bindE (arg_str show_json args k) py_uuid"

text \<open>\<open>f(v) if v else None\<close> for \<open>v = arguments.get(key)\<close>.\<close>

definition opt_arg :: "jdict \<Rightarrow> str \<Rightarrow> (json \<Rightarrow> py_error + 'a) \<Rightarrow> py_error + 'a option" where
  "opt_arg args k f =
     (let v = jget args k JNull in if py_bool v then bindE (f v) (\<lambda>x. Inr (Some x)) else Inr None)"

definition opt_uuid :: "(json \<Rightarrow> str) \<Rightarrow> jdict \<Rightarrow> str \<Rightarrow> py_error + uuid option" where
  "opt_uuid show_json args k = opt_arg args k (\<lambda>v. py_uuid (py_str show_json v))"

text \<open>\<open>f(v) if v is not None else None\<close>.\<close>

definition some_arg :: "jdict \<Rightarrow> str \<Rightarrow> (json \<Rightarrow> py_error + 'a) \<Rightarrow> py_error + 'a option" where
  "some_arg args k f =
     (let v = jget args k JNull in if v = JNull then Inr None else bindE (f v) (\<lambda>x. Inr (Some x)))"

section \<open>Dates\<close>

text \<open>The day number of a date of the proleptic Gregorian calendar, the inverse of \<open>civil_of_days\<close>.\<close>

definition days_of_civil :: "int \<Rightarrow> int \<Rightarrow> int \<Rightarrow> int" where
  "days_of_civil y m d =
     (let y' = (if m \<le> 2 then y - 1 else y);
          yoe = y' mod 400;
          doy = (153 * ((m + 9) mod 12) + 2) div 5 + d - 1
      in y' div 400 * 146097 + yoe * 365 + yoe div 4 - yoe div 100 + doy - 719468)"

text \<open>A date exists when the calendar gives it back; Python's years are 1 to 9999.\<close>

definition date_exists :: "int \<Rightarrow> int \<Rightarrow> int \<Rightarrow> bool" where
  "date_exists y m d \<longleftrightarrow> 1 \<le> y \<and> y \<le> 9999 \<and> 1 \<le> m \<and> m \<le> 12 \<and> 1 \<le> d \<and> d \<le> 31
     \<and> civil_of_days (days_of_civil y m d) = (y, m, d)"

text \<open>The Monday of the first ISO week of a year, and the day of an ISO week date.\<close>

definition week_one :: "int \<Rightarrow> int" where
  "week_one y = (let jan4 = days_of_civil y 1 4 in jan4 - (jan4 + 3) mod 7)"

definition week_day :: "int \<Rightarrow> int \<Rightarrow> int \<Rightarrow> int option" where
  "week_day y w d =
     (if 1 \<le> y \<and> y \<le> 9999 \<and> 1 \<le> w \<and> week_one y + 7 * (w - 1) < week_one (y + 1) \<and> 1 \<le> d \<and> d \<le> 7
      then Some (week_one y + 7 * (w - 1) + d - 1) else None)"

definition is_digit :: "nat \<Rightarrow> bool" where
  "is_digit c \<longleftrightarrow> 48 \<le> c \<and> c \<le> 57"

text \<open>The number of exactly \<open>k\<close> digits at the head of a text, and the rest.\<close>

definition take_num :: "nat \<Rightarrow> str \<Rightarrow> (int \<times> str) option" where
  "take_num k x =
     (if k \<le> length x \<and> list_all is_digit (take k x) then Some (int (undigits (take k x) 0), drop k x) else None)"

definition iso_date :: "str \<Rightarrow> int option" where
  "iso_date x =
     (case take_num 4 x of
        None \<Rightarrow> None
      | Some (y, r) \<Rightarrow>
          let sep = (take 1 r = u ''-''); r1 = (if sep then drop 1 r else r) in
          if take 1 r1 = u ''W'' then
            (case take_num 2 (drop 1 r1) of
               None \<Rightarrow> None
             | Some (w, r2) \<Rightarrow>
                 if r2 = [] then week_day y w 1
                 else if (take 1 r2 = u ''-'') \<noteq> sep then None
                 else
                   (case take_num 1 (if sep then drop 1 r2 else r2) of
                      Some (d, []) \<Rightarrow> week_day y w d | _ \<Rightarrow> None))
          else
            (case take_num 2 r1 of
               None \<Rightarrow> None
             | Some (m, r2) \<Rightarrow>
                 if (take 1 r2 = u ''-'') \<noteq> sep then None
                 else
                   (case take_num 2 (if sep then drop 1 r2 else r2) of
                      Some (d, []) \<Rightarrow> if date_exists y m d then Some (days_of_civil y m d) else None
                    | _ \<Rightarrow> None)))"

text \<open>Where the date ends: after its digits, whose number tells the format.\<close>

definition date_length :: "str \<Rightarrow> nat" where
  "date_length x =
     (let ch = (\<lambda>i. take 1 (drop i x)); n = length (takeWhile is_digit (drop 7 x)) + 7 in
      if length x = 7 then 7
      else if ch 4 = u ''-'' then
        (if ch 5 = u ''W'' then
           (if ch 8 = u ''-'' \<and> \<not> (10 < length x \<and> list_all is_digit (ch 10)) then 10 else 8)
         else 10)
      else if ch 4 = u ''W'' then (if n < 9 then n else if even n then 7 else 8)
      else 8)"

text \<open>\<open>HH[:MM[:SS[.f]]]\<close> with the separators or without, in microseconds; the sixth digit of a fraction is the last one read.\<close>

definition fraction :: "str \<Rightarrow> int option" where
  "fraction x =
     (if x \<noteq> [] \<and> list_all is_digit x
      then Some (int (undigits (take 6 (x @ replicate 6 48)) 0)) else None)"

definition clock_of :: "str \<Rightarrow> (int \<times> int \<times> int \<times> int) option" where
  "clock_of x =
     (case take_num 2 x of
        None \<Rightarrow> None
      | Some (h, r) \<Rightarrow>
          if r = [] then Some (h, 0, 0, 0)
          else
            let sep = (hd r = 58) in
            (case take_num 2 (if sep then tl r else r) of
               None \<Rightarrow> None
             | Some (m, r1) \<Rightarrow>
                 if r1 = [] then Some (h, m, 0, 0)
                 else if sep \<and> hd r1 \<noteq> 58 then None
                 else
                   (case take_num 2 (if sep then tl r1 else r1) of
                      None \<Rightarrow> None
                    | Some (sec, r2) \<Rightarrow>
                        if r2 = [] then Some (h, m, sec, 0)
                        else if hd r2 \<in> {46, 44} then map_option (\<lambda>f. (h, m, sec, f)) (fraction (tl r2))
                        else None)))"

definition clock_us :: "int \<times> int \<times> int \<times> int \<Rightarrow> int" where
  "clock_us c = (case c of (h, m, sec, f) \<Rightarrow> ((h * 60 + m) * 60 + sec) * SECOND_US + f)"

definition clock_ok :: "int \<times> int \<times> int \<times> int \<Rightarrow> bool" where
  "clock_ok c = (case c of (h, m, sec, f) \<Rightarrow> h < 24 \<and> m < 60 \<and> sec < 60)"

text \<open>The zone of a time: none, \<open>Z\<close>, or an offset of less than a day.\<close>

definition zone_of :: "str \<Rightarrow> int option option" where
  "zone_of z =
     (case z of
        [] \<Rightarrow> Some None
      | c # cs \<Rightarrow>
          if c = 90 then (if cs = [] then Some (Some 0) else None)
          else if length cs \<in> {0, 1, 3} then None
          else
            (case clock_of cs of
               None \<Rightarrow> None
             | Some k \<Rightarrow>
                 if clock_us k < DAY_US then Some (Some (if c = 45 then - clock_us k else clock_us k)) else None))"

text \<open>
  \<open>datetime.fromisoformat\<close> of Python 3.12, as documented by its reference implementation: a calendar
  or week date, then, after any separator character, a time with an optional zone. The zone begins
  at the first minus sign, or else the first plus sign, or else the first \<open>Z\<close>.
\<close>

definition zone_start :: "str \<Rightarrow> nat" where
  "zone_start x =
     (let p = (\<lambda>c. length (takeWhile (\<lambda>y. y \<noteq> c) x)) in
      if 45 \<in> set x then p 45 else if 43 \<in> set x then p 43 else p 90)"

definition fromisoformat :: "str \<Rightarrow> pydatetime option" where
  "fromisoformat x =
     (if length x < 7 then None
      else
        let n = date_length x; t = drop (n + 1) x in
        case iso_date (take n x) of
          None \<Rightarrow> None
        | Some day \<Rightarrow>
            if t = [] then Some (Naive (day * DAY_US))
            else
              let k = zone_start t in
              (case (clock_of (take k t), zone_of (drop k t)) of
                 (Some c, Some z) \<Rightarrow>
                   if \<not> clock_ok c then None
                   else
                     let local = day * DAY_US + clock_us c in
                     Some (case z of None \<Rightarrow> Naive local | Some off \<Rightarrow> AwareAt (local - off) off)
               | _ \<Rightarrow> None))"

definition py_datetime :: "str \<Rightarrow> py_error + pydatetime" where
  "py_datetime x = ofopt (ValueError (u ''Invalid isoformat string'')) (fromisoformat x)"

lemma fromisoformat_example:
  "fromisoformat (u ''2024-02-29T07:59:59.000001+08:00'') = Some (AwareAt 1709164799000001 28800000000)"
  "fromisoformat (u ''2024-02-30'') = None"
  "fromisoformat (u ''20240229T08'') = Some (Naive 1709193600000000)"
  "fromisoformat (u ''2024-W09-4T08:00Z'') = Some (AwareAt 1709193600000000 0)"
  by code_simp+

end
