(* ===== verification/StateService.thy ===== *)
theory StateService
  imports StateDetailOps
begin

text \<open>
  The service of the personal state, \<open>application/personal_state/service.py\<close>, its transfer objects
  (\<open>dto.py\<close>) and the context it prepares for the agent (\<open>prefetch.py\<close>). A method that writes returns
  the store its unit of work commits; a method that raises leaves the store as it was.
\<close>

section \<open>Transfer objects\<close>

text \<open>
  Tasks, dates, context entries, blockers and relations are transferred with all their attributes:
  their DTO is the entity. The others leave attributes out.
\<close>

record ThingDTO =
  tdo_id :: uuid
  tdo_user_id :: uuid
  tdo_name :: str
  tdo_status :: ThingStatus
  tdo_current_stage :: "str option"
  tdo_deadline_at :: "time option"
  tdo_merged_into :: "uuid option"
  tdo_deleted_at :: "time option"
  tdo_version :: int
  tdo_created_at :: time
  tdo_updated_at :: time

definition to_thing_dto :: "Thing \<Rightarrow> ThingDTO" where
  "to_thing_dto t =
     \<lparr>tdo_id = thing_id t, tdo_user_id = thing_user_id t, tdo_name = thing_name t,
      tdo_status = thing_status t, tdo_current_stage = thing_current_stage t,
      tdo_deadline_at = thing_deadline_at t, tdo_merged_into = thing_merged_into t,
      tdo_deleted_at = thing_deleted_at t, tdo_version = thing_version t,
      tdo_created_at = thing_created_at t, tdo_updated_at = thing_updated_at t\<rparr>"

type_synonym TaskDTO = Task
type_synonym ThingDateDTO = ThingDate
type_synonym ThingContextEntryDTO = ThingContextEntry
type_synonym BlockerDTO = Blocker
type_synonym ThingRelationDTO = ThingRelation

record TimelineEventDTO =
  tld_id :: uuid
  tld_thing_id :: uuid
  tld_event_type :: str
  tld_title :: str
  tld_summary :: "str option"
  tld_occurred_at :: time
  tld_source_id :: "uuid option"
  tld_mutation_id :: "uuid option"
  tld_metadata :: jdict
  tld_created_at :: time

definition to_timeline_dto :: "TimelineEvent \<Rightarrow> TimelineEventDTO" where
  "to_timeline_dto ev =
     \<lparr>tld_id = tle_id ev, tld_thing_id = tle_thing_id ev, tld_event_type = tle_event_type ev,
      tld_title = tle_title ev, tld_summary = tle_summary ev, tld_occurred_at = tle_occurred_at ev,
      tld_source_id = tle_source_id ev, tld_mutation_id = tle_mutation_id ev,
      tld_metadata = tle_metadata ev, tld_created_at = tle_created_at ev\<rparr>"

record StateMutationDTO =
  mdo_id :: uuid
  mdo_thing_id :: "uuid option"
  mdo_action_id :: str
  mdo_mutation_type :: str
  mdo_target_type :: str
  mdo_target_id :: uuid
  mdo_before :: "jdict option"
  mdo_after :: jdict
  mdo_reason :: str
  mdo_source_id :: "uuid option"
  mdo_created_at :: time

definition to_mutation_dto :: "StateMutation \<Rightarrow> StateMutationDTO" where
  "to_mutation_dto m =
     \<lparr>mdo_id = mut_id m, mdo_thing_id = mut_thing_id m, mdo_action_id = mut_action_id m,
      mdo_mutation_type = mut_mutation_type m, mdo_target_type = mut_target_type m,
      mdo_target_id = mut_target_id m, mdo_before = mut_before m, mdo_after = mut_after m,
      mdo_reason = mut_reason m, mdo_source_id = mut_source_id m, mdo_created_at = mut_created_at m\<rparr>"

record UpcomingThingDTO =
  upc_thing_id :: uuid
  upc_name :: str
  upc_deadline_at :: time
  upc_open_task_count :: nat

record BlockedThingDTO =
  bld_thing_id :: uuid
  bld_thing_name :: str
  bld_description :: str
  bld_severity :: BlockerSeverity

record ActiveThingDTO =
  act_thing_id :: uuid
  act_name :: str
  act_current_stage :: "str option"
  act_open_task_count :: nat

record RecentThingDTO =
  rec_thing_id :: uuid
  rec_name :: str
  rec_status :: ThingStatus
  rec_updated_at :: time

record StateOverviewDTO =
  ovw_upcoming :: "UpcomingThingDTO list"
  ovw_blocked :: "BlockedThingDTO list"
  ovw_active :: "ActiveThingDTO list"
  ovw_recent :: "RecentThingDTO list"

section \<open>Following the redirects of merged things\<close>

text \<open>
  The loop of \<open>_resolve_active_thing\<close>; \<open>seen\<close> are the identifiers it has passed. It ends because
  every round passes a stored thing that was not passed before.
\<close>

function resolve_from :: "uuid \<Rightarrow> store \<Rightarrow> uuid list \<Rightarrow> uuid \<Rightarrow> py_error + Thing" where
  "resolve_from user_id s seen current =
     (if current \<in> set seen
      then Inl (RuntimeError (u ''Thing merge redirect cycle detected.''))
      else case things_get_including_deleted user_id current s of
        None \<Rightarrow> Inl (EntityNotFound (u ''Thing was not found.''))
      | Some thing \<Rightarrow>
          if thing_deleted_at thing \<noteq> None
          then Inl (EntityNotFound (u ''Thing was not found.''))
          else (case thing_merged_into thing of
            None \<Rightarrow> Inr thing
          | Some target \<Rightarrow> resolve_from user_id s (current # seen) target))"
  by pat_completeness auto

termination
proof (relation "measure (\<lambda>(_, s, seen, _). card (thing_id ` set (st_things s) - set seen))")
  fix user_id :: uuid and s :: store and seen :: "uuid list" and current target :: uuid
    and thing :: Thing
  assume "current \<notin> set seen" "things_get_including_deleted user_id current s = Some thing"
  then have "current \<in> thing_id ` set (st_things s) - set seen"
    by (auto simp: things_get_including_deleted_def dest!: sel1_Some)
  then have "thing_id ` set (st_things s) - set (current # seen) \<subset> thing_id ` set (st_things s) - set seen"
    by auto
  then show "((user_id, s, current # seen, target), user_id, s, seen, current)
      \<in> measure (\<lambda>(_, s, seen, _). card (thing_id ` set (st_things s) - set seen))"
    by (auto intro: psubset_card_mono)
qed simp

declare resolve_from.simps [simp del]

definition resolve_active_thing :: "uuid \<Rightarrow> uuid \<Rightarrow> store \<Rightarrow> py_error + Thing" where
  "resolve_active_thing user_id tid s = resolve_from user_id s [] tid"

section \<open>Reading\<close>

definition check_limit :: "str \<Rightarrow> int \<Rightarrow> py_error + unit" where
  "check_limit err limit = require (1 \<le> limit \<and> limit \<le> 100) (ValueError err)"

definition get_thing :: "uuid \<Rightarrow> uuid \<Rightarrow> store \<Rightarrow> py_error + ThingDTO" where
  "get_thing user_id tid s =
     (case things_get_including_deleted user_id tid s of
        None \<Rightarrow> Inl (EntityNotFound (u ''Thing was not found.''))
      | Some thing \<Rightarrow>
          if thing_deleted_at thing \<noteq> None
          then Inl (EntityNotFound (u ''Thing was not found.''))
          else Inr (to_thing_dto thing))"

definition require_thing :: "uuid \<Rightarrow> uuid \<Rightarrow> store \<Rightarrow> py_error + unit" where
  "require_thing user_id tid s =
     require (things_get user_id tid (core s) \<noteq> None) (EntityNotFound (u ''Thing was not found.''))"

definition snapshot_thing :: "Thing \<Rightarrow> jdict" where
  "snapshot_thing t =
     [u ''id'' \<mapsto> juuid (thing_id t), u ''name'' \<mapsto> JStr (thing_name t),
      u ''status'' \<mapsto> JStr (thing_status_value (thing_status t)),
      u ''current_stage'' \<mapsto> jopt JStr (thing_current_stage t),
      u ''version'' \<mapsto> JInt (thing_version t),
      u ''deadline_at'' \<mapsto> jopt jtime (thing_deadline_at t)]"

definition snapshot_entry :: "ThingContextEntry \<Rightarrow> json" where
  "snapshot_entry c = JObj [u ''id'' \<mapsto> juuid (ctx_id c), u ''label'' \<mapsto> JStr (ctx_label c),
     u ''content'' \<mapsto> JStr (ctx_content c), u ''version'' \<mapsto> JInt (ctx_version c)]"

definition snapshot_task :: "Task \<Rightarrow> json" where
  "snapshot_task t = JObj [u ''id'' \<mapsto> juuid (task_id t), u ''title'' \<mapsto> JStr (task_title t),
     u ''status'' \<mapsto> JStr (task_status_value (task_status t)), u ''version'' \<mapsto> JInt (task_version t)]"

definition snapshot_date :: "ThingDate \<Rightarrow> json" where
  "snapshot_date d = JObj [u ''id'' \<mapsto> juuid (tdate_id d),
     u ''kind'' \<mapsto> JStr (date_kind_value (tdate_kind d)), u ''value'' \<mapsto> jtime (tdate_value d),
     u ''certainty'' \<mapsto> JStr (certainty_value (tdate_certainty d)),
     u ''is_primary'' \<mapsto> JBool (tdate_is_primary d), u ''version'' \<mapsto> JInt (tdate_version d)]"

definition snapshot_blocker :: "Blocker \<Rightarrow> json" where
  "snapshot_blocker b = JObj [u ''id'' \<mapsto> juuid (blk_id b),
     u ''description'' \<mapsto> JStr (blk_description b),
     u ''severity'' \<mapsto> JStr (severity_value (blk_severity b)), u ''version'' \<mapsto> JInt (blk_version b)]"

definition get_thing_context_snapshot :: "uuid \<Rightarrow> uuid \<Rightarrow> store \<Rightarrow> py_error + jdict" where
  "get_thing_context_snapshot user_id tid s =
     bindE (resolve_active_thing user_id tid s) (\<lambda>thing.
     let resolved = thing_id thing;
         payload =
           [u ''thing'' \<mapsto> JObj (snapshot_thing thing),
            u ''context_entries'' \<mapsto>
              JList (map snapshot_entry (entries_list_for_thing user_id resolved s)),
            u ''tasks'' \<mapsto> JList (map snapshot_task (tasks_list_for_thing user_id resolved s)),
            u ''dates'' \<mapsto> JList (map snapshot_date (dates_list_for_thing user_id resolved 100 s)),
            u ''open_blockers'' \<mapsto> JList (map snapshot_blocker
              (sel (\<lambda>b. blk_status b = BlockerStatus.OPEN)
                (blockers_list_for_thing user_id resolved s)))] in
     Inr (if resolved \<noteq> tid
          then payload(u ''requested_thing_id'' \<mapsto> juuid tid, u ''resolved_thing_id'' \<mapsto> juuid resolved)
          else payload))"

definition get_things ::
  "(nat \<Rightarrow> nat) \<Rightarrow> uuid \<Rightarrow> ThingStatus option \<Rightarrow> str option \<Rightarrow> uuid option \<Rightarrow> int \<Rightarrow> store
    \<Rightarrow> py_error + ThingDTO list" where
  "get_things lower user_id status query cursor limit s =
     bindE (check_limit (u ''Thing list limit must be between 1 and 100.'') limit) (\<lambda>_.
     Inr (map to_thing_dto (things_list_for_user lower user_id status
       (case query of None \<Rightarrow> None | Some q \<Rightarrow> if q = [] then None else Some (strip q))
       cursor (nat limit) s)))"

definition get_tasks :: "uuid \<Rightarrow> uuid \<Rightarrow> store \<Rightarrow> py_error + TaskDTO list" where
  "get_tasks user_id tid s = Inr (tasks_list_for_thing user_id tid s)"

definition get_standalone_tasks :: "uuid \<Rightarrow> store \<Rightarrow> py_error + TaskDTO list" where
  "get_standalone_tasks user_id s = Inr (tasks_list_standalone user_id s)"

definition get_dates :: "uuid \<Rightarrow> uuid \<Rightarrow> int \<Rightarrow> store \<Rightarrow> py_error + ThingDateDTO list" where
  "get_dates user_id tid limit s =
     bindE (check_limit (u ''Date list limit must be between 1 and 100.'') limit) (\<lambda>_.
     bindE (require_thing user_id tid s) (\<lambda>_.
     Inr (dates_list_for_thing user_id tid (nat limit) s)))"

definition get_context_entries :: "uuid \<Rightarrow> uuid \<Rightarrow> store \<Rightarrow> py_error + ThingContextEntryDTO list" where
  "get_context_entries user_id tid s =
     bindE (require_thing user_id tid s) (\<lambda>_. Inr (entries_list_for_thing user_id tid s))"

definition get_timeline ::
  "uuid \<Rightarrow> uuid \<Rightarrow> str option \<Rightarrow> int \<Rightarrow> store \<Rightarrow> py_error + TimelineEventDTO list" where
  "get_timeline user_id tid event_type limit s =
     bindE (check_limit (u ''Timeline limit must be between 1 and 100.'') limit) (\<lambda>_.
     bindE (require_thing user_id tid s) (\<lambda>_.
     Inr (map to_timeline_dto (audit_list_timeline user_id tid
       (case event_type of None \<Rightarrow> None | Some t \<Rightarrow> if t = [] then None else Some (strip t))
       (nat limit) s))))"

definition get_state_history :: "uuid \<Rightarrow> uuid \<Rightarrow> int \<Rightarrow> store \<Rightarrow> py_error + StateMutationDTO list" where
  "get_state_history user_id tid limit s =
     bindE (check_limit (u ''State history limit must be between 1 and 100.'') limit) (\<lambda>_.
     bindE (require_thing user_id tid s) (\<lambda>_.
     Inr (map to_mutation_dto (audit_list_mutations user_id tid (nat limit) s))))"

definition get_blockers :: "uuid \<Rightarrow> uuid \<Rightarrow> store \<Rightarrow> py_error + BlockerDTO list" where
  "get_blockers user_id tid s =
     bindE (require_thing user_id tid s) (\<lambda>_. Inr (blockers_list_for_thing user_id tid s))"

definition get_relations :: "uuid \<Rightarrow> uuid \<Rightarrow> store \<Rightarrow> py_error + ThingRelationDTO list" where
  "get_relations user_id tid s =
     bindE (require_thing user_id tid s) (\<lambda>_. Inr (relations_list_for_thing user_id tid s))"

text \<open>\<open>now\<close> is the given instant or the clock's reading.\<close>

definition get_state_overview ::
  "uuid \<Rightarrow> time \<Rightarrow> int \<Rightarrow> int \<Rightarrow> int \<Rightarrow> int \<Rightarrow> int \<Rightarrow> store \<Rightarrow> py_error + StateOverviewDTO" where
  "get_state_overview user_id now upcoming_days upcoming_limit blocked_limit active_limit
       recent_limit s =
     (if \<exists>v \<in> {upcoming_days, upcoming_limit, blocked_limit, active_limit, recent_limit}. v \<le> 0
      then Inl (ValueError (u ''State overview limits must be positive.''))
      else
        let upcoming = things_list_upcoming user_id now (now + upcoming_days * DAY_US)
              (nat upcoming_limit) s;
            active = things_list_active user_id (nat active_limit) s;
            recent = things_list_recent user_id (nat recent_limit) s;
            blocked = blockers_list_open user_id (nat blocked_limit) s;
            counts = tasks_count_open user_id (map thing_id (upcoming @ active)) s;
            count = (\<lambda>t. case counts (thing_id t) of None \<Rightarrow> 0 | Some n \<Rightarrow> n) in
        Inr \<lparr>ovw_upcoming = concat (map (\<lambda>t. case thing_deadline_at t of None \<Rightarrow> []
                | Some d \<Rightarrow> [\<lparr>upc_thing_id = thing_id t, upc_name = thing_name t,
                    upc_deadline_at = d, upc_open_task_count = count t\<rparr>]) upcoming),
             ovw_blocked = map (\<lambda>(b, name). \<lparr>bld_thing_id = blk_thing_id b, bld_thing_name = name,
                bld_description = blk_description b, bld_severity = blk_severity b\<rparr>) blocked,
             ovw_active = map (\<lambda>t. \<lparr>act_thing_id = thing_id t, act_name = thing_name t,
                act_current_stage = thing_current_stage t, act_open_task_count = count t\<rparr>) active,
             ovw_recent = map (\<lambda>t. \<lparr>rec_thing_id = thing_id t, rec_name = thing_name t,
                rec_status = thing_status t, rec_updated_at = thing_updated_at t\<rparr>) recent\<rparr>)"

section \<open>Context for the agent\<close>

definition is_latin :: "nat \<Rightarrow> bool" where
  "is_latin c \<longleftrightarrow> 65 \<le> c \<and> c \<le> 90 \<or> 97 \<le> c \<and> c \<le> 122"

text \<open>The first maximal run of at least two Latin letters, \<open>re.findall(\<dots>)[0]\<close>.\<close>

function first_latin :: "str \<Rightarrow> str option" where
  "first_latin s =
     (let rest = dropWhile (\<lambda>c. \<not> is_latin c) s; run = takeWhile is_latin rest in
      if run = [] then None
      else if 2 \<le> length run then Some run else first_latin (drop (length run) rest))"
  by pat_completeness auto

termination
proof (relation "measure length")
  fix s rest run :: str
  assume "rest = dropWhile (\<lambda>c. \<not> is_latin c) s" "run = takeWhile is_latin rest" "run \<noteq> []"
  then have "length rest \<le> length s" "0 < length run" "length run \<le> length rest"
    by (simp_all add: length_dropWhile_le length_takeWhile_le)
  then have "length rest - length run < length s"
    by linarith
  then show "(drop (length run) rest, s) \<in> measure length"
    by simp
qed simp

declare first_latin.simps [simp del]

definition thing_search_query_from_input :: "str \<Rightarrow> str" where
  "thing_search_query_from_input txt =
     (let n = strip txt in
      if n = [] then [] else case first_latin n of Some t \<Rightarrow> t | None \<Rightarrow> n)"

definition thing_prefetch_payload ::
  "ThingDTO \<Rightarrow> TaskDTO list \<Rightarrow> BlockerDTO list \<Rightarrow> ThingDateDTO list \<Rightarrow> str \<Rightarrow> jdict" where
  "thing_prefetch_payload thing tasks blockers dates match_reason =
     [u ''match_status'' \<mapsto> JStr (u ''resolved''), u ''match_reason'' \<mapsto> JStr match_reason,
      u ''thing'' \<mapsto> JObj [u ''id'' \<mapsto> juuid (tdo_id thing), u ''name'' \<mapsto> JStr (tdo_name thing),
        u ''status'' \<mapsto> JStr (thing_status_value (tdo_status thing)),
        u ''current_stage'' \<mapsto> jopt JStr (tdo_current_stage thing),
        u ''deadline_at'' \<mapsto> jopt jtime (tdo_deadline_at thing),
        u ''version'' \<mapsto> JInt (tdo_version thing)],
      u ''open_tasks'' \<mapsto> JList (map snapshot_task (take 12
        (sel (\<lambda>t. task_status t \<notin> {TaskStatus.DONE, TaskStatus.CANCELLED}) tasks))),
      u ''blockers'' \<mapsto> JList (map snapshot_blocker (take 6 blockers)),
      u ''primary_dates'' \<mapsto> JList (map (\<lambda>d. JObj [u ''id'' \<mapsto> juuid (tdate_id d),
          u ''kind'' \<mapsto> JStr (date_kind_value (tdate_kind d)), u ''value'' \<mapsto> jtime (tdate_value d),
          u ''certainty'' \<mapsto> JStr (certainty_value (tdate_certainty d)),
          u ''version'' \<mapsto> JInt (tdate_version d)]) (take 3 (sel tdate_is_primary dates)))]"

definition ambiguous_thing_candidates :: "ThingDTO list \<Rightarrow> jdict" where
  "ambiguous_thing_candidates things =
     [u ''match_status'' \<mapsto> JStr (u ''ambiguous''),
      u ''candidates'' \<mapsto> JList (map (\<lambda>t. JObj [u ''id'' \<mapsto> juuid (tdo_id t),
        u ''name'' \<mapsto> JStr (tdo_name t), u ''status'' \<mapsto> JStr (thing_status_value (tdo_status t)),
        u ''version'' \<mapsto> JInt (tdo_version t)]) things)]"

definition build_thing_prefetch :: "uuid \<Rightarrow> uuid \<Rightarrow> str \<Rightarrow> store \<Rightarrow> py_error + jdict" where
  "build_thing_prefetch user_id tid match_reason s =
     bindE (get_thing user_id tid s) (\<lambda>thing.
     let resolved = (case tdo_merged_into thing of None \<Rightarrow> tdo_id thing | Some m \<Rightarrow> m) in
     bindE (get_tasks user_id resolved s) (\<lambda>tasks.
     bindE (get_blockers user_id resolved s) (\<lambda>blockers.
     bindE (get_dates user_id resolved 100 s) (\<lambda>dates.
     Inr (thing_prefetch_payload thing tasks blockers dates match_reason)))))"

definition get_agent_thing_prefetch ::
  "(nat \<Rightarrow> nat) \<Rightarrow> uuid \<Rightarrow> uuid option \<Rightarrow> str option \<Rightarrow> int \<Rightarrow> store \<Rightarrow> py_error + jdict" where
  "get_agent_thing_prefetch lower user_id active_thing query candidate_limit s =
     (if candidate_limit \<le> 0
      then Inl (ValueError (u ''Thing prefetch candidate limit must be positive.''))
      else case active_thing of
        Some tid \<Rightarrow> build_thing_prefetch user_id tid (u ''active_thread'') s
      | None \<Rightarrow>
          let normalized = strip (case query of None \<Rightarrow> [] | Some q \<Rightarrow> q);
              search = thing_search_query_from_input normalized in
          if length normalized < 2 \<or> length search < 2 then Inr Map.empty
          else
            bindE (get_things lower user_id None (Some search) None candidate_limit s) (\<lambda>found.
            case found of
              [] \<Rightarrow> Inr Map.empty
            | [t] \<Rightarrow> build_thing_prefetch user_id (tdo_id t) (u ''query_match'') s
            | _ \<Rightarrow> Inr (ambiguous_thing_candidates found)))"

section \<open>Writing\<close>

text \<open>
  A method that applies a mutation, commits and reports its result. The commit precedes the
  report; that the report of a mutation never raises is shown in \<open>StateReports\<close>.
\<close>

definition with_result :: "WriteOutcome op \<Rightarrow> MutationResultDTO op" where
  "with_result m =
     bindE m (\<lambda>(out, s'). bindE (mutation_result_from_outcome out) (\<lambda>r. Inr (r, s')))"

text \<open>A creation reads the created entity back after the commit.\<close>

definition with_entity ::
  "WriteOutcome op \<Rightarrow> (uuid \<Rightarrow> store \<Rightarrow> 'a option) \<Rightarrow> str \<Rightarrow> 'a op" where
  "with_entity m lookup err =
     bindE m (\<lambda>(out, s').
       case wo_data out (u ''id'') of
         Some (JStr t) \<Rightarrow>
           bindE (ofopt (ValueError (u ''badly formed hexadecimal UUID string'')) (uuid_parse t)) (\<lambda>x.
             case lookup x s' of None \<Rightarrow> Inl (RuntimeError err) | Some v \<Rightarrow> Inr (v, s'))
       | _ \<Rightarrow> Inl (KeyError (u ''id'')))"

definition set_thing_context ::
  "env \<Rightarrow> uuid \<Rightarrow> uuid \<Rightarrow> str \<Rightarrow> str \<Rightarrow> uuid option \<Rightarrow> int option \<Rightarrow> uuid option \<Rightarrow> str \<Rightarrow> str \<Rightarrow>
    str \<Rightarrow> uuid option \<Rightarrow> store \<Rightarrow> MutationResultDTO op" where
  "set_thing_context e user_id tid label content entry_ref expected_version source action_id key
       reason run s =
     with_result (apply_set_thing_context e user_id tid label content entry_ref expected_version
       source action_id key reason run s)"

definition thing_image :: "Thing \<Rightarrow> jdict" where
  "thing_image t = [u ''name'' \<mapsto> JStr (thing_name t),
     u ''status'' \<mapsto> JStr (thing_status_value (thing_status t)),
     u ''current_stage'' \<mapsto> jopt JStr (thing_current_stage t), u ''version'' \<mapsto> JInt (thing_version t)]"

definition update_thing ::
  "env \<Rightarrow> uuid \<Rightarrow> uuid \<Rightarrow> int \<Rightarrow> str option \<Rightarrow> ThingStatus option \<Rightarrow> str option \<Rightarrow> bool \<Rightarrow> str \<Rightarrow>
    str \<Rightarrow> str \<Rightarrow> uuid option \<Rightarrow> store \<Rightarrow> ThingDTO op" where
  "update_thing e user_id tid expected_version name status current_stage update_current_stage
       action_id key reason run s =
     (if name = None \<and> status = None \<and> \<not> update_current_stage
      then Inl (ValueError (u ''At least one editable Thing field must be provided.''))
      else case audit_get_mutation user_id key s of
        Some m \<Rightarrow>
          (case things_get user_id tid (core s) of
             None \<Rightarrow> Inl (RuntimeError (u ''Idempotent Thing update points to a missing Thing.''))
           | Some thing \<Rightarrow> Inr (to_thing_dto thing, s))
      | None \<Rightarrow>
      (case things_get user_id tid (core s) of
        None \<Rightarrow> Inl (EntityNotFound (u ''Thing was not found.''))
      | Some thing \<Rightarrow>
        if thing_version thing \<noteq> expected_version
        then Inl (VersionConflict (u ''Thing version is stale.''))
        else
          bindE (thing_revise (clk e 0) name status current_stage update_current_stage thing)
            (\<lambda>thing'.
          (case things_update thing' expected_version s of
             (won, s1) \<Rightarrow>
               if \<not> won then Inl (VersionConflict (u ''Thing was updated concurrently.''))
               else
                 let mutation = new_mutation (uid4 e 0) (clk e 1) user_id (Some (thing_id thing')) run
                       action_id (u ''THING_UPDATED'') (u ''THING'') (thing_id thing')
                       (Some (thing_image thing)) (thing_image thing') reason None key in
                 bindE (record_audit mutation (Some (new_timeline_event (uid4 e 1) (clk e 2) user_id
                     (thing_id thing') (u ''THING_UPDATED'') (TITLE_UPDATED @ thing_name thing')
                     (thing_updated_at thing') None (uid4 e 0) Map.empty)) s1) (\<lambda>s2.
                 Inr (to_thing_dto thing', s2))))))"

definition create_thing ::
  "env \<Rightarrow> uuid \<Rightarrow> str \<Rightarrow> str \<Rightarrow> str \<Rightarrow> str \<Rightarrow> uuid option \<Rightarrow> store \<Rightarrow> ThingDTO op" where
  "create_thing e user_id name action_id key reason run s =
     with_entity (apply_create_thing e user_id name action_id key reason run s)
       (\<lambda>x s'. map_option to_thing_dto (things_get user_id x (core s')))
       (u ''Thing creation did not persist.'')"

definition create_task ::
  "env \<Rightarrow> uuid \<Rightarrow> uuid option \<Rightarrow> str \<Rightarrow> pydatetime option \<Rightarrow> int option \<Rightarrow> str \<Rightarrow> str \<Rightarrow> str \<Rightarrow>
    uuid option \<Rightarrow> store \<Rightarrow> TaskDTO op" where
  "create_task e user_id thing_ref title due_at recurrence action_id key reason run s =
     with_entity (apply_create_task e user_id thing_ref title due_at recurrence action_id key reason
       run s) (tasks_get user_id) (u ''Task creation did not persist.'')"

definition complete_task ::
  "env \<Rightarrow> uuid \<Rightarrow> uuid \<Rightarrow> int \<Rightarrow> str \<Rightarrow> str \<Rightarrow> str \<Rightarrow> uuid option \<Rightarrow> store \<Rightarrow> MutationResultDTO op" where
  "complete_task e user_id tid expected_version action_id key reason run s =
     with_result (apply_complete_task e user_id tid expected_version action_id key reason run s)"

definition set_deadline ::
  "env \<Rightarrow> uuid \<Rightarrow> uuid \<Rightarrow> ThingDateType \<Rightarrow> pydatetime \<Rightarrow> str \<Rightarrow> DatePrecision \<Rightarrow> DateCertainty \<Rightarrow>
    bool \<Rightarrow> int \<Rightarrow> str \<Rightarrow> str \<Rightarrow> str \<Rightarrow> str option \<Rightarrow> uuid option \<Rightarrow> uuid option \<Rightarrow> store
    \<Rightarrow> MutationResultDTO op" where
  "set_deadline e user_id tid kind value timezone_name precision certainty is_primary
       expected_version action_id key reason label run source s =
     with_result (apply_set_deadline e user_id tid kind value timezone_name precision certainty
       is_primary expected_version action_id key reason label run source s)"

definition transition_task ::
  "env \<Rightarrow> uuid \<Rightarrow> uuid \<Rightarrow> TaskStatus \<Rightarrow> int \<Rightarrow> str \<Rightarrow> str \<Rightarrow> str \<Rightarrow> store \<Rightarrow> MutationResultDTO op" where
  "transition_task e user_id tid target_status expected_version action_id key reason s =
     with_result (apply_transition_task e user_id tid target_status expected_version action_id key
       reason None s)"

definition update_date ::
  "env \<Rightarrow> uuid \<Rightarrow> uuid \<Rightarrow> pydatetime \<Rightarrow> str \<Rightarrow> DatePrecision \<Rightarrow> DateCertainty \<Rightarrow> bool \<Rightarrow> int \<Rightarrow> int \<Rightarrow>
    str \<Rightarrow> str \<Rightarrow> str \<Rightarrow> store \<Rightarrow> MutationResultDTO op" where
  "update_date e user_id did value timezone_name precision certainty is_primary expected_version
       expected_thing_version action_id key reason s =
     with_result (apply_update_date e user_id did value timezone_name precision certainty is_primary
       expected_version expected_thing_version action_id key reason s)"

definition create_blocker ::
  "env \<Rightarrow> uuid \<Rightarrow> uuid \<Rightarrow> str \<Rightarrow> BlockerSeverity \<Rightarrow> uuid option \<Rightarrow> uuid option \<Rightarrow> str \<Rightarrow> str \<Rightarrow> str \<Rightarrow>
    store \<Rightarrow> BlockerDTO op" where
  "create_blocker e user_id tid description severity task_ref source action_id key reason s =
     with_entity (apply_create_blocker e user_id tid description severity task_ref source action_id
       key reason s) (blockers_get user_id) (u ''Blocker creation did not persist.'')"

definition resolve_blocker ::
  "env \<Rightarrow> uuid \<Rightarrow> uuid \<Rightarrow> int \<Rightarrow> str \<Rightarrow> str \<Rightarrow> str \<Rightarrow> store \<Rightarrow> MutationResultDTO op" where
  "resolve_blocker e user_id bid expected_version action_id key reason s =
     with_result (apply_resolve_blocker e user_id bid expected_version action_id key reason s)"

text \<open>The relation is checked and added, and the mutation recorded without an event.\<close>

definition add_relation ::
  "env \<Rightarrow> uuid \<Rightarrow> uuid \<Rightarrow> uuid \<Rightarrow> ThingRelationType \<Rightarrow> str option \<Rightarrow> str \<Rightarrow> str \<Rightarrow> str \<Rightarrow> store
    \<Rightarrow> bool op" where
  "add_relation e user_id from_id to_id relation_type note action_id key reason s =
     (if audit_get_mutation user_id key s \<noteq> None then Inr (False, s)
      else if \<exists>tid \<in> {from_id, to_id}. things_get user_id tid (core s) = None
      then Inl (EntityNotFound (u ''Related Thing was not found.''))
      else
        bindE (ThingRelation_init from_id to_id relation_type
          (case note of None \<Rightarrow> None | Some n \<Rightarrow> if n = [] then None else Some (strip n)) (clk e 0))
          (\<lambda>relation.
        (case relations_add relation s of
           (created, s1) \<Rightarrow>
             bindE (audit_add_mutation (new_mutation (uid4 e 0) (clk e 1) user_id (Some from_id) None
                 action_id (u ''THING_RELATION_ADDED'') (u ''THING'') to_id None
                 [u ''relation_type'' \<mapsto> JStr (relation_type_value relation_type),
                  u ''created'' \<mapsto> JBool created] reason None key) s1) (\<lambda>s2.
             Inr (created, s2)))))"

definition merge_things ::
  "(json \<Rightarrow> str) \<Rightarrow> env \<Rightarrow> uuid \<Rightarrow> uuid \<Rightarrow> uuid \<Rightarrow> int \<Rightarrow> int \<Rightarrow> str \<Rightarrow> str \<Rightarrow> str \<Rightarrow> uuid option \<Rightarrow>
    store \<Rightarrow> MutationResultDTO op" where
  "merge_things show_json e user_id canonical_id duplicate_id expected_canonical_version
       expected_duplicate_version action_id key reason run s =
     with_result (apply_merge_things show_json e user_id canonical_id duplicate_id
       expected_canonical_version expected_duplicate_version action_id key reason run s)"

definition change_archive ::
  "env \<Rightarrow> uuid \<Rightarrow> uuid \<Rightarrow> int \<Rightarrow> str \<Rightarrow> str \<Rightarrow> str \<Rightarrow> uuid option \<Rightarrow> bool \<Rightarrow> store
    \<Rightarrow> MutationResultDTO op" where
  "change_archive e user_id tid expected_version action_id key reason run archive s =
     with_result (apply_change_archive e user_id tid expected_version action_id key reason run archive
       s)"

definition archive_thing ::
  "env \<Rightarrow> uuid \<Rightarrow> uuid \<Rightarrow> int \<Rightarrow> str \<Rightarrow> str \<Rightarrow> str \<Rightarrow> uuid option \<Rightarrow> store \<Rightarrow> MutationResultDTO op" where
  "archive_thing e user_id tid expected_version action_id key reason run s =
     change_archive e user_id tid expected_version action_id key reason run True s"

definition unarchive_thing ::
  "env \<Rightarrow> uuid \<Rightarrow> uuid \<Rightarrow> int \<Rightarrow> str \<Rightarrow> str \<Rightarrow> str \<Rightarrow> uuid option \<Rightarrow> store \<Rightarrow> MutationResultDTO op" where
  "unarchive_thing e user_id tid expected_version action_id key reason run s =
     change_archive e user_id tid expected_version action_id key reason run False s"

definition delete_thing ::
  "env \<Rightarrow> uuid \<Rightarrow> uuid \<Rightarrow> int \<Rightarrow> str \<Rightarrow> str \<Rightarrow> str \<Rightarrow> uuid option \<Rightarrow> store \<Rightarrow> MutationResultDTO op" where
  "delete_thing e user_id tid expected_version action_id key reason run s =
     with_result (apply_delete_thing e user_id tid expected_version action_id key reason run s)"

end
