(* ===== verification/StateTools.thy ===== *)
theory StateTools
  imports StateService
begin

text \<open>
  Mutations inside a tool completion: one unit of work on the common store applies the mutation and
  then settles the ledger of the tool (\<open>complete_personal_state_mutation_tool\<close> of
  \<open>application/runtime/service.py\<close>, modelled on the tables of the runtime by
  \<open>complete_mutation_tool\<close>).
\<close>

text \<open>What the runtime sees of a mutation on the store whose runtime tables are \<open>core s\<close>.\<close>

definition core_mutation :: "(store \<Rightarrow> WriteOutcome op) \<Rightarrow> store \<Rightarrow> mutation" where
  "core_mutation f s = (\<lambda>c. bindE (f (s\<lparr>core := c\<rparr>)) (\<lambda>(out, s1). Inr (out, core s1)))"

text \<open>
  The unit of work: the other tables are those the mutation leaves, the runtime's are those after
  the completion.
\<close>

definition complete_tool_in ::
  "(json \<Rightarrow> str) \<Rightarrow> env \<Rightarrow> uuid \<Rightarrow> uuid \<Rightarrow> str \<Rightarrow> str \<Rightarrow> uuid \<Rightarrow> str \<Rightarrow>
    (store \<Rightarrow> WriteOutcome op) \<Rightarrow> store \<Rightarrow> py_error + (jdict \<times> store \<times> effect list)" where
  "complete_tool_in show_json e user_id rid action_id owner claim_token tool_name apply_mutation s =
     bindE (complete_mutation_tool show_json e user_id rid action_id owner claim_token tool_name
         (core_mutation apply_mutation s) (core s)) (\<lambda>(v, c, fx).
     bindE (apply_mutation s) (\<lambda>(out, s1). Inr (v, s1\<lparr>core := c\<rparr>, fx)))"

definition archive_thing_and_complete_tool_execution ::
  "(json \<Rightarrow> str) \<Rightarrow> env \<Rightarrow> env \<Rightarrow> uuid \<Rightarrow> uuid \<Rightarrow> str \<Rightarrow> str \<Rightarrow> uuid \<Rightarrow> uuid \<Rightarrow> int \<Rightarrow> str \<Rightarrow> str \<Rightarrow>
    store \<Rightarrow> py_error + (jdict \<times> store \<times> effect list)" where
  "archive_thing_and_complete_tool_execution show_json e e' user_id rid action_id owner claim_token
       tid expected_version key reason s =
     complete_tool_in show_json e user_id rid action_id owner claim_token (u ''thing_change_state'')
       (apply_change_archive e' user_id tid expected_version action_id key reason (Some rid) True) s"

end
