(* ===== verification/AgentContracts.thy ===== *)
theory AgentContracts
  imports PyArgs StateTools "HOL-Library.List_Lexorder"
begin

text \<open>
  Decisions and tool results of the agent, \<open>agent/contracts.py\<close>, and the tool registry of
  \<open>agent/tools.py\<close>: what a tool is, which registrations are accepted, how a call is answered.
\<close>

section \<open>Decisions\<close>

datatype DecisionKind = RESPOND | ASK_USER | CALL_TOOL | CALL_TOOLS

primrec decision_kind_value :: "DecisionKind \<Rightarrow> str" where
  "decision_kind_value RESPOND = u ''respond''"
| "decision_kind_value ASK_USER = u ''ask_user''"
| "decision_kind_value CALL_TOOL = u ''call_tool''"
| "decision_kind_value CALL_TOOLS = u ''call_tools''"

record ToolCallSpec =
  tcs_tool_name :: str
  tcs_tool_arguments :: jdict

record ExecutiveDecision =
  edc_kind :: DecisionKind
  edc_content :: "str option"
  edc_tool_name :: "str option"
  edc_tool_arguments :: jdict
  edc_tool_calls :: "ToolCallSpec list"
  edc_prompt :: "jdict option"
  edc_input_tokens :: int
  edc_output_tokens :: int

text \<open>The defaults of the fields, and \<open>__post_init__\<close>.\<close>

definition new_decision :: "DecisionKind \<Rightarrow> ExecutiveDecision" where
  "new_decision kind = \<lparr>edc_kind = kind, edc_content = None, edc_tool_name = None,
     edc_tool_arguments = Map.empty, edc_tool_calls = [], edc_prompt = None, edc_input_tokens = 0,
     edc_output_tokens = 0\<rparr>"

definition blank :: "str option \<Rightarrow> bool" where
  "blank x = (case x of None \<Rightarrow> True | Some t \<Rightarrow> t = [])"

definition decision_post_init :: "ExecutiveDecision \<Rightarrow> py_error + ExecutiveDecision" where
  "decision_post_init d =
     (if edc_input_tokens d < 0 \<or> edc_output_tokens d < 0
      then Inl (ValueError (u ''Normalized token usage cannot be negative.''))
      else if edc_kind d = RESPOND \<and> blank (edc_content d)
      then Inl (ValueError (u ''A response decision requires content.''))
      else if edc_kind d = ASK_USER \<and> edc_prompt d = None
      then Inl (ValueError (u ''An ask-user decision requires a prompt.''))
      else if edc_kind d = CALL_TOOL \<and> blank (edc_tool_name d)
      then Inl (ValueError (u ''A tool decision requires a tool name.''))
      else if edc_kind d = CALL_TOOLS \<and> edc_tool_calls d = []
      then Inl (ValueError (u ''A parallel tool decision requires at least one tool call.''))
      else Inr d)"

section \<open>Tool results\<close>

datatype ToolStatus =
    SUCCESS | PARTIAL | FAILED | NOT_FOUND | CONFLICT | REQUIRES_CONFIRMATION | REQUIRES_USER_INPUT

primrec tool_status_value :: "ToolStatus \<Rightarrow> str" where
  "tool_status_value ToolStatus.SUCCESS = u ''SUCCESS''"
| "tool_status_value ToolStatus.PARTIAL = u ''PARTIAL''"
| "tool_status_value ToolStatus.FAILED = u ''FAILED''"
| "tool_status_value ToolStatus.NOT_FOUND = u ''NOT_FOUND''"
| "tool_status_value ToolStatus.CONFLICT = u ''CONFLICT''"
| "tool_status_value ToolStatus.REQUIRES_CONFIRMATION = u ''REQUIRES_CONFIRMATION''"
| "tool_status_value ToolStatus.REQUIRES_USER_INPUT = u ''REQUIRES_USER_INPUT''"

record ToolResult =
  trs_status :: ToolStatus
  trs_code :: str
  trs_message :: str
  trs_data :: jdict
  trs_retryable :: bool
  trs_mutation_refs :: "str list"
  trs_source_refs :: "str list"
  trs_receipt :: "jdict option"
  trs_error :: "jdict option"
  trs_warnings :: "str list"
  trs_current_state :: "jdict option"
  trs_ledger_receipt_persisted :: bool

definition tool_result :: "ToolStatus \<Rightarrow> str \<Rightarrow> str \<Rightarrow> jdict \<Rightarrow> ToolResult" where
  "tool_result status code message data = \<lparr>trs_status = status, trs_code = code,
     trs_message = message, trs_data = data, trs_retryable = False, trs_mutation_refs = [],
     trs_source_refs = [], trs_receipt = None, trs_error = None, trs_warnings = [],
     trs_current_state = None, trs_ledger_receipt_persisted = False\<rparr>"

definition jstrs :: "str list \<Rightarrow> json" where
  "jstrs xs = JList (map JStr xs)"

definition jobj_opt :: "jdict option \<Rightarrow> json" where
  "jobj_opt d = (case d of None \<Rightarrow> JNull | Some d \<Rightarrow> JObj d)"

definition tool_result_as_dict :: "ToolResult \<Rightarrow> jdict" where
  "tool_result_as_dict r =
     (let good = trs_status r \<in> {ToolStatus.SUCCESS, ToolStatus.PARTIAL};
          receipt = (if good \<and> trs_receipt r = None
            then Some [u ''code'' \<mapsto> JStr (trs_code r), u ''data'' \<mapsto> JObj (trs_data r),
              u ''mutation_refs'' \<mapsto> jstrs (trs_mutation_refs r),
              u ''source_refs'' \<mapsto> jstrs (trs_source_refs r)]
            else trs_receipt r);
          error = (if \<not> good \<and> trs_error r = None
            then Some [u ''code'' \<mapsto> JStr (trs_code r), u ''message'' \<mapsto> JStr (trs_message r),
              u ''retryable'' \<mapsto> JBool (trs_retryable r)]
            else trs_error r)
      in [u ''status'' \<mapsto> JStr (tool_status_value (trs_status r)), u ''code'' \<mapsto> JStr (trs_code r),
        u ''message'' \<mapsto> JStr (trs_message r), u ''data'' \<mapsto> JObj (trs_data r),
        u ''retryable'' \<mapsto> JBool (trs_retryable r),
        u ''mutation_refs'' \<mapsto> jstrs (trs_mutation_refs r),
        u ''source_refs'' \<mapsto> jstrs (trs_source_refs r), u ''receipt'' \<mapsto> jobj_opt receipt,
        u ''error'' \<mapsto> jobj_opt error, u ''warnings'' \<mapsto> jstrs (trs_warnings r),
        u ''current_state'' \<mapsto> jobj_opt (trs_current_state r)])"

section \<open>Tools\<close>

datatype ToolRisk = READ | REVERSIBLE_WRITE | SENSITIVE_WRITE | IRREVERSIBLE
datatype ToolReplayPolicy = READ_ONLY | IDEMPOTENT | NON_REPLAYABLE

primrec tool_risk_value :: "ToolRisk \<Rightarrow> str" where
  "tool_risk_value READ = u ''READ''"
| "tool_risk_value REVERSIBLE_WRITE = u ''REVERSIBLE_WRITE''"
| "tool_risk_value SENSITIVE_WRITE = u ''SENSITIVE_WRITE''"
| "tool_risk_value IRREVERSIBLE = u ''IRREVERSIBLE''"

primrec replay_policy_value :: "ToolReplayPolicy \<Rightarrow> str" where
  "replay_policy_value READ_ONLY = u ''READ_ONLY''"
| "replay_policy_value IDEMPOTENT = u ''IDEMPOTENT''"
| "replay_policy_value NON_REPLAYABLE = u ''NON_REPLAYABLE''"

record ToolExecutionContext =
  tec_user_id :: uuid
  tec_run_id :: uuid
  tec_action_id :: str
  tec_tool_claim_owner :: "str option"
  tec_tool_claim_token :: "uuid option"

text \<open>\<open>ToolExecutionContext.idempotency_key\<close>\<close>

definition tool_key :: "ToolExecutionContext \<Rightarrow> str" where
  "tool_key c = u ''agent:'' @ uuid_str (tec_run_id c) @ u '':'' @ tec_action_id c"

text \<open>
  A handler gets the context, the arguments and two environments, of the ledger and of the write
  operation, and runs on the store: an exception, or a result with the store it commits and the
  effects.
\<close>

type_synonym 'a tool = "py_error + ('a \<times> store \<times> effect list)"
type_synonym handler = "ToolExecutionContext \<Rightarrow> jdict \<Rightarrow> env \<Rightarrow> env \<Rightarrow> store \<Rightarrow> ToolResult tool"

record ToolDefinition =
  tdf_name :: str
  tdf_description :: str
  tdf_risk :: ToolRisk
  tdf_handler :: handler
  tdf_replay_policy :: ToolReplayPolicy
  tdf_enabled :: bool
  tdf_required_arguments :: "str list"

definition tool_definition ::
  "str \<Rightarrow> str \<Rightarrow> ToolRisk \<Rightarrow> handler \<Rightarrow> ToolReplayPolicy \<Rightarrow> str list \<Rightarrow> ToolDefinition" where
  "tool_definition name description risk h policy required = \<lparr>tdf_name = name,
     tdf_description = description, tdf_risk = risk, tdf_handler = h, tdf_replay_policy = policy,
     tdf_enabled = True, tdf_required_arguments = required\<rparr>"

section \<open>The registry\<close>

text \<open>\<open>_definitions\<close>: a dictionary in the order of registration.\<close>

type_synonym registry = "ToolDefinition list"

definition registry_find :: "str \<Rightarrow> registry \<Rightarrow> ToolDefinition option" where
  "registry_find name r = find (\<lambda>d. tdf_name d = name) r"

definition registry_register :: "ToolDefinition \<Rightarrow> registry \<Rightarrow> py_error + registry" where
  "registry_register d r =
     (if registry_find (tdf_name d) r \<noteq> None
      then Inl (ValueError (u ''Tool is already registered: '' @ tdf_name d))
      else if tdf_risk d \<noteq> READ \<and> tdf_replay_policy d = READ_ONLY
      then Inl (ValueError (u ''Write Tools must declare an explicit replay policy.''))
      else if tdf_risk d = READ \<and> tdf_replay_policy d \<noteq> READ_ONLY
      then Inl (ValueError (u ''Read Tools must use the READ_ONLY replay policy.''))
      else Inr (r @ [d]))"

fun register_all :: "ToolDefinition list \<Rightarrow> registry \<Rightarrow> py_error + registry" where
  "register_all [] r = Inr r"
| "register_all (d # ds) r = bindE (registry_register d r) (register_all ds)"

text \<open>Python sorts texts by their code points, as the lexicographic order of \<open>List_Lexorder\<close> does.\<close>

definition registry_names :: "registry \<Rightarrow> str list" where
  "registry_names r = sort (map tdf_name (filter tdf_enabled r))"

definition registry_get :: "str \<Rightarrow> registry \<Rightarrow> ToolDefinition option" where
  "registry_get name r =
     (case registry_find name r of None \<Rightarrow> None | Some d \<Rightarrow> if tdf_enabled d then Some d else None)"

text \<open>The answer to an exception of the handler; the other exceptions leave the registry.\<close>

definition handled :: "py_error \<Rightarrow> ToolResult option" where
  "handled err =
     (case err of
        EntityNotFound _ \<Rightarrow> Some (tool_result ToolStatus.NOT_FOUND (u ''ENTITY_NOT_FOUND'')
          (u ''Requested data was not found.'') Map.empty)
      | VersionConflict _ \<Rightarrow> Some ((tool_result ToolStatus.CONFLICT (u ''VERSION_CONFLICT'')
          (u ''Data changed concurrently; reload before retrying.'') Map.empty)\<lparr>trs_retryable := True\<rparr>)
      | InvalidStateTransition _ \<Rightarrow> Some (tool_result ToolStatus.CONFLICT
          (u ''INVALID_STATE_TRANSITION'') (u ''The requested state transition is not allowed.'') Map.empty)
      | KeyError _ \<Rightarrow> Some (tool_result ToolStatus.FAILED (u ''INVALID_ARGUMENT'')
          (u ''Tool arguments are invalid.'') Map.empty)
      | TypeError _ \<Rightarrow> Some (tool_result ToolStatus.FAILED (u ''INVALID_ARGUMENT'')
          (u ''Tool arguments are invalid.'') Map.empty)
      | ValueError _ \<Rightarrow> Some (tool_result ToolStatus.FAILED (u ''INVALID_ARGUMENT'')
          (u ''Tool arguments are invalid.'') Map.empty)
      | _ \<Rightarrow> None)"

definition missing_arguments :: "ToolDefinition \<Rightarrow> jdict \<Rightarrow> str list" where
  "missing_arguments d args = filter (\<lambda>k. args k = None) (tdf_required_arguments d)"

definition registry_execute ::
  "registry \<Rightarrow> str \<Rightarrow> ToolExecutionContext \<Rightarrow> jdict \<Rightarrow> env \<Rightarrow> env \<Rightarrow> store \<Rightarrow> ToolResult tool" where
  "registry_execute r name c args e e' s =
     (case registry_get name r of
        None \<Rightarrow> Inr (tool_result ToolStatus.NOT_FOUND (u ''TOOL_NOT_FOUND'')
          (u ''Tool is unavailable.'') Map.empty, s, [])
      | Some d \<Rightarrow>
          let missing = missing_arguments d args in
          if missing \<noteq> []
          then Inr (tool_result ToolStatus.REQUIRES_USER_INPUT (u ''MISSING_ARGUMENT'')
            (u ''Required tool arguments are missing.'') [u ''missing'' \<mapsto> jstrs missing], s, [])
          else
            (case tdf_handler d c args e e' s of
               Inr v \<Rightarrow> Inr v
             | Inl err \<Rightarrow>
                 (case handled err of None \<Rightarrow> Inl err | Some answer \<Rightarrow> Inr (answer, s, []))))"

section \<open>Bound mutations\<close>

text \<open>
  \<open>_ledger_ready\<close> and \<open>try_bound_mutation\<close>: with a runtime and a claim in the context the mutation
  is applied in the unit of work that settles the tool in the ledger; otherwise the tool falls back
  to the service. \<open>runtime\<close> says whether there is one.
\<close>

definition ledger_ready :: "bool \<Rightarrow> ToolExecutionContext \<Rightarrow> bool" where
  "ledger_ready runtime c \<longleftrightarrow> runtime \<and> tec_tool_claim_owner c \<noteq> None \<and> tec_tool_claim_token c \<noteq> None"

definition bound_result :: "(json \<Rightarrow> str) \<Rightarrow> str \<Rightarrow> str \<Rightarrow> jdict \<Rightarrow> ToolResult" where
  "bound_result show_json code message data =
     (let mutation_id = jget data (u ''mutation_id'') JNull in
      (tool_result ToolStatus.SUCCESS code message data)
        \<lparr>trs_mutation_refs := (if py_bool mutation_id then [py_str show_json mutation_id] else []),
         trs_ledger_receipt_persisted := True\<rparr>)"

definition try_bound_mutation ::
  "(json \<Rightarrow> str) \<Rightarrow> bool \<Rightarrow> ToolExecutionContext \<Rightarrow> env \<Rightarrow> str \<Rightarrow> str \<Rightarrow> str \<Rightarrow> (store \<Rightarrow> WriteOutcome op) \<Rightarrow>
    store \<Rightarrow> ToolResult tool option" where
  "try_bound_mutation show_json runtime c e tool_name code message apply_mutation s =
     (case (tec_tool_claim_owner c, tec_tool_claim_token c) of
        (Some owner, Some token) \<Rightarrow>
          if \<not> runtime then None
          else Some (bindE (complete_tool_in show_json e (tec_user_id c) (tec_run_id c) (tec_action_id c)
              owner token tool_name apply_mutation s) (\<lambda>(data, s', fx).
            Inr (bound_result show_json code message data, s', fx)))
      | _ \<Rightarrow> None)"

lemma try_bound_iff: "try_bound_mutation sj rt c e tn code m f s = None \<longleftrightarrow> \<not> ledger_ready rt c"
  by (auto simp: try_bound_mutation_def ledger_ready_def split: option.splits)

text \<open>\<open>if bound is not None: return bound\<close>, and the service otherwise.\<close>

definition bound_or :: "ToolResult tool option \<Rightarrow> ToolResult op \<Rightarrow> ToolResult tool" where
  "bound_or bound service =
     (case bound of Some r \<Rightarrow> r | None \<Rightarrow> bindE service (\<lambda>(r, s'). Inr (r, s', [])))"

text \<open>
  The shape of most tools that write: \<open>read\<close> converts the arguments, in the unit of work of the
  ledger or before the call of the service.
\<close>

definition write_tool ::
  "(json \<Rightarrow> str) \<Rightarrow> bool \<Rightarrow> ToolExecutionContext \<Rightarrow> env \<Rightarrow> str \<Rightarrow> str \<Rightarrow> str \<Rightarrow> (py_error + 'x) \<Rightarrow>
    ('x \<Rightarrow> store \<Rightarrow> WriteOutcome op) \<Rightarrow> ('x \<Rightarrow> store \<Rightarrow> ToolResult op) \<Rightarrow> store \<Rightarrow> ToolResult tool" where
  "write_tool show_json runtime c e tool_name code message read mutate service s =
     bound_or (try_bound_mutation show_json runtime c e tool_name code message
         (\<lambda>s. bindE read (\<lambda>x. mutate x s)) s)
       (bindE read (\<lambda>x. service x s))"

section \<open>The manifest\<close>

fun join :: "str \<Rightarrow> str list \<Rightarrow> str" where
  "join sep [] = []"
| "join sep [x] = x"
| "join sep (x # y # xs) = x @ sep @ join sep (y # xs)"

text \<open>The full-width semicolon and colon and the word for parameters of the prompt.\<close>

definition MANIFEST_ARGUMENTS :: str where
  "MANIFEST_ARGUMENTS = [65307, 21442, 25968, 65306]"

definition manifest_line :: "ToolDefinition \<Rightarrow> str" where
  "manifest_line d =
     (let arguments = join (u '', '') (tdf_required_arguments d) in
      tdf_name d @ [65306] @ tdf_description d @
      (if arguments = [] then [] else MANIFEST_ARGUMENTS @ arguments))"

definition build_tool_manifest :: "registry \<Rightarrow> str" where
  "build_tool_manifest r =
     join [10] (map manifest_line (List.map_filter (\<lambda>name. registry_get name r) (registry_names r)))"

definition tool_contract :: "ToolDefinition \<Rightarrow> jdict" where
  "tool_contract d = [u ''name'' \<mapsto> JStr (tdf_name d), u ''description'' \<mapsto> JStr (tdf_description d),
     u ''risk'' \<mapsto> JStr (tool_risk_value (tdf_risk d)),
     u ''replay_policy'' \<mapsto> JStr (replay_policy_value (tdf_replay_policy d)),
     u ''required_arguments'' \<mapsto> jstrs (tdf_required_arguments d)]"

definition export_tool_registry_contract :: "registry \<Rightarrow> jdict list" where
  "export_tool_registry_contract r =
     map tool_contract (List.map_filter (\<lambda>name. registry_get name r) (registry_names r))"

end
