(* ===== verification/AgentPolicy.thy ===== *)
theory AgentPolicy
  imports AgentContracts
begin

text \<open>
  What decides before a tool runs: the policy matrix, \<open>agent/policy.py\<close>, the checks of a parallel
  batch and the reading of a model's decision, \<open>agent/parallel.py\<close>.
\<close>

section \<open>Search tools\<close>

text \<open>\<open>name in {"search_web", "url_inspect"} or name.startswith("search.")\<close>\<close>

definition is_search_tool :: "str \<Rightarrow> bool" where
  "is_search_tool name \<longleftrightarrow> name = u ''search_web'' \<or> name = u ''url_inspect'' \<or> take 7 name = u ''search.''"

definition search_names :: "json option \<Rightarrow> nat" where
  "search_names names =
     (case names of
        Some (JList xs) \<Rightarrow> length (filter (\<lambda>v. case v of JStr n \<Rightarrow> is_search_tool n | _ \<Rightarrow> False) xs)
      | _ \<Rightarrow> 0)"

fun count_search_tools_in_results :: "json list \<Rightarrow> py_error + nat" where
  "count_search_tools_in_results [] = Inr 0"
| "count_search_tools_in_results (JObj r # rest) =
     bindE (count_search_tools_in_results rest) (\<lambda>n.
     Inr (n + (case r (u ''tool_name'') of
        Some (JStr name) \<Rightarrow>
          if is_search_tool name then 1 else search_names (r (u ''batch_tool_names''))
      | _ \<Rightarrow> search_names (r (u ''batch_tool_names'')))))"
| "count_search_tools_in_results (_ # rest) = Inl (AttributeError (u ''get''))"

section \<open>Policy\<close>

datatype PolicyDecision = ALLOW | DENY | REQUIRE_CONFIRMATION | REQUIRE_MORE_CONTEXT

record PolicyResult =
  plr_decision :: PolicyDecision
  plr_code :: str
  plr_message :: str

definition policy_result :: "PolicyDecision \<Rightarrow> str \<Rightarrow> str \<Rightarrow> PolicyResult" where
  "policy_result d code message = \<lparr>plr_decision = d, plr_code = code, plr_message = message\<rparr>"

text \<open>\<open>lower\<close> as far as it matters for a comparison with ASCII words.\<close>

definition lower :: "str \<Rightarrow> str" where
  "lower x = map (\<lambda>c. if 65 \<le> c \<and> c \<le> 90 then c + 32 else c) x"

definition parse_bool :: "json \<Rightarrow> bool \<Rightarrow> bool" where
  "parse_bool v d =
     (case v of
        JBool b \<Rightarrow> b
      | JStr x \<Rightarrow>
          let normalized = lower (strip x) in
          if normalized \<in> {u ''true'', u ''1'', u ''yes''} then True
          else if normalized \<in> {u ''false'', u ''0'', u ''no''} then False else d
      | _ \<Rightarrow> d)"

definition has_source_provenance :: "jdict \<Rightarrow> bool" where
  "has_source_provenance args =
     (case args (u ''source_id'') of
        Some (JStr x) \<Rightarrow>
          if strip x \<noteq> [] then uuid_parse x \<noteq> None
          else (case args (u ''source_refs'') of Some (JList xs) \<Rightarrow> xs \<noteq> [] | _ \<Rightarrow> False)
      | _ \<Rightarrow> (case args (u ''source_refs'') of Some (JList xs) \<Rightarrow> xs \<noteq> [] | _ \<Rightarrow> False))"

text \<open>The stripped texts of a list that are not blank.\<close>

definition texts :: "json list \<Rightarrow> str list" where
  "texts xs = concat (map (\<lambda>v. case v of JStr t \<Rightarrow> if strip t \<noteq> [] then [strip t] else [] | _ \<Rightarrow> []) xs)"

definition evidence_urls :: "jdict \<Rightarrow> str list" where
  "evidence_urls args = (case args (u ''evidence_urls'') of Some (JList xs) \<Rightarrow> texts xs | _ \<Rightarrow> [])"

text \<open>\<open>extract_urls_from_search_payload\<close> of \<open>application/search/service.py\<close>; the set as a list.\<close>

definition extract_urls_from_search_payload :: "jdict \<Rightarrow> str list" where
  "extract_urls_from_search_payload data =
     (case data (u ''items'') of
        Some (JList items) \<Rightarrow>
          texts (map (\<lambda>v. case v of JObj d \<Rightarrow> jget d (u ''url'') JNull | _ \<Rightarrow> JNull) items)
      | _ \<Rightarrow> [])"

definition result_urls :: "json \<Rightarrow> str list" where
  "result_urls v =
     (case v of
        JObj r \<Rightarrow>
          if r (u ''status'') \<noteq> Some (JStr (u ''SUCCESS'')) then []
          else if r (u ''tool_name'') \<notin> {Some (JStr (u ''search_web'')), Some (JStr (u ''url_inspect'')),
              Some (JStr (u ''search.official''))} then []
          else (case r (u ''data'') of Some (JObj d) \<Rightarrow> extract_urls_from_search_payload d | _ \<Rightarrow> [])
      | _ \<Rightarrow> [])"

definition search_urls_from_state :: "jdict option \<Rightarrow> str list" where
  "search_urls_from_state state =
     (case state of
        None \<Rightarrow> []
      | Some st \<Rightarrow>
          (case st (u ''tool_results'') of Some (JList xs) \<Rightarrow> concat (map result_urls xs) | _ \<Rightarrow> []))"

definition has_verified_search_evidence :: "jdict option \<Rightarrow> jdict \<Rightarrow> bool" where
  "has_verified_search_evidence state args \<longleftrightarrow>
     (\<exists>url \<in> set (evidence_urls args). url \<in> set (search_urls_from_state state))"

definition prefetched_thing_has_deadline :: "(json \<Rightarrow> str) \<Rightarrow> jdict \<Rightarrow> str \<Rightarrow> bool" where
  "prefetched_thing_has_deadline sj state tid =
     (case jget state (u ''prefetched_state'') (JObj Map.empty) of
        JObj prefetch \<Rightarrow>
          (case jget prefetch (u ''active_thing_context'') (JObj Map.empty) of
             JObj active \<Rightarrow>
               py_str sj (jget active (u ''thing_id'') (JStr [])) = tid
               \<and> jget active (u ''deadline_at'') JNull \<noteq> JNull
           | _ \<Rightarrow> False)
      | _ \<Rightarrow> False)"

text \<open>The quota of the search tools.\<close>

definition evaluate_search :: "nat \<Rightarrow> jdict option \<Rightarrow> py_error + PolicyResult" where
  "evaluate_search search_max state =
     (let allowed = policy_result ALLOW (u ''ALLOWED'') (u ''Search is allowed.'') in
      case state of
        None \<Rightarrow> Inr allowed
      | Some st \<Rightarrow>
          (case jget st (u ''tool_results'') (JList []) of
             JList results \<Rightarrow>
               bindE (count_search_tools_in_results results) (\<lambda>used.
               bindE (case jget st (u ''budget_snapshot'') (JObj Map.empty) of
                   JObj budget \<Rightarrow> py_int (jget budget (u ''max_search_queries'') (JInt (int search_max)))
                 | _ \<Rightarrow> Inr (int search_max)) (\<lambda>limit.
               Inr (if limit \<le> int used
                 then policy_result DENY (u ''SEARCH_QUOTA_EXCEEDED'')
                   (u ''Search quota for this run has been exceeded.'')
                 else allowed)))
           | _ \<Rightarrow> Inr allowed))"

text \<open>The rules for a date: \<open>None\<close> when none of them decides.\<close>

definition evaluate_deadline :: "(json \<Rightarrow> str) \<Rightarrow> jdict option \<Rightarrow> jdict \<Rightarrow> PolicyResult option" where
  "evaluate_deadline sj state args =
     (let confirmed = certainty_of (py_str sj (jget args (u ''certainty'') JNull)) = Inr DateCertainty.CONFIRMED;
          primary = parse_bool (jget args (u ''is_primary'') JNull) True;
          tid = py_str sj (jget args (u ''thing_id'') (JStr []));
          source = has_source_provenance args;
          search = has_verified_search_evidence state args in
      if confirmed \<and> primary \<and> \<not> source \<and> \<not> search
      then Some (policy_result REQUIRE_MORE_CONTEXT (u ''DEADLINE_NEEDS_VERIFICATION'')
        (u ''Confirmed primary deadlines require source evidence or explicit user confirmation.''))
      else if confirmed \<and> primary \<and> (source \<or> search) \<and> tid \<noteq> []
        \<and> (case state of None \<Rightarrow> False | Some st \<Rightarrow> prefetched_thing_has_deadline sj st tid)
      then Some (policy_result REQUIRE_CONFIRMATION (u ''DEADLINE_OVERWRITE'')
        (u ''Overwriting an existing deadline requires user confirmation even with source evidence.''))
      else if source \<and> confirmed
      then Some (policy_result ALLOW (u ''SOURCE_VERIFIED_DEADLINE'')
        (u ''Source-backed confirmed deadline is allowed.''))
      else if search \<and> confirmed
      then Some (policy_result ALLOW (u ''SEARCH_VERIFIED_DEADLINE'')
        (u ''Search-backed confirmed deadline is allowed.''))
      else None)"

definition evaluate_policy ::
  "(json \<Rightarrow> str) \<Rightarrow> nat \<Rightarrow> ToolDefinition \<Rightarrow> jdict option \<Rightarrow> jdict option \<Rightarrow> py_error + PolicyResult" where
  "evaluate_policy sj search_max d state arguments =
     (let args = (case arguments of None \<Rightarrow> Map.empty | Some a \<Rightarrow> a);
          by_risk = (if tdf_risk d \<in> {SENSITIVE_WRITE, IRREVERSIBLE}
            then policy_result REQUIRE_CONFIRMATION (u ''CONFIRMATION_REQUIRED'')
              (u ''Explicit user confirmation is required.'')
            else policy_result ALLOW (u ''ALLOWED'') (u ''Tool execution is allowed.'')) in
      if \<not> tdf_enabled d then Inr (policy_result DENY (u ''TOOL_DISABLED'') (u ''Tool is disabled.''))
      else if tdf_name d \<in> {u ''search_web'', u ''url_inspect'', u ''search.web'', u ''search.official''}
      then evaluate_search search_max state
      else if tdf_name d \<in> {u ''thing_date_set'', u ''state.set_deadline''}
      then Inr (case evaluate_deadline sj state args of None \<Rightarrow> by_risk | Some r \<Rightarrow> r)
      else Inr by_risk)"

section \<open>Parallel batches\<close>

record ParallelBatchValidation =
  pbv_ok :: bool
  pbv_code :: str
  pbv_message :: str
  pbv_specs :: "ToolCallSpec list"

definition batch_invalid :: "str \<Rightarrow> str \<Rightarrow> ParallelBatchValidation" where
  "batch_invalid code message = \<lparr>pbv_ok = False, pbv_code = code, pbv_message = message, pbv_specs = []\<rparr>"

text \<open>
  The loop. \<open>canonicalize_arguments\<close> serves as a key only: two arguments have the same canonical
  text exactly when they are equal, so the key of a call is the call itself.
\<close>

fun scan_batch ::
  "registry \<Rightarrow> ToolCallSpec list \<Rightarrow> ToolCallSpec list \<Rightarrow> nat \<Rightarrow> ParallelBatchValidation + (ToolCallSpec list \<times> nat)" where
  "scan_batch r unique [] n = Inr (unique, n)"
| "scan_batch r unique (spec # specs) n =
     (case registry_get (tcs_tool_name spec) r of
        None \<Rightarrow> Inl (batch_invalid (u ''TOOL_NOT_FOUND'') (u ''Tool is unavailable: '' @ tcs_tool_name spec))
      | Some d \<Rightarrow>
          if tdf_risk d \<noteq> READ
          then Inl (batch_invalid (u ''PARALLEL_WRITE_FORBIDDEN'')
            (u ''Parallel batches may only include read-only tools.''))
          else if spec \<in> set unique then scan_batch r unique specs n
          else scan_batch r (unique @ [spec]) specs
            (if is_search_tool (tcs_tool_name spec) then n + 1 else n))"

definition validate_parallel_batch ::
  "registry \<Rightarrow> ToolCallSpec list \<Rightarrow> int \<Rightarrow> int \<Rightarrow> int \<Rightarrow> int \<Rightarrow> int \<Rightarrow> ParallelBatchValidation" where
  "validate_parallel_batch r specs tool_call_count max_tool_calls parallel_read_max search_count
       search_max =
     (if specs = [] then batch_invalid (u ''PARALLEL_BATCH_EMPTY'')
        (u ''Parallel batch must include at least one tool.'')
      else if parallel_read_max < int (length specs) then batch_invalid (u ''PARALLEL_BATCH_TOO_LARGE'')
        (u ''Parallel batch exceeds the limit of '' @ int_str parallel_read_max @ u '' tools.'')
      else if max_tool_calls < tool_call_count + int (length specs)
      then batch_invalid (u ''TOOL_BUDGET_EXCEEDED'')
        (u ''Parallel batch would exceed the tool-call budget for this run.'')
      else
        (case scan_batch r [] specs 0 of
           Inl invalid \<Rightarrow> invalid
         | Inr (unique, n) \<Rightarrow>
             if 2 < n then batch_invalid (u ''SEARCH_BATCH_LIMIT'')
               (u ''Parallel batch may include at most two search tools.'')
             else if search_max < search_count + int n then batch_invalid (u ''SEARCH_QUOTA_EXCEEDED'')
               (u ''Search quota for this run has been exceeded.'')
             else \<lparr>pbv_ok = True, pbv_code = u ''OK'', pbv_message = u ''Parallel batch is valid.'',
               pbv_specs = unique\<rparr>))"

section \<open>Decisions of the model\<close>

definition invalid_response :: "str \<Rightarrow> py_error" where
  "invalid_response message = ModelGatewayError (u ''MODEL_INVALID_RESPONSE'') message True"

definition decision_kind_of :: "str \<Rightarrow> py_error + DecisionKind" where
  "decision_kind_of = py_enum [RESPOND, ASK_USER, CALL_TOOL, CALL_TOOLS] decision_kind_value"

text \<open>A tool name that is available, with its arguments.\<close>

definition parse_call :: "(json \<Rightarrow> str) \<Rightarrow> str list \<Rightarrow> jdict \<Rightarrow> py_error + ToolCallSpec" where
  "parse_call sj available d =
     (let name = py_str sj (jget d (u ''tool_name'') (JStr [])) in
      if name \<notin> set available then Inl (invalid_response (u ''Model selected an unavailable tool.''))
      else
        (case jget d (u ''tool_arguments'') (JObj Map.empty) of
           JObj args \<Rightarrow> Inr \<lparr>tcs_tool_name = name, tcs_tool_arguments = args\<rparr>
         | _ \<Rightarrow> Inl (invalid_response (u ''Model tool arguments must be an object.''))))"

fun parse_calls :: "(json \<Rightarrow> str) \<Rightarrow> str list \<Rightarrow> json list \<Rightarrow> py_error + ToolCallSpec list" where
  "parse_calls sj available [] = Inr []"
| "parse_calls sj available (JObj d # rest) =
     bindE (parse_call sj available d) (\<lambda>spec.
     bindE (parse_calls sj available rest) (\<lambda>specs. Inr (spec # specs)))"
| "parse_calls sj available (_ # rest) = Inl (invalid_response (u ''Each parallel tool entry must be an object.''))"

definition parse_executive_decision ::
  "(json \<Rightarrow> str) \<Rightarrow> json \<Rightarrow> str list \<Rightarrow> py_error + ExecutiveDecision" where
  "parse_executive_decision sj value available =
     (case value of
        JObj d \<Rightarrow>
          (case bindE (arg_str sj d (u ''kind'')) decision_kind_of of
             Inl _ \<Rightarrow> Inl (invalid_response (u ''Model decision kind is invalid.''))
           | Inr RESPOND \<Rightarrow>
               decision_post_init ((new_decision RESPOND)
                 \<lparr>edc_content := Some (strip (arg_or sj d (u ''content'') []))\<rparr>)
           | Inr ASK_USER \<Rightarrow>
               (case d (u ''prompt'') of
                  Some (JObj prompt) \<Rightarrow> decision_post_init ((new_decision ASK_USER)\<lparr>edc_prompt := Some prompt\<rparr>)
                | _ \<Rightarrow> Inl (invalid_response (u ''Model ask-user prompt must be an object.'')))
           | Inr CALL_TOOLS \<Rightarrow>
               (case d (u ''tools'') of
                  Some (JList (x # xs)) \<Rightarrow>
                    bindE (parse_calls sj available (x # xs)) (\<lambda>specs.
                    decision_post_init ((new_decision CALL_TOOLS)\<lparr>edc_tool_calls := specs\<rparr>))
                | _ \<Rightarrow> Inl (invalid_response
                    (u ''Parallel tool decision must include a non-empty tools array.'')))
           | Inr CALL_TOOL \<Rightarrow>
               bindE (parse_call sj available d) (\<lambda>spec.
               decision_post_init ((new_decision CALL_TOOL)
                 \<lparr>edc_tool_name := Some (tcs_tool_name spec), edc_tool_arguments := tcs_tool_arguments spec\<rparr>)))
      | _ \<Rightarrow> Inl (invalid_response (u ''Model decision must be an object.'')))"

end
