(* ===== verification/AutomationStore.thy ===== *)
theory AutomationStore
  imports StateStore PyFloat "HOL-Library.List_Lexorder"
begin

text \<open>
  The repositories of \<open>infrastructure/persistence/repositories/automations.py\<close> and
  \<open>automation_notifications.py\<close> on the store of \<open>StateStore\<close>, with the conventions given there.
\<close>

section \<open>Inserts that skip conflicts\<close>

text \<open>
  \<open>INSERT \<dots> ON CONFLICT (slot) DO NOTHING RETURNING id\<close>: a row that meets a stored one in the
  named constraint is skipped, one that meets another constraint is refused.
\<close>

definition ins_or_skip ::
  "('r \<Rightarrow> 'r \<Rightarrow> bool) \<Rightarrow> ('r \<Rightarrow> 'r \<Rightarrow> bool) \<Rightarrow> 'r \<Rightarrow> 'r list \<Rightarrow> py_error + (bool \<times> 'r list)" where
  "ins_or_skip slot clash r t =
     (if \<exists>x \<in> set t. slot x r then Inr (False, t)
      else bindE (ins clash r t) (\<lambda>rows. Inr (True, rows)))"

lemma ins_or_skip_cases:
  assumes "ins_or_skip slot clash r t = Inr (b, t')"
  obtains (skipped) "\<not> b" "t' = t" "\<exists>x \<in> set t. slot x r"
  | (added) b "t' = t @ [r]" "\<forall>x \<in> set t. \<not> slot x r" "\<forall>x \<in> set t. \<not> clash x r"
  using assms by (auto simp: ins_or_skip_def split: if_splits)

text \<open>Every row through a conversion that may raise.\<close>

fun mapE :: "('a \<Rightarrow> 'e + 'b) \<Rightarrow> 'a list \<Rightarrow> 'e + 'b list" where
  "mapE f [] = Inr []"
| "mapE f (x # xs) = bindE (f x) (\<lambda>y. bindE (mapE f xs) (\<lambda>ys. Inr (y # ys)))"

definition optE :: "('a \<Rightarrow> 'e + 'b) \<Rightarrow> 'a option \<Rightarrow> 'e + 'b option" where
  "optE f x = (case x of None \<Rightarrow> Inr None | Some a \<Rightarrow> bindE (f a) (\<lambda>b. Inr (Some b)))"

section \<open>Automations\<close>

text \<open>Loading a row runs \<open>Automation.__post_init__\<close> on it.\<close>

definition automation_to_domain :: "Automation \<Rightarrow> py_error + Automation" where
  "automation_to_domain a = automation_post_init (map_option Aware (aut_next_trigger_at a)) a"

definition automation_check :: "Automation \<Rightarrow> bool" where
  "automation_check a \<longleftrightarrow>
     (case aut_recurrence_interval_seconds a of None \<Rightarrow> True | Some n \<Rightarrow> 60 \<le> n)"

definition automation_clash :: "Automation \<Rightarrow> Automation \<Rightarrow> bool" where
  "automation_clash x a \<longleftrightarrow> aut_id x = aut_id a \<or>
     aut_user_id x = aut_user_id a \<and> aut_idempotency_key x = aut_idempotency_key a"

definition automations_add :: "Automation \<Rightarrow> store \<Rightarrow> py_error + store" where
  [repo_defs]: "automations_add a s =
     bindE (require (automation_check a) IntegrityError) (\<lambda>_.
     bindE (ins automation_clash a (st_automations s)) (\<lambda>rows. Inr (s\<lparr>st_automations := rows\<rparr>)))"

definition automations_get :: "uuid \<Rightarrow> uuid \<Rightarrow> store \<Rightarrow> py_error + Automation option" where
  [repo_defs]: "automations_get user_id aid s =
     optE automation_to_domain
       (sel1 (\<lambda>a. aut_id a = aid \<and> aut_user_id a = user_id) (st_automations s))"

definition automations_get_by_idempotency ::
  "uuid \<Rightarrow> str \<Rightarrow> store \<Rightarrow> py_error + Automation option" where
  [repo_defs]: "automations_get_by_idempotency user_id key s =
     optE automation_to_domain
       (sel1 (\<lambda>a. aut_user_id a = user_id \<and> aut_idempotency_key a = key) (st_automations s))"

definition automations_list_for_user ::
  "uuid \<Rightarrow> nat \<Rightarrow> store \<Rightarrow> py_error + Automation list" where
  [repo_defs]: "automations_list_for_user user_id limit s =
     mapE automation_to_domain (take limit (sort_key (\<lambda>a. (- aut_created_at a, - uint (aut_id a)))
       (sel (\<lambda>a. aut_user_id a = user_id) (st_automations s))))"

definition automation_due :: "time \<Rightarrow> Automation \<Rightarrow> bool" where
  "automation_due now a \<longleftrightarrow> aut_status a = AutomationStatus.ACTIVE \<and>
     (case aut_next_trigger_at a of None \<Rightarrow> False | Some t \<Rightarrow> t \<le> now)"

text \<open>No other transaction holds a row lock, so \<open>SKIP LOCKED\<close> skips nothing.\<close>

definition automations_list_due :: "time \<Rightarrow> nat \<Rightarrow> store \<Rightarrow> py_error + Automation list" where
  [repo_defs]: "automations_list_due now limit s =
     mapE automation_to_domain (take limit (sort_key (\<lambda>a. (the (aut_next_trigger_at a), aut_id a))
       (sel (automation_due now) (st_automations s))))"

definition copy_automation :: "Automation \<Rightarrow> Automation \<Rightarrow> Automation" where
  "copy_automation x a =
     a\<lparr>aut_status := aut_status x, aut_next_trigger_at := aut_next_trigger_at x,
       aut_last_triggered_at := aut_last_triggered_at x,
       aut_definition_revision := aut_definition_revision x, aut_version := aut_version x,
       aut_updated_at := aut_updated_at x\<rparr>"

definition automations_update :: "Automation \<Rightarrow> int \<Rightarrow> store \<Rightarrow> bool \<times> store" where
  [repo_defs]: "automations_update x expected_version s =
     (case cas_rows aut_id aut_version copy_automation x expected_version (st_automations s) of
        (won, rows) \<Rightarrow> (won, s\<lparr>st_automations := rows\<rparr>))"

interpretation automation_rows: versioned_table aut_id aut_version copy_automation
  by unfold_locales (simp_all add: copy_automation_def)

definition automations_get_operation :: "uuid \<Rightarrow> str \<Rightarrow> store \<Rightarrow> (uuid \<times> int) option" where
  [repo_defs]: "automations_get_operation user_id key s =
     map_option (\<lambda>p. (aop_automation_id p, aop_target_version p))
       (sel1 (\<lambda>p. aop_user_id p = user_id \<and> aop_idempotency_key p = key) (st_automation_ops s))"

definition operation_clash :: "AutomationOperation \<Rightarrow> AutomationOperation \<Rightarrow> bool" where
  "operation_clash x p \<longleftrightarrow>
     aop_user_id x = aop_user_id p \<and> aop_idempotency_key x = aop_idempotency_key p"

definition automations_record_operation ::
  "uuid \<Rightarrow> uuid \<Rightarrow> str \<Rightarrow> int \<Rightarrow> store \<Rightarrow> py_error + store" where
  [repo_defs]: "automations_record_operation user_id aid key target_version s =
     bindE (ins operation_clash \<lparr>aop_user_id = user_id, aop_automation_id = aid,
         aop_idempotency_key = key, aop_target_version = target_version\<rparr> (st_automation_ops s))
       (\<lambda>rows. Inr (s\<lparr>st_automation_ops := rows\<rparr>))"

section \<open>The notification outbox\<close>

definition outbox_add :: "NotificationOutbox \<Rightarrow> store \<Rightarrow> py_error + (bool \<times> store)" where
  [repo_defs]: "outbox_add n s =
     bindE (ins_or_skip (\<lambda>x y. nob_occurrence_key x = nob_occurrence_key y)
         (\<lambda>x y. nob_id x = nob_id y) n (st_outbox s))
       (\<lambda>(added, rows). Inr (added, s\<lparr>st_outbox := rows\<rparr>))"

definition outbox_claimable :: "time \<Rightarrow> int \<Rightarrow> NotificationOutbox \<Rightarrow> bool" where
  "outbox_claimable now max_attempts n \<longleftrightarrow> nob_attempt_count n < max_attempts \<and>
     (nob_status n = NotificationStatus.PENDING \<and> lease_free (nob_lease_expires_at n) now \<or>
      nob_status n = NotificationStatus.FAILED \<and>
        (case nob_next_attempt_at n of None \<Rightarrow> False | Some t \<Rightarrow> t \<le> now))"

definition outbox_claim_next ::
  "str \<Rightarrow> time \<Rightarrow> time \<Rightarrow> int \<Rightarrow> store \<Rightarrow> NotificationOutbox option \<times> store" where
  [repo_defs]: "outbox_claim_next owner now lease max_attempts s =
     (let claim = (\<lambda>n. n\<lparr>nob_status := NotificationStatus.PENDING, nob_claim_owner := Some owner,
            nob_lease_expires_at := Some lease, nob_next_attempt_at := None\<rparr>) in
      case sort_key (\<lambda>n. (nob_created_at n, nob_id n))
             (sel (outbox_claimable now max_attempts) (st_outbox s)) of
        [] \<Rightarrow> (None, s)
      | n # _ \<Rightarrow> (Some (claim n),
          s\<lparr>st_outbox := upd (\<lambda>x. nob_id x = nob_id n) claim (st_outbox s)\<rparr>))"

definition copy_outbox :: "NotificationOutbox \<Rightarrow> NotificationOutbox \<Rightarrow> NotificationOutbox" where
  "copy_outbox x n =
     n\<lparr>nob_status := nob_status x, nob_attempt_count := nob_attempt_count x,
       nob_submitted_at := nob_submitted_at x, nob_error_code := nob_error_code x,
       nob_updated_at := nob_updated_at x, nob_claim_owner := nob_claim_owner x,
       nob_lease_expires_at := nob_lease_expires_at x,
       nob_next_attempt_at := nob_next_attempt_at x\<rparr>"

definition outbox_complete :: "NotificationOutbox \<Rightarrow> str \<Rightarrow> store \<Rightarrow> bool \<times> store" where
  [repo_defs]: "outbox_complete x owner s =
     (let p = (\<lambda>n. nob_id n = nob_id x \<and> nob_claim_owner n = Some owner)
      in (cnt p (st_outbox s) = 1, s\<lparr>st_outbox := upd p (copy_outbox x) (st_outbox s)\<rparr>))"

definition outbox_list_for_user :: "uuid \<Rightarrow> nat \<Rightarrow> store \<Rightarrow> NotificationOutbox list" where
  [repo_defs]: "outbox_list_for_user user_id limit s =
     take limit (sort_key (\<lambda>n. (- nob_created_at n, - uint (nob_id n)))
       (sel (\<lambda>n. nob_user_id n = user_id) (st_outbox s)))"

section \<open>Occurrences\<close>

definition occurrence_slot :: "AutomationOccurrence \<Rightarrow> uuid \<times> int \<times> time" where
  "occurrence_slot x = (occ_automation_id x, occ_definition_revision x, occ_scheduled_for x)"

definition occurrences_add ::
  "AutomationOccurrence \<Rightarrow> store \<Rightarrow> py_error + (bool \<times> store)" where
  [repo_defs]: "occurrences_add x s =
     bindE (ins_or_skip (\<lambda>x y. occurrence_slot x = occurrence_slot y) (\<lambda>x y. occ_id x = occ_id y)
         x (st_occurrences s))
       (\<lambda>(added, rows). Inr (added, s\<lparr>st_occurrences := rows\<rparr>))"

definition occurrences_get :: "uuid \<Rightarrow> store \<Rightarrow> AutomationOccurrence option" where
  [repo_defs]: "occurrences_get oid s = sel1 (\<lambda>x. occ_id x = oid) (st_occurrences s)"

definition copy_occurrence ::
  "AutomationOccurrence \<Rightarrow> AutomationOccurrence \<Rightarrow> AutomationOccurrence" where
  "copy_occurrence x y =
     y\<lparr>occ_status := occ_status x, occ_durable_job_id := occ_durable_job_id x,
       occ_settled_at := occ_settled_at x\<rparr>"

definition occurrences_update :: "AutomationOccurrence \<Rightarrow> store \<Rightarrow> store" where
  [repo_defs]: "occurrences_update x s =
     s\<lparr>st_occurrences := upd (\<lambda>y. occ_id y = occ_id x) (copy_occurrence x) (st_occurrences s)\<rparr>"

text \<open>The returned rows are those of the updated occurrences, in the order of the table.\<close>

definition exhausted :: "db \<Rightarrow> AutomationOccurrence \<Rightarrow> bool" where
  "exhausted c x \<longleftrightarrow> occ_status x = OccurrenceStatus.MATERIALIZED \<and>
     (\<exists>j \<in> set (db_jobs c). job_kind j = DurableJobKind.AUTOMATION_OCCURRENCE \<and>
        job_status j = DurableJobStatus.FAILED \<and> occ_durable_job_id x = Some (job_id j))"

definition occurrences_fail_exhausted :: "time \<Rightarrow> store \<Rightarrow> (uuid \<times> uuid \<times> int) list \<times> store" where
  [repo_defs]: "occurrences_fail_exhausted now s =
     (map (\<lambda>x. (occ_user_id x, occ_automation_id x, occ_definition_revision x))
        (sel (exhausted (core s)) (st_occurrences s)),
      s\<lparr>st_occurrences := upd (exhausted (core s))
        (\<lambda>x. x\<lparr>occ_status := OccurrenceStatus.FAILED, occ_settled_at := Some now\<rparr>)
        (st_occurrences s)\<rparr>)"

section \<open>Intents and deliveries\<close>

definition intents_add :: "NotificationIntent \<Rightarrow> store \<Rightarrow> py_error + (bool \<times> store)" where
  [repo_defs]: "intents_add n s =
     bindE (ins_or_skip (\<lambda>x y. nti_dedupe_key x = nti_dedupe_key y) (\<lambda>x y. nti_id x = nti_id y)
         n (st_intents s))
       (\<lambda>(added, rows). Inr (added, s\<lparr>st_intents := rows\<rparr>))"

definition intents_get_by_dedupe_key :: "str \<Rightarrow> store \<Rightarrow> NotificationIntent option" where
  [repo_defs]: "intents_get_by_dedupe_key key s = sel1 (\<lambda>n. nti_dedupe_key n = key) (st_intents s)"

definition intents_get :: "uuid \<Rightarrow> store \<Rightarrow> NotificationIntent option" where
  [repo_defs]: "intents_get iid s = sel1 (\<lambda>n. nti_id n = iid) (st_intents s)"

definition deliveries_add :: "NotificationDelivery \<Rightarrow> store \<Rightarrow> py_error + (bool \<times> store)" where
  [repo_defs]: "deliveries_add d s =
     bindE (ins_or_skip
         (\<lambda>x y. ntd_intent_id x = ntd_intent_id y \<and> ntd_endpoint_id x = ntd_endpoint_id y)
         (\<lambda>x y. ntd_id x = ntd_id y) d (st_deliveries s))
       (\<lambda>(added, rows). Inr (added, s\<lparr>st_deliveries := rows\<rparr>))"

definition deliveries_get :: "uuid \<Rightarrow> store \<Rightarrow> NotificationDelivery option" where
  [repo_defs]: "deliveries_get did s = sel1 (\<lambda>d. ntd_id d = did) (st_deliveries s)"

definition copy_delivery ::
  "NotificationDelivery \<Rightarrow> NotificationDelivery \<Rightarrow> NotificationDelivery" where
  "copy_delivery x d =
     d\<lparr>ntd_status := ntd_status x, ntd_attempt_count := ntd_attempt_count x,
       ntd_provider_message_id := ntd_provider_message_id x, ntd_error_code := ntd_error_code x,
       ntd_updated_at := ntd_updated_at x\<rparr>"

definition deliveries_update :: "NotificationDelivery \<Rightarrow> store \<Rightarrow> bool \<times> store" where
  [repo_defs]: "deliveries_update x s =
     (let p = (\<lambda>d. ntd_id d = ntd_id x)
      in (cnt p (st_deliveries s) = 1,
          s\<lparr>st_deliveries := upd p (copy_delivery x) (st_deliveries s)\<rparr>))"

section \<open>Push endpoints\<close>

text \<open>The query has no order; the model lists the rows in the order of the table.\<close>

definition endpoints_list_eligible :: "uuid \<Rightarrow> store \<Rightarrow> PushEndpoint list" where
  [repo_defs]: "endpoints_list_eligible user_id s =
     sel (\<lambda>p. pep_user_id p = user_id \<and> pep_active p \<and> pep_notifications_enabled p
        \<and> pep_invalidated_at p = None) (st_endpoints s)"

definition endpoints_get :: "uuid \<Rightarrow> store \<Rightarrow> PushEndpoint option" where
  [repo_defs]: "endpoints_get pid s = sel1 (\<lambda>p. pep_id p = pid) (st_endpoints s)"

definition same_device :: "PushEndpoint \<Rightarrow> PushEndpoint \<Rightarrow> bool" where
  "same_device x p \<longleftrightarrow> pep_user_id x = pep_user_id p \<and> pep_device_id x = pep_device_id p"

text \<open>\<open>ON CONFLICT (user_id, device_id) DO UPDATE\<close>: the row of the device keeps its identifier.\<close>

definition endpoints_upsert :: "PushEndpoint \<Rightarrow> store \<Rightarrow> py_error + store" where
  [repo_defs]: "endpoints_upsert p s =
     (if \<exists>x \<in> set (st_endpoints s). same_device x p
      then Inr (s\<lparr>st_endpoints := upd (\<lambda>x. same_device x p) (\<lambda>x.
          x\<lparr>pep_push_token := pep_push_token p, pep_provider := pep_provider p,
            pep_active := pep_active p, pep_notifications_enabled := pep_notifications_enabled p,
            pep_last_registered_at := pep_last_registered_at p,
            pep_invalidated_at := pep_invalidated_at p, pep_updated_at := pep_updated_at p\<rparr>)
          (st_endpoints s)\<rparr>)
      else bindE (ins (\<lambda>x y. pep_id x = pep_id y) p (st_endpoints s))
        (\<lambda>rows. Inr (s\<lparr>st_endpoints := rows\<rparr>)))"

definition invalidate :: "time \<Rightarrow> PushEndpoint \<Rightarrow> PushEndpoint" where
  "invalidate now p = p\<lparr>pep_active := False, pep_notifications_enabled := False,
     pep_invalidated_at := Some now, pep_updated_at := now\<rparr>"

definition endpoints_invalidate_for_device :: "time \<Rightarrow> uuid \<Rightarrow> uuid \<Rightarrow> store \<Rightarrow> store" where
  [repo_defs]: "endpoints_invalidate_for_device now user_id device s =
     s\<lparr>st_endpoints := upd (\<lambda>p. pep_user_id p = user_id \<and> pep_device_id p = device)
        (invalidate now) (st_endpoints s)\<rparr>"

definition endpoints_invalidate_for_user :: "time \<Rightarrow> uuid \<Rightarrow> store \<Rightarrow> store" where
  [repo_defs]: "endpoints_invalidate_for_user now user_id s =
     s\<lparr>st_endpoints := upd (\<lambda>p. pep_user_id p = user_id) (invalidate now) (st_endpoints s)\<rparr>"

section \<open>Attention\<close>

definition hours :: "int \<Rightarrow> int" where
  "hours n = n * 3600 * SECOND_US"

definition ATTENTION_SURFACE_COOLDOWN :: int where
  "ATTENTION_SURFACE_COOLDOWN = hours 4"

definition feedback_for ::
  "uuid \<Rightarrow> AttentionSubjectType \<Rightarrow> uuid \<Rightarrow> store \<Rightarrow> AttentionFeedback option" where
  "feedback_for user_id ty sid s =
     sel1 (\<lambda>f. atf_user_id f = user_id \<and> atf_subject_type f = ty \<and> atf_subject_id f = sid)
       (st_feedback s)"

definition suppressed :: "time \<Rightarrow> AttentionFeedback option \<Rightarrow> bool" where
  "suppressed now item \<longleftrightarrow> (case item of None \<Rightarrow> False | Some f \<Rightarrow>
     atf_acknowledged_at f \<noteq> None
     \<or> (case atf_dismissed_until f of None \<Rightarrow> False | Some t \<Rightarrow> now < t)
     \<or> (case atf_last_surfaced_at f of None \<Rightarrow> False
        | Some t \<Rightarrow> now - t < ATTENTION_SURFACE_COOLDOWN))"

definition feedback_time :: "(AttentionFeedback \<Rightarrow> time option) \<Rightarrow> AttentionFeedback option \<Rightarrow> time option"
where
  "feedback_time f item = (case item of None \<Rightarrow> None | Some x \<Rightarrow> f x)"

text \<open>The dates are those of UTC, in which both instants are read.\<close>

definition deadline_candidate :: "time \<Rightarrow> AttentionFeedback option \<Rightarrow> Thing \<Rightarrow> AttentionCandidate" where
  "deadline_candidate now item t =
     (let due = the (thing_deadline_at t);
          (kind, severity) =
            (if due < now then (u ''overdue'', u ''high'')
             else if due div DAY_US = now div DAY_US then (u ''due_today'', u ''high'')
             else (u ''due_soon'', u ''medium'')) in
      \<lparr>atc_subject_type = AttentionSubjectType.DEADLINE, atc_subject_id = thing_id t,
       atc_thing_id = thing_id t, atc_candidate_type = kind, atc_severity = severity,
       atc_summary = thing_name t @ [0xFF1A] @ kind, atc_due_at = Some due,
       atc_last_surfaced_at = feedback_time atf_last_surfaced_at item,
       atc_next_eligible_at = feedback_time atf_dismissed_until item,
       atc_acknowledged = (feedback_time atf_acknowledged_at item \<noteq> None)\<rparr>)"

definition blocker_candidate :: "time \<Rightarrow> AttentionFeedback option \<Rightarrow> Blocker \<Rightarrow> AttentionCandidate" where
  "blocker_candidate now item b =
     (let too_long = blk_blocked_since b \<le> now - hours 24 in
      \<lparr>atc_subject_type = AttentionSubjectType.BLOCKER, atc_subject_id = blk_id b,
       atc_thing_id = blk_thing_id b,
       atc_candidate_type = (if too_long then u ''blocked_too_long'' else u ''blocked''),
       atc_severity = (if too_long then u ''high'' else u ''medium''),
       atc_summary = blk_description b, atc_due_at = None,
       atc_last_surfaced_at = feedback_time atf_last_surfaced_at item,
       atc_next_eligible_at = feedback_time atf_dismissed_until item,
       atc_acknowledged = (feedback_time atf_acknowledged_at item \<noteq> None)\<rparr>)"

text \<open>\<open>-datetime.timestamp()\<close>, a double, is the second key of the order.\<close>

definition attention_order ::
  "time \<Rightarrow> AttentionCandidate \<times> time \<Rightarrow> nat \<times> rat \<times> time \<times> str" where
  "attention_order now = (\<lambda>(c, fresh).
     (if atc_severity c = u ''high'' then 0 else 1, - total_seconds fresh,
      case atc_due_at c of None \<Rightarrow> now | Some t \<Rightarrow> t, uuid_str (atc_subject_id c)))"

definition attention_get_candidates ::
  "uuid \<Rightarrow> time \<Rightarrow> int \<Rightarrow> nat \<Rightarrow> store \<Rightarrow> AttentionCandidate list" where
  [repo_defs]: "attention_get_candidates user_id now due_soon_hours limit s =
     (let things = sel (\<lambda>t. thing_user_id t = user_id
            \<and> (case thing_deadline_at t of None \<Rightarrow> False | Some d \<Rightarrow> d \<le> now + hours due_soon_hours)
            \<and> thing_status t \<notin> {ThingStatus.COMPLETED, ThingStatus.CANCELLED}) (st_things s);
          deadline_item = (\<lambda>t. feedback_for user_id AttentionSubjectType.DEADLINE (thing_id t) s);
          blockers = sel (\<lambda>b. owned user_id s (blk_thing_id b) \<and> blk_status b = BlockerStatus.OPEN)
            (st_blockers s);
          blocker_item = (\<lambda>b. feedback_for user_id AttentionSubjectType.BLOCKER (blk_id b) s) in
      take limit (map fst (sort_key (attention_order now)
        (map (\<lambda>t. (deadline_candidate now (deadline_item t) t, thing_updated_at t))
           (filter (\<lambda>t. \<not> suppressed now (deadline_item t)) things)
         @ map (\<lambda>b. (blocker_candidate now (blocker_item b) b, blk_updated_at b))
           (filter (\<lambda>b. \<not> suppressed now (blocker_item b)) blockers)))))"

text \<open>\<open>INSERT \<dots> ON CONFLICT (user, subject) DO UPDATE\<close>: only the columns of the action change.\<close>

definition feedback_values ::
  "AttentionFeedbackAction \<Rightarrow> time \<Rightarrow> time option \<Rightarrow> AttentionFeedback \<Rightarrow> AttentionFeedback" where
  "feedback_values action now dismissed_until f =
     (let f' = f\<lparr>atf_updated_at := now\<rparr> in
      case action of
        AttentionFeedbackAction.SURFACED \<Rightarrow>
          f'\<lparr>atf_last_surfaced_at := Some now, atf_surface_count := atf_surface_count f + 1\<rparr>
      | AttentionFeedbackAction.ACKNOWLEDGED \<Rightarrow> f'\<lparr>atf_acknowledged_at := Some now\<rparr>
      | AttentionFeedbackAction.DISMISSED \<Rightarrow> f'\<lparr>atf_dismissed_until := dismissed_until\<rparr>)"

definition attention_record_feedback ::
  "uuid \<Rightarrow> AttentionSubjectType \<Rightarrow> uuid \<Rightarrow> AttentionFeedbackAction \<Rightarrow> time \<Rightarrow> time option \<Rightarrow> store \<Rightarrow> store"
where
  [repo_defs]: "attention_record_feedback user_id ty sid action now dismissed_until s =
     (let p = (\<lambda>f. atf_user_id f = user_id \<and> atf_subject_type f = ty \<and> atf_subject_id f = sid);
          blank = \<lparr>atf_user_id = user_id, atf_subject_type = ty, atf_subject_id = sid,
            atf_last_surfaced_at = None, atf_surface_count = 0, atf_acknowledged_at = None,
            atf_dismissed_until = None, atf_updated_at = now\<rparr> in
      s\<lparr>st_feedback :=
        (if \<exists>f \<in> set (st_feedback s). p f
         then upd p (feedback_values action now dismissed_until) (st_feedback s)
         else st_feedback s @ [feedback_values action now dismissed_until blank])\<rparr>)"

end
