(* ===== verification/AutomationOps.thy ===== *)
theory AutomationOps
  imports AutomationStore StateOps
begin

text \<open>
  The mutations of the automations, \<open>application/automations/write_ops.py\<close>, the materialization of
  due automations, \<open>materialize.py\<close>, and the notifications of an occurrence,
  \<open>notification_pipeline.py\<close>. \<open>e\<close> supplies clock readings and identifiers as in \<open>StateOps\<close>;
  \<open>later e n\<close> is the environment from its \<open>n\<close>-th reading and identifier on.
\<close>

definition later :: "env \<Rightarrow> nat \<Rightarrow> env" where
  "later e n = \<lparr>clk = (\<lambda>i. clk e (n + i)), uid4 = (\<lambda>i. uid4 e (n + i))\<rparr>"

lemma later_simps [simp]: "clk (later e n) i = clk e (n + i)" "uid4 (later e n) i = uid4 e (n + i)"
  by (simp_all add: later_def)

primrec automation_status_value :: "AutomationStatus \<Rightarrow> str" where
  "automation_status_value AutomationStatus.ACTIVE = u ''ACTIVE''"
| "automation_status_value AutomationStatus.PAUSED = u ''PAUSED''"
| "automation_status_value AutomationStatus.COMPLETED = u ''COMPLETED''"
| "automation_status_value AutomationStatus.CANCELLED = u ''CANCELLED''"

section \<open>Creating and changing automations\<close>

text \<open>The outcomes name the automation; they carry no mutation record.\<close>

definition automation_outcome :: "str \<Rightarrow> str \<Rightarrow> bool \<Rightarrow> Automation \<Rightarrow> WriteOutcome" where
  "automation_outcome code message replayed a =
     \<lparr>wo_code = code, wo_message = message,
      wo_data = [u ''id'' \<mapsto> juuid (aut_id a),
        u ''status'' \<mapsto> JStr (automation_status_value (aut_status a)),
        u ''version'' \<mapsto> JInt (aut_version a), u ''replayed'' \<mapsto> JBool replayed],
      wo_mutation_refs = [], wo_mutation_id = None, wo_replayed = replayed\<rparr>"

definition new_automation ::
  "uuid \<Rightarrow> time \<Rightarrow> time \<Rightarrow> uuid \<Rightarrow> AutomationType \<Rightarrow> str \<Rightarrow> str \<Rightarrow> str \<Rightarrow> str \<Rightarrow> uuid option \<Rightarrow>
    uuid option \<Rightarrow> uuid option \<Rightarrow> int option \<Rightarrow> Automation" where
  "new_automation aid created updated user_id ty title message timezone_name key thing task source
       interval =
     \<lparr>aut_user_id = user_id, aut_automation_type = ty, aut_title = title, aut_message = message,
      aut_timezone_name = timezone_name, aut_next_trigger_at = None, aut_idempotency_key = key,
      aut_id = aid, aut_thing_id = thing, aut_task_id = task, aut_source_id = source,
      aut_recurrence_interval_seconds = interval, aut_definition_revision = 1,
      aut_misfire_policy = MisfirePolicy.FIRE_ONCE,
      aut_status = (if ty \<in> {AutomationType.CONDITION_WATCH, AutomationType.CONDITION}
        then AutomationStatus.PAUSED else AutomationStatus.ACTIVE),
      aut_last_triggered_at = None, aut_version = 1, aut_created_at = created,
      aut_updated_at = updated\<rparr>"

definition apply_create_automation ::
  "env \<Rightarrow> uuid \<Rightarrow> AutomationType \<Rightarrow> str \<Rightarrow> str \<Rightarrow> str \<Rightarrow> pydatetime \<Rightarrow> str \<Rightarrow> uuid option \<Rightarrow>
    uuid option \<Rightarrow> uuid option \<Rightarrow> int option \<Rightarrow> store \<Rightarrow> WriteOutcome op" where
  "apply_create_automation e user_id ty title message timezone_name next_trigger_at key thing_ref
       task_ref source interval s =
     (if strip title = [] \<or> strip message = [] \<or> strip timezone_name = []
      then Inl (ValueError (u ''Automation title, message and timezone must not be empty.''))
      else
        bindE (automations_get_by_idempotency user_id key s) (\<lambda>previous.
        case previous of
          Some a \<Rightarrow> Inr (automation_outcome (u ''AUTOMATION_CREATED'') (u ''Automation created.'')
            True a, s)
        | None \<Rightarrow>
            let s1 = users_ensure (clk e 0) user_id s in
            if (case thing_ref of None \<Rightarrow> False | Some x \<Rightarrow> things_get user_id x (core s1) = None)
            then Inl (EntityNotFound (u ''Thing was not found.''))
            else if (case task_ref of None \<Rightarrow> False | Some x \<Rightarrow>
                (case tasks_get user_id x s1 of None \<Rightarrow> True
                 | Some task \<Rightarrow> thing_ref \<noteq> None \<and> task_thing_id task \<noteq> thing_ref))
            then Inl (EntityNotFound (u ''Task was not found in the selected Thing.''))
            else if (case source of None \<Rightarrow> False | Some x \<Rightarrow> sources_get user_id x (core s1) = None)
            then Inl (EntityNotFound (u ''Source was not found.''))
            else
              bindE (automation_post_init (Some next_trigger_at)
                  (new_automation (uid4 e 0) (clk e 0) (clk e 1) user_id ty (strip title)
                    (strip message) (strip timezone_name) key thing_ref task_ref source interval))
                (\<lambda>automation.
              bindE (automations_add automation s1) (\<lambda>s2.
              Inr (automation_outcome (u ''AUTOMATION_CREATED'') (u ''Automation created.'') False
                automation, s2)))))"

text \<open>The transition an action names; \<open>ACTION\<close>s outside the three are refused.\<close>

definition automation_transition :: "time \<Rightarrow> str \<Rightarrow> Automation \<Rightarrow> py_error + Automation" where
  "automation_transition now action a =
     (if action = u ''PAUSE'' then automation_pause now a
      else if action = u ''RESUME'' then
        (if aut_automation_type a \<in> {AutomationType.CONDITION_WATCH, AutomationType.CONDITION}
         then Inl (ValueError (u ''Condition watch execution requires the Agent phase.''))
         else automation_resume now a)
      else if action = u ''CANCEL'' then Inr (automation_cancel now a)
      else Inl (ValueError (u ''Unsupported Automation action.'')))"

definition change_code :: "str \<Rightarrow> str" where
  "change_code action =
     (if action = u ''CANCEL'' then u ''AUTOMATION_CANCELLED'' else u ''AUTOMATION_CHANGED'')"

definition apply_change_automation_status ::
  "env \<Rightarrow> uuid \<Rightarrow> uuid \<Rightarrow> str \<Rightarrow> int \<Rightarrow> str \<Rightarrow> store \<Rightarrow> WriteOutcome op" where
  "apply_change_automation_status e user_id aid action expected_version key s =
     (case automations_get_operation user_id key s of
        Some (recorded_id, _) \<Rightarrow>
          bindE (automations_get user_id recorded_id s) (\<lambda>found.
          case found of
            None \<Rightarrow> Inl (RuntimeError (u ''Automation operation points to missing data.''))
          | Some a \<Rightarrow> Inr (automation_outcome (change_code action)
              (u ''Automation status changed.'') True a, s))
      | None \<Rightarrow>
          bindE (automations_get user_id aid s) (\<lambda>found.
          case found of
            None \<Rightarrow> Inl (EntityNotFound (u ''Automation was not found.''))
          | Some a \<Rightarrow>
              if aut_version a \<noteq> expected_version
              then Inl (VersionConflict (u ''Automation version is stale.''))
              else
                bindE (automation_transition (clk e 0) action a) (\<lambda>a'.
                (case automations_update a' expected_version s of
                   (won, s1) \<Rightarrow>
                     if \<not> won
                     then Inl (VersionConflict (u ''Automation was updated concurrently.''))
                     else
                       bindE (automations_record_operation user_id (aut_id a') key (aut_version a')
                           s1) (\<lambda>s2.
                       Inr (automation_outcome (change_code action)
                         (u ''Automation status changed.'') False a', s2))))))"

section \<open>Materialization\<close>

definition MISFIRE_HORIZON :: int where
  "MISFIRE_HORIZON = hours 24"

definition occurrence_dedupe_key :: "uuid \<Rightarrow> str" where
  "occurrence_dedupe_key oid = u ''AUTOMATION_OCCURRENCE:'' @ uuid_str oid"

definition scheduled_slot_key :: "uuid \<Rightarrow> int \<Rightarrow> time \<Rightarrow> str" where
  "scheduled_slot_key aid revision scheduled_for =
     uuid_str aid @ u '':'' @ int_str revision @ u '':'' @ isoformat (Aware scheduled_for)"

definition new_occurrence ::
  "uuid \<Rightarrow> time \<Rightarrow> time \<Rightarrow> Automation \<Rightarrow> time \<Rightarrow> AutomationOccurrence" where
  "new_occurrence oid materialized created a scheduled_for =
     \<lparr>occ_user_id = aut_user_id a, occ_automation_id = aut_id a,
      occ_definition_revision = aut_definition_revision a, occ_scheduled_for = scheduled_for,
      occ_id = oid, occ_status = OccurrenceStatus.MATERIALIZED, occ_durable_job_id = None,
      occ_materialized_at = materialized, occ_settled_at = None, occ_created_at = created\<rparr>"

definition save_automation :: "str \<Rightarrow> Automation \<Rightarrow> int \<Rightarrow> store \<Rightarrow> py_error + store" where
  "save_automation err a expected_version s =
     (case automations_update a expected_version s of
        (won, s1) \<Rightarrow> if won then Inr s1 else Inl (VersionConflict err))"

definition add_job :: "DurableJob \<Rightarrow> store \<Rightarrow> py_error + store" where
  "add_job j s = bindE (jobs_add j (core s)) (\<lambda>c. Inr (s\<lparr>core := c\<rparr>))"

text \<open>
  The three branches of \<open>materialize_due_automation\<close>: the task of the automation is over and the
  automation is cancelled; a missed trigger is skipped; an occurrence and its job are created. The
  last two return nothing when the slot was taken before.
\<close>

definition task_over :: "Automation \<Rightarrow> store \<Rightarrow> bool" where
  "task_over a s \<longleftrightarrow> (case aut_task_id a of None \<Rightarrow> False | Some tid \<Rightarrow>
     (case tasks_get (aut_user_id a) tid s of None \<Rightarrow> True
      | Some t \<Rightarrow> task_status t \<in> {TaskStatus.DONE, TaskStatus.CANCELLED}))"

definition claimed_concurrently :: str where
  "claimed_concurrently = u ''Automation was claimed concurrently.''"

definition skip_occurrence ::
  "env \<Rightarrow> Automation \<Rightarrow> time \<Rightarrow> time \<Rightarrow> store \<Rightarrow> AutomationOccurrence option op" where
  "skip_occurrence e a scheduled_for occurred_at s =
     (let x = (new_occurrence (uid4 e 0) (clk e 0) (clk e 1) a scheduled_for)
            \<lparr>occ_status := OccurrenceStatus.SKIPPED, occ_settled_at := Some occurred_at\<rparr> in
      bindE (occurrences_add x s) (\<lambda>(created, s1).
      if \<not> created then Inr (None, s1)
      else
        bindE (automation_mark_triggered occurred_at a) (\<lambda>a1.
        bindE (save_automation claimed_concurrently (automation_complete_one_shot (clk e 2) a1)
            (aut_version a) s1) (\<lambda>s2. Inr (Some x, s2)))))"

definition occurrence_job ::
  "uuid \<Rightarrow> time \<Rightarrow> time \<Rightarrow> Automation \<Rightarrow> uuid \<Rightarrow> time \<Rightarrow> time \<Rightarrow> py_error + DurableJob" where
  "occurrence_job jid created updated a oid scheduled_for occurred_at =
     DurableJob_init (aut_user_id a) DurableJobKind.AUTOMATION_OCCURRENCE (occurrence_dedupe_key oid)
       [u ''occurrence_id'' \<mapsto> juuid oid, u ''automation_id'' \<mapsto> juuid (aut_id a),
        u ''scheduled_for'' \<mapsto> jtime scheduled_for]
       jid (Aware occurred_at) 5 created updated"

definition fire_occurrence ::
  "env \<Rightarrow> Automation \<Rightarrow> time \<Rightarrow> time \<Rightarrow> store \<Rightarrow> AutomationOccurrence option op" where
  "fire_occurrence e a scheduled_for occurred_at s =
     (let x = new_occurrence (uid4 e 0) (clk e 0) (clk e 1) a scheduled_for in
      bindE (occurrences_add x s) (\<lambda>(created, s1).
      if \<not> created then Inr (None, s1)
      else
        bindE (occurrence_job (uid4 e 1) (clk e 2) (clk e 3) a (occ_id x) scheduled_for occurred_at)
          (\<lambda>job.
        bindE (add_job job s1) (\<lambda>s2.
        let x' = x\<lparr>occ_durable_job_id := Some (job_id job)\<rparr>;
            s3 = occurrences_update x' s2 in
        bindE (automation_mark_triggered occurred_at a) (\<lambda>a1.
        bindE (save_automation claimed_concurrently a1 (aut_version a) s3)
          (\<lambda>s4. Inr (Some x', s4)))))))"

definition materialize_due_automation ::
  "env \<Rightarrow> Automation \<Rightarrow> time \<Rightarrow> store \<Rightarrow> AutomationOccurrence option op" where
  "materialize_due_automation e a occurred_at s =
     (if task_over a s
      then bindE (save_automation claimed_concurrently (automation_cancel (clk e 0) a) (aut_version a)
        s) (\<lambda>s1. Inr (None, s1))
      else
        (case aut_next_trigger_at a of
           None \<Rightarrow> Inl (ValueError
             (u ''An Automation without a scheduled trigger cannot be materialized.''))
         | Some scheduled_for \<Rightarrow>
             if aut_misfire_policy a = MisfirePolicy.SKIP
                \<and> MISFIRE_HORIZON < occurred_at - scheduled_for
             then skip_occurrence e a scheduled_for occurred_at s
             else fire_occurrence e a scheduled_for occurred_at s))"

section \<open>Notifications\<close>

definition push_delivery_dedupe_key :: "uuid \<Rightarrow> str" where
  "push_delivery_dedupe_key did = u ''PUSH_DELIVERY:'' @ uuid_str did"

definition new_intent ::
  "uuid \<Rightarrow> time \<Rightarrow> Automation \<Rightarrow> AutomationOccurrence \<Rightarrow> str \<Rightarrow> NotificationIntent" where
  "new_intent iid created a x key =
     \<lparr>nti_user_id = aut_user_id a, nti_kind = NotificationKind.REMINDER, nti_title = aut_title a,
      nti_body = aut_message a, nti_occurrence_id = occ_id x, nti_automation_id = aut_id a,
      nti_dedupe_key = key, nti_thing_id = aut_thing_id a, nti_id = iid,
      nti_created_at = created\<rparr>"

definition new_delivery ::
  "uuid \<Rightarrow> time \<Rightarrow> time \<Rightarrow> uuid \<Rightarrow> uuid \<Rightarrow> uuid \<Rightarrow> NotificationDelivery" where
  "new_delivery did created updated user_id iid endpoint =
     \<lparr>ntd_user_id = user_id, ntd_intent_id = iid, ntd_endpoint_id = endpoint, ntd_id = did,
      ntd_status = DeliveryStatus.READY, ntd_attempt_count = 0, ntd_provider_message_id = None,
      ntd_error_code = None, ntd_created_at = created, ntd_updated_at = updated\<rparr>"

definition delivery_job ::
  "uuid \<Rightarrow> time \<Rightarrow> time \<Rightarrow> time \<Rightarrow> uuid \<Rightarrow> uuid \<Rightarrow> uuid \<Rightarrow> uuid \<Rightarrow> py_error + DurableJob" where
  "delivery_job jid available created updated user_id did iid endpoint =
     DurableJob_init user_id DurableJobKind.PUSH_DELIVERY (push_delivery_dedupe_key did)
       [u ''delivery_id'' \<mapsto> juuid did, u ''intent_id'' \<mapsto> juuid iid,
        u ''endpoint_id'' \<mapsto> juuid endpoint]
       jid (Aware available) 5 created updated"

text \<open>The loop over the endpoints; each round takes five readings and two identifiers.\<close>

fun deliver_to :: "env \<Rightarrow> uuid \<Rightarrow> uuid \<Rightarrow> PushEndpoint list \<Rightarrow> store \<Rightarrow> py_error + store" where
  "deliver_to e user_id iid [] s = Inr s"
| "deliver_to e user_id iid (p # ps) s =
     bindE (deliveries_add (new_delivery (uid4 e 0) (clk e 0) (clk e 1) user_id iid (pep_id p)) s)
       (\<lambda>(added, s1).
     bindE (if \<not> added then Inr s1
            else bindE (delivery_job (uid4 e 1) (clk e 2) (clk e 3) (clk e 4) user_id (uid4 e 0) iid
              (pep_id p)) (\<lambda>job. add_job job s1)) (\<lambda>s2.
     deliver_to (later e 5) user_id iid ps s2))"

definition create_reminder_notification ::
  "env \<Rightarrow> Automation \<Rightarrow> AutomationOccurrence \<Rightarrow> store \<Rightarrow> NotificationIntent option op" where
  "create_reminder_notification e a x s =
     (let key = scheduled_slot_key (aut_id a) (occ_definition_revision x) (occ_scheduled_for x) in
      case intents_get_by_dedupe_key key s of
        Some existing \<Rightarrow> Inr (Some existing, s)
      | None \<Rightarrow>
          let intent = new_intent (uid4 e 0) (clk e 0) a x key in
          bindE (intents_add intent s) (\<lambda>(added, s1).
          if \<not> added then Inr (intents_get_by_dedupe_key key s1, s1)
          else
            bindE (deliver_to (later e 1) (aut_user_id a) (nti_id intent)
                (endpoints_list_eligible (aut_user_id a) s1) s1) (\<lambda>s2.
            Inr (Some intent, s2))))"

end
