(* ===== verification/AutomationService.thy ===== *)
theory AutomationService
  imports AutomationOps RuntimeService
begin

text \<open>
  The services of \<open>application/automations/service.py\<close> and \<open>occurrence_execution.py\<close> with their
  DTOs. An operation that is one unit of work is an \<open>op\<close>. \<open>execute_claimed\<close> and
  \<open>dispatch_pending\<close> start runs in units of work of their own: they return their result or
  exception, the store as all their commits leave it, and the external effects. The run trigger is
  optional; \<open>Some c\<close> is \<open>RuntimeAutomationRunTrigger\<close> on the runtime service configured by \<open>c\<close>.
\<close>

section \<open>DTOs\<close>

record AutomationDTO =
  ado_id :: uuid
  ado_automation_type :: AutomationType
  ado_title :: str
  ado_message :: str
  ado_timezone_name :: str
  ado_next_trigger_at :: "time option"
  ado_thing_id :: "uuid option"
  ado_task_id :: "uuid option"
  ado_source_id :: "uuid option"
  ado_recurrence_interval_seconds :: "int option"
  ado_status :: AutomationStatus
  ado_last_triggered_at :: "time option"
  ado_version :: int
  ado_created_at :: time
  ado_updated_at :: time
  ado_replayed :: bool

definition to_automation_dto :: "bool \<Rightarrow> Automation \<Rightarrow> AutomationDTO" where
  "to_automation_dto replayed a =
     \<lparr>ado_id = aut_id a, ado_automation_type = aut_automation_type a, ado_title = aut_title a,
      ado_message = aut_message a, ado_timezone_name = aut_timezone_name a,
      ado_next_trigger_at = aut_next_trigger_at a, ado_thing_id = aut_thing_id a,
      ado_task_id = aut_task_id a, ado_source_id = aut_source_id a,
      ado_recurrence_interval_seconds = aut_recurrence_interval_seconds a,
      ado_status = aut_status a, ado_last_triggered_at = aut_last_triggered_at a,
      ado_version = aut_version a, ado_created_at = aut_created_at a,
      ado_updated_at = aut_updated_at a, ado_replayed = replayed\<rparr>"

record NotificationDTO =
  ndo_id :: uuid
  ndo_automation_id :: uuid
  ndo_title :: str
  ndo_message :: str
  ndo_thing_id :: "uuid option"
  ndo_status :: NotificationStatus
  ndo_attempt_count :: int
  ndo_submitted_at :: "time option"
  ndo_error_code :: "str option"
  ndo_next_attempt_at :: "time option"
  ndo_created_at :: time

definition to_notification_dto :: "NotificationOutbox \<Rightarrow> NotificationDTO" where
  "to_notification_dto n =
     \<lparr>ndo_id = nob_id n, ndo_automation_id = nob_automation_id n, ndo_title = nob_title n,
      ndo_message = nob_message n, ndo_thing_id = nob_thing_id n, ndo_status = nob_status n,
      ndo_attempt_count = nob_attempt_count n, ndo_submitted_at = nob_submitted_at n,
      ndo_error_code = nob_error_code n, ndo_next_attempt_at = nob_next_attempt_at n,
      ndo_created_at = nob_created_at n\<rparr>"

text \<open>The DTO of a candidate has the fields of the candidate.\<close>

type_synonym AttentionCandidateDTO = AttentionCandidate

section \<open>Automations\<close>

text \<open>\<open>UUID(str(\<dots>))\<close> of a JSON value: only texts and digits can spell a UUID.\<close>

definition uuid_of_json :: "json \<Rightarrow> py_error + uuid" where
  "uuid_of_json v =
     ofopt (ValueError (u ''badly formed hexadecimal UUID string''))
       (case v of JStr x \<Rightarrow> uuid_parse x | JInt n \<Rightarrow> uuid_parse (int_str n) | _ \<Rightarrow> None)"

text \<open>After the commit the automation the outcome names is read back.\<close>

definition read_back :: "str \<Rightarrow> uuid \<Rightarrow> WriteOutcome op \<Rightarrow> AutomationDTO op" where
  "read_back err user_id m =
     bindE m (\<lambda>(out, s).
     bindE (ofopt (KeyError (u ''id'')) (wo_data out (u ''id''))) (\<lambda>v.
     bindE (uuid_of_json v) (\<lambda>aid.
     bindE (automations_get user_id aid s) (\<lambda>found.
     bindE (ofopt (RuntimeError err) found) (\<lambda>a.
     Inr (to_automation_dto (wo_replayed out) a, s))))))"

definition create_automation ::
  "env \<Rightarrow> uuid \<Rightarrow> AutomationType \<Rightarrow> str \<Rightarrow> str \<Rightarrow> str \<Rightarrow> pydatetime \<Rightarrow> str \<Rightarrow> uuid option \<Rightarrow>
    uuid option \<Rightarrow> uuid option \<Rightarrow> int option \<Rightarrow> store \<Rightarrow> AutomationDTO op" where
  "create_automation e user_id ty title message timezone_name next_trigger_at key thing_ref task_ref
       source interval s =
     (if strip title = [] \<or> strip message = [] \<or> strip timezone_name = []
      then Inl (ValueError (u ''Automation title, message and timezone must not be empty.''))
      else read_back (u ''Automation creation did not persist.'') user_id
        (apply_create_automation e user_id ty title message timezone_name next_trigger_at key
           thing_ref task_ref source interval s))"

definition get_automation :: "uuid \<Rightarrow> uuid \<Rightarrow> store \<Rightarrow> py_error + AutomationDTO" where
  "get_automation user_id aid s =
     bindE (automations_get user_id aid s) (\<lambda>found.
     bindE (ofopt (EntityNotFound (u ''Automation was not found.'')) found) (\<lambda>a.
     Inr (to_automation_dto False a)))"

definition list_automations :: "uuid \<Rightarrow> int \<Rightarrow> store \<Rightarrow> py_error + AutomationDTO list" where
  "list_automations user_id limit s =
     (if \<not> (1 \<le> limit \<and> limit \<le> 100)
      then Inl (ValueError (u ''Automation list limit must be between 1 and 100.''))
      else bindE (automations_list_for_user user_id (nat limit) s)
        (\<lambda>values. Inr (map (to_automation_dto False) values)))"

definition change_automation_status ::
  "env \<Rightarrow> uuid \<Rightarrow> uuid \<Rightarrow> str \<Rightarrow> int \<Rightarrow> str \<Rightarrow> store \<Rightarrow> AutomationDTO op" where
  "change_automation_status e user_id aid action expected_version key s =
     read_back (u ''Automation status change did not persist.'') user_id
       (apply_change_automation_status e user_id aid action expected_version key s)"

text \<open>
  \<open>process_due\<close>: all due automations in one unit of work. Each round of the loop has at most four
  readings and two identifiers.
\<close>

fun materialize_all :: "env \<Rightarrow> time \<Rightarrow> Automation list \<Rightarrow> store \<Rightarrow> nat op" where
  "materialize_all e occurred_at [] s = Inr (0, s)"
| "materialize_all e occurred_at (a # due) s =
     bindE (materialize_due_automation e a occurred_at s) (\<lambda>(x, s1).
     bindE (materialize_all (later e 4) occurred_at due s1) (\<lambda>(n, s2).
     Inr (if x = None then n else n + 1, s2)))"

definition process_due :: "env \<Rightarrow> time option \<Rightarrow> nat \<Rightarrow> store \<Rightarrow> nat op" where
  "process_due e now limit s =
     (let occurred_at = (case now of None \<Rightarrow> clk e 0 | Some t \<Rightarrow> t) in
      bindE (automations_list_due occurred_at limit s) (\<lambda>due.
      materialize_all (later e 1) occurred_at due s))"

definition list_notifications :: "uuid \<Rightarrow> nat \<Rightarrow> store \<Rightarrow> NotificationDTO list" where
  "list_notifications user_id limit s =
     map to_notification_dto (outbox_list_for_user user_id limit s)"

section \<open>The run trigger\<close>

type_synonym 'a work = "(py_error + 'a) \<times> store \<times> effect list"

definition trigger_run ::
  "service \<Rightarrow> env \<Rightarrow> uuid \<Rightarrow> uuid \<Rightarrow> uuid option \<Rightarrow> str \<Rightarrow> str \<Rightarrow> str \<Rightarrow> store \<Rightarrow> uuid work" where
  "trigger_run c e user_id aid thing_ref title message occurrence_key s =
     (case create_automation_run c e user_id aid thing_ref title message occurrence_key (core s) of
        Inl err \<Rightarrow> (Inl err, s, [])
      | Inr (run, c', fx) \<Rightarrow> (Inr (rdo_id run), s\<lparr>core := c'\<rparr>, fx))"

section \<open>Dispatch of the notification outbox\<close>

text \<open>
  One round claims a notification, triggers a run, submits the notification to the adapter and
  writes the outcome, the claim, the run and the outcome each in a unit of work of their own. The
  adapter is not part of the code: \<open>submit\<close> gives its answer, or says that it raised. Exceptions
  of the trigger are swallowed. \<open>2 ** n\<close> times a double is exact below the largest double.
\<close>

datatype adapter_answer = Raised | Accepted | Rejected

definition retry_delay :: "rat \<Rightarrow> rat \<Rightarrow> int \<Rightarrow> int" where
  "retry_delay base maximum exponent = timedelta_seconds (min (f64 (base * 2 powi exponent)) maximum)"

definition notification_outcome ::
  "(NotificationOutbox \<Rightarrow> adapter_answer) \<Rightarrow> bool \<Rightarrow> env \<Rightarrow> int \<Rightarrow> rat \<Rightarrow> rat \<Rightarrow> NotificationOutbox
    \<Rightarrow> NotificationOutbox" where
  "notification_outcome submit run_triggered e max_attempts base maximum n =
     (if submit n = Accepted \<or> run_triggered then outbox_submitted (clk e 1) n
      else
        let next_attempt = nob_attempt_count n + 1 in
        outbox_failed (clk e 2)
          (if submit n = Raised then u ''ADAPTER_EXCEPTION'' else u ''ADAPTER_REJECTED'')
          (if max_attempts \<le> next_attempt then None
           else Some (clk e 1 + retry_delay base maximum (max (next_attempt - 1) 0))) n)"

definition dispatch_round ::
  "service option \<Rightarrow> (NotificationOutbox \<Rightarrow> adapter_answer) \<Rightarrow> str \<Rightarrow> env \<Rightarrow> env \<Rightarrow> int \<Rightarrow> rat \<Rightarrow> rat
    \<Rightarrow> rat \<Rightarrow> store \<Rightarrow> bool option \<times> store \<times> effect list" where
  "dispatch_round trigger submit owner e et max_attempts lease base maximum s =
     (case outbox_claim_next owner (clk e 0) (clk e 0 + timedelta_seconds lease) max_attempts s of
        (None, _) \<Rightarrow> (None, s, [])
      | (Some n, s1) \<Rightarrow>
          (case (case trigger of None \<Rightarrow> (False, s1, [])
                 | Some c \<Rightarrow>
                     (case trigger_run c et (nob_user_id n) (nob_automation_id n) (nob_thing_id n)
                        (nob_title n) (nob_message n) (nob_occurrence_key n) s1 of
                        (r, s2, fx) \<Rightarrow> (\<not> isl r, s2, fx))) of
             (run_triggered, s2, fx) \<Rightarrow>
               (case outbox_complete
                  (notification_outcome submit run_triggered e max_attempts base maximum n) owner s2 of
                  (completed, s3) \<Rightarrow>
                    if completed then (Some (submit n = Accepted \<or> run_triggered), s3, fx)
                    else (Some False, s2, fx))))"

fun dispatch_rounds ::
  "service option \<Rightarrow> (nat \<Rightarrow> NotificationOutbox \<Rightarrow> adapter_answer) \<Rightarrow> str \<Rightarrow> (nat \<Rightarrow> env) \<Rightarrow>
    (nat \<Rightarrow> env) \<Rightarrow> nat \<Rightarrow> int \<Rightarrow> rat \<Rightarrow> rat \<Rightarrow> rat \<Rightarrow> store \<Rightarrow> nat \<times> store \<times> effect list" where
  "dispatch_rounds trigger submit owner es ets 0 max_attempts lease base maximum s = (0, s, [])"
| "dispatch_rounds trigger submit owner es ets (Suc k) max_attempts lease base maximum s =
     (case dispatch_round trigger (submit k) owner (es k) (ets k) max_attempts lease base maximum s of
        (None, s1, fx) \<Rightarrow> (0, s1, fx)
      | (Some submitted, s1, fx) \<Rightarrow>
          (case dispatch_rounds trigger submit owner es ets k max_attempts lease base maximum s1 of
             (n, s2, fx2) \<Rightarrow> (if submitted then n + 1 else n, s2, fx @ fx2)))"

text \<open>The defaults: 3 attempts, a lease of 60 seconds, delays from 30 to 900 seconds.\<close>

definition dispatch_pending ::
  "service option \<Rightarrow> (nat \<Rightarrow> NotificationOutbox \<Rightarrow> adapter_answer) \<Rightarrow> str \<Rightarrow> (nat \<Rightarrow> env) \<Rightarrow>
    (nat \<Rightarrow> env) \<Rightarrow> nat \<Rightarrow> store \<Rightarrow> nat \<times> store \<times> effect list" where
  "dispatch_pending trigger submit owner es ets limit s =
     dispatch_rounds trigger submit owner es ets limit 3 60 30 900 s"

section \<open>Execution of occurrences\<close>

datatype OccurrenceExecutionResult = COMPLETED | RETRY_SCHEDULED | FAILED | LOST_CLAIM

text \<open>\<open>UUID(str(job.payload[name]))\<close>.\<close>

definition job_uuid :: "str \<Rightarrow> DurableJob \<Rightarrow> py_error + uuid" where
  "job_uuid name j = bindE (ofopt (KeyError name) (job_payload j name)) uuid_of_json"

definition owns_claim :: "time \<Rightarrow> DurableJob option \<Rightarrow> DurableJob \<Rightarrow> str \<Rightarrow> bool" where
  "owns_claim now claimed j owner \<longleftrightarrow>
     (case claimed of None \<Rightarrow> False
      | Some x \<Rightarrow> job_id x = job_id j \<and> job_status x = DurableJobStatus.CLAIMED
          \<and> job_claimed_by x = Some owner \<and> job_claim_epoch x = job_claim_epoch j
          \<and> lease_live (job_lease_until x) now)"

definition settle_one_shot :: "time \<Rightarrow> Automation \<Rightarrow> store \<Rightarrow> py_error + store" where
  "settle_one_shot now a s =
     (let a' = automation_complete_one_shot now a in
      if aut_version a' \<noteq> aut_version a
      then save_automation (u ''Automation changed while settling an occurrence.'') a'
        (aut_version a) s
      else Inr s)"

text \<open>
  What a claimed occurrence does. The result is the status and the error code for the job and the
  store of the open unit of work, or an exception; beside it stands the store as the trigger has
  committed it, which remains when the unit of work is rolled back. \<open>e\<close> is the environment of the
  unit of work, \<open>et\<close> that of the trigger, \<open>er\<close> that of the reminder.
\<close>

type_synonym reaction =
  "(py_error + (DurableJobStatus \<times> str option \<times> store)) \<times> store \<times> effect list"

definition fire_reaction ::
  "service option \<Rightarrow> env \<Rightarrow> env \<Rightarrow> env \<Rightarrow> Automation \<Rightarrow> AutomationOccurrence \<Rightarrow> store \<Rightarrow> reaction" where
  "fire_reaction trigger e et er a x s =
     (let key = scheduled_slot_key (aut_id a) (occ_definition_revision x) (occ_scheduled_for x) in
      case (case trigger of None \<Rightarrow> (Inr None, s, [])
            | Some c \<Rightarrow>
                (case trigger_run c et (aut_user_id a) (aut_id a) (aut_thing_id a) (aut_title a)
                   (aut_message a) key s of
                   (r, s1, fx) \<Rightarrow> (map_sum id Some r, s1, fx))) of
        (Inl err, s1, fx) \<Rightarrow> (Inl err, s1, fx)
      | (Inr _, s1, fx) \<Rightarrow>
          (bindE (create_reminder_notification er a x s1) (\<lambda>(_, s2).
           let s3 = occurrences_update (occurrence_succeed (clk e 1) x) s2 in
           bindE (settle_one_shot (clk e 2) a s3)
             (\<lambda>s4. Inr (DurableJobStatus.COMPLETED, None, s4))), s1, fx))"

definition open_reaction ::
  "service option \<Rightarrow> env \<Rightarrow> env \<Rightarrow> env \<Rightarrow> uuid \<Rightarrow> AutomationOccurrence \<Rightarrow> uuid \<Rightarrow> store \<Rightarrow> reaction"
where
  "open_reaction trigger e et er user_id x aid s =
     (case automations_get user_id aid s of
        Inl err \<Rightarrow> (Inl err, s, [])
      | Inr None \<Rightarrow> (Inr (DurableJobStatus.FAILED, Some (u ''AUTOMATION_NOT_FOUND''),
          occurrences_update (occurrence_fail (clk e 1) x) s), s, [])
      | Inr (Some a) \<Rightarrow>
          if occ_definition_revision x \<noteq> aut_definition_revision a
             \<or> aut_status a = AutomationStatus.CANCELLED
          then (Inr (DurableJobStatus.COMPLETED, None,
            occurrences_update (occurrence_skip (clk e 1) x) s), s, [])
          else fire_reaction trigger e et er a x s)"

definition occurrence_reaction ::
  "service option \<Rightarrow> env \<Rightarrow> env \<Rightarrow> env \<Rightarrow> uuid \<Rightarrow> uuid \<Rightarrow> uuid \<Rightarrow> store \<Rightarrow> reaction" where
  "occurrence_reaction trigger e et er user_id oid aid s =
     (case occurrences_get oid s of
        None \<Rightarrow> (Inr (DurableJobStatus.FAILED, Some (u ''OCCURRENCE_NOT_FOUND''), s), s, [])
      | Some x \<Rightarrow>
          if occ_automation_id x \<noteq> aid
          then (Inr (DurableJobStatus.FAILED, Some (u ''OCCURRENCE_NOT_FOUND''), s), s, [])
          else if occ_status x = OccurrenceStatus.SUCCEEDED then
            (case intents_get_by_dedupe_key
               (scheduled_slot_key aid (occ_definition_revision x) (occ_scheduled_for x)) s of
               Some _ \<Rightarrow> (Inr (DurableJobStatus.COMPLETED, None, s), s, [])
             | None \<Rightarrow>
                 (Inr (DurableJobStatus.FAILED, Some (u ''OCCURRENCE_INTENT_MISSING''), s), s, []))
          else if occ_status x \<in> {OccurrenceStatus.CANCELLED, OccurrenceStatus.SKIPPED}
          then (Inr (DurableJobStatus.COMPLETED, None, s), s, [])
          else if occ_status x = OccurrenceStatus.FAILED
          then (Inr (DurableJobStatus.FAILED, Some (u ''OCCURRENCE_ALREADY_FAILED''), s), s, [])
          else open_reaction trigger e et er user_id x aid s)"

definition execute_claimed ::
  "service option \<Rightarrow> env \<Rightarrow> env \<Rightarrow> env \<Rightarrow> DurableJob \<Rightarrow> str \<Rightarrow> store \<Rightarrow>
    OccurrenceExecutionResult work" where
  "execute_claimed trigger e et er j owner s =
     (case bindE (job_uuid (u ''occurrence_id'') j) (\<lambda>oid.
           bindE (job_uuid (u ''automation_id'') j) (\<lambda>aid. Inr (oid, aid))) of
        Inl err \<Rightarrow> (Inl err, s, [])
      | Inr (oid, aid) \<Rightarrow>
          if \<not> owns_claim (clk e 0)
              (jobs_get_by_dedupe_key (job_user_id j) (job_dedupe_key j) (core s)) j owner
          then (Inr LOST_CLAIM, s, [])
          else
            (case occurrence_reaction trigger e et er (job_user_id j) oid aid s of
               (Inl err, s1, fx) \<Rightarrow> (Inl err, s1, fx)
             | (Inr (status, code, s2), s1, fx) \<Rightarrow>
                 (case jobs_settle (job_id j) owner (job_claim_epoch j) status (clk e 3) code
                    (core s2) of
                    (settled, c) \<Rightarrow>
                      if \<not> settled then (Inr LOST_CLAIM, s1, fx)
                      else (Inr (if status = DurableJobStatus.COMPLETED then COMPLETED else FAILED),
                        s2\<lparr>core := c\<rparr>, fx))))"

text \<open>The failure of an execution: a retry with a delay, or the end of the occurrence.\<close>

definition give_up :: "env \<Rightarrow> uuid \<Rightarrow> uuid \<Rightarrow> store \<Rightarrow> py_error + store" where
  "give_up e user_id oid s =
     (case occurrences_get oid s of
        None \<Rightarrow> Inr s
      | Some x \<Rightarrow>
          if occ_status x \<noteq> OccurrenceStatus.MATERIALIZED then Inr s
          else
            let s1 = occurrences_update (occurrence_fail (clk e 2) x) s in
            bindE (automations_get user_id (occ_automation_id x) s1) (\<lambda>found.
            case found of
              None \<Rightarrow> Inr s1
            | Some a \<Rightarrow>
                if aut_definition_revision a = occ_definition_revision x
                then settle_one_shot (clk e 3) a s1 else Inr s1))"

definition record_failure ::
  "rat \<Rightarrow> rat \<Rightarrow> env \<Rightarrow> DurableJob \<Rightarrow> str \<Rightarrow> store \<Rightarrow> OccurrenceExecutionResult op" where
  "record_failure base maximum e j owner s =
     (let now = clk e 0 in
      if \<not> owns_claim (clk e 1)
          (jobs_get_by_dedupe_key (job_user_id j) (job_dedupe_key j) (core s)) j owner
      then Inr (LOST_CLAIM, s)
      else if job_delivery_attempt j < job_max_delivery_attempts j then
        (case jobs_release_for_retry (job_id j) owner (job_claim_epoch j)
           (now + retry_delay base maximum (job_delivery_attempt j - 1)) now
           (u ''OCCURRENCE_EXECUTION_RETRY'') (core s) of
           (released, c) \<Rightarrow>
             if released then Inr (RETRY_SCHEDULED, s\<lparr>core := c\<rparr>) else Inr (LOST_CLAIM, s))
      else
        bindE (job_uuid (u ''occurrence_id'') j) (\<lambda>oid.
        bindE (give_up e (job_user_id j) oid s) (\<lambda>s1.
        case jobs_settle (job_id j) owner (job_claim_epoch j) DurableJobStatus.FAILED now
           (Some (u ''OCCURRENCE_RETRY_EXHAUSTED'')) (core s1) of
          (released, c) \<Rightarrow>
            if released then Inr (FAILED, s1\<lparr>core := c\<rparr>) else Inr (LOST_CLAIM, s))))"

text \<open>The loop over the set of the settled automations, one reading each.\<close>

fun complete_settled :: "env \<Rightarrow> (uuid \<times> uuid \<times> int) list \<Rightarrow> store \<Rightarrow> py_error + store" where
  "complete_settled e [] s = Inr s"
| "complete_settled e ((user_id, aid, revision) # rest) s =
     bindE (automations_get user_id aid s) (\<lambda>found.
     bindE (case found of
         None \<Rightarrow> Inr s
       | Some a \<Rightarrow>
           if aut_definition_revision a = revision then settle_one_shot (clk e 0) a s else Inr s)
       (\<lambda>s1. complete_settled (later e 1) rest s1))"

definition reconcile_exhausted :: "env \<Rightarrow> store \<Rightarrow> nat op" where
  "reconcile_exhausted e s =
     (case occurrences_fail_exhausted (clk e 0) s of
        (settled, s1) \<Rightarrow>
          bindE (complete_settled (later e 1) (remdups settled) s1)
            (\<lambda>s2. Inr (length settled, s2)))"

section \<open>Attention\<close>

definition attention_candidates ::
  "env \<Rightarrow> uuid \<Rightarrow> time option \<Rightarrow> nat \<Rightarrow> store \<Rightarrow> AttentionCandidateDTO list" where
  "attention_candidates e user_id now limit s =
     attention_get_candidates user_id (case now of None \<Rightarrow> clk e 0 | Some t \<Rightarrow> t) 72 limit s"

definition record_feedback ::
  "env \<Rightarrow> uuid \<Rightarrow> AttentionSubjectType \<Rightarrow> uuid \<Rightarrow> AttentionFeedbackAction \<Rightarrow> time option \<Rightarrow> store
    \<Rightarrow> unit op" where
  "record_feedback e user_id ty sid action dismissed_until s =
     (if action = AttentionFeedbackAction.DISMISSED \<and> dismissed_until = None
      then Inl (ValueError (u ''Dismissed feedback requires dismissed_until.''))
      else if (if ty \<in> {AttentionSubjectType.THING, AttentionSubjectType.DEADLINE}
               then things_get user_id sid (core s) = None
               else if ty = AttentionSubjectType.TASK then tasks_get user_id sid s = None
               else blockers_get user_id sid s = None)
      then Inl (EntityNotFound (u ''Attention subject was not found.''))
      else Inr ((), attention_record_feedback user_id ty sid action (clk e 0) dismissed_until s))"

end
