(* ===== verification/AgentTools.thy ===== *)
theory AgentTools
  imports AgentContracts AutomationService
begin

text \<open>
  The tools over the personal state and the automations, \<open>register_personal_state_tools\<close> and
  \<open>register_automation_tools\<close> of \<open>agent/tools.py\<close>. A handler takes, beside what every handler
  takes, the text of JSON values and whether there is a runtime.
\<close>

section \<open>Results\<close>

text \<open>The data of a created entity and of a mutation, and their results.\<close>

definition entity_data :: "uuid \<Rightarrow> int \<Rightarrow> jdict" where
  "entity_data i version = [u ''id'' \<mapsto> juuid i, u ''version'' \<mapsto> JInt version]"

definition entity_result :: "str \<Rightarrow> str \<Rightarrow> uuid \<Rightarrow> int \<Rightarrow> ToolResult" where
  "entity_result code message i version = tool_result ToolStatus.SUCCESS code message (entity_data i version)"

definition mutation_data :: "str \<Rightarrow> str \<Rightarrow> MutationResultDTO \<Rightarrow> jdict" where
  "mutation_data target version r =
     [u ''mutation_id'' \<mapsto> juuid (mrd_mutation_id r), target \<mapsto> juuid (mrd_target_id r),
      version \<mapsto> JInt (mrd_target_version r), u ''replayed'' \<mapsto> JBool (mrd_replayed r)]"

definition mutation_tool_result :: "str \<Rightarrow> str \<Rightarrow> jdict \<Rightarrow> MutationResultDTO \<Rightarrow> ToolResult" where
  "mutation_tool_result code message data r =
     (tool_result ToolStatus.SUCCESS code message data)\<lparr>trs_mutation_refs := [uuid_str (mrd_mutation_id r)]\<rparr>"

text \<open>A call of the service followed by the result it gives.\<close>

definition answer :: "('a \<Rightarrow> ToolResult) \<Rightarrow> 'a op \<Rightarrow> ToolResult op" where
  "answer f m = bindE m (\<lambda>(v, s'). Inr (f v, s'))"

type_synonym bound_handler = "(json \<Rightarrow> str) \<Rightarrow> bool \<Rightarrow> handler"

section \<open>Things\<close>

definition create_thing_tool :: bound_handler where
  "create_thing_tool sj rt c args e e' s =
     write_tool sj rt c e (u ''thing_create'') (u ''THING_CREATED'') (u ''Thing created.'')
       (bindE (arg_str sj args (u ''name'')) (\<lambda>name.
        Inr (name, arg_or sj args (u ''reason'') (u ''Agent-created Thing''))))
       (\<lambda>(name, reason). apply_create_thing e' (tec_user_id c) name (tec_action_id c) (tool_key c)
          reason (Some (tec_run_id c)))
       (\<lambda>(name, reason) s. answer (\<lambda>t. entity_result (u ''THING_CREATED'') (u ''Thing created.'') (tdo_id t) (tdo_version t))
          (create_thing e' (tec_user_id c) name (tec_action_id c) (tool_key c) reason (Some (tec_run_id c)) s)) s"

definition change_archive_tool ::
  "bool \<Rightarrow> str \<Rightarrow> str \<Rightarrow> str \<Rightarrow> (MutationResultDTO \<Rightarrow> jdict) \<Rightarrow> bound_handler" where
  "change_archive_tool archive code message reason data sj rt c args e e' s =
     write_tool sj rt c e (u ''thing_change_state'') code message
       (bindE (arg_uuid sj args (u ''thing_id'')) (\<lambda>tid.
        bindE (arg_int args (u ''expected_version'')) (\<lambda>v.
        Inr (tid, v, arg_or sj args (u ''reason'') reason))))
       (\<lambda>(tid, v, reason). apply_change_archive e' (tec_user_id c) tid v (tec_action_id c) (tool_key c)
          reason (Some (tec_run_id c)) archive)
       (\<lambda>(tid, v, reason) s. answer (\<lambda>r. mutation_tool_result code message (data r) r)
          (change_archive e' (tec_user_id c) tid v (tec_action_id c) (tool_key c) reason
            (Some (tec_run_id c)) archive s)) s"

definition archive_thing_tool :: bound_handler where
  "archive_thing_tool = change_archive_tool True (u ''THING_ARCHIVED'') (u ''Thing archived.'')
     (u ''Agent archived Thing'') (mutation_data (u ''thing_id'') (u ''version''))"

definition restore_thing_tool :: bound_handler where
  "restore_thing_tool = change_archive_tool False (u ''THING_RESTORED'') (u ''Thing restored.'')
     (u ''Agent restored Thing'')
     (\<lambda>r. [u ''mutation_id'' \<mapsto> juuid (mrd_mutation_id r), u ''version'' \<mapsto> JInt (mrd_target_version r)])"

text \<open>The status an action names, with the code, the verb and the default reason.\<close>

definition thing_action :: "str \<Rightarrow> (ThingStatus \<times> str \<times> str) option" where
  "thing_action action =
     (if action = u ''COMPLETE'' then Some (ThingStatus.COMPLETED, u ''THING_COMPLETED'', u ''complete'')
      else if action = u ''CANCEL'' then Some (ThingStatus.CANCELLED, u ''THING_CANCELLED'', u ''cancel'')
      else if action = u ''REACTIVATE'' then Some (ThingStatus.ACTIVE, u ''THING_REACTIVATED'', u ''reactivate'')
      else None)"

definition change_thing_state_tool :: bound_handler where
  "change_thing_state_tool sj rt c args e e' s =
     bindE (arg_str sj args (u ''action'')) (\<lambda>action.
     if action = u ''ARCHIVE'' then archive_thing_tool sj rt c args e e' s
     else if action = u ''RESTORE'' then restore_thing_tool sj rt c args e e' s
     else
       (case thing_action action of
          None \<Rightarrow> Inl (ValueError (u ''Unsupported Thing state action.''))
        | Some (status, code, verb) \<Rightarrow>
            bindE (arg_uuid sj args (u ''thing_id'')) (\<lambda>tid.
            bindE (arg_int args (u ''expected_version'')) (\<lambda>v.
            bindE (update_thing e' (tec_user_id c) tid v None (Some status) None False (tec_action_id c) (tool_key c)
                (arg_or sj args (u ''reason'') (u ''Agent '' @ verb @ u '' Thing'')) (Some (tec_run_id c)) s)
              (\<lambda>(t, s'). Inr (entity_result code (u ''Thing '' @ verb @ u ''d.'') (tdo_id t) (tdo_version t), s', []))))))"

definition delete_thing_tool :: bound_handler where
  "delete_thing_tool sj rt c args e e' s =
     write_tool sj rt c e (u ''thing_delete'') (u ''THING_DELETED'') (u ''Thing deleted.'')
       (bindE (arg_uuid sj args (u ''thing_id'')) (\<lambda>tid.
        bindE (arg_int args (u ''expected_version'')) (\<lambda>v.
        Inr (tid, v, arg_or sj args (u ''reason'') (u ''Agent deleted Thing.'')))))
       (\<lambda>(tid, v, reason). apply_delete_thing e' (tec_user_id c) tid v (tec_action_id c) (tool_key c)
          reason (Some (tec_run_id c)))
       (\<lambda>(tid, v, reason) s. answer (\<lambda>r. mutation_tool_result (u ''THING_DELETED'') (u ''Thing deleted.'')
            (mutation_data (u ''thing_id'') (u ''version'') r) r)
          (delete_thing e' (tec_user_id c) tid v (tec_action_id c) (tool_key c) reason (Some (tec_run_id c)) s)) s"

definition MERGED_MESSAGE :: str where
  "MERGED_MESSAGE = u ''Duplicate Thing merged into its canonical Thing.''"

definition merge_things_tool :: bound_handler where
  "merge_things_tool sj rt c args e e' s =
     write_tool sj rt c e (u ''thing_merge'') (u ''THING_MERGED'') MERGED_MESSAGE
       (bindE (arg_uuid sj args (u ''canonical_thing_id'')) (\<lambda>canon.
        bindE (arg_uuid sj args (u ''duplicate_thing_id'')) (\<lambda>dup.
        bindE (arg_int args (u ''expected_canonical_version'')) (\<lambda>vc.
        bindE (arg_int args (u ''expected_duplicate_version'')) (\<lambda>vd.
        Inr (canon, dup, vc, vd, arg_or sj args (u ''reason'') (u ''Agent merged duplicate Things.'')))))))
       (\<lambda>(canon, dup, vc, vd, reason). apply_merge_things sj e' (tec_user_id c) canon dup vc vd
          (tec_action_id c) (tool_key c) reason (Some (tec_run_id c)))
       (\<lambda>(canon, dup, vc, vd, reason) s. answer (\<lambda>r. mutation_tool_result (u ''THING_MERGED'') MERGED_MESSAGE
            (mutation_data (u ''duplicate_thing_id'') (u ''version'') r) r)
          (merge_things sj e' (tec_user_id c) canon dup vc vd (tec_action_id c) (tool_key c) reason
            (Some (tec_run_id c)) s)) s"

text \<open>
  \<open>expected_version\<close> is handed on as it is: equal to a version when it is that number (a truth
  value counts as 0 or 1), and to none when it is of another type; versions are not negative.
\<close>

definition raw_version :: "jdict \<Rightarrow> int option" where
  "raw_version args =
     (case jget args (u ''expected_version'') JNull of
        JNull \<Rightarrow> None | JInt n \<Rightarrow> Some n | JBool b \<Rightarrow> Some (of_bool b) | _ \<Rightarrow> Some (- 1))"

definition set_thing_context_tool :: bound_handler where
  "set_thing_context_tool sj rt c args e e' s =
     write_tool sj rt c e (u ''thing_context_set'') (u ''THING_CONTEXT_SET'') (u ''Current Thing context set.'')
       (bindE (arg_uuid sj args (u ''thing_id'')) (\<lambda>tid.
        bindE (arg_str sj args (u ''label'')) (\<lambda>label.
        bindE (arg_str sj args (u ''content'')) (\<lambda>content.
        bindE (opt_uuid sj args (u ''entry_id'')) (\<lambda>entry.
        Inr (tid, label, content, entry,
          arg_or sj args (u ''reason'') (u ''Agent updated current Thing context.'')))))))
       (\<lambda>(tid, label, content, entry, reason). apply_set_thing_context e' (tec_user_id c) tid label content entry
          (raw_version args) None (tec_action_id c) (tool_key c) reason (Some (tec_run_id c)))
       (\<lambda>(tid, label, content, entry, reason) s.
          answer (\<lambda>r. mutation_tool_result (u ''THING_CONTEXT_SET'') (u ''Current Thing context set.'')
            (mutation_data (u ''entry_id'') (u ''version'') r) r)
          (set_thing_context e' (tec_user_id c) tid label content entry (raw_version args) None
            (tec_action_id c) (tool_key c) reason (Some (tec_run_id c)) s)) s"

section \<open>Reading\<close>

definition get_thing_context_tool :: bound_handler where
  "get_thing_context_tool sj rt c args e e' s =
     bindE (arg_uuid sj args (u ''thing_id'')) (\<lambda>tid.
     bindE (get_thing_context_snapshot (tec_user_id c) tid s) (\<lambda>payload.
     Inr (tool_result ToolStatus.SUCCESS (u ''OK'') (u ''Current Thing context loaded.'') payload, s, [])))"

definition overview_item :: "uuid \<Rightarrow> json" where
  "overview_item tid = JObj [u ''thing_id'' \<mapsto> juuid tid]"

definition versioned_item :: "uuid \<Rightarrow> json" where
  "versioned_item tid = JObj [u ''thing_id'' \<mapsto> juuid tid, u ''version'' \<mapsto> JNull]"

definition get_state_overview_tool :: bound_handler where
  "get_state_overview_tool sj rt c args e e' s =
     bindE (get_state_overview (tec_user_id c) (clk e' 0) 7 8 5 8 5 s) (\<lambda>view.
     Inr (tool_result ToolStatus.SUCCESS (u ''OK'') (u ''Authoritative current-state overview loaded.'')
       [u ''active'' \<mapsto> JList (map (versioned_item \<circ> act_thing_id) (ovw_active view)),
        u ''upcoming'' \<mapsto> JList (map (overview_item \<circ> upc_thing_id) (ovw_upcoming view)),
        u ''blocked'' \<mapsto> JList (map (overview_item \<circ> bld_thing_id) (ovw_blocked view)),
        u ''recent'' \<mapsto> JList (map (versioned_item \<circ> rec_thing_id) (ovw_recent view))], s, []))"

section \<open>Tasks\<close>

definition create_task_tool :: bound_handler where
  "create_task_tool sj rt c args e e' s =
     write_tool sj rt c e (u ''task_create'') (u ''TASK_CREATED'') (u ''Task created.'')
       (bindE (opt_uuid sj args (u ''thing_id'')) (\<lambda>tid.
        bindE (arg_str sj args (u ''title'')) (\<lambda>title.
        bindE (opt_arg args (u ''due_at'') (\<lambda>v. py_datetime (py_str sj v))) (\<lambda>due.
        bindE (some_arg args (u ''recurrence_interval_days'') py_int) (\<lambda>days.
        Inr (tid, title, due, days, arg_or sj args (u ''reason'') (u ''Agent-created Task'')))))))
       (\<lambda>(tid, title, due, days, reason). apply_create_task e' (tec_user_id c) tid title due days
          (tec_action_id c) (tool_key c) reason (Some (tec_run_id c)))
       (\<lambda>(tid, title, due, days, reason) s.
          answer (\<lambda>t. entity_result (u ''TASK_CREATED'') (u ''Task created.'') (task_id t) (task_version t))
          (create_task e' (tec_user_id c) tid title due days (tec_action_id c) (tool_key c) reason
            (Some (tec_run_id c)) s)) s"

text \<open>The service is called without the run, so that its record names none.\<close>

definition transition_task_tool :: bound_handler where
  "transition_task_tool sj rt c args e e' s =
     write_tool sj rt c e (u ''task_change_status'') (u ''TASK_STATUS_CHANGED'') (u ''Task status changed.'')
       (bindE (arg_uuid sj args (u ''task_id'')) (\<lambda>tid.
        bindE (bindE (arg_str sj args (u ''target_status'')) task_status_of) (\<lambda>status.
        bindE (arg_int args (u ''expected_version'')) (\<lambda>v.
        Inr (tid, status, v, arg_or sj args (u ''reason'') (u ''Agent changed Task status''))))))
       (\<lambda>(tid, status, v, reason). apply_transition_task e' (tec_user_id c) tid status v (tec_action_id c)
          (tool_key c) reason (Some (tec_run_id c)))
       (\<lambda>(tid, status, v, reason) s.
          answer (\<lambda>r. mutation_tool_result (u ''TASK_STATUS_CHANGED'') (u ''Task status changed.'')
            (mutation_data (u ''task_id'') (u ''version'') r) r)
          (transition_task e' (tec_user_id c) tid status v (tec_action_id c) (tool_key c) reason s)) s"

section \<open>Blockers\<close>

definition create_blocker_tool :: bound_handler where
  "create_blocker_tool sj rt c args e e' s =
     write_tool sj rt c e (u ''blocker_manage'') (u ''BLOCKER_ADDED'') (u ''Blocker added.'')
       (bindE (arg_uuid sj args (u ''thing_id'')) (\<lambda>tid.
        bindE (arg_str sj args (u ''description'')) (\<lambda>description.
        bindE (severity_of (arg_or sj args (u ''severity'') (u ''MEDIUM''))) (\<lambda>severity.
        bindE (opt_uuid sj args (u ''task_id'')) (\<lambda>task.
        Inr (tid, description, severity, task, arg_or sj args (u ''reason'') (u ''Agent added Blocker'')))))))
       (\<lambda>(tid, description, severity, task, reason). apply_create_blocker e' (tec_user_id c) tid description
          severity task None (tec_action_id c) (tool_key c) reason)
       (\<lambda>(tid, description, severity, task, reason) s.
          answer (\<lambda>b. entity_result (u ''BLOCKER_ADDED'') (u ''Blocker added.'') (blk_id b) (blk_version b))
          (create_blocker e' (tec_user_id c) tid description severity task None (tec_action_id c) (tool_key c)
            reason s)) s"

definition resolve_blocker_tool :: bound_handler where
  "resolve_blocker_tool sj rt c args e e' s =
     write_tool sj rt c e (u ''blocker_manage'') (u ''BLOCKER_RESOLVED'') (u ''Blocker resolved.'')
       (bindE (arg_uuid sj args (u ''blocker_id'')) (\<lambda>bid.
        bindE (arg_int args (u ''expected_version'')) (\<lambda>v.
        Inr (bid, v, arg_or sj args (u ''reason'') (u ''Agent resolved Blocker'')))))
       (\<lambda>(bid, v, reason). apply_resolve_blocker e' (tec_user_id c) bid v (tec_action_id c) (tool_key c) reason)
       (\<lambda>(bid, v, reason) s.
          answer (\<lambda>r. mutation_tool_result (u ''BLOCKER_RESOLVED'') (u ''Blocker resolved.'')
            (mutation_data (u ''blocker_id'') (u ''version'') r) r)
          (resolve_blocker e' (tec_user_id c) bid v (tec_action_id c) (tool_key c) reason s)) s"

definition manage_blocker_tool :: bound_handler where
  "manage_blocker_tool sj rt c args e e' s =
     bindE (arg_str sj args (u ''operation'')) (\<lambda>operation.
     if operation = u ''OPEN'' then create_blocker_tool sj rt c args e e' s
     else if operation = u ''RESOLVE'' then resolve_blocker_tool sj rt c args e e' s
     else Inl (ValueError (u ''Unsupported Blocker operation.'')))"

section \<open>Dates\<close>

definition set_deadline_tool :: bound_handler where
  "set_deadline_tool sj rt c args e e' s =
     bindE (opt_uuid sj args (u ''source_id'')) (\<lambda>source.
     write_tool sj rt c e (u ''thing_date_set'') (u ''DEADLINE_SET'') (u ''Deadline set.'')
       (bindE (arg_uuid sj args (u ''thing_id'')) (\<lambda>tid.
        bindE (date_kind_of (arg_or sj args (u ''kind'') (u ''DEADLINE''))) (\<lambda>kind.
        bindE (opt_arg args (u ''label'') (\<lambda>v. Inr (py_str sj v))) (\<lambda>label.
        bindE (bindE (arg_str sj args (u ''value'')) py_datetime) (\<lambda>value.
        bindE (arg_str sj args (u ''timezone'')) (\<lambda>zone.
        bindE (precision_of (arg_or sj args (u ''precision'') (u ''DATE_TIME''))) (\<lambda>precision.
        bindE (bindE (arg_str sj args (u ''certainty'')) certainty_of) (\<lambda>certainty.
        bindE (arg_int args (u ''expected_version'')) (\<lambda>v.
        Inr (tid, kind, label, value, zone, precision, certainty,
          py_bool (jget args (u ''is_primary'') (JBool True)), v,
          arg_or sj args (u ''reason'') (u ''Agent set deadline'')))))))))))
       (\<lambda>(tid, kind, label, value, zone, precision, certainty, primary, v, reason).
          apply_set_deadline e' (tec_user_id c) tid kind value zone precision certainty primary v
            (tec_action_id c) (tool_key c) reason label (Some (tec_run_id c)) source)
       (\<lambda>(tid, kind, label, value, zone, precision, certainty, primary, v, reason) s.
          answer (\<lambda>r. mutation_tool_result (u ''DEADLINE_SET'') (u ''Deadline set.'')
            (mutation_data (u ''date_id'') (u ''thing_version'') r) r)
          (set_deadline e' (tec_user_id c) tid kind value zone precision certainty primary v
            (tec_action_id c) (tool_key c) reason label (Some (tec_run_id c)) source s)) s)"

definition update_date_tool :: bound_handler where
  "update_date_tool sj rt c args e e' s =
     write_tool sj rt c e (u ''thing_date_set'') (u ''DATE_UPDATED'') (u ''Date updated.'')
       (bindE (arg_uuid sj args (u ''date_id'')) (\<lambda>did.
        bindE (bindE (arg_str sj args (u ''value'')) py_datetime) (\<lambda>value.
        bindE (arg_str sj args (u ''timezone'')) (\<lambda>zone.
        bindE (precision_of (arg_or sj args (u ''precision'') (u ''DATE_TIME''))) (\<lambda>precision.
        bindE (bindE (arg_str sj args (u ''certainty'')) certainty_of) (\<lambda>certainty.
        bindE (arg_int args (u ''expected_version'')) (\<lambda>v.
        bindE (arg_int args (u ''expected_thing_version'')) (\<lambda>vt.
        Inr (did, value, zone, precision, certainty, py_bool (jget args (u ''is_primary'') (JBool False)), v, vt,
          arg_or sj args (u ''reason'') (u ''Agent updated date''))))))))))
       (\<lambda>(did, value, zone, precision, certainty, primary, v, vt, reason).
          apply_update_date e' (tec_user_id c) did value zone precision certainty primary v vt
            (tec_action_id c) (tool_key c) reason)
       (\<lambda>(did, value, zone, precision, certainty, primary, v, vt, reason) s.
          answer (\<lambda>r. mutation_tool_result (u ''DATE_UPDATED'') (u ''Date updated.'')
            (mutation_data (u ''date_id'') (u ''thing_version'') r) r)
          (update_date e' (tec_user_id c) did value zone precision certainty primary v vt
            (tec_action_id c) (tool_key c) reason s)) s"

definition set_thing_date_tool :: bound_handler where
  "set_thing_date_tool sj rt c args e e' s =
     bindE (arg_str sj args (u ''operation'')) (\<lambda>operation.
     if operation = u ''CREATE'' then set_deadline_tool sj rt c args e e' s
     else if operation = u ''CORRECT'' then update_date_tool sj rt c args e e' s
     else Inl (ValueError (u ''Unsupported ThingDate operation.'')))"

section \<open>Automations\<close>

definition automation_type_of :: "str \<Rightarrow> py_error + AutomationType" where
  "automation_type_of = py_enum [AutomationType.ONE_SHOT, AutomationType.ONCE, AutomationType.RECURRING,
     AutomationType.RELATIVE, AutomationType.CONDITION_WATCH, AutomationType.CONDITION] automation_type_value"

primrec automation_status_value :: "AutomationStatus \<Rightarrow> str" where
  "automation_status_value AutomationStatus.ACTIVE = u ''ACTIVE''"
| "automation_status_value AutomationStatus.PAUSED = u ''PAUSED''"
| "automation_status_value AutomationStatus.COMPLETED = u ''COMPLETED''"
| "automation_status_value AutomationStatus.CANCELLED = u ''CANCELLED''"

definition automation_data :: "AutomationDTO \<Rightarrow> jdict" where
  "automation_data a = [u ''id'' \<mapsto> juuid (ado_id a),
     u ''status'' \<mapsto> JStr (automation_status_value (ado_status a)), u ''version'' \<mapsto> JInt (ado_version a)]"

definition create_automation_tool :: bound_handler where
  "create_automation_tool sj rt c args e e' s =
     write_tool sj rt c e (u ''automation_create'') (u ''AUTOMATION_CREATED'') (u ''Automation created.'')
       (bindE (bindE (arg_str sj args (u ''automation_type'')) automation_type_of) (\<lambda>ty.
        bindE (arg_str sj args (u ''title'')) (\<lambda>title.
        bindE (bindE (arg_str sj args (u ''next_trigger_at'')) py_datetime) (\<lambda>trigger.
        bindE (opt_uuid sj args (u ''thing_id'')) (\<lambda>thing.
        bindE (opt_uuid sj args (u ''task_id'')) (\<lambda>task.
        bindE (opt_arg args (u ''recurrence_interval_seconds'') py_int) (\<lambda>interval.
        Inr (ty, title, arg_or sj args (u ''message'') title,
          arg_or sj args (u ''timezone'') (u ''Asia/Shanghai''), trigger, thing, task, interval))))))))
       (\<lambda>(ty, title, message, zone, trigger, thing, task, interval).
          apply_create_automation e' (tec_user_id c) ty title message zone trigger (tool_key c) thing task None
            interval)
       (\<lambda>(ty, title, message, zone, trigger, thing, task, interval) s.
          answer (\<lambda>a. tool_result ToolStatus.SUCCESS (u ''AUTOMATION_CREATED'') (u ''Automation created.'')
            (automation_data a))
          (create_automation e' (tec_user_id c) ty title message zone trigger (tool_key c) thing task None
            interval s)) s"

definition change_automation_tool :: bound_handler where
  "change_automation_tool sj rt c args e e' s =
     bindE (arg_str sj args (u ''action'')) (\<lambda>action.
     write_tool sj rt c e (if action = u ''CANCEL'' then u ''automation_cancel'' else u ''automation_create'')
       (if action = u ''CANCEL'' then u ''AUTOMATION_CANCELLED'' else u ''AUTOMATION_CHANGED'')
       (u ''Automation status changed.'')
       (bindE (arg_uuid sj args (u ''automation_id'')) (\<lambda>aid.
        bindE (arg_int args (u ''expected_version'')) (\<lambda>v. Inr (aid, v))))
       (\<lambda>(aid, v). apply_change_automation_status e' (tec_user_id c) aid action v (tool_key c))
       (\<lambda>(aid, v) s. answer (\<lambda>a. tool_result ToolStatus.SUCCESS (u ''AUTOMATION_CHANGED'')
            (u ''Automation status changed.'') (automation_data a))
          (change_automation_status e' (tec_user_id c) aid action v (tool_key c) s)) s)"

definition cancel_automation_tool :: bound_handler where
  "cancel_automation_tool sj rt c args =
     change_automation_tool sj rt c (args(u ''action'' \<mapsto> JStr (u ''CANCEL'')))"

section \<open>Registration\<close>

definition personal_state_tools :: "(json \<Rightarrow> str) \<Rightarrow> bool \<Rightarrow> ToolDefinition list" where
  "personal_state_tools sj rt =
    [tool_definition (u ''state_get_overview'') (u ''Read the bounded authoritative current-state overview.'')
       READ (get_state_overview_tool sj rt) READ_ONLY [],
     tool_definition (u ''state_get_thing_context'')
       (u ''Read one Thing'' @ [39] @ u ''s current state with stable versions.'')
       READ (get_thing_context_tool sj rt) READ_ONLY [u ''thing_id''],
     tool_definition (u ''thing_create'') (u ''Create a persistent Thing.'')
       REVERSIBLE_WRITE (create_thing_tool sj rt) IDEMPOTENT [u ''name''],
     tool_definition (u ''task_create'') (u ''Create a standalone or Thing-linked Task.'')
       REVERSIBLE_WRITE (create_task_tool sj rt) IDEMPOTENT [u ''title''],
     tool_definition (u ''task_change_status'') (u ''Change a Task status with optimistic concurrency.'')
       REVERSIBLE_WRITE (transition_task_tool sj rt) IDEMPOTENT
       [u ''task_id'', u ''target_status'', u ''expected_version''],
     tool_definition (u ''thing_context_set'') (u ''Create or correct one current soft-state entry.'')
       REVERSIBLE_WRITE (set_thing_context_tool sj rt) IDEMPOTENT [u ''thing_id'', u ''label'', u ''content''],
     tool_definition (u ''thing_merge'') (u ''Merge a duplicate Thing after confirmation.'')
       IRREVERSIBLE (merge_things_tool sj rt) IDEMPOTENT
       [u ''canonical_thing_id'', u ''duplicate_thing_id'', u ''expected_canonical_version'',
        u ''expected_duplicate_version''],
     tool_definition (u ''thing_change_state'') (u ''Change Thing lifecycle or archive state.'')
       REVERSIBLE_WRITE (change_thing_state_tool sj rt) IDEMPOTENT
       [u ''thing_id'', u ''action'', u ''expected_version''],
     tool_definition (u ''thing_date_set'') (u ''Create or correct a typed ThingDate.'')
       SENSITIVE_WRITE (set_thing_date_tool sj rt) IDEMPOTENT [u ''operation''],
     tool_definition (u ''blocker_manage'') (u ''Open or resolve a Blocker.'')
       REVERSIBLE_WRITE (manage_blocker_tool sj rt) IDEMPOTENT [u ''operation''],
     tool_definition (u ''thing_delete'') (u ''Permanently delete a Thing after confirmation.'')
       IRREVERSIBLE (delete_thing_tool sj rt) IDEMPOTENT [u ''thing_id'', u ''expected_version'']]"

definition register_personal_state_tools ::
  "(json \<Rightarrow> str) \<Rightarrow> bool \<Rightarrow> registry \<Rightarrow> py_error + registry" where
  "register_personal_state_tools sj rt r = register_all (personal_state_tools sj rt) r"

definition automation_tools :: "(json \<Rightarrow> str) \<Rightarrow> bool \<Rightarrow> ToolDefinition list" where
  "automation_tools sj rt =
    [tool_definition (u ''automation_create'') (u ''Create an automation.'')
       REVERSIBLE_WRITE (create_automation_tool sj rt) IDEMPOTENT
       [u ''automation_type'', u ''title'', u ''next_trigger_at''],
     tool_definition (u ''automation_cancel'') (u ''Cancel an automation with optimistic concurrency.'')
       REVERSIBLE_WRITE (cancel_automation_tool sj rt) IDEMPOTENT [u ''automation_id'', u ''expected_version'']]"

definition register_automation_tools ::
  "(json \<Rightarrow> str) \<Rightarrow> bool \<Rightarrow> registry \<Rightarrow> py_error + registry" where
  "register_automation_tools sj rt r = register_all (automation_tools sj rt) r"

end
