(* ===== verification/RuntimeMachine.thy ===== *)
theory RuntimeMachine
  imports Interfaces RuntimeTransitions
begin

text \<open>
  The abstract machine of the runtime. \<open>run_move\<close>, \<open>job_move\<close> and \<open>tool_move\<close> say how one row of
  the three tables may change; \<open>store_write\<close> says how one statement group changes the database.
  \<open>service_step\<close> is the relation of the committed units of work of the runtime service.
  \<open>RuntimeRefinement\<close> proves that each of them is a sequence of store writes, and
  \<open>RuntimeInvariants\<close> proves the invariants on the store writes.
\<close>

section \<open>Rows\<close>

text \<open>\<open>t\<close> is the token a claim issues.\<close>

inductive run_move :: "uuid \<Rightarrow> AgentRun \<Rightarrow> AgentRun \<Rightarrow> bool" for t where
  claim: "run_claimable now r \<Longrightarrow> run_move t r (claim_row owner t now lease r)"
| renew: "run_status r = RunStatus.RUNNING \<Longrightarrow> run_claim_owner r \<noteq> None \<Longrightarrow>
    run_move t r (r\<lparr>run_heartbeat_at := Some now, run_lease_expires_at := Some lease,
      run_updated_at := now\<rparr>)"
| start: "run_start now phase label r = Inr r' \<Longrightarrow> run_move t r r'"
| recover: "run_recover_after_crash now r = Inr r' \<Longrightarrow> run_move t r r'"
| accept: "run_accept_terminal_output now out r = Inr r' \<Longrightarrow> run_move t r r'"
| fail: "run_fail now code r = Inr r' \<Longrightarrow> run_move t r r'"
| cancel: "run_cancel now r = Inr r' \<Longrightarrow> run_move t r r'"

inductive job_move :: "DurableJob \<Rightarrow> DurableJob \<Rightarrow> bool" where
  claim: "job_due kind now j \<Longrightarrow> job_move j (claim_job_row owner now lease j)"
| settle: "job_fence jid owner epoch j \<Longrightarrow> lease_live (job_lease_until j) now \<Longrightarrow>
    status \<notin> {DurableJobStatus.READY, DurableJobStatus.CLAIMED} \<Longrightarrow>
    job_move j (j\<lparr>job_status := status, job_claimed_by := None, job_lease_until := None,
      job_last_error_code := code, job_updated_at := now\<rparr>)"
| retry: "job_fence jid owner epoch j \<Longrightarrow> lease_live (job_lease_until j) now \<Longrightarrow>
    job_move j (j\<lparr>job_status := DurableJobStatus.READY, job_claimed_by := None,
      job_lease_until := None, job_available_at := available, job_last_error_code := code,
      job_updated_at := now\<rparr>)"
| requeue: "job_expired now j \<Longrightarrow> job_delivery_attempt j < job_max_delivery_attempts j \<Longrightarrow>
    job_move j (j\<lparr>job_status := DurableJobStatus.READY, job_claimed_by := None,
      job_lease_until := None, job_available_at := now, job_updated_at := now\<rparr>)"
| exhaust: "job_expired now j \<Longrightarrow> job_max_delivery_attempts j \<le> job_delivery_attempt j \<Longrightarrow>
    job_move j (j\<lparr>job_status := DurableJobStatus.FAILED, job_claimed_by := None,
      job_lease_until := None, job_last_error_code := Some (u ''RECOVERY_EXHAUSTED''),
      job_updated_at := now\<rparr>)"
| renew: "job_status j = DurableJobStatus.CLAIMED \<Longrightarrow>
    job_move j (j\<lparr>job_lease_until := Some lease, job_updated_at := now\<rparr>)"
| resume: "job_status j \<in> {DurableJobStatus.PAUSED, DurableJobStatus.READY} \<Longrightarrow>
    job_move j (j\<lparr>job_status := DurableJobStatus.READY, job_available_at := now,
      job_updated_at := now\<rparr>)"
| cancel: "job_status j \<in> {DurableJobStatus.READY, DurableJobStatus.CLAIMED,
      DurableJobStatus.PAUSED} \<Longrightarrow>
    job_move j (j\<lparr>job_status := DurableJobStatus.CANCELLED, job_claimed_by := None,
      job_lease_until := None, job_updated_at := now\<rparr>)"

inductive tool_move :: "uuid \<Rightarrow> ToolExecution \<Rightarrow> ToolExecution \<Rightarrow> bool" for t where
  takeover: "tex_status x = ToolExecutionStatus.IN_PROGRESS \<Longrightarrow> tex_lease_expires_at x \<le> now \<Longrightarrow>
    tex_replay_safe x \<Longrightarrow>
    tool_move t x (x\<lparr>tex_claim_owner := owner, tex_claim_token := t,
      tex_lease_expires_at := lease, tex_attempt_count := tex_attempt_count x + 1,
      tex_updated_at := now\<rparr>)"
| complete: "tex_status x = ToolExecutionStatus.IN_PROGRESS \<Longrightarrow>
    tool_move t x (settle_tool_row show_json result succeeded now x)"
| mark_unknown: "tex_status x = ToolExecutionStatus.IN_PROGRESS \<Longrightarrow>
    tex_lease_expires_at x \<le> now \<Longrightarrow> \<not> tex_replay_safe x \<Longrightarrow>
    tool_move t x (x\<lparr>tex_status := ToolExecutionStatus.UNKNOWN_OUTCOME,
      tex_error_code := Some (u ''UNKNOWN_OUTCOME''), tex_updated_at := now\<rparr>)"
| reconcile: "tex_status x = ToolExecutionStatus.UNKNOWN_OUTCOME \<Longrightarrow>
    tool_move t x ((settle_tool_row show_json result succeeded now x)
      \<lparr>tex_provider_request_id := request_id\<rparr>)"

section \<open>Store writes\<close>

definition put_run :: "AgentRun \<Rightarrow> db \<Rightarrow> db" where
  "put_run r' s = s\<lparr>db_runs := upd (\<lambda>r. run_id r = run_id r') (\<lambda>_. r') (db_runs s)\<rparr>"

text \<open>A run as its creation stores it: queued, never claimed, no time used.\<close>

definition fresh_run :: "AgentRun \<Rightarrow> bool" where
  "fresh_run r \<longleftrightarrow> (\<exists>user_id tid trigger key budget rid created updated mid.
     r = (new_run user_id tid trigger key budget rid created updated)
       \<lparr>run_input_message_id := Some mid\<rparr>)"

definition fresh_job :: "uuid \<Rightarrow> uuid \<Rightarrow> DurableJob \<Rightarrow> bool" where
  "fresh_job user_id rid j \<longleftrightarrow> (\<exists>e i k. agent_run_job e i k user_id rid = Inr j)"

text \<open>
  The jobs of the other components: another kind, and a key outside the name space of the runs.
  A merge of two things rebinds the active thing of threads and touches nothing else of them.
\<close>

definition agent_key :: "str \<Rightarrow> bool" where
  "agent_key k \<longleftrightarrow> take 10 k = u ''agent-run:''"

definition other_job :: "DurableJob \<Rightarrow> bool" where
  "other_job j \<longleftrightarrow> job_kind j \<noteq> DurableJobKind.AGENT_RUN \<and> \<not> agent_key (job_dedupe_key j)"

definition fresh_other_job :: "DurableJob \<Rightarrow> bool" where
  "fresh_other_job j \<longleftrightarrow> other_job j \<and> (\<exists>user_id kind key payload jid avail n created updated.
     DurableJob_init user_id kind key payload jid avail n created updated = Inr j)"

definition rebind_threads :: "(Thread \<Rightarrow> uuid option) \<Rightarrow> Thread list \<Rightarrow> Thread list" where
  "rebind_threads g = map (\<lambda>x. x\<lparr>thr_active_thing_id := g x\<rparr>)"

text \<open>
  Outside the identity service the rows of users are only added, by \<open>ensure_exists\<close>: the new ones are
  active and have no external subject.
\<close>

definition users_grow :: "User list \<Rightarrow> User list \<Rightarrow> bool" where
  "users_grow us us' \<longleftrightarrow> (\<exists>new. us' = us @ new \<and> (keyed usr_id us \<longrightarrow> keyed usr_id us') \<and>
     (\<forall>x \<in> set new. usr_status x = UserStatus.ACTIVE \<and> usr_external_subject x = None))"

lemma users_grow_refl [simp]: "users_grow us us"
  by (simp add: users_grow_def)

lemma users_grow_trans:
  assumes "users_grow us us'" "users_grow us' us''"
  shows "users_grow us us''"
proof -
  obtain new where new: "us' = us @ new" "keyed usr_id us \<longrightarrow> keyed usr_id us'"
      "\<forall>x \<in> set new. usr_status x = UserStatus.ACTIVE \<and> usr_external_subject x = None"
    using assms(1) by (auto simp: users_grow_def)
  moreover obtain new' where "us'' = us' @ new'" "keyed usr_id us' \<longrightarrow> keyed usr_id us''"
      "\<forall>x \<in> set new'. usr_status x = UserStatus.ACTIVE \<and> usr_external_subject x = None"
    using assms(2) by (auto simp: users_grow_def)
  ultimately show ?thesis
    unfolding users_grow_def by (intro exI [of _ "new @ new'"]) auto
qed

lemma users_ensure_grow: "users_grow (db_users s) (db_users (users_ensure_exists now uid s))"
  by (auto simp: users_grow_def users_ensure_exists_def intro: exI [of _ "[]"])

definition fresh_tool :: "uuid \<Rightarrow> ToolExecution \<Rightarrow> bool" where
  "fresh_tool t x \<longleftrightarrow> tex_status x = ToolExecutionStatus.IN_PROGRESS \<and> tex_claim_token x = t \<and>
     tex_result x = None \<and> tex_receipt x = None \<and> tex_error_code x = None \<and> tex_attempt_count x = 1"

inductive store_write :: "uuid \<Rightarrow> db \<Rightarrow> db \<Rightarrow> bool" for t where
  outside: "users_grow (db_users s) us \<Longrightarrow> store_write t s (s\<lparr>db_users := us, db_things := ts, db_sources := ss\<rparr>)"
| thread_add: "\<forall>x \<in> set (db_threads s). \<not> thread_clash x r \<Longrightarrow>
    store_write t s (s\<lparr>db_threads := db_threads s @ [r]\<rparr>)"
| thread_archive: "store_write t s (threads_archive x s)"
| thread_rebind: "store_write t s (s\<lparr>db_threads := rebind_threads g (db_threads s)\<rparr>)"
| other_job: "fresh_other_job j \<Longrightarrow> \<forall>x \<in> set (db_jobs s). \<not> job_clash x j \<Longrightarrow>
    store_write t s (s\<lparr>db_jobs := db_jobs s @ [j]\<rparr>)"
| create: "fresh_run r \<Longrightarrow> \<forall>x \<in> set (db_runs s). \<not> run_clash x r \<Longrightarrow>
    msg_id m \<notin> msg_id ` set (db_messages s) \<Longrightarrow>
    run_input_message_id r = Some (msg_id m) \<Longrightarrow> msg_run_id m = Some (run_id r) \<Longrightarrow>
    msg_user_id m = run_user_id r \<Longrightarrow> msg_thread_id m = run_thread_id r \<Longrightarrow>
    threads_get (run_user_id r) (run_thread_id r) s \<noteq> None \<Longrightarrow>
    fresh_job (run_user_id r) (run_id r) j \<Longrightarrow> \<forall>x \<in> set (db_jobs s). \<not> job_clash x j \<Longrightarrow>
    store_write t s (s\<lparr>db_threads :=
        upd (\<lambda>x. thr_id x = msg_thread_id m \<and> thr_user_id x = msg_user_id m)
          (\<lambda>x. x\<lparr>thr_updated_at := max (thr_updated_at x) (msg_created_at m)\<rparr>) (db_threads s),
      db_messages := db_messages s @ [m], db_runs := db_runs s @ [r], db_jobs := db_jobs s @ [j]\<rparr>)"
| run: "r \<in> set (db_runs s) \<Longrightarrow> run_move t r r' \<Longrightarrow> store_write t s (put_run r' s)"
| wait: "r \<in> set (db_runs s) \<Longrightarrow> run_wait_for_user now (ixn_id i) payload r = Inr r' \<Longrightarrow>
    ixn_run_id i = run_id r \<Longrightarrow> ixn_user_id i = run_user_id r \<Longrightarrow>
    ixn_status i = RunInteractionStatus.PENDING \<Longrightarrow>
    ixn_response_payload i = None \<Longrightarrow>
    \<forall>x \<in> set (db_interactions s). \<not> interaction_clash x i \<Longrightarrow>
    store_write t s (put_run r' (s\<lparr>db_interactions := db_interactions s @ [i]\<rparr>))"
| resume: "r \<in> set (db_runs s) \<Longrightarrow> run_resume now iid response r = Inr r' \<Longrightarrow>
    interactions_get (run_user_id r) (run_id r) iid s = Some i \<Longrightarrow>
    interaction_resolve now' response i = Inr i' \<Longrightarrow>
    store_write t s (put_run r' (interactions_resolve i' s))"
| complete: "r \<in> set (db_runs s) \<Longrightarrow> run_complete now (msg_id m) r = Inr r' \<Longrightarrow>
    msg_id m \<notin> msg_id ` set (db_messages s) \<Longrightarrow> msg_role m = MessageRole.ASSISTANT \<Longrightarrow>
    msg_run_id m = Some (run_id r) \<Longrightarrow> msg_user_id m = run_user_id r \<Longrightarrow>
    msg_thread_id m = run_thread_id r \<Longrightarrow> strip (msg_content m) \<noteq> [] \<Longrightarrow>
    store_write t s (put_run r' (s\<lparr>db_threads :=
        upd (\<lambda>x. thr_id x = msg_thread_id m \<and> thr_user_id x = msg_user_id m)
          (\<lambda>x. x\<lparr>thr_updated_at := max (thr_updated_at x) (msg_created_at m)\<rparr>) (db_threads s),
      db_messages := db_messages s @ [m]\<rparr>))"
| event: "r \<in> set (db_runs s) \<Longrightarrow> evt_run_id ev = run_id r \<Longrightarrow>
    evt_sequence ev = run_event_sequence r + 1 \<Longrightarrow>
    \<forall>x \<in> set (db_events s). \<not> event_clash x ev \<Longrightarrow>
    store_write t s (put_run (r\<lparr>run_event_sequence := run_event_sequence r + 1\<rparr>)
      (s\<lparr>db_events := db_events s @ [ev]\<rparr>))"
| operation: "(rop_user_id p, rop_idempotency_key p) \<notin>
      (\<lambda>p. (rop_user_id p, rop_idempotency_key p)) ` set (db_run_ops s) \<Longrightarrow>
    store_write t s (s\<lparr>db_run_ops := db_run_ops s @ [p]\<rparr>)"
| jobs: "(\<And>j. j \<in> set (db_jobs s) \<Longrightarrow> p j \<Longrightarrow> job_move j (f j)) \<Longrightarrow>
    store_write t s (s\<lparr>db_jobs := upd p f (db_jobs s)\<rparr>)"
| tool_add: "fresh_tool t x \<Longrightarrow> \<forall>y \<in> set (db_tools s). \<not> tool_clash y x \<Longrightarrow>
    store_write t s (s\<lparr>db_tools := db_tools s @ [x]\<rparr>)"
| tools: "(\<And>x. x \<in> set (db_tools s) \<Longrightarrow> p x \<Longrightarrow> tool_move t x (f x)) \<Longrightarrow>
    store_write t s (s\<lparr>db_tools := upd p f (db_tools s)\<rparr>)"

section \<open>Units of work\<close>

text \<open>
  What the other components write: their own tables, which the runtime sees only through things and
  sources and the users they add, the active things of the threads, jobs of other kinds, and any move
  of a job. \<open>claim_ready_jobs\<close>, which every worker shares, also requeues expired jobs of runs.
\<close>

definition same_runtime :: "db \<Rightarrow> db \<Rightarrow> bool" where
  "same_runtime s s' \<longleftrightarrow> (\<exists>g.
     s' = s\<lparr>db_users := db_users s', db_things := db_things s', db_sources := db_sources s',
       db_threads := rebind_threads g (db_threads s)\<rparr>)"

inductive outside_write :: "db \<Rightarrow> db \<Rightarrow> bool" where
  tables: "same_runtime s s' \<Longrightarrow> users_grow (db_users s) (db_users s') \<Longrightarrow> outside_write s s'"
| add_job: "fresh_other_job j \<Longrightarrow> \<forall>x \<in> set (db_jobs s). \<not> job_clash x j \<Longrightarrow>
    outside_write s (s\<lparr>db_jobs := db_jobs s @ [j]\<rparr>)"
| move_jobs: "(\<And>j. j \<in> set (db_jobs s) \<Longrightarrow> p j \<Longrightarrow> job_move j (f j)) \<Longrightarrow>
    outside_write s (s\<lparr>db_jobs := upd p f (db_jobs s)\<rparr>)"

abbreviation outside_writes :: "db \<Rightarrow> db \<Rightarrow> bool" where
  "outside_writes \<equiv> outside_write\<^sup>*\<^sup>*"

text \<open>
  The committed units of work: one rule per operation of the service that writes. \<open>e\<close> is the
  environment of the call. The units of work of the other components are \<open>outside\<close>, and so is
  the mutation run inside a tool completion; \<open>accounts\<close> is what the identity service writes of the
  users.
\<close>

inductive service_step :: "env \<Rightarrow> db \<Rightarrow> db \<Rightarrow> bool" for e where
  create_thread: "create_thread e uid title key tid s = Inr (v, s', fx) \<Longrightarrow> service_step e s s'"
| archive_thread: "archive_thread e uid tid s = Inr (v, s', fx) \<Longrightarrow> service_step e s s'"
| create_user_run: "create_user_run c e uid tid content srcs key s = Inr (v, s', fx) \<Longrightarrow>
    service_step e s s'"
| create_automation_run:
    "create_automation_run c e uid aid thing title text key s = Inr (v, s', fx) \<Longrightarrow>
    service_step e s s'"
| claim_agent_run_jobs: "claim_agent_run_jobs e owner lease limit s = Inr (v, s', fx) \<Longrightarrow>
    service_step e s s'"
| settle_agent_run_job: "settle_agent_run_job e claim owner code s = Inr (v, s', fx) \<Longrightarrow>
    service_step e s s'"
| renew_agent_run_job: "renew_agent_run_job e claim owner lease s = Inr (v, s', fx) \<Longrightarrow>
    service_step e s s'"
| recover_pending_runs: "recover_pending_runs c e limit s = Inr (v, s', fx) \<Longrightarrow>
    service_step e s s'"
| claim_run: "claim_run c e uid rid owner lease s = Inr (v, s', fx) \<Longrightarrow> service_step e s s'"
| renew_run_lease: "renew_run_lease e uid rid owner token lease s = Inr (v, s', fx) \<Longrightarrow>
    service_step e s s'"
| claim_tool_execution:
    "claim_tool_execution e uid rid action tool hash owner lease token safe key s = Inr (v, s', fx)
      \<Longrightarrow> service_step e s s'"
| complete_tool_execution:
    "complete_tool_execution show_json e uid rid action owner token result succeeded s
       = Inr (v, s', fx) \<Longrightarrow> service_step e s s'"
| complete_mutation_tool:
    "complete_mutation_tool show_json e uid rid action owner token tool mutate s
       = Inr (v, s', fx) \<Longrightarrow> (\<And>r s1. mutate s = Inr (r, s1) \<Longrightarrow> outside_writes s s1) \<Longrightarrow>
    service_step e s s'"
| reconcile_unknown_tool_execution:
    "reconcile_unknown_tool_execution show_json e uid rid action result succeeded request_id s
       = Inr (v, s', fx) \<Longrightarrow> service_step e s s'"
| resume_run: "resume_run c e uid rid iid response version key s = Inr (v, s', fx) \<Longrightarrow>
    service_step e s s'"
| cancel_run: "cancel_run e uid rid version key s = Inr (v, s', fx) \<Longrightarrow> service_step e s s'"
| emit_event: "emit_event c e uid rid type data s = Inr (v, s', fx) \<Longrightarrow> service_step e s s'"
| worker_transition:
    "worker_transition show_json c e uid rid action owner token s = Inr (v, s', fx) \<Longrightarrow>
    service_step e s s'"
| accept_terminal_output:
    "accept_terminal_output e uid rid output owner token s = Inr (v, s', fx) \<Longrightarrow>
    service_step e s s'"
| outside: "outside_writes s s' \<Longrightarrow> service_step e s s'"
| accounts: "service_step e s (s\<lparr>db_users := us\<rparr>)"

text \<open>A history is the list of the environments of the committed calls.\<close>

abbreviation history :: "env list \<Rightarrow> db \<Rightarrow> db \<Rightarrow> bool" where
  "history \<equiv> trace service_step"

definition reachable :: "db \<Rightarrow> bool" where
  "reachable s \<longleftrightarrow> (\<exists>es. history es empty_db s)"

end
