(* ===== verification/StateMachine.thy ===== *)
theory StateMachine
  imports StateService RuntimeMachine "HOL-Library.Sublist"
begin

text \<open>
  The abstract machine of the personal state. \<open>state_write\<close> says how one statement group of a
  mutation changes the store, \<open>state_ok\<close> is what every such change keeps, and every change is, on
  the tables the runtime shares, one that \<open>RuntimeMachine\<close> allows the other components
  (\<open>outside_write\<close>).
\<close>

section \<open>References\<close>

text \<open>A thing of the user that is not deleted, as \<open>things.get\<close> finds it; and one of any user.\<close>

definition live_for :: "store \<Rightarrow> uuid \<Rightarrow> uuid \<Rightarrow> bool" where
  "live_for s user_id tid \<longleftrightarrow> (\<exists>t \<in> set (st_things s). thing_id t = tid \<and> thing_user_id t = user_id
     \<and> thing_deleted_at t = None)"

definition live :: "store \<Rightarrow> uuid \<Rightarrow> bool" where
  "live s tid \<longleftrightarrow> (\<exists>t \<in> set (st_things s). thing_id t = tid \<and> thing_deleted_at t = None)"

lemma things_get_live: "things_get user_id tid (core s) \<noteq> None \<longleftrightarrow> live_for s user_id tid"
proof -
  have "things_get user_id tid (core s) = None \<longleftrightarrow> \<not> live_for s user_id tid"
    unfolding things_get_def live_for_def sel1_None by blast
  then show ?thesis
    by simp
qed

lemma things_getD:
  assumes "things_get user_id tid (core s) = Some t"
  shows "t \<in> set (st_things s)" "thing_id t = tid" "thing_user_id t = user_id"
    "thing_deleted_at t = None" "live_for s user_id tid"
  using sel1_SomeD [OF assms [unfolded things_get_def]] by (auto simp: live_for_def)

lemma live_for_live: "live_for s user_id tid \<Longrightarrow> live s tid"
  by (auto simp: live_for_def live_def)

text \<open>The current rows of a thing: what a deletion removes and a merge moves.\<close>

definition referred :: "store \<Rightarrow> uuid set" where
  "referred s = tdate_thing_id ` set (st_dates s) \<union> ctx_thing_id ` set (st_entries s)
     \<union> blk_thing_id ` set (st_blockers s) \<union> tsr_thing_id ` set (st_thing_sources s)
     \<union> rel_from_thing_id ` set (st_relations s) \<union> rel_to_thing_id ` set (st_relations s)
     \<union> {tid. Some tid \<in> task_thing_id ` set (st_tasks s)}"

definition clear_thing :: "uuid \<Rightarrow> store \<Rightarrow> store" where
  "clear_thing tid s = things_delete_owned_components tid (things_detach_tasks tid s)"

section \<open>Writes\<close>

inductive state_write :: "store \<Rightarrow> store \<Rightarrow> bool" where
  users: "state_write s (users_ensure now user_id s)"
| thing_add: "thing_id t \<notin> thing_id ` set (st_things s) \<Longrightarrow>
    state_write s (set_things (st_things s @ [t]) s)"
| thing_put: "t \<in> set (st_things s) \<Longrightarrow> thing_id t' = thing_id t \<Longrightarrow>
    (thing_deleted_at t' \<noteq> None \<Longrightarrow> thing_id t \<notin> referred s) \<Longrightarrow>
    state_write s
      (set_things (upd (\<lambda>x. thing_id x = thing_id t') (copy_thing t') (st_things s)) s)"
| clear: "state_write s (clear_thing tid s)"
| task_add: "task_id t \<notin> task_id ` set (st_tasks s) \<Longrightarrow> task_check t \<Longrightarrow>
    (\<And>tid. task_thing_id t = Some tid \<Longrightarrow> live_for s (task_user_id t) tid) \<Longrightarrow>
    state_write s (s\<lparr>st_tasks := st_tasks s @ [t]\<rparr>)"
| task_put: "t \<in> set (st_tasks s) \<Longrightarrow> task_id t' = task_id t \<Longrightarrow> (task_check t \<Longrightarrow> task_check t') \<Longrightarrow>
    state_write s
      (s\<lparr>st_tasks := upd (\<lambda>x. task_id x = task_id t') (copy_task t') (st_tasks s)\<rparr>)"
| entry_add: "ctx_id c \<notin> ctx_id ` set (st_entries s) \<Longrightarrow> live s (ctx_thing_id c) \<Longrightarrow>
    state_write s (s\<lparr>st_entries := st_entries s @ [c]\<rparr>)"
| entry_put: "state_write s
      (s\<lparr>st_entries := upd (\<lambda>x. ctx_id x = ctx_id c) (copy_entry c) (st_entries s)\<rparr>)"
| unset_primary: "state_write s (dates_unset_primary tid kind s)"
| date_add: "\<forall>x \<in> set (st_dates s). \<not> date_clash x d \<Longrightarrow> live s (tdate_thing_id d) \<Longrightarrow>
    state_write s (s\<lparr>st_dates := st_dates s @ [d]\<rparr>)"
| date_put: "clash_free primary_clash
      (upd (\<lambda>x. tdate_id x = tdate_id d) (copy_date d) (st_dates s)) \<Longrightarrow>
    state_write s
      (s\<lparr>st_dates := upd (\<lambda>x. tdate_id x = tdate_id d) (copy_date d) (st_dates s)\<rparr>)"
| blocker_add: "blk_id b \<notin> blk_id ` set (st_blockers s) \<Longrightarrow> live s (blk_thing_id b) \<Longrightarrow>
    (\<And>x. blk_task_id b = Some x \<Longrightarrow>
      \<exists>t \<in> set (st_tasks s). task_id t = x \<and> task_thing_id t = Some (blk_thing_id b)) \<Longrightarrow>
    state_write s (s\<lparr>st_blockers := st_blockers s @ [b]\<rparr>)"
| blocker_put: "state_write s
      (s\<lparr>st_blockers := upd (\<lambda>x. blk_id x = blk_id b) (copy_blocker b) (st_blockers s)\<rparr>)"
| relation_add: "live s (rel_from_thing_id r) \<Longrightarrow> live s (rel_to_thing_id r) \<Longrightarrow>
    rel_from_thing_id r \<noteq> rel_to_thing_id r \<Longrightarrow>
    state_write s (snd (relations_add r s))"
| rebind: "things_rebind_merged_references dup canon s = Inr s' \<Longrightarrow>
    live_for s uid dup \<Longrightarrow> live_for s uid canon \<Longrightarrow> state_write s s'"
| mutation: "\<forall>x \<in> set (st_mutations s). \<not> mutation_clash x m \<Longrightarrow>
    state_write s (s\<lparr>st_mutations := st_mutations s @ [m]\<rparr>)"
| event: "tle_id ev \<notin> tle_id ` set (st_timeline s) \<Longrightarrow>
    m \<in> set (st_mutations s) \<Longrightarrow> tle_mutation_id ev = Some (mut_id m) \<Longrightarrow>
    tle_user_id ev = mut_user_id m \<Longrightarrow>
    state_write s (s\<lparr>st_timeline := st_timeline s @ [ev]\<rparr>)"

abbreviation state_writes :: "store \<Rightarrow> store \<Rightarrow> bool" where
  "state_writes \<equiv> state_write\<^sup>*\<^sup>*"

section \<open>The invariant\<close>

definition state_keys :: "store \<Rightarrow> bool" where
  "state_keys s \<longleftrightarrow> keyed thing_id (st_things s) \<and> keyed task_id (st_tasks s)
   \<and> keyed tdate_id (st_dates s) \<and> keyed ctx_id (st_entries s) \<and> keyed blk_id (st_blockers s)
   \<and> keyed mut_id (st_mutations s) \<and> keyed mut_idempotency_key (st_mutations s)
   \<and> keyed tle_id (st_timeline s)
   \<and> keyed (\<lambda>r. (rel_from_thing_id r, rel_to_thing_id r, rel_relation_type r)) (st_relations s)"

text \<open>At most one primary date per thing and kind; the check constraint of recurring tasks.\<close>

definition state_rows :: "store \<Rightarrow> bool" where
  "state_rows s \<longleftrightarrow> clash_free primary_clash (st_dates s)
   \<and> (\<forall>t \<in> set (st_tasks s). task_check t)
   \<and> (\<forall>r \<in> set (st_relations s). rel_from_thing_id r \<noteq> rel_to_thing_id r)"

text \<open>
  No current row refers to a missing or deleted thing; a task belongs to a thing of its own user;
  the task a blocker names belongs to the thing that is blocked.
\<close>

definition state_refs :: "store \<Rightarrow> bool" where
  "state_refs s \<longleftrightarrow> (\<forall>tid \<in> referred s. live s tid)
   \<and> (\<forall>t \<in> set (st_tasks s). \<forall>tid. task_thing_id t = Some tid \<longrightarrow> live_for s (task_user_id t) tid)
   \<and> (\<forall>b \<in> set (st_blockers s). \<forall>x. blk_task_id b = Some x \<longrightarrow>
        (\<exists>t \<in> set (st_tasks s). task_id t = x \<and> task_thing_id t = Some (blk_thing_id b)))"

text \<open>Every event of a timeline belongs to a mutation of the same user.\<close>

definition audit_ok :: "store \<Rightarrow> bool" where
  "audit_ok s \<longleftrightarrow> (\<forall>ev \<in> set (st_timeline s). \<exists>m \<in> set (st_mutations s).
     tle_mutation_id ev = Some (mut_id m) \<and> tle_user_id ev = mut_user_id m)"

definition state_ok :: "store \<Rightarrow> bool" where
  "state_ok s \<longleftrightarrow> state_keys s \<and> state_rows s \<and> state_refs s \<and> audit_ok s"

lemma state_ok_empty [simp]: "state_ok empty_store"
  by (simp add: state_ok_def state_keys_def state_rows_def state_refs_def audit_ok_def referred_def
      empty_store_def empty_db_def)


section \<open>Every write keeps the invariant\<close>

lemma users_ensure_tables [simp]:
  "st_things (users_ensure now uid s) = st_things s" "st_tasks (users_ensure now uid s) = st_tasks s"
  "st_dates (users_ensure now uid s) = st_dates s" "st_entries (users_ensure now uid s) = st_entries s"
  "st_blockers (users_ensure now uid s) = st_blockers s"
  "st_relations (users_ensure now uid s) = st_relations s"
  "st_thing_sources (users_ensure now uid s) = st_thing_sources s"
  "st_mutations (users_ensure now uid s) = st_mutations s"
  "st_timeline (users_ensure now uid s) = st_timeline s"
  by (simp_all add: users_ensure_def users_ensure_exists_def)

lemma clear_tables [simp]:
  "core (clear_thing tid s) = core s" "st_mutations (clear_thing tid s) = st_mutations s"
  "st_timeline (clear_thing tid s) = st_timeline s"
  by (simp_all add: clear_thing_def things_delete_owned_components_def things_detach_tasks_def)

lemma unset_tables [simp]:
  "core (dates_unset_primary tid kind s) = core s"
  "st_tasks (dates_unset_primary tid kind s) = st_tasks s"
  "st_entries (dates_unset_primary tid kind s) = st_entries s"
  "st_blockers (dates_unset_primary tid kind s) = st_blockers s"
  "st_relations (dates_unset_primary tid kind s) = st_relations s"
  "st_thing_sources (dates_unset_primary tid kind s) = st_thing_sources s"
  "st_mutations (dates_unset_primary tid kind s) = st_mutations s"
  "st_timeline (dates_unset_primary tid kind s) = st_timeline s"
  by (simp_all add: dates_unset_primary_def)

lemma rebind_tables:
  assumes "things_rebind_merged_references dup canon s = Inr s'"
  shows "st_things s' = st_things s" "st_relations s' = st_relations s"
    "st_mutations s' = st_mutations s" "st_timeline s' = st_timeline s"
    "st_tasks s' = upd (\<lambda>t. task_thing_id t = Some dup) (\<lambda>t. t\<lparr>task_thing_id := Some canon\<rparr>) (st_tasks s)"
    "st_dates s' = upd (\<lambda>d. tdate_thing_id d = dup) (\<lambda>d. d\<lparr>tdate_thing_id := canon\<rparr>) (st_dates s)"
    "st_blockers s' = upd (\<lambda>b. blk_thing_id b = dup) (\<lambda>b. b\<lparr>blk_thing_id := canon\<rparr>) (st_blockers s)"
    "st_entries s' = upd (\<lambda>c. ctx_thing_id c = dup) (\<lambda>c. c\<lparr>ctx_thing_id := canon\<rparr>) (st_entries s)"
    "st_thing_sources s' = filter (\<lambda>x. tsr_thing_id x \<noteq> dup)
       (st_thing_sources s @ copied_sources dup canon (st_thing_sources s))"
    "core s' = (core s)\<lparr>db_threads := upd (\<lambda>x. thr_active_thing_id x = Some dup)
       (\<lambda>x. x\<lparr>thr_active_thing_id := Some canon\<rparr>) (db_threads (core s))\<rparr>"
    "clash_free primary_clash (st_dates s')"
  using assms by (auto simp: things_rebind_merged_references_def Let_def)

lemma relations_add_tables [simp]:
  "core (snd (relations_add r s)) = core s" "st_tasks (snd (relations_add r s)) = st_tasks s"
  "st_dates (snd (relations_add r s)) = st_dates s"
  "st_entries (snd (relations_add r s)) = st_entries s"
  "st_blockers (snd (relations_add r s)) = st_blockers s"
  "st_thing_sources (snd (relations_add r s)) = st_thing_sources s"
  "st_mutations (snd (relations_add r s)) = st_mutations s"
  "st_timeline (snd (relations_add r s)) = st_timeline s"
  by (simp_all add: relations_add_def)

lemma keyed_filter: "keyed k t \<Longrightarrow> keyed k (filter p t)"
  by (simp add: keyed_def distinct_map_filter)

lemmas keyed_puts = thing_rows.copy_key task_rows.copy_key date_rows.copy_key entry_rows.copy_key
  blocker_rows.copy_key

lemma state_write_keys: "state_write s s' \<Longrightarrow> state_keys s \<Longrightarrow> state_keys s'"
proof (induction rule: state_write.induct)
  case (clear s tid)
  then show ?case
    by (simp add: state_keys_def clear_thing_def things_delete_owned_components_def
        things_detach_tasks_def keyed_filter keyed_upd)
next
  case (unset_primary s tid kind)
  then show ?case
    by (simp add: state_keys_def dates_unset_primary_def keyed_upd)
next
  case (rebind dup canon s s' uid)
  then show ?case
    by (simp add: state_keys_def rebind_tables [OF rebind.hyps(1)] keyed_upd)
next
  case (relation_add s r)
  then show ?case
    by (auto simp: state_keys_def relations_add_def)
next
  case (date_add s d)
  then show ?case
    by (auto simp: state_keys_def date_clash_def)
next
  case (mutation s m)
  then show ?case
    by (auto simp: state_keys_def mutation_clash_def)
qed (simp_all add: state_keys_def keyed_upd keyed_puts)

lemma clash_free_filter: "clash_free c t \<Longrightarrow> clash_free c (filter p t)"
  by (induction t) auto

lemma clash_free_weaken:
  assumes "clash_free c t" "\<And>x y. c (f x) (f y) \<Longrightarrow> c x y"
  shows "clash_free c (map f t)"
  using assms by (induction t) auto

lemma primary_free_unset:
  assumes "clash_free primary_clash t"
  shows "clash_free primary_clash (upd p (\<lambda>d. d\<lparr>tdate_is_primary := False\<rparr>) t)"
  unfolding upd_def
  by (rule clash_free_weaken [OF assms]) (auto simp: primary_clash_def split: if_splits)

lemma task_check_simps [simp]:
  "task_check (t\<lparr>task_thing_id := th\<rparr>) = task_check t" "task_check (copy_task x t) = task_check x"
  by (simp_all add: task_check_def copy_task_def cong: option.case_cong)

lemma state_write_rows: "state_write s s' \<Longrightarrow> state_rows s \<Longrightarrow> state_rows s'"
proof (induction rule: state_write.induct)
  case (clear s tid)
  then show ?case
    by (auto simp: state_rows_def clear_thing_def things_delete_owned_components_def
        things_detach_tasks_def clash_free_filter set_upd)
next
  case (task_put t s t')
  then have "task_check t'"
    by (simp add: state_rows_def)
  with task_put show ?case
    by (auto simp: state_rows_def set_upd)
next
  case (unset_primary s tid kind)
  then show ?case
    by (simp add: state_rows_def dates_unset_primary_def primary_free_unset)
next
  case (date_add s d)
  then show ?case
    by (auto simp: state_rows_def date_clash_def primary_clash_def)
next
  case (rebind dup canon s s' uid)
  then show ?case
    by (auto simp: state_rows_def rebind_tables [OF rebind.hyps(1)] set_upd
        intro: rebind_tables(11) [OF rebind.hyps(1), unfolded rebind_tables(6) [OF rebind.hyps(1)]])
next
  case (relation_add s r)
  then show ?case
    by (auto simp: state_rows_def relations_add_def)
qed (simp_all add: state_rows_def)

lemma state_write_audit: "state_write s s' \<Longrightarrow> audit_ok s \<Longrightarrow> audit_ok s'"
proof (induction rule: state_write.induct)
  case (rebind dup canon s s' uid)
  then show ?case
    by (simp add: audit_ok_def rebind_tables [OF rebind.hyps(1)])
qed (auto simp: audit_ok_def)

subsection \<open>References\<close>

lemma live_cong: "st_things s' = st_things s \<Longrightarrow> live s' tid = live s tid"
  and live_for_cong: "st_things s' = st_things s \<Longrightarrow> live_for s' uid tid = live_for s uid tid"
  by (simp_all add: live_def live_for_def)

lemma live_frames [simp]:
  "live (s\<lparr>st_thing_sources := x_st_thing_sources\<rparr>) tid = live s tid"
  "live_for (s\<lparr>st_thing_sources := x_st_thing_sources\<rparr>) uid tid = live_for s uid tid"
  "live (s\<lparr>st_tasks := x_st_tasks\<rparr>) tid = live s tid"
  "live_for (s\<lparr>st_tasks := x_st_tasks\<rparr>) uid tid = live_for s uid tid"
  "live (s\<lparr>st_dates := x_st_dates\<rparr>) tid = live s tid"
  "live_for (s\<lparr>st_dates := x_st_dates\<rparr>) uid tid = live_for s uid tid"
  "live (s\<lparr>st_entries := x_st_entries\<rparr>) tid = live s tid"
  "live_for (s\<lparr>st_entries := x_st_entries\<rparr>) uid tid = live_for s uid tid"
  "live (s\<lparr>st_blockers := x_st_blockers\<rparr>) tid = live s tid"
  "live_for (s\<lparr>st_blockers := x_st_blockers\<rparr>) uid tid = live_for s uid tid"
  "live (s\<lparr>st_relations := x_st_relations\<rparr>) tid = live s tid"
  "live_for (s\<lparr>st_relations := x_st_relations\<rparr>) uid tid = live_for s uid tid"
  "live (s\<lparr>st_mutations := x_st_mutations\<rparr>) tid = live s tid"
  "live_for (s\<lparr>st_mutations := x_st_mutations\<rparr>) uid tid = live_for s uid tid"
  "live (s\<lparr>st_timeline := x_st_timeline\<rparr>) tid = live s tid"
  "live_for (s\<lparr>st_timeline := x_st_timeline\<rparr>) uid tid = live_for s uid tid"
  "live (clear_thing t s) tid = live s tid" "live_for (clear_thing t s) uid tid = live_for s uid tid"
  by (simp_all add: live_def live_for_def)

lemma live_for_user_unique:
  "keyed thing_id (st_things s) \<Longrightarrow> live_for s uid tid \<Longrightarrow> live_for s uid' tid \<Longrightarrow> uid' = uid"
  by (auto simp: live_for_def dest: keyed_unique)

text \<open>The things of a table whose tid is not deleted by an update stay live.\<close>

lemma live_put:
  assumes "live s tid" "keyed thing_id (st_things s)" "t \<in> set (st_things s)" "thing_id t' = thing_id t"
    "thing_deleted_at t' \<noteq> None \<longrightarrow> thing_id t \<noteq> tid"
  shows "live (set_things (upd (\<lambda>x. thing_id x = thing_id t') (copy_thing t') (st_things s)) s) tid"
proof -
  obtain x where x: "x \<in> set (st_things s)" "thing_id x = tid" "thing_deleted_at x = None"
    using assms(1) by (auto simp: live_def)
  let ?y = "if thing_id x = thing_id t' then copy_thing t' x else x"
  have "?y \<in> set (upd (\<lambda>x. thing_id x = thing_id t') (copy_thing t') (st_things s))"
    using x(1) by (auto simp: set_upd)
  moreover have "thing_id ?y = tid" "thing_deleted_at ?y = None"
    using x assms(4,5) by (auto simp: copy_thing_def)
  ultimately show ?thesis
    by (auto simp: live_def)
qed

lemma live_for_put:
  assumes "live_for s uid tid" "t \<in> set (st_things s)" "thing_id t' = thing_id t"
    "thing_deleted_at t' \<noteq> None \<longrightarrow> thing_id t \<noteq> tid"
  shows "live_for (set_things (upd (\<lambda>x. thing_id x = thing_id t') (copy_thing t') (st_things s)) s) uid tid"
proof -
  obtain x where x: "x \<in> set (st_things s)" "thing_id x = tid" "thing_user_id x = uid"
      "thing_deleted_at x = None"
    using assms(1) by (auto simp: live_for_def)
  let ?y = "if thing_id x = thing_id t' then copy_thing t' x else x"
  have "?y \<in> set (upd (\<lambda>x. thing_id x = thing_id t') (copy_thing t') (st_things s))"
    using x(1) by (auto simp: set_upd)
  moreover have "thing_id ?y = tid" "thing_deleted_at ?y = None" "thing_user_id ?y = uid"
    using x assms(3,4) by (auto simp: copy_thing_def)
  ultimately show ?thesis
    unfolding live_for_def by (intro bexI [of _ ?y]) simp_all
qed

lemma referred_set_things [simp]: "referred (set_things ts s) = referred s"
  by (simp add: referred_def)

lemma referred_task: "t \<in> set (st_tasks s) \<Longrightarrow> task_thing_id t = Some tid \<Longrightarrow> tid \<in> referred s"
proof -
  assume "t \<in> set (st_tasks s)" "task_thing_id t = Some tid"
  then have "Some tid \<in> task_thing_id ` set (st_tasks s)"
    by (metis image_eqI)
  then show ?thesis
    by (simp add: referred_def)
qed

lemma referred_blocker: "b \<in> set (st_blockers s) \<Longrightarrow> blk_thing_id b \<in> referred s"
  unfolding referred_def by blast

text \<open>A write that only replaces rows in place, keeping what they refer to, refers to no more.\<close>

lemma image_upd_eq: "(\<And>x. p x \<Longrightarrow> k (f x) = k x) \<Longrightarrow> k ` set (upd p f t) = k ` set t"
  unfolding set_upd image_image by (rule image_cong) auto

lemma copy_refs [simp]:
  "task_thing_id (copy_task x t) = task_thing_id t" "task_user_id (copy_task x t) = task_user_id t"
  "task_id (copy_task x t) = task_id t"
  "ctx_thing_id (copy_entry c d) = ctx_thing_id d" "tdate_thing_id (copy_date v w) = tdate_thing_id w"
  "blk_thing_id (copy_blocker a b) = blk_thing_id b" "blk_task_id (copy_blocker a b) = blk_task_id b"
  by (simp_all add: copy_task_def copy_entry_def copy_date_def copy_blocker_def)

lemma referred_clear: "referred (clear_thing tid s) \<subseteq> referred s - {tid}"
  by (auto simp: referred_def clear_thing_def things_delete_owned_components_def
      things_detach_tasks_def set_upd split: if_splits)

lemma referred_rebind:
  assumes "things_rebind_merged_references dup canon s = Inr s'"
  shows "referred s' \<subseteq> referred s \<union> {canon}"
  unfolding referred_def rebind_tables [OF assms]
  by (auto simp: set_upd copied_sources_def sel_def split: if_splits)

lemma state_refsI:
  assumes "\<And>tid. tid \<in> referred s \<Longrightarrow> live s tid"
    "\<And>t tid. t \<in> set (st_tasks s) \<Longrightarrow> task_thing_id t = Some tid \<Longrightarrow> live_for s (task_user_id t) tid"
    "\<And>b x. b \<in> set (st_blockers s) \<Longrightarrow> blk_task_id b = Some x \<Longrightarrow>
      \<exists>t \<in> set (st_tasks s). task_id t = x \<and> task_thing_id t = Some (blk_thing_id b)"
  shows "state_refs s"
  using assms by (simp add: state_refs_def)

lemma blocker_task:
  assumes "state_refs s" "b \<in> set (st_blockers s)" "blk_task_id b = Some x"
  obtains t where "t \<in> set (st_tasks s)" "task_id t = x" "task_thing_id t = Some (blk_thing_id b)"
  using assms unfolding state_refs_def by blast

text \<open>Writes outside tasks, blockers and things: only the referred things matter.\<close>

lemma state_refs_same:
  assumes "state_refs s" "st_things s' = st_things s" "st_tasks s' = st_tasks s"
    "st_blockers s' = st_blockers s" "\<And>tid. tid \<in> referred s' \<Longrightarrow> tid \<in> referred s \<or> live s tid"
  shows "state_refs s'"
proof -
  have "live s' tid = live s tid" "live_for s' uid tid = live_for s uid tid" for tid uid
    using assms(2) by (simp_all add: live_def live_for_def)
  then show ?thesis
    using assms(1) assms(5) by (simp add: state_refs_def assms(3,4)) blast
qed

lemma state_write_refs:
  assumes "state_write s s'" "state_keys s" "state_refs s"
  shows "state_refs s'"
  using assms
proof (induction rule: state_write.induct)
  case (thing_add t s)
  then show ?case
    by (auto simp: state_refs_def live_def live_for_def)
next
  case (thing_put t s t')
  note put = thing_put.hyps(1,2)
  have del: "thing_deleted_at t' \<noteq> None \<longrightarrow> thing_id t \<noteq> tid" if "tid \<in> referred s" for tid
    using thing_put.hyps(3) that by blast
  show ?case
  proof (rule state_refsI)
    fix tid assume "tid \<in> referred (set_things (upd (\<lambda>x. thing_id x = thing_id t') (copy_thing t')
        (st_things s)) s)"
    then show "live (set_things (upd (\<lambda>x. thing_id x = thing_id t') (copy_thing t') (st_things s)) s) tid"
      using thing_put.prems put del by (intro live_put) (auto simp: state_refs_def state_keys_def)
  next
    fix x tid assume "x \<in> set (st_tasks (set_things (upd (\<lambda>x. thing_id x = thing_id t')
        (copy_thing t') (st_things s)) s))" and th: "task_thing_id x = Some tid"
    then have x: "x \<in> set (st_tasks s)"
      by simp
    show "live_for (set_things (upd (\<lambda>x. thing_id x = thing_id t') (copy_thing t') (st_things s)) s)
        (task_user_id x) tid"
      using thing_put.prems(2) put del [OF referred_task [OF x th]] x th
      by (intro live_for_put) (auto simp: state_refs_def)
  qed (use thing_put.prems in \<open>simp add: state_refs_def\<close>)
next
  case (clear s tid)
  show ?case
  proof (rule state_refsI)
    fix t assume "t \<in> referred (clear_thing tid s)"
    then show "live (clear_thing tid s) t"
      using clear.prems referred_clear by (auto simp: state_refs_def)
  next
    fix x th assume "x \<in> set (st_tasks (clear_thing tid s))" "task_thing_id x = Some th"
    then show "live_for (clear_thing tid s) (task_user_id x) th"
      using clear.prems
      by (auto simp: state_refs_def clear_thing_def set_upd
          things_delete_owned_components_def things_detach_tasks_def split: if_splits)
  next
    fix b x assume "b \<in> set (st_blockers (clear_thing tid s))" "blk_task_id b = Some x"
    then have b: "b \<in> set (st_blockers s)" "blk_thing_id b \<noteq> tid" "blk_task_id b = Some x"
      by (auto simp: clear_thing_def things_delete_owned_components_def things_detach_tasks_def)
    then obtain t where "t \<in> set (st_tasks s)" "task_id t = x" "task_thing_id t = Some (blk_thing_id b)"
      using blocker_task [OF clear.prems(2)] by metis
    with b(2) show "\<exists>t \<in> set (st_tasks (clear_thing tid s)). task_id t = x \<and>
        task_thing_id t = Some (blk_thing_id b)"
      by (auto simp: clear_thing_def things_delete_owned_components_def things_detach_tasks_def
          set_upd intro!: image_eqI [of _ _ t] bexI [of _ t])
  qed
next
  case (task_add t s)
  show ?case
  proof (rule state_refsI)
    fix x assume "x \<in> referred (s\<lparr>st_tasks := st_tasks s @ [t]\<rparr>)"
    then have "x \<in> referred s \<or> task_thing_id t = Some x"
      by (auto simp: referred_def)
    then show "live (s\<lparr>st_tasks := st_tasks s @ [t]\<rparr>) x"
      using task_add by (auto simp: state_refs_def dest: live_for_live)
  qed (use task_add in \<open>fastforce simp: state_refs_def\<close>)+
next
  case (task_put t s t')
  let ?s = "s\<lparr>st_tasks := upd (\<lambda>x. task_id x = task_id t') (copy_task t') (st_tasks s)\<rparr>"
  have same: "task_thing_id ` set (st_tasks ?s) = task_thing_id ` set (st_tasks s)"
    by (simp add: image_upd_eq)
  show ?case
  proof (rule state_refsI)
    fix x assume "x \<in> referred ?s"
    then show "live ?s x"
      using task_put.prems(2) same by (auto simp: referred_def state_refs_def)
  next
    fix x th assume "x \<in> set (st_tasks ?s)" "task_thing_id x = Some th"
    then show "live_for ?s (task_user_id x) th"
      using task_put.prems(2)
      by (auto simp: state_refs_def set_upd split: if_splits)
  next
    fix b x assume "b \<in> set (st_blockers ?s)" "blk_task_id b = Some x"
    then have "b \<in> set (st_blockers s)" "blk_task_id b = Some x"
      by simp_all
    then obtain y where "y \<in> set (st_tasks s)" "task_id y = x" "task_thing_id y = Some (blk_thing_id b)"
      by (rule blocker_task [OF task_put.prems(2)])
    then show "\<exists>t \<in> set (st_tasks ?s). task_id t = x \<and> task_thing_id t = Some (blk_thing_id b)"
      by (intro bexI [of _ "if task_id y = task_id t' then copy_task t' y else y"])
         (auto simp: set_upd)
  qed
next
  case (blocker_add b s)
  show ?case
  proof (rule state_refsI)
    fix x assume "x \<in> referred (s\<lparr>st_blockers := st_blockers s @ [b]\<rparr>)"
    then show "live (s\<lparr>st_blockers := st_blockers s @ [b]\<rparr>) x"
      using blocker_add by (auto simp: referred_def state_refs_def)
  qed (use blocker_add in \<open>auto simp: state_refs_def\<close>)
next
  case (blocker_put s b)
  let ?s = "s\<lparr>st_blockers := upd (\<lambda>x. blk_id x = blk_id b) (copy_blocker b) (st_blockers s)\<rparr>"
  have same: "blk_thing_id ` set (st_blockers ?s) = blk_thing_id ` set (st_blockers s)"
    by (simp add: image_upd_eq)
  show ?case
  proof (rule state_refsI)
    fix x assume "x \<in> referred ?s"
    then show "live ?s x"
      using blocker_put.prems(2) same by (auto simp: referred_def state_refs_def)
  next
    fix c x assume "c \<in> set (st_blockers ?s)" "blk_task_id c = Some x"
    then show "\<exists>t \<in> set (st_tasks ?s). task_id t = x \<and> task_thing_id t = Some (blk_thing_id c)"
      using blocker_put.prems(2) by (auto simp: state_refs_def set_upd split: if_splits)
  qed (use blocker_put.prems in \<open>auto simp: state_refs_def\<close>)
next
  case (rebind dup canon s s' uid)
  note tabs = rebind_tables [OF rebind.hyps(1)]
  have lv: "live s' x = live s x" "live_for s' y x = live_for s y x" for x y
    by (rule live_cong [OF tabs(1)], rule live_for_cong [OF tabs(1)])
  show ?case
  proof (rule state_refsI)
    fix x assume "x \<in> referred s'"
    then consider "x \<in> referred s" | "x = canon"
      using referred_rebind [OF rebind.hyps(1)] by blast
    then have "live s x"
      using rebind.prems(2) live_for_live [OF rebind.hyps(3)] by cases (simp_all add: state_refs_def)
    then show "live s' x"
      by (simp add: lv(1))
  next
    fix x th assume x: "x \<in> set (st_tasks s')" "task_thing_id x = Some th"
    then obtain y where y: "y \<in> set (st_tasks s)" "x = (if task_thing_id y = Some dup
        then y\<lparr>task_thing_id := Some canon\<rparr> else y)"
      by (auto simp: tabs set_upd)
    show "live_for s' (task_user_id x) th"
    proof (cases "task_thing_id y = Some dup")
      case True
      then have "live_for s (task_user_id y) dup"
        using y(1) rebind.prems(2) by (auto simp: state_refs_def)
      then have "task_user_id y = uid"
        using live_for_user_unique [of s uid dup] rebind by (simp add: state_keys_def)
      with True x y rebind.hyps(3) show ?thesis
        by (simp add: lv)
    next
      case False
      with x y rebind.prems(2) show ?thesis
        by (auto simp: lv state_refs_def)
    qed
  next
    fix b x assume "b \<in> set (st_blockers s')" "blk_task_id b = Some x"
    then obtain c where c: "c \<in> set (st_blockers s)" "blk_task_id c = Some x"
        "b = (if blk_thing_id c = dup then c\<lparr>blk_thing_id := canon\<rparr> else c)"
      by (auto simp: tabs set_upd split: if_splits)
    obtain t where t: "t \<in> set (st_tasks s)" "task_id t = x" "task_thing_id t = Some (blk_thing_id c)"
      by (rule blocker_task [OF rebind.prems(2) c(1,2)])
    show "\<exists>t \<in> set (st_tasks s'). task_id t = x \<and> task_thing_id t = Some (blk_thing_id b)"
      using t c(3)
      by (intro bexI [of _ "if task_thing_id t = Some dup then t\<lparr>task_thing_id := Some canon\<rparr> else t"])
         (auto simp: tabs set_upd)
  qed
next
  case (relation_add s r)
  have same: "st_things (snd (relations_add r s)) = st_things s"
    by simp
  have "x \<in> referred s \<or> live s x" if "x \<in> referred (snd (relations_add r s))" for x
    using that relation_add.hyps by (auto simp: referred_def relations_add_def split: if_splits)
  then show ?case
    by (intro state_refs_same [OF relation_add.prems(2) same]) simp_all
next
  case (entry_add c s)
  then show ?case
    by (intro state_refs_same [OF entry_add.prems(2)]) (auto simp: referred_def)
next
  case (entry_put s c)
  have "ctx_thing_id ` set (upd (\<lambda>x. ctx_id x = ctx_id c) (copy_entry c) (st_entries s)) =
      ctx_thing_id ` set (st_entries s)"
    by (simp add: image_upd_eq)
  then show ?case
    by (intro state_refs_same [OF entry_put.prems(2)]) (auto simp: referred_def)
next
  case (unset_primary s tid kind)
  have "tdate_thing_id ` set (st_dates (dates_unset_primary tid kind s)) =
      tdate_thing_id ` set (st_dates s)"
    by (simp add: image_upd_eq dates_unset_primary_def)
  then show ?case
    by (intro state_refs_same [OF unset_primary.prems(2)]) (auto simp: referred_def)
next
  case (date_add s d)
  then show ?case
    by (intro state_refs_same [OF date_add.prems(2)]) (auto simp: referred_def)
next
  case (date_put d s)
  have "tdate_thing_id ` set (upd (\<lambda>x. tdate_id x = tdate_id d) (copy_date d) (st_dates s)) =
      tdate_thing_id ` set (st_dates s)"
    by (simp add: image_upd_eq)
  then show ?case
    by (intro state_refs_same [OF date_put.prems(2)]) (auto simp: referred_def)
qed (auto intro: state_refs_same simp: referred_def)

theorem state_write_ok: "state_write s s' \<Longrightarrow> state_ok s \<Longrightarrow> state_ok s'"
  by (simp add: state_ok_def state_write_keys state_write_rows state_write_refs state_write_audit)

lemma state_writes_ok: "state_writes s s' \<Longrightarrow> state_ok s \<Longrightarrow> state_ok s'"
  by (induction rule: rtranclp_induct) (auto intro: state_write_ok)

section \<open>What the runtime sees\<close>

lemma rebind_threads_id [simp]: "rebind_threads thr_active_thing_id ts = ts"
  by (simp add: rebind_threads_def)

lemma same_runtimeI:
  assumes "c' = c\<lparr>db_users := us, db_things := ts\<rparr>"
  shows "same_runtime c c'"
  unfolding same_runtime_def assms by (intro exI [of _ thr_active_thing_id]) simp

lemma same_runtime_refl [simp]: "same_runtime c c"
  by (rule same_runtimeI [where us = "db_users c" and ts = "db_things c"]) simp

lemma state_write_core: "state_write s s' \<Longrightarrow> outside_write (core s) (core s')"
proof (induction rule: state_write.induct)
  case (users s now user_id)
  show ?case
    by (intro outside_write.tables same_runtimeI [where ts = "st_things s"
          and us = "db_users (core (users_ensure now user_id s))"])
      (simp_all add: users_ensure_def users_ensure_grow, simp add: users_ensure_exists_def)
next
  case (rebind dup canon s s' uid)
  have "same_runtime (core s) (core s')"
    unfolding same_runtime_def rebind_tables [OF rebind.hyps(1)]
    by (intro exI [of _ "\<lambda>x. if thr_active_thing_id x = Some dup then Some canon else thr_active_thing_id x"])
       (simp add: rebind_threads_def upd_def cong: if_cong)
  then show ?case
    by (rule outside_write.tables) (simp add: rebind_tables [OF rebind.hyps(1)])
next
  case (thing_add t s)
  show ?case
    by (intro outside_write.tables same_runtimeI [where us = "db_users (core s)" and ts = "st_things s @ [t]"]) simp_all
next
  case (thing_put t s t')
  show ?case
    by (intro outside_write.tables same_runtimeI [where us = "db_users (core s)" and
        ts = "upd (\<lambda>x. thing_id x = thing_id t') (copy_thing t') (st_things s)"]) simp_all
qed (auto intro: outside_write.tables)

lemma state_writes_core: "state_writes s s' \<Longrightarrow> outside_writes (core s) (core s')"
  by (induction rule: rtranclp_induct) (auto intro: rtranclp.rtrancl_into_rtrancl state_write_core)

text \<open>The audit trail only grows; so do the tables of things and tasks, which nothing removes.\<close>

definition audit_grows :: "store \<Rightarrow> store \<Rightarrow> bool" where
  "audit_grows s s' \<longleftrightarrow> prefix (st_mutations s) (st_mutations s')
   \<and> prefix (st_timeline s) (st_timeline s')
   \<and> (\<lambda>t. (thing_id t, thing_user_id t)) ` set (st_things s) \<subseteq>
       (\<lambda>t. (thing_id t, thing_user_id t)) ` set (st_things s')
   \<and> (\<lambda>t. (task_id t, task_user_id t)) ` set (st_tasks s) \<subseteq>
       (\<lambda>t. (task_id t, task_user_id t)) ` set (st_tasks s')"

lemma audit_grows_refl [simp]: "audit_grows s s"
  by (simp add: audit_grows_def)

lemma audit_grows_trans:
  assumes "audit_grows s s'" "audit_grows s' s''"
  shows "audit_grows s s''"
  using assms unfolding audit_grows_def
  by (meson prefix_order.trans subset_trans)

lemma copy_thing_owner [simp]:
  "thing_id (copy_thing x t) = thing_id t" "thing_user_id (copy_thing x t) = thing_user_id t"
  by (simp_all add: copy_thing_def)

lemma state_write_grows: "state_write s s' \<Longrightarrow> audit_grows s s'"
proof (induction rule: state_write.induct)
  case (rebind dup canon s s' uid)
  show ?case
    unfolding audit_grows_def rebind_tables [OF rebind.hyps(1)] by (simp add: image_upd_eq)
next
  case (clear s tid)
  then show ?case
    by (simp add: audit_grows_def clear_thing_def things_delete_owned_components_def
        things_detach_tasks_def image_upd_eq)
next
  case (thing_put t s t')
  then show ?case
    by (simp add: audit_grows_def image_upd_eq)
next
  case (task_put t s t')
  then show ?case
    by (simp add: audit_grows_def image_upd_eq)
next
  case (task_add t s)
  then show ?case
    by (auto simp: audit_grows_def)
qed (auto simp: audit_grows_def)

lemma state_writes_grow: "state_writes s s' \<Longrightarrow> audit_grows s s'"
  by (induction rule: rtranclp_induct) (auto intro: audit_grows_trans state_write_grows)

lemma audit_get_mutation_iff:
  assumes "keyed mut_idempotency_key (st_mutations s)"
  shows "audit_get_mutation uid key s = Some m \<longleftrightarrow>
    m \<in> set (st_mutations s) \<and> mut_user_id m = uid \<and> mut_idempotency_key m = key"
  unfolding audit_get_mutation_def
  by (subst sel1_keyed [OF assms, of _ key])
     (auto split: option.splits dest: row_Some keyed_unique [OF assms] simp: row_None keyed_row [OF assms])

lemma audit_get_mutation_grows:
  assumes "audit_grows s s'" "audit_get_mutation uid key s = Some m"
  shows "audit_get_mutation uid key s' = Some m"
  using assms by (auto simp: audit_grows_def audit_get_mutation_def prefix_def sel1_append)

end
