(* ===== verification/StateRefinement.thy ===== *)
theory StateRefinement
  imports StateMachine
begin

text \<open>
  The mutations, one by one: each is a replay that changes nothing, or writes the tables and then
  records exactly one mutation under its key, with at most one event.
\<close>

lemma case_prod_Inr: "(case p of (a, b) \<Rightarrow> f a b) = Inr r \<longleftrightarrow> (\<exists>a b. p = (a, b) \<and> f a b = Inr r)"
  by (cases p) simp

lemma guard_Inr: "(if c then Inl x else y) = Inr r \<longleftrightarrow> \<not> c \<and> y = Inr r"
  by simp

section \<open>Reports\<close>

definition replays :: "uuid \<Rightarrow> str \<Rightarrow> store \<Rightarrow> WriteOutcome \<Rightarrow> store \<Rightarrow> bool" where
  "replays user_id key s out s' \<longleftrightarrow> s' = s \<and> wo_replayed out \<and>
     (\<exists>m. audit_get_mutation user_id key s = Some m \<and> wo_mutation_id out = Some (mut_id m))"

definition records :: "uuid \<Rightarrow> str \<Rightarrow> store \<Rightarrow> WriteOutcome \<Rightarrow> store \<Rightarrow> bool" where
  "records user_id key s out s' \<longleftrightarrow> \<not> wo_replayed out \<and> audit_get_mutation user_id key s = None \<and>
     (\<exists>m. st_mutations s' = st_mutations s @ [m] \<and> mut_user_id m = user_id \<and>
        mut_idempotency_key m = key \<and> wo_mutation_id out = Some (mut_id m) \<and>
        (st_timeline s' = st_timeline s \<or>
         (\<exists>ev. st_timeline s' = st_timeline s @ [ev] \<and> tle_mutation_id ev = Some (mut_id m))))"

definition event_of :: "StateMutation \<Rightarrow> TimelineEvent option \<Rightarrow> bool" where
  "event_of m ev \<longleftrightarrow> (\<forall>x. ev = Some x \<longrightarrow> tle_mutation_id x = Some (mut_id m) \<and>
     tle_user_id x = mut_user_id m)"

lemma event_of_simps [simp]:
  "event_of m None" "event_of m (Some x) \<longleftrightarrow> tle_mutation_id x = Some (mut_id m) \<and> tle_user_id x = mut_user_id m"
  "event_of m (map_option f th) \<longleftrightarrow> (\<forall>x. th = Some x \<longrightarrow> tle_mutation_id (f x) = Some (mut_id m) \<and>
     tle_user_id (f x) = mut_user_id m)"
  by (auto simp: event_of_def)

lemma record_audit_writes:
  assumes "record_audit m ev s = Inr s'" "event_of m ev"
  shows "state_writes s s'"
proof -
  obtain s1 where s1: "audit_add_mutation m s = Inr s1"
    using assms(1) by (auto simp: record_audit_def)
  then have "s1 = s\<lparr>st_mutations := st_mutations s @ [m]\<rparr>" "\<forall>x \<in> set (st_mutations s). \<not> mutation_clash x m"
    by (auto simp: audit_add_mutation_def)
  then have w: "state_write s s1" and m: "m \<in> set (st_mutations s1)"
    by (auto intro: state_write.mutation)
  show ?thesis
  proof (cases ev)
    case None
    with assms s1 w show ?thesis
      by (auto simp: record_audit_def)
  next
    case (Some x)
    then have "audit_add_timeline_event x s1 = Inr s'"
      using assms(1) s1 by (simp add: record_audit_def)
    then have "state_write s1 s'"
      using m assms(2) Some by (auto simp: audit_add_timeline_event_def intro!: state_write.event)
    with w show ?thesis
      by (rule converse_rtranclp_into_rtranclp [OF _ r_into_rtranclp])
  qed
qed

lemma record_audit_tables:
  assumes "record_audit m ev s = Inr s'"
  shows "st_mutations s' = st_mutations s @ [m]"
    "st_timeline s' = st_timeline s @ (case ev of None \<Rightarrow> [] | Some x \<Rightarrow> [x])"
    "s' = s\<lparr>st_mutations := st_mutations s', st_timeline := st_timeline s'\<rparr>"
  using assms
  by (auto simp: record_audit_def audit_add_mutation_def audit_add_timeline_event_def
      split: option.splits)

text \<open>What a mutation does before it records itself leaves the audit trail alone.\<close>

definition unaudited :: "store \<Rightarrow> store \<Rightarrow> bool" where
  "unaudited s s1 \<longleftrightarrow> state_writes s s1 \<and> st_mutations s1 = st_mutations s \<and> st_timeline s1 = st_timeline s"

lemma unaudited_refl [simp]: "unaudited s s"
  by (simp add: unaudited_def)

lemma unaudited_step:
  "unaudited s s1 \<Longrightarrow> state_write s1 s2 \<Longrightarrow> st_mutations s2 = st_mutations s1 \<Longrightarrow>
    st_timeline s2 = st_timeline s1 \<Longrightarrow> unaudited s s2"
  by (auto simp: unaudited_def intro: rtranclp.rtrancl_into_rtrancl)

lemmas unaudited_one = unaudited_step [OF unaudited_refl]

lemma unaudited_trans: "unaudited s s1 \<Longrightarrow> unaudited s1 s2 \<Longrightarrow> unaudited s s2"
  by (auto simp: unaudited_def)

lemma unaudited_users: "unaudited s (users_ensure now uid s)"
  by (rule unaudited_one [OF state_write.users]) simp_all

lemma unaudited_clear: "unaudited s (clear_thing tid s)"
  by (rule unaudited_one [OF state_write.clear]) simp_all

lemma unaudited_unset: "unaudited s (dates_unset_primary tid kind s)"
  by (rule unaudited_one [OF state_write.unset_primary]) simp_all

text \<open>The two ways a mutation succeeds.\<close>

definition audited :: "uuid \<Rightarrow> str \<Rightarrow> store \<Rightarrow> WriteOutcome \<Rightarrow> store \<Rightarrow> bool" where
  "audited user_id key s out s' \<longleftrightarrow>
     state_writes s s' \<and> (replays user_id key s out s' \<or> records user_id key s out s')"

lemma audited_replay:
  assumes "audit_get_mutation user_id key s = Some m" "wo_replayed out" "wo_mutation_id out = Some (mut_id m)"
  shows "audited user_id key s out s"
  using assms by (simp add: audited_def replays_def)

lemma audited_record:
  assumes "audit_get_mutation user_id key s = None" "unaudited s s1" "record_audit m ev s1 = Inr s'"
    "event_of m ev" "mut_user_id m = user_id" "mut_idempotency_key m = key"
    "\<not> wo_replayed out" "wo_mutation_id out = Some (mut_id m)"
  shows "audited user_id key s out s'"
proof -
  have "state_writes s s'"
    using rtranclp_trans [OF _ record_audit_writes [OF assms(3,4)]] assms(2)
    by (simp add: unaudited_def)
  moreover have "records user_id key s out s'"
    using record_audit_tables(1,2) [OF assms(3)] assms
    by (cases ev) (auto simp: records_def unaudited_def)
  ultimately show ?thesis
    by (simp add: audited_def)
qed

section \<open>Optimistic updates as writes\<close>

lemma things_updateD:
  assumes "things_update t' v s = (True, s')" "keyed thing_id (st_things s)"
  shows "s' = set_things (upd (\<lambda>x. thing_id x = thing_id t') (copy_thing t') (st_things s)) s"
proof -
  obtain rows where rows: "cas_rows thing_id thing_version copy_thing t' v (st_things s) = (True, rows)"
      "s' = set_things rows s"
    using assms(1) by (auto simp: things_update_def split: prod.splits)
  then have "rows = upd (\<lambda>x. thing_id x = thing_id t') (copy_thing t') (st_things s)"
    by (elim thing_rows.won [OF assms(2)])
  with rows show ?thesis
    by simp
qed

lemma things_update_live:
  assumes "things_update t' v s = (True, s')" "keyed thing_id (st_things s)"
    "t \<in> set (st_things s)" "thing_id t' = thing_id t" "thing_deleted_at t' = None"
  shows "live s tid \<Longrightarrow> live s' tid" "live_for s uid tid \<Longrightarrow> live_for s' uid tid"
  using live_put [OF _ assms(2-4)] live_for_put [OF _ assms(3,4)] assms(5)
  unfolding things_updateD [OF assms(1,2)] by simp_all

lemma things_update_write:
  assumes "things_update t' v s = (True, s')" "keyed thing_id (st_things s)"
    "t \<in> set (st_things s)" "thing_id t' = thing_id t"
    "thing_deleted_at t' \<noteq> None \<Longrightarrow> thing_id t \<notin> referred s"
  shows "unaudited s s'"
  unfolding things_updateD [OF assms(1,2)]
  using unaudited_one [OF state_write.thing_put [OF assms(3,4,5)]] by simp

lemma tasks_update_write:
  assumes "tasks_update t' v s = (True, s')" "keyed task_id (st_tasks s)"
    "t \<in> set (st_tasks s)" "task_id t' = task_id t" "task_check t \<Longrightarrow> task_check t'"
  shows "unaudited s s'"
proof -
  obtain rows where rows: "cas_rows task_id task_version copy_task t' v (st_tasks s) = (True, rows)"
      "s' = s\<lparr>st_tasks := rows\<rparr>"
    using assms(1) by (auto simp: tasks_update_def split: prod.splits)
  then have "rows = upd (\<lambda>x. task_id x = task_id t') (copy_task t') (st_tasks s)"
    by (elim task_rows.won [OF assms(2)])
  then show ?thesis
    unfolding rows(2)
    using unaudited_one [OF state_write.task_put [OF assms(3,4,5)]] by simp
qed

lemma entries_update_write:
  assumes "entries_update c v s = (True, s')" "keyed ctx_id (st_entries s)"
  shows "unaudited s s'"
proof -
  obtain rows where rows: "cas_rows ctx_id ctx_version copy_entry c v (st_entries s) = (True, rows)"
      "s' = s\<lparr>st_entries := rows\<rparr>"
    using assms(1) by (auto simp: entries_update_def split: prod.splits)
  then have "rows = upd (\<lambda>x. ctx_id x = ctx_id c) (copy_entry c) (st_entries s)"
    by (elim entry_rows.won [OF assms(2)])
  then show ?thesis
    unfolding rows(2) by (intro unaudited_one) (auto intro: state_write.entry_put)
qed

lemma blockers_update_write:
  assumes "blockers_update b v s = (True, s')" "keyed blk_id (st_blockers s)"
  shows "unaudited s s'"
proof -
  obtain rows where rows: "cas_rows blk_id blk_version copy_blocker b v (st_blockers s) = (True, rows)"
      "s' = s\<lparr>st_blockers := rows\<rparr>"
    using assms(1) by (auto simp: blockers_update_def split: prod.splits)
  then have "rows = upd (\<lambda>x. blk_id x = blk_id b) (copy_blocker b) (st_blockers s)"
    by (elim blocker_rows.won [OF assms(2)])
  then show ?thesis
    unfolding rows(2) by (intro unaudited_one) (auto intro: state_write.blocker_put)
qed

lemma dates_update_write:
  assumes "dates_update d v s = Inr (True, s')" "keyed tdate_id (st_dates s)"
  shows "unaudited s s'"
proof -
  obtain rows where rows: "cas_rows tdate_id tdate_version copy_date d v (st_dates s) = (True, rows)"
      "s' = s\<lparr>st_dates := rows\<rparr>" "clash_free primary_clash rows"
    using assms(1) by (auto simp: dates_update_def split: prod.splits if_splits)
  then have "rows = upd (\<lambda>x. tdate_id x = tdate_id d) (copy_date d) (st_dates s)"
    by (elim date_rows.won [OF assms(2)])
  then show ?thesis
    unfolding rows(2) using rows(3) by (intro unaudited_one) (auto intro: state_write.date_put)
qed

section \<open>Insertions as writes\<close>

lemma things_add_write: "things_add t s = Inr s' \<Longrightarrow> unaudited s s'"
  by (auto simp: things_add_def intro!: unaudited_one state_write.thing_add)

lemma tasks_add_write:
  assumes "tasks_add t s = Inr s'"
    "\<And>tid. task_thing_id t = Some tid \<Longrightarrow> live_for s (task_user_id t) tid"
  shows "unaudited s s'"
  using assms by (auto simp: tasks_add_def intro!: unaudited_one state_write.task_add)

lemma entries_add_write: "entries_add c s = Inr s' \<Longrightarrow> live s (ctx_thing_id c) \<Longrightarrow> unaudited s s'"
  by (auto simp: entries_add_def intro!: unaudited_one state_write.entry_add)

lemma dates_add_write: "dates_add d s = Inr s' \<Longrightarrow> live s (tdate_thing_id d) \<Longrightarrow> unaudited s s'"
  by (auto simp: dates_add_def intro!: unaudited_one state_write.date_add)

lemma blockers_add_write:
  assumes "blockers_add b s = Inr s'" "live s (blk_thing_id b)"
    "\<And>x. blk_task_id b = Some x \<Longrightarrow>
      \<exists>t \<in> set (st_tasks s). task_id t = x \<and> task_thing_id t = Some (blk_thing_id b)"
  shows "unaudited s s'"
  using assms by (auto simp: blockers_add_def intro!: unaudited_one state_write.blocker_add)

section \<open>The mutations\<close>

lemma state_keysD:
  assumes "state_keys s"
  shows "keyed thing_id (st_things s)" "keyed task_id (st_tasks s)" "keyed tdate_id (st_dates s)"
    "keyed ctx_id (st_entries s)" "keyed blk_id (st_blockers s)"
    "keyed mut_idempotency_key (st_mutations s)"
  using assms by (simp_all add: state_keys_def)

lemma change_archive_frame [simp]:
  "thing_id (thing_archive now t) = thing_id t" "thing_id (thing_unarchive now t) = thing_id t"
  "thing_deleted_at (thing_archive now t) = thing_deleted_at t"
  "thing_deleted_at (thing_unarchive now t) = thing_deleted_at t"
  by (simp_all add: entity_defs)

lemma apply_change_archive_audited:
  assumes "apply_change_archive e uid tid v a key reason run archive s = Inr (out, s')" "state_keys s"
  shows "audited uid key s out s'"
proof (cases "audit_get_mutation uid key s")
  case (Some m)
  then show ?thesis
    using assms(1) by (auto simp: apply_change_archive_def Let_def intro: audited_replay)
next
  case None
  then obtain t where t: "things_get uid tid (core s) = Some t"
    using assms(1) by (auto simp: apply_change_archive_def Let_def split: option.splits)
  define t' where "t' = (if archive then thing_archive (clk e 0) t else thing_unarchive (clk e 0) t)"
  have id: "thing_id t' = thing_id t" "thing_deleted_at t' = None"
    using things_getD(4) [OF t] by (simp_all add: t'_def)
  obtain s1 m ev where up: "things_update t' v s = (True, s1)" and rec: "record_audit m ev s1 = Inr s'"
    and m: "event_of m ev" "mut_user_id m = uid" "mut_idempotency_key m = key"
      "\<not> wo_replayed out" "wo_mutation_id out = Some (mut_id m)"
    using assms(1) None t
    by (auto simp: apply_change_archive_def Let_def t'_def split: if_splits prod.splits)
  have "unaudited s s1"
    using things_update_write [OF up state_keysD(1) [OF assms(2)] things_getD(1) [OF t] id(1)] id(2)
    by simp
  with None rec m show ?thesis
    by (blast intro: audited_record)
qed


lemma thing_delete_frame:
  assumes "thing_delete now t = Inr t'"
  shows "thing_id t' = thing_id t"
  using assms by (auto simp: entity_defs split: if_splits option.splits)

lemma clear_thing_eq: "things_delete_owned_components tid (things_detach_tasks tid s) = clear_thing tid s"
  by (simp add: clear_thing_def)

lemma apply_delete_thing_audited:
  assumes "apply_delete_thing e uid tid v a key reason run s = Inr (out, s')" "state_keys s"
  shows "audited uid key s out s'"
proof (cases "audit_get_mutation uid key s")
  case (Some m)
  then show ?thesis
    using assms(1) by (auto simp: apply_delete_thing_def intro: audited_replay)
next
  case None
  then obtain t t' s1 m ev where t: "things_get_including_deleted uid tid s = Some t"
      and t': "thing_delete (clk e 0) t = Inr t'"
      and up: "things_update t' v (clear_thing (thing_id t) s) = (True, s1)"
      and rec: "record_audit m ev s1 = Inr s'" "event_of m ev" "mut_user_id m = uid"
      "mut_idempotency_key m = key" "\<not> wo_replayed out" "wo_mutation_id out = Some (mut_id m)"
    using assms(1)
    by (auto simp: apply_delete_thing_def Let_def clear_thing_eq case_prod_Inr split: option.splits if_splits)
  have "t \<in> set (st_things (clear_thing (thing_id t) s))"
    using sel1_SomeD [OF t [unfolded things_get_including_deleted_def]] by simp
  moreover have "thing_id t \<notin> referred (clear_thing (thing_id t) s)"
    using referred_clear by auto
  ultimately have "unaudited (clear_thing (thing_id t) s) s1"
    using things_update_write [OF up _ _ thing_delete_frame [OF t']] state_keysD(1) [OF assms(2)] by simp
  then have "unaudited s s1"
    by (rule unaudited_trans [OF unaudited_clear])
  with None rec show ?thesis
    by (blast intro: audited_record)
qed

lemma apply_create_thing_audited:
  assumes "apply_create_thing e uid name a key reason run s = Inr (out, s')"
  shows "audited uid key s out s'"
proof (cases "audit_get_mutation uid key s")
  case (Some m)
  then show ?thesis
    using assms by (auto simp: apply_create_thing_def split: if_splits option.splits intro: audited_replay)
next
  case None
  then obtain t s1 m ev where "things_add t (users_ensure (clk e 0) uid s) = Inr s1"
      and rec: "record_audit m ev s1 = Inr s'" "event_of m ev" "mut_user_id m = uid"
      "mut_idempotency_key m = key" "\<not> wo_replayed out" "wo_mutation_id out = Some (mut_id m)"
    using assms by (auto simp: apply_create_thing_def Let_def split: if_splits)
  then have "unaudited s s1"
    by (blast intro: unaudited_trans [OF unaudited_users] things_add_write)
  with None rec show ?thesis
    by (blast intro: audited_record)
qed

lemma task_frames:
  assumes "task_transition_to now st t = Inr t' \<or> task_complete now at' t = Inr t'"
  shows "task_id t' = task_id t" "task_thing_id t' = task_thing_id t" "task_check t \<Longrightarrow> task_check t'"
  using assms
  by (auto simp: entity_defs task_check_def split: if_splits option.splits)

lemma tasks_getD:
  assumes "tasks_get uid tid s = Some t"
  shows "t \<in> set (st_tasks s)" "task_id t = tid" "task_user_id t = uid"
  using sel1_SomeD [OF assms [unfolded tasks_get_def]] by auto

lemma apply_transition_task_audited:
  assumes "apply_transition_task e uid tid st v a key reason run s = Inr (out, s')" "state_keys s"
  shows "audited uid key s out s'"
proof (cases "audit_get_mutation uid key s")
  case (Some m)
  then show ?thesis
    using assms(1) by (auto simp: apply_transition_task_def intro: audited_replay)
next
  case None
  then obtain t t' s1 m ev where t: "tasks_get uid tid s = Some t"
      and t': "task_transition_to (clk e 0) st t = Inr t'" and up: "tasks_update t' v s = (True, s1)"
      and rec: "record_audit m ev s1 = Inr s'" "event_of m ev" "mut_user_id m = uid"
      "mut_idempotency_key m = key" "\<not> wo_replayed out" "wo_mutation_id out = Some (mut_id m)"
    using assms(1)
    by (auto simp: apply_transition_task_def Let_def split: option.splits if_splits prod.splits)
  have "unaudited s s1"
    by (rule tasks_update_write [OF up state_keysD(2) [OF assms(2)] tasks_getD(1) [OF t]
          task_frames(1,3) [OF disjI1 [OF t']]])
  with None rec show ?thesis
    by (blast intro: audited_record)
qed

lemma apply_complete_task_audited:
  assumes "apply_complete_task e uid tid v a key reason run s = Inr (out, s')" "state_keys s"
  shows "audited uid key s out s'"
proof (cases "audit_get_mutation uid key s")
  case (Some m)
  then show ?thesis
    using assms(1) by (auto simp: apply_complete_task_def intro: audited_replay)
next
  case None
  then obtain t t' s1 m ev where t: "tasks_get uid tid s = Some t"
      and t': "task_complete (clk e 0) None t = Inr t'" and up: "tasks_update t' v s = (True, s1)"
      and rec: "record_audit m ev s1 = Inr s'" "event_of m ev" "mut_user_id m = uid"
      "mut_idempotency_key m = key" "\<not> wo_replayed out" "wo_mutation_id out = Some (mut_id m)"
    using assms(1)
    by (auto simp: apply_complete_task_def Let_def split: option.splits if_splits prod.splits)
  have "unaudited s s1"
    by (rule tasks_update_write [OF up state_keysD(2) [OF assms(2)] tasks_getD(1) [OF t]
          task_frames(1,3) [OF disjI2 [OF t']]])
  with None rec show ?thesis
    by (blast intro: audited_record)
qed


lemma state_writes_keys: "state_writes s s1 \<Longrightarrow> state_keys s \<Longrightarrow> state_keys s1"
  by (induction rule: rtranclp_induct) (auto intro: state_write_keys)

lemma unaudited_keys: "unaudited s s1 \<Longrightarrow> state_keys s \<Longrightarrow> state_keys s1"
  by (auto simp: unaudited_def dest: state_writes_keys)

lemma things_get_liveI: "things_get uid tid (core s) \<noteq> None \<Longrightarrow> live_for s uid tid"
  by (rule things_get_live [THEN iffD1])

lemma live_users: "live_for (users_ensure now uid' s) uid tid = live_for s uid tid"
  by (rule live_for_cong) simp

lemma new_task_simps [simp]:
  "task_thing_id (new_task tid c up uid th title due rec) = th"
  "task_user_id (new_task tid c up uid th title due rec) = uid"
  by (simp_all add: new_task_def)

lemma apply_create_task_audited:
  assumes "apply_create_task e uid th title due rec a key reason run s = Inr (out, s')"
  shows "audited uid key s out s'"
proof (cases "audit_get_mutation uid key s")
  case (Some m)
  then show ?thesis
    using assms by (auto simp: apply_create_task_def split: if_splits option.splits intro: audited_replay)
next
  case None
  then have th: "things_get uid tid (core s) \<noteq> None" if "th = Some tid" for tid
    using assms that by (auto simp: apply_create_task_def split: if_splits)
  obtain t s1 m ev where add: "tasks_add t (users_ensure (clk e 0) uid s) = Inr s1"
      and t: "task_thing_id t = th" "task_user_id t = uid"
      and rec: "record_audit m ev s1 = Inr s'" "event_of m ev" "mut_user_id m = uid"
      "mut_idempotency_key m = key" "\<not> wo_replayed out" "wo_mutation_id out = Some (mut_id m)"
    using assms None by (auto simp: apply_create_task_def Let_def split: if_splits)
  have "live_for (users_ensure (clk e 0) uid s) (task_user_id t) tid" if "task_thing_id t = Some tid" for tid
    using things_get_liveI [OF th [of tid]] that t by (simp add: live_users)
  then have "unaudited s s1"
    using add by (blast intro: unaudited_trans [OF unaudited_users] tasks_add_write)
  with None rec show ?thesis
    by (blast intro: audited_record)
qed


lemma ctx_revise_frame:
  assumes "ctx_revise now label content c = Inr c'"
  shows "ctx_id c' = ctx_id c"
  using assms by (auto simp: entity_defs split: if_splits)

lemma write_entry_unaudited:
  assumes "write_entry e uid tid label content ref v source s = Inr (entry, kind, before, s1)"
    "state_keys s" "live s tid"
  shows "unaudited s s1"
proof (cases ref)
  case None
  then obtain c where "entries_add c s = Inr s1" "ctx_thing_id c = tid"
    using assms(1) by (auto simp: write_entry_def new_entry_def Let_def split: if_splits)
  with assms(3) show ?thesis
    by (blast intro: entries_add_write)
next
  case (Some cid)
  then obtain c w where "entries_update c w s = (True, s1)"
    using assms(1) by (auto simp: write_entry_def case_prod_Inr split: if_splits option.splits)
  then show ?thesis
    by (rule entries_update_write [OF _ state_keysD(4) [OF assms(2)]])
qed

lemma apply_set_thing_context_audited:
  assumes "apply_set_thing_context e uid tid label content ref v source a key reason run s = Inr (out, s')"
    "state_keys s"
  shows "audited uid key s out s'"
proof (cases "audit_get_mutation uid key s")
  case (Some m)
  then show ?thesis
    using assms(1) by (auto simp: apply_set_thing_context_def split: if_splits intro: audited_replay)
next
  case None
  then have "things_get uid tid (core s) \<noteq> None"
    using assms(1) by (auto simp: apply_set_thing_context_def split: if_splits)
  then have live: "live s tid"
    by (rule live_for_live [OF things_get_liveI])
  obtain entry kind before s1 m ev where
      "write_entry e uid tid (strip label) (strip content) ref v source s = Inr (entry, kind, before, s1)"
      and rec: "record_audit m ev s1 = Inr s'" "event_of m ev" "mut_user_id m = uid"
      "mut_idempotency_key m = key" "\<not> wo_replayed out" "wo_mutation_id out = Some (mut_id m)"
    using assms(1) None by (auto simp: apply_set_thing_context_def Let_def split: if_splits)
  then have "unaudited s s1"
    by (blast intro: write_entry_unaudited [OF _ assms(2) live])
  with None rec show ?thesis
    by (blast intro: audited_record)
qed

lemma thing_deadline_frame:
  assumes "thing_set_primary_deadline now value t = Inr t'"
  shows "thing_id t' = thing_id t" "thing_deleted_at t' = thing_deleted_at t"
  using assms by (auto simp: entity_defs split: if_splits)

lemma apply_set_deadline_audited:
  assumes "apply_set_deadline e uid tid kind value tz prec cert prim v a key reason label run source s
      = Inr (out, s')" "state_keys s"
  shows "audited uid key s out s'"
proof (cases "audit_get_mutation uid key s")
  case (Some m)
  then show ?thesis
    using assms(1) by (auto simp: apply_set_deadline_def split: if_splits intro: audited_replay)
next
  case None
  then obtain t where t: "things_get uid tid (core s) = Some t"
    using assms(1) by (auto simp: apply_set_deadline_def split: if_splits option.splits)
  let ?mid = "if prim
                 then bindE (thing_set_primary_deadline (clk e 2) value t) (\<lambda>thing'.
                   (case things_update thing' v s of
                      (won, s1) \<Rightarrow>
                        if \<not> won
                        then Inl (VersionConflict (u ''Thing was updated concurrently.''))
                        else Inr (thing', dates_unset_primary (thing_id thing') kind s1)))
                 else Inr (t, s)"
  obtain t' s1 d s2 m ev where mid: "?mid = Inr (t', s1)" and d: "dates_add d s1 = Inr s2" "tdate_thing_id d = thing_id t"
      and rec: "record_audit m ev s2 = Inr s'" "event_of m ev" "mut_user_id m = uid"
      "mut_idempotency_key m = key" "\<not> wo_replayed out" "wo_mutation_id out = Some (mut_id m)"
    using assms(1) None t
    by (auto simp: apply_set_deadline_def Let_def new_date_def split: if_splits)
  have "unaudited s s1 \<and> live s1 (thing_id t)"
  proof (cases prim)
    case False
    with mid things_getD [OF t] show ?thesis
      by (auto dest: live_for_live)
  next
    case True
    then obtain s0 where t': "thing_set_primary_deadline (clk e 2) value t = Inr t'"
        and up: "things_update t' v s = (True, s0)" and s1: "s1 = dates_unset_primary (thing_id t') kind s0"
      using mid by (auto simp: case_prod_Inr split: if_splits)
    note frame = thing_deadline_frame [OF t'] things_getD [OF t]
    note upd = up state_keysD(1) [OF assms(2)] frame(3,1)
    have "unaudited s s0" "live s0 (thing_id t)"
      using things_update_write [OF upd] things_update_live(1) [OF upd] frame
      by (simp_all add: live_for_live)
    then show ?thesis
      using unaudited_trans [OF _ unaudited_unset] live_cong [of s1 s0] by (simp add: s1)
  qed
  then have "unaudited s s2"
    using dates_add_write [OF d(1)] d(2) by (auto intro: unaudited_trans)
  with None rec show ?thesis
    by (blast intro: audited_record)
qed


lemma tdate_revise_frame:
  assumes "tdate_revise now value tz prec cert prim d = Inr d'"
  shows "tdate_id d' = tdate_id d"
  using assms by (auto simp: entity_defs split: if_splits)

lemma thing_touch_frame [simp]:
  "thing_id (thing_touch now t) = thing_id t" "thing_deleted_at (thing_touch now t) = thing_deleted_at t"
  by (simp_all add: entity_defs)

lemma redate_frame:
  assumes "redate_thing e value prim was kind t s = Inr (t', s1)"
  shows "thing_id t' = thing_id t" "thing_deleted_at t' = thing_deleted_at t" "unaudited s s1"
    "st_things s1 = st_things s"
  using assms
  by (auto simp: redate_thing_def thing_deadline_frame unaudited_unset split: if_splits)

lemma dates_getD:
  assumes "dates_get uid did s = Some d"
  shows "d \<in> set (st_dates s)" "tdate_id d = did"
  using sel1_SomeD [OF assms [unfolded dates_get_def]] by auto

lemma apply_update_date_audited:
  assumes "apply_update_date e uid did value tz prec cert prim v vt a key reason s = Inr (out, s')"
    "state_keys s"
  shows "audited uid key s out s'"
proof (cases "audit_get_mutation uid key s")
  case (Some m)
  then show ?thesis
    using assms(1) by (auto simp: apply_update_date_def intro: audited_replay)
next
  case None
  then obtain d t where d: "dates_get uid did s = Some d" and t: "things_get uid (tdate_thing_id d) (core s) = Some t"
    using assms(1) by (auto simp: apply_update_date_def split: if_splits option.splits)
  obtain t' s1 s2 d' s3 m ev where re: "redate_thing e value prim (tdate_is_primary d) (tdate_kind d) t s = Inr (t', s1)"
      and up: "(if thing_version t' \<noteq> vt then (case things_update t' vt s1 of (won, s2) \<Rightarrow>
          if \<not> won then Inl (VersionConflict (u ''Thing was updated concurrently.'')) else Inr s2)
        else Inr s1) = Inr s2"
      and ud: "dates_update d' v s2 = Inr (True, s3)"
      and rec: "record_audit m ev s3 = Inr s'" "event_of m ev" "mut_user_id m = uid"
      "mut_idempotency_key m = key" "\<not> wo_replayed out" "wo_mutation_id out = Some (mut_id m)"
    using assms(1) None d t
    by (auto simp: apply_update_date_def Let_def guard_Inr)
  note frame = redate_frame [OF re] things_getD [OF t]
  have k1: "state_keys s1"
    by (rule unaudited_keys [OF frame(3) assms(2)])
  have "unaudited s1 s2"
    using up things_update_write [of t' vt s1 s2 t] state_keysD(1) [OF k1] frame
    by (auto simp: case_prod_Inr guard_Inr split: if_splits)
  then have s2: "unaudited s s2"
    by (rule unaudited_trans [OF frame(3)])
  have "unaudited s2 s3"
    by (rule dates_update_write [OF ud state_keysD(3) [OF unaudited_keys [OF s2 assms(2)]]])
  then have "unaudited s s3"
    by (rule unaudited_trans [OF s2])
  with None rec show ?thesis
    by (blast intro: audited_record)
qed

lemma apply_create_blocker_audited:
  assumes "apply_create_blocker e uid tid description sev th source a key reason s = Inr (out, s')"
  shows "audited uid key s out s'"
proof (cases "audit_get_mutation uid key s")
  case (Some m)
  then show ?thesis
    using assms by (auto simp: apply_create_blocker_def split: if_splits option.splits intro: audited_replay)
next
  case None
  then have "things_get uid tid (core s) \<noteq> None"
    using assms by (auto simp: apply_create_blocker_def split: if_splits)
  then have live: "live s tid"
    by (rule live_for_live [OF things_get_liveI])
  have task: "\<exists>t \<in> set (st_tasks s). task_id t = x \<and> task_thing_id t = Some tid" if "th = Some x" for x
    using assms None that tasks_getD [of uid x s]
    by (auto simp: apply_create_blocker_def split: if_splits option.splits)
  obtain b s1 m ev where add: "blockers_add b s = Inr s1"
      and b: "blk_thing_id b = tid" "blk_task_id b = th"
      and rec: "record_audit m ev s1 = Inr s'" "event_of m ev" "mut_user_id m = uid"
      "mut_idempotency_key m = key" "\<not> wo_replayed out" "wo_mutation_id out = Some (mut_id m)"
    using assms None by (auto simp: apply_create_blocker_def new_blocker_def Let_def split: if_splits)
  have "unaudited s s1"
    by (rule blockers_add_write [OF add]) (use live task b in simp_all)
  with None rec show ?thesis
    by (blast intro: audited_record)
qed

lemma apply_resolve_blocker_audited:
  assumes "apply_resolve_blocker e uid bid v a key reason s = Inr (out, s')" "state_keys s"
  shows "audited uid key s out s'"
proof (cases "audit_get_mutation uid key s")
  case (Some m)
  then show ?thesis
    using assms(1) by (auto simp: apply_resolve_blocker_def intro: audited_replay)
next
  case None
  then obtain b s1 m ev where up: "blockers_update b v s = (True, s1)"
      and rec: "record_audit m ev s1 = Inr s'" "event_of m ev" "mut_user_id m = uid"
      "mut_idempotency_key m = key" "\<not> wo_replayed out" "wo_mutation_id out = Some (mut_id m)"
    using assms(1)
    by (auto simp: apply_resolve_blocker_def Let_def case_prod_Inr split: option.splits if_splits)
  have "unaudited s s1"
    by (rule blockers_update_write [OF up state_keysD(5) [OF assms(2)]])
  with None rec show ?thesis
    by (blast intro: audited_record)
qed

lemma thing_merge_frame:
  assumes "thing_merge_into now c t = Inr t'"
  shows "thing_id t' = thing_id t" "thing_deleted_at t' = thing_deleted_at t"
  using assms by (auto simp: entity_defs split: if_splits)

lemma apply_merge_things_audited:
  assumes "apply_merge_things show_json e uid c d vc vd a key reason run s = Inr (out, s')" "state_keys s"
  shows "audited uid key s out s'"
proof (cases "audit_get_mutation uid key s")
  case (Some m)
  then show ?thesis
    using assms(1) by (auto simp: apply_merge_things_def split: if_splits intro: audited_replay)
next
  case None
  then obtain tc td td' s1 s2 m ev where tc: "things_get uid c (core s) = Some tc"
      and td: "things_get uid d (core s) = Some td" and td': "thing_merge_into (clk e 0) (thing_id tc) td = Inr td'"
      and up: "things_update td' vd s = (True, s1)"
      and rb: "things_rebind_merged_references (thing_id td') (thing_id tc) s1 = Inr s2"
      and rec: "record_audit m ev s2 = Inr s'" "event_of m ev" "mut_user_id m = uid"
      "mut_idempotency_key m = key" "\<not> wo_replayed out" "wo_mutation_id out = Some (mut_id m)"
    using assms(1)
    by (auto simp: apply_merge_things_def Let_def case_prod_Inr split: option.splits if_splits)
  note frame = thing_merge_frame [OF td'] things_getD [OF td]
  note upd = up state_keysD(1) [OF assms(2)] frame(3,1)
  have s1: "unaudited s s1" "live_for s1 uid (thing_id td')" "live_for s1 uid (thing_id tc)"
    using things_update_write [OF upd] things_update_live(2) [OF upd] frame things_getD [OF tc]
    by simp_all
  have "unaudited s s2"
    by (rule unaudited_step [OF s1(1) state_write.rebind [OF rb s1(2,3)]]) (simp_all add: rebind_tables [OF rb])
  with None rec show ?thesis
    by (blast intro: audited_record)
qed

section \<open>The two mutations without an outcome\<close>

lemma update_thing_cases:
  assumes "update_thing e uid tid v name st stage upd_stage a key reason run s = Inr (r, s')" "state_keys s"
  shows "if audit_get_mutation uid key s = None
    then \<exists>m ev s1. unaudited s s1 \<and> record_audit m ev s1 = Inr s' \<and> event_of m ev \<and>
      mut_user_id m = uid \<and> mut_idempotency_key m = key
    else s' = s"
proof (cases "audit_get_mutation uid key s")
  case (Some m)
  then show ?thesis
    using assms(1) by (auto simp: update_thing_def split: if_splits option.splits)
next
  case None
  then obtain t t' s1 m ev where t: "things_get uid tid (core s) = Some t"
      and t': "thing_revise (clk e 0) name st stage upd_stage t = Inr t'"
      and up: "things_update t' v s = (True, s1)"
      and rec: "record_audit m ev s1 = Inr s'" "event_of m ev" "mut_user_id m = uid" "mut_idempotency_key m = key"
    using assms(1)
    by (auto simp: update_thing_def Let_def case_prod_Inr split: option.splits if_splits)
  have "thing_id t' = thing_id t" "thing_deleted_at t' = thing_deleted_at t"
    using t' by (auto simp: entity_defs Let_def split: if_splits option.splits)
  then have "unaudited s s1"
    using things_update_write [OF up state_keysD(1) [OF assms(2)] things_getD(1) [OF t]] things_getD(4) [OF t]
    by simp
  with None rec show ?thesis
    by auto
qed

lemma add_relation_cases:
  assumes "add_relation e uid f t ty note a key reason s = Inr (r, s')"
  shows "if audit_get_mutation uid key s = None
    then \<exists>m s1. unaudited s s1 \<and> record_audit m None s1 = Inr s' \<and>
      mut_user_id m = uid \<and> mut_idempotency_key m = key
    else s' = s"
proof (cases "audit_get_mutation uid key s")
  case (Some m)
  then show ?thesis
    using assms by (auto simp: add_relation_def)
next
  case None
  have get: "things_get uid f (core s) \<noteq> None" "things_get uid t (core s) \<noteq> None"
    using assms None by (auto simp: add_relation_def guard_Inr)
  obtain note' rel s1 m where rel: "ThingRelation_init f t ty note' (clk e 0) = Inr rel"
      and add: "relations_add rel s = (r, s1)" and rec: "audit_add_mutation m s1 = Inr s'"
      "mut_user_id m = uid" "mut_idempotency_key m = key"
    using assms None by (auto simp: add_relation_def guard_Inr case_prod_Inr)
  have ends: "rel_from_thing_id rel = f" "rel_to_thing_id rel = t" "f \<noteq> t"
    using rel by (auto simp: ThingRelation_init_def split: if_splits)
  have "unaudited s (snd (relations_add rel s))"
    by (intro unaudited_one state_write.relation_add)
       (simp_all add: ends live_for_live [OF things_get_liveI [OF get(1)]] live_for_live [OF things_get_liveI [OF get(2)]])
  then have "unaudited s s1"
    by (simp add: add)
  with None rec show ?thesis
    by (auto simp: record_audit_def)
qed

end
