(* ===== verification/StateReports.thy ===== *)
theory StateReports
  imports StateRefinement
begin

text \<open>
  What the service reports after the commit of a mutation. None of the reports raises: the outcome
  of a mutation always names its target, and an entity a creation stored is found when it is read
  back.
\<close>

section \<open>Reports after the commit\<close>


lemma first_true_only:
  assumes "name \<in> set ks" "d name = Some (JStr t)" "t \<noteq> []" "\<And>k. k \<in> set ks \<Longrightarrow> k \<noteq> name \<Longrightarrow> d k = None"
  shows "first_true d ks = Some (JStr t)"
  using assms
proof (induction d ks rule: first_true.induct)
  case (2 d k)
  then show ?case by auto
next
  case (3 d k1 k2 ks)
  show ?case
  proof (cases "k1 = name")
    case False
    then have "d k1 = None"
      by (simp add: "3.prems"(4))
    moreover have "first_true d (k2 # ks) = Some (JStr t)"
      using 3 False by (intro "3.IH") (auto simp: json_true_def)
    ultimately show ?thesis
      by (simp add: json_true_def)
  qed (use 3 in \<open>simp add: json_true_def\<close>)
qed simp

lemma target_names:
  "k \<in> set TARGET_NAMES \<Longrightarrow> k \<notin> {u ''mutation_id'', u ''replayed'', u ''version'', u ''thing_version'',
    u ''date_version'', u ''canonical_thing_id''}"
  by (auto simp: TARGET_NAMES_def)

lemma uuid_str_nonempty [simp]: "uuid_str x \<noteq> []"
proof
  assume "uuid_str x = []"
  moreover have "uuid_parse [] = None"
    by code_simp
  ultimately show False
    using uuid_parse_str [of x] by simp
qed

lemma result_of_data:
  assumes "first_true data TARGET_NAMES = Some (juuid target)"
  shows "\<exists>v. mutation_result_from_outcome (outcome code message data mid replayed) =
    Inr \<lparr>mrd_mutation_id = mid, mrd_target_id = target, mrd_target_version = v, mrd_replayed = replayed\<rparr>"
  using assms by (simp add: mutation_result_from_outcome_def juuid_def Let_def)

lemma first_true_target:
  assumes "name \<in> set TARGET_NAMES" "version_name \<in> {u ''version'', u ''thing_version'', u ''date_version''}"
    "k \<in> {u ''thing_version'', u ''canonical_thing_id''}"
  shows "first_true (target_data mid name target version_name version replayed) TARGET_NAMES = Some (juuid target)"
    "first_true ((target_data mid name target version_name version replayed)(k \<mapsto> w)) TARGET_NAMES = Some (juuid target)"
  unfolding juuid_def using assms target_names [OF assms(1)]
  by (auto intro!: first_true_only [OF assms(1)] dest: target_names simp: target_data_def juuid_def)


definition reportable :: "WriteOutcome \<Rightarrow> bool" where
  "reportable out \<longleftrightarrow> (\<exists>r. mutation_result_from_outcome out = Inr r \<and>
     Some (mrd_mutation_id r) = wo_mutation_id out \<and> mrd_replayed r = wo_replayed out)"

lemma reportable_target:
  assumes "name \<in> set TARGET_NAMES" "version_name \<in> {u ''version'', u ''thing_version'', u ''date_version''}"
    "k \<in> {u ''thing_version'', u ''canonical_thing_id''}"
  shows "reportable (outcome code message (target_data mid name target version_name version b) mid' b')"
    "reportable (outcome code message ((target_data mid name target version_name version b)(k \<mapsto> w)) mid' b')"
  using result_of_data [OF first_true_target(1) [OF assms]] result_of_data [OF first_true_target(2) [OF assms]]
  unfolding reportable_def by fastforce+

lemma target_name_mems [simp]:
  "u ''thing_id'' \<in> set TARGET_NAMES" "u ''task_id'' \<in> set TARGET_NAMES" "u ''entry_id'' \<in> set TARGET_NAMES"
  "u ''date_id'' \<in> set TARGET_NAMES" "u ''blocker_id'' \<in> set TARGET_NAMES"
  "u ''duplicate_thing_id'' \<in> set TARGET_NAMES"
  by (simp_all add: TARGET_NAMES_def)

lemma with_result_total:
  "apply_change_archive e uid tid v a key reason run archive s = Inr (out, s') \<Longrightarrow> reportable out"
  by (auto simp: apply_change_archive_def Let_def case_prod_Inr guard_Inr intro: reportable_target split: option.splits)

lemma with_result_total_delete:
  "apply_delete_thing e uid tid v a key reason run s = Inr (out, s') \<Longrightarrow> reportable out"
  by (auto simp: apply_delete_thing_def Let_def case_prod_Inr guard_Inr intro: reportable_target split: option.splits)

lemma with_result_total_transition:
  "apply_transition_task e uid tid st v a key reason run s = Inr (out, s') \<Longrightarrow> reportable out"
  by (auto simp: apply_transition_task_def Let_def case_prod_Inr guard_Inr intro: reportable_target split: option.splits)

lemma with_result_total_complete:
  "apply_complete_task e uid tid v a key reason run s = Inr (out, s') \<Longrightarrow> reportable out"
  by (cases "audit_get_mutation uid key s"; cases "tasks_get uid tid s")
     (auto simp: apply_complete_task_def Let_def case_prod_Inr guard_Inr intro: reportable_target)

lemma with_result_total_context:
  "apply_set_thing_context e uid tid label content ref v source a key reason run s = Inr (out, s') \<Longrightarrow> reportable out"
  by (auto simp: apply_set_thing_context_def Let_def guard_Inr intro: reportable_target split: option.splits)

lemma with_result_total_deadline:
  "apply_set_deadline e uid tid kind value tz prec cert prim v a key reason label run source s
    = Inr (out, s') \<Longrightarrow> reportable out"
  by (auto simp: apply_set_deadline_def Let_def guard_Inr intro: reportable_target split: option.splits)

lemma with_result_total_date:
  "apply_update_date e uid did value tz prec cert prim v vt a key reason s = Inr (out, s') \<Longrightarrow> reportable out"
  by (auto simp: apply_update_date_def Let_def guard_Inr intro: reportable_target split: option.splits)

lemma with_result_total_resolve:
  "apply_resolve_blocker e uid bid v a key reason s = Inr (out, s') \<Longrightarrow> reportable out"
  by (cases "audit_get_mutation uid key s"; cases "blockers_get uid bid s")
     (auto simp: apply_resolve_blocker_def Let_def case_prod_Inr guard_Inr intro: reportable_target)

lemma with_result_total_merge:
  "apply_merge_things show_json e uid c d vc vd a key reason run s = Inr (out, s') \<Longrightarrow> reportable out"
  by (auto simp: apply_merge_things_def Let_def case_prod_Inr guard_Inr intro: reportable_target split: option.splits)


lemma target_updates:
  assumes "record_audit m ev s = Inr s'"
  shows "core s' = core s" "st_tasks s' = st_tasks s" "st_blockers s' = st_blockers s" "st_relations s' = st_relations s"
  using assms
  by (auto simp: record_audit_def audit_add_mutation_def audit_add_timeline_event_def split: option.splits)

text \<open>The entity that a creation stored is found when it is read back.\<close>


lemma created_data_id [simp]: "created_data target version replayed (u ''id'') = Some (juuid target)"
  by (simp add: created_data_def)

lemma live_for_get: "live_for s uid tid \<Longrightarrow> \<exists>t. things_get uid tid (core s) = Some t"
  using things_get_live by fastforce

lemma created_thing_found:
  assumes "apply_create_thing e uid name a key reason run s = Inr (out, s')"
  shows "\<exists>x t. wo_data out (u ''id'') = Some (juuid x) \<and> things_get uid x (core s') = Some t"
proof (cases "audit_get_mutation uid key s")
  case (Some m)
  with assms obtain t where "things_get uid (mut_target_id m) (core s') = Some t"
      "wo_data out (u ''id'') = Some (juuid (thing_id t))"
    by (auto simp: apply_create_thing_def split: if_splits option.splits)
  then show ?thesis
    by (metis things_getD(2))
next
  case None
  obtain t s1 m ev where t: "things_add t (users_ensure (clk e 0) uid s) = Inr s1" "thing_user_id t = uid"
      "thing_deleted_at t = None" "record_audit m ev s1 = Inr s'" "wo_data out (u ''id'') = Some (juuid (thing_id t))"
    using assms None by (auto simp: apply_create_thing_def new_thing_def Let_def split: if_splits)
  then have "t \<in> set (st_things s')"
    by (auto simp: things_add_def target_updates)
  with t(2,3,5) show ?thesis
    using live_for_get [of s' uid "thing_id t"] by (auto simp: live_for_def)
qed

lemma created_task_found:
  assumes "apply_create_task e uid th title due rec a key reason run s = Inr (out, s')"
  shows "\<exists>x t. wo_data out (u ''id'') = Some (juuid x) \<and> tasks_get uid x s' = Some t"
proof (cases "audit_get_mutation uid key s")
  case (Some m)
  with assms obtain t where "tasks_get uid (mut_target_id m) s' = Some t"
      "wo_data out (u ''id'') = Some (juuid (task_id t))"
    by (auto simp: apply_create_task_def split: if_splits option.splits)
  then show ?thesis
    by (metis tasks_getD(2))
next
  case None
  obtain t s1 m ev where t: "tasks_add t (users_ensure (clk e 0) uid s) = Inr s1" "task_user_id t = uid"
      "record_audit m ev s1 = Inr s'" "wo_data out (u ''id'') = Some (juuid (task_id t))"
    using assms None by (auto simp: apply_create_task_def Let_def split: if_splits)
  then have "t \<in> set (st_tasks s')"
    by (auto simp: tasks_add_def target_updates)
  then have "tasks_get uid (task_id t) s' \<noteq> None"
    unfolding tasks_get_def sel1_None using t(2) by blast
  with t(4) show ?thesis
    by auto
qed

lemma created_blocker_found:
  assumes "apply_create_blocker e uid tid description sev th source a key reason s = Inr (out, s')"
  shows "\<exists>x b. wo_data out (u ''id'') = Some (juuid x) \<and> blockers_get uid x s' = Some b"
proof (cases "audit_get_mutation uid key s")
  case (Some m)
  with assms obtain b where b: "blockers_get uid (mut_target_id m) s' = Some b"
      "wo_data out (u ''id'') = Some (juuid (blk_id b))"
    by (auto simp: apply_create_blocker_def split: if_splits option.splits)
  then have "blk_id b = mut_target_id m"
    using sel1_SomeD [OF b(1) [unfolded blockers_get_def]] by simp
  with b show ?thesis
    by auto
next
  case None
  then have "things_get uid tid (core s) \<noteq> None"
    using assms by (auto simp: apply_create_blocker_def split: if_splits)
  then have own: "owned uid s tid"
    using things_get_liveI [of uid tid s] by (auto simp: live_for_def owned_def)
  obtain b s1 m ev where b: "blockers_add b s = Inr s1" "blk_thing_id b = tid"
      "record_audit m ev s1 = Inr s'" "wo_data out (u ''id'') = Some (juuid (blk_id b))"
    using assms None by (auto simp: apply_create_blocker_def new_blocker_def Let_def split: if_splits)
  then have "b \<in> set (st_blockers s')" "owned uid s' (blk_thing_id b)"
    using own by (auto simp: blockers_add_def target_updates owned_def)
  then have "blockers_get uid (blk_id b) s' \<noteq> None"
    unfolding blockers_get_def sel1_None by blast
  with b(4) show ?thesis
    by auto
qed

lemma with_entity_total:
  assumes "m = Inr (out, s')" "\<exists>x v. wo_data out (u ''id'') = Some (juuid x) \<and> lookup x s' = Some v"
  shows "\<exists>v. with_entity m lookup err = Inr (v, s')"
  using assms by (auto simp: with_entity_def juuid_def)

end
