(* ===== verification/RuntimeInvariants.thy ===== *)
theory RuntimeInvariants
  imports RuntimeMachine
begin

text \<open>
  The invariants of the runtime's database and their preservation by the store writes. Row
  invariants first (\<open>run_fields_ok\<close>, \<open>job_fields_ok\<close>, \<open>tool_fields_ok\<close>), then the ones that relate
  tables.
\<close>

section \<open>Runs, row by row\<close>

definition run_fields_ok :: "AgentRun \<Rightarrow> bool" where
  "run_fields_ok r \<longleftrightarrow>
     (run_claim_owner r \<noteq> None \<longrightarrow> run_status r = RunStatus.RUNNING)
   \<and> (run_claim_token r = None \<longleftrightarrow> run_claim_owner r = None)
   \<and> (run_lease_expires_at r = None \<longleftrightarrow> run_claim_owner r = None)
   \<and> (run_heartbeat_at r = None \<longleftrightarrow> run_claim_owner r = None)
   \<and> (run_active_started_at r \<noteq> None \<longleftrightarrow> run_status r = RunStatus.RUNNING)
   \<and> (run_status r = RunStatus.RUNNING \<longrightarrow> run_started_at r \<noteq> None)
   \<and> (run_completed_at r \<noteq> None \<longleftrightarrow> run_status r \<in> TERMINAL_RUN_STATUSES)
   \<and> (run_final_message_id r \<noteq> None \<longleftrightarrow> run_status r = RunStatus.COMPLETED)
   \<and> (run_error_code r \<noteq> None \<longleftrightarrow> run_status r = RunStatus.FAILED)
   \<and> (run_status r = RunStatus.WAITING_FOR_USER \<longrightarrow> run_interrupt_id r \<noteq> None)
   \<and> (run_interrupt_id r \<noteq> None \<longrightarrow>
        run_status r \<in> {RunStatus.WAITING_FOR_USER, RunStatus.FAILED, RunStatus.CANCELLED})
   \<and> (run_interrupt r = None \<longleftrightarrow> run_interrupt_id r = None)
   \<and> (run_terminal_output r = None \<longleftrightarrow> run_graph_terminal_at r = None)
   \<and> 0 \<le> run_attempt_count r \<and> run_attempt_count r < run_version r
   \<and> 0 \<le> run_event_sequence r \<and> 0 \<le> run_active_time_used_ms r"

text \<open>What no transition of a run touches.\<close>

definition run_ident :: "AgentRun \<Rightarrow> uuid \<times> uuid \<times> uuid \<times> RunTrigger \<times> str \<times> uuid option \<times> time" where
  "run_ident r = (run_id r, run_user_id r, run_thread_id r, run_trigger r, run_idempotency_key r,
     run_input_message_id r, run_created_at r)"

lemma run_ident_eqD:
  "run_ident r' = run_ident r \<Longrightarrow> run_id r' = run_id r \<and> run_user_id r' = run_user_id r \<and>
     run_thread_id r' = run_thread_id r \<and> run_idempotency_key r' = run_idempotency_key r \<and>
     run_input_message_id r' = run_input_message_id r"
  by (simp add: run_ident_def)

text \<open>
  The transitions in solved form: when one succeeds, and the record it gives. \<open>active_span\<close> is the
  time a pause books.
\<close>

definition active_span :: "time \<Rightarrow> AgentRun \<Rightarrow> int" where
  "active_span now r = (case run_active_started_at r of None \<Rightarrow> 0 | Some t0 \<Rightarrow> elapsed_ms (now - t0))"

lemma active_span_nonneg [simp]: "0 \<le> active_span now r"
  by (simp add: active_span_def split: option.split)

lemma run_pause_eq:
  "run_pause_active_time now r =
     r\<lparr>run_active_time_used_ms := run_active_time_used_ms r + active_span now r,
       run_active_started_at := None\<rparr>"
  by (simp add: run_pause_active_time_def active_span_def split: option.split)

definition stopped :: "time \<Rightarrow> AgentRun \<Rightarrow> AgentRun" where
  "stopped now r =
     r\<lparr>run_active_time_used_ms := run_active_time_used_ms r + active_span now r,
       run_active_started_at := None, run_claim_owner := None, run_claim_token := None,
       run_lease_expires_at := None, run_heartbeat_at := None, run_updated_at := now,
       run_version := run_version r + 1\<rparr>"

lemma run_start_Inr:
  "run_start now phase label r = Inr r' \<longleftrightarrow> run_status r = RunStatus.QUEUED \<and>
     r' = r\<lparr>run_status := RunStatus.RUNNING,
        run_started_at := (case run_started_at r of None \<Rightarrow> Some now | Some t \<Rightarrow> Some t),
        run_active_started_at :=
          (case run_active_started_at r of None \<Rightarrow> Some now | Some t \<Rightarrow> Some t),
        run_current_phase := phase, run_status_label := label,
        run_updated_at := now, run_version := run_version r + 1\<rparr>"
  by (auto simp only: run_start_def split: if_splits)

lemma run_recover_Inr:
  "run_recover_after_crash now r = Inr r' \<longleftrightarrow> run_status r = RunStatus.RUNNING \<and>
     r' = (stopped now r)\<lparr>run_status := RunStatus.QUEUED,
        run_current_phase := Some (u ''recovering''),
        run_status_label := Some (u ''Recovering after service restart'')\<rparr>"
  by (auto simp: run_recover_after_crash_def run_release_claim_def run_pause_eq stopped_def)

lemma run_wait_Inr:
  "run_wait_for_user now iid payload r = Inr r' \<longleftrightarrow> run_status r = RunStatus.RUNNING \<and>
     r' = (stopped now r)\<lparr>run_status := RunStatus.WAITING_FOR_USER,
        run_interrupt_id := Some iid, run_interrupt := Some payload\<rparr>"
  by (auto simp: run_wait_for_user_def run_release_claim_def run_pause_eq stopped_def)

lemma run_complete_Inr:
  "run_complete now mid r = Inr r' \<longleftrightarrow> run_status r = RunStatus.RUNNING \<and>
     r' = (stopped now r)\<lparr>run_status := RunStatus.COMPLETED,
        run_final_message_id := Some mid, run_completed_at := Some now\<rparr>"
  by (auto simp: run_complete_def run_release_claim_def run_pause_eq stopped_def)

lemma run_fail_Inr:
  "run_fail now code r = Inr r' \<longleftrightarrow> run_status r \<notin> TERMINAL_RUN_STATUSES \<and>
     r' = (stopped now r)\<lparr>run_status := RunStatus.FAILED,
        run_error_code := Some code, run_completed_at := Some now\<rparr>"
  by (auto simp: run_fail_def run_release_claim_def run_pause_eq stopped_def)

lemma run_cancel_Inr:
  "run_cancel now r = Inr r' \<longleftrightarrow> run_status r \<notin> TERMINAL_RUN_STATUSES \<and>
     r' = (stopped now r)\<lparr>run_status := RunStatus.CANCELLED, run_completed_at := Some now\<rparr>"
  by (auto simp: run_cancel_def run_release_claim_def run_pause_eq stopped_def)

lemma run_resume_Inr:
  "run_resume now iid response r = Inr r' \<longleftrightarrow> run_status r = RunStatus.WAITING_FOR_USER \<and>
     run_interrupt_id r = Some iid \<and>
     r' = r\<lparr>run_status := RunStatus.QUEUED, run_interrupt_id := None, run_interrupt := None,
        run_resume_payload := Some response, run_current_phase := Some (u ''resuming''),
        run_status_label := Some RESUMING_LABEL, run_updated_at := now,
        run_version := run_version r + 1\<rparr>"
  by (auto simp only: run_resume_def split: if_splits)

lemma run_accept_Inr:
  "run_accept_terminal_output now out r = Inr r' \<longleftrightarrow> run_status r = RunStatus.RUNNING \<and>
     (run_terminal_output r = Some out \<and> r' = r \<or>
      run_terminal_output r = None \<and>
      r' = r\<lparr>run_terminal_output := Some out, run_graph_terminal_at := Some now,
          run_updated_at := now, run_version := run_version r + 1\<rparr>)"
  by (auto simp only: run_accept_terminal_output_def split: if_splits option.splits)

lemmas run_transitions_Inr = run_start_Inr run_recover_Inr run_wait_Inr run_complete_Inr
  run_fail_Inr run_cancel_Inr run_resume_Inr run_accept_Inr

text \<open>Every transition keeps the identity and the event counter and raises the version.\<close>

definition run_evolves :: "AgentRun \<Rightarrow> AgentRun \<Rightarrow> bool" where
  "run_evolves r r' \<longleftrightarrow> run_ident r' = run_ident r \<and> run_event_sequence r' = run_event_sequence r \<and>
     run_version r \<le> run_version r' \<and> (run_fields_ok r \<longrightarrow> run_fields_ok r')"

lemma run_evolvesI:
  assumes "run_ident r' = run_ident r" "run_event_sequence r' = run_event_sequence r"
    "run_version r \<le> run_version r'" "run_fields_ok r \<Longrightarrow> run_fields_ok r'"
  shows "run_evolves r r'"
  using assms by (simp add: run_evolves_def)

lemma fields_ok_stopped:
  assumes "run_fields_ok r" "run_status r \<notin> TERMINAL_RUN_STATUSES"
  shows "run_claim_owner (stopped now r) = None" "run_active_started_at (stopped now r) = None"
    "run_completed_at r = None" "run_final_message_id r = None" "run_error_code r = None"
    "run_status r = RunStatus.RUNNING \<Longrightarrow> run_interrupt_id r = None"
  using assms by (auto simp: run_fields_ok_def stopped_def TERMINAL_RUN_STATUSES_def)

lemma run_claim_evolves:
  assumes "run_claimable now r"
  shows "run_evolves r (claim_row owner t now lease r)"
proof (rule run_evolvesI)
  assume ok: "run_fields_ok r"
  have "run_status r = RunStatus.QUEUED \<or> run_status r = RunStatus.RUNNING"
    using assms by (auto simp: run_claimable_def)
  then show "run_fields_ok (claim_row owner t now lease r)"
    using ok by (elim disjE) (simp_all add: run_fields_ok_def claim_row_def split: option.split)
qed (simp_all add: run_ident_def claim_row_def)

lemma run_start_evolves:
  assumes "run_start now phase label r = Inr r'"
  shows "run_evolves r r'"
proof (rule run_evolvesI)
  assume "run_fields_ok r"
  with assms show "run_fields_ok r'"
    by (simp add: run_start_Inr run_fields_ok_def split: option.split)
qed (use assms in \<open>simp_all add: run_start_Inr run_ident_def\<close>)

lemma run_resume_evolves:
  assumes "run_resume now iid response r = Inr r'"
  shows "run_evolves r r'"
proof (rule run_evolvesI)
  assume "run_fields_ok r"
  with assms show "run_fields_ok r'"
    by (simp add: run_resume_Inr run_fields_ok_def)
qed (use assms in \<open>simp_all add: run_resume_Inr run_ident_def\<close>)

lemma run_accept_evolves:
  assumes "run_accept_terminal_output now out r = Inr r'"
  shows "run_evolves r r'"
proof (rule run_evolvesI)
  assume "run_fields_ok r"
  with assms show "run_fields_ok r'"
    by (auto simp: run_accept_Inr) (simp add: run_fields_ok_def)
qed (use assms in \<open>auto simp: run_accept_Inr run_ident_def\<close>)

text \<open>The five transitions that end a turn of work share \<open>stopped\<close>.\<close>

lemma run_recover_evolves:
  assumes "run_recover_after_crash now r = Inr r'"
  shows "run_evolves r r'"
proof (rule run_evolvesI)
  assume "run_fields_ok r"
  with assms show "run_fields_ok r'"
    by (simp add: run_recover_Inr run_fields_ok_def stopped_def add_nonneg_nonneg)
qed (use assms in \<open>simp_all add: run_recover_Inr run_ident_def stopped_def\<close>)

lemma run_wait_evolves:
  assumes "run_wait_for_user now iid payload r = Inr r'"
  shows "run_evolves r r'"
proof (rule run_evolvesI)
  assume "run_fields_ok r"
  with assms show "run_fields_ok r'"
    by (simp add: run_wait_Inr run_fields_ok_def stopped_def add_nonneg_nonneg)
qed (use assms in \<open>simp_all add: run_wait_Inr run_ident_def stopped_def\<close>)

lemma run_complete_evolves:
  assumes "run_complete now mid r = Inr r'"
  shows "run_evolves r r'"
proof (rule run_evolvesI)
  assume "run_fields_ok r"
  with assms show "run_fields_ok r'"
    by (simp add: run_complete_Inr run_fields_ok_def stopped_def add_nonneg_nonneg)
qed (use assms in \<open>simp_all add: run_complete_Inr run_ident_def stopped_def\<close>)

lemma run_fail_evolves:
  assumes "run_fail now code r = Inr r'"
  shows "run_evolves r r'"
proof (rule run_evolvesI)
  assume "run_fields_ok r"
  with assms show "run_fields_ok r'"
    by (cases "run_status r") (simp_all add: run_fail_Inr run_fields_ok_def stopped_def add_nonneg_nonneg)
qed (use assms in \<open>simp_all add: run_fail_Inr run_ident_def stopped_def\<close>)

lemma run_cancel_evolves:
  assumes "run_cancel now r = Inr r'"
  shows "run_evolves r r'"
proof (rule run_evolvesI)
  assume "run_fields_ok r"
  with assms show "run_fields_ok r'"
    by (cases "run_status r") (simp_all add: run_cancel_Inr run_fields_ok_def stopped_def add_nonneg_nonneg)
qed (use assms in \<open>simp_all add: run_cancel_Inr run_ident_def stopped_def\<close>)

lemma run_renew_evolves:
  assumes "run_claim_owner r \<noteq> None"
  shows "run_evolves r (r\<lparr>run_heartbeat_at := Some now, run_lease_expires_at := Some lease,
      run_updated_at := upd_at\<rparr>)"
proof (rule run_evolvesI)
  assume "run_fields_ok r"
  with assms show "run_fields_ok (r\<lparr>run_heartbeat_at := Some now, run_lease_expires_at := Some lease,
      run_updated_at := upd_at\<rparr>)"
    by (cases "run_status r") (simp_all add: run_fields_ok_def)
qed (simp_all add: run_ident_def)

lemma run_move_evolves: "run_move t r r' \<Longrightarrow> run_evolves r r'"
  by (induction rule: run_move.induct)
     (blast intro: run_claim_evolves run_renew_evolves run_start_evolves run_recover_evolves
       run_accept_evolves run_fail_evolves run_cancel_evolves)+

section \<open>Jobs and tool executions, row by row\<close>

definition job_fields_ok :: "DurableJob \<Rightarrow> bool" where
  "job_fields_ok j \<longleftrightarrow>
     (job_claimed_by j \<noteq> None \<longleftrightarrow> job_status j = DurableJobStatus.CLAIMED)
   \<and> (job_lease_until j \<noteq> None \<longleftrightarrow> job_status j = DurableJobStatus.CLAIMED)
   \<and> job_delivery_attempt j = job_claim_epoch j \<and> 0 \<le> job_claim_epoch j
   \<and> 1 \<le> job_max_delivery_attempts j \<and> strip (job_dedupe_key j) \<noteq> []"

definition job_ident :: "DurableJob \<Rightarrow> uuid \<times> uuid \<times> DurableJobKind \<times> str \<times> jdict \<times> int \<times> int" where
  "job_ident j = (job_id j, job_user_id j, job_kind j, job_dedupe_key j, job_payload j,
     job_max_delivery_attempts j, job_priority j)"

definition job_evolves :: "DurableJob \<Rightarrow> DurableJob \<Rightarrow> bool" where
  "job_evolves j j' \<longleftrightarrow> job_ident j' = job_ident j \<and> job_claim_epoch j \<le> job_claim_epoch j' \<and>
     (job_fields_ok j \<longrightarrow> job_fields_ok j')"

lemma job_move_evolves: "job_move j j' \<Longrightarrow> job_evolves j j'"
proof (induction rule: job_move.induct)
  case (settle jid owner epoch j now status code)
  then show ?case
    by (cases status) (simp_all add: job_evolves_def job_ident_def job_fields_ok_def job_fence_def)
next
  case (resume j now)
  then have "job_status j \<noteq> DurableJobStatus.CLAIMED"
    by auto
  then show ?case
    by (simp add: job_evolves_def job_ident_def job_fields_ok_def)
qed (simp_all add: job_evolves_def job_ident_def job_fields_ok_def claim_job_row_def job_due_def
    job_fence_def job_expired_def)

text \<open>
  The ledger: a result is recorded exactly in the two settled states, a receipt only for a
  success, and an execution that must not be replayed was acquired once.
\<close>

definition tool_fields_ok :: "ToolExecution \<Rightarrow> bool" where
  "tool_fields_ok x \<longleftrightarrow>
     (tex_result x \<noteq> None \<longleftrightarrow>
        tex_status x \<in> {ToolExecutionStatus.SUCCEEDED, ToolExecutionStatus.FAILED})
   \<and> tex_receipt x = (if tex_status x = ToolExecutionStatus.SUCCEEDED then tex_result x else None)
   \<and> (tex_error_code x \<noteq> None \<longleftrightarrow>
        tex_status x \<in> {ToolExecutionStatus.FAILED, ToolExecutionStatus.UNKNOWN_OUTCOME})
   \<and> (tex_status x = ToolExecutionStatus.UNKNOWN_OUTCOME \<longrightarrow> \<not> tex_replay_safe x)
   \<and> 1 \<le> tex_attempt_count x \<and> (tex_replay_safe x \<or> tex_attempt_count x = 1)"

definition tool_ident :: "ToolExecution \<Rightarrow> uuid \<times> uuid \<times> str \<times> str \<times> str \<times> bool \<times> str option" where
  "tool_ident x = (tex_id x, tex_run_id x, tex_action_id x, tex_tool_name x, tex_arguments_hash x,
     tex_replay_safe x, tex_idempotency_key x)"

definition tool_evolves :: "ToolExecution \<Rightarrow> ToolExecution \<Rightarrow> bool" where
  "tool_evolves x x' \<longleftrightarrow> tool_ident x' = tool_ident x \<and> tex_attempt_count x \<le> tex_attempt_count x' \<and>
     (tool_fields_ok x \<longrightarrow> tool_fields_ok x') \<and>
     (tool_fields_ok x \<longrightarrow> tex_result x \<noteq> None \<longrightarrow> x' = x)"

lemma tool_move_evolves: "tool_move t x x' \<Longrightarrow> tool_evolves x x'"
  by (induction rule: tool_move.induct)
     (simp_all add: tool_evolves_def tool_ident_def tool_fields_ok_def settle_tool_row_def, blast)

lemma fresh_tool_ok: "fresh_tool t x \<Longrightarrow> tool_fields_ok x"
  by (simp add: fresh_tool_def tool_fields_ok_def)

lemma fresh_run_ok:
  assumes "fresh_run r"
  shows "run_fields_ok r" "run_status r = RunStatus.QUEUED" "run_event_sequence r = 0"
    "run_final_message_id r = None" "run_interrupt_id r = None" "run_claim_token r = None"
  using assms by (auto simp: fresh_run_def new_run_def run_fields_ok_def)

lemma fresh_job_ok:
  assumes "fresh_job user_id rid j"
  shows "job_fields_ok j" "job_user_id j = user_id" "job_dedupe_key j = agent_run_key rid"
    "job_kind j = DurableJobKind.AGENT_RUN" "job_payload j = [u ''run_id'' \<mapsto> juuid rid]"
    "job_status j = DurableJobStatus.READY"
  using assms
  by (auto simp: fresh_job_def agent_run_job_def DurableJob_init_def job_fields_ok_def
      split: if_splits)

lemma fresh_other_job_ok: "fresh_other_job j \<Longrightarrow> job_fields_ok j"
  by (auto simp: fresh_other_job_def DurableJob_init_def job_fields_ok_def split: if_splits)

lemma agent_run_key_agent [simp]: "agent_key (agent_run_key rid)"
  by (simp add: agent_key_def agent_run_key_def)

section \<open>Across tables\<close>

definition keys_ok :: "db \<Rightarrow> bool" where
  "keys_ok s \<longleftrightarrow> keyed run_id (db_runs s)
   \<and> keyed (\<lambda>r. (run_user_id r, run_idempotency_key r)) (db_runs s)
   \<and> keyed thr_id (db_threads s) \<and> keyed msg_id (db_messages s)
   \<and> keyed ixn_id (db_interactions s) \<and> keyed evt_id (db_events s)
   \<and> keyed (\<lambda>p. (rop_user_id p, rop_idempotency_key p)) (db_run_ops s)
   \<and> keyed tex_id (db_tools s) \<and> keyed (\<lambda>x. (tex_run_id x, tex_action_id x)) (db_tools s)
   \<and> keyed job_id (db_jobs s) \<and> keyed (\<lambda>j. (job_user_id j, job_dedupe_key j)) (db_jobs s)"

definition rows_ok :: "db \<Rightarrow> bool" where
  "rows_ok s \<longleftrightarrow> (\<forall>r \<in> set (db_runs s). run_fields_ok r)
   \<and> (\<forall>j \<in> set (db_jobs s). job_fields_ok j) \<and> (\<forall>x \<in> set (db_tools s). tool_fields_ok x)"

text \<open>The events of a run are numbered 1, 2, \<dots> up to the run's counter, in the order of the log.\<close>

definition run_log :: "uuid \<Rightarrow> db \<Rightarrow> RunEvent list" where
  "run_log rid s = filter (\<lambda>ev. evt_run_id ev = rid) (db_events s)"

definition log_ok :: "db \<Rightarrow> bool" where
  "log_ok s \<longleftrightarrow> (\<forall>ev \<in> set (db_events s). evt_run_id ev \<in> run_id ` set (db_runs s))
   \<and> (\<forall>r \<in> set (db_runs s). map evt_sequence (run_log (run_id r) s) = [1..run_event_sequence r])"

text \<open>A run belongs to a thread of its user, has its input message and, once completed, its answer.\<close>

definition answer_of :: "AgentRun \<Rightarrow> Message \<Rightarrow> bool" where
  "answer_of r m \<longleftrightarrow> run_final_message_id r = Some (msg_id m) \<and> msg_role m = MessageRole.ASSISTANT \<and>
     msg_run_id m = Some (run_id r) \<and> msg_user_id m = run_user_id r \<and>
     msg_thread_id m = run_thread_id r \<and> strip (msg_content m) \<noteq> []"

definition input_of :: "AgentRun \<Rightarrow> Message \<Rightarrow> bool" where
  "input_of r m \<longleftrightarrow> run_input_message_id r = Some (msg_id m) \<and>
     msg_run_id m = Some (run_id r) \<and> msg_user_id m = run_user_id r \<and>
     msg_thread_id m = run_thread_id r"

definition messages_ok :: "db \<Rightarrow> bool" where
  "messages_ok s \<longleftrightarrow> (\<forall>r \<in> set (db_runs s).
     (\<exists>t \<in> set (db_threads s). thr_id t = run_thread_id r \<and> thr_user_id t = run_user_id r)
   \<and> (\<exists>m \<in> set (db_messages s). input_of r m)
   \<and> (run_final_message_id r \<noteq> None \<longrightarrow> (\<exists>m \<in> set (db_messages s). answer_of r m)))"

text \<open>A waiting run has its question open; an open question is the interrupt of its run.\<close>

definition asks :: "AgentRun \<Rightarrow> RunInteraction \<Rightarrow> bool" where
  "asks r i \<longleftrightarrow> run_interrupt_id r = Some (ixn_id i) \<and> ixn_run_id i = run_id r \<and>
     ixn_user_id i = run_user_id r"

definition interactions_ok :: "db \<Rightarrow> bool" where
  "interactions_ok s \<longleftrightarrow>
     (\<forall>r \<in> set (db_runs s). run_status r = RunStatus.WAITING_FOR_USER \<longrightarrow>
        (\<exists>i \<in> set (db_interactions s). asks r i \<and> ixn_status i = RunInteractionStatus.PENDING))
   \<and> (\<forall>i \<in> set (db_interactions s). ixn_status i = RunInteractionStatus.PENDING \<longrightarrow>
        (\<exists>r \<in> set (db_runs s). asks r i))"

text \<open>
  Every run has the durable job that drives it, and every job drives a run or belongs to another
  component.
\<close>

definition drives :: "DurableJob \<Rightarrow> AgentRun \<Rightarrow> bool" where
  "drives j r \<longleftrightarrow> job_user_id j = run_user_id r \<and> job_dedupe_key j = agent_run_key (run_id r) \<and>
     job_kind j = DurableJobKind.AGENT_RUN \<and> job_payload j = [u ''run_id'' \<mapsto> juuid (run_id r)]"

definition driven_ok :: "db \<Rightarrow> bool" where
  "driven_ok s \<longleftrightarrow> (\<forall>r \<in> set (db_runs s). \<exists>j \<in> set (db_jobs s). drives j r)
   \<and> (\<forall>j \<in> set (db_jobs s). other_job j \<or> (\<exists>r \<in> set (db_runs s). drives j r))"

definition runtime_ok :: "db \<Rightarrow> bool" where
  "runtime_ok s \<longleftrightarrow> keys_ok s \<and> rows_ok s \<and> log_ok s \<and> messages_ok s \<and> interactions_ok s \<and>
     driven_ok s"

section \<open>Replacing a run\<close>

lemma in_put_run:
  assumes "keyed run_id (db_runs s)" "r \<in> set (db_runs s)" "run_id r' = run_id r"
  shows "x \<in> set (db_runs (put_run r' s)) \<longleftrightarrow> x = r' \<or> x \<in> set (db_runs s) \<and> run_id x \<noteq> run_id r"
  using assms by (auto simp: put_run_def set_upd)

lemma put_run_fields [simp]:
  "db_users (put_run r s) = db_users s" "db_things (put_run r s) = db_things s"
  "db_sources (put_run r s) = db_sources s" "db_threads (put_run r s) = db_threads s"
  "db_messages (put_run r s) = db_messages s" "db_events (put_run r s) = db_events s"
  "db_run_ops (put_run r s) = db_run_ops s" "db_interactions (put_run r s) = db_interactions s"
  "db_tools (put_run r s) = db_tools s" "db_jobs (put_run r s) = db_jobs s"
  by (simp_all add: put_run_def)

lemma keyed_const_upd:
  assumes "\<And>x. x \<in> set t \<Longrightarrow> p x \<Longrightarrow> k c = k x"
  shows "keyed k (upd p (\<lambda>_. c) t) = keyed k t"
proof -
  have "map k (upd p (\<lambda>_. c) t) = map k t"
    using assms by (induction t) auto
  then show ?thesis
    by (simp add: keyed_def)
qed

lemma keyed_put_run_key:
  assumes "keyed run_id (db_runs s)" "r \<in> set (db_runs s)" "run_id r' = run_id r" "k r' = k r"
  shows "keyed k (db_runs (put_run r' s)) = keyed k (db_runs s)"
proof -
  have "k r' = k x" if "x \<in> set (db_runs s)" "run_id x = run_id r'" for x
    using that assms keyed_unique [OF assms(1) that(1) assms(2)] by simp
  then show ?thesis
    by (simp add: put_run_def keyed_const_upd)
qed

lemma keyed_put_run:
  assumes "keyed run_id (db_runs s)" "r \<in> set (db_runs s)" "run_ident r' = run_ident r"
  shows "keyed run_id (db_runs (put_run r' s))"
    and "keyed (\<lambda>r. (run_user_id r, run_idempotency_key r)) (db_runs (put_run r' s)) =
      keyed (\<lambda>r. (run_user_id r, run_idempotency_key r)) (db_runs s)"
  using assms by (simp_all add: keyed_put_run_key run_ident_def)

lemma keyed_update_rows:
  assumes "\<And>x. x \<in> set t \<Longrightarrow> p x \<Longrightarrow> k (f x) = k x"
  shows "keyed k (upd p f t) = keyed k t"
proof -
  have "map k (upd p f t) = map k t"
    using assms by (induction t) auto
  then show ?thesis
    by (simp add: keyed_def)
qed

lemma map_rebind [simp]: "(\<And>x v. k (x\<lparr>thr_active_thing_id := v\<rparr>) = k x) \<Longrightarrow>
    map k (rebind_threads g ts) = map k ts"
  by (simp add: rebind_threads_def comp_def)

lemma keyed_rebind [simp]: "(\<And>x v. k (x\<lparr>thr_active_thing_id := v\<rparr>) = k x) \<Longrightarrow>
    keyed k (rebind_threads g ts) = keyed k ts"
  by (simp add: keyed_def)

section \<open>Store writes keep the keys\<close>

lemma store_write_keys:
  assumes "store_write t s s'" "keys_ok s"
  shows "keys_ok s'"
  using assms
proof (induction rule: store_write.induct)
  case (run r s r')
  then have "run_ident r' = run_ident r"
    using run_move_evolves by (auto simp: run_evolves_def)
  with run show ?case
    by (simp add: keys_ok_def keyed_put_run)
next
  case (wait r s now i payload r')
  then have "run_ident r' = run_ident r"
    using run_wait_evolves by (auto simp: run_evolves_def)
  with wait keyed_put_run [of "s\<lparr>db_interactions := db_interactions s @ [i]\<rparr>" r r'] show ?case
    by (auto simp: keys_ok_def interaction_clash_def)
next
  case (resume r s now iid response r' i now' i')
  then have "run_ident r' = run_ident r"
    using run_resume_evolves by (auto simp: run_evolves_def)
  with resume keyed_put_run [of "interactions_resolve i' s" r r'] show ?case
    by (auto simp: keys_ok_def interactions_resolve_def keyed_upd)
next
  case (complete r s now m r')
  then have "run_ident r' = run_ident r"
    using run_complete_evolves by (auto simp: run_evolves_def)
  then show ?case
    using complete keyed_put_run [of "s\<lparr>db_threads := upd (\<lambda>x. thr_id x = msg_thread_id m \<and>
      thr_user_id x = msg_user_id m) (\<lambda>x. x\<lparr>thr_updated_at := max (thr_updated_at x)
      (msg_created_at m)\<rparr>) (db_threads s), db_messages := db_messages s @ [m]\<rparr>" r r']
    by (auto simp: keys_ok_def keyed_upd)
next
  case (event r s ev)
  then show ?case
    using keyed_put_run [of "s\<lparr>db_events := db_events s @ [ev]\<rparr>" r
      "r\<lparr>run_event_sequence := run_event_sequence r + 1\<rparr>"]
    by (auto simp: keys_ok_def event_clash_def run_ident_def)
next
  case (create r s m j)
  then show ?case
    by (auto simp: keys_ok_def keyed_upd run_clash_def job_clash_def)
next
  case (jobs s p f)
  then have "job_ident (f j) = job_ident j" if "j \<in> set (db_jobs s)" "p j" for j
    using that job_move_evolves by (auto simp: job_evolves_def)
  with jobs show ?case
    by (simp add: keys_ok_def keyed_update_rows job_ident_def)
next
  case (tools s p f)
  then have "tool_ident (f x) = tool_ident x" if "x \<in> set (db_tools s)" "p x" for x
    using that tool_move_evolves by (auto simp: tool_evolves_def)
  with tools show ?case
    by (simp add: keys_ok_def keyed_update_rows tool_ident_def)
next
  case (tool_add x s)
  then show ?case
    by (auto simp: keys_ok_def tool_clash_def)
qed (auto simp: keys_ok_def threads_archive_def keyed_upd thread_clash_def job_clash_def)

end
