(* ===== verification/RuntimeSafety.thy ===== *)
theory RuntimeSafety
  imports RuntimeInvariants
begin

text \<open>
  Every store write keeps the whole invariant \<open>runtime_ok\<close>: rows, event log, messages,
  interactions and jobs. The keys are kept by \<open>store_write_keys\<close>.
\<close>

lemma store_write_rows:
  assumes "store_write t s s'" "keys_ok s" "rows_ok s"
  shows "rows_ok s'"
  using assms
proof (induction rule: store_write.induct)
  case (run r s r')
  then have "run_evolves r r'"
    by (simp add: run_move_evolves)
  with run show ?case
    by (auto simp: rows_ok_def keys_ok_def in_put_run run_evolves_def run_ident_def)
next
  case (wait r s now i payload r')
  then have "run_evolves r r'"
    by (simp add: run_wait_evolves)
  with wait in_put_run [of "s\<lparr>db_interactions := db_interactions s @ [i]\<rparr>" r r'] show ?case
    by (auto simp: rows_ok_def keys_ok_def run_evolves_def run_ident_def)
next
  case (resume r s now iid response r' i now' i')
  then have "run_evolves r r'"
    by (simp add: run_resume_evolves)
  with resume in_put_run [of "interactions_resolve i' s" r r'] show ?case
    by (auto simp: rows_ok_def keys_ok_def run_evolves_def run_ident_def interactions_resolve_def)
next
  case (complete r s now m r')
  then have "run_evolves r r'"
    by (simp add: run_complete_evolves)
  then show ?case
    using complete in_put_run [of "s\<lparr>db_threads := upd (\<lambda>x. thr_id x = msg_thread_id m \<and>
      thr_user_id x = msg_user_id m) (\<lambda>x. x\<lparr>thr_updated_at := max (thr_updated_at x)
      (msg_created_at m)\<rparr>) (db_threads s), db_messages := db_messages s @ [m]\<rparr>" r r']
    by (auto simp: rows_ok_def keys_ok_def run_evolves_def run_ident_def)
next
  case (event r s ev)
  have "run_fields_ok (r\<lparr>run_event_sequence := run_event_sequence r + 1\<rparr>)" if "run_fields_ok r"
    using that by (simp add: run_fields_ok_def)
  with event in_put_run [of "s\<lparr>db_events := db_events s @ [ev]\<rparr>" r
      "r\<lparr>run_event_sequence := run_event_sequence r + 1\<rparr>"] show ?case
    by (auto simp: rows_ok_def keys_ok_def)
next
  case (create r s m j)
  then show ?case
    by (auto simp: rows_ok_def fresh_run_ok fresh_job_ok)
next
  case (jobs s p f)
  then have "job_evolves j (f j)" if "j \<in> set (db_jobs s)" "p j" for j
    using that by (blast intro: job_move_evolves)
  with jobs show ?case
    by (auto simp: rows_ok_def job_evolves_def set_upd)
next
  case (tools s p f)
  then have "tool_evolves x (f x)" if "x \<in> set (db_tools s)" "p x" for x
    using that by (blast intro: tool_move_evolves)
  with tools show ?case
    by (auto simp: rows_ok_def tool_evolves_def set_upd)
next
  case (tool_add x s)
  then show ?case
    by (auto simp: rows_ok_def fresh_tool_ok)
qed (auto simp: rows_ok_def threads_archive_def fresh_other_job_ok)

lemma run_log_simps [simp]:
  "run_log rid (put_run r s) = run_log rid s"
  "run_log rid (s\<lparr>db_events := db_events s @ [ev]\<rparr>) =
     run_log rid s @ (if evt_run_id ev = rid then [ev] else [])"
  by (simp_all add: run_log_def)

lemma run_log_cong: "db_events s' = db_events s \<Longrightarrow> run_log rid s' = run_log rid s"
  by (simp add: run_log_def)

lemma put_run_fields_runs:
  "db_runs (put_run r s) = upd (\<lambda>x. run_id x = run_id r) (\<lambda>_. r) (db_runs s)"
  by (simp add: put_run_def)

lemma ids_put_run [simp]: "run_id ` set (db_runs (put_run r s)) = run_id ` set (db_runs s)"
proof -
  have "map run_id (upd (\<lambda>x. run_id x = run_id r) (\<lambda>_. r) t) = map run_id t" for t
    by (induction t) auto
  then show ?thesis
    by (metis put_run_fields_runs list.set_map)
qed

lemma run_log_missing:
  "\<forall>ev \<in> set (db_events s). evt_run_id ev \<in> A \<Longrightarrow> rid \<notin> A \<Longrightarrow> run_log rid s = []"
  by (auto simp: run_log_def filter_empty_conv)

lemma log_ok_put_run:
  assumes "log_ok s" "keyed run_id (db_runs s)" "r \<in> set (db_runs s)" "run_id r' = run_id r"
    "run_event_sequence r' = run_event_sequence r"
  shows "log_ok (put_run r' s)"
  using assms by (auto simp: log_ok_def in_put_run)

lemma store_write_log:
  assumes "store_write t s s'" "keys_ok s" "rows_ok s" "log_ok s"
  shows "log_ok s'"
  using assms
proof (induction rule: store_write.induct)
  case (run r s r')
  then have "run_evolves r r'"
    by (simp add: run_move_evolves)
  with run show ?case
    by (auto intro!: log_ok_put_run simp: keys_ok_def run_evolves_def run_ident_def)
next
  case (wait r s now i payload r')
  then have "run_evolves r r'" "log_ok (s\<lparr>db_interactions := db_interactions s @ [i]\<rparr>)"
    by (simp_all add: run_wait_evolves log_ok_def run_log_def)
  with wait show ?case
    by (auto intro!: log_ok_put_run [where r = r] simp: keys_ok_def run_evolves_def run_ident_def)
next
  case (resume r s now iid response r' i now' i')
  then have "run_evolves r r'" "log_ok (interactions_resolve i' s)"
    by (simp_all add: run_resume_evolves log_ok_def run_log_def interactions_resolve_def)
  with resume show ?case
    by (auto intro!: log_ok_put_run [where r = r] simp: keys_ok_def run_evolves_def run_ident_def
        interactions_resolve_def)
next
  case (complete r s now m r')
  then have "run_evolves r r'"
    by (simp add: run_complete_evolves)
  with complete show ?case
    by (intro log_ok_put_run [where r = r])
       (auto simp: keys_ok_def run_evolves_def run_ident_def log_ok_def run_log_def)
next
  case (event r s ev)
  let ?r = "r\<lparr>run_event_sequence := run_event_sequence r + 1\<rparr>"
  have "0 \<le> run_event_sequence r"
    using event by (auto simp: rows_ok_def run_fields_ok_def)
  then have "[1..run_event_sequence r + 1] = [1..run_event_sequence r] @ [run_event_sequence r + 1]"
    using upto_rec2 [of 1 "run_event_sequence r + 1"] by simp
  with event in_put_run [of "s\<lparr>db_events := db_events s @ [ev]\<rparr>" r ?r] show ?case
    by (auto simp: log_ok_def keys_ok_def)
next
  case (create r s m j)
  then have "run_id r \<notin> run_id ` set (db_runs s)"
    by (auto simp: run_clash_def)
  with create have "run_log (run_id r) s = []"
    by (auto simp: log_ok_def intro: run_log_missing)
  with create show ?case
    by (auto simp: log_ok_def run_log_def fresh_run_ok)
qed (auto simp: log_ok_def run_log_def threads_archive_def)

section \<open>Messages, interactions and jobs\<close>

text \<open>Each part of these invariants speaks of one run; \<open>put_run\<close> keeps it if the new row has it.\<close>

lemma all_put_run:
  assumes "keyed run_id (db_runs s)" "r \<in> set (db_runs s)" "run_id r' = run_id r"
    and "\<And>x. x \<in> set (db_runs s) \<Longrightarrow> run_id x \<noteq> run_id r \<Longrightarrow> P x" and "P r'"
  shows "\<forall>x \<in> set (db_runs (put_run r' s)). P x"
  using assms by (auto simp: in_put_run)

definition messages_ok1 :: "db \<Rightarrow> AgentRun \<Rightarrow> bool" where
  "messages_ok1 s r \<longleftrightarrow>
     (\<exists>t \<in> set (db_threads s). thr_id t = run_thread_id r \<and> thr_user_id t = run_user_id r)
   \<and> (\<exists>m \<in> set (db_messages s). input_of r m)
   \<and> (run_final_message_id r \<noteq> None \<longrightarrow> (\<exists>m \<in> set (db_messages s). answer_of r m))"

lemma messages_ok_iff: "messages_ok s \<longleftrightarrow> (\<forall>r \<in> set (db_runs s). messages_ok1 s r)"
  by (simp add: messages_ok_def messages_ok1_def)

text \<open>The tables only grow: threads keep their keys, messages stay.\<close>

lemma messages_ok1_mono:
  assumes "messages_ok1 s r" "set (db_messages s) \<subseteq> set (db_messages s')"
    "(\<lambda>t. (thr_id t, thr_user_id t)) ` set (db_threads s) \<subseteq>
       (\<lambda>t. (thr_id t, thr_user_id t)) ` set (db_threads s')"
    "run_ident r' = run_ident r" "run_final_message_id r' = run_final_message_id r"
  shows "messages_ok1 s' r'"
proof -
  obtain t where "t \<in> set (db_threads s)" "thr_id t = run_thread_id r" "thr_user_id t = run_user_id r"
    using assms(1) by (auto simp: messages_ok1_def)
  then have "(run_thread_id r, run_user_id r) \<in> (\<lambda>t. (thr_id t, thr_user_id t)) ` set (db_threads s)"
    by force
  then obtain t' where "t' \<in> set (db_threads s')" "thr_id t' = run_thread_id r" "thr_user_id t' = run_user_id r"
    using assms(3) by auto
  then show ?thesis
    using assms(1,2) run_ident_eqD [OF assms(4)] assms(5)
    by (auto simp: messages_ok1_def input_of_def answer_of_def)
qed

lemma thread_keys_touch:
  assumes "\<And>x. thr_id (f x) = thr_id x" "\<And>x. thr_user_id (f x) = thr_user_id x"
  shows "(\<lambda>t. (thr_id t, thr_user_id t)) ` set (upd p f ts) = (\<lambda>t. (thr_id t, thr_user_id t)) ` set ts"
proof -
  have "map (\<lambda>t. (thr_id t, thr_user_id t)) (upd p f ts) = map (\<lambda>t. (thr_id t, thr_user_id t)) ts"
    using assms by (induction ts) auto
  from arg_cong [OF this, of set] show ?thesis
    by simp
qed

lemma run_move_final:
  assumes "run_move t r r'"
  shows "run_final_message_id r' = run_final_message_id r \<and> run_interrupt_id r' = run_interrupt_id r \<and>
    (run_status r' = RunStatus.WAITING_FOR_USER \<longrightarrow> run_status r = RunStatus.WAITING_FOR_USER)"
  using assms
proof cases
  case (accept now out)
  then show ?thesis
    unfolding run_accept_Inr by (elim conjE disjE) simp_all
qed (simp_all add: claim_row_def run_start_Inr run_recover_Inr run_fail_Inr run_cancel_Inr stopped_def)

lemma messages_ok_put_run:
  assumes "messages_ok s" "keyed run_id (db_runs s)" "r \<in> set (db_runs s)"
    "run_ident r' = run_ident r" "run_final_message_id r' = run_final_message_id r"
  shows "messages_ok (put_run r' s)"
proof -
  have 1: "messages_ok1 (put_run r' s) x \<longleftrightarrow> messages_ok1 s x" for x
    by (simp add: messages_ok1_def)
  have "messages_ok1 s r"
    using assms(1,3) by (simp add: messages_ok_iff)
  then have "messages_ok1 s r'"
    by (rule messages_ok1_mono) (use assms in simp_all)
  then show ?thesis
    unfolding messages_ok_iff 1
    by (intro all_put_run [where r = r])
       (use assms run_ident_eqD [OF assms(4)] in \<open>simp_all add: messages_ok_iff\<close>)
qed

lemma messages_ok_grow:
  assumes "messages_ok s" "db_runs s' = db_runs s" "set (db_messages s) \<subseteq> set (db_messages s')"
    "(\<lambda>t. (thr_id t, thr_user_id t)) ` set (db_threads s) \<subseteq>
       (\<lambda>t. (thr_id t, thr_user_id t)) ` set (db_threads s')"
  shows "messages_ok s'"
  unfolding messages_ok_iff
proof
  fix r
  assume "r \<in> set (db_runs s')"
  with assms have "messages_ok1 s r"
    by (simp add: messages_ok_iff)
  then show "messages_ok1 s' r"
    by (rule messages_ok1_mono) (use assms in simp_all)
qed

lemma thread_keys_rebind: "(\<lambda>t. (thr_id t, thr_user_id t)) ` set (rebind_threads g ts) =
    (\<lambda>t. (thr_id t, thr_user_id t)) ` set ts"
  by (simp add: rebind_threads_def image_image)

definition touch_thread :: "Message \<Rightarrow> Thread list \<Rightarrow> Thread list" where
  "touch_thread m = upd (\<lambda>x. thr_id x = msg_thread_id m \<and> thr_user_id x = msg_user_id m)
      (\<lambda>x. x\<lparr>thr_updated_at := max (thr_updated_at x) (msg_created_at m)\<rparr>)"

lemma touch_thread_keys [simp]:
  "(\<lambda>t. (thr_id t, thr_user_id t)) ` set (touch_thread m ts) =
     (\<lambda>t. (thr_id t, thr_user_id t)) ` set ts"
  unfolding touch_thread_def by (rule thread_keys_touch) simp_all

lemma store_write_messages:
  assumes "store_write t s s'" "keys_ok s" "messages_ok s"
  shows "messages_ok s'"
  using assms
proof (induction rule: store_write.induct)
  case (run r s r')
  then have "run_ident r' = run_ident r" "run_final_message_id r' = run_final_message_id r"
    using run_move_evolves run_move_final by (auto simp: run_evolves_def)
  with run show ?case
    by (simp add: messages_ok_put_run keys_ok_def)
next
  case (wait r s now i payload r')
  then have "run_ident r' = run_ident r" "run_final_message_id r' = run_final_message_id r"
    using run_wait_evolves by (auto simp: run_evolves_def run_wait_Inr stopped_def)
  with wait show ?case
    by (intro messages_ok_put_run [where r = r]) (simp_all add: messages_ok_def keys_ok_def)
next
  case (resume r s now iid response r' i now' i')
  then have "run_ident r' = run_ident r" "run_final_message_id r' = run_final_message_id r"
    using run_resume_evolves by (auto simp: run_evolves_def run_resume_Inr)
  with resume show ?case
    by (intro messages_ok_put_run [where r = r])
       (simp_all add: messages_ok_def keys_ok_def interactions_resolve_def)
next
  case (complete r s now m r')
  let ?s = "s\<lparr>db_threads := touch_thread m (db_threads s), db_messages := db_messages s @ [m]\<rparr>"
  have ok: "messages_ok ?s"
    using complete.prems(2) by (rule messages_ok_grow) auto
  have id: "run_ident r' = run_ident r" and fin: "run_final_message_id r' = Some (msg_id m)"
    using complete run_complete_evolves by (auto simp: run_evolves_def run_complete_Inr)
  have "messages_ok1 ?s r"
    using ok complete.hyps(1) by (simp add: messages_ok_iff)
  then have "messages_ok1 ?s r'"
    using run_ident_eqD [OF id] fin complete.hyps
    by (simp add: messages_ok1_def input_of_def answer_of_def)
  then have "\<forall>x \<in> set (db_runs (put_run r' ?s)). messages_ok1 ?s x"
    by (intro all_put_run [where r = r])
       (use ok complete run_ident_eqD [OF id] in \<open>simp_all add: messages_ok_iff keys_ok_def\<close>)
  then show ?case
    by (simp add: messages_ok_iff messages_ok1_def flip: touch_thread_def)
next
  case (event r s ev)
  then show ?case
    by (intro messages_ok_put_run [where r = r])
       (simp_all add: messages_ok_def keys_ok_def run_ident_def)
next
  case (create r s m j)
  let ?s = "s\<lparr>db_threads := touch_thread m (db_threads s), db_messages := db_messages s @ [m]\<rparr>"
  have ok: "messages_ok ?s"
    using create.prems(2) by (rule messages_ok_grow) auto
  obtain t where "t \<in> set (db_threads s)" "thr_id t = run_thread_id r" "thr_user_id t = run_user_id r"
    using create by (auto simp: threads_get_def dest!: sel1_Some)
  then have "(run_thread_id r, run_user_id r) \<in>
      (\<lambda>t. (thr_id t, thr_user_id t)) ` set (touch_thread m (db_threads s))"
    unfolding touch_thread_keys by force
  then obtain t' where "t' \<in> set (touch_thread m (db_threads s))" "thr_id t' = run_thread_id r"
      "thr_user_id t' = run_user_id r"
    by (elim imageE) simp
  moreover have "input_of r m"
    using create.hyps by (simp add: input_of_def)
  ultimately have "messages_ok1 ?s r"
    using fresh_run_ok(4) [OF create.hyps(1)] by (auto simp: messages_ok1_def)
  with ok show ?case
    by (simp add: messages_ok_iff messages_ok1_def flip: touch_thread_def)
next
  case (thread_add s r)
  from thread_add.prems(2) show ?case
    by (rule messages_ok_grow) auto
next
  case (thread_archive s x)
  from thread_archive.prems(2) show ?case
    by (rule messages_ok_grow) (simp_all add: threads_archive_def thread_keys_touch)
next
  case (thread_rebind s g)
  from thread_rebind.prems(2) show ?case
    by (rule messages_ok_grow) (simp_all add: thread_keys_rebind)
qed (simp_all add: messages_ok_def)

lemma new_in_put_run:
  "r \<in> set (db_runs s) \<Longrightarrow> run_id r' = run_id r \<Longrightarrow> r' \<in> set (db_runs (put_run r' s))"
  by (force simp: put_run_def set_upd)

lemma old_in_put_run:
  "x \<in> set (db_runs s) \<Longrightarrow> run_id x \<noteq> run_id r' \<Longrightarrow> x \<in> set (db_runs (put_run r' s))"
  by (force simp: put_run_def set_upd)

lemma drives_ident: "run_ident r' = run_ident r \<Longrightarrow> drives j r' = drives j r"
  by (auto simp: drives_def dest: run_ident_eqD)

lemma driven_ok_put_run:
  assumes "driven_ok s" "keyed run_id (db_runs s)" "r \<in> set (db_runs s)" "run_ident r' = run_ident r"
  shows "driven_ok (put_run r' s)"
proof -
  note id = run_ident_eqD [OF assms(4)]
  have "\<forall>x \<in> set (db_runs (put_run r' s)). \<exists>j \<in> set (db_jobs (put_run r' s)). drives j x"
    by (rule all_put_run [where r = r])
       (use assms drives_ident [OF assms(4)] id in \<open>auto simp: driven_ok_def\<close>)
  moreover have "\<exists>x \<in> set (db_runs (put_run r' s)). drives j x"
    if j: "j \<in> set (db_jobs s)" "\<not> other_job j" for j
  proof -
    obtain x where x: "x \<in> set (db_runs s)" "drives j x"
      using j assms(1) by (auto simp: driven_ok_def)
    show ?thesis
    proof (cases "run_id x = run_id r")
      case True
      then have "drives j r'"
        using x assms keyed_unique drives_ident [OF assms(4)] by metis
      with assms(3) id show ?thesis
        by (blast intro: new_in_put_run)
    next
      case False
      with x id show ?thesis
        by (metis old_in_put_run)
    qed
  qed
  ultimately show ?thesis
    by (auto simp: driven_ok_def)
qed

lemma store_write_driven:
  assumes "store_write t s s'" "keys_ok s" "driven_ok s"
  shows "driven_ok s'"
  using assms
proof (induction rule: store_write.induct)
  case (run r s r')
  then have "run_ident r' = run_ident r"
    using run_move_evolves by (auto simp: run_evolves_def)
  with run show ?case
    by (simp add: driven_ok_put_run keys_ok_def)
next
  case (wait r s now i payload r')
  then have "run_ident r' = run_ident r"
    using run_wait_evolves by (auto simp: run_evolves_def)
  with wait show ?case
    by (intro driven_ok_put_run [where r = r]) (simp_all add: driven_ok_def keys_ok_def)
next
  case (resume r s now iid response r' i now' i')
  then have "run_ident r' = run_ident r"
    using run_resume_evolves by (auto simp: run_evolves_def)
  with resume show ?case
    by (intro driven_ok_put_run [where r = r])
       (simp_all add: driven_ok_def keys_ok_def interactions_resolve_def)
next
  case (complete r s now m r')
  then have "run_ident r' = run_ident r"
    using run_complete_evolves by (auto simp: run_evolves_def)
  with complete show ?case
    by (intro driven_ok_put_run [where r = r]) (simp_all add: driven_ok_def keys_ok_def)
next
  case (event r s ev)
  then show ?case
    by (intro driven_ok_put_run [where r = r]) (simp_all add: driven_ok_def keys_ok_def run_ident_def)
next
  case (create r s m j)
  then show ?case
    by (auto simp: driven_ok_def drives_def fresh_job_ok)
next
  case (jobs s p f)
  have same: "drives (f j) r = drives j r" if "j \<in> set (db_jobs s)" "p j" for j r
    using job_move_evolves [OF jobs.hyps [OF that]] by (simp add: job_evolves_def job_ident_def drives_def)
  have other: "other_job (f j) = other_job j" if "j \<in> set (db_jobs s)" "p j" for j
    using job_move_evolves [OF jobs.hyps [OF that]]
    by (simp add: job_evolves_def job_ident_def other_job_def)
  have "\<exists>j' \<in> set (upd p f (db_jobs s)). drives j' r" if r: "r \<in> set (db_runs s)" for r
  proof -
    obtain j where "j \<in> set (db_jobs s)" "drives j r"
      using r jobs.prems by (auto simp: driven_ok_def)
    then show ?thesis
      using same by (cases "p j") (force simp: set_upd)+
  qed
  moreover have "other_job j' \<or> (\<exists>r \<in> set (db_runs s). drives j' r)"
    if j': "j' \<in> set (upd p f (db_jobs s))" for j'
    using j' jobs.prems same other by (elim in_set_updE) (auto simp: driven_ok_def)
  ultimately show ?case
    by (simp add: driven_ok_def)
qed (auto simp: driven_ok_def threads_archive_def fresh_other_job_def)

section \<open>Interactions\<close>

lemma interactions_ok_put_run:
  assumes "interactions_ok s" "keyed run_id (db_runs s)" "r \<in> set (db_runs s)"
    "run_ident r' = run_ident r" "run_interrupt_id r' = run_interrupt_id r"
    "run_status r' = RunStatus.WAITING_FOR_USER \<longrightarrow> run_status r = RunStatus.WAITING_FOR_USER"
  shows "interactions_ok (put_run r' s)"
proof -
  note id = run_ident_eqD [OF assms(4)]
  have asks: "asks r' i = asks r i" for i
    using id assms(5) by (simp add: asks_def)
  have "\<forall>x \<in> set (db_runs (put_run r' s)). run_status x = RunStatus.WAITING_FOR_USER \<longrightarrow>
      (\<exists>i \<in> set (db_interactions s). asks x i \<and> ixn_status i = RunInteractionStatus.PENDING)"
    by (rule all_put_run [where r = r]) (use assms asks id in \<open>simp_all add: interactions_ok_def\<close>)
  moreover have "\<exists>x \<in> set (db_runs (put_run r' s)). asks x i"
    if i: "i \<in> set (db_interactions s)" "ixn_status i = RunInteractionStatus.PENDING" for i
  proof -
    obtain x where x: "x \<in> set (db_runs s)" "asks x i"
      using i assms(1) by (auto simp: interactions_ok_def)
    show ?thesis
    proof (cases "run_id x = run_id r")
      case True
      then have "asks r' i"
        using x assms asks keyed_unique by metis
      with assms(3) id show ?thesis
        by (blast intro: new_in_put_run)
    next
      case False
      with x id show ?thesis
        by (metis old_in_put_run)
    qed
  qed
  ultimately show ?thesis
    by (simp add: interactions_ok_def)
qed

text \<open>A run that is running has no open question, so a new one is its only one.\<close>

lemma no_open_question:
  assumes "interactions_ok s" "rows_ok s" "keyed run_id (db_runs s)" "r \<in> set (db_runs s)"
    "run_interrupt_id r = None" "i \<in> set (db_interactions s)" "ixn_run_id i = run_id r"
  shows "ixn_status i \<noteq> RunInteractionStatus.PENDING"
proof
  assume "ixn_status i = RunInteractionStatus.PENDING"
  then obtain x where "x \<in> set (db_runs s)" "asks x i"
    using assms by (auto simp: interactions_ok_def)
  with assms keyed_unique [OF assms(3)] show False
    by (metis asks_def option.distinct(1))
qed

lemma store_write_interactions:
  assumes "store_write t s s'" "keys_ok s" "rows_ok s" "interactions_ok s"
  shows "interactions_ok s'"
  using assms
proof (induction rule: store_write.induct)
  case (run r s r')
  then have "run_ident r' = run_ident r"
    using run_move_evolves by (auto simp: run_evolves_def)
  then show ?case
    using run run_move_final [OF run.hyps(2)]
    by (intro interactions_ok_put_run [OF run.prems(3)]) (auto simp: keys_ok_def)
next
  case (wait r s now i payload r')
  let ?s = "s\<lparr>db_interactions := db_interactions s @ [i]\<rparr>"
  have id: "run_ident r' = run_ident r"
    using wait.hyps run_wait_evolves by (auto simp: run_evolves_def)
  have iid: "run_interrupt_id r' = Some (ixn_id i)" and st: "run_status r = RunStatus.RUNNING"
    using wait.hyps by (simp_all add: run_wait_Inr)
  have "run_fields_ok r"
    using wait by (simp add: rows_ok_def)
  then have none: "run_interrupt_id r = None"
    by (cases "run_interrupt_id r") (simp_all add: run_fields_ok_def st)
  note ids = run_ident_eqD [OF id]
  have new: "asks r' i"
    using ids iid wait by (simp add: asks_def)
  have keys: "keyed run_id (db_runs s)"
    using wait by (simp add: keys_ok_def)
  have "\<forall>x \<in> set (db_runs (put_run r' ?s)). run_status x = RunStatus.WAITING_FOR_USER \<longrightarrow>
      (\<exists>i \<in> set (db_interactions ?s). asks x i \<and> ixn_status i = RunInteractionStatus.PENDING)"
    by (rule all_put_run [where r = r])
       (use wait keys new ids in \<open>auto simp: interactions_ok_def\<close>)
  moreover have "\<exists>x \<in> set (db_runs (put_run r' ?s)). asks x k"
    if k: "k \<in> set (db_interactions s)" "ixn_status k = RunInteractionStatus.PENDING" for k
  proof -
    obtain x where x: "x \<in> set (db_runs s)" "asks x k"
      using k wait.prems by (auto simp: interactions_ok_def)
    then have "run_id x \<noteq> run_id r"
      using no_open_question [OF wait.prems(3,2) keys wait.hyps(1) none k(1)] k(2)
      by (auto simp: asks_def)
    with x(1) have "x \<in> set (db_runs (put_run r' ?s))"
      using ids by (intro old_in_put_run) simp_all
    with x(2) show ?thesis
      by blast
  qed
  moreover have "\<exists>x \<in> set (db_runs (put_run r' ?s)). asks x i"
    using new new_in_put_run [of r ?s r'] wait.hyps(1) ids by auto
  ultimately show ?case
    by (auto simp: interactions_ok_def)
next
  case (resume r s now iid response r' i now' i')
  let ?s = "interactions_resolve i' s"
  have id: "run_ident r' = run_ident r" and st: "run_status r' = RunStatus.QUEUED"
    and iid: "run_interrupt_id r = Some iid"
    using resume run_resume_evolves by (auto simp: run_evolves_def run_resume_Inr)
  note ids = run_ident_eqD [OF id]
  have keys: "keyed run_id (db_runs s)"
    using resume by (simp add: keys_ok_def)
  have i: "i \<in> set (db_interactions s)" "ixn_id i = iid" "ixn_run_id i = run_id r"
    using resume.hyps(3) by (auto simp: interactions_get_def dest!: sel1_Some)
  have i': "ixn_id i' = iid" "ixn_status i' = RunInteractionStatus.RESOLVED"
    using resume.hyps(4) i(2) by (auto simp: interaction_resolve_def split: if_splits)
  have rows: "k \<in> set (db_interactions ?s) \<and> ixn_status k = RunInteractionStatus.PENDING \<longleftrightarrow>
      k \<in> set (db_interactions s) \<and> ixn_status k = RunInteractionStatus.PENDING \<and> ixn_id k \<noteq> iid" for k
    using i' by (auto simp: interactions_resolve_def set_upd image_iff split: if_splits)
  have "\<forall>x \<in> set (db_runs (put_run r' ?s)). run_status x = RunStatus.WAITING_FOR_USER \<longrightarrow>
      (\<exists>k \<in> set (db_interactions ?s). asks x k \<and> ixn_status k = RunInteractionStatus.PENDING)"
  proof (rule all_put_run [where r = r])
    fix x assume "x \<in> set (db_runs ?s)" and other: "run_id x \<noteq> run_id r"
    then have x: "x \<in> set (db_runs s)"
      by (simp add: interactions_resolve_def)
    show "run_status x = RunStatus.WAITING_FOR_USER \<longrightarrow>
      (\<exists>k \<in> set (db_interactions ?s). asks x k \<and> ixn_status k = RunInteractionStatus.PENDING)"
    proof
      assume "run_status x = RunStatus.WAITING_FOR_USER"
      then obtain k where k: "k \<in> set (db_interactions s)" "asks x k"
          "ixn_status k = RunInteractionStatus.PENDING"
        using x resume.prems by (auto simp: interactions_ok_def)
      have "ixn_id k \<noteq> iid"
      proof
        assume "ixn_id k = iid"
        then have "k = i"
          using k(1) i resume.prems(1) by (auto simp: keys_ok_def dest: keyed_unique)
        with k(2) i other show False
          by (simp add: asks_def)
      qed
      with k rows show "\<exists>k \<in> set (db_interactions ?s). asks x k \<and>
          ixn_status k = RunInteractionStatus.PENDING"
        by blast
    qed
  qed (use resume keys ids st in \<open>simp_all add: interactions_resolve_def\<close>)
  moreover have "\<exists>x \<in> set (db_runs (put_run r' ?s)). asks x k"
    if k: "k \<in> set (db_interactions ?s)" "ixn_status k = RunInteractionStatus.PENDING" for k
  proof -
    have k': "k \<in> set (db_interactions s)" "ixn_id k \<noteq> iid"
      using k rows [of k] by blast+
    then obtain x where x: "x \<in> set (db_runs s)" "asks x k"
      using k(2) resume.prems by (auto simp: interactions_ok_def)
    then have "x \<noteq> r"
      using iid k'(2) by (auto simp: asks_def)
    then have "run_id x \<noteq> run_id r'"
      using x resume.hyps(1) keyed_unique [OF keys] ids by metis
    with x(1) have "x \<in> set (db_runs (put_run r' ?s))"
      by (intro old_in_put_run) (simp_all add: interactions_resolve_def)
    with x(2) show ?thesis
      by blast
  qed
  ultimately show ?case
    by (simp add: interactions_ok_def)
next
  case (complete r s now m r')
  let ?s = "s\<lparr>db_threads := touch_thread m (db_threads s), db_messages := db_messages s @ [m]\<rparr>"
  have "run_ident r' = run_ident r" "run_interrupt_id r' = run_interrupt_id r"
    "run_status r' \<noteq> RunStatus.WAITING_FOR_USER"
    using complete run_complete_evolves by (auto simp: run_evolves_def run_complete_Inr stopped_def)
  with complete have "interactions_ok (put_run r' ?s)"
    by (intro interactions_ok_put_run [where r = r]) (simp_all add: keys_ok_def interactions_ok_def)
  then show ?case
    by (simp add: touch_thread_def)
next
  case (event r s ev)
  then show ?case
    by (intro interactions_ok_put_run [where r = r])
       (simp_all add: keys_ok_def interactions_ok_def run_ident_def)
next
  case (create r s m j)
  then show ?case
    by (auto simp: interactions_ok_def fresh_run_ok)
qed (simp_all add: interactions_ok_def threads_archive_def)

section \<open>The invariant\<close>

theorem store_write_runtime_ok:
  assumes "store_write t s s'" "runtime_ok s"
  shows "runtime_ok s'"
  using assms(2) store_write_keys [OF assms(1)] store_write_rows [OF assms(1)]
    store_write_log [OF assms(1)] store_write_messages [OF assms(1)]
    store_write_interactions [OF assms(1)] store_write_driven [OF assms(1)]
  by (simp add: runtime_ok_def)

lemma store_writes_runtime_ok: "(store_write t)\<^sup>*\<^sup>* s s' \<Longrightarrow> runtime_ok s \<Longrightarrow> runtime_ok s'"
  by (induction rule: rtranclp_induct) (auto intro: store_write_runtime_ok)

lemma runtime_ok_empty [simp]: "runtime_ok empty_db"
  by (simp add: runtime_ok_def keys_ok_def rows_ok_def log_ok_def messages_ok_def
      interactions_ok_def driven_ok_def empty_db_def)

end
