(* ===== verification/StateMutations.thy ===== *)
theory StateMutations
  imports StateReports StateTools RuntimeSafety
begin

text \<open>
  The units of work of the personal state: every mutation either replays or records itself exactly
  once under its key, also when it runs inside the completion of a tool.
\<close>

section \<open>Mutations\<close>

text \<open>The mutations of \<open>write_ops.py\<close>, by the user and the idempotency key they are called with.\<close>

inductive mutation_op :: "uuid \<Rightarrow> str \<Rightarrow> (store \<Rightarrow> WriteOutcome op) \<Rightarrow> bool" for user_id key where
  change_archive: "mutation_op user_id key (apply_change_archive e user_id tid v a key reason run archive)"
| delete_thing: "mutation_op user_id key (apply_delete_thing e user_id tid v a key reason run)"
| create_thing: "mutation_op user_id key (apply_create_thing e user_id name a key reason run)"
| transition_task: "mutation_op user_id key (apply_transition_task e user_id tid st v a key reason run)"
| complete_task: "mutation_op user_id key (apply_complete_task e user_id tid v a key reason run)"
| create_task: "mutation_op user_id key (apply_create_task e user_id th title due rec a key reason run)"
| set_thing_context:
    "mutation_op user_id key (apply_set_thing_context e user_id tid label content ref w source a key reason run)"
| set_deadline: "mutation_op user_id key (apply_set_deadline e user_id tid kind value tz prec cert prim v a key
    reason lbl run source)"
| update_date: "mutation_op user_id key (apply_update_date e user_id did value tz prec cert prim v vt a key reason)"
| create_blocker: "mutation_op user_id key (apply_create_blocker e user_id tid description sev th source a key reason)"
| resolve_blocker: "mutation_op user_id key (apply_resolve_blocker e user_id bid v a key reason)"
| merge_things: "mutation_op user_id key (apply_merge_things show_json e user_id c d vc vd a key reason run)"

lemma mutation_op_audited:
  assumes "mutation_op uid key f" "f s = Inr (out, s')" "state_keys s"
  shows "audited uid key s out s'"
  using assms
  by (cases rule: mutation_op.cases)
     (auto intro: apply_change_archive_audited apply_delete_thing_audited apply_create_thing_audited
        apply_transition_task_audited apply_complete_task_audited apply_create_task_audited
        apply_set_thing_context_audited apply_set_deadline_audited apply_update_date_audited
        apply_create_blocker_audited apply_resolve_blocker_audited apply_merge_things_audited)

text \<open>The methods of \<open>PersonalStateApplicationService\<close> that write, each one committed unit of work.\<close>

inductive state_mutation :: "uuid \<Rightarrow> str \<Rightarrow> store \<Rightarrow> store \<Rightarrow> bool" for user_id key where
  set_thing_context: "set_thing_context e user_id tid label content ref w source a key reason run s = Inr (r, s')
    \<Longrightarrow> state_mutation user_id key s s'"
| update_thing: "update_thing e user_id tid v name st stage upd_stage a key reason run s = Inr (t, s')
    \<Longrightarrow> state_mutation user_id key s s'"
| create_thing: "create_thing e user_id name' a key reason run s = Inr (t, s')
    \<Longrightarrow> state_mutation user_id key s s'"
| create_task: "create_task e user_id th title due rec a key reason run s = Inr (k, s')
    \<Longrightarrow> state_mutation user_id key s s'"
| complete_task: "complete_task e user_id tid v a key reason run s = Inr (r, s')
    \<Longrightarrow> state_mutation user_id key s s'"
| set_deadline: "set_deadline e user_id tid kind value tz prec cert prim v a key reason lbl run source s = Inr (r, s')
    \<Longrightarrow> state_mutation user_id key s s'"
| transition_task: "transition_task e user_id tid st' v a key reason s = Inr (r, s')
    \<Longrightarrow> state_mutation user_id key s s'"
| update_date: "update_date e user_id did value tz prec cert prim v vt a key reason s = Inr (r, s')
    \<Longrightarrow> state_mutation user_id key s s'"
| create_blocker: "create_blocker e user_id tid description sev th source a key reason s = Inr (b, s')
    \<Longrightarrow> state_mutation user_id key s s'"
| resolve_blocker: "resolve_blocker e user_id bid v a key reason s = Inr (r, s')
    \<Longrightarrow> state_mutation user_id key s s'"
| add_relation: "add_relation e user_id from_id to_id ty note a key reason s = Inr (created, s')
    \<Longrightarrow> state_mutation user_id key s s'"
| merge_things: "merge_things show_json e user_id c d vc vd a key reason run s = Inr (r, s')
    \<Longrightarrow> state_mutation user_id key s s'"
| archive_thing: "archive_thing e user_id tid v a key reason run s = Inr (r, s')
    \<Longrightarrow> state_mutation user_id key s s'"
| unarchive_thing: "unarchive_thing e user_id tid v a key reason run s = Inr (r, s')
    \<Longrightarrow> state_mutation user_id key s s'"
| delete_thing: "delete_thing e user_id tid v a key reason run s = Inr (r, s')
    \<Longrightarrow> state_mutation user_id key s s'"

text \<open>
  What a mutation does to the store: nothing when its key is recorded, else writes of the machine
  and one record of the audit trail under the key.
\<close>

definition logged :: "uuid \<Rightarrow> str \<Rightarrow> store \<Rightarrow> store \<Rightarrow> bool" where
  "logged user_id key s s' \<longleftrightarrow> audit_get_mutation user_id key s = None \<and>
     (\<exists>m. st_mutations s' = st_mutations s @ [m] \<and> mut_user_id m = user_id \<and>
        mut_idempotency_key m = key \<and>
        (st_timeline s' = st_timeline s \<or>
         (\<exists>ev. st_timeline s' = st_timeline s @ [ev] \<and> tle_mutation_id ev = Some (mut_id m))))"

definition once :: "uuid \<Rightarrow> str \<Rightarrow> store \<Rightarrow> store \<Rightarrow> bool" where
  "once user_id key s s' \<longleftrightarrow> state_writes s s' \<and>
     (if audit_get_mutation user_id key s = None then logged user_id key s s' else s' = s)"

lemma audited_once: "audited uid key s out s' \<Longrightarrow> once uid key s s'"
  by (auto simp: audited_def once_def replays_def records_def logged_def)

lemma record_once:
  assumes "if audit_get_mutation uid key s = None
    then \<exists>m ev s1. unaudited s s1 \<and> record_audit m ev s1 = Inr s' \<and> event_of m ev \<and>
      mut_user_id m = uid \<and> mut_idempotency_key m = key
    else s' = s"
  shows "once uid key s s'"
proof (cases "audit_get_mutation uid key s")
  case None
  then obtain m ev s1 where "unaudited s s1" "record_audit m ev s1 = Inr s'" "event_of m ev"
      "mut_user_id m = uid" "mut_idempotency_key m = key"
    using assms by auto
  then have "audited uid key s (outcome [] [] Map.empty (mut_id m) False) s'"
    by (intro audited_record [OF None]) simp_all
  then show ?thesis
    by (rule audited_once)
next
  case (Some m)
  then show ?thesis
    using assms by (auto simp: once_def)
qed

lemma with_resultD: "with_result m = Inr (r, s') \<Longrightarrow> \<exists>out. m = Inr (out, s')"
  by (auto simp: with_result_def)

lemma with_entityD: "with_entity m lookup err = Inr (v, s') \<Longrightarrow> \<exists>out. m = Inr (out, s')"
  by (cases m) (auto simp: with_entity_def split: option.split_asm json.split_asm)

text \<open>Every unit of work runs one mutation, except the two that report no outcome.\<close>

lemma state_mutation_op:
  assumes "state_mutation uid key s s'"
  obtains (applied) f out where "mutation_op uid key f" "f s = Inr (out, s')"
  | (updated) e tid v name st stage upd_stage a reason run t where
      "update_thing e uid tid v name st stage upd_stage a key reason run s = Inr (t, s')"
  | (related) e from_id t ty nt a reason c where "add_relation e uid from_id t ty nt a key reason s = Inr (c, s')"
  using assms
  by (cases rule: state_mutation.cases)
     (auto simp: StateService.set_thing_context_def StateService.create_thing_def
        StateService.create_task_def StateService.complete_task_def StateService.set_deadline_def
        StateService.transition_task_def StateService.update_date_def StateService.create_blocker_def
        StateService.resolve_blocker_def StateService.merge_things_def archive_thing_def
        unarchive_thing_def StateService.change_archive_def StateService.delete_thing_def
      dest!: with_resultD with_entityD intro: mutation_op.intros)

lemma state_mutation_once:
  assumes "state_mutation uid key s s'" "state_keys s"
  shows "once uid key s s'"
  using assms(1)
proof (cases rule: state_mutation_op)
  case (applied f out)
  then show ?thesis
    using assms(2) by (blast intro: audited_once mutation_op_audited)
next
  case (updated e tid v name st stage upd_stage a reason run t)
  show ?thesis
    by (rule record_once [OF update_thing_cases [OF updated assms(2)]])
next
  case (related e from_id t ty nt a reason c)
  have "event_of m None" for m
    by simp
  with add_relation_cases [OF related] show ?thesis
    by (intro record_once) metis
qed


section \<open>Mutations of tools\<close>

lemma state_ok_core [simp]:
  "db_things c = st_things s \<Longrightarrow> state_ok (s\<lparr>core := c\<rparr>) = state_ok s"
  by (simp add: state_ok_def state_keys_def state_rows_def state_refs_def audit_ok_def referred_def
      live_def live_for_def)

lemma state_ok_keys: "state_ok s \<Longrightarrow> state_keys s"
  by (simp add: state_ok_def)

lemma tools_complete_things:
  "tools_complete show_json rid action owner token receipt ok now s = (b, s') \<Longrightarrow>
    db_things s' = db_things s"
  by (auto simp: tools_complete_def Let_def)

lemma complete_tool_in_cases:
  assumes "complete_tool_in show_json e uid rid action owner token tool f s = Inr (v, s', fx)"
  obtains out s1 c where "f s = Inr (out, s1)" "s' = s1\<lparr>core := c\<rparr>" "db_things c = st_things s1"
    "complete_mutation_tool show_json e uid rid action owner token tool (core_mutation f s) (core s)
       = Inr (v, c, fx)"
proof -
  obtain out s1 c where c: "f s = Inr (out, s1)" "s' = s1\<lparr>core := c\<rparr>"
    "complete_mutation_tool show_json e uid rid action owner token tool (core_mutation f s) (core s)
       = Inr (v, c, fx)"
    using assms by (auto simp: complete_tool_in_def)
  have cm: "core_mutation f s (core s) = Inr (out, core s1)"
    using c(1) by (simp add: core_mutation_def)
  obtain receipt where "tools_complete show_json rid action owner token receipt True (clk e 0) (core s1) = (True, c)"
    using c(3) unfolding complete_mutation_tool_def complete_personal_state_mutation_tool_def cm Let_def
    by (simp add: case_prod_Inr split: option.splits if_splits) (elim conjE, rule that)
  then have "db_things c = st_things s1"
    by (rule tools_complete_things)
  then show ?thesis
    by (rule that [OF c(1,2) _ c(3)])
qed

lemma core_mutation_writes:
  assumes "mutation_op uid key f" "state_keys s" "core_mutation f s (core s) = Inr (out, c)"
  shows "outside_writes (core s) c"
proof -
  obtain s1 where "f s = Inr (out, s1)" "c = core s1"
    using assms(3) by (auto simp: core_mutation_def)
  with mutation_op_audited [OF assms(1) _ assms(2)] show ?thesis
    by (auto simp: audited_def intro: state_writes_core)
qed

end
