(* ===== verification/RuntimeRefinement.thy ===== *)
theory RuntimeRefinement
  imports RuntimeSafety
begin

text \<open>
  Every committed unit of work of the runtime service is a sequence of store writes. The
  repository statements come first, then the operations of the service.
\<close>

section \<open>Statements\<close>

lemma upd_cong:
  assumes "\<And>x. x \<in> set t \<Longrightarrow> p x = q x" "\<And>x. x \<in> set t \<Longrightarrow> q x \<Longrightarrow> f x = g x"
  shows "upd p f t = upd q g t"
  using assms by (induction t) auto

lemma runs_getD: "runs_get uid rid s = Some r \<Longrightarrow>
    r \<in> set (db_runs s) \<and> run_id r = rid \<and> run_user_id r = uid"
  by (auto simp: runs_get_def dest: sel1_Some)

lemma copy_run_same:
  "run_ident r' = run_ident r \<Longrightarrow> run_event_sequence r' = run_event_sequence r \<Longrightarrow> copy_run r' r = r'"
  by (simp add: copy_run_def run_ident_def)

lemma cnt_one:
  assumes "keyed k t" "r \<in> set t" "p r" "\<And>x. p x \<Longrightarrow> k x = k r"
  shows "cnt p t = 1"
proof -
  have "row k (k r) t = Some r"
    using assms(1,2) by (rule keyed_row)
  with assms(3) show ?thesis
    by (simp add: cnt_keyed [OF assms(1,4)])
qed

lemma runs_update_put:
  assumes "keyed run_id (db_runs s)" "r \<in> set (db_runs s)" "run_ident r' = run_ident r"
    "run_event_sequence r' = run_event_sequence r"
  shows "runs_update r' (run_version r) s = (True, put_run r' s)"
proof -
  let ?p = "\<lambda>x. run_id x = run_id r' \<and> run_version x = run_version r"
  note id = run_ident_eqD [OF assms(3)]
  have "cnt ?p (db_runs s) = 1"
    using assms(1,2) id by (intro cnt_one [of run_id _ r]) auto
  moreover have "upd ?p (copy_run r') (db_runs s) = upd (\<lambda>x. run_id x = run_id r') (\<lambda>_. r') (db_runs s)"
  proof (rule upd_cong)
    fix x assume x: "x \<in> set (db_runs s)"
    show "?p x = (run_id x = run_id r')"
      using x id keyed_unique [OF assms(1) x assms(2)] by auto
    assume "run_id x = run_id r'"
    then have "x = r"
      using x id keyed_unique [OF assms(1) x assms(2)] by simp
    then show "copy_run r' x = r'"
      using assms by (simp add: copy_run_same)
  qed
  ultimately show ?thesis
    by (simp add: runs_update_def put_run_def)
qed

lemma runs_append_event_write:
  assumes "keyed run_id (db_runs s)" "runs_append_event eid now rid ty data s = Inr (ev, s')"
  shows "store_write t s s'"
proof -
  let ?f = "\<lambda>r. r\<lparr>run_event_sequence := run_event_sequence r + 1\<rparr>"
  let ?rows = "upd (\<lambda>r. run_id r = rid) ?f (db_runs s)"
  obtain q where q: "sel1 (\<lambda>r. run_id r = rid) ?rows = Some q"
    and ev: "evt_run_id ev = rid" "evt_sequence ev = run_event_sequence q"
    and clash: "\<forall>x \<in> set (db_events s). \<not> event_clash x ev"
    and s': "s' = s\<lparr>db_runs := ?rows, db_events := db_events s @ [ev]\<rparr>"
    using assms(2) by (auto simp: runs_append_event_def Let_def split: option.splits)
  have "row run_id rid ?rows = Some q"
    using q by (simp add: row_def)
  moreover have "row run_id rid ?rows =
      map_option (\<lambda>r. if run_id r = rid then ?f r else r) (row run_id rid (db_runs s))"
    by (rule row_upd) simp
  ultimately obtain r where row: "row run_id rid (db_runs s) = Some r"
      and q_if: "q = (if run_id r = rid then ?f r else r)"
    by (cases "row run_id rid (db_runs s)") simp_all
  have r: "q = ?f r"
    using q_if row_Some [OF row] by simp
  then have rr: "r \<in> set (db_runs s)" "run_id r = rid"
    using row_Some [OF row] by simp_all
  have "x = r" if "x \<in> set (db_runs s)" "run_id x = rid" for x
    using that rr keyed_unique [OF assms(1) that(1) rr(1)] by simp
  then have "?rows = upd (\<lambda>x. run_id x = rid) (\<lambda>_. ?f r) (db_runs s)"
    by (intro upd_cong) simp_all
  then have "s' = put_run (?f r) (s\<lparr>db_events := db_events s @ [ev]\<rparr>)"
    using rr by (simp add: s' put_run_def)
  then show ?thesis
    using store_write.event [of r s ev t] rr r ev clash by simp
qed

lemma runs_append_event_event:
  "runs_append_event eid now rid ty data s = Inr (ev, s') \<Longrightarrow>
     evt_event_type ev = ty \<and> evt_data ev = data \<and> evt_run_id ev = rid \<and>
     db_events s' = db_events s @ [ev]"
  by (auto simp: runs_append_event_def Let_def split: option.splits)

lemma runs_claim_write:
  assumes "keyed run_id (db_runs s)"
    and "runs_claim uid rid owner t now lease s = (Some r', s')"
  obtains r where "r \<in> set (db_runs s)" "run_claimable now r" "run_id r = rid" "run_user_id r = uid"
    "r' = claim_row owner t now lease r" "s' = put_run r' s" "store_write t s s'"
proof -
  let ?p = "\<lambda>r. run_id r = rid \<and> run_user_id r = uid \<and> run_claimable now r"
  obtain r where r: "sel1 ?p (db_runs s) = Some r"
    and r': "sel1 (\<lambda>x. run_id x = run_id r) (upd ?p (claim_row owner t now lease) (db_runs s)) = Some r'"
    and s': "s' = s\<lparr>db_runs := upd ?p (claim_row owner t now lease) (db_runs s)\<rparr>"
    using assms(2) by (auto simp: runs_claim_def Let_def split: option.splits)
  from r have rr: "r \<in> set (db_runs s)" "?p r"
    by (auto dest: sel1_Some)
  have rows: "upd ?p (claim_row owner t now lease) (db_runs s) =
      upd (\<lambda>x. run_id x = rid) (\<lambda>_. claim_row owner t now lease r) (db_runs s)"
  proof (rule upd_cong)
    fix x assume x: "x \<in> set (db_runs s)"
    show "?p x = (run_id x = rid)"
      using keyed_unique [OF assms(1) x rr(1)] rr(2) by auto
    assume "run_id x = rid"
    then have "x = r"
      using keyed_unique [OF assms(1) x rr(1)] rr(2) by simp
    then show "claim_row owner t now lease x = claim_row owner t now lease r"
      by simp
  qed
  have id: "run_id (claim_row owner t now lease r) = rid"
    using rr by (simp add: claim_row_def)
  have s'_eq: "s' = put_run (claim_row owner t now lease r) s"
    unfolding s' put_run_def rows id ..
  have "run_id r' = rid" "r' \<in> set (db_runs s')"
    using r' rr s' by (auto dest: sel1_Some)
  then have "r' = claim_row owner t now lease r"
    unfolding s'_eq using in_put_run [OF assms(1) rr(1)] id rr(2) by auto
  moreover have "store_write t s s'"
    unfolding s'_eq using rr by (blast intro: store_write.run run_move.claim)
  ultimately show ?thesis
    using that rr s'_eq by simp
qed

lemma runs_renew_write:
  assumes "keyed run_id (db_runs s)"
    and "runs_renew_lease uid rid owner token now lease s = (True, s')"
  shows "store_write t s s'"
proof -
  let ?p = "\<lambda>r. run_id r = rid \<and> run_user_id r = uid \<and> run_status r = RunStatus.RUNNING \<and>
    run_claim_owner r = Some owner \<and> run_claim_token r = Some token"
  let ?f = "\<lambda>r. r\<lparr>run_heartbeat_at := Some now, run_lease_expires_at := Some lease,
            run_updated_at := now\<rparr>"
  have "cnt ?p (db_runs s) = 1" and s': "s' = s\<lparr>db_runs := upd ?p ?f (db_runs s)\<rparr>"
    using assms(2) by (auto simp: runs_renew_lease_def Let_def)
  then obtain r where r: "r \<in> set (db_runs s)" "?p r"
    using cnt_eq_0 [of ?p "db_runs s"] by auto
  have "upd ?p ?f (db_runs s) = upd (\<lambda>x. run_id x = rid) (\<lambda>_. ?f r) (db_runs s)"
    by (rule upd_cong) (use r keyed_unique [OF assms(1) _ r(1)] in auto)
  then have "s' = put_run (?f r) s"
    using r by (simp add: s' put_run_def)
  moreover have "run_move t r (?f r)"
    using r by (intro run_move.renew) auto
  ultimately show ?thesis
    using r by (auto intro: store_write.run)
qed

subsection \<open>Jobs\<close>

text \<open>The statements on jobs move them row by row; the other components issue them too.\<close>

definition moves_jobs :: "db \<Rightarrow> db \<Rightarrow> bool" where
  "moves_jobs s s' \<longleftrightarrow> (\<exists>p f. s' = s\<lparr>db_jobs := upd p f (db_jobs s)\<rparr> \<and>
     (\<forall>j \<in> set (db_jobs s). p j \<longrightarrow> job_move j (f j)))"

lemma moves_jobsI:
  "(\<And>j. j \<in> set (db_jobs s) \<Longrightarrow> p j \<Longrightarrow> job_move j (f j)) \<Longrightarrow> moves_jobs s (s\<lparr>db_jobs := upd p f (db_jobs s)\<rparr>)"
  by (auto simp: moves_jobs_def)

lemma moves_jobs_write: "moves_jobs s s' \<Longrightarrow> store_write t s s'"
  by (auto simp: moves_jobs_def intro: store_write.jobs)

lemma moves_jobs_outside: "moves_jobs s s' \<Longrightarrow> outside_write s s'"
  by (auto simp: moves_jobs_def intro: outside_write.move_jobs)

lemma moves_jobs_tables:
  assumes "moves_jobs s s'"
  shows "db_things s' = db_things s" "db_sources s' = db_sources s"
    "keyed job_id (db_jobs s) \<Longrightarrow> keyed job_id (db_jobs s')"
proof -
  obtain p f where s': "s' = s\<lparr>db_jobs := upd p f (db_jobs s)\<rparr>"
    and "\<forall>j \<in> set (db_jobs s). p j \<longrightarrow> job_move j (f j)"
    using assms by (auto simp: moves_jobs_def)
  then have id: "\<forall>j \<in> set (db_jobs s). p j \<longrightarrow> job_id (f j) = job_id j"
    using job_move_evolves by (auto simp: job_evolves_def job_ident_def)
  have "map job_id (db_jobs s') = map job_id (db_jobs s)"
    unfolding s' by (simp add: upd_def comp_def) (use id in simp)
  then show "keyed job_id (db_jobs s) \<Longrightarrow> keyed job_id (db_jobs s')"
    by (simp add: keyed_def)
qed (use assms in \<open>auto simp: moves_jobs_def\<close>)

lemma jobs_settle_moves:
  assumes "status \<notin> {DurableJobStatus.READY, DurableJobStatus.CLAIMED}"
  shows "moves_jobs s (snd (jobs_settle jid owner epoch status now code s))"
proof -
  have "moves_jobs s (s\<lparr>db_jobs := upd (\<lambda>j. job_fence jid owner epoch j \<and> lease_live (job_lease_until j) now)
      (\<lambda>j. j\<lparr>job_status := status, job_claimed_by := None, job_lease_until := None,
        job_last_error_code := code, job_updated_at := now\<rparr>) (db_jobs s)\<rparr>)"
    using assms by (intro moves_jobsI) (blast intro: job_move.settle)
  then show ?thesis
    by (simp add: jobs_settle_def Let_def)
qed

lemma jobs_renew_moves: "moves_jobs s (snd (jobs_renew jid owner epoch lease now s))"
proof -
  have "moves_jobs s (s\<lparr>db_jobs := upd (job_fence jid owner epoch)
      (\<lambda>j. j\<lparr>job_lease_until := Some lease, job_updated_at := now\<rparr>) (db_jobs s)\<rparr>)"
    by (intro moves_jobsI job_move.renew) (simp add: job_fence_def)
  then show ?thesis
    by (simp add: jobs_renew_def Let_def)
qed

lemma jobs_resume_moves: "moves_jobs s (snd (jobs_resume uid key now s))"
proof -
  have "moves_jobs s (s\<lparr>db_jobs := upd (\<lambda>j. job_user_id j = uid \<and> job_dedupe_key j = key
      \<and> job_status j \<in> {DurableJobStatus.PAUSED, DurableJobStatus.READY})
      (\<lambda>j. j\<lparr>job_status := DurableJobStatus.READY, job_available_at := now, job_updated_at := now\<rparr>)
      (db_jobs s)\<rparr>)"
    by (intro moves_jobsI job_move.resume) simp
  then show ?thesis
    by (simp add: jobs_resume_def Let_def)
qed

lemma jobs_cancel_moves: "moves_jobs s (snd (jobs_cancel uid key now s))"
proof -
  have "moves_jobs s (s\<lparr>db_jobs := upd (\<lambda>j. job_user_id j = uid \<and> job_dedupe_key j = key
      \<and> job_status j \<in> {DurableJobStatus.READY, DurableJobStatus.CLAIMED, DurableJobStatus.PAUSED})
      (\<lambda>j. j\<lparr>job_status := DurableJobStatus.CANCELLED, job_claimed_by := None,
        job_lease_until := None, job_updated_at := now\<rparr>) (db_jobs s)\<rparr>)"
    by (intro moves_jobsI job_move.cancel) simp
  then show ?thesis
    by (simp add: jobs_cancel_def Let_def)
qed

lemma jobs_requeue_moves: "moves_jobs\<^sup>*\<^sup>* s (snd (jobs_requeue_expired now s))"
proof -
  let ?p1 = "\<lambda>j. job_expired now j \<and> job_delivery_attempt j < job_max_delivery_attempts j"
  let ?f1 = "\<lambda>j. j\<lparr>job_status := DurableJobStatus.READY, job_claimed_by := None,
    job_lease_until := None, job_available_at := now, job_updated_at := now\<rparr>"
  let ?p2 = "\<lambda>j. job_expired now j \<and> job_max_delivery_attempts j \<le> job_delivery_attempt j"
  let ?f2 = "\<lambda>j. j\<lparr>job_status := DurableJobStatus.FAILED, job_claimed_by := None,
    job_lease_until := None, job_last_error_code := Some (u ''RECOVERY_EXHAUSTED''),
    job_updated_at := now\<rparr>"
  let ?s1 = "s\<lparr>db_jobs := upd ?p1 ?f1 (db_jobs s)\<rparr>"
  have "moves_jobs s ?s1"
    by (intro moves_jobsI job_move.requeue) simp_all
  moreover have "moves_jobs ?s1 (?s1\<lparr>db_jobs := upd ?p2 ?f2 (db_jobs ?s1)\<rparr>)"
    by (intro moves_jobsI job_move.exhaust) simp_all
  ultimately have "moves_jobs\<^sup>*\<^sup>* s (?s1\<lparr>db_jobs := upd ?p2 ?f2 (db_jobs ?s1)\<rparr>)"
    by (rule converse_rtranclp_into_rtranclp [OF _ r_into_rtranclp])
  then show ?thesis
    by (simp add: jobs_requeue_expired_def Let_def)
qed

lemma picked_due:
  assumes "j \<in> set (take limit (sort_key due_order (sel (job_due kind now) (db_jobs s))))"
  shows "j \<in> set (db_jobs s) \<and> job_due kind now j"
  using in_set_takeD [OF assms] by (simp add: sel_def)

lemma jobs_claim_ready_moves:
  assumes "keyed job_id (db_jobs s)"
  shows "moves_jobs s (snd (jobs_claim_ready kind owner now lease limit s))"
proof -
  let ?picked = "take limit (sort_key due_order (sel (job_due kind now) (db_jobs s)))"
  have "job_due kind now j" if j: "j \<in> set (db_jobs s)" "job_id j \<in> job_id ` set ?picked" for j
  proof -
    obtain k where "k \<in> set ?picked" "job_id k = job_id j"
      using j(2) by auto
    then have "k \<in> set (db_jobs s)" "job_due kind now k"
      using picked_due by blast+
    with j(1) \<open>job_id k = job_id j\<close> keyed_unique [OF assms] show ?thesis
      by metis
  qed
  then have "moves_jobs s (s\<lparr>db_jobs := upd (\<lambda>j. job_id j \<in> job_id ` set ?picked)
      (claim_job_row owner now lease) (db_jobs s)\<rparr>)"
    by (intro moves_jobsI) (blast intro: job_move.claim)
  then show ?thesis
    by (simp add: jobs_claim_ready_def Let_def)
qed

lemmas jobs_settle_write = jobs_settle_moves [THEN moves_jobs_write]
lemmas jobs_renew_write = jobs_renew_moves [THEN moves_jobs_write]
lemmas jobs_resume_write = jobs_resume_moves [THEN moves_jobs_write]
lemmas jobs_cancel_write = jobs_cancel_moves [THEN moves_jobs_write]
lemmas jobs_claim_ready_write = jobs_claim_ready_moves [THEN moves_jobs_write]

lemma jobs_requeue_writes: "(store_write t)\<^sup>*\<^sup>* s (snd (jobs_requeue_expired now s))"
  using jobs_requeue_moves by (rule rtranclp_mono [THEN predicate2D, rotated]) (auto intro: moves_jobs_write)

lemma claim_ready_jobs_moves:
  assumes "keyed job_id (db_jobs s)"
  shows "moves_jobs\<^sup>*\<^sup>* s (snd (claim_ready_jobs kind owner now lease limit s))"
proof -
  have "keyed job_id (db_jobs (snd (jobs_requeue_expired now s)))"
    using jobs_requeue_moves [of s now] assms
    by (induction rule: rtranclp_induct) (auto dest: moves_jobs_tables(3))
  then have "moves_jobs (snd (jobs_requeue_expired now s))
      (snd (jobs_claim_ready kind owner now lease limit (snd (jobs_requeue_expired now s))))"
    by (rule jobs_claim_ready_moves)
  then show ?thesis
    using jobs_requeue_moves [of s now] unfolding claim_ready_jobs_def
    by (auto split: prod.splits intro: rtranclp.rtrancl_into_rtrancl)
qed

subsection \<open>Tool executions\<close>

lemma tools_complete_write:
  "store_write t s (snd (tools_complete show_json rid action owner token result succeeded now s))"
proof -
  have "store_write t s (s\<lparr>db_tools := upd (\<lambda>x. tex_run_id x = rid \<and> tex_action_id x = action
      \<and> tex_status x = ToolExecutionStatus.IN_PROGRESS \<and> tex_claim_owner x = owner
      \<and> tex_claim_token x = token) (settle_tool_row show_json result succeeded now) (db_tools s)\<rparr>)"
    by (intro store_write.tools tool_move.complete) simp
  then show ?thesis
    by (simp add: tools_complete_def Let_def)
qed

lemma tools_mark_unknown_write:
  "store_write t s (snd (tools_mark_unknown_if_expired eid now s))"
proof -
  have "store_write t s (s\<lparr>db_tools := upd (\<lambda>x. tex_id x = eid
      \<and> tex_status x = ToolExecutionStatus.IN_PROGRESS \<and> tex_lease_expires_at x \<le> now
      \<and> \<not> tex_replay_safe x) (\<lambda>x. x\<lparr>tex_status := ToolExecutionStatus.UNKNOWN_OUTCOME,
      tex_error_code := Some (u ''UNKNOWN_OUTCOME''), tex_updated_at := now\<rparr>) (db_tools s)\<rparr>)"
    by (intro store_write.tools tool_move.mark_unknown) simp_all
  then show ?thesis
    by (simp add: tools_mark_unknown_if_expired_def Let_def)
qed

lemma tools_reconcile_write:
  "store_write t s (snd (tools_reconcile_unknown show_json eid result succeeded request_id now s))"
proof -
  have "store_write t s (s\<lparr>db_tools := upd (\<lambda>x. tex_id x = eid
      \<and> tex_status x = ToolExecutionStatus.UNKNOWN_OUTCOME)
      (\<lambda>x. (settle_tool_row show_json result succeeded now x)
        \<lparr>tex_provider_request_id := request_id\<rparr>) (db_tools s)\<rparr>)"
    by (intro store_write.tools tool_move.reconcile) simp
  then show ?thesis
    by (simp add: tools_reconcile_unknown_def Let_def)
qed

lemma tools_takeover_write:
  assumes "keyed tex_id (db_tools s)" "x \<in> set (db_tools s)"
    "tex_lease_expires_at x \<le> now \<Longrightarrow> tex_replay_safe x"
  shows "store_write t s (snd (tools_takeover_if_expired x now owner t lease s))"
proof -
  let ?p = "\<lambda>y. tex_id y = tex_id x \<and> tex_status y = ToolExecutionStatus.IN_PROGRESS
      \<and> tex_lease_expires_at y \<le> now"
  have "tex_replay_safe y" if "y \<in> set (db_tools s)" "?p y" for y
    using that assms keyed_unique [OF assms(1) that(1) assms(2)] by auto
  then have "store_write t s (s\<lparr>db_tools := upd ?p (\<lambda>y. y\<lparr>tex_claim_owner := owner,
      tex_claim_token := t, tex_lease_expires_at := lease,
      tex_attempt_count := tex_attempt_count y + 1, tex_updated_at := now\<rparr>) (db_tools s)\<rparr>)"
    by (intro store_write.tools tool_move.takeover) simp_all
  then show ?thesis
    by (simp add: tools_takeover_if_expired_def Let_def)
qed

end
