(* ===== verification/ServiceRefinement.thy ===== *)
theory ServiceRefinement
  imports RuntimeRefinement
begin

text \<open>The operations of the service, one by one, as sequences of store writes.\<close>

abbreviation writes :: "uuid \<Rightarrow> db \<Rightarrow> db \<Rightarrow> bool" where
  "writes t \<equiv> (store_write t)\<^sup>*\<^sup>*"

lemma keys_runs: "keys_ok s \<Longrightarrow> keyed run_id (db_runs s)"
  and keys_jobs: "keys_ok s \<Longrightarrow> keyed job_id (db_jobs s)"
  and keys_tools: "keys_ok s \<Longrightarrow> keyed tex_id (db_tools s)"
  by (simp_all add: keys_ok_def)

lemma users_write: "store_write t s (users_ensure_exists now uid s)"
proof -
  have "users_ensure_exists now uid s =
      s\<lparr>db_users := db_users (users_ensure_exists now uid s), db_things := db_things s,
        db_sources := db_sources s\<rparr>"
    by (simp add: users_ensure_exists_def)
  then show ?thesis
    using store_write.outside [OF users_ensure_grow] by metis
qed

lemma threads_add_write: "threads_add r s = Inr s' \<Longrightarrow> store_write t s s'"
  by (auto simp: threads_add_def intro: store_write.thread_add)

lemma writes_keys: "writes t s s' \<Longrightarrow> keys_ok s \<Longrightarrow> keys_ok s'"
  by (induction rule: rtranclp_induct) (auto intro: store_write_keys)

lemma writes1: "store_write t s s' \<Longrightarrow> writes t s s'"
  by (rule r_into_rtranclp)

lemma writes2: "store_write t s s1 \<Longrightarrow> store_write t s1 s' \<Longrightarrow> writes t s s'"
  by (rule converse_rtranclp_into_rtranclp [OF _ r_into_rtranclp])

lemma same_runtime_writes:
  assumes "same_runtime s s'" "users_grow (db_users s) (db_users s')"
  shows "writes t s s'"
proof -
  obtain g where g: "s' = s\<lparr>db_users := db_users s', db_things := db_things s',
      db_sources := db_sources s', db_threads := rebind_threads g (db_threads s)\<rparr>"
    using assms(1) by (auto simp: same_runtime_def)
  let ?s = "s\<lparr>db_threads := rebind_threads g (db_threads s)\<rparr>"
  have "store_write t s ?s"
    by (rule store_write.thread_rebind)
  moreover have "users_grow (db_users ?s) (db_users s')"
    using assms(2) by simp
  then have "store_write t ?s (?s\<lparr>db_users := db_users s', db_things := db_things s', db_sources := db_sources s'\<rparr>)"
    by (rule store_write.outside)
  moreover have "?s\<lparr>db_users := db_users s', db_things := db_things s', db_sources := db_sources s'\<rparr> = s'"
    by (rule trans [OF _ g [symmetric]]) simp
  ultimately show ?thesis
    by (metis writes2)
qed

lemma outside_write_writes: "outside_write s s' \<Longrightarrow> writes t s s'"
  by (induction rule: outside_write.induct)
     (blast intro: same_runtime_writes writes1 store_write.other_job store_write.jobs)+

lemma outside_writes_writes: "outside_writes s s' \<Longrightarrow> writes t s s'"
  by (induction rule: rtranclp_induct) (auto intro: rtranclp_trans outside_write_writes)

lemma create_thread_writes:
  assumes "create_thread e uid title key tid s = Inr (v, s', fx)"
  shows "writes t s s'"
  using assms
  by (auto simp: create_thread_def Let_def split: if_splits option.splits
      intro: writes2 [OF users_write threads_add_write])

lemma archive_thread_writes:
  assumes "archive_thread e uid tid s = Inr (v, s', fx)"
  shows "writes t s s'"
  using assms
  by (auto simp: archive_thread_def Let_def split: option.splits intro: writes1 store_write.thread_archive)

subsection \<open>Creating runs\<close>

text \<open>
  The two creations share their tail: the run, its input message, its first event and its job.
  The event commutes with the job, so that the run, the message and the job are one write.
\<close>

lemma create_tail_writes:
  assumes keys: "keys_ok s"
    and thread: "threads_get (run_user_id r) (run_thread_id r) s \<noteq> None"
    and run: "runs_add r s = Inr s1" and fresh: "fresh_run r"
    and msg: "messages_add m s1 = Inr s2"
    and ev: "runs_append_event eid now (run_id r) ty data s2 = Inr (ev, s3)"
    and job: "agent_run_job e i k (run_user_id r) (run_id r) = Inr j" "jobs_add j s3 = Inr s'"
    and m: "run_input_message_id r = Some (msg_id m)" "msg_run_id m = Some (run_id r)"
      "msg_user_id m = run_user_id r" "msg_thread_id m = run_thread_id r"
  shows "writes t s s'"
proof -
  have r: "r\<lparr>run_active_time_used_ms := 0, run_active_started_at := None,
      run_terminal_output := None, run_graph_terminal_at := None\<rparr> = r"
    using fresh by (auto simp: fresh_run_def new_run_def)
  have s1: "s1 = s\<lparr>db_runs := db_runs s @ [r]\<rparr>" and rc: "\<forall>x \<in> set (db_runs s). \<not> run_clash x r"
    using run by (auto simp: runs_add_def r)
  let ?s2 = "s\<lparr>db_threads :=
        upd (\<lambda>x. thr_id x = msg_thread_id m \<and> thr_user_id x = msg_user_id m)
          (\<lambda>x. x\<lparr>thr_updated_at := max (thr_updated_at x) (msg_created_at m)\<rparr>) (db_threads s),
      db_messages := db_messages s @ [m], db_runs := db_runs s @ [r]\<rparr>"
  have s2: "s2 = ?s2" and mc: "msg_id m \<notin> msg_id ` set (db_messages s)"
    using msg by (auto simp: messages_add_def s1)
  have s3: "db_jobs s3 = db_jobs s"
    using ev by (auto simp: runs_append_event_def Let_def s2 split: option.splits)
  have jc: "\<forall>x \<in> set (db_jobs s). \<not> job_clash x j" and s': "s' = s3\<lparr>db_jobs := db_jobs s @ [j]\<rparr>"
    using job(2) by (auto simp: jobs_add_def s3)
  let ?c = "?s2\<lparr>db_jobs := db_jobs s @ [j]\<rparr>"
  have created: "store_write t s ?c"
    using store_write.create [OF fresh rc mc m thread _ jc, of t] job(1)
    by (auto simp: fresh_job_def)
  have "runs_append_event eid now (run_id r) ty data ?c = Inr (ev, s')"
    using ev s' unfolding s2
    by (auto simp: runs_append_event_def Let_def split: option.splits)
  with created store_write_keys [OF created keys] show ?thesis
    by (blast intro: writes2 runs_append_event_write keys_runs)
qed

lemma create_user_run_writes:
  assumes "create_user_run c e uid tid content srcs key s = Inr (v, s', fx)" "keys_ok s"
  shows "writes t s s'"
proof (cases "runs_get_by_idempotency uid key s")
  case None
  obtain th where th: "threads_get uid tid s = Some th"
    using assms(1) None by (auto simp: create_user_run_def split: if_splits option.splits)
  let ?m = "\<lparr>msg_user_id = uid, msg_thread_id = tid, msg_role = MessageRole.USER,
    msg_content = strip content, msg_id = uid4 e 1, msg_run_id = Some (uid4 e 0),
    msg_source_ids = srcs, msg_metadata = Map.empty, msg_created_at = clk e 2\<rparr>"
  let ?r = "(new_run uid tid RunTrigger.USER_MESSAGE key (svc_budget_snapshot c) (uid4 e 0)
    (clk e 0) (clk e 1))\<lparr>run_input_message_id := Some (uid4 e 1)\<rparr>"
  have fresh: "fresh_run ?r"
    unfolding fresh_run_def by blast
  have sel: "run_user_id ?r = uid" "run_thread_id ?r = tid" "run_id ?r = uid4 e 0"
    by (simp_all add: new_run_def)
  obtain s1 s2 ev s3 j where steps: "runs_add ?r s = Inr s1" "messages_add ?m s1 = Inr s2"
    "runs_append_event (uid4 e 2) (clk e 3) (run_id ?r) RunEventType.RUN_QUEUED
      [u ''status'' \<mapsto> JStr (run_status_value RunStatus.QUEUED),
       u ''label'' \<mapsto> JStr QUEUED_LABEL, u ''phase'' \<mapsto> JStr (u ''queued'')] s2 = Inr (ev, s3)"
    "agent_run_job e 3 4 uid (run_id ?r) = Inr j" "jobs_add j s3 = Inr s'"
    using assms(1) None th
    by (auto simp: create_user_run_def Let_def new_run_def split: if_splits)
  show ?thesis
    by (rule create_tail_writes [OF assms(2) _ steps(1) fresh steps(2,3) _ steps(5)])
       (use th steps(4) sel in \<open>simp_all add: new_run_def\<close>)
next
  case (Some r)
  then show ?thesis
    using assms by (auto simp: create_user_run_def split: if_splits)
qed

lemma automation_inbox_writes:
  assumes "automation_inbox e uid key thing s = Inr (tid, s1)"
  shows "writes t s s1" "threads_get uid tid s1 \<noteq> None"
proof -
  have "writes t s s1 \<and> threads_get uid tid s1 \<noteq> None"
  proof (cases "threads_get_by_idempotency uid key s")
    case None
    then obtain th where add: "threads_add th (users_ensure_exists (clk e 0) uid s) = Inr s1"
        and th: "thr_id th = tid" "thr_user_id th = uid"
      using assms by (auto simp: automation_inbox_def Let_def)
    then have "threads_get uid tid s1 \<noteq> None"
      by (auto simp: threads_add_def threads_get_def sel1_None)
    with add show ?thesis
      by (blast intro: writes2 users_write threads_add_write)
  next
    case (Some x)
    then have "s1 = s" "tid = thr_id x"
      using assms by (auto simp: automation_inbox_def split: option.splits)
    moreover have "x \<in> set (db_threads s)" "thr_user_id x = uid"
      using Some by (auto simp: threads_get_by_idempotency_def dest: sel1_Some)
    ultimately show ?thesis
      by (auto simp: threads_get_def sel1_None)
  qed
  then show "writes t s s1" "threads_get uid tid s1 \<noteq> None"
    by simp_all
qed

lemma create_automation_run_writes:
  assumes "create_automation_run c e uid aid thing title text key s = Inr (v, s', fx)" "keys_ok s"
  shows "writes t s s'"
proof (cases "runs_get_by_idempotency uid (u ''automation-run:'' @ key) s")
  case None
  let ?tkey = "u ''automation-inbox:'' @ uuid_str uid"
  let ?r = "\<lambda>tid. (new_run uid tid RunTrigger.AUTOMATION (u ''automation-run:'' @ key)
    (svc_budget_snapshot c) (uid4 e 1) (clk e 3) (clk e 4))\<lparr>run_input_message_id := Some (uid4 e 2)\<rparr>"
  let ?m = "\<lambda>tid. \<lparr>msg_user_id = uid, msg_thread_id = tid, msg_role = MessageRole.SYSTEM_EVENT,
    msg_content = automation_content (strip title) (strip text), msg_id = uid4 e 2,
    msg_run_id = Some (uid4 e 1), msg_source_ids = [],
    msg_metadata = [u ''automation_id'' \<mapsto> juuid aid, u ''occurrence_key'' \<mapsto> JStr key,
      u ''thing_id'' \<mapsto> (case thing of None \<Rightarrow> JNull | Some t \<Rightarrow> juuid t)],
    msg_created_at = clk e 5\<rparr>"
  obtain tid s1 where th: "automation_inbox e uid ?tkey thing s = Inr (tid, s1)"
    and rest: "\<exists>s2 s3 ev s4 j. runs_add (?r tid) s1 = Inr s2 \<and> messages_add (?m tid) s2 = Inr s3 \<and>
      runs_append_event (uid4 e 3) (clk e 6) (uid4 e 1) RunEventType.RUN_QUEUED
        [u ''status'' \<mapsto> JStr (run_status_value RunStatus.QUEUED),
         u ''label'' \<mapsto> JStr AUTOMATION_LABEL, u ''phase'' \<mapsto> JStr (u ''automation''),
         u ''automation_id'' \<mapsto> juuid aid] s3 = Inr (ev, s4) \<and>
      agent_run_job e 4 7 uid (uid4 e 1) = Inr j \<and> jobs_add j s4 = Inr s'"
    using assms(1) None
    by (force simp: create_automation_run_def Let_def new_run_def split: if_splits)
  obtain s2 s3 ev s4 j where steps: "runs_add (?r tid) s1 = Inr s2" "messages_add (?m tid) s2 = Inr s3"
      "runs_append_event (uid4 e 3) (clk e 6) (uid4 e 1) RunEventType.RUN_QUEUED
        [u ''status'' \<mapsto> JStr (run_status_value RunStatus.QUEUED),
         u ''label'' \<mapsto> JStr AUTOMATION_LABEL, u ''phase'' \<mapsto> JStr (u ''automation''),
         u ''automation_id'' \<mapsto> juuid aid] s3 = Inr (ev, s4)"
      "agent_run_job e 4 7 uid (uid4 e 1) = Inr j" "jobs_add j s4 = Inr s'"
    using rest by blast
  note inbox = automation_inbox_writes [OF th]
  have fresh: "fresh_run (?r tid)"
    unfolding fresh_run_def by blast
  have "writes t s1 s'"
    by (rule create_tail_writes [where r = "?r tid" and m = "?m tid", OF _ _ steps(1) fresh steps(2) _ _ steps(5)])
       (use inbox steps(3,4) assms(2) writes_keys in \<open>auto simp: new_run_def\<close>)
  with inbox(1) show ?thesis
    by (rule rtranclp_trans)
next
  case (Some r)
  then show ?thesis
    using assms by (auto simp: create_automation_run_def Let_def split: if_splits)
qed

subsection \<open>Jobs\<close>

lemma claim_agent_run_jobs_writes:
  assumes "claim_agent_run_jobs e owner lease limit s = Inr (v, s', fx)" "keys_ok s"
  shows "writes t s s'"
proof -
  let ?s1 = "snd (jobs_requeue_expired (clk e 0) s)"
  let ?s2 = "snd (jobs_claim_ready DurableJobKind.AGENT_RUN owner (clk e 0)
    (clk e 0 + timedelta_seconds lease) (nat limit) ?s1)"
  have 1: "writes t s ?s1"
    by (rule jobs_requeue_writes)
  have "keys_ok ?s1"
    using 1 assms(2) by (rule writes_keys)
  then have "store_write t ?s1 ?s2"
    by (intro jobs_claim_ready_write keys_jobs)
  moreover have "s' = ?s2"
    using assms(1)
    by (auto simp: claim_agent_run_jobs_def claim_ready_jobs_def split: if_splits prod.splits)
  ultimately show ?thesis
    using 1 by (metis rtranclp.rtrancl_into_rtrancl)
qed

lemma settlement_status_cases:
  "settlement_status r \<in> {DurableJobStatus.PAUSED, DurableJobStatus.COMPLETED, DurableJobStatus.FAILED,
     DurableJobStatus.CANCELLED, DurableJobStatus.READY}"
  by (auto simp: settlement_status_def split: option.splits)

lemma settle_agent_run_job_writes:
  assumes "settle_agent_run_job e claim owner code s = Inr (v, s', fx)"
  shows "writes t s s'"
proof -
  let ?run = "runs_get (jcl_user_id claim) (jcl_run_id claim) s"
  have "settlement_status ?run \<noteq> DurableJobStatus.READY"
    using assms by (auto simp: settle_agent_run_job_def Let_def split: if_splits)
  then have ok: "settlement_status ?run \<notin> {DurableJobStatus.READY, DurableJobStatus.CLAIMED}"
    using settlement_status_cases [of ?run] by auto
  have "s' = snd (jobs_settle (jcl_job_id claim) owner (jcl_claim_epoch claim)
      (settlement_status ?run) (clk e 0)
      (case ?run of None \<Rightarrow> Some (u ''RUN_NOT_FOUND'') | Some _ \<Rightarrow> code) s)"
    using assms by (simp add: settle_agent_run_job_def Let_def split: if_splits prod.splits)
  with jobs_settle_write [OF ok] show ?thesis
    by (auto intro: writes1)
qed

lemma renew_agent_run_job_writes:
  assumes "renew_agent_run_job e claim owner lease s = Inr (v, s', fx)"
  shows "writes t s s'"
proof -
  have "s' = s \<or> s' = snd (jobs_renew (jcl_job_id claim) owner (jcl_claim_epoch claim)
             (clk e 0 + timedelta_seconds lease) (clk e 0) s)"
    using assms by (auto simp: renew_agent_run_job_def split: prod.splits if_splits)
  then show ?thesis
    using writes1 [OF jobs_renew_write] by auto
qed

subsection \<open>Claims and recovery\<close>

lemma claim_run_writes:
  assumes "claim_run c e uid rid owner lease s = Inr (v, s', fx)" "keys_ok s"
  shows "writes (uid4 e 0) s s'"
proof -
  obtain o1 s1 where claim: "runs_claim uid rid owner (uid4 e 0) (clk e 0)
      (clk e 0 + timedelta_seconds lease) s = (o1, s1)"
    by (metis surj_pair)
  show ?thesis
  proof (cases o1)
    case None
    then show ?thesis
      using assms(1) claim by (auto simp: claim_run_def split: if_splits)
  next
    case (Some r)
    have wr: "store_write (uid4 e 0) s s1"
      using runs_claim_write [OF keys_runs [OF assms(2)] claim [unfolded Some]] by blast
    obtain ev ty d where "runs_append_event (uid4 e 1) (clk e 1) (run_id r) ty d s1 = Inr (ev, s')"
      using assms(1) claim Some by (auto simp: claim_run_def split: if_splits)
    with wr store_write_keys [OF wr assms(2)] show ?thesis
      by (blast intro: writes2 runs_append_event_write keys_runs)
  qed
qed

lemma renew_run_lease_writes:
  assumes "renew_run_lease e uid rid owner token lease s = Inr (v, s', fx)" "keys_ok s"
  shows "writes t s s'"
proof -
  obtain b s1 where renew: "runs_renew_lease uid rid owner token (clk e 0)
      (clk e 0 + timedelta_seconds lease) s = (b, s1)"
    by (metis surj_pair)
  show ?thesis
  proof (cases b)
    case True
    with assms renew show ?thesis
      by (auto simp: renew_run_lease_def intro: writes1 runs_renew_write keys_runs)
  next
    case False
    with assms renew show ?thesis
      by (auto simp: renew_run_lease_def)
  qed
qed

lemma event_keeps_rows:
  assumes "runs_append_event eid now rid ty data s = Inr (ev, s')" "r \<in> set (db_runs s)" "run_id r \<noteq> rid"
  shows "r \<in> set (db_runs s')"
  using assms by (force simp: runs_append_event_def Let_def set_upd split: option.splits)

lemma recover_loop_writes:
  assumes "recover_loop e i rs s = Inr (ds, s')" "keys_ok s" "set rs \<subseteq> set (db_runs s)"
    "distinct (map run_id rs)"
  shows "writes t s s'"
  using assms
proof (induction e i rs s arbitrary: ds s' rule: recover_loop.induct)
  case (2 e i r rs s)
  show ?case
  proof (cases "run_status r = RunStatus.RUNNING")
    case False
    with 2 show ?thesis
      by auto
  next
    case True
    then obtain r' where r': "run_recover_after_crash (clk e (2 * i + 1)) r = Inr r'"
      using 2(4) by auto
    then have ev: "run_evolves r r'"
      by (rule run_recover_evolves)
    have "r \<in> set (db_runs s)"
      using 2(6) by simp
    then have up: "runs_update r' (run_version r) s = (True, put_run r' s)"
      using ev 2(5) by (intro runs_update_put) (auto simp: run_evolves_def keys_runs)
    have w1: "store_write t s (put_run r' s)"
      using \<open>r \<in> set (db_runs s)\<close> r' by (blast intro: store_write.run run_move.recover)
    then have k1: "keys_ok (put_run r' s)"
      using 2(5) by (rule store_write_keys)
    obtain event s2 ds' where app: "runs_append_event (uid4 e i) (clk e (2 * i + 2)) (run_id r')
          RunEventType.RUN_QUEUED
          [u ''status'' \<mapsto> JStr (run_status_value RunStatus.QUEUED),
           u ''phase'' \<mapsto> jopt_str (run_current_phase r'),
           u ''label'' \<mapsto> jopt_str (run_status_label r'),
           u ''reason'' \<mapsto> JStr (u ''lease_expired'')] (put_run r' s) = Inr (event, s2)"
      and rest: "recover_loop e (i + 1) rs s2 = Inr (ds', s')"
      using 2(4) True r' up by auto
    have w2: "store_write t (put_run r' s) s2"
      using k1 app by (intro runs_append_event_write keys_runs)
    then have k2: "keys_ok s2"
      using k1 by (rule store_write_keys)
    have id: "run_id r' = run_id r"
      using ev by (auto simp: run_evolves_def dest: run_ident_eqD)
    have "x \<in> set (db_runs s2)" if x: "x \<in> set rs" for x
    proof -
      have "x \<in> set (db_runs s)" "run_id x \<noteq> run_id r'"
        using x 2(6,7) id by (auto simp: image_iff)
      then show ?thesis
        by (intro event_keeps_rows [OF app] old_in_put_run)
    qed
    then have "writes t s2 s'"
      using 2(2) [OF True r' up [symmetric] _ app refl] rest k2 2(7) by auto
    with w1 w2 show ?thesis
      by (meson converse_rtranclp_into_rtranclp)
  qed
qed simp

lemma recover_pending_runs_writes:
  assumes "recover_pending_runs c e limit s = Inr (v, s', fx)" "keys_ok s"
  shows "writes t s s'"
proof -
  let ?rs = "runs_list_recoverable (clk e 0) limit s"
  obtain ds where loop: "recover_loop e 0 ?rs s = Inr (ds, s')"
    using assms(1) by (auto simp: recover_pending_runs_def)
  have "set ?rs \<subseteq> set (db_runs s)"
    by (auto simp: runs_list_recoverable_def sel_def dest: in_set_takeD)
  moreover have "distinct (map run_id (sort_key (\<lambda>r. (run_created_at r, run_id r))
      (filter (run_claimable (clk e 0)) (db_runs s))))"
  proof -
    have "distinct (map run_id (filter (run_claimable (clk e 0)) (db_runs s)))"
      using keys_runs [OF assms(2)] by (simp add: keyed_def distinct_map_filter)
    then show ?thesis
      by (simp add: distinct_map)
  qed
  then have "distinct (map run_id ?rs)"
    by (simp add: runs_list_recoverable_def sel_def take_map [symmetric])
  ultimately show ?thesis
    using recover_loop_writes [OF loop assms(2)] by blast
qed

subsection \<open>The tool ledger\<close>

lemma claim_existing_tool_writes:
  assumes "claim_existing_tool action tool hash owner t now lease safe key x s = Inr (v, s', fx)"
    "keys_ok s" "x \<in> set (db_tools s)"
  shows "writes t s s'"
proof -
  have "s' = s \<or> s' = snd (tools_mark_unknown_if_expired (tex_id x) now s) \<or>
    (tex_lease_expires_at x \<le> now \<longrightarrow> tex_replay_safe x) \<and>
    s' = snd (tools_takeover_if_expired x now owner t lease s)"
    using assms(1) by (auto simp: claim_existing_tool_def split: if_splits prod.splits)
  then show ?thesis
    using writes1 [OF tools_mark_unknown_write]
      writes1 [OF tools_takeover_write [OF keys_tools [OF assms(2)] assms(3)]]
    by auto
qed

text \<open>A successful claim either adds the execution or continues with the one in the ledger.\<close>

lemma claim_tool_execution_cases:
  assumes "claim_tool_execution e uid rid action tool hash owner lease token safe key s = Inr (v, s', fx)"
  obtains (added) x where "x = new_tool_execution rid action tool hash owner (uid4 e 0)
        (clk e 0 + timedelta_seconds lease) safe key (uid4 e 1) (clk e 1) (clk e 2)"
      "\<forall>y \<in> set (db_tools s). \<not> tool_clash y x" "s' = s\<lparr>db_tools := db_tools s @ [x]\<rparr>"
      "tcl_acquired v" "tcl_claim_token v = Some (uid4 e 0)" "tcl_cached_result v = None"
  | (existing) x where "tools_get rid action s = Some x"
      "claim_existing_tool action tool hash owner (uid4 e 0) (clk e 0)
        (clk e 0 + timedelta_seconds lease) safe key x s = Inr (v, s', fx)"
proof -
  let ?x = "new_tool_execution rid action tool hash owner (uid4 e 0)
        (clk e 0 + timedelta_seconds lease) safe key (uid4 e 1) (clk e 1) (clk e 2)"
  obtain b s1 where add: "tools_add_if_absent ?x s = Inr (b, s1)"
    and rest: "(if b then Inr (\<lparr>tcl_acquired = True, tcl_claim_token = Some (uid4 e 0),
                       tcl_cached_result = None, tcl_blocked_reason = None\<rparr>, s1, [])
            else case tools_get rid action s1 of
                None \<Rightarrow> Inl (RuntimeError (u ''Tool execution conflict points to missing data.''))
              | Some existing \<Rightarrow>
                  claim_existing_tool action tool hash owner (uid4 e 0) (clk e 0)
                    (clk e 0 + timedelta_seconds lease) safe key existing s1) = Inr (v, s', fx)"
    using assms by (auto simp: claim_tool_execution_def Let_def split: option.splits if_splits)
  show thesis
  proof (cases b)
    case True
    show thesis
      by (rule added [OF refl])
         (use add rest True in \<open>auto simp: tools_add_if_absent_def split: if_splits\<close>)
  next
    case False
    then have "s1 = s"
      using add by (auto simp: tools_add_if_absent_def split: if_splits)
    then show thesis
      using rest False by (cases "tools_get rid action s") (auto intro: existing)
  qed
qed

lemma claim_tool_execution_writes:
  assumes "claim_tool_execution e uid rid action tool hash owner lease token safe key s = Inr (v, s', fx)"
    "keys_ok s"
  shows "writes (uid4 e 0) s s'"
  using assms(1)
proof (cases rule: claim_tool_execution_cases)
  case (added x)
  have "fresh_tool (uid4 e 0) x"
    unfolding added(1) by (simp add: new_tool_execution_def fresh_tool_def)
  then show ?thesis
    unfolding added(3) using added(2) by (intro writes1 store_write.tool_add)
next
  case (existing x)
  then have "x \<in> set (db_tools s)"
    by (auto simp: tools_get_def dest: sel1_Some)
  with existing(2) assms(2) show ?thesis
    by (rule claim_existing_tool_writes)
qed

lemma complete_tool_execution_writes:
  assumes "complete_tool_execution show_json e uid rid action owner token result succeeded s
       = Inr (v, s', fx)"
  shows "writes t s s'"
proof -
  have "s' = snd (tools_complete show_json rid action owner token result succeeded (clk e 0) s)"
    using assms by (auto simp: complete_tool_execution_def split: option.splits if_splits prod.splits)
  then show ?thesis
    using writes1 [OF tools_complete_write] by simp
qed

lemma complete_mutation_tool_writes:
  assumes "complete_mutation_tool show_json e uid rid action owner token tool mutate s
       = Inr (v, s', fx)" "\<And>r s1. mutate s = Inr (r, s1) \<Longrightarrow> outside_writes s s1"
  shows "writes t s s'"
proof -
  obtain r where r: "runs_get uid rid s = Some r"
    using assms(1)
    by (cases "runs_get uid rid s")
       (simp_all add: complete_mutation_tool_def complete_personal_state_mutation_tool_def)
  obtain w s1 where m: "mutate s = Inr (w, s1)"
    using assms(1) r
    by (cases "mutate s")
       (auto simp: complete_mutation_tool_def complete_personal_state_mutation_tool_def split: if_splits)
  define receipt where "receipt = build_tool_receipt tool (u ''SUCCESS'') (wo_code w)
    (wo_message w) (wo_data w) (wo_mutation_refs w) [] False None None None"
  have "s' = snd (tools_complete show_json rid action owner token receipt True (clk e 0) s1)"
    using assms(1) r m
    by (simp add: complete_mutation_tool_def complete_personal_state_mutation_tool_def
        split: if_splits prod.splits flip: receipt_def)
  then show ?thesis
    using outside_writes_writes [OF assms(2) [OF m]]
    by (auto intro: rtranclp.rtrancl_into_rtrancl tools_complete_write)
qed

lemma reconcile_unknown_tool_execution_writes:
  assumes "reconcile_unknown_tool_execution show_json e uid rid action result succeeded request_id s
       = Inr (v, s', fx)"
  shows "writes t s s'"
proof -
  have "\<exists>eid. s' = snd (tools_reconcile_unknown show_json eid result succeeded request_id (clk e 0) s)"
    using assms
    by (auto simp: reconcile_unknown_tool_execution_def split: option.splits if_splits prod.splits)
       (metis snd_conv)
  then show ?thesis
    using writes1 [OF tools_reconcile_write] by auto
qed

subsection \<open>Transitions of a run\<close>

lemma interactions_getD:
  "interactions_get uid rid iid s = Some i \<Longrightarrow>
     i \<in> set (db_interactions s) \<and> ixn_id i = iid \<and> ixn_run_id i = rid \<and> ixn_user_id i = uid"
  by (auto simp: interactions_get_def dest: sel1_Some)

text \<open>The body of a change and the update after it, as one or two writes.\<close>

lemma change_body_writes:
  assumes r: "runs_get uid rid s = Some r" and keys: "keys_ok s"
    and body: "change_body e uid resume r s = Inr (r', d, s1)"
    and up: "runs_update r' (run_version r) s1 = (True, s2)"
  shows "writes t s s2"
proof (cases resume)
  case None
  then have c: "run_cancel (clk e 0) r = Inr r'"
    and s1: "s1 = snd (jobs_cancel uid (agent_run_key (run_id r')) (clk e 1) s)"
    using body None by (auto simp: change_body_def case_prod_unfold)
  have w: "store_write t s s1"
    unfolding s1 by (rule jobs_cancel_write)
  have runs: "db_runs s1 = db_runs s"
    unfolding s1 by (simp add: jobs_cancel_def Let_def)
  have ev: "run_evolves r r'"
    using c by (rule run_cancel_evolves)
  have "s2 = put_run r' s1"
    using runs_update_put [of s1 r r'] ev up keys_runs [OF keys] runs runs_getD [OF r]
    by (simp add: run_evolves_def)
  moreover have "store_write t s1 (put_run r' s1)"
    using c runs runs_getD [OF r] by (intro store_write.run run_move.cancel) simp_all
  ultimately show ?thesis
    using w by (auto intro: writes2)
next
  case (Some p)
  obtain iid response where p: "resume = Some (iid, response)"
    using Some by (cases p) simp
  obtain i i' where i: "interactions_get uid (run_id r) iid s = Some i"
    and i': "interaction_resolve (clk e 0) response i = Inr i'"
    and c: "run_resume (clk e 1) iid response r = Inr r'"
    and s1: "s1 = snd (jobs_resume uid (agent_run_key (run_id r')) (clk e 2) (interactions_resolve i' s))"
    using body p
    by (auto simp: change_body_def Let_def case_prod_unfold split: option.splits if_splits)
  let ?j = "snd (jobs_resume uid (agent_run_key (run_id r')) (clk e 2) s)"
  have swap: "s1 = interactions_resolve i' ?j"
    unfolding s1 by (simp add: jobs_resume_def interactions_resolve_def Let_def)
  have w: "store_write t s ?j"
    by (rule jobs_resume_write)
  have runs: "db_runs ?j = db_runs s" "db_runs s1 = db_runs s"
    unfolding s1 by (simp_all add: jobs_resume_def interactions_resolve_def Let_def)
  have ev: "run_evolves r r'"
    using c by (rule run_resume_evolves)
  have "s2 = put_run r' s1"
    using runs_update_put [of s1 r r'] ev up keys_runs [OF keys] runs runs_getD [OF r]
    by (simp add: run_evolves_def)
  moreover have "interactions_get (run_user_id r) (run_id r) iid ?j = Some i"
    using i runs_getD [OF r] by (simp add: interactions_get_def jobs_resume_def Let_def)
  then have "store_write t ?j (put_run r' s1)"
    unfolding swap using c i' runs(1) runs_getD [OF r]
    by (intro store_write.resume [where r = r and i = i]) auto
  ultimately show ?thesis
    using w by (auto intro: writes2)
qed

lemma change_run_cases:
  assumes "change_run e uid rid version key resume s = Inr (v, s', fx)"
  obtains (replayed) prev target r where "runs_get_operation uid key s = Some (prev, target)"
      "runs_get uid prev s = Some r" "v = to_run_dto True r" "s' = s" "fx = []"
  | (changed) r r' d s1 s2 s3 ev where "runs_get_operation uid key s = None"
      "runs_get uid rid s = Some r" "run_version r = version"
      "change_body e uid resume r s = Inr (r', d, s1)"
      "runs_update r' version s1 = (True, s2)"
      "runs_record_operation uid (run_id r') key
         (if resume = None then u ''CANCEL'' else u ''RESUME'') (run_version r') s2 = Inr s3"
      "runs_append_event (uid4 e 0) (clk e 3) (run_id r')
         (if resume = None then RunEventType.RUN_CANCELLED else RunEventType.RUN_RESUMED) d s3
         = Inr (ev, s')"
      "v = to_run_dto False r'" "fx = []"
proof (cases "runs_get_operation uid key s")
  case (Some p)
  obtain prev target where p: "p = (prev, target)"
    by (cases p)
  have "runs_get uid prev s \<noteq> None"
    using assms Some p by (rule_tac notI) (simp add: change_run_def)
  then obtain r where r: "runs_get uid prev s = Some r"
    by blast
  then have "v = to_run_dto True r" "s' = s" "fx = []"
    using assms Some p by (simp_all add: change_run_def)
  then show thesis
    by (rule replayed [OF Some [unfolded p] r])
next
  case None
  have "runs_get uid rid s \<noteq> None"
    using assms None by (rule_tac notI) (simp add: change_run_def)
  then obtain r where get: "runs_get uid rid s = Some r"
    by blast
  moreover have "run_version r = version"
    using assms None get by (rule_tac ccontr) (simp add: change_run_def)
  ultimately have r: "runs_get uid rid s = Some r" "run_version r = version"
    by simp_all
  obtain r' d s1 where body: "change_body e uid resume r s = Inr (r', d, s1)"
    using assms None r by (cases "change_body e uid resume r s") (auto simp: change_run_def)
  obtain b s2 where up': "runs_update r' version s1 = (b, s2)"
    by (metis surj_pair)
  have b
    using assms None r body up' by (rule_tac ccontr) (simp add: change_run_def)
  then have up: "runs_update r' version s1 = (True, s2)"
    using up' by simp
  obtain s3 ev where "runs_record_operation uid (run_id r') key
         (if resume = None then u ''CANCEL'' else u ''RESUME'') (run_version r') s2 = Inr s3"
      "runs_append_event (uid4 e 0) (clk e 3) (run_id r')
         (if resume = None then RunEventType.RUN_CANCELLED else RunEventType.RUN_RESUMED) d s3
         = Inr (ev, s')"
      "v = to_run_dto False r'" "fx = []"
    using assms None r body up by (simp add: change_run_def) blast
  then show thesis
    by (rule changed [OF None r body up])
qed

lemma record_operation_write:
  "runs_record_operation uid rid key op target s = Inr s' \<Longrightarrow> store_write t s s'"
  by (auto simp: runs_record_operation_def intro!: store_write.operation)

lemma change_run_writes:
  assumes "change_run e uid rid version key resume s = Inr (v, s', fx)" "keys_ok s"
  shows "writes t s s'"
  using assms(1)
proof (cases rule: change_run_cases)
  case (changed r r' d s1 s2 s3 ev)
  have w: "writes t s s2"
    using changed(3,5) by (intro change_body_writes [OF changed(2) assms(2) changed(4)]) simp
  have w3: "store_write t s2 s3"
    using changed(6) by (rule record_operation_write)
  have "keys_ok s3"
    using w w3 assms(2) by (blast intro: writes_keys store_write_keys)
  then have "store_write t s3 s'"
    using changed(7) by (intro runs_append_event_write keys_runs)
  with w w3 show ?thesis
    by (meson rtranclp.rtrancl_into_rtrancl)
qed simp

lemma resume_run_writes:
  assumes "resume_run c e uid rid iid response version key s = Inr (v, s', fx)" "keys_ok s"
  shows "writes t s s'"
  using assms by (auto simp: resume_run_def intro: change_run_writes)

lemma cancel_run_writes:
  assumes "cancel_run e uid rid version key s = Inr (v, s', fx)" "keys_ok s"
  shows "writes t s s'"
  using assms by (auto simp: cancel_run_def split: if_splits intro: change_run_writes)

lemma emit_event_writes:
  assumes "emit_event c e uid rid type data s = Inr (v, s', fx)" "keys_ok s"
  shows "writes t s s'"
  using assms
  by (auto simp: emit_event_def split: if_splits intro: writes1 runs_append_event_write keys_runs)

lemma accept_terminal_output_writes:
  assumes "accept_terminal_output e uid rid output owner token s = Inr (v, s', fx)" "keys_ok s"
  shows "writes t s s'"
proof -
  obtain r where r: "runs_get uid rid s = Some r"
    using assms(1) by (cases "runs_get uid rid s") (simp_all add: accept_terminal_output_def)
  obtain r' where r': "run_accept_terminal_output (clk e 0) output r = Inr r'"
    using assms(1) r by (auto simp: accept_terminal_output_def split: if_splits)
  have "runs_update r' (run_version r) s = (True, put_run r' s)"
    using run_accept_evolves [OF r'] runs_getD [OF r] assms(2)
    by (intro runs_update_put) (auto simp: run_evolves_def keys_runs)
  then have "s' = s \<or> s' = put_run r' s"
    using assms(1) r r' by (simp add: accept_terminal_output_def split: if_splits)
  moreover have "store_write t s (put_run r' s)"
    using r' runs_getD [OF r] by (intro store_write.run run_move.accept) simp_all
  ultimately show ?thesis
    by (auto intro: writes1)
qed

lemma worker_body_writes:
  assumes r: "r \<in> set (db_runs s)" and uid: "run_user_id r = uid" and keys: "keys_ok s"
    and body: "worker_body show_json e uid action r s = Inr (r', ty, d, s1)"
  shows "runs_update r' (run_version r) s1 = (True, put_run r' s1) \<and> store_write t s (put_run r' s1)"
proof (cases action)
  case (Start phase label)
  then have c: "run_start (clk e 0) phase label r = Inr r'" and s1: "s1 = s"
    using body by (auto simp: worker_body_def)
  show ?thesis
    using run_start_evolves [OF c] c r keys
    by (auto simp: s1 run_evolves_def keys_runs intro!: runs_update_put
        intro: store_write.run run_move.start)
next
  case (Fail code)
  then have c: "run_fail (clk e 0) code r = Inr r'" and s1: "s1 = s"
    using body by (auto simp: worker_body_def)
  show ?thesis
    using run_fail_evolves [OF c] c r keys
    by (auto simp: s1 run_evolves_def keys_runs intro!: runs_update_put
        intro: store_write.run run_move.fail)
next
  case (Wait payload interaction)
  define iid where "iid = (case interaction of None \<Rightarrow> uid4 e 0 | Some i \<Rightarrow> i)"
  define i where "i = payload_interaction show_json iid uid (run_id r) (clk e 1) payload"
  have c: "run_wait_for_user (clk e 0) iid payload r = Inr r'"
    and add: "interactions_add (payload_interaction show_json iid uid (run_id r') (clk e 1) payload) s
      = Inr s1"
    using body Wait by (auto simp: worker_body_def Let_def iid_def)
  have ev: "run_evolves r r'"
    using c by (rule run_wait_evolves)
  then have "run_id r' = run_id r"
    by (auto simp: run_evolves_def dest: run_ident_eqD)
  then have s1: "s1 = s\<lparr>db_interactions := db_interactions s @ [i]\<rparr>"
    and clash: "\<forall>x \<in> set (db_interactions s). \<not> interaction_clash x i"
    using add by (auto simp: interactions_add_def i_def)
  have "store_write t s (put_run r' s1)"
    unfolding s1 using r c clash uid
    by (intro store_write.wait [where r = r]) (simp_all add: i_def payload_interaction_def)
  moreover have "runs_update r' (run_version r) s1 = (True, put_run r' s1)"
    using ev r keys by (intro runs_update_put) (simp_all add: s1 run_evolves_def keys_runs)
  ultimately show ?thesis
    by simp
next
  case (Complete content)
  obtain answer m where answer: "content = Some answer" "strip answer \<noteq> []"
    and m: "m = \<lparr>msg_user_id = uid, msg_thread_id = run_thread_id r,
      msg_role = MessageRole.ASSISTANT, msg_content = strip answer, msg_id = uid4 e 0,
      msg_run_id = Some (run_id r), msg_source_ids = [], msg_metadata = Map.empty,
      msg_created_at = clk e 0\<rparr>"
    and add: "messages_add m s = Inr s1" and c: "run_complete (clk e 1) (msg_id m) r = Inr r'"
    using body Complete by (auto simp: worker_body_def Let_def split: option.splits if_splits)
  have ev: "run_evolves r r'"
    using c by (rule run_complete_evolves)
  have s1: "s1 = s\<lparr>db_threads := upd (\<lambda>x. thr_id x = msg_thread_id m \<and> thr_user_id x = msg_user_id m)
          (\<lambda>x. x\<lparr>thr_updated_at := max (thr_updated_at x) (msg_created_at m)\<rparr>) (db_threads s),
      db_messages := db_messages s @ [m]\<rparr>"
    and clash: "msg_id m \<notin> msg_id ` set (db_messages s)"
    using add by (auto simp: messages_add_def)
  have "store_write t s (put_run r' s1)"
    unfolding s1 using r c clash uid answer
    by (intro store_write.complete [where r = r]) (simp_all add: m)
  moreover have "runs_update r' (run_version r) s1 = (True, put_run r' s1)"
    using ev r keys by (intro runs_update_put) (simp_all add: s1 run_evolves_def keys_runs)
  ultimately show ?thesis
    by simp
qed

lemma worker_events_writes:
  assumes "worker_events e action rid ty d s = Inr (ev, s')" "keys_ok s"
  shows "writes t s s'"
proof -
  have step: "writes t s2 s3 \<and> keys_ok s3"
    if "runs_append_event eid now rid ty' d' s2 = Inr (ev', s3)" "keys_ok s2" for eid now ty' d' ev' s2 s3
    using that by (blast intro: writes1 runs_append_event_write keys_runs store_write_keys)
  obtain s1 where 1: "writes t s s1" "keys_ok s1"
    and rest: "bindE (runs_append_event (uid4 e 2) (clk e 3) rid ty d s1) (\<lambda>(ev, s2).
       case action of
         Wait payload interaction_id \<Rightarrow>
           runs_append_event (uid4 e 3) (clk e 4) rid RunEventType.RUN_WAITING_FOR_USER
             [u ''interaction_id'' \<mapsto> jget d (u ''interrupt_id'') JNull] s2
       | _ \<Rightarrow> Inr (ev, s2)) = Inr (ev, s')"
    using assms by (cases action) (fastforce simp: worker_events_def dest: step)+
  then obtain ev2 s2 where 2: "runs_append_event (uid4 e 2) (clk e 3) rid ty d s1 = Inr (ev2, s2)"
    by auto
  then have "writes t s1 s2" "keys_ok s2"
    using step 1(2) by blast+
  moreover have "writes t s2 s'"
    using rest 2 step [OF _ \<open>keys_ok s2\<close>] by (cases action) auto
  ultimately show ?thesis
    using 1 by (meson rtranclp_trans)
qed

text \<open>A worker's transition: what it read, wrote and published.\<close>

lemma worker_transition_cases:
  assumes "worker_transition show_json c e uid rid action owner token s = Inr (v, s', fx)"
  obtains r r' ty d s1 ev where "runs_get uid rid s = Some r"
    "owner = None \<or> token \<noteq> None \<and> run_claim_owner r = owner \<and> run_claim_token r = token"
    "worker_body show_json e uid action r s = Inr (r', ty, d, s1)"
    "worker_events e action (run_id r') ty d (snd (runs_update r' (run_version r) s1)) = Inr (ev, s')"
    "v = to_run_dto False r'" "fx = publish_wakeup c rid (evt_sequence ev)"
proof -
  have "runs_get uid rid s \<noteq> None"
    using assms by (rule_tac notI) (simp add: worker_transition_def)
  then obtain r where r: "runs_get uid rid s = Some r"
    by blast
  have own: "owner = None \<or> token \<noteq> None \<and> run_claim_owner r = owner \<and> run_claim_token r = token"
    using assms r by (rule_tac ccontr) (auto simp: worker_transition_def)
  then have g: "(owner \<noteq> None \<and> (token = None \<or> run_claim_owner r \<noteq> owner \<or> run_claim_token r \<noteq> token))
      = False"
    by auto
  have eq: "bindE (value_error_to_transition (worker_body show_json e uid action r s))
      (\<lambda>(run', event_type, data, s1).
      case runs_update run' (run_version r) s1 of
        (ok, s2) \<Rightarrow>
          if \<not> ok then Inl (VersionConflict (u ''Run was updated concurrently.''))
          else
            bindE (worker_events e action (run_id run') event_type data s2) (\<lambda>(last_event, s3).
            Inr (to_run_dto False run', s3, publish_wakeup c rid (evt_sequence last_event))))
      = Inr (v, s', fx)"
    using assms by (simp only: worker_transition_def r g option.case if_False)
  then obtain r' ty d s1 where body: "worker_body show_json e uid action r s = Inr (r', ty, d, s1)"
    by auto
  obtain b s2 where up: "runs_update r' (run_version r) s1 = (b, s2)"
    by (metis surj_pair)
  have b
    using eq body up by (cases b) simp_all
  then have "bindE (worker_events e action (run_id r') ty d s2) (\<lambda>(last_event, s3).
      Inr (to_run_dto False r', s3, publish_wakeup c rid (evt_sequence last_event))) = Inr (v, s', fx)"
    using eq body up by simp
  then obtain ev where "worker_events e action (run_id r') ty d s2 = Inr (ev, s')"
      "v = to_run_dto False r'" "fx = publish_wakeup c rid (evt_sequence ev)"
    by auto
  with up show thesis
    by (intro that [OF r own body]) simp_all
qed

lemma worker_transition_writes:
  assumes "worker_transition show_json c e uid rid action owner token s = Inr (v, s', fx)" "keys_ok s"
  shows "writes t s s'"
  using assms(1)
proof (cases rule: worker_transition_cases)
  case (1 r r' ty d s1 ev)
  have b: "runs_update r' (run_version r) s1 = (True, put_run r' s1)" "store_write t s (put_run r' s1)"
    using worker_body_writes [OF _ _ assms(2) 1(3)] runs_getD [OF 1(1)] by blast+
  moreover have "writes t (put_run r' s1) s'"
    using 1(4) b store_write_keys [OF b(2) assms(2)] by (auto intro: worker_events_writes)
  ultimately show ?thesis
    by (meson converse_rtranclp_into_rtranclp)
qed

section \<open>Every unit of work\<close>

theorem service_step_writes:
  assumes "service_step e s s'" "keys_ok s"
  shows "writes (uid4 e 0) s s' \<or> (\<exists>us. s' = s\<lparr>db_users := us\<rparr>)"
  using assms
proof (induction rule: service_step.induct)
  case (complete_mutation_tool show_json uid rid action owner token tool mutate s v s' fx)
  then show ?case
    by (intro disjI1 complete_mutation_tool_writes) auto
next
  case (outside s s')
  then show ?case
    by (intro disjI1 outside_writes_writes)
next
  case (accounts s us)
  then show ?case
    by blast
qed (rule disjI1, rule create_thread_writes archive_thread_writes create_user_run_writes
      create_automation_run_writes claim_agent_run_jobs_writes settle_agent_run_job_writes
      renew_agent_run_job_writes recover_pending_runs_writes claim_run_writes
      renew_run_lease_writes claim_tool_execution_writes complete_tool_execution_writes
      reconcile_unknown_tool_execution_writes resume_run_writes cancel_run_writes
      emit_event_writes worker_transition_writes accept_terminal_output_writes; assumption)+

lemma runtime_keys: "runtime_ok s \<Longrightarrow> keys_ok s"
  by (simp add: runtime_ok_def)

lemma runtime_ok_users: "runtime_ok s \<Longrightarrow> runtime_ok (s\<lparr>db_users := us\<rparr>)"
  by (simp add: runtime_ok_def keys_ok_def rows_ok_def log_ok_def run_log_def messages_ok_def interactions_ok_def
      driven_ok_def)

interpretation runtime: invariant_system service_step runtime_ok
proof
  fix e s s'
  assume ok: "runtime_ok s" and step: "service_step e s s'"
  from service_step_writes [OF step runtime_keys [OF ok]] show "runtime_ok s'"
    using ok store_writes_runtime_ok runtime_ok_users by blast
qed

lemma reachable_ok: "reachable s \<Longrightarrow> runtime_ok s"
  using runtime.trace_inv runtime_ok_empty by (auto simp: reachable_def)

lemma reachable_history: "reachable s \<Longrightarrow> history es s s' \<Longrightarrow> reachable s'"
  by (auto simp: reachable_def intro: trace_append)

text \<open>A relation that every store write respects is respected by every unit of work.\<close>

lemma service_relates:
  assumes step: "\<And>s s'. store_write (uid4 e 0) s s' \<Longrightarrow> runtime_ok s \<Longrightarrow> R s s'"
    and "\<And>s. R s s" and "\<And>s s' s''. R s s' \<Longrightarrow> R s' s'' \<Longrightarrow> R s s''"
    and "service_step e s s'" and ok: "runtime_ok s" and users: "\<And>s us. R s (s\<lparr>db_users := us\<rparr>)"
  shows "R s s'"
  using service_step_writes [OF assms(4) runtime_keys [OF ok]]
proof (elim disjE exE)
  assume "writes (uid4 e 0) s s'"
  then have "R s s' \<and> runtime_ok s'"
  proof (induction rule: rtranclp_induct)
    case (step s1 s2)
    then show ?case
      using assms(1,3) store_write_runtime_ok by blast
  qed (use assms(2) ok in auto)
  then show ?thesis ..
qed (use users in simp)

end
