(* ===== verification/RuntimeHistory.thy ===== *)
theory RuntimeHistory
  imports ServiceRefinement
begin

text \<open>
  What the units of work of the runtime never undo: runs keep their identity and their versions
  grow, finished runs are frozen, the logs are append only, recorded tool results stay, the
  epochs of jobs grow, and tokens come from claims. These facts discharge the contracts of
  \<open>Interfaces\<close> for the runtime.
\<close>

section \<open>Runs\<close>

text \<open>\<open>t\<close> is the token issued meanwhile.\<close>

definition run_later :: "uuid \<Rightarrow> AgentRun \<Rightarrow> AgentRun \<Rightarrow> bool" where
  "run_later t r r' \<longleftrightarrow> run_ident r' = run_ident r \<and> run_version r \<le> run_version r'
   \<and> run_event_sequence r \<le> run_event_sequence r'
   \<and> run_active_time_used_ms r \<le> run_active_time_used_ms r'
   \<and> run_claim_token r' \<in> {run_claim_token r, None, Some t}
   \<and> (run_status r \<in> TERMINAL_RUN_STATUSES \<longrightarrow>
        r' = r\<lparr>run_event_sequence := run_event_sequence r'\<rparr>)"

lemma run_later_refl [simp]: "run_later t r r"
  by (simp add: run_later_def)

lemma run_later_trans:
  assumes "run_later t r r'" "run_later t r' r''"
  shows "run_later t r r''"
proof -
  have "run_status r \<in> TERMINAL_RUN_STATUSES \<Longrightarrow> r'' = r\<lparr>run_event_sequence := run_event_sequence r''\<rparr>"
  proof -
    assume "run_status r \<in> TERMINAL_RUN_STATUSES"
    then have 1: "r' = r\<lparr>run_event_sequence := run_event_sequence r'\<rparr>" and t: "run_status r \<in> TERMINAL_RUN_STATUSES"
      using assms(1) by (auto simp: run_later_def)
    have "run_status r' = run_status r"
      by (subst 1) simp
    with t have "r'' = r'\<lparr>run_event_sequence := run_event_sequence r''\<rparr>"
      using assms(2) by (simp add: run_later_def)
    also have "\<dots> = r\<lparr>run_event_sequence := run_event_sequence r''\<rparr>"
      by (subst 1) simp
    finally show "r'' = r\<lparr>run_event_sequence := run_event_sequence r''\<rparr>" .
  qed
  with assms show ?thesis
    by (auto simp: run_later_def)
qed

lemma stopped_later:
  assumes "run_status r \<notin> TERMINAL_RUN_STATUSES" "run_ident r' = run_ident r"
    "run_version r' = run_version r + 1" "run_event_sequence r' = run_event_sequence r"
    "run_active_time_used_ms r' = run_active_time_used_ms r + active_span now r"
    "run_claim_token r' = None"
  shows "run_later t r r'"
  using assms by (simp add: run_later_def)

lemma run_move_later: "run_move t r r' \<Longrightarrow> run_later t r r'"
proof (induction rule: run_move.induct)
  case (claim now r owner lease)
  then have "run_status r \<notin> TERMINAL_RUN_STATUSES"
    by (auto simp: run_claimable_def)
  then show ?case
    by (simp add: run_later_def claim_row_def run_ident_def)
next
  case (accept now out r r')
  then show ?case
    unfolding run_accept_Inr by (elim conjE disjE) (simp_all add: run_later_def run_ident_def)
next
  case (fail now code r r')
  then show ?case
    by (intro stopped_later [where now = now]) (simp_all add: run_fail_Inr stopped_def run_ident_def)
next
  case (cancel now r r')
  then show ?case
    by (intro stopped_later [where now = now]) (simp_all add: run_cancel_Inr stopped_def run_ident_def)
next
  case (recover now r r')
  then show ?case
    by (intro stopped_later [where now = now]) (simp_all add: run_recover_Inr stopped_def run_ident_def)
qed (simp_all add: run_later_def run_start_Inr run_ident_def)

lemma run_wait_later: "run_wait_for_user now iid payload r = Inr r' \<Longrightarrow> run_later t r r'"
  by (intro stopped_later [where now = now]) (simp_all add: run_wait_Inr stopped_def run_ident_def)

lemma run_complete_later: "run_complete now mid r = Inr r' \<Longrightarrow> run_later t r r'"
  by (intro stopped_later [where now = now]) (simp_all add: run_complete_Inr stopped_def run_ident_def)

lemma run_resume_later: "run_resume now iid response r = Inr r' \<Longrightarrow> run_later t r r'"
  by (simp add: run_later_def run_resume_Inr run_ident_def)

lemma event_later: "run_later t r (r\<lparr>run_event_sequence := run_event_sequence r + 1\<rparr>)"
  by (simp add: run_later_def run_ident_def)

text \<open>The runs of a table after a write: the old ones, each later, and fresh ones.\<close>

definition runs_later :: "uuid \<Rightarrow> db \<Rightarrow> db \<Rightarrow> bool" where
  "runs_later t s s' \<longleftrightarrow>
     (\<forall>r \<in> set (db_runs s). \<exists>r' \<in> set (db_runs s'). run_later t r r')
   \<and> (\<forall>r' \<in> set (db_runs s'). run_claim_token r' \<in> {None, Some t} \<or>
        (\<exists>r \<in> set (db_runs s). run_later t r r'))"

lemma runs_later_put:
  assumes "keyed run_id (db_runs s)" "r \<in> set (db_runs s)" "run_later t r r'" "db_runs s0 = db_runs s"
  shows "runs_later t s (put_run r' s0)"
proof -
  have id: "run_id r' = run_id r"
    using assms(3) by (auto simp: run_later_def dest: run_ident_eqD)
  have set: "x \<in> set (db_runs (put_run r' s0)) \<longleftrightarrow> x = r' \<or> x \<in> set (db_runs s) \<and> run_id x \<noteq> run_id r" for x
    using in_put_run [of s0 r r' x] assms id by simp
  have "\<exists>x' \<in> set (db_runs (put_run r' s0)). run_later t x x'" if x: "x \<in> set (db_runs s)" for x
  proof (cases "run_id x = run_id r")
    case True
    then have "x = r"
      using x assms(1,2) keyed_unique by metis
    with assms(3) set show ?thesis
      by blast
  next
    case False
    with x set show ?thesis
      by (meson run_later_refl)
  qed
  moreover have "\<exists>x \<in> set (db_runs s). run_later t x x'" if "x' \<in> set (db_runs (put_run r' s0))" for x'
    using that set assms(2,3) run_later_refl by metis
  ultimately show ?thesis
    by (simp add: runs_later_def)
qed

lemma runs_later_same: "db_runs s' = db_runs s \<Longrightarrow> runs_later t s s'"
  unfolding runs_later_def by (metis run_later_refl)

lemma runs_later_add:
  assumes "db_runs s' = db_runs s @ [r]" "run_claim_token r = None"
  shows "runs_later t s s'"
  unfolding runs_later_def assms(1) using assms(2) run_later_refl by fastforce

lemma store_write_runs_later:
  assumes "store_write t s s'" "keys_ok s"
  shows "runs_later t s s'"
  using assms
proof (induction rule: store_write.induct)
  case (create r s m j)
  then show ?case
    by (intro runs_later_add [where r = r]) (simp_all add: fresh_run_ok)
next
  case (run r s r')
  then show ?case
    by (simp add: runs_later_put run_move_later keys_runs)
next
  case (wait r s now i payload r')
  then show ?case
    by (intro runs_later_put [where r = r]) (simp_all add: keys_runs run_wait_later)
next
  case (resume r s now iid response r' i now' i')
  then show ?case
    by (intro runs_later_put [where r = r])
       (simp_all add: keys_runs run_resume_later interactions_resolve_def)
next
  case (complete r s now m r')
  then show ?case
    by (intro runs_later_put [where r = r]) (simp_all add: keys_runs run_complete_later)
next
  case (event r s ev)
  then show ?case
    by (intro runs_later_put [where r = r]) (simp_all add: keys_runs event_later)
qed (simp_all add: threads_archive_def runs_later_same)

lemma runs_later_trans:
  assumes "runs_later t s s'" "runs_later t s' s''"
  shows "runs_later t s s''"
proof -
  have "run_claim_token x \<in> {None, Some t} \<or> (\<exists>r \<in> set (db_runs s). run_later t r x)"
    if x: "x \<in> set (db_runs s'')" for x
  proof (cases "run_claim_token x \<in> {None, Some t}")
    case False
    then obtain y where y: "y \<in> set (db_runs s')" "run_later t y x"
      using x assms(2) by (auto simp: runs_later_def)
    then have "run_claim_token y \<notin> {None, Some t}"
      using False by (auto simp: run_later_def)
    then obtain z where "z \<in> set (db_runs s)" "run_later t z y"
      using y(1) assms(1) by (auto simp: runs_later_def)
    with y(2) show ?thesis
      by (blast intro: run_later_trans)
  qed simp
  moreover have "\<exists>x \<in> set (db_runs s''). run_later t r x" if r: "r \<in> set (db_runs s)" for r
  proof -
    obtain y where y: "y \<in> set (db_runs s')" "run_later t r y"
      using r assms(1) by (auto simp: runs_later_def)
    then obtain x where "x \<in> set (db_runs s'')" "run_later t y x"
      using assms(2) by (auto simp: runs_later_def)
    with y(2) show ?thesis
      by (blast intro: run_later_trans)
  qed
  ultimately show ?thesis
    by (simp add: runs_later_def)
qed

lemma service_runs_later:
  assumes "service_step e s s'" "runtime_ok s"
  shows "runs_later (uid4 e 0) s s'"
proof (rule service_relates [OF _ _ _ assms])
  show "runs_later (uid4 e 0) s s" for s
    by (simp add: runs_later_same)
  show "runs_later (uid4 e 0) s (s\<lparr>db_users := us\<rparr>)" for s us
    by (simp add: runs_later_same)
qed (simp add: runtime_ok_def store_write_runs_later, rule runs_later_trans)

section \<open>Tool executions\<close>

text \<open>The rows of a table and of its update correspond.\<close>

lemma upd_related:
  assumes "\<And>x. x \<in> set t \<Longrightarrow> Q x (if p x then f x else x)"
  shows "\<forall>x \<in> set t. \<exists>x' \<in> set (upd p f t). Q x x'" "\<forall>x' \<in> set (upd p f t). \<exists>x \<in> set t. Q x x'"
  using assms unfolding set_upd by blast+

definition tool_later :: "uuid \<Rightarrow> ToolExecution \<Rightarrow> ToolExecution \<Rightarrow> bool" where
  "tool_later t x x' \<longleftrightarrow> tool_ident x' = tool_ident x \<and> tex_attempt_count x \<le> tex_attempt_count x'
   \<and> tex_claim_token x' \<in> {tex_claim_token x, t}
   \<and> (tex_status x \<noteq> ToolExecutionStatus.IN_PROGRESS \<longrightarrow>
        tex_status x' \<noteq> ToolExecutionStatus.IN_PROGRESS \<and> tex_claim_token x' = tex_claim_token x)
   \<and> (tex_result x \<noteq> None \<longrightarrow> x' = x)"

lemma tool_later_refl [simp]: "tool_later t x x"
  by (simp add: tool_later_def)

lemma tool_later_trans: "tool_later t x y \<Longrightarrow> tool_later t y z \<Longrightarrow> tool_later t x z"
  by (auto simp: tool_later_def)

lemma tool_move_later: "tool_move t x x' \<Longrightarrow> tool_fields_ok x \<Longrightarrow> tool_later t x x'"
  by (induction rule: tool_move.induct)
     (auto simp: tool_later_def tool_ident_def tool_fields_ok_def settle_tool_row_def)

definition tools_later :: "uuid \<Rightarrow> db \<Rightarrow> db \<Rightarrow> bool" where
  "tools_later t s s' \<longleftrightarrow>
     (\<forall>x \<in> set (db_tools s). \<exists>x' \<in> set (db_tools s'). tool_later t x x')
   \<and> (\<forall>x' \<in> set (db_tools s'). tex_claim_token x' = t \<or>
        (\<exists>x \<in> set (db_tools s). tool_later t x x'))"

lemma tools_later_same: "db_tools s' = db_tools s \<Longrightarrow> tools_later t s s'"
  unfolding tools_later_def by (metis tool_later_refl)

lemma tools_later_trans:
  assumes "tools_later t s s'" "tools_later t s' s''"
  shows "tools_later t s s''"
proof -
  have "\<exists>z \<in> set (db_tools s''). tool_later t x z" if x: "x \<in> set (db_tools s)" for x
  proof -
    obtain y where y: "y \<in> set (db_tools s')" "tool_later t x y"
      using x assms(1) by (auto simp: tools_later_def)
    then obtain z where "z \<in> set (db_tools s'')" "tool_later t y z"
      using assms(2) by (auto simp: tools_later_def)
    with y(2) show ?thesis
      by (blast intro: tool_later_trans)
  qed
  moreover have "tex_claim_token z = t \<or> (\<exists>x \<in> set (db_tools s). tool_later t x z)"
    if z: "z \<in> set (db_tools s'')" for z
  proof (cases "tex_claim_token z = t")
    case False
    then obtain y where y: "y \<in> set (db_tools s')" "tool_later t y z"
      using z assms(2) by (auto simp: tools_later_def)
    then have "tex_claim_token y \<noteq> t"
      using False by (auto simp: tool_later_def)
    then obtain x where "x \<in> set (db_tools s)" "tool_later t x y"
      using y(1) assms(1) by (auto simp: tools_later_def)
    with y(2) show ?thesis
      by (blast intro: tool_later_trans)
  qed simp
  ultimately show ?thesis
    by (simp add: tools_later_def)
qed

lemma store_write_tools_later:
  assumes "store_write t s s'" "rows_ok s"
  shows "tools_later t s s'"
  using assms
proof (induction rule: store_write.induct)
  case (tools s p f)
  have later: "tool_later t x (if p x then f x else x)" if "x \<in> set (db_tools s)" for x
    using that tools by (auto simp: rows_ok_def intro: tool_move_later)
  then show ?case
    using upd_related [of "db_tools s" "tool_later t" p f] by (simp add: tools_later_def)
next
  case (tool_add x s)
  then show ?case
    unfolding tools_later_def fresh_tool_def by simp (metis tool_later_refl)
qed (simp_all add: threads_archive_def interactions_resolve_def tools_later_same)

lemma service_tools_later:
  assumes "service_step e s s'" "runtime_ok s"
  shows "tools_later (uid4 e 0) s s'"
proof (rule service_relates [OF _ _ _ assms])
  show "tools_later (uid4 e 0) s s" for s
    by (simp add: tools_later_same)
  show "tools_later (uid4 e 0) s (s\<lparr>db_users := us\<rparr>)" for s us
    by (simp add: tools_later_same)
qed (simp add: runtime_ok_def store_write_tools_later, rule tools_later_trans)

section \<open>Jobs\<close>

definition job_later :: "DurableJob \<Rightarrow> DurableJob \<Rightarrow> bool" where
  "job_later j j' \<longleftrightarrow> job_ident j' = job_ident j \<and> job_claim_epoch j \<le> job_claim_epoch j'
   \<and> (job_status j \<noteq> DurableJobStatus.CLAIMED \<and> job_claim_epoch j' = job_claim_epoch j \<longrightarrow>
        job_status j' \<noteq> DurableJobStatus.CLAIMED)"

lemma job_later_refl [simp]: "job_later j j"
  by (simp add: job_later_def)

lemma job_later_trans: "job_later i j \<Longrightarrow> job_later j k \<Longrightarrow> job_later i k"
  by (auto simp: job_later_def)

lemma job_move_later: "job_move j j' \<Longrightarrow> job_later j j'"
  by (induction rule: job_move.induct)
     (auto simp: job_later_def job_ident_def claim_job_row_def)

definition jobs_later :: "db \<Rightarrow> db \<Rightarrow> bool" where
  "jobs_later s s' \<longleftrightarrow> (\<forall>j \<in> set (db_jobs s). \<exists>j' \<in> set (db_jobs s'). job_later j j')"

lemma jobs_later_same: "set (db_jobs s) \<subseteq> set (db_jobs s') \<Longrightarrow> jobs_later s s'"
  unfolding jobs_later_def by (metis job_later_refl subsetD)

lemma jobs_later_trans: "jobs_later s s' \<Longrightarrow> jobs_later s' s'' \<Longrightarrow> jobs_later s s''"
  unfolding jobs_later_def by (meson job_later_trans)

lemma store_write_jobs_later: "store_write t s s' \<Longrightarrow> jobs_later s s'"
proof (induction rule: store_write.induct)
  case (jobs s p f)
  then have "job_later j (if p j then f j else j)" if "j \<in> set (db_jobs s)" for j
    using that by (auto intro: job_move_later)
  then show ?case
    using upd_related [of "db_jobs s" job_later p f] by (simp add: jobs_later_def)
qed (auto simp: threads_archive_def interactions_resolve_def intro!: jobs_later_same)

lemma service_jobs_later:
  assumes "service_step e s s'" "runtime_ok s"
  shows "jobs_later s s'"
proof (rule service_relates [OF _ _ _ assms])
  show "jobs_later s s" for s
    by (simp add: jobs_later_same)
  show "jobs_later s (s\<lparr>db_users := us\<rparr>)" for s us
    by (simp add: jobs_later_same)
qed (simp add: store_write_jobs_later, rule jobs_later_trans)

section \<open>Logs\<close>

definition logs_later :: "db \<Rightarrow> db \<Rightarrow> bool" where
  "logs_later s s' \<longleftrightarrow> (\<exists>evs. db_events s' = db_events s @ evs) \<and> (\<exists>ms. db_messages s' = db_messages s @ ms)
   \<and> (\<exists>ops. db_run_ops s' = db_run_ops s @ ops)"

lemma logs_later_refl [simp]: "logs_later s s"
  by (simp add: logs_later_def)

lemma logs_later_trans: "logs_later s s' \<Longrightarrow> logs_later s' s'' \<Longrightarrow> logs_later s s''"
  by (fastforce simp: logs_later_def)

lemma store_write_logs_later: "store_write t s s' \<Longrightarrow> logs_later s s'"
  by (induction rule: store_write.induct)
     (simp_all add: logs_later_def threads_archive_def interactions_resolve_def)

lemma service_logs_later:
  assumes "service_step e s s'" "runtime_ok s"
  shows "logs_later s s'"
  by (rule service_relates [OF _ _ _ assms])
     (simp_all add: store_write_logs_later, rule logs_later_trans, simp_all add: logs_later_def)

section \<open>Look-ups by key\<close>

lemma runs_get_iff:
  "keys_ok s \<Longrightarrow> runs_get uid rid s = Some r \<longleftrightarrow>
     r \<in> set (db_runs s) \<and> run_id r = rid \<and> run_user_id r = uid"
  unfolding runs_get_def keys_ok_def
  by (subst sel1_keyed [of run_id _ _ rid])
     (auto split: option.splits dest: row_Some keyed_unique simp: row_None keyed_row)

lemma runs_by_key_iff:
  "keys_ok s \<Longrightarrow> runs_get_by_idempotency uid key s = Some r \<longleftrightarrow>
     r \<in> set (db_runs s) \<and> run_user_id r = uid \<and> run_idempotency_key r = key"
  unfolding runs_get_by_idempotency_def keys_ok_def
  by (subst sel1_keyed [of "\<lambda>r. (run_user_id r, run_idempotency_key r)" _ _ "(uid, key)"])
     (auto split: option.splits dest: row_Some keyed_unique simp: row_None keyed_row)

lemma tools_get_iff:
  "keys_ok s \<Longrightarrow> tools_get rid action s = Some x \<longleftrightarrow>
     x \<in> set (db_tools s) \<and> tex_run_id x = rid \<and> tex_action_id x = action"
  unfolding tools_get_def keys_ok_def
  by (subst sel1_keyed [of "\<lambda>x. (tex_run_id x, tex_action_id x)" _ _ "(rid, action)"])
     (auto split: option.splits dest: row_Some keyed_unique simp: row_None keyed_row)

lemma keyed_row_iff: "keyed k t \<Longrightarrow> row k x t = Some r \<longleftrightarrow> r \<in> set t \<and> k r = x"
  by (auto dest: row_Some keyed_row)

section \<open>The contracts hold\<close>

text \<open>Idempotency keys: of user operations on runs, and of runs.\<close>

interpretation operations: persistent service_step runtime_ok
  "\<lambda>s (uid, key). runs_get_operation uid key s"
proof
  fix s e s' k v
  assume ok: "runtime_ok s" and step: "service_step e s s'"
    and v: "(case k of (uid, key) \<Rightarrow> runs_get_operation uid key s) = Some v"
  obtain ops where "db_run_ops s' = db_run_ops s @ ops"
    using service_logs_later [OF step ok] by (auto simp: logs_later_def)
  with v show "(case k of (uid, key) \<Rightarrow> runs_get_operation uid key s') = Some v"
    by (cases k) (auto simp: runs_get_operation_def sel1_append)
qed

interpretation run_keys: persistent service_step runtime_ok
  "\<lambda>s (uid, key). map_option run_id (runs_get_by_idempotency uid key s)"
proof
  fix s e s' k v
  assume ok: "runtime_ok s" and step: "service_step e s s'"
    and v: "(case k of (uid, key) \<Rightarrow> map_option run_id (runs_get_by_idempotency uid key s)) = Some v"
  obtain uid key where k: "k = (uid, key)"
    by (cases k)
  then obtain r where r: "runs_get_by_idempotency uid key s = Some r" "v = run_id r"
    using v by auto
  then have "r \<in> set (db_runs s)" "run_user_id r = uid" "run_idempotency_key r = key"
    using runs_by_key_iff [OF runtime_keys [OF ok]] by auto
  moreover from this obtain r' where "r' \<in> set (db_runs s')" "run_later (uid4 e 0) r r'"
    using service_runs_later [OF step ok] by (auto simp: runs_later_def)
  ultimately have "runs_get_by_idempotency uid key s' = Some r'" "run_id r' = run_id r"
    using runs_by_key_iff [OF runtime_keys [OF runtime.step_inv [OF ok step]]]
    by (auto simp: run_later_def run_ident_def)
  with k r show "(case k of (uid, key) \<Rightarrow> map_option run_id (runs_get_by_idempotency uid key s')) = Some v"
    by simp
qed

text \<open>Recorded tool results.\<close>

definition recorded :: "db \<Rightarrow> uuid \<times> str \<Rightarrow> ToolExecution option" where
  "recorded s k = (case tools_get (fst k) (snd k) s of
     Some x \<Rightarrow> if tex_result x = None then None else Some x | None \<Rightarrow> None)"

lemma recorded_iff:
  "keys_ok s \<Longrightarrow> recorded s (rid, action) = Some x \<longleftrightarrow>
     x \<in> set (db_tools s) \<and> tex_run_id x = rid \<and> tex_action_id x = action \<and> tex_result x \<noteq> None"
proof -
  assume keys: "keys_ok s"
  have "recorded s (rid, action) = Some x \<longleftrightarrow> tools_get rid action s = Some x \<and> tex_result x \<noteq> None"
    by (auto simp: recorded_def split: option.splits if_splits)
  then show ?thesis
    by (simp add: tools_get_iff [OF keys])
qed

interpretation results: persistent service_step runtime_ok recorded
proof
  fix s e s' and k :: "uuid \<times> str" and x
  assume ok: "runtime_ok s" and step: "service_step e s s'" and x: "recorded s k = Some x"
  obtain rid action where k: "k = (rid, action)"
    by (cases k)
  have old: "x \<in> set (db_tools s)" "tex_run_id x = rid" "tex_action_id x = action" "tex_result x \<noteq> None"
    using x recorded_iff [OF runtime_keys [OF ok]] by (auto simp: k)
  then obtain x' where "x' \<in> set (db_tools s')" "tool_later (uid4 e 0) x x'"
    using service_tools_later [OF step ok] by (auto simp: tools_later_def)
  with old have "x \<in> set (db_tools s')"
    by (simp add: tool_later_def)
  with old show "recorded s' k = Some x"
    using recorded_iff [OF runtime_keys [OF runtime.step_inv [OF ok step]]] by (simp add: k)
qed

text \<open>Finished runs, up to their event counter.\<close>

definition finished :: "db \<Rightarrow> uuid \<Rightarrow> AgentRun option" where
  "finished s rid = (case row run_id rid (db_runs s) of
     Some r \<Rightarrow> if run_status r \<in> TERMINAL_RUN_STATUSES then Some (r\<lparr>run_event_sequence := 0\<rparr>) else None
   | None \<Rightarrow> None)"

interpretation finished: persistent service_step runtime_ok finished
proof
  fix s e s' k x
  assume ok: "runtime_ok s" and step: "service_step e s s'" and x: "finished s k = Some x"
  then obtain r where r: "row run_id k (db_runs s) = Some r" "run_status r \<in> TERMINAL_RUN_STATUSES"
      "x = r\<lparr>run_event_sequence := 0\<rparr>"
    by (auto simp: finished_def split: option.splits if_splits)
  then have rs: "r \<in> set (db_runs s)" "run_id r = k"
    by (auto dest: row_Some)
  then obtain r' where r': "r' \<in> set (db_runs s')" "run_later (uid4 e 0) r r'"
    using service_runs_later [OF step ok] by (auto simp: runs_later_def)
  have eq: "r' = r\<lparr>run_event_sequence := run_event_sequence r'\<rparr>"
    using r'(2) r(2) by (simp add: run_later_def)
  have "run_id r' = k" "run_status r' = run_status r"
    by (subst eq, simp add: rs)+
  moreover have "r'\<lparr>run_event_sequence := 0\<rparr> = x"
    unfolding r(3) by (subst eq) simp
  moreover have "row run_id k (db_runs s') = Some r'"
    using r'(1) \<open>run_id r' = k\<close> keys_runs [OF runtime_keys [OF runtime.step_inv [OF ok step]]]
    by (simp add: keyed_row_iff)
  ultimately show "finished s' k = Some x"
    using r(2) by (simp add: finished_def)
qed

text \<open>The claim of a run and of a tool execution.\<close>

definition run_held :: "uuid \<Rightarrow> db \<Rightarrow> uuid \<Rightarrow> bool" where
  "run_held rid s t \<longleftrightarrow> (\<exists>r \<in> set (db_runs s). run_id r = rid \<and> run_claim_token r = Some t)"

interpretation run_fence: fenced service_step runtime_ok "run_held rid" "\<lambda>e. uid4 e 0" for rid
proof
  fix s e s' t
  assume ok: "runtime_ok s" and step: "service_step e s s'" and held: "run_held rid s' t"
  then obtain r' where r': "r' \<in> set (db_runs s')" "run_id r' = rid" "run_claim_token r' = Some t"
    by (auto simp: run_held_def)
  with service_runs_later [OF step ok] show "run_held rid s t \<or> t = uid4 e 0"
    by (fastforce simp: runs_later_def run_later_def run_ident_def run_held_def)
qed

definition tool_held :: "uuid \<Rightarrow> str \<Rightarrow> db \<Rightarrow> uuid \<Rightarrow> bool" where
  "tool_held rid action s t \<longleftrightarrow> (\<exists>x \<in> set (db_tools s). tex_run_id x = rid \<and> tex_action_id x = action \<and>
     tex_status x = ToolExecutionStatus.IN_PROGRESS \<and> tex_claim_token x = t)"

interpretation tool_fence: fenced service_step runtime_ok "tool_held rid action" "\<lambda>e. uid4 e 0"
  for rid action
proof
  fix s e s' t
  assume ok: "runtime_ok s" and step: "service_step e s s'" and held: "tool_held rid action s' t"
  then obtain x' where x': "x' \<in> set (db_tools s')" "tex_run_id x' = rid" "tex_action_id x' = action"
      "tex_status x' = ToolExecutionStatus.IN_PROGRESS" "tex_claim_token x' = t"
    by (auto simp: tool_held_def)
  show "tool_held rid action s t \<or> t = uid4 e 0"
  proof (cases "t = uid4 e 0")
    case False
    then obtain x where x: "x \<in> set (db_tools s)" "tool_later (uid4 e 0) x x'"
      using x' service_tools_later [OF step ok] by (auto simp: tools_later_def)
    with x' False show ?thesis
      by (auto simp: tool_later_def tool_ident_def tool_held_def)
  qed simp
qed

text \<open>The claim epoch of a job.\<close>

interpretation job_epochs: epochs service_step runtime_ok
  "\<lambda>s jid. map_option job_claim_epoch (row job_id jid (db_jobs s))"
proof
  fix s e s' k n
  assume ok: "runtime_ok s" and step: "service_step e s s'"
    and n: "map_option job_claim_epoch (row job_id k (db_jobs s)) = Some n"
  then obtain j where j: "j \<in> set (db_jobs s)" "job_id j = k" "job_claim_epoch j = n"
    by (auto dest: row_Some)
  then obtain j' where j': "j' \<in> set (db_jobs s')" "job_later j j'"
    using service_jobs_later [OF step ok] by (auto simp: jobs_later_def)
  then have "row job_id k (db_jobs s') = Some j'"
    using j keys_jobs [OF runtime_keys [OF runtime.step_inv [OF ok step]]]
    by (simp add: keyed_row_iff job_later_def job_ident_def)
  with j j' show "\<exists>m. map_option job_claim_epoch (row job_id k (db_jobs s')) = Some m \<and> n \<le> m"
    by (auto simp: job_later_def)
qed

text \<open>The optimistic update of a run.\<close>

lemma copy_run_simps [simp]:
  "run_id (copy_run x r) = run_id r" "run_version (copy_run x r) = run_version x"
  "run_event_sequence (copy_run x r) = run_event_sequence r"
  by (simp_all add: copy_run_def)

interpretation run_cas: cas_store "\<lambda>s. keyed run_id (db_runs s)" "\<lambda>s k. row run_id k (db_runs s)"
  runs_update run_id run_version
proof
  fix s :: db and x :: AgentRun and v
  assume ok: "keyed run_id (db_runs s)"
  let ?p = "\<lambda>r. run_id r = run_id x \<and> run_version r = v"
  have cnt: "cnt ?p (db_runs s) = (case row run_id (run_id x) (db_runs s) of None \<Rightarrow> 0
      | Some r \<Rightarrow> if ?p r then 1 else 0)"
    using ok by (rule cnt_keyed) simp
  show wins: "fst (runs_update x v s) \<longleftrightarrow>
      (\<exists>r. row run_id (run_id x) (db_runs s) = Some r \<and> run_version r = v)"
    by (auto simp: runs_update_def Let_def cnt split: option.splits dest: row_Some)
  show "snd (runs_update x v s) = s" if "\<not> fst (runs_update x v s)"
  proof -
    have "cnt ?p (db_runs s) = 0"
      using that cnt by (auto simp: runs_update_def Let_def split: option.splits if_splits)
    then have "upd ?p (copy_run x) (db_runs s) = db_runs s"
      by (intro upd_id) (simp add: cnt_eq_0)
    then show ?thesis
      by (simp add: runs_update_def Let_def)
  qed
  have row: "row run_id k (db_runs (snd (runs_update x v s))) =
      map_option (\<lambda>r. if ?p r then copy_run x r else r) (row run_id k (db_runs s))" for k
    unfolding runs_update_def Let_def by (simp, rule row_upd) simp
  show "map_option run_version (row run_id (run_id x) (db_runs (snd (runs_update x v s)))) =
      Some (run_version x)" if won: "fst (runs_update x v s)"
  proof -
    obtain r where r: "row run_id (run_id x) (db_runs s) = Some r" "run_version r = v"
      using won wins by blast
    then have "run_id r = run_id x"
      by (auto dest: row_Some)
    with r row [of "run_id x"] show ?thesis
      by simp
  qed
  show "row run_id k (db_runs (snd (runs_update x v s))) = row run_id k (db_runs s)"
    if "k \<noteq> run_id x" for k
    using that row [of k] by (cases "row run_id k (db_runs s)") (auto dest: row_Some)
  show "keyed run_id (db_runs (snd (runs_update x v s)))"
    using ok by (simp add: runs_update_def Let_def keyed_upd)
qed

end
