(* ===== verification/AutomationWorkers.thy ===== *)
theory AutomationWorkers
  imports AutomationService
begin

text \<open>
  The workers of the automations, \<open>workers/automation_occurrence.py\<close>, \<open>workers/push_delivery.py\<close>
  and \<open>workers/automation.py\<close>. A call is a sequence of units of work, each with an environment of
  its own, \<open>es 0\<close>, \<open>es 1\<close>, \<open>\<dots>\<close>; as in \<open>AutomationService\<close> it returns its result or exception with
  the store as all its commits leave it. \<open>asyncio\<close> and the logging are left out.
\<close>

section \<open>The occurrence worker\<close>

record occurrence_worker =
  ocw_trigger :: "service option"
  ocw_id :: str
  ocw_lease_seconds :: rat
  ocw_retry_base :: rat
  ocw_retry_max :: rat

text \<open>The exceptions of an execution, and of the recording of its failure, end in the worker.\<close>

definition settle_occurrence_job ::
  "occurrence_worker \<Rightarrow> (nat \<Rightarrow> env) \<Rightarrow> DurableJob \<Rightarrow> store \<Rightarrow> store \<times> effect list" where
  "settle_occurrence_job w es j s =
     (case execute_claimed (ocw_trigger w) (es 2) (es 3) (es 4) j (ocw_id w) s of
        (Inr _, s1, fx) \<Rightarrow> (s1, fx)
      | (Inl _, s1, fx) \<Rightarrow>
          (case record_failure (ocw_retry_base w) (ocw_retry_max w) (es 5) j (ocw_id w) s1 of
             Inl _ \<Rightarrow> (s1, fx)
           | Inr (_, s2) \<Rightarrow> (s2, fx)))"

definition occurrence_run_once :: "occurrence_worker \<Rightarrow> (nat \<Rightarrow> env) \<Rightarrow> store \<Rightarrow> bool work" where
  "occurrence_run_once w es s =
     (let now = clk (es 0) 0 in
      case claim_ready_jobs DurableJobKind.AUTOMATION_OCCURRENCE (ocw_id w) now
             (now + timedelta_seconds (ocw_lease_seconds w)) 1 (core s) of
        (jobs, c) \<Rightarrow>
          let s1 = s\<lparr>core := c\<rparr> in
          case reconcile_exhausted (es 1) s1 of
            Inl err \<Rightarrow> (Inl err, s1, [])
          | Inr (_, s2) \<Rightarrow>
              (case jobs of
                 [] \<Rightarrow> (Inr False, s2, [])
               | j # _ \<Rightarrow>
                   (case settle_occurrence_job w es j s2 of (s3, fx) \<Rightarrow> (Inr True, s3, fx))))"

section \<open>The push delivery worker\<close>

text \<open>
  \<open>submit\<close> is the answer of the notification adapter. The job is settled as completed whatever
  became of the delivery.
\<close>

definition deliver ::
  "(NotificationDelivery \<Rightarrow> NotificationIntent \<Rightarrow> PushEndpoint \<Rightarrow> adapter_answer) \<Rightarrow> env \<Rightarrow> uuid \<Rightarrow>
    uuid \<Rightarrow> uuid \<Rightarrow> store \<Rightarrow> store" where
  "deliver submit e did iid pid s =
     (case (deliveries_get did s, intents_get iid s, endpoints_get pid s) of
        (Some d, Some i, Some p) \<Rightarrow>
          snd (deliveries_update
            (if submit d i p = Accepted then delivery_accepted (clk e 0) None d
             else delivery_failed (clk e 0) (u ''ADAPTER_REJECTED'') d) s)
      | _ \<Rightarrow> s)"

definition push_run_once ::
  "(NotificationDelivery \<Rightarrow> NotificationIntent \<Rightarrow> PushEndpoint \<Rightarrow> adapter_answer) \<Rightarrow> str \<Rightarrow> rat \<Rightarrow>
    (nat \<Rightarrow> env) \<Rightarrow> store \<Rightarrow> bool work" where
  "push_run_once submit worker_id lease_seconds es s =
     (let now = clk (es 0) 0 in
      case claim_ready_jobs DurableJobKind.PUSH_DELIVERY worker_id now
             (now + timedelta_seconds lease_seconds) 1 (core s) of
        ([], c) \<Rightarrow> (Inr False, s\<lparr>core := c\<rparr>, [])
      | (j # _, c) \<Rightarrow>
          let s1 = s\<lparr>core := c\<rparr> in
          case bindE (job_uuid (u ''delivery_id'') j) (\<lambda>did.
               bindE (job_uuid (u ''intent_id'') j) (\<lambda>iid.
               bindE (job_uuid (u ''endpoint_id'') j) (\<lambda>pid. Inr (did, iid, pid)))) of
            Inl err \<Rightarrow> (Inl err, s1, [])
          | Inr (did, iid, pid) \<Rightarrow>
              let s2 = deliver submit (es 1) did iid pid s1 in
              (case jobs_settle (job_id j) worker_id (job_claim_epoch j) DurableJobStatus.COMPLETED
                 (clk (es 2) 0) None (core s2) of
                 (settled, c2) \<Rightarrow> (Inr True, if settled then s2\<lparr>core := c2\<rparr> else s2, [])))"

section \<open>The scheduler\<close>

text \<open>\<open>for _ in range(limit): if not await step(): break\<close>, counting the rounds that worked.\<close>

fun work_off :: "(nat \<Rightarrow> store \<Rightarrow> bool work) \<Rightarrow> nat \<Rightarrow> store \<Rightarrow> nat work" where
  "work_off step 0 s = (Inr 0, s, [])"
| "work_off step (Suc k) s =
     (case step k s of
        (Inl err, s1, fx) \<Rightarrow> (Inl err, s1, fx)
      | (Inr False, s1, fx) \<Rightarrow> (Inr 0, s1, fx)
      | (Inr True, s1, fx) \<Rightarrow>
          (case work_off step k s1 of
             (r, s2, fx2) \<Rightarrow> (map_sum id Suc r, s2, fx @ fx2)))"

definition automation_run_once ::
  "env \<Rightarrow> (nat \<Rightarrow> store \<Rightarrow> bool work) \<Rightarrow> (nat \<Rightarrow> store \<Rightarrow> bool work) \<Rightarrow> nat \<Rightarrow> store \<Rightarrow> (nat \<times> nat) work"
where
  "automation_run_once e occurrence_step push_step limit s =
     (case process_due e None limit s of
        Inl err \<Rightarrow> (Inl err, s, [])
      | Inr (generated, s1) \<Rightarrow>
          (case work_off occurrence_step limit s1 of
             (Inl err, s2, fx) \<Rightarrow> (Inl err, s2, fx)
           | (Inr n, s2, fx) \<Rightarrow>
               (case work_off push_step limit s2 of
                  (r, s3, fx2) \<Rightarrow> (map_sum id (\<lambda>m. (generated, n + m)) r, s3, fx @ fx2))))"

end
