(* ===== verification/AutomationMachine.thy ===== *)
theory AutomationMachine
  imports AutomationWorkers StateMachine RuntimeHistory
begin

text \<open>
  The abstract machine of the automations: \<open>auto_write\<close> says how one statement group changes the
  store, \<open>auto_ok\<close> is what every such change keeps.
\<close>

section \<open>Writes\<close>

definition watches :: "AutomationType set" where
  "watches = {AutomationType.CONDITION_WATCH, AutomationType.CONDITION}"

inductive automation_move :: "Automation \<Rightarrow> Automation \<Rightarrow> bool" where
  pause: "automation_pause now a = Inr a' \<Longrightarrow> automation_move a a'"
| resume: "aut_automation_type a \<notin> watches \<Longrightarrow> automation_resume now a = Inr a' \<Longrightarrow>
    automation_move a a'"
| cancel: "automation_move a (automation_cancel now a)"
| complete: "automation_move a (automation_complete_one_shot now a)"

definition put_automation :: "Automation \<Rightarrow> store \<Rightarrow> store" where
  "put_automation a s =
     s\<lparr>st_automations := upd (\<lambda>x. aut_id x = aut_id a) (copy_automation a) (st_automations s)\<rparr>"

text \<open>The key of a slot in the notifications, and the job of an occurrence.\<close>

definition slot_key :: "AutomationOccurrence \<Rightarrow> str" where
  "slot_key x = scheduled_slot_key (occ_automation_id x) (occ_definition_revision x) (occ_scheduled_for x)"

definition job_for :: "AutomationOccurrence \<Rightarrow> DurableJob \<Rightarrow> bool" where
  "job_for x j \<longleftrightarrow> occ_durable_job_id x = Some (job_id j) \<and> job_user_id j = occ_user_id x
   \<and> job_kind j = DurableJobKind.AUTOMATION_OCCURRENCE
   \<and> job_dedupe_key j = occurrence_dedupe_key (occ_id x)
   \<and> job_payload j = [u ''occurrence_id'' \<mapsto> juuid (occ_id x),
       u ''automation_id'' \<mapsto> juuid (occ_automation_id x), u ''scheduled_for'' \<mapsto> jtime (occ_scheduled_for x)]"

definition ended :: "store \<Rightarrow> AutomationOccurrence \<Rightarrow> AutomationOccurrence \<Rightarrow> bool" where
  "ended s x y \<longleftrightarrow> (\<exists>now. y = occurrence_fail now x \<or> y = occurrence_skip now x \<or>
     y = occurrence_succeed now x \<and> slot_key x \<in> nti_dedupe_key ` set (st_intents s))"

inductive auto_write :: "store \<Rightarrow> store \<Rightarrow> bool" where
  outside: "outside_write (core s) c \<Longrightarrow> db_things c = st_things s \<Longrightarrow>
    db_sources c = db_sources (core s) \<Longrightarrow> auto_write s (s\<lparr>core := c\<rparr>)"
| automation_add: "\<forall>x \<in> set (st_automations s). \<not> automation_clash x a \<Longrightarrow>
    automation_schedule_ok a \<Longrightarrow> automation_check a \<Longrightarrow>
    (aut_status a = AutomationStatus.ACTIVE \<Longrightarrow> aut_automation_type a \<notin> watches) \<Longrightarrow>
    auto_write s (s\<lparr>st_automations := st_automations s @ [a]\<rparr>)"
| move: "a \<in> set (st_automations s) \<Longrightarrow> automation_move a a' \<Longrightarrow>
    auto_write s (put_automation a' s)"
| fire: "a \<in> set (st_automations s) \<Longrightarrow> aut_status a = AutomationStatus.ACTIVE \<Longrightarrow>
    aut_next_trigger_at a = Some t \<Longrightarrow> t \<le> now \<Longrightarrow> automation_mark_triggered now a = Inr a' \<Longrightarrow>
    occ_automation_id x = aut_id a \<Longrightarrow> occ_scheduled_for x = t \<Longrightarrow>
    occ_status x = OccurrenceStatus.MATERIALIZED \<Longrightarrow> occ_settled_at x = None \<Longrightarrow>
    \<forall>y \<in> set (st_occurrences s). occurrence_slot y \<noteq> occurrence_slot x \<and> occ_id y \<noteq> occ_id x \<Longrightarrow>
    fresh_other_job j \<Longrightarrow> \<forall>y \<in> set (db_jobs (core s)). \<not> job_clash y j \<Longrightarrow> job_for x j \<Longrightarrow>
    auto_write s (put_automation a' (s\<lparr>core := (core s)\<lparr>db_jobs := db_jobs (core s) @ [j]\<rparr>,
      st_occurrences := st_occurrences s @ [x]\<rparr>))"
| skip: "a \<in> set (st_automations s) \<Longrightarrow> aut_status a = AutomationStatus.ACTIVE \<Longrightarrow>
    aut_next_trigger_at a = Some t \<Longrightarrow> t \<le> now \<Longrightarrow> automation_mark_triggered now a = Inr a' \<Longrightarrow>
    occ_automation_id x = aut_id a \<Longrightarrow> occ_scheduled_for x = t \<Longrightarrow>
    occ_status x = OccurrenceStatus.SKIPPED \<Longrightarrow> occ_settled_at x \<noteq> None \<Longrightarrow>
    occ_durable_job_id x = None \<Longrightarrow>
    \<forall>y \<in> set (st_occurrences s). occurrence_slot y \<noteq> occurrence_slot x \<and> occ_id y \<noteq> occ_id x \<Longrightarrow>
    auto_write s (put_automation (automation_complete_one_shot now' a')
      (s\<lparr>st_occurrences := st_occurrences s @ [x]\<rparr>))"
| settle: "x \<in> set (st_occurrences s) \<Longrightarrow> occ_status x = OccurrenceStatus.MATERIALIZED \<Longrightarrow>
    ended s x y \<Longrightarrow> auto_write s (occurrences_update y s)"
| exhaust: "auto_write s (snd (occurrences_fail_exhausted now s))"
| intent_add: "\<forall>x \<in> set (st_intents s). nti_dedupe_key x \<noteq> nti_dedupe_key n \<and> nti_id x \<noteq> nti_id n \<Longrightarrow>
    auto_write s (s\<lparr>st_intents := st_intents s @ [n]\<rparr>)"
| delivery_add: "\<forall>x \<in> set (st_deliveries s). ntd_id x \<noteq> ntd_id d \<and>
      (ntd_intent_id x, ntd_endpoint_id x) \<noteq> (ntd_intent_id d, ntd_endpoint_id d) \<Longrightarrow>
    auto_write s (s\<lparr>st_deliveries := st_deliveries s @ [d]\<rparr>)"
| delivery_put: "auto_write s
    (s\<lparr>st_deliveries := upd (\<lambda>x. ntd_id x = ntd_id d) (copy_delivery d) (st_deliveries s)\<rparr>)"
| operation: "\<forall>x \<in> set (st_automation_ops s). \<not> operation_clash x p \<Longrightarrow>
    auto_write s (s\<lparr>st_automation_ops := st_automation_ops s @ [p]\<rparr>)"
| rest: "auto_write s (s\<lparr>st_outbox := ob, st_feedback := fb, st_endpoints := ep\<rparr>)"

abbreviation auto_writes :: "store \<Rightarrow> store \<Rightarrow> bool" where
  "auto_writes \<equiv> auto_write\<^sup>*\<^sup>*"

section \<open>The invariant\<close>

definition auto_keys :: "store \<Rightarrow> bool" where
  "auto_keys s \<longleftrightarrow> keyed aut_id (st_automations s)
   \<and> keyed (\<lambda>a. (aut_user_id a, aut_idempotency_key a)) (st_automations s)
   \<and> keyed (\<lambda>p. (aop_user_id p, aop_idempotency_key p)) (st_automation_ops s)
   \<and> keyed occ_id (st_occurrences s) \<and> keyed occurrence_slot (st_occurrences s)
   \<and> keyed nti_id (st_intents s) \<and> keyed nti_dedupe_key (st_intents s)
   \<and> keyed ntd_id (st_deliveries s)
   \<and> keyed (\<lambda>d. (ntd_intent_id d, ntd_endpoint_id d)) (st_deliveries s)"

text \<open>The schedule of an automation is one \<open>__post_init__\<close> accepts; no watch is active.\<close>

definition automation_ok :: "Automation \<Rightarrow> bool" where
  "automation_ok a \<longleftrightarrow> automation_schedule_ok a \<and> automation_check a \<and>
     (aut_status a = AutomationStatus.ACTIVE \<longrightarrow> aut_automation_type a \<notin> watches)"

text \<open>
  The slots of the past: an occurrence belongs to an automation that is no watch and whose next
  trigger, if any, is later than the slot.
\<close>

definition past_slot :: "store \<Rightarrow> AutomationOccurrence \<Rightarrow> bool" where
  "past_slot s x \<longleftrightarrow> (\<exists>a \<in> set (st_automations s). aut_id a = occ_automation_id x
     \<and> aut_automation_type a \<notin> watches
     \<and> (\<forall>t. aut_next_trigger_at a = Some t \<longrightarrow> occ_scheduled_for x < t))"

text \<open>
  An occurrence is settled or materialized with its job in the queue, and one that succeeded has its
  notification. Nothing records the outcome \<open>NOT_MET\<close>.
\<close>

definition occurrence_ok :: "store \<Rightarrow> AutomationOccurrence \<Rightarrow> bool" where
  "occurrence_ok s x \<longleftrightarrow>
     (occ_settled_at x = None \<longleftrightarrow> occ_status x = OccurrenceStatus.MATERIALIZED)
   \<and> occ_status x \<noteq> OccurrenceStatus.NOT_MET
   \<and> (occ_status x = OccurrenceStatus.MATERIALIZED \<longrightarrow> occ_durable_job_id x \<noteq> None)
   \<and> (occ_durable_job_id x \<noteq> None \<longrightarrow> (\<exists>j \<in> set (db_jobs (core s)). job_for x j))
   \<and> (occ_status x = OccurrenceStatus.SUCCEEDED \<longrightarrow> slot_key x \<in> nti_dedupe_key ` set (st_intents s))"

definition auto_ok :: "store \<Rightarrow> bool" where
  "auto_ok s \<longleftrightarrow> auto_keys s \<and> (\<forall>a \<in> set (st_automations s). automation_ok a)
   \<and> (\<forall>x \<in> set (st_occurrences s). past_slot s x \<and> occurrence_ok s x)"

lemma auto_okD:
  assumes "auto_ok s"
  shows "auto_keys s" "a \<in> set (st_automations s) \<Longrightarrow> automation_ok a"
    "x \<in> set (st_occurrences s) \<Longrightarrow> past_slot s x" "x \<in> set (st_occurrences s) \<Longrightarrow> occurrence_ok s x"
  using assms by (simp_all add: auto_ok_def)

lemma auto_keysD:
  assumes "auto_keys s"
  shows "keyed aut_id (st_automations s)"
    "keyed (\<lambda>a. (aut_user_id a, aut_idempotency_key a)) (st_automations s)"
    "keyed occ_id (st_occurrences s)" "keyed occurrence_slot (st_occurrences s)"
    "keyed nti_dedupe_key (st_intents s)" "keyed ntd_id (st_deliveries s)"
    "keyed (\<lambda>p. (aop_user_id p, aop_idempotency_key p)) (st_automation_ops s)"
  using assms by (simp_all add: auto_keys_def)

lemma auto_ok_empty [simp]: "auto_ok empty_store"
  by (simp add: auto_ok_def auto_keys_def empty_store_def)


section \<open>Every write keeps the invariant\<close>

lemma put_automation_tables [simp]:
  "core (put_automation a s) = core s" "st_occurrences (put_automation a s) = st_occurrences s"
  "st_intents (put_automation a s) = st_intents s" "st_deliveries (put_automation a s) = st_deliveries s"
  "st_automation_ops (put_automation a s) = st_automation_ops s" "st_tasks (put_automation a s) = st_tasks s"
  "st_automations (put_automation a s) =
     upd (\<lambda>x. aut_id x = aut_id a) (copy_automation a) (st_automations s)"
  by (simp_all add: put_automation_def)

lemma copy_automation_simps [simp]:
  "aut_id (copy_automation x a) = aut_id a" "aut_user_id (copy_automation x a) = aut_user_id a"
  "aut_idempotency_key (copy_automation x a) = aut_idempotency_key a"
  "aut_automation_type (copy_automation x a) = aut_automation_type a"
  "aut_next_trigger_at (copy_automation x a) = aut_next_trigger_at x"
  "aut_last_triggered_at (copy_automation x a) = aut_last_triggered_at x"
  "aut_status (copy_automation x a) = aut_status x" "aut_task_id (copy_automation x a) = aut_task_id a"
  "aut_version (copy_automation x a) = aut_version x"
  "aut_recurrence_interval_seconds (copy_automation x a) = aut_recurrence_interval_seconds a"
  by (simp_all add: copy_automation_def)

lemma copy_occurrence_simps [simp]:
  "occ_id (copy_occurrence x y) = occ_id y" "occurrence_slot (copy_occurrence x y) = occurrence_slot y"
  "occ_status (copy_occurrence x y) = occ_status x"
  by (simp_all add: copy_occurrence_def occurrence_slot_def)

lemma auto_write_keys: "auto_write s s' \<Longrightarrow> auto_keys s \<Longrightarrow> auto_keys s'"
proof (induction rule: auto_write.induct)
  case (automation_add s a)
  then show ?case
    by (auto simp: auto_keys_def automation_clash_def)
next
  case (operation s p)
  then show ?case
    by (auto simp: auto_keys_def operation_clash_def)
next
  case (fire a s t now a' x j)
  then show ?case
    by (auto simp: auto_keys_def keyed_upd)
next
  case (skip a s t now a' x now')
  then show ?case
    by (auto simp: auto_keys_def keyed_upd)
next
  case (exhaust s now)
  then show ?case
    by (simp add: auto_keys_def occurrences_fail_exhausted_def keyed_upd occurrence_slot_def)
next
  case (settle x s y)
  then show ?case
    by (simp add: auto_keys_def occurrences_update_def keyed_upd)
next
  case (delivery_put s d)
  then show ?case
    by (simp add: auto_keys_def keyed_upd copy_delivery_def)
qed (auto simp: auto_keys_def keyed_upd)

text \<open>The rows an update of an automation may leave behind.\<close>

definition advances :: "Automation \<Rightarrow> Automation \<Rightarrow> bool" where
  "advances a a' \<longleftrightarrow> aut_id a' = aut_id a \<and> automation_ok (copy_automation a' a)
   \<and> (\<forall>t'. aut_next_trigger_at a' = Some t' \<longrightarrow> (\<exists>t. aut_next_trigger_at a = Some t \<and> t \<le> t'))"

lemma automation_move_advances:
  assumes "automation_move a a'" "automation_ok a"
  shows "advances a a'"
  using assms
  by (induction rule: automation_move.induct)
     (auto simp: advances_def automation_ok_def automation_schedule_ok_def automation_check_def
       entity_defs split: if_splits option.splits)

lemma mark_triggered_advances:
  assumes "automation_mark_triggered now a = Inr a'" "automation_ok a" "aut_status a = AutomationStatus.ACTIVE"
    "aut_next_trigger_at a = Some t" "t \<le> now"
  shows "advances a a'" "aut_id a' = aut_id a" "aut_status a' = AutomationStatus.ACTIVE"
    "aut_automation_type a' = aut_automation_type a" "aut_version a' = aut_version a + 1"
    "\<And>t'. aut_next_trigger_at a' = Some t' \<Longrightarrow> now < t'"
proof -
  have ty: "aut_automation_type a \<notin> watches"
    using assms(2,3) by (simp add: automation_ok_def)
  note defs = automation_mark_triggered_def automation_ok_def automation_schedule_ok_def watches_def Let_def
  show "aut_id a' = aut_id a" "aut_status a' = AutomationStatus.ACTIVE" "aut_version a' = aut_version a + 1"
      "aut_automation_type a' = aut_automation_type a"
    using assms(1,3) by (auto simp: defs split: if_splits option.splits)
  show later: "now < t'" if "aut_next_trigger_at a' = Some t'" for t'
    using assms(1,2) ty that by (cases "aut_automation_type a") (auto simp: defs split: if_splits option.splits)
  have "automation_ok (copy_automation a' a)"
    using assms(1,2) ty by (cases "aut_automation_type a") (auto simp: defs automation_check_def split: if_splits option.splits)
  with \<open>aut_id a' = aut_id a\<close> show "advances a a'"
    using later assms(4,5) by (fastforce simp: advances_def)
qed

lemma complete_after_trigger:
  assumes "advances a a'" "aut_automation_type a' = aut_automation_type a"
  shows "advances a (automation_complete_one_shot now a')"
  using assms by (auto simp: advances_def automation_ok_def automation_schedule_ok_def automation_check_def
      automation_complete_one_shot_def split: option.splits if_splits)

lemma past_slot_put:
  assumes "a \<in> set (st_automations s)" "advances a a'" "past_slot s x"
    "keyed aut_id (st_automations s)" "st_automations s' = st_automations (put_automation a' s)"
  shows "past_slot s' x"
proof -
  obtain b where b: "b \<in> set (st_automations s)" "aut_id b = occ_automation_id x"
      "aut_automation_type b \<notin> watches" "\<forall>t. aut_next_trigger_at b = Some t \<longrightarrow> occ_scheduled_for x < t"
    using assms(3) by (auto simp: past_slot_def)
  let ?b = "if aut_id b = aut_id a' then copy_automation a' b else b"
  have "?b \<in> set (st_automations s')"
    using b(1) assms(5) by (auto simp: set_upd)
  moreover have "aut_id ?b = occ_automation_id x" "aut_automation_type ?b \<notin> watches"
    using b by simp_all
  moreover have "occ_scheduled_for x < t" if "aut_next_trigger_at ?b = Some t" for t
  proof (cases "aut_id b = aut_id a'")
    case True
    then have "b = a"
      using keyed_unique [OF assms(4) b(1) assms(1)] assms(2) by (simp add: advances_def)
    moreover have "aut_next_trigger_at a' = Some t"
      using that True by simp
    ultimately obtain t0 where "aut_next_trigger_at b = Some t0" "t0 \<le> t"
      using assms(2) unfolding advances_def by blast
    then show ?thesis
      using b(4) by force
  qed (use that b(4) in auto)
  ultimately show ?thesis
    unfolding past_slot_def by (intro bexI [of _ ?b]) simp_all
qed

lemma automations_ok_put:
  assumes "a \<in> set (st_automations s)" "advances a a'" "\<forall>a \<in> set (st_automations s). automation_ok a"
    "keyed aut_id (st_automations s)"
  shows "\<forall>a \<in> set (st_automations (put_automation a' s)). automation_ok a"
proof
  fix b
  assume "b \<in> set (st_automations (put_automation a' s))"
  then obtain c where c: "c \<in> set (st_automations s)" "b = (if aut_id c = aut_id a' then copy_automation a' c else c)"
    by (auto simp: set_upd)
  have "c = a" if "aut_id c = aut_id a'"
    using keyed_unique [OF assms(4) c(1) assms(1)] that assms(2) by (simp add: advances_def)
  then show "automation_ok b"
    using c assms(2,3) by (auto simp: advances_def)
qed

lemma past_slot_new:
  assumes "a \<in> set (st_automations s)" "aut_id a' = aut_id a" "occ_automation_id x = aut_id a"
    "aut_automation_type a \<notin> watches" "occ_scheduled_for x \<le> now"
    "\<And>t'. aut_next_trigger_at a' = Some t' \<Longrightarrow> now < t'"
    "st_automations s' = st_automations (put_automation a' s)"
  shows "past_slot s' x"
  unfolding past_slot_def assms(7)
proof (rule bexI)
  show "copy_automation a' a \<in> set (st_automations (put_automation a' s))"
    using assms(1,2) by (auto simp: set_upd)
qed (use assms in force)

lemma occurrence_ok_mono:
  assumes "occurrence_ok s x" "\<And>j. j \<in> set (db_jobs (core s)) \<Longrightarrow> job_for x j \<Longrightarrow> \<exists>j' \<in> set (db_jobs (core s')). job_for x j'"
    "nti_dedupe_key ` set (st_intents s) \<subseteq> nti_dedupe_key ` set (st_intents s')"
  shows "occurrence_ok s' x"
  using assms unfolding occurrence_ok_def by blast

lemma past_slot_same: "st_automations s' = st_automations s \<Longrightarrow> past_slot s' x = past_slot s x"
  by (simp add: past_slot_def)

text \<open>Jobs keep what identifies them.\<close>

definition jobs_kept :: "db \<Rightarrow> db \<Rightarrow> bool" where
  "jobs_kept c c' \<longleftrightarrow> (\<forall>j \<in> set (db_jobs c). \<exists>j' \<in> set (db_jobs c'). job_ident j' = job_ident j)"

lemma job_for_ident: "job_ident j' = job_ident j \<Longrightarrow> job_for x j' = job_for x j"
  by (simp add: job_ident_def job_for_def)

lemma jobs_keptD: "jobs_kept c c' \<Longrightarrow> j \<in> set (db_jobs c) \<Longrightarrow> job_for x j \<Longrightarrow> \<exists>j' \<in> set (db_jobs c'). job_for x j'"
  unfolding jobs_kept_def by (metis job_for_ident)

lemma jobs_kept_refl [simp]: "jobs_kept c c"
  by (auto simp: jobs_kept_def)

lemma jobs_kept_trans: "jobs_kept c c' \<Longrightarrow> jobs_kept c' c'' \<Longrightarrow> jobs_kept c c''"
  unfolding jobs_kept_def by metis

lemma same_runtime_jobs: "same_runtime c c' \<Longrightarrow> db_jobs c' = db_jobs c"
  unfolding same_runtime_def by (elim exE, drule arg_cong [of _ _ db_jobs]) simp

lemma outside_write_jobs: "outside_write c c' \<Longrightarrow> jobs_kept c c'"
proof (induction rule: outside_write.induct)
  case (tables c c')
  show ?case
    by (auto simp: jobs_kept_def same_runtime_jobs [OF tables(1)])
next
  case (add_job j c)
  then show ?case
    by (auto simp: jobs_kept_def)
next
  case (move_jobs c p f)
  then have "job_ident (if p j then f j else j) = job_ident j" if "j \<in> set (db_jobs c)" for j
    using job_move_evolves that by (auto simp: job_evolves_def)
  then show ?case
    using upd_related [of "db_jobs c" "\<lambda>j j'. job_ident j' = job_ident j" p f] by (simp add: jobs_kept_def)
qed

lemma outside_writes_jobs: "outside_writes c c' \<Longrightarrow> jobs_kept c c'"
  by (induction rule: rtranclp_induct) (auto intro: jobs_kept_trans outside_write_jobs)

lemma auto_ok_tables:
  assumes "auto_ok s" "jobs_kept (core s) (core s')" "st_automations s' = st_automations s"
    "st_occurrences s' = st_occurrences s" "auto_keys s'"
    "nti_dedupe_key ` set (st_intents s) \<subseteq> nti_dedupe_key ` set (st_intents s')"
  shows "auto_ok s'"
proof -
  have "occurrence_ok s' x" if "x \<in> set (st_occurrences s)" for x
    using auto_okD(4) [OF assms(1) that] jobs_keptD [OF assms(2)] assms(6) by (rule occurrence_ok_mono)
  then show ?thesis
    using assms(1,3-5) by (simp add: auto_ok_def past_slot_same [OF assms(3)])
qed

text \<open>An update of one automation, with an occurrence of its slot when there is one.\<close>

lemma auto_ok_put:
  assumes "auto_ok s" "a \<in> set (st_automations s)" "advances a a'" "jobs_kept (core s) (core s')"
    "st_automations s' = st_automations (put_automation a' s)" "st_intents s' = st_intents s"
    "auto_keys s'" "\<forall>x \<in> set (st_occurrences s'). x \<in> set (st_occurrences s) \<or> past_slot s' x \<and> occurrence_ok s' x"
  shows "auto_ok s'"
proof -
  note keys = auto_keysD(1) [OF auto_okD(1) [OF assms(1)]]
  have "past_slot s' x \<and> occurrence_ok s' x" if "x \<in> set (st_occurrences s)" for x
  proof
    show "past_slot s' x"
      by (rule past_slot_put [OF assms(2,3) auto_okD(3) [OF assms(1) that] keys assms(5)])
    show "occurrence_ok s' x"
      using auto_okD(4) [OF assms(1) that] jobs_keptD [OF assms(4)]
      by (rule occurrence_ok_mono) (simp_all add: assms(6))
  qed
  moreover have "\<forall>a \<in> set (st_automations s'). automation_ok a"
    unfolding assms(5) using assms(1-3) keys by (intro automations_ok_put) (auto simp: auto_ok_def)
  ultimately show ?thesis
    using assms(7,8) by (auto simp: auto_ok_def)
qed

text \<open>Occurrences that are settled; their slots stay.\<close>

lemma occurrence_ok_settled:
  assumes "occurrence_ok s x" "occ_settled_at y \<noteq> None"
    "occ_status y \<notin> {OccurrenceStatus.MATERIALIZED, OccurrenceStatus.NOT_MET}"
    "occ_durable_job_id y = occ_durable_job_id x" "occ_id y = occ_id x" "occ_user_id y = occ_user_id x"
    "occurrence_slot y = occurrence_slot x"
    "occ_status y = OccurrenceStatus.SUCCEEDED \<longrightarrow> slot_key x \<in> nti_dedupe_key ` set (st_intents s)"
  shows "occurrence_ok s y"
  using assms by (auto simp: occurrence_ok_def job_for_def occurrence_slot_def slot_key_def)

lemma past_slot_of_slot: "past_slot s x \<Longrightarrow> occurrence_slot y = occurrence_slot x \<Longrightarrow> past_slot s y"
  by (simp add: past_slot_def occurrence_slot_def)

lemma auto_ok_settle:
  assumes "auto_ok s" "auto_keys (s\<lparr>st_occurrences := upd p f (st_occurrences s)\<rparr>)"
    "\<And>x. x \<in> set (st_occurrences s) \<Longrightarrow> p x \<Longrightarrow> occurrence_ok s (f x) \<and> occurrence_slot (f x) = occurrence_slot x"
  shows "auto_ok (s\<lparr>st_occurrences := upd p f (st_occurrences s)\<rparr>)"
proof -
  have same: "past_slot (s\<lparr>st_occurrences := os\<rparr>) x = past_slot s x"
      "occurrence_ok (s\<lparr>st_occurrences := os\<rparr>) x = occurrence_ok s x" for os x
    by (simp_all add: past_slot_def occurrence_ok_def)
  have "past_slot s x \<and> occurrence_ok s x" if "x \<in> set (upd p f (st_occurrences s))" for x
    using that
  proof (cases rule: in_set_updE)
    case same
    then show ?thesis
      using assms(1) by (auto simp: auto_ok_def)
  next
    case (changed y)
    then show ?thesis
      using assms(3) auto_okD(3) [OF assms(1) changed(1)] past_slot_of_slot by blast
  qed
  then show ?thesis
    using assms(1,2) by (auto simp: auto_ok_def same)
qed

lemma ended_slot: "ended s x y \<Longrightarrow> occ_id y = occ_id x \<and> occurrence_slot y = occurrence_slot x"
  by (auto simp: ended_def entity_defs occurrence_slot_def)

lemma ended_ok:
  assumes "ended s x y" "occurrence_ok s x"
  shows "occurrence_ok s (copy_occurrence y x)"
  using assms(2)
  by (rule occurrence_ok_settled)
     (use assms(1) in \<open>auto simp: ended_def entity_defs copy_occurrence_def occurrence_slot_def\<close>)

lemma auto_write_ok: "auto_write s s' \<Longrightarrow> auto_ok s \<Longrightarrow> auto_ok s'"
proof (induction rule: auto_write.induct)
  case (outside s c)
  note keys = auto_write_keys [OF auto_write.outside [OF outside.hyps] auto_okD(1) [OF outside.prems]]
  show ?case
    by (rule auto_ok_tables [OF outside.prems _ _ _ keys]) (use outside_write_jobs [OF outside.hyps(1)] in simp_all)
next
  case (automation_add s a)
  note keys = auto_write_keys [OF auto_write.automation_add [OF automation_add.hyps] auto_okD(1) [OF automation_add.prems]]
  let ?s = "s\<lparr>st_automations := st_automations s @ [a]\<rparr>"
  have "past_slot ?s x \<and> occurrence_ok ?s x" if "x \<in> set (st_occurrences s)" for x
    using auto_okD(3,4) [OF automation_add.prems that] by (auto simp: past_slot_def occurrence_ok_def)
  then show ?case
    using keys automation_add by (auto simp: auto_ok_def automation_ok_def)
next
  case (move a s a')
  show ?case
    using auto_write_keys [OF auto_write.move [OF move.hyps] auto_okD(1) [OF move.prems]]
      automation_move_advances [OF move.hyps(2) auto_okD(2) [OF move.prems move.hyps(1)]]
    by (intro auto_ok_put [OF move.prems move.hyps(1)]) simp_all
next
  case (fire a s t now a' x j)
  let ?s = "put_automation a' (s\<lparr>core := (core s)\<lparr>db_jobs := db_jobs (core s) @ [j]\<rparr>,
      st_occurrences := st_occurrences s @ [x]\<rparr>)"
  have ok: "automation_ok a"
    by (rule auto_okD(2) [OF fire.prems fire.hyps(1)])
  note adv = mark_triggered_advances [OF fire.hyps(5) ok fire.hyps(2-4)]
  have "past_slot ?s x"
    by (rule past_slot_new [OF fire.hyps(1) adv(2) fire.hyps(6) _ _ adv(6)])
       (use ok fire.hyps in \<open>simp_all add: automation_ok_def\<close>)
  moreover have "occurrence_ok ?s x"
    using fire.hyps by (auto simp: occurrence_ok_def job_for_def)
  moreover have "jobs_kept (core s) (core ?s)"
    by (auto simp: jobs_kept_def)
  ultimately show ?case
    using auto_write_keys [OF auto_write.fire [OF fire.hyps] auto_okD(1) [OF fire.prems]]
    by (intro auto_ok_put [OF fire.prems fire.hyps(1) adv(1)]) simp_all
next
  case (skip a s t now a' x now')
  let ?a = "automation_complete_one_shot now' a'"
  let ?s = "put_automation ?a (s\<lparr>st_occurrences := st_occurrences s @ [x]\<rparr>)"
  have ok: "automation_ok a"
    by (rule auto_okD(2) [OF skip.prems skip.hyps(1)])
  note adv = mark_triggered_advances [OF skip.hyps(5) ok skip.hyps(2-4)]
  have same: "aut_id ?a = aut_id a'" "aut_next_trigger_at ?a = aut_next_trigger_at a'"
    by (simp_all add: automation_complete_one_shot_def)
  have "past_slot ?s x"
    by (rule past_slot_new [OF skip.hyps(1) _ skip.hyps(6), of ?a now])
       (use ok skip.hyps adv(2,6) same in \<open>simp_all add: automation_ok_def\<close>)
  moreover have "occurrence_ok ?s x"
    using skip.hyps by (simp add: occurrence_ok_def)
  ultimately show ?case
    using auto_write_keys [OF auto_write.skip [OF skip.hyps] auto_okD(1) [OF skip.prems]]
    by (intro auto_ok_put [OF skip.prems skip.hyps(1) complete_after_trigger [OF adv(1,4)]]) simp_all
next
  case (settle x s y)
  note keys = auto_write_keys [OF auto_write.settle [OF settle.hyps] auto_okD(1) [OF settle.prems]]
  have only: "z = x" if "z \<in> set (st_occurrences s)" "occ_id z = occ_id y" for z
    using keyed_unique [OF auto_keysD(3) [OF auto_okD(1) [OF settle.prems]] that(1) settle.hyps(1)]
      ended_slot [OF settle.hyps(3)] that(2) by simp
  show ?case
    using keys unfolding occurrences_update_def
    by (rule auto_ok_settle [OF settle.prems])
       (use only ended_ok [OF settle.hyps(3) auto_okD(4) [OF settle.prems settle.hyps(1)]] in auto)
next
  case (exhaust s now)
  note keys = auto_write_keys [OF auto_write.exhaust auto_okD(1) [OF exhaust.prems], of now]
  show ?case
    using keys unfolding occurrences_fail_exhausted_def snd_conv
    by (rule auto_ok_settle [OF exhaust.prems])
       (auto simp: occurrence_slot_def intro!: occurrence_ok_settled [OF auto_okD(4) [OF exhaust.prems]])
next
  case (intent_add s n)
  show ?case
    using auto_write_keys [OF auto_write.intent_add [OF intent_add.hyps] auto_okD(1) [OF intent_add.prems]]
    by (intro auto_ok_tables [OF intent_add.prems]) auto
next
  case (delivery_add s d)
  show ?case
    using auto_write_keys [OF auto_write.delivery_add [OF delivery_add.hyps] auto_okD(1) [OF delivery_add.prems]]
    by (intro auto_ok_tables [OF delivery_add.prems]) auto
next
  case (delivery_put s d)
  show ?case
    using auto_write_keys [OF auto_write.delivery_put auto_okD(1) [OF delivery_put.prems]]
    by (intro auto_ok_tables [OF delivery_put.prems]) auto
next
  case (operation s p)
  show ?case
    using auto_write_keys [OF auto_write.operation [OF operation.hyps] auto_okD(1) [OF operation.prems]]
    by (intro auto_ok_tables [OF operation.prems]) auto
next
  case (rest s ob fb ep)
  show ?case
    using auto_write_keys [OF auto_write.rest auto_okD(1) [OF rest.prems]]
    by (intro auto_ok_tables [OF rest.prems]) auto
qed

lemma auto_writes_ok: "auto_writes s s' \<Longrightarrow> auto_ok s \<Longrightarrow> auto_ok s'"
  by (induction rule: rtranclp_induct) (auto intro: auto_write_ok)

end
