(* ===== verification/AutomationRefinement.thy ===== *)
theory AutomationRefinement
  imports AutomationMachine StateRefinement RuntimeRefinement
begin

text \<open>
  Every operation of the automations is a sequence of \<open>auto_write\<close>s; \<open>execute_claimed\<close> is one after
  the run its trigger commits.
\<close>

section \<open>Statements\<close>

lemmas auto_write1 = r_into_rtranclp [of auto_write]
lemmas auto_writes_step = rtranclp.rtrancl_into_rtrancl [of auto_write]
lemmas auto_writes_trans = rtranclp_trans [of auto_write]

lemma users_ensure_write: "auto_write s (users_ensure now user_id s)"
proof -
  have "outside_write (core s) (users_ensure_exists now user_id (core s))"
    using state_write_core [OF state_write.users [of s now user_id]] by (simp add: users_ensure_def)
  then show ?thesis
    unfolding users_ensure_def
    by (rule auto_write.outside) (simp_all add: users_ensure_exists_def)
qed

lemma moves_jobs_auto:
  "moves_jobs\<^sup>*\<^sup>* (core s) c \<Longrightarrow> auto_writes s (s\<lparr>core := c\<rparr>) \<and> db_things c = st_things s \<and> db_sources c = db_sources (core s)"
proof (induction rule: rtranclp_induct)
  case (step c c')
  have "auto_write (s\<lparr>core := c\<rparr>) ((s\<lparr>core := c\<rparr>)\<lparr>core := c'\<rparr>)"
    using moves_jobs_tables [OF step.hyps(2)] moves_jobs_outside [OF step.hyps(2)]
    by (intro auto_write.outside) simp_all
  with step show ?case
    using moves_jobs_tables [OF step.hyps(2)] by (auto intro: auto_writes_step)
qed simp

lemma claim_ready_auto:
  assumes "keyed job_id (db_jobs (core s))" "claim_ready_jobs kind owner now lease limit (core s) = (jobs, c)"
  shows "auto_writes s (s\<lparr>core := c\<rparr>)"
  using moves_jobs_auto [of s c] claim_ready_jobs_moves [OF assms(1), of kind owner now lease limit] assms(2) by simp

lemma jobs_settle_auto:
  assumes "jobs_settle jid owner epoch status now code (core s) = (settled, c)"
    "status \<in> {DurableJobStatus.COMPLETED, DurableJobStatus.FAILED}"
  shows "auto_writes s (s\<lparr>core := c\<rparr>)"
  using moves_jobs_auto [of s c] jobs_settle_moves [of status "core s" jid owner epoch now code] assms by auto

lemma jobs_release_auto:
  assumes "jobs_release_for_retry jid owner epoch available now code (core s) = (released, c)"
  shows "auto_writes s (s\<lparr>core := c\<rparr>)"
proof -
  have "moves_jobs (core s) c"
    using assms unfolding jobs_release_for_retry_def Let_def
    by (auto intro!: moves_jobsI job_move.retry)
  then show ?thesis
    using moves_jobs_auto [of s c] by blast
qed

text \<open>The rows the repository hands out are those it stores.\<close>

lemma post_init_id:
  assumes "automation_ok a"
  shows "automation_to_domain a = Inr a"
proof -
  have "map_option instant (map_option Aware (aut_next_trigger_at a)) = aut_next_trigger_at a"
    by (cases "aut_next_trigger_at a") simp_all
  then show ?thesis
    using assms
    by (cases "aut_next_trigger_at a")
       (auto simp: automation_to_domain_def automation_post_init_def automation_ok_def
         automation_schedule_ok_def split: option.splits)
qed

lemma automations_get_stored:
  assumes "auto_ok s" "automations_get user_id aid s = Inr (Some a)"
  shows "a \<in> set (st_automations s)" "aut_id a = aid" "aut_user_id a = user_id" "automation_ok a"
proof -
  obtain a0 where a0: "sel1 (\<lambda>a. aut_id a = aid \<and> aut_user_id a = user_id) (st_automations s) = Some a0"
      "automation_to_domain a0 = Inr a"
    using assms(2) by (auto simp: automations_get_def optE_def split: option.splits)
  note row = sel1_SomeD [OF a0(1)]
  have "automation_ok a0"
    by (rule auto_okD(2) [OF assms(1) row(1)])
  with a0(2) have "a0 = a"
    by (simp add: post_init_id)
  with row \<open>automation_ok a0\<close> show "a \<in> set (st_automations s)" "aut_id a = aid" "aut_user_id a = user_id" "automation_ok a"
    by simp_all
qed

lemma automations_get_total: "auto_ok s \<Longrightarrow> \<exists>found. automations_get user_id aid s = Inr found"
  using auto_okD(2) [of s]
  by (auto simp: automations_get_def optE_def post_init_id split: option.splits dest!: sel1_SomeD(1))

lemma automations_update_put:
  assumes "keyed aut_id (st_automations s)" "automations_update a v s = (True, s')"
  shows "s' = put_automation a s" "\<exists>b \<in> set (st_automations s). aut_id b = aut_id a \<and> aut_version b = v"
proof -
  obtain rows where rows: "cas_rows aut_id aut_version copy_automation a v (st_automations s) = (True, rows)"
      "s' = s\<lparr>st_automations := rows\<rparr>"
    using assms(2) by (auto simp: automations_update_def split: prod.splits)
  from automation_rows.won [OF assms(1) rows(1)] obtain r where "r \<in> set (st_automations s)" "aut_id r = aut_id a"
      "aut_version r = v" "rows = upd (\<lambda>r. aut_id r = aut_id a) (copy_automation a) (st_automations s)"
    by blast
  with rows(2) show "s' = put_automation a s" "\<exists>b \<in> set (st_automations s). aut_id b = aut_id a \<and> aut_version b = v"
    by (auto simp: put_automation_def)
qed

lemma automations_update_wins:
  assumes "keyed aut_id (st_automations s)" "a \<in> set (st_automations s)" "aut_id a' = aut_id a"
  shows "automations_update a' (aut_version a) s = (True, put_automation a' s)"
proof -
  have "row aut_id (aut_id a') (st_automations s) = Some a"
    using keyed_row [OF assms(1,2)] assms(3) by simp
  then have "fst (cas_rows aut_id aut_version copy_automation a' (aut_version a) (st_automations s))"
    by (simp add: automation_rows.wins_iff [OF assms(1)])
  then have "fst (automations_update a' (aut_version a) s)"
    by (auto simp: automations_update_def split: prod.splits)
  then show ?thesis
    using automations_update_put [OF assms(1), of a' "aut_version a"] by (metis prod.collapse)
qed

lemma save_automation_put:
  assumes "keyed aut_id (st_automations s)" "save_automation err a v s = Inr s'"
  shows "s' = put_automation a s"
  using assms automations_update_put(1) [OF assms(1), of a v]
  by (auto simp: save_automation_def split: prod.splits if_splits)

lemma save_automation_wins:
  assumes "keyed aut_id (st_automations s)" "a \<in> set (st_automations s)" "aut_id a' = aut_id a"
  shows "save_automation err a' (aut_version a) s = Inr (put_automation a' s)"
  using automations_update_wins [OF assms] by (simp add: save_automation_def)

section \<open>Creation and changes\<close>

lemma automation_post_init_same:
  assumes "automation_post_init trigger a = Inr a'"
  shows "a' = a\<lparr>aut_next_trigger_at := map_option instant trigger\<rparr>"
  using assms by (auto simp: automation_post_init_def split: if_splits option.splits)

lemma create_automation_writes:
  assumes "apply_create_automation e uid ty title message tz trigger key th tk src interval s = Inr (out, s')"
  shows "auto_writes s s'"
  using assms
proof (cases "\<exists>a. automations_get_by_idempotency uid key s = Inr (Some a)")
  case True
  with assms show ?thesis
    by (auto simp: apply_create_automation_def guard_Inr)
next
  case False
  let ?a = "new_automation (uid4 e 0) (clk e 0) (clk e 1) uid ty (strip title) (strip message) (strip tz) key
    th tk src interval"
  let ?s = "users_ensure (clk e 0) uid s"
  have "automations_get_by_idempotency uid key s = Inr None"
    using assms False
    by (cases "automations_get_by_idempotency uid key s")
       (auto simp: apply_create_automation_def guard_Inr split: option.splits)
  then obtain a where a: "automation_post_init (Some trigger) ?a = Inr a" "automations_add a ?s = Inr s'"
    using assms by (auto simp: apply_create_automation_def guard_Inr Let_def)
  have "aut_status a = AutomationStatus.ACTIVE \<Longrightarrow> aut_automation_type a \<notin> watches"
    using automation_post_init_same [OF a(1)] by (auto simp: new_automation_def watches_def split: if_splits)
  then have "auto_write ?s s'"
    using a(2) automation_post_init_ok [OF a(1)] unfolding automations_add_def
    by (auto intro!: auto_write.automation_add)
  then show ?thesis
    using users_ensure_write by (rule converse_rtranclp_into_rtranclp [OF _ r_into_rtranclp, rotated])
qed

lemma automation_transition_move:
  assumes "automation_transition now action a = Inr a'"
  shows "automation_move a a'" "aut_id a' = aut_id a"
proof -
  show "automation_move a a'"
    using assms
    by (auto simp: automation_transition_def watches_def split: if_splits intro: automation_move.intros)
  show "aut_id a' = aut_id a"
    using assms by (auto simp: automation_transition_def entity_defs split: if_splits)
qed

lemma change_automation_writes:
  assumes "apply_change_automation_status e uid aid action v key s = Inr (out, s')" "auto_ok s"
  shows "auto_writes s s'"
proof (cases "automations_get_operation uid key s")
  case None
  then obtain a a' s1 where a: "automations_get uid aid s = Inr (Some a)" "automation_transition (clk e 0) action a = Inr a'"
      "automations_update a' v s = (True, s1)" "automations_record_operation uid (aut_id a') key (aut_version a') s1 = Inr s'"
    using assms(1)
    by (auto simp: apply_change_automation_status_def case_prod_Inr guard_Inr split: option.splits)
  note row = automations_get_stored [OF assms(2) a(1)] and move = automation_transition_move [OF a(2)]
  have "s1 = put_automation a' s"
    by (rule automations_update_put(1) [OF auto_keysD(1) [OF auto_okD(1) [OF assms(2)]] a(3)])
  then have 1: "auto_write s s1"
    using row(1) move(1) by (simp add: auto_write.move)
  have "auto_write s1 s'"
    using a(4) unfolding automations_record_operation_def by (auto intro!: auto_write.operation)
  with 1 show ?thesis
    by (rule converse_rtranclp_into_rtranclp [OF _ r_into_rtranclp])
next
  case (Some p)
  with assms(1) show ?thesis
    by (cases p) (auto simp: apply_change_automation_status_def guard_Inr split: option.splits)
qed

section \<open>Materialization\<close>

text \<open>
  A due automation of the store, materialized: cancelled with its task, skipped, or fired; the slot
  is never taken.
\<close>

lemma slot_is_free:
  assumes "auto_ok s" "a \<in> set (st_automations s)" "aut_next_trigger_at a = Some t"
    "x \<in> set (st_occurrences s)"
  shows "occurrence_slot x \<noteq> (aut_id a, r, t)"
proof
  assume slot: "occurrence_slot x = (aut_id a, r, t)"
  obtain b where b: "b \<in> set (st_automations s)" "aut_id b = occ_automation_id x"
      "\<forall>t. aut_next_trigger_at b = Some t \<longrightarrow> occ_scheduled_for x < t"
    using auto_okD(3) [OF assms(1,4)] by (auto simp: past_slot_def)
  then have "b = a"
    using keyed_unique [OF auto_keysD(1) [OF auto_okD(1) [OF assms(1)]] b(1) assms(2)] slot
    by (simp add: occurrence_slot_def)
  with b(3) assms(3) slot show False
    by (auto simp: occurrence_slot_def)
qed

lemma new_occurrence_simps [simp]:
  "occ_automation_id (new_occurrence oid m c a t) = aut_id a" "occ_scheduled_for (new_occurrence oid m c a t) = t"
  "occ_id (new_occurrence oid m c a t) = oid" "occ_user_id (new_occurrence oid m c a t) = aut_user_id a"
  "occ_status (new_occurrence oid m c a t) = OccurrenceStatus.MATERIALIZED"
  "occ_settled_at (new_occurrence oid m c a t) = None"
  "occ_durable_job_id (new_occurrence oid m c a t) = None"
  "occ_definition_revision (new_occurrence oid m c a t) = aut_definition_revision a"
  by (simp_all add: new_occurrence_def)

lemma occurrences_add_free:
  assumes "auto_ok s" "a \<in> set (st_automations s)" "aut_next_trigger_at a = Some t"
    "occ_automation_id x = aut_id a" "occ_scheduled_for x = t"
  shows "occurrences_add x s = (if \<exists>y \<in> set (st_occurrences s). occ_id y = occ_id x then Inl IntegrityError
    else Inr (True, s\<lparr>st_occurrences := st_occurrences s @ [x]\<rparr>))"
proof -
  have "\<forall>y \<in> set (st_occurrences s). occurrence_slot y \<noteq> occurrence_slot x"
    using slot_is_free [OF assms(1-3)] assms(4,5) by (auto simp: occurrence_slot_def)
  then show ?thesis
    by (auto simp: occurrences_add_def ins_or_skip_def ins_def)
qed

lemma occurrence_job_Inr:
  "occurrence_job jid c w a oid t now = Inr
    \<lparr>job_user_id = aut_user_id a, job_kind = DurableJobKind.AUTOMATION_OCCURRENCE,
     job_dedupe_key = occurrence_dedupe_key oid,
     job_payload = [u ''occurrence_id'' \<mapsto> juuid oid, u ''automation_id'' \<mapsto> juuid (aut_id a),
       u ''scheduled_for'' \<mapsto> jtime t],
     job_id = jid, job_status = DurableJobStatus.READY, job_priority = 0, job_available_at = now,
     job_delivery_attempt = 0, job_max_delivery_attempts = 5, job_claimed_by = None,
     job_claim_epoch = 0, job_lease_until = None, job_last_error_code = None,
     job_created_at = c, job_updated_at = w\<rparr>"
proof -
  have "strip (occurrence_dedupe_key oid) \<noteq> []"
    unfolding strip_eq_Nil_iff occurrence_dedupe_key_def by (auto simp: u_def is_space_def intro!: bexI [of _ 65])
  then show ?thesis
    by (simp add: occurrence_job_def DurableJob_init_def)
qed

lemma occurrence_key_other [simp]: "\<not> agent_key (occurrence_dedupe_key oid)"
  by (simp add: agent_key_def occurrence_dedupe_key_def u_def)

lemma occurrence_job_fresh:
  assumes "occurrence_job jid c w a oid t now = Inr j"
  shows "fresh_other_job j"
  unfolding fresh_other_job_def
proof
  show "other_job j"
    using assms by (auto simp: occurrence_job_Inr other_job_def)
qed (use assms in \<open>(unfold occurrence_job_def, intro exI)\<close>)

text \<open>The occurrence of a fired automation, with its job, and of a skipped one.\<close>

definition fired :: "Automation \<Rightarrow> time \<Rightarrow> time \<Rightarrow> AutomationOccurrence \<Rightarrow> DurableJob \<Rightarrow> bool" where
  "fired a t now x j \<longleftrightarrow> occ_automation_id x = aut_id a \<and> occ_user_id x = aut_user_id a
   \<and> occ_definition_revision x = aut_definition_revision a \<and> occ_scheduled_for x = t
   \<and> occ_status x = OccurrenceStatus.MATERIALIZED \<and> occ_settled_at x = None \<and> job_for x j
   \<and> job_status j = DurableJobStatus.READY \<and> job_available_at j = now"

definition skipped :: "Automation \<Rightarrow> time \<Rightarrow> time \<Rightarrow> AutomationOccurrence \<Rightarrow> bool" where
  "skipped a t now x \<longleftrightarrow> occ_automation_id x = aut_id a \<and> occ_user_id x = aut_user_id a
   \<and> occ_definition_revision x = aut_definition_revision a \<and> occ_scheduled_for x = t
   \<and> occ_status x = OccurrenceStatus.SKIPPED \<and> occ_settled_at x = Some now
   \<and> occ_durable_job_id x = None"

inductive materialized ::
  "Automation \<Rightarrow> time \<Rightarrow> store \<Rightarrow> AutomationOccurrence option \<Rightarrow> store \<Rightarrow> bool" for a now s where
  over: "task_over a s \<Longrightarrow> materialized a now s None (put_automation (automation_cancel n a) s)"
| skip: "\<not> task_over a s \<Longrightarrow> aut_next_trigger_at a = Some t \<Longrightarrow> automation_mark_triggered now a = Inr a1 \<Longrightarrow>
    skipped a t now x \<Longrightarrow> \<forall>y \<in> set (st_occurrences s). occ_id y \<noteq> occ_id x \<Longrightarrow>
    materialized a now s (Some x) (put_automation (automation_complete_one_shot n a1)
      (s\<lparr>st_occurrences := st_occurrences s @ [x]\<rparr>))"
| fire: "\<not> task_over a s \<Longrightarrow> aut_next_trigger_at a = Some t \<Longrightarrow> automation_mark_triggered now a = Inr a1 \<Longrightarrow>
    fired a t now x j \<Longrightarrow> fresh_other_job j \<Longrightarrow> \<forall>y \<in> set (st_occurrences s). occ_id y \<noteq> occ_id x \<Longrightarrow>
    \<forall>y \<in> set (db_jobs (core s)). \<not> job_clash y j \<Longrightarrow>
    materialized a now s (Some x) (put_automation a1
      (s\<lparr>core := (core s)\<lparr>db_jobs := db_jobs (core s) @ [j]\<rparr>, st_occurrences := st_occurrences s @ [x]\<rparr>))"

text \<open>The identifiers a round draws are new.\<close>

definition unused :: "uuid \<Rightarrow> store \<Rightarrow> bool" where
  "unused i s \<longleftrightarrow> (\<forall>x \<in> set (st_occurrences s). occ_id x \<noteq> i) \<and>
     (\<forall>j \<in> set (db_jobs (core s)). job_id j \<noteq> i \<and> job_dedupe_key j \<noteq> occurrence_dedupe_key i)"

lemma due_trigger: "automation_due now a \<longleftrightarrow> aut_status a = AutomationStatus.ACTIVE \<and>
    (\<exists>t. aut_next_trigger_at a = Some t \<and> t \<le> now)"
  by (auto simp: automation_due_def split: option.splits)

lemma skip_occurrence_cases:
  assumes "auto_ok s" "a \<in> set (st_automations s)" "aut_next_trigger_at a = Some t"
    "automation_mark_triggered now a = Inr a1" "aut_id a1 = aut_id a"
  shows "\<exists>x. skipped a t now x \<and> occ_id x = uid4 e 0 \<and> skip_occurrence e a t now s =
    (if \<exists>y \<in> set (st_occurrences s). occ_id y = uid4 e 0 then Inl IntegrityError
     else Inr (Some x, put_automation (automation_complete_one_shot (clk e 2) a1)
       (s\<lparr>st_occurrences := st_occurrences s @ [x]\<rparr>)))"
proof -
  let ?x = "(new_occurrence (uid4 e 0) (clk e 0) (clk e 1) a t)
    \<lparr>occ_status := OccurrenceStatus.SKIPPED, occ_settled_at := Some now\<rparr>"
  let ?s = "s\<lparr>st_occurrences := st_occurrences s @ [?x]\<rparr>"
  let ?a = "automation_complete_one_shot (clk e 2) a1"
  have add: "occurrences_add ?x s = (if \<exists>y \<in> set (st_occurrences s). occ_id y = uid4 e 0 then Inl IntegrityError
      else Inr (True, ?s))"
    using occurrences_add_free [OF assms(1-3), of ?x] by simp
  have "aut_id ?a = aut_id a"
    using assms(5) by (simp add: automation_complete_one_shot_def)
  then have save: "save_automation claimed_concurrently ?a (aut_version a) ?s = Inr (put_automation ?a ?s)"
    using auto_keysD(1) [OF auto_okD(1) [OF assms(1)]] assms(2) by (intro save_automation_wins) simp_all
  show ?thesis
    by (intro exI [of _ ?x]) (simp add: skip_occurrence_def Let_def add save assms(4) skipped_def del: One_nat_def)
qed

lemma fire_occurrence_cases:
  assumes "auto_ok s" "a \<in> set (st_automations s)" "aut_next_trigger_at a = Some t"
    "automation_mark_triggered now a = Inr a1" "aut_id a1 = aut_id a"
  shows "\<exists>x j. fired a t now x j \<and> fresh_other_job j \<and> occ_id x = uid4 e 0 \<and> job_id j = uid4 e 1 \<and>
    fire_occurrence e a t now s =
    (if (\<exists>y \<in> set (st_occurrences s). occ_id y = uid4 e 0) \<or> (\<exists>y \<in> set (db_jobs (core s)). job_clash y j)
     then Inl IntegrityError
     else Inr (Some x, put_automation a1 (s\<lparr>core := (core s)\<lparr>db_jobs := db_jobs (core s) @ [j]\<rparr>,
       st_occurrences := st_occurrences s @ [x]\<rparr>)))"
proof -
  let ?x = "new_occurrence (uid4 e 0) (clk e 0) (clk e 1) a t"
  obtain j where j: "occurrence_job (uid4 e 1) (clk e 2) (clk e 3) a (uid4 e 0) t now = Inr j"
      and id: "job_id j = uid4 e 1"
    by (simp add: occurrence_job_Inr)
  let ?y = "?x\<lparr>occ_durable_job_id := Some (job_id j)\<rparr>"
  let ?s1 = "s\<lparr>st_occurrences := st_occurrences s @ [?x]\<rparr>"
  let ?s2 = "?s1\<lparr>core := (core s)\<lparr>db_jobs := db_jobs (core s) @ [j]\<rparr>\<rparr>"
  let ?s3 = "s\<lparr>core := (core s)\<lparr>db_jobs := db_jobs (core s) @ [j]\<rparr>, st_occurrences := st_occurrences s @ [?y]\<rparr>"
  have add: "occurrences_add ?x s = (if \<exists>y \<in> set (st_occurrences s). occ_id y = uid4 e 0 then Inl IntegrityError
      else Inr (True, ?s1))"
    using occurrences_add_free [OF assms(1-3), of ?x] by simp
  have job: "add_job j ?s1 = (if \<exists>y \<in> set (db_jobs (core s)). job_clash y j then Inl IntegrityError else Inr ?s2)"
    by (simp add: add_job_def jobs_add_def ins_def)
  have put: "occurrences_update ?y ?s2 = ?s3" if "\<not> (\<exists>y \<in> set (st_occurrences s). occ_id y = uid4 e 0)"
    using that by (simp add: occurrences_update_def upd_id copy_occurrence_def new_occurrence_def)
  have save: "save_automation claimed_concurrently a1 (aut_version a) ?s3 = Inr (put_automation a1 ?s3)"
    using auto_keysD(1) [OF auto_okD(1) [OF assms(1)]] assms(2,5) by (intro save_automation_wins) simp_all
  have "fired a t now ?y j"
    using j by (auto simp: fired_def job_for_def occurrence_job_Inr)
  moreover have "fire_occurrence e a t now s =
    (if (\<exists>y \<in> set (st_occurrences s). occ_id y = uid4 e 0) \<or> (\<exists>y \<in> set (db_jobs (core s)). job_clash y j)
     then Inl IntegrityError else Inr (Some ?y, put_automation a1 ?s3))"
    using put save by (simp add: fire_occurrence_def Let_def add job assms(4) j del: One_nat_def)
  ultimately show ?thesis
    using occurrence_job_fresh [OF j] id by (intro exI [of _ ?y] exI [of _ j]) simp
qed

lemma due_stored:
  assumes "auto_ok s" "a \<in> set (st_automations s)" "automation_due now a"
  obtains t a1 where "aut_next_trigger_at a = Some t" "t \<le> now" "aut_status a = AutomationStatus.ACTIVE"
    "automation_mark_triggered now a = Inr a1" "automation_ok a" "aut_id a1 = aut_id a"
proof -
  obtain t where t: "aut_status a = AutomationStatus.ACTIVE" "aut_next_trigger_at a = Some t" "t \<le> now"
    using assms(3) by (auto simp: due_trigger)
  have ok: "automation_ok a"
    by (rule auto_okD(2) [OF assms(1,2)])
  then obtain a1 where a1: "automation_mark_triggered now a = Inr a1"
    using automation_mark_triggered_total [of a now] by (auto simp: automation_ok_def)
  show thesis
    by (rule that [OF t(2,3,1) a1 ok mark_triggered_advances(2) [OF a1 ok t]])
qed

lemma materialize_round:
  assumes "auto_ok s" "a \<in> set (st_automations s)" "automation_due now a"
  shows "materialize_due_automation e a now s = Inr (r, s') \<Longrightarrow> materialized a now s r s'"
    and "unused (uid4 e 0) s \<Longrightarrow> unused (uid4 e 1) s \<Longrightarrow> \<exists>r s'. materialize_due_automation e a now s = Inr (r, s')"
proof -
  obtain t a1 where t: "aut_next_trigger_at a = Some t" "automation_mark_triggered now a = Inr a1"
      "aut_id a1 = aut_id a"
    by (rule due_stored [OF assms])
  have keyed: "keyed aut_id (st_automations s)"
    by (rule auto_keysD(1) [OF auto_okD(1) [OF assms(1)]])
  have cancel: "save_automation claimed_concurrently (automation_cancel n a) (aut_version a) s =
      Inr (put_automation (automation_cancel n a) s)" for n
    by (rule save_automation_wins [OF keyed assms(2)]) (simp add: automation_cancel_def)
  obtain x where x: "skipped a t now x" "occ_id x = uid4 e 0" "skip_occurrence e a t now s =
    (if \<exists>y \<in> set (st_occurrences s). occ_id y = uid4 e 0 then Inl IntegrityError
     else Inr (Some x, put_automation (automation_complete_one_shot (clk e 2) a1)
       (s\<lparr>st_occurrences := st_occurrences s @ [x]\<rparr>)))"
    using skip_occurrence_cases [OF assms(1,2) t] by blast
  obtain y j where y: "fired a t now y j" "fresh_other_job j" "occ_id y = uid4 e 0" "job_id j = uid4 e 1"
    "fire_occurrence e a t now s =
    (if (\<exists>z \<in> set (st_occurrences s). occ_id z = uid4 e 0) \<or> (\<exists>z \<in> set (db_jobs (core s)). job_clash z j)
     then Inl IntegrityError
     else Inr (Some y, put_automation a1 (s\<lparr>core := (core s)\<lparr>db_jobs := db_jobs (core s) @ [j]\<rparr>,
       st_occurrences := st_occurrences s @ [y]\<rparr>)))"
    using fire_occurrence_cases [OF assms(1,2) t] by blast
  show "materialized a now s r s'" if "materialize_due_automation e a now s = Inr (r, s')"
  proof (cases "task_over a s")
    case True
    then show ?thesis
      using that cancel by (auto simp: materialize_due_automation_def intro: materialized.over)
  next
    case False
    show ?thesis
    proof (cases "aut_misfire_policy a = MisfirePolicy.SKIP \<and> MISFIRE_HORIZON < now - t")
      case True
      then have "r = Some x" "s' = put_automation (automation_complete_one_shot (clk e 2) a1)
          (s\<lparr>st_occurrences := st_occurrences s @ [x]\<rparr>)" "\<forall>y \<in> set (st_occurrences s). occ_id y \<noteq> occ_id x"
        using that False t(1) x(2,3) by (auto simp: materialize_due_automation_def split: if_splits)
      then show ?thesis
        using materialized.skip [OF False t(1,2) x(1)] by simp
    next
      case no_skip: False
      then have "fire_occurrence e a t now s = Inr (r, s')"
        using that False t(1) by (auto simp: materialize_due_automation_def)
      then have "r = Some y" "s' = put_automation a1 (s\<lparr>core := (core s)\<lparr>db_jobs := db_jobs (core s) @ [j]\<rparr>,
          st_occurrences := st_occurrences s @ [y]\<rparr>)" "\<forall>z \<in> set (st_occurrences s). occ_id z \<noteq> occ_id y"
          "\<forall>z \<in> set (db_jobs (core s)). \<not> job_clash z j"
        using y(3,5) by (auto split: if_splits)
      then show ?thesis
        using materialized.fire [OF False t(1,2) y(1,2)] by simp
    qed
  qed
  show "\<exists>r s'. materialize_due_automation e a now s = Inr (r, s')" if "unused (uid4 e 0) s" "unused (uid4 e 1) s"
  proof -
    have "\<not> (\<exists>z \<in> set (st_occurrences s). occ_id z = uid4 e 0)"
      using that(1) by (simp add: unused_def)
    moreover have "\<not> (\<exists>z \<in> set (db_jobs (core s)). job_clash z j)"
      using that y(1,3,4) by (auto simp: unused_def job_clash_def fired_def job_for_def)
    ultimately show ?thesis
      using cancel t(1) x(3) y(5) by (auto simp: materialize_due_automation_def)
  qed
qed

lemma materialized_write:
  assumes "materialized a now s r s'" "auto_ok s" "a \<in> set (st_automations s)" "automation_due now a"
  shows "auto_write s s'"
proof -
  obtain t where due: "aut_status a = AutomationStatus.ACTIVE" "aut_next_trigger_at a = Some t" "t \<le> now"
    using assms(4) by (auto simp: due_trigger)
  have free: "occurrence_slot y \<noteq> occurrence_slot x" if "y \<in> set (st_occurrences s)"
      "occ_automation_id x = aut_id a" "occ_scheduled_for x = t" for x y
    using slot_is_free [OF assms(2,3) due(2) that(1)] that(2,3) by (simp add: occurrence_slot_def)
  show ?thesis
    using assms(1)
  proof (cases rule: materialized.cases)
    case (over n)
    then show ?thesis
      using assms(3) by (simp add: auto_write.move automation_move.cancel)
  next
    case (skip t' a1 x n)
    with due(2) free show ?thesis
      unfolding skip(2) by (intro auto_write.skip [OF assms(3) due skip(5)]) (auto simp: skipped_def)
  next
    case (fire t' a1 x j)
    with due(2) free show ?thesis
      unfolding fire(2) by (intro auto_write.fire [OF assms(3) due fire(5)]) (auto simp: fired_def)
  qed
qed

end
