(* ===== verification/AutomationDue.thy ===== *)
theory AutomationDue
  imports AutomationRefinement "HOL-Library.Multiset"
begin

text \<open>
  \<open>process_due\<close> as a whole: when the identifiers it draws are new it returns, serves every due
  automation of its batch and leaves none of them due.
\<close>

section \<open>The due automations\<close>

text \<open>What became of a due automation of \<open>s\<close> in the later store \<open>s'\<close>.\<close>

definition served :: "Automation \<Rightarrow> time \<Rightarrow> store \<Rightarrow> store \<Rightarrow> bool" where
  "served a now s s' \<longleftrightarrow>
     (if task_over a s
      then (\<exists>b \<in> set (st_automations s'). aut_id b = aut_id a \<and> aut_status b = AutomationStatus.CANCELLED)
        \<and> (\<forall>x \<in> set (st_occurrences s'). occ_automation_id x = aut_id a \<longrightarrow> x \<in> set (st_occurrences s))
      else (\<exists>t. aut_next_trigger_at a = Some t \<and>
        (\<exists>x \<in> set (st_occurrences s'). skipped a t now x \<or>
           (\<exists>j \<in> set (db_jobs (core s')). fired a t now x j))))"

text \<open>What a round leaves alone: the tasks, the other automations, the rows that were there.\<close>

definition rest_kept :: "uuid \<Rightarrow> store \<Rightarrow> store \<Rightarrow> bool" where
  "rest_kept aid s s' \<longleftrightarrow> st_tasks s' = st_tasks s
   \<and> {b \<in> set (st_automations s'). aut_id b \<noteq> aid} = {b \<in> set (st_automations s). aut_id b \<noteq> aid}
   \<and> set (st_occurrences s) \<subseteq> set (st_occurrences s')
   \<and> (\<forall>x \<in> set (st_occurrences s'). occ_automation_id x \<noteq> aid \<longrightarrow> x \<in> set (st_occurrences s))
   \<and> set (db_jobs (core s)) \<subseteq> set (db_jobs (core s'))"

lemma put_automation_others:
  assumes "aut_id a' = aid" "st_automations s' = st_automations (put_automation a' s)"
  shows "{b \<in> set (st_automations s'). aut_id b \<noteq> aid} = {b \<in> set (st_automations s). aut_id b \<noteq> aid}"
  using assms by (auto simp: set_upd)

lemma materialized_rest:
  assumes "materialized a now s r s'" "aut_id a = aid" "automation_ok a" "automation_due now a"
  shows "rest_kept aid s s'"
  using assms(1)
proof (cases rule: materialized.cases)
  case (over n)
  have "aut_id (automation_cancel n a) = aid"
    using assms(2) by (simp add: automation_cancel_def)
  then show ?thesis
    using put_automation_others [of "automation_cancel n a" aid s' s] over by (simp add: rest_kept_def)
next
  case (skip t a1 x n)
  obtain t0 where due: "aut_status a = AutomationStatus.ACTIVE" "aut_next_trigger_at a = Some t0" "t0 \<le> now"
    using assms(4) by (auto simp: due_trigger)
  have "aut_id (automation_complete_one_shot n a1) = aid"
    using mark_triggered_advances(2) [OF skip(5) assms(3) due] assms(2) by (simp add: automation_complete_one_shot_def)
  then show ?thesis
    using put_automation_others [of "automation_complete_one_shot n a1" aid s' s] skip assms(2)
    by (auto simp: rest_kept_def skipped_def)
next
  case (fire t a1 x j)
  obtain t0 where due: "aut_status a = AutomationStatus.ACTIVE" "aut_next_trigger_at a = Some t0" "t0 \<le> now"
    using assms(4) by (auto simp: due_trigger)
  have "aut_id a1 = aid"
    using mark_triggered_advances(2) [OF fire(5) assms(3) due] assms(2) by simp
  then show ?thesis
    using put_automation_others [of a1 aid s' s] fire assms(2) by (auto simp: rest_kept_def fired_def)
qed

text \<open>A served automation is not due any more.\<close>

lemma row_after_put:
  assumes "a \<in> set (st_automations s)" "keyed aut_id (st_automations s)" "aut_id a' = aut_id a"
    "b \<in> set (st_automations (put_automation a' s))" "aut_id b = aut_id a"
  shows "b = copy_automation a' a"
proof -
  obtain c where "c \<in> set (st_automations s)" "b = (if aut_id c = aut_id a' then copy_automation a' c else c)"
    using assms(4) by (auto simp: set_upd)
  with assms show ?thesis
    using keyed_unique [OF assms(2) _ assms(1)] by (auto split: if_splits)
qed

lemma materialized_not_due:
  assumes "materialized a now s r s'" "auto_ok s" "a \<in> set (st_automations s)" "automation_due now a"
    "b \<in> set (st_automations s')" "aut_id b = aut_id a"
  shows "\<not> automation_due now b"
  using assms(1)
proof (cases rule: materialized.cases)
  case (over n)
  have keyed: "keyed aut_id (st_automations s)"
    by (rule auto_keysD(1) [OF auto_okD(1) [OF assms(2)]])
  have "b = copy_automation (automation_cancel n a) a"
    by (rule row_after_put [OF assms(3) keyed _ assms(5) [unfolded over] assms(6)]) (simp add: automation_cancel_def)
  then show ?thesis
    by (auto simp: automation_due_def automation_cancel_def)
next
  case (skip t a1 x n)
  have ok: "automation_ok a"
    by (rule auto_okD(2) [OF assms(2,3)])
  have keyed: "keyed aut_id (st_automations s)"
    by (rule auto_keysD(1) [OF auto_okD(1) [OF assms(2)]])
  obtain t0 where due: "aut_status a = AutomationStatus.ACTIVE" "aut_next_trigger_at a = Some t0" "t0 \<le> now"
    using assms(4) by (auto simp: due_trigger)
  note adv = mark_triggered_advances [OF skip(5) ok due]
  have "b = copy_automation (automation_complete_one_shot n a1) a"
    by (rule row_after_put [OF assms(3) keyed _ _ assms(6)])
       (use adv(2) assms(5) skip(2) in \<open>simp_all add: automation_complete_one_shot_def put_automation_def\<close>)
  then show ?thesis
    using adv(6) by (auto simp: automation_due_def automation_complete_one_shot_def split: option.splits)
next
  case (fire t a1 x j)
  have ok: "automation_ok a"
    by (rule auto_okD(2) [OF assms(2,3)])
  have keyed: "keyed aut_id (st_automations s)"
    by (rule auto_keysD(1) [OF auto_okD(1) [OF assms(2)]])
  obtain t0 where due: "aut_status a = AutomationStatus.ACTIVE" "aut_next_trigger_at a = Some t0" "t0 \<le> now"
    using assms(4) by (auto simp: due_trigger)
  note adv = mark_triggered_advances [OF fire(5) ok due]
  have "b = copy_automation a1 a"
    by (rule row_after_put [OF assms(3) keyed adv(2) _ assms(6)]) (use assms(5) fire(2) in \<open>simp add: put_automation_def\<close>)
  then show ?thesis
    using adv(6) by (auto simp: automation_due_def split: option.splits)
qed

lemma materialized_served:
  assumes "materialized a now s r s'" "a \<in> set (st_automations s)" "automation_due now a"
  shows "served a now s s'" "r = None \<longleftrightarrow> task_over a s"
proof -
  from assms(1) show "served a now s s'"
  proof (cases rule: materialized.cases)
    case (over n)
    let ?b = "copy_automation (automation_cancel n a) a"
    have "?b \<in> set (st_automations s')"
      using assms(2) by (auto simp: over set_upd automation_cancel_def)
    then show ?thesis
      using over assms(3) by (auto simp: served_def automation_cancel_def due_trigger intro!: bexI [of _ ?b])
  qed (auto simp: served_def)
  show "r = None \<longleftrightarrow> task_over a s"
    using assms(1) by (cases rule: materialized.cases) simp_all
qed

lemma served_kept:
  assumes "served a now s0 s" "rest_kept aid s s'" "aid \<noteq> aut_id a"
  shows "served a now s0 s'"
proof (cases "task_over a s0")
  case True
  then obtain b where b: "b \<in> set (st_automations s)" "aut_id b = aut_id a" "aut_status b = AutomationStatus.CANCELLED"
    and no: "\<forall>x \<in> set (st_occurrences s). occ_automation_id x = aut_id a \<longrightarrow> x \<in> set (st_occurrences s0)"
    using assms(1) by (auto simp: served_def)
  then have "b \<in> set (st_automations s')"
    using assms(2,3) by (auto simp: rest_kept_def)
  with True b no show ?thesis
    using assms(2,3) by (auto simp: served_def rest_kept_def)
next
  case False
  with assms(1,2) show ?thesis
    unfolding served_def rest_kept_def by (auto 4 4)
qed

lemma task_over_kept: "st_tasks s' = st_tasks s \<Longrightarrow> task_over a s' = task_over a s"
  by (simp add: task_over_def tasks_get_def cong: option.case_cong)

lemma served_from:
  assumes "served a now s1 s2" "rest_kept aid s s1" "aid \<noteq> aut_id a"
  shows "served a now s s2"
proof -
  have "task_over a s1 = task_over a s"
    using assms(2) by (intro task_over_kept) (simp add: rest_kept_def)
  with assms show ?thesis
    unfolding served_def rest_kept_def by (cases "task_over a s") auto
qed

text \<open>
  The identifiers of the rounds, the first \<open>k\<close> of the supply: the \<open>i\<close>-th round starts at reading and
  identifier \<open>4 i\<close>.
\<close>

definition fresh_supply :: "nat \<Rightarrow> env \<Rightarrow> store \<Rightarrow> bool" where
  "fresh_supply k e s \<longleftrightarrow> inj_on (uid4 e) {..<k} \<and> (\<forall>i < k. unused (uid4 e i) s)"

lemma fresh_supply_less: "fresh_supply k e s \<Longrightarrow> m \<le> k \<Longrightarrow> fresh_supply m e s"
  by (auto simp: fresh_supply_def elim: inj_on_subset)

lemma unused_kept:
  assumes "materialize_due_automation e a now s = Inr (r, s')" "materialized a now s r s'" "unused i s"
    "auto_ok s" "a \<in> set (st_automations s)" "automation_due now a" "i \<noteq> uid4 e 0" "i \<noteq> uid4 e 1"
  shows "unused i s'"
proof -
  obtain t a1 where t: "aut_next_trigger_at a = Some t" "automation_mark_triggered now a = Inr a1"
      "aut_id a1 = aut_id a"
    by (rule due_stored [OF assms(4-6)])
  obtain x where x: "skipped a t now x" "occ_id x = uid4 e 0" "skip_occurrence e a t now s =
    (if \<exists>y \<in> set (st_occurrences s). occ_id y = uid4 e 0 then Inl IntegrityError
     else Inr (Some x, put_automation (automation_complete_one_shot (clk e 2) a1)
       (s\<lparr>st_occurrences := st_occurrences s @ [x]\<rparr>)))"
    using skip_occurrence_cases [OF assms(4,5) t] by blast
  obtain y j where y: "fired a t now y j" "occ_id y = uid4 e 0" "job_id j = uid4 e 1"
    "fire_occurrence e a t now s =
    (if (\<exists>z \<in> set (st_occurrences s). occ_id z = uid4 e 0) \<or> (\<exists>z \<in> set (db_jobs (core s)). job_clash z j)
     then Inl IntegrityError
     else Inr (Some y, put_automation a1 (s\<lparr>core := (core s)\<lparr>db_jobs := db_jobs (core s) @ [j]\<rparr>,
       st_occurrences := st_occurrences s @ [y]\<rparr>)))"
    using fire_occurrence_cases [OF assms(4,5) t] by blast
  have key: "job_dedupe_key j = occurrence_dedupe_key (uid4 e 0)"
    using y(1,2) by (simp add: fired_def job_for_def)
  have "task_over a s \<and> st_occurrences s' = st_occurrences s \<and> core s' = core s \<or>
      st_occurrences s' = st_occurrences s @ [x] \<and> core s' = core s \<or>
      st_occurrences s' = st_occurrences s @ [y] \<and> db_jobs (core s') = db_jobs (core s) @ [j]"
    using assms(1,2) t(1) x(3) y(4)
    by (auto simp: materialize_due_automation_def elim: materialized.cases split: if_splits)
  then show ?thesis
    using assms(3,7,8) x(2) y(2,3) key by (auto simp: unused_def occurrence_dedupe_key_def)
qed

lemma supply_kept:
  assumes "fresh_supply (k + 4) e s" "materialize_due_automation e a now s = Inr (r, s')" "materialized a now s r s'"
    "auto_ok s" "a \<in> set (st_automations s)" "automation_due now a"
  shows "fresh_supply k (later e 4) s'"
proof -
  have inj: "inj_on (uid4 e) {..<k + 4}"
    using assms(1) by (simp add: fresh_supply_def)
  have "unused (uid4 e (4 + i)) s'" if "i < k" for i
  proof (rule unused_kept [OF assms(2,3) _ assms(4-6)])
    show "unused (uid4 e (4 + i)) s"
      using assms(1) that by (simp add: fresh_supply_def)
    show "uid4 e (4 + i) \<noteq> uid4 e 0" "uid4 e (4 + i) \<noteq> uid4 e 1"
      using inj_onD [OF inj, of "4 + i" 0] inj_onD [OF inj, of "4 + i" 1] that by auto
  qed
  moreover have "inj_on (\<lambda>i. uid4 e (4 + i)) {..<k}"
    by (rule inj_onI) (use inj_onD [OF inj] in force)
  ultimately show ?thesis
    by (simp add: fresh_supply_def later_def)
qed

lemma materialize_all_serves:
  assumes "auto_ok s" "\<forall>a \<in> set due. a \<in> set (st_automations s) \<and> automation_due now a"
    "distinct (map aut_id due)" "fresh_supply (4 * length due) e s"
  shows "\<exists>s'. materialize_all e now due s = Inr (length (filter (\<lambda>a. \<not> task_over a s) due), s') \<and>
    auto_writes s s' \<and> (\<forall>a \<in> set due. served a now s s') \<and>
    (\<forall>b s0. aut_id b \<notin> aut_id ` set due \<longrightarrow> served b now s0 s \<longrightarrow> served b now s0 s') \<and>
    (\<forall>b \<in> set (st_automations s'). automation_due now b \<longrightarrow> b \<in> set (st_automations s) \<and> aut_id b \<notin> aut_id ` set due)"
  using assms
proof (induction due arbitrary: e s)
  case (Cons a due)
  have a: "a \<in> set (st_automations s)" "automation_due now a"
    using Cons.prems(2) by simp_all
  have fresh: "unused (uid4 e 0) s" "unused (uid4 e 1) s"
    using Cons.prems(4) by (simp_all add: fresh_supply_def)
  obtain r s1 where r: "materialize_due_automation e a now s = Inr (r, s1)"
    using materialize_round(2) [OF Cons.prems(1) a fresh] by blast
  note m = materialize_round(1) [OF Cons.prems(1) a r]
  note w = materialized_write [OF m Cons.prems(1) a]
  have ok: "auto_ok s1"
    by (rule auto_write_ok [OF w Cons.prems(1)])
  note rest = materialized_rest [OF m refl auto_okD(2) [OF Cons.prems(1) a(1)] a(2)]
  have ids: "aut_id b \<noteq> aut_id a" if "b \<in> set due" for b
    using Cons.prems(3) that by (auto simp: image_iff)
  have same: "task_over b s1 = task_over b s" for b
    using rest by (intro task_over_kept) (simp add: rest_kept_def)
  have due: "\<forall>b \<in> set due. b \<in> set (st_automations s1) \<and> automation_due now b"
    using Cons.prems(2) ids rest by (auto simp: rest_kept_def)
  have distinct: "distinct (map aut_id due)"
    using Cons.prems(3) by simp
  have new: "fresh_supply (4 * length due) (later e 4) s1"
    using Cons.prems(4) by (intro supply_kept [OF _ r m Cons.prems(1) a]) (simp add: add.commute)
  obtain s2 where s2: "materialize_all (later e 4) now due s1 = Inr (length (filter (\<lambda>a. \<not> task_over a s1) due), s2)"
      "auto_writes s1 s2" "\<forall>b \<in> set due. served b now s1 s2"
      "\<forall>b s0. aut_id b \<notin> aut_id ` set due \<longrightarrow> served b now s0 s1 \<longrightarrow> served b now s0 s2"
      "\<forall>b \<in> set (st_automations s2). automation_due now b \<longrightarrow> b \<in> set (st_automations s1) \<and> aut_id b \<notin> aut_id ` set due"
    using Cons.IH [OF ok due distinct new] by blast
  note sv = materialized_served [OF m a]
  have "materialize_all e now (a # due) s = Inr (length (filter (\<lambda>a. \<not> task_over a s) (a # due)), s2)"
    using r s2(1) sv(2) by (simp add: same)
  moreover have "auto_writes s s2"
    using w s2(2) by (rule converse_rtranclp_into_rtranclp)
  moreover have "served b now s s2" if "b \<in> set (a # due)" for b
  proof (cases "b = a")
    case True
    then show ?thesis
      using s2(4) sv(1) Cons.prems(3) by auto
  next
    case False
    with that have "b \<in> set due" "aut_id a \<noteq> aut_id b"
      using ids by fastforce+
    then show ?thesis
      using served_from [OF _ rest] s2(3) by blast
  qed
  moreover have "served b now s0 s2" if "aut_id b \<notin> aut_id ` set (a # due)" "served b now s0 s" for b s0
    using served_kept [OF that(2) rest] that(1) s2(4) by auto
  moreover have "b \<in> set (st_automations s) \<and> aut_id b \<notin> aut_id ` set (a # due)"
    if b: "b \<in> set (st_automations s2)" "automation_due now b" for b
  proof -
    have b1: "b \<in> set (st_automations s1)" "aut_id b \<notin> aut_id ` set due"
      using s2(5) b by simp_all
    then have "aut_id b \<noteq> aut_id a"
      using materialized_not_due [OF m Cons.prems(1) a b1(1)] b(2) by blast
    with b1 show ?thesis
      using rest by (auto simp: rest_kept_def)
  qed
  ultimately show ?case
    by blast
qed simp

lemma materialize_all_writes:
  assumes "materialize_all e now due s = Inr (n, s')" "auto_ok s"
    "\<forall>a \<in> set due. a \<in> set (st_automations s) \<and> automation_due now a" "distinct (map aut_id due)"
  shows "auto_writes s s'"
  using assms
proof (induction due arbitrary: e s n)
  case (Cons a due)
  have a: "a \<in> set (st_automations s)" "automation_due now a"
    using Cons.prems(3) by simp_all
  obtain r s1 k where r: "materialize_due_automation e a now s = Inr (r, s1)"
    "materialize_all (later e 4) now due s1 = Inr (k, s')"
    using Cons.prems(1) by auto
  note m = materialize_round(1) [OF Cons.prems(2) a r(1)]
  note w = materialized_write [OF m Cons.prems(2) a]
  note rest = materialized_rest [OF m refl auto_okD(2) [OF Cons.prems(2) a(1)] a(2)]
  have "aut_id b \<noteq> aut_id a" if "b \<in> set due" for b
    using Cons.prems(4) that by (auto simp: image_iff)
  then have "\<forall>b \<in> set due. b \<in> set (st_automations s1) \<and> automation_due now b"
    using Cons.prems(3) rest by (auto simp: rest_kept_def)
  then have "auto_writes s1 s'"
    using Cons.IH [OF r(2) auto_write_ok [OF w Cons.prems(2)]] Cons.prems(4) by simp
  with w show ?case
    by (rule converse_rtranclp_into_rtranclp)
qed simp

lemma mapE_id: "(\<And>x. x \<in> set xs \<Longrightarrow> f x = Inr x) \<Longrightarrow> mapE f xs = Inr xs"
  by (induction xs) simp_all

lemma list_due_stored:
  assumes "auto_ok s"
  shows "\<exists>due. automations_list_due now limit s = Inr due \<and> distinct (map aut_id due) \<and>
    (\<forall>a \<in> set due. a \<in> set (st_automations s) \<and> automation_due now a) \<and>
    (cnt (automation_due now) (st_automations s) \<le> limit \<longrightarrow>
      mset due = mset (filter (automation_due now) (st_automations s)))"
proof -
  let ?all = "sort_key (\<lambda>a. (the (aut_next_trigger_at a), aut_id a)) (sel (automation_due now) (st_automations s))"
  let ?due = "take limit ?all"
  have "automation_to_domain a = Inr a" if "a \<in> set ?due" for a
    using post_init_id auto_okD(2) [OF assms] in_set_takeD [OF that] by (simp add: sel_def)
  then have "automations_list_due now limit s = Inr ?due"
    unfolding automations_list_due_def by (rule mapE_id)
  moreover have "distinct (map aut_id ?all)"
    using distinct_map_filter [of aut_id _ "automation_due now"] auto_keysD(1) [OF auto_okD(1) [OF assms]]
    by (simp add: distinct_map sel_def keyed_def)
  then have "distinct (map aut_id ?due)"
    by (simp add: distinct_take take_map [symmetric])
  moreover have "\<forall>a \<in> set ?due. a \<in> set (st_automations s) \<and> automation_due now a"
    by (auto dest!: in_set_takeD simp: sel_def)
  moreover have "mset ?due = mset (filter (automation_due now) (st_automations s))"
    if "cnt (automation_due now) (st_automations s) \<le> limit"
    using that by (simp add: cnt_def sel_def)
  ultimately show ?thesis
    by blast
qed

lemma process_due_writes:
  assumes "process_due e now limit s = Inr (n, s')" "auto_ok s"
  shows "auto_writes s s'"
proof -
  let ?now = "case now of None \<Rightarrow> clk e 0 | Some t \<Rightarrow> t"
  obtain due where due: "automations_list_due ?now limit s = Inr due" "distinct (map aut_id due)"
      "\<forall>a \<in> set due. a \<in> set (st_automations s) \<and> automation_due ?now a"
    using list_due_stored [OF assms(2), of ?now limit] by blast
  then have "materialize_all (later e 1) ?now due s = Inr (n, s')"
    using assms(1) by (simp add: process_due_def)
  then show ?thesis
    by (rule materialize_all_writes [OF _ assms(2) due(3,2)])
qed

end
