(* ===== verification/AutomationReactions.thy ===== *)
theory AutomationReactions
  imports AutomationDue
begin

text \<open>
  The execution of occurrences, its failures and the workers as sequences of writes. An execution is
  one after the unit of work of its trigger.
\<close>

section \<open>Notifications\<close>

lemma push_key_other [simp]: "\<not> agent_key (push_delivery_dedupe_key did)"
  by (simp add: agent_key_def push_delivery_dedupe_key_def u_def)

lemma delivery_job_fresh: "delivery_job jid av c w uid did iid ep = Inr j \<Longrightarrow> fresh_other_job j"
proof -
  assume a: "delivery_job jid av c w uid did iid ep = Inr j"
  then have "other_job j"
    by (auto simp: delivery_job_def DurableJob_init_def other_job_def split: if_splits)
  then show ?thesis
    using a unfolding fresh_other_job_def delivery_job_def by blast
qed

lemma add_job_write: "add_job j s = Inr s' \<Longrightarrow> fresh_other_job j \<Longrightarrow> auto_write s s'"
  by (auto simp: add_job_def jobs_add_def intro!: auto_write.outside outside_write.add_job)

lemma deliveries_add_write: "deliveries_add d s = Inr (added, s') \<Longrightarrow> auto_writes s s'"
  unfolding deliveries_add_def
  by (auto elim!: ins_or_skip_cases) (auto intro!: auto_write1 auto_write.delivery_add)

lemma deliver_to_writes: "deliver_to e uid iid ps s = Inr s' \<Longrightarrow> auto_writes s s'"
proof (induction e uid iid ps s rule: deliver_to.induct)
  case (2 e uid iid p ps s)
  let ?d = "new_delivery (uid4 e 0) (clk e 0) (clk e 1) uid iid (pep_id p)"
  obtain added s1 s2 where s1: "deliveries_add ?d s = Inr (added, s1)"
    and s2: "(if \<not> added then Inr s1 else bindE (delivery_job (uid4 e 1) (clk e 2) (clk e 3) (clk e 4) uid (uid4 e 0) iid
        (pep_id p)) (\<lambda>job. add_job job s1)) = Inr s2"
    and rest: "deliver_to (later e 5) uid iid ps s2 = Inr s'"
    using "2.prems" by (auto simp: case_prod_Inr simp del: if_split)
  have "auto_writes s1 s2"
    using s2 by (auto split: if_splits intro: auto_write1 add_job_write delivery_job_fresh)
  moreover have "auto_writes s2 s'"
    by (rule "2.IH" [OF s1 refl s2 rest])
  ultimately show ?case
    using deliveries_add_write [OF s1] by (meson auto_writes_trans)
qed simp

lemma auto_write_intents: "auto_write s s' \<Longrightarrow> nti_dedupe_key ` set (st_intents s) \<subseteq> nti_dedupe_key ` set (st_intents s')"
  by (induction rule: auto_write.induct) (auto simp: occurrences_update_def occurrences_fail_exhausted_def)

lemma auto_writes_intents: "auto_writes s s' \<Longrightarrow> nti_dedupe_key ` set (st_intents s) \<subseteq> nti_dedupe_key ` set (st_intents s')"
  by (induction rule: rtranclp_induct) (simp, meson auto_write_intents subset_trans)

text \<open>After the reminder the notification of the slot exists.\<close>

lemma reminder_writes:
  assumes "create_reminder_notification e a x s = Inr (r, s')"
  shows "auto_writes s s'"
    "scheduled_slot_key (aut_id a) (occ_definition_revision x) (occ_scheduled_for x) \<in> nti_dedupe_key ` set (st_intents s')"
proof -
  let ?key = "scheduled_slot_key (aut_id a) (occ_definition_revision x) (occ_scheduled_for x)"
  let ?n = "new_intent (uid4 e 0) (clk e 0) a x ?key"
  have "auto_writes s s' \<and> ?key \<in> nti_dedupe_key ` set (st_intents s')"
  proof (cases "intents_get_by_dedupe_key ?key s")
    case (Some n)
    then have "?key \<in> nti_dedupe_key ` set (st_intents s)"
      unfolding intents_get_by_dedupe_key_def by (force dest: sel1_Some)
    with Some assms show ?thesis
      by (simp add: create_reminder_notification_def Let_def)
  next
    case None
    then have none: "\<forall>n \<in> set (st_intents s). nti_dedupe_key n \<noteq> ?key"
      by (simp add: intents_get_by_dedupe_key_def sel1_None)
    obtain added s1 where add: "intents_add ?n s = Inr (added, s1)"
      and rest: "(if \<not> added then Inr (intents_get_by_dedupe_key ?key s1, s1)
          else bindE (deliver_to (later e 1) (aut_user_id a) (nti_id ?n) (endpoints_list_eligible (aut_user_id a) s1) s1)
            (\<lambda>s2. Inr (Some ?n, s2))) = Inr (r, s')"
      using assms None by (auto simp: create_reminder_notification_def Let_def case_prod_Inr simp del: if_split)
    have key: "nti_dedupe_key ?n = ?key"
      by (simp add: new_intent_def)
    have s1: "added" "s1 = s\<lparr>st_intents := st_intents s @ [?n]\<rparr>" "\<forall>x \<in> set (st_intents s). nti_id x \<noteq> nti_id ?n"
      using add none key by (auto simp: intents_add_def elim!: ins_or_skip_cases)
    have w1: "auto_write s s1"
      unfolding s1(2) using none s1(3) key by (intro auto_write.intent_add) simp
    have w2: "auto_writes s1 s'"
      using rest s1(1) by (auto intro: deliver_to_writes)
    have "?key \<in> nti_dedupe_key ` set (st_intents s1)"
      using s1(2) key by simp
    then show ?thesis
      using w1 w2 auto_writes_intents [OF w2] by (auto intro: converse_rtranclp_into_rtranclp)
  qed
  then show "auto_writes s s'" "?key \<in> nti_dedupe_key ` set (st_intents s')"
    by simp_all
qed

section \<open>Executions\<close>

lemma settle_one_shot_writes:
  assumes "settle_one_shot now a s = Inr s'" "a \<in> set (st_automations s)" "keyed aut_id (st_automations s)"
  shows "auto_writes s s'"
proof -
  have "auto_write s (put_automation (automation_complete_one_shot now a) s)"
    by (rule auto_write.move [OF assms(2) automation_move.complete])
  then show ?thesis
    using assms(1) save_automation_put [OF assms(3)]
    by (auto simp: settle_one_shot_def Let_def split: if_splits)
qed

lemma occurrences_get_stored:
  "occurrences_get oid s = Some x \<Longrightarrow> x \<in> set (st_occurrences s) \<and> occ_id x = oid"
  by (auto simp: occurrences_get_def dest: sel1_Some)

lemma occurrence_end_writes:
  assumes "x \<in> set (st_occurrences s)" "occ_status x = OccurrenceStatus.MATERIALIZED"
  shows "auto_write s (occurrences_update (occurrence_fail now x) s)"
    "auto_write s (occurrences_update (occurrence_skip now x) s)"
    "slot_key x \<in> nti_dedupe_key ` set (st_intents s) \<Longrightarrow> auto_write s (occurrences_update (occurrence_succeed now x) s)"
  using assms by (auto intro!: auto_write.settle simp: ended_def)

text \<open>
  What a reaction does: the trigger commits a run of its own, or nothing, and the unit of work
  continues from there.
\<close>

definition triggered :: "service option \<Rightarrow> env \<Rightarrow> store \<Rightarrow> store \<Rightarrow> bool" where
  "triggered trigger et s s1 \<longleftrightarrow> s1 = s \<or> (\<exists>c uid aid th title message key v c' fx. trigger = Some c \<and>
     create_automation_run c et uid aid th title message key (core s) = Inr (v, c', fx) \<and> s1 = s\<lparr>core := c'\<rparr>)"

lemma trigger_run_triggered:
  "trigger_run c et uid aid th title message key s = (r, s1, fx) \<Longrightarrow> triggered (Some c) et s s1"
  unfolding triggered_def trigger_run_def by (fastforce split: sum.splits)

lemma triggered_tables:
  assumes "triggered trigger et s s1"
  shows "s1 = s\<lparr>core := core s1\<rparr>"
  using assms by (auto simp: triggered_def)

lemma triggered_ok:
  assumes "triggered trigger et s s1" "auto_ok s" "runtime_ok (core s)"
  shows "auto_ok s1"
proof -
  have "jobs_later (core s) (core s1)"
    using assms(1) service_jobs_later [OF service_step.create_automation_run assms(3)]
    by (auto simp: triggered_def jobs_later_same)
  then have "jobs_kept (core s) (core s1)"
    unfolding jobs_later_def jobs_kept_def job_later_def by blast
  moreover have "auto_keys s1"
    using auto_okD(1) [OF assms(2)] by (subst triggered_tables [OF assms(1)]) (simp add: auto_keys_def)
  moreover have "st_automations s1 = st_automations s" "st_occurrences s1 = st_occurrences s" "st_intents s1 = st_intents s"
    using assms(1) by (auto simp: triggered_def)
  ultimately show ?thesis
    by (intro auto_ok_tables [OF assms(2)]) simp_all
qed

lemma fire_reaction_cases:
  assumes "fire_reaction trigger e et er a x s = (r, s1, fx)"
  shows "triggered trigger et s s1"
    "(\<exists>err. r = Inl err) \<or> r = bindE (create_reminder_notification er a x s1) (\<lambda>(_, s2).
      bindE (settle_one_shot (clk e 2) a (occurrences_update (occurrence_succeed (clk e 1) x) s2))
        (\<lambda>s4. Inr (DurableJobStatus.COMPLETED, None, s4)))"
proof -
  let ?key = "scheduled_slot_key (aut_id a) (occ_definition_revision x) (occ_scheduled_for x)"
  have "triggered trigger et s s1 \<and> ((\<exists>err. r = Inl err) \<or> r = bindE (create_reminder_notification er a x s1) (\<lambda>(_, s2).
      bindE (settle_one_shot (clk e 2) a (occurrences_update (occurrence_succeed (clk e 1) x) s2))
        (\<lambda>s4. Inr (DurableJobStatus.COMPLETED, None, s4))))"
  proof (cases trigger)
    case None
    then show ?thesis
      using assms by (auto simp: fire_reaction_def Let_def triggered_def)
  next
    case (Some c)
    obtain q s2 fx2 where q: "trigger_run c et (aut_user_id a) (aut_id a) (aut_thing_id a) (aut_title a)
        (aut_message a) ?key s = (q, s2, fx2)"
      by (cases "trigger_run c et (aut_user_id a) (aut_id a) (aut_thing_id a) (aut_title a)
        (aut_message a) ?key s") auto
    with assms Some trigger_run_triggered [OF q] show ?thesis
      by (cases q) (auto simp: fire_reaction_def Let_def)
  qed
  then show "triggered trigger et s s1" "(\<exists>err. r = Inl err) \<or> r = bindE (create_reminder_notification er a x s1) (\<lambda>(_, s2).
      bindE (settle_one_shot (clk e 2) a (occurrences_update (occurrence_succeed (clk e 1) x) s2))
        (\<lambda>s4. Inr (DurableJobStatus.COMPLETED, None, s4)))"
    by simp_all
qed

text \<open>The automations and the occurrences a notification leaves alone.\<close>

lemma deliver_to_tables:
  "deliver_to e uid iid ps s = Inr s' \<Longrightarrow> st_automations s' = st_automations s \<and> st_occurrences s' = st_occurrences s"
proof (induction e uid iid ps s rule: deliver_to.induct)
  case (2 e uid iid p ps s)
  let ?d = "new_delivery (uid4 e 0) (clk e 0) (clk e 1) uid iid (pep_id p)"
  obtain added s1 s2 where s1: "deliveries_add ?d s = Inr (added, s1)"
    and s2: "(if \<not> added then Inr s1 else bindE (delivery_job (uid4 e 1) (clk e 2) (clk e 3) (clk e 4) uid (uid4 e 0) iid
        (pep_id p)) (\<lambda>job. add_job job s1)) = Inr s2"
    and rest: "deliver_to (later e 5) uid iid ps s2 = Inr s'"
    using "2.prems" by (auto simp: case_prod_Inr simp del: if_split)
  have "st_automations s1 = st_automations s \<and> st_occurrences s1 = st_occurrences s"
    using s1 by (auto simp: deliveries_add_def)
  moreover have "st_automations s2 = st_automations s1 \<and> st_occurrences s2 = st_occurrences s1"
    using s2 by (auto simp: add_job_def split: if_splits)
  ultimately show ?case
    using "2.IH" [OF s1 refl s2 rest] by simp
qed simp

lemma reminder_tables:
  assumes "create_reminder_notification e a x s = Inr (r, s')"
  shows "st_automations s' = st_automations s" "st_occurrences s' = st_occurrences s"
proof -
  have "st_automations s' = st_automations s \<and> st_occurrences s' = st_occurrences s"
    using assms
    by (auto simp: create_reminder_notification_def Let_def case_prod_Inr intents_add_def
        split: option.splits if_splits dest!: deliver_to_tables)
  then show "st_automations s' = st_automations s" "st_occurrences s' = st_occurrences s"
    by simp_all
qed

lemma fire_reaction_writes:
  assumes "fire_reaction trigger e et er a x s = (Inr (st, code, s2), s1, fx)" "auto_ok s" "runtime_ok (core s)"
    "x \<in> set (st_occurrences s)" "occ_status x = OccurrenceStatus.MATERIALIZED"
    "a \<in> set (st_automations s)" "occ_automation_id x = aut_id a"
  shows "auto_writes s1 s2" "st = DurableJobStatus.COMPLETED"
proof -
  note t = fire_reaction_cases(1) [OF assms(1)]
  have tables: "st_automations s1 = st_automations s" "st_occurrences s1 = st_occurrences s"
    by (subst triggered_tables [OF t], simp)+
  have "bindE (create_reminder_notification er a x s1) (\<lambda>(_, s2).
      bindE (settle_one_shot (clk e 2) a (occurrences_update (occurrence_succeed (clk e 1) x) s2))
        (\<lambda>s4. Inr (DurableJobStatus.COMPLETED, None, s4))) = Inr (st, code, s2)"
    using fire_reaction_cases(2) [OF assms(1)] by (elim disjE exE) (simp, erule sym)
  then obtain q s3 s4 where s3: "create_reminder_notification er a x s1 = Inr (q, s3)"
    and s4: "s4 = occurrences_update (occurrence_succeed (clk e 1) x) s3"
    and s2: "settle_one_shot (clk e 2) a s4 = Inr s2" and st: "st = DurableJobStatus.COMPLETED"
    by (auto simp: case_prod_Inr)
  have x: "x \<in> set (st_occurrences s3)"
    using reminder_tables [OF s3] tables assms(4) by simp
  have w: "auto_writes s1 s3" "auto_write s3 s4"
    using reminder_writes [OF s3] occurrence_end_writes(3) [OF x assms(5)] assms(7)
    by (simp_all add: s4 slot_key_def)
  have autos: "st_automations s4 = st_automations s"
    using reminder_tables [OF s3] tables by (simp add: s4 occurrences_update_def)
  have "auto_writes s4 s2"
    using settle_one_shot_writes [OF s2] assms(6) auto_keysD(1) [OF auto_okD(1) [OF assms(2)]] by (simp add: autos)
  with w show "auto_writes s1 s2"
    by (meson auto_writes_step auto_writes_trans)
  show "st = DurableJobStatus.COMPLETED"
    by (rule st)
qed

definition job_end :: "DurableJobStatus set" where
  "job_end = {DurableJobStatus.COMPLETED, DurableJobStatus.FAILED}"

text \<open>The result \<open>r\<close> of a reaction: an exception, or writes after the trigger and a final status.\<close>

definition reacts :: "store \<Rightarrow> py_error + (DurableJobStatus \<times> str option \<times> store) \<Rightarrow> bool" where
  "reacts s1 r \<longleftrightarrow> (case r of Inl err \<Rightarrow> True | Inr (st, code, s2) \<Rightarrow> st \<in> job_end \<and> auto_writes s1 s2)"

lemma open_reaction_writes:
  assumes "open_reaction trigger e et er uid x (occ_automation_id x) s = (r, s1, fx)" "auto_ok s" "runtime_ok (core s)"
    "x \<in> set (st_occurrences s)" "occ_status x = OccurrenceStatus.MATERIALIZED"
  shows "triggered trigger et s s1 \<and> reacts s1 r"
proof (cases "automations_get uid (occ_automation_id x) s")
  case (Inl err)
  then show ?thesis
    using assms(1) by (auto simp: open_reaction_def triggered_def reacts_def)
next
  case (Inr found)
  show ?thesis
  proof (cases found)
    case None
    then show ?thesis
      using assms(1) Inr auto_write1 [OF occurrence_end_writes(1) [OF assms(4,5)]]
      by (auto simp: open_reaction_def triggered_def reacts_def job_end_def)
  next
    case (Some a)
    note row = automations_get_stored [OF assms(2) Inr [unfolded Some]]
    show ?thesis
    proof (cases "occ_definition_revision x \<noteq> aut_definition_revision a \<or> aut_status a = AutomationStatus.CANCELLED")
      case True
      then show ?thesis
        using assms(1) Inr Some auto_write1 [OF occurrence_end_writes(2) [OF assms(4,5)]]
        by (auto simp: open_reaction_def triggered_def reacts_def job_end_def)
    next
      case False
      with assms(1) Inr Some have fire: "fire_reaction trigger e et er a x s = (r, s1, fx)"
        by (simp add: open_reaction_def)
      have "reacts s1 r"
        using fire fire_reaction_writes [OF _ assms(2-5) row(1) row(2) [symmetric]]
        by (auto simp: reacts_def job_end_def split: sum.split)
      then show ?thesis
        using fire_reaction_cases(1) [OF fire] by simp
    qed
  qed
qed

lemma occurrence_reaction_cases:
  assumes "occurrence_reaction trigger e et er uid oid aid s = (r, s1, fx)"
    "auto_ok s"
  obtains (open_) x where "x \<in> set (st_occurrences s)" "occ_id x = oid" "occ_automation_id x = aid"
      "occ_status x = OccurrenceStatus.MATERIALIZED" "open_reaction trigger e et er uid x aid s = (r, s1, fx)"
  | (closed) st code where "r = Inr (st, code, s)" "st \<in> job_end" "s1 = s" "fx = []"
proof (cases "occurrences_get oid s")
  case None
  then show ?thesis
    using assms(1) by (auto simp: occurrence_reaction_def job_end_def intro: closed)
next
  case (Some x)
  show ?thesis
  proof (cases "occ_automation_id x = aid \<and> occ_status x = OccurrenceStatus.MATERIALIZED")
    case True
    then show ?thesis
      using assms(1) Some occurrences_get_stored [OF Some] by (intro open_ [of x]) (simp_all add: occurrence_reaction_def)
  next
    case False
    moreover have "occ_status x \<noteq> OccurrenceStatus.NOT_MET"
      using auto_okD(4) [OF assms(2)] occurrences_get_stored [OF Some] by (simp add: occurrence_ok_def)
    ultimately show ?thesis
      using assms(1) Some
      by (cases "occ_status x")
         (auto simp: occurrence_reaction_def job_end_def split: if_splits option.splits intro: closed)
  qed
qed

lemma occurrence_reaction_writes:
  assumes "occurrence_reaction trigger e et er uid oid aid s = (r, s1, fx)" "auto_ok s" "runtime_ok (core s)"
  shows "triggered trigger et s s1" "reacts s1 r"
proof -
  have "triggered trigger et s s1 \<and> reacts s1 r"
    using assms(1,2)
  proof (cases rule: occurrence_reaction_cases)
    case (open_ x)
    then show ?thesis
      using open_reaction_writes [OF _ assms(2,3) open_(1,4)] by simp
  qed (simp add: triggered_def reacts_def)
  then show "triggered trigger et s s1" "reacts s1 r"
    by simp_all
qed

lemma settle_auto:
  "jobs_settle jid w ep st now code (core s) = (b, c) \<Longrightarrow> st \<in> job_end \<Longrightarrow> auto_writes s (s\<lparr>core := c\<rparr>)"
  unfolding job_end_def by (rule jobs_settle_auto)

lemma execute_claimed_cases:
  assumes "execute_claimed trigger e et er j owner s = (r, s', fx)"
  obtains (unread) err where "r = Inl err" "s' = s" "fx = []"
  | (not_owner) "r = Inr LOST_CLAIM" "s' = s" "fx = []"
  | (failed) oid aid err where "job_uuid (u ''occurrence_id'') j = Inr oid" "job_uuid (u ''automation_id'') j = Inr aid"
      "occurrence_reaction trigger e et er (job_user_id j) oid aid s = (Inl err, s', fx)" "r = Inl err"
  | (lost) oid aid st code s2 where "job_uuid (u ''occurrence_id'') j = Inr oid" "job_uuid (u ''automation_id'') j = Inr aid"
      "occurrence_reaction trigger e et er (job_user_id j) oid aid s = (Inr (st, code, s2), s', fx)" "r = Inr LOST_CLAIM"
  | (settled) oid aid st code s1 s2 c where "job_uuid (u ''occurrence_id'') j = Inr oid" "job_uuid (u ''automation_id'') j = Inr aid"
      "owns_claim (clk e 0) (jobs_get_by_dedupe_key (job_user_id j) (job_dedupe_key j) (core s)) j owner"
      "occurrence_reaction trigger e et er (job_user_id j) oid aid s = (Inr (st, code, s2), s1, fx)"
      "jobs_settle (job_id j) owner (job_claim_epoch j) st (clk e 3) code (core s2) = (True, c)"
      "r = Inr (if st = DurableJobStatus.COMPLETED then COMPLETED else FAILED)" "s' = s2\<lparr>core := c\<rparr>"
proof (cases "bindE (job_uuid (u ''occurrence_id'') j) (\<lambda>oid. bindE (job_uuid (u ''automation_id'') j) (\<lambda>aid. Inr (oid, aid)))")
  case (Inl err)
  then show ?thesis
    using assms by (auto simp: execute_claimed_def intro: unread)
next
  case (Inr ids)
  then obtain oid aid where ids: "ids = (oid, aid)" "job_uuid (u ''occurrence_id'') j = Inr oid"
      "job_uuid (u ''automation_id'') j = Inr aid"
    by auto
  show ?thesis
  proof (cases "owns_claim (clk e 0) (jobs_get_by_dedupe_key (job_user_id j) (job_dedupe_key j) (core s)) j owner")
    case False
    then show ?thesis
      using assms Inr ids(1) by (auto simp: execute_claimed_def intro: not_owner)
  next
    case True
    obtain q s1 fx1 where q: "occurrence_reaction trigger e et er (job_user_id j) oid aid s = (q, s1, fx1)"
      by (cases "occurrence_reaction trigger e et er (job_user_id j) oid aid s") auto
    show ?thesis
    proof (cases q)
      case (Inl err)
      then show ?thesis
        using assms True \<open>_ = Inr ids\<close> ids q by (auto simp: execute_claimed_def intro: failed)
    next
      case ok: (Inr v)
      obtain st code s2 where v: "v = (st, code, s2)"
        by (cases v) auto
      obtain b c where "jobs_settle (job_id j) owner (job_claim_epoch j) st (clk e 3) code (core s2) = (b, c)"
        by fastforce
      then show ?thesis
        using assms True Inr ids q ok v
        by (cases b) (auto simp: execute_claimed_def intro: settled lost)
    qed
  qed
qed

lemma execute_claimed_writes:
  assumes "execute_claimed trigger e et er j owner s = (r, s', fx)" "auto_ok s" "runtime_ok (core s)"
  shows "\<exists>s1. triggered trigger et s s1 \<and> auto_writes s1 s'"
  using assms(1)
proof (cases rule: execute_claimed_cases)
  case (settled oid aid st code s1 s2 c)
  note w = occurrence_reaction_writes [OF settled(4) assms(2,3)]
  then have "auto_writes s1 s2" "auto_writes s2 s'"
    using settle_auto [OF settled(5)] by (simp_all add: reacts_def settled(7))
  with w(1) show ?thesis
    by (meson rtranclp_trans)
next
  case (failed oid aid err)
  then show ?thesis
    using occurrence_reaction_writes(1) [OF failed(3) assms(2,3)] by blast
next
  case (lost oid aid st code s2)
  then show ?thesis
    using occurrence_reaction_writes(1) [OF lost(3) assms(2,3)] by blast
qed (auto simp: triggered_def)

lemma give_up_writes:
  assumes "give_up e uid oid s = Inr s'" "auto_ok s"
  shows "auto_writes s s'"
proof (cases "occurrences_get oid s")
  case (Some x)
  let ?s = "occurrences_update (occurrence_fail (clk e 2) x) s"
  show ?thesis
  proof (cases "occ_status x = OccurrenceStatus.MATERIALIZED")
    case True
    have w: "auto_write s ?s"
      using occurrence_end_writes(1) occurrences_get_stored [OF Some] True by blast
    have keys: "keyed aut_id (st_automations ?s)"
      using auto_keysD(1) [OF auto_okD(1) [OF auto_write_ok [OF w assms(2)]]] .
    have "auto_writes ?s s'"
      using assms(1) Some True
      by (auto simp: give_up_def Let_def split: option.splits if_splits
          dest!: automations_get_stored(1) [OF auto_write_ok [OF w assms(2)]] intro: settle_one_shot_writes [OF _ _ keys])
    with w show ?thesis
      by (rule converse_rtranclp_into_rtranclp)
  qed (use assms Some in \<open>simp add: give_up_def\<close>)
qed (use assms in \<open>simp add: give_up_def\<close>)

lemma settled_or_same:
  assumes "(case jobs_settle jid owner ep st now code (core s1) of (b, c) \<Rightarrow>
      if b then Inr (q, s1\<lparr>core := c\<rparr>) else Inr (LOST_CLAIM, s)) = Inr (r, s')" "st \<in> job_end"
  shows "s' = s \<or> auto_writes s1 s'"
proof -
  obtain b c where "jobs_settle jid owner ep st now code (core s1) = (b, c)"
    by fastforce
  then show ?thesis
    using assms settle_auto [of jid owner ep st now code s1 b c] by (cases b) auto
qed

lemma record_failure_writes:
  assumes "record_failure base maximum e j owner s = Inr (r, s')" "auto_ok s"
  shows "auto_writes s s'"
proof (cases "owns_claim (clk e 1) (jobs_get_by_dedupe_key (job_user_id j) (job_dedupe_key j) (core s)) j owner")
  case True
  show ?thesis
  proof (cases "job_delivery_attempt j < job_max_delivery_attempts j")
    case less: True
    obtain b c where q: "jobs_release_for_retry (job_id j) owner (job_claim_epoch j)
        (clk e 0 + retry_delay base maximum (job_delivery_attempt j - 1)) (clk e 0)
        (u ''OCCURRENCE_EXECUTION_RETRY'') (core s) = (b, c)"
      by fastforce
    then show ?thesis
      using assms(1) True less jobs_release_auto [OF q]
      by (cases b) (auto simp: record_failure_def Let_def simp del: One_nat_def)
  next
    case False
    then obtain oid s1 where s1: "give_up e (job_user_id j) oid s = Inr s1"
      and end_: "s' = s \<or> auto_writes s1 s'"
      using assms(1) True unfolding record_failure_def Let_def
      by (auto simp: job_end_def simp del: One_nat_def dest!: settled_or_same)
    then show ?thesis
      using give_up_writes [OF s1 assms(2)] by (auto intro: rtranclp_trans)
  qed
qed (use assms(1) in \<open>simp add: record_failure_def Let_def del: One_nat_def\<close>)

lemma complete_settled_writes:
  "complete_settled e xs s = Inr s' \<Longrightarrow> auto_ok s \<Longrightarrow> auto_writes s s'"
proof (induction e xs s rule: complete_settled.induct)
  case (2 e uid aid rev rest s)
  obtain found s1 where found: "automations_get uid aid s = Inr found"
    and s1: "(case found of None \<Rightarrow> Inr s | Some a \<Rightarrow>
      if aut_definition_revision a = rev then settle_one_shot (clk e 0) a s else Inr s) = Inr s1"
    and rest: "complete_settled (later e 1) rest s1 = Inr s'"
    using "2.prems"(1) by auto
  have w: "auto_writes s s1"
    using s1 found auto_keysD(1) [OF auto_okD(1) [OF "2.prems"(2)]]
    by (auto split: option.splits if_splits dest!: automations_get_stored(1) [OF "2.prems"(2)]
        intro: settle_one_shot_writes)
  show ?case
    using "2.IH" [OF found s1 rest auto_writes_ok [OF w "2.prems"(2)]] w by (rule rtranclp_trans [rotated])
qed simp

lemma reconcile_exhausted_writes:
  assumes "reconcile_exhausted e s = Inr (n, s')" "auto_ok s"
  shows "auto_writes s s'"
proof -
  have w: "auto_write s (snd (occurrences_fail_exhausted (clk e 0) s))"
    by (rule auto_write.exhaust)
  have "auto_writes (snd (occurrences_fail_exhausted (clk e 0) s)) s'"
    using assms(1) auto_write_ok [OF w assms(2)]
    by (auto simp: reconcile_exhausted_def case_prod_unfold dest: complete_settled_writes)
  with w show ?thesis
    by (rule converse_rtranclp_into_rtranclp)
qed

section \<open>Beside the other components\<close>

text \<open>The personal state writes no table of the automations, but a merge rebinds their things.\<close>

definition auto_same :: "store \<Rightarrow> store \<Rightarrow> bool" where
  "auto_same s s' \<longleftrightarrow> (\<exists>g. st_automations s' = map (\<lambda>a. a\<lparr>aut_thing_id := g a\<rparr>) (st_automations s))
   \<and> st_occurrences s' = st_occurrences s \<and> st_intents s' = st_intents s
   \<and> st_deliveries s' = st_deliveries s \<and> st_automation_ops s' = st_automation_ops s"

lemma auto_sameI:
  assumes "st_automations s' = st_automations s" "st_occurrences s' = st_occurrences s" "st_intents s' = st_intents s"
    "st_deliveries s' = st_deliveries s" "st_automation_ops s' = st_automation_ops s"
  shows "auto_same s s'"
  unfolding auto_same_def using assms by (intro conjI exI [of _ aut_thing_id]) simp_all

lemma auto_same_trans: "auto_same s s' \<Longrightarrow> auto_same s' s'' \<Longrightarrow> auto_same s s''"
  by (fastforce simp: auto_same_def)

lemma rebind_auto_same: "things_rebind_merged_references dup canon s = Inr s' \<Longrightarrow> auto_same s s'"
proof -
  assume a: "things_rebind_merged_references dup canon s = Inr s'"
  have "upd (\<lambda>a. aut_thing_id a = Some dup) (\<lambda>a. a\<lparr>aut_thing_id := Some canon\<rparr>) (st_automations s) =
      map (\<lambda>a. a\<lparr>aut_thing_id := (if aut_thing_id a = Some dup then Some canon else aut_thing_id a)\<rparr>) (st_automations s)"
    by (simp add: upd_def)
  then have "st_automations s' =
      map (\<lambda>a. a\<lparr>aut_thing_id := (if aut_thing_id a = Some dup then Some canon else aut_thing_id a)\<rparr>) (st_automations s)"
    using a by (auto simp: things_rebind_merged_references_def Let_def)
  moreover have "st_occurrences s' = st_occurrences s" "st_intents s' = st_intents s"
      "st_deliveries s' = st_deliveries s" "st_automation_ops s' = st_automation_ops s"
    using a by (auto simp: things_rebind_merged_references_def Let_def)
  ultimately show ?thesis
    unfolding auto_same_def
    by (intro conjI exI [of _ "\<lambda>a. if aut_thing_id a = Some dup then Some canon else aut_thing_id a"])
qed

lemma state_write_auto_same: "state_write s s' \<Longrightarrow> auto_same s s'"
proof (induction rule: state_write.induct)
  case (rebind dup canon s s' uid)
  then show ?case
    by (simp add: rebind_auto_same)
qed (auto intro!: auto_sameI simp: set_things_def clear_thing_def things_delete_owned_components_def
    things_detach_tasks_def users_ensure_def dates_unset_primary_def relations_add_def)

lemma state_writes_auto_same: "state_writes s s' \<Longrightarrow> auto_same s s'"
  by (induction rule: rtranclp_induct) (auto intro: auto_sameI auto_same_trans state_write_auto_same)

lemma auto_ok_same:
  assumes "auto_ok s" "auto_same s s'" "jobs_kept (core s) (core s')"
  shows "auto_ok s'"
proof -
  obtain g where g: "st_automations s' = map (\<lambda>a. a\<lparr>aut_thing_id := g a\<rparr>) (st_automations s)"
    and same: "st_occurrences s' = st_occurrences s" "st_intents s' = st_intents s"
      "st_deliveries s' = st_deliveries s" "st_automation_ops s' = st_automation_ops s"
    using assms(2) by (auto simp: auto_same_def)
  have "auto_keys s'"
    using auto_okD(1) [OF assms(1)] by (simp add: auto_keys_def g same keyed_def comp_def)
  moreover have "automation_ok (a\<lparr>aut_thing_id := x\<rparr>)" if "automation_ok a" for a x
    using that by (simp add: automation_ok_def automation_schedule_ok_def automation_check_def)
  moreover have "past_slot s' x" if "past_slot s x" for x
    using that by (auto simp: past_slot_def g)
  moreover have "occurrence_ok s' x" if "x \<in> set (st_occurrences s)" for x
    using auto_okD(4) [OF assms(1) that] jobs_keptD [OF assms(3)]
    by (rule occurrence_ok_mono) (simp_all add: same)
  ultimately show ?thesis
    using assms(1) by (auto simp: auto_ok_def g same)
qed

lemma create_automation_run_outside:
  assumes "create_automation_run c e uid aid th title message key s = Inr (v, s', fx)"
  shows "db_things s' = db_things s" "db_sources s' = db_sources s"
proof -
  have "db_things s' = db_things s \<and> db_sources s' = db_sources s"
    using assms
    by (auto simp: create_automation_run_def automation_inbox_def Let_def case_prod_Inr runs_add_def messages_add_def
        runs_append_event_def jobs_add_def threads_add_def users_ensure_exists_def split: if_splits option.splits)
  then show "db_things s' = db_things s" "db_sources s' = db_sources s"
    by simp_all
qed

end
