(* ===== verification/System.thy ===== *)
theory System
  imports StateMutations RuntimeHistory AutomationReactions
begin

text \<open>
  The system: the committed units of work of the components on the common store. Every step keeps
  the invariants, and is a step of the runtime on the tables of the runtime.
  A step of the automations is any sequence of the writes of \<open>AutomationMachine\<close>; that the code of the
  automations makes such sequences is shown in \<open>AutomationDue\<close> and \<open>AutomationReactions\<close>.
\<close>

section \<open>Steps\<close>

text \<open>
  \<open>e\<close> is the environment of a step of the runtime. Such a step leaves the tables of the personal
  state and of the sources as they are.
\<close>

inductive system_step :: "env \<Rightarrow> store \<Rightarrow> store \<Rightarrow> bool" for e where
  runtime: "service_step e (core s) c \<Longrightarrow> db_things c = st_things s \<Longrightarrow>
    db_sources c = db_sources (core s) \<Longrightarrow> system_step e s (s\<lparr>core := c\<rparr>)"
| mutation: "state_mutation user_id key s s' \<Longrightarrow> system_step e s s'"
| tool: "mutation_op user_id key f \<Longrightarrow>
    complete_tool_in show_json e user_id rid action owner token tool f s = Inr (v, s', fx) \<Longrightarrow>
    system_step e s s'"
| automation: "auto_writes s s' \<Longrightarrow> system_step e s s'"

abbreviation system_history :: "env list \<Rightarrow> store \<Rightarrow> store \<Rightarrow> bool" where
  "system_history \<equiv> trace system_step"

definition system_reachable :: "store \<Rightarrow> bool" where
  "system_reachable s \<longleftrightarrow> (\<exists>es. system_history es empty_store s)"

lemma complete_tool_once:
  assumes "complete_tool_in show_json e uid rid action owner token tool f s = Inr (v, s', fx)"
    "mutation_op uid key f" "state_keys s"
  obtains s1 c where "once uid key s s1" "s' = s1\<lparr>core := c\<rparr>" "db_things c = st_things s1"
proof -
  from assms(1) obtain out s1 c where c: "f s = Inr (out, s1)" "s' = s1\<lparr>core := c\<rparr>"
      "db_things c = st_things s1"
    by (rule complete_tool_in_cases)
  have "once uid key s s1"
    by (rule audited_once [OF mutation_op_audited [OF assms(2) c(1) assms(3)]])
  then show ?thesis
    using c(2,3) by (rule that)
qed

lemma once_ok: "once uid key s s' \<Longrightarrow> state_ok s \<Longrightarrow> state_ok s'"
  by (auto simp: once_def intro: state_writes_ok)

text \<open>The automations leave the personal state and the tables of the runtime but the jobs alone.\<close>

definition state_same :: "store \<Rightarrow> store \<Rightarrow> bool" where
  "state_same s s' \<longleftrightarrow> st_things s' = st_things s \<and> st_tasks s' = st_tasks s \<and> st_entries s' = st_entries s
   \<and> st_dates s' = st_dates s \<and> st_blockers s' = st_blockers s \<and> st_relations s' = st_relations s
   \<and> st_thing_sources s' = st_thing_sources s
   \<and> st_mutations s' = st_mutations s \<and> st_timeline s' = st_timeline s
   \<and> outside_writes (core s) (core s')"

lemma auto_write_same: "auto_write s s' \<Longrightarrow> state_same s s'"
proof (induction rule: auto_write.induct)
  case (outside s c)
  then show ?case
    by (auto simp: state_same_def)
next
  case (fire a s t now a' x j)
  then show ?case
    by (auto simp: state_same_def put_automation_def intro: outside_write.add_job)
qed (auto simp: state_same_def put_automation_def occurrences_update_def occurrences_fail_exhausted_def)

lemma auto_writes_same: "auto_writes s s' \<Longrightarrow> state_same s s'"
proof (induction rule: rtranclp_induct)
  case (step s1 s2)
  then show ?case
    using auto_write_same [OF step(2)] by (auto simp: state_same_def)
qed (simp add: state_same_def)

lemma state_same_ok: "state_same s s' \<Longrightarrow> state_ok s \<Longrightarrow> state_ok s'"
  by (simp add: state_same_def state_ok_def state_keys_def state_rows_def state_refs_def audit_ok_def
      referred_def live_def live_for_def)

lemma system_step_ok:
  assumes "state_ok s" "system_step e s s'"
  shows "state_ok s'"
  using assms(2)
proof (cases rule: system_step.cases)
  case (mutation user_id key)
  then show ?thesis
    using assms(1) by (blast intro: once_ok state_mutation_once state_ok_keys)
next
  case (tool user_id key f show_json rid action owner token tool v fx)
  obtain s1 c where "once user_id key s s1" "s' = s1\<lparr>core := c\<rparr>" "db_things c = st_things s1"
    by (rule complete_tool_once [OF tool(2,1) state_ok_keys [OF assms(1)]])
  then show ?thesis
    using assms(1) by (simp add: once_ok)
qed (use assms(1) in \<open>auto dest: auto_writes_same state_same_ok\<close>)

interpretation system: invariant_system system_step state_ok
  by unfold_locales (rule system_step_ok)

section \<open>The ledger of mutations\<close>

lemma once_keeps:
  "once uid key s s' \<Longrightarrow> audit_get_mutation uid' key' s = Some m \<Longrightarrow> audit_get_mutation uid' key' s' = Some m"
  by (auto simp: once_def intro: audit_get_mutation_grows state_writes_grow)

interpretation ledger: persistent system_step state_ok "\<lambda>s (uid, key). audit_get_mutation uid key s"
proof
  fix s e s' k m
  assume ok: "state_ok s" and step: "system_step e s s'"
    and m: "(case k of (uid, key) \<Rightarrow> audit_get_mutation uid key s) = Some m"
  obtain uid key where k: "k = (uid, key)"
    by (cases k)
  with m have m: "audit_get_mutation uid key s = Some m"
    by simp
  have "audit_get_mutation uid key s' = Some m"
    using step
  proof (cases rule: system_step.cases)
    case (runtime c)
    with m show ?thesis
      by (simp add: audit_get_mutation_def)
  next
    case (mutation user_id key')
    show ?thesis
      by (rule once_keeps [OF state_mutation_once [OF mutation state_ok_keys [OF ok]] m])
  next
    case (tool user_id key' f show_json rid action owner token tool v fx)
    obtain s1 c where s1: "once user_id key' s s1" "s' = s1\<lparr>core := c\<rparr>"
      by (rule complete_tool_once [OF tool(2,1) state_ok_keys [OF ok]])
    show ?thesis
      using once_keeps [OF s1(1) m] by (simp add: s1(2) audit_get_mutation_def)
  next
    case automation
    then have "st_mutations s' = st_mutations s"
      by (auto dest!: auto_writes_same simp: state_same_def)
    with m show ?thesis
      by (simp add: audit_get_mutation_def)
  qed
  with k show "(case k of (uid, key) \<Rightarrow> audit_get_mutation uid key s') = Some m"
    by simp
qed

section \<open>The runtime within the system\<close>

lemma system_step_core:
  assumes "system_step e s s'" "state_keys s"
  shows "service_step e (core s) (core s')"
  using assms(1)
proof (cases rule: system_step.cases)
  case (mutation user_id key)
  then have "state_writes s s'"
    using state_mutation_once [OF mutation assms(2)] by (simp add: once_def)
  then show ?thesis
    by (blast intro: service_step.outside state_writes_core)
next
  case (tool user_id key f show_json rid action owner token tool v fx)
  from tool(2) obtain s1 c where "s' = s1\<lparr>core := c\<rparr>"
      "complete_mutation_tool show_json e user_id rid action owner token tool (core_mutation f s) (core s)
        = Inr (v, c, fx)"
    by (rule complete_tool_in_cases)
  moreover have "outside_writes (core s) c'" if "core_mutation f s (core s) = Inr (out, c')" for out c'
    by (rule core_mutation_writes [OF tool(1) assms(2) that])
  ultimately show ?thesis
    by (simp add: service_step.complete_mutation_tool)
next
  case automation
  then show ?thesis
    by (auto dest!: auto_writes_same simp: state_same_def intro: service_step.outside)
qed simp

lemma system_history_core:
  assumes "system_history es s s'" "state_ok s"
  shows "history es (core s) (core s')"
  using assms
proof (induction rule: trace.induct)
  case (more es s s' e s'')
  then show ?case
    by (blast intro: trace.more system_step_core state_ok_keys system.trace_inv)
qed (rule trace.none)

lemma system_reachable_ok: "system_reachable s \<Longrightarrow> state_ok s"
  by (auto simp: system_reachable_def intro: system.trace_inv)

lemma core_empty: "core empty_store = empty_db"
  by (simp add: empty_store_def)

lemma system_reachable_core: "system_reachable s \<Longrightarrow> reachable (core s)"
  using system_history_core [OF _ state_ok_empty, of _ s]
  by (auto simp: system_reachable_def reachable_def core_empty)

lemma system_reachable_history: "system_reachable s \<Longrightarrow> system_history es s s' \<Longrightarrow> system_reachable s'"
  unfolding system_reachable_def by (blast intro: trace_append)

section \<open>The automations within the system\<close>

text \<open>The invariants of all components.\<close>

definition system_ok :: "store \<Rightarrow> bool" where
  "system_ok s \<longleftrightarrow> state_ok s \<and> runtime_ok (core s) \<and> auto_ok s"

lemma system_step_auto:
  assumes "system_ok s" "system_step e s s'"
  shows "auto_ok s'"
proof -
  have ok: "state_ok s" "runtime_ok (core s)" "auto_ok s"
    using assms(1) by (simp_all add: system_ok_def)
  have jobs: "jobs_kept (core s) (core s')"
    using service_jobs_later [OF system_step_core [OF assms(2) state_ok_keys [OF ok(1)]] ok(2)]
    unfolding jobs_later_def jobs_kept_def job_later_def by blast
  show ?thesis
    using assms(2)
  proof (cases rule: system_step.cases)
    case (runtime c)
    have "auto_same s s'"
      by (rule auto_sameI) (simp_all add: runtime(1))
    then show ?thesis
      by (rule auto_ok_same [OF ok(3) _ jobs])
  next
    case (mutation user_id key)
    have "auto_same s s'"
      using state_mutation_once [OF mutation state_ok_keys [OF ok(1)]]
      by (auto simp: once_def intro: state_writes_auto_same)
    then show ?thesis
      by (rule auto_ok_same [OF ok(3) _ jobs])
  next
    case (tool user_id key f show_json rid action owner token tool v fx)
    obtain s1 c where s1: "once user_id key s s1" "s' = s1\<lparr>core := c\<rparr>"
      by (rule complete_tool_once [OF tool(2,1) state_ok_keys [OF ok(1)]])
    then have "auto_same s s1" "auto_same s1 s'"
      by (auto simp: once_def intro: state_writes_auto_same auto_sameI)
    then show ?thesis
      by (blast intro: auto_ok_same [OF ok(3) _ jobs] auto_same_trans)
  next
    case automation
    then show ?thesis
      using ok(3) by (rule auto_writes_ok)
  qed
qed

lemma system_step_system_ok:
  assumes "system_ok s" "system_step e s s'"
  shows "system_ok s'"
  using assms system_step_auto [OF assms] system_step_ok system_step_core state_ok_keys
    runtime.step_inv
  unfolding system_ok_def by blast

interpretation whole: invariant_system system_step system_ok
  by unfold_locales (rule system_step_system_ok)

lemma system_ok_empty: "system_ok empty_store"
  by (simp add: system_ok_def core_empty auto_ok_empty)

lemma system_reachable_system_ok: "system_reachable s \<Longrightarrow> system_ok s"
  unfolding system_reachable_def by (blast intro: whole.trace_inv system_ok_empty)

lemma system_reachable_auto_ok: "system_reachable s \<Longrightarrow> auto_ok s"
  by (simp add: system_reachable_system_ok [unfolded system_ok_def])

text \<open>An execution of an occurrence is a step of the runtime, if its trigger commits a run, and one of the automations.\<close>

lemma triggered_history:
  assumes "triggered trigger et s s1"
  shows "\<exists>es. system_history es s s1"
  using assms unfolding triggered_def
proof (elim disjE exE conjE)
  fix c uid aid th title message key v c' fx
  assume run: "create_automation_run c et uid aid th title message key (core s) = Inr (v, c', fx)"
    and s1: "s1 = s\<lparr>core := c'\<rparr>"
  have "system_step et s s1"
    unfolding s1 using create_automation_run_outside [OF run]
    by (intro system_step.runtime service_step.create_automation_run [OF run]) simp_all
  then show ?thesis
    by (blast intro: trace_one)
qed (auto intro: trace.none)

lemma execute_claimed_history:
  assumes "execute_claimed trigger e et er j owner s = (r, s', fx)" "system_ok s"
  shows "\<exists>es. system_history es s s'"
proof -
  obtain s1 where "triggered trigger et s s1" "auto_writes s1 s'"
    using execute_claimed_writes [OF assms(1)] assms(2) by (auto simp: system_ok_def)
  then show ?thesis
    using triggered_history trace_append trace_one system_step.automation by metis
qed

end
