(* ===== verification/Scenario.thy ===== *)
theory Scenario
  imports RuntimeHistory
begin

text \<open>
  A worked scenario, each step evaluated by the simplifier: user 7 opens thread 16, posts a message
  that queues run 32, and the worker \<open>w1\<close> takes the job, claims the run, executes a tool, asks
  the user or completes. The witnesses of the properties are taken from it. \<open>demo_env a t\<close> draws
  the identifiers \<open>a, a + 1, \<dots>\<close> and the instants \<open>t, t + 1, \<dots>\<close>.
\<close>

definition demo_env :: "uuid \<Rightarrow> time \<Rightarrow> env" where
  "demo_env a t = \<lparr>clk = (\<lambda>i. t + int i), uid4 = (\<lambda>i. a + of_nat i)\<rparr>"

definition demo_service :: service where
  "demo_service = \<lparr>svc_run_dispatcher = True, svc_wakeup = True, svc_budget_snapshot = Map.empty\<rparr>"

lemma clk_demo [simp]: "clk (demo_env a t) i = t + int i"
  and uid4_demo [simp]: "uid4 (demo_env a t) i = a + of_nat i"
  by (simp_all add: demo_env_def)

lemma demo_service_simps [simp]: "svc_run_dispatcher demo_service" "svc_wakeup demo_service"
  "svc_budget_snapshot demo_service = Map.empty"
  by (simp_all add: demo_service_def)

lemma strip_literals [simp]: "strip (u ''Inbox'') = u ''Inbox''" "strip (u ''hello'') = u ''hello''"
  "strip (u ''w1'') = u ''w1''"
  by (simp_all add: strip_id u_def is_space_def)

lemma agent_run_key_not_blank [simp]: "strip (agent_run_key rid) \<noteq> []"
proof -
  have "97 \<in> set (agent_run_key rid)"
    by (simp add: agent_run_key_def u_def)
  then show ?thesis
    unfolding strip_eq_Nil_iff by (rule_tac notI) (drule (1) bspec, simp add: is_space_def)
qed

definition demo_th :: Thread where
  "demo_th = \<lparr>thr_user_id = 7, thr_title = u ''Inbox'', thr_idempotency_key = u ''k1'', thr_id = 16,
     thr_active_thing_id = None, thr_archived_at = None, thr_created_at = 1001, thr_updated_at = 1002\<rparr>"

definition demo_user :: User where
  "demo_user = \<lparr>usr_id = 7, usr_status = UserStatus.ACTIVE, usr_external_subject = None,
     usr_created_at = 1000, usr_updated_at = 1000\<rparr>"

definition demo1 :: db where
  "demo1 = empty_db\<lparr>db_users := [demo_user], db_threads := [demo_th]\<rparr>"

lemma demo1_step:
  "create_thread (demo_env 16 1000) 7 (u ''Inbox'') (u ''k1'') None empty_db =
     Inr (to_thread_dto False demo_th, demo1, [])"
  by (simp add: create_thread_def Let_def repo_defs empty_db_def demo1_def ins_def demo_user_def demo_th_def)

definition demo_run :: AgentRun where
  "demo_run = (new_run 7 16 RunTrigger.USER_MESSAGE (u ''k2'') Map.empty 32 2000 2001)
     \<lparr>run_input_message_id := Some 33\<rparr>"

definition demo_msg :: Message where
  "demo_msg = \<lparr>msg_user_id = 7, msg_thread_id = 16, msg_role = MessageRole.USER,
     msg_content = u ''hello'', msg_id = 33, msg_run_id = Some 32, msg_source_ids = [],
     msg_metadata = Map.empty, msg_created_at = 2002\<rparr>"

definition demo_ev :: "nat \<Rightarrow> uuid \<Rightarrow> time \<Rightarrow> RunEventType \<Rightarrow> jdict \<Rightarrow> RunEvent" where
  "demo_ev n eid now ty d = \<lparr>evt_run_id = 32, evt_sequence = int n, evt_event_type = ty,
     evt_data = d, evt_visibility = u ''CLIENT'', evt_schema_version = 1, evt_id = eid,
     evt_occurred_at = now\<rparr>"

definition demo_job :: DurableJob where
  "demo_job = \<lparr>job_user_id = 7, job_kind = DurableJobKind.AGENT_RUN, job_dedupe_key = agent_run_key 32,
     job_payload = [u ''run_id'' \<mapsto> juuid 32], job_id = 35, job_status = DurableJobStatus.READY,
     job_priority = 0, job_available_at = 2004, job_delivery_attempt = 0,
     job_max_delivery_attempts = 5, job_claimed_by = None, job_claim_epoch = 0,
     job_lease_until = None, job_last_error_code = None, job_created_at = 2005, job_updated_at = 2006\<rparr>"

definition demo2 :: db where
  "demo2 = demo1\<lparr>db_threads := [demo_th\<lparr>thr_updated_at := 2002\<rparr>], db_messages := [demo_msg],
     db_runs := [demo_run\<lparr>run_event_sequence := 1\<rparr>],
     db_events := [demo_ev 1 34 2003 RunEventType.RUN_QUEUED
       [u ''status'' \<mapsto> JStr (u ''QUEUED''), u ''label'' \<mapsto> JStr QUEUED_LABEL,
        u ''phase'' \<mapsto> JStr (u ''queued'')]],
     db_jobs := [demo_job]\<rparr>"

lemma demo2_step:
  "create_user_run demo_service (demo_env 32 2000) 7 16 (u ''hello'') [] (u ''k2'') demo1 =
     Inr (to_run_dto False demo_run, demo2, [Dispatch 7 32])"
  by (simp add: create_user_run_def Let_def repo_defs demo1_def empty_db_def demo2_def ins_def
      demo_th_def demo_run_def demo_msg_def demo_ev_def demo_job_def new_run_def dispatch_def
      agent_run_job_def DurableJob_init_def)

lemma seconds_30: "timedelta_seconds 30 = 30000000"
  by code_simp

definition demo_event2 :: RunEvent where
  "demo_event2 = demo_ev 2 49 3001 RunEventType.RUN_STARTED
     [u ''phase'' \<mapsto> JStr (u ''executive''), u ''label'' \<mapsto> JStr WORKING_LABEL,
      u ''attempt'' \<mapsto> JInt 1, u ''claim_owner'' \<mapsto> JStr (u ''w1'')]"

definition demo_claimed :: AgentRun where
  "demo_claimed = claim_row (u ''w1'') 48 3000 30003000 (demo_run\<lparr>run_event_sequence := 1\<rparr>)"

definition demo3 :: db where
  "demo3 = demo2\<lparr>db_runs := [demo_claimed\<lparr>run_event_sequence := 2\<rparr>],
     db_events := db_events demo2 @ [demo_event2]\<rparr>"

lemma demo3_step:
  "claim_run demo_service (demo_env 48 3000) 7 32 (u ''w1'') 30 demo2 =
     Inr (Some (to_run_dto False demo_claimed), demo3, [Publish 32 2])"
  by (simp add: claim_run_def Let_def repo_defs demo2_def demo1_def empty_db_def ins_def demo3_def
      demo_claimed_def demo_event2_def demo_run_def new_run_def run_claimable_def claim_row_def
      seconds_30 event_clash_def demo_ev_def publish_wakeup_def)

definition demo_tool :: ToolExecution where
  "demo_tool = new_tool_execution 32 (u ''a1'') (u ''send'') (u ''h'') (u ''w1'') 64 30004000 False
     None 65 4001 4002"

definition demo4 :: db where
  "demo4 = demo3\<lparr>db_tools := [demo_tool]\<rparr>"

lemma demo4_step:
  "claim_tool_execution (demo_env 64 4000) 7 32 (u ''a1'') (u ''send'') (u ''h'') (u ''w1'') 30 48
     False None demo3 =
     Inr (\<lparr>tcl_acquired = True, tcl_claim_token = Some 64, tcl_cached_result = None,
       tcl_blocked_reason = None\<rparr>, demo4, [])"
  by (simp add: claim_tool_execution_def Let_def repo_defs demo3_def demo2_def demo1_def empty_db_def
      ins_def demo4_def demo_claimed_def demo_run_def new_run_def claim_row_def seconds_30 demo_tool_def)

definition demo_result :: jdict where
  "demo_result = [u ''code'' \<mapsto> JStr (u ''SENT'')]"

definition demo5 :: db where
  "demo5 = demo3\<lparr>db_tools := [demo_tool\<lparr>tex_status := ToolExecutionStatus.SUCCEEDED,
     tex_result := Some demo_result, tex_receipt := Some demo_result, tex_updated_at := 5000\<rparr>]\<rparr>"

lemma demo5_step:
  "complete_tool_execution (\<lambda>_. []) (demo_env 80 5000) 7 32 (u ''a1'') (u ''w1'') 64 demo_result True
     demo4 = Inr ((), demo5, [])"
  by (simp add: complete_tool_execution_def repo_defs Let_def demo4_def demo5_def demo3_def demo2_def
      demo1_def empty_db_def demo_claimed_def demo_run_def new_run_def claim_row_def demo_tool_def
      new_tool_execution_def settle_tool_row_def)

text \<open>The steps, as units of work.\<close>

lemma demo1_reachable: "reachable demo1"
  unfolding reachable_def
  by (blast intro: trace_one service_step.create_thread demo1_step)

lemma demo2_history: "history [demo_env 32 2000] demo1 demo2"
  by (rule trace_one) (rule service_step.create_user_run [OF demo2_step])

lemma demo3_history: "history [demo_env 48 3000] demo2 demo3"
  by (rule trace_one) (rule service_step.claim_run [OF demo3_step])

lemma demo4_history: "history [demo_env 64 4000] demo3 demo4"
  by (rule trace_one) (rule service_step.claim_tool_execution [OF demo4_step])

lemma demo5_history: "history [demo_env 80 5000] demo4 demo5"
  by (rule trace_one) (rule service_step.complete_tool_execution [OF demo5_step])

lemmas demo_reachable = demo1_reachable
  reachable_history [OF demo1_reachable demo2_history]
  reachable_history [OF reachable_history [OF demo1_reachable demo2_history] demo3_history]
  reachable_history [OF reachable_history [OF reachable_history [OF demo1_reachable demo2_history]
    demo3_history] demo4_history]
  reachable_history [OF reachable_history [OF reachable_history [OF reachable_history
    [OF demo1_reachable demo2_history] demo3_history] demo4_history] demo5_history]

lemma demo_rows [simp]:
  "db_runs demo2 = [demo_run\<lparr>run_event_sequence := 1\<rparr>]"
  "db_runs demo3 = [demo_claimed\<lparr>run_event_sequence := 2\<rparr>]"
  "db_runs demo4 = [demo_claimed\<lparr>run_event_sequence := 2\<rparr>]"
  "db_runs demo5 = [demo_claimed\<lparr>run_event_sequence := 2\<rparr>]"
  "db_tools demo4 = [demo_tool]"
  "db_jobs demo2 = [demo_job]" "db_jobs demo3 = [demo_job]"
  by (simp_all add: demo2_def demo3_def demo4_def demo5_def)

lemma demo_run_simps [simp]:
  "run_id demo_run = 32" "run_user_id demo_run = 7" "run_status demo_run = RunStatus.QUEUED"
  "run_idempotency_key demo_run = u ''k2''" "run_version demo_run = 1"
  "run_id demo_claimed = 32" "run_user_id demo_claimed = 7"
  "run_status demo_claimed = RunStatus.RUNNING" "run_claim_owner demo_claimed = Some (u ''w1'')"
  "run_claim_token demo_claimed = Some 48" "run_version demo_claimed = 2"
  "run_lease_expires_at demo_claimed = Some 30003000"
  by (simp_all add: demo_run_def demo_claimed_def new_run_def claim_row_def)

end
