(* ===== verification/StateScenario.thy ===== *)
theory StateScenario
  imports System Scenario
begin

text \<open>
  A second scenario, for the personal state: user 7 creates the things 100 and 200 and a task of
  thing 200, merges 200 into 100, and then 100 into 200.
\<close>

section \<open>Two things and a task\<close>

definition demo_thing :: "uuid \<Rightarrow> time \<Rightarrow> str \<Rightarrow> Thing" where
  "demo_thing tid t name = new_thing tid t (t + 1) 7 name"

definition demo_entry :: "uuid \<Rightarrow> time \<Rightarrow> str \<Rightarrow> str \<Rightarrow> StateMutation" where
  "demo_entry tid t name key = new_mutation (tid + 1) (t + 2) 7 (Some tid) None (u ''a'')
     (u ''THING_CREATED'') (u ''THING'') tid None
     [u ''name'' \<mapsto> JStr name, u ''status'' \<mapsto> JStr (u ''ACTIVE''), u ''version'' \<mapsto> JInt 1]
     (u ''r'') None key"

definition demo_created :: "uuid \<Rightarrow> time \<Rightarrow> str \<Rightarrow> TimelineEvent" where
  "demo_created tid t name = new_timeline_event (tid + 2) (t + 3) 7 tid (u ''THING_CREATED'')
     (TITLE_CREATED @ name) t None (tid + 1) Map.empty"

definition state1 :: store where
  "state1 = empty_store\<lparr>core := empty_db\<lparr>db_users := [demo_user], db_things := [demo_thing 100 1000 (u ''Trip'')]\<rparr>,
     st_mutations := [demo_entry 100 1000 (u ''Trip'') (u ''m1'')],
     st_timeline := [demo_created 100 1000 (u ''Trip'')]\<rparr>"

lemma strip_names [simp]: "strip (u ''Trip'') = u ''Trip''" "strip (u ''Tour'') = u ''Tour''"
  "strip (u ''Pack'') = u ''Pack''"
  by (simp_all add: strip_id u_def is_space_def)

lemma parse_juuid [simp]: "wo_data (outcome c m (created_data x v b) y b') (u ''id'') = Some (JStr (uuid_str x))"
  by (simp add: created_data_def juuid_def)

lemma state1_step:
  "create_thing (demo_env 100 1000) 7 (u ''Trip'') (u ''a'') (u ''m1'') (u ''r'') None empty_store =
     Inr (to_thing_dto (demo_thing 100 1000 (u ''Trip'')), state1)"
  by (simp add: create_thing_def with_entity_def apply_create_thing_def Let_def repo_defs record_audit_def
      empty_store_def empty_db_def state1_def demo_thing_def demo_entry_def demo_created_def new_thing_def
      set_things_def ins_def demo_user_def juuid_def)


definition state2 :: store where
  "state2 = state1\<lparr>core := (core state1)\<lparr>db_things := [demo_thing 100 1000 (u ''Trip''), demo_thing 200 2000 (u ''Tour'')]\<rparr>,
     st_mutations := [demo_entry 100 1000 (u ''Trip'') (u ''m1''), demo_entry 200 2000 (u ''Tour'') (u ''m2'')],
     st_timeline := [demo_created 100 1000 (u ''Trip''), demo_created 200 2000 (u ''Tour'')]\<rparr>"

lemma state2_step:
  "create_thing (demo_env 200 2000) 7 (u ''Tour'') (u ''a'') (u ''m2'') (u ''r'') None state1 =
     Inr (to_thing_dto (demo_thing 200 2000 (u ''Tour'')), state2)"
  by (simp add: create_thing_def with_entity_def apply_create_thing_def Let_def repo_defs record_audit_def
      state1_def state2_def demo_thing_def demo_entry_def demo_created_def new_thing_def mutation_clash_def
      set_things_def ins_def demo_user_def juuid_def empty_store_def empty_db_def)

definition demo_task :: Task where
  "demo_task = new_task 300 3000 3001 7 (Some 200) (u ''Pack'') None None"

definition demo_task_entry :: StateMutation where
  "demo_task_entry = new_mutation 301 3002 7 (Some 200) None (u ''a'') (u ''TASK_CREATED'') (u ''TASK'') 300
     None [u ''title'' \<mapsto> JStr (u ''Pack''), u ''status'' \<mapsto> JStr (u ''TODO''), u ''due_at'' \<mapsto> JNull,
       u ''recurrence_interval_days'' \<mapsto> JNull, u ''version'' \<mapsto> JInt 1] (u ''r'') None (u ''m3'')"

definition demo_task_event :: TimelineEvent where
  "demo_task_event = new_timeline_event 302 3003 7 200 (u ''TASK_CREATED'')
     (TITLE_TASK_CREATED @ u ''Pack'') 3000 None 301 Map.empty"

definition state3 :: store where
  "state3 = state2\<lparr>st_tasks := [demo_task], st_mutations := st_mutations state2 @ [demo_task_entry],
     st_timeline := st_timeline state2 @ [demo_task_event]\<rparr>"

lemma state3_step:
  "create_task (demo_env 300 3000) 7 (Some 200) (u ''Pack'') None None (u ''a'') (u ''m3'') (u ''r'') None state2 =
     Inr (demo_task, state3)"
  by (simp add: create_task_def with_entity_def apply_create_task_def Let_def repo_defs record_audit_def
      state1_def state2_def state3_def demo_thing_def demo_entry_def demo_created_def new_thing_def
      mutation_clash_def demo_task_def new_task_def demo_task_entry_def demo_task_event_def task_check_def
      set_things_def ins_def demo_user_def juuid_def empty_store_def empty_db_def jopt_def)

section \<open>Two merges\<close>

definition demo_merge_entry :: "uuid \<Rightarrow> time \<Rightarrow> uuid \<Rightarrow> uuid \<Rightarrow> str \<Rightarrow> StateMutation" where
  "demo_merge_entry mid t dup canon key = new_mutation mid t 7 (Some dup) None (u ''a'') (u ''THING_MERGED'')
     (u ''THING'') dup (Some [u ''merged_into_thing_id'' \<mapsto> JNull, u ''version'' \<mapsto> JInt 1])
     [u ''merged_into_thing_id'' \<mapsto> juuid canon, u ''canonical_thing_id'' \<mapsto> juuid canon,
      u ''version'' \<mapsto> JInt 2] (u ''r'') None key"

definition demo_merge_event :: "uuid \<Rightarrow> time \<Rightarrow> uuid \<Rightarrow> uuid \<Rightarrow> str \<Rightarrow> TimelineEvent" where
  "demo_merge_event eid t dup canon name = new_timeline_event eid t 7 canon (u ''THING_MERGED'')
     (u ''Merged duplicate Thing: '' @ name) (t - 2) None (eid - 1) [u ''duplicate_thing_id'' \<mapsto> juuid dup]"

definition demo_merged :: "Thing \<Rightarrow> uuid \<Rightarrow> time \<Rightarrow> Thing" where
  "demo_merged t canon now = t\<lparr>thing_merged_into := Some canon, thing_version := 2, thing_updated_at := now\<rparr>"

definition state4 :: store where
  "state4 = state3\<lparr>core := (core state3)\<lparr>db_things := [demo_thing 100 1000 (u ''Trip''),
       demo_merged (demo_thing 200 2000 (u ''Tour'')) 100 4000]\<rparr>,
     st_tasks := [demo_task\<lparr>task_thing_id := Some 100\<rparr>],
     st_mutations := st_mutations state3 @ [demo_merge_entry 400 4001 200 100 (u ''m4'')],
     st_timeline := st_timeline state3 @ [demo_merge_event 401 4002 200 100 (u ''Tour'')]\<rparr>"

lemma state4_step:
  "apply_merge_things (\<lambda>_. []) (demo_env 400 4000) 7 100 200 1 1 (u ''a'') (u ''m4'') (u ''r'') None state3 =
     Inr (outcome (u ''THING_MERGED'') (u ''Things merged.'')
       ((target_data 400 (u ''duplicate_thing_id'') 200 (u ''version'') (JInt 2) False)
          (u ''canonical_thing_id'' \<mapsto> juuid 100)) 400 False, state4)"
  by (simp add: apply_merge_things_def Let_def repo_defs record_audit_def cas_rows_def copy_thing_def
      state1_def state2_def state3_def state4_def demo_thing_def demo_entry_def demo_created_def new_thing_def
      mutation_clash_def demo_task_def new_task_def demo_task_entry_def demo_task_event_def entity_defs
      demo_merged_def demo_merge_entry_def demo_merge_event_def copied_sources_def things_update_def
      set_things_def ins_def empty_store_def empty_db_def)


definition state5 :: store where
  "state5 = state4\<lparr>core := (core state4)\<lparr>db_things := [demo_merged (demo_thing 100 1000 (u ''Trip'')) 200 5000,
       demo_merged (demo_thing 200 2000 (u ''Tour'')) 100 4000]\<rparr>,
     st_tasks := [demo_task\<lparr>task_thing_id := Some 200\<rparr>],
     st_mutations := st_mutations state4 @ [demo_merge_entry 500 5001 100 200 (u ''m5'')],
     st_timeline := st_timeline state4 @ [demo_merge_event 501 5002 100 200 (u ''Trip'')]\<rparr>"

lemma state5_step:
  "apply_merge_things (\<lambda>_. []) (demo_env 500 5000) 7 200 100 2 1 (u ''a'') (u ''m5'') (u ''r'') None state4 =
     Inr (outcome (u ''THING_MERGED'') (u ''Things merged.'')
       ((target_data 500 (u ''duplicate_thing_id'') 100 (u ''version'') (JInt 2) False)
          (u ''canonical_thing_id'' \<mapsto> juuid 200)) 500 False, state5)"
  by (simp add: apply_merge_things_def Let_def repo_defs record_audit_def cas_rows_def copy_thing_def
      state1_def state2_def state3_def state4_def state5_def demo_thing_def demo_entry_def demo_created_def
      new_thing_def mutation_clash_def demo_task_def new_task_def demo_task_entry_def demo_task_event_def
      entity_defs demo_merged_def demo_merge_entry_def demo_merge_event_def copied_sources_def
      things_update_def set_things_def ins_def empty_store_def empty_db_def)

lemma state_merge_steps:
  "\<exists>r. merge_things (\<lambda>_. []) (demo_env 400 4000) 7 100 200 1 1 (u ''a'') (u ''m4'') (u ''r'') None state3 = Inr (r, state4)"
  "\<exists>r. merge_things (\<lambda>_. []) (demo_env 500 5000) 7 200 100 2 1 (u ''a'') (u ''m5'') (u ''r'') None state4 = Inr (r, state5)"
  using with_result_total_merge [OF state4_step] with_result_total_merge [OF state5_step]
  by (auto simp: merge_things_def with_result_def state4_step state5_step reportable_def)

text \<open>The states are reachable.\<close>

lemma state1_history: "system_history [demo_env 100 1000] empty_store state1"
  by (rule trace_one) (rule system_step.mutation [OF state_mutation.create_thing [OF state1_step]])

lemma state2_history: "system_history [demo_env 200 2000] state1 state2"
  by (rule trace_one) (rule system_step.mutation [OF state_mutation.create_thing [OF state2_step]])

lemma state3_history: "system_history [demo_env 300 3000] state2 state3"
  by (rule trace_one) (rule system_step.mutation [OF state_mutation.create_task [OF state3_step]])

lemma state4_history: "system_history [demo_env 400 4000] state3 state4"
  using state_merge_steps(1) by (blast intro: trace_one system_step.mutation state_mutation.merge_things)

lemma state5_history: "system_history [demo_env 500 5000] state4 state5"
  using state_merge_steps(2) by (blast intro: trace_one system_step.mutation state_mutation.merge_things)

lemma state1_reachable: "system_reachable state1"
  using state1_history by (auto simp: system_reachable_def)

lemmas state2_reachable = system_reachable_history [OF state1_reachable state2_history]
lemmas state3_reachable = system_reachable_history [OF state2_reachable state3_history]
lemmas state4_reachable = system_reachable_history [OF state3_reachable state4_history]
lemmas state5_reachable = system_reachable_history [OF state4_reachable state5_history]

text \<open>
  Two merges of the same pair in opposite directions are both accepted, and leave two live things
  that can no longer be looked up.
\<close>

lemma opposite_merges_make_a_cycle:
  "system_reachable state5 \<and> live_for state5 7 100 \<and> live_for state5 7 200 \<and>
   resolve_active_thing 7 100 state5 = Inl (RuntimeError (u ''Thing merge redirect cycle detected.'')) \<and>
   resolve_active_thing 7 200 state5 = Inl (RuntimeError (u ''Thing merge redirect cycle detected.''))"
  by (rule conjI [OF state5_reachable])
     (simp add: live_for_def resolve_active_thing_def resolve_from.simps repo_defs
      state5_def demo_merged_def demo_thing_def new_thing_def)

end
