(* ===== verification/AutomationProperties.thy ===== *)
theory AutomationProperties
  imports StateScenario
begin

text \<open>
  What the automations promise, over every history of the system: due automations are served, every
  slot has one occurrence, a settled occurrence has no effects again.
\<close>

section \<open>A scenario\<close>

text \<open>User 7 creates a reminder, which is served, claimed and executed.\<close>

definition demo_auto :: Automation where
  "demo_auto = (new_automation 600 1000 1001 7 AutomationType.ONE_SHOT (u ''Pay'') (u ''Rent'') (u ''UTC'') (u ''ka'')
     None None None None)\<lparr>aut_next_trigger_at := Some 5000\<rparr>"

definition auto1 :: store where
  "auto1 = empty_store\<lparr>core := empty_db\<lparr>db_users := [demo_user]\<rparr>, st_automations := [demo_auto]\<rparr>"

lemma strip_auto_names [simp]: "strip (u ''Pay'') = u ''Pay''" "strip (u ''Rent'') = u ''Rent''" "strip (u ''UTC'') = u ''UTC''"
  by (simp_all add: strip_id u_def is_space_def)

lemma strip_occurrence_key [simp]: "strip (occurrence_dedupe_key oid) \<noteq> []"
  unfolding strip_eq_Nil_iff occurrence_dedupe_key_def by (auto simp: u_def is_space_def intro!: bexI [of _ 65])

lemma auto1_step:
  "\<exists>out. apply_create_automation (demo_env 600 1000) 7 AutomationType.ONE_SHOT (u ''Pay'') (u ''Rent'') (u ''UTC'')
     (Aware 5000) (u ''ka'') None None None None empty_store = Inr (out, auto1)"
  by (simp add: apply_create_automation_def Let_def repo_defs auto1_def demo_auto_def new_automation_def demo_user_def
      empty_store_def empty_db_def automation_post_init_def automation_check_def ins_def optE_def
      is_one_shot_type_def automation_type_value_def)

lemma auto1_reachable: "system_reachable auto1"
  using auto1_step create_automation_writes unfolding system_reachable_def
  by (blast intro: trace_one system_step.automation)

definition demo_occurrence :: AutomationOccurrence where
  "demo_occurrence = (new_occurrence 701 6001 6002 demo_auto 5000)\<lparr>occ_durable_job_id := Some 702\<rparr>"


definition demo_ticket :: DurableJob where
  "demo_ticket = \<lparr>job_user_id = 7, job_kind = DurableJobKind.AUTOMATION_OCCURRENCE,
     job_dedupe_key = occurrence_dedupe_key 701,
     job_payload = [u ''occurrence_id'' \<mapsto> juuid 701, u ''automation_id'' \<mapsto> juuid 600,
       u ''scheduled_for'' \<mapsto> jtime 5000], job_id = 702, job_status = DurableJobStatus.READY, job_priority = 0,
     job_available_at = 6000, job_delivery_attempt = 0, job_max_delivery_attempts = 5, job_claimed_by = None,
     job_claim_epoch = 0, job_lease_until = None, job_last_error_code = None, job_created_at = 6003,
     job_updated_at = 6004\<rparr>"

definition auto2 :: store where
  "auto2 = auto1\<lparr>core := (core auto1)\<lparr>db_jobs := [demo_ticket]\<rparr>, st_occurrences := [demo_occurrence],
     st_automations := [demo_auto\<lparr>aut_next_trigger_at := None, aut_last_triggered_at := Some 6000,
       aut_updated_at := 6000, aut_version := 2\<rparr>]\<rparr>"

lemmas demo_auto_defs = auto1_def auto2_def demo_auto_def demo_occurrence_def demo_ticket_def new_automation_def
  new_occurrence_def demo_user_def empty_store_def empty_db_def later_def

lemma auto2_step: "process_due (demo_env 700 6000) None 10 auto1 = Inr (1, auto2)"
  by (simp add: process_due_def automations_list_due_def automation_due_def automation_to_domain_def
      automation_post_init_def is_one_shot_type_def automation_type_value_def demo_auto_defs
      materialize_due_automation_def task_over_def fire_occurrence_def Let_def repo_defs entity_defs
      occurrence_job_def DurableJob_init_def add_job_def copy_occurrence_def copy_automation_def
      save_automation_def ins_or_skip_def ins_def cas_rows_def)

definition demo_taken :: DurableJob where
  "demo_taken = demo_ticket\<lparr>job_status := DurableJobStatus.CLAIMED, job_claimed_by := Some (u ''w1''),
     job_claim_epoch := 1, job_lease_until := Some 9000, job_delivery_attempt := 1, job_updated_at := 7000\<rparr>"

definition auto3 :: store where
  "auto3 = auto2\<lparr>core := (core auto2)\<lparr>db_jobs := [demo_taken]\<rparr>\<rparr>"

lemma auto3_step:
  "claim_ready_jobs DurableJobKind.AUTOMATION_OCCURRENCE (u ''w1'') 7000 9000 1 (core auto2) = ([demo_taken], core auto3)"
  by (simp add: claim_ready_jobs_def jobs_requeue_expired_def jobs_claim_ready_def Let_def demo_auto_defs demo_taken_def
      auto3_def job_expired_def job_due_def claim_job_row_def upd_def cnt_def sel_def)

definition auto4 :: store where
  "auto4 = auto3\<lparr>core := (core auto3)\<lparr>db_jobs := [demo_taken\<lparr>job_status := DurableJobStatus.COMPLETED,
       job_claimed_by := None, job_lease_until := None, job_updated_at := 7103\<rparr>]\<rparr>,
     st_occurrences := [demo_occurrence\<lparr>occ_status := OccurrenceStatus.SUCCEEDED, occ_settled_at := Some 7101\<rparr>],
     st_intents := [new_intent 900 7200 (hd (st_automations auto3)) demo_occurrence (slot_key demo_occurrence)],
     st_automations := [(hd (st_automations auto3))\<lparr>aut_status := AutomationStatus.COMPLETED,
       aut_updated_at := 7102, aut_version := 3\<rparr>]\<rparr>"

lemma job_uuid_demo [simp]: "job_uuid (u ''occurrence_id'') demo_taken = Inr 701"
  "job_uuid (u ''automation_id'') demo_taken = Inr 600"
  by (simp_all add: job_uuid_def demo_taken_def demo_ticket_def uuid_of_json_def juuid_def)

lemma auto4_reaction:
  "occurrence_reaction None (demo_env 800 7100) (demo_env 850 7150) (demo_env 900 7200) 7 701 600 auto3 =
     (Inr (DurableJobStatus.COMPLETED, None, auto4\<lparr>core := core auto3\<rparr>), auto3, [])"
  by (simp add: occurrence_reaction_def open_reaction_def fire_reaction_def Let_def repo_defs entity_defs
      auto3_def auto4_def demo_auto_defs demo_taken_def optE_def automation_to_domain_def automation_post_init_def
      is_one_shot_type_def automation_type_value_def create_reminder_notification_def slot_key_def new_intent_def
      ins_or_skip_def ins_def settle_one_shot_def save_automation_def cas_rows_def copy_automation_def
      copy_occurrence_def)

lemma auto4_step:
  "execute_claimed None (demo_env 800 7100) (demo_env 850 7150) (demo_env 900 7200) demo_taken (u ''w1'') auto3 =
     (Inr OccurrenceExecutionResult.COMPLETED, auto4, [])"
proof -
  have job: "job_user_id demo_taken = 7" "job_dedupe_key demo_taken = occurrence_dedupe_key 701"
    "db_jobs (core auto3) = [demo_taken]" "job_status demo_taken = DurableJobStatus.CLAIMED"
    "job_claimed_by demo_taken = Some (u ''w1'')" "job_lease_until demo_taken = Some 9000"
    by (simp_all add: demo_taken_def demo_ticket_def auto3_def)
  have settled: "core auto4 = (core auto3)\<lparr>db_jobs := [demo_taken\<lparr>job_status := DurableJobStatus.COMPLETED,
       job_claimed_by := None, job_lease_until := None, job_last_error_code := None, job_updated_at := 7103\<rparr>]\<rparr>"
    by (simp add: auto4_def demo_taken_def demo_ticket_def)
  have "owns_claim 7100 (jobs_get_by_dedupe_key 7 (occurrence_dedupe_key 701) (core auto3)) demo_taken (u ''w1'')"
    using job by (simp add: owns_claim_def jobs_get_by_dedupe_key_def lease_live_def)
  moreover have "jobs_settle (job_id demo_taken) (u ''w1'') (job_claim_epoch demo_taken) DurableJobStatus.COMPLETED
      7103 None (core auto3) = (True, core auto4)"
    using job settled by (simp add: jobs_settle_def Let_def job_fence_def lease_live_def)
  ultimately show ?thesis
    using job auto4_reaction by (simp add: execute_claimed_def)
qed

lemma auto_histories:
  "system_history [demo_env 700 6000] auto1 auto2"
  "system_history [demo_env 750 7000] auto2 auto3"
  "\<exists>es. system_history es auto3 auto4"
proof -
  have ok1: "auto_ok auto1"
    by (rule system_reachable_auto_ok [OF auto1_reachable])
  show h2: "system_history [demo_env 700 6000] auto1 auto2"
    using process_due_writes [OF auto2_step ok1] by (blast intro: trace_one system_step.automation)
  have "keyed job_id (db_jobs (core auto2))"
    by (simp add: auto2_def)
  from claim_ready_auto [OF this auto3_step]
  show h3: "system_history [demo_env 750 7000] auto2 auto3"
    by (intro trace_one system_step.automation) (simp add: auto3_def)
  have "system_reachable auto3"
    by (rule system_reachable_history [OF system_reachable_history [OF auto1_reachable h2] h3])
  then show "\<exists>es. system_history es auto3 auto4"
    by (rule execute_claimed_history [OF auto4_step system_reachable_system_ok])
qed

section \<open>Serving\<close>

text \<open>
  C37. A pass of the scheduler over at least as many automations as are due, with fresh identifiers,
  commits: it returns the number of the automations whose task is not over, every due automation has
  its occurrence with a job in the queue (or is cancelled with its task, or has its slot skipped),
  and none is due afterwards.
\<close>

theorem process_due_serves:
  assumes "system_reachable s" "t = (case now of None \<Rightarrow> clk e 0 | Some t \<Rightarrow> t)"
    "cnt (automation_due t) (st_automations s) \<le> limit"
    "fresh_supply (4 * cnt (automation_due t) (st_automations s)) (later e 1) s"
  shows "\<exists>s'. process_due e now limit s =
      Inr (cnt (\<lambda>a. automation_due t a \<and> \<not> task_over a s) (st_automations s), s') \<and> system_reachable s'
    \<and> (\<forall>a \<in> set (st_automations s). automation_due t a \<longrightarrow> served a t s s')
    \<and> (\<forall>a \<in> set (st_automations s'). \<not> automation_due t a)"
proof -
  note ok = system_reachable_auto_ok [OF assms(1)]
  obtain due where due: "automations_list_due t limit s = Inr due" "distinct (map aut_id due)"
      "\<forall>a \<in> set due. a \<in> set (st_automations s) \<and> automation_due t a"
      "mset due = mset (filter (automation_due t) (st_automations s))"
    using list_due_stored [OF ok, of t limit] assms(3) by blast
  have all: "set due = {a \<in> set (st_automations s). automation_due t a}"
    using arg_cong [OF due(4), of set_mset] by simp
  have size: "length due = cnt (automation_due t) (st_automations s)"
    using arg_cong [OF due(4), of size] by (simp add: cnt_def del: mset_filter)
  have count: "length (filter (\<lambda>a. \<not> task_over a s) due) = cnt (\<lambda>a. automation_due t a \<and> \<not> task_over a s) (st_automations s)"
    using arg_cong [OF due(4), of "\<lambda>m. size (filter_mset (\<lambda>a. \<not> task_over a s) m)"]
    by (simp add: cnt_def mset_filter [symmetric] conj_commute del: mset_filter)
  obtain s' where s': "materialize_all (later e 1) t due s = Inr (length (filter (\<lambda>a. \<not> task_over a s) due), s')"
      "auto_writes s s'" "\<forall>a \<in> set due. served a t s s'"
      "\<forall>b \<in> set (st_automations s'). automation_due t b \<longrightarrow> b \<in> set (st_automations s) \<and> aut_id b \<notin> aut_id ` set due"
    using materialize_all_serves [OF ok due(3,2)] assms(4) size by metis
  have "process_due e now limit s = Inr (length (filter (\<lambda>a. \<not> task_over a s) due), s')"
    using assms(2) due(1) s'(1) by (simp add: process_due_def)
  moreover have "system_reachable s'"
    using assms(1) s'(2) by (blast intro: system_reachable_history trace_one system_step.automation)
  ultimately show ?thesis
    using s'(3,4) all count by auto
qed

theorem process_due_serves_witness:
  "\<exists>s'. process_due (demo_env 700 6000) None 10 auto1 =
      Inr (cnt (\<lambda>a. automation_due 6000 a \<and> \<not> task_over a auto1) (st_automations auto1), s') \<and> system_reachable s'
    \<and> served demo_auto 6000 auto1 s' \<and> (\<forall>a \<in> set (st_automations s'). \<not> automation_due 6000 a)"
proof -
  have autos: "st_automations auto1 = [demo_auto]" "automation_due 6000 demo_auto"
    by (simp_all add: auto1_def automation_due_def demo_auto_def new_automation_def)
  have "inj_on (uid4 (later (demo_env 700 6000) 1)) {..<4}"
    by (simp add: inj_on_def lessThan_nat_numeral lessThan_Suc later_def)
  moreover have "unused i auto1" for i
    by (simp add: unused_def auto1_def empty_store_def empty_db_def)
  ultimately have "fresh_supply (4 * cnt (automation_due 6000) (st_automations auto1)) (later (demo_env 700 6000) 1) auto1"
    using autos by (simp add: fresh_supply_def)
  then have "\<exists>s'. process_due (demo_env 700 6000) None 10 auto1 =
      Inr (cnt (\<lambda>a. automation_due 6000 a \<and> \<not> task_over a auto1) (st_automations auto1), s') \<and> system_reachable s'
    \<and> (\<forall>a \<in> set (st_automations auto1). automation_due 6000 a \<longrightarrow> served a 6000 auto1 s')
    \<and> (\<forall>a \<in> set (st_automations s'). \<not> automation_due 6000 a)"
    using autos by (intro process_due_serves [OF auto1_reachable]) simp_all
  with autos show ?thesis
    by auto
qed

section \<open>Occurrences\<close>

text \<open>
  C38. Every slot of an automation has at most one occurrence; its automation has moved on to a later
  trigger; the occurrence is open, with its job in the queue, or settled; and one that succeeded has
  its notification.
\<close>

theorem occurrence_life_cycle:
  assumes "system_reachable s"
  shows "distinct (map occurrence_slot (st_occurrences s)) \<and> (\<forall>x \<in> set (st_occurrences s).
    (\<exists>a \<in> set (st_automations s). aut_id a = occ_automation_id x \<and>
      (case aut_next_trigger_at a of None \<Rightarrow> True | Some t \<Rightarrow> occ_scheduled_for x < t)) \<and>
    (if occ_status x = OccurrenceStatus.MATERIALIZED
     then occ_settled_at x = None \<and> (\<exists>j \<in> set (db_jobs (core s)). job_for x j)
     else occ_settled_at x \<noteq> None) \<and>
    (if occ_status x = OccurrenceStatus.SUCCEEDED then slot_key x \<in> nti_dedupe_key ` set (st_intents s) else True))"
proof -
  note ok = system_reachable_auto_ok [OF assms]
  have "distinct (map occurrence_slot (st_occurrences s))"
    using auto_keysD(4) [OF auto_okD(1) [OF ok]] by (simp add: keyed_def)
  then show ?thesis
    using auto_okD(3,4) [OF ok] by (fastforce simp: past_slot_def occurrence_ok_def split: option.split)
qed

text \<open>The states of the scenario are reachable.\<close>

lemma auto2_reachable: "system_reachable auto2"
  by (rule system_reachable_history [OF auto1_reachable auto_histories(1)])

lemma auto3_reachable: "system_reachable auto3"
  by (rule system_reachable_history [OF auto2_reachable auto_histories(2)])

lemma auto4_reachable: "system_reachable auto4"
  using system_reachable_history [OF auto3_reachable] auto_histories(3) by blast

theorem occurrence_life_cycle_witness:
  "slot_key (hd (st_occurrences auto4)) \<in> nti_dedupe_key ` set (st_intents auto4)"
proof -
  have "hd (st_occurrences auto4) \<in> set (st_occurrences auto4)"
    "occ_status (hd (st_occurrences auto4)) = OccurrenceStatus.SUCCEEDED"
    by (simp_all add: auto4_def)
  then show ?thesis
    using occurrence_life_cycle [OF auto4_reachable] by auto
qed

lemma settled_stays:
  assumes "system_step e s s'" "system_ok s" "x \<in> set (st_occurrences s)" "occ_status x \<noteq> OccurrenceStatus.MATERIALIZED"
  shows "x \<in> set (st_occurrences s')"
  using assms(1)
proof (cases rule: system_step.cases)
  case (mutation user_id key)
  then have "auto_same s s'"
    using state_mutation_once [OF mutation] assms(2)
    by (auto simp: once_def system_ok_def intro: state_writes_auto_same state_ok_keys)
  then show ?thesis
    using assms(3) by (simp add: auto_same_def)
next
  case (tool user_id key f show_json rid action owner token tool v fx)
  have "state_keys s"
    using assms(2) by (simp add: system_ok_def state_ok_keys)
  then obtain s1 c where s1: "once user_id key s s1" "s' = s1\<lparr>core := c\<rparr>"
    by (rule complete_tool_once [OF tool(2,1)])
  then have "auto_same s s1"
    by (auto simp: once_def intro: state_writes_auto_same)
  then show ?thesis
    using assms(3) s1(2) by (simp add: auto_same_def)
next
  case automation
  have "auto_ok s"
    using assms(2) by (simp add: system_ok_def)
  with automation show ?thesis
  proof (induction rule: rtranclp_induct)
    case (step s1 s2)
    have "auto_ok s1"
      by (rule auto_writes_ok [OF step(1,4)])
    then have keys: "keyed occ_id (st_occurrences s1)"
      using auto_keysD(3) auto_okD(1) by blast
    show ?case
      using step(2,3) assms(4) step.prems keys
    proof (induction rule: auto_write.induct)
      case (settle x0 s y)
      then have "occ_id x \<noteq> occ_id y"
        using keyed_unique [OF settle.prems(4), of x x0] ended_slot [OF settle.hyps(3)] by auto
      then show ?case
        using settle.prems by (auto simp: occurrences_update_def set_upd)
    qed (auto simp: put_automation_def occurrences_fail_exhausted_def exhausted_def set_upd)
  qed (rule assms(3))
qed (use assms(3) in simp)

lemma settled_stays_forever:
  assumes "system_history es s s'" "system_ok s" "x \<in> set (st_occurrences s)" "occ_status x \<noteq> OccurrenceStatus.MATERIALIZED"
  shows "x \<in> set (st_occurrences s')"
  using whole.trace_stable [where P = "\<lambda>s. x \<in> set (st_occurrences s)" and E = UNIV] assms settled_stays by blast

text \<open>
  C39. An occurrence takes effect at most once: once it is settled it stays as it is, whatever the
  system does, and every later execution of a job for it, by any worker, starts no run, sends no
  notification and changes nothing but the queue.
\<close>

theorem settled_occurrence_is_final:
  assumes "system_reachable s" "x \<in> set (st_occurrences s)" "occ_status x \<noteq> OccurrenceStatus.MATERIALIZED"
    "system_history es s s1" "execute_claimed trigger e et er j owner s1 = (r, s2, fx)"
    "job_uuid (u ''occurrence_id'') j = Inr (occ_id x)"
  shows "x \<in> set (st_occurrences s2) \<and> fx = [] \<and> s2 = s1\<lparr>core := (core s1)\<lparr>db_jobs := db_jobs (core s2)\<rparr>\<rparr>"
proof -
  have x1: "x \<in> set (st_occurrences s1)"
    by (rule settled_stays_forever [OF assms(4) system_reachable_system_ok [OF assms(1)] assms(2,3)])
  have ok: "auto_ok s1"
    using system_reachable_history [OF assms(1,4)] by (rule system_reachable_auto_ok)
  have closed: "s' = s1 \<and> fx' = [] \<and> (\<exists>st code. q = Inr (st, code, s1))"
    if "occurrence_reaction trigger e et er uid (occ_id x) aid s1 = (q, s', fx')" for uid aid q s' fx'
    using that ok
  proof (cases rule: occurrence_reaction_cases)
    case (open_ y)
    then show ?thesis
      using keyed_unique [OF auto_keysD(3) [OF auto_okD(1) [OF ok]] x1 open_(1)] assms(3) by simp
  qed simp
  have "fx = [] \<and> s2 = s1\<lparr>core := (core s1)\<lparr>db_jobs := db_jobs (core s2)\<rparr>\<rparr>"
    using assms(5)
  proof (cases rule: execute_claimed_cases)
    case (failed oid aid err)
    have oid: "oid = occ_id x"
      using failed(1) assms(6) by simp
    then show ?thesis
      using closed [OF failed(3) [unfolded oid]] by simp
  next
    case (lost oid aid st code s3)
    have oid: "oid = occ_id x"
      using lost(1) assms(6) by simp
    then show ?thesis
      using closed [OF lost(3) [unfolded oid]] by simp
  next
    case (settled oid aid st code s3 s4 c)
    have oid: "oid = occ_id x"
      using settled(1) assms(6) by simp
    then have "s4 = s1" "fx = []"
      using closed [OF settled(4) [unfolded oid]] by simp_all
    then show ?thesis
      using settled(5,7) by (auto simp: jobs_settle_def Let_def)
  qed simp_all
  moreover from this have "st_occurrences s2 = st_occurrences s1"
    by (elim conjE) (drule arg_cong [of s2 _ st_occurrences], simp)
  ultimately show ?thesis
    using x1 by simp
qed

text \<open>The job is executed again, by the same worker.\<close>

theorem settled_occurrence_is_final_witness:
  "\<exists>r s2. execute_claimed None (demo_env 800 7200) (demo_env 850 7250) (demo_env 900 7300) demo_taken (u ''w1'') auto4 =
      (r, s2, []) \<and> hd (st_occurrences auto4) \<in> set (st_occurrences s2) \<and> st_intents s2 = st_intents auto4"
proof -
  obtain r s2 fx where step: "execute_claimed None (demo_env 800 7200) (demo_env 850 7250) (demo_env 900 7300)
      demo_taken (u ''w1'') auto4 = (r, s2, fx)"
    by (metis prod_cases3)
  have x: "hd (st_occurrences auto4) \<in> set (st_occurrences auto4)"
    "occ_status (hd (st_occurrences auto4)) \<noteq> OccurrenceStatus.MATERIALIZED"
    "job_uuid (u ''occurrence_id'') demo_taken = Inr (occ_id (hd (st_occurrences auto4)))"
    by (simp_all add: auto4_def demo_occurrence_def new_occurrence_def)
  note final = settled_occurrence_is_final [OF auto4_reachable x(1,2) trace.none step x(3)]
  then have "st_intents s2 = st_intents auto4"
    by (elim conjE) (drule arg_cong [of s2 _ st_intents], simp)
  then show ?thesis
    using step final by blast
qed

end
