(* ===== verification/ResolveProperties.thy ===== *)
theory ResolveProperties
  imports StateMutations RuntimeHistory
begin

text \<open>
  Merged things redirect to the thing they were merged into; the read side follows the redirects.
\<close>

section \<open>Redirects\<close>

text \<open>What one look-up finds: a dead end, a redirect, or a thing.\<close>

definition stored :: "store \<Rightarrow> uuid \<Rightarrow> uuid \<Rightarrow> Thing option" where
  "stored s user_id tid = (case things_get_including_deleted user_id tid s of
     None \<Rightarrow> None | Some t \<Rightarrow> if thing_deleted_at t = None then Some t else None)"

definition redirects :: "store \<Rightarrow> uuid \<Rightarrow> uuid \<Rightarrow> uuid \<Rightarrow> bool" where
  "redirects s user_id x y \<longleftrightarrow> (\<exists>t. stored s user_id x = Some t \<and> thing_merged_into t = Some y)"

lemma redirects_det: "redirects s uid x y \<Longrightarrow> redirects s uid x z \<Longrightarrow> y = z"
  by (auto simp: redirects_def)

lemma resolve_from_stored:
  "resolve_from uid s seen x =
     (if x \<in> set seen then Inl (RuntimeError (u ''Thing merge redirect cycle detected.''))
      else case stored s uid x of None \<Rightarrow> Inl (EntityNotFound (u ''Thing was not found.''))
      | Some t \<Rightarrow> (case thing_merged_into t of None \<Rightarrow> Inr t | Some y \<Rightarrow> resolve_from uid s (x # seen) y))"
  by (subst resolve_from.simps) (auto simp: stored_def split: option.splits)

text \<open>The three answers.\<close>

abbreviation not_found :: py_error where
  "not_found \<equiv> EntityNotFound (u ''Thing was not found.'')"

abbreviation redirect_cycle :: py_error where
  "redirect_cycle \<equiv> RuntimeError (u ''Thing merge redirect cycle detected.'')"

definition answers :: "store \<Rightarrow> uuid \<Rightarrow> uuid \<Rightarrow> py_error + Thing \<Rightarrow> bool" where
  "answers s user_id x r \<longleftrightarrow> (\<exists>y. (redirects s user_id)\<^sup>*\<^sup>* x y \<and>
     ((\<exists>t. r = Inr t \<and> stored s user_id y = Some t \<and> thing_merged_into t = None) \<or>
      r = Inl not_found \<and> stored s user_id y = None \<or>
      r = Inl redirect_cycle \<and> (redirects s user_id)\<^sup>+\<^sup>+ y y))"

lemma answers_step: "redirects s uid x y \<Longrightarrow> answers s uid y r \<Longrightarrow> answers s uid x r"
  unfolding answers_def by (blast intro: converse_rtranclp_into_rtranclp)

text \<open>The loop: the identifiers it has seen were all passed on the way to the current one.\<close>

lemma resolve_from_answers:
  assumes "resolve_from uid s seen x = r" "\<And>y. y \<in> set seen \<Longrightarrow> (redirects s uid)\<^sup>+\<^sup>+ y x"
  shows "answers s uid x r"
  using assms
proof (induction uid s seen x arbitrary: r rule: resolve_from.induct)
  case (1 uid s seen x)
  show ?case
  proof (cases "x \<in> set seen")
    case True
    then show ?thesis
      using 1(2) 1(3) [OF True] by (auto simp: resolve_from_stored [of uid s seen x] answers_def)
  next
    case fresh: False
    show ?thesis
    proof (cases "stored s uid x")
      case None
      then show ?thesis
        using fresh 1(2) by (auto simp: resolve_from_stored [of uid s seen x] answers_def)
    next
      case (Some t)
      show ?thesis
      proof (cases "thing_merged_into t")
        case None
        then show ?thesis
          using fresh Some 1(2) by (auto simp: resolve_from_stored [of uid s seen x] answers_def)
      next
        case (Some y)
        have step: "redirects s uid x y"
          using \<open>stored s uid x = Some t\<close> Some by (simp add: redirects_def)
        have r: "resolve_from uid s (x # seen) y = r"
          using 1(2) fresh Some \<open>stored s uid x = Some t\<close> by (simp add: resolve_from_stored [of uid s seen x])
        have get: "things_get_including_deleted uid x s = Some t" "\<not> thing_deleted_at t \<noteq> None"
          using \<open>stored s uid x = Some t\<close> by (auto simp: stored_def split: option.splits if_splits)
        have seen: "(redirects s uid)\<^sup>+\<^sup>+ z y" if "z \<in> set (x # seen)" for z
          using that step 1(3) by (auto intro: tranclp.trancl_into_trancl)
        show ?thesis
          by (rule answers_step [OF step "1.IH" [OF fresh get Some r seen]])
      qed
    qed
  qed
qed


text \<open>Redirects are a function, so a chain that ends has no cycle on it.\<close>

lemma redirects_confluent:
  assumes "(redirects s uid)\<^sup>*\<^sup>* x y" "(redirects s uid)\<^sup>*\<^sup>* x z"
  shows "(redirects s uid)\<^sup>*\<^sup>* y z \<or> (redirects s uid)\<^sup>*\<^sup>* z y"
proof -
  have "right_unique (redirects s uid)"
    by (auto simp: right_unique_def redirects_def)
  then show ?thesis
    using single_valued_confluent [to_pred] assms by metis
qed

definition chain_end :: "store \<Rightarrow> uuid \<Rightarrow> uuid \<Rightarrow> uuid \<Rightarrow> bool" where
  "chain_end s user_id x y \<longleftrightarrow> (redirects s user_id)\<^sup>*\<^sup>* x y \<and> \<not> (\<exists>z. redirects s user_id y z)"

lemma chain_end_reached:
  assumes "chain_end s uid x z" "(redirects s uid)\<^sup>*\<^sup>* x y"
  shows "(redirects s uid)\<^sup>*\<^sup>* y z"
  using assms redirects_confluent [of s uid x z y] by (auto simp: chain_end_def elim: converse_rtranclpE)

lemma chain_end_unique: "chain_end s uid x y \<Longrightarrow> chain_end s uid x z \<Longrightarrow> z = y"
  using chain_end_reached [of s uid x y z] by (auto simp: chain_end_def elim: converse_rtranclpE)

lemma cycle_stays:
  assumes "(redirects s uid)\<^sup>*\<^sup>* y z" "(redirects s uid)\<^sup>+\<^sup>+ y y"
  shows "(redirects s uid)\<^sup>+\<^sup>+ z z"
  using assms
proof (induction rule: converse_rtranclp_induct)
  case (step y w)
  obtain w' where "redirects s uid y w'" "(redirects s uid)\<^sup>*\<^sup>* w' y"
    using tranclpD [OF step.prems] by auto
  then have "(redirects s uid)\<^sup>*\<^sup>* w y"
    using redirects_det [OF step.hyps(1)] by auto
  then show ?case
    using step.hyps(1) step.IH by (auto intro: rtranclp_into_tranclp1)
qed

lemma chain_end_no_cycle:
  assumes "chain_end s uid x z" "(redirects s uid)\<^sup>*\<^sup>* x y"
  shows "\<not> (redirects s uid)\<^sup>+\<^sup>+ y y"
  using cycle_stays [OF chain_end_reached [OF assms]] assms(1)
  by (auto simp: chain_end_def dest: tranclpD)

lemma chain_endI:
  "(redirects s uid)\<^sup>*\<^sup>* x y \<Longrightarrow> stored s uid y = None \<Longrightarrow> chain_end s uid x y"
  "(redirects s uid)\<^sup>*\<^sup>* x y \<Longrightarrow> stored s uid y = Some t \<Longrightarrow> thing_merged_into t = None \<Longrightarrow> chain_end s uid x y"
  by (simp_all add: chain_end_def redirects_def)

text \<open>
  C30. Looking a thing up follows the redirects of the merges and always answers: with the stored
  thing at the end of the chain when that thing is not itself merged away; with "not found" exactly
  when the chain ends at an identifier that is not stored, is deleted, or belongs to another user;
  and with the cycle error exactly when the chain runs into a cycle of merges.
\<close>

theorem resolve_active_thing_answers:
  "(resolve_active_thing uid tid s = Inr t \<longleftrightarrow>
      (\<exists>y. (redirects s uid)\<^sup>*\<^sup>* tid y \<and> stored s uid y = Some t \<and> thing_merged_into t = None)) \<and>
    (resolve_active_thing uid tid s = Inl not_found \<longleftrightarrow>
      (\<exists>y. (redirects s uid)\<^sup>*\<^sup>* tid y \<and> stored s uid y = None)) \<and>
    (resolve_active_thing uid tid s = Inl redirect_cycle \<longleftrightarrow>
      (\<exists>y. (redirects s uid)\<^sup>*\<^sup>* tid y \<and> (redirects s uid)\<^sup>+\<^sup>+ y y)) \<and>
    (\<exists>r. resolve_active_thing uid tid s \<in> {Inr r, Inl not_found, Inl redirect_cycle})"
proof -
  have "answers s uid tid (resolve_active_thing uid tid s)"
    by (rule resolve_from_answers [of uid s "[]"]) (simp_all add: resolve_active_thing_def)
  then obtain y where y: "(redirects s uid)\<^sup>*\<^sup>* tid y"
    and r: "(\<exists>x. resolve_active_thing uid tid s = Inr x \<and> stored s uid y = Some x \<and> thing_merged_into x = None) \<or>
      resolve_active_thing uid tid s = Inl not_found \<and> stored s uid y = None \<or>
      resolve_active_thing uid tid s = Inl redirect_cycle \<and> (redirects s uid)\<^sup>+\<^sup>+ y y"
    by (auto simp: answers_def)
  have ends: "z = y" if "chain_end s uid tid y" "(redirects s uid)\<^sup>*\<^sup>* tid z"
      "stored s uid z = None \<or> stored s uid z = Some t \<and> thing_merged_into t = None" for z
  proof -
    have "chain_end s uid tid z"
      using that(3) chain_endI [OF that(2)] by blast
    then show ?thesis
      by (rule chain_end_unique [OF that(1)])
  qed
  have no: "\<not> chain_end s uid tid z" if "(redirects s uid)\<^sup>+\<^sup>+ y y" for z
    using chain_end_no_cycle [OF _ y] that by auto
  from r show ?thesis
  proof (elim disjE exE conjE)
    fix x assume x: "resolve_active_thing uid tid s = Inr x" "stored s uid y = Some x" "thing_merged_into x = None"
    note e = chain_endI(2) [OF y x(2,3)]
    have "stored s uid z \<noteq> None" "stored s uid z = Some t \<and> thing_merged_into t = None \<longrightarrow> t = x"
      if "(redirects s uid)\<^sup>*\<^sup>* tid z" for z
      using ends [OF e that] x(2) by (metis option.distinct(1), metis option.inject)
    then have "\<not> (\<exists>z. (redirects s uid)\<^sup>*\<^sup>* tid z \<and> stored s uid z = None)"
      "(\<exists>z. (redirects s uid)\<^sup>*\<^sup>* tid z \<and> stored s uid z = Some t \<and> thing_merged_into t = None) \<longleftrightarrow> x = t"
      using x y by blast+
    moreover have "\<not> (\<exists>z. (redirects s uid)\<^sup>*\<^sup>* tid z \<and> (redirects s uid)\<^sup>+\<^sup>+ z z)"
      using chain_end_no_cycle [OF e] by blast
    ultimately show ?thesis
      by (simp add: x)
  next
    assume x: "resolve_active_thing uid tid s = Inl not_found" "stored s uid y = None"
    note e = chain_endI(1) [OF y x(2)]
    have "\<not> (stored s uid z = Some t \<and> thing_merged_into t = None)" if "(redirects s uid)\<^sup>*\<^sup>* tid z" for z
      using ends [OF e that] x(2) by (metis option.distinct(1))
    moreover have "\<not> (redirects s uid)\<^sup>+\<^sup>+ z z" if "(redirects s uid)\<^sup>*\<^sup>* tid z" for z
      by (rule chain_end_no_cycle [OF e that])
    ultimately show ?thesis
      by (simp add: x) (use x y in blast)
  next
    assume x: "resolve_active_thing uid tid s = Inl redirect_cycle" "(redirects s uid)\<^sup>+\<^sup>+ y y"
    have "stored s uid z \<noteq> None" "\<not> (stored s uid z = Some t \<and> thing_merged_into t = None)"
      if "(redirects s uid)\<^sup>*\<^sup>* tid z" for z
      using no [OF x(2)] chain_endI [OF that] by auto
    then show ?thesis
      using x y by fastforce
  qed
qed

end
