(* ===== verification/StateProperties.thy ===== *)
theory StateProperties
  imports StateScenario ResolveProperties
begin

text \<open>
  What the mutations of the personal state promise, over every history of the system.
\<close>

section \<open>The composed system\<close>

text \<open>
  C31. The personal state refines the runtime's view of it: every history of the composed system is,
  on the tables of the runtime, a history of the runtime under the same environments, so that all
  that holds of the reachable states of the runtime holds of the composed system; and the invariant
  of the personal state holds beside it.
\<close>

theorem system_refines_runtime:
  assumes "system_history es empty_store s"
  shows "history es empty_db (core s) \<and> runtime_ok (core s) \<and> state_ok s"
proof -
  have "history es empty_db (core s)"
    using system_history_core [OF assms state_ok_empty] by (simp add: core_empty)
  moreover have "state_ok s"
    by (rule system.trace_inv [OF assms state_ok_empty])
  ultimately show ?thesis
    using reachable_ok [of "core s"] by (auto simp: reachable_def)
qed

theorem system_refines_runtime_witness:
  "history [demo_env 100 1000, demo_env 200 2000, demo_env 300 3000] empty_db (core state3) \<and>
    runtime_ok (core state3) \<and> state_ok state3"
proof -
  have "system_history [demo_env 100 1000, demo_env 200 2000, demo_env 300 3000] empty_store state3"
    using trace_append [OF state3_history trace_append [OF state2_history state1_history]] by simp
  then show ?thesis
    by (rule system_refines_runtime)
qed

lemma once_logged:
  assumes "once uid key s s1" "state_keys s1"
  obtains m where "audit_get_mutation uid key s1 = Some m"
proof (cases "audit_get_mutation uid key s")
  case None
  then obtain m where "st_mutations s1 = st_mutations s @ [m]" "mut_user_id m = uid" "mut_idempotency_key m = key"
    using assms(1) by (auto simp: once_def logged_def)
  then have "audit_get_mutation uid key s1 = Some m"
    using audit_get_mutation_iff [OF state_keysD(6) [OF assms(2)]] by simp
  then show ?thesis
    by (rule that)
qed (use assms(1) that in \<open>simp add: once_def\<close>)

lemma keyed_filter_one:
  assumes "keyed k t" "r \<in> set t"
  shows "filter (\<lambda>x. k x = k r) t = [r]"
  using assms
proof (induction t)
  case (Cons x t)
  then have "filter (\<lambda>y. k y = k x) t = []"
    by (metis (mono_tags, lifting) filter_False image_eqI keyed_Cons)
  with Cons show ?case
    by (cases "r = x") (auto simp: image_iff)
qed simp

text \<open>
  C32. A mutation runs once per idempotency key: after it has committed, whatever the system does
  meanwhile, no call of any mutation of that user with the same key changes anything, and the audit
  trail holds exactly one record of the key.
\<close>

theorem state_mutation_runs_once:
  assumes "state_ok s" "state_mutation uid key s s1" "system_history es s1 s2"
    "state_mutation uid key s2 s3"
  shows "s3 = s2 \<and> (\<exists>m. mut_user_id m = uid \<and> filter (\<lambda>x. mut_idempotency_key x = key) (st_mutations s3) = [m])"
proof -
  have once1: "once uid key s s1"
    by (rule state_mutation_once [OF assms(2) state_ok_keys [OF assms(1)]])
  have ok1: "state_ok s1"
    by (rule once_ok [OF once1 assms(1)])
  obtain m where m: "audit_get_mutation uid key s1 = Some m"
    by (rule once_logged [OF once1 state_ok_keys [OF ok1]])
  have m2: "audit_get_mutation uid key s2 = Some m"
    using ledger.trace_keeps [OF assms(3) ok1, of "(uid, key)" m] m by simp
  have ok2: "state_ok s2"
    by (rule system.trace_inv [OF assms(3) ok1])
  have keyed: "keyed mut_idempotency_key (st_mutations s2)"
    by (rule state_keysD [OF state_ok_keys [OF ok2]])
  have "s3 = s2"
    using state_mutation_once [OF assms(4) state_ok_keys [OF ok2]] m2 by (simp add: once_def)
  then show ?thesis
    using m2 keyed_filter_one [OF keyed, of m] by (auto simp: audit_get_mutation_iff [OF keyed])
qed

lemma state1_replay:
  "create_thing (demo_env 900 9000) 7 (u ''Trip'') (u ''a'') (u ''m1'') (u ''r'') None state2 =
     Inr (to_thing_dto (demo_thing 100 1000 (u ''Trip'')), state2)"
  by (simp add: create_thing_def with_entity_def apply_create_thing_def repo_defs state1_def state2_def
      demo_thing_def demo_entry_def new_thing_def juuid_def)

theorem state_mutation_runs_once_witness:
  "state2 = state2 \<and> (\<exists>m. mut_user_id m = 7 \<and>
    filter (\<lambda>x. mut_idempotency_key x = u ''m1'') (st_mutations state2) = [m])"
  by (rule state_mutation_runs_once [OF state_ok_empty state_mutation.create_thing [OF state1_step]
        state2_history state_mutation.create_thing [OF state1_replay]])

section \<open>What every store satisfies\<close>

lemma one_primary:
  assumes "clash_free primary_clash ds"
  shows "length (filter (\<lambda>d. tdate_thing_id d = tid \<and> tdate_kind d = kind \<and> tdate_is_primary d) ds) \<le> 1"
  using assms
proof (induction ds)
  case (Cons d ds)
  show ?case
  proof (cases "tdate_thing_id d = tid \<and> tdate_kind d = kind \<and> tdate_is_primary d")
    case True
    then have "filter (\<lambda>d. tdate_thing_id d = tid \<and> tdate_kind d = kind \<and> tdate_is_primary d) ds = []"
      using Cons.prems by (auto simp: primary_clash_def filter_empty_conv)
    then show ?thesis
      by simp
  qed (use Cons in \<open>auto\<close>)
qed simp

text \<open>
  C33. In every reachable store no current row refers to a missing or deleted thing: a task belongs
  to a live thing of its own user, dates, context entries and blockers to a live thing, the task a
  blocker names to the blocked thing; a thing has at most one primary date of a kind; a recurring
  task has a due time and a positive interval; and every timeline event belongs to a mutation of
  the same user.
\<close>

theorem state_is_consistent:
  assumes "system_reachable s"
  shows "(\<forall>t \<in> set (st_tasks s). (\<forall>tid. task_thing_id t = Some tid \<longrightarrow> live_for s (task_user_id t) tid) \<and>
      (\<forall>days. task_recurrence_interval_days t = Some days \<longrightarrow> 0 < days \<and> task_due_at t \<noteq> None)) \<and>
    (\<forall>d \<in> set (st_dates s). live s (tdate_thing_id d)) \<and>
    (\<forall>c \<in> set (st_entries s). live s (ctx_thing_id c)) \<and>
    (\<forall>b \<in> set (st_blockers s). live s (blk_thing_id b) \<and> (\<forall>x. blk_task_id b = Some x \<longrightarrow>
      (\<exists>t \<in> set (st_tasks s). task_id t = x \<and> task_thing_id t = Some (blk_thing_id b)))) \<and>
    (\<forall>tid kind. length (filter (\<lambda>d. tdate_thing_id d = tid \<and> tdate_kind d = kind \<and> tdate_is_primary d)
      (st_dates s)) \<le> 1) \<and>
    (\<forall>ev \<in> set (st_timeline s). \<exists>m \<in> set (st_mutations s).
      tle_mutation_id ev = Some (mut_id m) \<and> tle_user_id ev = mut_user_id m)"
proof -
  have ok: "state_refs s" "state_rows s" "audit_ok s"
    using system_reachable_ok [OF assms] by (simp_all add: state_ok_def)
  have "live s tid" if "tid \<in> referred s" for tid
    using ok(1) that by (simp add: state_refs_def)
  then have "\<forall>d \<in> set (st_dates s). live s (tdate_thing_id d)" "\<forall>c \<in> set (st_entries s). live s (ctx_thing_id c)"
    "\<forall>b \<in> set (st_blockers s). live s (blk_thing_id b)"
    by (auto simp: referred_def)
  moreover have "length (filter (\<lambda>d. tdate_thing_id d = tid \<and> tdate_kind d = kind \<and> tdate_is_primary d)
      (st_dates s)) \<le> 1" for tid kind
    using ok(2) one_primary by (simp add: state_rows_def)
  ultimately show ?thesis
    using ok by (simp add: state_refs_def state_rows_def audit_ok_def task_check_def split: option.splits)
qed

theorem state_is_consistent_witness:
  "(\<exists>t \<in> set (st_tasks state4). task_thing_id t = Some 100) \<and> live_for state4 7 100"
  using state_is_consistent [OF state4_reachable] by (simp add: state4_def demo_task_def)


section \<open>Optimistic concurrency\<close>

lemma sel1_unique:
  assumes "keyed k t" "r \<in> set t" "p r" "\<And>x. p x \<Longrightarrow> k x = k r"
  shows "sel1 p t = Some r"
proof -
  obtain x where x: "sel1 p t = Some x"
    using assms(2,3) sel1_None [of p t] by (cases "sel1 p t") auto
  then have "x \<in> set t" "k x = k r"
    using sel1_SomeD [OF x] assms(4) by auto
  then show ?thesis
    using x keyed_unique [OF assms(1) _ assms(2)] by simp
qed

lemma things_get_iff:
  assumes "keyed thing_id (st_things s)"
  shows "things_get uid tid (core s) = Some t \<longleftrightarrow>
    t \<in> set (st_things s) \<and> thing_id t = tid \<and> thing_user_id t = uid \<and> thing_deleted_at t = None"
proof
  assume "t \<in> set (st_things s) \<and> thing_id t = tid \<and> thing_user_id t = uid \<and> thing_deleted_at t = None"
  moreover from this obtain x where x: "things_get uid tid (core s) = Some x"
    using live_for_get [of s uid tid] by (auto simp: live_for_def)
  moreover have "x \<in> set (st_things s)" "thing_id x = tid"
    by (rule things_getD [OF x])+
  ultimately show "things_get uid tid (core s) = Some t"
    using keyed_unique [OF assms] by fastforce
qed (auto dest: things_getD)

lemma things_get_included:
  assumes "keyed thing_id (st_things s)" "things_get uid tid (core s) = Some t"
  shows "things_get_including_deleted uid tid s = Some t"
  unfolding things_get_including_deleted_def using things_getD [OF assms(2)] assms(1)
  by (intro sel1_unique [of thing_id]) auto

lemma option_ext: "(\<And>y. a = Some y \<longleftrightarrow> b = Some y) \<Longrightarrow> a = b"
  by (cases a; cases b) auto

lemma things_get_put:
  assumes "keyed thing_id (st_things s)" "t \<in> set (st_things s)" "thing_id t' = thing_id t"
  shows "x \<noteq> thing_id t \<Longrightarrow> things_get uid x (core (set_things (upd (\<lambda>x. thing_id x = thing_id t')
      (copy_thing t') (st_things s)) s)) = things_get uid x (core s)"
    and "thing_user_id t = uid \<Longrightarrow> thing_deleted_at t' = None \<Longrightarrow>
      things_get uid (thing_id t) (core (set_things (upd (\<lambda>x. thing_id x = thing_id t')
      (copy_thing t') (st_things s)) s)) = Some (copy_thing t' t)"
proof -
  let ?s = "set_things (upd (\<lambda>x. thing_id x = thing_id t') (copy_thing t') (st_things s)) s"
  have keyed: "keyed thing_id (st_things ?s)"
    using assms(1) by (simp add: keyed_upd)
  show "things_get uid x (core ?s) = things_get uid x (core s)" if "x \<noteq> thing_id t"
  proof (rule option_ext)
    fix y
    show "things_get uid x (core ?s) = Some y \<longleftrightarrow> things_get uid x (core s) = Some y"
      unfolding things_get_iff [OF keyed] things_get_iff [OF assms(1)]
      using that assms(3) by (auto simp: set_upd image_iff split: if_splits)
  qed
  show "things_get uid (thing_id t) (core ?s) = Some (copy_thing t' t)"
    if "thing_user_id t = uid" "thing_deleted_at t' = None"
    unfolding things_get_iff [OF keyed] using assms(2,3) that
    by (auto simp: set_upd image_iff copy_thing_def intro!: bexI [of _ t])
qed


lemma update_thing_put:
  assumes "update_thing e uid tid v name st stage upd_stage a key reason run s = Inr (r, s')"
    "audit_get_mutation uid key s = None" "state_keys s"
  obtains t t' where "things_get uid tid (core s) = Some t" "thing_version t = v" "thing_id t' = tid"
    "thing_version t' = v + 1" "thing_deleted_at t' = None" "r = to_thing_dto t'"
    "core s' = core (set_things (upd (\<lambda>x. thing_id x = thing_id t') (copy_thing t') (st_things s)) s)"
proof -
  obtain t t' s1 m ev where t: "things_get uid tid (core s) = Some t" "thing_version t = v"
      and t': "thing_revise (clk e 0) name st stage upd_stage t = Inr t'" "r = to_thing_dto t'"
      and up: "things_update t' v s = (True, s1)" and rec: "record_audit m ev s1 = Inr s'"
    using assms(1,2) by (auto simp: update_thing_def Let_def case_prod_Inr split: option.splits if_splits)
  have "thing_id t' = thing_id t" "thing_version t' = thing_version t + 1" "thing_deleted_at t' = thing_deleted_at t"
    using t'(1) by (auto simp: entity_defs Let_def split: if_splits option.splits)
  then show ?thesis
    using t t'(2) things_getD [OF t(1)] things_updateD [OF up state_keysD(1) [OF assms(3)]] target_updates(1) [OF rec]
    by (intro that [of t t']) simp_all
qed

text \<open>
  C34. Of two writers that read the same version of a thing, the second is refused: an accepted update
  moves the version on by one and touches no other thing, and then every update, of whichever fields,
  every archiving, restoring or deletion that still expects the old version and is a request of its own
  (both idempotency keys are new) fails with a version conflict; an update of no field at all is
  refused before that.
\<close>

theorem stale_thing_write_is_refused:
  assumes "state_ok s" "update_thing e uid tid v name st stage upd_stage a key reason run s = Inr (r, s1)"
    "audit_get_mutation uid key s = None" "audit_get_mutation uid key' s1 = None"
  shows "tdo_version r = v + 1 \<and>
    (\<forall>uid' x. x \<noteq> tid \<longrightarrow> things_get uid' x (core s1) = things_get uid' x (core s)) \<and>
    update_thing e' uid tid v name' st' stage' upd_stage' a' key' reason' run' s1 =
      Inl (if name' = None \<and> st' = None \<and> \<not> upd_stage'
        then ValueError (u ''At least one editable Thing field must be provided.'')
        else VersionConflict (u ''Thing version is stale.'')) \<and>
    change_archive e' uid tid v a' key' reason' run' archive s1 =
      Inl (VersionConflict (u ''Thing version is stale.'')) \<and>
    delete_thing e' uid tid v a' key' reason' run' s1 =
      Inl (VersionConflict (u ''Thing version is stale.''))"
proof -
  obtain t t' where t: "things_get uid tid (core s) = Some t" "thing_version t = v" "thing_id t' = tid"
      "thing_version t' = v + 1" "thing_deleted_at t' = None" "r = to_thing_dto t'"
    and core: "core s1 = core (set_things (upd (\<lambda>x. thing_id x = thing_id t') (copy_thing t') (st_things s)) s)"
    by (rule update_thing_put [OF assms(2,3) state_ok_keys [OF assms(1)]])
  note row = things_getD [OF t(1)]
  have id: "thing_id t' = thing_id t"
    using t(3) row(2) by simp
  note put = things_get_put [OF state_keysD(1) [OF state_ok_keys [OF assms(1)]] row(1) id]
  have put_keyed: "keyed thing_id (st_things s1)"
    using state_keysD(1) [OF state_ok_keys [OF assms(1)]] by (simp add: core keyed_upd)
  have get: "things_get uid tid (core s1) = Some (copy_thing t' t)"
    using put(2) row t(5) by (simp add: core)
  then have "things_get_including_deleted uid tid s1 = Some (copy_thing t' t)"
    by (rule things_get_included [OF put_keyed])
  moreover have "thing_version (copy_thing t' t) = v + 1" "thing_deleted_at (copy_thing t' t) = None"
    using t by (simp_all add: copy_thing_def)
  ultimately show ?thesis
    using get assms(4) put(1) row(2) t(4,6)
    by (simp add: update_thing_def change_archive_def apply_change_archive_def delete_thing_def
        apply_delete_thing_def with_result_def to_thing_dto_def core)
qed


lemma update_step:
  "\<exists>r s'. update_thing (demo_env 600 6000) 7 100 1 (Some (u ''Tour'')) None None False (u ''a'') (u ''m6'')
     (u ''r'') None state1 = Inr (r, s') \<and> audit_get_mutation 7 (u ''m7'') s' = None"
  by (simp add: update_thing_def Let_def repo_defs record_audit_def cas_rows_def copy_thing_def
      state1_def demo_thing_def demo_entry_def demo_created_def new_thing_def mutation_clash_def
      entity_defs thing_image_def things_update_def set_things_def ins_def empty_store_def empty_db_def)

theorem stale_thing_write_is_refused_witness:
  "\<exists>s'. delete_thing (demo_env 700 7000) 7 100 1 (u ''a'') (u ''m7'') (u ''r'') None s' =
     Inl (VersionConflict (u ''Thing version is stale.''))"
proof -
  obtain r s' where s': "update_thing (demo_env 600 6000) 7 100 1 (Some (u ''Tour'')) None None False (u ''a'')
      (u ''m6'') (u ''r'') None state1 = Inr (r, s')" "audit_get_mutation 7 (u ''m7'') s' = None"
    using update_step by blast
  have "audit_get_mutation 7 (u ''m6'') state1 = None"
    by (simp add: repo_defs state1_def demo_entry_def)
  then show ?thesis
    using stale_thing_write_is_refused [OF system_reachable_ok [OF state1_reachable] s'(1) _ s'(2)] by blast
qed

section \<open>Merging\<close>

lemma record_audit_rest:
  assumes "record_audit m ev s = Inr s'"
  obtains ms evs where "s' = s\<lparr>st_mutations := ms, st_timeline := evs\<rparr>"
  using record_audit_tables(3) [OF assms] by blast

lemma record_audit_grows:
  assumes "record_audit m ev s = Inr s'"
  obtains ms evs where "s' = s\<lparr>st_mutations := st_mutations s @ ms, st_timeline := st_timeline s @ evs\<rparr>"
  using assms that [of "case ev of None \<Rightarrow> [] | Some x \<Rightarrow> [x]" "[m]"]
  by (cases s) (auto simp: record_audit_def repo_defs split: option.splits)

lemma merge_thing_steps:
  assumes "merge_things show_json e uid canon dup vc vd a key reason run s = Inr (r, s')"
    "audit_get_mutation uid key s = None"
  obtains c d d' s1 s2 ms evs where "things_get uid canon (core s) = Some c" "things_get uid dup (core s) = Some d"
    "canon \<noteq> dup" "thing_id d' = dup" "thing_deleted_at d' = None" "thing_merged_into d' = Some canon"
    "things_update d' vd s = (True, s1)" "things_rebind_merged_references dup canon s1 = Inr s2"
    "s' = s2\<lparr>st_mutations := st_mutations s2 @ ms, st_timeline := st_timeline s2 @ evs\<rparr>"
proof -
  obtain out where "apply_merge_things show_json e uid canon dup vc vd a key reason run s = Inr (out, s')"
    using with_resultD assms(1) unfolding merge_things_def by blast
  then obtain c d d' s1 s2 m ev where *: "things_get uid canon (core s) = Some c" "things_get uid dup (core s) = Some d"
    "canon \<noteq> dup" "thing_merge_into (clk e 0) (thing_id c) d = Inr d'"
    "things_update d' vd s = (True, s1)" "things_rebind_merged_references (thing_id d') (thing_id c) s1 = Inr s2"
    "record_audit m ev s2 = Inr s'"
    using assms(2)
    by (auto simp: apply_merge_things_def Let_def case_prod_Inr guard_Inr split: option.splits)
  obtain ms evs where s': "s' = s2\<lparr>st_mutations := st_mutations s2 @ ms, st_timeline := st_timeline s2 @ evs\<rparr>"
    by (rule record_audit_grows [OF *(7)])
  have "thing_merged_into d' = Some (thing_id c)"
    using *(4) by (auto simp: entity_defs split: if_splits)
  with * s' thing_merge_frame [OF *(4)] things_getD [OF *(1)] things_getD [OF *(2)] show ?thesis
    by (intro that [OF *(1-3) _ _ _ *(5) _ s']) simp_all
qed

lemma rebind_other_tables:
  assumes "things_rebind_merged_references dup canon s = Inr s'"
  shows "st_automations s' = upd (\<lambda>a. aut_thing_id a = Some dup) (\<lambda>a. a\<lparr>aut_thing_id := Some canon\<rparr>) (st_automations s)"
    "st_outbox s' = upd (\<lambda>n. nob_thing_id n = Some dup) (\<lambda>n. n\<lparr>nob_thing_id := Some canon\<rparr>) (st_outbox s)"
    "st_memories s' = upd (\<lambda>m. mem_thing_id m = Some dup) (\<lambda>m. m\<lparr>mem_thing_id := Some canon\<rparr>) (st_memories s)"
  using assms by (auto simp: things_rebind_merged_references_def Let_def)

lemma merged_tables:
  assumes "things_rebind_merged_references dup canon s1 = Inr s2" "s1 = set_things ts s"
  shows "st_tasks s2 = upd (\<lambda>t. task_thing_id t = Some dup) (\<lambda>t. t\<lparr>task_thing_id := Some canon\<rparr>) (st_tasks s)"
    "st_dates s2 = upd (\<lambda>d. tdate_thing_id d = dup) (\<lambda>d. d\<lparr>tdate_thing_id := canon\<rparr>) (st_dates s)"
    "st_entries s2 = upd (\<lambda>c. ctx_thing_id c = dup) (\<lambda>c. c\<lparr>ctx_thing_id := canon\<rparr>) (st_entries s)"
    "st_blockers s2 = upd (\<lambda>b. blk_thing_id b = dup) (\<lambda>b. b\<lparr>blk_thing_id := canon\<rparr>) (st_blockers s)"
    "st_automations s2 = upd (\<lambda>x. aut_thing_id x = Some dup) (\<lambda>x. x\<lparr>aut_thing_id := Some canon\<rparr>) (st_automations s)"
    "st_memories s2 = upd (\<lambda>x. mem_thing_id x = Some dup) (\<lambda>x. x\<lparr>mem_thing_id := Some canon\<rparr>) (st_memories s)"
    "st_outbox s2 = upd (\<lambda>x. nob_thing_id x = Some dup) (\<lambda>x. x\<lparr>nob_thing_id := Some canon\<rparr>) (st_outbox s)"
    "db_threads (core s2) = upd (\<lambda>x. thr_active_thing_id x = Some dup)
      (\<lambda>x. x\<lparr>thr_active_thing_id := Some canon\<rparr>) (db_threads (core s))"
  unfolding rebind_tables(5-8,10) [OF assms(1)] rebind_other_tables [OF assms(1)] assms(2)
  by (simp_all add: set_things_def)

lemma copied_link:
  assumes "x \<in> set rows" "tsr_thing_id x = dup" "canon \<noteq> dup"
  shows "\<exists>y \<in> {y \<in> set rows. tsr_thing_id y \<noteq> dup} \<union>
    {y \<in> set (copied_sources dup canon rows). tsr_thing_id y \<noteq> dup}.
    tsr_thing_id y = canon \<and> tsr_source_id y = tsr_source_id x"
proof (cases "tsr_source_id x \<in> tsr_source_id ` set (sel (\<lambda>x. tsr_thing_id x = canon) rows)")
  case True
  then show ?thesis
    using assms(3) by (auto simp: sel_def)
next
  case False
  then have "x\<lparr>tsr_thing_id := canon\<rparr> \<in> set (copied_sources dup canon rows)"
    using assms by (simp add: copied_sources_def Let_def sel_def)
  then show ?thesis
    using assms(3) by (intro bexI [of _ "x\<lparr>tsr_thing_id := canon\<rparr>"]) simp_all
qed

lemma moved_links:
  assumes "canon \<noteq> dup"
  shows "filter (\<lambda>x. tsr_thing_id x \<noteq> dup) (rows @ copied_sources dup canon rows) =
    filter (\<lambda>x. tsr_thing_id x \<noteq> dup) rows @ map (\<lambda>x. x\<lparr>tsr_thing_id := canon\<rparr>)
      (filter (\<lambda>x. tsr_thing_id x = dup \<and>
        (\<forall>y \<in> set rows. tsr_thing_id y = canon \<longrightarrow> tsr_source_id y \<noteq> tsr_source_id x)) rows)"
proof -
  have "tsr_source_id x \<notin> tsr_source_id ` set (filter (\<lambda>x. tsr_thing_id x = canon) rows) \<longleftrightarrow>
      (\<forall>y \<in> set rows. tsr_thing_id y = canon \<longrightarrow> tsr_source_id y \<noteq> tsr_source_id x)" for x :: ThingSource
    by (auto simp: image_iff)
  moreover have "filter (\<lambda>x. tsr_thing_id x \<noteq> dup) (map (\<lambda>x. x\<lparr>tsr_thing_id := canon\<rparr>) xs) =
      map (\<lambda>x. x\<lparr>tsr_thing_id := canon\<rparr>) xs" for xs
    using assms by (induction xs) simp_all
  ultimately show ?thesis
    by (simp add: copied_sources_def Let_def sel_def)
qed

text \<open>
  C35. A merge moves the current rows of the duplicate: the tasks, dates, context entries, blockers,
  automations, memories, notifications waiting in the outbox and active things of conversations that
  referred to it refer to the canonical thing afterwards, and the others are unchanged; of the links to
  sources, those of other things stay, the duplicate's go, and each source of it that the canonical
  thing did not have is linked to that, so none refers to the duplicate any more. What is history keeps
  the duplicate: the relations and the notification intents are unchanged, the audit trail and the
  timeline only grow. And looking up the duplicate gives the canonical thing, unless that is itself
  merged away.
\<close>

theorem merge_moves_everything:
  assumes "state_ok s" "merge_things show_json e uid canon dup vc vd a key reason run s = Inr (r, s')"
    "audit_get_mutation uid key s = None"
  shows "st_tasks s' = map (\<lambda>t. if task_thing_id t = Some dup then t\<lparr>task_thing_id := Some canon\<rparr> else t) (st_tasks s) \<and>
    st_dates s' = map (\<lambda>d. if tdate_thing_id d = dup then d\<lparr>tdate_thing_id := canon\<rparr> else d) (st_dates s) \<and>
    st_entries s' = map (\<lambda>c. if ctx_thing_id c = dup then c\<lparr>ctx_thing_id := canon\<rparr> else c) (st_entries s) \<and>
    st_blockers s' = map (\<lambda>b. if blk_thing_id b = dup then b\<lparr>blk_thing_id := canon\<rparr> else b) (st_blockers s) \<and>
    st_automations s' = map (\<lambda>x. if aut_thing_id x = Some dup then x\<lparr>aut_thing_id := Some canon\<rparr> else x) (st_automations s) \<and>
    st_memories s' = map (\<lambda>x. if mem_thing_id x = Some dup then x\<lparr>mem_thing_id := Some canon\<rparr> else x) (st_memories s) \<and>
    st_outbox s' = map (\<lambda>x. if nob_thing_id x = Some dup then x\<lparr>nob_thing_id := Some canon\<rparr> else x) (st_outbox s) \<and>
    db_threads (core s') = map (\<lambda>x. if thr_active_thing_id x = Some dup then x\<lparr>thr_active_thing_id := Some canon\<rparr> else x)
      (db_threads (core s)) \<and>
    st_thing_sources s' = filter (\<lambda>x. tsr_thing_id x \<noteq> dup) (st_thing_sources s) @
      map (\<lambda>x. x\<lparr>tsr_thing_id := canon\<rparr>) (filter (\<lambda>x. tsr_thing_id x = dup \<and>
        (\<forall>y \<in> set (st_thing_sources s). tsr_thing_id y = canon \<longrightarrow> tsr_source_id y \<noteq> tsr_source_id x)) (st_thing_sources s)) \<and>
    (\<forall>x \<in> set (st_thing_sources s'). tsr_thing_id x \<noteq> dup) \<and>
    (\<forall>x \<in> set (st_thing_sources s). tsr_thing_id x = dup \<longrightarrow>
      (\<exists>y \<in> set (st_thing_sources s'). tsr_thing_id y = canon \<and> tsr_source_id y = tsr_source_id x)) \<and>
    st_relations s' = st_relations s \<and> st_intents s' = st_intents s \<and>
    (\<exists>ms evs. st_mutations s' = st_mutations s @ ms \<and> st_timeline s' = st_timeline s @ evs) \<and>
    (\<forall>c. things_get uid canon (core s) = Some c \<longrightarrow> thing_merged_into c = None \<longrightarrow>
      resolve_active_thing uid dup s' = Inr c)"
proof -
  obtain c d d' s1 s2 ms evs where c: "things_get uid canon (core s) = Some c" and d: "things_get uid dup (core s) = Some d"
    and d': "canon \<noteq> dup" "thing_id d' = dup" "thing_deleted_at d' = None" "thing_merged_into d' = Some canon"
    and up: "things_update d' vd s = (True, s1)" and rb: "things_rebind_merged_references dup canon s1 = Inr s2"
    and s': "s' = s2\<lparr>st_mutations := st_mutations s2 @ ms, st_timeline := st_timeline s2 @ evs\<rparr>"
    by (rule merge_thing_steps [OF assms(2,3)])
  note keyed = state_keysD(1) [OF state_ok_keys [OF assms(1)]]
  note row = things_getD [OF d]
  have id: "thing_id d' = thing_id d"
    using d'(2) row(2) by simp
  note s1 = things_updateD [OF up keyed]
  note put = things_get_put [OF keyed row(1) id, folded s1]
  note tabs = rebind_tables [OF rb]
  have keyed1: "keyed thing_id (st_things s')"
    using keyed by (simp add: s' tabs(1) s1 keyed_upd)
  have cong: "things_get uid x (core s') = things_get uid x (core s1)" for x
    by (simp add: things_get_def s' tabs)
  have "things_get uid dup (core s') = Some (copy_thing d' d)" "things_get uid canon (core s') = Some c"
    using put row c d' by (simp_all add: cong)
  note got = this [THEN things_get_included [OF keyed1]]
  have "resolve_active_thing uid dup s' = Inr c'" if "c' = c" "thing_merged_into c' = None" for c'
    using got that d' things_getD [OF c] row
    by (simp add: resolve_active_thing_def resolve_from.simps copy_thing_def)
  then have "\<forall>c. things_get uid canon (core s) = Some c \<longrightarrow> thing_merged_into c = None \<longrightarrow>
      resolve_active_thing uid dup s' = Inr c"
    using c by simp
  moreover have "\<forall>x \<in> set (st_thing_sources s'). tsr_thing_id x \<noteq> dup"
    by (auto simp: s' tabs)
  moreover have "\<exists>y \<in> set (st_thing_sources s'). tsr_thing_id y = canon \<and> tsr_source_id y = tsr_source_id x"
    if "x \<in> set (st_thing_sources s)" "tsr_thing_id x = dup" for x
    using copied_link [OF that d'(1)] by (simp add: s' tabs s1)
  moreover have "st_thing_sources s' = filter (\<lambda>x. tsr_thing_id x \<noteq> dup) (st_thing_sources s) @
      map (\<lambda>x. x\<lparr>tsr_thing_id := canon\<rparr>) (filter (\<lambda>x. tsr_thing_id x = dup \<and>
        (\<forall>y \<in> set (st_thing_sources s). tsr_thing_id y = canon \<longrightarrow> tsr_source_id y \<noteq> tsr_source_id x)) (st_thing_sources s))"
    using moved_links [OF d'(1), of "st_thing_sources s"] by (simp add: s' tabs s1)
  moreover have "st_relations s' = st_relations s" "st_intents s' = st_intents s"
    using rb by (auto simp: s' s1 set_things_def things_rebind_merged_references_def Let_def)
  moreover have "st_mutations s' = st_mutations s @ ms" "st_timeline s' = st_timeline s @ evs"
    by (simp_all add: s' tabs s1)
  moreover have frame: "st_tasks s' = st_tasks s2" "st_dates s' = st_dates s2" "st_entries s' = st_entries s2"
    "st_blockers s' = st_blockers s2" "st_automations s' = st_automations s2" "st_memories s' = st_memories s2"
    "st_outbox s' = st_outbox s2" "core s' = core s2"
    by (simp_all add: s')
  ultimately show ?thesis
    unfolding frame merged_tables [OF rb s1, unfolded upd_def] by blast
qed

theorem merge_moves_everything_witness:
  "st_tasks state4 = [demo_task\<lparr>task_thing_id := Some 100\<rparr>] \<and>
    resolve_active_thing 7 200 state4 = Inr (demo_thing 100 1000 (u ''Trip''))"
proof -
  obtain r where "merge_things (\<lambda>_. []) (demo_env 400 4000) 7 100 200 1 1 (u ''a'') (u ''m4'') (u ''r'') None state3
      = Inr (r, state4)"
    using state_merge_steps(1) by blast
  moreover have "audit_get_mutation 7 (u ''m4'') state3 = None"
    by (simp add: repo_defs state3_def state2_def demo_entry_def demo_task_entry_def)
  moreover have "st_tasks state3 = [demo_task]" "task_thing_id demo_task = Some 200"
    "things_get 7 100 (core state3) = Some (demo_thing 100 1000 (u ''Trip''))"
    "thing_merged_into (demo_thing 100 1000 (u ''Trip'')) = None"
    by (simp_all add: state3_def state2_def demo_task_def repo_defs demo_thing_def new_thing_def)
  ultimately show ?thesis
    using merge_moves_everything [OF system_reachable_ok [OF state3_reachable]] by fastforce
qed

section \<open>Deletion\<close>

lemma copy_thing_deleted: "thing_deleted_at (copy_thing x t) = thing_deleted_at x"
  by (simp add: copy_thing_def)

lemma delete_thing_steps:
  assumes "delete_thing e uid tid v a key reason run s = Inr (r, s')" "audit_get_mutation uid key s = None"
  obtains t t' s1 ms evs where "things_get_including_deleted uid tid s = Some t" "thing_id t' = tid"
    "thing_deleted_at t' \<noteq> None" "things_update t' v (clear_thing tid s) = (True, s1)"
    "s' = s1\<lparr>st_mutations := ms, st_timeline := evs\<rparr>"
proof -
  obtain out where "apply_delete_thing e uid tid v a key reason run s = Inr (out, s')"
    using with_resultD assms(1) unfolding delete_thing_def by blast
  then obtain t t' s1 m ev where *: "things_get_including_deleted uid tid s = Some t"
      "thing_delete (clk e 0) t = Inr t'" "things_update t' v (clear_thing (thing_id t) s) = (True, s1)"
      "record_audit m ev s1 = Inr s'"
    using assms(2) by (auto simp: apply_delete_thing_def Let_def clear_thing_eq case_prod_Inr split: option.splits if_splits)
  obtain ms evs where s': "s' = s1\<lparr>st_mutations := ms, st_timeline := evs\<rparr>"
    by (rule record_audit_rest [OF *(4)])
  have id: "thing_id t = tid"
    using sel1_SomeD [OF *(1) [unfolded things_get_including_deleted_def]] by simp
  have "thing_deleted_at t' \<noteq> None"
    using *(2) by (auto simp: entity_defs split: if_splits)
  with * id thing_delete_frame [OF *(2)] show ?thesis
    by (intro that [OF *(1) _ _ _ s']) simp_all
qed


lemma delete_step:
  "\<exists>r s'. delete_thing (demo_env 600 6000) 7 200 1 (u ''a'') (u ''m6'') (u ''r'') None state3 = Inr (r, s')"
proof -
  obtain out s' where "apply_delete_thing (demo_env 600 6000) 7 200 1 (u ''a'') (u ''m6'') (u ''r'') None state3
      = Inr (out, s')"
    using that
    by (simp add: apply_delete_thing_def Let_def repo_defs record_audit_def cas_rows_def copy_thing_def
      state1_def state2_def state3_def demo_thing_def demo_entry_def demo_created_def new_thing_def
      mutation_clash_def demo_task_def new_task_def demo_task_entry_def demo_task_event_def entity_defs
      things_update_def set_things_def ins_def empty_store_def empty_db_def)
  with with_result_total_delete [OF this] show ?thesis
    by (auto simp: delete_thing_def with_result_def reportable_def)
qed


end
