(* ===== verification/AgentProperties.thy ===== *)
theory AgentProperties
  imports AgentPolicy AgentTools AutomationProperties StateProperties
begin

text \<open>
  What the agent's side promises: a parallel batch is accepted exactly when its declarative
  description holds, no tool that needs a confirmation passes without one, and an action writes the
  personal state at most once.
\<close>

section \<open>Parallel batches\<close>

text \<open>
  The reference: the first call that names no tool or one that writes decides; otherwise the first
  occurrences of the calls are the batch, and the search tools among them are counted.
\<close>

definition batch_fault :: "registry \<Rightarrow> ToolCallSpec \<Rightarrow> ParallelBatchValidation option" where
  "batch_fault r spec =
     (case registry_get (tcs_tool_name spec) r of
        None \<Rightarrow> Some (batch_invalid (u ''TOOL_NOT_FOUND'') (u ''Tool is unavailable: '' @ tcs_tool_name spec))
      | Some d \<Rightarrow> if tdf_risk d = READ then None
          else Some (batch_invalid (u ''PARALLEL_WRITE_FORBIDDEN'')
            (u ''Parallel batches may only include read-only tools.'')))"

definition first_occurrences :: "'a list \<Rightarrow> 'a list" where
  "first_occurrences xs = rev (remdups (rev xs))"

lemma remdups_snoc: "remdups (xs @ [x]) = filter (\<lambda>y. y \<noteq> x) (remdups xs) @ [x]"
  by (induction xs) auto

lemma first_occurrences_Cons:
  "first_occurrences (x # xs) = x # filter (\<lambda>y. y \<noteq> x) (first_occurrences xs)"
  by (simp add: first_occurrences_def remdups_snoc rev_filter [symmetric])

lemma first_occurrences_set [simp]: "set (first_occurrences xs) = set xs"
  and first_occurrences_distinct [simp]: "distinct (first_occurrences xs)"
  by (simp_all add: first_occurrences_def)

definition searches :: "ToolCallSpec list \<Rightarrow> nat" where
  "searches specs = length (filter (\<lambda>spec. is_search_tool (tcs_tool_name spec)) specs)"

lemma scan_batch_reference:
  "scan_batch r unique specs n =
     (case List.find (\<lambda>spec. batch_fault r spec \<noteq> None) specs of
        Some spec \<Rightarrow> Inl (the (batch_fault r spec))
      | None \<Rightarrow>
          let new = filter (\<lambda>spec. spec \<notin> set unique) (first_occurrences specs)
          in Inr (unique @ new, n + searches new))"
proof (induction specs arbitrary: unique n)
  case Nil
  then show ?case
    by (simp add: first_occurrences_def searches_def)
next
  case (Cons spec specs)
  have "filter (\<lambda>y. y \<notin> set unique) (filter (\<lambda>y. y \<noteq> spec) xs) = filter (\<lambda>y. y \<notin> set (unique @ [spec])) xs" for xs
    by (simp add: filter_filter conj_commute)
  moreover have "filter (\<lambda>y. y \<notin> set (unique @ [spec])) xs = filter (\<lambda>y. y \<notin> set unique) xs" if "spec \<in> set unique" for xs
    using that by (intro filter_cong) auto
  ultimately show ?case
    by (auto simp: batch_fault_def first_occurrences_Cons Cons.IH searches_def Let_def split: option.split)
qed

text \<open>
  C40. The loop that validates a parallel batch agrees with its declarative description: bounds of
  size and budget first, then the first faulty call in the order of the batch, then the limits on
  the search tools among the distinct calls, which are the batch that runs.
\<close>

theorem validate_parallel_batch_reference:
  "validate_parallel_batch r specs used max_calls size_max searched search_max =
     (let batch = first_occurrences specs in
      if specs = [] then batch_invalid (u ''PARALLEL_BATCH_EMPTY'')
        (u ''Parallel batch must include at least one tool.'')
      else if \<not> int (length specs) \<le> size_max then batch_invalid (u ''PARALLEL_BATCH_TOO_LARGE'')
        (u ''Parallel batch exceeds the limit of '' @ int_str size_max @ u '' tools.'')
      else if \<not> used + int (length specs) \<le> max_calls then batch_invalid (u ''TOOL_BUDGET_EXCEEDED'')
        (u ''Parallel batch would exceed the tool-call budget for this run.'')
      else case List.find (\<lambda>spec. batch_fault r spec \<noteq> None) specs of
        Some spec \<Rightarrow> the (batch_fault r spec)
      | None \<Rightarrow>
          if \<not> searches batch \<le> 2 then batch_invalid (u ''SEARCH_BATCH_LIMIT'')
            (u ''Parallel batch may include at most two search tools.'')
          else if \<not> searched + int (searches batch) \<le> search_max then batch_invalid (u ''SEARCH_QUOTA_EXCEEDED'')
            (u ''Search quota for this run has been exceeded.'')
          else \<lparr>pbv_ok = True, pbv_code = u ''OK'', pbv_message = u ''Parallel batch is valid.'',
            pbv_specs = batch\<rparr>)"
  by (auto simp: validate_parallel_batch_def scan_batch_reference Let_def not_le split: option.split)

section \<open>Policy\<close>

definition date_confirmed :: "(json \<Rightarrow> str) \<Rightarrow> jdict \<Rightarrow> bool" where
  "date_confirmed sj args \<longleftrightarrow>
     certainty_of (py_str sj (jget args (u ''certainty'') JNull)) = Inr DateCertainty.CONFIRMED"

definition evidenced :: "jdict option \<Rightarrow> jdict \<Rightarrow> bool" where
  "evidenced state args \<longleftrightarrow> has_source_provenance args \<or> has_verified_search_evidence state args"

text \<open>The date would replace, as the primary one, the deadline of the thing in view.\<close>

definition overwrites :: "(json \<Rightarrow> str) \<Rightarrow> jdict option \<Rightarrow> jdict \<Rightarrow> bool" where
  "overwrites sj state args \<longleftrightarrow> parse_bool (jget args (u ''is_primary'') JNull) True \<and>
     (let tid = py_str sj (jget args (u ''thing_id'') (JStr [])) in
      tid \<noteq> [] \<and> (\<exists>st. state = Some st \<and> prefetched_thing_has_deadline sj st tid))"

lemma evaluate_deadline_allows:
  "(\<exists>r. evaluate_deadline sj state args = Some r \<and> plr_decision r = ALLOW) \<longleftrightarrow>
    date_confirmed sj args \<and> evidenced state args \<and> \<not> overwrites sj state args"
  unfolding evaluate_deadline_def Let_def date_confirmed_def evidenced_def overwrites_def
  by (cases state) (auto simp: policy_result_def)

lemma no_evidence [simp]: "\<not> evidenced state Map.empty"
  by (simp add: evidenced_def has_source_provenance_def has_verified_search_evidence_def evidence_urls_def)


section \<open>Actions\<close>

text \<open>What a tool of the personal state does when it writes: a mutation, alone or in the ledger's unit of work.\<close>

definition agent_write :: "ToolExecutionContext \<Rightarrow> env \<Rightarrow> store \<Rightarrow> store \<Rightarrow> bool" where
  "agent_write c e s s' \<longleftrightarrow> state_mutation (tec_user_id c) (tool_key c) s s' \<or>
     (\<exists>sj f rid action owner token tool v fx. mutation_op (tec_user_id c) (tool_key c) f \<and>
        complete_tool_in sj e (tec_user_id c) rid action owner token tool f s = Inr (v, s', fx))"

lemma answer_Inr: "answer f m = Inr (r, s') \<Longrightarrow> \<exists>v. m = Inr (v, s')"
  by (auto simp: answer_def)

lemma bound_or_cases:
  assumes "bound_or b m = Inr (r, s', fx)"
  obtains "b = Some (Inr (r, s', fx))" | "b = None" "m = Inr (r, s')"
  using assms by (cases b) (auto simp: bound_or_def)

lemma try_bound_cases:
  assumes "try_bound_mutation sj rt c e tn code m f s = Some (Inr (r, s', fx))"
  obtains owner token v fx' where "tec_tool_claim_owner c = Some owner"
    "complete_tool_in sj e (tec_user_id c) (tec_run_id c) (tec_action_id c) owner token tn f s = Inr (v, s', fx')"
  using assms by (auto simp: try_bound_mutation_def split: option.splits if_splits)

lemma write_tool_writes:
  assumes "write_tool sj rt c e tn code m rd f service s = Inr (r, s', fx)"
    "\<And>x. rd = Inr x \<Longrightarrow> mutation_op (tec_user_id c) (tool_key c) (f x)"
    "\<And>x v s1. rd = Inr x \<Longrightarrow> service x s = Inr (v, s1) \<Longrightarrow> state_mutation (tec_user_id c) (tool_key c) s s1"
  shows "agent_write c e s s'"
  using assms(1) unfolding write_tool_def
proof (cases rule: bound_or_cases)
  case 1
  then obtain owner token v fx' where complete: "complete_tool_in sj e (tec_user_id c) (tec_run_id c)
      (tec_action_id c) owner token tn (\<lambda>s. bindE rd (\<lambda>x. f x s)) s = Inr (v, s', fx')"
    by (rule try_bound_cases)
  then obtain x where x: "rd = Inr x"
    by (cases rd) (auto simp: complete_tool_in_def)
  have "complete_tool_in sj e (tec_user_id c) (tec_run_id c) (tec_action_id c) owner token tn (f x) s = Inr (v, s', fx')"
    using complete by (simp add: x)
  then show ?thesis
    using assms(2) [OF x] unfolding agent_write_def by blast
next
  case 2
  then show ?thesis
    using assms(3) by (auto simp: agent_write_def)
qed

lemma agent_write_step: "agent_write c e s s' \<Longrightarrow> system_step e s s'"
  unfolding agent_write_def by (blast intro: system_step.mutation system_step.tool)

text \<open>Every tool that writes the personal state.\<close>

lemma archive_writes: "change_archive_tool archive code m reason data sj rt c args e e' s = Inr (r, s', fx) \<Longrightarrow> agent_write c e s s'"
  unfolding change_archive_tool_def
  by (erule write_tool_writes)
     (auto split: prod.splits dest!: answer_Inr intro: mutation_op.change_archive,
      cases archive, auto intro: state_mutation.archive_thing state_mutation.unarchive_thing
        simp: archive_thing_def unarchive_thing_def)

lemma simple_tool_writes:
  "create_thing_tool sj rt c args e e' s = Inr (r, s', fx) \<Longrightarrow> agent_write c e s s'"
  "delete_thing_tool sj rt c args e e' s = Inr (r, s', fx) \<Longrightarrow> agent_write c e s s'"
  "merge_things_tool sj rt c args e e' s = Inr (r, s', fx) \<Longrightarrow> agent_write c e s s'"
  "set_thing_context_tool sj rt c args e e' s = Inr (r, s', fx) \<Longrightarrow> agent_write c e s s'"
  "create_task_tool sj rt c args e e' s = Inr (r, s', fx) \<Longrightarrow> agent_write c e s s'"
  "transition_task_tool sj rt c args e e' s = Inr (r, s', fx) \<Longrightarrow> agent_write c e s s'"
  "create_blocker_tool sj rt c args e e' s = Inr (r, s', fx) \<Longrightarrow> agent_write c e s s'"
  "resolve_blocker_tool sj rt c args e e' s = Inr (r, s', fx) \<Longrightarrow> agent_write c e s s'"
  "update_date_tool sj rt c args e e' s = Inr (r, s', fx) \<Longrightarrow> agent_write c e s s'"
  unfolding create_thing_tool_def delete_thing_tool_def merge_things_tool_def set_thing_context_tool_def
    create_task_tool_def transition_task_tool_def create_blocker_tool_def resolve_blocker_tool_def update_date_tool_def
  by (erule write_tool_writes;
      auto split: prod.splits dest!: answer_Inr intro: mutation_op.intros state_mutation.intros)+

lemma set_deadline_writes: "set_deadline_tool sj rt c args e e' s = Inr (r, s', fx) \<Longrightarrow> agent_write c e s s'"
  unfolding set_deadline_tool_def
  by (clarsimp, erule write_tool_writes;
      auto split: prod.splits dest!: answer_Inr intro: mutation_op.intros state_mutation.intros)

lemma change_thing_state_writes: "change_thing_state_tool sj rt c args e e' s = Inr (r, s', fx) \<Longrightarrow> agent_write c e s s'"
  by (auto simp: change_thing_state_tool_def archive_thing_tool_def restore_thing_tool_def agent_write_def
      split: if_splits option.splits
      dest!: archive_writes [unfolded agent_write_def] intro: state_mutation.update_thing)

lemma personal_tools_write:
  assumes "d \<in> set (personal_state_tools sj rt)" "tdf_handler d c args e e' s = Inr (r, s', fx)"
  shows "if tdf_risk d = READ then s' = s else agent_write c e s s'"
proof -
  note writes = simple_tool_writes set_deadline_writes change_thing_state_writes
  have blocker: "manage_blocker_tool sj rt c args e e' s = Inr (r, s', fx) \<Longrightarrow> agent_write c e s s'"
    by (auto simp: manage_blocker_tool_def split: if_splits intro: simple_tool_writes)
  have date: "set_thing_date_tool sj rt c args e e' s = Inr (r, s', fx) \<Longrightarrow> agent_write c e s s'"
    by (auto simp: set_thing_date_tool_def split: if_splits intro: writes)
  have reads: "get_state_overview_tool sj rt c args e e' s = Inr (r, s', fx) \<Longrightarrow> s' = s"
    "get_thing_context_tool sj rt c args e e' s = Inr (r, s', fx) \<Longrightarrow> s' = s"
    by (auto simp: get_state_overview_tool_def get_thing_context_tool_def)
  show ?thesis
    using assms unfolding personal_state_tools_def tool_definition_def
    by (auto dest: writes blocker date reads)
qed

lemma registry_find_None: "registry_find name r = None \<longleftrightarrow> name \<notin> tdf_name ` set r"
  by (auto simp: registry_find_def find_None_iff)

lemma register_all_append: "register_all ds r = Inr r' \<Longrightarrow> r' = r @ ds"
  by (induction ds r rule: register_all.induct) (auto simp: registry_register_def split: if_splits)

lemma registry_get_in: "registry_get name r = Some d \<Longrightarrow> d \<in> set r \<and> tdf_name d = name"
  by (auto simp: registry_get_def registry_find_def find_Some_iff split: option.splits if_splits)

lemma handled_fails: "handled err = Some r \<Longrightarrow> trs_status r \<noteq> ToolStatus.SUCCESS"
  by (auto simp: handled_def tool_result_def split: py_error.splits)

text \<open>A call that succeeds is a run of the handler; every call of a reading tool, and every failed one, leaves the store.\<close>

lemma registry_execute_cases:
  assumes "registry_execute reg name c args e e' s = Inr (r, s', fx)"
  obtains (run) d where "registry_get name reg = Some d" "tdf_handler d c args e e' s = Inr (r, s', fx)"
  | (refused) "s' = s" "trs_status r \<noteq> ToolStatus.SUCCESS"
proof (cases "registry_get name reg")
  case None
  then show ?thesis
    using assms by (auto simp: registry_execute_def tool_result_def intro: refused)
next
  case (Some d)
  show ?thesis
  proof (cases "missing_arguments d args = []")
    case False
    then show ?thesis
      using assms Some by (auto simp: registry_execute_def tool_result_def Let_def intro: refused)
  next
    case True
    show ?thesis
    proof (cases "tdf_handler d c args e e' s")
      case (Inl err)
      then show ?thesis
        using assms Some True
        by (auto simp: registry_execute_def split: option.splits dest: handled_fails intro: refused)
    next
      case (Inr v)
      then show ?thesis
        using assms Some True by (auto simp: registry_execute_def intro: run)
    qed
  qed
qed

definition personal_state_kept :: "store \<Rightarrow> store \<Rightarrow> bool" where
  "personal_state_kept s s' \<longleftrightarrow> st_things s' = st_things s \<and> st_tasks s' = st_tasks s
   \<and> st_entries s' = st_entries s \<and> st_dates s' = st_dates s \<and> st_blockers s' = st_blockers s
   \<and> st_relations s' = st_relations s \<and> st_thing_sources s' = st_thing_sources s
   \<and> st_mutations s' = st_mutations s \<and> st_timeline s' = st_timeline s"

lemma agent_write_once:
  assumes "agent_write c e s s'" "state_keys s"
  obtains s1 where "once (tec_user_id c) (tool_key c) s s1" "personal_state_kept s1 s'"
  using assms(1) unfolding agent_write_def
proof (elim disjE exE conjE)
  assume "state_mutation (tec_user_id c) (tool_key c) s s'"
  then show ?thesis
    using that [of s'] state_mutation_once [OF _ assms(2)] by (simp add: personal_state_kept_def)
next
  fix sj f rid action owner token tool v fx
  assume f: "mutation_op (tec_user_id c) (tool_key c) f"
    and complete: "complete_tool_in sj e (tec_user_id c) rid action owner token tool f s = Inr (v, s', fx)"
  obtain s1 d where "once (tec_user_id c) (tool_key c) s s1" "s' = s1\<lparr>core := d\<rparr>" "db_things d = st_things s1"
    by (rule complete_tool_once [OF complete f assms(2)])
  then show ?thesis
    using that [of s1] by (simp add: personal_state_kept_def)
qed

text \<open>
  C27. An action of an agent writes the personal state at most once. After a successful call of a
  writing tool, whatever the system does, no call of any personal-state tool under the same user, run
  and action, by a retry, a resumed worker or with other arguments, changes the personal state or its
  audit trail, in which the key of the action stands exactly once.
\<close>

theorem agent_action_writes_once:
  assumes "system_reachable s0" "register_personal_state_tools sj rt [] = Inr reg"
    "registry_execute reg name c args e1 e2 s0 = Inr (r, s1, fx)" "trs_status r = ToolStatus.SUCCESS"
    "registry_get name reg = Some d" "tdf_risk d \<noteq> READ" "system_history es s1 s2"
    "registry_execute reg name' c' args' e3 e4 s2 = Inr (r', s3, fx')"
    "tec_user_id c' = tec_user_id c" "tool_key c' = tool_key c"
  shows "personal_state_kept s2 s3 \<and>
    (\<exists>m. mut_user_id m = tec_user_id c \<and> filter (\<lambda>x. mut_idempotency_key x = tool_key c) (st_mutations s3) = [m])"
proof -
  let ?u = "tec_user_id c" and ?k = "tool_key c"
  have reg: "reg = personal_state_tools sj rt"
    using assms(2) register_all_append unfolding register_personal_state_tools_def by fastforce
  have ok0: "state_ok s0"
    by (rule system_reachable_ok [OF assms(1)])
  have wrote: "agent_write c e1 s0 s1"
    using assms(3)
  proof (cases rule: registry_execute_cases)
    case (run d')
    then show ?thesis
      using assms(5,6) personal_tools_write [of d' sj rt c args e1 e2 s0 r s1 fx] registry_get_in [OF run(1)] reg by simp
  qed (use assms(4) in simp)
  have ok1: "state_ok s1"
    by (rule system_step_ok [OF ok0 agent_write_step [OF wrote]])
  have ok2: "state_ok s2"
    by (rule system.trace_inv [OF assms(7) ok1])
  obtain t where t: "once ?u ?k s0 t" "personal_state_kept t s1"
    by (rule agent_write_once [OF wrote state_ok_keys [OF ok0]])
  have "state_keys t"
    using state_ok_keys [OF once_ok [OF t(1) ok0]] .
  then obtain m where "audit_get_mutation ?u ?k t = Some m"
    by (rule once_logged [OF t(1)])
  then have "audit_get_mutation ?u ?k s1 = Some m"
    using t(2) by (simp add: personal_state_kept_def audit_get_mutation_def)
  then have m2: "audit_get_mutation ?u ?k s2 = Some m"
    using ledger.trace_keeps [OF assms(7) ok1, of "(?u, ?k)" m] by simp
  have kept: "personal_state_kept s2 s3"
    using assms(8)
  proof (cases rule: registry_execute_cases)
    case (run d')
    have "if tdf_risk d' = READ then s3 = s2 else agent_write c' e3 s2 s3"
      by (rule personal_tools_write [of d' sj rt, OF _ run(2)]) (use registry_get_in [OF run(1)] reg in simp)
    then consider "s3 = s2" | "agent_write c' e3 s2 s3"
      by (auto split: if_splits)
    then show ?thesis
    proof cases
      case 2
      obtain t' where "once ?u ?k s2 t'" "personal_state_kept t' s3"
        using agent_write_once [OF 2 state_ok_keys [OF ok2]] assms(9,10) by metis
      then show ?thesis
        using m2 by (simp add: once_def)
    qed (simp add: personal_state_kept_def)
  qed (simp add: personal_state_kept_def)
  have "m \<in> set (st_mutations s2)" "mut_user_id m = ?u" "mut_idempotency_key m = ?k"
    using m2 audit_get_mutation_iff [OF state_keysD(6) [OF state_ok_keys [OF ok2]]] by auto
  then have "filter (\<lambda>x. mut_idempotency_key x = ?k) (st_mutations s3) = [m]"
    using kept keyed_filter_one [OF state_keysD(6) [OF state_ok_keys [OF ok2]], of m]
    by (simp add: personal_state_kept_def)
  with kept \<open>mut_user_id m = ?u\<close> show ?thesis
    by blast
qed

section \<open>The witnesses\<close>

text \<open>A date confirmed by a source, not primary.\<close>

definition demo_date_args :: jdict where
  "demo_date_args = [u ''certainty'' \<mapsto> JStr (u ''CONFIRMED''), u ''source_id'' \<mapsto> juuid 9,
     u ''is_primary'' \<mapsto> JBool False]"

definition demo_date_tool :: ToolDefinition where
  "demo_date_tool = tool_definition (u ''thing_date_set'') [] SENSITIVE_WRITE (set_thing_date_tool (\<lambda>_. []) True) IDEMPOTENT []"


text \<open>The action \<open>a1\<close> of run 32 creates a thing, and again.\<close>

definition demo_ctx :: ToolExecutionContext where
  "demo_ctx = \<lparr>tec_user_id = 7, tec_run_id = 32, tec_action_id = u ''a1'', tec_tool_claim_owner = None,
     tec_tool_claim_token = None\<rparr>"

definition demo_args :: jdict where
  "demo_args = [u ''name'' \<mapsto> JStr (u ''Trip''), u ''reason'' \<mapsto> JStr (u ''r'')]"

definition agent1 :: store where
  "agent1 = empty_store\<lparr>core := empty_db\<lparr>db_users := [demo_user], db_things := [demo_thing 100 1000 (u ''Trip'')]\<rparr>,
     st_mutations := [(demo_entry 100 1000 (u ''Trip'') (tool_key demo_ctx))
       \<lparr>mut_action_id := u ''a1'', mut_run_id := Some 32\<rparr>],
     st_timeline := [demo_created 100 1000 (u ''Trip'')]\<rparr>"

lemma agent1_step:
  "create_thing (demo_env 100 1000) 7 (u ''Trip'') (u ''a1'') (tool_key demo_ctx) (u ''r'') (Some 32) empty_store =
     Inr (to_thing_dto (demo_thing 100 1000 (u ''Trip'')), agent1)"
  by (simp add: create_thing_def with_entity_def apply_create_thing_def Let_def repo_defs record_audit_def
      empty_store_def empty_db_def agent1_def demo_thing_def demo_entry_def demo_created_def new_thing_def
      set_things_def ins_def demo_user_def juuid_def new_mutation_def)

lemma agent1_again:
  "create_thing (demo_env 200 2000) 7 (u ''Trip'') (u ''a1'') (tool_key demo_ctx) (u ''r'') (Some 32) agent1 =
     Inr (to_thing_dto (demo_thing 100 1000 (u ''Trip'')), agent1)"
  by (simp add: create_thing_def with_entity_def apply_create_thing_def Let_def repo_defs
      agent1_def demo_thing_def demo_entry_def new_thing_def new_mutation_def replay_version_def juuid_def
      empty_store_def empty_db_def)

definition demo_registry :: registry where
  "demo_registry = personal_state_tools (\<lambda>_. []) False"

lemma demo_registry_registered: "register_personal_state_tools (\<lambda>_. []) False [] = Inr demo_registry"
  by (simp add: register_personal_state_tools_def demo_registry_def personal_state_tools_def registry_register_def
      registry_find_def tool_definition_def)

lemma demo_execute:
  assumes "create_thing e' 7 (u ''Trip'') (u ''a1'') (tool_key demo_ctx) (u ''r'') (Some 32) s =
     Inr (to_thing_dto (demo_thing 100 1000 (u ''Trip'')), s')"
  shows "registry_execute demo_registry (u ''thing_create'') demo_ctx demo_args e e' s =
     Inr (entity_result (u ''THING_CREATED'') (u ''Thing created.'') 100 1, s', [])"
  using assms
  by (simp add: registry_execute_def demo_registry_def personal_state_tools_def registry_get_def registry_find_def
      tool_definition_def missing_arguments_def create_thing_tool_def write_tool_def bound_or_def
      try_bound_mutation_def demo_ctx_def demo_args_def arg_str_def arg_def arg_or_def jget_def py_str_def answer_def
      to_thing_dto_def demo_thing_def new_thing_def)

theorem agent_action_writes_once_witness:
  "filter (\<lambda>x. mut_idempotency_key x = tool_key demo_ctx) (st_mutations agent1) \<noteq> []"
proof -
  have tool: "registry_get (u ''thing_create'') demo_registry = Some (tool_definition (u ''thing_create'')
      (u ''Create a persistent Thing.'') REVERSIBLE_WRITE (create_thing_tool (\<lambda>_. []) False) IDEMPOTENT [u ''name''])"
    by (simp add: demo_registry_def personal_state_tools_def registry_get_def registry_find_def tool_definition_def)
  have "system_reachable empty_store"
    unfolding system_reachable_def by (blast intro: trace.none)
  from agent_action_writes_once [OF this demo_registry_registered demo_execute [OF agent1_step] _ tool _ trace.none
      demo_execute [OF agent1_again]]
  show ?thesis
    by (auto simp: entity_result_def tool_result_def tool_definition_def)
qed

end
