(* ===== verification/RunProperties.thy ===== *)
theory RunProperties
  imports Scenario
begin

text \<open>
  What the runtime promises about runs and their event log, over every history of units of work
  from the empty database. Each property is followed by a witness in the scenario.
\<close>

section \<open>Life of a run\<close>

text \<open>
  C1. In every reachable database each run is well formed: claim, lease, heartbeat and active
  clock exist only while it is running, the completion time exactly in a terminal status, the
  final message exactly when completed, the error code exactly when failed, an interrupt when
  waiting, and the version exceeds the number of attempts.
\<close>

theorem run_well_formed:
  assumes "reachable s" "r \<in> set (db_runs s)"
  shows "run_fields_ok r"
  using reachable_ok [OF assms(1)] assms(2) by (simp add: runtime_ok_def rows_ok_def)

theorem run_well_formed_witness: "run_fields_ok (demo_claimed\<lparr>run_event_sequence := 2\<rparr>)"
  by (rule run_well_formed [OF demo_reachable(3)]) simp

text \<open>The scenario continues: the queued run is cancelled, and a worker reports an event.\<close>

definition demo_cancelled :: AgentRun where
  "demo_cancelled = demo_run\<lparr>run_status := RunStatus.CANCELLED, run_completed_at := Some 6000,
     run_updated_at := 6000, run_version := 2, run_event_sequence := 2\<rparr>"

definition demo6 :: db where
  "demo6 = demo2\<lparr>db_runs := [demo_cancelled],
     db_events := db_events demo2 @ [demo_ev 2 96 6003 RunEventType.RUN_CANCELLED
       [u ''status'' \<mapsto> JStr (u ''CANCELLED'')]],
     db_run_ops := [\<lparr>rop_user_id = 7, rop_run_id = 32, rop_idempotency_key = u ''k3'',
       rop_operation = u ''CANCEL'', rop_target_version = 2\<rparr>],
     db_jobs := [demo_job\<lparr>job_status := DurableJobStatus.CANCELLED, job_updated_at := 6001\<rparr>]\<rparr>"

lemma demo6_step:
  "cancel_run (demo_env 96 6000) 7 32 1 (u ''k3'') demo2 =
     Inr (to_run_dto False (demo_cancelled\<lparr>run_event_sequence := 1\<rparr>), demo6, [])"
  by (simp add: cancel_run_def change_run_def change_body_def repo_defs Let_def demo2_def demo1_def
      empty_db_def run_cancel_def run_release_claim_def run_pause_active_time_def demo_run_def
      new_run_def copy_run_def ins_def demo6_def demo_cancelled_def demo_ev_def event_clash_def
      demo_job_def)

lemma demo6_history: "history [demo_env 96 6000] demo2 demo6"
  by (rule trace_one) (rule service_step.cancel_run [OF demo6_step])

lemma demo6_reachable: "reachable demo6"
  by (rule reachable_history [OF demo_reachable(2) demo6_history])

definition demo7 :: db where
  "demo7 = demo6\<lparr>db_runs := [demo_cancelled\<lparr>run_event_sequence := 3\<rparr>],
     db_events := db_events demo6 @ [demo_ev 3 112 7000 RunEventType.TOOL_COMPLETED Map.empty]\<rparr>"

lemma demo7_step:
  "emit_event demo_service (demo_env 112 7000) 7 32 RunEventType.TOOL_COMPLETED Map.empty demo6 =
     Inr (to_event_dto (demo_ev 3 112 7000 RunEventType.TOOL_COMPLETED Map.empty), demo7, [Publish 32 3])"
  by (simp add: emit_event_def repo_defs Let_def demo7_def demo6_def demo2_def demo1_def empty_db_def
      demo_cancelled_def demo_run_def new_run_def ins_def demo_ev_def event_clash_def publish_wakeup_def)

lemma demo7_history: "history [demo_env 112 7000] demo6 demo7"
  by (rule trace_one) (rule service_step.emit_event [OF demo7_step])

text \<open>
  C2. A terminal run is final: whatever happens later, its row stays as it is, except that
  events may still be appended to its log.
\<close>

theorem terminal_run_is_final:
  assumes "reachable s" "history es s s'" "runs_get uid rid s = Some r"
    and "run_status r \<in> TERMINAL_RUN_STATUSES"
  shows "\<exists>n. runs_get uid rid s' = Some (r\<lparr>run_event_sequence := n\<rparr>)"
proof -
  note ok = reachable_ok [OF assms(1)]
  have r: "r \<in> set (db_runs s)" "run_id r = rid" "run_user_id r = uid"
    using runs_getD [OF assms(3)] by simp_all
  then have "row run_id rid (db_runs s) = Some r"
    using keyed_row_iff [OF keys_runs [OF runtime_keys [OF ok]]] by blast
  then have "finished s rid = Some (r\<lparr>run_event_sequence := 0\<rparr>)"
    using assms(4) by (simp add: finished_def)
  then have "finished s' rid = Some (r\<lparr>run_event_sequence := 0\<rparr>)"
    by (rule finished.trace_keeps [OF assms(2) ok])
  then obtain r' where row: "row run_id rid (db_runs s') = Some r'"
      and eq: "r'\<lparr>run_event_sequence := 0\<rparr> = r\<lparr>run_event_sequence := 0\<rparr>"
    by (auto simp: finished_def split: option.splits if_splits)
  have "r' = (r'\<lparr>run_event_sequence := 0\<rparr>)\<lparr>run_event_sequence := run_event_sequence r'\<rparr>"
    by simp
  also have "\<dots> = r\<lparr>run_event_sequence := run_event_sequence r'\<rparr>"
    unfolding eq by simp
  finally have r': "r' = r\<lparr>run_event_sequence := run_event_sequence r'\<rparr>" .
  have "run_user_id r' = uid"
    by (subst r') (simp add: r)
  then have "runs_get uid rid s' = Some r'"
    using row_Some [OF row] runs_get_iff [OF runtime_keys [OF runtime.trace_inv [OF assms(2) ok]]]
    by simp
  then show ?thesis
    by (subst (asm) r') blast
qed

theorem terminal_run_is_final_witness:
  "\<exists>n. runs_get 7 32 demo7 = Some (demo_cancelled\<lparr>run_event_sequence := n\<rparr>)"
  by (rule terminal_run_is_final [OF demo6_reachable demo7_history])
     (simp_all add: repo_defs demo6_def demo_cancelled_def)

section \<open>The event log\<close>

text \<open>
  C3. The log of a run is gapless and append only: in a reachable database its events carry the
  numbers 1, 2, \<dots> up to the counter of the run, in this order, and a later database has the
  same events followed by the new ones.
\<close>

theorem event_log_gapless:
  assumes "reachable s" "history es s s'" "r \<in> set (db_runs s)"
  shows "map evt_sequence (run_log (run_id r) s) = [1..run_event_sequence r] \<and>
    (\<exists>evs. run_log (run_id r) s' = run_log (run_id r) s @ evs)"
proof -
  note ok = reachable_ok [OF assms(1)]
  have "logs_later s s'"
    by (rule runtime.trace_relates [OF _ _ _ assms(2) ok])
       (auto intro: service_logs_later logs_later_trans)
  then obtain evs where "db_events s' = db_events s @ evs"
    by (auto simp: logs_later_def)
  then show ?thesis
    using ok assms(3) by (simp add: runtime_ok_def log_ok_def run_log_def)
qed

theorem event_log_gapless_witness:
  "map evt_sequence (run_log 32 demo2) = [1] \<and> (\<exists>evs. run_log 32 demo3 = run_log 32 demo2 @ evs)"
  using event_log_gapless [OF demo_reachable(2) demo3_history, of "demo_run\<lparr>run_event_sequence := 1\<rparr>"]
  by simp

text \<open>The page after a number is a segment of the log.\<close>

lemma upto_drop: "drop k [1..n] = [int k + 1..n]"
proof (induction k)
  case (Suc k)
  have "drop (Suc k) [1..n] = tl (drop k [1..n])"
    by (simp add: tl_drop drop_Suc)
  also have "\<dots> = [int k + 2..n]"
    unfolding Suc by (cases "int k + 1 \<le> n") (simp_all add: upto_rec1 add.commute)
  finally show ?case
    by (simp add: add.commute)
qed simp

lemma upto_take: "take k [a..n] = [a..min n (a + int k - 1)]"
proof (induction k arbitrary: a)
  case (Suc k)
  show ?case
  proof (cases "a \<le> n")
    case True
    have "[a..min n (a + int (Suc k) - 1)] = a # [a + 1..min n (a + 1 + int k - 1)]"
      using True by (subst upto_rec1) (simp_all add: algebra_simps)
    with Suc [of "a + 1"] True show ?thesis
      by (simp add: upto_rec1 [of a n])
  qed simp
qed simp

lemma filter_after:
  assumes "map f xs = [1..m]" "0 \<le> n"
  shows "filter (\<lambda>x. n < f x) xs = drop (nat n) xs"
proof -
  have ith: "f (xs ! i) = int i + 1" if "i < length xs" for i
  proof -
    have "i < nat m"
      using that arg_cong [OF assms(1), of length] by simp
    then have "map f xs ! i = 1 + int i"
      unfolding assms(1) by (simp add: nth_upto)
    with that show ?thesis
      by simp
  qed
  have "f x \<le> n" if "x \<in> set (take (nat n) xs)" for x
    using that ith assms(2) by (auto simp: in_set_conv_nth)
  then have 1: "filter (\<lambda>x. n < f x) (take (nat n) xs) = []"
    by (force simp: filter_empty_conv)
  have "n < f x" if "x \<in> set (drop (nat n) xs)" for x
    using that ith assms(2) by (auto simp: in_set_conv_nth)
  then have 2: "filter (\<lambda>x. n < f x) (drop (nat n) xs) = drop (nat n) xs"
    by (simp add: filter_id_conv)
  have "filter (\<lambda>x. n < f x) (take (nat n) xs @ drop (nat n) xs) = drop (nat n) xs"
    unfolding filter_append 1 2 by simp
  then show ?thesis
    by simp
qed

lemma page_of_log:
  assumes "runtime_ok s" "runs_get uid rid s = Some r" "0 \<le> n"
  shows "runs_list_events uid rid after (Some n) limit s = take limit (drop (nat n) (run_log rid s))"
proof -
  have r: "r \<in> set (db_runs s)" "run_id r = rid" "run_user_id r = uid"
    using runs_getD [OF assms(2)] by simp_all
  have log: "map evt_sequence (run_log rid s) = [1..run_event_sequence r]"
    using assms(1) r by (auto simp: runtime_ok_def log_ok_def)
  have visible: "sel (\<lambda>e. evt_run_id e = rid \<and>
      (\<exists>r \<in> set (db_runs s). run_id r = evt_run_id e \<and> run_user_id r = uid)) (db_events s) = run_log rid s"
    using r by (auto simp: sel_def run_log_def intro!: filter_cong)
  have "sel (\<lambda>e. n < evt_sequence e) (run_log rid s) = drop (nat n) (run_log rid s)"
    unfolding sel_def by (rule filter_after [OF log assms(3)])
  moreover have "sorted (map evt_sequence (drop (nat n) (run_log rid s)))"
    unfolding drop_map [symmetric] log by (rule sorted_wrt_drop) simp
  ultimately show ?thesis
    by (simp add: runs_list_events_def visible sort_key_id_if_sorted)
qed

text \<open>
  A client that pages through the events of its run by \<open>after_sequence\<close> loses and repeats
  nothing: the page after \<open>n\<close> carries exactly the numbers from \<open>n + 1\<close> on, at most \<open>limit\<close> of
  them, and it is the segment of the log at that place.
\<close>

theorem event_pages:
  assumes "reachable s" "runs_get uid rid s = Some r" "0 \<le> n"
  shows "\<exists>page. list_events uid rid after (Some n) limit s = Inr page \<and>
    page = map to_event_dto (take limit (drop (nat n) (run_log rid s))) \<and>
    map edo_sequence page = [n + 1..min (run_event_sequence r) (n + int limit)]"
proof -
  note ok = reachable_ok [OF assms(1)]
  let ?page = "map to_event_dto (take limit (drop (nat n) (run_log rid s)))"
  have "r \<in> set (db_runs s)" "run_id r = rid"
    using runs_getD [OF assms(2)] by simp_all
  then have log: "map evt_sequence (run_log rid s) = [1..run_event_sequence r]"
    using ok by (auto simp: runtime_ok_def log_ok_def)
  have "map edo_sequence ?page = take limit (drop (nat n) (map evt_sequence (run_log rid s)))"
    by (simp add: take_map drop_map to_event_dto_def)
  also have "\<dots> = [n + 1..min (run_event_sequence r) (n + int limit)]"
    unfolding log upto_drop upto_take using assms(3) by (simp add: algebra_simps)
  finally show ?thesis
    using page_of_log [OF ok assms(2,3)] assms(2) by (simp add: list_events_def)
qed

theorem event_pages_witness:
  "\<exists>page. list_events 7 32 None (Some 1) 10 demo3 = Inr page \<and> map edo_sequence page = [2]"
  using event_pages [OF demo_reachable(3), of 7 32 "demo_claimed\<lparr>run_event_sequence := 2\<rparr>" 1 None 10]
  by (auto simp: repo_defs)

end
