(* ===== verification/ClaimProperties.thy ===== *)
theory ClaimProperties
  imports Scenario
begin

text \<open>
  Claims: who may drive a run, execute a tool, and what a lost claim can still do. The facts on
  tokens over histories come from the fences of \<open>RuntimeHistory\<close>.
\<close>

section \<open>Runs\<close>

lemma run_persists:
  assumes "reachable s" "history es s s'" "runs_get uid rid s = Some r"
  shows "\<exists>r'. runs_get uid rid s' = Some r' \<and> run_ident r' = run_ident r"
proof -
  note ok = reachable_ok [OF assms(1)]
  have "\<exists>r' \<in> set (db_runs s'). run_ident r' = run_ident r"
  proof (rule runtime.trace_stable [of "\<lambda>s. \<exists>r' \<in> set (db_runs s). run_ident r' = run_ident r" UNIV,
        OF _ assms(2) ok])
    fix e s s'
    assume "runtime_ok s" "\<exists>r' \<in> set (db_runs s). run_ident r' = run_ident r" "service_step e s s'"
    then show "\<exists>r' \<in> set (db_runs s'). run_ident r' = run_ident r"
      using service_runs_later by (force simp: runs_later_def run_later_def)
  qed (use runs_getD [OF assms(3)] in auto)
  then show ?thesis
    using runs_get_iff [OF runtime_keys [OF runtime.trace_inv [OF assms(2) ok]]] runs_getD [OF assms(3)]
    by (auto dest: run_ident_eqD)
qed

text \<open>What \<open>runs_claim\<close> does to the run with this key.\<close>

lemma runs_claim_None:
  assumes "keys_ok s" "runs_get uid rid s = Some r" "\<not> run_claimable now r"
  shows "fst (runs_claim uid rid owner t now lease s) = None"
proof -
  have "\<not> (run_id x = rid \<and> run_user_id x = uid \<and> run_claimable now x)" if "x \<in> set (db_runs s)" for x
  proof
    assume x: "run_id x = rid \<and> run_user_id x = uid \<and> run_claimable now x"
    then have "x = r"
      using keyed_unique [OF keys_runs [OF assms(1)] that, of r] runs_getD [OF assms(2)] by simp
    with x assms(3) show False
      by simp
  qed
  then have "sel1 (\<lambda>x. run_id x = rid \<and> run_user_id x = uid \<and> run_claimable now x) (db_runs s) = None"
    by (simp add: sel1_None)
  then show ?thesis
    by (simp add: runs_claim_def Let_def)
qed

text \<open>
  C5. A run has one worker: while the lease of its claim has not run out, and also when it
  waits or is finished, a claim by anybody returns nothing and changes nothing.
\<close>

theorem claim_run_excludes:
  assumes "reachable s" "runs_get uid rid s = Some r" "strip owner \<noteq> []" "0 < lease"
    and "run_status r = RunStatus.RUNNING \<longrightarrow> (\<exists>l. run_lease_expires_at r = Some l \<and> clk e 0 < l)"
    and "run_status r \<noteq> RunStatus.QUEUED"
  shows "claim_run c e uid rid owner lease s = Inr (None, s, [])"
proof -
  have "\<not> run_claimable (clk e 0) r"
    using assms(5,6) by (auto simp: run_claimable_def)
  then obtain s1 where "runs_claim uid rid owner (uid4 e 0) (clk e 0)
      (clk e 0 + timedelta_seconds lease) s = (None, s1)"
    using runs_claim_None [OF runtime_keys [OF reachable_ok [OF assms(1)]] assms(2)]
    by (metis prod.collapse)
  then show ?thesis
    using assms(3,4) by (simp add: claim_run_def)
qed

theorem claim_run_excludes_witness:
  "claim_run demo_service (demo_env 128 8000) 7 32 (u ''w1'') 30 demo3 = Inr (None, demo3, [])"
  by (rule claim_run_excludes [OF demo_reachable(3), of 7 32 "demo_claimed\<lparr>run_event_sequence := 2\<rparr>"])
     (simp_all add: repo_defs)

text \<open>The event of a claim gets the next number of the run.\<close>

lemma run_claimed_event:
  assumes "keys_ok s" "r \<in> set (db_runs s)" "run_id r' = run_id r"
    and fresh: "eid \<notin> evt_id ` set (db_events s)" and "log_ok s" "run_event_sequence r' = run_event_sequence r"
  shows "\<exists>ev s2. runs_append_event eid now (run_id r) ty d (put_run r' s) = Inr (ev, s2) \<and>
    evt_event_type ev = ty \<and> evt_sequence ev = run_event_sequence r + 1 \<and> evt_data ev = d \<and>
    db_events s2 = db_events s @ [ev] \<and>
    r'\<lparr>run_event_sequence := run_event_sequence r + 1\<rparr> \<in> set (db_runs s2)"
proof -
  let ?f = "\<lambda>x. x\<lparr>run_event_sequence := run_event_sequence x + 1\<rparr>"
  let ?rows = "upd (\<lambda>x. run_id x = run_id r) ?f (db_runs (put_run r' s))"
  have r': "r' \<in> set (db_runs (put_run r' s))"
    using assms(2,3) by (rule new_in_put_run)
  have "keyed run_id (db_runs (put_run r' s))"
    using keys_runs [OF assms(1)] assms(2,3) by (simp add: keyed_put_run_key)
  then have k: "keyed run_id ?rows"
    by (simp add: keyed_upd)
  have in_rows: "?f r' \<in> set ?rows"
    using r' assms(3) by (force simp: set_upd)
  then have q: "sel1 (\<lambda>x. run_id x = run_id r) ?rows = Some (?f r')"
    using keyed_row [OF k in_rows] assms(3) by (simp add: row_def)
  have "evt_sequence ev \<le> run_event_sequence r" if "ev \<in> set (db_events s)" "evt_run_id ev = run_id r" for ev
  proof -
    have "map evt_sequence (run_log (run_id r) s) = [1..run_event_sequence r]"
      using assms(2,5) by (simp add: log_ok_def)
    moreover have "evt_sequence ev \<in> set (map evt_sequence (run_log (run_id r) s))"
      using that by (simp add: run_log_def)
    ultimately show ?thesis
      by simp
  qed
  then have "\<not> event_clash x (\<lparr>evt_run_id = run_id r, evt_sequence = run_event_sequence (?f r'),
                evt_event_type = ty, evt_data = d, evt_visibility = u ''CLIENT'',
                evt_schema_version = 1, evt_id = eid, evt_occurred_at = now\<rparr>)"
    if "x \<in> set (db_events s)" for x
    using that fresh assms(6) by (force simp: event_clash_def)
  then show ?thesis
    using q in_rows assms(6) by (simp add: runs_append_event_def Let_def ins_def)
qed

text \<open>
  A claim takes a queued run, or a running one whose lease is over: the answer and the stored
  run carry the new token, owner and lease, one more attempt and version, and a
  \<open>run.started\<close> event is appended. The identifier of the event must be new.
\<close>

theorem claim_run_takes:
  assumes "reachable s" "runs_get uid rid s = Some r" "strip owner \<noteq> []" "0 < lease"
    and "run_claimable (clk e 0) r" and "uid4 e 1 \<notin> evt_id ` set (db_events s)"
  shows "\<exists>d s' fx ev. claim_run c e uid rid owner lease s = Inr (Some d, s', fx) \<and>
    rdo_claim_token d = Some (uid4 e 0) \<and> rdo_status d = RunStatus.RUNNING \<and>
    runs_get uid rid s' = Some ((claim_row owner (uid4 e 0) (clk e 0)
      (clk e 0 + timedelta_seconds lease) r)\<lparr>run_event_sequence := run_event_sequence r + 1\<rparr>) \<and>
    db_events s' = db_events s @ [ev] \<and> evt_event_type ev = RunEventType.RUN_STARTED"
proof -
  note ok = reachable_ok [OF assms(1)]
  note keys = runtime_keys [OF ok]
  let ?l = "clk e 0 + timedelta_seconds lease"
  let ?r = "claim_row owner (uid4 e 0) (clk e 0) ?l r"
  have r: "r \<in> set (db_runs s)" "run_id r = rid" "run_user_id r = uid"
    using runs_getD [OF assms(2)] by simp_all
  obtain o1 s1 where claim: "runs_claim uid rid owner (uid4 e 0) (clk e 0) ?l s = (o1, s1)"
    by (metis surj_pair)
  have "sel1 (\<lambda>x. run_id x = rid \<and> run_user_id x = uid \<and> run_claimable (clk e 0) x) (db_runs s) \<noteq> None"
    using r assms(5) by (auto simp: sel1_None)
  then obtain q where q: "sel1 (\<lambda>x. run_id x = rid \<and> run_user_id x = uid \<and> run_claimable (clk e 0) x)
      (db_runs s) = Some q"
    by blast
  then have "q = r"
    using r keyed_unique [OF keys_runs [OF keys], of q r] sel1_SomeD [OF q] by simp
  have "o1 \<noteq> None"
  proof
    assume "o1 = None"
    then have "sel1 (\<lambda>x. run_id x = rid) (db_runs s1) = None"
      using claim q \<open>q = r\<close> r by (auto simp: runs_claim_def Let_def)
    moreover have "rid \<in> run_id ` set (db_runs s1)"
    proof -
      have "map run_id (db_runs s1) = map run_id (db_runs s)"
        using claim by (auto simp: runs_claim_def Let_def claim_row_def intro!: map_upd)
      from arg_cong [OF this, of set] show ?thesis
        using r by auto
    qed
    ultimately show False
      by (auto simp: sel1_None)
  qed
  then obtain r' where o1: "o1 = Some r'"
    by blast
  then obtain r2 where r2: "r2 \<in> set (db_runs s)" "run_id r2 = rid"
      "r' = claim_row owner (uid4 e 0) (clk e 0) ?l r2" "s1 = put_run r' s"
    using runs_claim_write [OF keys_runs [OF keys] claim [unfolded o1]] by blast
  then have "r2 = r"
    using r keyed_unique [OF keys_runs [OF keys]] by metis
  then have s1: "r' = ?r" "s1 = put_run ?r s"
    using r2 by simp_all
  have id: "run_id ?r = run_id r" "run_event_sequence ?r = run_event_sequence r"
    by (simp_all add: claim_row_def)
  have log: "log_ok s"
    using ok by (simp add: runtime_ok_def)
  obtain ev s2 where ev: "runs_append_event (uid4 e 1) (clk e 1) (run_id r) RunEventType.RUN_STARTED
      [u ''phase'' \<mapsto> jopt_str (run_current_phase ?r), u ''label'' \<mapsto> jopt_str (run_status_label ?r),
       u ''attempt'' \<mapsto> JInt (run_attempt_count ?r), u ''claim_owner'' \<mapsto> JStr owner] (put_run ?r s) = Inr (ev, s2)"
    "evt_event_type ev = RunEventType.RUN_STARTED" "db_events s2 = db_events s @ [ev]"
    "?r\<lparr>run_event_sequence := run_event_sequence r + 1\<rparr> \<in> set (db_runs s2)"
    using run_claimed_event [OF keys r(1) id(1) assms(6) log id(2)] by blast
  have run: "claim_run c e uid rid owner lease s = Inr (Some (to_run_dto False ?r), s2,
      publish_wakeup c rid (evt_sequence ev))"
    using assms(3,4) claim o1 s1 ev(1) id r(2) by (simp add: claim_run_def)
  have "runtime_ok s2"
    using runtime.step_inv [OF ok service_step.claim_run [OF run]] .
  then have "runs_get uid rid s2 = Some (?r\<lparr>run_event_sequence := run_event_sequence r + 1\<rparr>)"
    using runs_get_iff [OF runtime_keys] ev(4) r by (auto simp: claim_row_def)
  with run ev(2,3) show ?thesis
    by (auto simp: claim_row_def)
qed

theorem claim_run_takes_witness:
  "\<exists>d s' fx. claim_run demo_service (demo_env 48 3000) 7 32 (u ''w1'') 30 demo2 = Inr (Some d, s', fx) \<and>
    rdo_claim_token d = Some 48"
  using claim_run_takes [OF demo_reachable(2), of 7 32 "demo_run\<lparr>run_event_sequence := 1\<rparr>" "u ''w1''" 30
      "demo_env 48 3000" demo_service]
  by (force simp: repo_defs run_claimable_def demo2_def demo_ev_def)

text \<open>The scenario: the lease of \<open>w1\<close> runs out, \<open>w2\<close> takes the run over and starts a tool.\<close>

definition demo_taken :: AgentRun where
  "demo_taken = (claim_row (u ''w2'') 128 40000000 70000000 (demo_claimed\<lparr>run_event_sequence := 2\<rparr>))
     \<lparr>run_event_sequence := 3\<rparr>"

definition demo8 :: db where
  "demo8 = demo3\<lparr>db_runs := [demo_taken],
     db_events := db_events demo3 @ [demo_ev 3 129 40000001 RunEventType.RUN_STARTED
       [u ''phase'' \<mapsto> JStr (u ''executive''), u ''label'' \<mapsto> JStr WORKING_LABEL,
        u ''attempt'' \<mapsto> JInt 2, u ''claim_owner'' \<mapsto> JStr (u ''w2'')]]\<rparr>"

lemma strip_w2 [simp]: "strip (u ''w2'') = u ''w2''"
  by (simp add: strip_id u_def is_space_def)

lemma demo8_step:
  "claim_run demo_service (demo_env 128 40000000) 7 32 (u ''w2'') 30 demo3 =
     Inr (Some (to_run_dto False (demo_taken\<lparr>run_event_sequence := 2\<rparr>)), demo8, [Publish 32 3])"
  by (simp add: claim_run_def Let_def repo_defs demo3_def demo2_def demo1_def empty_db_def ins_def
      demo8_def demo_taken_def demo_claimed_def demo_event2_def demo_run_def new_run_def
      run_claimable_def claim_row_def seconds_30 event_clash_def demo_ev_def publish_wakeup_def)

definition demo9 :: db where
  "demo9 = demo8\<lparr>db_tools := [new_tool_execution 32 (u ''a1'') (u ''send'') (u ''h'') (u ''w2'') 144
     71000000 True None 145 41000001 41000002]\<rparr>"

lemma demo9_step:
  "claim_tool_execution (demo_env 144 41000000) 7 32 (u ''a1'') (u ''send'') (u ''h'') (u ''w2'') 30 128
     True None demo8 =
     Inr (\<lparr>tcl_acquired = True, tcl_claim_token = Some 144, tcl_cached_result = None,
       tcl_blocked_reason = None\<rparr>, demo9, [])"
  by (simp add: claim_tool_execution_def Let_def repo_defs demo8_def demo3_def demo2_def demo1_def
      empty_db_def ins_def demo9_def demo_taken_def demo_claimed_def demo_run_def new_run_def
      claim_row_def seconds_30)

lemma demo9_history: "history [demo_env 144 41000000] demo8 demo9"
  by (rule trace_one) (rule service_step.claim_tool_execution [OF demo9_step])

text \<open>
  C7. A worker that lost its claim can do nothing more: once another claim of the run was
  granted under a different token, and whatever happened since, as long as the old token is not
  drawn again, the old worker cannot renew its lease, cannot make a transition, cannot record
  the terminal output, and cannot start a tool; every attempt leaves the database unchanged.
\<close>

theorem stale_worker_is_fenced:
  assumes "reachable s" "claim_run c e uid rid owner lease s = Inr (Some d, s1, fx)" "uid4 e 0 \<noteq> t"
    and "history es s1 s2" "t \<notin> (\<lambda>e. uid4 e 0) ` set es"
  shows "renew_run_lease e' uid rid o' t lease' s2 = Inr (False, s2, []) \<and>
    worker_transition show_json c' e' uid rid action (Some o') (Some t) s2 =
      Inl (InvalidStateTransition (u ''Run lease is no longer owned by this worker.'')) \<and>
    accept_terminal_output e' uid rid output o' t s2 =
      Inl (InvalidStateTransition (u ''Run lease is no longer owned by this worker.'')) \<and>
    claim_tool_execution e' uid rid action_id tool hash o' lease' t safe key s2 =
      Inl (InvalidStateTransition (u ''Run is not owned by this Tool worker.''))"
proof -
  note ok = reachable_ok [OF assms(1)]
  have step: "service_step e s s1"
    using assms(2) by (rule service_step.claim_run)
  have ok1: "runtime_ok s1"
    using ok step by (rule runtime.step_inv)
  have reach1: "reachable s1"
    by (rule reachable_history [OF assms(1) trace_one [where step = service_step, OF step]])
  obtain r' s0 ev where claim: "runs_claim uid rid owner (uid4 e 0) (clk e 0)
      (clk e 0 + timedelta_seconds lease) s = (Some r', s0)"
    and app: "\<exists>ty data. runs_append_event (uid4 e 1) (clk e 1) (run_id r') ty data s0 = Inr (ev, s1)"
    using assms(2) by (auto simp: claim_run_def split: if_splits prod.splits option.splits)
  obtain r where r: "r \<in> set (db_runs s)" "run_id r = rid" "run_user_id r = uid"
      "r' = claim_row owner (uid4 e 0) (clk e 0) (clk e 0 + timedelta_seconds lease) r" "s0 = put_run r' s"
    using runs_claim_write [OF keys_runs [OF runtime_keys [OF ok]] claim] by blast
  have "r' \<in> set (db_runs s0)"
    unfolding r(5) using r(1) by (rule new_in_put_run) (simp add: r(4) claim_row_def)
  then obtain q where q: "q \<in> set (db_runs s1)" "run_id q = rid" "run_user_id q = uid"
      "run_claim_token q = Some (uid4 e 0)"
    using app r by (fastforce simp: runs_append_event_def Let_def set_upd claim_row_def
        split: option.splits)
  then have get1: "runs_get uid rid s1 = Some q"
    using runs_get_iff [OF runtime_keys [OF ok1]] by simp
  have "\<not> run_held rid s1 t"
    using q assms(3) keyed_unique [OF keys_runs [OF runtime_keys [OF ok1]]]
    by (metis run_held_def option.inject)
  then have free: "\<not> run_held rid s2 t"
    by (rule run_fence.lost_for_good [OF assms(4) ok1 _ assms(5)])
  obtain r2 where r2: "runs_get uid rid s2 = Some r2"
    using run_persists [OF reach1 assms(4) get1] by blast
  then have no: "run_claim_token r2 \<noteq> Some t"
    using free runs_getD [OF r2] by (auto simp: run_held_def)
  have none: "cnt (\<lambda>r. run_id r = rid \<and> run_user_id r = uid \<and> run_status r = RunStatus.RUNNING
      \<and> run_claim_owner r = Some o' \<and> run_claim_token r = Some t) (db_runs s2) = 0"
    using free by (auto simp: cnt_eq_0 run_held_def)
  then have "renew_run_lease e' uid rid o' t lease' s2 = Inr (False, s2, [])"
    by (simp add: renew_run_lease_def runs_renew_lease_def Let_def)
  with no show ?thesis
    by (simp add: worker_transition_def accept_terminal_output_def claim_tool_execution_def Let_def r2)
qed

theorem stale_worker_is_fenced_witness:
  "renew_run_lease (demo_env 160 42000000) 7 32 (u ''w1'') 48 30 demo9 = Inr (False, demo9, [])"
  by (rule conjunct1, rule stale_worker_is_fenced [OF demo_reachable(3) demo8_step _ demo9_history])
     simp_all

end
