(* ===== verification/ToolProperties.thy ===== *)
theory ToolProperties
  imports ClaimProperties
begin

text \<open>
  The tool ledger: what it promises about the execution of tools with external effects, over
  every history.
\<close>

lemma tool_persists:
  assumes "runtime_ok s" "history es s s'" "x \<in> set (db_tools s)"
  shows "\<exists>x' \<in> set (db_tools s'). tool_ident x' = tool_ident x \<and> tex_attempt_count x \<le> tex_attempt_count x'"
proof (rule runtime.trace_stable [of "\<lambda>s. \<exists>x' \<in> set (db_tools s). tool_ident x' = tool_ident x \<and>
    tex_attempt_count x \<le> tex_attempt_count x'" UNIV, OF _ assms(2,1)])
  fix e s s'
  assume "runtime_ok s" "service_step e s s'"
    and "\<exists>x' \<in> set (db_tools s). tool_ident x' = tool_ident x \<and> tex_attempt_count x \<le> tex_attempt_count x'"
  then show "\<exists>x' \<in> set (db_tools s'). tool_ident x' = tool_ident x \<and>
      tex_attempt_count x \<le> tex_attempt_count x'"
    using service_tools_later by (fastforce simp: tools_later_def tool_later_def)
qed (use assms(3) in auto)

lemma tools_unique:
  assumes "keys_ok s" "x \<in> set (db_tools s)" "y \<in> set (db_tools s)"
    "tex_run_id x = tex_run_id y" "tex_action_id x = tex_action_id y"
  shows "x = y"
proof -
  have "tools_get (tex_run_id y) (tex_action_id y) s = Some x"
    "tools_get (tex_run_id y) (tex_action_id y) s = Some y"
    using assms by (simp_all add: tools_get_iff)
  then show ?thesis
    by simp
qed

lemma same_runtime_tools: "same_runtime s s' \<Longrightarrow> db_tools s' = db_tools s"
  unfolding same_runtime_def by (elim exE, drule arg_cong [of _ _ db_tools]) simp

lemma outside_writes_tools: "outside_writes s s' \<Longrightarrow> db_tools s' = db_tools s"
  by (induction rule: rtranclp_induct) (auto elim!: outside_write.cases dest: same_runtime_tools)

text \<open>The claim of an action that must not be replayed and is in the ledger.\<close>

lemma claim_existing_not_safe:
  assumes "claim_existing_tool action tool hash owner t now lease safe key x s = Inr (v, s', fx)"
    and "\<not> tex_replay_safe x" "keys_ok s" "x \<in> set (db_tools s)"
  shows "\<not> tcl_acquired v"
proof -
  have none: "cnt (\<lambda>y. tex_id y = tex_id x \<and> tex_status y = ToolExecutionStatus.IN_PROGRESS \<and>
      tex_lease_expires_at y \<le> now) (db_tools s) = 0" if "\<not> tex_lease_expires_at x \<le> now"
    using that keyed_unique [OF keys_tools [OF assms(3)] _ assms(4)] by (force simp: cnt_eq_0)
  show ?thesis
    using assms(1,2) none
    by (auto simp: claim_existing_tool_def tools_takeover_if_expired_def Let_def
        split: if_splits prod.splits)
qed

text \<open>
  C8. An action that must not be replayed is acquired at most once: after one worker acquired
  it, no later claim of the same action of the run acquires it, whatever its arguments, whoever
  asks, and whatever happened in between, crashes and expired leases included.
\<close>

theorem non_replayable_tool_runs_once:
  assumes "reachable s"
    and "claim_tool_execution e uid rid action tool hash owner lease token False key s = Inr (v, s1, fx)"
    and "tcl_acquired v" and "history es s1 s2"
    and "claim_tool_execution e' uid' rid action tool' hash' owner' lease' token' safe' key' s2
      = Inr (v', s3, fx')"
  shows "\<not> tcl_acquired v'"
proof -
  note ok = reachable_ok [OF assms(1)]
  have ok1: "runtime_ok s1"
    using runtime.step_inv [OF ok service_step.claim_tool_execution [OF assms(2)]] .
  have ok2: "runtime_ok s2"
    using assms(4) ok1 by (rule runtime.trace_inv)
  obtain x where x: "x \<in> set (db_tools s1)" "tex_run_id x = rid" "tex_action_id x = action"
      "\<not> tex_replay_safe x"
    using assms(2)
  proof (cases rule: claim_tool_execution_cases)
    case (added x)
    then show thesis
      by (intro that [of x]) (simp_all add: new_tool_execution_def)
  next
    case (existing x)
    then have "x \<in> set (db_tools s)"
      by (auto simp: tools_get_def dest: sel1_Some)
    then have "tex_replay_safe x"
      using claim_existing_not_safe [OF existing(2) _ runtime_keys [OF ok]] assms(3) by blast
    then show thesis
      using existing(2) by (auto simp: claim_existing_tool_def split: if_splits)
  qed
  obtain x2 where x2: "x2 \<in> set (db_tools s2)" "tool_ident x2 = tool_ident x"
    using tool_persists [OF ok1 assms(4) x(1)] by blast
  then have get: "tools_get rid action s2 = Some x2"
    using tools_get_iff [OF runtime_keys [OF ok2]] x by (simp add: tool_ident_def)
  show ?thesis
    using assms(5)
  proof (cases rule: claim_tool_execution_cases)
    case (added y)
    then have "\<not> tool_clash x2 y"
      using x2(1) by blast
    with added(1) x x2(2) show ?thesis
      by (simp add: new_tool_execution_def tool_clash_def tool_ident_def)
  next
    case (existing y)
    then have "y = x2" "\<not> tex_replay_safe x2"
      using get x x2 by (simp_all add: tool_ident_def)
    then show ?thesis
      using claim_existing_not_safe [OF existing(2) _ runtime_keys [OF ok2]] x2(1) by simp
  qed
qed

lemma demo_later_claim:
  "claim_tool_execution (demo_env 176 4500) 7 32 (u ''a1'') (u ''send'') (u ''h'') (u ''w1'') 30 48 False
     None demo5 =
     Inr (\<lparr>tcl_acquired = False, tcl_claim_token = None, tcl_cached_result = Some demo_result,
       tcl_blocked_reason = None\<rparr>, demo5, [])"
  by (simp add: claim_tool_execution_def claim_existing_tool_def Let_def repo_defs demo5_def demo3_def
      demo2_def demo1_def empty_db_def ins_def demo_claimed_def demo_run_def new_run_def
      claim_row_def demo_tool_def new_tool_execution_def)

theorem non_replayable_tool_runs_once_witness:
  "\<not> tcl_acquired \<lparr>tcl_acquired = False, tcl_claim_token = None, tcl_cached_result = Some demo_result,
       tcl_blocked_reason = None\<rparr>"
  by (rule non_replayable_tool_runs_once [OF demo_reachable(3) demo4_step _ demo5_history demo_later_claim])
     simp

text \<open>
  C9. A recorded result is never lost, changed or recomputed: once an action has one, the ledger
  keeps the execution as it is, and every later claim of the action that does not raise returns
  that result, acquires nothing and writes nothing.
\<close>

theorem tool_result_is_final:
  assumes "reachable s" "tools_get rid action s = Some x" "tex_result x = Some res" "history es s s'"
  shows "tools_get rid action s' = Some x \<and>
    (claim_tool_execution e uid rid action tool hash owner lease token safe key s' = Inr (v, s'', fx) \<longrightarrow>
      tcl_cached_result v = Some res \<and> \<not> tcl_acquired v \<and> s'' = s')"
proof -
  note ok = reachable_ok [OF assms(1)]
  have "recorded s (rid, action) = Some x"
    using assms(2,3) by (simp add: recorded_def)
  then have "recorded s' (rid, action) = Some x"
    by (rule results.trace_keeps [OF assms(4) ok])
  then have get: "tools_get rid action s' = Some x"
    by (auto simp: recorded_def split: option.splits if_splits)
  moreover have "tcl_cached_result v = Some res \<and> \<not> tcl_acquired v \<and> s'' = s'"
    if "claim_tool_execution e uid rid action tool hash owner lease token safe key s' = Inr (v, s'', fx)"
    using that
  proof (cases rule: claim_tool_execution_cases)
    case (added y)
    have "x \<in> set (db_tools s')" "tex_run_id x = rid" "tex_action_id x = action"
      using get by (auto simp: tools_get_def dest: sel1_Some)
    with added(1,2) show ?thesis
      by (auto simp: new_tool_execution_def tool_clash_def)
  next
    case (existing y)
    with get assms(3) show ?thesis
      by (auto simp: claim_existing_tool_def split: if_splits)
  qed
  ultimately show ?thesis
    by blast
qed

lemma demo5_get:
  "tools_get 32 (u ''a1'') demo5 = Some (demo_tool\<lparr>tex_status := ToolExecutionStatus.SUCCEEDED,
     tex_result := Some demo_result, tex_receipt := Some demo_result, tex_updated_at := 5000\<rparr>)"
  by (simp add: repo_defs demo5_def demo_tool_def new_tool_execution_def)

lemma demo5_claim:
  "claim_tool_execution (demo_env 176 4500) 7 32 (u ''a1'') (u ''send'') (u ''h'') (u ''w1'') 30 48 False
     None demo5 = Inr (\<lparr>tcl_acquired = False, tcl_claim_token = None, tcl_cached_result = Some demo_result,
       tcl_blocked_reason = None\<rparr>, demo5, [])"
  by (simp add: claim_tool_execution_def claim_existing_tool_def Let_def repo_defs demo5_def demo3_def
      demo2_def demo1_def empty_db_def ins_def demo_claimed_def demo_run_def new_run_def claim_row_def
      seconds_30 demo_tool_def new_tool_execution_def)

theorem tool_result_is_final_witness:
  "\<exists>x v. tools_get 32 (u ''a1'') demo5 = Some x \<and> tex_result x = Some demo_result \<and>
    claim_tool_execution (demo_env 176 4500) 7 32 (u ''a1'') (u ''send'') (u ''h'') (u ''w1'')
      30 48 False None demo5 = Inr (v, demo5, []) \<and> tcl_cached_result v = Some demo_result"
proof -
  from tool_result_is_final [OF demo_reachable(5) demo5_get _ trace.none [of service_step demo5],
      of demo_result] demo5_claim
  show ?thesis
    by fastforce
qed

text \<open>
  A worker whose tool claim was taken over cannot record an outcome: after another claim of
  the action was acquired under a different token, completions with the old one raise, also
  those that carry a domain mutation, so that the mutation is rolled back with them.
\<close>

theorem stale_tool_claim_cannot_complete:
  assumes "reachable s"
    and "claim_tool_execution e uid rid action tool hash owner lease token safe key s = Inr (v, s1, fx)"
    and "tcl_acquired v" "uid4 e 0 \<noteq> t" "history es s1 s2" "t \<notin> (\<lambda>e. uid4 e 0) ` set es"
  shows "(\<exists>err. complete_tool_execution show_json e' uid' rid action owner' t result succeeded s2 = Inl err) \<and>
    ((\<forall>w s3. mutate s2 = Inr (w, s3) \<longrightarrow> outside_writes s2 s3) \<longrightarrow>
      (\<exists>err. complete_mutation_tool show_json e' uid' rid action owner' t tool' mutate s2 = Inl err))"
proof -
  note ok = reachable_ok [OF assms(1)]
  have ok1: "runtime_ok s1"
    using runtime.step_inv [OF ok service_step.claim_tool_execution [OF assms(2)]] .
  have "\<not> tool_held rid action s1 t"
  proof
    assume "tool_held rid action s1 t"
    then obtain x where x: "x \<in> set (db_tools s1)" "tex_run_id x = rid" "tex_action_id x = action"
        "tex_claim_token x = t"
      by (auto simp: tool_held_def)
    show False
      using assms(2)
    proof (cases rule: claim_tool_execution_cases)
      case (added y)
      then have "y \<in> set (db_tools s1)"
        by simp
      then have "x = y"
        using x added(1) by (intro tools_unique [OF runtime_keys [OF ok1]])
          (simp_all add: new_tool_execution_def)
      with x(4) added(1) assms(4) show False
        by (simp add: new_tool_execution_def)
    next
      case (existing y)
      let ?p = "\<lambda>z. tex_id z = tex_id y \<and> tex_status z = ToolExecutionStatus.IN_PROGRESS \<and>
        tex_lease_expires_at z \<le> clk e 0"
      have take: "cnt ?p (db_tools s) = 1"
        "s1 = snd (tools_takeover_if_expired y (clk e 0) owner (uid4 e 0)
          (clk e 0 + timedelta_seconds lease) s)"
        using existing(2) assms(3)
        by (auto simp: claim_existing_tool_def tools_takeover_if_expired_def Let_def
            split: if_splits prod.splits)
      have y: "y \<in> set (db_tools s)" "tex_run_id y = rid" "tex_action_id y = action"
        using existing(1) by (auto simp: tools_get_def dest: sel1_Some)
      have "?p y"
      proof (rule ccontr)
        assume no: "\<not> ?p y"
        have "\<not> ?p z" if "z \<in> set (db_tools s)" for z
        proof
          assume "?p z"
          then have "z = y"
            using keyed_unique [OF keys_tools [OF runtime_keys [OF ok]] that y(1)] by simp
          with \<open>?p z\<close> no show False
            by simp
        qed
        then have "cnt ?p (db_tools s) = 0"
          by (simp add: cnt_eq_0)
        with take(1) show False
          by simp
      qed
      let ?y = "y\<lparr>tex_claim_owner := owner, tex_claim_token := uid4 e 0,
        tex_lease_expires_at := clk e 0 + timedelta_seconds lease,
        tex_attempt_count := tex_attempt_count y + 1, tex_updated_at := clk e 0\<rparr>"
      have "?y \<in> set (db_tools s1)"
        unfolding take(2) using y(1) \<open>?p y\<close>
        by (force simp: tools_takeover_if_expired_def Let_def set_upd)
      then have "x = ?y"
        using x y by (intro tools_unique [OF runtime_keys [OF ok1]]) simp_all
      with x(4) assms(4) show False
        by simp
    qed
  qed
  then have free: "\<not> tool_held rid action s2 t"
    by (rule tool_fence.lost_for_good [OF assms(5) ok1 _ assms(6)])
  have none: "cnt (\<lambda>x. tex_run_id x = rid \<and> tex_action_id x = action
      \<and> tex_status x = ToolExecutionStatus.IN_PROGRESS \<and> tex_claim_owner x = owner'
      \<and> tex_claim_token x = t) (db_tools s3) = 0" if "db_tools s3 = db_tools s2" for s3
    using free that by (auto simp: cnt_eq_0 tool_held_def)
  have 1: "\<exists>err. complete_tool_execution show_json e' uid' rid action owner' t result succeeded s2 = Inl err"
    using none [OF refl]
    by (simp add: complete_tool_execution_def tools_complete_def Let_def split: option.splits)
  have 2: "\<exists>err. complete_mutation_tool show_json e' uid' rid action owner' t tool' mutate s2 = Inl err"
    if "\<forall>w s3. mutate s2 = Inr (w, s3) \<longrightarrow> outside_writes s2 s3"
  proof (cases "mutate s2")
    case (Inr p)
    then obtain w s3 where p: "mutate s2 = Inr (w, s3)"
      by (cases p) auto
    then have "db_tools s3 = db_tools s2"
      using that by (auto intro: outside_writes_tools)
    with p none [of s3] show ?thesis
      by (simp add: complete_mutation_tool_def complete_personal_state_mutation_tool_def
          tools_complete_def Let_def split: option.splits)
  qed (simp add: complete_mutation_tool_def complete_personal_state_mutation_tool_def split: option.splits)
  from 1 2 show ?thesis
    by blast
qed

theorem stale_tool_claim_cannot_complete_witness:
  "\<exists>err. complete_tool_execution (\<lambda>_. []) (demo_env 192 42000000) 7 32 (u ''a1'') (u ''w1'') 64
     demo_result True demo9 = Inl err"
  using stale_tool_claim_cannot_complete
    [OF reachable_history [OF demo_reachable(3) trace_one [where step = service_step,
       OF service_step.claim_run [OF demo8_step]]] demo9_step _ _ trace.none [of service_step], of 64]
  by simp

end
