(* ===== verification/JobProperties.thy ===== *)
theory JobProperties
  imports ToolProperties
begin

text \<open>
  The durable jobs that drive the runs: claiming, fencing by epochs, recovery of expired leases,
  and settlement.
\<close>

section \<open>Expired leases\<close>

text \<open>What the two statements of \<open>requeue_expired\<close> make of a row.\<close>

definition requeue_row :: "time \<Rightarrow> DurableJob \<Rightarrow> DurableJob" where
  "requeue_row now j =
     (if \<not> job_expired now j then j
      else if job_delivery_attempt j < job_max_delivery_attempts j
      then j\<lparr>job_status := DurableJobStatus.READY, job_claimed_by := None, job_lease_until := None,
        job_available_at := now, job_updated_at := now\<rparr>
      else j\<lparr>job_status := DurableJobStatus.FAILED, job_claimed_by := None, job_lease_until := None,
        job_last_error_code := Some (u ''RECOVERY_EXHAUSTED''), job_updated_at := now\<rparr>)"

lemma jobs_requeue_rows:
  "jobs_requeue_expired now s =
     (cnt (job_expired now) (db_jobs s), s\<lparr>db_jobs := map (requeue_row now) (db_jobs s)\<rparr>)"
proof -
  let ?p1 = "\<lambda>j. job_expired now j \<and> job_delivery_attempt j < job_max_delivery_attempts j"
  let ?f1 = "\<lambda>j. j\<lparr>job_status := DurableJobStatus.READY, job_claimed_by := None,
    job_lease_until := None, job_available_at := now, job_updated_at := now\<rparr>"
  let ?p2 = "\<lambda>j. job_expired now j \<and> job_max_delivery_attempts j \<le> job_delivery_attempt j"
  let ?f2 = "\<lambda>j. j\<lparr>job_status := DurableJobStatus.FAILED, job_claimed_by := None,
    job_lease_until := None, job_last_error_code := Some (u ''RECOVERY_EXHAUSTED''),
    job_updated_at := now\<rparr>"
  have rows: "upd ?p2 ?f2 (upd ?p1 ?f1 js) = map (requeue_row now) js" for js
    by (induction js) (auto simp: requeue_row_def job_expired_def)
  have count: "cnt ?p1 js + cnt ?p2 (upd ?p1 ?f1 js) = cnt (job_expired now) js" for js
    by (induction js) (auto simp: job_expired_def)
  show ?thesis
    unfolding jobs_requeue_expired_def Let_def by (simp add: rows count)
qed

text \<open>
  The two statements of \<open>requeue_expired\<close> treat each job once: an expired claim goes back to
  the queue while deliveries are left, becomes \<open>FAILED\<close> with \<open>RECOVERY_EXHAUSTED\<close> when none is,
  every other job is untouched, and the result counts the expired ones.
\<close>

theorem requeue_expired_exact:
  "jobs_requeue_expired now s =
     (cnt (job_expired now) (db_jobs s), s\<lparr>db_jobs := map (requeue_row now) (db_jobs s)\<rparr>)"
  by (rule jobs_requeue_rows)

section \<open>Claims\<close>

lemma job_claims_Inr:
  "job_claims js = Inr cs \<Longrightarrow> map jcl_job_id cs = map job_id js \<and>
     map jcl_claim_epoch cs = map job_claim_epoch js \<and> map jcl_user_id cs = map job_user_id js \<and>
     map (Inr \<circ> jcl_run_id) cs = map job_run_id js"
  by (induction js arbitrary: cs rule: job_claims.induct) auto

lemma job_claims_total:
  "(\<And>j. j \<in> set js \<Longrightarrow> \<exists>rid. job_run_id j = Inr rid) \<Longrightarrow> \<exists>cs. job_claims js = Inr cs"
  by (induction js rule: job_claims.induct) fastforce+

text \<open>The jobs a claim picks, after the recovery of the expired ones.\<close>

definition picked :: "time \<Rightarrow> nat \<Rightarrow> db \<Rightarrow> DurableJob list" where
  "picked now limit s = take limit (sort_key due_order
     (sel (job_due DurableJobKind.AGENT_RUN now) (map (requeue_row now) (db_jobs s))))"

lemma claim_agent_run_jobs_eq:
  assumes "strip owner \<noteq> []" "0 < lease" "0 < limit"
  shows "claim_agent_run_jobs e owner lease limit s =
    (let row = claim_job_row owner (clk e 0) (clk e 0 + timedelta_seconds lease);
         ps = picked (clk e 0) (nat limit) s
     in bindE (job_claims (map row ps)) (\<lambda>claims. Inr (claims, s\<lparr>db_jobs :=
       upd (\<lambda>j. job_id j \<in> job_id ` set ps) row (map (requeue_row (clk e 0)) (db_jobs s))\<rparr>, [])))"
  using assms
  by (simp add: claim_agent_run_jobs_def claim_ready_jobs_def jobs_claim_ready_def Let_def picked_def
      jobs_requeue_rows)

lemma requeue_row_ident [simp]: "job_ident (requeue_row now j) = job_ident j"
  by (simp add: requeue_row_def job_ident_def)

lemma requeue_row_id [simp]: "job_id (requeue_row now j) = job_id j"
  and requeue_row_payload [simp]: "job_payload (requeue_row now j) = job_payload j"
  and requeue_row_kind [simp]: "job_kind (requeue_row now j) = job_kind j"
  and requeue_row_user [simp]: "job_user_id (requeue_row now j) = job_user_id j"
  by (simp_all add: requeue_row_def)

lemma picked_row:
  assumes "j \<in> set (picked now limit s)"
  shows "j \<in> requeue_row now ` set (db_jobs s)" "job_due DurableJobKind.AGENT_RUN now j"
  using in_set_takeD [OF assms [unfolded picked_def]] by (auto simp: sel_def)

lemma job_run_id_drives: "drives j r \<Longrightarrow> job_run_id j = Inr (run_id r)"
  by (simp add: drives_def job_run_id_def juuid_def)

text \<open>
  C12. A worker that asks for jobs with sensible parameters always gets an answer. It gets the
  first \<open>limit\<close> due jobs in the order of priority, availability, creation and key; each is then
  claimed by it under the epoch it was told and belongs to an existing run of the user it was
  told; and no job under a live lease is touched or handed out.
\<close>

theorem claim_jobs_serves:
  assumes "reachable s" "strip owner \<noteq> []" "0 < lease" "0 < limit"
  shows "\<exists>claims s'. claim_agent_run_jobs e owner lease limit s = Inr (claims, s', []) \<and>
    map jcl_job_id claims = map job_id (picked (clk e 0) (nat limit) s) \<and>
    (\<forall>cl \<in> set claims. runs_get (jcl_user_id cl) (jcl_run_id cl) s' \<noteq> None \<and>
      (\<exists>j \<in> set (db_jobs s'). job_fence (jcl_job_id cl) owner (jcl_claim_epoch cl) j)) \<and>
    (\<forall>j \<in> set (db_jobs s). job_status j = DurableJobStatus.CLAIMED \<and>
      lease_live (job_lease_until j) (clk e 0) \<longrightarrow>
      j \<in> set (db_jobs s') \<and> job_id j \<notin> jcl_job_id ` set claims)"
proof -
  note ok = reachable_ok [OF assms(1)]
  let ?now = "clk e 0"
  let ?row = "claim_job_row owner ?now (?now + timedelta_seconds lease)"
  let ?ps = "picked ?now (nat limit) s"
  let ?jobs = "map (requeue_row ?now) (db_jobs s)"
  let ?s' = "s\<lparr>db_jobs := upd (\<lambda>j. job_id j \<in> job_id ` set ?ps) ?row ?jobs\<rparr>"
  have keys: "keyed job_id ?jobs"
    using keys_jobs [OF runtime_keys [OF ok]] by (simp add: keyed_def comp_def)
  have driven: "\<exists>r \<in> set (db_runs s). job_run_id j = Inr (run_id r) \<and> job_user_id j = run_user_id r"
    if j: "j \<in> set ?ps" for j
  proof -
    obtain k where k: "k \<in> set (db_jobs s)" "j = requeue_row ?now k"
      using picked_row(1) [OF j] by auto
    have "job_kind k = DurableJobKind.AGENT_RUN"
      using picked_row(2) [OF j] k(2) by (simp add: job_due_def)
    then obtain r where "r \<in> set (db_runs s)" "drives k r"
      using ok k(1) by (auto simp: runtime_ok_def driven_ok_def other_job_def)
    with k show ?thesis
      by (auto simp: drives_def job_run_id_def juuid_def)
  qed
  have row: "job_run_id (?row j) = job_run_id j" "job_id (?row j) = job_id j"
      "job_user_id (?row j) = job_user_id j" for j
    by (simp_all add: job_run_id_def claim_job_row_def)
  obtain claims where claims: "job_claims (map ?row ?ps) = Inr claims"
    using job_claims_total [of "map ?row ?ps"] driven row by fastforce
  then have run: "claim_agent_run_jobs e owner lease limit s = Inr (claims, ?s', [])"
    using claim_agent_run_jobs_eq [OF assms(2-4), of e s] by (simp add: Let_def)
  note cs = job_claims_Inr [OF claims]
  have ids: "map jcl_job_id claims = map job_id ?ps"
    using cs row by (simp add: comp_def)
  have each: "runs_get (jcl_user_id cl) (jcl_run_id cl) ?s' \<noteq> None \<and>
      (\<exists>j \<in> set (db_jobs ?s'). job_fence (jcl_job_id cl) owner (jcl_claim_epoch cl) j)"
    if cl: "cl \<in> set claims" for cl
  proof -
    obtain i where i: "i < length claims" "cl = claims ! i"
      using cl by (auto simp: in_set_conv_nth)
    have len: "length claims = length ?ps"
      using arg_cong [OF ids, of length] by simp
    let ?j = "?ps ! i"
    have j: "?j \<in> set ?ps"
      using i len by simp
    have "jcl_job_id cl = job_id ?j"
      using arg_cong [OF ids, of "\<lambda>xs. xs ! i"] i len by simp
    moreover have "jcl_claim_epoch cl = job_claim_epoch (?row ?j)"
      using arg_cong [OF conjunct1 [OF conjunct2 [OF cs]], of "\<lambda>xs. xs ! i"] i len by simp
    moreover have "jcl_user_id cl = job_user_id ?j" "Inr (jcl_run_id cl) = job_run_id ?j"
      using arg_cong [OF conjunct1 [OF conjunct2 [OF conjunct2 [OF cs]]], of "\<lambda>xs. xs ! i"]
        arg_cong [OF conjunct2 [OF conjunct2 [OF conjunct2 [OF cs]]], of "\<lambda>xs. xs ! i"] i len row
      by simp_all
    moreover have "?row ?j \<in> set (db_jobs ?s')"
      using j picked_row(1) [OF j] by (force simp: set_upd)
    moreover have "job_fence (job_id ?j) owner (job_claim_epoch (?row ?j)) (?row ?j)"
      by (simp add: job_fence_def claim_job_row_def)
    ultimately show ?thesis
      using driven [OF j] by (force simp: runs_get_def sel1_None)
  qed
  have live: "j \<in> set (db_jobs ?s') \<and> job_id j \<notin> jcl_job_id ` set claims"
    if j: "j \<in> set (db_jobs s)" "job_status j = DurableJobStatus.CLAIMED"
      "lease_live (job_lease_until j) ?now" for j
  proof -
    have same: "requeue_row ?now j = j"
      using j(3) by (cases "job_lease_until j") (simp_all add: requeue_row_def job_expired_def)
    have "job_id j \<notin> job_id ` set ?ps"
    proof
      assume "job_id j \<in> job_id ` set ?ps"
      then obtain k where k: "k \<in> set ?ps" "job_id k = job_id j"
        by auto
      have "k \<in> set ?jobs" "j \<in> set ?jobs"
        using picked_row(1) [OF k(1)] j(1) same by (force intro: image_eqI)+
      then have "k = j"
        using keyed_unique [OF keys] k(2) by blast
      with picked_row(2) [OF k(1)] j(2) show False
        by (simp add: job_due_def)
    qed
    moreover have "jcl_job_id ` set claims = job_id ` set ?ps"
      using arg_cong [OF ids, of set] by simp
    moreover have "j \<in> set (db_jobs ?s')" if "job_id j \<notin> job_id ` set ?ps"
      using that j(1) same by (force simp: set_upd image_image)
    ultimately show ?thesis
      by simp
  qed
  show ?thesis
    using run ids each live by blast
qed

theorem claim_jobs_serves_witness:
  "\<exists>claims s'. claim_agent_run_jobs (demo_env 256 9000) (u ''w1'') 30 10 demo2 = Inr (claims, s', []) \<and>
    map jcl_job_id claims = map job_id (picked 9000 10 demo2)"
  using claim_jobs_serves [OF demo_reachable(2), of "u ''w1''" 30 10 "demo_env 256 9000"]
  by auto

section \<open>Fencing\<close>

text \<open>A claim handed out is the current epoch of its job, and was not before.\<close>

lemma handed_out:
  assumes "claim_agent_run_jobs e owner lease limit s = Inr (claims, s', fx)" "cl \<in> set claims"
    "runtime_ok s"
  shows "\<exists>j. row job_id (jcl_job_id cl) (db_jobs s) = Some j \<and> jcl_claim_epoch cl = job_claim_epoch j + 1 \<and>
    map_option job_claim_epoch (row job_id (jcl_job_id cl) (db_jobs s')) = Some (jcl_claim_epoch cl)"
proof -
  let ?row = "claim_job_row owner (clk e 0) (clk e 0 + timedelta_seconds lease)"
  let ?ps = "picked (clk e 0) (nat limit) s"
  have valid: "strip owner \<noteq> []" "0 < lease" "0 < limit"
    using assms(1) by (auto simp: claim_agent_run_jobs_def split: if_splits)
  have claims: "job_claims (map ?row ?ps) = Inr claims"
    and s': "s' = s\<lparr>db_jobs := upd (\<lambda>j. job_id j \<in> job_id ` set ?ps) ?row
      (map (requeue_row (clk e 0)) (db_jobs s))\<rparr>"
    using assms(1) by (auto simp: claim_agent_run_jobs_eq [OF valid] Let_def)
  have len: "length claims = length ?ps"
    using arg_cong [OF conjunct1 [OF job_claims_Inr [OF claims]], of length] by simp
  obtain i where i: "i < length claims" "cl = claims ! i"
    using assms(2) by (auto simp: in_set_conv_nth)
  let ?j = "?ps ! i"
  have j: "?j \<in> set ?ps"
    using i len by simp
  have id: "jcl_job_id cl = job_id ?j" and ep: "jcl_claim_epoch cl = job_claim_epoch ?j + 1"
    using arg_cong [OF conjunct1 [OF job_claims_Inr [OF claims]], of "\<lambda>xs. xs ! i"]
      arg_cong [OF conjunct1 [OF conjunct2 [OF job_claims_Inr [OF claims]]], of "\<lambda>xs. xs ! i"] i len
    by (simp_all add: claim_job_row_def)
  obtain k where k: "k \<in> set (db_jobs s)" "?j = requeue_row (clk e 0) k"
    using picked_row(1) [OF j] by auto
  have keys: "keyed job_id (db_jobs s)"
    using assms(3) by (intro keys_jobs runtime_keys)
  have row_s: "row job_id (jcl_job_id cl) (db_jobs s) = Some k"
    using keyed_row [OF keys k(1)] k(2) id by simp
  have "job_claim_epoch ?j = job_claim_epoch k"
    unfolding k(2) by (simp add: requeue_row_def)
  moreover have "keyed job_id (db_jobs s')"
    using runtime.step_inv [OF assms(3) service_step.claim_agent_run_jobs [OF assms(1)]]
    by (intro keys_jobs runtime_keys)
  moreover have "?row ?j \<in> set (db_jobs s')"
    using j k by (force simp: s' set_upd)
  moreover have "job_id (?row ?j) = jcl_job_id cl" "job_claim_epoch (?row ?j) = jcl_claim_epoch cl"
    by (simp_all add: claim_job_row_def id ep)
  ultimately show ?thesis
    using row_s ep by (metis keyed_row option.simps(9))
qed

text \<open>
  C13. Deliveries of a job are fenced by epochs, with no assumption on identifiers: when a job
  that was handed out is handed out again later, the second claim carries a larger epoch, and
  from then on the first worker can neither settle the job nor renew its lease; its attempts
  change nothing.
\<close>

theorem stale_job_claim_is_fenced:
  assumes "reachable s"
    and "claim_agent_run_jobs e1 owner1 lease1 limit1 s = Inr (claims1, s1, fx1)" "cl1 \<in> set claims1"
    and "history es s1 s2"
    and "claim_agent_run_jobs e2 owner2 lease2 limit2 s2 = Inr (claims2, s3, fx2)" "cl2 \<in> set claims2"
    and "jcl_job_id cl2 = jcl_job_id cl1" and "history es' s3 s4"
  shows "jcl_claim_epoch cl1 < jcl_claim_epoch cl2 \<and>
    (\<exists>err. settle_agent_run_job e cl1 owner code s4 = Inl err) \<and>
    renew_agent_run_job e cl1 owner lease s4 = Inr (False, s4, [])"
proof -
  note ok = reachable_ok [OF assms(1)]
  let ?jid = "jcl_job_id cl1"
  let ?epoch = "\<lambda>s. map_option job_claim_epoch (row job_id ?jid (db_jobs s))"
  have ok1: "runtime_ok s1"
    using runtime.step_inv [OF ok service_step.claim_agent_run_jobs [OF assms(2)]] .
  have ok2: "runtime_ok s2"
    using assms(4) ok1 by (rule runtime.trace_inv)
  have ok3: "runtime_ok s3"
    using runtime.step_inv [OF ok2 service_step.claim_agent_run_jobs [OF assms(5)]] .
  have "?epoch s1 = Some (jcl_claim_epoch cl1)"
    using handed_out [OF assms(2,3) ok] by blast
  then obtain m where m: "?epoch s2 = Some m" "jcl_claim_epoch cl1 \<le> m"
    using job_epochs.trace_epoch_grows [OF assms(4) ok1] by blast
  have later: "jcl_claim_epoch cl2 = m + 1" "?epoch s3 = Some (jcl_claim_epoch cl2)"
    using handed_out [OF assms(5,6) ok2] m(1) assms(7) by auto
  then obtain n where n: "?epoch s4 = Some n" "jcl_claim_epoch cl2 \<le> n"
    using job_epochs.trace_epoch_grows [OF assms(8) ok3] by blast
  then obtain j where j: "row job_id ?jid (db_jobs s4) = Some j" "job_claim_epoch j = n"
    by auto
  have keys: "keyed job_id (db_jobs s4)"
    using runtime.trace_inv [OF assms(8) ok3] by (intro keys_jobs runtime_keys)
  have lost: "\<not> job_fence ?jid owner (jcl_claim_epoch cl1) x" if "x \<in> set (db_jobs s4)" for x
    using that j n m later keyed_row [OF keys that] by (auto simp: job_fence_def)
  then have "cnt (job_fence ?jid owner (jcl_claim_epoch cl1)) (db_jobs s4) = 0"
    by (simp add: cnt_eq_0)
  moreover have "cnt (\<lambda>x. job_fence ?jid owner (jcl_claim_epoch cl1) x \<and> lease_live (job_lease_until x) now)
      (db_jobs s4) = 0" for now
    using lost by (simp add: cnt_eq_0)
  ultimately show ?thesis
    using m later
    by (simp add: renew_agent_run_job_def jobs_renew_def settle_agent_run_job_def jobs_settle_def Let_def)
qed

text \<open>The scenario: the job of run 32 is handed out twice.\<close>

definition demo_claim :: "int \<Rightarrow> DurableJobClaimDTO" where
  "demo_claim n = \<lparr>jcl_job_id = 35, jcl_user_id = 7, jcl_run_id = 32, jcl_claim_epoch = n\<rparr>"

definition demo10 :: db where
  "demo10 = demo2\<lparr>db_jobs := [claim_job_row (u ''w1'') 9000 30009000 demo_job]\<rparr>"

definition demo11 :: db where
  "demo11 = demo2\<lparr>db_jobs := [claim_job_row (u ''w2'') 40000000 70000000
     (requeue_row 40000000 (claim_job_row (u ''w1'') 9000 30009000 demo_job))]\<rparr>"

lemma demo10_step:
  "claim_agent_run_jobs (demo_env 256 9000) (u ''w1'') 30 10 demo2 = Inr ([demo_claim 1], demo10, [])"
  by (simp add: claim_agent_run_jobs_def claim_ready_jobs_def jobs_requeue_rows jobs_claim_ready_def
      Let_def demo10_def demo_job_def requeue_row_def job_expired_def sel_def job_due_def
      claim_job_row_def seconds_30 job_run_id_def juuid_def demo_claim_def)

lemma demo11_step:
  "claim_agent_run_jobs (demo_env 272 40000000) (u ''w2'') 30 10 demo10 = Inr ([demo_claim 2], demo11, [])"
  by (simp add: claim_agent_run_jobs_def claim_ready_jobs_def jobs_requeue_rows jobs_claim_ready_def
      Let_def demo10_def demo11_def demo_job_def requeue_row_def job_expired_def sel_def job_due_def
      claim_job_row_def seconds_30 job_run_id_def juuid_def demo_claim_def)

theorem stale_job_claim_is_fenced_witness:
  "renew_agent_run_job (demo_env 288 41000000) (demo_claim 1) (u ''w1'') 30 demo11 = Inr (False, demo11, [])"
  using stale_job_claim_is_fenced [OF demo_reachable(2) demo10_step _ trace.none [of service_step]
    demo11_step _ _ trace.none [of service_step], of "demo_claim 1" "demo_claim 2"
    "demo_env 288 41000000" "u ''w1''" None 30]
  by (simp add: demo_claim_def)

section \<open>Settlement\<close>

text \<open>
  A worker that holds the claim settles its job by the state it left its run in: paused for
  a run that waits, cancelled for a cancelled one, completed for a completed or failed one,
  failed with \<open>RUN_NOT_FOUND\<close> for a missing one; the claim is released. A run it left queued
  or running, or a lease it let run out, makes the settlement raise.
\<close>

theorem settle_follows_run:
  assumes "reachable s" "j \<in> set (db_jobs s)" "job_fence (jcl_job_id cl) owner (jcl_claim_epoch cl) j"
    and "run = runs_get (jcl_user_id cl) (jcl_run_id cl) s"
  shows "settle_agent_run_job e cl owner code s =
    (if settlement_status run = DurableJobStatus.READY
     then Inl (InvalidStateTransition (u ''Agent Run returned without settling its state.''))
     else if \<not> lease_live (job_lease_until j) (clk e 0)
     then Inl (InvalidStateTransition (u ''Durable Job fencing token was lost.''))
     else Inr ((), s\<lparr>db_jobs := upd (\<lambda>x. job_id x = job_id j) (\<lambda>x. x\<lparr>job_status := settlement_status run,
       job_claimed_by := None, job_lease_until := None,
       job_last_error_code := (if run = None then Some (u ''RUN_NOT_FOUND'') else code),
       job_updated_at := clk e 0\<rparr>) (db_jobs s)\<rparr>, []))"
proof -
  have keys: "keyed job_id (db_jobs s)"
    by (intro keys_jobs runtime_keys reachable_ok assms)
  let ?p = "\<lambda>x. job_fence (jcl_job_id cl) owner (jcl_claim_epoch cl) x \<and> lease_live (job_lease_until x) (clk e 0)"
  have id: "job_id j = jcl_job_id cl"
    using assms(3) by (simp add: job_fence_def)
  have only: "x = j" if "x \<in> set (db_jobs s)" "job_id x = job_id j" for x
    using keyed_unique [OF keys that(1) assms(2) that(2)] .
  have p: "?p x \<longleftrightarrow> job_id x = job_id j \<and> lease_live (job_lease_until j) (clk e 0)"
    if "x \<in> set (db_jobs s)" for x
    using only [OF that] assms(3) id by (auto simp: job_fence_def)
  have cnt: "cnt ?p (db_jobs s) = (if lease_live (job_lease_until j) (clk e 0) then 1 else 0)"
  proof (cases "lease_live (job_lease_until j) (clk e 0)")
    case True
    have "cnt ?p (db_jobs s) = 1"
      by (rule cnt_one [OF keys assms(2)]) (use assms(3) True id in \<open>auto simp: job_fence_def\<close>)
    with True show ?thesis
      by simp
  next
    case False
    with p have "cnt ?p (db_jobs s) = 0"
      by (simp add: cnt_eq_0)
    with False show ?thesis
      by simp
  qed
  have rows: "upd ?p f (db_jobs s) = upd (\<lambda>x. job_id x = job_id j) f (db_jobs s)"
    if "lease_live (job_lease_until j) (clk e 0)" for f
    using p that by (intro upd_cong) auto
  show ?thesis
    by (cases run) (auto simp: settle_agent_run_job_def jobs_settle_def Let_def cnt rows
        simp flip: assms(4))
qed

theorem settle_follows_run_witness:
  "settle_agent_run_job (demo_env 304 10000) (demo_claim 1) (u ''w1'') None demo10 =
    Inl (InvalidStateTransition (u ''Agent Run returned without settling its state.''))"
proof -
  have reach: "reachable demo10"
    by (rule reachable_history [OF demo_reachable(2) trace_one [where step = service_step,
          OF service_step.claim_agent_run_jobs [OF demo10_step]]])
  have "runs_get 7 32 demo10 = Some (demo_run\<lparr>run_event_sequence := 1\<rparr>)"
    by (simp add: repo_defs demo10_def)
  then show ?thesis
    using settle_follows_run [OF reach, of "claim_job_row (u ''w1'') 9000 30009000 demo_job" "demo_claim 1"
      "u ''w1''" "Some (demo_run\<lparr>run_event_sequence := 1\<rparr>)" "demo_env 304 10000" None]
    by (simp add: demo10_def demo_claim_def job_fence_def claim_job_row_def demo_job_def
        settlement_status_def)
qed

end
