(* ===== verification/RequestProperties.thy ===== *)
theory RequestProperties
  imports RunProperties JobProperties
begin

text \<open>
  The requests of users: creating runs, repeating a request, cancelling, answering, and what
  other users can reach.
\<close>

section \<open>Creation\<close>

lemma fresh_run_log:
  assumes "log_ok s" "rid \<notin> run_id ` set (db_runs s)" "ev \<in> set (db_events s)"
  shows "evt_run_id ev \<noteq> rid"
  using assms by (auto simp: log_ok_def)

lemma fresh_run_job:
  assumes "driven_ok s" "rid \<notin> run_id ` set (db_runs s)" "j \<in> set (db_jobs s)"
  shows "job_dedupe_key j \<noteq> agent_run_key rid"
  using assms by (force simp: driven_ok_def drives_def other_job_def)



section \<open>Repetition\<close>

text \<open>
  Posting under a key is idempotent for good: once a run was created or found under a key,
  every later valid post of the user under that key, whatever its content and thread, whatever
  happened since, returns this run as replayed and neither writes nor dispatches.
\<close>

theorem create_user_run_is_idempotent:
  assumes "reachable s" "create_user_run c e uid tid content srcs key s = Inr (d, s1, fx)"
    and "history es s1 s2" "strip content' \<noteq> []" "distinct srcs'"
  shows "\<exists>d'. create_user_run c' e' uid tid' content' srcs' key s2 = Inr (d', s2, []) \<and>
    rdo_id d' = rdo_id d \<and> rdo_replayed d'"
proof -
  note ok = reachable_ok [OF assms(1)]
  have ok1: "runtime_ok s1"
    using runtime.step_inv [OF ok service_step.create_user_run [OF assms(2)]] .
  have "map_option run_id (runs_get_by_idempotency uid key s1) = Some (rdo_id d)"
  proof (cases "runs_get_by_idempotency uid key s")
    case (Some r)
    with assms(2) show ?thesis
      by (auto simp: create_user_run_def split: if_splits)
  next
    case None
    let ?r = "(new_run uid tid RunTrigger.USER_MESSAGE key (svc_budget_snapshot c) (uid4 e 0)
      (clk e 0) (clk e 1))\<lparr>run_input_message_id := Some (uid4 e 1)\<rparr>"
    obtain th where th: "threads_get uid tid s = Some th"
      using assms(2) None by (auto simp: create_user_run_def split: if_splits option.splits)
    let ?m = "\<lparr>msg_user_id = uid, msg_thread_id = tid, msg_role = MessageRole.USER,
      msg_content = strip content, msg_id = uid4 e 1, msg_run_id = Some (uid4 e 0),
      msg_source_ids = srcs, msg_metadata = Map.empty, msg_created_at = clk e 2\<rparr>"
    obtain s0 s3 ev s4 j where run: "runs_add ?r s = Inr s0" "messages_add ?m s0 = Inr s3"
      "runs_append_event (uid4 e 2) (clk e 3) (uid4 e 0) RunEventType.RUN_QUEUED
        [u ''status'' \<mapsto> JStr (run_status_value RunStatus.QUEUED),
         u ''label'' \<mapsto> JStr QUEUED_LABEL, u ''phase'' \<mapsto> JStr (u ''queued'')] s3 = Inr (ev, s4)"
      "jobs_add j s4 = Inr s1" "rdo_id d = uid4 e 0"
      using assms(2) None th by (auto simp: create_user_run_def Let_def new_run_def split: if_splits)
    have "?r \<in> set (db_runs s0)"
      using run(1) by (auto simp: runs_add_def new_run_def)
    then have "?r \<in> set (db_runs s3)"
      using run(2) by (auto simp: messages_add_def)
    then obtain n where "?r\<lparr>run_event_sequence := n\<rparr> \<in> set (db_runs s4)"
      using run(3) by (force simp: runs_append_event_def Let_def set_upd new_run_def split: option.splits)
    then have "?r\<lparr>run_event_sequence := n\<rparr> \<in> set (db_runs s1)"
      using run(4) by (auto simp: jobs_add_def)
    then have "runs_get_by_idempotency uid key s1 = Some (?r\<lparr>run_event_sequence := n\<rparr>)"
      using runs_by_key_iff [OF runtime_keys [OF ok1]] by (simp add: new_run_def)
    with run(5) show ?thesis
      by (simp add: new_run_def)
  qed
  then have "map_option run_id (runs_get_by_idempotency uid key s2) = Some (rdo_id d)"
    using run_keys.trace_keeps [OF assms(3) ok1, of "(uid, key)" "rdo_id d"] by simp
  then show ?thesis
    using assms(4,5) by (auto simp: create_user_run_def)
qed

theorem create_user_run_is_idempotent_witness:
  "\<exists>d'. create_user_run demo_service (demo_env 320 11000) 7 16 (u ''Inbox'') [] (u ''k2'') demo3 =
    Inr (d', demo3, []) \<and> rdo_id d' = 32 \<and> rdo_replayed d'"
  using create_user_run_is_idempotent [OF demo_reachable(1) demo2_step demo3_history, of "u ''Inbox''" "[]"]
  by simp

text \<open>The update and the events of a change leave the row of the run in place.\<close>

lemma change_recorded:
  assumes "change_run e uid rid version key resume s = Inr (v, s', fx)" "keys_ok s"
  shows "\<exists>target. runs_get_operation uid key s' = Some (rdo_id v, target)"
  using assms(1)
proof (cases rule: change_run_cases)
  case (replayed prev target r)
  then show ?thesis
    by (auto dest: runs_getD)
next
  case (changed r r' d s1 s2 s3 ev)
  have body_ops: "db_run_ops s1 = db_run_ops s"
    using changed(4)
    by (auto simp: change_body_def jobs_cancel_def jobs_resume_def interactions_resolve_def Let_def
        split: option.splits if_splits)
  have "db_run_ops s2 = db_run_ops s1"
    using changed(5) by (auto simp: runs_update_def Let_def)
  moreover have "db_run_ops s' = db_run_ops s3"
    using changed(7) by (auto simp: runs_append_event_def Let_def split: option.splits)
  ultimately show ?thesis
    using changed(1,6,8) body_ops
    by (auto simp: runs_record_operation_def runs_get_operation_def sel1_append split: option.splits)
qed

text \<open>
  Cancelling and answering are idempotent for good: once a change of a run was made or
  found under a key, every later change the user sends under that key, with whatever run,
  version and answer, returns the run the key was used for, as replayed, and writes nothing.
\<close>

theorem change_run_is_idempotent:
  assumes "reachable s" "service_step e s s1"
    and "change_run e uid rid version key resume s = Inr (d, s1, fx)" "history es s1 s2"
  shows "\<exists>d'. change_run e' uid rid' version' key resume' s2 = Inr (d', s2, []) \<and>
    rdo_id d' = rdo_id d \<and> rdo_replayed d'"
proof -
  note ok = reachable_ok [OF assms(1)]
  have ok1: "runtime_ok s1"
    using ok assms(2) by (rule runtime.step_inv)
  have reach1: "reachable s1"
    by (rule reachable_history [OF assms(1) trace_one [where step = service_step, OF assms(2)]])
  obtain target where op: "runs_get_operation uid key s1 = Some (rdo_id d, target)"
    using change_recorded [OF assms(3) runtime_keys [OF ok]] by blast
  then have op2: "runs_get_operation uid key s2 = Some (rdo_id d, target)"
    using operations.trace_keeps [OF assms(4) ok1, of "(uid, key)"] by simp
  have "\<exists>r1. runs_get uid (rdo_id d) s1 = Some r1"
    using assms(3)
  proof (cases rule: change_run_cases)
    case (replayed prev target r)
    then show ?thesis
      by (auto dest: runs_getD)
  next
    case (changed r r' dd sa sb sc ev)
    have id: "run_id r' = run_id r"
    proof (cases resume)
      case None
      then have c: "run_cancel (clk e 0) r = Inr r'"
        using changed(4) by (auto simp: change_body_def case_prod_unfold)
      show ?thesis
        using run_cancel_evolves [OF c] by (auto simp: run_evolves_def dest: run_ident_eqD)
    next
      case (Some p)
      then obtain iid response where c: "run_resume (clk e 1) iid response r = Inr r'"
        using changed(4)
        by (cases p) (auto simp: change_body_def Let_def case_prod_unfold split: option.splits if_splits)
      show ?thesis
        using run_resume_evolves [OF c] by (auto simp: run_evolves_def dest: run_ident_eqD)
    qed
    have "\<exists>r1. runs_get uid rid s1 = Some r1"
      using run_persists [OF assms(1) trace_one [where step = service_step, OF assms(2)] changed(2)]
      by blast
    moreover have "rdo_id d = rid"
      using changed(8) id runs_getD [OF changed(2)] by simp
    ultimately show ?thesis
      by simp
  qed
  then obtain r2 where r2: "runs_get uid (rdo_id d) s2 = Some r2"
    using run_persists [OF reach1 assms(4)] by blast
  then have "run_id r2 = rdo_id d"
    by (auto dest: runs_getD)
  with op2 r2 show ?thesis
    by (simp add: change_run_def)
qed

theorem change_run_is_idempotent_witness:
  "\<exists>d'. change_run (demo_env 336 12000) 7 32 5 (u ''k3'') None demo7 = Inr (d', demo7, []) \<and>
    rdo_id d' = 32 \<and> rdo_replayed d'"
proof -
  have "change_run (demo_env 96 6000) 7 32 1 (u ''k3'') None demo2 =
      Inr (to_run_dto False (demo_cancelled\<lparr>run_event_sequence := 1\<rparr>), demo6, [])"
    using demo6_step by (simp add: cancel_run_def split: if_splits)
  from change_run_is_idempotent [OF demo_reachable(2) service_step.cancel_run [OF demo6_step] this
      demo7_history]
  show ?thesis
    by (simp add: demo_cancelled_def)
qed

end
