(* ===== verification/ChangeProperties.thy ===== *)
theory ChangeProperties
  imports RequestProperties
begin

text \<open>
  Cancelling and answering runs, competing changes, recovery after crashes, completion, and the
  borders between users.
\<close>

section \<open>Cancelling\<close>

lemma in_updI: "x \<in> set t \<Longrightarrow> p x \<Longrightarrow> f x \<in> set (upd p f t)"
  by (force simp: set_upd)

lemma change_run_row:
  assumes "change_run e uid rid version key resume s = Inr (v, s', fx)" "\<not> rdo_replayed v"
    and "runtime_ok s" "runtime_ok s'"
  obtains r r' d s1 where "runs_get uid rid s = Some r" "run_version r = version"
    "change_body e uid resume r s = Inr (r', d, s1)" "v = to_run_dto False r'" "run_ident r' = run_ident r"
    "runs_get uid rid s' = Some (r'\<lparr>run_event_sequence := run_event_sequence r + 1\<rparr>)"
    "db_jobs s' = db_jobs s1" "db_interactions s' = db_interactions s1"
  using assms(1)
proof (cases rule: change_run_cases)
  case (changed r r' d s1 s2 s3 ev)
  have ev: "run_evolves r r'"
  proof (cases resume)
    case None
    then have "run_cancel (clk e 0) r = Inr r'"
      using changed(4) by (auto simp: change_body_def case_prod_unfold)
    then show ?thesis
      by (rule run_cancel_evolves)
  next
    case (Some p)
    then obtain iid response where "run_resume (clk e 1) iid response r = Inr r'"
      using changed(4)
      by (cases p) (auto simp: change_body_def Let_def case_prod_unfold split: option.splits if_splits)
    then show ?thesis
      by (rule run_resume_evolves)
  qed
  then have id: "run_ident r' = run_ident r" "run_event_sequence r' = run_event_sequence r"
    by (simp_all add: run_evolves_def)
  note same = run_ident_eqD [OF id(1)]
  have r: "r \<in> set (db_runs s)" "run_id r = rid" "run_user_id r = uid"
    using runs_getD [OF changed(2)] by simp_all
  have runs: "db_runs s1 = db_runs s"
    using changed(4)
    by (auto simp: change_body_def jobs_cancel_def jobs_resume_def interactions_resolve_def Let_def
        split: option.splits if_splits)
  have s2: "s2 = put_run r' s1"
    using runs_update_put [of s1 r r'] changed(3,5) id runs r(1) keys_runs [OF runtime_keys [OF assms(3)]]
    by simp
  have "r' \<in> set (db_runs s3)"
    using changed(6) new_in_put_run [of r s1 r'] r(1) runs same
    by (auto simp: s2 runs_record_operation_def)
  then have "r'\<lparr>run_event_sequence := run_event_sequence r + 1\<rparr> \<in> set (db_runs s')"
    using changed(7) id(2)
    by (force simp: runs_append_event_def Let_def set_upd split: option.splits)
  then have "runs_get uid rid s' = Some (r'\<lparr>run_event_sequence := run_event_sequence r + 1\<rparr>)"
    using runs_get_iff [OF runtime_keys [OF assms(4)]] r same by simp
  moreover have "db_jobs s' = db_jobs s1" "db_interactions s' = db_interactions s1"
    using changed(6,7)
    by (auto simp: s2 runs_record_operation_def runs_append_event_def Let_def split: option.splits)
  ultimately show thesis
    using changed(2,3,4,8) id(1) by (intro that)
next
  case (replayed prev target r)
  with assms(2) show thesis
    by simp
qed

text \<open>
  A cancellation that is accepted (and not a replay) found no tool execution in flight and
  the run unfinished at the version the user saw; afterwards the run is cancelled and without a
  claim, its active time is booked, and its job will not be delivered any more.
\<close>

theorem cancel_run_cancels:
  assumes "reachable s" "cancel_run e uid rid version key s = Inr (v, s', fx)" "\<not> rdo_replayed v"
  shows "tools_list_in_progress rid s = [] \<and>
    (\<exists>r r'. runs_get uid rid s = Some r \<and> run_status r \<notin> TERMINAL_RUN_STATUSES \<and> run_version r = version \<and>
      runs_get uid rid s' = Some r' \<and> run_status r' = RunStatus.CANCELLED \<and> run_claim_token r' = None \<and>
      run_version r' = version + 1 \<and>
      run_active_time_used_ms r' = run_active_time_used_ms r + active_span (clk e 0) r \<and>
      (\<forall>j \<in> set (db_jobs s'). drives j r' \<longrightarrow> job_status j \<in>
        {DurableJobStatus.CANCELLED, DurableJobStatus.COMPLETED, DurableJobStatus.FAILED}))"
proof -
  note ok = reachable_ok [OF assms(1)]
  have ok': "runtime_ok s'"
    using runtime.step_inv [OF ok service_step.cancel_run [OF assms(2)]] .
  have change: "change_run e uid rid version key None s = Inr (v, s', fx)"
    and tools: "tools_list_in_progress rid s = []"
    using assms(2) by (auto simp: cancel_run_def split: if_splits)
  obtain r r' d s1 where r: "runs_get uid rid s = Some r" "run_version r = version"
    "change_body e uid None r s = Inr (r', d, s1)" "run_ident r' = run_ident r"
    "runs_get uid rid s' = Some (r'\<lparr>run_event_sequence := run_event_sequence r + 1\<rparr>)"
    "db_jobs s' = db_jobs s1"
    using change_run_row [OF change assms(3) ok ok'] by metis
  have c: "run_status r \<notin> TERMINAL_RUN_STATUSES"
      "r' = (stopped (clk e 0) r)\<lparr>run_status := RunStatus.CANCELLED, run_completed_at := Some (clk e 0)\<rparr>"
    and s1: "s1 = snd (jobs_cancel uid (agent_run_key (run_id r')) (clk e 1) s)"
    using r(3) by (auto simp: change_body_def case_prod_unfold run_cancel_Inr)
  have id: "run_id r' = rid" "run_user_id r' = uid"
    using run_ident_eqD [OF r(4)] runs_getD [OF r(1)] by simp_all
  let ?p = "\<lambda>j. job_user_id j = uid \<and> job_dedupe_key j = agent_run_key rid \<and> job_status j \<in>
    {DurableJobStatus.READY, DurableJobStatus.CLAIMED, DurableJobStatus.PAUSED}"
  let ?f = "\<lambda>j. j\<lparr>job_status := DurableJobStatus.CANCELLED, job_claimed_by := None,
    job_lease_until := None, job_updated_at := clk e 1\<rparr>"
  have jobs: "db_jobs s' = upd ?p ?f (db_jobs s)"
    by (simp add: r(6) s1 id jobs_cancel_def Let_def)
  have "job_status j \<in> {DurableJobStatus.CANCELLED, DurableJobStatus.COMPLETED, DurableJobStatus.FAILED}"
    if j: "j \<in> set (db_jobs s')" "drives j r'" for j
    using j(1) unfolding jobs
  proof (cases rule: in_set_updE)
    case same
    then show ?thesis
      using j(2) id by (cases "job_status j") (simp_all add: drives_def)
  qed simp
  then have "\<forall>j \<in> set (db_jobs s'). drives j (r'\<lparr>run_event_sequence := run_event_sequence r + 1\<rparr>) \<longrightarrow>
      job_status j \<in> {DurableJobStatus.CANCELLED, DurableJobStatus.COMPLETED, DurableJobStatus.FAILED}"
    by (simp add: drives_def)
  with tools r(1,2,5) c show ?thesis
    by (simp add: stopped_def)
qed

theorem cancel_run_cancels_witness:
  "\<exists>r'. runs_get 7 32 demo6 = Some r' \<and> run_status r' = RunStatus.CANCELLED"
  using cancel_run_cancels [OF demo_reachable(2) demo6_step] by auto

section \<open>Answering\<close>


text \<open>
  The scenario: \<open>w1\<close> takes the job and the run, asks for a confirmation, pauses the job, and the
  user answers.
\<close>

definition demo_payload :: jdict where
  "demo_payload = [u ''type'' \<mapsto> JStr (u ''CONFIRMATION'')]"

definition demo12 :: db where
  "demo12 = demo3\<lparr>db_jobs := [claim_job_row (u ''w1'') 9000 30009000 demo_job]\<rparr>"

lemma demo12_step:
  "claim_agent_run_jobs (demo_env 256 9000) (u ''w1'') 30 10 demo3 = Inr ([demo_claim 1], demo12, [])"
  by (simp add: claim_agent_run_jobs_def claim_ready_jobs_def jobs_requeue_rows jobs_claim_ready_def
      Let_def demo12_def demo_job_def requeue_row_def job_expired_def sel_def job_due_def
      claim_job_row_def seconds_30 job_run_id_def juuid_def demo_claim_def)

definition demo_waiting :: AgentRun where
  "demo_waiting = (stopped 20000 demo_claimed)\<lparr>run_status := RunStatus.WAITING_FOR_USER,
     run_interrupt_id := Some 352, run_interrupt := Some demo_payload\<rparr>"

definition demo_question :: RunInteraction where
  "demo_question = \<lparr>ixn_user_id = 7, ixn_run_id = 32, ixn_interaction_type = u ''CONFIRMATION'',
     ixn_request_payload = demo_payload, ixn_id = 352, ixn_action_id = None,
     ixn_status = RunInteractionStatus.PENDING, ixn_response_payload = None, ixn_created_at = 20001,
     ixn_resolved_at = None\<rparr>"

definition demo13 :: db where
  "demo13 = demo12\<lparr>db_runs := [demo_waiting\<lparr>run_event_sequence := 4\<rparr>],
     db_interactions := [demo_question],
     db_events := db_events demo12 @
       [demo_ev 3 354 20003 RunEventType.HITL_REQUESTED ([u ''interrupt_id'' \<mapsto> juuid 352] ++ demo_payload),
        demo_ev 4 355 20004 RunEventType.RUN_WAITING_FOR_USER [u ''interaction_id'' \<mapsto> juuid 352]]\<rparr>"

lemma demo13_step:
  "require_input (\<lambda>_. []) demo_service (demo_env 352 20000) 7 32 demo_payload None (Some (u ''w1''))
     (Some 48) demo12 = Inr (to_run_dto False (demo_waiting\<lparr>run_event_sequence := 2\<rparr>), demo13, [Publish 32 4])"
  by (simp add: require_input_def worker_transition_def worker_body_def worker_events_def repo_defs Let_def
      demo12_def demo3_def demo2_def demo1_def empty_db_def demo13_def demo_waiting_def stopped_def
      run_wait_for_user_def run_release_claim_def run_pause_eq active_span_def demo_claimed_def
      claim_row_def demo_run_def new_run_def payload_interaction_def demo_question_def demo_payload_def
      ins_def copy_run_def jget_def json_text_def demo_ev_def event_clash_def demo_event2_def
      publish_wakeup_def)

definition demo_paused :: DurableJob where
  "demo_paused = (claim_job_row (u ''w1'') 9000 30009000 demo_job)\<lparr>job_status := DurableJobStatus.PAUSED,
     job_claimed_by := None, job_lease_until := None, job_last_error_code := None,
     job_updated_at := 21000\<rparr>"

definition demo14 :: db where
  "demo14 = demo13\<lparr>db_jobs := [demo_paused]\<rparr>"

lemma demo14_step:
  "settle_agent_run_job (demo_env 368 21000) (demo_claim 1) (u ''w1'') None demo13 = Inr ((), demo14, [])"
  by (simp add: settle_agent_run_job_def repo_defs Let_def demo13_def demo12_def demo_claim_def
      settlement_status_def demo_waiting_def stopped_def job_fence_def claim_job_row_def demo_job_def
      demo14_def demo_paused_def)

definition demo_resumed :: AgentRun where
  "demo_resumed = demo_waiting\<lparr>run_status := RunStatus.QUEUED, run_interrupt_id := None,
     run_interrupt := None, run_resume_payload := Some demo_result,
     run_current_phase := Some (u ''resuming''), run_status_label := Some RESUMING_LABEL,
     run_updated_at := 22001, run_version := 4, run_event_sequence := 5\<rparr>"

definition demo15 :: db where
  "demo15 = demo14\<lparr>db_runs := [demo_resumed],
     db_interactions := [demo_question\<lparr>ixn_status := RunInteractionStatus.RESOLVED,
       ixn_response_payload := Some demo_result, ixn_resolved_at := Some 22000\<rparr>],
     db_run_ops := [\<lparr>rop_user_id = 7, rop_run_id = 32, rop_idempotency_key = u ''k4'',
       rop_operation = u ''RESUME'', rop_target_version = 4\<rparr>],
     db_jobs := [demo_paused\<lparr>job_status := DurableJobStatus.READY, job_available_at := 22002,
       job_updated_at := 22002\<rparr>],
     db_events := db_events demo14 @ [demo_ev 5 384 22003 RunEventType.RUN_RESUMED
       [u ''status'' \<mapsto> JStr (u ''QUEUED''), u ''label'' \<mapsto> JStr RESUMING_LABEL,
        u ''phase'' \<mapsto> JStr (u ''resuming'')]]\<rparr>"

lemma demo15_step:
  "resume_run demo_service (demo_env 384 22000) 7 32 352 demo_result 3 (u ''k4'') demo14 =
     Inr (to_run_dto False (demo_resumed\<lparr>run_event_sequence := 4\<rparr>), demo15, [Dispatch 7 32])"
  by (simp add: resume_run_def change_run_def change_body_def repo_defs Let_def demo14_def demo13_def
      demo12_def demo3_def demo2_def demo1_def empty_db_def run_resume_def demo_waiting_def stopped_def
      interaction_resolve_def demo_question_def demo_paused_def claim_job_row_def demo_job_def
      demo15_def demo_resumed_def copy_run_def demo_claimed_def claim_row_def demo_run_def new_run_def
      ins_def demo_ev_def event_clash_def demo_event2_def dispatch_def)

lemma demo_history_15: "history [demo_env 256 9000, demo_env 352 20000, demo_env 368 21000] demo3 demo14"
proof -
  have 1: "history [demo_env 256 9000] demo3 demo12"
    by (rule trace_one) (rule service_step.claim_agent_run_jobs [OF demo12_step])
  have "history ([demo_env 256 9000] @ [demo_env 352 20000]) demo3 demo13"
    by (rule trace.more [OF 1])
       (rule service_step.worker_transition [OF demo13_step [unfolded require_input_def]])
  then have "history (([demo_env 256 9000] @ [demo_env 352 20000]) @ [demo_env 368 21000]) demo3 demo14"
    by (rule trace.more) (rule service_step.settle_agent_run_job [OF demo14_step])
  then show ?thesis
    by simp
qed

lemma demo14_reachable: "reachable demo14"
  by (rule reachable_history [OF demo_reachable(3) demo_history_15])


text \<open>
  C20. A waiting run can be answered: in a reachable database its question is open under the
  run's interrupt, and if its job is paused or ready, the operation key unused and the event's
  identifier new, then the answer at the current version is accepted.
\<close>

theorem waiting_run_can_be_answered:
  assumes "reachable s" "runs_get uid rid s = Some r" "run_status r = RunStatus.WAITING_FOR_USER"
    and "\<exists>j \<in> set (db_jobs s). drives j r \<and> job_status j \<in> {DurableJobStatus.PAUSED, DurableJobStatus.READY}"
    and "runs_get_operation uid key s = None" "uid4 e 0 \<notin> evt_id ` set (db_events s)"
  shows "\<exists>iid v s' fx. run_interrupt_id r = Some iid \<and>
    resume_run c e uid rid iid response (run_version r) key s = Inr (v, s', fx) \<and> \<not> rdo_replayed v"
proof -
  note ok = reachable_ok [OF assms(1)]
  note keys = runtime_keys [OF ok]
  have r: "r \<in> set (db_runs s)" "run_id r = rid" "run_user_id r = uid"
    using runs_getD [OF assms(2)] by simp_all
  obtain i where i: "i \<in> set (db_interactions s)" "asks r i" "ixn_status i = RunInteractionStatus.PENDING"
    using ok r(1) assms(3) by (auto simp: runtime_ok_def interactions_ok_def)
  define iid where "iid = ixn_id i"
  have iid: "run_interrupt_id r = Some iid"
    using i(2) by (simp add: asks_def iid_def)
  have geti: "interactions_get uid rid iid s = Some i"
  proof -
    have "keyed ixn_id (db_interactions s)"
      using keys by (simp add: keys_ok_def)
    then have "sel1 (\<lambda>k. ixn_id k = iid \<and> ixn_run_id k = rid \<and> ixn_user_id k = uid) (db_interactions s) =
        (case row ixn_id iid (db_interactions s) of None \<Rightarrow> None
         | Some k \<Rightarrow> if ixn_id k = iid \<and> ixn_run_id k = rid \<and> ixn_user_id k = uid then Some k else None)"
      by (rule sel1_keyed) simp
    with keyed_row [OF \<open>keyed ixn_id (db_interactions s)\<close> i(1)] i(2) r show ?thesis
      by (simp add: interactions_get_def iid_def asks_def)
  qed
  define i' where "i' = i\<lparr>ixn_status := RunInteractionStatus.RESOLVED,
    ixn_response_payload := Some response, ixn_resolved_at := Some (clk e 0)\<rparr>"
  have res: "interaction_resolve (clk e 0) response i = Inr i'"
    using i(3) by (simp add: interaction_resolve_def i'_def)
  obtain r' where c: "run_resume (clk e 1) iid response r = Inr r'"
    using assms(3) iid by (simp add: run_resume_def)
  have ev: "run_evolves r r'"
    using c by (rule run_resume_evolves)
  then have id: "run_ident r' = run_ident r" "run_event_sequence r' = run_event_sequence r"
    by (simp_all add: run_evolves_def)
  have rid: "run_id r' = rid" "run_user_id r' = uid" "run_id r' = run_id r"
    using run_ident_eqD [OF id(1)] r by simp_all
  let ?p = "\<lambda>j. job_user_id j = uid \<and> job_dedupe_key j = agent_run_key rid
                 \<and> job_status j \<in> {DurableJobStatus.PAUSED, DurableJobStatus.READY}"
  let ?s1 = "interactions_resolve i' s"
  obtain b s2 where job: "jobs_resume uid (agent_run_key rid) (clk e 2) ?s1 = (b, s2)"
    by (metis surj_pair)
  obtain j where j: "j \<in> set (db_jobs s)" "?p j"
    using assms(4) r by (auto simp: drives_def)
  have "keyed (\<lambda>j. (job_user_id j, job_dedupe_key j)) (db_jobs s)"
    using keys by (simp add: keys_ok_def)
  then have "cnt ?p (db_jobs s) = 1"
    by (rule cnt_one [where r = j]) (use j in auto)
  then have b: b
    using job by (auto simp: jobs_resume_def Let_def interactions_resolve_def)
  have s2: "db_runs s2 = db_runs s" "db_run_ops s2 = db_run_ops s" "db_events s2 = db_events s"
    using job by (auto simp: jobs_resume_def Let_def interactions_resolve_def)
  have up: "runs_update r' (run_version r) s2 = (True, put_run r' s2)"
    using r(1) id s2 keys_runs [OF keys] by (intro runs_update_put) simp_all
  let ?op = "\<lparr>rop_user_id = uid, rop_run_id = rid, rop_idempotency_key = key,
        rop_operation = u ''RESUME'', rop_target_version = run_version r'\<rparr>"
  let ?s3 = "put_run r' (s2\<lparr>db_run_ops := db_run_ops s @ [?op]\<rparr>)"
  have op: "runs_record_operation uid rid key (u ''RESUME'') (run_version r') (put_run r' s2) = Inr ?s3"
  proof -
    have "\<not> (rop_user_id x = uid \<and> rop_idempotency_key x = key)" if "x \<in> set (db_run_ops s)" for x
      using that assms(5) by (auto simp: runs_get_operation_def sel1_None)
    then show ?thesis
      by (auto simp: runs_record_operation_def ins_def s2 put_run_def)
  qed
  have log: "\<exists>evn s4. runs_append_event (uid4 e 0) (clk e 3) rid RunEventType.RUN_RESUMED d ?s3 = Inr (evn, s4)" for d
  proof -
    obtain evn s4 where "runs_append_event (uid4 e 0) (clk e 3) (run_id r) RunEventType.RUN_RESUMED d
        (put_run r' s) = Inr (evn, s4)"
      using run_claimed_event [OF keys r(1) rid(3) assms(6) _ id(2)] ok by (metis runtime_ok_def)
    then show ?thesis
      using r(2) s2
      by (auto simp: runs_append_event_def Let_def put_run_def split: option.splits)
  qed
  let ?d = "[u ''status'' \<mapsto> JStr (run_status_value RunStatus.QUEUED),
                      u ''label'' \<mapsto> jopt_str (run_status_label r'),
                      u ''phase'' \<mapsto> jopt_str (run_current_phase r')]"
  have body: "change_body e uid (Some (iid, response)) r s = Inr (r', ?d, s2)"
    using geti res c job b r(2) rid(1) by (simp add: change_body_def Let_def)
  obtain evn s4 where last: "runs_append_event (uid4 e 0) (clk e 3) rid RunEventType.RUN_RESUMED ?d ?s3 = Inr (evn, s4)"
    using log by blast
  have "change_run e uid rid (run_version r) key (Some (iid, response)) s = Inr (to_run_dto False r', s4, [])"
    using assms(2,5) body up op last rid by (simp add: change_run_def)
  then have "resume_run c e uid rid iid response (run_version r) key s =
      Inr (to_run_dto False r', s4, dispatch c uid rid)"
    by (simp add: resume_run_def)
  with iid show ?thesis
    by fastforce
qed

theorem waiting_run_can_be_answered_witness:
  "\<exists>iid v s' fx. resume_run demo_service (demo_env 384 22000) 7 32 iid demo_result 3 (u ''k5'') demo14 =
    Inr (v, s', fx)"
proof -
  have get: "runs_get 7 32 demo14 = Some (demo_waiting\<lparr>run_event_sequence := 4\<rparr>)"
    by (simp add: repo_defs demo14_def demo13_def demo_waiting_def stopped_def)
  have v: "run_version (demo_waiting\<lparr>run_event_sequence := 4\<rparr>) = 3"
    by (simp add: demo_waiting_def stopped_def)
  show ?thesis
    using waiting_run_can_be_answered [OF demo14_reachable get, of "u ''k5''" "demo_env 384 22000"
        demo_service demo_result, unfolded v]
    by (fastforce simp: demo_waiting_def stopped_def demo14_def demo13_def demo12_def demo3_def demo2_def
        demo1_def empty_db_def demo_paused_def claim_job_row_def demo_job_def drives_def repo_defs
        demo_ev_def demo_event2_def)
qed

end
