(* ===== verification/DomainProperties.thy ===== *)
theory DomainProperties
  imports Interfaces RuntimeDto PersonalStateEntities AutomationEntities LibraryEntities Scenario
begin

text \<open>
  Properties of the entities on their own: the Task state machine, the schedule of automations,
  the stored form of evidence references, and the measurement of active time.
\<close>

section \<open>Tasks\<close>

text \<open>
  A Task transition that succeeds on a consistent Task keeps it consistent (a done Task has
  its completion time and does not recur), reaches the requested status, or, for a recurring Task
  that is completed, reopens it with the due time moved by exactly its interval; it counts
  exactly one version for a change and none for a request of the present status.
\<close>

theorem task_transition_sound:
  assumes "task_wf t" "task_transition_to now target t = Inr t'"
  shows "task_wf t' \<and>
    task_version t' = (if target = task_status t then task_version t else task_version t + 1) \<and>
    (task_status t' = target \<or>
      target = TaskStatus.DONE \<and> task_status t' = TaskStatus.TODO \<and> task_completed_at t' = Some now \<and>
      (\<exists>days due. task_recurrence_interval_days t = Some days \<and> 0 < days \<and> task_due_at t = Some due \<and>
        task_due_at t' = Some (due + days * DAY_US))) \<and>
    task_id t' = task_id t \<and> task_user_id t' = task_user_id t \<and>
    task_recurrence_interval_days t' = task_recurrence_interval_days t"
proof -
  have "task_status t' = target \<or>
      target = TaskStatus.DONE \<and> task_status t' = TaskStatus.TODO \<and> task_completed_at t' = Some now \<and>
      (\<exists>days due. task_recurrence_interval_days t = Some days \<and> 0 < days \<and> task_due_at t = Some due \<and>
        task_due_at t' = Some (due + days * DAY_US))"
    using assms(2) by (auto simp: entity_defs Let_def split: if_splits option.splits)
  moreover have "task_version t' = task_version t" if "target = task_status t"
    using assms(2) that by (simp add: task_transition_to_def)
  ultimately show ?thesis
    using task_transition_wf [OF assms] task_transition_version [OF assms(2)] task_transition_frame [OF assms(2)]
    by auto
qed

definition demo_task :: Task where
  "demo_task = \<lparr>task_user_id = 7, task_title = u ''Rent'', task_thing_id = None, task_id = 3,
     task_status = TaskStatus.TODO, task_version = 4, task_completed_at = None, task_due_at = Some 1000,
     task_recurrence_interval_days = Some 7, task_created_at = 1, task_updated_at = 2\<rparr>"

theorem task_transition_sound_witness:
  "task_wf (demo_task\<lparr>task_completed_at := Some 2000, task_due_at := Some 604800001000,
     task_updated_at := 2000, task_version := 5\<rparr>)"
proof -
  have "task_transition_to 2000 TaskStatus.DONE demo_task =
      Inr (demo_task\<lparr>task_completed_at := Some 2000, task_due_at := Some 604800001000,
        task_updated_at := 2000, task_version := 5\<rparr>)"
    by (simp add: task_transition_to_def task_complete_def demo_task_def DAY_US_def)
  from task_transition_sound [OF _ this] show ?thesis
    by (simp add: task_wf_def demo_task_def)
qed

text \<open>
  The refusals of the Task state machine, on every Task: a change is refused exactly when it
  leads from one terminal status to the other, or completes a recurring Task that has no due time
  or no positive interval.
\<close>

theorem task_transition_refusals:
  "(\<exists>err. task_transition_to now target t = Inl err) \<longleftrightarrow>
     target \<noteq> task_status t \<and>
     (if task_status t \<in> {TaskStatus.DONE, TaskStatus.CANCELLED} then target \<noteq> TaskStatus.TODO
      else target = TaskStatus.DONE \<and>
        (\<exists>days. task_recurrence_interval_days t = Some days \<and> (days \<le> 0 \<or> task_due_at t = None)))"
  by (cases "task_status t"; cases target)
     (auto simp: entity_defs Let_def split: option.splits)

section \<open>Automations\<close>

text \<open>What the application does to an automation once \<open>__post_init__\<close> accepted it.\<close>

inductive automation_step :: "time \<Rightarrow> Automation \<Rightarrow> Automation \<Rightarrow> bool" where
  cancel: "automation_step now a (automation_cancel now a)"
| pause: "automation_pause now a = Inr a' \<Longrightarrow> automation_step now a a'"
| resume: "automation_resume now a = Inr a' \<Longrightarrow> automation_step now a a'"
| trigger: "automation_mark_triggered now a = Inr a' \<Longrightarrow> automation_step now a a'"
| complete: "automation_step now a (automation_complete_one_shot now a)"
| revise: "automation_step now a (automation_bump_definition_revision now a)"

interpretation automations: invariant_system automation_step automation_schedule_ok
proof unfold_locales
  fix a now a'
  assume "automation_schedule_ok a" "automation_step now a a'"
  from this(2,1) show "automation_schedule_ok a'"
    by (cases rule: automation_step.cases)
       (use automation_schedule_kept automation_mark_triggered_ok(1) in metis)+
qed

interpretation automation_versions: epochs automation_step automation_schedule_ok
  "\<lambda>a (_ :: unit). Some (aut_version a)"
proof unfold_locales
  fix a now a' and k :: unit and n
  assume ok: "automation_schedule_ok a" and step: "automation_step now a a'" and n: "Some (aut_version a) = Some n"
  from step have "aut_version a \<le> aut_version a'"
    by (cases rule: automation_step.cases)
       (auto simp: entity_defs Let_def split: if_splits option.splits)
  with n show "\<exists>m. Some (aut_version a') = Some m \<and> n \<le> m"
    by simp
qed

text \<open>
  Whatever happens to an automation after \<open>__post_init__\<close> accepted it, its schedule stays
  one that \<open>__post_init__\<close> accepts and its version never decreases; triggering it can therefore never
  fail on the missing interval, and a recurring automation is due again at least a minute later.
\<close>

theorem automation_never_stuck:
  assumes "automation_post_init trigger a0 = Inr a" "trace automation_step ts a a1"
  shows "automation_schedule_ok a1 \<and> aut_version a \<le> aut_version a1 \<and>
    (\<exists>a2. automation_mark_triggered now a1 = Inr a2 \<and> aut_last_triggered_at a2 = Some now \<and>
      (aut_automation_type a1 = AutomationType.RECURRING \<longrightarrow>
        (\<exists>n. aut_next_trigger_at a2 = Some n \<and> now + 60000000 \<le> n)))"
proof -
  have ok: "automation_schedule_ok a"
    using assms(1) by (rule automation_post_init_ok)
  have ok1: "automation_schedule_ok a1"
    using automations.trace_inv [OF assms(2) ok] .
  have "aut_version a \<le> aut_version a1"
    using automation_versions.trace_epoch_grows [OF assms(2) ok refl] by auto
  with ok1 automation_mark_triggered_total [OF ok1, of now] automation_mark_triggered_ok [OF ok1]
  show ?thesis
    by metis
qed

definition demo_automation :: Automation where
  "demo_automation = \<lparr>aut_user_id = 7, aut_automation_type = AutomationType.RECURRING,
     aut_title = u ''Rent'', aut_message = u ''Pay'', aut_timezone_name = u ''UTC'',
     aut_next_trigger_at = Some 1000, aut_idempotency_key = u ''k'', aut_id = 9, aut_thing_id = None,
     aut_task_id = None, aut_source_id = None, aut_recurrence_interval_seconds = Some 3600,
     aut_definition_revision = 1, aut_misfire_policy = MisfirePolicy.FIRE_ONCE,
     aut_status = AutomationStatus.ACTIVE, aut_last_triggered_at = None, aut_version = 1,
     aut_created_at = 1, aut_updated_at = 1\<rparr>"

theorem automation_never_stuck_witness:
  "\<exists>a2. automation_mark_triggered 6000 (automation_cancel 5000 demo_automation) = Inr a2 \<and>
     (\<exists>n. aut_next_trigger_at a2 = Some n \<and> 60006000 \<le> n)"
proof -
  have "automation_post_init (Some (Aware 1000)) demo_automation = Inr demo_automation"
    by (simp add: automation_post_init_def demo_automation_def)
  from automation_never_stuck [OF this trace_one [where step = automation_step, OF automation_step.cancel],
    of 5000 6000]
  show ?thesis
    by (auto simp: automation_cancel_def demo_automation_def)
qed

section \<open>Evidence references\<close>

text \<open>
  What \<open>to_json\<close> writes, \<open>from_json\<close> reads back: the same kind and source, and the same
  locator, an empty one being read as none.
\<close>

theorem evidence_round_trip:
  "evidence_from_json (evidence_to_json e) =
     Inr (e\<lparr>ev_locator := (if ev_locator e = Some Map.empty then None else ev_locator e)\<rparr>)"
  by (cases "ev_locator e") (auto simp: evidence_from_json_def evidence_to_json_def Let_def)

section \<open>Active time\<close>

text \<open>
  Pausing a run books the time since it became active: in milliseconds, within 2 of the exact
  duration for any span below some 36000 years in spite of the two roundings to a double, nothing
  for a clock that went backwards, and the run is not active any more.
\<close>

theorem pause_books_active_time:
  assumes "run_active_started_at r = Some t0"
  shows "run_active_started_at (run_pause_active_time now r) = None \<and>
    run_active_time_used_ms r \<le> run_active_time_used_ms (run_pause_active_time now r) \<and>
    (t0 \<le> now \<and> now - t0 < 2 ^ 60 \<longrightarrow>
      \<bar>rat_of_int (run_active_time_used_ms (run_pause_active_time now r) - run_active_time_used_ms r)
        - of_int (now - t0) / 1000\<bar> < 2) \<and>
    (now \<le> t0 \<longrightarrow> run_active_time_used_ms (run_pause_active_time now r) = run_active_time_used_ms r)"
proof -
  have "elapsed_ms us = 0" if "us \<le> 0" for us
  proof -
    have "total_seconds us * 1000 \<le> 0"
      using that f64_nonneg [of "- (of_int us / 1000000)"]
      by (auto simp: total_seconds_def f64_def split: if_splits)
    then have "f64 (total_seconds us * 1000) \<le> 0"
      using f64_nonneg [of "- (total_seconds us * 1000)"] by (auto simp: f64_def split: if_splits)
    then show ?thesis
      by (simp add: elapsed_ms_def py_trunc_def)
  qed
  with elapsed_ms_accurate [of "now - t0"] show ?thesis
    by (auto simp: run_pause_eq active_span_def assms)
qed

theorem pause_books_active_time_witness:
  "\<bar>rat_of_int (run_active_time_used_ms (run_pause_active_time 4503000 demo_claimed)
     - run_active_time_used_ms demo_claimed) - 4500\<bar> < 2"
  using pause_books_active_time [of demo_claimed 3000 4503000] 
  by (simp add: demo_claimed_def claim_row_def demo_run_def new_run_def)

end
