(* ===== verification/LibraryStore.thy ===== *)
theory LibraryStore
  imports AutomationStore
begin

text \<open>
  The tables behind the uploaded material and the repositories over them,
  \<open>infrastructure/persistence/repositories/sources.py\<close> and \<open>files.py\<close>: sources with their chunks,
  and the files that mirror them with their processing generations, retrieval segments, web
  observations and message attachments. Sources and their links to things are tables of the inner
  stores (\<open>db_sources\<close>, \<open>st_thing_sources\<close>). Conventions as in \<open>StateStore\<close>; where a query leaves
  the order open, rows come in the order of the table.
\<close>

section \<open>Rows\<close>

record SourceChunk =
  chk_source_id :: uuid
  chk_ordinal :: int
  chk_content :: str
  chk_char_start :: int
  chk_char_end :: int
  chk_page_number :: "int option"
  chk_embedding :: "rat list option"
  chk_id :: uuid
  chk_metadata :: jdict
  chk_created_at :: time

record RetrievalSegment =
  seg_file_id :: uuid
  seg_generation_id :: uuid
  seg_segment_order :: int
  seg_representation_kind :: RepresentationKind
  seg_content :: str
  seg_id :: uuid
  seg_locator :: jdict
  seg_embedding :: "rat list option"
  seg_created_at :: time

record WebObservation =
  wob_owner_user_id :: uuid
  wob_requested_url :: str
  wob_final_url :: str
  wob_content_type :: str
  wob_observed_at :: time
  wob_retrieval_method :: str
  wob_id :: uuid
  wob_title :: "str option"
  wob_bounded_excerpt :: "str option"
  wob_locator :: jdict
  wob_content_hash :: "str option"
  wob_created_at :: time

record MessageAttachment =
  att_message_id :: uuid
  att_file_id :: uuid
  att_attachment_order :: int
  att_id :: uuid
  att_created_at :: time

record MemoryOperation =
  mop_user_id :: uuid
  mop_memory_id :: uuid
  mop_idempotency_key :: str
  mop_target_version :: int

record MemorySuppression =
  sup_id :: uuid
  sup_user_id :: uuid
  sup_content_fingerprint :: str
  sup_memory_id :: "uuid option"

record library =
  state :: store
  lb_chunks :: "SourceChunk list"
  lb_files :: "File list"
  lb_generations :: "FileProcessingGeneration list"
  lb_segments :: "RetrievalSegment list"
  lb_observations :: "WebObservation list"
  lb_attachments :: "MessageAttachment list"
  lb_memory_ops :: "MemoryOperation list"
  lb_suppressions :: "MemorySuppression list"

definition empty_library :: library where
  "empty_library = \<lparr>state = empty_store, lb_chunks = [], lb_files = [], lb_generations = [],
     lb_segments = [], lb_observations = [], lb_attachments = [], lb_memory_ops = [],
     lb_suppressions = []\<rparr>"

type_synonym 'a lop = "py_error + ('a \<times> library)"

abbreviation lb_core :: "library \<Rightarrow> db" where
  "lb_core L \<equiv> core (state L)"

abbreviation lb_sources :: "library \<Rightarrow> Source list" where
  "lb_sources L \<equiv> db_sources (core (state L))"

definition set_core :: "db \<Rightarrow> library \<Rightarrow> library" where
  "set_core c L = L\<lparr>state := (state L)\<lparr>core := c\<rparr>\<rparr>"

definition set_sources :: "Source list \<Rightarrow> library \<Rightarrow> library" where
  "set_sources rows L = set_core ((lb_core L)\<lparr>db_sources := rows\<rparr>) L"

lemma set_core_simps [simp]:
  "core (state (set_core c L)) = c" "lb_chunks (set_core c L) = lb_chunks L"
  "lb_files (set_core c L) = lb_files L" "lb_generations (set_core c L) = lb_generations L"
  "lb_segments (set_core c L) = lb_segments L" "lb_attachments (set_core c L) = lb_attachments L"
  "lb_memory_ops (set_core c L) = lb_memory_ops L" "lb_suppressions (set_core c L) = lb_suppressions L"
  "lb_observations (set_core c L) = lb_observations L"
  "st_memories (state (set_core c L)) = st_memories (state L)"
  "st_mutations (state (set_core c L)) = st_mutations (state L)"
  by (simp_all add: set_core_def)

lemma set_sources_simps [simp]:
  "core (state (set_sources rows L)) = (core (state L))\<lparr>db_sources := rows\<rparr>"
  "lb_chunks (set_sources rows L) = lb_chunks L" "lb_files (set_sources rows L) = lb_files L"
  "lb_generations (set_sources rows L) = lb_generations L"
  "lb_segments (set_sources rows L) = lb_segments L"
  "lb_attachments (set_sources rows L) = lb_attachments L"
  "st_mutations (state (set_sources rows L)) = st_mutations (state L)"
  by (simp_all add: set_sources_def)

text \<open>An operation of the inner store, inside the library.\<close>

definition on_state :: "py_error + store \<Rightarrow> library \<Rightarrow> py_error + library" where
  "on_state r L = bindE r (\<lambda>s. Inr (L\<lparr>state := s\<rparr>))"

lemma on_state_Inr [simp]: "on_state r L = Inr L' \<longleftrightarrow> (\<exists>s. r = Inr s \<and> L' = L\<lparr>state := s\<rparr>)"
  by (auto simp: on_state_def)

section \<open>Parameters of the text services\<close>

text \<open>
  What the code takes from outside: Unicode's case folding of a character (\<open>str.casefold\<close>), the
  hexadecimal SHA-256 digest of a text's UTF-8 form, the lower-casing of the database's locale,
  the JSON form of a double, and pgvector's cosine distance.
\<close>

record texts_env =
  tx_fold :: "nat \<Rightarrow> str"
  tx_sha :: "str \<Rightarrow> str"
  tx_lower :: "nat \<Rightarrow> nat"
  tx_float :: "rat \<Rightarrow> json"
  tx_dist :: "rat list \<Rightarrow> rat list \<Rightarrow> rat"

section \<open>Sources\<close>

definition source_clash :: "Source \<Rightarrow> Source \<Rightarrow> bool" where
  "source_clash x s \<longleftrightarrow> src_id x = src_id s \<or> src_object_key x = src_object_key s \<or>
     src_user_id x = src_user_id s \<and> src_idempotency_key x = src_idempotency_key s"

definition sources_add :: "Source \<Rightarrow> library \<Rightarrow> py_error + library" where
  [repo_defs]: "sources_add x L =
     bindE (ins source_clash x (lb_sources L)) (\<lambda>rows. Inr (set_sources rows L))"

definition sources_get_by_id :: "uuid \<Rightarrow> library \<Rightarrow> Source option" where
  [repo_defs]: "sources_get_by_id sid L = sel1 (\<lambda>x. src_id x = sid) (lb_sources L)"

definition sources_get_including_deleted :: "uuid \<Rightarrow> uuid \<Rightarrow> library \<Rightarrow> Source option" where
  [repo_defs]: "sources_get_including_deleted user_id sid L =
     sel1 (\<lambda>x. src_id x = sid \<and> src_user_id x = user_id) (lb_sources L)"

definition sources_get_by_idempotency :: "uuid \<Rightarrow> str \<Rightarrow> library \<Rightarrow> Source option" where
  [repo_defs]: "sources_get_by_idempotency user_id key L =
     sel1 (\<lambda>x. src_user_id x = user_id \<and> src_idempotency_key x = key) (lb_sources L)"

definition sources_add_relation :: "ThingSource \<Rightarrow> store \<Rightarrow> bool \<times> store" where
  [repo_defs]: "sources_add_relation r s =
     (if \<exists>x \<in> set (st_thing_sources s). tsr_thing_id x = tsr_thing_id r \<and> tsr_source_id x = tsr_source_id r
      then (False, s) else (True, s\<lparr>st_thing_sources := st_thing_sources s @ [r]\<rparr>))"

text \<open>The join with the links of a thing, whose primary key admits one link per source.\<close>

definition linked :: "uuid \<Rightarrow> library \<Rightarrow> uuid \<Rightarrow> bool" where
  "linked tid L sid \<longleftrightarrow>
     (\<exists>r \<in> set (st_thing_sources (state L)). tsr_thing_id r = tid \<and> tsr_source_id r = sid)"

definition newest_source :: "Source \<Rightarrow> int \<times> int" where
  "newest_source x = (- src_created_at x, - uint (src_id x))"

definition sources_list_for_thing :: "uuid \<Rightarrow> uuid \<Rightarrow> library \<Rightarrow> Source list" where
  [repo_defs]: "sources_list_for_thing user_id tid L =
     sort_key newest_source
       (sel (\<lambda>x. linked tid L (src_id x) \<and> owned user_id (state L) tid \<and> src_deleted_at x = None)
         (lb_sources L))"

definition claimable ::
  "uuid option \<Rightarrow> time \<Rightarrow> str list \<Rightarrow> int \<Rightarrow> Source \<Rightarrow> bool" where
  "claimable user_id now mimes max_attempts x \<longleftrightarrow>
     src_deleted_at x = None \<and> src_mime_type x \<in> set mimes \<and> src_attempt_count x < max_attempts \<and>
     (src_processing_status x = ProcessingStatus.PENDING \<and>
        (case src_lease_expires_at x of None \<Rightarrow> True | Some t \<Rightarrow> t \<le> now) \<or>
      src_processing_status x = ProcessingStatus.FAILED \<and>
        (case src_next_attempt_at x of None \<Rightarrow> False | Some t \<Rightarrow> t \<le> now)) \<and>
     (case user_id of None \<Rightarrow> True | Some v \<Rightarrow> src_user_id x = v)"

definition claim_source :: "str \<Rightarrow> time \<Rightarrow> time \<Rightarrow> Source \<Rightarrow> Source" where
  "claim_source owner now lease x =
     x\<lparr>src_processing_status := ProcessingStatus.PENDING, src_claim_owner := Some owner,
       src_lease_expires_at := Some lease, src_heartbeat_at := Some now,
       src_attempt_count := src_attempt_count x + 1, src_next_attempt_at := None,
       src_processed_at := None\<rparr>"

definition sources_claim_next_processing ::
  "str \<Rightarrow> uuid option \<Rightarrow> time \<Rightarrow> time \<Rightarrow> str list \<Rightarrow> int \<Rightarrow> library \<Rightarrow> Source option \<times> library" where
  [repo_defs]: "sources_claim_next_processing owner user_id now lease mimes max_attempts L =
     (case sort_key (\<lambda>x. (src_created_at x, src_id x))
        (sel (claimable user_id now mimes max_attempts) (lb_sources L)) of
        [] \<Rightarrow> (None, L)
      | c # _ \<Rightarrow>
          let rows = upd (\<lambda>x. src_id x = src_id c) (claim_source owner now lease) (lb_sources L)
          in (sel1 (\<lambda>x. src_id x = src_id c) rows, set_sources rows L))"

text \<open>The fence of the three statements of a claim's holder.\<close>

definition held_by :: "uuid \<Rightarrow> str \<Rightarrow> Source \<Rightarrow> bool" where
  "held_by sid owner x \<longleftrightarrow> src_id x = sid \<and> src_processing_status x = ProcessingStatus.PENDING \<and>
     src_claim_owner x = Some owner"

definition held_update ::
  "uuid \<Rightarrow> str \<Rightarrow> (Source \<Rightarrow> Source) \<Rightarrow> library \<Rightarrow> bool \<times> library" where
  "held_update sid owner f L =
     (cnt (held_by sid owner) (lb_sources L) = 1,
      set_sources (upd (held_by sid owner) f (lb_sources L)) L)"

definition sources_renew_processing_lease ::
  "uuid \<Rightarrow> str \<Rightarrow> time \<Rightarrow> time \<Rightarrow> library \<Rightarrow> bool \<times> library" where
  [repo_defs]: "sources_renew_processing_lease sid owner now lease L =
     held_update sid owner (\<lambda>x. x\<lparr>src_heartbeat_at := Some now, src_lease_expires_at := Some lease\<rparr>) L"

definition complete_source :: "str \<Rightarrow> time \<Rightarrow> Source \<Rightarrow> Source" where
  "complete_source extracted_text now x =
     x\<lparr>src_processing_status := ProcessingStatus.READY, src_extracted_text := Some extracted_text,
       src_processing_error := None, src_processed_at := Some now, src_claim_owner := None,
       src_lease_expires_at := None, src_heartbeat_at := None, src_next_attempt_at := None\<rparr>"

definition chunk_clash :: "SourceChunk \<Rightarrow> SourceChunk \<Rightarrow> bool" where
  "chunk_clash x c \<longleftrightarrow> chk_id x = chk_id c \<or>
     chk_source_id x = chk_source_id c \<and> chk_ordinal x = chk_ordinal c"

fun ins_all :: "('r \<Rightarrow> 'r \<Rightarrow> bool) \<Rightarrow> 'r list \<Rightarrow> 'r list \<Rightarrow> py_error + 'r list" where
  "ins_all clash [] t = Inr t"
| "ins_all clash (r # rs) t = bindE (ins clash r t) (\<lambda>t'. ins_all clash rs t')"

lemma ins_all_Inr: "ins_all clash rs t = Inr t' \<Longrightarrow> t' = t @ rs"
proof (induction rs arbitrary: t)
  case (Cons r rs)
  from Cons.prems have "ins_all clash rs (t @ [r]) = Inr t'" by auto
  with Cons.IH [of "t @ [r]"] show ?case by simp
qed simp

lemma ins_all_clash_free:
  "ins_all clash rs t = Inr t' \<Longrightarrow> (\<And>x y. clash x y = clash y x) \<Longrightarrow> clash_free clash t \<Longrightarrow> clash_free clash t'"
proof (induction rs arbitrary: t)
  case (Cons r rs)
  from Cons.prems have "ins_all clash rs (t @ [r]) = Inr t'" "clash_free clash (t @ [r])" by auto
  with Cons.IH [of "t @ [r]"] Cons.prems show ?case by blast
qed simp

definition sources_complete_processing ::
  "uuid \<Rightarrow> str \<Rightarrow> str \<Rightarrow> SourceChunk list \<Rightarrow> time \<Rightarrow> library \<Rightarrow> bool lop" where
  [repo_defs]: "sources_complete_processing sid owner extracted_text chunks now L =
     (case held_update sid owner (complete_source extracted_text now) L of (completed, L1) \<Rightarrow>
        if completed
        then bindE (ins_all chunk_clash chunks (lb_chunks L1)) (\<lambda>rows. Inr (True, L1\<lparr>lb_chunks := rows\<rparr>))
        else Inr (False, L1))"

definition fail_source :: "str \<Rightarrow> time \<Rightarrow> time option \<Rightarrow> Source \<Rightarrow> Source" where
  "fail_source error_code now retry_at x =
     x\<lparr>src_processing_status := ProcessingStatus.FAILED, src_processing_error := Some error_code,
       src_processed_at := (if retry_at = None then Some now else None), src_claim_owner := None,
       src_lease_expires_at := None, src_heartbeat_at := None, src_next_attempt_at := retry_at\<rparr>"

definition sources_fail_processing ::
  "uuid \<Rightarrow> str \<Rightarrow> str \<Rightarrow> time \<Rightarrow> time option \<Rightarrow> library \<Rightarrow> bool \<times> library" where
  [repo_defs]: "sources_fail_processing sid owner error_code now retry_at L =
     held_update sid owner (fail_source error_code now retry_at) L"

definition sources_list_chunks ::
  "texts_env \<Rightarrow> uuid \<Rightarrow> uuid \<Rightarrow> nat \<Rightarrow> rat list option \<Rightarrow> str option \<Rightarrow> library \<Rightarrow> SourceChunk list" where
  [repo_defs]: "sources_list_chunks tx user_id sid limit query_embedding query_text L =
     (let rows = sel (\<lambda>c. chk_source_id c = sid \<and>
            (\<exists>x \<in> set (lb_sources L). src_id x = sid \<and> src_user_id x = user_id)) (lb_chunks L) in
      take limit (case query_embedding of
        Some q \<Rightarrow> sort_key (\<lambda>c. (tx_dist tx (the (chk_embedding c)) q, chk_ordinal c))
          (sel (\<lambda>c. chk_embedding c \<noteq> None) rows)
      | None \<Rightarrow> (case query_text of
          Some q \<Rightarrow> sort_key chk_ordinal (sel (\<lambda>c. ilike_contains (tx_lower tx) q (chk_content c)) rows)
        | None \<Rightarrow> sort_key chk_ordinal rows)))"

definition sources_search_for_user ::
  "texts_env \<Rightarrow> uuid \<Rightarrow> str \<Rightarrow> uuid option \<Rightarrow> nat \<Rightarrow> library \<Rightarrow> Source list" where
  [repo_defs]: "sources_search_for_user tx user_id query tid limit L =
     (let q = strip query in
      take limit (sort_key newest_source
       (sel (\<lambda>x. src_user_id x = user_id \<and> src_deleted_at x = None
          \<and> (case tid of None \<Rightarrow> True | Some t \<Rightarrow> linked t L (src_id x))
          \<and> (q = [] \<or> ilike_contains (tx_lower tx) q (src_title x)
             \<or> (case src_extracted_text x of None \<Rightarrow> False
                | Some body \<Rightarrow> ilike_contains (tx_lower tx) q body))) (lb_sources L))))"

definition delete_source :: "time \<Rightarrow> Source \<Rightarrow> Source" where
  "delete_source now x =
     x\<lparr>src_deleted_at := Some now, src_extracted_text := None,
       src_processing_status := ProcessingStatus.FAILED,
       src_processing_error := Some (u ''SOURCE_DELETED'')\<rparr>"

definition sources_mark_deleted ::
  "time \<Rightarrow> uuid \<Rightarrow> uuid \<Rightarrow> library \<Rightarrow> Source option \<times> library" where
  [repo_defs]: "sources_mark_deleted now user_id sid L =
     (case sources_get user_id sid (lb_core L) of
        None \<Rightarrow> (None, L)
      | Some x \<Rightarrow> (Some (delete_source now x),
          set_sources (upd (\<lambda>y. src_id y = sid) (delete_source now) (lb_sources L)) L))"

definition sources_purge_chunks :: "uuid \<Rightarrow> library \<Rightarrow> library" where
  [repo_defs]: "sources_purge_chunks sid L = L\<lparr>lb_chunks := filter (\<lambda>c. chk_source_id c \<noteq> sid) (lb_chunks L)\<rparr>"

section \<open>Files\<close>

definition file_clash :: "File \<Rightarrow> File \<Rightarrow> bool" where
  "file_clash x f \<longleftrightarrow> fil_id x = fil_id f \<or> fil_storage_key x = fil_storage_key f \<or>
     fil_owner_user_id x = fil_owner_user_id f \<and> fil_idempotency_key x = fil_idempotency_key f"

definition files_add :: "File \<Rightarrow> library \<Rightarrow> py_error + library" where
  [repo_defs]: "files_add f L = bindE (ins file_clash f (lb_files L)) (\<lambda>rows. Inr (L\<lparr>lb_files := rows\<rparr>))"

definition files_get :: "uuid \<Rightarrow> uuid \<Rightarrow> library \<Rightarrow> File option" where
  [repo_defs]: "files_get user_id fid L =
     sel1 (\<lambda>f. fil_id f = fid \<and> fil_owner_user_id f = user_id \<and> fil_deleted_at f = None) (lb_files L)"

definition files_get_including_deleted :: "uuid \<Rightarrow> uuid \<Rightarrow> library \<Rightarrow> File option" where
  [repo_defs]: "files_get_including_deleted user_id fid L =
     sel1 (\<lambda>f. fil_id f = fid \<and> fil_owner_user_id f = user_id) (lb_files L)"

definition files_mark_deleted :: "time \<Rightarrow> uuid \<Rightarrow> uuid \<Rightarrow> library \<Rightarrow> library" where
  [repo_defs]: "files_mark_deleted now user_id fid L =
     L\<lparr>lb_files := upd (\<lambda>f. fil_id f = fid \<and> fil_owner_user_id f = user_id \<and> fil_deleted_at f = None)
       (\<lambda>f. f\<lparr>fil_deleted_at := Some now, fil_asset_status := FileAssetStatus.DELETED\<rparr>) (lb_files L)\<rparr>"

definition files_mark_purged :: "time \<Rightarrow> uuid \<Rightarrow> uuid \<Rightarrow> library \<Rightarrow> library" where
  [repo_defs]: "files_mark_purged now user_id fid L =
     L\<lparr>lb_files := upd (\<lambda>f. fil_id f = fid \<and> fil_owner_user_id f = user_id \<and> fil_deleted_at f \<noteq> None
         \<and> fil_purged_at f = None) (\<lambda>f. f\<lparr>fil_purged_at := Some now\<rparr>) (lb_files L)\<rparr>"

definition files_add_generation :: "FileProcessingGeneration \<Rightarrow> library \<Rightarrow> py_error + library" where
  [repo_defs]: "files_add_generation g L =
     bindE (ins (\<lambda>x y. gen_id x = gen_id y) g (lb_generations L)) (\<lambda>rows. Inr (L\<lparr>lb_generations := rows\<rparr>))"

definition files_get_active_generation :: "uuid \<Rightarrow> library \<Rightarrow> FileProcessingGeneration option" where
  [repo_defs]: "files_get_active_generation fid L =
     sel1 (\<lambda>g. gen_file_id g = fid \<and> gen_is_active g) (lb_generations L)"

definition files_retire_active_generations :: "time \<Rightarrow> uuid \<Rightarrow> library \<Rightarrow> library" where
  [repo_defs]: "files_retire_active_generations now fid L =
     L\<lparr>lb_generations := upd (\<lambda>g. gen_file_id g = fid \<and> gen_is_active g)
       (\<lambda>g. g\<lparr>gen_is_active := False, gen_status := GenerationStatus.RETIRED, gen_retired_at := Some now\<rparr>)
       (lb_generations L)\<rparr>"

definition segment_clash :: "RetrievalSegment \<Rightarrow> RetrievalSegment \<Rightarrow> bool" where
  "segment_clash x g \<longleftrightarrow> seg_id x = seg_id g \<or>
     seg_generation_id x = seg_generation_id g \<and> seg_segment_order x = seg_segment_order g"

definition files_replace_segments ::
  "uuid \<Rightarrow> RetrievalSegment list \<Rightarrow> library \<Rightarrow> py_error + library" where
  [repo_defs]: "files_replace_segments gid segments L =
     bindE (ins_all segment_clash segments (filter (\<lambda>x. seg_generation_id x \<noteq> gid) (lb_segments L)))
       (\<lambda>rows. Inr (L\<lparr>lb_segments := rows\<rparr>))"

definition files_purge_segments_for_file :: "uuid \<Rightarrow> library \<Rightarrow> library" where
  [repo_defs]: "files_purge_segments_for_file fid L =
     L\<lparr>lb_segments := filter (\<lambda>x. seg_file_id x \<noteq> fid) (lb_segments L)\<rparr>"

definition active_generation :: "library \<Rightarrow> uuid \<Rightarrow> bool" where
  "active_generation L gid \<longleftrightarrow> (\<exists>g \<in> set (lb_generations L). gen_id g = gid \<and> gen_is_active g)"

definition files_search_for_user ::
  "texts_env \<Rightarrow> uuid \<Rightarrow> str \<Rightarrow> uuid option \<Rightarrow> nat \<Rightarrow> library \<Rightarrow> File list" where
  [repo_defs]: "files_search_for_user tx user_id query tid limit L =
     (let q = strip query in
      take limit (sort_key (\<lambda>f. (- fil_created_at f, - uint (fil_id f)))
       (sel (\<lambda>f. fil_owner_user_id f = user_id \<and> fil_deleted_at f = None
          \<and> fil_asset_status f = FileAssetStatus.ACTIVE
          \<and> (case tid of None \<Rightarrow> True | Some t \<Rightarrow> linked t L (fil_id f))
          \<and> (q = []
             \<or> (case fil_original_filename f of None \<Rightarrow> False
                | Some n \<Rightarrow> ilike_contains (tx_lower tx) q n)
             \<or> (\<exists>x \<in> set (lb_segments L). seg_file_id x = fil_id f
                  \<and> active_generation L (seg_generation_id x)
                  \<and> ilike_contains (tx_lower tx) q (seg_content x)))) (lb_files L))))"

definition files_list_segments ::
  "texts_env \<Rightarrow> uuid \<Rightarrow> uuid \<Rightarrow> nat \<Rightarrow> rat list option \<Rightarrow> str option \<Rightarrow> library \<Rightarrow> RetrievalSegment list"
where
  [repo_defs]: "files_list_segments tx user_id fid limit query_embedding query_text L =
     (let rows = sel (\<lambda>x. seg_file_id x = fid \<and> files_get user_id fid L \<noteq> None
            \<and> active_generation L (seg_generation_id x)) (lb_segments L) in
      take limit (case query_embedding of
        Some q \<Rightarrow> sort_key (\<lambda>x. (tx_dist tx (the (seg_embedding x)) q, seg_segment_order x))
          (sel (\<lambda>x. seg_embedding x \<noteq> None) rows)
      | None \<Rightarrow> (case query_text of
          Some q \<Rightarrow> sort_key seg_segment_order
            (sel (\<lambda>x. ilike_contains (tx_lower tx) q (seg_content x)) rows)
        | None \<Rightarrow> sort_key seg_segment_order rows)))"

definition files_add_web_observation :: "WebObservation \<Rightarrow> library \<Rightarrow> py_error + library" where
  [repo_defs]: "files_add_web_observation w L =
     bindE (ins (\<lambda>x y. wob_id x = wob_id y) w (lb_observations L))
       (\<lambda>rows. Inr (L\<lparr>lb_observations := rows\<rparr>))"

definition files_get_web_observation :: "uuid \<Rightarrow> uuid \<Rightarrow> library \<Rightarrow> WebObservation option" where
  [repo_defs]: "files_get_web_observation user_id oid L =
     sel1 (\<lambda>w. wob_id w = oid \<and> wob_owner_user_id w = user_id) (lb_observations L)"

definition attachment_clash :: "MessageAttachment \<Rightarrow> MessageAttachment \<Rightarrow> bool" where
  "attachment_clash x a \<longleftrightarrow> att_id x = att_id a \<or>
     att_message_id x = att_message_id a \<and> att_attachment_order x = att_attachment_order a"

definition files_add_message_attachment :: "MessageAttachment \<Rightarrow> library \<Rightarrow> py_error + library" where
  [repo_defs]: "files_add_message_attachment a L =
     bindE (ins attachment_clash a (lb_attachments L)) (\<lambda>rows. Inr (L\<lparr>lb_attachments := rows\<rparr>))"

definition files_list_attachments_for_message :: "uuid \<Rightarrow> library \<Rightarrow> MessageAttachment list" where
  [repo_defs]: "files_list_attachments_for_message mid L =
     sort_key att_attachment_order (sel (\<lambda>a. att_message_id a = mid) (lb_attachments L))"

definition files_list_storage_keys :: "library \<Rightarrow> str list" where
  [repo_defs]: "files_list_storage_keys L = map fil_storage_key (lb_files L)"

definition files_list_orphan_candidates :: "nat \<Rightarrow> library \<Rightarrow> File list" where
  [repo_defs]: "files_list_orphan_candidates limit L =
     take limit (sort_key fil_created_at
       (sel (\<lambda>f. fil_deleted_at f = None \<and> fil_asset_status f = FileAssetStatus.ACTIVE
          \<and> \<not> (\<exists>a \<in> set (lb_attachments L). att_file_id a = fil_id f)
          \<and> \<not> (\<exists>r \<in> set (st_thing_sources (state L)). tsr_source_id r = fil_id f)) (lb_files L)))"

section \<open>Units of work\<close>

type_synonym 'a lwork = "(py_error + 'a) \<times> library"

definition commit :: "'a lop \<Rightarrow> library \<Rightarrow> 'a lwork" where
  "commit r L = (case r of Inl err \<Rightarrow> (Inl err, L) | Inr (a, L') \<Rightarrow> (Inr a, L'))"

definition bindW :: "'a lwork \<Rightarrow> ('a \<Rightarrow> library \<Rightarrow> 'b lwork) \<Rightarrow> 'b lwork" where
  "bindW m f = (case m of (Inl err, L) \<Rightarrow> (Inl err, L) | (Inr a, L) \<Rightarrow> f a L)"

definition reads :: "(py_error + 'a) \<Rightarrow> library \<Rightarrow> 'a lwork" where
  "reads r L = (r, L)"

lemma bindW_simps [simp]: "bindW (Inl err, L) f = (Inl err, L)" "bindW (Inr a, L) f = f a L"
  by (simp_all add: bindW_def)

lemma commit_simps [simp]: "commit (Inl err) L = (Inl err, L)" "commit (Inr (a, L')) L = (Inr a, L')"
  by (simp_all add: commit_def)

lemma bindW_Inr: "bindW m f = (Inr b, L') \<longleftrightarrow> (\<exists>a L1. m = (Inr a, L1) \<and> f a L1 = (Inr b, L'))"
  by (auto simp: bindW_def split: prod.splits sum.splits)

lemma commit_Inr: "commit r L = (Inr a, L') \<longleftrightarrow> r = Inr (a, L')"
  by (auto simp: commit_def split: sum.splits prod.splits)

text \<open>What holds of every library a call may leave, whether it returns or raises.\<close>

lemma bindW_leaves:
  "P (snd m) \<Longrightarrow> (\<And>a L. m = (Inr a, L) \<Longrightarrow> P (snd (f a L))) \<Longrightarrow> P (snd (bindW m f))"
  by (cases m, cases "fst m") auto

lemma commit_leaves:
  "P L \<Longrightarrow> (\<And>a L'. r = Inr (a, L') \<Longrightarrow> P L') \<Longrightarrow> P (snd (commit r L))"
  by (auto simp: commit_def split: sum.splits)

end
