(* ===== verification/SourceText.thy ===== *)
theory SourceText
  imports LibraryStore
begin

text \<open>
  From the pages of a document to the chunks that are stored: the normalisation of
  \<open>TextSourceParser.parse\<close> (\<open>infrastructure/sources/text_parser.py\<close>) and the chunking of
  \<open>application/sources/service.py\<close>. What is read out of the bytes of a file (UTF-8, PDF, DOCX) is
  given as raw pages.
\<close>

section \<open>Texts\<close>

definition cut :: "nat \<Rightarrow> nat \<Rightarrow> str \<Rightarrow> str" where
  "cut a b x = take (b - a) (drop a x)"

fun joined :: "str \<Rightarrow> str list \<Rightarrow> str" where
  "joined sep [] = []"
| "joined sep [x] = x"
| "joined sep (x # y # xs) = x @ sep @ joined sep (y # xs)"

text \<open>\<open>str.splitlines\<close>: a carriage return with its line feed is one boundary.\<close>

definition line_end :: "nat \<Rightarrow> bool" where
  "line_end c \<longleftrightarrow> 10 \<le> c \<and> c \<le> 13 \<or> 28 \<le> c \<and> c \<le> 30 \<or> c = 0x85 \<or> c = 0x2028 \<or> c = 0x2029"

fun lines_from :: "str \<Rightarrow> str \<Rightarrow> str list" where
  "lines_from acc [] = (if acc = [] then [] else [rev acc])"
| "lines_from acc (c # cs) =
     (if c = 13 \<and> cs \<noteq> [] \<and> hd cs = 10 then rev acc # lines_from [] (tl cs)
      else if line_end c then rev acc # lines_from [] cs
      else lines_from (c # acc) cs)"

definition normal_page :: "str \<Rightarrow> str" where
  "normal_page raw = strip (joined [10] (map rstrip (lines_from [] raw)))"

section \<open>Parsed content\<close>

record ParsedSourcePage =
  psp_page_number :: "int option"
  psp_text :: str

record ParsedSourceContent =
  psc_text :: str
  psc_pages :: "ParsedSourcePage list"

text \<open>The loop over the pages; \<open>first\<close> says that no page was kept so far.\<close>

fun parse_pages :: "int \<Rightarrow> bool \<Rightarrow> (int option \<times> str) list \<Rightarrow> ParsedSourcePage list" where
  "parse_pages remaining first [] = []"
| "parse_pages remaining first ((number, raw) # pages) =
     (let left = remaining - (if first then 0 else 2) in
      if left \<le> 0 then []
      else let body = take (nat left) (normal_page raw) in
        if body = [] then parse_pages left first pages
        else \<lparr>psp_page_number = number, psp_text = body\<rparr> #
          parse_pages (left - int (length body)) False pages)"

definition PARSE_ERROR :: py_error where
  "PARSE_ERROR = ValueError (u ''Source contains no extractable text.'')"

definition parse_source :: "int \<Rightarrow> (int option \<times> str) list \<Rightarrow> py_error + ParsedSourceContent" where
  "parse_source max_characters raw =
     (let pages = parse_pages max_characters True raw;
          body = joined [10, 10] (map psp_text pages) in
      if body = [] then Inl PARSE_ERROR else Inr \<lparr>psc_text = body, psc_pages = pages\<rparr>)"

section \<open>Chunks\<close>

text \<open>\<open>text.rfind("\n\n", start, hard_end)\<close>: the last paragraph break inside the range.\<close>

definition paragraph_break :: "str \<Rightarrow> nat \<Rightarrow> nat \<Rightarrow> nat option" where
  "paragraph_break x start hard_end =
     List.find (\<lambda>i. x ! i = 10 \<and> x ! Suc i = 10) (rev [start ..< hard_end - 1])"

definition chunk_end :: "nat \<Rightarrow> str \<Rightarrow> nat \<Rightarrow> nat" where
  "chunk_end width x start =
     (let hard_end = min (start + width) (length x) in
      if hard_end < length x
      then (case paragraph_break x start hard_end of
          None \<Rightarrow> hard_end
        | Some p \<Rightarrow> if start + width div 2 < p then p else hard_end)
      else hard_end)"

definition new_chunk :: "env \<Rightarrow> uuid \<Rightarrow> nat \<Rightarrow> nat \<Rightarrow> str \<Rightarrow> nat \<Rightarrow> nat \<Rightarrow> SourceChunk" where
  "new_chunk e sid k ordinal content a b =
     \<lparr>chk_source_id = sid, chk_ordinal = int ordinal, chk_content = content,
      chk_char_start = int a, chk_char_end = int b, chk_page_number = None, chk_embedding = None,
      chk_id = uid4 e k, chk_metadata = [u ''evidence_type'' \<mapsto> JStr (u ''TEXT_SPAN'')],
      chk_created_at = clk e k\<rparr>"

definition chunk_here :: "env \<Rightarrow> uuid \<Rightarrow> nat \<Rightarrow> nat \<Rightarrow> str \<Rightarrow> nat \<Rightarrow> nat \<Rightarrow> SourceChunk list" where
  "chunk_here e sid k ordinal x a b =
     (let content = strip (cut a b x) in
      if content = [] then [] else [new_chunk e sid k ordinal content a b])"

text \<open>Chunk number \<open>ordinal\<close> takes the identifier \<open>k\<close> of the environment.\<close>

function chunks_from ::
  "env \<Rightarrow> uuid \<Rightarrow> str \<Rightarrow> nat \<Rightarrow> nat \<Rightarrow> nat \<Rightarrow> nat \<Rightarrow> nat \<Rightarrow> SourceChunk list" where
  "chunks_from e sid x width overlap k ordinal start =
     (if length x \<le> start then []
      else let stop = chunk_end width x start; here = chunk_here e sid k ordinal x start stop in
        here @ (if length x \<le> stop then []
          else chunks_from e sid x width overlap (k + length here) (ordinal + length here)
            (max (stop - overlap) (start + 1))))"
  by pat_completeness auto

termination
  by (relation "measure (\<lambda>(e, sid, x, width, overlap, k, ordinal, start). length x - start)") auto

declare chunks_from.simps [simp del]

definition build_source_chunks ::
  "env \<Rightarrow> nat \<Rightarrow> uuid \<Rightarrow> str \<Rightarrow> int \<Rightarrow> int \<Rightarrow> py_error + SourceChunk list" where
  "build_source_chunks e k sid x chunk_characters overlap =
     (if chunk_characters \<le> 0 \<or> \<not> (0 \<le> overlap \<and> overlap < chunk_characters)
      then Inl (ValueError (u ''Source chunk and overlap limits are invalid.''))
      else Inr (chunks_from e sid x (nat chunk_characters) (nat overlap) k 0 0))"

definition page_chunk :: "nat \<Rightarrow> nat \<Rightarrow> int option \<Rightarrow> SourceChunk \<Rightarrow> SourceChunk" where
  "page_chunk ordinal base number c =
     c\<lparr>chk_ordinal := int ordinal, chk_char_start := int base + chk_char_start c,
       chk_char_end := int base + chk_char_end c, chk_page_number := number,
       chk_metadata := (chk_metadata c)(u ''page_number'' \<mapsto>
         (case number of None \<Rightarrow> JNull | Some n \<Rightarrow> JInt n))\<rparr>"

text \<open>\<open>done\<close> chunks were appended before; the identifiers go on in the order of the chunks.\<close>

fun page_chunks ::
  "env \<Rightarrow> uuid \<Rightarrow> nat \<Rightarrow> nat \<Rightarrow> nat \<Rightarrow> nat \<Rightarrow> ParsedSourcePage list \<Rightarrow> SourceChunk list" where
  "page_chunks e sid width overlap n base [] = []"
| "page_chunks e sid width overlap n base (p # ps) =
     (let cs = chunks_from e sid (psp_text p) width overlap n 0 0 in
      map (\<lambda>(i, c). page_chunk (n + i) base (psp_page_number p) c) (enumerate 0 cs)
      @ page_chunks e sid width overlap (n + length cs) (base + length (psp_text p) + 2) ps)"

definition build_source_chunks_from_content ::
  "env \<Rightarrow> uuid \<Rightarrow> ParsedSourceContent \<Rightarrow> int \<Rightarrow> int \<Rightarrow> py_error + SourceChunk list" where
  "build_source_chunks_from_content e sid content chunk_characters overlap =
     (if psc_pages content = [] then build_source_chunks e 0 sid (psc_text content) chunk_characters overlap
      else if chunk_characters \<le> 0 \<or> \<not> (0 \<le> overlap \<and> overlap < chunk_characters)
      then Inl (ValueError (u ''Source chunk and overlap limits are invalid.''))
      else Inr (page_chunks e sid (nat chunk_characters) (nat overlap) 0 0 (psc_pages content)))"

text \<open>What \<open>complete_processing\<close> makes of a parsed content before it is stored.\<close>

definition normalized_content :: "ParsedSourceContent \<Rightarrow> ParsedSourceContent" where
  "normalized_content c =
     \<lparr>psc_text = strip (psc_text c),
      psc_pages = map (\<lambda>p. p\<lparr>psp_text := strip (psp_text p)\<rparr>)
        (filter (\<lambda>p. strip (psp_text p) \<noteq> []) (psc_pages c))\<rparr>"

section \<open>Where chunks lie\<close>

lemma find_in_set: "List.find P xs = Some x \<Longrightarrow> x \<in> set xs \<and> P x"
  by (induction xs) (auto split: if_splits)

lemma chunk_end_bounds:
  assumes "0 < width" "start < length x"
  shows "start < chunk_end width x start" "chunk_end width x start \<le> length x"
    "chunk_end width x start \<le> start + width"
proof -
  have p: "start \<le> p \<and> p < min (start + width) (length x) - 1"
    if "paragraph_break x start (min (start + width) (length x)) = Some p" for p
    using find_in_set [OF that [unfolded paragraph_break_def]] by auto
  show "start < chunk_end width x start" "chunk_end width x start \<le> length x"
    "chunk_end width x start \<le> start + width"
    using assms p by (fastforce simp: chunk_end_def Let_def split: option.splits)+
qed

text \<open>The place of a chunk: its offsets cut its content out of the text.\<close>

definition located :: "str \<Rightarrow> SourceChunk \<Rightarrow> bool" where
  "located x c \<longleftrightarrow> 0 \<le> chk_char_start c \<and> chk_char_start c < chk_char_end c \<and>
     chk_char_end c \<le> int (length x) \<and>
     chk_content c = strip (cut (nat (chk_char_start c)) (nat (chk_char_end c)) x)"

lemma chunk_here_located:
  assumes "0 < width" "start < length x" "c \<in> set (chunk_here e sid k n x start (chunk_end width x start))"
  shows "located x c \<and> chk_content c \<noteq> [] \<and> chk_char_end c \<le> chk_char_start c + int width \<and>
    chk_source_id c = sid"
  using chunk_end_bounds [OF assms(1,2)] assms(3)
  by (auto simp: chunk_here_def located_def new_chunk_def Let_def split: if_splits)

text \<open>An induction over the spans of the loop.\<close>

lemma chunks_from_step:
  assumes "start < length x"
  shows "chunks_from e sid x width overlap k n start =
    (let stop = chunk_end width x start; here = chunk_here e sid k n x start stop in
       here @ (if length x \<le> stop then []
         else chunks_from e sid x width overlap (k + length here) (n + length here)
           (max (stop - overlap) (start + 1))))"
  using assms by (subst chunks_from.simps) simp

lemma chunks_from_end [simp]: "length x \<le> start \<Longrightarrow> chunks_from e sid x width overlap k n start = []"
  by (simp add: chunks_from.simps)

lemma chunks_from_located:
  "0 < width \<Longrightarrow> c \<in> set (chunks_from e sid x width overlap k n start) \<Longrightarrow>
    located x c \<and> chk_content c \<noteq> [] \<and> chk_char_end c \<le> chk_char_start c + int width \<and>
    chk_source_id c = sid"
proof (induction e sid x width overlap k n start rule: chunks_from.induct)
  case (1 e sid x width overlap k n start)
  show ?case
  proof (cases "length x \<le> start")
    case False
    let ?stop = "chunk_end width x start" and ?here = "chunk_here e sid k n x start (chunk_end width x start)"
    consider "c \<in> set ?here"
      | "\<not> length x \<le> ?stop" "c \<in> set (chunks_from e sid x width overlap (k + length ?here)
          (n + length ?here) (max (?stop - overlap) (start + 1)))"
      using 1(3) False by (auto simp: chunks_from_step Let_def split: if_splits)
    then show ?thesis
    proof cases
      case 1
      then show ?thesis
        using False by (intro chunk_here_located [OF \<open>0 < width\<close>]) simp_all
    qed (use 1(1) [OF False refl refl] 1(2) in blast)
  qed (use 1(3) in simp)
qed

lemma chunk_here_ordinals:
  "map chk_ordinal (chunk_here e sid k n x a b) = map int [n ..< n + length (chunk_here e sid k n x a b)]"
  by (simp add: chunk_here_def Let_def new_chunk_def)

lemma chunks_from_ordinals:
  "map chk_ordinal (chunks_from e sid x width overlap k n start)
    = map int [n ..< n + length (chunks_from e sid x width overlap k n start)]"
proof (induction e sid x width overlap k n start rule: chunks_from.induct)
  case (1 e sid x width overlap k n start)
  show ?case
  proof (cases "length x \<le> start")
    case False
    let ?here = "chunk_here e sid k n x start (chunk_end width x start)"
    show ?thesis
      using 1 [OF False refl refl] chunk_here_ordinals [of e sid k n x start "chunk_end width x start"] False
      by (simp add: chunks_from_step Let_def add.assoc [symmetric] upt_add_eq_append [of n "n + length ?here"])
  qed simp
qed

lemma chunk_here_ids:
  "map chk_id (chunk_here e sid k n x a b) = map (uid4 e) [k ..< k + length (chunk_here e sid k n x a b)]"
  by (simp add: chunk_here_def Let_def new_chunk_def)

lemma chunks_from_ids:
  "map chk_id (chunks_from e sid x width overlap k n start)
    = map (uid4 e) [k ..< k + length (chunks_from e sid x width overlap k n start)]"
proof (induction e sid x width overlap k n start rule: chunks_from.induct)
  case (1 e sid x width overlap k n start)
  show ?case
  proof (cases "length x \<le> start")
    case False
    let ?here = "chunk_here e sid k n x start (chunk_end width x start)"
    show ?thesis
      using 1 [OF False refl refl] chunk_here_ids [of e sid k n x start "chunk_end width x start"] False
      by (simp add: chunks_from_step Let_def add.assoc [symmetric] upt_add_eq_append [of k "k + length ?here"])
  qed simp
qed

text \<open>No character that is not white space is lost.\<close>

lemma cut_nth: "a \<le> p \<Longrightarrow> p < b \<Longrightarrow> p < length x \<Longrightarrow> x ! p \<in> set (cut a b x)"
  by (auto simp: cut_def in_set_conv_nth intro!: exI [of _ "p - a"])

lemma chunks_from_cover:
  "0 < width \<Longrightarrow> start \<le> p \<Longrightarrow> p < length x \<Longrightarrow> \<not> is_space (x ! p) \<Longrightarrow>
    \<exists>c \<in> set (chunks_from e sid x width overlap k n start).
      chk_char_start c \<le> int p \<and> int p < chk_char_end c"
proof (induction e sid x width overlap k n start rule: chunks_from.induct)
  case (1 e sid x width overlap k n start)
  let ?stop = "chunk_end width x start"
  have start: "start < length x"
    using 1(3,4) by simp
  show ?case
  proof (cases "p < ?stop")
    case True
    then have "strip (cut start ?stop x) \<noteq> []"
      using cut_nth [OF 1(3) True 1(4)] 1(5) by (auto simp: strip_eq_Nil_iff)
    then show ?thesis
      using True 1(3) start by (simp add: chunks_from_step Let_def chunk_here_def new_chunk_def)
  next
    case False
    then have stop: "\<not> length x \<le> ?stop" "max (?stop - overlap) (start + 1) \<le> p"
      using 1(4) chunk_end_bounds(1) [OF 1(2) start] by simp_all
    have "\<not> length x \<le> start"
      using start by simp
    from 1(1) [OF this refl refl stop(1) 1(2) stop(2) 1(4,5)] show ?thesis
      using start stop(1) unfolding chunks_from_step [OF start] Let_def by auto
  qed
qed

section \<open>Pages\<close>

lemma joined_Cons: "joined sep (x # xs) = x @ (if xs = [] then [] else sep @ joined sep xs)"
  by (cases xs) simp_all

lemma located_shift:
  assumes "located x c"
  shows "located (pre @ x @ post) (page_chunk n (length pre) number c)"
proof -
  let ?a = "nat (chk_char_start c)" and ?b = "nat (chk_char_end c)"
  have c: "0 \<le> chk_char_start c" "chk_char_start c < chk_char_end c" "chk_char_end c \<le> int (length x)"
    "chk_content c = strip (cut ?a ?b x)"
    using assms by (simp_all add: located_def)
  have "cut (length pre + ?a) (length pre + ?b) (pre @ x @ post) = cut ?a ?b x"
    using c by (simp add: cut_def)
  then show ?thesis
    using c by (simp add: located_def page_chunk_def nat_add_distrib)
qed

lemma in_enumerateD: "(i, d) \<in> set (enumerate k xs) \<Longrightarrow> d \<in> set xs"
  by (auto simp: in_set_enumerate_eq)

lemma page_chunks_located:
  assumes "0 < width"
  shows "c \<in> set (page_chunks e sid width overlap n (length pre) ps) \<Longrightarrow>
    located (pre @ joined [10, 10] (map psp_text ps)) c \<and> chk_content c \<noteq> [] \<and>
    chk_char_end c \<le> chk_char_start c + int width \<and> chk_source_id c = sid"
proof (induction ps arbitrary: n pre)
  case (Cons p ps)
  let ?x = "psp_text p"
  let ?cs = "chunks_from e sid ?x width overlap n 0 0"
  let ?post = "if ps = [] then [] else [10, 10] @ joined [10, 10] (map psp_text ps)"
  have body: "pre @ joined [10, 10] (map psp_text (p # ps)) = pre @ ?x @ ?post"
    by (simp add: joined_Cons)
  consider (here) i d where "d \<in> set ?cs" "c = page_chunk (n + i) (length pre) (psp_page_number p) d"
    | (later) "c \<in> set (page_chunks e sid width overlap (n + length ?cs) (length (pre @ ?x @ [10, 10])) ps)"
    using Cons.prems by (auto simp: Let_def dest: in_enumerateD)
  then show ?case
  proof cases
    case here
    have d: "located ?x d" "chk_content d \<noteq> []" "chk_char_end d \<le> chk_char_start d + int width"
      "chk_source_id d = sid"
      using chunks_from_located [OF assms here(1)] by simp_all
    have "located (pre @ ?x @ ?post) c"
      unfolding here(2) by (rule located_shift [OF d(1)])
    then show ?thesis
      using d(2-4) unfolding body here(2) by (simp add: page_chunk_def)
  next
    case later
    then have "ps \<noteq> []"
      by auto
    with Cons.IH [OF later] show ?thesis
      unfolding body by simp
  qed
qed simp

lemma page_chunks_ordinals:
  "map chk_ordinal (page_chunks e sid width overlap n base ps)
    = map int [n ..< n + length (page_chunks e sid width overlap n base ps)]"
proof (induction ps arbitrary: n base)
  case (Cons p ps)
  let ?cs = "chunks_from e sid (psp_text p) width overlap n 0 0"
  let ?here = "map (\<lambda>(i, c). page_chunk (n + i) base (psp_page_number p) c) (enumerate 0 ?cs)"
  have "map chk_ordinal ?here = map int [n ..< n + length ?here]"
    by (rule nth_equalityI) (simp_all add: nth_enumerate_eq page_chunk_def)
  then show ?case
    using Cons.IH [of "n + length ?cs"]
    by (simp add: Let_def add.assoc [symmetric] upt_add_eq_append [of n "n + length ?cs"])
qed simp

lemma page_chunks_ids:
  "map chk_id (page_chunks e sid width overlap n base ps)
    = map (uid4 e) [n ..< n + length (page_chunks e sid width overlap n base ps)]"
proof (induction ps arbitrary: n base)
  case (Cons p ps)
  let ?cs = "chunks_from e sid (psp_text p) width overlap n 0 0"
  let ?here = "map (\<lambda>(i, c). page_chunk (n + i) base (psp_page_number p) c) (enumerate 0 ?cs)"
  have "map chk_id ?here = map chk_id ?cs"
    by (rule nth_equalityI) (simp_all add: nth_enumerate_eq page_chunk_def)
  then show ?case
    using Cons.IH [of "n + length ?cs"] chunks_from_ids [of e sid "psp_text p" width overlap n 0 0]
    by (simp add: Let_def add.assoc [symmetric] upt_add_eq_append [of n "n + length ?cs"])
qed simp

lemma page_chunks_cover:
  assumes "0 < width"
  shows "p < length (joined [10, 10] (map psp_text ps)) \<Longrightarrow>
    \<not> is_space (joined [10, 10] (map psp_text ps) ! p) \<Longrightarrow>
    \<exists>c \<in> set (page_chunks e sid width overlap n base ps).
      chk_char_start c \<le> int (base + p) \<and> int (base + p) < chk_char_end c"
proof (induction ps arbitrary: n base p)
  case (Cons q ps)
  let ?x = "psp_text q"
  let ?cs = "chunks_from e sid ?x width overlap n 0 0"
  have body: "joined [10, 10] (map psp_text (q # ps))
      = ?x @ (if ps = [] then [] else [10, 10] @ joined [10, 10] (map psp_text ps))"
    by (simp add: joined_Cons)
  show ?case
  proof (cases "p < length ?x")
    case True
    then obtain c where c: "c \<in> set ?cs" "chk_char_start c \<le> int p" "int p < chk_char_end c"
      using chunks_from_cover [OF assms, of 0 p ?x e sid overlap n 0] Cons.prems unfolding body
      by (auto simp: nth_append)
    then obtain i where "i < length ?cs" "?cs ! i = c"
      by (auto simp: in_set_conv_nth)
    then have "(i, c) \<in> set (enumerate 0 ?cs)"
      by (auto simp: in_set_enumerate_eq)
    with c show ?thesis
      by (force simp: Let_def page_chunk_def)
  next
    case False
    define r where "r = p - length ?x"
    have p: "p = length ?x + r" and ps: "ps \<noteq> []"
      using False Cons.prems(1) unfolding body by (auto simp: r_def split: if_splits)
    have r: "\<not> is_space (([10, 10] @ joined [10, 10] (map psp_text ps)) ! r)"
      "r < 2 + length (joined [10, 10] (map psp_text ps))"
      using Cons.prems ps unfolding body p by (simp_all add: nth_append)
    then have "2 \<le> r"
      by (cases r; cases "r - 1") (auto simp: is_space_def)
    with r have "\<exists>c \<in> set (page_chunks e sid width overlap (n + length ?cs) (base + length ?x + 2) ps).
        chk_char_start c \<le> int (base + length ?x + 2 + (r - 2)) \<and> int (base + length ?x + 2 + (r - 2)) < chk_char_end c"
      by (intro Cons.IH) (simp_all add: nth_append numeral_2_eq_2)
    then show ?thesis
      using \<open>2 \<le> r\<close> unfolding p by (auto simp: Let_def)
  qed
qed simp

section \<open>Normalised content\<close>

text \<open>
  What the parser returns: no page is empty or starts with white space, and only the last, which
  the limit may have cut off, may end with it.
\<close>

fun neat :: "str list \<Rightarrow> bool" where
  "neat [] = True"
| "neat (x # xs) = (x \<noteq> [] \<and> \<not> is_space (hd x) \<and> (xs \<noteq> [] \<longrightarrow> \<not> is_space (last x)) \<and> neat xs)"

lemma parse_pages_neat: "neat (map psp_text (parse_pages remaining first raw))"
proof (induction remaining first raw rule: parse_pages.induct)
  case (2 remaining first number raw pages)
  define left where "left = remaining - (if first then 0 else 2)"
  define body where "body = take (nat left) (normal_page raw)"
  consider "left \<le> 0" | "0 < left" "body = []" | "0 < left" "body \<noteq> []"
    by linarith
  then show ?case
  proof cases
    case 2
    then show ?thesis
      using "2.IH"(1) [OF left_def _ body_def] by (simp add: Let_def left_def [symmetric] body_def [symmetric])
  next
    case 3
    have page: "normal_page raw \<noteq> []" "hd body = hd (normal_page raw)"
      using 3 by (auto simp: body_def)
    then have stripped: "\<not> is_space (hd body)" "\<not> is_space (last (normal_page raw))"
      using strip_ends unfolding normal_page_def by auto
    have "\<not> is_space (last body)" if "parse_pages (left - int (length body)) False pages \<noteq> []"
    proof -
      have "length body \<noteq> nat left"
        using that 3 by (cases pages) (auto simp: Let_def split: prod.splits if_splits)
      then have "body = normal_page raw"
        by (auto simp: body_def min_def split: if_splits)
      with stripped show ?thesis
        by simp
    qed
    then show ?thesis
      using "2.IH"(2) [OF left_def _ body_def] 3 stripped
      by (simp add: Let_def left_def [symmetric] body_def [symmetric])
  qed (simp add: Let_def left_def)
qed simp

lemma rstrip_append: "\<exists>c \<in> set y. \<not> is_space c \<Longrightarrow> rstrip (x @ y) = x @ rstrip y"
  by (auto simp: rstrip_def dropWhile_append)

lemma lstrip_id: "x = [] \<or> \<not> is_space (hd x) \<Longrightarrow> lstrip x = x"
  by (cases x) (auto simp: lstrip_def)

lemma neat_joined: "neat xs \<Longrightarrow> xs \<noteq> [] \<Longrightarrow> joined sep xs \<noteq> [] \<and> \<not> is_space (hd (joined sep xs))"
  by (cases xs) (auto simp: joined_Cons)

lemma strip_joined: "neat xs \<Longrightarrow> strip (joined sep xs) = joined sep (map strip xs)"
proof (induction xs)
  case (Cons x xs)
  show ?case
  proof (cases "xs = []")
    case False
    define y where "y = joined sep xs"
    have y: "y \<noteq> []" "\<not> is_space (hd y)"
      using neat_joined [of xs sep] Cons.prems False by (auto simp: y_def)
    have "strip y = rstrip y"
      using y by (simp add: strip_def lstrip_id)
    moreover have "rstrip ((x @ sep) @ y) = (x @ sep) @ rstrip y"
      using y by (intro rstrip_append) (auto intro!: bexI [of _ "hd y"])
    moreover have "strip x = x"
      using Cons.prems False by (intro strip_id) simp
    moreover have "lstrip (x @ sep @ y) = x @ sep @ y"
      using Cons.prems by (intro lstrip_id) simp
    ultimately show ?thesis
      using False Cons by (simp add: joined_Cons strip_def [of "x @ sep @ y"] y_def [symmetric])
  qed simp
qed simp

text \<open>The parser's content is only stripped at its end by the service.\<close>

lemma normalized_parsed:
  assumes "parse_source limit raw = Inr content"
  shows "psc_text (normalized_content content)
      = joined [10, 10] (map psp_text (psc_pages (normalized_content content)))"
    "psc_pages (normalized_content content) \<noteq> []" "psc_text (normalized_content content) \<noteq> []"
proof -
  let ?ps = "parse_pages limit True raw"
  have content: "content = \<lparr>psc_text = joined [10, 10] (map psp_text ?ps), psc_pages = ?ps\<rparr>" "?ps \<noteq> []"
    using assms by (auto simp: parse_source_def Let_def split: if_splits)
  have keep: "strip x \<noteq> []" if "neat xs" "x \<in> set xs" for x xs
    using that by (induction xs) (auto simp: strip_eq_Nil_iff)
  have pages: "psc_pages (normalized_content content) = map (\<lambda>p. p\<lparr>psp_text := strip (psp_text p)\<rparr>) ?ps"
  proof -
    have "filter (\<lambda>p. strip (psp_text p) \<noteq> []) ?ps = ?ps"
      using keep [OF parse_pages_neat, of _ limit True raw] by (intro filter_True) simp
    then show ?thesis
      by (simp only: content normalized_content_def ParsedSourceContent.simps)
  qed
  show "psc_pages (normalized_content content) \<noteq> []"
    using content(2) by (simp add: pages)
  show body: "psc_text (normalized_content content)
      = joined [10, 10] (map psp_text (psc_pages (normalized_content content)))"
    unfolding pages by (simp add: content normalized_content_def strip_joined [OF parse_pages_neat] comp_def)
  obtain p ps where ps: "?ps = p # ps"
    using content(2) by (cases ?ps) auto
  then have "strip (psp_text p) \<noteq> []"
    using keep [OF parse_pages_neat, of "psp_text p" limit True raw] by simp
  then show "psc_text (normalized_content content) \<noteq> []"
    unfolding body pages by (simp add: ps joined_Cons)
qed

end
