(* ===== verification/MemoryStore.thy ===== *)
theory MemoryStore
  imports LibraryStore
begin

text \<open>
  The repositories of the long-term memories, \<open>repositories/memories.py\<close> and
  \<open>memory_suppressions.py\<close>, with the constraints of their tables: one active profile per user and
  key, scores between 0 and 1, a validity range that is not empty.
\<close>

section \<open>Memories\<close>

definition set_memories :: "Memory list \<Rightarrow> library \<Rightarrow> library" where
  "set_memories rows L = L\<lparr>state := (state L)\<lparr>st_memories := rows\<rparr>\<rparr>"

abbreviation lb_memories :: "library \<Rightarrow> Memory list" where
  "lb_memories L \<equiv> st_memories (state L)"

lemma set_memories_simps [simp]:
  "st_memories (state (set_memories rows L)) = rows" "core (state (set_memories rows L)) = core (state L)"
  "lb_memory_ops (set_memories rows L) = lb_memory_ops L"
  "lb_suppressions (set_memories rows L) = lb_suppressions L"
  by (simp_all add: set_memories_def)

definition active_profile :: "Memory \<Rightarrow> bool" where
  "active_profile m \<longleftrightarrow> mem_memory_type m = MemoryType.PROFILE \<and> mem_status m = MemoryStatus.ACTIVE
     \<and> mem_profile_key m \<noteq> None"

definition profile_clash :: "Memory \<Rightarrow> Memory \<Rightarrow> bool" where
  "profile_clash x m \<longleftrightarrow> active_profile x \<and> active_profile m \<and> mem_user_id x = mem_user_id m \<and>
     mem_profile_key x = mem_profile_key m"

definition memory_clash :: "Memory \<Rightarrow> Memory \<Rightarrow> bool" where
  "memory_clash x m \<longleftrightarrow> mem_id x = mem_id m \<or>
     mem_user_id x = mem_user_id m \<and> mem_idempotency_key x = mem_idempotency_key m \<or>
     profile_clash x m"

definition unit_score :: "rat \<Rightarrow> bool" where
  "unit_score x \<longleftrightarrow> 0 \<le> x \<and> x \<le> 1"

definition valid_range :: "time option \<Rightarrow> time option \<Rightarrow> bool" where
  "valid_range a b \<longleftrightarrow> (case (a, b) of (Some x, Some y) \<Rightarrow> x < y | _ \<Rightarrow> True)"

definition memory_check :: "Memory \<Rightarrow> bool" where
  "memory_check m \<longleftrightarrow> unit_score (mem_importance m) \<and> unit_score (mem_confidence m) \<and>
     valid_range (mem_valid_from m) (mem_valid_until m)"

definition memories_add :: "Memory \<Rightarrow> library \<Rightarrow> py_error + library" where
  [repo_defs]: "memories_add m L =
     bindE (require (memory_check m) IntegrityError) (\<lambda>_.
     bindE (ins memory_clash m (lb_memories L)) (\<lambda>rows. Inr (set_memories rows L)))"

definition memories_get :: "uuid \<Rightarrow> uuid \<Rightarrow> library \<Rightarrow> Memory option" where
  [repo_defs]: "memories_get user_id mid L =
     sel1 (\<lambda>m. mem_id m = mid \<and> mem_user_id m = user_id) (lb_memories L)"

definition memories_get_by_idempotency :: "uuid \<Rightarrow> str \<Rightarrow> library \<Rightarrow> Memory option" where
  [repo_defs]: "memories_get_by_idempotency user_id key L =
     sel1 (\<lambda>m. mem_user_id m = user_id \<and> mem_idempotency_key m = key) (lb_memories L)"

definition memories_get_active_profile :: "uuid \<Rightarrow> str \<Rightarrow> library \<Rightarrow> Memory option" where
  [repo_defs]: "memories_get_active_profile user_id key L =
     sel1 (\<lambda>m. mem_user_id m = user_id \<and> mem_memory_type m = MemoryType.PROFILE
        \<and> mem_status m = MemoryStatus.ACTIVE \<and> mem_profile_key m = Some key) (lb_memories L)"

text \<open>The three orders of \<open>search\<close>: by distance, by freshness, by importance.\<close>

definition memories_search ::
  "texts_env \<Rightarrow> uuid \<Rightarrow> str option \<Rightarrow> MemoryType option \<Rightarrow> MemoryStatus \<Rightarrow> uuid option \<Rightarrow>
    rat list option \<Rightarrow> nat \<Rightarrow> library \<Rightarrow> Memory list" where
  [repo_defs]: "memories_search tx user_id query ty status tid query_embedding limit L =
     (let rows = sel (\<lambda>m. mem_user_id m = user_id \<and> mem_status m = status
            \<and> (case ty of None \<Rightarrow> True | Some x \<Rightarrow> mem_memory_type m = x)
            \<and> (case tid of None \<Rightarrow> True | Some t \<Rightarrow> mem_thing_id m = Some t)
            \<and> (case query of None \<Rightarrow> True
               | Some q \<Rightarrow> q = [] \<or> ilike_contains (tx_lower tx) q (mem_content m)
                   \<or> ilike_contains (tx_lower tx) q (mem_summary m))) (lb_memories L) in
      take limit (case query_embedding of
        Some v \<Rightarrow> sort_key (\<lambda>m. (tx_dist tx (the (mem_embedding m)) v, - mem_importance m))
          (sel (\<lambda>m. mem_embedding m \<noteq> None) rows)
      | None \<Rightarrow>
          if ty = Some MemoryType.PROFILE \<and> query = None
          then sort_key (\<lambda>m. (- mem_updated_at m, - uint (mem_id m))) rows
          else sort_key (\<lambda>m. (- mem_importance m, - mem_updated_at m, - uint (mem_id m))) rows))"

definition copy_memory :: "Memory \<Rightarrow> Memory \<Rightarrow> Memory" where
  "copy_memory x m =
     m\<lparr>mem_content := mem_content x, mem_summary := mem_summary x,
       mem_importance := mem_importance x, mem_confidence := mem_confidence x,
       mem_profile_key := mem_profile_key x, mem_supersedes_id := mem_supersedes_id x,
       mem_status := mem_status x, mem_version := mem_version x, mem_updated_at := mem_updated_at x\<rparr>"

interpretation memory_rows: versioned_table mem_id mem_version copy_memory
  by unfold_locales (simp_all add: copy_memory_def)

definition memories_update :: "Memory \<Rightarrow> int \<Rightarrow> library \<Rightarrow> bool lop" where
  [repo_defs]: "memories_update x expected_version L =
     (case cas_rows mem_id mem_version copy_memory x expected_version (lb_memories L) of
        (won, rows) \<Rightarrow>
          if clash_free profile_clash rows \<and> list_all memory_check rows
          then Inr (won, set_memories rows L) else Inl IntegrityError)"

definition memories_get_operation_version :: "uuid \<Rightarrow> str \<Rightarrow> library \<Rightarrow> int option" where
  [repo_defs]: "memories_get_operation_version user_id key L =
     map_option mop_target_version
       (sel1 (\<lambda>x. mop_user_id x = user_id \<and> mop_idempotency_key x = key) (lb_memory_ops L))"

definition memory_op_clash :: "MemoryOperation \<Rightarrow> MemoryOperation \<Rightarrow> bool" where
  "memory_op_clash x y \<longleftrightarrow> mop_user_id x = mop_user_id y \<and> mop_idempotency_key x = mop_idempotency_key y"

definition memories_record_operation :: "MemoryOperation \<Rightarrow> library \<Rightarrow> py_error + library" where
  [repo_defs]: "memories_record_operation x L =
     bindE (ins memory_op_clash x (lb_memory_ops L)) (\<lambda>rows. Inr (L\<lparr>lb_memory_ops := rows\<rparr>))"

section \<open>Suppressions\<close>

definition suppression_for :: "uuid \<Rightarrow> str \<Rightarrow> library \<Rightarrow> MemorySuppression option" where
  "suppression_for user_id fp L =
     sel1 (\<lambda>x. sup_user_id x = user_id \<and> sup_content_fingerprint x = fp) (lb_suppressions L)"

definition is_suppressed :: "uuid \<Rightarrow> str \<Rightarrow> library \<Rightarrow> bool" where
  [repo_defs]: "is_suppressed user_id fp L \<longleftrightarrow> suppression_for user_id fp L \<noteq> None"

definition suppression_clash :: "MemorySuppression \<Rightarrow> MemorySuppression \<Rightarrow> bool" where
  "suppression_clash x y \<longleftrightarrow> sup_id x = sup_id y \<or>
     sup_user_id x = sup_user_id y \<and> sup_content_fingerprint x = sup_content_fingerprint y"

definition suppressions_record ::
  "uuid \<Rightarrow> uuid \<Rightarrow> str \<Rightarrow> uuid option \<Rightarrow> library \<Rightarrow> py_error + library" where
  [repo_defs]: "suppressions_record new_id user_id fp mid L =
     (if is_suppressed user_id fp L then Inr L
      else bindE (ins suppression_clash \<lparr>sup_id = new_id, sup_user_id = user_id,
          sup_content_fingerprint = fp, sup_memory_id = mid\<rparr> (lb_suppressions L))
        (\<lambda>rows. Inr (L\<lparr>lb_suppressions := rows\<rparr>)))"

text \<open>The delete of the loaded row, by its primary key.\<close>

definition suppressions_clear :: "uuid \<Rightarrow> str \<Rightarrow> library \<Rightarrow> library" where
  [repo_defs]: "suppressions_clear user_id fp L =
     (case suppression_for user_id fp L of
        None \<Rightarrow> L
      | Some x \<Rightarrow> L\<lparr>lb_suppressions := filter (\<lambda>y. sup_id y \<noteq> sup_id x) (lb_suppressions L)\<rparr>)"

section \<open>The invariant of the memory tables\<close>

text \<open>
  What the constraints keep, and what every row an operation writes has: a content, scores and
  dates in range, a profile key that is not empty only on a profile.
\<close>

definition memory_ok :: "Memory \<Rightarrow> bool" where
  "memory_ok m \<longleftrightarrow> mem_content m \<noteq> [] \<and> mem_summary m \<noteq> [] \<and> memory_check m \<and> 1 \<le> mem_version m \<and>
     (\<forall>k. mem_profile_key m = Some k \<and> k \<noteq> [] \<longrightarrow> mem_memory_type m = MemoryType.PROFILE)"

definition memories_inv :: "library \<Rightarrow> bool" where
  "memories_inv L \<longleftrightarrow> keyed mem_id (lb_memories L) \<and>
     clash_free profile_clash (lb_memories L) \<and>
     keyed (\<lambda>m. (mem_user_id m, mem_idempotency_key m)) (lb_memories L) \<and>
     list_all memory_ok (lb_memories L) \<and>
     keyed (\<lambda>x. (mop_user_id x, mop_idempotency_key x)) (lb_memory_ops L) \<and>
     keyed sup_id (lb_suppressions L) \<and>
     keyed (\<lambda>x. (sup_user_id x, sup_content_fingerprint x)) (lb_suppressions L)"

lemma profile_clash_sym: "profile_clash x m = profile_clash m x"
  by (auto simp: profile_clash_def)

lemma memories_invD:
  assumes "memories_inv L"
  shows "keyed mem_id (lb_memories L)" "clash_free profile_clash (lb_memories L)"
    "keyed (\<lambda>m. (mem_user_id m, mem_idempotency_key m)) (lb_memories L)"
    "list_all memory_ok (lb_memories L)"
    "keyed (\<lambda>x. (mop_user_id x, mop_idempotency_key x)) (lb_memory_ops L)"
    "keyed sup_id (lb_suppressions L)"
    "keyed (\<lambda>x. (sup_user_id x, sup_content_fingerprint x)) (lb_suppressions L)"
  using assms by (simp_all add: memories_inv_def)

lemma memories_inv_empty [simp]: "memories_inv empty_library"
  by (simp add: memories_inv_def empty_library_def empty_store_def)

lemma memories_inv_eq:
  assumes "st_memories (state L') = st_memories (state L)" "lb_memory_ops L' = lb_memory_ops L"
    "lb_suppressions L' = lb_suppressions L"
  shows "memories_inv L' = memories_inv L"
  using assms by (simp add: memories_inv_def)

lemma memories_add_inv:
  assumes "memories_inv L" "memories_add m L = Inr L'" "memory_ok m"
  shows "memories_inv L'"
proof -
  have free: "\<forall>x \<in> set (lb_memories L). \<not> memory_clash x m" and L': "L' = set_memories (lb_memories L @ [m]) L"
    using assms(2) by (auto simp: memories_add_def)
  have "\<forall>x \<in> set (lb_memories L). \<not> profile_clash x m \<and> \<not> profile_clash m x"
    using free by (auto simp: memory_clash_def profile_clash_sym)
  then show ?thesis
    using assms(1,3) free by (auto simp: memories_inv_def L' memory_clash_def)
qed

lemma suppressions_clear_inv: "memories_inv L \<Longrightarrow> memories_inv (suppressions_clear uid fp L)"
  by (auto simp: memories_inv_def suppressions_clear_def keyed_def distinct_map_filter split: option.splits)

lemma suppressions_record_inv:
  "memories_inv L \<Longrightarrow> suppressions_record i uid fp mid L = Inr L' \<Longrightarrow> memories_inv L'"
  by (auto simp: memories_inv_def suppressions_record_def suppression_clash_def split: if_splits)

lemma record_operation_inv:
  "memories_inv L \<Longrightarrow> memories_record_operation x L = Inr L' \<Longrightarrow> memories_inv L'"
  by (fastforce simp: memories_inv_def memories_record_operation_def memory_op_clash_def)

lemma cleared:
  assumes "memories_inv L"
  shows "\<not> is_suppressed user_id fp (suppressions_clear user_id fp L)"
proof (cases "suppression_for user_id fp L")
  case (Some x)
  then have x: "x \<in> set (lb_suppressions L)" "sup_user_id x = user_id" "sup_content_fingerprint x = fp"
    by (auto simp: suppression_for_def dest: sel1_SomeD)
  have "y = x" if "y \<in> set (lb_suppressions L)" "sup_user_id y = user_id" "sup_content_fingerprint y = fp" for y
    using keyed_unique [OF memories_invD(7) [OF assms] that(1) x(1)] that x by simp
  with Some show ?thesis
    by (auto simp: is_suppressed_def suppressions_clear_def suppression_for_def sel1_None)
qed (simp add: is_suppressed_def suppressions_clear_def)

text \<open>An update keeps the invariant when the new version of the row is a good row of its owner.\<close>

lemma memories_update_inv:
  assumes inv: "memories_inv L" and upd: "memories_update x v L = Inr (won, L')"
    and same: "\<And>r. row mem_id (mem_id x) (lb_memories L) = Some r \<Longrightarrow>
      memory_ok (copy_memory x r)"
  shows "memories_inv L'"
proof -
  let ?rows = "snd (cas_rows mem_id mem_version copy_memory x v (lb_memories L))"
  have L': "L' = set_memories ?rows L" "clash_free profile_clash ?rows"
    using upd by (auto simp: memories_update_def split: prod.splits if_splits)
  have rows: "?rows = upd (\<lambda>r. mem_id r = mem_id x \<and> mem_version r = v) (copy_memory x) (lb_memories L)"
    by (simp add: cas_rows_def Let_def)
  have "keyed (\<lambda>m. (mem_user_id m, mem_idempotency_key m)) ?rows"
    unfolding rows using memories_invD(3) [OF inv]
    by (subst keyed_upd) (simp_all add: copy_memory_def)
  moreover have "list_all memory_ok ?rows"
    unfolding rows using memories_invD(1,4) [OF inv] same
    by (auto simp: list_all_iff set_upd dest: keyed_row)
  ultimately show ?thesis
    using inv L' by (simp add: memories_inv_def)
qed

end
