(* ===== verification/MemoryOps.thy ===== *)
theory MemoryOps
  imports MemoryStore RuntimeTransitions
begin

text \<open>
  What a memory may say and how it is written: \<open>application/memories/candidate.py\<close>,
  \<open>fingerprint.py\<close>, \<open>reconciliation.py\<close>, \<open>formation.py\<close> and \<open>write_ops.py\<close>. The advisory locks
  (\<open>lock_idempotency\<close>) order concurrent units of work; a unit of work is one step here.
\<close>

section \<open>Texts\<close>

fun split_from :: "str \<Rightarrow> str \<Rightarrow> str list" where
  "split_from acc [] = (if acc = [] then [] else [rev acc])"
| "split_from acc (c # cs) =
     (if is_space c then (if acc = [] then split_from [] cs else rev acc # split_from [] cs)
      else split_from (c # acc) cs)"

text \<open>\<open>str.split()\<close>, \<open>" ".join(words)\<close>, \<open>str.casefold\<close> and \<open>part in text\<close>.\<close>

definition words :: "str \<Rightarrow> str list" where
  "words x = split_from [] x"

fun join_words :: "str list \<Rightarrow> str" where
  "join_words [] = []"
| "join_words [w] = w"
| "join_words (w # v # ws) = w @ 32 # join_words (v # ws)"

definition casefold :: "texts_env \<Rightarrow> str \<Rightarrow> str" where
  "casefold tx x = concat (map (tx_fold tx) x)"

fun part_of :: "str \<Rightarrow> str \<Rightarrow> bool" where
  "part_of p [] = (p = [])"
| "part_of p (c # cs) = (take (length p) (c # cs) = p \<or> part_of p cs)"

section \<open>Candidates\<close>

datatype MemoryCandidateAction = CREATE | UPDATE | MERGE | SUPERSEDE | IGNORE

primrec candidate_action_value :: "MemoryCandidateAction \<Rightarrow> str" where
  "candidate_action_value CREATE = u ''CREATE''"
| "candidate_action_value UPDATE = u ''UPDATE''"
| "candidate_action_value MERGE = u ''MERGE''"
| "candidate_action_value SUPERSEDE = u ''SUPERSEDE''"
| "candidate_action_value IGNORE = u ''IGNORE''"

record MemoryCandidate =
  cnd_memory_type :: MemoryType
  cnd_content :: str
  cnd_action :: MemoryCandidateAction
  cnd_reason :: str
  cnd_importance :: rat
  cnd_confidence :: rat
  cnd_thing_id :: "uuid option"
  cnd_source_refs :: "uuid list"
  cnd_target_memory_id :: "uuid option"

definition SCORE_ERROR :: py_error where
  "SCORE_ERROR = ValueError (u ''Memory importance and confidence must be between 0 and 1.'')"

definition candidate_post_init :: "MemoryCandidate \<Rightarrow> py_error + MemoryCandidate" where
  "candidate_post_init c =
     bindE (require (strip (cnd_content c) \<noteq> []) (ValueError (u ''Memory candidate content must not be empty.''))) (\<lambda>_.
     bindE (require (unit_score (cnd_importance c) \<and> unit_score (cnd_confidence c)) SCORE_ERROR) (\<lambda>_.
     bindE (require (\<not> (cnd_action c \<in> {UPDATE, MERGE, SUPERSEDE} \<and> cnd_target_memory_id c = None))
       (ValueError (u ''Memory action '' @ candidate_action_value (cnd_action c)
          @ u '' requires a target memory id.''))) (\<lambda>_. Inr c)))"

text \<open>The Chinese words of the code, as code points.\<close>

definition STYLE_WORDS :: "str list" where
  "STYLE_WORDS = [[0x56DE, 0x7B54], [0x56DE, 0x590D], [0x7B80, 0x6D01], [0x8BE6, 0x7EC6], [0x8BED, 0x6C14]]"

definition REMINDER_WORD :: str where
  "REMINDER_WORD = [0x63D0, 0x9192]"

definition LANGUAGE_WORDS :: "str list" where
  "LANGUAGE_WORDS = [[0x4E2D, 0x6587], [0x82F1, 0x6587], [0x8BED, 0x8A00]]"

definition profile_key_for :: "texts_env \<Rightarrow> str \<Rightarrow> str" where
  "profile_key_for tx content =
     (let value = casefold tx content in
      if \<exists>w \<in> set STYLE_WORDS. part_of w value then u ''preference:response_style''
      else if part_of REMINDER_WORD value then u ''preference:reminder''
      else if \<exists>w \<in> set LANGUAGE_WORDS. part_of w value then u ''preference:language''
      else u ''preference:general'')"

definition STATE_AUTHORITY_TERMS :: "str list" where
  "STATE_AUTHORITY_TERMS = [[0x622A, 0x6B62, 0x65E5, 0x671F], u ''deadline'',
     [0x4EFB, 0x52A1, 0x72B6, 0x6001], u ''thing '' @ [0x72B6, 0x6001]]"

definition rejects_state_authority :: "texts_env \<Rightarrow> str \<Rightarrow> bool" where
  "rejects_state_authority tx x =
     (let normalized = join_words (words (strip x)) in
      normalized = [] \<or> (\<exists>term \<in> set STATE_AUTHORITY_TERMS. part_of term (casefold tx normalized)))"

definition EXPLICIT_MEMORY_TERMS :: "str list" where
  "EXPLICIT_MEMORY_TERMS = [[0x8BF7, 0x8BB0, 0x4F4F], [0x8BB0, 0x4F4F, 0x8FD9, 0x4E2A],
     [0x8BB0, 0x4E0B, 0x6765], [0x522B, 0x5FD8, 0x4E86], [0x8BB0, 0x4F4F, 0x6211]]"

definition is_explicit_memory_command :: "str \<Rightarrow> bool" where
  "is_explicit_memory_command x =
     (let normalized = join_words (words (strip x)) in
      \<exists>term \<in> set EXPLICIT_MEMORY_TERMS. part_of term normalized)"

section \<open>Fingerprints\<close>

definition canonicalize_memory_content :: "texts_env \<Rightarrow> str \<Rightarrow> str" where
  "canonicalize_memory_content tx content = join_words (words (casefold tx (strip content)))"

definition memory_content_fingerprint :: "texts_env \<Rightarrow> str \<Rightarrow> str" where
  "memory_content_fingerprint tx content = tx_sha tx (canonicalize_memory_content tx content)"

section \<open>Reconciliation with the personal state\<close>

definition date_str :: "time \<Rightarrow> str" where
  "date_str t = (case civil_of_days (t div DAY_US) of (y, m, d) \<Rightarrow>
     padded 4 (nat y) @ u ''-'' @ two m @ u ''-'' @ two d)"

definition open_task :: "Task \<Rightarrow> bool" where
  "open_task t \<longleftrightarrow> task_status t \<notin> {TaskStatus.DONE, TaskStatus.CANCELLED}"

definition thing_lines :: "texts_env \<Rightarrow> uuid \<Rightarrow> store \<Rightarrow> Thing \<Rightarrow> str list" where
  "thing_lines tx user_id s t =
     (let canon = canonicalize_memory_content tx; name = thing_name t in
      if thing_status t \<noteq> ThingStatus.ACTIVE then []
      else canon name
        # (case thing_current_stage t of None \<Rightarrow> []
           | Some stage \<Rightarrow> if stage = [] then [] else [canon (name @ u '' '' @ stage)])
        @ (case thing_deadline_at t of None \<Rightarrow> []
           | Some d \<Rightarrow> [canon (name @ u '' deadline '' @ date_str d)])
        @ concat (map (\<lambda>k. [canon (task_title k),
             canon (name @ u '' '' @ task_title k @ u '' '' @ task_status_value (task_status k))])
           (filter open_task (tasks_list_for_thing user_id (thing_id t) s))))"

text \<open>\<open>dict.fromkeys\<close> keeps the first of equal lines.\<close>

definition load_state_fact_snapshot :: "texts_env \<Rightarrow> uuid \<Rightarrow> nat \<Rightarrow> store \<Rightarrow> str list" where
  "load_state_fact_snapshot tx user_id thing_limit s =
     rev (remdups (rev (filter (\<lambda>l. l \<noteq> [])
       (concat (map (thing_lines tx user_id s) (things_list_active user_id thing_limit s))
        @ map (\<lambda>k. canonicalize_memory_content tx (task_title k))
            (filter open_task (tasks_list_standalone user_id s))))))"

definition duplicates_current_state :: "texts_env \<Rightarrow> str \<Rightarrow> str list \<Rightarrow> bool" where
  "duplicates_current_state tx content snapshot =
     (let normalized = canonicalize_memory_content tx content in
      normalized = [] \<or>
      (\<exists>fact \<in> set snapshot. 4 \<le> length fact \<and>
         (fact = normalized \<or> part_of fact normalized \<or> part_of normalized fact)))"

definition should_ignore_candidate :: "texts_env \<Rightarrow> MemoryCandidate \<Rightarrow> str list \<Rightarrow> bool \<Rightarrow> bool" where
  "should_ignore_candidate tx c snapshot suppressed_flag \<longleftrightarrow>
     suppressed_flag \<or> rejects_state_authority tx (cnd_content c) \<or>
     duplicates_current_state tx (cnd_content c) snapshot"

section \<open>Formation jobs\<close>

record MemoryFormationEvent =
  mfe_user_id :: uuid
  mfe_run_id :: uuid
  mfe_thread_id :: uuid
  mfe_source_message_id :: uuid
  mfe_user_text :: str
  mfe_tool_result_codes :: "str list"

definition formation_payload :: "MemoryFormationEvent \<Rightarrow> jdict" where
  "formation_payload ev =
     [u ''run_id'' \<mapsto> juuid (mfe_run_id ev), u ''thread_id'' \<mapsto> juuid (mfe_thread_id ev),
      u ''source_message_id'' \<mapsto> juuid (mfe_source_message_id ev),
      u ''user_text'' \<mapsto> JStr (mfe_user_text ev),
      u ''tool_result_codes'' \<mapsto> JList (map JStr (mfe_tool_result_codes ev))]"

text \<open>The payloads are those \<open>formation_payload\<close> writes: strings, and a list of strings.\<close>

definition payload_str :: "str \<Rightarrow> jdict \<Rightarrow> py_error + str" where
  "payload_str name d = (case d name of None \<Rightarrow> Inl (KeyError name)
     | Some (JStr x) \<Rightarrow> Inr x | Some _ \<Rightarrow> Inl (ValueError (u ''badly formed hexadecimal UUID string'')))"

definition payload_uuid :: "str \<Rightarrow> jdict \<Rightarrow> py_error + uuid" where
  "payload_uuid name d = bindE (payload_str name d) (\<lambda>x.
     ofopt (ValueError (u ''badly formed hexadecimal UUID string'')) (uuid_parse x))"

definition event_from_job_payload :: "uuid \<Rightarrow> jdict \<Rightarrow> py_error + MemoryFormationEvent" where
  "event_from_job_payload user_id d =
     (let codes = (case d (u ''tool_result_codes'') of
          Some (JList xs) \<Rightarrow> map (\<lambda>v. case v of JStr x \<Rightarrow> x | _ \<Rightarrow> []) xs | _ \<Rightarrow> []) in
      bindE (payload_uuid (u ''run_id'') d) (\<lambda>rid.
      bindE (payload_uuid (u ''thread_id'') d) (\<lambda>tid.
      bindE (payload_uuid (u ''source_message_id'') d) (\<lambda>mid.
      bindE (payload_str (u ''user_text'') d) (\<lambda>body.
        Inr \<lparr>mfe_user_id = user_id, mfe_run_id = rid, mfe_thread_id = tid,
             mfe_source_message_id = mid, mfe_user_text = body, mfe_tool_result_codes = codes\<rparr>)))))"

text \<open>The round trip between the event and the payload of its job.\<close>

lemma formation_roundtrip:
  "event_from_job_payload (mfe_user_id ev) (formation_payload ev) = Inr ev"
  by (simp add: event_from_job_payload_def formation_payload_def payload_uuid_def payload_str_def
      juuid_def comp_def)

section \<open>Writing\<close>

record MemoryInput =
  mi_memory_type :: MemoryType
  mi_content :: str
  mi_summary :: str
  mi_importance :: rat
  mi_confidence :: rat
  mi_idempotency_key :: str
  mi_thing_id :: "uuid option"
  mi_source_ids :: "uuid list"
  mi_valid_from :: "time option"
  mi_valid_until :: "time option"
  mi_embedding :: "rat list option"
  mi_profile_key :: "str option"
  mi_provenance_run_id :: "uuid option"
  mi_source_message_ids :: "uuid list"

definition normalized_profile_key :: "texts_env \<Rightarrow> str option \<Rightarrow> str option" where
  "normalized_profile_key tx k =
     (case k of None \<Rightarrow> None | Some x \<Rightarrow> if x = [] then None else Some (casefold tx (strip x)))"

text \<open>The truth value of an optional string.\<close>

definition given :: "str option \<Rightarrow> bool" where
  "given k \<longleftrightarrow> (case k of None \<Rightarrow> False | Some x \<Rightarrow> x \<noteq> [])"

definition check_memory_input :: "texts_env \<Rightarrow> MemoryInput \<Rightarrow> py_error + unit" where
  "check_memory_input tx i =
     bindE (require (strip (mi_content i) \<noteq> [] \<and> strip (mi_summary i) \<noteq> [])
       (ValueError (u ''Memory content and summary must not be empty.''))) (\<lambda>_.
     bindE (require (unit_score (mi_importance i) \<and> unit_score (mi_confidence i)) SCORE_ERROR) (\<lambda>_.
     bindE (require (valid_range (mi_valid_from i) (mi_valid_until i))
       (ValueError (u ''Memory valid_until must be later than valid_from.''))) (\<lambda>_.
     bindE (require (case mi_embedding i of None \<Rightarrow> True | Some v \<Rightarrow> length v = 1536)
       (ValueError (u ''Memory embedding must contain exactly 1536 values.''))) (\<lambda>_.
     let key = normalized_profile_key tx (mi_profile_key i) in
     bindE (require (given key \<longrightarrow> mi_memory_type i = MemoryType.PROFILE)
       (ValueError (u ''Only PROFILE Memory can define a profile key.''))) (\<lambda>_.
     require (given key \<longrightarrow> length (the key) \<le> 100)
       (ValueError (u ''Memory profile key must not exceed 100 characters.'')))))))"

definition memory_outcome :: "str \<Rightarrow> str \<Rightarrow> jdict \<Rightarrow> bool \<Rightarrow> WriteOutcome" where
  "memory_outcome code message data replayed =
     \<lparr>wo_code = code, wo_message = message, wo_data = data, wo_mutation_refs = [],
      wo_mutation_id = None, wo_replayed = replayed\<rparr>"

primrec memory_type_value :: "MemoryType \<Rightarrow> str" where
  "memory_type_value MemoryType.PROFILE = u ''PROFILE''"
| "memory_type_value MemoryType.SEMANTIC = u ''SEMANTIC''"
| "memory_type_value MemoryType.EPISODIC = u ''EPISODIC''"

definition remembered :: "Memory \<Rightarrow> bool \<Rightarrow> WriteOutcome" where
  "remembered m replayed = memory_outcome (u ''MEMORY_REMEMBERED'') (u ''Memory remembered.'')
     [u ''id'' \<mapsto> juuid (mem_id m), u ''type'' \<mapsto> JStr (memory_type_value (mem_memory_type m)),
      u ''replayed'' \<mapsto> JBool replayed] replayed"

definition SUPPRESSED_OUTCOME :: WriteOutcome where
  "SUPPRESSED_OUTCOME = memory_outcome (u ''MEMORY_SUPPRESSED'') (u ''Memory content is suppressed.'')
     [u ''replayed'' \<mapsto> JBool False] False"

definition DUPLICATE_OUTCOME :: WriteOutcome where
  "DUPLICATE_OUTCOME = memory_outcome (u ''MEMORY_STATE_DUPLICATE'')
     (u ''Memory duplicates current Personal State.'') [u ''replayed'' \<mapsto> JBool False] False"

fun require_sources :: "uuid \<Rightarrow> uuid list \<Rightarrow> db \<Rightarrow> py_error + unit" where
  "require_sources user_id [] c = Inr ()"
| "require_sources user_id (x # xs) c =
     bindE (require (sources_get user_id x c \<noteq> None) (EntityNotFound (u ''Source was not found.''))) (\<lambda>_.
       require_sources user_id xs c)"

text \<open>The active profile of the key, if there is one, steps aside.\<close>

definition supersede_profile ::
  "time \<Rightarrow> uuid \<Rightarrow> str option \<Rightarrow> library \<Rightarrow> (uuid option) lop" where
  "supersede_profile now user_id key L =
     (if \<not> given key then Inr (None, L)
      else case memories_get_active_profile user_id (the key) L of
        None \<Rightarrow> Inr (None, L)
      | Some old \<Rightarrow>
          bindE (memory_supersede now old) (\<lambda>m.
          bindE (memories_update m (mem_version old) L) (\<lambda>(won, L1).
          bindE (require won (VersionConflict (u ''PROFILE Memory was updated concurrently.''))) (\<lambda>_.
            Inr (Some (mem_id old), L1)))))"

definition new_memory ::
  "env \<Rightarrow> texts_env \<Rightarrow> uuid \<Rightarrow> MemoryInput \<Rightarrow> uuid option \<Rightarrow> Memory" where
  "new_memory e tx user_id i superseded =
     \<lparr>mem_user_id = user_id, mem_memory_type = mi_memory_type i, mem_content = strip (mi_content i),
      mem_summary = strip (mi_summary i), mem_importance = mi_importance i,
      mem_confidence = mi_confidence i, mem_idempotency_key = mi_idempotency_key i,
      mem_id = uid4 e 0, mem_thing_id = mi_thing_id i, mem_source_ids = mi_source_ids i,
      mem_valid_from = mi_valid_from i, mem_valid_until = mi_valid_until i,
      mem_embedding = mi_embedding i, mem_profile_key = normalized_profile_key tx (mi_profile_key i),
      mem_supersedes_id = superseded, mem_provenance_run_id = mi_provenance_run_id i,
      mem_source_message_ids = mi_source_message_ids i, mem_status = MemoryStatus.ACTIVE,
      mem_version = 1, mem_created_at = clk e 2, mem_updated_at = clk e 3,
      mem_last_accessed_at = None\<rparr>"

definition insert_memory ::
  "env \<Rightarrow> texts_env \<Rightarrow> uuid \<Rightarrow> MemoryInput \<Rightarrow> library \<Rightarrow> WriteOutcome lop" where
  "insert_memory e tx user_id i L =
     (let L0 = L\<lparr>state := users_ensure (clk e 0) user_id (state L)\<rparr> in
      bindE (require (case mi_thing_id i of None \<Rightarrow> True
          | Some t \<Rightarrow> things_get user_id t (lb_core L0) \<noteq> None)
        (EntityNotFound (u ''Thing was not found.''))) (\<lambda>_.
      bindE (require_sources user_id (mi_source_ids i) (lb_core L0)) (\<lambda>_.
      bindE (supersede_profile (clk e 1) user_id (normalized_profile_key tx (mi_profile_key i)) L0)
        (\<lambda>(superseded, L1).
      let m = new_memory e tx user_id i superseded in
      bindE (memories_add m L1) (\<lambda>L2.
        Inr (remembered m False,
          suppressions_clear user_id (memory_content_fingerprint tx (strip (mi_content i))) L2))))))"

definition apply_create_memory ::
  "env \<Rightarrow> texts_env \<Rightarrow> uuid \<Rightarrow> MemoryInput \<Rightarrow> bool \<Rightarrow> library \<Rightarrow> WriteOutcome lop" where
  "apply_create_memory e tx user_id i reconcile_state L =
     bindE (check_memory_input tx i) (\<lambda>_.
     let content = strip (mi_content i) in
     if reconcile_state \<and> is_suppressed user_id (memory_content_fingerprint tx content) L
     then Inr (SUPPRESSED_OUTCOME, L)
     else if reconcile_state \<and>
       duplicates_current_state tx content (load_state_fact_snapshot tx user_id 20 (state L))
     then Inr (DUPLICATE_OUTCOME, L)
     else case memories_get_by_idempotency user_id (mi_idempotency_key i) L of
       Some previous \<Rightarrow> Inr (remembered previous True, L)
     | None \<Rightarrow> insert_memory e tx user_id i L)"

text \<open>The scores are the doubles 0.6 and 0.7.\<close>

definition explicit_input :: "texts_env \<Rightarrow> uuid \<Rightarrow> str \<Rightarrow> MemoryType \<Rightarrow> str \<Rightarrow> uuid option \<Rightarrow> MemoryInput" where
  "explicit_input tx run content ty key thing =
     \<lparr>mi_memory_type = ty, mi_content = content, mi_summary = take 200 content,
      mi_importance = f64 (6 / 10), mi_confidence = f64 (7 / 10), mi_idempotency_key = key,
      mi_thing_id = thing, mi_source_ids = [], mi_valid_from = None, mi_valid_until = None,
      mi_embedding = None,
      mi_profile_key = (if ty = MemoryType.PROFILE then Some (profile_key_for tx content) else None),
      mi_provenance_run_id = Some run, mi_source_message_ids = []\<rparr>"

definition apply_explicit_remember ::
  "env \<Rightarrow> texts_env \<Rightarrow> uuid \<Rightarrow> uuid \<Rightarrow> str \<Rightarrow> MemoryType \<Rightarrow> str \<Rightarrow> uuid option \<Rightarrow> library \<Rightarrow> WriteOutcome lop"
where
  "apply_explicit_remember e tx user_id run content ty key thing L =
     apply_create_memory e tx user_id (explicit_input tx run content ty key thing) False L"

definition forgotten :: "Memory \<Rightarrow> bool \<Rightarrow> WriteOutcome" where
  "forgotten m replayed = memory_outcome (u ''MEMORY_FORGOTTEN'') (u ''Memory forgotten.'')
     [u ''id'' \<mapsto> juuid (mem_id m), u ''replayed'' \<mapsto> JBool replayed] replayed"

definition MISSING_MEMORY :: py_error where
  "MISSING_MEMORY = RuntimeError (u ''Idempotent Memory operation points to a missing Memory.'')"

definition MEMORY_NOT_FOUND :: py_error where
  "MEMORY_NOT_FOUND = EntityNotFound (u ''Memory was not found.'')"

text \<open>A new version of the memory, under the version the caller read.\<close>

definition versioned_memory ::
  "uuid \<Rightarrow> uuid \<Rightarrow> int \<Rightarrow> (Memory \<Rightarrow> py_error + Memory) \<Rightarrow> library \<Rightarrow> Memory lop" where
  "versioned_memory user_id mid expected_version f L =
     bindE (ofopt MEMORY_NOT_FOUND (memories_get user_id mid L)) (\<lambda>m.
     bindE (require (mem_version m = expected_version) (VersionConflict (u ''Memory version is stale.''))) (\<lambda>_.
     bindE (f m) (\<lambda>m'.
     bindE (memories_update m' expected_version L) (\<lambda>(won, L1).
     bindE (require won (VersionConflict (u ''Memory was updated concurrently.''))) (\<lambda>_.
       Inr (m', L1))))))"

definition memory_op :: "uuid \<Rightarrow> str \<Rightarrow> Memory \<Rightarrow> MemoryOperation" where
  "memory_op user_id key m = \<lparr>mop_user_id = user_id, mop_memory_id = mem_id m,
     mop_idempotency_key = key, mop_target_version = mem_version m\<rparr>"

definition apply_forget_memory ::
  "env \<Rightarrow> texts_env \<Rightarrow> uuid \<Rightarrow> uuid \<Rightarrow> int \<Rightarrow> str \<Rightarrow> library \<Rightarrow> WriteOutcome lop" where
  "apply_forget_memory e tx user_id mid expected_version key L =
     (if memories_get_operation_version user_id key L \<noteq> None
      then bindE (ofopt MISSING_MEMORY (memories_get user_id mid L)) (\<lambda>m. Inr (forgotten m True, L))
      else
        bindE (versioned_memory user_id mid expected_version (Inr \<circ> memory_delete (clk e 0)) L) (\<lambda>(m, L1).
        bindE (suppressions_record (uid4 e 0) user_id (memory_content_fingerprint tx (mem_content m))
          (Some (mem_id m)) L1) (\<lambda>L2.
        bindE (memories_record_operation (memory_op user_id key m) L2) (\<lambda>L3.
          Inr (forgotten m False, L3)))))"

end
