(* ===== verification/FileOps.thy ===== *)
theory FileOps
  imports SourceText MemoryOps PyArgs StateOps
begin

text \<open>
  The files that mirror the sources: \<open>application/files/\<close> (mappers, sync, purge, retrieval,
  attachments, evidence, observations) and \<open>application/sources/write_ops.py\<close>.
\<close>

section \<open>Mirroring a source\<close>

definition media_kind_from_source_type :: "SourceType \<Rightarrow> FileMediaKind" where
  "media_kind_from_source_type ty =
     (if ty = SourceType.IMAGE then FileMediaKind.IMAGE
      else if ty \<in> {SourceType.PDF, SourceType.WORD, SourceType.PPT} then FileMediaKind.DOCUMENT
      else if ty = SourceType.AUDIO then FileMediaKind.AUDIO else FileMediaKind.OTHER)"

definition file_from_source :: "Source \<Rightarrow> File" where
  "file_from_source x =
     \<lparr>fil_owner_user_id = src_user_id x, fil_validated_mime_type = src_mime_type x,
      fil_media_kind = media_kind_from_source_type (src_source_type x), fil_size_bytes = src_size x,
      fil_content_sha256 = src_content_hash x, fil_storage_key = src_object_key x,
      fil_idempotency_key = src_idempotency_key x, fil_id = src_id x,
      fil_original_filename = Some (src_title x),
      fil_asset_status = (if src_deleted_at x \<noteq> None then FileAssetStatus.DELETED else FileAssetStatus.ACTIVE),
      fil_version = 1, fil_deleted_at = src_deleted_at x, fil_purged_at = None,
      fil_created_at = src_created_at x\<rparr>"

definition mirror_source_upload :: "Source \<Rightarrow> library \<Rightarrow> py_error + library" where
  "mirror_source_upload x L =
     (if files_get_including_deleted (src_user_id x) (src_id x) L \<noteq> None then Inr L
      else files_add (file_from_source x) L)"

definition mirror_source_delete :: "time \<Rightarrow> uuid \<Rightarrow> uuid \<Rightarrow> library \<Rightarrow> library" where
  "mirror_source_delete now user_id fid L =
     files_purge_segments_for_file fid (files_mark_deleted now user_id fid L)"

definition new_generation ::
  "env \<Rightarrow> uuid \<Rightarrow> str \<Rightarrow> str \<Rightarrow> str option \<Rightarrow> FileProcessingGeneration" where
  "new_generation e fid parser_version chunk_version embedding_version =
     generation_mark_ready (clk e 2)
       \<lparr>gen_file_id = fid, gen_profile_name = u ''default'', gen_parser_version = parser_version,
        gen_chunk_version = chunk_version, gen_embedding_model_version = embedding_version,
        gen_id = uid4 e 0, gen_status = GenerationStatus.READY, gen_is_active = True,
        gen_created_at = clk e 1, gen_ready_at = None, gen_retired_at = None\<rparr>"

definition chunk_locator :: "SourceChunk \<Rightarrow> jdict" where
  "chunk_locator c =
     (let base = [u ''char_start'' \<mapsto> JInt (chk_char_start c), u ''char_end'' \<mapsto> JInt (chk_char_end c)] in
      (case chk_page_number c of None \<Rightarrow> base | Some n \<Rightarrow> base(u ''page_number'' \<mapsto> JInt n)) ++ chk_metadata c)"

definition segment_of_chunk :: "env \<Rightarrow> nat \<Rightarrow> uuid \<Rightarrow> uuid \<Rightarrow> SourceChunk \<Rightarrow> RetrievalSegment" where
  "segment_of_chunk e i fid gid c =
     \<lparr>seg_file_id = fid, seg_generation_id = gid, seg_segment_order = chk_ordinal c,
      seg_representation_kind = (if chk_page_number c \<noteq> None then RepresentationKind.PAGE_TEXT
        else RepresentationKind.TEXT_SPAN),
      seg_content = chk_content c, seg_id = uid4 e (1 + i), seg_locator = chunk_locator c,
      seg_embedding = chk_embedding c, seg_created_at = clk e (3 + i)\<rparr>"

definition mirror_processing_complete ::
  "env \<Rightarrow> Source \<Rightarrow> SourceChunk list \<Rightarrow> str \<Rightarrow> str \<Rightarrow> str option \<Rightarrow> library \<Rightarrow> py_error + library" where
  "mirror_processing_complete e x chunks parser_version chunk_version embedding_version L =
     bindE (if files_get_including_deleted (src_user_id x) (src_id x) L = None
            then files_add (file_from_source x) L else Inr L) (\<lambda>L1.
     let L2 = files_retire_active_generations (clk e 0) (src_id x) L1;
         g = new_generation e (src_id x) parser_version chunk_version embedding_version in
     bindE (files_add_generation g L2) (\<lambda>L3.
       files_replace_segments (gen_id g)
         (map (\<lambda>(i, c). segment_of_chunk e i (src_id x) (gen_id g) c) (enumerate 0 chunks)) L3))"

section \<open>Deleting\<close>

definition purge_payload :: "uuid \<Rightarrow> str \<Rightarrow> jdict" where
  "purge_payload fid object_key = [u ''file_id'' \<mapsto> juuid fid, u ''object_key'' \<mapsto> JStr object_key]"

definition enqueue_file_purge :: "env \<Rightarrow> uuid \<Rightarrow> uuid \<Rightarrow> str \<Rightarrow> db \<Rightarrow> py_error + db" where
  "enqueue_file_purge e user_id fid object_key c =
     (let key = u ''file-purge:'' @ uuid_str fid in
      if jobs_get_by_dedupe_key user_id key c \<noteq> None then Inr c
      else bindE (DurableJob_init user_id DurableJobKind.FILE_PURGE key (purge_payload fid object_key)
          (uid4 e 0) (Aware (clk e 2)) 5 (clk e 3) (clk e 4)) (\<lambda>j. jobs_add j c))"

definition file_deleted_outcome :: "uuid \<Rightarrow> uuid \<Rightarrow> bool \<Rightarrow> WriteOutcome" where
  "file_deleted_outcome mid sid replayed =
     outcome (u ''FILE_DELETED'') (u ''File deleted.'')
       (let d = [u ''mutation_id'' \<mapsto> juuid mid, u ''file_id'' \<mapsto> juuid sid, u ''replayed'' \<mapsto> JBool replayed] in
        if replayed then d else d(u ''purge_enqueued'' \<mapsto> JBool True)) mid replayed"

definition SOURCE_NOT_FOUND :: py_error where
  "SOURCE_NOT_FOUND = EntityNotFound (u ''Source was not found.'')"

definition delete_mutation ::
  "env \<Rightarrow> uuid \<Rightarrow> uuid \<Rightarrow> str \<Rightarrow> str \<Rightarrow> str \<Rightarrow> Source \<Rightarrow> StateMutation" where
  "delete_mutation e user_id sid action_id key reason deleted =
     new_mutation (uid4 e 1) (clk e 5) user_id None None action_id (u ''FILE_DELETED'') (u ''SOURCE'') sid
       None [u ''deleted_at'' \<mapsto> jopt jtime (src_deleted_at deleted)] reason None key"

definition apply_delete_file ::
  "env \<Rightarrow> uuid \<Rightarrow> uuid \<Rightarrow> str \<Rightarrow> str \<Rightarrow> str \<Rightarrow> library \<Rightarrow> WriteOutcome lop" where
  "apply_delete_file e user_id sid action_id key reason L =
     (case audit_get_mutation user_id key (state L) of
        Some previous \<Rightarrow>
          bindE (require (sources_get_including_deleted user_id sid L \<noteq> None)
            (RuntimeError (u ''Idempotent file delete points to a missing Source.''))) (\<lambda>_.
            Inr (file_deleted_outcome (mut_id previous) sid True, L))
      | None \<Rightarrow>
          bindE (ofopt SOURCE_NOT_FOUND (sources_get user_id sid (lb_core L))) (\<lambda>x.
          case sources_mark_deleted (clk e 0) user_id sid L of (deleted, L1) \<Rightarrow>
          bindE (ofopt SOURCE_NOT_FOUND deleted) (\<lambda>d.
          let L2 = mirror_source_delete (clk e 1) user_id sid (sources_purge_chunks sid L1) in
          bindE (enqueue_file_purge e user_id sid (src_object_key x) (lb_core L2)) (\<lambda>c.
          let m = delete_mutation e user_id sid action_id key reason d; L3 = set_core c L2 in
          bindE (on_state (audit_add_mutation m (state L3)) L3) (\<lambda>L4.
            Inr (file_deleted_outcome (mut_id m) sid False, L4))))))"

text \<open>The result is the key of the object to remove from the storage.\<close>

definition apply_physical_purge :: "env \<Rightarrow> uuid \<Rightarrow> uuid \<Rightarrow> library \<Rightarrow> str option \<times> library" where
  "apply_physical_purge e user_id fid L =
     (case files_get_including_deleted user_id fid L of
        None \<Rightarrow> (None, L)
      | Some f \<Rightarrow>
          if fil_purged_at f \<noteq> None then (Some (fil_storage_key f), L)
          else (Some (fil_storage_key f),
            files_purge_segments_for_file fid (files_mark_purged (clk e 0) user_id fid L)))"

section \<open>Reading files\<close>

record SourceContextChunkDTO =
  sxc_id :: uuid
  sxc_source_id :: uuid
  sxc_ordinal :: int
  sxc_content :: str
  sxc_char_start :: int
  sxc_char_end :: int
  sxc_page_number :: "int option"

text \<open>\<open>isinstance(value, int)\<close> admits Python's booleans, which are the integers 0 and 1.\<close>

definition locator_int :: "jdict \<Rightarrow> str \<Rightarrow> int option" where
  "locator_int d name = (case d name of Some (JInt n) \<Rightarrow> Some n | Some (JBool b) \<Rightarrow> Some (of_bool b) | _ \<Rightarrow> None)"

definition segment_to_context_chunk :: "RetrievalSegment \<Rightarrow> SourceContextChunkDTO" where
  "segment_to_context_chunk x =
     (let d = seg_locator x; or = (\<lambda>v n. case v of None \<Rightarrow> n | Some m \<Rightarrow> m) in
      \<lparr>sxc_id = seg_id x, sxc_source_id = seg_file_id x, sxc_ordinal = seg_segment_order x,
       sxc_content = seg_content x, sxc_char_start = or (locator_int d (u ''char_start'')) 0,
       sxc_char_end = or (locator_int d (u ''char_end'')) (int (length (seg_content x))),
       sxc_page_number = locator_int d (u ''page_number'')\<rparr>)"

definition list_inspect_segments ::
  "texts_env \<Rightarrow> uuid \<Rightarrow> uuid \<Rightarrow> nat \<Rightarrow> rat list option \<Rightarrow> str option \<Rightarrow> library \<Rightarrow> RetrievalSegment list"
where
  "list_inspect_segments tx user_id fid max_chunks query_embedding query_text L =
     (let xs = files_list_segments tx user_id fid max_chunks query_embedding query_text L in
      if xs \<noteq> [] \<or> query_text = None then xs
      else files_list_segments tx user_id fid max_chunks None None L)"

definition processing_status_value :: "ProcessingStatus \<Rightarrow> str" where
  "processing_status_value p = (case p of ProcessingStatus.PENDING \<Rightarrow> u ''PENDING''
     | ProcessingStatus.READY \<Rightarrow> u ''READY'' | ProcessingStatus.FAILED \<Rightarrow> u ''FAILED'')"

definition build_search_result_item ::
  "File \<Rightarrow> Source option \<Rightarrow> RetrievalSegment list \<Rightarrow> SourceChunk list \<Rightarrow> jdict" where
  "build_search_result_item f x segments legacy =
     (let title = (case fil_original_filename f of
            Some n \<Rightarrow> if n \<noteq> [] then n else (case x of None \<Rightarrow> u ''file'' | Some s \<Rightarrow> src_title s)
          | None \<Rightarrow> (case x of None \<Rightarrow> u ''file'' | Some s \<Rightarrow> src_title s));
          fragments =
            (if segments \<noteq> [] then map (\<lambda>g. JObj [u ''segment_id'' \<mapsto> juuid (seg_id g),
                 u ''ordinal'' \<mapsto> JInt (seg_segment_order g), u ''preview'' \<mapsto> JStr (take 400 (seg_content g))])
               (take 3 segments)
             else map (\<lambda>c. JObj [u ''chunk_id'' \<mapsto> juuid (chk_id c),
                 u ''ordinal'' \<mapsto> JInt (chk_ordinal c), u ''preview'' \<mapsto> JStr (take 400 (chk_content c))])
               (take 3 legacy)) in
      [u ''file_id'' \<mapsto> juuid (fil_id f), u ''title'' \<mapsto> JStr title,
       u ''mime_type'' \<mapsto> JStr (fil_validated_mime_type f),
       u ''processing_status'' \<mapsto> JStr (case x of None \<Rightarrow> u ''READY''
         | Some s \<Rightarrow> processing_status_value (src_processing_status s)),
       u ''fragments'' \<mapsto> JList fragments,
       u ''retrieval_backend'' \<mapsto> JStr (if segments \<noteq> [] then u ''v2'' else u ''legacy'')])"

primrec media_kind_value :: "FileMediaKind \<Rightarrow> str" where
  "media_kind_value FileMediaKind.IMAGE = u ''IMAGE''"
| "media_kind_value FileMediaKind.DOCUMENT = u ''DOCUMENT''"
| "media_kind_value FileMediaKind.AUDIO = u ''AUDIO''"
| "media_kind_value FileMediaKind.VIDEO = u ''VIDEO''"
| "media_kind_value FileMediaKind.OTHER = u ''OTHER''"

definition attachment_item :: "nat \<Rightarrow> uuid \<Rightarrow> library \<Rightarrow> MessageAttachment \<Rightarrow> jdict list" where
  "attachment_item max_preview user_id L a =
     (case files_get user_id (att_file_id a) L of
        None \<Rightarrow> []
      | Some f \<Rightarrow>
          let preview = (case sources_get user_id (att_file_id a) (lb_core L) of None \<Rightarrow> []
                | Some x \<Rightarrow> (case src_extracted_text x of None \<Rightarrow> [] | Some t \<Rightarrow> take max_preview t)) in
          [[u ''file_id'' \<mapsto> juuid (fil_id f), u ''message_id'' \<mapsto> juuid (att_message_id a),
            u ''attachment_order'' \<mapsto> JStr (int_str (att_attachment_order a)),
            u ''title'' \<mapsto> JStr (case fil_original_filename f of None \<Rightarrow> [] | Some n \<Rightarrow> n),
            u ''mime_type'' \<mapsto> JStr (fil_validated_mime_type f),
            u ''media_kind'' \<mapsto> JStr (media_kind_value (fil_media_kind f)),
            u ''preview'' \<mapsto> JStr preview]])"

definition load_message_attachment_context :: "uuid \<Rightarrow> uuid \<Rightarrow> nat \<Rightarrow> library \<Rightarrow> jdict list" where
  "load_message_attachment_context user_id mid max_preview L =
     concat (map (attachment_item max_preview user_id L) (files_list_attachments_for_message mid L))"

section \<open>Evidence\<close>

definition file_evidence_ref :: "uuid \<Rightarrow> jdict option \<Rightarrow> EvidenceRef" where
  "file_evidence_ref fid locator =
     \<lparr>ev_source_kind = EvidenceSourceKind.FILE, ev_source_id = fid, ev_locator = locator\<rparr>"

definition web_evidence_ref :: "uuid \<Rightarrow> jdict option \<Rightarrow> EvidenceRef" where
  "web_evidence_ref oid locator =
     \<lparr>ev_source_kind = EvidenceSourceKind.WEB, ev_source_id = oid, ev_locator = locator\<rparr>"

definition resolve_file_evidence_status :: "File option \<Rightarrow> str" where
  "resolve_file_evidence_status f =
     (case f of None \<Rightarrow> u ''MISSING''
      | Some x \<Rightarrow> if fil_asset_status x = FileAssetStatus.DELETED
          then (if fil_purged_at x = None then u ''DELETED'' else u ''PURGED'') else u ''ACTIVE'')"

text \<open>
  \<open>promote_url_inspection\<close>: the first item of a search payload, kept with a digest of its excerpt.
  \<open>show_json\<close> is the text of a JSON value that is not a scalar (see \<open>py_str\<close>).
\<close>

definition first_item :: "jdict \<Rightarrow> jdict" where
  "first_item payload =
     (case payload (u ''items'') of Some (JList (JObj d # _)) \<Rightarrow> d | _ \<Rightarrow> Map.empty)"

definition observation_of ::
  "(json \<Rightarrow> str) \<Rightarrow> env \<Rightarrow> texts_env \<Rightarrow> uuid \<Rightarrow> str \<Rightarrow> str \<Rightarrow> jdict \<Rightarrow> time \<Rightarrow> WebObservation" where
  "observation_of show_json e tx user_id requested_url method payload observed =
     (let first = first_item payload;
          excerpt = strip (py_str show_json (jget first (u ''snippet'') (JStr [])));
          bounded = (if excerpt = [] then None else Some (take 8000 excerpt));
          final = strip (py_str show_json (jget first (u ''url'') (JStr requested_url))) in
      \<lparr>wob_owner_user_id = user_id, wob_requested_url = requested_url,
       wob_final_url = (if final = [] then requested_url else final), wob_content_type = u ''text/html'',
       wob_observed_at = observed, wob_retrieval_method = method, wob_id = uid4 e 0,
       wob_title = (let t = jget first (u ''title'') JNull in
         if py_bool t then Some (strip (py_str show_json t)) else None),
       wob_bounded_excerpt = bounded, wob_locator = [u ''provider'' \<mapsto> jget payload (u ''provider'') JNull],
       wob_content_hash = map_option (tx_sha tx) bounded, wob_created_at = clk e 1\<rparr>)"

definition promote_url_inspection ::
  "(json \<Rightarrow> str) \<Rightarrow> env \<Rightarrow> texts_env \<Rightarrow> uuid \<Rightarrow> str \<Rightarrow> str \<Rightarrow> jdict \<Rightarrow> library \<Rightarrow> uuid lop" where
  "promote_url_inspection show_json e tx user_id requested_url method payload L =
     (let raw = jget payload (u ''retrieved_at'') JNull in
      bindE (if py_bool raw then bindE (py_datetime (py_str show_json raw)) (\<lambda>d. Inr (instant d))
             else Inr (clk e 0)) (\<lambda>observed.
      let w = observation_of show_json e tx user_id requested_url method payload observed in
      bindE (files_add_web_observation w L) (\<lambda>L1. Inr (wob_id w, L1))))"

end
