(* ===== verification/IdentityService.thy ===== *)
theory IdentityService
  imports AutomationService LibraryStore
begin

text \<open>
  Identity: the repositories of \<open>infrastructure/persistence/repositories/identity.py\<close>, the service of
  \<open>application/identity/service.py\<close>, the check of a bearer token in \<open>presentation/api/dependencies.py\<close>
  and the worker \<open>workers/account_deletion.py\<close>. Devices and sessions are tables beside the store. What
  the Huawei account client answers is a parameter (the external subject, or its exception), and so is
  the random token \<open>secrets.token_urlsafe\<close> draws.
\<close>

section \<open>Tables\<close>

record accounts =
  acc_store :: store
  acc_devices :: "Device list"
  acc_sessions :: "BusinessSession list"

definition empty_accounts :: accounts where
  "empty_accounts = \<lparr>acc_store = empty_store, acc_devices = [], acc_sessions = []\<rparr>"

abbreviation acc_users :: "accounts \<Rightarrow> User list" where
  "acc_users A \<equiv> db_users (core (acc_store A))"

definition set_users :: "User list \<Rightarrow> accounts \<Rightarrow> accounts" where
  "set_users rows A = A\<lparr>acc_store := (acc_store A)\<lparr>core := (core (acc_store A))\<lparr>db_users := rows\<rparr>\<rparr>\<rparr>"

lemma set_users_simps [simp]:
  "acc_users (set_users rows A) = rows" "acc_devices (set_users rows A) = acc_devices A"
  "acc_sessions (set_users rows A) = acc_sessions A"
  "db_jobs (core (acc_store (set_users rows A))) = db_jobs (core (acc_store A))"
  "st_endpoints (acc_store (set_users rows A)) = st_endpoints (acc_store A)"
  by (simp_all add: set_users_def)

type_synonym 'a aop = "py_error + ('a \<times> accounts)"

text \<open>The partial unique index \<open>uq_users_external_subject\<close>.\<close>

definition user_clash :: "User \<Rightarrow> User \<Rightarrow> bool" where
  "user_clash x y \<longleftrightarrow> usr_id x = usr_id y \<or>
     usr_external_subject x \<noteq> None \<and> usr_external_subject x = usr_external_subject y"

definition identity_users_get :: "uuid \<Rightarrow> accounts \<Rightarrow> User option" where
  [repo_defs]: "identity_users_get user_id A = sel1 (\<lambda>x. usr_id x = user_id) (acc_users A)"

definition users_get_by_external_subject :: "str \<Rightarrow> accounts \<Rightarrow> User option" where
  [repo_defs]: "users_get_by_external_subject subject A =
     sel1 (\<lambda>x. usr_external_subject x = Some subject) (acc_users A)"

definition users_add :: "User \<Rightarrow> accounts \<Rightarrow> py_error + accounts" where
  [repo_defs]: "users_add x A = bindE (ins user_clash x (acc_users A)) (\<lambda>rows. Inr (set_users rows A))"

definition users_update :: "User \<Rightarrow> accounts \<Rightarrow> accounts" where
  [repo_defs]: "users_update x A = set_users (upd (\<lambda>y. usr_id y = usr_id x)
     (\<lambda>y. y\<lparr>usr_status := usr_status x, usr_external_subject := usr_external_subject x,
            usr_updated_at := usr_updated_at x\<rparr>) (acc_users A)) A"

definition devices_get :: "uuid \<Rightarrow> accounts \<Rightarrow> Device option" where
  [repo_defs]: "devices_get did A = sel1 (\<lambda>d. dev_id d = did) (acc_devices A)"

definition devices_get_for_user :: "uuid \<Rightarrow> uuid \<Rightarrow> accounts \<Rightarrow> Device option" where
  [repo_defs]: "devices_get_for_user user_id did A =
     sel1 (\<lambda>d. dev_id d = did \<and> dev_user_id d = user_id) (acc_devices A)"

text \<open>\<open>ON CONFLICT (id) DO UPDATE\<close>: owner, platform and creation stay as they are in the row.\<close>

definition devices_upsert :: "Device \<Rightarrow> accounts \<Rightarrow> accounts" where
  [repo_defs]: "devices_upsert d A =
     A\<lparr>acc_devices := (if \<exists>x \<in> set (acc_devices A). dev_id x = dev_id d
        then upd (\<lambda>x. dev_id x = dev_id d) (\<lambda>x. x\<lparr>dev_timezone_name := dev_timezone_name d,
            dev_active := dev_active d, dev_last_seen_at := dev_last_seen_at d,
            dev_updated_at := dev_updated_at d\<rparr>) (acc_devices A)
        else acc_devices A @ [d])\<rparr>"

definition devices_deactivate_for_user :: "time \<Rightarrow> uuid \<Rightarrow> accounts \<Rightarrow> accounts" where
  [repo_defs]: "devices_deactivate_for_user now user_id A =
     A\<lparr>acc_devices := upd (\<lambda>d. dev_user_id d = user_id \<and> dev_active d)
        (\<lambda>d. d\<lparr>dev_active := False, dev_updated_at := now\<rparr>) (acc_devices A)\<rparr>"

definition session_clash :: "BusinessSession \<Rightarrow> BusinessSession \<Rightarrow> bool" where
  "session_clash x y \<longleftrightarrow> ses_id x = ses_id y \<or> ses_token_hash x = ses_token_hash y"

definition sessions_add :: "BusinessSession \<Rightarrow> accounts \<Rightarrow> py_error + accounts" where
  [repo_defs]: "sessions_add x A =
     bindE (ins session_clash x (acc_sessions A)) (\<lambda>rows. Inr (A\<lparr>acc_sessions := rows\<rparr>))"

definition sessions_get_by_token_hash :: "str \<Rightarrow> accounts \<Rightarrow> BusinessSession option" where
  [repo_defs]: "sessions_get_by_token_hash h A = sel1 (\<lambda>x. ses_token_hash x = h) (acc_sessions A)"

definition sessions_revoke_for_user :: "time \<Rightarrow> uuid \<Rightarrow> accounts \<Rightarrow> accounts" where
  [repo_defs]: "sessions_revoke_for_user now user_id A =
     A\<lparr>acc_sessions := upd (\<lambda>x. ses_user_id x = user_id \<and> ses_revoked_at x = None)
        (session_revoke now) (acc_sessions A)\<rparr>"

definition sessions_update :: "BusinessSession \<Rightarrow> accounts \<Rightarrow> accounts" where
  [repo_defs]: "sessions_update x A =
     A\<lparr>acc_sessions := upd (\<lambda>y. ses_id y = ses_id x) (\<lambda>y. y\<lparr>ses_revoked_at := ses_revoked_at x\<rparr>)
        (acc_sessions A)\<rparr>"

section \<open>Devices\<close>

record DeviceDTO =
  dvd_device_id :: uuid
  dvd_platform :: DevicePlatform
  dvd_timezone_name :: str
  dvd_active :: bool
  dvd_last_seen_at :: time

text \<open>The clock is read three times for a new device, then twice by \<open>touch\<close>.\<close>

definition register_device_locked ::
  "env \<Rightarrow> uuid \<Rightarrow> uuid \<Rightarrow> str \<Rightarrow> DevicePlatform \<Rightarrow> accounts \<Rightarrow> DeviceDTO aop" where
  "register_device_locked e user_id did timezone_name platform A =
     (let existing = devices_get did A in
      bindE (require (case existing of None \<Rightarrow> True | Some d \<Rightarrow> dev_user_id d = user_id)
        (InvalidStateTransition (u ''Device is owned by another user.''))) (\<lambda>_.
      let d = (case existing of Some d \<Rightarrow> d
            | None \<Rightarrow> \<lparr>dev_user_id = user_id, dev_timezone_name = timezone_name, dev_id = did,
                dev_platform = DevicePlatform.HARMONYOS, dev_active = True, dev_last_seen_at = clk e 2,
                dev_created_at = clk e 3, dev_updated_at = clk e 4\<rparr>);
          d' = device_touch (clk e 5) (clk e 6) (Some timezone_name)
            (d\<lparr>dev_user_id := user_id, dev_platform := platform, dev_active := True\<rparr>) in
      Inr (\<lparr>dvd_device_id = dev_id d', dvd_platform = dev_platform d',
            dvd_timezone_name = dev_timezone_name d', dvd_active = dev_active d',
            dvd_last_seen_at = dev_last_seen_at d'\<rparr>, devices_upsert d' A)))"

definition ACCOUNT_INACTIVE :: py_error where
  "ACCOUNT_INACTIVE = InvalidStateTransition (u ''Account is not active.'')"

definition active_account :: "uuid \<Rightarrow> accounts \<Rightarrow> bool" where
  "active_account user_id A \<longleftrightarrow>
     (case identity_users_get user_id A of None \<Rightarrow> False | Some x \<Rightarrow> usr_status x = UserStatus.ACTIVE)"

definition register_device ::
  "env \<Rightarrow> uuid \<Rightarrow> uuid \<Rightarrow> str \<Rightarrow> DevicePlatform \<Rightarrow> accounts \<Rightarrow> DeviceDTO aop" where
  "register_device e user_id did timezone_name platform A =
     bindE (require (strip timezone_name \<noteq> []) (ValueError (u ''timezone must not be empty.''))) (\<lambda>_.
     bindE (require (active_account user_id A) ACCOUNT_INACTIVE) (\<lambda>_.
       register_device_locked e user_id did (strip timezone_name) platform A))"

definition upsert_push_token ::
  "env \<Rightarrow> uuid \<Rightarrow> uuid \<Rightarrow> str \<Rightarrow> str \<Rightarrow> accounts \<Rightarrow> unit aop" where
  "upsert_push_token e user_id did push_token provider A =
     bindE (require (strip push_token \<noteq> []) (ValueError (u ''push_token must not be empty.''))) (\<lambda>_.
     bindE (require (devices_get_for_user user_id did A \<noteq> None) (EntityNotFound (u ''Device was not found.''))) (\<lambda>_.
     bindE (endpoints_upsert \<lparr>pep_user_id = user_id, pep_device_id = did, pep_push_token = strip push_token,
         pep_provider = provider, pep_active = True, pep_notifications_enabled = True, pep_id = uid4 e 0,
         pep_last_registered_at = clk e 0, pep_invalidated_at = None, pep_created_at = clk e 1,
         pep_updated_at = clk e 2\<rparr> (acc_store A)) (\<lambda>s. Inr ((), A\<lparr>acc_store := s\<rparr>))))"

definition delete_push_token :: "env \<Rightarrow> uuid \<Rightarrow> uuid \<Rightarrow> accounts \<Rightarrow> unit aop" where
  "delete_push_token e user_id did A =
     Inr ((), A\<lparr>acc_store := endpoints_invalidate_for_device (clk e 0) user_id did (acc_store A)\<rparr>)"

section \<open>Sessions\<close>

record LoginResultDTO =
  lgn_access_token :: str
  lgn_user_id :: uuid
  lgn_expires_at :: time

record UserProfileDTO =
  prf_user_id :: uuid
  prf_status :: UserStatus
  prf_created_at :: time

definition new_session :: "texts_env \<Rightarrow> uuid \<Rightarrow> uuid option \<Rightarrow> str \<Rightarrow> time \<Rightarrow> uuid \<Rightarrow> time \<Rightarrow> BusinessSession" where
  "new_session tx user_id did token expires sid now =
     \<lparr>ses_user_id = user_id, ses_token_hash = tx_sha tx token, ses_expires_at = expires,
      ses_device_id = did, ses_id = sid, ses_revoked_at = None, ses_created_at = now\<rparr>"

text \<open>The user of an external subject, created at the first login.\<close>

definition login_user :: "env \<Rightarrow> str \<Rightarrow> accounts \<Rightarrow> User aop" where
  "login_user e subject A =
     (case users_get_by_external_subject subject A of
        None \<Rightarrow>
          let x = \<lparr>usr_id = uid4 e 0, usr_status = UserStatus.ACTIVE, usr_external_subject = Some subject,
                usr_created_at = clk e 0, usr_updated_at = clk e 1\<rparr> in
          bindE (users_add x A) (\<lambda>A1. Inr (x, A1))
      | Some x \<Rightarrow>
          (case usr_status x of
             UserStatus.DELETED \<Rightarrow> Inl (InvalidStateTransition (u ''Account has been deleted.''))
           | UserStatus.DELETING \<Rightarrow> Inl (InvalidStateTransition (u ''Account deletion is in progress.''))
           | UserStatus.ACTIVE \<Rightarrow> Inr (x, A)))"

definition huawei_login ::
  "env \<Rightarrow> texts_env \<Rightarrow> int \<Rightarrow> py_error + str \<Rightarrow> str \<Rightarrow> uuid option \<Rightarrow> str option \<Rightarrow> DevicePlatform \<Rightarrow>
    accounts \<Rightarrow> LoginResultDTO aop" where
  "huawei_login e tx ttl subject token device timezone_name platform A =
     bindE subject (\<lambda>external.
     bindE (login_user e external A) (\<lambda>(x, A1).
     bindE (case (device, timezone_name) of
         (Some did, Some z) \<Rightarrow>
           bindE (register_device_locked e (usr_id x) did z platform A1) (\<lambda>(_, A2). Inr A2)
       | _ \<Rightarrow> Inr A1) (\<lambda>A2.
     let session = new_session tx (usr_id x) device token (clk e 7 + hours ttl) (uid4 e 1) (clk e 8) in
     bindE (sessions_add session A2) (\<lambda>A3.
       Inr (\<lparr>lgn_access_token = token, lgn_user_id = usr_id x, lgn_expires_at = ses_expires_at session\<rparr>, A3)))))"

definition SESSION_NOT_FOUND :: py_error where
  "SESSION_NOT_FOUND = EntityNotFound (u ''Session was not found.'')"

text \<open>\<open>expires_at\<close> is not read.\<close>

definition refresh_session ::
  "env \<Rightarrow> texts_env \<Rightarrow> int \<Rightarrow> str \<Rightarrow> str \<Rightarrow> accounts \<Rightarrow> LoginResultDTO aop" where
  "refresh_session e tx ttl access_token token A =
     bindE (ofopt SESSION_NOT_FOUND (sessions_get_by_token_hash (tx_sha tx access_token) A)) (\<lambda>x.
     bindE (require (ses_revoked_at x = None) SESSION_NOT_FOUND) (\<lambda>_.
     bindE (require (active_account (ses_user_id x) A) ACCOUNT_INACTIVE) (\<lambda>_.
     let A1 = sessions_update (session_revoke (clk e 0) x) A;
         y = new_session tx (ses_user_id x) (ses_device_id x) token (clk e 1 + hours ttl) (uid4 e 0) (clk e 2) in
     bindE (sessions_add y A1) (\<lambda>A2.
       Inr (\<lparr>lgn_access_token = token, lgn_user_id = ses_user_id x, lgn_expires_at = ses_expires_at y\<rparr>, A2)))))"

definition logout :: "env \<Rightarrow> texts_env \<Rightarrow> uuid \<Rightarrow> str \<Rightarrow> accounts \<Rightarrow> unit aop" where
  "logout e tx user_id access_token A =
     bindE (ofopt SESSION_NOT_FOUND (sessions_get_by_token_hash (tx_sha tx access_token) A)) (\<lambda>x.
     bindE (require (ses_user_id x = user_id) SESSION_NOT_FOUND) (\<lambda>_.
     let A1 = sessions_update (session_revoke (clk e 0) x) A in
     Inr ((), case ses_device_id x of None \<Rightarrow> A1
       | Some did \<Rightarrow> A1\<lparr>acc_store := endpoints_invalidate_for_device (clk e 1) user_id did (acc_store A1)\<rparr>)))"

definition USER_NOT_FOUND :: py_error where
  "USER_NOT_FOUND = EntityNotFound (u ''User was not found.'')"

definition get_profile :: "uuid \<Rightarrow> accounts \<Rightarrow> py_error + UserProfileDTO" where
  "get_profile user_id A =
     bindE (ofopt USER_NOT_FOUND (identity_users_get user_id A)) (\<lambda>x.
       Inr \<lparr>prf_user_id = usr_id x, prf_status = usr_status x, prf_created_at = usr_created_at x\<rparr>)"

section \<open>Authentication\<close>

text \<open>
  \<open>get_current_user_id\<close>: the user of a request, or the detail of its 401. \<open>dev\<close> is the token and the
  user of the development environment.
\<close>

definition BEARER :: str where
  "BEARER = u ''Bearer ''"

definition NO_TOKEN :: str where
  "NO_TOKEN = u ''Invalid or missing bearer token.''"

definition authenticate ::
  "time \<Rightarrow> texts_env \<Rightarrow> (str \<times> uuid) option \<Rightarrow> str option \<Rightarrow> accounts \<Rightarrow> str + uuid" where
  "authenticate now tx dev authorization A =
     (case authorization of
        None \<Rightarrow> Inl NO_TOKEN
      | Some header \<Rightarrow>
          let token = strip (drop (length BEARER) header) in
          if take (length BEARER) header \<noteq> BEARER \<or> token = [] then Inl NO_TOKEN
          else if \<exists>d. dev = Some d \<and> fst d = token then Inr (snd (the dev))
          else case sessions_get_by_token_hash (tx_sha tx token) A of
            None \<Rightarrow> Inl (u ''Invalid or expired session.'')
          | Some x \<Rightarrow>
              if \<not> session_is_active now x then Inl (u ''Invalid or expired session.'')
              else if active_account (ses_user_id x) A then Inr (ses_user_id x)
              else Inl (u ''Account is not active.''))"

section \<open>Account deletion\<close>

definition request_account_deletion :: "env \<Rightarrow> uuid \<Rightarrow> accounts \<Rightarrow> unit aop" where
  "request_account_deletion e user_id A =
     bindE (ofopt USER_NOT_FOUND (identity_users_get user_id A)) (\<lambda>x.
     if usr_status x = UserStatus.DELETED then Inr ((), A)
     else
       let A1 = users_update (user_begin_deletion (clk e 0) x) A;
           key = u ''account-deletion:'' @ uuid_str user_id in
       if jobs_get_by_dedupe_key user_id key (core (acc_store A1)) \<noteq> None then Inr ((), A1)
       else
         bindE (DurableJob_init user_id DurableJobKind.ACCOUNT_DELETION key [u ''user_id'' \<mapsto> juuid user_id]
           (uid4 e 0) (Aware (clk e 1)) 5 (clk e 2) (clk e 3)) (\<lambda>j.
         bindE (jobs_add j (core (acc_store A1))) (\<lambda>c.
           Inr ((), A1\<lparr>acc_store := (acc_store A1)\<lparr>core := c\<rparr>\<rparr>))))"

text \<open>The loop over the automations; the \<open>k\<close>-th takes the \<open>k\<close>-th reading of the clock.\<close>

fun cancel_automations :: "env \<Rightarrow> nat \<Rightarrow> Automation list \<Rightarrow> store \<Rightarrow> store" where
  "cancel_automations e k [] s = s"
| "cancel_automations e k (a # as) s =
     cancel_automations e (Suc k) as
       (if aut_status a = AutomationStatus.ACTIVE
        then snd (automations_update (automation_cancel (clk e k) a) (aut_version a) s) else s)"

definition apply_account_deletion :: "env \<Rightarrow> uuid \<Rightarrow> accounts \<Rightarrow> py_error + accounts" where
  "apply_account_deletion e user_id A =
     (case identity_users_get user_id A of
        None \<Rightarrow> Inr A
      | Some x \<Rightarrow>
          if usr_status x = UserStatus.DELETED then Inr A
          else
            let x1 = (if usr_status x \<noteq> UserStatus.DELETING then user_begin_deletion (clk e 0) x else x) in
            bindE (automations_list_for_user user_id 500 (acc_store A)) (\<lambda>as.
            let n = length as;
                s = endpoints_invalidate_for_user (clk e (n + 1)) user_id (cancel_automations e 1 as (acc_store A));
                A1 = devices_deactivate_for_user (clk e (n + 2)) user_id (A\<lparr>acc_store := s\<rparr>);
                A2 = sessions_revoke_for_user (clk e (n + 3)) user_id A1 in
            Inr (users_update (user_mark_deleted (clk e (n + 4)) x1) A2)))"

text \<open>The round of the worker: the claim, the deletion and the settling commit together.\<close>

definition account_deletion_run_once ::
  "str \<Rightarrow> rat \<Rightarrow> time \<Rightarrow> env \<Rightarrow> accounts \<Rightarrow> (py_error + bool) \<times> accounts" where
  "account_deletion_run_once worker_id lease_seconds now e A =
     (case claim_ready_jobs DurableJobKind.ACCOUNT_DELETION worker_id now (now + timedelta_seconds lease_seconds)
             1 (core (acc_store A)) of
        ([], c) \<Rightarrow> (Inr False, A\<lparr>acc_store := (acc_store A)\<lparr>core := c\<rparr>\<rparr>)
      | (j # _, c) \<Rightarrow>
          (case apply_account_deletion e (job_user_id j) (A\<lparr>acc_store := (acc_store A)\<lparr>core := c\<rparr>\<rparr>) of
             Inl err \<Rightarrow> (Inl err, A)
           | Inr A1 \<Rightarrow>
               (case jobs_settle (job_id j) worker_id (job_claim_epoch j) DurableJobStatus.COMPLETED now None
                      (core (acc_store A1)) of
                  (False, _) \<Rightarrow> (Inr False, A)
                | (True, c') \<Rightarrow> (Inr True, A1\<lparr>acc_store := (acc_store A1)\<lparr>core := c'\<rparr>\<rparr>))))"

text \<open>\<open>run_batch\<close> of the scheduler, of at most \<open>n\<close> rounds.\<close>

fun account_deletion_batch ::
  "nat \<Rightarrow> (nat \<Rightarrow> time) \<Rightarrow> (nat \<Rightarrow> env) \<Rightarrow> str \<Rightarrow> rat \<Rightarrow> accounts \<Rightarrow> (py_error + nat) \<times> accounts" where
  "account_deletion_batch 0 now es worker_id lease A = (Inr 0, A)"
| "account_deletion_batch (Suc n) now es worker_id lease A =
     (case account_deletion_run_once worker_id lease (now 0) (es 0) A of
        (Inl err, A1) \<Rightarrow> (Inl err, A1)
      | (Inr False, A1) \<Rightarrow> (Inr 0, A1)
      | (Inr True, A1) \<Rightarrow>
          (case account_deletion_batch n (\<lambda>k. now (Suc k)) (\<lambda>k. es (Suc k)) worker_id lease A1 of
             (Inl err, A2) \<Rightarrow> (Inl err, A2)
           | (Inr m, A2) \<Rightarrow> (Inr (Suc m), A2)))"

end
