(* ===== verification/PyDiff.thy ===== *)
theory PyDiff
  imports PyFloat Prelude
begin

text \<open>
  \<open>difflib.SequenceMatcher(None, a, b).ratio()\<close> of the standard library: twice the number of
  matched characters over the total length. The matched characters are those of the longest
  common block (the first of equal length), and of what is left of it and right of it. In a text
  of 200 characters or more a frequent character does not start a block, but extends one.
\<close>

definition popular :: "str \<Rightarrow> nat \<Rightarrow> bool" where
  "popular b c \<longleftrightarrow> 200 \<le> length b \<and> length b div 100 + 1 < length (filter (\<lambda>x. x = c) b)"

text \<open>
  A row of the search: \<open>prev ! j\<close> is the length of the block that ends before \<open>j\<close> in \<open>b\<close> and at the
  previous character of \<open>a\<close>; the row of \<open>x\<close> has the lengths of the blocks that end with it.
\<close>

fun match_row :: "(nat \<Rightarrow> bool) \<Rightarrow> nat \<Rightarrow> nat \<Rightarrow> nat list \<Rightarrow> str \<Rightarrow> nat list" where
  "match_row pop x diag prev [] = []"
| "match_row pop x diag prev (y # ys) =
     (if y = x \<and> \<not> pop y then diag + 1 else 0)
     # match_row pop x (case prev of [] \<Rightarrow> 0 | p # _ \<Rightarrow> p) (tl prev) ys"

text \<open>The best block so far is kept unless a longer one ends at this character.\<close>

fun better :: "nat \<Rightarrow> nat \<Rightarrow> nat list \<Rightarrow> nat \<times> nat \<times> nat \<Rightarrow> nat \<times> nat \<times> nat" where
  "better i j [] best = best"
| "better i j (k # ks) best =
     better i (Suc j) ks (if snd (snd best) < k then (Suc i - k, Suc j - k, k) else best)"

fun best_block ::
  "(nat \<Rightarrow> bool) \<Rightarrow> nat \<Rightarrow> str \<Rightarrow> str \<Rightarrow> nat list \<Rightarrow> nat \<times> nat \<times> nat \<Rightarrow> nat \<times> nat \<times> nat" where
  "best_block pop i [] b prev best = best"
| "best_block pop i (x # xs) b prev best =
     (let row = match_row pop x 0 prev b in best_block pop (Suc i) xs b row (better i 0 row best))"

text \<open>The length of the common prefix: how far a block extends.\<close>

fun common :: "str \<Rightarrow> str \<Rightarrow> nat" where
  "common (x # xs) (y # ys) = (if x = y then Suc (common xs ys) else 0)"
| "common _ _ = 0"

definition longest_match :: "(nat \<Rightarrow> bool) \<Rightarrow> str \<Rightarrow> str \<Rightarrow> nat \<times> nat \<times> nat" where
  "longest_match pop a b =
     (case best_block pop 0 a b [] (0, 0, 0) of (i, j, k) \<Rightarrow>
        let l = common (rev (take i a)) (rev (take j b));
            r = common (drop (i + k) a) (drop (j + k) b)
        in (i - l, j - l, l + k + r))"

function matched :: "(nat \<Rightarrow> bool) \<Rightarrow> str \<Rightarrow> str \<Rightarrow> nat" where
  "matched pop a b =
     (if a = [] \<or> b = [] then 0
      else case longest_match pop a b of (i, j, k) \<Rightarrow>
        if k = 0 then 0
        else k + matched pop (take i a) (take j b) + matched pop (drop (i + k) a) (drop (j + k) b))"
  by pat_completeness auto

lemma common_le: "common a b \<le> length a" "common a b \<le> length b"
  by (induction a b rule: common.induct) auto

text \<open>A row never promises a block that starts before the texts do.\<close>

lemma match_row_bound:
  "\<forall>k \<in> set prev. k \<le> n \<Longrightarrow> d \<le> n \<Longrightarrow> \<forall>k \<in> set (match_row pop x d prev ys). k \<le> Suc n"
proof (induction ys arbitrary: d prev)
  case (Cons y ys)
  have "\<forall>k \<in> set (match_row pop x (case prev of [] \<Rightarrow> 0 | p # _ \<Rightarrow> p) (tl prev) ys). k \<le> Suc n"
    using Cons.prems by (intro Cons.IH) (cases prev, auto)+
  then show ?case
    using Cons.prems by simp
qed simp

lemma better_bound:
  assumes "\<forall>k \<in> set ks. k \<le> Suc i" "fst best + snd (snd best) \<le> Suc i"
  shows "fst (better i j ks best) + snd (snd (better i j ks best)) \<le> Suc i"
  using assms
proof (induction ks arbitrary: j best)
  case (Cons k ks)
  then show ?case
    by (cases "snd (snd best) < k") (simp_all del: One_nat_def)
qed simp

lemma best_block_bound:
  assumes "\<forall>k \<in> set prev. k \<le> i" "fst best + snd (snd best) \<le> i"
  shows "fst (best_block pop i a b prev best) + snd (snd (best_block pop i a b prev best)) \<le> i + length a"
  using assms
proof (induction a arbitrary: i prev best)
  case (Cons x xs)
  let ?row = "match_row pop x 0 prev b"
  have row: "\<forall>k \<in> set ?row. k \<le> Suc i"
    by (rule match_row_bound [OF Cons.prems(1)]) simp
  moreover have "fst (better i 0 ?row best) + snd (snd (better i 0 ?row best)) \<le> Suc i"
    using Cons.prems(2) by (intro better_bound [OF row]) simp
  ultimately show ?case
    using Cons.IH by (fastforce simp: Let_def)
qed simp

lemma longest_match_bound:
  assumes "longest_match pop a b = (i, j, k)"
  shows "i + k \<le> length a"
proof -
  obtain i' j' k' where best: "best_block pop 0 a b [] (0, 0, 0) = (i', j', k')"
    by (cases "best_block pop 0 a b [] (0, 0, 0)")
  have bound: "i' + k' \<le> length a"
    using best_block_bound [of "[]" 0 "(0, 0, 0)" pop a b] by (simp add: best)
  let ?l = "common (rev (take i' a)) (rev (take j' b))"
  let ?r = "common (drop (i' + k') a) (drop (j' + k') b)"
  have "?l \<le> i'" "?r \<le> length a - (i' + k')"
    using common_le(1) [of "rev (take i' a)"] common_le(1) [of "drop (i' + k') a" "drop (j' + k') b"]
    by (auto intro: order_trans)
  then show ?thesis
    using assms bound by (auto simp: longest_match_def best Let_def)
qed

termination matched
  by (relation "measure (\<lambda>(_, a, _). length a)") (auto dest!: longest_match_bound [OF sym])

declare matched.simps [simp del]

definition ratio :: "str \<Rightarrow> str \<Rightarrow> rat" where
  "ratio a b =
     (if length a + length b = 0 then 1
      else f64 (of_nat (2 * matched (popular b) a b) / of_nat (length a + length b)))"

text \<open>No more characters match than either text has.\<close>

lemma matched_le: "matched pop a b \<le> length a"
proof (induction pop a b rule: matched.induct)
  case (1 pop a b)
  show ?case
  proof (cases "a = [] \<or> b = [] \<or> snd (snd (longest_match pop a b)) = 0")
    case True
    then show ?thesis
      by (subst matched.simps) (auto split: prod.splits)
  next
    case False
    obtain i j k where m: "longest_match pop a b = (i, j, k)"
      by (cases "longest_match pop a b")
    have "matched pop (take i a) (take j b) \<le> i" "matched pop (drop (i + k) a) (drop (j + k) b) \<le> length a - (i + k)"
      using "1.IH" False m by (fastforce intro: order_trans)+
    moreover have "i + k \<le> length a"
      using m by (rule longest_match_bound)
    ultimately show ?thesis
      using False m by (subst matched.simps) auto
  qed
qed

lemma matched_examples:
  "matched (popular (u ''bcde'')) (u ''abcd'') (u ''bcde'') = 3"
  "matched (popular (u ''xabcy'')) (u ''abxc'') (u ''xabcy'') = 3"
  by (simp_all add: matched.simps longest_match_def popular_def u_def Let_def)

end
