(* ===== verification/MemoryService.thy ===== *)
theory MemoryService
  imports MemoryOps PyDiff RuntimeService
begin

text \<open>
  The services over the memories: \<open>application/memories/service.py\<close>, \<open>retrieval.py\<close>,
  \<open>context.py\<close>, \<open>manager.py\<close> and the worker \<open>workers/memory.py\<close>. A call may commit several units
  of work; it returns its result or exception and the library as its commits leave it. The
  embedding provider is a function that may have no answer, the memory extractor (a language
  model) one that returns candidates.
\<close>

section \<open>DTOs\<close>

record MemoryDTO =
  myd_id :: uuid
  myd_user_id :: uuid
  myd_memory_type :: MemoryType
  myd_content :: str
  myd_summary :: str
  myd_importance :: rat
  myd_confidence :: rat
  myd_thing_id :: "uuid option"
  myd_source_ids :: "uuid list"
  myd_valid_from :: "time option"
  myd_valid_until :: "time option"
  myd_profile_key :: "str option"
  myd_supersedes_id :: "uuid option"
  myd_provenance_run_id :: "uuid option"
  myd_source_message_ids :: "uuid list"
  myd_status :: MemoryStatus
  myd_version :: int
  myd_created_at :: time
  myd_updated_at :: time
  myd_last_accessed_at :: "time option"
  myd_replayed :: bool

definition to_memory_dto :: "bool \<Rightarrow> Memory \<Rightarrow> MemoryDTO" where
  "to_memory_dto replayed m =
     \<lparr>myd_id = mem_id m, myd_user_id = mem_user_id m, myd_memory_type = mem_memory_type m,
      myd_content = mem_content m, myd_summary = mem_summary m, myd_importance = mem_importance m,
      myd_confidence = mem_confidence m, myd_thing_id = mem_thing_id m,
      myd_source_ids = mem_source_ids m, myd_valid_from = mem_valid_from m,
      myd_valid_until = mem_valid_until m, myd_profile_key = mem_profile_key m,
      myd_supersedes_id = mem_supersedes_id m, myd_provenance_run_id = mem_provenance_run_id m,
      myd_source_message_ids = mem_source_message_ids m, myd_status = mem_status m,
      myd_version = mem_version m, myd_created_at = mem_created_at m,
      myd_updated_at = mem_updated_at m, myd_last_accessed_at = mem_last_accessed_at m,
      myd_replayed = replayed\<rparr>"

section \<open>Creating\<close>

definition created_memory :: "uuid \<Rightarrow> WriteOutcome \<Rightarrow> library \<Rightarrow> MemoryDTO lwork" where
  "created_memory user_id out L =
     (bindE (payload_uuid (u ''id'') (wo_data out)) (\<lambda>mid.
      bindE (ofopt (RuntimeError (u ''Memory creation did not persist.'')) (memories_get user_id mid L)) (\<lambda>m.
        Inr (to_memory_dto (wo_replayed out) m))), L)"

definition create_memory :: "env \<Rightarrow> texts_env \<Rightarrow> uuid \<Rightarrow> MemoryInput \<Rightarrow> library \<Rightarrow> MemoryDTO lwork" where
  "create_memory e tx user_id i L =
     bindW (reads (check_memory_input tx i) L) (\<lambda>_ L0.
     bindW (commit (apply_create_memory e tx user_id i False L0) L0) (created_memory user_id))"

definition create_if_allowed ::
  "env \<Rightarrow> texts_env \<Rightarrow> uuid \<Rightarrow> MemoryInput \<Rightarrow> library \<Rightarrow> MemoryDTO option lwork" where
  "create_if_allowed e tx user_id i L =
     (case apply_create_memory e tx user_id i True L of
        Inl err \<Rightarrow> (Inl err, L)
      | Inr (out, L1) \<Rightarrow>
          if wo_code out \<in> {u ''MEMORY_SUPPRESSED'', u ''MEMORY_STATE_DUPLICATE''} then (Inr None, L)
          else bindW (created_memory user_id out L1) (\<lambda>d L2. (Inr (Some d), L2)))"

section \<open>Reading\<close>

definition get_memory :: "uuid \<Rightarrow> uuid \<Rightarrow> library \<Rightarrow> py_error + MemoryDTO" where
  "get_memory user_id mid L =
     bindE (ofopt MEMORY_NOT_FOUND (memories_get user_id mid L)) (\<lambda>m. Inr (to_memory_dto False m))"

text \<open>\<open>scores\<close> is the dictionary of \<open>reciprocal_rank_fusion\<close>, in binary64 arithmetic.\<close>

fun add_ranks :: "nat \<Rightarrow> nat \<Rightarrow> uuid list \<Rightarrow> (uuid \<Rightarrow> rat option) \<Rightarrow> uuid \<Rightarrow> rat option" where
  "add_ranks k rank [] scores = scores"
| "add_ranks k rank (x # xs) scores =
     add_ranks k (Suc rank) xs (scores(x \<mapsto>
       f64 ((case scores x of None \<Rightarrow> 0 | Some v \<Rightarrow> v) + f64 (1 / of_nat (k + rank)))))"

fun fusion_scores :: "nat \<Rightarrow> uuid list list \<Rightarrow> (uuid \<Rightarrow> rat option) \<Rightarrow> uuid \<Rightarrow> rat option" where
  "fusion_scores k [] scores = scores"
| "fusion_scores k (ids # rest) scores = fusion_scores k rest (add_ranks k 1 ids scores)"

definition reciprocal_rank_fusion :: "nat \<Rightarrow> uuid list list \<Rightarrow> uuid list" where
  "reciprocal_rank_fusion k rankings =
     (let scores = fusion_scores k rankings Map.empty in
      sort_key (\<lambda>x. (- the (scores x), uuid_str x)) (remdups (concat rankings)))"

definition memory_by_id :: "Memory list \<Rightarrow> uuid \<Rightarrow> Memory option" where
  "memory_by_id ms x = sel1 (\<lambda>m. mem_id m = x) (rev ms)"

definition hybrid_search_memories ::
  "texts_env \<Rightarrow> uuid \<Rightarrow> str option \<Rightarrow> MemoryType option \<Rightarrow> uuid option \<Rightarrow> rat list option \<Rightarrow> nat \<Rightarrow> nat
    \<Rightarrow> library \<Rightarrow> Memory list" where
  "hybrid_search_memories tx user_id query ty tid query_embedding limit multiplier L =
     (let candidate_limit = max limit (limit * multiplier);
          search = (\<lambda>q v n. memories_search tx user_id q ty MemoryStatus.ACTIVE tid v n L);
          lexical = (case query of None \<Rightarrow> []
            | Some q \<Rightarrow> if strip q = [] then [] else search (Some (strip q)) None candidate_limit);
          vector = (case query_embedding of None \<Rightarrow> [] | Some v \<Rightarrow> search None (Some v) candidate_limit) in
      if lexical \<noteq> [] \<and> vector \<noteq> [] then
        List.map_filter (memory_by_id (lexical @ vector))
          (take limit (reciprocal_rank_fusion 60 [map mem_id lexical, map mem_id vector]))
      else if vector \<noteq> [] then take limit vector
      else if lexical \<noteq> [] then take limit lexical
      else search query None limit)"

definition search_memories ::
  "texts_env \<Rightarrow> uuid \<Rightarrow> str option \<Rightarrow> MemoryType option \<Rightarrow> uuid option \<Rightarrow> int \<Rightarrow> rat list option \<Rightarrow> library
    \<Rightarrow> py_error + MemoryDTO list" where
  "search_memories tx user_id query ty tid limit query_embedding L =
     bindE (require (1 \<le> limit \<and> limit \<le> 50)
       (ValueError (u ''Memory search limit must be between 1 and 50.''))) (\<lambda>_.
     bindE (require (case query_embedding of None \<Rightarrow> True | Some v \<Rightarrow> length v = 1536)
       (ValueError (u ''Query embedding must contain exactly 1536 values.''))) (\<lambda>_.
     let q = (case query of None \<Rightarrow> None | Some x \<Rightarrow> if x = [] then None else Some (strip x)) in
     Inr (map (to_memory_dto False)
       (if query_embedding \<noteq> None \<and> given q
        then hybrid_search_memories tx user_id q ty tid query_embedding (nat limit) 3 L
        else memories_search tx user_id q ty MemoryStatus.ACTIVE tid query_embedding (nat limit) L))))"

section \<open>Changing\<close>

record MemoryChange =
  mch_content :: "str option"
  mch_summary :: "str option"
  mch_importance :: "rat option"
  mch_confidence :: "rat option"
  mch_supersede :: bool
  mch_delete :: bool

definition check_change :: "MemoryChange \<Rightarrow> py_error + unit" where
  "check_change c =
     bindE (require (case mch_importance c of None \<Rightarrow> True | Some x \<Rightarrow> unit_score x)
       (ValueError (u ''Memory importance must be between 0 and 1.''))) (\<lambda>_.
     bindE (require (case mch_confidence c of None \<Rightarrow> True | Some x \<Rightarrow> unit_score x)
       (ValueError (u ''Memory confidence must be between 0 and 1.''))) (\<lambda>_.
     require (\<not> (mch_supersede c \<and> mch_delete c))
       (ValueError (u ''Memory cannot be superseded and deleted together.''))))"

definition changed_memory :: "time \<Rightarrow> MemoryChange \<Rightarrow> Memory \<Rightarrow> py_error + Memory" where
  "changed_memory now c m =
     (if mch_supersede c then memory_supersede now m
      else memory_revise now (mch_content c) (mch_summary c) (mch_importance c) (mch_confidence c) m)"

definition forget_memory ::
  "env \<Rightarrow> texts_env \<Rightarrow> uuid \<Rightarrow> uuid \<Rightarrow> int \<Rightarrow> str \<Rightarrow> library \<Rightarrow> MemoryDTO lwork" where
  "forget_memory e tx user_id mid expected_version key L =
     bindW (commit (apply_forget_memory e tx user_id mid expected_version key L) L) (\<lambda>out L1.
       reads (bindE (ofopt (RuntimeError (u ''Memory forget did not persist.'')) (memories_get user_id mid L1))
         (\<lambda>m. Inr (to_memory_dto (wo_replayed out) m))) L1)"

definition revise_memory ::
  "env \<Rightarrow> uuid \<Rightarrow> uuid \<Rightarrow> int \<Rightarrow> MemoryChange \<Rightarrow> str \<Rightarrow> library \<Rightarrow> MemoryDTO lop" where
  "revise_memory e user_id mid expected_version c key L =
     (if memories_get_operation_version user_id key L \<noteq> None
      then bindE (ofopt MISSING_MEMORY (memories_get user_id mid L)) (\<lambda>m. Inr (to_memory_dto True m, L))
      else
        bindE (versioned_memory user_id mid expected_version (changed_memory (clk e 0) c) L) (\<lambda>(m, L1).
        bindE (memories_record_operation (memory_op user_id key m) L1) (\<lambda>L2.
          Inr (to_memory_dto False m, L2))))"

definition update_memory ::
  "env \<Rightarrow> texts_env \<Rightarrow> uuid \<Rightarrow> uuid \<Rightarrow> int \<Rightarrow> MemoryChange \<Rightarrow> str \<Rightarrow> library \<Rightarrow> MemoryDTO lwork" where
  "update_memory e tx user_id mid expected_version c key L =
     bindW (reads (check_change c) L) (\<lambda>_ L0.
       if mch_delete c then forget_memory e tx user_id mid expected_version key L0
       else commit (revise_memory e user_id mid expected_version c key L0) L0)"

end
