(* ===== verification/MemoryManager.thy ===== *)
theory MemoryManager
  imports MemoryService
begin

text \<open>
  The memories of the agent: ranking and loading them for a run (\<open>application/memories/context.py\<close>),
  forming them from what a run did (\<open>manager.py\<close>), and the worker that takes formation jobs
  (\<open>formation.py\<close>, \<open>workers/memory.py\<close>). \<open>emb\<close> is the embedding provider, \<open>None\<close> when there is
  none or it fails; \<open>extract\<close> is the extractor, a language model behind a port.
\<close>

section \<open>Context of a run\<close>

definition type_weight :: "MemoryType \<Rightarrow> rat" where
  "type_weight ty = (if ty = MemoryType.EPISODIC then f64 (8 / 10) else 1)"

definition memory_score :: "uuid list \<Rightarrow> MemoryDTO \<Rightarrow> rat \<times> time" where
  "memory_score active m =
     (f64 (f64 (myd_importance m * type_weight (myd_memory_type m))
        + (case myd_thing_id m of None \<Rightarrow> 0 | Some t \<Rightarrow> if t \<in> set active then 1 else 0)),
      myd_updated_at m)"

text \<open>\<open>sorted(\<dots>, reverse=True)\<close> is stable: equal scores keep their order.\<close>

definition rank_memories :: "uuid list \<Rightarrow> MemoryDTO list \<Rightarrow> MemoryDTO list" where
  "rank_memories active ms =
     sort_key (\<lambda>m. (- fst (memory_score active m), - snd (memory_score active m))) ms"

record MemoryContext =
  mcx_profile :: "MemoryDTO list"
  mcx_relevant :: "MemoryDTO list"

definition prompt_item :: "texts_env \<Rightarrow> MemoryDTO \<Rightarrow> json" where
  "prompt_item tx m = JObj
     [u ''id'' \<mapsto> juuid (myd_id m), u ''type'' \<mapsto> JStr (memory_type_value (myd_memory_type m)),
      u ''summary'' \<mapsto> JStr (myd_summary m), u ''content'' \<mapsto> JStr (myd_content m),
      u ''confidence'' \<mapsto> tx_float tx (myd_confidence m)]"

definition as_prompt_data :: "texts_env \<Rightarrow> MemoryContext \<Rightarrow> jdict" where
  "as_prompt_data tx c =
     [u ''authority'' \<mapsto> JStr (u ''NON-AUTHORITATIVE LONG-TERM MEMORY''),
      u ''profile'' \<mapsto> JList (map (prompt_item tx) (mcx_profile c)),
      u ''relevant'' \<mapsto> JList (map (prompt_item tx) (mcx_relevant c))]"

type_synonym embedder = "str \<Rightarrow> rat list option"

definition query_vector :: "embedder \<Rightarrow> str \<Rightarrow> rat list option" where
  "query_vector emb query = (if strip query = [] then None else emb (strip query))"

definition load_context ::
  "texts_env \<Rightarrow> embedder \<Rightarrow> uuid \<Rightarrow> str \<Rightarrow> int \<Rightarrow> int \<Rightarrow> uuid list \<Rightarrow> library \<Rightarrow> py_error + MemoryContext" where
  "load_context tx emb user_id query profile_limit relevant_limit active L =
     bindE (search_memories tx user_id None (Some MemoryType.PROFILE) None profile_limit None L) (\<lambda>profile.
     bindE (search_memories tx user_id (Some query) (Some MemoryType.SEMANTIC) None relevant_limit
       (query_vector emb query) L) (\<lambda>semantic.
     bindE (search_memories tx user_id (Some query) (Some MemoryType.EPISODIC) None
       (max 1 (relevant_limit div 2)) (query_vector emb query) L) (\<lambda>episodic.
       Inr \<lparr>mcx_profile = profile,
            mcx_relevant = take (nat relevant_limit) (rank_memories active (semantic @ episodic))\<rparr>)))"

definition agent_search ::
  "texts_env \<Rightarrow> embedder \<Rightarrow> uuid \<Rightarrow> str \<Rightarrow> int \<Rightarrow> library \<Rightarrow> py_error + MemoryDTO list" where
  "agent_search tx emb user_id query limit L =
     search_memories tx user_id (Some query) None None limit (query_vector emb query) L"

section \<open>The manager\<close>

record MemoryFormationContext =
  mfc_user_id :: uuid
  mfc_run_id :: uuid
  mfc_user_text :: str
  mfc_source_message_id :: "uuid option"
  mfc_recent_messages :: "str list"
  mfc_state_mutation_summaries :: "str list"
  mfc_existing_memories :: "MemoryDTO list"
  mfc_active_thing_ids :: "uuid list"

record manager =
  mgr_extract :: "MemoryFormationContext \<Rightarrow> py_error + MemoryCandidate list"
  mgr_embed :: embedder
  mgr_threshold :: rat

definition spaced :: "texts_env \<Rightarrow> str \<Rightarrow> str" where
  "spaced tx x = join_words (words (casefold tx x))"

definition formation_key :: "texts_env \<Rightarrow> uuid \<Rightarrow> str \<Rightarrow> str" where
  "formation_key tx run content =
     u ''agent-memory:'' @ uuid_str run @ u '':'' @ take 16 (tx_sha tx (spaced tx content))"

definition candidate_input ::
  "texts_env \<Rightarrow> embedder \<Rightarrow> MemoryFormationContext \<Rightarrow> MemoryCandidate \<Rightarrow> MemoryInput" where
  "candidate_input tx emb ctx c =
     \<lparr>mi_memory_type = cnd_memory_type c, mi_content = cnd_content c,
      mi_summary = take 200 (cnd_content c), mi_importance = cnd_importance c,
      mi_confidence = cnd_confidence c,
      mi_idempotency_key = formation_key tx (mfc_run_id ctx) (cnd_content c),
      mi_thing_id = cnd_thing_id c, mi_source_ids = cnd_source_refs c, mi_valid_from = None,
      mi_valid_until = None, mi_embedding = emb (cnd_content c),
      mi_profile_key = (if cnd_memory_type c = MemoryType.PROFILE
        then Some (profile_key_for tx (cnd_content c)) else None),
      mi_provenance_run_id = Some (mfc_run_id ctx),
      mi_source_message_ids = (case mfc_source_message_id ctx of None \<Rightarrow> [] | Some m \<Rightarrow> [m])\<rparr>"

text \<open>The version the target has now is the one the update expects.\<close>

definition change_target ::
  "env \<Rightarrow> texts_env \<Rightarrow> MemoryFormationContext \<Rightarrow> MemoryCandidate \<Rightarrow> MemoryChange \<Rightarrow> str \<Rightarrow> library
    \<Rightarrow> MemoryDTO lwork" where
  "change_target e tx ctx c change key L =
     bindW (reads (bindE (ofopt AssertionError (cnd_target_memory_id c)) (\<lambda>t.
         get_memory (mfc_user_id ctx) t L)) L) (\<lambda>d L0.
       update_memory e tx (mfc_user_id ctx) (myd_id d) (myd_version d) change key L0)"

definition SUPERSEDE_CHANGE :: MemoryChange where
  "SUPERSEDE_CHANGE = \<lparr>mch_content = None, mch_summary = None, mch_importance = None,
     mch_confidence = None, mch_supersede = True, mch_delete = False\<rparr>"

definition candidate_change :: "MemoryCandidate \<Rightarrow> MemoryChange" where
  "candidate_change c = \<lparr>mch_content = Some (cnd_content c), mch_summary = Some (take 200 (cnd_content c)),
     mch_importance = Some (cnd_importance c), mch_confidence = Some (cnd_confidence c),
     mch_supersede = False, mch_delete = False\<rparr>"

definition apply_candidate ::
  "(nat \<Rightarrow> env) \<Rightarrow> texts_env \<Rightarrow> manager \<Rightarrow> MemoryFormationContext \<Rightarrow> MemoryCandidate \<Rightarrow> library
    \<Rightarrow> MemoryDTO option lwork" where
  "apply_candidate es tx g ctx c L =
     (let key = formation_key tx (mfc_run_id ctx) (cnd_content c) in
      bindW (if cnd_action c = SUPERSEDE
             then bindW (change_target (es 0) tx ctx c SUPERSEDE_CHANGE (key @ u '':supersede'') L)
               (\<lambda>_ L1. (Inr (), L1))
             else (Inr (), L)) (\<lambda>_ L1.
        if cnd_action c \<in> {UPDATE, MERGE}
        then bindW (change_target (es 1) tx ctx c (candidate_change c) key L1) (\<lambda>d L2. (Inr (Some d), L2))
        else create_if_allowed (es 1) tx (mfc_user_id ctx) (candidate_input tx (mgr_embed g) ctx c) L1))"

definition worth_forming :: "texts_env \<Rightarrow> manager \<Rightarrow> MemoryCandidate \<Rightarrow> bool" where
  "worth_forming tx g c \<longleftrightarrow> cnd_action c \<noteq> IGNORE \<and> mgr_threshold g \<le> cnd_confidence c \<and>
     \<not> rejects_state_authority tx (cnd_content c)"

text \<open>Candidate \<open>n\<close> takes the environments \<open>2 * n\<close> and \<open>2 * n + 1\<close>.\<close>

fun form_candidates ::
  "nat \<Rightarrow> (nat \<Rightarrow> env) \<Rightarrow> texts_env \<Rightarrow> manager \<Rightarrow> MemoryFormationContext \<Rightarrow> MemoryCandidate list \<Rightarrow> library
    \<Rightarrow> MemoryDTO list lwork" where
  "form_candidates n es tx g ctx [] L = (Inr [], L)"
| "form_candidates n es tx g ctx (c # cs) L =
     (if \<not> worth_forming tx g c then form_candidates (Suc n) es tx g ctx cs L
      else bindW (apply_candidate (\<lambda>k. es (2 * n + k)) tx g ctx c L) (\<lambda>d L1.
        bindW (form_candidates (Suc n) es tx g ctx cs L1) (\<lambda>ds L2.
          (Inr (case d of None \<Rightarrow> ds | Some x \<Rightarrow> x # ds), L2))))"

definition form_memories ::
  "(nat \<Rightarrow> env) \<Rightarrow> texts_env \<Rightarrow> manager \<Rightarrow> MemoryFormationContext \<Rightarrow> library \<Rightarrow> MemoryDTO list lwork" where
  "form_memories es tx g ctx L =
     bindW (reads (mgr_extract g ctx) L) (\<lambda>candidates. form_candidates 0 es tx g ctx candidates)"

definition form_from_event ::
  "(nat \<Rightarrow> env) \<Rightarrow> texts_env \<Rightarrow> manager \<Rightarrow> MemoryFormationContext \<Rightarrow> library \<Rightarrow> MemoryDTO list lwork" where
  "form_from_event es tx g ctx L =
     bindW (reads (search_memories tx (mfc_user_id ctx) (Some (mfc_user_text ctx)) None None 8 None L) L)
       (\<lambda>existing. form_memories es tx g (ctx\<lparr>mfc_existing_memories := existing\<rparr>))"

definition same_memory :: "texts_env \<Rightarrow> str \<Rightarrow> MemoryDTO \<Rightarrow> bool" where
  "same_memory tx content m \<longleftrightarrow> spaced tx (myd_content m) = spaced tx content \<or>
     f64 (92 / 100) \<le> ratio (spaced tx (myd_content m)) (spaced tx content)"

definition remember_candidate :: "str \<Rightarrow> MemoryType \<Rightarrow> uuid option \<Rightarrow> MemoryCandidate" where
  "remember_candidate content ty thing =
     \<lparr>cnd_memory_type = ty, cnd_content = content, cnd_action = CREATE, cnd_reason = [],
      cnd_importance = f64 (6 / 10), cnd_confidence = f64 (7 / 10), cnd_thing_id = thing,
      cnd_source_refs = [], cnd_target_memory_id = None\<rparr>"

definition remember_context :: "uuid \<Rightarrow> uuid \<Rightarrow> str \<Rightarrow> uuid option \<Rightarrow> MemoryFormationContext" where
  "remember_context user_id run content source_message =
     \<lparr>mfc_user_id = user_id, mfc_run_id = run, mfc_user_text = content,
      mfc_source_message_id = source_message, mfc_recent_messages = [],
      mfc_state_mutation_summaries = [], mfc_existing_memories = [], mfc_active_thing_ids = []\<rparr>"

definition manager_remember ::
  "(nat \<Rightarrow> env) \<Rightarrow> texts_env \<Rightarrow> manager \<Rightarrow> uuid \<Rightarrow> uuid \<Rightarrow> str \<Rightarrow> MemoryType \<Rightarrow> uuid option \<Rightarrow> uuid option
    \<Rightarrow> library \<Rightarrow> MemoryDTO lwork" where
  "manager_remember es tx g user_id run content ty source_message thing L =
     bindW (reads (search_memories tx user_id (Some content) (Some ty) None 8 None L) L) (\<lambda>existing L0.
       case List.find (same_memory tx content) existing of
         Some m \<Rightarrow> (Inr m, L0)
       | None \<Rightarrow>
           bindW (reads (candidate_post_init (remember_candidate content ty thing)) L0) (\<lambda>c L1.
           bindW (apply_candidate es tx g (remember_context user_id run content source_message) c L1)
             (\<lambda>formed L2. reads (ofopt AssertionError formed) L2)))"

definition FORGET_CHANGE :: MemoryChange where
  "FORGET_CHANGE = \<lparr>mch_content = None, mch_summary = None, mch_importance = None,
     mch_confidence = None, mch_supersede = False, mch_delete = True\<rparr>"

definition manager_forget ::
  "env \<Rightarrow> texts_env \<Rightarrow> uuid \<Rightarrow> uuid \<Rightarrow> int \<Rightarrow> str \<Rightarrow> library \<Rightarrow> MemoryDTO lwork" where
  "manager_forget e tx user_id mid expected_version key L =
     update_memory e tx user_id mid expected_version FORGET_CHANGE key L"

section \<open>Formation jobs\<close>

text \<open>One job per run: the dedupe key is looked up first.\<close>

definition enqueue_memory_formation :: "env \<Rightarrow> MemoryFormationEvent \<Rightarrow> db \<Rightarrow> py_error + db" where
  "enqueue_memory_formation e ev c =
     (let key = u ''memory-formation:'' @ uuid_str (mfe_run_id ev) in
      if jobs_get_by_dedupe_key (mfe_user_id ev) key c \<noteq> None then Inr c
      else bindE (DurableJob_init (mfe_user_id ev) DurableJobKind.MEMORY_FORMATION key
          (formation_payload ev) (uid4 e 0) (Aware (clk e 0)) 5 (clk e 1) (clk e 2)) (\<lambda>j. jobs_add j c))"

definition enqueue_durable :: "env \<Rightarrow> MemoryFormationEvent \<Rightarrow> library \<Rightarrow> unit lwork" where
  "enqueue_durable e ev L =
     commit (bindE (enqueue_memory_formation e ev (lb_core L)) (\<lambda>c. Inr ((), set_core c L))) L"

text \<open>The Chinese summaries, as code points.\<close>

definition TOOL_CODE_SUMMARIES :: "(str \<times> str) list" where
  "TOOL_CODE_SUMMARIES =
     [(u ''THING_CREATED'', [0x521B, 0x5EFA, 0x4E86, 0x4E8B, 0x52A1]),
      (u ''THING_UPDATED'', [0x66F4, 0x65B0, 0x4E86, 0x4E8B, 0x52A1]),
      (u ''THING_ARCHIVED'', [0x5F52, 0x6863, 0x4E86, 0x4E8B, 0x52A1]),
      (u ''TASK_CREATED'', [0x521B, 0x5EFA, 0x4E86, 0x4EFB, 0x52A1]),
      (u ''TASK_COMPLETED'', [0x5B8C, 0x6210, 0x4E86, 0x4EFB, 0x52A1]),
      (u ''TASK_STATUS_CHANGED'', [0x53D8, 0x66F4, 0x4E86, 0x4EFB, 0x52A1, 0x72B6, 0x6001]),
      (u ''DEADLINE_SET'', [0x8BBE, 0x7F6E, 0x4E86, 0x622A, 0x6B62, 0x65E5, 0x671F]),
      (u ''DATE_UPDATED'', [0x66F4, 0x65B0, 0x4E86, 0x65E5, 0x671F]),
      (u ''BLOCKER_ADDED'', [0x6DFB, 0x52A0, 0x4E86, 0x963B, 0x788D]),
      (u ''BLOCKER_RESOLVED'', [0x89E3, 0x51B3, 0x4E86, 0x963B, 0x788D]),
      (u ''AUTOMATION_CREATED'', [0x521B, 0x5EFA, 0x4E86, 0x81EA, 0x52A8, 0x5316]),
      (u ''AUTOMATION_CHANGED'', [0x53D8, 0x66F4, 0x4E86, 0x81EA, 0x52A8, 0x5316])]"

definition tool_code_summary :: "str \<Rightarrow> str" where
  "tool_code_summary code = (case map_of TOOL_CODE_SUMMARIES code of None \<Rightarrow> code | Some x \<Rightarrow> x)"

definition process_event ::
  "(nat \<Rightarrow> env) \<Rightarrow> texts_env \<Rightarrow> manager \<Rightarrow> MemoryFormationEvent \<Rightarrow> library \<Rightarrow> unit lwork" where
  "process_event es tx g ev L =
     bindW (reads (list_messages (mfe_user_id ev) (mfe_thread_id ev) 10 (lb_core L)) L) (\<lambda>messages L0.
     bindW (form_from_event es tx g
       \<lparr>mfc_user_id = mfe_user_id ev, mfc_run_id = mfe_run_id ev, mfc_user_text = mfe_user_text ev,
        mfc_source_message_id = Some (mfe_source_message_id ev),
        mfc_recent_messages = map mdo_content messages,
        mfc_state_mutation_summaries = map tool_code_summary (mfe_tool_result_codes ev),
        mfc_existing_memories = [], mfc_active_thing_ids = []\<rparr> L0) (\<lambda>_ L1. (Inr (), L1)))"

record memory_worker =
  mwk_id :: str
  mwk_lease_seconds :: rat

text \<open>
  One round: claim a job, form the memories of its event (a failure is logged only), settle the
  job as completed under its claim. A payload that does not parse raises out of the round.
\<close>

definition memory_run_once ::
  "memory_worker \<Rightarrow> env \<Rightarrow> env \<Rightarrow> (nat \<Rightarrow> env) \<Rightarrow> texts_env \<Rightarrow> manager \<Rightarrow> library \<Rightarrow> bool lwork" where
  "memory_run_once w e0 e1 es tx g L =
     (let now = clk e0 0 in
      case claim_ready_jobs DurableJobKind.MEMORY_FORMATION (mwk_id w) now
             (now + timedelta_seconds (mwk_lease_seconds w)) 1 (lb_core L) of
        ([], c) \<Rightarrow> (Inr False, set_core c L)
      | (j # _, c) \<Rightarrow>
          bindW (reads (event_from_job_payload (job_user_id j) (job_payload j)) (set_core c L)) (\<lambda>ev L1.
            let L2 = snd (process_event es tx g ev L1) in
            case jobs_settle (job_id j) (mwk_id w) (job_claim_epoch j) DurableJobStatus.COMPLETED
                   (clk e1 0) None (lb_core L2) of
              (settled, c') \<Rightarrow> (Inr True, if settled then set_core c' L2 else L2)))"

end
