(* ===== verification/SourceService.thy ===== *)
theory SourceService
  imports FileOps
begin

text \<open>
  The service over the sources, \<open>application/sources/service.py\<close>, with the object storage of
  \<open>infrastructure/storage/local.py\<close> and the workers \<open>workers/source.py\<close> and
  \<open>workers/file_purge.py\<close>. The objects are a map from keys to bytes beside the library, since no
  transaction covers them.
\<close>

section \<open>The object storage\<close>

type_synonym objects = "str \<Rightarrow> nat list option"

record storage =
  library_of :: library
  objects_of :: objects

definition object_put :: "str \<Rightarrow> nat list \<Rightarrow> objects \<Rightarrow> objects" where
  "object_put key bytes objs = objs(key \<mapsto> bytes)"

definition object_delete :: "str \<Rightarrow> objects \<Rightarrow> objects" where
  "object_delete key objs = objs(key := None)"

section \<open>Uploading\<close>

definition mime_docx :: str where
  "mime_docx = u ''application/vnd.openxmlformats-officedocument.wordprocessingml.document''"

definition mime_pptx :: str where
  "mime_pptx = u ''application/vnd.openxmlformats-officedocument.presentationml.presentation''"

definition ALLOWED_UPLOADS :: "(str \<times> SourceType \<times> str list \<times> nat list list) list" where
  "ALLOWED_UPLOADS =
     [(u ''.pdf'', SourceType.PDF, [u ''application/pdf''], [u ''%PDF-'']),
      (u ''.png'', SourceType.IMAGE, [u ''image/png''], [[0x89, 0x50, 0x4E, 0x47, 13, 10, 0x1A, 10]]),
      (u ''.jpg'', SourceType.IMAGE, [u ''image/jpeg''], [[0xFF, 0xD8, 0xFF]]),
      (u ''.jpeg'', SourceType.IMAGE, [u ''image/jpeg''], [[0xFF, 0xD8, 0xFF]]),
      (u ''.docx'', SourceType.WORD, [mime_docx], [[0x50, 0x4B, 3, 4]]),
      (u ''.pptx'', SourceType.PPT, [mime_pptx], [[0x50, 0x4B, 3, 4]]),
      (u ''.mp3'', SourceType.AUDIO, [u ''audio/mpeg''], [u ''ID3'', [0xFF, 0xFB], [0xFF, 0xF3]]),
      (u ''.txt'', SourceType.OTHER, [u ''text/plain''], []),
      (u ''.md'', SourceType.OTHER, [u ''text/markdown'', u ''text/plain''], [])]"

definition PROCESSABLE_MIME_TYPES :: "str list" where
  "PROCESSABLE_MIME_TYPES = [u ''text/plain'', u ''text/markdown'', u ''application/pdf'', mime_docx]"

text \<open>\<open>PurePath(filename).name\<close> and \<open>.suffix\<close> of Python 3.12 on POSIX.\<close>

fun split_slash :: "str \<Rightarrow> str \<Rightarrow> str list" where
  "split_slash acc [] = [rev acc]"
| "split_slash acc (c # cs) = (if c = 47 then rev acc # split_slash [] cs else split_slash (c # acc) cs)"

definition path_name :: "str \<Rightarrow> str" where
  "path_name x = (case filter (\<lambda>p. p \<noteq> [] \<and> p \<noteq> u ''.'') (split_slash [] x) of
     [] \<Rightarrow> [] | p # ps \<Rightarrow> last (p # ps))"

definition path_suffix :: "str \<Rightarrow> str" where
  "path_suffix name =
     (let tail = takeWhile (\<lambda>c. c \<noteq> 46) (rev name); i = length name - length tail - 1 in
      if 46 \<in> set name \<and> 0 < i \<and> tail \<noteq> [] then drop i name else [])"

text \<open>\<open>lower\<close> as far as the allowed extensions, which are ASCII, can tell.\<close>

definition lower_ascii :: "str \<Rightarrow> str" where
  "lower_ascii x = map (\<lambda>c. if 65 \<le> c \<and> c \<le> 90 then c + 32 else c) x"

text \<open>\<open>checked_chunks\<close>: the signature is that of the first chunk with bytes; \<open>count\<close> counts them.\<close>

fun checked_chunks :: "nat list list \<Rightarrow> int \<Rightarrow> bool \<Rightarrow> int \<Rightarrow> nat list list \<Rightarrow> py_error + nat list" where
  "checked_chunks signatures limit seen count [] =
     (if seen then Inr [] else Inl (ValueError (u ''Uploaded file is empty.'')))"
| "checked_chunks signatures limit seen count (c # cs) =
     (if c = [] then checked_chunks signatures limit seen count cs
      else bindE (require (seen \<or> signatures = [] \<or> (\<exists>s \<in> set signatures. take (length s) c = s))
          (ValueError (u ''File signature does not match its declared type.''))) (\<lambda>_.
        let count' = count + int (length c) in
        bindE (require (count' \<le> limit)
          (ValueError (u ''File exceeds the configured upload size limit.''))) (\<lambda>_.
        bindE (checked_chunks signatures limit True count' cs) (\<lambda>rest. Inr (c @ rest)))))"

record source_config =
  scf_max_upload_bytes :: int
  scf_embedding_version :: "str option"
  scf_embed_many :: "str list \<Rightarrow> rat list list option"
  scf_embed :: "str \<Rightarrow> rat list option"
  scf_digest :: "nat list \<Rightarrow> str"

definition PARSER_VERSION :: str where
  "PARSER_VERSION = u ''text-source-v2''"

definition CHUNK_VERSION :: str where
  "CHUNK_VERSION = u ''character-overlap-v1''"

definition version_metadata :: "source_config \<Rightarrow> jdict" where
  "version_metadata cfg = [u ''parser_version'' \<mapsto> JStr PARSER_VERSION,
     u ''chunk_version'' \<mapsto> JStr CHUNK_VERSION,
     u ''embedding_model_version'' \<mapsto> jopt_str (scf_embedding_version cfg)]"

record SourceDTO =
  sdo_id :: uuid
  sdo_user_id :: uuid
  sdo_source_type :: SourceType
  sdo_origin :: SourceOrigin
  sdo_title :: str
  sdo_mime_type :: str
  sdo_size :: int
  sdo_content_hash :: str
  sdo_processing_status :: ProcessingStatus
  sdo_extracted_text :: "str option"
  sdo_processing_error :: "str option"
  sdo_processed_at :: "time option"
  sdo_captured_at :: "time option"
  sdo_metadata :: jdict
  sdo_created_at :: time
  sdo_replayed :: bool

definition to_source_dto :: "bool \<Rightarrow> Source \<Rightarrow> SourceDTO" where
  "to_source_dto replayed x =
     \<lparr>sdo_id = src_id x, sdo_user_id = src_user_id x, sdo_source_type = src_source_type x,
      sdo_origin = src_origin x, sdo_title = src_title x, sdo_mime_type = src_mime_type x,
      sdo_size = src_size x, sdo_content_hash = src_content_hash x,
      sdo_processing_status = src_processing_status x, sdo_extracted_text = src_extracted_text x,
      sdo_processing_error = src_processing_error x, sdo_processed_at = src_processed_at x,
      sdo_captured_at = src_captured_at x, sdo_metadata = src_metadata x,
      sdo_created_at = src_created_at x, sdo_replayed = replayed\<rparr>"

record upload_request =
  upl_user_id :: uuid
  upl_filename :: str
  upl_mime_type :: str
  upl_chunks :: "nat list list"
  upl_idempotency_key :: str
  upl_origin :: SourceOrigin
  upl_message_id :: "uuid option"

definition upload_rule :: "upload_request \<Rightarrow> py_error + (SourceType \<times> nat list list)" where
  "upload_rule r =
     (let name = path_name (upl_filename r) in
      case map_of ALLOWED_UPLOADS (lower_ascii (path_suffix name)) of
        None \<Rightarrow> Inl (ValueError (u ''Unsupported or missing file extension.''))
      | Some (ty, mimes, signatures) \<Rightarrow>
          if upl_mime_type r \<in> set mimes then Inr (ty, signatures)
          else Inl (ValueError (u ''File MIME type does not match its extension.'')))"

definition uploaded_source ::
  "env \<Rightarrow> source_config \<Rightarrow> upload_request \<Rightarrow> SourceType \<Rightarrow> str \<Rightarrow> nat list \<Rightarrow> Source" where
  "uploaded_source e cfg r ty object_key bytes =
     (let x = \<lparr>src_user_id = upl_user_id r, src_source_type = ty, src_origin = upl_origin r,
        src_title = path_name (upl_filename r), src_mime_type = upl_mime_type r,
        src_object_key = object_key, src_content_hash = scf_digest cfg bytes,
        src_size = int (length bytes), src_idempotency_key = upl_idempotency_key r,
        src_id = uid4 e 1, src_external_url = None, src_captured_at = None,
        src_metadata = version_metadata cfg, src_processing_status = ProcessingStatus.PENDING,
        src_extracted_text = None, src_processing_error = None, src_processed_at = None,
        src_claim_owner = None, src_lease_expires_at = None, src_heartbeat_at = None,
        src_attempt_count = 0, src_next_attempt_at = None, src_deleted_at = None,
        src_created_at = clk e 0\<rparr>
      in if upl_mime_type r \<in> set PROCESSABLE_MIME_TYPES then x
         else source_mark_failed (clk e 1) (u ''SOURCE_TYPE_UNSUPPORTED'') x)"

definition store_upload :: "env \<Rightarrow> upload_request \<Rightarrow> Source \<Rightarrow> library \<Rightarrow> unit lop" where
  "store_upload e r x L =
     bindE (sources_add x (set_core (users_ensure_exists (clk e 2) (upl_user_id r) (lb_core L)) L)) (\<lambda>L1.
     bindE (mirror_source_upload x L1) (\<lambda>L2.
     case upl_message_id r of
       None \<Rightarrow> Inr ((), L2)
     | Some m \<Rightarrow>
         bindE (require (messages_get (upl_user_id r) m (lb_core L2) \<noteq> None)
           (EntityNotFound (u ''Message was not found.''))) (\<lambda>_.
         bindE (files_add_message_attachment
             \<lparr>att_message_id = m, att_file_id = src_id x, att_attachment_order = 0,
              att_id = uid4 e 2, att_created_at = clk e 3\<rparr> L2) (\<lambda>L3. Inr ((), L3)))))"

text \<open>The object is written before the rows and removed when anything fails.\<close>

definition object_key_for :: "env \<Rightarrow> upload_request \<Rightarrow> str" where
  "object_key_for e r = uuid_str (upl_user_id r) @ u ''/'' @ hex_of 32 (unat (uid4 e 0))
     @ lower_ascii (path_suffix (path_name (upl_filename r)))"

definition upload :: "env \<Rightarrow> source_config \<Rightarrow> upload_request \<Rightarrow> storage \<Rightarrow> (py_error + SourceDTO) \<times> storage" where
  "upload e cfg r S =
     (case upload_rule r of
        Inl err \<Rightarrow> (Inl err, S)
      | Inr (ty, signatures) \<Rightarrow>
          (case sources_get_by_idempotency (upl_user_id r) (upl_idempotency_key r) (library_of S) of
             Some previous \<Rightarrow> (Inr (to_source_dto True previous), S)
           | None \<Rightarrow>
               let object_key = object_key_for e r;
                   cleaned = S\<lparr>objects_of := object_delete object_key (objects_of S)\<rparr> in
               (case checked_chunks signatures (scf_max_upload_bytes cfg) False 0 (upl_chunks r) of
                  Inl err \<Rightarrow> (Inl err, cleaned)
                | Inr bytes \<Rightarrow>
                    let x = uploaded_source e cfg r ty object_key bytes in
                    (case store_upload e r x (library_of S) of
                       Inl err \<Rightarrow> (Inl err, cleaned)
                     | Inr (_, L) \<Rightarrow> (Inr (to_source_dto False x),
                         \<lparr>library_of = L, objects_of = object_put object_key bytes (objects_of S)\<rparr>)))))"

section \<open>Processing\<close>

record SourceProcessingJobDTO =
  spj_id :: uuid
  spj_user_id :: uuid
  spj_title :: str
  spj_mime_type :: str
  spj_object_key :: str
  spj_attempt_count :: int

definition claim_next_processing ::
  "env \<Rightarrow> str \<Rightarrow> uuid option \<Rightarrow> rat \<Rightarrow> int \<Rightarrow> library \<Rightarrow> SourceProcessingJobDTO option lop" where
  "claim_next_processing e owner user_id lease_seconds max_attempts L =
     (if strip owner = [] \<or> lease_seconds \<le> 0 \<or> max_attempts \<le> 0
      then Inl (ValueError (u ''Source processing claim settings must be positive.''))
      else case sources_claim_next_processing owner user_id (clk e 0)
             (clk e 0 + timedelta_seconds lease_seconds) PROCESSABLE_MIME_TYPES max_attempts L of
        (None, L1) \<Rightarrow> Inr (None, L)
      | (Some x, L1) \<Rightarrow> Inr (Some \<lparr>spj_id = src_id x, spj_user_id = src_user_id x,
          spj_title = src_title x, spj_mime_type = src_mime_type x, spj_object_key = src_object_key x,
          spj_attempt_count = src_attempt_count x\<rparr>, L1))"

definition renew_processing_lease :: "env \<Rightarrow> uuid \<Rightarrow> str \<Rightarrow> rat \<Rightarrow> library \<Rightarrow> bool lop" where
  "renew_processing_lease e sid owner lease_seconds L =
     (case sources_renew_processing_lease sid owner (clk e 0) (clk e 0 + timedelta_seconds lease_seconds) L of
        (True, L1) \<Rightarrow> Inr (True, L1) | (False, _) \<Rightarrow> Inr (False, L))"

text \<open>Embeddings are attached when the provider gives one for every chunk.\<close>

definition finished_chunks :: "source_config \<Rightarrow> SourceChunk list \<Rightarrow> SourceChunk list" where
  "finished_chunks cfg chunks =
     (let cs = map (\<lambda>c. c\<lparr>chk_metadata := chk_metadata c ++ version_metadata cfg\<rparr>) chunks;
          vs = (case scf_embed_many cfg (map chk_content cs) of None \<Rightarrow> [] | Some vs \<Rightarrow> vs) in
      if length vs = length cs then map (\<lambda>(c, v). c\<lparr>chk_embedding := Some v\<rparr>) (zip cs vs) else cs)"

definition complete_processing ::
  "env \<Rightarrow> env \<Rightarrow> source_config \<Rightarrow> uuid \<Rightarrow> str \<Rightarrow> ParsedSourceContent \<Rightarrow> library \<Rightarrow> bool lop" where
  "complete_processing e e' cfg sid owner content L =
     (let clean = strip (psc_text content) in
      bindE (require (clean \<noteq> []) (ValueError (u ''Extracted Source text cannot be empty.''))) (\<lambda>_.
      bindE (build_source_chunks_from_content e sid (normalized_content content) 2000 200) (\<lambda>cs.
      let chunks = finished_chunks cfg cs in
      bindE (sources_complete_processing sid owner clean chunks (clk e' (length chunks + 3)) L) (\<lambda>(completed, L1).
        if \<not> completed then Inr (False, L)
        else case sources_get_by_id sid L1 of
          None \<Rightarrow> Inr (True, L1)
        | Some x \<Rightarrow>
            bindE (mirror_processing_complete e' x chunks PARSER_VERSION CHUNK_VERSION
              (scf_embedding_version cfg) L1) (\<lambda>L2. Inr (True, L2))))))"

definition fail_processing :: "env \<Rightarrow> uuid \<Rightarrow> str \<Rightarrow> str \<Rightarrow> rat option \<Rightarrow> library \<Rightarrow> bool lop" where
  "fail_processing e sid owner error_code retry_delay L =
     (case sources_fail_processing sid owner error_code (clk e 0)
        (map_option (\<lambda>d. clk e 0 + timedelta_seconds d) retry_delay) L of
        (True, L1) \<Rightarrow> Inr (True, L1) | (False, _) \<Rightarrow> Inr (False, L))"

section \<open>Reading\<close>

definition get_source :: "uuid \<Rightarrow> uuid \<Rightarrow> library \<Rightarrow> py_error + SourceDTO" where
  "get_source user_id sid L =
     bindE (ofopt SOURCE_NOT_FOUND (sources_get user_id sid (lb_core L))) (\<lambda>x. Inr (to_source_dto False x))"

definition list_for_thing :: "uuid \<Rightarrow> uuid \<Rightarrow> library \<Rightarrow> py_error + SourceDTO list" where
  "list_for_thing user_id tid L =
     bindE (require (things_get user_id tid (lb_core L) \<noteq> None) (EntityNotFound (u ''Thing was not found.''))) (\<lambda>_.
       Inr (map (to_source_dto False) (sources_list_for_thing user_id tid L)))"

definition chunk_dto :: "SourceChunk \<Rightarrow> SourceContextChunkDTO" where
  "chunk_dto c = \<lparr>sxc_id = chk_id c, sxc_source_id = chk_source_id c, sxc_ordinal = chk_ordinal c,
     sxc_content = chk_content c, sxc_char_start = chk_char_start c, sxc_char_end = chk_char_end c,
     sxc_page_number = chk_page_number c\<rparr>"

text \<open>The loop that spends the characters.\<close>

fun within_budget :: "nat \<Rightarrow> SourceContextChunkDTO list \<Rightarrow> SourceContextChunkDTO list" where
  "within_budget remaining [] = []"
| "within_budget remaining (c # cs) =
     (if remaining = 0 then []
      else let content = take remaining (sxc_content c) in
        c\<lparr>sxc_content := content,
          sxc_char_end := min (sxc_char_start c + int (length content)) (sxc_char_end c)\<rparr>
        # within_budget (remaining - length content) cs)"

definition get_context_chunks ::
  "texts_env \<Rightarrow> source_config \<Rightarrow> uuid \<Rightarrow> uuid \<Rightarrow> int \<Rightarrow> int \<Rightarrow> str option \<Rightarrow> library
    \<Rightarrow> py_error + SourceContextChunkDTO list" where
  "get_context_chunks tx cfg user_id sid max_chunks max_characters query L =
     (if max_chunks \<le> 0 \<or> max_characters \<le> 0
      then Inl (ValueError (u ''Source context limits must be positive.''))
      else bindE (ofopt SOURCE_NOT_FOUND (sources_get user_id sid (lb_core L))) (\<lambda>_.
        let q = (case query of None \<Rightarrow> None | Some x \<Rightarrow> if strip x = [] then None else Some (strip x));
            v = (case q of None \<Rightarrow> None | Some x \<Rightarrow> scf_embed cfg x);
            qt = (if v = None then q else None);
            segments = list_inspect_segments tx user_id sid (nat max_chunks) v qt L;
            chunks = sources_list_chunks tx user_id sid (nat max_chunks) v qt L;
            legacy = (if chunks = [] \<and> q \<noteq> None
              then sources_list_chunks tx user_id sid (nat max_chunks) None None L else chunks) in
        Inr (within_budget (nat max_characters)
          (if segments \<noteq> [] then map segment_to_context_chunk segments else map chunk_dto legacy))))"

definition search_files ::
  "texts_env \<Rightarrow> uuid \<Rightarrow> str \<Rightarrow> uuid option \<Rightarrow> int \<Rightarrow> library \<Rightarrow> py_error + jdict list" where
  "search_files tx user_id query tid limit L =
     bindE (require (1 \<le> limit \<and> limit \<le> 20)
       (ValueError (u ''File search limit must be between 1 and 20.''))) (\<lambda>_.
     bindE (require (case tid of None \<Rightarrow> True | Some t \<Rightarrow> things_get user_id t (lb_core L) \<noteq> None)
       (EntityNotFound (u ''Thing was not found.''))) (\<lambda>_.
     let found = files_search_for_user tx user_id query tid (nat limit) L;
         files = (if found \<noteq> [] then found
           else map file_from_source (sources_search_for_user tx user_id query tid (nat limit) L));
         q = strip query in
     Inr (map (\<lambda>f.
       let segments = list_inspect_segments tx user_id (fil_id f) 3 None (if q = [] then None else Some q) L;
           legacy = (if segments = [] \<and> q \<noteq> [] then sources_list_chunks tx user_id (fil_id f) 3 None (Some q) L
             else [])
       in build_search_result_item f (sources_get user_id (fil_id f) (lb_core L)) segments legacy) files)))"

section \<open>Linking and deleting\<close>

primrec source_relation_value :: "SourceRelationType \<Rightarrow> str" where
  "source_relation_value SourceRelationType.PRIMARY = u ''PRIMARY''"
| "source_relation_value SourceRelationType.SUPPORTING = u ''SUPPORTING''"
| "source_relation_value SourceRelationType.REFERENCE = u ''REFERENCE''"
| "source_relation_value SourceRelationType.EVIDENCE = u ''EVIDENCE''"
| "source_relation_value SourceRelationType.OTHER = u ''OTHER''"

record link_request =
  lnk_user_id :: uuid
  lnk_thing_id :: uuid
  lnk_source_id :: uuid
  lnk_relation_type :: SourceRelationType
  lnk_relevance :: rat
  lnk_action_id :: str
  lnk_idempotency_key :: str
  lnk_reason :: str

definition link_mutation :: "env \<Rightarrow> texts_env \<Rightarrow> link_request \<Rightarrow> bool \<Rightarrow> StateMutation" where
  "link_mutation e tx r created =
     new_mutation (uid4 e 0) (clk e 1) (lnk_user_id r) (Some (lnk_thing_id r)) None (lnk_action_id r)
       (u ''SOURCE_LINKED'') (u ''SOURCE'') (lnk_source_id r) None
       [u ''relation_type'' \<mapsto> JStr (source_relation_value (lnk_relation_type r)),
        u ''relevance'' \<mapsto> tx_float tx (lnk_relevance r), u ''created'' \<mapsto> JBool created]
       (lnk_reason r) (Some (lnk_source_id r)) (lnk_idempotency_key r)"

definition TITLE_SOURCE_ADDED :: str where
  "TITLE_SOURCE_ADDED = [0x6DFB, 0x52A0, 0x6765, 0x6E90, 0xFF1A]"

definition link_event :: "env \<Rightarrow> link_request \<Rightarrow> Source \<Rightarrow> TimelineEvent" where
  "link_event e r x =
     new_timeline_event (uid4 e 1) (clk e 3) (lnk_user_id r) (lnk_thing_id r) (u ''SOURCE_ADDED'')
       (TITLE_SOURCE_ADDED @ src_title x) (clk e 2) (Some (lnk_source_id r)) (uid4 e 0) Map.empty"

definition link_to_thing :: "env \<Rightarrow> texts_env \<Rightarrow> link_request \<Rightarrow> store \<Rightarrow> bool op" where
  "link_to_thing e tx r s =
     bindE (require (unit_score (lnk_relevance r))
       (ValueError (u ''Source relevance must be between 0 and 1.''))) (\<lambda>_.
     if audit_get_mutation (lnk_user_id r) (lnk_idempotency_key r) s \<noteq> None then Inr (False, s)
     else
       bindE (require (things_get (lnk_user_id r) (lnk_thing_id r) (core s) \<noteq> None)
         (EntityNotFound (u ''Thing was not found.''))) (\<lambda>_.
       bindE (ofopt SOURCE_NOT_FOUND (sources_get (lnk_user_id r) (lnk_source_id r) (core s))) (\<lambda>x.
       case sources_add_relation
           \<lparr>tsr_thing_id = lnk_thing_id r, tsr_source_id = lnk_source_id r,
            tsr_relation_type = lnk_relation_type r, tsr_relevance = lnk_relevance r,
            tsr_created_at = clk e 0\<rparr> s of (created, s1) \<Rightarrow>
       bindE (record_audit (link_mutation e tx r created)
         (if created then Some (link_event e r x) else None) s1) (\<lambda>s2. Inr (created, s2)))))"

definition delete_file ::
  "env \<Rightarrow> uuid \<Rightarrow> uuid \<Rightarrow> str \<Rightarrow> str \<Rightarrow> str \<Rightarrow> library \<Rightarrow> SourceDTO lwork" where
  "delete_file e user_id sid action_id key reason L =
     bindW (commit (apply_delete_file e user_id sid action_id key reason L) L) (\<lambda>out L1.
       reads (bindE (ofopt (RuntimeError (u ''File delete did not persist.''))
           (sources_get_including_deleted user_id sid L1))
         (\<lambda>x. Inr (to_source_dto (wo_replayed out) x))) L1)"

end
