(* ===== verification/SourceWorkers.thy ===== *)
theory SourceWorkers
  imports SourceService
begin

text \<open>
  The workers of the sources and files, \<open>workers/source.py\<close> and \<open>workers/file_purge.py\<close>. A worker
  round is a sequence of units of work, each with an environment of its own.
\<close>

section \<open>The processing worker\<close>

record source_worker =
  swk_id :: str
  swk_lease_seconds :: rat
  swk_max_attempts :: int
  swk_retry_base :: rat
  swk_retry_max :: rat

text \<open>
  What extracting the content gave: a content, a \<open>SourceParsingError\<close> (also for a timeout), or any
  other exception (no parser, an unreadable object). \<open>lost\<close> says that the heartbeat task found the
  lease lost while the content was extracted.
\<close>

datatype extraction = Extracted ParsedSourceContent | ParsingFailed | ExtractionRaised

definition source_retry_delay :: "source_worker \<Rightarrow> int \<Rightarrow> rat" where
  "source_retry_delay w attempts =
     min (f64 (swk_retry_base w * 2 ^ nat (max (attempts - 1) 0))) (swk_retry_max w)"

definition give_up_source :: "source_worker \<Rightarrow> env \<Rightarrow> SourceProcessingJobDTO \<Rightarrow> library \<Rightarrow> bool lop" where
  "give_up_source w e job L =
     (let exhausted = (swk_max_attempts w \<le> spj_attempt_count job) in
      fail_processing e (spj_id job) (swk_id w)
        (if exhausted then u ''SOURCE_PROCESSING_EXHAUSTED'' else u ''SOURCE_PROCESSING_RETRYABLE'')
        (if exhausted then None else Some (source_retry_delay w (spj_attempt_count job))) L)"

definition finish_source ::
  "source_worker \<Rightarrow> source_config \<Rightarrow> (nat \<Rightarrow> env) \<Rightarrow> SourceProcessingJobDTO \<Rightarrow> extraction \<Rightarrow> bool
    \<Rightarrow> library \<Rightarrow> bool lwork" where
  "finish_source w cfg es job extracted lost L =
     (case extracted of
        ParsingFailed \<Rightarrow>
          bindW (commit (fail_processing (es 1) (spj_id job) (swk_id w) (u ''SOURCE_PARSE_FAILED'') None L) L)
            (\<lambda>_ L1. (Inr True, L1))
      | ExtractionRaised \<Rightarrow> bindW (commit (give_up_source w (es 1) job L) L) (\<lambda>_ L1. (Inr True, L1))
      | Extracted content \<Rightarrow>
          if lost then (Inr True, L)
          else case complete_processing (es 1) (es 2) cfg (spj_id job) (swk_id w) content L of
            Inr (_, L1) \<Rightarrow> (Inr True, L1)
          | Inl _ \<Rightarrow> bindW (commit (give_up_source w (es 3) job L) L) (\<lambda>_ L1. (Inr True, L1)))"

text \<open>\<open>between\<close> is what the other units of work did while the content was extracted.\<close>

definition source_run_once ::
  "source_worker \<Rightarrow> source_config \<Rightarrow> (nat \<Rightarrow> env) \<Rightarrow> (SourceProcessingJobDTO \<Rightarrow> extraction) \<Rightarrow> bool
    \<Rightarrow> (library \<Rightarrow> library) \<Rightarrow> library \<Rightarrow> bool lwork" where
  "source_run_once w cfg es extract lost between L =
     bindW (commit (claim_next_processing (es 0) (swk_id w) None (swk_lease_seconds w) (swk_max_attempts w) L) L)
       (\<lambda>job L1. case job of
          None \<Rightarrow> (Inr False, L1)
        | Some j \<Rightarrow> finish_source w cfg es j (extract j) lost (between L1))"

section \<open>The purge worker\<close>

definition purge_job_file :: "DurableJob \<Rightarrow> py_error + uuid" where
  "purge_job_file j = payload_uuid (u ''file_id'') (job_payload j)"

text \<open>The row is purged with the settling of the job; the object goes after the commit.\<close>

definition purge_run_once :: "str \<Rightarrow> rat \<Rightarrow> env \<Rightarrow> storage \<Rightarrow> (py_error + bool) \<times> storage" where
  "purge_run_once worker_id lease_seconds e S =
     (let now = clk e 1; L = library_of S in
      case claim_ready_jobs DurableJobKind.FILE_PURGE worker_id now (now + timedelta_seconds lease_seconds)
             1 (lb_core L) of
        ([], c) \<Rightarrow> (Inr False, S\<lparr>library_of := set_core c L\<rparr>)
      | (j # _, c) \<Rightarrow>
          (case purge_job_file j of
             Inl err \<Rightarrow> (Inl err, S)
           | Inr fid \<Rightarrow>
               (case apply_physical_purge e (job_user_id j) fid (set_core c L) of (key, L1) \<Rightarrow>
                case jobs_settle (job_id j) worker_id (job_claim_epoch j) DurableJobStatus.COMPLETED now None
                       (lb_core L1) of
                  (False, _) \<Rightarrow> (Inr False, S)
                | (True, c') \<Rightarrow>
                    (Inr True, \<lparr>library_of = set_core c' L1,
                       objects_of = (case key of None \<Rightarrow> objects_of S
                         | Some k \<Rightarrow> if k = [] then objects_of S else object_delete k (objects_of S))\<rparr>))))"

text \<open>
  \<open>scan_orphan_storage\<close>: \<open>known\<close> are the storage keys of the file rows when the scan began, \<open>keys\<close>
  the keys the storage lists later.
\<close>

definition ends_with :: "str \<Rightarrow> str \<Rightarrow> bool" where
  "ends_with suffix x \<longleftrightarrow> length suffix \<le> length x \<and> drop (length x - length suffix) x = suffix"

fun scan_orphans :: "nat \<Rightarrow> nat \<Rightarrow> str list \<Rightarrow> str list \<Rightarrow> objects \<Rightarrow> nat \<times> objects" where
  "scan_orphans limit removed known [] objs = (removed, objs)"
| "scan_orphans limit removed known (k # ks) objs =
     (if k \<in> set known \<or> ends_with (u ''.uploading'') k then scan_orphans limit removed known ks objs
      else let objs' = object_delete k objs in
        if limit \<le> Suc removed then (Suc removed, objs')
        else scan_orphans limit (Suc removed) known ks objs')"

definition scan_orphan_storage :: "nat \<Rightarrow> library \<Rightarrow> str list \<Rightarrow> objects \<Rightarrow> nat \<times> objects" where
  "scan_orphan_storage limit L keys objs = scan_orphans limit 0 (files_list_storage_keys L) keys objs"

fun purge_batch :: "nat \<Rightarrow> (nat \<Rightarrow> env) \<Rightarrow> str \<Rightarrow> rat \<Rightarrow> storage \<Rightarrow> (py_error + nat) \<times> storage" where
  "purge_batch 0 es worker_id lease S = (Inr 0, S)"
| "purge_batch (Suc n) es worker_id lease S =
     (case purge_run_once worker_id lease (es 0) S of
        (Inl err, S1) \<Rightarrow> (Inl err, S1)
      | (Inr False, S1) \<Rightarrow> (Inr 0, S1)
      | (Inr True, S1) \<Rightarrow>
          (case purge_batch n (\<lambda>k. es (Suc k)) worker_id lease S1 of
             (Inl err, S2) \<Rightarrow> (Inl err, S2)
           | (Inr m, S2) \<Rightarrow> (Inr (Suc m), S2)))"

end
