(* ===== verification/LibraryFrames.thy ===== *)
theory LibraryFrames
  imports SourceWorkers MemoryManager System
begin

text \<open>
  The library over the system: the committed units of work of the sources, files and memories, with
  the invariants they keep. A step of the inner system leaves the tables of the library alone, but
  for the things that the memories name.
\<close>

section \<open>What the system leaves alone\<close>

definition forget_thing :: "Memory \<Rightarrow> Memory" where
  "forget_thing m = m\<lparr>mem_thing_id := None\<rparr>"

text \<open>The memories are the same but for the things they name; the sources are the same.\<close>

definition library_same :: "store \<Rightarrow> store \<Rightarrow> bool" where
  "library_same s s' \<longleftrightarrow> map forget_thing (st_memories s') = map forget_thing (st_memories s) \<and>
     db_sources (core s') = db_sources (core s)"

lemma library_same_refl [simp]: "library_same s s"
  by (simp add: library_same_def)

lemma library_same_trans: "library_same s s' \<Longrightarrow> library_same s' s'' \<Longrightarrow> library_same s s''"
  by (simp add: library_same_def)

lemma library_sameI:
  "st_memories s' = st_memories s \<Longrightarrow> db_sources (core s') = db_sources (core s) \<Longrightarrow> library_same s s'"
  by (simp add: library_same_def)

lemma rebind_same:
  assumes "things_rebind_merged_references dup canon s = Inr s'"
  shows "library_same s s'"
  using assms
  by (auto simp: things_rebind_merged_references_def Let_def library_same_def upd_def forget_thing_def)

lemma state_write_same: "state_write s s' \<Longrightarrow> library_same s s'"
proof (induction rule: state_write.induct)
  case (rebind dup canon s s' uid)
  then show ?case
    by (blast intro: rebind_same)
qed (rule library_sameI; simp add: users_ensure_def users_ensure_exists_def set_things_def clear_thing_def
    things_delete_owned_components_def things_detach_tasks_def dates_unset_primary_def relations_add_def)+

lemma state_writes_same: "state_writes s s' \<Longrightarrow> library_same s s'"
  by (induction rule: rtranclp_induct) (auto intro: library_same_trans state_write_same)

lemma auto_write_library_same: "auto_write s s' \<Longrightarrow> library_same s s'"
  by (induction rule: auto_write.induct)
    (rule library_sameI; simp add: put_automation_def occurrences_update_def occurrences_fail_exhausted_def)+

lemma auto_writes_library_same: "auto_writes s s' \<Longrightarrow> library_same s s'"
  by (induction rule: rtranclp_induct) (auto intro: library_same_trans auto_write_library_same)

lemma complete_tool_in_sources:
  assumes "complete_tool_in show_json e uid rid action owner token tool f s = Inr (v, s', fx)" "f s = Inr (out, s1)"
  shows "library_same s1 s'"
proof -
  obtain c where c: "s' = s1\<lparr>core := c\<rparr>"
    "complete_mutation_tool show_json e uid rid action owner token tool (core_mutation f s) (core s)
      = Inr (v, c, fx)"
    using assms by (auto simp: complete_tool_in_def)
  have cm: "core_mutation f s (core s) = Inr (out, core s1)"
    using assms(2) by (simp add: core_mutation_def)
  obtain receipt where "tools_complete show_json rid action owner token receipt True (clk e 0) (core s1) = (True, c)"
    using c(2) unfolding complete_mutation_tool_def complete_personal_state_mutation_tool_def cm Let_def
    by (simp add: case_prod_Inr split: option.splits if_splits) (elim conjE, rule that)
  then have "db_sources c = db_sources (core s1)"
    by (auto simp: tools_complete_def Let_def)
  with c(1) show ?thesis
    by (intro library_sameI) simp_all
qed

lemma system_step_library_same:
  assumes "system_step e s s'" "state_keys s"
  shows "library_same s s'"
  using assms(1)
proof (cases rule: system_step.cases)
  case (mutation user_id key)
  then show ?thesis
    using state_mutation_once [OF mutation assms(2)] by (auto simp: once_def intro: state_writes_same)
next
  case (tool user_id key f show_json rid action owner token tool v fx)
  from tool(2) obtain out s1 where f: "f s = Inr (out, s1)"
    by (rule complete_tool_in_cases)
  have "once user_id key s s1"
    by (rule audited_once [OF mutation_op_audited [OF tool(1) f assms(2)]])
  then show ?thesis
    using complete_tool_in_sources [OF tool(2) f]
    by (auto simp: once_def intro: state_writes_same library_same_trans)
qed (auto intro: library_sameI auto_writes_library_same)

section \<open>Writes that keep the system's invariants\<close>

lemma outside_kept: "outside_writes c c' \<Longrightarrow> runtime_ok c \<Longrightarrow> runtime_ok c' \<and> jobs_kept c c'"
  using service_jobs_later [OF service_step.outside] runtime.step_inv [OF _ service_step.outside]
  unfolding jobs_later_def jobs_kept_def job_later_def by blast

lemma system_ok_core:
  assumes "system_ok s" "outside_writes (core s) c" "db_things c = st_things s"
  shows "system_ok (s\<lparr>core := c\<rparr>)"
proof -
  have ok: "state_ok s" "runtime_ok (core s)" "auto_ok s"
    using assms(1) by (simp_all add: system_ok_def)
  have "state_same s (s\<lparr>core := c\<rparr>)" "auto_same s (s\<lparr>core := c\<rparr>)"
    using assms(2,3) by (auto simp: state_same_def intro: auto_sameI)
  then show ?thesis
    using ok outside_kept [OF assms(2) ok(2)]
    by (auto simp: system_ok_def intro: state_same_ok auto_ok_same)
qed

lemma system_ok_writes:
  assumes "system_ok s" "state_writes s s'"
  shows "system_ok s'"
proof -
  have ok: "state_ok s" "runtime_ok (core s)" "auto_ok s"
    using assms(1) by (simp_all add: system_ok_def)
  show ?thesis
    using ok outside_kept [OF state_writes_core [OF assms(2)] ok(2)] state_writes_auto_same [OF assms(2)]
      state_writes_ok [OF assms(2) ok(1)]
    by (auto simp: system_ok_def intro: auto_ok_same)
qed

lemma system_ok_memories: "system_ok s \<Longrightarrow> system_ok (s\<lparr>st_memories := ms\<rparr>)"
  by (auto simp: system_ok_def jobs_kept_def state_same_def intro: auto_ok_same [OF _ auto_sameI]
      state_same_ok [of s])

lemma system_ok_link:
  assumes "system_ok s" "live s (tsr_thing_id r)"
  shows "system_ok (s\<lparr>st_thing_sources := st_thing_sources s @ [r]\<rparr>)"
proof -
  let ?s = "s\<lparr>st_thing_sources := st_thing_sources s @ [r]\<rparr>"
  have "referred ?s = insert (tsr_thing_id r) (referred s)"
    by (auto simp: referred_def)
  then have "state_ok ?s"
    using assms by (simp add: system_ok_def state_ok_def state_keys_def state_rows_def state_refs_def
        audit_ok_def live_def live_for_def)
  moreover have "auto_ok ?s"
    using assms(1) by (auto simp: system_ok_def jobs_kept_def intro: auto_ok_same [OF _ auto_sameI])
  ultimately show ?thesis
    using assms(1) by (simp add: system_ok_def)
qed

text \<open>Sources and users may change, and jobs of the library be added.\<close>

lemma sources_outside: "outside_write c (c\<lparr>db_sources := xs\<rparr>)"
  by (rule outside_write.tables) (auto simp: same_runtime_def rebind_threads_def intro!: exI [of _ thr_active_thing_id] map_idI)

lemma users_outside: "outside_write c (users_ensure_exists now user_id c)"
  by (rule outside_write.tables [OF _ users_ensure_grow]) (auto simp: users_ensure_exists_def same_runtime_def
      rebind_threads_def intro!: exI [of _ thr_active_thing_id] map_idI)

end
