(* ===== verification/MemoryInvariants.thy ===== *)
theory MemoryInvariants
  imports MemoryManager LibraryFrames
begin

text \<open>
  Every unit of work on the memories keeps their invariant, and what the operations do to the rows:
  the replaced profile, the forgotten content.
\<close>

section \<open>Changes of one memory\<close>

definition same_memory_row :: "Memory \<Rightarrow> Memory \<Rightarrow> bool" where
  "same_memory_row m m' \<longleftrightarrow> mem_id m' = mem_id m \<and> mem_user_id m' = mem_user_id m \<and>
     mem_memory_type m' = mem_memory_type m \<and> mem_profile_key m' = mem_profile_key m \<and>
     mem_valid_from m' = mem_valid_from m \<and> mem_valid_until m' = mem_valid_until m \<and>
     mem_idempotency_key m' = mem_idempotency_key m"

lemma supersede_row:
  "memory_supersede now m = Inr m' \<Longrightarrow> same_memory_row m m' \<and> mem_status m' = MemoryStatus.SUPERSEDED \<and>
    mem_version m' = mem_version m + 1 \<and> mem_content m' = mem_content m \<and> (memory_ok m \<longrightarrow> memory_ok m')"
  by (auto simp: memory_supersede_def same_memory_row_def memory_ok_def memory_check_def split: if_splits)

lemma delete_row:
  "same_memory_row m (memory_delete now m) \<and> (memory_ok m \<longrightarrow> memory_ok (memory_delete now m)) \<and>
    mem_content (memory_delete now m) = mem_content m \<and> mem_status (memory_delete now m) = MemoryStatus.DELETED"
  by (auto simp: memory_delete_def same_memory_row_def memory_ok_def memory_check_def)

lemma revise_row:
  assumes "memory_revise now content summary importance confidence m = Inr m'"
    and "\<And>x. importance = Some x \<Longrightarrow> unit_score x" "\<And>x. confidence = Some x \<Longrightarrow> unit_score x"
  shows "same_memory_row m m'" "mem_version m' = mem_version m + 1" "memory_ok m \<Longrightarrow> memory_ok m'"
    "mem_status m' = MemoryStatus.ACTIVE"
  using assms
  by (auto simp: memory_revise_def same_memory_row_def memory_ok_def memory_check_def Let_def split: if_splits option.splits)

lemma changed_row:
  assumes "changed_memory now c m = Inr m'" "check_change c = Inr ()"
  shows "same_memory_row m m' \<and> mem_version m' = mem_version m + 1 \<and> (memory_ok m \<longrightarrow> memory_ok m')"
proof (cases "mch_supersede c")
  case True
  then show ?thesis
    using assms supersede_row by (auto simp: changed_memory_def)
next
  case False
  have "unit_score x" if "mch_importance c = Some x \<or> mch_confidence c = Some x" for x
    using assms(2) that by (auto simp: check_change_def)
  then show ?thesis
    using assms(1) False revise_row [of now "mch_content c" "mch_summary c" "mch_importance c" "mch_confidence c" m m']
    by (simp add: changed_memory_def)
qed

lemma copy_same: "same_memory_row m m' \<Longrightarrow> copy_memory m' m = m'\<lparr>
    mem_thing_id := mem_thing_id m, mem_source_ids := mem_source_ids m, mem_embedding := mem_embedding m,
    mem_provenance_run_id := mem_provenance_run_id m, mem_source_message_ids := mem_source_message_ids m,
    mem_created_at := mem_created_at m, mem_last_accessed_at := mem_last_accessed_at m\<rparr>"
  by (simp add: copy_memory_def same_memory_row_def)

lemma copy_ok: "same_memory_row m m' \<Longrightarrow> memory_ok m' \<Longrightarrow> memory_ok (copy_memory m' m)"
  by (simp add: copy_memory_def same_memory_row_def memory_ok_def memory_check_def)

text \<open>The guarded update of a row by a change of that row.\<close>

lemma update_row_inv:
  assumes inv: "memories_inv L" and m: "m \<in> set (lb_memories L)" and m': "same_memory_row m m'" "memory_ok m'"
    and upd: "memories_update m' v L = Inr (won, L')"
  shows "memories_inv L'"
proof (rule memories_update_inv [OF inv upd])
  fix r assume "row mem_id (mem_id m') (lb_memories L) = Some r"
  then have "r = m"
    using keyed_row [OF memories_invD(1) [OF inv] m] m'(1) by (simp add: same_memory_row_def)
  with m' show "memory_ok (copy_memory m' r)"
    by (simp add: copy_ok)
qed

lemma memories_update_others:
  assumes "memories_update m' v L = Inr (won, L')"
  shows "state L' = (state L)\<lparr>st_memories := lb_memories L'\<rparr>" "lb_suppressions L' = lb_suppressions L"
    "lb_memory_ops L' = lb_memory_ops L"
    "L' = set_memories (snd (cas_rows mem_id mem_version copy_memory m' v (lb_memories L))) L"
  using assms by (auto simp: memories_update_def set_memories_def split: prod.splits if_splits)

lemma versioned_inv:
  assumes inv: "memories_inv L" and run: "versioned_memory user_id mid v f L = Inr (m', L')"
    and f: "\<And>m m'. f m = Inr m' \<Longrightarrow> same_memory_row m m' \<and> (memory_ok m \<longrightarrow> memory_ok m')"
  shows "memories_inv L'"
proof -
  from run obtain m where m: "memories_get user_id mid L = Some m" "f m = Inr m'"
      "memories_update m' v L = Inr (True, L')"
    by (auto simp: versioned_memory_def split: prod.splits)
  then have "m \<in> set (lb_memories L)"
    by (auto simp: memories_get_def dest: sel1_SomeD)
  moreover have "memory_ok m"
    using memories_invD(4) [OF inv] calculation by (simp add: list_all_iff)
  ultimately show ?thesis
    using update_row_inv [OF inv _ _ _ m(3)] f [OF m(2)] by blast
qed

section \<open>The operations\<close>

lemma forget_inv:
  assumes "memories_inv L" "apply_forget_memory e tx user_id mid v key L = Inr (out, L')"
  shows "memories_inv L'"
proof (cases "memories_get_operation_version user_id key L")
  case None
  with assms(2) obtain m L1 L2 where
    "versioned_memory user_id mid v (Inr \<circ> memory_delete (clk e 0)) L = Inr (m, L1)"
    "suppressions_record (uid4 e 0) user_id (memory_content_fingerprint tx (mem_content m)) (Some (mem_id m)) L1 = Inr L2"
    "memories_record_operation (memory_op user_id key m) L2 = Inr L'"
    by (auto simp: apply_forget_memory_def)
  moreover have "memories_inv L1"
    by (rule versioned_inv [OF assms(1) calculation(1)]) (use delete_row in auto)
  ultimately show ?thesis
    by (blast intro: suppressions_record_inv record_operation_inv)
qed (use assms in \<open>auto simp: apply_forget_memory_def\<close>)

lemma revise_inv:
  assumes "memories_inv L" "revise_memory e user_id mid v c key L = Inr (d, L')" "check_change c = Inr ()"
  shows "memories_inv L'"
proof (cases "memories_get_operation_version user_id key L")
  case None
  with assms(2) obtain m L1 where
    "versioned_memory user_id mid v (changed_memory (clk e 0) c) L = Inr (m, L1)"
    "memories_record_operation (memory_op user_id key m) L1 = Inr L'"
    by (auto simp: revise_memory_def)
  moreover have "memories_inv L1"
    by (rule versioned_inv [OF assms(1) calculation(1)]) (use changed_row assms(3) in auto)
  ultimately show ?thesis
    by (blast intro: record_operation_inv)
qed (use assms in \<open>auto simp: revise_memory_def\<close>)

lemma check_inputD:
  assumes "check_memory_input tx i = Inr ()"
  shows "strip (mi_content i) \<noteq> []" "strip (mi_summary i) \<noteq> []" "unit_score (mi_importance i)"
    "unit_score (mi_confidence i)" "valid_range (mi_valid_from i) (mi_valid_until i)"
    "given (normalized_profile_key tx (mi_profile_key i)) \<Longrightarrow> mi_memory_type i = MemoryType.PROFILE"
  using assms by (auto simp: check_memory_input_def Let_def)

lemma new_memory_ok:
  "check_memory_input tx i = Inr () \<Longrightarrow> memory_ok (new_memory e tx user_id i s)"
  using check_inputD [of tx i] by (auto simp: memory_ok_def new_memory_def memory_check_def given_def)

text \<open>What superseding the active profile of a key does.\<close>

lemma supersede_profile_cases:
  assumes "supersede_profile now user_id key L = Inr (s, L')"
  obtains (none) "s = None" "L' = L" "given key \<Longrightarrow> memories_get_active_profile user_id (the key) L = None"
  | (old) m m' where "given key" "memories_get_active_profile user_id (the key) L = Some m"
    "m \<in> set (lb_memories L)" "memory_supersede now m = Inr m'"
    "memories_update m' (mem_version m) L = Inr (True, L')" "s = Some (mem_id m)"
proof (cases "given key")
  case True
  show thesis
  proof (cases "memories_get_active_profile user_id (the key) L")
    case None
    with True assms show thesis
      by (intro none) (auto simp: supersede_profile_def)
  next
    case (Some m)
    then have "m \<in> set (lb_memories L)"
      by (auto simp: memories_get_active_profile_def dest: sel1_SomeD)
    with True Some assms show thesis
      by (auto simp: supersede_profile_def split: prod.splits intro: old)
  qed
qed (use assms in \<open>auto simp: supersede_profile_def intro: none\<close>)

lemma supersede_profile_inv:
  assumes "memories_inv L" "supersede_profile now user_id key L = Inr (s, L')"
  shows "memories_inv L'"
  using assms(2)
proof (cases rule: supersede_profile_cases)
  case (old m m')
  have "memory_ok m"
    using memories_invD(4) [OF assms(1)] old(3) by (simp add: list_all_iff)
  then show ?thesis
    using update_row_inv [OF assms(1) old(3) _ _ old(5)] supersede_row [OF old(4)] by blast
qed (use assms in simp)

lemma insert_inv:
  assumes inv: "memories_inv L" and run: "insert_memory e tx user_id i L = Inr (out, L')"
    and check: "check_memory_input tx i = Inr ()"
  shows "memories_inv L'"
proof -
  let ?L0 = "L\<lparr>state := users_ensure (clk e 0) user_id (state L)\<rparr>"
  from run obtain s L1 L2 where
    steps: "supersede_profile (clk e 1) user_id (normalized_profile_key tx (mi_profile_key i)) ?L0 = Inr (s, L1)"
      "memories_add (new_memory e tx user_id i s) L1 = Inr L2"
      "L' = suppressions_clear user_id (memory_content_fingerprint tx (strip (mi_content i))) L2"
    by (auto simp: insert_memory_def Let_def)
  have "memories_inv ?L0"
    using inv by (subst memories_inv_eq) (simp_all add: users_ensure_def)
  with steps show ?thesis
    by (auto intro: suppressions_clear_inv memories_add_inv supersede_profile_inv new_memory_ok [OF check])
qed

lemma create_cases:
  assumes "apply_create_memory e tx user_id i rec L = Inr (out, L')"
  obtains (kept) "L' = L" | (inserted) "check_memory_input tx i = Inr ()" "insert_memory e tx user_id i L = Inr (out, L')"
    "memories_get_by_idempotency user_id (mi_idempotency_key i) L = None"
    "rec \<Longrightarrow> \<not> is_suppressed user_id (memory_content_fingerprint tx (strip (mi_content i))) L"
  using assms by (auto simp: apply_create_memory_def Let_def split: if_splits option.splits)

lemma create_inv:
  assumes "memories_inv L" "apply_create_memory e tx user_id i rec L = Inr (out, L')"
  shows "memories_inv L'"
  using assms(2)
proof (cases rule: create_cases)
  case inserted
  then show ?thesis
    by (intro insert_inv [OF assms(1)])
qed (use assms in simp)

section \<open>Things that go\<close>

lemma forget_thing_fields:
  "mem_id (forget_thing m) = mem_id m" "mem_idempotency_key (forget_thing m) = mem_idempotency_key m"
  "mem_user_id (forget_thing m) = mem_user_id m" "memory_ok (forget_thing m) = memory_ok m"
  "profile_clash (forget_thing x) (forget_thing m) = profile_clash x m"
  by (simp_all add: forget_thing_def memory_ok_def memory_check_def profile_clash_def active_profile_def)

lemma clash_free_map: "(\<And>x y. c (f x) (f y) = c x y) \<Longrightarrow> clash_free c (map f t) = clash_free c t"
  by (induction t) auto

lemma memories_inv_same:
  assumes "memories_inv L" "library_same (state L) (state L')" "lb_memory_ops L' = lb_memory_ops L"
    "lb_suppressions L' = lb_suppressions L"
  shows "memories_inv L'"
proof -
  have same: "map forget_thing (lb_memories L') = map forget_thing (lb_memories L)"
    using assms(2) by (simp add: library_same_def)
  have along: "map f (lb_memories L') = map f (lb_memories L)" if "\<And>m. f (forget_thing m) = f m" for f :: "Memory \<Rightarrow> 'x"
    using arg_cong [OF same, of "map f"] that by (simp add: comp_def)
  have "map mem_id (lb_memories L') = map mem_id (lb_memories L)"
    "map (\<lambda>m. (mem_user_id m, mem_idempotency_key m)) (lb_memories L') =
      map (\<lambda>m. (mem_user_id m, mem_idempotency_key m)) (lb_memories L)"
    by (rule along; simp add: forget_thing_fields)+
  moreover have "list_all memory_ok (lb_memories L')"
  proof -
    have "map memory_ok (lb_memories L') = map memory_ok (lb_memories L)"
      by (rule along) (simp add: forget_thing_fields)
    then have "memory_ok ` set (lb_memories L') = memory_ok ` set (lb_memories L)"
      by (metis set_map)
    then show ?thesis
      using memories_invD(4) [OF assms(1)] unfolding list_all_iff by (metis imageE imageI)
  qed
  moreover have "clash_free profile_clash (lb_memories L')"
    using memories_invD(2) [OF assms(1)] same
    by (metis clash_free_map forget_thing_fields(5))
  ultimately show ?thesis
    using assms by (simp add: memories_inv_def keyed_def)
qed

end
