(* ===== verification/SourceInvariants.thy ===== *)
theory SourceInvariants
  imports SourceWorkers
begin

text \<open>
  The invariant of the sources and of the files that mirror them, and that every unit of work of the
  sources keeps it.
\<close>

section \<open>The invariant\<close>

text \<open>A row: what its status says about the claim, the text and the deletion.\<close>

definition source_row_ok :: "Source \<Rightarrow> bool" where
  "source_row_ok x \<longleftrightarrow>
     (src_claim_owner x = None \<longleftrightarrow> src_lease_expires_at x = None) \<and>
     (src_processing_status x = ProcessingStatus.READY \<longrightarrow>
        src_extracted_text x \<noteq> None \<and> src_claim_owner x = None \<and> src_deleted_at x = None) \<and>
     (src_deleted_at x \<noteq> None \<longrightarrow> src_processing_status x = ProcessingStatus.FAILED \<and>
        src_extracted_text x = None) \<and>
     (src_processing_status x = ProcessingStatus.FAILED \<and> src_deleted_at x = None \<longrightarrow> src_claim_owner x = None) \<and>
     0 \<le> src_attempt_count x"

text \<open>The file of a source.\<close>

definition mirrors :: "File \<Rightarrow> Source \<Rightarrow> bool" where
  "mirrors f x \<longleftrightarrow> fil_id f = src_id x \<and> fil_owner_user_id f = src_user_id x \<and>
     fil_storage_key f = src_object_key x \<and> (fil_deleted_at f = None \<longleftrightarrow> src_deleted_at x = None) \<and>
     (fil_purged_at f \<noteq> None \<longrightarrow> fil_deleted_at f \<noteq> None)"

definition active_clash :: "FileProcessingGeneration \<Rightarrow> FileProcessingGeneration \<Rightarrow> bool" where
  "active_clash g h \<longleftrightarrow> gen_is_active g \<and> gen_is_active h \<and> gen_file_id g = gen_file_id h"

text \<open>What a reader sees of a chunk and of a segment.\<close>

type_synonym view = "int \<times> str \<times> int option \<times> int option \<times> int option"

definition chunk_view :: "SourceChunk \<Rightarrow> view" where
  "chunk_view c = (chk_ordinal c, chk_content c, Some (chk_char_start c), Some (chk_char_end c), chk_page_number c)"

definition segment_view :: "RetrievalSegment \<Rightarrow> view" where
  "segment_view x = (seg_segment_order x, seg_content x, locator_int (seg_locator x) (u ''char_start''),
     locator_int (seg_locator x) (u ''char_end''), locator_int (seg_locator x) (u ''page_number''))"

definition source_chunks :: "uuid \<Rightarrow> library \<Rightarrow> SourceChunk list" where
  "source_chunks sid L = filter (\<lambda>c. chk_source_id c = sid) (lb_chunks L)"

definition file_segments :: "uuid \<Rightarrow> library \<Rightarrow> RetrievalSegment list" where
  "file_segments fid L =
     filter (\<lambda>x. seg_file_id x = fid \<and> active_generation L (seg_generation_id x)) (lb_segments L)"

definition purge_jobs :: "db \<Rightarrow> (uuid \<times> jdict) set" where
  "purge_jobs c = (\<lambda>j. (job_user_id j, job_payload j)) `
     {j \<in> set (db_jobs c). job_kind j = DurableJobKind.FILE_PURGE}"

definition sources_keys :: "library \<Rightarrow> bool" where
  "sources_keys L \<longleftrightarrow> keyed src_id (lb_sources L) \<and> keyed fil_id (lb_files L) \<and>
     keyed chk_id (lb_chunks L) \<and> keyed (\<lambda>c. (chk_source_id c, chk_ordinal c)) (lb_chunks L) \<and>
     keyed gen_id (lb_generations L) \<and> clash_free active_clash (lb_generations L) \<and>
     keyed src_object_key (lb_sources L)"

definition sources_inv :: "library \<Rightarrow> bool" where
  "sources_inv L \<longleftrightarrow> sources_keys L \<and>
     (\<forall>x \<in> set (lb_sources L). source_row_ok x \<and> (\<exists>f \<in> set (lb_files L). mirrors f x) \<and>
        map segment_view (file_segments (src_id x) L) = map chunk_view (source_chunks (src_id x) L)) \<and>
     (\<forall>c \<in> set (lb_chunks L). \<exists>x \<in> set (lb_sources L). src_id x = chk_source_id c \<and>
        src_processing_status x = ProcessingStatus.READY) \<and>
     (\<forall>f \<in> set (lb_files L). fil_id f \<in> src_id ` set (lb_sources L)) \<and>
     (\<forall>x \<in> set (lb_segments L). \<exists>g \<in> set (lb_generations L).
        gen_id g = seg_generation_id x \<and> gen_file_id g = seg_file_id x) \<and>
     (\<forall>g \<in> set (lb_generations L). gen_file_id g \<in> src_id ` set (lb_sources L)) \<and>
     (\<forall>(uid, d) \<in> purge_jobs (lb_core L). \<exists>x \<in> set (lb_sources L).
        src_deleted_at x \<noteq> None \<and> d (u ''file_id'') = Some (juuid (src_id x)))"

lemma sources_invD:
  assumes "sources_inv L"
  shows "sources_keys L" "x \<in> set (lb_sources L) \<Longrightarrow> source_row_ok x"
    "x \<in> set (lb_sources L) \<Longrightarrow> \<exists>f \<in> set (lb_files L). mirrors f x"
    "x \<in> set (lb_sources L) \<Longrightarrow>
      map segment_view (file_segments (src_id x) L) = map chunk_view (source_chunks (src_id x) L)"
    "c \<in> set (lb_chunks L) \<Longrightarrow> \<exists>x \<in> set (lb_sources L). src_id x = chk_source_id c \<and>
        src_processing_status x = ProcessingStatus.READY"
    "f \<in> set (lb_files L) \<Longrightarrow> fil_id f \<in> src_id ` set (lb_sources L)"
    "y \<in> set (lb_segments L) \<Longrightarrow> \<exists>g \<in> set (lb_generations L).
        gen_id g = seg_generation_id y \<and> gen_file_id g = seg_file_id y"
    "g \<in> set (lb_generations L) \<Longrightarrow> gen_file_id g \<in> src_id ` set (lb_sources L)"
    "(uid, d) \<in> purge_jobs (lb_core L) \<Longrightarrow> \<exists>x \<in> set (lb_sources L).
        src_deleted_at x \<noteq> None \<and> d (u ''file_id'') = Some (juuid (src_id x))"
  using assms unfolding sources_inv_def by blast+

lemma sources_keysD:
  assumes "sources_keys L"
  shows "keyed src_id (lb_sources L)" "keyed fil_id (lb_files L)" "keyed chk_id (lb_chunks L)"
    "keyed (\<lambda>c. (chk_source_id c, chk_ordinal c)) (lb_chunks L)" "keyed gen_id (lb_generations L)"
    "clash_free active_clash (lb_generations L)" "keyed src_object_key (lb_sources L)"
  using assms by (simp_all add: sources_keys_def)

lemma sources_inv_empty [simp]: "sources_inv empty_library"
  by (simp add: sources_inv_def sources_keys_def empty_library_def empty_store_def empty_db_def purge_jobs_def)

text \<open>The tables the invariant speaks of.\<close>

lemma sources_inv_same:
  assumes "sources_inv L" "lb_sources L' = lb_sources L" "lb_chunks L' = lb_chunks L"
    "lb_files L' = lb_files L" "lb_generations L' = lb_generations L" "lb_segments L' = lb_segments L"
    "purge_jobs (lb_core L') \<subseteq> purge_jobs (lb_core L)"
  shows "sources_inv L'"
  using assms by (auto simp: sources_inv_def sources_keys_def file_segments_def source_chunks_def
      active_generation_def)

text \<open>
  A change of sources that keeps identity, owner, object and deletion, and makes none of them other
  than ready if it was.
\<close>

lemma sources_inv_upd:
  assumes inv: "sources_inv L"
    and f: "\<And>x. x \<in> set (lb_sources L) \<Longrightarrow> p x \<Longrightarrow> source_row_ok (f x) \<and> src_id (f x) = src_id x \<and>
      src_user_id (f x) = src_user_id x \<and> src_object_key (f x) = src_object_key x \<and>
      src_deleted_at (f x) = src_deleted_at x \<and> src_processing_status x \<noteq> ProcessingStatus.READY"
  shows "sources_inv (set_sources (upd p f (lb_sources L)) L)"
proof -
  let ?rows = "upd p f (lb_sources L)" and ?L = "set_sources (upd p f (lb_sources L)) L"
  have ids: "map src_id ?rows = map src_id (lb_sources L)" "map src_object_key ?rows = map src_object_key (lb_sources L)"
    unfolding upd_def map_map comp_def by (rule map_cong) (use f in auto)
  have origin: "\<exists>y \<in> set (lb_sources L). src_id y = src_id x \<and> src_user_id y = src_user_id x \<and>
      src_object_key y = src_object_key x \<and> src_deleted_at y = src_deleted_at x \<and> source_row_ok x"
    if "x \<in> set ?rows" for x
    using that sources_invD(2) [OF inv] f by (auto elim!: in_set_updE)
  have later: "\<exists>x \<in> set ?rows. src_id x = src_id y \<and> src_deleted_at x = src_deleted_at y \<and>
      (src_processing_status y = ProcessingStatus.READY \<longrightarrow> src_processing_status x = ProcessingStatus.READY)"
    if "y \<in> set (lb_sources L)" for y
    using that f [OF that] by (cases "p y") (auto simp: set_upd intro!: bexI [of _ y] bexI [of _ "if p y then f y else y"])
  have views: "file_segments i ?L = file_segments i L" "source_chunks i ?L = source_chunks i L" for i
    by (simp_all add: file_segments_def source_chunks_def active_generation_def)
  show ?thesis
    unfolding sources_inv_def
  proof (intro conjI ballI)
    show "sources_keys ?L"
      using sources_invD(1) [OF inv] ids by (simp add: sources_keys_def keyed_def)
    fix x assume "x \<in> set (lb_sources ?L)"
    then obtain y where y: "y \<in> set (lb_sources L)" "src_id y = src_id x" "src_user_id y = src_user_id x"
      "src_object_key y = src_object_key x" "src_deleted_at y = src_deleted_at x" "source_row_ok x"
      using origin [of x] by auto
    show "source_row_ok x"
      by fact
    show "\<exists>f \<in> set (lb_files ?L). mirrors f x"
      using sources_invD(3) [OF inv y(1)] y by (auto simp: mirrors_def)
    show "map segment_view (file_segments (src_id x) ?L) = map chunk_view (source_chunks (src_id x) ?L)"
      using sources_invD(4) [OF inv y(1)] y by (simp add: views)
  next
    fix c assume "c \<in> set (lb_chunks ?L)"
    then show "\<exists>x \<in> set (lb_sources ?L). src_id x = chk_source_id c \<and>
        src_processing_status x = ProcessingStatus.READY"
      using sources_invD(5) [OF inv, of c] later by fastforce
  next
    fix f assume "f \<in> set (lb_files ?L)"
    then show "fil_id f \<in> src_id ` set (lb_sources ?L)"
      using sources_invD(6) [OF inv, of f] arg_cong [OF ids(1), of set] by simp
  next
    fix y assume "y \<in> set (lb_segments ?L)"
    then show "\<exists>g \<in> set (lb_generations ?L). gen_id g = seg_generation_id y \<and> gen_file_id g = seg_file_id y"
      using sources_invD(7) [OF inv, of y] by simp
  next
    fix g assume "g \<in> set (lb_generations ?L)"
    then show "gen_file_id g \<in> src_id ` set (lb_sources ?L)"
      using sources_invD(8) [OF inv, of g] arg_cong [OF ids(1), of set] by simp
  next
    fix j assume "j \<in> purge_jobs (lb_core ?L)"
    then show "case j of (uid, d) \<Rightarrow> \<exists>x \<in> set (lb_sources ?L).
        src_deleted_at x \<noteq> None \<and> d (u ''file_id'') = Some (juuid (src_id x))"
      using sources_invD(9) [OF inv] later by (cases j) (fastforce simp: purge_jobs_def)
  qed
qed

section \<open>Claims\<close>

lemma held_update_inv:
  assumes "sources_inv L" "\<And>x. src_processing_status x = ProcessingStatus.PENDING \<Longrightarrow> src_claim_owner x \<noteq> None \<Longrightarrow>
      source_row_ok x \<Longrightarrow> source_row_ok (f x) \<and> src_id (f x) = src_id x \<and> src_user_id (f x) = src_user_id x \<and>
      src_object_key (f x) = src_object_key x \<and> src_deleted_at (f x) = src_deleted_at x"
  shows "sources_inv (snd (held_update sid owner f L))"
  unfolding held_update_def snd_conv
  by (rule sources_inv_upd [OF assms(1)])
    (use assms(2) sources_invD(2) [OF assms(1)] in \<open>auto simp: held_by_def\<close>)

lemma renew_inv:
  assumes "sources_inv L" "renew_processing_lease e sid owner lease L = Inr (b, L')"
  shows "sources_inv L'"
proof -
  have "sources_inv (snd (sources_renew_processing_lease sid owner now until L))" for now until
    unfolding sources_renew_processing_lease_def
    by (rule held_update_inv [OF assms(1)]) (auto simp: source_row_ok_def)
  then show ?thesis
    using assms by (auto simp: renew_processing_lease_def split: prod.splits bool.splits) (metis snd_conv)
qed

lemma fail_inv:
  assumes "sources_inv L" "fail_processing e sid owner code delay L = Inr (b, L')"
  shows "sources_inv L'"
proof -
  have "sources_inv (snd (sources_fail_processing sid owner code now retry L))" for now retry
    unfolding sources_fail_processing_def
    by (rule held_update_inv [OF assms(1)]) (auto simp: source_row_ok_def fail_source_def)
  then show ?thesis
    using assms by (auto simp: fail_processing_def split: prod.splits bool.splits) (metis snd_conv)
qed

text \<open>A claim takes the oldest source that can be claimed, or nothing when there is none.\<close>

lemma sources_claim_cases:
  assumes "sources_claim_next_processing owner user now lease mimes attempts L = (r, L')"
    "keyed src_id (lb_sources L)"
  obtains (idle) "r = None" "L' = L" "\<forall>x \<in> set (lb_sources L). \<not> claimable user now mimes attempts x"
  | (taken) c where "c \<in> set (lb_sources L)" "claimable user now mimes attempts c"
    "\<forall>x \<in> set (lb_sources L). claimable user now mimes attempts x \<longrightarrow>
       (src_created_at c, src_id c) \<le> (src_created_at x, src_id x)"
    "r = Some (claim_source owner now lease c)"
    "L' = set_sources (upd (\<lambda>x. src_id x = src_id c) (claim_source owner now lease) (lb_sources L)) L"
proof -
  let ?p = "claimable user now mimes attempts"
  let ?due = "sort_key (\<lambda>x. (src_created_at x, src_id x)) (sel ?p (lb_sources L))"
  show thesis
  proof (cases ?due)
    case Nil
    have "set ?due = {x \<in> set (lb_sources L). ?p x}"
      by (simp add: sel_def)
    then have "\<forall>x \<in> set (lb_sources L). \<not> ?p x"
      unfolding Nil by auto
    then show thesis
      using assms(1) Nil by (intro idle) (simp_all add: sources_claim_next_processing_def)
  next
    case (Cons c cs)
    have set: "set (c # cs) = {x \<in> set (lb_sources L). ?p x}"
      unfolding Cons [symmetric] by (simp add: sel_def)
    then have c: "c \<in> set (lb_sources L)" "?p c"
      by auto
    have "sorted (map (\<lambda>x. (src_created_at x, src_id x)) (c # cs))"
      unfolding Cons [symmetric] by simp
    then have least: "\<forall>x \<in> set (lb_sources L). ?p x \<longrightarrow> (src_created_at c, src_id c) \<le> (src_created_at x, src_id x)"
      using set by auto
    have "row src_id (src_id c) (upd (\<lambda>x. src_id x = src_id c) (claim_source owner now lease) (lb_sources L))
        = Some (claim_source owner now lease c)"
      using keyed_row [OF assms(2) c(1)] by (subst row_upd) (simp_all add: claim_source_def)
    then show thesis
      using assms(1) Cons by (intro taken [OF c least])
        (simp_all add: sources_claim_next_processing_def Let_def row_def [symmetric])
  qed
qed

lemma claim_next_cases:
  assumes "claim_next_processing e owner user lease attempts L = Inr (j, L')" "keyed src_id (lb_sources L)"
  obtains (idle) "j = None" "L' = L"
    "\<forall>x \<in> set (lb_sources L). \<not> claimable user (clk e 0) PROCESSABLE_MIME_TYPES attempts x"
  | (taken) c d where "c \<in> set (lb_sources L)" "claimable user (clk e 0) PROCESSABLE_MIME_TYPES attempts c"
    "\<forall>x \<in> set (lb_sources L). claimable user (clk e 0) PROCESSABLE_MIME_TYPES attempts x \<longrightarrow>
       (src_created_at c, src_id c) \<le> (src_created_at x, src_id x)"
    "j = Some d" "spj_id d = src_id c" "spj_attempt_count d = src_attempt_count c + 1"
    "L' = set_sources (upd (\<lambda>x. src_id x = src_id c) (claim_source owner (clk e 0)
       (clk e 0 + timedelta_seconds lease)) (lb_sources L)) L"
proof -
  obtain r L1 where claim: "sources_claim_next_processing owner user (clk e 0)
      (clk e 0 + timedelta_seconds lease) PROCESSABLE_MIME_TYPES attempts L = (r, L1)"
    by (cases "sources_claim_next_processing owner user (clk e 0)
      (clk e 0 + timedelta_seconds lease) PROCESSABLE_MIME_TYPES attempts L")
  from claim assms(2) show thesis
  proof (cases rule: sources_claim_cases)
    case idle
    then show thesis
      using assms(1) claim by (intro that(1)) (auto simp: claim_next_processing_def split: if_splits)
  next
    case (taken c)
    then show thesis
      using assms(1) claim
      by (intro that(2) [OF taken(1-3)]) (auto simp: claim_next_processing_def claim_source_def split: if_splits)
  qed
qed

lemma claim_inv:
  assumes inv: "sources_inv L" and claim: "claim_next_processing e owner user lease attempts L = Inr (j, L')"
  shows "sources_inv L'"
  using claim sources_keysD(1) [OF sources_invD(1) [OF inv]]
proof (cases rule: claim_next_cases)
  case (taken c d)
  have "x = c" if "x \<in> set (lb_sources L)" "src_id x = src_id c" for x
    using keyed_unique [OF sources_keysD(1) [OF sources_invD(1) [OF inv]] that(1) taken(1) that(2)] .
  then have "source_row_ok x \<and> claimable user (clk e 0) PROCESSABLE_MIME_TYPES attempts x"
    if "x \<in> set (lb_sources L)" "src_id x = src_id c" for x
    using that taken(2) sources_invD(2) [OF inv taken(1)] by blast
  then show ?thesis
    unfolding taken(7)
    by (intro sources_inv_upd [OF inv]) (fastforce simp: claim_source_def source_row_ok_def claimable_def)
qed (use inv in simp)

section \<open>Uploads\<close>

lemma uploaded_source_fields:
  "source_row_ok (uploaded_source e cfg r ty key bytes)" "src_id (uploaded_source e cfg r ty key bytes) = uid4 e 1"
  "src_deleted_at (uploaded_source e cfg r ty key bytes) = None"
  "src_user_id (uploaded_source e cfg r ty key bytes) = upl_user_id r"
  "src_object_key (uploaded_source e cfg r ty key bytes) = key"
  by (auto simp: uploaded_source_def source_row_ok_def source_mark_failed_def Let_def)

text \<open>The rows an upload adds: a source, the file that mirrors it, and perhaps an attachment.\<close>

lemma store_upload_cases:
  assumes inv: "sources_inv L" and upload: "store_upload e r x L = Inr ((), L')"
  obtains atts where "L' = (set_sources (lb_sources L @ [x])
      (set_core (users_ensure_exists (clk e 2) (upl_user_id r) (lb_core L)) L))
      \<lparr>lb_files := lb_files L @ [file_from_source x], lb_attachments := atts\<rparr>"
    "\<forall>y \<in> set (lb_sources L). \<not> source_clash y x" "\<forall>f \<in> set (lb_files L). fil_id f \<noteq> src_id x"
proof -
  let ?c = "users_ensure_exists (clk e 2) (upl_user_id r) (lb_core L)"
  let ?L1 = "set_sources (lb_sources L @ [x]) (set_core ?c L)"
  have src: "db_sources ?c = lb_sources L"
    by (simp add: users_ensure_exists_def)
  from upload obtain L2 where add: "\<forall>y \<in> set (lb_sources L). \<not> source_clash y x"
      "mirror_source_upload x ?L1 = Inr L2"
    and rest: "L' = L2 \<or> (\<exists>a. files_add_message_attachment a L2 = Inr L')"
    by (auto simp: store_upload_def sources_add_def src split: option.splits)
  from rest have att: "\<exists>atts. L' = L2\<lparr>lb_attachments := atts\<rparr>"
  proof (elim disjE exE)
    assume "L' = L2"
    then show ?thesis
      by (intro exI [of _ "lb_attachments L2"]) simp
  qed (auto simp: files_add_message_attachment_def)
  have none: "fil_id f \<noteq> src_id x" if "f \<in> set (lb_files L)" for f
    using sources_invD(6) [OF inv that] add(1) by (auto simp: source_clash_def)
  then have "files_get_including_deleted (src_user_id x) (src_id x) ?L1 = None"
    by (auto simp: files_get_including_deleted_def sel1_None)
  then have "L2 = ?L1\<lparr>lb_files := lb_files L @ [file_from_source x]\<rparr>"
    using add(2) by (auto simp: mirror_source_upload_def files_add_def)
  with att add(1) none show thesis
    by (auto intro!: that)
qed

lemma upload_inv:
  assumes inv: "sources_inv L" and upload: "store_upload e r x L = Inr ((), L')"
    and x: "source_row_ok x" "src_deleted_at x = None"
  shows "sources_inv L'"
proof -
  obtain atts where L': "L' = (set_sources (lb_sources L @ [x])
      (set_core (users_ensure_exists (clk e 2) (upl_user_id r) (lb_core L)) L))
      \<lparr>lb_files := lb_files L @ [file_from_source x], lb_attachments := atts\<rparr>"
    and fresh: "\<forall>y \<in> set (lb_sources L). \<not> source_clash y x" "\<forall>f \<in> set (lb_files L). fil_id f \<noteq> src_id x"
    by (rule store_upload_cases [OF inv upload])
  have tables: "lb_sources L' = lb_sources L @ [x]" "lb_files L' = lb_files L @ [file_from_source x]"
    "lb_chunks L' = lb_chunks L" "lb_generations L' = lb_generations L" "lb_segments L' = lb_segments L"
    "purge_jobs (lb_core L') = purge_jobs (lb_core L)"
    unfolding L' by (simp_all add: purge_jobs_def users_ensure_exists_def)
  have views: "file_segments i L' = file_segments i L" "source_chunks i L' = source_chunks i L" for i
    by (simp_all add: file_segments_def source_chunks_def active_generation_def tables)
  have empty: "file_segments (src_id x) L = []" "source_chunks (src_id x) L = []"
  proof -
    show chunks: "source_chunks (src_id x) L = []"
      using sources_invD(5) [OF inv] fresh(1)
      by (fastforce simp: source_chunks_def filter_empty_conv source_clash_def)
    show "file_segments (src_id x) L = []"
      using sources_invD(7,8) [OF inv] fresh(1)
      by (fastforce simp: file_segments_def filter_empty_conv source_clash_def)
  qed
  have new: "mirrors (file_from_source x) x"
    using x(2) by (simp add: mirrors_def file_from_source_def)
  show ?thesis
    unfolding sources_inv_def
  proof (intro conjI ballI)
    show "sources_keys L'"
      using sources_invD(1) [OF inv] fresh
      by (auto simp: sources_keys_def tables source_clash_def file_from_source_def)
    fix y assume "y \<in> set (lb_sources L')"
    then have y: "y \<in> set (lb_sources L) \<or> y = x"
      by (auto simp: tables)
    show "source_row_ok y" "\<exists>f \<in> set (lb_files L'). mirrors f y"
      "map segment_view (file_segments (src_id y) L') = map chunk_view (source_chunks (src_id y) L')"
      using y sources_invD(2-4) [OF inv, of y] x(1) new by (auto simp: tables views empty)
  next
    fix j assume "j \<in> purge_jobs (lb_core L')"
    then show "case j of (uid, d) \<Rightarrow> \<exists>x \<in> set (lb_sources L').
        src_deleted_at x \<noteq> None \<and> d (u ''file_id'') = Some (juuid (src_id x))"
      using sources_invD(9) [OF inv] by (cases j) (auto simp: tables)
  qed (use sources_invD(5-8) [OF inv] in \<open>auto simp: tables file_from_source_def\<close>)
qed

end
