(* ===== verification/SourceCompletion.thy ===== *)
theory SourceCompletion
  imports SourceInvariants StateMachine
begin

text \<open>
  The completion of a source: its chunks are stored once, and the file that mirrors it gets a new
  generation whose segments say what the chunks say.
\<close>

section \<open>Segments and chunks\<close>

text \<open>The metadata of a chunk does not contradict its columns.\<close>

definition plain_chunk :: "SourceChunk \<Rightarrow> bool" where
  "plain_chunk c \<longleftrightarrow> chk_metadata c (u ''char_start'') = None \<and> chk_metadata c (u ''char_end'') = None \<and>
     (case chk_metadata c (u ''page_number'') of None \<Rightarrow> True
      | Some v \<Rightarrow> v = (case chk_page_number c of None \<Rightarrow> JNull | Some n \<Rightarrow> JInt n))"

lemma view_of_plain: "plain_chunk c \<Longrightarrow> segment_view (segment_of_chunk e i fid gid c) = chunk_view c"
  by (auto simp: plain_chunk_def segment_view_def chunk_view_def segment_of_chunk_def chunk_locator_def
      locator_int_def Let_def map_add_def split: option.splits)

lemma plain_new [simp]: "plain_chunk (new_chunk e sid k n content a b)"
  by (simp add: plain_chunk_def new_chunk_def)

lemma plain_page [simp]: "plain_chunk c \<Longrightarrow> plain_chunk (page_chunk n base number c)"
  by (auto simp: plain_chunk_def page_chunk_def split: option.splits)

lemma plain_chunks_from: "c \<in> set (chunks_from e sid x width overlap k n start) \<Longrightarrow> plain_chunk c"
proof (induction e sid x width overlap k n start rule: chunks_from.induct)
  case (1 e sid x width overlap k n start)
  show ?case
  proof (cases "length x \<le> start")
    case False
    from 1(2) False consider "c \<in> set (chunk_here e sid k n x start (chunk_end width x start))"
      | "\<not> length x \<le> chunk_end width x start" "c \<in> set (chunks_from e sid x width overlap
          (k + length (chunk_here e sid k n x start (chunk_end width x start)))
          (n + length (chunk_here e sid k n x start (chunk_end width x start)))
          (max (chunk_end width x start - overlap) (start + 1)))"
      by (auto simp: chunks_from_step Let_def split: if_splits)
    then show ?thesis
    proof cases
      case 1
      then show ?thesis
        by (auto simp: chunk_here_def Let_def split: if_splits)
    qed (use 1(1) [OF False refl refl] in blast)
  qed (use 1(2) in simp)
qed

lemma plain_page_chunks: "c \<in> set (page_chunks e sid width overlap n base ps) \<Longrightarrow> plain_chunk c"
  by (induction ps arbitrary: n base)
    (auto simp: Let_def dest!: in_enumerateD intro!: plain_page intro: plain_chunks_from)

lemma plain_version [simp]:
  "plain_chunk c \<Longrightarrow> plain_chunk (c\<lparr>chk_metadata := chk_metadata c ++ version_metadata cfg\<rparr>)"
  by (auto simp: plain_chunk_def version_metadata_def map_add_def split: option.splits)

text \<open>Everything but the embedding and the metadata of the chunks built is kept.\<close>

lemma finished_chunks_map:
  assumes "\<And>c m v. f (c\<lparr>chk_metadata := m\<rparr>) = f c" "\<And>c v. f (c\<lparr>chk_embedding := v\<rparr>) = f c"
  shows "map f (finished_chunks cfg cs) = map f cs"
proof -
  let ?ms = "map (\<lambda>c. c\<lparr>chk_metadata := chk_metadata c ++ version_metadata cfg\<rparr>) cs"
  have "map f (map (\<lambda>(c, v). c\<lparr>chk_embedding := Some v\<rparr>) (zip ?ms vs)) = map f cs"
    if "length vs = length ?ms" for vs
    using that assms by (intro nth_equalityI) simp_all
  then show ?thesis
    using assms(1) by (auto simp: finished_chunks_def Let_def split: option.splits)
qed

lemma finished_chunks_fields [simp]:
  "map chk_id (finished_chunks cfg cs) = map chk_id cs"
  "map chk_ordinal (finished_chunks cfg cs) = map chk_ordinal cs"
  "map chk_source_id (finished_chunks cfg cs) = map chk_source_id cs"
  "map chunk_view (finished_chunks cfg cs) = map chunk_view cs"
  by (rule finished_chunks_map; simp add: chunk_view_def)+

lemma length_finished [simp]: "length (finished_chunks cfg cs) = length cs"
  by (metis length_map finished_chunks_fields(1))

lemma plain_finished:
  assumes "\<forall>c \<in> set cs. plain_chunk c" "c \<in> set (finished_chunks cfg cs)"
  shows "plain_chunk c"
proof -
  have "\<exists>d \<in> set cs. chk_page_number c = chk_page_number d \<and>
      chk_metadata c = chk_metadata d ++ version_metadata cfg"
    using assms(2)
    by (force simp: finished_chunks_def Let_def set_zip split: option.splits if_splits)
  then obtain d where d: "d \<in> set cs" "chk_page_number c = chk_page_number d"
      "chk_metadata c = chk_metadata d ++ version_metadata cfg"
    by blast
  then have "plain_chunk (d\<lparr>chk_metadata := chk_metadata d ++ version_metadata cfg\<rparr>)"
    using assms(1) by simp
  with d show ?thesis
    by (auto simp: plain_chunk_def split: option.splits)
qed

text \<open>The chunks of a content belong to its source.\<close>

lemma chunks_source: "c \<in> set (chunks_from e sid x width overlap k n start) \<Longrightarrow> 0 < width \<Longrightarrow> chk_source_id c = sid"
  using chunks_from_located by blast

lemma built_chunks:
  assumes "build_source_chunks_from_content e sid content width overlap = Inr cs" "c \<in> set cs"
  shows "plain_chunk c" "chk_source_id c = sid"
proof -
  have "0 < nat width"
    using assms by (auto simp: build_source_chunks_from_content_def build_source_chunks_def split: if_splits)
  then have "plain_chunk c \<and> chk_source_id c = sid"
    using assms page_chunks_located [of "nat width" c e sid "nat overlap" 0 "[]" "psc_pages content"]
    by (auto simp: build_source_chunks_from_content_def build_source_chunks_def
        intro: plain_chunks_from plain_page_chunks chunks_source split: if_splits)
  then show "plain_chunk c" "chk_source_id c = sid"
    by simp_all
qed

section \<open>Completion\<close>

lemma ins_all_keyed:
  "ins_all clash rs t = Inr t' \<Longrightarrow> (\<And>x y. k x = k y \<Longrightarrow> clash x y) \<Longrightarrow> keyed k t \<Longrightarrow> keyed k t'"
proof (induction rs arbitrary: t)
  case (Cons r rs)
  from Cons.prems(1) have rest: "ins_all clash rs (t @ [r]) = Inr t'" and "\<forall>x \<in> set t. \<not> clash x r"
    by (auto split: option.splits)
  with Cons.prems(2,3) have "keyed k (t @ [r])"
    by auto
  with Cons.IH [OF rest] Cons.prems(2) show ?case
    by blast
qed simp

lemma retired_generations:
  "lb_generations (files_retire_active_generations now fid L) =
    upd (\<lambda>g. gen_file_id g = fid \<and> gen_is_active g)
      (\<lambda>g. g\<lparr>gen_is_active := False, gen_status := GenerationStatus.RETIRED, gen_retired_at := Some now\<rparr>)
      (lb_generations L)"
  by (simp add: files_retire_active_generations_def)

lemma retired_ids:
  "map gen_id (lb_generations (files_retire_active_generations now fid L)) = map gen_id (lb_generations L)"
  "map gen_file_id (lb_generations (files_retire_active_generations now fid L)) = map gen_file_id (lb_generations L)"
  by (simp_all add: retired_generations upd_def)

lemma retired_keep:
  "h \<in> set (lb_generations L) \<Longrightarrow> \<exists>k \<in> set (lb_generations (files_retire_active_generations now fid L)).
     gen_id k = gen_id h \<and> gen_file_id k = gen_file_id h"
  unfolding retired_generations upd_def set_map by (rule bexI [OF _ imageI]) simp_all

lemma retired_active:
  "h \<in> set (lb_generations (files_retire_active_generations now fid L)) \<and> gen_is_active h \<longleftrightarrow>
     h \<in> set (lb_generations L) \<and> gen_is_active h \<and> gen_file_id h \<noteq> fid"
  by (auto simp: retired_generations set_upd)

lemma retired_clash_free:
  "clash_free active_clash (lb_generations L) \<Longrightarrow>
     clash_free active_clash (lb_generations (files_retire_active_generations now fid L))"
  unfolding retired_generations upd_def
  by (erule clash_free_weaken) (auto simp: active_clash_def split: if_splits)

definition complete_rows ::
  "env \<Rightarrow> source_config \<Rightarrow> uuid \<Rightarrow> str \<Rightarrow> SourceChunk list \<Rightarrow> library \<Rightarrow> library" where
  "complete_rows e cfg sid body chunks L =
     (let g = new_generation e sid PARSER_VERSION CHUNK_VERSION (scf_embedding_version cfg) in
      (set_sources (upd (\<lambda>x. src_id x = sid) (complete_source body (clk e (length chunks + 3))) (lb_sources L)) L)
      \<lparr>lb_chunks := lb_chunks L @ chunks,
       lb_generations := lb_generations (files_retire_active_generations (clk e 0) sid L) @ [g],
       lb_segments := lb_segments L @ map (\<lambda>(i, c). segment_of_chunk e i sid (gen_id g) c) (enumerate 0 chunks)\<rparr>)"

lemma complete_cases:
  assumes inv: "sources_inv L" and run: "complete_processing e e' cfg sid owner content L = Inr (b, L')"
  obtains (refused) "\<not> b" "L' = L" "\<forall>x \<in> set (lb_sources L). \<not> held_by sid owner x"
  | (stored) x cs where "b" "x \<in> set (lb_sources L)" "held_by sid owner x"
    "build_source_chunks_from_content e sid (normalized_content content) 2000 200 = Inr cs"
    "L' = complete_rows e' cfg sid (strip (psc_text content)) (finished_chunks cfg cs) L"
    "keyed chk_id (lb_chunks L')" "keyed (\<lambda>c. (chk_source_id c, chk_ordinal c)) (lb_chunks L')"
    "\<forall>g \<in> set (lb_generations L). gen_id g \<noteq> uid4 e' 0"
proof -
  let ?body = "strip (psc_text content)"
  from run obtain cs where cs: "build_source_chunks_from_content e sid (normalized_content content) 2000 200 = Inr cs"
    by (auto simp: complete_processing_def Let_def)
  define chunks now where "chunks = finished_chunks cfg cs" and "now = clk e' (length chunks + 3)"
  from run cs obtain done' L1 where
    first: "sources_complete_processing sid owner ?body chunks now L = Inr (done', L1)"
    by (auto simp: complete_processing_def Let_def chunks_def now_def)
  note keys = sources_keysD [OF sources_invD(1) [OF inv]]
  show thesis
  proof (cases "\<exists>x \<in> set (lb_sources L). held_by sid owner x")
    case False
    then have "cnt (held_by sid owner) (lb_sources L) = 0"
      by (simp add: cnt_def filter_empty_conv)
    then have "\<not> done'"
      using first by (auto simp: sources_complete_processing_def held_update_def)
    with first run cs have "\<not> b" "L' = L"
      by (auto simp: complete_processing_def Let_def chunks_def now_def)
    with False show thesis
      by (intro refused) auto
  next
    case True
    then obtain x where x: "x \<in> set (lb_sources L)" "held_by sid owner x"
      by blast
    have pinned: "held_by sid owner y \<longleftrightarrow> src_id y = sid" if "y \<in> set (lb_sources L)" for y
      using keyed_unique [OF keys(1) that x(1)] x(2) by (auto simp: held_by_def)
    have sid: "src_id x = sid"
      using x(2) by (simp add: held_by_def)
    have "cnt (held_by sid owner) (lb_sources L) = 1"
      using keyed_row [OF keys(1) x(1)] x(2) sid by (subst cnt_keyed [OF keys(1), of _ sid]) (auto simp: held_by_def)
    have rows: "upd (held_by sid owner) f (lb_sources L) = upd (\<lambda>y. src_id y = sid) f (lb_sources L)" for f
      using pinned by (auto simp: upd_def)
    obtain stored_rows where ins: "ins_all chunk_clash chunks (lb_chunks L) = Inr stored_rows"
      and L1: "L1 = (set_sources (upd (\<lambda>y. src_id y = sid) (complete_source ?body now) (lb_sources L)) L)
        \<lparr>lb_chunks := stored_rows\<rparr>" "done'"
      using first \<open>cnt _ _ = 1\<close> by (auto simp: sources_complete_processing_def held_update_def rows)
    have "row src_id sid (lb_sources L1) = Some (complete_source ?body now x)"
      using keyed_row [OF keys(1) x(1)] sid unfolding L1 by (simp add: row_upd complete_source_def)
    then have get: "sources_get_by_id sid L1 = Some (complete_source ?body now x)"
      by (simp add: sources_get_by_id_def row_def)
    then have mirror: "b" "mirror_processing_complete e' (complete_source ?body now x) chunks PARSER_VERSION CHUNK_VERSION
        (scf_embedding_version cfg) L1 = Inr L'"
      using run cs first L1(2)
      by (auto simp: complete_processing_def Let_def chunks_def now_def)
    obtain f where "f \<in> set (lb_files L)" "mirrors f x"
      using sources_invD(3) [OF inv x(1)] by blast
    then obtain h where "files_get_including_deleted (src_user_id x) sid L1 = Some h"
      using sid by (cases "files_get_including_deleted (src_user_id x) sid L1")
        (auto simp: files_get_including_deleted_def sel1_None L1 mirrors_def)
    then have L': "bindE (files_add_generation (new_generation e' sid PARSER_VERSION CHUNK_VERSION
        (scf_embedding_version cfg)) (files_retire_active_generations (clk e' 0) sid L1)) (\<lambda>L3.
      files_replace_segments (uid4 e' 0)
        (map (\<lambda>(i, c). segment_of_chunk e' i sid (uid4 e' 0) c) (enumerate 0 chunks)) L3) = Inr L'"
      using mirror(2) sid
      by (simp add: mirror_processing_complete_def complete_source_def new_generation_def
          generation_mark_ready_def)
    have new: "gen_id (new_generation e' sid v w z) = uid4 e' 0" for v w z
      by (simp add: new_generation_def generation_mark_ready_def)
    obtain segs where fresh: "\<forall>g \<in> set (lb_generations (files_retire_active_generations (clk e' 0) sid L)).
        gen_id g \<noteq> uid4 e' 0"
      and segs: "ins_all segment_clash (map (\<lambda>(i, c). segment_of_chunk e' i sid (uid4 e' 0) c) (enumerate 0 chunks))
        (filter (\<lambda>y. seg_generation_id y \<noteq> uid4 e' 0) (lb_segments L)) = Inr segs"
      and L'': "L' = L1\<lparr>lb_generations := lb_generations (files_retire_active_generations (clk e' 0) sid L) @
          [new_generation e' sid PARSER_VERSION CHUNK_VERSION (scf_embedding_version cfg)],
        lb_segments := segs\<rparr>"
      using L' by (auto simp: files_add_generation_def files_replace_segments_def new
          files_retire_active_generations_def L1)
    have fresh': "\<forall>g \<in> set (lb_generations L). gen_id g \<noteq> uid4 e' 0"
      using fresh retired_ids(1) [of "clk e' 0" sid L] by (metis image_iff list.set_map)
    have "filter (\<lambda>y. seg_generation_id y \<noteq> uid4 e' 0) (lb_segments L) = lb_segments L"
      using fresh' sources_invD(7) [OF inv] by (intro filter_True) metis
    then have segs': "segs = lb_segments L @ map (\<lambda>(i, c). segment_of_chunk e' i sid (uid4 e' 0) c) (enumerate 0 chunks)"
      using ins_all_Inr [OF segs] by simp
    have "L' = complete_rows e' cfg sid ?body chunks L"
      unfolding L'' L1 segs' ins_all_Inr [OF ins]
      by (simp add: complete_rows_def Let_def new now_def)
    moreover have "keyed chk_id stored_rows" "keyed (\<lambda>c. (chk_source_id c, chk_ordinal c)) stored_rows"
      by (rule ins_all_keyed [OF ins]; simp add: chunk_clash_def keys)+
    moreover have "lb_chunks L' = stored_rows"
      by (simp add: L'' L1)
    ultimately show thesis
      using mirror(1) x cs fresh' by (intro stored) (simp_all add: chunks_def)
  qed
qed

lemma enumerate_map_snd: "(\<And>i c. c \<in> set cs \<Longrightarrow> f (i, c) = h c) \<Longrightarrow> map f (enumerate n cs) = map h cs"
  by (rule nth_equalityI) (simp_all add: nth_enumerate_eq)

text \<open>The rows a completion leaves keep the invariant.\<close>

lemma complete_rows_inv:
  assumes inv: "sources_inv L" and x: "x \<in> set (lb_sources L)" "held_by sid owner x"
    and chunks: "\<forall>c \<in> set chunks. plain_chunk c \<and> chk_source_id c = sid"
    and L': "L' = complete_rows e cfg sid body chunks L"
    and keys': "keyed chk_id (lb_chunks L')" "keyed (\<lambda>c. (chk_source_id c, chk_ordinal c)) (lb_chunks L')"
    and fresh: "\<forall>g \<in> set (lb_generations L). gen_id g \<noteq> uid4 e 0"
  shows "sources_inv L'"
proof -
  note keys = sources_keysD [OF sources_invD(1) [OF inv]]
  let ?now = "clk e (length chunks + 3)"
  define new where "new y = (if src_id y = sid then complete_source body ?now y else y)" for y
  have new: "src_id (new y) = src_id y" "src_user_id (new y) = src_user_id y"
    "src_object_key (new y) = src_object_key y" "src_deleted_at (new y) = src_deleted_at y"
    "src_processing_status (new y) = (if src_id y = sid then ProcessingStatus.READY else src_processing_status y)"
    for y
    by (simp_all add: new_def complete_source_def)
  have sid: "src_id x = sid" "src_processing_status x = ProcessingStatus.PENDING"
    using x(2) by (simp_all add: held_by_def)
  have row: "source_row_ok x" "src_deleted_at x = None"
    using sources_invD(2) [OF inv x(1)] sid by (auto simp: source_row_ok_def)
  have only: "y = x" if "y \<in> set (lb_sources L)" "src_id y = sid" for y
    using keyed_unique [OF keys(1) that(1) x(1)] that(2) sid(1) by simp
  define g where "g = new_generation e sid PARSER_VERSION CHUNK_VERSION (scf_embedding_version cfg)"
  have g: "gen_id g = uid4 e 0" "gen_is_active g" "gen_file_id g = sid"
    by (simp_all add: g_def new_generation_def generation_mark_ready_def)
  have none: "source_chunks sid L = []"
    using sources_invD(5) [OF inv] only sid by (fastforce simp: source_chunks_def filter_empty_conv)
  have tables: "lb_files L' = lb_files L" "lb_chunks L' = lb_chunks L @ chunks"
    "lb_sources L' = map new (lb_sources L)"
    "lb_segments L' = lb_segments L @ map (\<lambda>(i, c). segment_of_chunk e i sid (gen_id g) c) (enumerate 0 chunks)"
    "lb_generations L' = lb_generations (files_retire_active_generations (clk e 0) sid L) @ [g]"
    "purge_jobs (lb_core L') = purge_jobs (lb_core L)"
    unfolding L' by (simp_all add: complete_rows_def Let_def g_def upd_def purge_jobs_def new_def)
  have active: "active_generation L' i \<longleftrightarrow>
      i = uid4 e 0 \<or> (\<exists>h \<in> set (lb_generations L). gen_id h = i \<and> gen_is_active h \<and> gen_file_id h \<noteq> sid)" for i
    using g by (auto simp: active_generation_def tables retired_generations set_upd)
  have seg: "active_generation L' (seg_generation_id y) \<longleftrightarrow>
      active_generation L (seg_generation_id y) \<and> seg_file_id y \<noteq> sid" if y: "y \<in> set (lb_segments L)" for y
  proof -
    obtain h where h: "h \<in> set (lb_generations L)" "gen_id h = seg_generation_id y" "gen_file_id h = seg_file_id y"
      using sources_invD(7) [OF inv y] by blast
    have same: "k = h" if "k \<in> set (lb_generations L)" "gen_id k = seg_generation_id y" for k
      using keyed_unique [OF keys(5) that(1) h(1)] that(2) h(2) by simp
    with h(1,2) same have "active_generation L (seg_generation_id y) \<longleftrightarrow> gen_is_active h"
      unfolding active_generation_def by blast
    moreover have "active_generation L' (seg_generation_id y) \<longleftrightarrow> gen_is_active h \<and> gen_file_id h \<noteq> sid"
      unfolding active using same h(1,2) fresh by metis
    ultimately show ?thesis
      using h(3) by simp
  qed
  have segments: "file_segments i L' = (if i = sid
      then map (\<lambda>(i, c). segment_of_chunk e i sid (gen_id g) c) (enumerate 0 chunks) else file_segments i L)" for i
  proof -
    have "filter (\<lambda>y. seg_file_id y = i \<and> active_generation L' (seg_generation_id y)) (lb_segments L)
        = (if i = sid then [] else file_segments i L)"
      using seg by (auto simp: file_segments_def filter_empty_conv intro!: filter_cong)
    moreover have "filter (\<lambda>y. seg_file_id y = i \<and> active_generation L' (seg_generation_id y))
        (map (\<lambda>(i, c). segment_of_chunk e i sid (gen_id g) c) (enumerate 0 chunks))
        = (if i = sid then map (\<lambda>(i, c). segment_of_chunk e i sid (gen_id g) c) (enumerate 0 chunks) else [])"
      using g by (auto simp: filter_empty_conv segment_of_chunk_def active intro!: filter_True)
    ultimately show ?thesis
      by (simp add: file_segments_def [of i L'] tables)
  qed
  have views: "map segment_view (file_segments i L') = map chunk_view (source_chunks i L')"
    if "map segment_view (file_segments i L) = map chunk_view (source_chunks i L)" for i
  proof (cases "i = sid")
    case True
    have "source_chunks sid L' = chunks"
      using none chunks by (simp add: source_chunks_def tables)
    moreover have "map (segment_view \<circ> (\<lambda>(i, c). segment_of_chunk e i sid (gen_id g) c)) (enumerate 0 chunks)
        = map chunk_view chunks"
      using chunks view_of_plain by (intro enumerate_map_snd) auto
    ultimately show ?thesis
      using True by (simp add: segments)
  next
    case False
    then have "source_chunks i L' = source_chunks i L"
      using chunks by (auto simp: source_chunks_def tables filter_empty_conv)
    with that False show ?thesis
      by (simp add: segments)
  qed
  have id_list: "map src_id (lb_sources L') = map src_id (lb_sources L)"
    unfolding tables map_map by (rule map_cong) (simp_all add: new)
  have ids: "src_id ` set (lb_sources L') = src_id ` set (lb_sources L)"
    using arg_cong [OF id_list, of set] by simp
  show ?thesis
    unfolding sources_inv_def
  proof (intro conjI ballI)
    have "clash_free active_clash (lb_generations L')"
    proof -
      have "\<not> (h \<in> set (lb_generations (files_retire_active_generations (clk e 0) sid L)) \<and>
          gen_is_active h \<and> gen_file_id h = gen_file_id g)" for h
        using retired_active [of h "clk e 0" sid L] g(3) by blast
      then show ?thesis
        using retired_clash_free [OF keys(6)] unfolding tables(5) clash_free_snoc
        by (fastforce simp: active_clash_def [of _ g] active_clash_def [of g])
    qed
    moreover have "keyed gen_id (lb_generations L')"
      using keys(5) fresh g(1) arg_cong [OF retired_ids(1) [of "clk e 0" sid L], of set]
      by (auto simp: tables keyed_def retired_ids image_iff)
    moreover have "keyed src_id (lb_sources L')"
      using keys(1) by (simp add: keyed_def id_list)
    moreover have "keyed src_object_key (lb_sources L')"
      using keys(7) unfolding keyed_def tables map_map by (simp add: comp_def new)
    ultimately show "sources_keys L'"
      using keys keys' by (simp add: sources_keys_def tables(1))
    fix y assume "y \<in> set (lb_sources L')"
    then obtain z where z: "z \<in> set (lb_sources L)" "y = new z"
      unfolding tables set_map by blast
    show "source_row_ok y"
      using z sources_invD(2) [OF inv z(1)] row only [OF z(1)]
      by (auto simp: source_row_ok_def complete_source_def new_def)
    show "\<exists>f \<in> set (lb_files L'). mirrors f y"
      using z sources_invD(3) [OF inv z(1)] by (simp add: tables(1) mirrors_def new)
    show "map segment_view (file_segments (src_id y) L') = map chunk_view (source_chunks (src_id y) L')"
      using z views [OF sources_invD(4) [OF inv z(1)]] by (simp add: new)
  next
    fix c assume "c \<in> set (lb_chunks L')"
    then consider "c \<in> set (lb_chunks L)" | "chk_source_id c = sid"
      using chunks by (auto simp: tables)
    then show "\<exists>y \<in> set (lb_sources L'). src_id y = chk_source_id c \<and>
        src_processing_status y = ProcessingStatus.READY"
    proof cases
      case 1
      then obtain z where "z \<in> set (lb_sources L)" "src_id z = chk_source_id c"
          "src_processing_status z = ProcessingStatus.READY"
        using sources_invD(5) [OF inv] by blast
      then show ?thesis
        unfolding tables set_map by (intro bexI [OF _ imageI [of z]]) (simp_all add: new)
    next
      case 2
      then show ?thesis
        using x(1) sid unfolding tables set_map by (intro bexI [OF _ imageI [of x]]) (simp_all add: new)
    qed
  next
    fix y assume "y \<in> set (lb_segments L')"
    then consider "y \<in> set (lb_segments L)" | "seg_generation_id y = gen_id g" "seg_file_id y = sid"
      by (auto simp: tables segment_of_chunk_def)
    then show "\<exists>h \<in> set (lb_generations L'). gen_id h = seg_generation_id y \<and> gen_file_id h = seg_file_id y"
    proof cases
      case 1
      then show ?thesis
        using sources_invD(7) [OF inv] retired_keep [of _ L "clk e 0" sid] by (fastforce simp: tables)
    qed (use g in \<open>auto simp: tables\<close>)
  next
    fix h assume "h \<in> set (lb_generations L')"
    then consider "h = g" | "h \<in> set (lb_generations (files_retire_active_generations (clk e 0) sid L))"
      by (auto simp: tables)
    then show "gen_file_id h \<in> src_id ` set (lb_sources L')"
    proof cases
      case 1
      then show ?thesis
        unfolding ids using g(3) sid(1) by (intro image_eqI [OF _ x(1)]) simp
    next
      case 2
      then have "gen_file_id h \<in> gen_file_id ` set (lb_generations L)"
        using arg_cong [OF retired_ids(2) [of "clk e 0" sid L], of set] by auto
      then show ?thesis
        unfolding ids using sources_invD(8) [OF inv] by auto
    qed
  next
    fix j assume "j \<in> purge_jobs (lb_core L')"
    then show "case j of (uid, d) \<Rightarrow> \<exists>y \<in> set (lb_sources L').
        src_deleted_at y \<noteq> None \<and> d (u ''file_id'') = Some (juuid (src_id y))"
      using sources_invD(9) [OF inv] by (cases j) (fastforce simp: tables new)
  qed (use sources_invD(6) [OF inv] in \<open>simp add: ids tables(1)\<close>)
qed

lemma complete_inv:
  assumes inv: "sources_inv L" and run: "complete_processing e e' cfg sid owner content L = Inr (b, L')"
  shows "sources_inv L'"
  using inv run
proof (cases rule: complete_cases)
  case (stored x cs)
  have "\<forall>c \<in> set (finished_chunks cfg cs). plain_chunk c \<and> chk_source_id c = sid"
  proof
    fix c assume c: "c \<in> set (finished_chunks cfg cs)"
    have "chk_source_id c \<in> set (map chk_source_id cs)"
      using imageI [OF c, of chk_source_id] unfolding set_map [symmetric] finished_chunks_fields .
    with c show "plain_chunk c \<and> chk_source_id c = sid"
      using built_chunks [OF stored(4)] plain_finished [OF _ c] by auto
  qed
  from complete_rows_inv [OF inv stored(2,3) this stored(5-8)] show ?thesis .
qed (use inv in simp)

end
