(* ===== verification/SourceDeletion.thy ===== *)
theory SourceDeletion
  imports SourceCompletion
begin

text \<open>
  Deleting a source and purging its file: the rows go at once, the object later, and only that of a
  deleted source.
\<close>

section \<open>Deletion\<close>

text \<open>What a deletion leaves of the tables.\<close>

definition delete_rows :: "env \<Rightarrow> uuid \<Rightarrow> uuid \<Rightarrow> library \<Rightarrow> library \<Rightarrow> bool" where
  "delete_rows e user_id sid L L' \<longleftrightarrow>
     lb_sources L' = upd (\<lambda>y. src_id y = sid) (delete_source (clk e 0)) (lb_sources L) \<and>
     lb_chunks L' = filter (\<lambda>c. chk_source_id c \<noteq> sid) (lb_chunks L) \<and>
     lb_files L' = lb_files (files_mark_deleted (clk e 1) user_id sid L) \<and>
     lb_segments L' = filter (\<lambda>y. seg_file_id y \<noteq> sid) (lb_segments L) \<and>
     lb_generations L' = lb_generations L"

lemma enqueue_purge_cases:
  assumes "enqueue_file_purge e user_id fid key c = Inr c'"
  shows "purge_jobs c' \<subseteq> insert (user_id, purge_payload fid key) (purge_jobs c)" "db_sources c' = db_sources c"
  using assms
  by (auto simp: enqueue_file_purge_def DurableJob_init_def jobs_add_def purge_jobs_def Let_def
      split: if_splits option.splits)

lemma delete_cases:
  assumes "apply_delete_file e user_id sid action_id key reason L = Inr (out, L')"
  obtains (replayed) "L' = L"
  | (deleted) x where "x \<in> set (lb_sources L)" "src_id x = sid" "src_user_id x = user_id" "src_deleted_at x = None"
    "delete_rows e user_id sid L L'"
    "purge_jobs (lb_core L') \<subseteq> insert (user_id, purge_payload sid (src_object_key x)) (purge_jobs (lb_core L))"
proof (cases "audit_get_mutation user_id key (state L)")
  case None
  from assms None obtain x where x: "sources_get user_id sid (lb_core L) = Some x"
    by (auto simp: apply_delete_file_def split: option.splits)
  then have row: "x \<in> set (lb_sources L)" "src_id x = sid" "src_user_id x = user_id" "src_deleted_at x = None"
    by (auto simp: sources_get_def dest!: sel1_Some)
  define L1 where "L1 = set_sources (upd (\<lambda>y. src_id y = sid) (delete_source (clk e 0)) (lb_sources L)) L"
  define L2 where "L2 = mirror_source_delete (clk e 1) user_id sid (sources_purge_chunks sid L1)"
  have mark: "sources_mark_deleted (clk e 0) user_id sid L = (Some (delete_source (clk e 0) x), L1)"
    by (simp add: sources_mark_deleted_def x L1_def)
  from assms None obtain c where c: "enqueue_file_purge e user_id sid (src_object_key x) (lb_core L2) = Inr c"
    and L': "\<exists>rows. L' = (set_core c L2)\<lparr>state := (state (set_core c L2))\<lparr>st_mutations := rows\<rparr>\<rparr>"
    by (auto simp: apply_delete_file_def x mark L2_def Let_def audit_add_mutation_def)
  have core2: "lb_core L2 = (lb_core L)\<lparr>db_sources := lb_sources L1\<rparr>"
    by (simp add: L2_def L1_def mirror_source_delete_def files_purge_segments_for_file_def files_mark_deleted_def
        sources_purge_chunks_def)
  then have jobs: "purge_jobs (lb_core L2) = purge_jobs (lb_core L)"
    by (simp add: purge_jobs_def)
  have rows: "delete_rows e user_id sid L L2"
    by (simp add: delete_rows_def L2_def L1_def mirror_source_delete_def files_purge_segments_for_file_def
        files_mark_deleted_def sources_purge_chunks_def)
  have "delete_rows e user_id sid L L'"
    "purge_jobs (lb_core L') \<subseteq> insert (user_id, purge_payload sid (src_object_key x)) (purge_jobs (lb_core L))"
    using L' rows enqueue_purge_cases [OF c] by (auto simp: delete_rows_def jobs)
  then show thesis
    using row by (intro deleted)
qed (use assms in \<open>auto simp: apply_delete_file_def intro: replayed\<close>)

text \<open>The rows of a library in which one source was deleted.\<close>

lemma delete_rows_inv:
  assumes inv: "sources_inv L" and x: "x \<in> set (lb_sources L)" "src_id x = sid" "src_user_id x = user_id"
      "src_deleted_at x = None"
    and rows: "delete_rows e user_id sid L L'"
    and jobs: "purge_jobs (lb_core L') \<subseteq> insert (user_id, purge_payload sid (src_object_key x)) (purge_jobs (lb_core L))"
  shows "sources_inv L'"
proof -
  note keys = sources_keysD [OF sources_invD(1) [OF inv]]
  define gone where "gone y = (if src_id y = sid then delete_source (clk e 0) y else y)" for y :: Source
  define dead where "dead f = (if fil_id f = sid \<and> fil_owner_user_id f = user_id \<and> fil_deleted_at f = None
      then f\<lparr>fil_deleted_at := Some (clk e 1), fil_asset_status := FileAssetStatus.DELETED\<rparr> else f)" for f :: File
  have gone: "src_id (gone y) = src_id y" "src_object_key (gone y) = src_object_key y"
    "src_id y \<noteq> sid \<Longrightarrow> gone y = y" "src_deleted_at (gone y) = None \<longleftrightarrow> src_deleted_at y = None \<and> src_id y \<noteq> sid"
    for y
    by (simp_all add: gone_def delete_source_def)
  have dead: "fil_id (dead f) = fil_id f" "fil_id f \<noteq> sid \<Longrightarrow> dead f = f" for f
    by (simp_all add: dead_def)
  have tables: "lb_sources L' = map gone (lb_sources L)" "lb_files L' = map dead (lb_files L)"
    "lb_chunks L' = filter (\<lambda>c. chk_source_id c \<noteq> sid) (lb_chunks L)"
    "lb_segments L' = filter (\<lambda>y. seg_file_id y \<noteq> sid) (lb_segments L)" "lb_generations L' = lb_generations L"
    using rows by (simp_all add: delete_rows_def upd_def gone_def dead_def files_mark_deleted_def)
  have id_list: "map src_id (lb_sources L') = map src_id (lb_sources L)"
      "map src_object_key (lb_sources L') = map src_object_key (lb_sources L)"
      "map fil_id (lb_files L') = map fil_id (lb_files L)"
    unfolding tables map_map by (rule map_cong; simp add: gone dead)+
  have ids: "src_id ` set (lb_sources L') = src_id ` set (lb_sources L)"
    using arg_cong [OF id_list(1), of set] by simp
  have only: "y = x" if "y \<in> set (lb_sources L)" "src_id y = sid" for y
    using keyed_unique [OF keys(1) that(1) x(1)] that(2) x(2) by simp
  have views: "file_segments i L' = (if i = sid then [] else file_segments i L)"
    "source_chunks i L' = (if i = sid then [] else source_chunks i L)" for i
    by (auto simp: file_segments_def source_chunks_def active_generation_def tables filter_empty_conv
        intro!: filter_cong)
  show ?thesis
    unfolding sources_inv_def
  proof (intro conjI ballI)
    show "sources_keys L'"
      using keys distinct_map_filter [of chk_id "lb_chunks L"]
        distinct_map_filter [of "\<lambda>c. (chk_source_id c, chk_ordinal c)" "lb_chunks L"]
      by (simp add: sources_keys_def keyed_def id_list) (simp add: tables)
    fix y assume "y \<in> set (lb_sources L')"
    then obtain z where z: "z \<in> set (lb_sources L)" "y = gone z"
      by (auto simp: tables)
    show "source_row_ok y"
      using z sources_invD(2) [OF inv z(1)] by (auto simp: source_row_ok_def gone_def delete_source_def)
    obtain f where f: "f \<in> set (lb_files L)" "mirrors f z"
      using sources_invD(3) [OF inv z(1)] by blast
    have "mirrors (dead f) y"
    proof (cases "src_id z = sid")
      case True
      then show ?thesis
        using f(2) only [OF z(1)] x z(2) by (auto simp: mirrors_def gone_def delete_source_def dead_def)
    next
      case False
      then show ?thesis
        using f(2) z(2) dead(2) [of f] gone(3) [of z] by (metis mirrors_def)
    qed
    then show "\<exists>f \<in> set (lb_files L'). mirrors f y"
      using f(1) by (auto simp: tables)
    show "map segment_view (file_segments (src_id y) L') = map chunk_view (source_chunks (src_id y) L')"
      using sources_invD(4) [OF inv z(1)] by (simp add: views z gone)
  next
    fix c assume "c \<in> set (lb_chunks L')"
    then have c: "c \<in> set (lb_chunks L)" "chk_source_id c \<noteq> sid"
      by (simp_all add: tables)
    then obtain z where "z \<in> set (lb_sources L)" "src_id z = chk_source_id c"
        "src_processing_status z = ProcessingStatus.READY"
      using sources_invD(5) [OF inv] by blast
    then show "\<exists>y \<in> set (lb_sources L'). src_id y = chk_source_id c \<and>
        src_processing_status y = ProcessingStatus.READY"
      using c(2) unfolding tables set_map by (intro bexI [OF _ imageI [of z]]) (simp_all add: gone)
  next
    fix f assume "f \<in> set (lb_files L')"
    then have "fil_id f \<in> fil_id ` set (lb_files L)"
      using arg_cong [OF id_list(3), of set] by auto
    then show "fil_id f \<in> src_id ` set (lb_sources L')"
      unfolding ids using sources_invD(6) [OF inv] by auto
  next
    fix y assume "y \<in> set (lb_segments L')"
    then show "\<exists>h \<in> set (lb_generations L'). gen_id h = seg_generation_id y \<and> gen_file_id h = seg_file_id y"
      using sources_invD(7) [OF inv] by (simp add: tables)
  next
    fix h assume "h \<in> set (lb_generations L')"
    then show "gen_file_id h \<in> src_id ` set (lb_sources L')"
      unfolding ids using sources_invD(8) [OF inv] by (simp add: tables)
  next
    have new: "\<exists>y \<in> set (lb_sources L'). src_deleted_at y \<noteq> None \<and> i = src_id y"
      if "i = sid \<or> (\<exists>z \<in> set (lb_sources L). src_deleted_at z \<noteq> None \<and> i = src_id z)" for i
    proof -
      have "\<exists>z \<in> set (lb_sources L). (src_id z = sid \<or> src_deleted_at z \<noteq> None) \<and> i = src_id z"
        using that x(1,2) by auto
      then obtain z where "z \<in> set (lb_sources L)" "src_id z = sid \<or> src_deleted_at z \<noteq> None" "i = src_id z"
        by blast
      then show ?thesis
        using gone(1,4) [of z] unfolding tables set_map by (intro bexI [OF _ imageI [of z]]) auto
    qed
    fix j assume "j \<in> purge_jobs (lb_core L')"
    then have "j = (user_id, purge_payload sid (src_object_key x)) \<or> j \<in> purge_jobs (lb_core L)"
      using jobs by blast
    then show "case j of (uid, d) \<Rightarrow> \<exists>y \<in> set (lb_sources L').
        src_deleted_at y \<noteq> None \<and> d (u ''file_id'') = Some (juuid (src_id y))"
    proof
      assume "j = (user_id, purge_payload sid (src_object_key x))"
      then show ?thesis
        using new [of sid] by (auto simp: purge_payload_def)
    next
      assume old: "j \<in> purge_jobs (lb_core L)"
      obtain uid d where j: "j = (uid, d)"
        by (cases j)
      obtain z where z: "z \<in> set (lb_sources L)" "src_deleted_at z \<noteq> None"
          "d (u ''file_id'') = Some (juuid (src_id z))"
        using sources_invD(9) [OF inv, of uid d] old unfolding j by blast
      then obtain y where "y \<in> set (lb_sources L')" "src_deleted_at y \<noteq> None" "src_id z = src_id y"
        using new [of "src_id z"] by blast
      then show ?thesis
        using z(3) unfolding j by auto
    qed
  qed
qed

lemma delete_inv:
  assumes inv: "sources_inv L" and run: "apply_delete_file e user_id sid action_id key reason L = Inr (out, L')"
  shows "sources_inv L'"
  using run
proof (cases rule: delete_cases)
  case (deleted x)
  then show ?thesis
    by (rule delete_rows_inv [OF inv])
qed (use inv in simp)

section \<open>Purging\<close>

lemma deleted_source_has_no_chunks:
  assumes inv: "sources_inv L" and x: "x \<in> set (lb_sources L)" "src_deleted_at x \<noteq> None"
  shows "source_chunks (src_id x) L = []" "file_segments (src_id x) L = []"
proof -
  note keys = sources_keysD [OF sources_invD(1) [OF inv]]
  have "chk_source_id c \<noteq> src_id x" if "c \<in> set (lb_chunks L)" for c
    using sources_invD(5) [OF inv that] sources_invD(2) [OF inv x(1)] x keyed_unique [OF keys(1) _ x(1)]
    by (metis source_row_ok_def)
  then show "source_chunks (src_id x) L = []"
    by (auto simp: source_chunks_def filter_empty_conv)
  then show "file_segments (src_id x) L = []"
    using sources_invD(4) [OF inv x(1)] by simp
qed

lemma purge_inv:
  assumes inv: "sources_inv L" and x: "x \<in> set (lb_sources L)" "src_deleted_at x \<noteq> None"
    and purge: "apply_physical_purge e user_id (src_id x) L = (key, L')"
  shows "sources_inv L'"
proof (cases "files_get_including_deleted user_id (src_id x) L")
  case (Some f)
  show ?thesis
  proof (cases "fil_purged_at f")
    case None
    note keys = sources_keysD [OF sources_invD(1) [OF inv]]
    define old where "old h = (if fil_id h = src_id x \<and> fil_owner_user_id h = user_id \<and> fil_deleted_at h \<noteq> None \<and>
      fil_purged_at h = None then h\<lparr>fil_purged_at := Some (clk e 0)\<rparr> else h)" for h :: File
    have old: "fil_id (old h) = fil_id h" "mirrors h y \<Longrightarrow> mirrors (old h) y" for h y
      by (auto simp: old_def mirrors_def)
    have L': "L' = L\<lparr>lb_files := map old (lb_files L),
        lb_segments := filter (\<lambda>y. seg_file_id y \<noteq> src_id x) (lb_segments L)\<rparr>"
      using purge Some None by (auto simp: apply_physical_purge_def files_purge_segments_for_file_def
          files_mark_purged_def upd_def old_def)
    have segments: "file_segments i L' = file_segments i L" for i
      using deleted_source_has_no_chunks(2) [OF inv x] by (cases "i = src_id x")
        (auto simp: file_segments_def L' active_generation_def filter_empty_conv intro!: filter_cong)
    have files: "map fil_id (map old (lb_files L)) = map fil_id (lb_files L)"
      unfolding map_map by (rule map_cong) (simp_all add: old)
    show ?thesis
      unfolding sources_inv_def
    proof (intro conjI ballI)
      show "sources_keys L'"
        using keys files by (simp add: sources_keys_def L' keyed_def del: map_map)
      fix y assume "y \<in> set (lb_sources L')"
      then have y: "y \<in> set (lb_sources L)"
        by (simp add: L')
      show "source_row_ok y"
        by (rule sources_invD(2) [OF inv y])
      show "\<exists>h \<in> set (lb_files L'). mirrors h y"
        using sources_invD(3) [OF inv y] old(2) by (auto simp: L')
      show "map segment_view (file_segments (src_id y) L') = map chunk_view (source_chunks (src_id y) L')"
        using sources_invD(4) [OF inv y] by (simp add: segments) (simp add: L' source_chunks_def)
    next
      fix j assume "j \<in> purge_jobs (lb_core L')"
      then show "case j of (uid, d) \<Rightarrow> \<exists>y \<in> set (lb_sources L').
          src_deleted_at y \<noteq> None \<and> d (u ''file_id'') = Some (juuid (src_id y))"
        using sources_invD(9) [OF inv] by (cases j) (simp add: L')
    qed (use sources_invD(5-8) [OF inv] in \<open>auto simp: L' old\<close>)
  qed (use assms Some in \<open>simp add: apply_physical_purge_def\<close>)
qed (use assms in \<open>simp add: apply_physical_purge_def\<close>)

end
