(* ===== verification/LibraryMachine.thy ===== *)
theory LibraryMachine
  imports MemoryInvariants SourceDeletion
begin

text \<open>
  One committed unit of work of the library: of the inner system, of the sources and files, or of
  the memories, each the operation of the code. Every reachable library is consistent.
\<close>

section \<open>Purge jobs and their moves\<close>

lemma job_move_same:
  "job_move j j' \<Longrightarrow> job_user_id j' = job_user_id j \<and> job_kind j' = job_kind j \<and> job_payload j' = job_payload j"
  by (induction rule: job_move.induct) (simp_all add: claim_job_row_def)

lemma moves_purge: "moves_jobs\<^sup>*\<^sup>* c c' \<Longrightarrow> purge_jobs c' \<subseteq> purge_jobs c"
proof (induction rule: rtranclp_induct)
  case (step c1 c2)
  from step.hyps(2) obtain p f where c2: "c2 = c1\<lparr>db_jobs := upd p f (db_jobs c1)\<rparr>"
    and f: "\<forall>j \<in> set (db_jobs c1). p j \<longrightarrow> job_move j (f j)"
    by (auto simp: moves_jobs_def)
  have "purge_jobs c2 \<subseteq> purge_jobs c1"
    using f job_move_same by (auto simp: purge_jobs_def c2 set_upd)
  with step.IH show ?case
    by blast
qed simp

lemma claimed_purge_job:
  assumes "claim_ready_jobs DurableJobKind.FILE_PURGE owner now lease n c = (j # js, c')"
  shows "(job_user_id j, job_payload j) \<in> purge_jobs c"
proof -
  obtain k c1 where c1: "jobs_requeue_expired now c = (k, c1)"
    by (cases "jobs_requeue_expired now c")
  let ?due = "sort_key due_order (sel (job_due DurableJobKind.FILE_PURGE now) (db_jobs c1))"
  have "j \<in> claim_job_row owner now lease ` set (take n ?due)"
    using assms c1 by (auto simp: claim_ready_jobs_def jobs_claim_ready_def Let_def map_eq_Cons_conv)
  then obtain i where i: "j = claim_job_row owner now lease i" "i \<in> set ?due"
    by (auto dest: in_set_takeD)
  then have "i \<in> set (db_jobs c1)" "job_kind i = DurableJobKind.FILE_PURGE"
    by (simp_all add: job_due_def sel_def)
  then have "(job_user_id j, job_payload j) \<in> purge_jobs c1"
    unfolding purge_jobs_def i(1) by (intro image_eqI [of _ _ i]) (simp_all add: claim_job_row_def)
  then show ?thesis
    using moves_purge [OF jobs_requeue_moves [of c now]] by (auto simp: c1)
qed

section \<open>Steps\<close>

text \<open>
  A step of the inner system never adds a purge job: the code enqueues them in \<open>apply_delete_file\<close>
  alone. A round of the purge worker commits its claim, the purge of the row and the settling at once.
\<close>

inductive library_step :: "env \<Rightarrow> library \<Rightarrow> library \<Rightarrow> bool" for e where
  system: "system_step e (state L) s \<Longrightarrow> purge_jobs (core s) \<subseteq> purge_jobs (lb_core L) \<Longrightarrow>
    library_step e L (L\<lparr>state := s\<rparr>)"
| upload: "store_upload e r (uploaded_source e cfg r ty key bytes) L = Inr ((), L') \<Longrightarrow> library_step e L L'"
| claim_source: "claim_next_processing e owner user lease attempts L = Inr (j, L') \<Longrightarrow> library_step e L L'"
| renew_source: "renew_processing_lease e sid owner lease L = Inr (b, L') \<Longrightarrow> library_step e L L'"
| complete_source: "complete_processing e' e cfg sid owner content L = Inr (b, L') \<Longrightarrow> library_step e L L'"
| fail_source: "fail_processing e sid owner code delay L = Inr (b, L') \<Longrightarrow> library_step e L L'"
| link_source: "link_to_thing e tx r (state L) = Inr (b, s) \<Longrightarrow> library_step e L (L\<lparr>state := s\<rparr>)"
| delete_file: "apply_delete_file e user_id sid action_id key reason L = Inr (out, L') \<Longrightarrow> library_step e L L'"
| purge_file: "purge_run_once owner lease e S = (Inr b, S') \<Longrightarrow> library_step e (library_of S) (library_of S')"
| promote: "promote_url_inspection show_json e tx user_id url method payload L = Inr (w, L') \<Longrightarrow>
    library_step e L L'"
| create_memory: "apply_create_memory e tx user_id i reconcile L = Inr (out, L') \<Longrightarrow> library_step e L L'"
| forget_memory: "apply_forget_memory e tx user_id mid v key L = Inr (out, L') \<Longrightarrow> library_step e L L'"
| revise_memory: "check_change c = Inr () \<Longrightarrow> revise_memory e user_id mid v c key L = Inr (d, L') \<Longrightarrow>
    library_step e L L'"

abbreviation library_history :: "env list \<Rightarrow> library \<Rightarrow> library \<Rightarrow> bool" where
  "library_history \<equiv> trace library_step"

definition library_reachable :: "library \<Rightarrow> bool" where
  "library_reachable L \<longleftrightarrow> (\<exists>es. library_history es empty_library L)"

definition library_ok :: "library \<Rightarrow> bool" where
  "library_ok L \<longleftrightarrow> system_ok (state L) \<and> memories_inv L \<and> sources_inv L"

section \<open>The sources in every step\<close>

lemma library_same_sources:
  assumes "sources_inv L" "library_same (state L) s" "purge_jobs (core s) \<subseteq> purge_jobs (lb_core L)"
  shows "sources_inv (L\<lparr>state := s\<rparr>)"
  using assms by (intro sources_inv_same [OF assms(1)]) (simp_all add: library_same_def)

lemma link_writes:
  assumes "link_to_thing e tx r s = Inr (b, s')"
  obtains (same) "s' = s"
  | (linked) s1 m ev rel where "record_audit m ev s1 = Inr s'" "event_of m ev"
    "s1 = s \<or> s1 = s\<lparr>st_thing_sources := st_thing_sources s @ [rel]\<rparr> \<and> live s (tsr_thing_id rel)"
proof (cases "audit_get_mutation (lnk_user_id r) (lnk_idempotency_key r) s")
  case None
  let ?rel = "\<lparr>tsr_thing_id = lnk_thing_id r, tsr_source_id = lnk_source_id r,
            tsr_relation_type = lnk_relation_type r, tsr_relevance = lnk_relevance r,
            tsr_created_at = clk e 0\<rparr>"
  obtain created s1 where add: "sources_add_relation ?rel s = (created, s1)"
    by (cases "sources_add_relation ?rel s")
  with assms None obtain x where
    thing: "things_get (lnk_user_id r) (lnk_thing_id r) (core s) \<noteq> None"
    and rec: "record_audit (link_mutation e tx r created) (if created then Some (link_event e r x) else None) s1
      = Inr s'"
    by (auto simp: link_to_thing_def)
  have "live s (lnk_thing_id r)"
    using things_get_liveI [OF thing] by (auto simp: live_def live_for_def)
  moreover have "event_of (link_mutation e tx r created) (if created then Some (link_event e r x) else None)"
    by (simp add: event_of_def link_mutation_def link_event_def new_mutation_def new_timeline_event_def)
  ultimately show thesis
    using rec add by (intro linked [of _ _ s1 ?rel]) (auto simp: sources_add_relation_def split: if_splits)
qed (use assms in \<open>auto simp: link_to_thing_def intro: same\<close>)

lemma state_audit_core: "record_audit m ev s = Inr s' \<Longrightarrow> core s' = core s \<and> st_memories s' = st_memories s"
  by (auto simp: record_audit_def audit_add_mutation_def audit_add_timeline_event_def split: option.splits)

lemma purge_round_cases:
  assumes "purge_run_once owner lease e S = (Inr b, S')" "keyed job_id (db_jobs (lb_core (library_of S)))"
  obtains (idle) c where "library_of S' = set_core c (library_of S) \<or> library_of S' = library_of S"
    "moves_jobs\<^sup>*\<^sup>* (lb_core (library_of S)) c" "objects_of S' = objects_of S"
  | (purged) j fid c c' key L1 where "(job_user_id j, job_payload j) \<in> purge_jobs (lb_core (library_of S))"
    "purge_job_file j = Inr fid" "apply_physical_purge e (job_user_id j) fid (set_core c (library_of S)) = (key, L1)"
    "moves_jobs\<^sup>*\<^sup>* (lb_core (library_of S)) c" "moves_jobs\<^sup>*\<^sup>* (lb_core L1) c'" "library_of S' = set_core c' L1"
    "objects_of S' = (case key of None \<Rightarrow> objects_of S
       | Some k \<Rightarrow> if k = [] then objects_of S else object_delete k (objects_of S))"
proof -
  let ?now = "clk e 1" and ?L = "library_of S"
  obtain js c where claim: "claim_ready_jobs DurableJobKind.FILE_PURGE owner ?now
      (?now + timedelta_seconds lease) 1 (lb_core ?L) = (js, c)"
    by (cases "claim_ready_jobs DurableJobKind.FILE_PURGE owner ?now (?now + timedelta_seconds lease) 1 (lb_core ?L)")
  have c: "moves_jobs\<^sup>*\<^sup>* (lb_core ?L) c"
    using claim_ready_jobs_moves [OF assms(2), of DurableJobKind.FILE_PURGE owner ?now "?now + timedelta_seconds lease" 1]
    by (simp only: claim snd_conv)
  show thesis
  proof (cases js)
    case Nil
    then show thesis
      using assms(1) claim c by (intro idle [of c]) (auto simp: purge_run_once_def Let_def)
  next
    case (Cons j js')
    from assms(1) claim Cons obtain fid where fid: "purge_job_file j = Inr fid"
      by (auto simp: purge_run_once_def Let_def split: sum.splits)
    obtain key L1 where purge: "apply_physical_purge e (job_user_id j) fid (set_core c ?L) = (key, L1)"
      by (cases "apply_physical_purge e (job_user_id j) fid (set_core c ?L)")
    obtain settled c' where settle: "jobs_settle (job_id j) owner (job_claim_epoch j) DurableJobStatus.COMPLETED
        ?now None (lb_core L1) = (settled, c')"
      by (cases "jobs_settle (job_id j) owner (job_claim_epoch j) DurableJobStatus.COMPLETED ?now None (lb_core L1)")
    have c': "moves_jobs\<^sup>*\<^sup>* (lb_core L1) c'"
      using jobs_settle_moves [of DurableJobStatus.COMPLETED "lb_core L1" "job_id j" owner "job_claim_epoch j" ?now None]
      unfolding settle snd_conv by auto
    show thesis
    proof (cases settled)
      case True
      then show thesis
        using assms(1) claim Cons fid purge settle c c' claimed_purge_job [OF claim [unfolded Cons]]
        by (intro purged [of j fid c key L1 c']) (auto simp: purge_run_once_def Let_def split: option.splits)
    next
      case False
      then show thesis
        using assms(1) claim Cons fid purge settle c
        by (intro idle [of c]) (auto simp: purge_run_once_def Let_def)
    qed
  qed
qed

section \<open>Steps that change the core alone\<close>

definition core_frame :: "library \<Rightarrow> library \<Rightarrow> bool" where
  "core_frame L L' \<longleftrightarrow> (\<exists>c. state L' = (state L)\<lparr>core := c\<rparr> \<and> outside_writes (lb_core L) c \<and>
       db_things c = db_things (lb_core L)) \<and>
     lb_memory_ops L' = lb_memory_ops L \<and> lb_suppressions L' = lb_suppressions L"

lemma core_frameI:
  "state L' = (state L)\<lparr>core := c\<rparr> \<Longrightarrow> outside_writes (lb_core L) c \<Longrightarrow> db_things c = db_things (lb_core L) \<Longrightarrow>
    lb_memory_ops L' = lb_memory_ops L \<Longrightarrow> lb_suppressions L' = lb_suppressions L \<Longrightarrow> core_frame L L'"
  by (auto simp: core_frame_def)

lemma core_frame_ok: "core_frame L L' \<Longrightarrow> system_ok (state L) \<Longrightarrow> system_ok (state L')"
  by (auto simp: core_frame_def intro: system_ok_core)

lemma core_frame_memories: "core_frame L L' \<Longrightarrow> memories_inv L' = memories_inv L"
  by (rule memories_inv_eq) (auto simp: core_frame_def)

lemma core_frame_state: "state L' = state L \<Longrightarrow> lb_memory_ops L' = lb_memory_ops L \<Longrightarrow>
    lb_suppressions L' = lb_suppressions L \<Longrightarrow> core_frame L L'"
  by (rule core_frameI [where c = "lb_core L"]) simp_all

lemma core_frame_trans: "core_frame L L' \<Longrightarrow> core_frame L' L'' \<Longrightarrow> core_frame L L''"
proof -
  assume "core_frame L L'" "core_frame L' L''"
  then obtain c d where "state L' = (state L)\<lparr>core := c\<rparr>" "outside_writes (lb_core L) c"
      "db_things c = db_things (lb_core L)" "state L'' = (state L')\<lparr>core := d\<rparr>" "outside_writes (lb_core L') d"
      "db_things d = db_things (lb_core L')" "lb_memory_ops L'' = lb_memory_ops L" "lb_suppressions L'' = lb_suppressions L"
    unfolding core_frame_def by metis
  then show ?thesis
    by (intro core_frameI [where c = d]) (simp_all add: rtranclp_trans)
qed

lemma core_frame_set_core:
  "outside_writes (lb_core L) c \<Longrightarrow> db_things c = db_things (lb_core L) \<Longrightarrow> core_frame L (set_core c L)"
  by (rule core_frameI [where c = c]) (simp_all add: set_core_def)

lemma core_frame_sources:
  assumes "state L' = state (set_sources rows L)" "lb_memory_ops L' = lb_memory_ops L" "lb_suppressions L' = lb_suppressions L"
  shows "core_frame L L'"
proof (rule core_frameI)
  show "state L' = (state L)\<lparr>core := (lb_core L)\<lparr>db_sources := rows\<rparr>\<rparr>"
    by (simp add: assms(1) set_sources_def set_core_def)
  show "outside_writes (lb_core L) ((lb_core L)\<lparr>db_sources := rows\<rparr>)"
    by (rule r_into_rtranclp [of outside_write], rule sources_outside)
qed (simp_all add: assms)

lemma held_frame: "core_frame L (snd (held_update sid owner f L))"
  unfolding held_update_def snd_conv
  by (rule core_frame_sources) (simp_all add: set_sources_def set_core_def)

lemma set_sources_rest [simp]:
  "lb_memory_ops (set_sources rows L) = lb_memory_ops L" "lb_suppressions (set_sources rows L) = lb_suppressions L"
  by (simp_all add: set_sources_def)

lemma core_frame_refl [simp]: "core_frame L L"
  by (rule core_frame_state) simp_all

lemma renew_frame: "renew_processing_lease e sid owner lease L = Inr (b, L') \<Longrightarrow> core_frame L L'"
  by (auto simp: renew_processing_lease_def sources_renew_processing_lease_def split: prod.splits bool.splits)
    (metis held_frame snd_conv)

lemma fail_frame: "fail_processing e sid owner code delay L = Inr (b, L') \<Longrightarrow> core_frame L L'"
  by (auto simp: fail_processing_def sources_fail_processing_def split: prod.splits bool.splits)
    (metis held_frame snd_conv)

lemma claim_frame:
  assumes "claim_next_processing e owner user lease attempts L = Inr (j, L')" "keyed src_id (lb_sources L)"
  shows "core_frame L L'"
  using assms by (cases rule: claim_next_cases) (auto intro: core_frame_sources)

lemma complete_frame:
  assumes "sources_inv L" "complete_processing e e' cfg sid owner content L = Inr (b, L')"
  shows "core_frame L L'"
  using assms by (cases rule: complete_cases) (auto simp: complete_rows_def Let_def intro!: core_frame_sources)

lemma upload_frame:
  assumes "sources_inv L" "store_upload e r x L = Inr ((), L')"
  shows "core_frame L L'"
proof -
  let ?c = "users_ensure_exists (clk e 2) (upl_user_id r) (lb_core L)"
  obtain atts where "L' = (set_sources (lb_sources L @ [x]) (set_core ?c L))
      \<lparr>lb_files := lb_files L @ [file_from_source x], lb_attachments := atts\<rparr>"
    by (rule store_upload_cases [OF assms])
  then have "core_frame (set_core ?c L) L'"
    by (intro core_frame_sources) simp_all
  moreover have "core_frame L (set_core ?c L)"
    by (intro core_frame_set_core r_into_rtranclp [of outside_write] users_outside)
      (simp add: users_ensure_exists_def)
  ultimately show ?thesis
    using core_frame_trans by blast
qed

lemma moves_frame: "moves_jobs\<^sup>*\<^sup>* (lb_core L) c \<Longrightarrow> core_frame L (set_core c L)"
  using moves_jobs_auto [of "state L" c] rtranclp_mono [of moves_jobs outside_write] moves_jobs_outside
  by (intro core_frame_set_core) auto

lemma purge_frame: "apply_physical_purge e uid fid L = (key, L') \<Longrightarrow> core_frame L L'"
  by (auto simp: apply_physical_purge_def files_purge_segments_for_file_def files_mark_purged_def
      intro!: core_frame_state split: option.splits if_splits)

lemma moves_sources_inv: "moves_jobs\<^sup>*\<^sup>* (lb_core L) c \<Longrightarrow> sources_inv L \<Longrightarrow> sources_inv (set_core c L)"
  by (rule sources_inv_same [of L])
    (use moves_jobs_auto [of "state L" c] moves_purge [of "lb_core L" c] in \<open>simp_all only: set_core_simps\<close>)

lemma purged_source:
  assumes inv: "sources_inv L" and job: "(job_user_id j, job_payload j) \<in> purge_jobs (lb_core L)" "purge_job_file j = Inr fid"
  obtains x where "x \<in> set (lb_sources L)" "src_deleted_at x \<noteq> None" "src_id x = fid"
proof -
  obtain x where "x \<in> set (lb_sources L)" "src_deleted_at x \<noteq> None"
    "job_payload j (u ''file_id'') = Some (juuid (src_id x))"
    using sources_invD(9) [OF inv job(1)] by blast
  then show thesis
    using job(2) by (intro that) (simp_all add: purge_job_file_def payload_uuid_def payload_str_def juuid_def)
qed

lemma purge_round_inv:
  assumes inv: "sources_inv (library_of S)" and jobs: "keyed job_id (db_jobs (lb_core (library_of S)))"
    and run: "purge_run_once owner lease e S = (Inr b, S')"
  shows "sources_inv (library_of S') \<and> core_frame (library_of S) (library_of S')"
  using run jobs
proof (cases rule: purge_round_cases)
  case (idle c)
  then show ?thesis
    using inv moves_sources_inv moves_frame by auto
next
  case (purged j fid c c' key L1)
  have c: "sources_inv (set_core c (library_of S))"
    by (rule moves_sources_inv [OF purged(4) inv])
  obtain x where x: "x \<in> set (lb_sources (library_of S))" "src_deleted_at x \<noteq> None" "src_id x = fid"
    by (rule purged_source [OF inv purged(1,2)])
  then have "x \<in> set (lb_sources (set_core c (library_of S)))"
    using moves_jobs_auto [OF purged(4)] by simp
  then have "sources_inv L1"
    using purge_inv [OF c] x(2,3) purged(3) by blast
  moreover have "core_frame (library_of S) L1"
    using core_frame_trans [OF moves_frame [OF purged(4)] purge_frame [OF purged(3)]] .
  ultimately show ?thesis
    using moves_sources_inv [OF purged(5)] moves_frame [OF purged(5)] core_frame_trans purged(6) by metis
qed

section \<open>Steps of the memories and of the store\<close>

text \<open>The memories change, and perhaps the row of the user.\<close>

lemma users_system_ok: "system_ok s \<Longrightarrow> system_ok (users_ensure now uid s)"
  by (rule system_ok_writes) (auto intro: state_write.users)

lemma suppressions_rest:
  "state (suppressions_clear uid fp L) = state L" "lb_files (suppressions_clear uid fp L) = lb_files L"
  "lb_chunks (suppressions_clear uid fp L) = lb_chunks L" "lb_segments (suppressions_clear uid fp L) = lb_segments L"
  "lb_generations (suppressions_clear uid fp L) = lb_generations L"
  by (simp_all add: suppressions_clear_def split: option.splits)

definition memory_frame :: "library \<Rightarrow> library \<Rightarrow> bool" where
  "memory_frame L L' \<longleftrightarrow> (\<exists>ms. state L' = (state L)\<lparr>st_memories := ms\<rparr>) \<and> lb_files L' = lb_files L \<and>
     lb_chunks L' = lb_chunks L \<and> lb_segments L' = lb_segments L \<and> lb_generations L' = lb_generations L"

lemma same_memories [simp]: "\<exists>ms. s = s\<lparr>st_memories := ms\<rparr>"
  by (rule exI [of _ "st_memories s"]) simp

lemma memory_frame_refl [simp]: "memory_frame L L"
  by (simp add: memory_frame_def)

lemma memory_frame_trans: "memory_frame L L' \<Longrightarrow> memory_frame L' L'' \<Longrightarrow> memory_frame L L''"
  by (auto simp: memory_frame_def)

lemma memory_frame_keeps:
  assumes "memory_frame L L'"
  shows "system_ok (state L) \<Longrightarrow> system_ok (state L')" "sources_inv L \<Longrightarrow> sources_inv L'"
  using assms system_ok_memories by (auto simp: memory_frame_def intro: sources_inv_same [of L])

lemma update_frame: "memories_update m v L = Inr (won, L') \<Longrightarrow> memory_frame L L'"
  by (auto simp: memories_update_def memory_frame_def set_memories_def split: prod.splits if_splits)

lemma versioned_frame: "versioned_memory user_id mid v f L = Inr (m, L') \<Longrightarrow> memory_frame L L'"
  by (auto simp: versioned_memory_def split: prod.splits intro: update_frame)

lemma record_frames:
  "suppressions_record i uid fp mid L = Inr L' \<Longrightarrow> memory_frame L L'"
  "memories_record_operation x L = Inr L' \<Longrightarrow> memory_frame L L'"
  "memories_add m L = Inr L' \<Longrightarrow> memory_frame L L'" "memory_frame L (suppressions_clear uid fp L)"
  using memory_frame_refl [of L]
  by (auto simp: suppressions_record_def memories_record_operation_def memories_add_def memory_frame_def
      set_memories_def suppressions_rest split: if_splits)

lemma supersede_profile_frame: "supersede_profile now uid key L = Inr (s, L') \<Longrightarrow> memory_frame L L'"
  by (erule supersede_profile_cases) (auto intro: update_frame)

lemma forget_frame:
  assumes "apply_forget_memory e tx user_id mid v key L = Inr (out, L')"
  shows "memory_frame L L'"
  using assms
  by (auto simp: apply_forget_memory_def split: if_splits
      intro: memory_frame_trans [OF versioned_frame memory_frame_trans [OF record_frames(1,2)]])

lemma revise_frame:
  assumes "revise_memory e user_id mid v c key L = Inr (d, L')"
  shows "memory_frame L L'"
  using assms
  by (auto simp: revise_memory_def split: if_splits intro: memory_frame_trans [OF versioned_frame record_frames(2)])

lemma create_frame:
  assumes "apply_create_memory e tx user_id i rec L = Inr (out, L')"
  obtains "L' = L" | "memory_frame (L\<lparr>state := users_ensure (clk e 0) user_id (state L)\<rparr>) L'"
  using assms
proof (cases rule: create_cases)
  case inserted
  let ?L0 = "L\<lparr>state := users_ensure (clk e 0) user_id (state L)\<rparr>"
  from inserted(2) obtain s L1 L2 where
    steps: "supersede_profile (clk e 1) user_id (normalized_profile_key tx (mi_profile_key i)) ?L0 = Inr (s, L1)"
      "memories_add (new_memory e tx user_id i s) L1 = Inr L2"
      "L' = suppressions_clear user_id (memory_content_fingerprint tx (strip (mi_content i))) L2"
    by (auto simp: insert_memory_def Let_def)
  have "memory_frame ?L0 L'"
    unfolding steps(3) using memory_frame_trans [OF memory_frame_trans [OF supersede_profile_frame [OF steps(1)]
      record_frames(3) [OF steps(2)]] record_frames(4)] .
  then show thesis
    by (rule that(2))
qed (rule that(1))

lemma create_keeps:
  assumes "apply_create_memory e tx user_id i rec L = Inr (out, L')"
  shows "system_ok (state L) \<Longrightarrow> system_ok (state L')" "sources_inv L \<Longrightarrow> sources_inv L'"
proof -
  let ?L0 = "L\<lparr>state := users_ensure (clk e 0) user_id (state L)\<rparr>"
  have "sources_inv ?L0" if "sources_inv L"
    using that by (rule sources_inv_same) (simp_all add: users_ensure_def users_ensure_exists_def purge_jobs_def)
  then show "system_ok (state L) \<Longrightarrow> system_ok (state L')" "sources_inv L \<Longrightarrow> sources_inv L'"
    using assms users_system_ok [of "state L" "clk e 0" user_id]
    by (auto elim!: create_frame dest: memory_frame_keeps)
qed

lemma purge_key_other: "\<not> agent_key (u ''file-purge:'' @ x)"
  by (simp add: agent_key_def u_def)

lemma delete_system_ok:
  assumes ok: "system_ok (state L)" and run: "apply_delete_file e user_id sid action_id key reason L = Inr (out, L')"
  shows "system_ok (state L') \<and> memories_inv L' = memories_inv L"
proof (cases "audit_get_mutation user_id key (state L)")
  case None
  from run None obtain x where x: "sources_get user_id sid (lb_core L) = Some x"
    by (auto simp: apply_delete_file_def split: option.splits)
  define rows where "rows = upd (\<lambda>y. src_id y = sid) (delete_source (clk e 0)) (lb_sources L)"
  define L2 where "L2 = mirror_source_delete (clk e 1) user_id sid (sources_purge_chunks sid (set_sources rows L))"
  have mark: "sources_mark_deleted (clk e 0) user_id sid L = (Some (delete_source (clk e 0) x), set_sources rows L)"
    by (simp add: sources_mark_deleted_def x rows_def)
  from run None obtain c m s where c: "enqueue_file_purge e user_id sid (src_object_key x) (lb_core L2) = Inr c"
    and m: "audit_add_mutation m (state (set_core c L2)) = Inr s" "L' = (set_core c L2)\<lparr>state := s\<rparr>"
    by (auto simp: apply_delete_file_def x mark L2_def Let_def)
  have L2: "state L2 = state (set_sources rows L)" "lb_memory_ops L2 = lb_memory_ops L"
      "lb_suppressions L2 = lb_suppressions L"
    by (simp_all add: L2_def mirror_source_delete_def files_purge_segments_for_file_def files_mark_deleted_def
        sources_purge_chunks_def)
  then have "core_frame L L2"
    by (rule core_frame_sources)
  moreover have "core_frame L2 (set_core c L2)"
  proof (rule core_frame_set_core)
    have "c = lb_core L2 \<or> (\<exists>j. fresh_other_job j \<and> (\<forall>x \<in> set (db_jobs (lb_core L2)). \<not> job_clash x j) \<and>
        c = (lb_core L2)\<lparr>db_jobs := db_jobs (lb_core L2) @ [j]\<rparr>)"
    proof (cases "jobs_get_by_dedupe_key user_id (u ''file-purge:'' @ uuid_str sid) (lb_core L2)")
      case None
      with c obtain j where j: "DurableJob_init user_id DurableJobKind.FILE_PURGE (u ''file-purge:'' @ uuid_str sid)
          (purge_payload sid (src_object_key x)) (uid4 e 0) (Aware (clk e 2)) 5 (clk e 3) (clk e 4) = Inr j"
          "jobs_add j (lb_core L2) = Inr c"
        by (auto simp: enqueue_file_purge_def Let_def)
      have "other_job j"
        using j(1) purge_key_other by (auto simp: other_job_def DurableJob_init_def split: if_splits)
      then have "fresh_other_job j"
        using j(1) unfolding fresh_other_job_def by blast
      with j(2) show ?thesis
        by (auto simp: jobs_add_def)
    qed (use c in \<open>auto simp: enqueue_file_purge_def Let_def\<close>)
    then show "outside_writes (lb_core L2) c" "db_things c = db_things (lb_core L2)"
      by (auto intro: outside_write.add_job)
  qed
  ultimately have frame: "core_frame L (set_core c L2)"
    by (rule core_frame_trans)
  have "state_writes (state (set_core c L2)) s"
    using m(1) state_write.mutation [of "state (set_core c L2)" m] by (auto simp: audit_add_mutation_def)
  then have "system_ok s"
    by (rule system_ok_writes [OF core_frame_ok [OF frame ok]])
  moreover have "memories_inv L' = memories_inv (set_core c L2)"
    using m by (intro memories_inv_eq) (auto simp: audit_add_mutation_def)
  ultimately show ?thesis
    using core_frame_memories [OF frame] m(2) by simp
qed (use run ok in \<open>auto simp: apply_delete_file_def\<close>)

lemma link_ok:
  assumes "system_ok s" "link_to_thing e tx r s = Inr (b, s')"
  shows "system_ok s'" "core s' = core s" "st_memories s' = st_memories s"
proof -
  have "system_ok s' \<and> core s' = core s \<and> st_memories s' = st_memories s"
    using assms(2)
  proof (cases rule: link_writes)
    case (linked s1 m ev rel)
    have "system_ok s1"
      using linked(3) assms(1) system_ok_link by blast
    then have "system_ok s'"
      by (rule system_ok_writes) (rule record_audit_writes [OF linked(1,2)])
    then show ?thesis
      using state_audit_core [OF linked(1)] linked(3) by auto
  qed (use assms(1) in simp)
  then show "system_ok s'" "core s' = core s" "st_memories s' = st_memories s"
    by simp_all
qed

section \<open>The invariant\<close>

lemma library_step_ok:
  assumes ok: "library_ok L" and step: "library_step e L L'"
  shows "library_ok L'"
proof -
  have inv: "system_ok (state L)" "memories_inv L" "sources_inv L"
    using ok by (simp_all add: library_ok_def)
  have jobs: "keyed job_id (db_jobs (lb_core L))"
    using inv(1) by (simp add: system_ok_def runtime_ok_def keys_ok_def)
  have framed: "library_ok L'" if "core_frame L L'" "sources_inv L'"
    using that inv core_frame_ok core_frame_memories by (auto simp: library_ok_def)
  have remembered: "library_ok L'" if "memory_frame L L'" "memories_inv L'"
    using that inv memory_frame_keeps by (auto simp: library_ok_def)
  show ?thesis
    using step
  proof (cases rule: library_step.cases)
    case (system s)
    have "state_keys (state L)"
      using inv(1) by (simp add: system_ok_def state_ok_keys)
    then have "library_same (state L) s"
      by (rule system_step_library_same [OF system(2)])
    then show ?thesis
      using system inv library_same_sources [OF inv(3)] memories_inv_same [OF inv(2), of L']
        whole.step_inv [OF inv(1) system(2)]
      by (simp add: library_ok_def)
  next
    case (link_source tx r b s)
    have "sources_inv L'"
      using link_ok [OF inv(1) link_source(2)] link_source(1)
      by (intro sources_inv_same [OF inv(3)]) simp_all
    moreover have "memories_inv L' = memories_inv L"
      using link_ok [OF inv(1) link_source(2)] link_source(1) by (intro memories_inv_eq) simp_all
    ultimately show ?thesis
      using link_ok [OF inv(1) link_source(2)] link_source(1) inv(2) by (simp add: library_ok_def)
  next
    case (delete_file user_id sid action_id key reason out)
    then show ?thesis
      using delete_system_ok [OF inv(1) delete_file] delete_inv [OF inv(3) delete_file] inv(2)
      by (simp add: library_ok_def)
  next
    case (purge_file owner lease S b S')
    then show ?thesis
      using purge_round_inv [of S owner lease e b S'] inv(3) jobs framed by simp
  next
    case (promote show_json tx user_id url how payload w)
    then obtain ws where L': "L' = L\<lparr>lb_observations := ws\<rparr>"
      by (auto simp: promote_url_inspection_def files_add_web_observation_def Let_def)
    show ?thesis
      unfolding L' by (rule framed [unfolded L'], rule core_frame_state) (use inv(3) in \<open>simp_all add: sources_inv_same [of L]\<close>)
  next
    case (create_memory tx user_id i reconcile out)
    then show ?thesis
      using create_keeps [OF create_memory] create_inv [OF inv(2) create_memory] inv by (simp add: library_ok_def)
  next
    case (forget_memory tx user_id mid v key out)
    then show ?thesis
      by (intro remembered forget_frame forget_inv [OF inv(2)])
  next
    case (revise_memory c user_id mid v key d)
    then show ?thesis
      by (intro remembered revise_frame revise_inv [OF inv(2)])
  next
    case (upload r cfg ty key bytes)
    then show ?thesis
      using upload_inv [OF inv(3) upload] uploaded_source_fields
      by (intro framed upload_frame [OF inv(3) upload]) simp
  next
    case (claim_source owner user lease attempts j)
    then show ?thesis
      using sources_keysD(1) [OF sources_invD(1) [OF inv(3)]]
      by (intro framed claim_frame [OF claim_source] claim_inv [OF inv(3) claim_source])
  next
    case (renew_source sid owner lease b)
    show ?thesis
      by (intro framed renew_frame [OF renew_source] renew_inv [OF inv(3) renew_source])
  next
    case (complete_source e' cfg sid owner content b)
    show ?thesis
      by (intro framed complete_frame [OF inv(3) complete_source] complete_inv [OF inv(3) complete_source])
  next
    case (fail_source sid owner code delay b)
    show ?thesis
      by (intro framed fail_frame [OF fail_source] fail_inv [OF inv(3) fail_source])
  qed
qed

interpretation library_system: invariant_system library_step library_ok
  by unfold_locales (rule library_step_ok)

lemma library_ok_empty: "library_ok empty_library"
  using system_ok_empty by (simp add: library_ok_def) (simp add: empty_library_def)

lemma library_reachable_ok: "library_reachable L \<Longrightarrow> library_ok L"
  unfolding library_reachable_def by (blast intro: library_system.trace_inv library_ok_empty)

end
