(* ===== verification/UserFrames.thy ===== *)
theory UserFrames
  imports LibraryMachine
begin

text \<open>
  What a step of the library does to the users: it only adds rows, each active and without an external
  subject, unless it is the step by which the machine of the runtime stands for the identity service.
\<close>

section \<open>The runtime\<close>

lemma put_run_users [simp]: "db_users (put_run r s) = db_users s"
  by (simp add: put_run_def)

lemma store_write_users: "store_write t s s' \<Longrightarrow> users_grow (db_users s) (db_users s')"
  by (induction rule: store_write.induct)
    (simp_all add: threads_archive_def interactions_resolve_def)

lemma writes_users: "writes t s s' \<Longrightarrow> users_grow (db_users s) (db_users s')"
  by (induction rule: rtranclp_induct) (auto intro: users_grow_trans store_write_users)

lemma outside_writes_users: "outside_writes s s' \<Longrightarrow> users_grow (db_users s) (db_users s')"
  by (rule writes_users [OF outside_writes_writes])

lemma service_step_users:
  assumes "service_step e s s'" "keys_ok s"
  shows "users_grow (db_users s) (db_users s') \<or> (\<exists>us. s' = s\<lparr>db_users := us\<rparr>)"
  using service_step_writes [OF assms] writes_users by blast

section \<open>The system\<close>

text \<open>The identity service writes the users and nothing else the runtime sees.\<close>

definition accounts_only :: "store \<Rightarrow> store \<Rightarrow> bool" where
  "accounts_only s s' \<longleftrightarrow> (\<exists>us. s' = s\<lparr>core := (core s)\<lparr>db_users := us\<rparr>\<rparr>)"

lemma system_step_users:
  assumes "system_ok s" "system_step e s s'"
  shows "users_grow (db_users (core s)) (db_users (core s')) \<or> accounts_only s s'"
proof -
  have keys: "keys_ok (core s)" "state_keys s"
    using assms(1) by (simp_all add: system_ok_def runtime_keys state_ok_keys)
  show ?thesis
    using assms(2)
  proof (cases rule: system_step.cases)
    case (runtime c)
    then show ?thesis
      using service_step_users [OF runtime(2) keys(1)] by (auto simp: accounts_only_def)
  next
    case (mutation user_id key)
    then have "state_writes s s'"
      using state_mutation_once [OF mutation keys(2)] by (simp add: once_def)
    then show ?thesis
      by (blast intro: outside_writes_users state_writes_core)
  next
    case (tool user_id key f show_json rid action owner token tool v fx)
    from tool(2) obtain s1 c where c: "s' = s1\<lparr>core := c\<rparr>"
        "complete_mutation_tool show_json e user_id rid action owner token tool (core_mutation f s) (core s)
          = Inr (v, c, fx)"
      by (rule complete_tool_in_cases)
    have "outside_writes (core s) c'" if "core_mutation f s (core s) = Inr (out, c')" for out c'
      by (rule core_mutation_writes [OF tool(1) keys(2) that])
    then have "writes (uid4 e 0) (core s) c"
      by (intro complete_mutation_tool_writes [OF c(2)]) auto
    then show ?thesis
      by (simp add: c(1) writes_users)
  next
    case automation
    then show ?thesis
      by (auto dest!: auto_writes_same simp: state_same_def outside_writes_users)
  qed
qed

section \<open>The library\<close>

lemma core_frame_users: "core_frame L L' \<Longrightarrow> users_grow (db_users (lb_core L)) (db_users (lb_core L'))"
  by (auto simp: core_frame_def outside_writes_users)

lemma memory_frame_users: "memory_frame L L' \<Longrightarrow> lb_core L' = lb_core L"
  by (auto simp: memory_frame_def)

lemma enqueue_users: "enqueue_file_purge e uid sid key c = Inr c' \<Longrightarrow> db_users c' = db_users c"
  by (auto simp: enqueue_file_purge_def Let_def jobs_add_def split: option.splits if_splits)

lemma delete_users:
  assumes "apply_delete_file e user_id sid action_id key reason L = Inr (out, L')"
  shows "db_users (lb_core L') = db_users (lb_core L)"
proof (cases "audit_get_mutation user_id key (state L)")
  case None
  from assms None obtain x where x: "sources_get user_id sid (lb_core L) = Some x"
    by (auto simp: apply_delete_file_def split: option.splits)
  define rows where "rows = upd (\<lambda>y. src_id y = sid) (delete_source (clk e 0)) (lb_sources L)"
  define L2 where "L2 = mirror_source_delete (clk e 1) user_id sid (sources_purge_chunks sid (set_sources rows L))"
  have mark: "sources_mark_deleted (clk e 0) user_id sid L = (Some (delete_source (clk e 0) x), set_sources rows L)"
    by (simp add: sources_mark_deleted_def x rows_def)
  from assms None obtain c m s where c: "enqueue_file_purge e user_id sid (src_object_key x) (lb_core L2) = Inr c"
    and m: "audit_add_mutation m (state (set_core c L2)) = Inr s" "L' = (set_core c L2)\<lparr>state := s\<rparr>"
    by (auto simp: apply_delete_file_def x mark L2_def Let_def)
  have "db_users (lb_core L') = db_users c"
    using m by (auto simp: audit_add_mutation_def)
  also have "\<dots> = db_users (lb_core L2)"
    by (rule enqueue_users [OF c])
  also have "\<dots> = db_users (lb_core L)"
    by (simp add: L2_def mirror_source_delete_def files_purge_segments_for_file_def files_mark_deleted_def
        sources_purge_chunks_def set_sources_def)
  finally show ?thesis .
qed (use assms in \<open>auto simp: apply_delete_file_def\<close>)

lemma library_step_users:
  assumes ok: "library_ok L" and step: "library_step e L L'"
  shows "users_grow (db_users (lb_core L)) (db_users (lb_core L')) \<or> accounts_only (state L) (state L')"
proof -
  have inv: "system_ok (state L)" "sources_inv L"
    using ok by (simp_all add: library_ok_def)
  have jobs: "keyed job_id (db_jobs (lb_core L))"
    using inv(1) by (simp add: system_ok_def runtime_ok_def keys_ok_def)
  note grows = disjI1 [OF core_frame_users]
  have same: ?thesis if "lb_core L' = lb_core L"
    using that by simp
  show ?thesis
    using step
  proof (cases rule: library_step.cases)
    case (system s)
    then show ?thesis
      using system_step_users [OF inv(1) system(2)] by simp
  next
    case (upload r cfg ty key bytes)
    show ?thesis
      by (rule grows [OF upload_frame [OF inv(2) upload]])
  next
    case (claim_source owner user lease attempts j)
    show ?thesis
      by (rule grows [OF claim_frame [OF claim_source sources_keysD(1) [OF sources_invD(1) [OF inv(2)]]]])
  next
    case (renew_source sid owner lease b)
    show ?thesis
      by (rule grows [OF renew_frame [OF renew_source]])
  next
    case (complete_source e' cfg sid owner content b)
    show ?thesis
      by (rule grows [OF complete_frame [OF inv(2) complete_source]])
  next
    case (fail_source sid owner code delay b)
    show ?thesis
      by (rule grows [OF fail_frame [OF fail_source]])
  next
    case (link_source tx r b s)
    then show ?thesis
      using link_ok(2) [OF inv(1) link_source(2)] by simp
  next
    case (delete_file user_id sid action_id key reason out)
    then show ?thesis
      using delete_users [OF delete_file] by simp
  next
    case (purge_file owner lease S b S')
    then show ?thesis
      using purge_round_inv [of S owner lease e b S'] inv(2) jobs grows by simp
  next
    case (promote show_json tx user_id url how payload w)
    then show ?thesis
      by (auto simp: promote_url_inspection_def files_add_web_observation_def Let_def)
  next
    case (create_memory tx user_id i reconcile out)
    show ?thesis
      using create_memory
    proof (rule create_frame)
      assume "memory_frame (L\<lparr>state := users_ensure (clk e 0) user_id (state L)\<rparr>) L'"
      from memory_frame_users [OF this] show ?thesis
        by (simp add: users_ensure_def users_ensure_grow)
    qed simp
  next
    case (forget_memory tx user_id mid v key out)
    show ?thesis
      by (rule same [OF memory_frame_users [OF forget_frame [OF forget_memory]]])
  next
    case (revise_memory c user_id mid v key d)
    show ?thesis
      by (rule same [OF memory_frame_users [OF revise_frame [OF revise_memory(2)]]])
  qed
qed

end
