(* ===== verification/IdentityMachine.thy ===== *)
theory IdentityMachine
  imports IdentityService UserFrames
begin

text \<open>
  One committed unit of work of the identity service, and what every reachable state of the accounts
  satisfies: a deleted account has no session and no device left, and it never comes back.
\<close>

section \<open>Steps\<close>

text \<open>
  The rest of the system is the machine of \<open>LibraryMachine\<close> on the same store: \<open>other\<close> is any of its
  steps, but for the rule by which that machine stands for what the identity service writes of the
  users (\<open>accounts_only\<close>), whose place the rules below take. That such a step only adds users is
  \<open>library_step_users\<close>.
\<close>

inductive identity_step :: "env \<Rightarrow> accounts \<Rightarrow> accounts \<Rightarrow> bool" for e where
  other: "library_ok L \<Longrightarrow> state L = acc_store A \<Longrightarrow> library_step e L L' \<Longrightarrow>
    (accounts_only (state L) (state L') \<Longrightarrow> users_grow (acc_users A) (db_users (lb_core L'))) \<Longrightarrow>
    identity_step e A (A\<lparr>acc_store := state L'\<rparr>)"
| login: "huawei_login e tx ttl subject token device zone platform A = Inr (r, A') \<Longrightarrow> identity_step e A A'"
| refresh: "refresh_session e tx ttl access_token token A = Inr (r, A') \<Longrightarrow> identity_step e A A'"
| logout: "logout e tx uid access_token A = Inr (r, A') \<Longrightarrow> identity_step e A A'"
| register: "register_device e uid did zone platform A = Inr (d, A') \<Longrightarrow> identity_step e A A'"
| push_token: "upsert_push_token e uid did token provider A = Inr (r, A') \<Longrightarrow> identity_step e A A'"
| drop_token: "delete_push_token e uid did A = Inr (r, A') \<Longrightarrow> identity_step e A A'"
| request_deletion: "request_account_deletion e uid A = Inr (r, A') \<Longrightarrow> identity_step e A A'"
| delete_account: "account_deletion_run_once worker lease now e A = (r, A') \<Longrightarrow> identity_step e A A'"

abbreviation identity_history :: "env list \<Rightarrow> accounts \<Rightarrow> accounts \<Rightarrow> bool" where
  "identity_history \<equiv> trace identity_step"

definition identity_reachable :: "accounts \<Rightarrow> bool" where
  "identity_reachable A \<longleftrightarrow> (\<exists>es. identity_history es empty_accounts A)"

section \<open>The invariant\<close>

definition deleted :: "uuid \<Rightarrow> accounts \<Rightarrow> bool" where
  "deleted uid A \<longleftrightarrow> (\<exists>x \<in> set (acc_users A). usr_id x = uid \<and> usr_status x = UserStatus.DELETED)"

text \<open>No session of the user is open and no device of theirs is active.\<close>

definition shut :: "uuid \<Rightarrow> accounts \<Rightarrow> bool" where
  "shut uid A \<longleftrightarrow> (\<forall>x \<in> set (acc_sessions A). ses_user_id x = uid \<longrightarrow> ses_revoked_at x \<noteq> None) \<and>
     (\<forall>d \<in> set (acc_devices A). dev_user_id d = uid \<longrightarrow> \<not> dev_active d)"

definition identity_keys :: "accounts \<Rightarrow> bool" where
  "identity_keys A \<longleftrightarrow> keyed usr_id (acc_users A) \<and>
     (\<forall>x \<in> set (acc_users A). \<forall>y \<in> set (acc_users A).
        usr_external_subject x \<noteq> None \<and> usr_external_subject x = usr_external_subject y \<longrightarrow> usr_id x = usr_id y) \<and>
     keyed dev_id (acc_devices A) \<and> keyed ses_id (acc_sessions A) \<and> keyed ses_token_hash (acc_sessions A)"

definition identity_ok :: "accounts \<Rightarrow> bool" where
  "identity_ok A \<longleftrightarrow> identity_keys A \<and> (\<forall>uid. deleted uid A \<longrightarrow> shut uid A)"

lemma active_not_deleted:
  assumes "identity_keys A" "active_account uid A"
  shows "\<not> deleted uid A"
proof
  assume "deleted uid A"
  then obtain x where x: "x \<in> set (acc_users A)" "usr_id x = uid" "usr_status x = UserStatus.DELETED"
    by (auto simp: deleted_def)
  obtain y where y: "y \<in> set (acc_users A)" "usr_id y = uid" "usr_status y = UserStatus.ACTIVE"
    using assms(2) by (auto simp: active_account_def identity_users_get_def dest!: sel1_Some split: option.splits)
  have "x = y"
    using assms(1) x y by (intro keyed_unique [of usr_id "acc_users A"]) (simp_all add: identity_keys_def)
  with x y show False
    by simp
qed

text \<open>A step in the tables of devices and sessions, by an account that is not deleted.\<close>

lemma identity_okI:
  assumes "identity_ok A" "acc_users A' = acc_users A" "\<not> deleted uid A"
    and "keyed dev_id (acc_devices A')" "keyed ses_id (acc_sessions A')" "keyed ses_token_hash (acc_sessions A')"
    and "\<forall>x \<in> set (acc_sessions A'). ses_user_id x = uid \<or>
       (\<exists>y \<in> set (acc_sessions A). ses_user_id y = ses_user_id x \<and> (ses_revoked_at y \<noteq> None \<longrightarrow> ses_revoked_at x \<noteq> None))"
    and "\<forall>d \<in> set (acc_devices A'). dev_user_id d = uid \<or> d \<in> set (acc_devices A)"
  shows "identity_ok A'"
proof -
  have "deleted v A' \<longleftrightarrow> deleted v A" for v
    by (simp add: deleted_def assms(2))
  then show ?thesis
    using assms by (auto simp: identity_ok_def identity_keys_def shut_def)
qed

section \<open>Operations\<close>

lemma register_cases:
  assumes "register_device_locked e uid did zone platform A = Inr (d, A')"
  shows "acc_store A' = acc_store A" "acc_sessions A' = acc_sessions A"
    "keyed dev_id (acc_devices A) \<Longrightarrow> \<forall>x \<in> set (acc_devices A'). dev_user_id x = uid \<or> x \<in> set (acc_devices A)"
    "keyed dev_id (acc_devices A) \<Longrightarrow> keyed dev_id (acc_devices A')"
proof -
  have "acc_store A' = acc_store A \<and> acc_sessions A' = acc_sessions A \<and>
    (keyed dev_id (acc_devices A) \<longrightarrow> (\<forall>x \<in> set (acc_devices A'). dev_user_id x = uid \<or> x \<in> set (acc_devices A)) \<and>
      keyed dev_id (acc_devices A'))"
  proof (cases "devices_get did A")
    case None
    then have "\<forall>x \<in> set (acc_devices A). dev_id x \<noteq> did"
      by (simp add: devices_get_def sel1_None)
    then show ?thesis
      using assms None by (auto simp: register_device_locked_def Let_def devices_upsert_def device_touch_def)
  next
    case (Some x)
    then have x: "x \<in> set (acc_devices A)" "dev_id x = did"
      by (auto simp: devices_get_def dest!: sel1_Some)
    have owner: "dev_user_id x = uid"
      using assms Some by (simp add: register_device_locked_def Let_def)
    have owned: "dev_user_id y = uid" if "keyed dev_id (acc_devices A)" "y \<in> set (acc_devices A)" "dev_id y = did" for y
      using keyed_unique [OF that(1,2) x(1)] that(3) x(2) owner by simp
    let ?f = "\<lambda>y. y\<lparr>dev_timezone_name := zone, dev_active := True, dev_last_seen_at := clk e 5, dev_updated_at := clk e 6\<rparr>"
    have A': "A' = A\<lparr>acc_devices := upd (\<lambda>y. dev_id y = did) ?f (acc_devices A)\<rparr>"
    proof -
      have "\<exists>y \<in> set (acc_devices A). dev_id y = did"
        using x by blast
      then show ?thesis
        using assms Some x(2) owner by (simp add: register_device_locked_def Let_def devices_upsert_def device_touch_def)
    qed
    have "dev_user_id y = uid \<or> y \<in> set (acc_devices A)" if "keyed dev_id (acc_devices A)" "y \<in> set (acc_devices A')" for y
      using that(2) owned [OF that(1)] unfolding A' by (auto elim!: in_set_updE)
    moreover have "keyed dev_id (acc_devices A') = keyed dev_id (acc_devices A)"
      unfolding A' by (simp add: keyed_upd)
    ultimately show ?thesis
      unfolding A' by simp
  qed
  then show "acc_store A' = acc_store A" "acc_sessions A' = acc_sessions A"
    "keyed dev_id (acc_devices A) \<Longrightarrow> \<forall>x \<in> set (acc_devices A'). dev_user_id x = uid \<or> x \<in> set (acc_devices A)"
    "keyed dev_id (acc_devices A) \<Longrightarrow> keyed dev_id (acc_devices A')"
    by blast+
qed


lemma sessions_add_cases:
  assumes "sessions_add x A = Inr A'"
  shows "acc_store A' = acc_store A" "acc_devices A' = acc_devices A" "acc_sessions A' = acc_sessions A @ [x]"
    "keyed ses_id (acc_sessions A) \<Longrightarrow> keyed ses_id (acc_sessions A')"
    "keyed ses_token_hash (acc_sessions A) \<Longrightarrow> keyed ses_token_hash (acc_sessions A')"
proof -
  have "\<forall>y \<in> set (acc_sessions A). ses_id y \<noteq> ses_id x \<and> ses_token_hash y \<noteq> ses_token_hash x"
      and A': "A' = A\<lparr>acc_sessions := acc_sessions A @ [x]\<rparr>"
    using assms by (auto simp: sessions_add_def session_clash_def)
  then have "ses_id x \<notin> ses_id ` set (acc_sessions A)" "ses_token_hash x \<notin> ses_token_hash ` set (acc_sessions A)"
    by (metis imageE)+
  then show "acc_store A' = acc_store A" "acc_devices A' = acc_devices A" "acc_sessions A' = acc_sessions A @ [x]"
    "keyed ses_id (acc_sessions A) \<Longrightarrow> keyed ses_id (acc_sessions A')"
    "keyed ses_token_hash (acc_sessions A) \<Longrightarrow> keyed ses_token_hash (acc_sessions A')"
    by (simp_all add: A')
qed

lemma sessions_update_keys [simp]:
  "acc_store (sessions_update x A) = acc_store A" "acc_devices (sessions_update x A) = acc_devices A"
  "keyed ses_id (acc_sessions (sessions_update x A)) = keyed ses_id (acc_sessions A)"
  "keyed ses_token_hash (acc_sessions (sessions_update x A)) = keyed ses_token_hash (acc_sessions A)"
  by (simp_all add: sessions_update_def keyed_upd)

lemma active_kept: "acc_users A' = acc_users A \<Longrightarrow> active_account uid A' = active_account uid A"
  by (simp add: active_account_def identity_users_get_def)

lemma session_added:
  assumes ok: "identity_ok A" and active: "active_account (ses_user_id x) A" and add: "sessions_add x A = Inr A'"
  shows "identity_ok A'"
proof (rule identity_okI [OF ok])
  show "\<not> deleted (ses_user_id x) A"
    using ok active by (simp add: identity_ok_def active_not_deleted)
qed (use sessions_add_cases [OF add] ok in \<open>auto simp: identity_ok_def identity_keys_def\<close>)

lemma device_registered:
  assumes ok: "identity_ok A" and active: "active_account uid A"
    and run: "register_device_locked e uid did zone platform A = Inr (d, A')"
  shows "identity_ok A'"
proof (rule identity_okI [OF ok])
  show "\<not> deleted uid A"
    using ok active by (simp add: identity_ok_def active_not_deleted)
qed (use register_cases [OF run] ok in \<open>auto simp: identity_ok_def identity_keys_def\<close>)

lemma session_revoked:
  assumes ok: "identity_ok A" and x: "sessions_get_by_token_hash h A = Some x"
  shows "identity_ok (sessions_update (session_revoke now x) A)"
proof -
  let ?A = "sessions_update (session_revoke now x) A"
  have "acc_users ?A = acc_users A"
    by (simp add: sessions_update_def)
  moreover have "\<forall>y \<in> set (acc_sessions ?A). \<exists>z \<in> set (acc_sessions A). ses_user_id z = ses_user_id y \<and>
      (ses_revoked_at z \<noteq> None \<longrightarrow> ses_revoked_at y \<noteq> None)"
    by (fastforce simp: sessions_update_def set_upd session_revoke_def)
  ultimately show ?thesis
    using ok unfolding identity_ok_def identity_keys_def shut_def deleted_def sessions_update_keys by metis
qed

lemma login_user_cases:
  assumes "login_user e subject A = Inr (x, A')" "identity_ok A"
  shows "identity_ok A'" "active_account (usr_id x) A'" "usr_external_subject x = Some subject"
proof -
  have "identity_ok A' \<and> active_account (usr_id x) A' \<and> usr_external_subject x = Some subject"
  proof (cases "users_get_by_external_subject subject A")
    case None
    let ?x = "\<lparr>usr_id = uid4 e 0, usr_status = UserStatus.ACTIVE, usr_external_subject = Some subject,
                usr_created_at = clk e 0, usr_updated_at = clk e 1\<rparr>"
    have x: "x = ?x" "A' = set_users (acc_users A @ [?x]) A" "\<forall>y \<in> set (acc_users A). \<not> user_clash y ?x"
      using assms(1) None by (auto simp: login_user_def users_add_def Let_def)
    have fresh: "\<forall>y \<in> set (acc_users A). usr_id y \<noteq> uid4 e 0 \<and> usr_external_subject y \<noteq> Some subject"
      using x(3) by (auto simp: user_clash_def)
    have same: "deleted v A' \<longleftrightarrow> deleted v A" "shut v A' = shut v A" for v
      by (auto simp: deleted_def x(2) shut_def)
    have "usr_id ?x \<notin> usr_id ` set (acc_users A)"
      using fresh by auto
    then have "identity_keys A'"
      using assms(2) fresh by (simp add: identity_ok_def identity_keys_def x(2)) metis
    moreover have "active_account (uid4 e 0) A'"
      using fresh by (simp add: active_account_def identity_users_get_def x(2) sel1_append split: option.splits)
        (auto dest!: sel1_Some)
    ultimately show ?thesis
      using assms(2) same x(1) by (simp add: identity_ok_def)
  next
    case (Some y)
    then have y: "y \<in> set (acc_users A)" "usr_external_subject y = Some subject"
      by (auto simp: users_get_by_external_subject_def dest!: sel1_Some)
    have x: "x = y" "A' = A" "usr_status y = UserStatus.ACTIVE"
      using assms(1) Some by (auto simp: login_user_def split: UserStatus.splits)
    have "keyed usr_id (acc_users A)"
      using assms(2) by (simp add: identity_ok_def identity_keys_def)
    then have "row usr_id (usr_id y) (acc_users A) = Some y"
      using y(1) by (rule keyed_row)
    then show ?thesis
      using x y assms(2) by (simp add: active_account_def identity_users_get_def row_def)
  qed
  then show "identity_ok A'" "active_account (usr_id x) A'" "usr_external_subject x = Some subject"
    by blast+
qed

lemma login_ok:
  assumes ok: "identity_ok A" and run: "huawei_login e tx ttl subject token device zone platform A = Inr (r, A')"
  shows "identity_ok A'"
proof -
  obtain external x A1 A2 where
    steps: "login_user e external A = Inr (x, A1)"
      "(case (device, zone) of (Some did, Some z) \<Rightarrow>
           bindE (register_device_locked e (usr_id x) did z platform A1) (\<lambda>(_, A2). Inr A2)
         | _ \<Rightarrow> Inr A1) = Inr A2"
      "sessions_add (new_session tx (usr_id x) device token (clk e 7 + hours ttl) (uid4 e 1) (clk e 8)) A2 = Inr A'"
    using run by (auto simp: huawei_login_def Let_def)
  note login = login_user_cases [OF steps(1) ok]
  have "identity_ok A2 \<and> active_account (usr_id x) A2"
  proof (cases "device = None \<or> zone = None")
    case True
    then have "A2 = A1"
      using steps(2) by (auto split: option.splits)
    then show ?thesis
      using login by simp
  next
    case False
    then obtain did z where given: "device = Some did" "zone = Some z"
      by auto
    have "\<exists>d. register_device_locked e (usr_id x) did z platform A1 = Inr (d, A2)"
      using steps(2) unfolding given by (auto simp: split_def) 
    then obtain d where reg: "register_device_locked e (usr_id x) did z platform A1 = Inr (d, A2)"
      by blast
    have "active_account (usr_id x) A2 = active_account (usr_id x) A1"
      by (rule active_kept) (simp add: register_cases(1) [OF reg])
    then show ?thesis
      using device_registered [OF login(1,2) reg] login(2) by simp
  qed
  then show ?thesis
    using steps(3) by (rule_tac session_added) (simp_all add: new_session_def)
qed

lemma refresh_cases:
  assumes "refresh_session e tx ttl access_token token A = Inr (r, A')"
  obtains x where "sessions_get_by_token_hash (tx_sha tx access_token) A = Some x" "ses_revoked_at x = None"
    "active_account (ses_user_id x) A"
    "sessions_add (new_session tx (ses_user_id x) (ses_device_id x) token (clk e 1 + hours ttl) (uid4 e 0) (clk e 2))
       (sessions_update (session_revoke (clk e 0) x) A) = Inr A'"
    "r = \<lparr>lgn_access_token = token, lgn_user_id = ses_user_id x, lgn_expires_at = clk e 1 + hours ttl\<rparr>"
proof -
  have "ses_expires_at (new_session tx uid did token t sid now) = t" for uid did t sid now
    by (simp add: new_session_def)
  note run = assms [unfolded refresh_session_def Let_def bindE_eq_Inr require_eq_Inr ofopt_eq_Inr this sum.inject prod.inject]
  show thesis
    using run by (elim exE conjE) (rule that, blast+)
qed

lemma refresh_ok:
  assumes ok: "identity_ok A" and run: "refresh_session e tx ttl access_token token A = Inr (r, A')"
  shows "identity_ok A'"
  using run
proof (cases rule: refresh_cases)
  case (1 x)
  have "active_account (ses_user_id x) (sessions_update (session_revoke (clk e 0) x) A)"
    using 1(3) by (subst active_kept [of _ A]) simp_all
  then show ?thesis
    using session_added [OF session_revoked [OF ok 1(1)] _ 1(4)] by (simp add: new_session_def)
qed

text \<open>The users, devices and sessions are those before.\<close>

lemma same_tables_ok:
  "acc_users A' = acc_users A \<Longrightarrow> acc_devices A' = acc_devices A \<Longrightarrow> acc_sessions A' = acc_sessions A \<Longrightarrow>
    identity_ok A' = identity_ok A"
  by (simp add: identity_ok_def identity_keys_def deleted_def shut_def)

lemma logout_ok:
  assumes ok: "identity_ok A" and run: "logout e tx uid access_token A = Inr (r, A')"
  shows "identity_ok A'"
proof -
  have "\<exists>x. sessions_get_by_token_hash (tx_sha tx access_token) A = Some x \<and>
    A' = (let A1 = sessions_update (session_revoke (clk e 0) x) A in case ses_device_id x of None \<Rightarrow> A1
       | Some did \<Rightarrow> A1\<lparr>acc_store := endpoints_invalidate_for_device (clk e 1) uid did (acc_store A1)\<rparr>)"
    using run unfolding logout_def Let_def bindE_eq_Inr require_eq_Inr ofopt_eq_Inr by blast
  then obtain x where x: "sessions_get_by_token_hash (tx_sha tx access_token) A = Some x"
    and A': "A' = (let A1 = sessions_update (session_revoke (clk e 0) x) A in case ses_device_id x of None \<Rightarrow> A1
       | Some did \<Rightarrow> A1\<lparr>acc_store := endpoints_invalidate_for_device (clk e 1) uid did (acc_store A1)\<rparr>)"
    by blast
  have "identity_ok A' = identity_ok (sessions_update (session_revoke (clk e 0) x) A)"
    unfolding A' by (rule same_tables_ok) (simp_all add: Let_def endpoints_invalidate_for_device_def split: option.splits)
  then show ?thesis
    using session_revoked [OF ok x] by simp
qed


text \<open>A new status of one user, who keeps the external subject.\<close>

lemma users_update_keys:
  assumes "identity_keys A" "x \<in> set (acc_users A)" "usr_id x' = usr_id x" "usr_external_subject x' = usr_external_subject x"
  shows "identity_keys (users_update x' A)"
    "acc_users (users_update x' A) = upd (\<lambda>y. usr_id y = usr_id x)
       (\<lambda>y. y\<lparr>usr_status := usr_status x', usr_updated_at := usr_updated_at x'\<rparr>) (acc_users A)"
proof -
  let ?f = "\<lambda>y. y\<lparr>usr_status := usr_status x', usr_updated_at := usr_updated_at x'\<rparr>"
  let ?us = "upd (\<lambda>y. usr_id y = usr_id x) ?f (acc_users A)"
  have "y\<lparr>usr_status := usr_status x', usr_external_subject := usr_external_subject x', usr_updated_at := usr_updated_at x'\<rparr> = ?f y"
    if "y \<in> set (acc_users A)" "usr_id y = usr_id x" for y
  proof -
    have "y = x"
      using keyed_unique [OF _ that(1) assms(2) that(2)] assms(1) by (simp add: identity_keys_def)
    then show ?thesis
      using assms(4) by (cases y) simp
  qed
  then show users: "acc_users (users_update x' A) = ?us"
    using assms(3) by (simp add: users_update_def upd_def)
  have "\<exists>z \<in> set (acc_users A). usr_id z = usr_id y \<and> usr_external_subject z = usr_external_subject y"
    if "y \<in> set ?us" for y
    using that by (auto elim!: in_set_updE)
  moreover have "keyed usr_id ?us = keyed usr_id (acc_users A)"
    by (simp add: keyed_upd)
  ultimately show "identity_keys (users_update x' A)"
    using assms(1) unfolding identity_keys_def users
    by (simp add: users_update_def) metis
qed

lemma users_update_rest [simp]:
  "acc_devices (users_update x A) = acc_devices A" "acc_sessions (users_update x A) = acc_sessions A"
  "db_jobs (core (acc_store (users_update x A))) = db_jobs (core (acc_store A))"
  by (simp_all add: users_update_def)

lemma identity_users_row:
  "identity_users_get uid A = Some x \<Longrightarrow> x \<in> set (acc_users A) \<and> usr_id x = uid"
  by (auto simp: identity_users_get_def dest!: sel1_Some)

lemma request_ok:
  assumes ok: "identity_ok A" and run: "request_account_deletion e uid A = Inr (r, A')"
  shows "identity_ok A'"
proof -
  have "\<exists>x. identity_users_get uid A = Some x"
    using run unfolding request_account_deletion_def bindE_eq_Inr ofopt_eq_Inr by blast
  then obtain x where x: "identity_users_get uid A = Some x"
    by blast
  show ?thesis
  proof (cases "usr_status x = UserStatus.DELETED")
    case True
    then show ?thesis
      using run ok x by (simp add: request_account_deletion_def)
  next
    case False
    let ?x = "user_begin_deletion (clk e 0) x"
    let ?A = "users_update ?x A"
    have begun: "usr_id ?x = usr_id x" "usr_external_subject ?x = usr_external_subject x" "usr_status ?x = UserStatus.DELETING"
      using False by (simp_all add: user_begin_deletion_def)
    have keys: "identity_keys A"
      using ok by (simp add: identity_ok_def)
    note upd = users_update_keys [OF keys conjunct1 [OF identity_users_row [OF x]] begun(1,2)]
    have "deleted v ?A \<Longrightarrow> deleted v A" for v
      unfolding deleted_def upd(2) using begun(3) by (auto elim!: in_set_updE)
    then have "identity_ok ?A"
      using ok upd(1) unfolding identity_ok_def shut_def users_update_rest by blast
    moreover have "acc_users A' = acc_users ?A \<and> acc_devices A' = acc_devices ?A \<and> acc_sessions A' = acc_sessions ?A"
      using run x False
      by (auto simp: request_account_deletion_def Let_def jobs_add_def split: if_splits)
    ultimately show ?thesis
      using same_tables_ok [of A' ?A] by blast
  qed
qed


text \<open>What the deletion of an account leaves.\<close>

lemma cancel_automations_same:
  "core (cancel_automations e k as s) = core s \<and> st_endpoints (cancel_automations e k as s) = st_endpoints s"
  by (induction as arbitrary: k s) (simp_all add: automations_update_def split: prod.splits)

lemma deletion_cases:
  assumes "apply_account_deletion e uid A = Inr A'"
  obtains (none) "A' = A" "\<not> (\<exists>x. identity_users_get uid A = Some x \<and> usr_status x \<noteq> UserStatus.DELETED)"
  | (closed) x x1 s t1 t2 t3 where "identity_users_get uid A = Some x" "usr_status x \<noteq> UserStatus.DELETED"
    "usr_id x1 = usr_id x" "usr_external_subject x1 = usr_external_subject x" "core s = core (acc_store A)"
    "A' = users_update (user_mark_deleted t1 x1) (sessions_revoke_for_user t3 uid
       (devices_deactivate_for_user t2 uid (A\<lparr>acc_store := s\<rparr>)))"
proof (cases "identity_users_get uid A")
  case (Some x)
  show thesis
  proof (cases "usr_status x = UserStatus.DELETED")
    case False
    let ?x1 = "if usr_status x \<noteq> UserStatus.DELETING then user_begin_deletion (clk e 0) x else x"
    have "\<exists>as. automations_list_for_user uid 500 (acc_store A) = Inr as"
      using assms Some False by (simp add: apply_account_deletion_def) blast
    then obtain as where as: "automations_list_for_user uid 500 (acc_store A) = Inr as"
      by blast
    have "usr_id ?x1 = usr_id x" "usr_external_subject ?x1 = usr_external_subject x"
      by (simp_all add: user_begin_deletion_def)
    moreover have "core (endpoints_invalidate_for_user t uid (cancel_automations e 1 as (acc_store A))) = core (acc_store A)" for t
      using cancel_automations_same by (simp add: endpoints_invalidate_for_user_def)
    moreover have "users_update (user_mark_deleted (clk e (length as + 4)) ?x1) (sessions_revoke_for_user (clk e (length as + 3)) uid
        (devices_deactivate_for_user (clk e (length as + 2)) uid (A\<lparr>acc_store :=
          endpoints_invalidate_for_user (clk e (length as + 1)) uid (cancel_automations e 1 as (acc_store A))\<rparr>))) = A'"
      using assms Some False
      by (simp only: apply_account_deletion_def Let_def as option.case if_False bindE_simps sum.inject)
    ultimately show thesis
      by (intro closed [OF Some False _ _ _ sym])
  qed (use assms Some in \<open>auto simp: apply_account_deletion_def intro: none\<close>)
qed (use assms in \<open>auto simp: apply_account_deletion_def intro: none\<close>)


lemma deleted_upd:
  "(\<exists>y \<in> set (upd (\<lambda>y. usr_id y = k) (\<lambda>y. y\<lparr>usr_status := UserStatus.DELETED, usr_updated_at := t\<rparr>) us).
      usr_id y = v \<and> usr_status y = UserStatus.DELETED) \<longleftrightarrow>
    (\<exists>y \<in> set us. usr_id y = v \<and> (usr_status y = UserStatus.DELETED \<or> v = k))"
  by (induction us) auto

lemma revoked_upd:
  "(\<forall>x \<in> set (upd (\<lambda>x. ses_user_id x = k \<and> ses_revoked_at x = None) (session_revoke t) ss).
      ses_user_id x = v \<longrightarrow> ses_revoked_at x \<noteq> None) \<longleftrightarrow>
    v = k \<or> (\<forall>x \<in> set ss. ses_user_id x = v \<longrightarrow> ses_revoked_at x \<noteq> None)"
  by (induction ss) (auto simp: session_revoke_def)

lemma inactive_upd:
  "(\<forall>d \<in> set (upd (\<lambda>d. dev_user_id d = k \<and> dev_active d) (\<lambda>d. d\<lparr>dev_active := False, dev_updated_at := t\<rparr>) ds).
      dev_user_id d = v \<longrightarrow> \<not> dev_active d) \<longleftrightarrow>
    v = k \<or> (\<forall>d \<in> set ds. dev_user_id d = v \<longrightarrow> \<not> dev_active d)"
  by (induction ds) auto

lemma deletion_closes:
  assumes ok: "identity_ok A" and run: "apply_account_deletion e uid A = Inr A'"
  shows "identity_ok A'" "identity_users_get uid A \<noteq> None \<Longrightarrow> deleted uid A'" "deleted v A \<Longrightarrow> deleted v A'"
    "db_jobs (core (acc_store A')) = db_jobs (core (acc_store A))"
proof -
  have "identity_ok A' \<and> (identity_users_get uid A \<noteq> None \<longrightarrow> deleted uid A') \<and> (deleted v A \<longrightarrow> deleted v A') \<and>
    db_jobs (core (acc_store A')) = db_jobs (core (acc_store A))"
    using run
  proof (cases rule: deletion_cases)
    case none
    then show ?thesis
      using ok by (auto simp: deleted_def dest: identity_users_row)
  next
    case (closed x x1 s t1 t2 t3)
    let ?B = "sessions_revoke_for_user t3 uid (devices_deactivate_for_user t2 uid (A\<lparr>acc_store := s\<rparr>))"
    let ?x = "user_mark_deleted t1 x1"
    have B: "acc_users ?B = acc_users A" "acc_devices ?B = acc_devices (devices_deactivate_for_user t2 uid A)"
        "acc_sessions ?B = acc_sessions (sessions_revoke_for_user t3 uid A)" "core (acc_store ?B) = core (acc_store A)"
      by (simp_all add: sessions_revoke_for_user_def devices_deactivate_for_user_def closed(5))
    have x: "x \<in> set (acc_users ?B)" "usr_id ?x = usr_id x" "usr_external_subject ?x = usr_external_subject x"
        "usr_status ?x = UserStatus.DELETED" "usr_id x = uid"
      using identity_users_row [OF closed(1)] closed(3,4) by (simp_all add: B user_mark_deleted_def)
    have "identity_keys A"
      using ok by (simp add: identity_ok_def)
    moreover have "keyed dev_id (acc_devices ?B) = keyed dev_id (acc_devices A)"
        "keyed ses_id (acc_sessions ?B) = keyed ses_id (acc_sessions A)"
        "keyed ses_token_hash (acc_sessions ?B) = keyed ses_token_hash (acc_sessions A)"
      by (simp_all add: sessions_revoke_for_user_def devices_deactivate_for_user_def keyed_upd session_revoke_def)
    ultimately have keys: "identity_keys ?B"
      unfolding identity_keys_def B(1) by blast
    note upd = users_update_keys [OF keys x(1-3)]
    have deleted': "deleted v A' \<longleftrightarrow> deleted v A \<or> v = uid" for v
      unfolding closed(6) deleted_def upd(2) B(1) x(4) deleted_upd using x(1) [unfolded B(1)] x(5) by auto
    have shut': "shut v A' \<longleftrightarrow> shut v A \<or> v = uid" for v
      unfolding closed(6) shut_def users_update_rest B(2,3)
      by (simp add: sessions_revoke_for_user_def devices_deactivate_for_user_def revoked_upd [simplified] inactive_upd) blast
    have "identity_ok A'"
      using ok upd(1) unfolding identity_ok_def closed(6) [symmetric] deleted' shut' by blast
    then show ?thesis
      using deleted' by (simp add: closed(6) B(4))
  qed
  then show "identity_ok A'" "identity_users_get uid A \<noteq> None \<Longrightarrow> deleted uid A'" "deleted v A \<Longrightarrow> deleted v A'"
    "db_jobs (core (acc_store A')) = db_jobs (core (acc_store A))"
    by blast+
qed


text \<open>The round of the worker.\<close>

lemma set_store_core [simp]:
  "acc_devices (A\<lparr>acc_store := s\<rparr>) = acc_devices A" "acc_sessions (A\<lparr>acc_store := s\<rparr>) = acc_sessions A"
  by simp_all

lemma claim_ready_users: "claim_ready_jobs k owner now lease n c = (js, c') \<Longrightarrow> db_users c' = db_users c"
  by (auto simp: claim_ready_jobs_def jobs_requeue_expired_def jobs_claim_ready_def Let_def)

lemma settle_users: "jobs_settle jid owner epoch status now err c = (b, c') \<Longrightarrow> db_users c' = db_users c"
  by (auto simp: jobs_settle_def Let_def)

lemma deletion_round_ok:
  assumes ok: "identity_ok A" and run: "account_deletion_run_once worker lease now e A = (r, A')"
  shows "identity_ok A'" "deleted v A \<Longrightarrow> deleted v A'"
proof -
  obtain js c where claim: "claim_ready_jobs DurableJobKind.ACCOUNT_DELETION worker now (now + timedelta_seconds lease) 1
      (core (acc_store A)) = (js, c)"
    by (cases "claim_ready_jobs DurableJobKind.ACCOUNT_DELETION worker now (now + timedelta_seconds lease) 1 (core (acc_store A))")
  let ?A = "A\<lparr>acc_store := (acc_store A)\<lparr>core := c\<rparr>\<rparr>"
  have same: "acc_users ?A = acc_users A"
    using claim_ready_users [OF claim] by simp
  then have okc: "identity_ok ?A"
    using ok same_tables_ok [of ?A A] by simp
  have del: "deleted v ?A = deleted v A"
    using same by (simp add: deleted_def)
  have "identity_ok A' \<and> (deleted v A \<longrightarrow> deleted v A')"
  proof (cases js)
    case Nil
    then show ?thesis
      using run claim okc del by (simp add: account_deletion_run_once_def)
  next
    case (Cons j js')
    show ?thesis
    proof (cases "apply_account_deletion e (job_user_id j) ?A")
      case (Inl err)
      then show ?thesis
        using run claim Cons ok by (simp add: account_deletion_run_once_def)
    next
      case (Inr A1)
      note closed = deletion_closes [OF okc Inr]
      obtain b c' where settle: "jobs_settle (job_id j) worker (job_claim_epoch j) DurableJobStatus.COMPLETED now None
          (core (acc_store A1)) = (b, c')"
        by (cases "jobs_settle (job_id j) worker (job_claim_epoch j) DurableJobStatus.COMPLETED now None (core (acc_store A1))")
      let ?A1 = "A1\<lparr>acc_store := (acc_store A1)\<lparr>core := c'\<rparr>\<rparr>"
      have "acc_users ?A1 = acc_users A1"
        using settle_users [OF settle] by simp
      then have "identity_ok ?A1 = identity_ok A1" "deleted v ?A1 = deleted v A1"
        using same_tables_ok [of ?A1 A1] by (simp_all add: deleted_def)
      then show ?thesis
        using run claim Cons Inr settle closed(1,3) del ok by (cases b) (simp_all add: account_deletion_run_once_def)
    qed
  qed
  then show "identity_ok A'" "deleted v A \<Longrightarrow> deleted v A'"
    by blast+
qed


section \<open>Every step\<close>

lemma other_ok:
  assumes ok: "identity_ok A" and grow: "users_grow (acc_users A) (db_users (core s))"
  shows "identity_ok (A\<lparr>acc_store := s\<rparr>)" "deleted v (A\<lparr>acc_store := s\<rparr>) = deleted v A"
proof -
  let ?A = "A\<lparr>acc_store := s\<rparr>"
  have "keyed usr_id (acc_users A)"
    using ok by (simp add: identity_ok_def identity_keys_def)
  then obtain new where new: "db_users (core s) = acc_users A @ new" "keyed usr_id (db_users (core s))"
      "\<forall>x \<in> set new. usr_status x = UserStatus.ACTIVE \<and> usr_external_subject x = None"
    using grow unfolding users_grow_def by blast
  show del: "deleted v ?A = deleted v A" for v
    using new(1,3) by (auto simp: deleted_def)
  have "\<forall>x \<in> set (acc_users ?A). usr_external_subject x \<noteq> None \<longrightarrow> x \<in> set (acc_users A)"
    using new by auto
  then have "identity_keys ?A"
    using ok new(2) unfolding identity_ok_def identity_keys_def by (simp del: option.exhaust_sel) metis
  then show "identity_ok ?A"
    using ok del by (simp add: identity_ok_def shut_def)
qed

lemma other_users:
  assumes "library_ok L" "state L = acc_store A" "library_step e L L'"
    and "accounts_only (state L) (state L') \<Longrightarrow> users_grow (acc_users A) (db_users (lb_core L'))"
  shows "users_grow (acc_users A) (db_users (lb_core L'))"
  using library_step_users [OF assms(1,3)] assms(2,4) by auto

lemma upsert_token_users: "upsert_push_token e uid did token provider A = Inr (r, A') \<Longrightarrow>
    acc_users A' = acc_users A \<and> acc_devices A' = acc_devices A \<and> acc_sessions A' = acc_sessions A"
  by (auto simp: upsert_push_token_def endpoints_upsert_def split: if_splits)

lemma identity_step_ok:
  assumes ok: "identity_ok A" and step: "identity_step e A A'"
  shows "identity_ok A'"
  using step
proof (cases rule: identity_step.cases)
  case (register uid did zone platform d)
  then have "active_account uid A" "register_device_locked e uid did (strip zone) platform A = Inr (d, A')"
    by (simp_all add: register_device_def)
  then show ?thesis
    using device_registered ok by blast
next
  case (push_token uid did token provider r)
  then show ?thesis
    using upsert_token_users [OF push_token] ok same_tables_ok [of A' A] by simp
next
  case (drop_token uid did r)
  then have "acc_users A' = acc_users A \<and> acc_devices A' = acc_devices A \<and> acc_sessions A' = acc_sessions A"
    by (auto simp: delete_push_token_def endpoints_invalidate_for_device_def)
  then show ?thesis
    using ok same_tables_ok [of A' A] by simp
next
  case (other L L')
  then show ?thesis
    using other_ok(1) [OF ok other_users] by blast
next
  case (login tx ttl subject token device zone platform r)
  show ?thesis
    by (rule login_ok [OF ok login])
next
  case (refresh tx ttl access_token token r)
  show ?thesis
    by (rule refresh_ok [OF ok refresh])
next
  case (logout tx uid access_token r)
  show ?thesis
    by (rule logout_ok [OF ok logout])
next
  case (request_deletion uid r)
  show ?thesis
    by (rule request_ok [OF ok request_deletion])
next
  case (delete_account worker lease now r)
  show ?thesis
    by (rule deletion_round_ok(1) [OF ok delete_account])
qed

interpretation identity_system: invariant_system identity_step identity_ok
  by unfold_locales (rule identity_step_ok)

lemma identity_ok_empty: "identity_ok empty_accounts"
  by (simp add: identity_ok_def identity_keys_def deleted_def empty_accounts_def empty_store_def empty_db_def)

lemma identity_reachable_ok: "identity_reachable A \<Longrightarrow> identity_ok A"
  unfolding identity_reachable_def by (blast intro: identity_system.trace_inv identity_ok_empty)

text \<open>No step brings a deleted account back.\<close>

lemma logout_users:
  assumes "logout e tx uid access_token A = Inr (r, A')"
  shows "acc_users A' = acc_users A"
proof -
  have "\<exists>x. A' = (let A1 = sessions_update (session_revoke (clk e 0) x) A in case ses_device_id x of None \<Rightarrow> A1
       | Some did \<Rightarrow> A1\<lparr>acc_store := endpoints_invalidate_for_device (clk e 1) uid did (acc_store A1)\<rparr>)"
    using assms unfolding logout_def Let_def bindE_eq_Inr require_eq_Inr ofopt_eq_Inr by blast
  then show ?thesis
    by (auto simp: Let_def endpoints_invalidate_for_device_def split: option.splits)
qed

lemma refresh_users:
  assumes "refresh_session e tx ttl access_token token A = Inr (r, A')"
  shows "acc_users A' = acc_users A"
  using assms by (cases rule: refresh_cases) (use sessions_add_cases(1) in \<open>metis sessions_update_keys(1)\<close>)

lemma login_deleted:
  assumes ok: "identity_ok A" and run: "huawei_login e tx ttl subject token device zone platform A = Inr (r, A')"
    and del: "deleted v A"
  shows "deleted v A'"
proof -
  obtain external x A1 A2 where
    steps: "login_user e external A = Inr (x, A1)"
      "(case (device, zone) of (Some did, Some z) \<Rightarrow>
           bindE (register_device_locked e (usr_id x) did z platform A1) (\<lambda>(_, A2). Inr A2)
         | _ \<Rightarrow> Inr A1) = Inr A2"
      "sessions_add (new_session tx (usr_id x) device token (clk e 7 + hours ttl) (uid4 e 1) (clk e 8)) A2 = Inr A'"
    using run by (auto simp: huawei_login_def Let_def)
  have "set (acc_users A) \<subseteq> set (acc_users A1)"
    using steps(1) by (auto simp: login_user_def Let_def users_add_def split: option.splits UserStatus.splits)
  moreover have "acc_store A2 = acc_store A1"
    using steps(2) register_cases(1) by (auto split: option.splits)
  ultimately show ?thesis
    using del sessions_add_cases(1) [OF steps(3)] by (auto simp: deleted_def)
qed

lemma request_deleted:
  assumes run: "request_account_deletion e uid A = Inr (r, A')" and keys: "identity_keys A" and del: "deleted v A"
  shows "deleted v A'"
proof -
  obtain x where x: "identity_users_get uid A = Some x"
    using run unfolding request_account_deletion_def bindE_eq_Inr ofopt_eq_Inr by blast
  show ?thesis
  proof (cases "usr_status x = UserStatus.DELETED")
    case True
    then show ?thesis
      using run del x by (simp add: request_account_deletion_def)
  next
    case False
    let ?A = "users_update (user_begin_deletion (clk e 0) x) A"
    obtain y where y: "y \<in> set (acc_users A)" "usr_id y = v" "usr_status y = UserStatus.DELETED"
      using del by (auto simp: deleted_def)
    have "usr_id y \<noteq> usr_id x"
      using keyed_unique [of usr_id "acc_users A" y x] keys identity_users_row [OF x] y False
      by (auto simp: identity_keys_def)
    then have "y \<in> set (acc_users ?A)"
      using y(1) by (auto simp: users_update_def set_upd user_begin_deletion_def image_iff intro: bexI [of _ y])
    moreover have "acc_users A' = acc_users ?A"
      using run x False by (auto simp: request_account_deletion_def Let_def jobs_add_def split: if_splits)
    ultimately show ?thesis
      using y by (auto simp: deleted_def)
  qed
qed

lemma deleted_kept:
  assumes ok: "identity_ok A" and step: "identity_step e A A'" and del: "deleted v A"
  shows "deleted v A'"
proof -
  have same: "deleted v A'" if "acc_users A' = acc_users A"
    using del that by (simp add: deleted_def)
  show ?thesis
    using step
  proof (cases rule: identity_step.cases)
    case (other L L')
    then show ?thesis
      using other_ok(2) [OF ok other_users] del by blast
  next
    case (login tx ttl subject token device zone platform r)
    show ?thesis
      by (rule login_deleted [OF ok login del])
  next
    case (refresh tx ttl access_token token r)
    show ?thesis
      by (rule same, rule refresh_users [OF refresh])
  next
    case (logout tx uid access_token r)
    show ?thesis
      by (rule same, rule logout_users [OF logout])
  next
    case (register uid did zone platform d)
    then have "register_device_locked e uid did (strip zone) platform A = Inr (d, A')"
      by (simp add: register_device_def)
    then show ?thesis
      using same register_cases(1) by metis
  next
    case (push_token uid did token provider r)
    then show ?thesis
      using same upsert_token_users by blast
  next
    case (drop_token uid did r)
    then have "acc_users A' = acc_users A"
      by (auto simp: delete_push_token_def endpoints_invalidate_for_device_def)
    then show ?thesis
      by (rule same)
  next
    case (request_deletion uid r)
    show ?thesis
      using ok by (intro request_deleted [OF request_deletion _ del]) (simp add: identity_ok_def)
  next
    case (delete_account worker lease now r)
    show ?thesis
      by (rule deletion_round_ok(2) [OF ok delete_account del])
  qed
qed

lemma deleted_history: "identity_history es A A' \<Longrightarrow> identity_ok A \<Longrightarrow> deleted v A \<Longrightarrow> identity_ok A' \<and> deleted v A'"
  by (induction rule: trace.induct) (blast intro: deleted_kept identity_step_ok)+

end
