(* ===== verification/IdentityRefinement.thy ===== *)
theory IdentityRefinement
  imports IdentityMachine
begin

text \<open>
  The identity service within the system: every operation of it is a history of the system on the
  common store, so the invariants of the other components hold in every reachable state of the accounts.
\<close>

section \<open>Histories\<close>

definition reaches :: "store \<Rightarrow> store \<Rightarrow> bool" where
  "reaches s s' \<longleftrightarrow> (\<exists>es. system_history es s s')"

lemma reaches_refl [simp]: "reaches s s"
  unfolding reaches_def by (blast intro: trace.none)

lemma reaches_trans: "reaches s s' \<Longrightarrow> reaches s' s'' \<Longrightarrow> reaches s s''"
  unfolding reaches_def by (blast intro: trace_append)

lemma reaches_ok: "reaches s s' \<Longrightarrow> system_ok s \<Longrightarrow> system_ok s'"
  unfolding reaches_def by (blast intro: whole.trace_inv)

lemma reaches_auto: "auto_writes s s' \<Longrightarrow> reaches s s'"
  unfolding reaches_def by (blast intro: trace_one system_step.automation)

lemma reaches_users: "reaches s (s\<lparr>core := (core s)\<lparr>db_users := us\<rparr>\<rparr>)"
proof -
  have "system_step e s (s\<lparr>core := (core s)\<lparr>db_users := us\<rparr>\<rparr>)" for e
    by (rule system_step.runtime [OF service_step.accounts]) simp_all
  then show ?thesis
    unfolding reaches_def by (blast intro: trace_one)
qed

lemma reaches_set_users: "reaches (acc_store A) (acc_store (set_users us A))"
  using reaches_users [of "acc_store A" us] by (simp add: set_users_def)

lemma reaches_endpoints: "reaches s (s\<lparr>st_endpoints := ep\<rparr>)"
proof -
  have "auto_write s (s\<lparr>st_outbox := st_outbox s, st_feedback := st_feedback s, st_endpoints := ep\<rparr>)"
    by (rule auto_write.rest)
  then show ?thesis
    by (intro reaches_auto auto_write1) simp
qed

section \<open>Operations\<close>

lemma login_reaches:
  assumes "huawei_login e tx ttl subject token device zone platform A = Inr (r, A')"
  shows "reaches (acc_store A) (acc_store A')"
proof -
  obtain external x A1 A2 where
    steps: "login_user e external A = Inr (x, A1)"
      "(case (device, zone) of (Some did, Some z) \<Rightarrow>
           bindE (register_device_locked e (usr_id x) did z platform A1) (\<lambda>(_, A2). Inr A2)
         | _ \<Rightarrow> Inr A1) = Inr A2"
      "sessions_add (new_session tx (usr_id x) device token (clk e 7 + hours ttl) (uid4 e 1) (clk e 8)) A2 = Inr A'"
    using assms by (auto simp: huawei_login_def Let_def)
  have "reaches (acc_store A) (acc_store A1)"
    using steps(1) reaches_set_users
    by (auto simp: login_user_def Let_def users_add_def split: option.splits UserStatus.splits if_splits)
  moreover have "acc_store A2 = acc_store A1"
    using steps(2) register_cases(1) by (auto split: option.splits)
  ultimately show ?thesis
    using sessions_add_cases(1) [OF steps(3)] by simp
qed

lemma refresh_reaches:
  assumes "refresh_session e tx ttl access_token token A = Inr (r, A')"
  shows "reaches (acc_store A) (acc_store A')"
  using assms by (cases rule: refresh_cases) (metis reaches_refl sessions_add_cases(1) sessions_update_keys(1))

lemma logout_reaches:
  assumes "logout e tx uid access_token A = Inr (r, A')"
  shows "reaches (acc_store A) (acc_store A')"
proof -
  have "\<exists>x. A' = (let A1 = sessions_update (session_revoke (clk e 0) x) A in case ses_device_id x of None \<Rightarrow> A1
       | Some did \<Rightarrow> A1\<lparr>acc_store := endpoints_invalidate_for_device (clk e 1) uid did (acc_store A1)\<rparr>)"
    using assms unfolding logout_def Let_def bindE_eq_Inr require_eq_Inr ofopt_eq_Inr by blast
  then show ?thesis
    by (auto simp: Let_def endpoints_invalidate_for_device_def reaches_endpoints split: option.splits)
qed

lemma push_token_reaches:
  "upsert_push_token e uid did token provider A = Inr (r, A') \<Longrightarrow> reaches (acc_store A) (acc_store A')"
  by (auto simp: upsert_push_token_def endpoints_upsert_def reaches_endpoints split: if_splits)

lemma request_reaches:
  assumes run: "request_account_deletion e uid A = Inr (r, A')"
  shows "reaches (acc_store A) (acc_store A')"
proof -
  obtain x where x: "identity_users_get uid A = Some x"
    using run unfolding request_account_deletion_def bindE_eq_Inr ofopt_eq_Inr by blast
  show ?thesis
  proof (cases "usr_status x = UserStatus.DELETED")
    case False
    let ?A = "users_update (user_begin_deletion (clk e 0) x) A"
    let ?key = "u ''account-deletion:'' @ uuid_str uid"
    have users: "reaches (acc_store A) (acc_store ?A)"
      unfolding users_update_def by (rule reaches_set_users)
    show ?thesis
    proof (cases "jobs_get_by_dedupe_key uid ?key (core (acc_store ?A))")
      case None
      then obtain j c where j: "DurableJob_init uid DurableJobKind.ACCOUNT_DELETION ?key [u ''user_id'' \<mapsto> juuid uid]
           (uid4 e 0) (Aware (clk e 1)) 5 (clk e 2) (clk e 3) = Inr j"
          and c: "jobs_add j (core (acc_store ?A)) = Inr c" and A': "A' = ?A\<lparr>acc_store := (acc_store ?A)\<lparr>core := c\<rparr>\<rparr>"
        using run x False by (auto simp: request_account_deletion_def Let_def)
      have "other_job j"
        using j by (auto simp: other_job_def DurableJob_init_def agent_key_def u_def split: if_splits)
      then have "fresh_other_job j"
        using j unfolding fresh_other_job_def by blast
      moreover have "c = (core (acc_store ?A))\<lparr>db_jobs := db_jobs (core (acc_store ?A)) @ [j]\<rparr>"
          "\<forall>y \<in> set (db_jobs (core (acc_store ?A))). \<not> job_clash y j"
        using c by (auto simp: jobs_add_def)
      ultimately have "outside_write (core (acc_store ?A)) c"
        using outside_write.add_job by (simp del: users_update_rest)
      then have "auto_write (acc_store ?A) ((acc_store ?A)\<lparr>core := c\<rparr>)"
        using c by (intro auto_write.outside) (auto simp: jobs_add_def)
      then have "reaches (acc_store ?A) (acc_store A')"
        by (simp add: A' reaches_auto auto_write1)
      with users show ?thesis
        by (rule reaches_trans)
    qed (use users run x False in \<open>simp add: request_account_deletion_def Let_def\<close>)
  qed (use run x in \<open>simp add: request_account_deletion_def\<close>)
qed

section \<open>The deletion worker\<close>

text \<open>The automations the deletion lists are rows of the table, each listed once.\<close>

lemma listed_rows:
  assumes ok: "auto_ok s" and list: "automations_list_for_user uid n s = Inr as"
  shows "keyed aut_id as" "set as \<subseteq> set (st_automations s)"
proof -
  let ?rows = "take n (sort_key (\<lambda>a. (- aut_created_at a, - uint (aut_id a))) (sel (\<lambda>a. aut_user_id a = uid) (st_automations s)))"
  have rows: "set ?rows \<subseteq> set (st_automations s)"
    by (auto simp: sel_def dest: in_set_takeD)
  then have "mapE automation_to_domain ?rows = Inr ?rows"
    using post_init_id auto_okD(2) [OF ok] by (intro mapE_id) blast
  then have as: "as = ?rows"
    using list by (simp add: automations_list_for_user_def)
  have "distinct (map aut_id (filter (\<lambda>a. aut_user_id a = uid) (st_automations s)))"
    using auto_keysD(1) [OF auto_okD(1) [OF ok]] by (intro distinct_map_filter) (simp add: keyed_def)
  then show "keyed aut_id as"
    unfolding as keyed_def sel_def take_map [symmetric] by (simp add: distinct_map distinct_take inj_on_subset [OF _ set_take_subset])
  show "set as \<subseteq> set (st_automations s)"
    unfolding as by (rule rows)
qed

lemma cancel_writes:
  assumes "auto_ok s" "keyed aut_id as" "set as \<subseteq> set (st_automations s)"
  shows "auto_writes s (cancel_automations e k as s)"
  using assms
proof (induction as arbitrary: k s)
  case (Cons a as)
  let ?c = "automation_cancel (clk e k) a"
  let ?s = "if aut_status a = AutomationStatus.ACTIVE then snd (automations_update ?c (aut_version a) s) else s"
  have a: "a \<in> set (st_automations s)"
    using Cons.prems(3) by simp
  have keys: "keyed aut_id (st_automations s)"
    using auto_keysD(1) [OF auto_okD(1) [OF Cons.prems(1)]] .
  have c: "aut_id ?c = aut_id a"
    by (simp add: automation_cancel_def)
  have s: "?s = put_automation ?c s \<or> ?s = s"
    using automations_update_wins [OF keys a c] by simp
  then have first: "auto_writes s ?s"
    using auto_write.move [OF a automation_move.cancel] by (auto intro: auto_write1)
  have "set as \<subseteq> set (st_automations ?s)"
  proof
    fix b assume b: "b \<in> set as"
    then have "b \<in> set (st_automations s)" "aut_id b \<noteq> aut_id a"
      using Cons.prems(2,3) by (auto simp: image_iff)
    then have "b \<in> set (st_automations (put_automation ?c s))"
      using c by (auto simp: set_upd intro!: image_eqI [of _ _ b])
    with \<open>b \<in> set (st_automations s)\<close> s show "b \<in> set (st_automations ?s)"
      by metis
  qed
  then have "auto_writes ?s (cancel_automations e (Suc k) as ?s)"
    using Cons.prems(2) auto_writes_ok [OF first Cons.prems(1)] by (intro Cons.IH) simp_all
  with first show ?case
    unfolding cancel_automations.simps by (rule rtranclp_trans)
qed simp

lemma deletion_reaches:
  assumes ok: "system_ok (acc_store A)" and run: "apply_account_deletion e uid A = Inr A'"
  shows "reaches (acc_store A) (acc_store A')"
proof (cases "\<exists>x. identity_users_get uid A = Some x \<and> usr_status x \<noteq> UserStatus.DELETED")
  case True
  then obtain x where x: "identity_users_get uid A = Some x" "usr_status x \<noteq> UserStatus.DELETED"
    by blast
  obtain as where as: "automations_list_for_user uid 500 (acc_store A) = Inr as"
    using run x by (auto simp: apply_account_deletion_def Let_def)
  let ?s = "cancel_automations e 1 as (acc_store A)"
  let ?t = "endpoints_invalidate_for_user (clk e (length as + 1)) uid ?s"
  have auto: "auto_ok (acc_store A)"
    using ok by (simp add: system_ok_def)
  have "reaches (acc_store A) ?s"
    by (intro reaches_auto cancel_writes [OF auto] listed_rows [OF auto as])
  moreover have "reaches ?s ?t"
    by (simp add: endpoints_invalidate_for_user_def reaches_endpoints)
  moreover have "\<exists>us. acc_store A' = ?t\<lparr>core := (core ?t)\<lparr>db_users := us\<rparr>\<rparr>"
    using run x as by (auto simp: apply_account_deletion_def Let_def users_update_def set_users_def
        sessions_revoke_for_user_def devices_deactivate_for_user_def)
  then have "reaches ?t (acc_store A')"
    using reaches_users by metis
  ultimately show ?thesis
    using reaches_trans by blast
qed (use run in \<open>auto simp: apply_account_deletion_def split: option.splits if_splits\<close>)

lemma deletion_round_reaches:
  assumes ok: "system_ok (acc_store A)" and run: "account_deletion_run_once worker lease now e A = (r, A')"
  shows "reaches (acc_store A) (acc_store A')"
proof -
  obtain js c where claim: "claim_ready_jobs DurableJobKind.ACCOUNT_DELETION worker now (now + timedelta_seconds lease) 1
      (core (acc_store A)) = (js, c)"
    by (metis surj_pair)
  let ?A = "A\<lparr>acc_store := (acc_store A)\<lparr>core := c\<rparr>\<rparr>"
  have "keyed job_id (db_jobs (core (acc_store A)))"
    using ok by (simp add: system_ok_def runtime_ok_def keys_ok_def)
  then have claimed: "reaches (acc_store A) (acc_store ?A)"
    using claim_ready_auto [OF _ claim] by (simp add: reaches_auto)
  show ?thesis
  proof (cases js)
    case Nil
    then show ?thesis
      using run claim claimed by (auto simp: account_deletion_run_once_def)
  next
    case (Cons j js')
    show ?thesis
    proof (cases "apply_account_deletion e (job_user_id j) ?A")
      case (Inl err)
      then show ?thesis
        using run claim Cons by (simp add: account_deletion_run_once_def)
    next
      case (Inr A1)
      have deleted: "reaches (acc_store ?A) (acc_store A1)"
        by (rule deletion_reaches [OF reaches_ok [OF claimed ok] Inr])
      obtain b c' where settle: "jobs_settle (job_id j) worker (job_claim_epoch j) DurableJobStatus.COMPLETED now None
          (core (acc_store A1)) = (b, c')"
        by (metis surj_pair)
      have "reaches (acc_store A1) ((acc_store A1)\<lparr>core := c'\<rparr>)"
        by (intro reaches_auto jobs_settle_auto [OF settle]) simp
      then show ?thesis
        using run claim Cons Inr settle reaches_trans [OF claimed reaches_trans [OF deleted]]
        by (cases b) (auto simp: account_deletion_run_once_def)
    qed
  qed
qed

section \<open>Every step\<close>

lemma identity_step_system_ok:
  assumes ok: "system_ok (acc_store A)" and step: "identity_step e A A'"
  shows "system_ok (acc_store A')"
proof -
  have own: "system_ok (acc_store A')" if "reaches (acc_store A) (acc_store A')"
    using reaches_ok [OF that ok] .
  show ?thesis
    using step
  proof (cases rule: identity_step.cases)
    case (other L L')
    then show ?thesis
      using library_step_ok [OF other(2,4)] by (simp add: library_ok_def)
  next
    case (register uid did zone platform d)
    then have "register_device_locked e uid did (strip zone) platform A = Inr (d, A')"
      by (simp add: register_device_def)
    then show ?thesis
      using ok register_cases(1) by metis
  next
    case (drop_token uid did r)
    then show ?thesis
      by (intro own) (auto simp: delete_push_token_def endpoints_invalidate_for_device_def reaches_endpoints)
  qed (blast intro: own login_reaches refresh_reaches logout_reaches push_token_reaches request_reaches
      deletion_round_reaches [OF ok])+
qed

interpretation identity_store: invariant_system identity_step "\<lambda>A. system_ok (acc_store A)"
  by unfold_locales (rule identity_step_system_ok)

lemma identity_reachable_system_ok: "identity_reachable A \<Longrightarrow> system_ok (acc_store A)"
  unfolding identity_reachable_def
  by (auto simp: empty_accounts_def system_ok_empty dest: identity_store.trace_inv)

end
