(* ===== verification/LibraryScenario.thy ===== *)
theory LibraryScenario
  imports LibraryMachine Scenario
begin

text \<open>
  A worked scenario of the library, each step evaluated by the simplifier: user 7 uploads a text, the
  worker \<open>w1\<close> claims it and completes it, the user deletes it and the worker \<open>p1\<close> purges it. The
  witnesses of the properties of the library are taken from it.
\<close>

section \<open>Sources\<close>

lemma library_reachable_step: "library_reachable L \<Longrightarrow> library_step e L L' \<Longrightarrow> library_reachable L'"
  unfolding library_reachable_def by (blast intro: trace_append trace_one)

lemma library_reachable_empty: "library_reachable empty_library"
  unfolding library_reachable_def by (blast intro: trace.intros)

definition demo_cfg :: source_config where
  "demo_cfg = \<lparr>scf_max_upload_bytes = 100, scf_embedding_version = None, scf_embed_many = (\<lambda>_. None),
     scf_embed = (\<lambda>_. None), scf_digest = (\<lambda>_. u ''sha'')\<rparr>"

definition demo_upload :: upload_request where
  "demo_upload = \<lparr>upl_user_id = 7, upl_filename = u ''a.txt'', upl_mime_type = u ''text/plain'',
     upl_chunks = [u ''hi''], upl_idempotency_key = u ''up1'', upl_origin = SourceOrigin.UPLOAD,
     upl_message_id = None\<rparr>"

definition demo_src :: Source where
  "demo_src = \<lparr>src_user_id = 7, src_source_type = SourceType.OTHER, src_origin = SourceOrigin.UPLOAD,
     src_title = u ''a.txt'', src_mime_type = u ''text/plain'', src_object_key = u ''key'',
     src_content_hash = u ''sha'', src_size = 2, src_idempotency_key = u ''up1'', src_id = 501,
     src_external_url = None, src_captured_at = None, src_metadata = version_metadata demo_cfg,
     src_processing_status = ProcessingStatus.PENDING, src_extracted_text = None,
     src_processing_error = None, src_processed_at = None, src_claim_owner = None,
     src_lease_expires_at = None, src_heartbeat_at = None, src_attempt_count = 0,
     src_next_attempt_at = None, src_deleted_at = None, src_created_at = 1000\<rparr>"

lemma demo_src_uploaded:
  "uploaded_source (demo_env 500 1000) demo_cfg demo_upload SourceType.OTHER (u ''key'') (u ''hi'') = demo_src"
proof -
  have "path_name (u ''a.txt'') = u ''a.txt''"
    by (simp add: path_name_def u_def)
  then show ?thesis
    by (simp add: uploaded_source_def Let_def demo_upload_def demo_src_def demo_cfg_def PROCESSABLE_MIME_TYPES_def
        u_def)
qed

definition lib1 :: library where
  "lib1 = empty_library\<lparr>state := empty_store\<lparr>core := empty_db\<lparr>
     db_users := [demo_user\<lparr>usr_created_at := 1002, usr_updated_at := 1002\<rparr>], db_sources := [demo_src]\<rparr>\<rparr>,
     lb_files := [file_from_source demo_src]\<rparr>"

lemma lib1_step: "store_upload (demo_env 500 1000) demo_upload demo_src empty_library = Inr ((), lib1)"
  by (simp add: store_upload_def repo_defs empty_library_def empty_store_def empty_db_def demo_upload_def
      mirror_source_upload_def lib1_def ins_def demo_user_def set_core_def set_sources_def)

definition claimed_src :: Source where
  "claimed_src = claim_source (u ''w1'') 2000 (2000 + timedelta_seconds 30) demo_src"

definition lib2 :: library where
  "lib2 = set_sources [claimed_src] lib1"

definition demo_spj :: SourceProcessingJobDTO where
  "demo_spj = \<lparr>spj_id = 501, spj_user_id = 7, spj_title = u ''a.txt'', spj_mime_type = u ''text/plain'',
     spj_object_key = u ''key'', spj_attempt_count = 1\<rparr>"

lemma lib_sources [simp]: "lb_sources lib1 = [demo_src]" "lb_sources lib2 = [claimed_src]"
  by (simp_all add: lib1_def lib2_def)

lemma demo_src_claimable: "claimable None 2000 PROCESSABLE_MIME_TYPES 3 demo_src"
  by (simp add: claimable_def demo_src_def PROCESSABLE_MIME_TYPES_def)

lemma lib2_step: "claim_next_processing (demo_env 600 2000) (u ''w1'') None 30 3 lib1 = Inr (Some demo_spj, lib2)"
  by (simp add: claim_next_processing_def sources_claim_next_processing_def demo_src_claimable sel_def lib2_def
      claimed_src_def [symmetric] Let_def upd_def)
    (simp add: claimed_src_def claim_source_def demo_src_def demo_spj_def)


definition demo_content :: ParsedSourceContent where
  "demo_content = \<lparr>psc_text = u ''hi'', psc_pages = [\<lparr>psp_page_number = None, psp_text = u ''hi''\<rparr>]\<rparr>"

definition demo_chunk :: SourceChunk where
  "demo_chunk = (new_chunk (demo_env 700 3000) 501 0 0 (u ''hi'') 0 2)
     \<lparr>chk_metadata := [u ''evidence_type'' \<mapsto> JStr (u ''TEXT_SPAN''), u ''page_number'' \<mapsto> JNull]
       ++ version_metadata demo_cfg\<rparr>"

lemma demo_hi: "length (u ''hi'') = 2" "strip (u ''hi'') = u ''hi''" "strip (cut 0 2 (u ''hi'')) = u ''hi''" "u ''hi'' \<noteq> []"
  by (simp_all add: u_def strip_id is_space_def cut_def)

lemma demo_end: "chunk_end 2000 (u ''hi'') 0 = 2"
  by (simp add: chunk_end_def demo_hi)

lemmas demo_span = demo_end demo_hi

lemma demo_parsed: "parse_source 100 [(None, u ''hi'')] = Inr demo_content"
proof -
  have "normal_page (u ''hi'') = u ''hi''"
    by (simp add: normal_page_def u_def line_end_def rstrip_def is_space_def strip_id)
  then show ?thesis
    by (simp add: parse_source_def demo_content_def Let_def demo_hi)
qed

lemma demo_chunks:
  "chunks_from (demo_env 700 3000) 501 (u ''hi'') 2000 200 0 0 0 = [new_chunk (demo_env 700 3000) 501 0 0 (u ''hi'') 0 2]"
proof -
  have "chunk_here (demo_env 700 3000) 501 0 0 (u ''hi'') 0 2 = [new_chunk (demo_env 700 3000) 501 0 0 (u ''hi'') 0 2]"
    unfolding chunk_here_def Let_def demo_span if_not_P [OF demo_span(5)] ..
  then show ?thesis
    by (subst chunks_from.simps) (simp add: Let_def demo_span(1,2))
qed

lemma demo_built:
  "build_source_chunks_from_content (demo_env 700 3000) 501 (normalized_content demo_content) 2000 200 =
     Inr [page_chunk 0 0 None (new_chunk (demo_env 700 3000) 501 0 0 (u ''hi'') 0 2)]"
  by (simp add: build_source_chunks_from_content_def normalized_content_def demo_content_def demo_span demo_chunks Let_def)

lemma demo_finished:
  "finished_chunks demo_cfg [page_chunk 0 0 None (new_chunk (demo_env 700 3000) 501 0 0 (u ''hi'') 0 2)] = [demo_chunk]"
  by (simp add: finished_chunks_def demo_cfg_def Let_def demo_chunk_def page_chunk_def new_chunk_def)

definition ready_src :: Source where
  "ready_src = complete_source (u ''hi'') 3104 claimed_src"

definition demo_generation :: FileProcessingGeneration where
  "demo_generation = new_generation (demo_env 800 3100) 501 PARSER_VERSION CHUNK_VERSION None"

definition lib3 :: library where
  "lib3 = (set_sources [ready_src] lib2)\<lparr>lb_chunks := [demo_chunk], lb_generations := [demo_generation],
     lb_segments := [segment_of_chunk (demo_env 800 3100) 0 501 800 demo_chunk]\<rparr>"

lemma demo_src_rows [simp]: "src_id demo_src = 501" "src_user_id demo_src = 7" "src_id claimed_src = 501"
  "src_user_id claimed_src = 7" "src_processing_status claimed_src = ProcessingStatus.PENDING"
  "src_claim_owner claimed_src = Some (u ''w1'')" "src_deleted_at claimed_src = None"
  "src_id ready_src = 501" "src_user_id ready_src = 7"
  by (simp_all add: claimed_src_def claim_source_def demo_src_def ready_src_def complete_source_def)

lemma lib_rows [simp]:
  "lb_chunks lib1 = []" "lb_files lib1 = [file_from_source demo_src]" "lb_generations lib1 = []" "lb_segments lib1 = []"
  "lb_chunks lib2 = []" "lb_files lib2 = [file_from_source demo_src]" "lb_generations lib2 = []" "lb_segments lib2 = []"
  by (simp_all add: lib1_def lib2_def empty_library_def)

lemma lib2_held: "held_update 501 (u ''w1'') (complete_source (u ''hi'') 3104) lib2 = (True, set_sources [ready_src] lib2)"
proof -
  have "held_by 501 (u ''w1'') claimed_src"
    by (simp add: held_by_def)
  then show ?thesis
    by (simp add: held_update_def cnt_def upd_def ready_src_def)
qed

lemma demo_generation_rows [simp]: "gen_id demo_generation = 800"
  by (simp add: demo_generation_def new_generation_def generation_mark_ready_def)

lemma lib2_mirrored:
  "mirror_processing_complete (demo_env 800 3100) ready_src [demo_chunk] PARSER_VERSION CHUNK_VERSION None
     ((set_sources [ready_src] lib2)\<lparr>lb_chunks := [demo_chunk]\<rparr>) = Inr lib3"
proof -
  have "files_get_including_deleted 7 501 ((set_sources [ready_src] lib2)\<lparr>lb_chunks := [demo_chunk]\<rparr>)
      = Some (file_from_source demo_src)"
    by (simp add: files_get_including_deleted_def file_from_source_def)
  then show ?thesis
    by (simp add: mirror_processing_complete_def Let_def files_retire_active_generations_def upd_def
        files_add_generation_def demo_generation_def [symmetric] ins_def files_replace_segments_def lib3_def)
qed

lemma lib3_step:
  "complete_processing (demo_env 700 3000) (demo_env 800 3100) demo_cfg 501 (u ''w1'') demo_content lib2 = Inr (True, lib3)"
proof -
  have strip: "strip (psc_text demo_content) = u ''hi''"
    by (simp add: demo_content_def demo_span)
  have "scf_embedding_version demo_cfg = None" "sources_get_by_id 501 ((set_sources [ready_src] lib2)\<lparr>lb_chunks := [demo_chunk]\<rparr>) = Some ready_src"
    by (simp_all add: demo_cfg_def sources_get_by_id_def)
  then show ?thesis
    by (simp add: complete_processing_def strip demo_span demo_built demo_finished sources_complete_processing_def lib2_held
        lib2_mirrored ins_def)
qed


lemmas demo_uploads = library_step.upload [of "demo_env 500 1000" demo_upload demo_cfg SourceType.OTHER "u ''key''" "u ''hi''"]

lemma lib1_reachable: "library_reachable lib1"
  by (rule library_reachable_step [OF library_reachable_empty]) (rule demo_uploads [unfolded demo_src_uploaded, OF lib1_step])

lemma lib2_reachable: "library_reachable lib2"
  by (rule library_reachable_step [OF lib1_reachable]) (rule library_step.claim_source [OF lib2_step])

lemma lib3_reachable: "library_reachable lib3"
  by (rule library_reachable_step [OF lib2_reachable]) (rule library_step.complete_source [OF lib3_step])

section \<open>Deleting and purging\<close>

definition other_upload :: upload_request where
  "other_upload = demo_upload\<lparr>upl_idempotency_key := u ''up2''\<rparr>"

definition other_src :: Source where
  "other_src = demo_src\<lparr>src_object_key := u ''key2'', src_idempotency_key := u ''up2'', src_id := 511,
     src_created_at := 1010\<rparr>"

lemma other_src_uploaded:
  "uploaded_source (demo_env 510 1010) demo_cfg other_upload SourceType.OTHER (u ''key2'') (u ''hi'') = other_src"
  using demo_src_uploaded
  by (simp add: uploaded_source_def Let_def other_upload_def other_src_def demo_src_def demo_upload_def PROCESSABLE_MIME_TYPES_def)

definition lib4 :: library where
  "lib4 = (set_sources [demo_src, other_src] lib1)\<lparr>lb_files := [file_from_source demo_src, file_from_source other_src]\<rparr>"

lemma lib4_step: "store_upload (demo_env 510 1010) other_upload other_src lib1 = Inr ((), lib4)"
  by (simp add: store_upload_def repo_defs empty_library_def empty_store_def empty_db_def demo_upload_def other_upload_def
      mirror_source_upload_def lib1_def lib4_def ins_def demo_user_def set_core_def set_sources_def
      other_src_def demo_src_def source_clash_def file_clash_def file_from_source_def)


lemmas other_uploads = library_step.upload [of "demo_env 510 1010" other_upload demo_cfg SourceType.OTHER "u ''key2''" "u ''hi''"]

lemma lib4_reachable: "library_reachable lib4"
  by (rule library_reachable_step [OF lib1_reachable]) (rule other_uploads [unfolded other_src_uploaded, OF lib4_step])

definition purge_job :: DurableJob where
  "purge_job = \<lparr>job_user_id = 7, job_kind = DurableJobKind.FILE_PURGE, job_dedupe_key = u ''file-purge:'' @ uuid_str 511,
     job_payload = purge_payload 511 (u ''key2''), job_id = 900, job_status = DurableJobStatus.READY,
     job_priority = 0, job_available_at = 4002, job_delivery_attempt = 0,
     job_max_delivery_attempts = 5, job_claimed_by = None, job_claim_epoch = 0,
     job_lease_until = None, job_last_error_code = None, job_created_at = 4003, job_updated_at = 4004\<rparr>"

definition purge_mutation :: StateMutation where
  "purge_mutation = delete_mutation (demo_env 900 4000) 7 511 (u ''a1'') (u ''del1'') (u ''gone'') (delete_source 4000 other_src)"

definition lib5 :: library where
  "lib5 = lib4\<lparr>state := (state lib4)\<lparr>core := (lb_core lib4)\<lparr>db_sources := [demo_src, delete_source 4000 other_src],
       db_jobs := [purge_job]\<rparr>, st_mutations := [purge_mutation]\<rparr>,
     lb_files := [file_from_source demo_src,
       (file_from_source other_src)\<lparr>fil_deleted_at := Some 4001, fil_asset_status := FileAssetStatus.DELETED\<rparr>]\<rparr>"

lemma lib5_step:
  "apply_delete_file (demo_env 900 4000) 7 511 (u ''a1'') (u ''del1'') (u ''gone'') lib4 =
     Inr (file_deleted_outcome 901 511 False, lib5)"
proof -
  have core: "lb_core lib4 = empty_db\<lparr>db_users := [demo_user\<lparr>usr_created_at := 1002, usr_updated_at := 1002\<rparr>],
      db_sources := [demo_src, other_src]\<rparr>"
    by (simp add: lib4_def lib1_def)
  have other: "src_id other_src = 511" "src_user_id other_src = 7" "src_object_key other_src = u ''key2''"
      "src_deleted_at other_src = None"
    by (simp_all add: other_src_def demo_src_def)
  have key: "strip (u ''file-purge:'' @ uuid_str 511) \<noteq> []"
    by (simp add: strip_eq_Nil_iff u_def is_space_def)
  have job: "enqueue_file_purge (demo_env 900 4000) 7 511 (u ''key2'') (empty_db\<lparr>db_users := us, db_sources := xs\<rparr>) =
      Inr (empty_db\<lparr>db_users := us, db_sources := xs, db_jobs := [purge_job]\<rparr>)" for us xs
    using key by (simp add: enqueue_file_purge_def Let_def jobs_get_by_dedupe_key_def jobs_add_def DurableJob_init_def purge_job_def ins_def
      empty_db_def)
  have tables: "st_mutations (state lib4) = []" "lb_chunks lib4 = []" "lb_segments lib4 = []"
      "lb_files lib4 = [file_from_source demo_src, file_from_source other_src]"
    by (simp_all add: lib4_def lib1_def empty_library_def empty_store_def set_sources_def set_core_def)
  have filed: "fil_id (file_from_source x) = src_id x" "fil_owner_user_id (file_from_source x) = src_user_id x"
      "fil_deleted_at (file_from_source x) = src_deleted_at x" for x
    by (simp_all add: file_from_source_def)
  have mutation: "mut_id (delete_mutation (demo_env 900 4000) 7 511 (u ''a1'') (u ''del1'') (u ''gone'') d) = 901" for d
    by (simp add: delete_mutation_def new_mutation_def)
  show ?thesis
    by (simp add: apply_delete_file_def filed mutation set_sources_def set_core_def purge_mutation_def core other tables audit_get_mutation_def sources_get_def sources_mark_deleted_def Let_def upd_def
      mirror_source_delete_def files_purge_segments_for_file_def files_mark_deleted_def sources_purge_chunks_def job audit_add_mutation_def
      file_deleted_outcome_def lib5_def)
qed


lemma lib5_reachable: "library_reachable lib5"
  by (rule library_reachable_step [OF lib4_reachable]) (rule library_step.delete_file [OF lib5_step])

definition demo_objects :: objects where
  "demo_objects = [u ''key'' \<mapsto> u ''hi'', u ''key2'' \<mapsto> u ''hi'']"

definition stored5 :: storage where
  "stored5 = \<lparr>library_of = lib5, objects_of = demo_objects\<rparr>"

definition purge_claimed :: DurableJob where
  "purge_claimed = claim_job_row (u ''p1'') 5001 (5001 + timedelta_seconds 60) purge_job"

lemma purge_claim:
  "claim_ready_jobs DurableJobKind.FILE_PURGE (u ''p1'') 5001 (5001 + timedelta_seconds 60) (Suc 0) (lb_core lib5) =
     ([purge_claimed], (lb_core lib5)\<lparr>db_jobs := [purge_claimed]\<rparr>)"
proof -
  have "job_kind purge_job = DurableJobKind.FILE_PURGE" "job_status purge_job = DurableJobStatus.READY"
      "job_available_at purge_job = 4002" "job_id purge_job = 900"
    by (simp_all add: purge_job_def)
  moreover have "db_jobs (lb_core lib5) = [purge_job]"
    by (simp add: lib5_def)
  ultimately show ?thesis
    by (simp add: claim_ready_jobs_def jobs_requeue_expired_def jobs_claim_ready_def Let_def upd_def job_expired_def
        job_due_def purge_claimed_def)
qed

lemma purge_round:
  "\<exists>L. purge_run_once (u ''p1'') 60 (demo_env 950 5000) stored5 =
      (Inr True, \<lparr>library_of = L, objects_of = demo_objects(u ''key2'' := None)\<rparr>) \<and>
    lb_sources L = [demo_src, delete_source 4000 other_src]"
proof -
  have job: "job_id purge_claimed = 900" "job_user_id purge_claimed = 7" "job_payload purge_claimed = purge_payload 511 (u ''key2'')"
      "job_claim_epoch purge_claimed = 1" "job_status purge_claimed = DurableJobStatus.CLAIMED"
      "job_claimed_by purge_claimed = Some (u ''p1'')" "job_lease_until purge_claimed = Some (5001 + timedelta_seconds 60)"
    by (simp_all add: purge_claimed_def claim_job_row_def purge_job_def)
  have fid: "purge_job_file purge_claimed = Inr 511"
    by (simp add: purge_job_file_def job payload_uuid_def payload_str_def purge_payload_def juuid_def)
  have lease: "0 \<le> timedelta_seconds 60"
    by code_simp
  have "\<exists>L1. apply_physical_purge (demo_env 950 5000) 7 511 (set_core ((lb_core lib5)\<lparr>db_jobs := [purge_claimed]\<rparr>) lib5) =
      (Some (u ''key2''), L1) \<and> lb_core L1 = (lb_core lib5)\<lparr>db_jobs := [purge_claimed]\<rparr>"
    by (simp add: apply_physical_purge_def files_get_including_deleted_def lib5_def file_from_source_def demo_src_def other_src_def
        files_purge_segments_for_file_def files_mark_purged_def)
  then obtain L1 where L1: "apply_physical_purge (demo_env 950 5000) 7 511 (set_core ((lb_core lib5)\<lparr>db_jobs := [purge_claimed]\<rparr>) lib5) =
      (Some (u ''key2''), L1)" "lb_core L1 = (lb_core lib5)\<lparr>db_jobs := [purge_claimed]\<rparr>"
    by blast
  have "u ''key2'' \<noteq> []"
    by (simp add: u_def)
  moreover have "lb_sources lib5 = [demo_src, delete_source 4000 other_src]"
    by (simp add: lib5_def)
  ultimately show ?thesis
    using lease by (simp add: purge_run_once_def Let_def stored5_def purge_claim fid job L1 jobs_settle_def job_fence_def cnt_def object_delete_def)
qed

section \<open>Parameters\<close>

definition demo_texts :: texts_env where
  "demo_texts = \<lparr>tx_fold = (\<lambda>c. [c]), tx_sha = id, tx_lower = id, tx_float = (\<lambda>_. JNull), tx_dist = (\<lambda>_ _. 0)\<rparr>"

definition demo_worker :: source_worker where
  "demo_worker = \<lparr>swk_id = u ''w1'', swk_lease_seconds = 30, swk_max_attempts = 3, swk_retry_base = 1, swk_retry_max = 60\<rparr>"

end
