(* ===== verification/IdentityProperties.thy ===== *)
theory IdentityProperties
  imports IdentityRefinement AutomationDue LibraryScenario
begin

text \<open>
  The properties of the accounts: a deleted account stays closed, the deletion job closes one, and a
  refreshed session replaces the one before it. The witnesses are at the end.
\<close>

section \<open>Deleted accounts\<close>

lemma session_row:
  "sessions_get_by_token_hash h A = Some x \<Longrightarrow> x \<in> set (acc_sessions A) \<and> ses_token_hash x = h"
  by (auto simp: sessions_get_by_token_hash_def dest!: sel1_Some)

text \<open>The header is the one of the token of development, which stands for the user.\<close>

definition development_header :: "(str \<times> uuid) option \<Rightarrow> str option \<Rightarrow> uuid \<Rightarrow> bool" where
  "development_header dev header uid \<longleftrightarrow>
     (\<exists>h. header = Some h \<and> dev = Some (strip (drop (length BEARER) h), uid))"

lemma shut_unauthenticated:
  assumes "shut uid A" "authenticate now tx dev header A = Inr uid"
  shows "development_header dev header uid"
proof (rule ccontr)
  assume "\<not> development_header dev header uid"
  then obtain h x where "sessions_get_by_token_hash (tx_sha tx (strip (drop (length BEARER) h))) A = Some x"
      "session_is_active now x" "ses_user_id x = uid"
    using assms(2)
    by (auto simp: authenticate_def development_header_def Let_def split: option.splits if_splits prod.splits)
  then show False
    using assms(1) session_row by (auto simp: shut_def session_is_active_def)
qed

lemma deleted_inactive: "identity_ok A \<Longrightarrow> deleted uid A \<Longrightarrow> \<not> active_account uid A"
  using active_not_deleted by (auto simp: identity_ok_def)

text \<open>
  C14. A deleted account stays closed: once a user is deleted, whatever the identity service and the rest
  of the system do (any step of the library machine, the runtime, the personal state and the
  automations included, of which it is proved that it only adds users), the user stays deleted, none of
  the user's sessions is open and none of the devices active, no device can be registered for the user,
  no session of the user can be refreshed, the login of the user's external subject is refused, and no
  bearer token authenticates as the user, with one exception: the token of development, if one is
  configured and stands for this user, which the API accepts without reading the account.
\<close>

theorem deleted_account_stays_closed:
  assumes "identity_reachable A" "deleted uid A" "identity_history es A A'"
  shows "deleted uid A' \<and> shut uid A' \<and>
    (authenticate now tx dev header A' = Inr uid \<longrightarrow> development_header dev header uid) \<and>
    (strip zone \<noteq> [] \<longrightarrow> register_device e uid did zone platform A' = Inl ACCOUNT_INACTIVE) \<and>
    (case refresh_session e tx ttl access_token token A' of Inl err \<Rightarrow> True | Inr (r, _) \<Rightarrow> lgn_user_id r \<noteq> uid) \<and>
    (\<forall>x \<in> set (acc_users A'). \<forall>subject. usr_id x = uid \<and> usr_external_subject x = Some subject \<longrightarrow>
      huawei_login e tx ttl (Inr subject) token device timezone platform A'
        = Inl (InvalidStateTransition (u ''Account has been deleted.'')))"
proof -
  have ok: "identity_ok A'" and del: "deleted uid A'"
    using deleted_history [OF assms(3) identity_reachable_ok [OF assms(1)] assms(2)] by simp_all
  then have shut: "shut uid A'"
    by (simp add: identity_ok_def)
  have inactive: "\<not> active_account uid A'"
    by (rule deleted_inactive [OF ok del])
  have "lgn_user_id r \<noteq> uid" if run: "refresh_session e tx ttl access_token token A' = Inr (r, A'')" for r A''
  proof -
    show ?thesis
      using run by (cases rule: refresh_cases) (use inactive in auto)
  qed
  moreover have "huawei_login e tx ttl (Inr subject) token device timezone platform A'
      = Inl (InvalidStateTransition (u ''Account has been deleted.''))"
    if x: "x \<in> set (acc_users A')" "usr_id x = uid" "usr_external_subject x = Some subject" for x subject
  proof -
    have keys: "identity_keys A'"
      using ok by (simp add: identity_ok_def)
    obtain y where y: "users_get_by_external_subject subject A' = Some y"
      using x by (cases "users_get_by_external_subject subject A'") (auto simp: users_get_by_external_subject_def sel1_None)
    then have yin: "y \<in> set (acc_users A')" "usr_external_subject y = Some subject"
      by (auto simp: users_get_by_external_subject_def dest!: sel1_Some)
    have "usr_id y = uid"
      using keys x yin unfolding identity_keys_def by (metis option.distinct(1))
    moreover obtain z where z: "z \<in> set (acc_users A')" "usr_id z = uid" "usr_status z = UserStatus.DELETED"
      using del by (auto simp: deleted_def)
    ultimately have "y = z"
      using keys yin(1) by (intro keyed_unique [of usr_id "acc_users A'"]) (simp_all add: identity_keys_def)
    then show ?thesis
      using y z(3) by (simp add: huawei_login_def login_user_def)
  qed
  ultimately show ?thesis
    using del shut shut_unauthenticated [OF shut, of now tx dev header] inactive
    by (auto simp: register_device_def require_def split: sum.splits)
qed

section \<open>The deletion job\<close>

lemma cancelled_rows:
  assumes "keyed aut_id as"
    and "\<forall>a \<in> set as. \<exists>r \<in> set (st_automations s). aut_id r = aut_id a \<and> aut_version r = aut_version a"
    and "keyed aut_id (st_automations s)" "r' \<in> set (st_automations (cancel_automations e k as s))"
  shows "\<exists>r \<in> set (st_automations s). aut_id r = aut_id r' \<and> aut_user_id r = aut_user_id r' \<and>
    (aut_status r' = AutomationStatus.ACTIVE \<longrightarrow> r' = r \<and> (\<forall>a \<in> set as. aut_id a = aut_id r \<longrightarrow> aut_status a \<noteq> AutomationStatus.ACTIVE))"
  using assms
proof (induction as arbitrary: k s)
  case (Cons a as)
  let ?s = "if aut_status a = AutomationStatus.ACTIVE
        then snd (automations_update (automation_cancel (clk e k) a) (aut_version a) s) else s"
  let ?c = "copy_automation (automation_cancel (clk e k) a)"
  have rows: "st_automations ?s = (if aut_status a = AutomationStatus.ACTIVE
      then upd (\<lambda>r. aut_id r = aut_id a \<and> aut_version r = aut_version a) ?c (st_automations s) else st_automations s)"
    by (simp add: automations_update_def cas_rows_def Let_def automation_cancel_def)
  have copy: "aut_id (?c r) = aut_id r" "aut_user_id (?c r) = aut_user_id r" for r
    by (simp_all add: copy_automation_def)
  have keyed: "keyed aut_id (st_automations ?s)"
    using Cons.prems(3) copy by (simp add: rows keyed_upd)
  have found: "\<exists>r \<in> set (st_automations ?s). aut_id r = aut_id b \<and> aut_version r = aut_version b" if b: "b \<in> set as" for b
  proof -
    obtain r where r: "r \<in> set (st_automations s)" "aut_id r = aut_id b" "aut_version r = aut_version b"
      using Cons.prems(2) b by auto
    have "aut_id b \<noteq> aut_id a"
      using Cons.prems(1) b by (auto simp: image_iff)
    then have "r \<in> set (st_automations ?s)"
      using r unfolding rows by (auto simp: set_upd image_iff intro!: bexI [of _ r])
    then show ?thesis
      using r by blast
  qed
  have "keyed aut_id as" "r' \<in> set (st_automations (cancel_automations e (Suc k) as ?s))"
    using Cons.prems(1,4) by simp_all
  from Cons.IH [OF this(1) _ keyed this(2)] found obtain q where
    q: "q \<in> set (st_automations ?s)" "aut_id q = aut_id r'" "aut_user_id q = aut_user_id r'"
      "aut_status r' = AutomationStatus.ACTIVE \<longrightarrow> r' = q \<and> (\<forall>a \<in> set as. aut_id a = aut_id q \<longrightarrow> aut_status a \<noteq> AutomationStatus.ACTIVE)"
    by blast
  show ?case
  proof (cases "aut_status a = AutomationStatus.ACTIVE")
    case False
    then have "q \<in> set (st_automations s)"
      using q(1) by (simp add: rows)
    then show ?thesis
      using q False by auto
  next
    case True
    obtain p where p: "p \<in> set (st_automations s)" "aut_id p = aut_id a" "aut_version p = aut_version a"
      using Cons.prems(2) by auto
    have "q \<in> set (upd (\<lambda>r. aut_id r = aut_id a \<and> aut_version r = aut_version a) ?c (st_automations s))"
      using q(1) True unfolding rows by simp
    then show ?thesis
    proof (cases rule: in_set_updE)
      case same
      have "aut_id q \<noteq> aut_id a"
        using keyed_unique [OF Cons.prems(3) same(1) p(1)] same(2) p(2,3) by auto
      then show ?thesis
        using same(1) q(2-4) by (intro bexI [of _ q]) auto
    next
      case (changed x)
      have "aut_status q \<noteq> AutomationStatus.ACTIVE"
        using True by (simp add: changed(3) copy_automation_def automation_cancel_def)
      then have "aut_status r' \<noteq> AutomationStatus.ACTIVE"
        using q(4) by auto
      then show ?thesis
        using changed q(2,3) copy by (intro bexI [of _ x]) auto
    qed
  qed
qed (simp, blast)


text \<open>The automations the deletion lists are all of the user's, as the table has them.\<close>

lemma listed_automations:
  assumes ok: "auto_ok s" and few: "cnt (\<lambda>a. aut_user_id a = uid) (st_automations s) \<le> 500"
  obtains as where "automations_list_for_user uid 500 s = Inr as" "keyed aut_id as"
    "set as = {a \<in> set (st_automations s). aut_user_id a = uid}"
proof -
  let ?all = "sort_key (\<lambda>a. (- aut_created_at a, - uint (aut_id a))) (sel (\<lambda>a. aut_user_id a = uid) (st_automations s))"
  have "take 500 ?all = ?all"
    using few by (simp add: sel_def cnt_def)
  moreover have "mapE automation_to_domain ?all = Inr ?all"
    using post_init_id auto_okD(2) [OF ok] by (intro mapE_id) (simp add: sel_def)
  ultimately have list: "automations_list_for_user uid 500 s = Inr ?all"
    by (simp add: automations_list_for_user_def)
  show thesis
    by (rule that [OF list listed_rows(1) [OF ok list]]) (auto simp: sel_def)
qed

lemma no_active_automation:
  assumes keys: "keyed aut_id (st_automations s)" and as: "keyed aut_id as" "set as = {a \<in> set (st_automations s). aut_user_id a = uid}"
    and r: "r \<in> set (st_automations (cancel_automations e k as s))" "aut_user_id r = uid"
  shows "aut_status r \<noteq> AutomationStatus.ACTIVE"
proof
  assume active: "aut_status r = AutomationStatus.ACTIVE"
  have "\<forall>a \<in> set as. \<exists>q \<in> set (st_automations s). aut_id q = aut_id a \<and> aut_version q = aut_version a"
    using as(2) by auto
  from cancelled_rows [OF as(1) this keys r(1)] active
  have "r \<in> set (st_automations s)" "\<forall>a \<in> set as. aut_id a = aut_id r \<longrightarrow> aut_status a \<noteq> AutomationStatus.ACTIVE"
    by auto
  then show False
    using active r(2) as(2) by auto
qed

text \<open>A job that was just claimed is settled.\<close>

lemma claimed_settles:
  assumes keys: "keyed job_id (db_jobs c0)" and lease: "0 \<le> d"
    and claim: "claim_ready_jobs kind owner now (now + d) 1 c0 = (j # js, c)" and c': "db_jobs c' = db_jobs c"
  shows "\<exists>c''. jobs_settle (job_id j) owner (job_claim_epoch j) DurableJobStatus.COMPLETED now None c' = (True, c'') \<and>
    (\<exists>i \<in> set (db_jobs c''). job_id i = job_id j \<and> job_status i = DurableJobStatus.COMPLETED)"
proof -
  obtain k c1 where c1: "jobs_requeue_expired now c0 = (k, c1)"
    by (cases "jobs_requeue_expired now c0")
  have keys1: "keyed job_id (db_jobs c1)"
    using keys c1 by (auto simp: jobs_requeue_expired_def Let_def keyed_upd)
  let ?due = "sort_key due_order (sel (job_due kind now) (db_jobs c1))"
  have claimed: "map (claim_job_row owner now (now + d)) (take 1 ?due) = j # js"
    "c = c1\<lparr>db_jobs := upd (\<lambda>i. job_id i \<in> job_id ` set (take 1 ?due)) (claim_job_row owner now (now + d)) (db_jobs c1)\<rparr>"
    using claim by (auto simp: claim_ready_jobs_def c1 jobs_claim_ready_def Let_def)
  have "j \<in> set (map (claim_job_row owner now (now + d)) (take 1 ?due))"
    unfolding claimed(1) by simp
  then obtain i where i: "i \<in> set (take 1 ?due)" "j = claim_job_row owner now (now + d) i"
    unfolding set_map by (elim imageE)
  then have "i \<in> set (db_jobs c1)"
    by (auto dest!: in_set_takeD simp: sel_def)
  then have j: "j \<in> set (db_jobs c)"
    using i unfolding claimed(2) by (auto simp: set_upd intro!: image_eqI [of _ _ i])
  have keyc: "keyed job_id (db_jobs c')"
    using keys1 unfolding c' claimed(2) by (simp add: keyed_upd claim_job_row_def)
  define p where "p = (\<lambda>x. job_fence (job_id j) owner (job_claim_epoch j) x \<and> lease_live (job_lease_until x) now)"
  have pj: "p j"
    using lease by (simp add: p_def i(2) claim_job_row_def job_fence_def)
  have "cnt p (db_jobs c') = (case row job_id (job_id j) (db_jobs c') of None \<Rightarrow> 0 | Some r \<Rightarrow> if p r then 1 else 0)"
    by (rule cnt_keyed [OF keyc]) (simp add: p_def job_fence_def)
  also have "row job_id (job_id j) (db_jobs c') = Some j"
    using j by (intro keyed_row [OF keyc]) (simp add: c')
  finally have "cnt p (db_jobs c') = 1"
    using pj by simp
  moreover have "j\<lparr>job_status := DurableJobStatus.COMPLETED, job_claimed_by := None, job_lease_until := None,
      job_last_error_code := None, job_updated_at := now\<rparr> \<in> set (upd p (\<lambda>j. j\<lparr>job_status := DurableJobStatus.COMPLETED,
        job_claimed_by := None, job_lease_until := None, job_last_error_code := None, job_updated_at := now\<rparr>) (db_jobs c'))"
    unfolding set_upd c' using pj j by (intro image_eqI [of _ _ j]) simp_all
  ultimately show ?thesis
    unfolding jobs_settle_def Let_def p_def [symmetric]
    by (intro exI conjI bexI [of _ "j\<lparr>job_status := DurableJobStatus.COMPLETED, job_claimed_by := None,
      job_lease_until := None, job_last_error_code := None, job_updated_at := now\<rparr>"]) (rule refl | simp)+
qed

text \<open>The round succeeds: its deletion, the automations it cancels and the settling of its job.\<close>

lemma deletion_round:
  assumes "identity_reachable A" "0 \<le> timedelta_seconds lease"
    and claim: "claim_ready_jobs DurableJobKind.ACCOUNT_DELETION worker now (now + timedelta_seconds lease) 1
      (core (acc_store A)) = (j # js, c)"
    and user: "identity_users_get (job_user_id j) A \<noteq> None" "\<not> deleted (job_user_id j) A"
    and few: "cnt (\<lambda>a. aut_user_id a = job_user_id j) (st_automations (acc_store A)) \<le> 500"
  obtains as A' where "account_deletion_run_once worker lease now e A = (Inr True, A')"
    "deleted (job_user_id j) A'" "shut (job_user_id j) A'"
    "keyed aut_id as" "set as = {a \<in> set (st_automations (acc_store A)). aut_user_id a = job_user_id j}"
    "st_automations (acc_store A') = st_automations (cancel_automations e 1 as ((acc_store A)\<lparr>core := c\<rparr>))"
    "st_endpoints (acc_store A') = st_endpoints (endpoints_invalidate_for_user (clk e (length as + 1)) (job_user_id j)
       (cancel_automations e 1 as ((acc_store A)\<lparr>core := c\<rparr>)))"
    "\<exists>i \<in> set (db_jobs (core (acc_store A'))). job_id i = job_id j \<and> job_status i = DurableJobStatus.COMPLETED"
proof -
  let ?uid = "job_user_id j" and ?A = "A\<lparr>acc_store := (acc_store A)\<lparr>core := c\<rparr>\<rparr>"
  have sys: "auto_ok (acc_store A)" "keyed job_id (db_jobs (core (acc_store A)))"
    using identity_reachable_system_ok [OF assms(1)] by (simp_all add: system_ok_def runtime_ok_def keys_ok_def)
  have same: "acc_users ?A = acc_users A"
    using claim_ready_users [OF claim] by simp
  have ok: "identity_ok ?A"
    using identity_reachable_ok [OF assms(1)] same_tables_ok [of ?A A] same by simp
  obtain x where x0: "identity_users_get ?uid A = Some x"
    using user(1) by blast
  then have x: "identity_users_get ?uid ?A = Some x" "usr_status x \<noteq> UserStatus.DELETED"
    using user(2) identity_users_row [OF x0] same by (simp add: identity_users_get_def, auto simp: deleted_def)
  obtain as where as: "automations_list_for_user ?uid 500 (acc_store A) = Inr as" "keyed aut_id as"
      "set as = {a \<in> set (st_automations (acc_store A)). aut_user_id a = ?uid}"
    by (rule listed_automations [OF sys(1) few])
  then have as': "automations_list_for_user ?uid 500 (acc_store ?A) = Inr as"
    by (simp add: automations_list_for_user_def)
  let ?s = "endpoints_invalidate_for_user (clk e (length as + 1)) ?uid (cancel_automations e 1 as (acc_store ?A))"
  obtain A1 where A1: "apply_account_deletion e ?uid ?A = Inr A1" "st_endpoints (acc_store A1) = st_endpoints ?s"
      "st_automations (acc_store A1) = st_automations ?s"
    using x as' by (simp add: apply_account_deletion_def Let_def users_update_def set_users_def
        sessions_revoke_for_user_def devices_deactivate_for_user_def)
  note closed = deletion_closes [OF ok A1(1)]
  obtain c' i where settle: "jobs_settle (job_id j) worker (job_claim_epoch j) DurableJobStatus.COMPLETED now None
        (core (acc_store A1)) = (True, c')"
      "i \<in> set (db_jobs c')" "job_id i = job_id j" "job_status i = DurableJobStatus.COMPLETED"
    using claimed_settles [OF sys(2) assms(2) claim, of "core (acc_store A1)"] closed(4) by auto
  let ?A1 = "A1\<lparr>acc_store := (acc_store A1)\<lparr>core := c'\<rparr>\<rparr>"
  have "account_deletion_run_once worker lease now e A = (Inr True, ?A1)"
    using claim A1(1) settle(1) by (simp add: account_deletion_run_once_def)
  moreover have "deleted ?uid A1"
    using closed(2) x(1) by simp
  then have "deleted ?uid ?A1" "shut ?uid ?A1"
    using closed(1) settle_users [OF settle(1)] by (auto simp: deleted_def identity_ok_def shut_def)
  ultimately show thesis
    by (rule that [OF _ _ _ as(2,3)]) (use A1 settle(2-4) in \<open>auto simp: endpoints_invalidate_for_user_def\<close>)
qed

text \<open>
  C16. The deletion worker closes an account in one round: in any state the identity service and the rest
  of the system reach, when it claims the job of a user who is not deleted yet (with at most the 500 automations it lists), the round
  succeeds; the user is deleted, no session is open and no device active, no push endpoint can be
  served, no automation of the user is active, and the job is completed.
\<close>

theorem deletion_job_closes_account:
  assumes "identity_reachable A" "0 \<le> timedelta_seconds lease"
    and claim: "claim_ready_jobs DurableJobKind.ACCOUNT_DELETION worker now (now + timedelta_seconds lease) 1
      (core (acc_store A)) = (j # js, c)"
    and user: "identity_users_get (job_user_id j) A \<noteq> None" "\<not> deleted (job_user_id j) A"
    and few: "cnt (\<lambda>a. aut_user_id a = job_user_id j) (st_automations (acc_store A)) \<le> 500"
  shows "\<exists>A'. account_deletion_run_once worker lease now e A = (Inr True, A') \<and>
    deleted (job_user_id j) A' \<and> shut (job_user_id j) A' \<and>
    endpoints_list_eligible (job_user_id j) (acc_store A') = [] \<and>
    (\<forall>a \<in> set (st_automations (acc_store A')). aut_user_id a = job_user_id j \<longrightarrow>
       aut_status a \<noteq> AutomationStatus.ACTIVE) \<and>
    (\<exists>i \<in> set (db_jobs (core (acc_store A'))). job_id i = job_id j \<and> job_status i = DurableJobStatus.COMPLETED)"
  using assms
proof (rule deletion_round)
  fix as A'
  let ?s = "(acc_store A)\<lparr>core := c\<rparr>"
  assume run: "account_deletion_run_once worker lease now e A = (Inr True, A')"
      "deleted (job_user_id j) A'" "shut (job_user_id j) A'"
      "\<exists>i \<in> set (db_jobs (core (acc_store A'))). job_id i = job_id j \<and> job_status i = DurableJobStatus.COMPLETED"
    and as: "keyed aut_id as" "set as = {a \<in> set (st_automations (acc_store A)). aut_user_id a = job_user_id j}"
    and rows: "st_automations (acc_store A') = st_automations (cancel_automations e 1 as ?s)"
      "st_endpoints (acc_store A') = st_endpoints (endpoints_invalidate_for_user (clk e (length as + 1)) (job_user_id j)
         (cancel_automations e 1 as ?s))"
  have "endpoints_list_eligible (job_user_id j) (acc_store A') = []"
    by (auto simp: endpoints_list_eligible_def rows(2) endpoints_invalidate_for_user_def sel_def filter_empty_conv set_upd
        invalidate_def)
  moreover have "auto_ok (acc_store A)"
    using identity_reachable_system_ok [OF assms(1)] by (simp add: system_ok_def)
  then have "keyed aut_id (st_automations ?s)"
    using auto_keysD(1) [OF auto_okD(1)] by simp
  then have "aut_status a \<noteq> AutomationStatus.ACTIVE"
    if "a \<in> set (st_automations (acc_store A'))" "aut_user_id a = job_user_id j" for a
    using no_active_automation [OF _ as(1), of ?s] as(2) that unfolding rows(1) by simp
  ultimately show ?thesis
    using run by blast
qed


section \<open>Sessions\<close>

lemma bearer_token:
  assumes "strip t = t" "t \<noteq> []"
  shows "authenticate now tx dev (Some (BEARER @ t)) A = (if \<exists>d. dev = Some d \<and> fst d = t then Inr (snd (the dev)) else
    case sessions_get_by_token_hash (tx_sha tx t) A of
       None \<Rightarrow> Inl (u ''Invalid or expired session.'')
     | Some x \<Rightarrow> if \<not> session_is_active now x then Inl (u ''Invalid or expired session.'')
         else if active_account (ses_user_id x) A then Inr (ses_user_id x) else Inl (u ''Account is not active.''))"
  using assms by (simp add: authenticate_def Let_def)

text \<open>
  C18. A refreshed session replaces the one before it: once a token is exchanged for a new one, the
  session of the old token was one of the user the answer names; the old token authenticates nobody, at
  whatever time, and the new one authenticates that same user until the session it opened expires, and
  nobody afterwards. Both tokens are without white space at their ends and not empty (the route strips
  the old one and refuses an empty one, \<open>token_urlsafe\<close> makes the new one), and neither is the token of
  development, if one is configured.
\<close>

theorem refreshed_token_replaces:
  assumes "identity_reachable A" "refresh_session e tx ttl old new A = Inr (r, A')"
    and "strip old = old" "old \<noteq> []" "strip new = new" "new \<noteq> []"
    and "\<forall>d. dev = Some d \<longrightarrow> fst d \<noteq> old \<and> fst d \<noteq> new"
  shows "(\<exists>x. sessions_get_by_token_hash (tx_sha tx old) A = Some x \<and> lgn_user_id r = ses_user_id x) \<and>
    authenticate now tx dev (Some (BEARER @ old)) A' = Inl (u ''Invalid or expired session.'') \<and>
    authenticate now tx dev (Some (BEARER @ new)) A' =
      (if now < lgn_expires_at r then Inr (lgn_user_id r) else Inl (u ''Invalid or expired session.''))"
  using assms(2)
proof (cases rule: refresh_cases)
  case (1 x)
  let ?y = "new_session tx (ses_user_id x) (ses_device_id x) new (clk e 1 + hours ttl) (uid4 e 0) (clk e 2)"
  let ?rows = "acc_sessions (sessions_update (session_revoke (clk e 0) x) A)"
  have keys: "keyed ses_token_hash (acc_sessions A)" "keyed ses_id (acc_sessions A)"
    using identity_reachable_ok [OF assms(1)] by (simp_all add: identity_ok_def identity_keys_def)
  have x: "x \<in> set (acc_sessions A)" "ses_token_hash x = tx_sha tx old"
    using session_row [OF 1(1)] by simp_all
  have rows: "acc_sessions A' = ?rows @ [?y]"
    by (rule sessions_add_cases(3) [OF 1(4)])
  have fresh: "\<forall>z \<in> set ?rows. ses_token_hash z \<noteq> tx_sha tx new"
    using 1(4) by (auto simp: sessions_add_def session_clash_def new_session_def)
  have "keyed ses_token_hash ?rows"
    using keys(1) by simp
  moreover have revoked: "session_revoke (clk e 0) x \<in> set ?rows"
    using x(1) by (auto simp: sessions_update_def set_upd session_revoke_def intro!: image_eqI [of _ _ x])
  ultimately have "row ses_token_hash (ses_token_hash (session_revoke (clk e 0) x)) ?rows = Some (session_revoke (clk e 0) x)"
    by (rule keyed_row)
  then have old: "sessions_get_by_token_hash (tx_sha tx old) A' = Some (session_revoke (clk e 0) x)"
    using x(2) by (simp add: sessions_get_by_token_hash_def rows sel1_append row_def session_revoke_def)
  have "sel1 (\<lambda>z. ses_token_hash z = tx_sha tx new) ?rows = None"
    using fresh by (simp add: sel1_None)
  then have new: "sessions_get_by_token_hash (tx_sha tx new) A' = Some ?y"
    by (simp add: sessions_get_by_token_hash_def rows sel1_append) (simp add: new_session_def)
  have active: "active_account (ses_user_id x) A'"
    using 1(3) refresh_users [OF assms(2)] by (subst active_kept [of A' A]) simp_all
  have dev: "\<not> (\<exists>d. dev = Some d \<and> fst d = old)" "\<not> (\<exists>d. dev = Some d \<and> fst d = new)"
    using assms(7) by auto
  have "\<exists>x. sessions_get_by_token_hash (tx_sha tx old) A = Some x \<and> lgn_user_id r = ses_user_id x"
    using 1(1,5) by simp
  with active show ?thesis
    unfolding bearer_token [OF assms(3,4)] bearer_token [OF assms(5,6)] if_not_P [OF dev(1)] if_not_P [OF dev(2)] old new
    by (simp add: 1(5) session_is_active_def session_revoke_def) (simp add: new_session_def)
qed

text \<open>The expiry of the old session plays no part: an expired one can be refreshed.\<close>

lemma expired_session_refreshes:
  assumes "sessions_get_by_token_hash (tx_sha tx old) A = Some x" "ses_revoked_at x = None"
    "active_account (ses_user_id x) A" "\<forall>y \<in> set (acc_sessions A). ses_id y \<noteq> uid4 e 0 \<and> ses_token_hash y \<noteq> tx_sha tx new"
    and "ses_expires_at x < clk e 0"
  shows "\<exists>r A'. refresh_session e tx ttl old new A = Inr (r, A') \<and> lgn_user_id r = ses_user_id x"
proof -
  have "\<forall>y \<in> set (acc_sessions (sessions_update (session_revoke (clk e 0) x) A)).
      ses_id y \<noteq> uid4 e 0 \<and> ses_token_hash y \<noteq> tx_sha tx new"
    using assms(4) by (auto simp: sessions_update_def set_upd)
  then show ?thesis
    using assms(1-3) by (simp add: refresh_session_def Let_def sessions_add_def session_clash_def new_session_def)
qed

section \<open>A scenario\<close>

text \<open>User 7 logs in, refreshes the session, asks for the deletion of the account, and the worker closes it.\<close>

definition demo_account :: User where
  "demo_account = \<lparr>usr_id = 7, usr_status = UserStatus.ACTIVE, usr_external_subject = Some (u ''subject''),
     usr_created_at = 1000, usr_updated_at = 1001\<rparr>"

definition demo_session :: BusinessSession where
  "demo_session = new_session demo_texts 7 None (u ''tok1'') (1007 + hours 24) 8 1008"

definition accounts1 :: accounts where
  "accounts1 = (set_users [demo_account] empty_accounts)\<lparr>acc_sessions := [demo_session]\<rparr>"

lemma accounts1_step:
  "\<exists>r. huawei_login (demo_env 7 1000) demo_texts 24 (Inr (u ''subject'')) (u ''tok1'') None None
     DevicePlatform.HARMONYOS empty_accounts = Inr (r, accounts1)"
  by (simp add: huawei_login_def login_user_def users_get_by_external_subject_def users_add_def empty_accounts_def empty_store_def
      empty_db_def ins_def sessions_add_def Let_def accounts1_def demo_account_def demo_session_def set_users_def)

lemma accounts1_reachable: "identity_reachable accounts1"
  unfolding identity_reachable_def using accounts1_step identity_step.login trace_one by metis

lemma accounts1_rows [simp]: "acc_users accounts1 = [demo_account]" "acc_sessions accounts1 = [demo_session]"
  "acc_devices accounts1 = []" "core (acc_store accounts1) = empty_db\<lparr>db_users := [demo_account]\<rparr>"
  by (simp_all add: accounts1_def empty_accounts_def empty_store_def set_users_def)

lemma demo_tokens [simp]: "strip (u ''tok1'') = u ''tok1''" "strip (u ''tok2'') = u ''tok2''" "u ''tok1'' \<noteq> []" "u ''tok2'' \<noteq> []"
  "u ''tok1'' \<noteq> u ''tok2''"
  by (simp_all add: u_def strip_id is_space_def)

lemma demo_active: "active_account 7 accounts1"
  by (simp add: active_account_def identity_users_get_def demo_account_def)

lemma demo_refreshed: "\<exists>r A. refresh_session (demo_env 20 2000) demo_texts 24 (u ''tok1'') (u ''tok2'') accounts1 = Inr (r, A) \<and>
    lgn_user_id r = 7 \<and> lgn_expires_at r = 2001 + hours 24"
proof -
  have "sessions_get_by_token_hash (u ''tok1'') accounts1 = Some demo_session" "ses_revoked_at demo_session = None"
      "ses_user_id demo_session = 7" "ses_id demo_session = 8" "ses_token_hash demo_session = u ''tok1''"
    by (simp_all add: sessions_get_by_token_hash_def demo_session_def new_session_def demo_texts_def)
  moreover have "tx_sha demo_texts = id"
    by (simp add: demo_texts_def)
  ultimately show ?thesis
    using demo_active by (simp add: refresh_session_def Let_def sessions_add_def ins_def session_clash_def sessions_update_def new_session_def)
qed

definition closing_account :: User where
  "closing_account = demo_account\<lparr>usr_status := UserStatus.DELETING, usr_updated_at := 3000\<rparr>"

definition deletion_job :: DurableJob where
  "deletion_job = \<lparr>job_user_id = 7, job_kind = DurableJobKind.ACCOUNT_DELETION,
     job_dedupe_key = u ''account-deletion:'' @ uuid_str 7,
     job_payload = [u ''user_id'' \<mapsto> juuid 7], job_id = 30, job_status = DurableJobStatus.READY,
     job_priority = 0, job_available_at = 3001, job_delivery_attempt = 0,
     job_max_delivery_attempts = 5, job_claimed_by = None, job_claim_epoch = 0,
     job_lease_until = None, job_last_error_code = None, job_created_at = 3002, job_updated_at = 3003\<rparr>"

definition accounts2 :: accounts where
  "accounts2 = accounts1\<lparr>acc_store := empty_store\<lparr>core := empty_db\<lparr>db_users := [closing_account],
     db_jobs := [deletion_job]\<rparr>\<rparr>\<rparr>"

lemma deletion_job_made:
  "DurableJob_init 7 DurableJobKind.ACCOUNT_DELETION (u ''account-deletion:'' @ uuid_str 7) [u ''user_id'' \<mapsto> juuid 7] 30
     (Aware 3001) 5 3002 3003 = Inr deletion_job"
proof -
  have "strip (u ''account-deletion:'' @ uuid_str 7) \<noteq> []"
    by (simp add: strip_eq_Nil_iff u_def is_space_def)
  then show ?thesis
    by (simp add: DurableJob_init_def deletion_job_def)
qed

lemma accounts2_step: "request_account_deletion (demo_env 30 3000) 7 accounts1 = Inr ((), accounts2)"
proof -
  have "user_begin_deletion 3000 demo_account = closing_account" "usr_id demo_account = 7" "usr_status demo_account = UserStatus.ACTIVE"
    by (simp_all add: user_begin_deletion_def closing_account_def demo_account_def)
  moreover have "acc_store accounts1 = empty_store\<lparr>core := empty_db\<lparr>db_users := [demo_account]\<rparr>\<rparr>"
    by (simp add: accounts1_def empty_accounts_def set_users_def empty_store_def)
  moreover have "usr_id closing_account = 7" "demo_account\<lparr>usr_status := usr_status closing_account,
      usr_external_subject := usr_external_subject closing_account, usr_updated_at := usr_updated_at closing_account\<rparr> = closing_account"
    by (simp_all add: closing_account_def demo_account_def)
  ultimately show ?thesis
    by (simp add: request_account_deletion_def identity_users_get_def Let_def users_update_def set_users_def jobs_get_by_dedupe_key_def
        empty_db_def deletion_job_made jobs_add_def ins_def accounts2_def)
qed

lemma accounts2_reachable: "identity_reachable accounts2"
  using accounts1_reachable identity_step.request_deletion [OF accounts2_step]
  unfolding identity_reachable_def by (blast intro: trace.more)

definition deletion_claimed :: DurableJob where
  "deletion_claimed = claim_job_row (u ''d1'') 4000 (4000 + timedelta_seconds 60) deletion_job"

lemma deletion_claim:
  "\<exists>c. claim_ready_jobs DurableJobKind.ACCOUNT_DELETION (u ''d1'') 4000 (4000 + timedelta_seconds 60) 1
     (core (acc_store accounts2)) = ([deletion_claimed], c)"
proof -
  have "job_kind deletion_job = DurableJobKind.ACCOUNT_DELETION" "job_status deletion_job = DurableJobStatus.READY"
      "job_available_at deletion_job = 3001"
    by (simp_all add: deletion_job_def)
  then show ?thesis
    by (simp add: claim_ready_jobs_def jobs_requeue_expired_def jobs_claim_ready_def Let_def job_expired_def
        job_due_def deletion_claimed_def accounts2_def)
qed

lemma demo_deletion:
  obtains c where "claim_ready_jobs DurableJobKind.ACCOUNT_DELETION (u ''d1'') 4000 (4000 + timedelta_seconds 60) 1
     (core (acc_store accounts2)) = ([deletion_claimed], c)"
    "0 \<le> timedelta_seconds 60" "job_user_id deletion_claimed = 7" "identity_users_get 7 accounts2 \<noteq> None"
    "\<not> deleted 7 accounts2" "cnt (\<lambda>a. aut_user_id a = 7) (st_automations (acc_store accounts2)) \<le> 500"
proof -
  have "0 \<le> timedelta_seconds 60"
    by code_simp
  moreover have "job_user_id deletion_claimed = 7" "identity_users_get 7 accounts2 \<noteq> None" "\<not> deleted 7 accounts2"
      "cnt (\<lambda>a. aut_user_id a = 7) (st_automations (acc_store accounts2)) \<le> 500"
    by (simp_all add: deletion_claimed_def claim_job_row_def deletion_job_def identity_users_get_def accounts2_def closing_account_def
        demo_account_def deleted_def empty_store_def)
  ultimately show thesis
    using deletion_claim that by blast
qed

section \<open>Witnesses\<close>

theorem deleted_account_stays_closed_witness:
  "\<exists>A. deleted 7 A \<and> register_device (demo_env 50 5000) 7 3 (u ''UTC'') DevicePlatform.HARMONYOS A = Inl ACCOUNT_INACTIVE \<and>
     (\<forall>header. authenticate 5000 demo_texts (Some (u ''dev'', 8)) header A \<noteq> Inr 7)"
proof -
  obtain c where c: "claim_ready_jobs DurableJobKind.ACCOUNT_DELETION (u ''d1'') 4000 (4000 + timedelta_seconds 60) 1
     (core (acc_store accounts2)) = ([deletion_claimed], c)"
    "0 \<le> timedelta_seconds 60" "job_user_id deletion_claimed = 7" "identity_users_get 7 accounts2 \<noteq> None"
    "\<not> deleted 7 accounts2" "cnt (\<lambda>a. aut_user_id a = 7) (st_automations (acc_store accounts2)) \<le> 500"
    by (rule demo_deletion)
  obtain A where A: "account_deletion_run_once (u ''d1'') 60 4000 (demo_env 40 4001) accounts2 = (Inr True, A)" "deleted 7 A"
    using deletion_round [OF accounts2_reachable c(2,1), of "demo_env 40 4001"] c(3-6) by metis
  have "identity_reachable A"
    using accounts2_reachable identity_step.delete_account [OF A(1)] unfolding identity_reachable_def by (blast intro: trace.more)
  note closed = deleted_account_stays_closed [OF this A(2) trace.none]
  have "\<not> development_header (Some (u ''dev'', 8)) header 7" for header
    by (simp add: development_header_def)
  moreover have "strip (u ''UTC'') \<noteq> []"
    by (simp add: u_def strip_id is_space_def)
  ultimately show ?thesis
    using closed A(2) by blast
qed

theorem deletion_job_closes_account_witness:
  "\<exists>A'. account_deletion_run_once (u ''d1'') 60 4000 (demo_env 40 4001) accounts2 = (Inr True, A') \<and> deleted 7 A' \<and> shut 7 A'"
proof -
  obtain c where c: "claim_ready_jobs DurableJobKind.ACCOUNT_DELETION (u ''d1'') 4000 (4000 + timedelta_seconds 60) 1
     (core (acc_store accounts2)) = ([deletion_claimed], c)"
    "0 \<le> timedelta_seconds 60" "job_user_id deletion_claimed = 7" "identity_users_get 7 accounts2 \<noteq> None"
    "\<not> deleted 7 accounts2" "cnt (\<lambda>a. aut_user_id a = 7) (st_automations (acc_store accounts2)) \<le> 500"
    by (rule demo_deletion)
  show ?thesis
    using deletion_job_closes_account [OF accounts2_reachable c(2,1), of "demo_env 40 4001"] c(3-6) by auto
qed

theorem refreshed_token_replaces_witness:
  "\<exists>r A. refresh_session (demo_env 20 2000) demo_texts 24 (u ''tok1'') (u ''tok2'') accounts1 = Inr (r, A) \<and>
    authenticate 2500 demo_texts (Some (u ''dev'', 8)) (Some (BEARER @ u ''tok1'')) A = Inl (u ''Invalid or expired session.'') \<and>
    authenticate 2500 demo_texts (Some (u ''dev'', 8)) (Some (BEARER @ u ''tok2'')) A = Inr 7"
proof -
  obtain r A where r: "refresh_session (demo_env 20 2000) demo_texts 24 (u ''tok1'') (u ''tok2'') accounts1 = Inr (r, A)"
      "lgn_user_id r = 7" "lgn_expires_at r = 2001 + hours 24"
    using demo_refreshed by blast
  have "2500 < lgn_expires_at r"
    by (simp add: r(3) hours_def)
  moreover have "\<forall>d. Some (u ''dev'', 8::uuid) = Some d \<longrightarrow> fst d \<noteq> u ''tok1'' \<and> fst d \<noteq> u ''tok2''"
    by (simp add: u_def)
  ultimately show ?thesis
    using refreshed_token_replaces [OF accounts1_reachable r(1), of "Some (u ''dev'', 8)" 2500] r by simp
qed

end
