(* ===== verification/MemoryScenario.thy ===== *)
theory MemoryScenario
  imports LibraryScenario
begin

text \<open>
  A worked scenario of the memories: user 7 asks to remember a profile, then asks to remember another one
  under the same key, or forgets the first.
\<close>

definition demo_input :: "str \<Rightarrow> str \<Rightarrow> MemoryInput" where
  "demo_input content key = \<lparr>mi_memory_type = MemoryType.PROFILE, mi_content = content, mi_summary = content,
     mi_importance = 1, mi_confidence = 1, mi_idempotency_key = key, mi_thing_id = None, mi_source_ids = [],
     mi_valid_from = None, mi_valid_until = None, mi_embedding = None, mi_profile_key = Some (u ''drink''),
     mi_provenance_run_id = None, mi_source_message_ids = []\<rparr>"

definition tea :: MemoryInput where
  "tea = demo_input (u ''tea'') (u ''m1'')"

definition milk :: MemoryInput where
  "milk = demo_input (u ''milk'') (u ''m2'')"

lemma demo_strip [simp]: "strip (u ''tea'') = u ''tea''" "strip (u ''milk'') = u ''milk''" "strip (u ''drink'') = u ''drink''"
  "u ''tea'' \<noteq> []" "u ''milk'' \<noteq> []" "u ''drink'' \<noteq> []" "length (u ''drink'') = 5"
  by (simp_all add: u_def strip_id is_space_def)

lemma demo_key [simp]: "normalized_profile_key demo_texts (Some (u ''drink'')) = Some (u ''drink'')"
  by (simp add: normalized_profile_key_def casefold_def demo_texts_def)

lemma demo_checked [simp]: "check_memory_input demo_texts tea = Inr ()" "check_memory_input demo_texts milk = Inr ()"
  by (simp_all add: check_memory_input_def tea_def milk_def demo_input_def unit_score_def valid_range_def Let_def)

lemma demo_fields [simp]: "mi_thing_id tea = None" "mi_source_ids tea = []" "mi_profile_key tea = Some (u ''drink'')"
  "mi_content tea = u ''tea''" "mi_idempotency_key tea = u ''m1''"
  "mi_thing_id milk = None" "mi_source_ids milk = []" "mi_profile_key milk = Some (u ''drink'')"
  "mi_content milk = u ''milk''" "mi_idempotency_key milk = u ''m2''"
  by (simp_all add: tea_def milk_def demo_input_def)

definition tea_memory :: Memory where
  "tea_memory = new_memory (demo_env 1000 6000) demo_texts 7 tea None"

definition mlib1 :: library where
  "mlib1 = empty_library\<lparr>state := empty_store\<lparr>core := empty_db\<lparr>
       db_users := [demo_user\<lparr>usr_created_at := 6000, usr_updated_at := 6000\<rparr>]\<rparr>, st_memories := [tea_memory]\<rparr>\<rparr>"

lemma tea_rows [simp]: "mem_id tea_memory = 1000" "mem_user_id tea_memory = 7" "mem_version tea_memory = 1"
  "mem_memory_type tea_memory = MemoryType.PROFILE" "mem_status tea_memory = MemoryStatus.ACTIVE"
  "mem_profile_key tea_memory = Some (u ''drink'')" "mem_content tea_memory = u ''tea''"
  "mem_idempotency_key tea_memory = u ''m1''" "memory_check tea_memory"
  by (simp_all add: tea_memory_def new_memory_def tea_def demo_input_def memory_check_def unit_score_def valid_range_def)

lemma mlib1_rows [simp]: "lb_memories mlib1 = [tea_memory]" "lb_suppressions mlib1 = []" "lb_memory_ops mlib1 = []"
  by (simp_all add: mlib1_def empty_library_def)

lemma ensured: "users_ensure t 7 empty_store = empty_store\<lparr>core := empty_db\<lparr>
     db_users := [demo_user\<lparr>usr_created_at := t, usr_updated_at := t\<rparr>]\<rparr>\<rparr>"
  by (simp add: users_ensure_def users_ensure_exists_def empty_store_def empty_db_def demo_user_def)

lemma mlib1_step:
  "apply_create_memory (demo_env 1000 6000) demo_texts 7 tea False empty_library = Inr (remembered tea_memory False, mlib1)"
proof -
  have empty: "state empty_library = empty_store" "lb_suppressions empty_library = []" "st_memories empty_store = []"
    by (simp_all add: empty_library_def empty_store_def)
  show ?thesis
    by (simp add: apply_create_memory_def Let_def insert_memory_def memories_get_by_idempotency_def empty ensured
        supersede_profile_def memories_get_active_profile_def given_def
        memories_add_def ins_def tea_memory_def [symmetric] suppressions_clear_def suppression_for_def set_memories_def mlib1_def)
qed

lemma mlib1_reachable: "library_reachable mlib1"
  by (rule library_reachable_step [OF library_reachable_empty]) (rule library_step.create_memory [OF mlib1_step])

lemma milk_created: "\<exists>d L. create_memory (demo_env 1010 6010) demo_texts 7 milk mlib1 = (Inr d, L)"
proof -
  let ?old = "tea_memory\<lparr>mem_status := MemoryStatus.SUPERSEDED, mem_version := 2, mem_updated_at := 6011\<rparr>"
  have users: "users_ensure 6010 7 (state mlib1) = state mlib1"
    by (simp add: mlib1_def users_ensure_def users_ensure_exists_def demo_user_def)
  have old: "memory_supersede 6011 tea_memory = Inr ?old" "copy_memory ?old tea_memory = ?old" "memory_check ?old"
    using tea_rows by (simp_all add: memory_supersede_def copy_memory_def memory_check_def del: tea_rows(9))
  have updated: "memories_update ?old 1 mlib1 = Inr (True, set_memories [?old] mlib1)"
    using old(2,3) by (simp add: memories_update_def cas_rows_def Let_def cnt_def upd_def)
  let ?new = "new_memory (demo_env 1010 6010) demo_texts 7 milk (Some 1000)"
  have new: "memory_check ?new" "mem_id ?new = 1010" "mem_user_id ?new = 7" "mem_idempotency_key ?new = u ''m2''"
    by (simp_all add: new_memory_def memory_check_def unit_score_def valid_range_def milk_def demo_input_def)
  moreover have "\<not> profile_clash ?old ?new" "u ''m1'' \<noteq> u ''m2''"
    by (simp_all add: profile_clash_def active_profile_def u_def)
  ultimately have added: "memories_add ?new (set_memories [?old] mlib1) = Inr (set_memories [?old, ?new] mlib1)"
    by (simp add: memories_add_def ins_def memory_clash_def set_memories_def)
  have "payload_uuid (u ''id'') (wo_data (remembered ?new False)) = Inr 1010"
    using new by (simp add: remembered_def memory_outcome_def payload_uuid_def payload_str_def juuid_def)
  then show ?thesis
    using new by (simp add: create_memory_def reads_def apply_create_memory_def Let_def insert_memory_def memories_get_by_idempotency_def users
        supersede_profile_def memories_get_active_profile_def given_def old updated added suppressions_clear_def suppression_for_def
        created_memory_def memories_get_def)
qed

lemma tea_forgotten:
  "\<exists>d L. forget_memory (demo_env 1020 6020) demo_texts 7 1000 1 (u ''f1'') mlib1 = (Inr d, L) \<and> myd_content d = u ''tea''"
proof -
  let ?old = "tea_memory\<lparr>mem_status := MemoryStatus.DELETED, mem_version := 2, mem_updated_at := 6020\<rparr>"
  have old: "memory_delete 6020 tea_memory = ?old" "copy_memory ?old tea_memory = ?old" "memory_check ?old"
    using tea_rows by (simp_all add: memory_delete_def copy_memory_def memory_check_def del: tea_rows(9))
  have updated: "memories_update ?old 1 mlib1 = Inr (True, set_memories [?old] mlib1)"
    using old(2,3) by (simp add: memories_update_def cas_rows_def Let_def cnt_def upd_def)
  show ?thesis
    by (simp add: forget_memory_def apply_forget_memory_def memories_get_operation_version_def versioned_memory_def memories_get_def old updated
      suppressions_record_def is_suppressed_def suppression_for_def ins_def memories_record_operation_def reads_def to_memory_dto_def)
qed

end
