(* ===== verification/MemoryProperties.thy ===== *)
theory MemoryProperties
  imports MemoryScenario
begin

text \<open>
  The properties of the memories: forgotten content is not formed again, a profile replaces the one
  before it, the event of a formation job is the one that was enqueued.
\<close>

section \<open>Forgetting\<close>

lemma recorded:
  assumes "suppressions_record i uid fp mid L = Inr L'"
  shows "is_suppressed uid fp L'" "lb_memories L' = lb_memories L"
  using assms by (auto simp: suppressions_record_def is_suppressed_def suppression_for_def sel1_None split: if_splits)

lemma updated_row:
  assumes inv: "memories_inv L" and upd: "memories_update m' v L = Inr (True, L')"
    and m: "m \<in> set (lb_memories L)" "mem_id m = mem_id m'"
  shows "row mem_id (mem_id m') (lb_memories L') = Some (copy_memory m' m)"
proof -
  have "row mem_id (mem_id m') (lb_memories L) = Some m"
    using keyed_row [OF memories_invD(1) [OF inv] m(1)] m(2) by simp
  then show ?thesis
    using upd memories_invD(1) [OF inv]
    by (auto simp: memories_update_def cas_rows_def Let_def row_upd copy_memory_def cnt_keyed split: prod.splits if_splits)
qed

lemma memories_get_row:
  assumes "memories_inv L"
  shows "memories_get user_id mid L =
    (case row mem_id mid (lb_memories L) of None \<Rightarrow> None | Some m \<Rightarrow> if mem_user_id m = user_id then Some m else None)"
  unfolding memories_get_def
  by (subst sel1_keyed [OF memories_invD(1) [OF assms], of _ mid]) (auto dest: row_Some split: option.splits)

text \<open>An explicit request to remember a content.\<close>

definition asks_for :: "uuid \<Rightarrow> str \<Rightarrow> env \<Rightarrow> library \<Rightarrow> library \<Rightarrow> bool" where
  "asks_for user_id fp e L L' \<longleftrightarrow> (\<exists>tx i out. apply_create_memory e tx user_id i False L = Inr (out, L') \<and>
     memory_content_fingerprint tx (strip (mi_content i)) = fp)"

lemma cleared_other:
  assumes "memories_inv L" "is_suppressed who fp L" "\<not> (who = user_id \<and> fp = fp')"
  shows "is_suppressed who fp (suppressions_clear user_id fp' L)"
proof -
  obtain x where x: "x \<in> set (lb_suppressions L)" "sup_user_id x = who" "sup_content_fingerprint x = fp"
    using assms(2) by (auto simp: is_suppressed_def suppression_for_def dest!: sel1_Some)
  show ?thesis
  proof (cases "suppression_for user_id fp' L")
    case (Some y)
    then have y: "y \<in> set (lb_suppressions L)" "sup_user_id y = user_id" "sup_content_fingerprint y = fp'"
      by (auto simp: suppression_for_def dest!: sel1_Some)
    then have "sup_id x \<noteq> sup_id y"
      using keyed_unique [OF memories_invD(6) [OF assms(1)] x(1) y(1)] x assms(3) by auto
    then show ?thesis
      using x Some by (auto simp: is_suppressed_def suppressions_clear_def suppression_for_def sel1_None)
  qed (use assms in \<open>simp add: suppressions_clear_def\<close>)
qed

lemma suppressions_same: "lb_suppressions L' = lb_suppressions L \<Longrightarrow> is_suppressed who fp L' = is_suppressed who fp L"
  by (simp add: is_suppressed_def suppression_for_def)

lemma insert_keeps_suppression:
  assumes inv: "memories_inv L" and run: "insert_memory e tx user_id i L = Inr (out, L')"
    and check: "check_memory_input tx i = Inr ()"
    and other: "\<not> (who = user_id \<and> fp = memory_content_fingerprint tx (strip (mi_content i)))" "is_suppressed who fp L"
  shows "is_suppressed who fp L'"
proof -
  let ?L0 = "L\<lparr>state := users_ensure (clk e 0) user_id (state L)\<rparr>"
  from run obtain s L1 L2 where
    steps: "supersede_profile (clk e 1) user_id (normalized_profile_key tx (mi_profile_key i)) ?L0 = Inr (s, L1)"
      "memories_add (new_memory e tx user_id i s) L1 = Inr L2"
      "L' = suppressions_clear user_id (memory_content_fingerprint tx (strip (mi_content i))) L2"
    by (auto simp: insert_memory_def Let_def)
  have "memories_inv ?L0"
    using inv by (subst memories_inv_eq) (simp_all add: users_ensure_def)
  then have "memories_inv L2"
    using steps by (auto intro: memories_add_inv supersede_profile_inv new_memory_ok [OF check])
  moreover have "lb_suppressions L2 = lb_suppressions L"
    using steps(1) by (cases rule: supersede_profile_cases)
      (use steps(2) in \<open>auto simp: memories_add_def dest!: memories_update_others(2)\<close>)
  ultimately show ?thesis
    unfolding steps(3) using other(2) suppressions_same [of L2 L] by (intro cleared_other [OF _ _ other(1)]) simp_all
qed

lemma record_keeps:
  "suppressions_record i v fp' mid L = Inr L' \<Longrightarrow> is_suppressed who fp L \<Longrightarrow> is_suppressed who fp L'"
  by (auto simp: suppressions_record_def is_suppressed_def suppression_for_def sel1_None split: if_splits)

lemma versioned_suppressions:
  "versioned_memory user_id mid v f L = Inr (m, L') \<Longrightarrow> lb_suppressions L' = lb_suppressions L"
  by (auto simp: versioned_memory_def dest!: memories_update_others(2))

lemma operation_suppressions: "memories_record_operation x L = Inr L' \<Longrightarrow> lb_suppressions L' = lb_suppressions L"
  by (auto simp: memories_record_operation_def)

lemma forget_keeps:
  assumes "apply_forget_memory e tx user_id mid v key L = Inr (out, L')" "is_suppressed who fp L"
  shows "is_suppressed who fp L'"
proof (cases "memories_get_operation_version user_id key L")
  case None
  with assms(1) obtain m L1 L2 where
    v: "versioned_memory user_id mid v (Inr \<circ> memory_delete (clk e 0)) L = Inr (m, L1)" and
    r: "suppressions_record (uid4 e 0) user_id (memory_content_fingerprint tx (mem_content m)) (Some (mem_id m)) L1 = Inr L2" and
    m: "memories_record_operation (memory_op user_id key m) L2 = Inr L'"
    by (auto simp: apply_forget_memory_def)
  show ?thesis
    using assms(2) record_keeps [OF r, of who fp] suppressions_same [OF versioned_suppressions [OF v], of who fp]
      suppressions_same [OF operation_suppressions [OF m], of who fp]
    by simp
qed (use assms in \<open>auto simp: apply_forget_memory_def\<close>)

lemma revise_keeps:
  assumes "revise_memory e user_id mid v c key L = Inr (d, L')"
  shows "lb_suppressions L' = lb_suppressions L"
proof (cases "memories_get_operation_version user_id key L")
  case None
  with assms obtain m L1 where
    "versioned_memory user_id mid v (changed_memory (clk e 0) c) L = Inr (m, L1)"
    "memories_record_operation (memory_op user_id key m) L1 = Inr L'"
    by (auto simp: revise_memory_def)
  then show ?thesis
    using versioned_suppressions operation_suppressions by metis
qed (use assms in \<open>auto simp: revise_memory_def\<close>)

lemma delete_keeps:
  assumes "apply_delete_file e user_id sid action_id key reason L = Inr (out, L')"
  shows "lb_suppressions L' = lb_suppressions L"
  using assms
  by (auto simp: apply_delete_file_def Let_def sources_mark_deleted_def mirror_source_delete_def
      files_purge_segments_for_file_def files_mark_deleted_def sources_purge_chunks_def split: option.splits)

text \<open>Only an explicit request lifts a suppression.\<close>

lemma suppression_kept:
  assumes ok: "library_ok L" and step: "library_step e L L'" and sup: "is_suppressed who fp L" and no: "\<not> asks_for who fp e L L'"
  shows "is_suppressed who fp L'"
proof -
  have inv: "memories_inv L" "sources_inv L" "keyed job_id (db_jobs (lb_core L))"
    using ok by (simp_all add: library_ok_def system_ok_def runtime_ok_def keys_ok_def)
  have frame: "is_suppressed who fp L'" if "core_frame L L'"
    using that sup by (auto simp: core_frame_def is_suppressed_def suppression_for_def)
  show ?thesis
    using step
  proof (cases rule: library_step.cases)
    case (create_memory tx user_id i reconcile out)
    from create_memory show ?thesis
    proof (cases rule: create_cases)
      case inserted
      have "\<not> (who = user_id \<and> fp = memory_content_fingerprint tx (strip (mi_content i)))"
        using inserted(4) sup no create_memory by (cases reconcile) (auto simp: asks_for_def)
      then show ?thesis
        using insert_keeps_suppression [OF inv(1) inserted(2,1)] sup by blast
    qed (use sup in simp)
  next
    case (forget_memory tx user_id mid v key out)
    then show ?thesis
      using sup by (rule forget_keeps)
  next
    case (revise_memory c user_id mid v key d)
    show ?thesis
      using sup suppressions_same [OF revise_keeps [OF revise_memory(2)]] by simp
  next
    case (delete_file user_id sid action_id key reason out)
    show ?thesis
      using sup suppressions_same [OF delete_keeps [OF delete_file]] by simp
  next
    case (purge_file owner lease S b S')
    then show ?thesis
      using purge_round_inv [of S owner lease e b S'] inv frame by simp
  next
    case (promote show_json tx user_id url how payload w)
    then show ?thesis
      using sup by (auto simp: promote_url_inspection_def files_add_web_observation_def Let_def
          is_suppressed_def suppression_for_def)
  next
    case (upload r cfg ty key bytes)
    show ?thesis
      by (rule frame) (rule upload_frame [OF inv(2) upload])
  next
    case (claim_source owner user lease attempts j)
    show ?thesis
      by (rule frame) (rule claim_frame [OF claim_source sources_keysD(1) [OF sources_invD(1) [OF inv(2)]]])
  next
    case (renew_source sid owner lease b)
    show ?thesis
      by (rule frame) (rule renew_frame [OF renew_source])
  next
    case (complete_source e' cfg sid owner content b)
    show ?thesis
      by (rule frame) (rule complete_frame [OF inv(2) complete_source])
  next
    case (fail_source sid owner code delay b)
    show ?thesis
      by (rule frame) (rule fail_frame [OF fail_source])
  qed (use sup in \<open>simp_all add: is_suppressed_def suppression_for_def\<close>)
qed

lemma suppression_history:
  assumes "trace (\<lambda>e L L'. library_step e L L' \<and> \<not> asks_for who fp e L L') es L L'" "library_ok L" "is_suppressed who fp L"
  shows "library_ok L' \<and> is_suppressed who fp L'"
  using assms by (induction rule: trace.induct) (auto intro: suppression_kept library_step_ok)

lemma suppressed_not_formed:
  assumes "is_suppressed user_id (memory_content_fingerprint tx (strip (mi_content i))) L"
  shows "create_if_allowed e tx user_id i L = (case check_memory_input tx i of Inl err \<Rightarrow> (Inl err, L) | Inr _ \<Rightarrow> (Inr None, L))"
  using assms
  by (auto simp: create_if_allowed_def apply_create_memory_def Let_def SUPPRESSED_OUTCOME_def memory_outcome_def split: sum.split)

lemma suppressed_candidate:
  assumes "is_suppressed (mfc_user_id ctx) (memory_content_fingerprint tx (strip (cnd_content c))) L" "cnd_action c = CREATE"
  shows "apply_candidate es tx g ctx c L = (case check_memory_input tx (candidate_input tx (mgr_embed g) ctx c) of
    Inl err \<Rightarrow> (Inl err, L) | Inr _ \<Rightarrow> (Inr None, L))"
proof -
  have "mi_content (candidate_input tx (mgr_embed g) ctx c) = cnd_content c"
    by (simp add: candidate_input_def)
  with assms show ?thesis
    by (simp add: apply_candidate_def Let_def suppressed_not_formed)
qed

lemma suppressed_remember:
  assumes "is_suppressed user_id (memory_content_fingerprint tx (strip content)) L"
  shows "\<exists>r. manager_remember es tx g user_id run content ty src thing L = (r, L)"
proof -
  have "apply_candidate es tx g (remember_context user_id run content src) (remember_candidate content ty thing) L =
      (case check_memory_input tx (candidate_input tx (mgr_embed g) (remember_context user_id run content src)
        (remember_candidate content ty thing)) of Inl err \<Rightarrow> (Inl err, L) | Inr _ \<Rightarrow> (Inr None, L))"
    using assms by (intro suppressed_candidate) (simp_all add: remember_context_def remember_candidate_def)
  then show ?thesis
    by (auto simp: manager_remember_def bindW_def reads_def candidate_post_init_def split: sum.split option.split)
qed

text \<open>
  C17. A forgotten memory is not formed again: once the user forgot a memory its row is deleted, and in
  every later library, as long as nobody asks to remember that content (the service's create and the
  tool \<open>memory_remember\<close> in the ledger's unit of work are such requests and lift the suppression), no new
  memory is formed of content with the same fingerprint: \<open>create_if_allowed\<close> refuses it and changes
  nothing, and so does the manager with every candidate to create one; the manager's \<open>remember\<close> leaves
  the library as it is. This is about new memories: a candidate that updates or merges another memory
  is not asked.
\<close>

theorem forgotten_memory_stays_forgotten:
  assumes "library_reachable L" "memories_get_operation_version user_id key L = None"
    and forget: "forget_memory e tx user_id mid v key L = (Inr d, L1)"
    and later: "trace (\<lambda>e L L'. library_step e L L' \<and>
      \<not> asks_for user_id (memory_content_fingerprint tx (myd_content d)) e L L') es L1 L2"
    and again: "memory_content_fingerprint tx (strip content) = memory_content_fingerprint tx (myd_content d)"
  shows "myd_status d = MemoryStatus.DELETED \<and>
    (\<forall>e' i. mi_content i = content \<longrightarrow> create_if_allowed e' tx user_id i L2 =
       (case check_memory_input tx i of Inl err \<Rightarrow> (Inl err, L2) | Inr _ \<Rightarrow> (Inr None, L2))) \<and>
    (\<forall>es' g ctx c. mfc_user_id ctx = user_id \<and> cnd_content c = content \<and> cnd_action c = CREATE \<longrightarrow>
       apply_candidate es' tx g ctx c L2 = (case check_memory_input tx (candidate_input tx (mgr_embed g) ctx c) of
         Inl err \<Rightarrow> (Inl err, L2) | Inr _ \<Rightarrow> (Inr None, L2))) \<and>
    (\<forall>es' g run ty src thing. \<exists>r. manager_remember es' tx g user_id run content ty src thing L2 = (r, L2))"
proof -
  have ok: "library_ok L"
    by (rule library_reachable_ok [OF assms(1)])
  then have inv: "memories_inv L"
    by (simp add: library_ok_def)
  from forget obtain out where run: "apply_forget_memory e tx user_id mid v key L = Inr (out, L1)"
    and d: "\<exists>n. memories_get user_id mid L1 = Some n \<and> d = to_memory_dto (wo_replayed out) n"
    by (auto simp: forget_memory_def bindW_Inr commit_Inr reads_def)
  then obtain n where n: "memories_get user_id mid L1 = Some n" "d = to_memory_dto (wo_replayed out) n"
    by blast
  from run assms(2) obtain m M1 M2 where
    steps: "versioned_memory user_id mid v (Inr \<circ> memory_delete (clk e 0)) L = Inr (m, M1)"
    "suppressions_record (uid4 e 0) user_id (memory_content_fingerprint tx (mem_content m)) (Some (mem_id m)) M1 = Inr M2"
    "memories_record_operation (memory_op user_id key m) M2 = Inr L1"
    by (auto simp: apply_forget_memory_def)
  from steps(1) obtain old where old': "memories_get user_id mid L = Some old" "m = memory_delete (clk e 0) old"
      "memories_update m v L = Inr (True, M1)"
    by (auto simp: versioned_memory_def split: prod.splits)
  have old: "old \<in> set (lb_memories L)" "mem_id old = mid" "mem_user_id old = user_id"
    using old'(1) by (auto simp: memories_get_def dest!: sel1_Some)
  have m: "same_memory_row old m" "mem_content m = mem_content old" "mem_status m = MemoryStatus.DELETED"
    using delete_row [of old "clk e 0"] old'(2) by simp_all
  have ok1: "library_ok L1"
    by (rule library_step_ok [OF ok library_step.forget_memory [OF run]])
  have "lb_memories L1 = lb_memories M1"
    using recorded(2) [OF steps(2)] steps(3) by (auto simp: memories_record_operation_def)
  then have "row mem_id mid (lb_memories L1) = Some (copy_memory m old)"
    using updated_row [OF inv old'(3) old(1)] m(1) old(2) by (simp add: same_memory_row_def)
  then have "n = copy_memory m old"
    using n(1) old(3) ok1 by (auto simp: memories_get_row library_ok_def copy_memory_def)
  then have "mem_content n = mem_content m" "mem_status n = MemoryStatus.DELETED"
    using m by (simp_all add: copy_memory_def)
  then have row: "myd_content d = mem_content m" "myd_status d = MemoryStatus.DELETED"
    by (simp_all add: n(2) to_memory_dto_def)
  have "is_suppressed user_id (memory_content_fingerprint tx (mem_content m)) L1"
    using recorded(1) [OF steps(2)] steps(3) by (auto simp: memories_record_operation_def is_suppressed_def suppression_for_def)
  then have "is_suppressed user_id (memory_content_fingerprint tx (mem_content m)) L2"
    using suppression_history [OF later ok1] by (simp add: row)
  then have sup: "is_suppressed user_id (memory_content_fingerprint tx (strip content)) L2"
    by (simp add: again row)
  show ?thesis
    using sup row(2) suppressed_not_formed suppressed_candidate suppressed_remember [OF sup] by auto
qed

section \<open>Profiles\<close>

definition profiles :: "uuid \<Rightarrow> str \<Rightarrow> library \<Rightarrow> Memory list" where
  "profiles user_id key L = filter (\<lambda>m. active_profile m \<and> mem_user_id m = user_id \<and> mem_profile_key m = Some key)
     (lb_memories L)"

lemma clash_free_one:
  assumes "clash_free c t" "\<And>x y. p x \<Longrightarrow> p y \<Longrightarrow> c x y" "x \<in> set t" "p x"
  shows "filter p t = [x]"
  using assms
proof (induction t)
  case (Cons r t)
  show ?case
  proof (cases "p r")
    case True
    then have "filter p t = []"
      using Cons.prems by (auto simp: filter_empty_conv)
    then show ?thesis
      using True Cons.prems by (auto simp: filter_empty_conv)
  next
    case False
    then show ?thesis
      using Cons by auto
  qed
qed simp

lemma profiles_one:
  assumes "memories_inv L" "m \<in> set (profiles user_id key L)"
  shows "profiles user_id key L = [m]"
  unfolding profiles_def
  by (rule clash_free_one [OF memories_invD(2) [OF assms(1)]]) (use assms(2) in \<open>auto simp: profiles_def profile_clash_def\<close>)

lemma active_profile_row:
  "memories_get_active_profile user_id key L = Some m \<Longrightarrow> m \<in> set (profiles user_id key L)"
  by (auto simp: memories_get_active_profile_def profiles_def active_profile_def dest!: sel1_Some)

lemma no_active_profile:
  "memories_get_active_profile user_id key L = None \<Longrightarrow> profiles user_id key L = []"
  by (auto simp: memories_get_active_profile_def profiles_def active_profile_def sel1_None filter_empty_conv)

text \<open>
  C11. A profile memory replaces the one before it: when the user's memory is created under a profile key,
  it is the only active one of that key, it names the one that was active before, and that one is
  superseded with a new version, its content kept.
\<close>

theorem profile_is_replaced:
  assumes "library_reachable L" "memories_get_by_idempotency user_id (mi_idempotency_key i) L = None"
    and key: "normalized_profile_key tx (mi_profile_key i) = Some k" "k \<noteq> []"
    and create: "create_memory e tx user_id i L = (Inr d, L')"
  shows "\<exists>n. profiles user_id k L' = [n] \<and> mem_id n = uid4 e 0 \<and> mem_content n = strip (mi_content i) \<and>
    (case memories_get_active_profile user_id k L of
       None \<Rightarrow> profiles user_id k L = [] \<and> mem_supersedes_id n = None
     | Some m \<Rightarrow> profiles user_id k L = [m] \<and> mem_supersedes_id n = Some (mem_id m) \<and>
         (\<exists>m' \<in> set (lb_memories L'). mem_id m' = mem_id m \<and> mem_status m' = MemoryStatus.SUPERSEDED \<and>
            mem_version m' = mem_version m + 1 \<and> mem_content m' = mem_content m))"
proof -
  have inv: "memories_inv L"
    using library_reachable_ok [OF assms(1)] by (simp add: library_ok_def)
  from create obtain out where check: "check_memory_input tx i = Inr ()"
    and run: "apply_create_memory e tx user_id i False L = Inr (out, L')"
    by (auto simp: create_memory_def bindW_Inr reads_def commit_Inr created_memory_def)
  then have ins: "insert_memory e tx user_id i L = Inr (out, L')"
    using assms(2) by (auto simp: apply_create_memory_def Let_def)
  let ?L0 = "L\<lparr>state := users_ensure (clk e 0) user_id (state L)\<rparr>"
  from ins obtain s L1 L2 where
    steps: "supersede_profile (clk e 1) user_id (Some k) ?L0 = Inr (s, L1)"
      "memories_add (new_memory e tx user_id i s) L1 = Inr L2"
      "L' = suppressions_clear user_id (memory_content_fingerprint tx (strip (mi_content i))) L2"
    by (auto simp: insert_memory_def Let_def key)
  define n where "n = new_memory e tx user_id i s"
  have rows: "lb_memories L' = lb_memories L1 @ [n]"
    using steps(2) by (auto simp: steps(3) suppressions_rest memories_add_def n_def)
  have "mi_memory_type i = MemoryType.PROFILE"
    using check_inputD(6) [OF check] key by (simp add: given_def)
  then have "n \<in> set (profiles user_id k L')"
    using key by (simp add: profiles_def rows active_profile_def n_def new_memory_def)
  then have one: "profiles user_id k L' = [n]"
    by (rule profiles_one [OF insert_inv [OF inv ins check]])
  have n: "mem_id n = uid4 e 0" "mem_content n = strip (mi_content i)" "mem_supersedes_id n = s"
    by (simp_all add: n_def new_memory_def)
  have same: "memories_get_active_profile user_id k ?L0 = memories_get_active_profile user_id k L"
    by (simp add: memories_get_active_profile_def users_ensure_def)
  have inv0: "memories_inv ?L0"
    using inv by (subst memories_inv_eq) (simp_all add: users_ensure_def)
  from steps(1) show ?thesis
  proof (cases rule: supersede_profile_cases)
    case none
    then have "memories_get_active_profile user_id k L = None"
      using key same by (simp add: given_def)
    then show ?thesis
      using one n none no_active_profile by auto
  next
    case (old m m')
    have m: "memories_get_active_profile user_id k L = Some m"
      using old(2) same by simp
    have "row mem_id (mem_id m') (lb_memories L1) = Some (copy_memory m' m)"
      using supersede_row [OF old(4)] by (intro updated_row [OF inv0 old(5,3)]) (simp add: same_memory_row_def)
    then have "copy_memory m' m \<in> set (lb_memories L')"
      using row_Some by (fastforce simp: rows)
    then have "\<exists>m' \<in> set (lb_memories L'). mem_id m' = mem_id m \<and> mem_status m' = MemoryStatus.SUPERSEDED \<and>
            mem_version m' = mem_version m + 1 \<and> mem_content m' = mem_content m"
      using supersede_row [OF old(4)] by (intro bexI [of _ "copy_memory m' m"]) (simp_all add: copy_memory_def)
    then show ?thesis
      using one n old(6) m profiles_one [OF inv active_profile_row [OF m]] by auto
  qed
qed

section \<open>Formation jobs\<close>

text \<open>
  C6. The event of a finished run reaches the memory worker unchanged: enqueueing it adds one ready job,
  whose payload is read back as the very event, and enqueueing it again adds nothing.
\<close>

theorem formation_event_round_trip:
  assumes "jobs_get_by_dedupe_key (mfe_user_id ev) (u ''memory-formation:'' @ uuid_str (mfe_run_id ev)) (lb_core L) = None"
    and "enqueue_durable e ev L = (Inr (), L')"
  shows "(\<exists>j. db_jobs (lb_core L') = db_jobs (lb_core L) @ [j] \<and> job_kind j = DurableJobKind.MEMORY_FORMATION \<and>
      job_status j = DurableJobStatus.READY \<and> event_from_job_payload (job_user_id j) (job_payload j) = Inr ev) \<and>
    enqueue_durable e' ev L' = (Inr (), L')"
proof -
  let ?key = "u ''memory-formation:'' @ uuid_str (mfe_run_id ev)"
  from assms obtain j where j: "DurableJob_init (mfe_user_id ev) DurableJobKind.MEMORY_FORMATION ?key
      (formation_payload ev) (uid4 e 0) (Aware (clk e 0)) 5 (clk e 1) (clk e 2) = Inr j"
    and L': "L' = set_core ((lb_core L)\<lparr>db_jobs := db_jobs (lb_core L) @ [j]\<rparr>) L"
    by (auto simp: enqueue_durable_def enqueue_memory_formation_def Let_def commit_Inr jobs_add_def)
  have fields: "job_user_id j = mfe_user_id ev" "job_payload j = formation_payload ev" "job_dedupe_key j = ?key"
    "job_kind j = DurableJobKind.MEMORY_FORMATION" "job_status j = DurableJobStatus.READY"
    using j by (auto simp: DurableJob_init_def split: if_splits)
  then have "jobs_get_by_dedupe_key (mfe_user_id ev) ?key (lb_core L') \<noteq> None"
    by (simp add: L' jobs_get_by_dedupe_key_def sel1_None)
  then have "enqueue_durable e' ev L' = (Inr (), set_core (lb_core L') L')"
    by (simp add: enqueue_durable_def enqueue_memory_formation_def Let_def)
  then show ?thesis
    using fields formation_roundtrip by (simp add: L') (simp add: set_core_def)
qed

section \<open>Witnesses\<close>

theorem forgotten_memory_stays_forgotten_witness:
  "\<exists>d L. forget_memory (demo_env 1020 6020) demo_texts 7 1000 1 (u ''f1'') mlib1 = (Inr d, L) \<and>
    myd_status d = MemoryStatus.DELETED \<and> create_if_allowed (demo_env 1030 6030) demo_texts 7 tea L = (Inr None, L)"
proof -
  obtain d L where run: "forget_memory (demo_env 1020 6020) demo_texts 7 1000 1 (u ''f1'') mlib1 = (Inr d, L)"
      "myd_content d = u ''tea''"
    using tea_forgotten by blast
  have "memories_get_operation_version 7 (u ''f1'') mlib1 = None"
    by (simp add: memories_get_operation_version_def)
  then show ?thesis
    using forgotten_memory_stays_forgotten [OF mlib1_reachable _ run(1) trace.intros(1), of "u ''tea''"] run by simp
qed

theorem profile_is_replaced_witness:
  "\<exists>d L n. create_memory (demo_env 1010 6010) demo_texts 7 milk mlib1 = (Inr d, L) \<and>
    profiles 7 (u ''drink'') L = [n] \<and> mem_id n = 1010 \<and> mem_supersedes_id n = Some 1000"
proof -
  obtain d L where run: "create_memory (demo_env 1010 6010) demo_texts 7 milk mlib1 = (Inr d, L)"
    using milk_created by blast
  have "u ''m1'' \<noteq> u ''m2''"
    by (simp add: u_def)
  then have "memories_get_by_idempotency 7 (mi_idempotency_key milk) mlib1 = None"
      "memories_get_active_profile 7 (u ''drink'') mlib1 = Some tea_memory"
    by (simp_all add: memories_get_by_idempotency_def memories_get_active_profile_def)
  then show ?thesis
    using profile_is_replaced [OF mlib1_reachable _ _ _ run, of "u ''drink''"] run by auto
qed

definition demo_formation :: MemoryFormationEvent where
  "demo_formation = \<lparr>mfe_user_id = 7, mfe_run_id = 32, mfe_thread_id = 16, mfe_source_message_id = 33,
     mfe_user_text = u ''hello'', mfe_tool_result_codes = []\<rparr>"

theorem formation_event_round_trip_witness:
  "\<exists>L j. enqueue_durable (demo_env 90 1000) demo_formation empty_library = (Inr (), L) \<and>
    db_jobs (lb_core L) = [j] \<and> event_from_job_payload (job_user_id j) (job_payload j) = Inr demo_formation"
proof -
  have empty: "db_jobs (lb_core empty_library) = []"
    by (simp add: empty_library_def empty_store_def empty_db_def)
  have key: "strip (u ''memory-formation:'' @ uuid_str 32) \<noteq> []"
    by (simp add: strip_eq_Nil_iff u_def is_space_def)
  then obtain L where run: "enqueue_durable (demo_env 90 1000) demo_formation empty_library = (Inr (), L)"
    by (simp add: enqueue_durable_def enqueue_memory_formation_def Let_def jobs_get_by_dedupe_key_def empty DurableJob_init_def
        demo_formation_def jobs_add_def ins_def)
  show ?thesis
    using formation_event_round_trip [OF _ run] run by (auto simp: jobs_get_by_dedupe_key_def empty)
qed

end
