(* ===== verification/RunWorkProperties.thy ===== *)
theory RunWorkProperties
  imports ChangeProperties
begin

text \<open>
  Competing changes, crash recovery, completion by the worker, and the borders between users.
\<close>

section \<open>Competing changes\<close>

text \<open>
  Of two changes of a run sent for the same version, one wins: after the first was made,
  the second, under another key, is refused as stale.
\<close>

theorem second_change_is_stale:
  assumes "reachable s" "change_run e uid rid version key resume s = Inr (v, s1, fx)" "\<not> rdo_replayed v"
    and "reachable s1" "runs_get_operation uid key' s1 = None"
  shows "change_run e' uid rid version key' resume' s1 = Inl (VersionConflict (u ''Run version is stale.''))"
proof -
  obtain r r' d s0 where r: "run_version r = version" "change_body e uid resume r s = Inr (r', d, s0)"
    "runs_get uid rid s1 = Some (r'\<lparr>run_event_sequence := run_event_sequence r + 1\<rparr>)"
    using change_run_row [OF assms(2,3) reachable_ok [OF assms(1)] reachable_ok [OF assms(4)]] by metis
  have "run_version r' = run_version r + 1"
  proof (cases resume)
    case None
    then have "run_cancel (clk e 0) r = Inr r'"
      using r(2) by (auto simp: change_body_def case_prod_unfold)
    then show ?thesis
      by (simp add: run_cancel_Inr stopped_def)
  next
    case (Some p)
    then obtain iid response where "run_resume (clk e 1) iid response r = Inr r'"
      using r(2)
      by (cases p) (auto simp: change_body_def Let_def case_prod_unfold split: option.splits if_splits)
    then show ?thesis
      by (simp add: run_resume_Inr)
  qed
  with r(1,3) assms(5) show ?thesis
    by (simp add: change_run_def)
qed

theorem second_change_is_stale_witness:
  "change_run (demo_env 400 23000) 7 32 3 (u ''k6'') None demo15 =
    Inl (VersionConflict (u ''Run version is stale.''))"
proof -
  obtain fx where change: "change_run (demo_env 384 22000) 7 32 3 (u ''k4'') (Some (352, demo_result)) demo14 =
      Inr (to_run_dto False (demo_resumed\<lparr>run_event_sequence := 4\<rparr>), demo15, fx)"
    using demo15_step by (auto simp: resume_run_def)
  have "reachable demo15"
    by (rule reachable_history [OF demo14_reachable trace_one [where step = service_step,
          OF service_step.resume_run [OF demo15_step]]])
  with second_change_is_stale [OF demo14_reachable change] show ?thesis
    by (simp add: repo_defs demo15_def)
qed

section \<open>Recovery\<close>

text \<open>A run after its recovery, and what its event says.\<close>

definition recovered :: "time \<Rightarrow> AgentRun \<Rightarrow> AgentRun" where
  "recovered now r = (stopped now r)\<lparr>run_status := RunStatus.QUEUED, run_current_phase := Some (u ''recovering''),
     run_status_label := Some (u ''Recovering after service restart''),
     run_event_sequence := run_event_sequence r + 1\<rparr>"

definition event_head :: "RunEvent \<Rightarrow> uuid \<times> RunEventType \<times> int" where
  "event_head ev = (evt_run_id ev, evt_event_type ev, evt_sequence ev)"

lemma appended_number:
  assumes "runs_append_event eid now rid ty data s = Inr (ev, s')" "keyed run_id (db_runs s)"
    and r: "r \<in> set (db_runs s)" "run_id r = rid"
  shows "event_head ev = (rid, ty, run_event_sequence r + 1)"
proof -
  let ?f = "\<lambda>r. r\<lparr>run_event_sequence := run_event_sequence r + 1\<rparr>"
  obtain q where "q \<in> set (upd (\<lambda>r. run_id r = rid) ?f (db_runs s))" "run_id q = rid"
    and ev: "event_head ev = (rid, ty, run_event_sequence q)"
    using assms(1) by (auto simp: runs_append_event_def Let_def event_head_def dest!: sel1_Some split: option.splits)
  then obtain x where "x \<in> set (db_runs s)" "run_id x = rid" "q = ?f x"
    by (auto simp: set_upd)
  with keyed_unique [OF assms(2) _ r(1)] r(2) ev show ?thesis
    by simp
qed

lemma recover_loop_dispatches:
  assumes "recover_loop e i rs s = Inr (ds, s')" "keys_ok s" "set rs \<subseteq> set (db_runs s)"
    "distinct (map run_id rs)"
  shows "ds = map (\<lambda>r. (run_user_id r, run_id r)) rs
    \<and> (\<forall>r \<in> set (db_runs s). run_id r \<notin> run_id ` set rs \<or> run_status r \<noteq> RunStatus.RUNNING \<longrightarrow> r \<in> set (db_runs s'))
    \<and> (\<forall>r \<in> set rs. run_status r = RunStatus.RUNNING \<longrightarrow> (\<exists>k. recovered (clk e k) r \<in> set (db_runs s')))
    \<and> (\<exists>evs. db_events s' = db_events s @ evs \<and> map event_head evs
        = map (\<lambda>r. (run_id r, RunEventType.RUN_QUEUED, run_event_sequence r + 1)) (filter (\<lambda>r. run_status r = RunStatus.RUNNING) rs))"
  using assms
proof (induction e i rs s arbitrary: ds s' rule: recover_loop.induct)
  case (2 e i r rs s)
  show ?case
  proof (cases "run_status r = RunStatus.RUNNING")
    case False
    obtain ds' where rest: "recover_loop e (i + 1) rs s = Inr (ds', s')" "ds = (run_user_id r, run_id r) # ds'"
      using 2(4) False by auto
    have uniq: "x = r" if "x \<in> set (db_runs s)" "run_id x = run_id r" for x
      using keyed_unique [OF keys_runs [OF 2(5)] that(1) _ that(2)] 2(6) by simp
    from 2(3) [OF False rest(1) 2(5)] 2(6,7) rest(2) uniq False show ?thesis
      by auto
  next
    case True
    then obtain r' where r': "run_recover_after_crash (clk e (2 * i + 1)) r = Inr r'"
      using 2(4) by auto
    have ev: "run_evolves r r'"
      using r' by (rule run_recover_evolves)
    then have id: "run_ident r' = run_ident r" "run_event_sequence r' = run_event_sequence r"
      by (simp_all add: run_evolves_def)
    note same = run_ident_eqD [OF id(1)]
    have rin: "r \<in> set (db_runs s)"
      using 2(6) by simp
    have up: "runs_update r' (run_version r) s = (True, put_run r' s)"
      using rin id 2(5) by (intro runs_update_put) (auto simp: keys_runs)
    have k1: "keys_ok (put_run r' s)"
      using store_write_keys [OF store_write.run [OF rin run_move.recover [OF r']] 2(5)] .
    obtain event s2 ds' where app: "runs_append_event (uid4 e i) (clk e (2 * i + 2)) (run_id r')
          RunEventType.RUN_QUEUED
          [u ''status'' \<mapsto> JStr (run_status_value RunStatus.QUEUED),
           u ''phase'' \<mapsto> jopt_str (run_current_phase r'),
           u ''label'' \<mapsto> jopt_str (run_status_label r'),
           u ''reason'' \<mapsto> JStr (u ''lease_expired'')] (put_run r' s) = Inr (event, s2)"
      and rest: "recover_loop e (i + 1) rs s2 = Inr (ds', s')" and ds: "ds = (run_user_id r', run_id r') # ds'"
      using 2(4) True r' up by auto
    have k2: "keys_ok s2"
      using store_write_keys [OF runs_append_event_write [OF keys_runs [OF k1] app] k1] .
    have keep: "x \<in> set (db_runs s2)" if "x \<in> set (db_runs s)" "run_id x \<noteq> run_id r" for x
      using that same by (intro event_keeps_rows [OF app] old_in_put_run) simp_all
    have "r'\<lparr>run_event_sequence := run_event_sequence r + 1\<rparr> \<in> set (db_runs s2)"
      using app new_in_put_run [OF rin, of r'] same id(2)
      by (force simp: runs_append_event_def Let_def set_upd split: option.splits)
    then obtain q where q: "q \<in> set (db_runs s2)"
        "q = r'\<lparr>run_event_sequence := run_event_sequence r + 1\<rparr>"
      by blast
    have others: "run_id x \<noteq> run_id r" if "x \<in> set rs" for x
      using that 2(7) by (auto simp: image_iff)
    then have sub: "set rs \<subseteq> set (db_runs s2)"
      using 2(6) keep by auto
    have "distinct (map run_id rs)"
      using 2(7) by simp
    note IH = 2(2) [OF True r' up [symmetric] _ app refl rest k2 sub this]
    have "run_id q = run_id r"
      by (simp add: q(2) same)
    then have notin: "run_id q \<notin> run_id ` set rs"
      using others by (metis imageE)
    then have qs: "q \<in> set (db_runs s')"
      using IH q(1) by blast
    have old: "x \<in> set (db_runs s')"
      if "x \<in> set (db_runs s)" "run_id x \<notin> run_id ` set (r # rs) \<or> run_status x \<noteq> RunStatus.RUNNING" for x
    proof -
      have "run_id x \<noteq> run_id r"
        using that True keyed_unique [OF keys_runs [OF 2(5)] that(1) rin] by auto
      with that IH keep show ?thesis
        by auto
    qed
    have new: "\<exists>k. recovered (clk e k) r \<in> set (db_runs s')"
      using qs q(2) r' unfolding recovered_def by (auto simp: run_recover_Inr)
    have "r' \<in> set (db_runs (put_run r' s))"
      using rin same by (intro new_in_put_run) simp_all
    from appended_number [OF app keys_runs [OF k1] this]
    have head: "event_head event = (run_id r, RunEventType.RUN_QUEUED, run_event_sequence r + 1)"
      using same id(2) by simp
    have events: "db_events s2 = db_events s @ [event]"
      using runs_append_event_event [OF app] by simp
    from IH obtain evs where "db_events s' = db_events s2 @ evs" "map event_head evs
        = map (\<lambda>r. (run_id r, RunEventType.RUN_QUEUED, run_event_sequence r + 1)) (filter (\<lambda>r. run_status r = RunStatus.RUNNING) rs)"
      by blast
    then have "db_events s' = db_events s @ (event # evs) \<and> map event_head (event # evs)
        = map (\<lambda>r. (run_id r, RunEventType.RUN_QUEUED, run_event_sequence r + 1)) (filter (\<lambda>r. run_status r = RunStatus.RUNNING) (r # rs))"
      using events head True by simp
    moreover have "ds = map (\<lambda>r. (run_user_id r, run_id r)) (r # rs)"
      using IH ds same by simp
    ultimately show ?thesis
      using IH old new by (metis (no_types, lifting) set_ConsD)
  qed
qed simp


text \<open>The scenario: \<open>w1\<close> crashes, the service restarts after the lease.\<close>

definition demo_recovered :: AgentRun where
  "demo_recovered = (stopped 40000001 demo_claimed)\<lparr>run_status := RunStatus.QUEUED,
     run_current_phase := Some (u ''recovering''),
     run_status_label := Some (u ''Recovering after service restart''), run_event_sequence := 3\<rparr>"

definition demo16 :: db where
  "demo16 = demo3\<lparr>db_runs := [demo_recovered],
     db_events := db_events demo3 @ [demo_ev 3 416 40000002 RunEventType.RUN_QUEUED
       [u ''status'' \<mapsto> JStr (u ''QUEUED''), u ''phase'' \<mapsto> JStr (u ''recovering''),
        u ''label'' \<mapsto> JStr (u ''Recovering after service restart''),
        u ''reason'' \<mapsto> JStr (u ''lease_expired'')]]\<rparr>"

lemma demo16_recoverable:
  "runs_list_recoverable 40000000 50 demo3 = [demo_claimed\<lparr>run_event_sequence := 2\<rparr>]"
  by (simp add: runs_list_recoverable_def run_claimable_def)

lemma demo16_step:
  "recover_pending_runs demo_service (demo_env 416 40000000) 50 demo3 = Inr (1, demo16, [Dispatch 7 32])"
proof -
  have r: "run_recover_after_crash 40000001 (demo_claimed\<lparr>run_event_sequence := 2\<rparr>) =
      Inr (demo_recovered\<lparr>run_event_sequence := 2\<rparr>)"
    by (simp add: run_recover_after_crash_def run_release_claim_def run_pause_eq active_span_def
        demo_recovered_def stopped_def)
  have up: "runs_update (demo_recovered\<lparr>run_event_sequence := 2\<rparr>) 2 demo3 =
      (True, demo3\<lparr>db_runs := [demo_recovered\<lparr>run_event_sequence := 2\<rparr>]\<rparr>)"
    by (simp add: runs_update_def Let_def copy_run_def demo_recovered_def stopped_def demo_claimed_def
        claim_row_def demo_run_def new_run_def)
  show ?thesis
    by (simp add: recover_pending_runs_def demo16_recoverable r up)
       (simp add: runs_append_event_def Let_def ins_def demo3_def demo2_def demo1_def empty_db_def
        demo16_def demo_recovered_def stopped_def demo_ev_def demo_event2_def event_clash_def dispatch_def)
qed


section \<open>Completion\<close>

text \<open>
  C23. A completed run has its answer: when the worker's completion is accepted, the run was
  running under the worker's claim; afterwards it is completed and unclaimed, its final message
  is the trimmed content as one new assistant message in the run's thread, and exactly the
  events \<open>assistant.completed\<close> and \<open>run.completed\<close> were appended, with the next two numbers.
\<close>

theorem complete_run_answers:
  assumes "reachable s"
    and "complete_run show_json c e uid rid content (Some owner) token s = Inr (v, s', fx)"
  shows "\<exists>r r' m ev1 ev2. runs_get uid rid s = Some r \<and> run_status r = RunStatus.RUNNING \<and>
    run_claim_owner r = Some owner \<and> run_claim_token r = token \<and>
    runs_get uid rid s' = Some r' \<and> run_status r' = RunStatus.COMPLETED \<and> run_claim_token r' = None \<and>
    answer_of r' m \<and> msg_content m = strip content \<and> db_messages s' = db_messages s @ [m] \<and>
    db_events s' = db_events s @ [ev1, ev2] \<and>
    evt_event_type ev1 = RunEventType.ASSISTANT_COMPLETED \<and> evt_event_type ev2 = RunEventType.RUN_COMPLETED \<and>
    evt_run_id ev1 = rid \<and> evt_run_id ev2 = rid \<and>
    evt_sequence ev1 = run_event_sequence r + 1 \<and> evt_sequence ev2 = run_event_sequence r + 2"
proof -
  note ok = reachable_ok [OF assms(1)]
  note step = service_step.worker_transition [OF assms(2) [unfolded complete_run_def]]
  have ok': "runtime_ok s'"
    using ok step by (rule runtime.step_inv)
  obtain r r' ty d s1 ev where r: "runs_get uid rid s = Some r"
    and own: "run_claim_owner r = Some owner" "run_claim_token r = token"
    and body: "worker_body show_json e uid (Complete (Some content)) r s = Inr (r', ty, d, s1)"
    and events: "worker_events e (Complete (Some content)) (run_id r') ty d
      (snd (runs_update r' (run_version r) s1)) = Inr (ev, s')"
    using assms(2) unfolding complete_run_def by (cases rule: worker_transition_cases) auto
  have rin: "r \<in> set (db_runs s)" "run_id r = rid" "run_user_id r = uid"
    using runs_getD [OF r] by simp_all
  have up: "snd (runs_update r' (run_version r) s1) = put_run r' s1"
    using worker_body_writes [OF rin(1,3) runtime_keys [OF ok] body] by simp
  define m where "m = \<lparr>msg_user_id = uid, msg_thread_id = run_thread_id r,
    msg_role = MessageRole.ASSISTANT, msg_content = strip content, msg_id = uid4 e 0,
    msg_run_id = Some (run_id r), msg_source_ids = [], msg_metadata = Map.empty,
    msg_created_at = clk e 0\<rparr>"
  have add: "messages_add m s = Inr s1" and c: "run_complete (clk e 1) (msg_id m) r = Inr r'"
    and ty: "ty = RunEventType.RUN_COMPLETED" and text_ok: "strip content \<noteq> []"
    using body by (auto simp: worker_body_def Let_def m_def split: if_splits)
  have m: "msg_content m = strip content" "msg_role m = MessageRole.ASSISTANT"
      "msg_run_id m = Some rid" "msg_user_id m = uid" "msg_thread_id m = run_thread_id r"
    using rin(2) by (simp_all add: m_def)
  have s1: "db_messages s1 = db_messages s @ [m]" "db_events s1 = db_events s" "db_runs s1 = db_runs s"
    using add by (auto simp: messages_add_def)
  note c' = c [unfolded run_complete_Inr]
  have id: "run_ident r' = run_ident r" "run_event_sequence r' = run_event_sequence r"
    using run_complete_evolves [OF c] by (simp_all add: run_evolves_def)
  note same = run_ident_eqD [OF id(1)]
  obtain ev1 s2 d1 where ev1: "runs_append_event (uid4 e 1) (clk e 2) (run_id r')
      RunEventType.ASSISTANT_COMPLETED d1 (put_run r' s1) = Inr (ev1, s2)"
    and ev2: "runs_append_event (uid4 e 2) (clk e 3) (run_id r') RunEventType.RUN_COMPLETED d s2 = Inr (ev, s')"
    using events by (auto simp: worker_events_def up ty)
  have e1: "evt_event_type ev1 = RunEventType.ASSISTANT_COMPLETED" "evt_run_id ev1 = run_id r'"
      "db_events s2 = db_events s @ [ev1]" and e2: "evt_event_type ev = RunEventType.RUN_COMPLETED"
      "evt_run_id ev = run_id r'" "db_events s' = db_events s @ [ev1, ev]"
    using runs_append_event_event [OF ev1] runs_append_event_event [OF ev2] s1(2) by simp_all
  have msgs: "db_messages s' = db_messages s @ [m]"
    using ev1 ev2 s1(1)
    by (auto simp: runs_append_event_def Let_def split: option.splits)
  have "r' \<in> set (db_runs (put_run r' s1))"
    using new_in_put_run [of r s1 r'] rin(1) s1(3) same by simp
  then have "r'\<lparr>run_event_sequence := run_event_sequence r + 1\<rparr> \<in> set (db_runs s2)"
    using ev1 id(2) by (force simp: runs_append_event_def Let_def set_upd split: option.splits)
  then have "r'\<lparr>run_event_sequence := run_event_sequence r + 2\<rparr> \<in> set (db_runs s')"
    using ev2 by (force simp: runs_append_event_def Let_def set_upd split: option.splits)
  then have get: "runs_get uid rid s' = Some (r'\<lparr>run_event_sequence := run_event_sequence r + 2\<rparr>)"
    using runs_get_iff [OF runtime_keys [OF ok']] rin same by simp
  have log: "map evt_sequence (run_log rid s) = [1..run_event_sequence r]"
      "map evt_sequence (run_log rid s') = [1..run_event_sequence r + 2]"
    using ok ok' rin runs_getD [OF get] by (force simp: runtime_ok_def log_ok_def)+
  have "0 \<le> run_event_sequence r"
    using ok rin(1) by (simp add: runtime_ok_def rows_ok_def run_fields_ok_def)
  then have "[1..run_event_sequence r + 2] = [1..run_event_sequence r] @
      [run_event_sequence r + 1, run_event_sequence r + 2]"
    using upto_rec2 [of 1 "run_event_sequence r + 2"] upto_rec2 [of 1 "run_event_sequence r + 1"]
    by (simp add: add.commute)
  moreover have "run_log rid s' = run_log rid s @ [ev1, ev]"
    using e1 e2 same rin(2) by (simp add: run_log_def)
  ultimately have "evt_sequence ev1 = run_event_sequence r + 1" "evt_sequence ev = run_event_sequence r + 2"
    using log by simp_all
  moreover have "answer_of (r'\<lparr>run_event_sequence := run_event_sequence r + 2\<rparr>) m"
    using m text_ok c' same rin by (simp add: answer_of_def)
  moreover have "run_status r = RunStatus.RUNNING" "run_status r' = RunStatus.COMPLETED"
      "run_claim_token r' = None"
    using c' by (simp_all add: stopped_def)
  ultimately show ?thesis
    using r own get m(1) msgs e1 e2 same rin(2) by auto
qed

text \<open>The scenario: \<open>w1\<close> answers.\<close>

definition demo_answered :: AgentRun where
  "demo_answered = (stopped 50000001 demo_claimed)\<lparr>run_status := RunStatus.COMPLETED,
     run_final_message_id := Some 512, run_completed_at := Some 50000001, run_event_sequence := 4\<rparr>"

lemma demo17_complete:
  "run_complete 50000001 512 (demo_claimed\<lparr>run_event_sequence := 2\<rparr>) =
     Inr (demo_answered\<lparr>run_event_sequence := 2\<rparr>)"
  by (simp add: run_complete_Inr demo_answered_def stopped_def active_span_def demo_claimed_def
      claim_row_def demo_run_def new_run_def)

lemma demo17_step:
  "\<exists>v s' fx. complete_run (\<lambda>_. []) demo_service (demo_env 512 50000000) 7 32 (u ''hello'') (Some (u ''w1''))
     (Some 48) demo3 = Inr (v, s', fx)"
  using demo17_complete
  by (simp add: complete_run_def worker_transition_def worker_body_def worker_events_def repo_defs Let_def
      demo3_def demo2_def demo1_def empty_db_def ins_def demo_th_def demo_run_def new_run_def
      demo_answered_def stopped_def demo_claimed_def claim_row_def copy_run_def jget_def json_text_def
      event_clash_def demo_ev_def demo_event2_def publish_wakeup_def demo_msg_def)

theorem complete_run_answers_witness:
  "\<exists>s' r m. runs_get 7 32 s' = Some r \<and> run_status r = RunStatus.COMPLETED \<and> answer_of r m \<and>
    m \<in> set (db_messages s') \<and> msg_content m = u ''hello''"
proof -
  obtain v s' fx where "complete_run (\<lambda>_. []) demo_service (demo_env 512 50000000) 7 32 (u ''hello'')
      (Some (u ''w1'')) (Some 48) demo3 = Inr (v, s', fx)"
    using demo17_step by blast
  from complete_run_answers [OF demo_reachable(3) this] show ?thesis
    by (metis in_set_conv_decomp strip_literals(2))
qed

section \<open>Users\<close>

text \<open>
  A user reaches only the own runs: for a run of another user, every operation that names
  it answers as if it did not exist, and none of them writes anything.
\<close>

theorem foreign_runs_are_hidden:
  assumes "reachable s" "r \<in> set (db_runs s)" "run_id r = rid" "run_user_id r \<noteq> uid"
    and "strip owner \<noteq> []" "0 < lease"
  shows "get_run uid rid s = Inl (EntityNotFound (u ''Run was not found.'')) \<and>
    list_events uid rid after n limit s = Inl (EntityNotFound (u ''Run was not found.'')) \<and>
    emit_event c e uid rid ty data s = Inl (EntityNotFound (u ''Run was not found.'')) \<and>
    cancel_run e uid rid version key s = Inl (EntityNotFound (u ''Run was not found.'')) \<and>
    worker_transition show_json c e uid rid action own token s = Inl (EntityNotFound (u ''Run was not found.'')) \<and>
    accept_terminal_output e uid rid output owner t s = Inl (EntityNotFound (u ''Run was not found.'')) \<and>
    claim_tool_execution e uid rid act tool hash owner lease t safe k s =
      Inl (EntityNotFound (u ''Run was not found.'')) \<and>
    claim_run c e uid rid owner lease s = Inr (None, s, []) \<and>
    renew_run_lease e uid rid owner t lease s = Inr (False, s, [])"
proof -
  have other: "\<not> (run_id x = rid \<and> run_user_id x = uid)" if "x \<in> set (db_runs s)" for x
    using keyed_unique [OF keys_runs [OF runtime_keys [OF reachable_ok [OF assms(1)]]] that assms(2)]
      assms(3,4) by auto
  then have get: "runs_get uid rid s = None"
    by (simp add: runs_get_def sel1_None)
  have "sel1 (\<lambda>x. run_id x = rid \<and> run_user_id x = uid \<and> run_claimable now x) (db_runs s) = None" for now
    using other by (auto simp: sel1_None)
  then have "fst (runs_claim uid rid owner t' now l s) = None" for t' now l
    by (simp add: runs_claim_def Let_def)
  then obtain s1 where claim: "runs_claim uid rid owner (uid4 e 0) (clk e 0)
      (clk e 0 + timedelta_seconds lease) s = (None, s1)"
    by (metis prod.collapse)
  have "cnt (\<lambda>r. run_id r = rid \<and> run_user_id r = uid \<and> run_status r = RunStatus.RUNNING
      \<and> run_claim_owner r = Some owner \<and> run_claim_token r = Some t) (db_runs s) = 0"
    using other by (auto simp: cnt_eq_0)
  then show ?thesis
    using get claim assms(5,6)
    by (simp add: get_run_def list_events_def emit_event_def cancel_run_def worker_transition_def
        accept_terminal_output_def claim_tool_execution_def claim_run_def renew_run_lease_def
        runs_renew_lease_def Let_def)
qed

theorem foreign_runs_are_hidden_witness:
  "get_run 8 32 demo3 = Inl (EntityNotFound (u ''Run was not found.''))"
  using foreign_runs_are_hidden [OF demo_reachable(3), of "demo_claimed\<lparr>run_event_sequence := 2\<rparr>" 32 8
      "u ''w1''" 1] by simp

end
