(* ===== verification/SourceProperties.thy ===== *)
theory SourceProperties
  imports LibraryScenario
begin

text \<open>
  The properties of the uploaded material: consistency of the library, chunks that locate the text,
  segments that answer like chunks, claims of the processing worker, and purges that spare what is
  not deleted. The witnesses are at the end.
\<close>

section \<open>Segments answer like chunks\<close>

lemma insort_key_map: "map g (insort_key (\<lambda>y. f (g y)) x xs) = insort_key f (g x) (map g xs)"
  by (induction xs) simp_all

lemma sort_key_map: "map g (sort_key (f \<circ> g) xs) = sort_key f (map g xs)"
  by (induction xs) (simp_all add: insort_key_map comp_def)

definition anonymous :: "SourceContextChunkDTO \<Rightarrow> SourceContextChunkDTO" where
  "anonymous c = c\<lparr>sxc_id := 0\<rparr>"

definition view_dto :: "uuid \<Rightarrow> view \<Rightarrow> SourceContextChunkDTO" where
  "view_dto sid = (\<lambda>(n, content, a, b, page).
     \<lparr>sxc_id = 0, sxc_source_id = sid, sxc_ordinal = n, sxc_content = content,
      sxc_char_start = (case a of None \<Rightarrow> 0 | Some x \<Rightarrow> x),
      sxc_char_end = (case b of None \<Rightarrow> int (length content) | Some x \<Rightarrow> x), sxc_page_number = page\<rparr>)"

lemma anonymous_segment:
  "seg_file_id x = sid \<Longrightarrow> anonymous (segment_to_context_chunk x) = view_dto sid (segment_view x)"
  by (simp add: anonymous_def segment_to_context_chunk_def view_dto_def segment_view_def Let_def)

lemma anonymous_chunk: "chk_source_id c = sid \<Longrightarrow> anonymous (chunk_dto c) = view_dto sid (chunk_view c)"
  by (simp add: anonymous_def chunk_dto_def view_dto_def chunk_view_def)

lemma within_budget_anonymous: "map anonymous (within_budget n cs) = within_budget n (map anonymous cs)"
  by (induction n cs rule: within_budget.induct) (simp_all add: Let_def anonymous_def)

text \<open>What the query of either store returns, as views.\<close>

definition view_query :: "texts_env \<Rightarrow> nat \<Rightarrow> str option \<Rightarrow> view list \<Rightarrow> view list" where
  "view_query tx n q vs = take n (sort_key fst (case q of None \<Rightarrow> vs
     | Some x \<Rightarrow> filter (\<lambda>v. ilike_contains (tx_lower tx) x (fst (snd v))) vs))"

lemma segments_as_views:
  assumes "files_get user_id fid L \<noteq> None"
  shows "map segment_view (files_list_segments tx user_id fid n None q L)
    = view_query tx n q (map segment_view (file_segments fid L))"
proof -
  have key: "seg_segment_order = fst \<circ> segment_view"
    by (simp add: fun_eq_iff segment_view_def)
  have "map segment_view (sort_key seg_segment_order xs) = sort_key fst (map segment_view xs)" for xs
    unfolding key by (rule sort_key_map)
  moreover have "filter (\<lambda>v. ilike_contains (tx_lower tx) x (fst (snd v))) (map segment_view xs)
      = map segment_view (filter (\<lambda>y. ilike_contains (tx_lower tx) x (seg_content y)) xs)" for x xs
    by (simp add: filter_map comp_def segment_view_def)
  ultimately show ?thesis
    using assms by (cases q)
      (simp_all add: files_list_segments_def view_query_def Let_def sel_def file_segments_def take_map [symmetric])
qed

lemma chunks_as_views:
  assumes "x \<in> set (lb_sources L)" "src_id x = sid" "src_user_id x = user_id"
  shows "map chunk_view (sources_list_chunks tx user_id sid n None q L)
    = view_query tx n q (map chunk_view (source_chunks sid L))"
proof -
  have key: "chk_ordinal = fst \<circ> chunk_view"
    by (simp add: fun_eq_iff chunk_view_def)
  have "map chunk_view (sort_key chk_ordinal xs) = sort_key fst (map chunk_view xs)" for xs
    unfolding key by (rule sort_key_map)
  moreover have "filter (\<lambda>v. ilike_contains (tx_lower tx) y (fst (snd v))) (map chunk_view xs)
      = map chunk_view (filter (\<lambda>c. ilike_contains (tx_lower tx) y (chk_content c)) xs)" for y xs
    by (simp add: filter_map comp_def chunk_view_def)
  moreover have "sel (\<lambda>c. chk_source_id c = sid \<and> (\<exists>x \<in> set (lb_sources L). src_id x = sid \<and> src_user_id x = user_id))
      (lb_chunks L) = source_chunks sid L"
    unfolding sel_def source_chunks_def by (rule filter_cong) (use assms in auto)
  ultimately show ?thesis
    by (cases q) (simp_all add: sources_list_chunks_def view_query_def Let_def sel_def take_map [symmetric])
qed

lemma context_chunk_owners:
  "c \<in> set (sources_list_chunks tx user_id sid n None q L) \<Longrightarrow> chk_source_id c = sid"
  "y \<in> set (files_list_segments tx user_id sid n None q L) \<Longrightarrow> seg_file_id y = sid"
  by (auto simp: sources_list_chunks_def files_list_segments_def Let_def sel_def dest!: in_set_takeD
      split: option.splits)

text \<open>The answer as it was before the files: the chunks of the query, or all of them when none match.\<close>

definition legacy_context ::
  "texts_env \<Rightarrow> uuid \<Rightarrow> uuid \<Rightarrow> int \<Rightarrow> int \<Rightarrow> str option \<Rightarrow> library \<Rightarrow> SourceContextChunkDTO list" where
  "legacy_context tx user_id sid max_chunks max_characters query L =
     (let q = (case query of None \<Rightarrow> None | Some x \<Rightarrow> if strip x = [] then None else Some (strip x));
          found = sources_list_chunks tx user_id sid (nat max_chunks) None q L in
      within_budget (nat max_characters) (map chunk_dto (if found = [] \<and> q \<noteq> None
        then sources_list_chunks tx user_id sid (nat max_chunks) None None L else found)))"

lemma map_views:
  "map anonymous (map segment_to_context_chunk ss) = map anonymous (map chunk_dto cs)"
  if "map segment_view ss = map chunk_view cs" "\<forall>s \<in> set ss. seg_file_id s = sid" "\<forall>c \<in> set cs. chk_source_id c = sid"
proof -
  have "map anonymous (map segment_to_context_chunk ss) = map (view_dto sid) (map segment_view ss)"
    using that(2) by (simp add: anonymous_segment)
  also have "\<dots> = map anonymous (map chunk_dto cs)"
    using that(3) unfolding that(1) by (simp add: anonymous_chunk)
  finally show ?thesis .
qed

text \<open>
  C28. The segments of a file answer a reader exactly as the chunks of its source: in every reachable
  library, when no query vector is available, \<open>get_context_chunks\<close> returns what the chunks alone would
  give (the same texts, offsets and pages in the same order, within the same budgets), but for the
  identifiers of the rows.
\<close>

theorem segments_answer_like_chunks:
  assumes "library_reachable L" "\<And>x. scf_embed cfg x = None"
    and "get_context_chunks tx cfg user_id sid max_chunks max_characters query L = Inr cs"
  shows "map anonymous cs = map anonymous (legacy_context tx user_id sid max_chunks max_characters query L)"
proof -
  have inv: "sources_inv L"
    using library_reachable_ok [OF assms(1)] by (simp add: library_ok_def)
  define q where "q = (case query of None \<Rightarrow> None | Some x \<Rightarrow> if strip x = [] then None else Some (strip x))"
  let ?n = "nat max_chunks"
  define chunks where "chunks q = sources_list_chunks tx user_id sid ?n None q L" for q
  define segs where "segs q = files_list_segments tx user_id sid ?n None q L" for q
  from assms(3) obtain x where x: "x \<in> set (lb_sources L)" "src_id x = sid" "src_user_id x = user_id"
      "src_deleted_at x = None"
    by (auto simp: get_context_chunks_def sources_get_def split: if_splits dest!: sel1_Some)
  obtain f where "f \<in> set (lb_files L)" "mirrors f x"
    using sources_invD(3) [OF inv x(1)] by blast
  then have stored: "files_get user_id sid L \<noteq> None"
    using x by (auto simp: files_get_def sel1_None mirrors_def)
  have same: "map segment_view (segs q) = map chunk_view (chunks q)" for q
    unfolding segs_def chunks_def segments_as_views [OF stored] chunks_as_views [OF x(1-3)]
    using sources_invD(4) [OF inv x(1)] x(2) by simp
  have empty: "segs q = [] \<longleftrightarrow> chunks q = []" for q
    using same [of q] by (metis map_is_Nil_conv)
  have vector: "(case q of None \<Rightarrow> None | Some y \<Rightarrow> scf_embed cfg y) = None"
    using assms(2) by (cases q) simp_all
  let ?chunks = "if chunks q = [] \<and> q \<noteq> None then chunks None else chunks q"
  let ?segs = "if segs q \<noteq> [] \<or> q = None then segs q else segs None"
  have cs: "cs = within_budget (nat max_characters)
      (if ?segs \<noteq> [] then map segment_to_context_chunk ?segs else map chunk_dto ?chunks)"
    using assms(3) unfolding get_context_chunks_def list_inspect_segments_def q_def [symmetric] Let_def vector
      segs_def [symmetric] chunks_def [symmetric]
    by (cases q) (auto split: if_splits)
  have "map anonymous (if ?segs \<noteq> [] then map segment_to_context_chunk ?segs else map chunk_dto ?chunks)
      = map anonymous (map chunk_dto ?chunks)"
  proof (cases "?segs = []")
    case False
    have "map segment_view ?segs = map chunk_view ?chunks"
      using same empty by auto
    moreover have "\<forall>s \<in> set ?segs. seg_file_id s = sid" "\<forall>c \<in> set ?chunks. chk_source_id c = sid"
      using context_chunk_owners by (auto simp: segs_def chunks_def)
    ultimately show ?thesis
      unfolding if_P [OF False] by (rule map_views)
  qed simp
  then show ?thesis
    unfolding cs within_budget_anonymous legacy_context_def q_def [symmetric] Let_def chunks_def [symmetric] by simp
qed

section \<open>Chunks\<close>

lemma same_views:
  assumes "map chunk_view cs = map chunk_view ds" "c \<in> set cs"
  obtains d where "d \<in> set ds" "chunk_view c = chunk_view d"
  using assms by (metis imageE imageI list.set_map)

lemma located_view: "chunk_view c = chunk_view d \<Longrightarrow> located t c = located t d"
  by (simp add: located_def chunk_view_def)

text \<open>The chunks a completion stores, against the text it stores.\<close>

lemma completed_chunks:
  assumes inv: "sources_inv L" and run: "complete_processing e e' cfg sid owner content L = Inr (True, L')"
  obtains x cs where "build_source_chunks_from_content e sid (normalized_content content) 2000 200 = Inr cs"
    "source_chunks sid L' = finished_chunks cfg cs" "x \<in> set (lb_sources L')" "src_id x = sid"
    "src_processing_status x = ProcessingStatus.READY" "src_extracted_text x = Some (strip (psc_text content))"
  using inv run
proof (cases rule: complete_cases)
  case (stored x cs)
  have sid: "src_id x = sid" "src_processing_status x = ProcessingStatus.PENDING"
    using stored(3) by (simp_all add: held_by_def)
  have "y = x" if "y \<in> set (lb_sources L)" "src_id y = sid" for y
    using keyed_unique [OF sources_keysD(1) [OF sources_invD(1) [OF inv]] that(1) stored(2)] that(2) sid(1) by simp
  then have "filter (\<lambda>c. chk_source_id c = sid) (lb_chunks L) = []"
    using sources_invD(5) [OF inv] sid(2) by (fastforce simp: filter_empty_conv)
  moreover have "\<forall>c \<in> set (finished_chunks cfg cs). chk_source_id c = sid"
  proof
    fix c assume "c \<in> set (finished_chunks cfg cs)"
    then have "chk_source_id c \<in> set (map chk_source_id (finished_chunks cfg cs))"
      unfolding set_map by (rule imageI)
    then have "chk_source_id c \<in> set (map chk_source_id cs)"
      unfolding finished_chunks_fields .
    then show "chk_source_id c = sid"
      using built_chunks(2) [OF stored(4)] by auto
  qed
  ultimately have "source_chunks sid L' = finished_chunks cfg cs"
    unfolding stored(5) by (simp add: source_chunks_def complete_rows_def Let_def)
  moreover let ?x = "complete_source (strip (psc_text content)) (clk e' (length (finished_chunks cfg cs) + 3)) x"
  have "?x \<in> set (lb_sources L')"
    unfolding stored(5) using stored(2) sid(1) by (simp add: complete_rows_def Let_def set_upd)
  ultimately show thesis
    using stored(4) sid(1) by (intro that [of cs ?x]) (simp_all add: complete_source_def)
qed simp

text \<open>A parsed text consists of its pages and is more than white space.\<close>

lemma parsed_text:
  assumes "parse_source limit raw = Inr content"
  shows "psc_text content = joined [10, 10] (map psp_text (psc_pages content))" "strip (psc_text content) \<noteq> []"
  using assms normalized_parsed(3) [OF assms]
  by (auto simp: parse_source_def Let_def normalized_content_def split: if_splits)

text \<open>
  C29. What the completion of a parsed document stores: the source is ready, its text is the parsed text
  of the document (its pages joined by blank lines, stripped, never empty), and its chunks, numbered without gaps,
  are no longer than 2000 characters, not blank, and each is exactly the stripped cut of that text
  between its offsets; every character of the text that is not white space lies within some chunk.
\<close>

theorem chunks_locate_the_text:
  assumes "library_reachable L" "parse_source limit raw = Inr content"
    and "complete_processing e e' cfg sid owner content L = Inr (True, L')"
  shows "let t = strip (joined [10, 10] (map psp_text (psc_pages content))) in
    t = strip (psc_text content) \<and> t \<noteq> [] \<and>
    (\<exists>x \<in> set (lb_sources L'). src_id x = sid \<and> src_processing_status x = ProcessingStatus.READY \<and>
      src_extracted_text x = Some t \<and>
      map chk_ordinal (source_chunks sid L') = map int [0 ..< length (source_chunks sid L')] \<and>
      (\<forall>c \<in> set (source_chunks sid L'). located t c \<and> chk_content c \<noteq> [] \<and>
         chk_char_end c \<le> chk_char_start c + 2000) \<and>
      (\<forall>p < length t. \<not> is_space (t ! p) \<longrightarrow>
         (\<exists>c \<in> set (source_chunks sid L'). chk_char_start c \<le> int p \<and> int p < chk_char_end c)))"
proof -
  have inv: "sources_inv L"
    using library_reachable_ok [OF assms(1)] by (simp add: library_ok_def)
  obtain x cs where cs: "build_source_chunks_from_content e sid (normalized_content content) 2000 200 = Inr cs"
      "source_chunks sid L' = finished_chunks cfg cs"
    and x: "x \<in> set (lb_sources L')" "src_id x = sid" "src_processing_status x = ProcessingStatus.READY"
      "src_extracted_text x = Some (strip (psc_text content))"
    by (rule completed_chunks [OF inv assms(3)])
  define t ps where "t = strip (psc_text content)" and "ps = psc_pages (normalized_content content)"
  have body: "strip (joined [10, 10] (map psp_text (psc_pages content))) = t" "t \<noteq> []"
    using parsed_text [OF assms(2)] by (simp_all add: t_def)
  have t: "t = joined [10, 10] (map psp_text ps)" and "ps \<noteq> []"
    using normalized_parsed [OF assms(2)] by (simp_all add: t_def ps_def normalized_content_def)
  then have built: "cs = page_chunks e sid 2000 200 0 0 ps"
    using cs(1) by (simp add: build_source_chunks_from_content_def ps_def)
  have views: "map chunk_view (finished_chunks cfg cs) = map chunk_view cs"
    by (rule finished_chunks_fields)
  have "located t c \<and> chk_content c \<noteq> [] \<and> chk_char_end c \<le> chk_char_start c + 2000"
    if c: "c \<in> set (finished_chunks cfg cs)" for c
  proof -
    obtain d where d: "d \<in> set cs" "chunk_view c = chunk_view d"
      by (rule same_views [OF views c])
    have "located t d \<and> chk_content d \<noteq> [] \<and> chk_char_end d \<le> chk_char_start d + 2000"
      using page_chunks_located [of 2000 d e sid 200 0 "[]" ps] d(1) by (simp add: built t)
    then show ?thesis
      using d(2) by (simp add: located_view [OF d(2)]) (simp add: chunk_view_def)
  qed
  moreover have "\<exists>c \<in> set (finished_chunks cfg cs). chk_char_start c \<le> int p \<and> int p < chk_char_end c"
    if p: "p < length t" "\<not> is_space (t ! p)" for p
  proof -
    obtain d where d: "d \<in> set cs" "chk_char_start d \<le> int p" "int p < chk_char_end d"
      using page_chunks_cover [of 2000 p ps e sid 200 0 0] p by (auto simp: built t)
    obtain c where "c \<in> set (finished_chunks cfg cs)" "chunk_view d = chunk_view c"
      by (rule same_views [OF views [symmetric] d(1)])
    with d(2,3) show ?thesis
      by (intro bexI [of _ c]) (simp_all add: chunk_view_def)
  qed
  moreover have "map chk_ordinal (finished_chunks cfg cs) = map int [0 ..< length (finished_chunks cfg cs)]"
    using page_chunks_ordinals [of e sid 2000 200 0 0 ps] by (simp add: built)
  ultimately show ?thesis
    using x body unfolding cs(2) t_def [symmetric] body(1) Let_def by blast
qed

section \<open>Claims of the processing worker\<close>

text \<open>
  C4. The processing worker is served in order: a claim takes the oldest source that waits to be
  processed (pending and not leased, or failed with a retry that is due, with attempts left) and counts
  the attempt; nobody else can take it while the lease runs; there is no claim only when no source
  waits.
\<close>

theorem source_claim_takes_oldest:
  assumes "library_reachable L" "claim_next_processing e owner user lease attempts L = Inr (j, L')"
  shows "case j of
      None \<Rightarrow> L' = L \<and> (\<forall>x \<in> set (lb_sources L). \<not> claimable user (clk e 0) PROCESSABLE_MIME_TYPES attempts x)
    | Some d \<Rightarrow> \<exists>c \<in> set (lb_sources L). claimable user (clk e 0) PROCESSABLE_MIME_TYPES attempts c \<and>
        (\<forall>x \<in> set (lb_sources L). claimable user (clk e 0) PROCESSABLE_MIME_TYPES attempts x \<longrightarrow>
           (src_created_at c, src_id c) \<le> (src_created_at x, src_id x)) \<and>
        spj_id d = src_id c \<and> spj_attempt_count d = src_attempt_count c + 1 \<and>
        L' = set_sources (upd (\<lambda>x. src_id x = src_id c)
          (claim_source owner (clk e 0) (clk e 0 + timedelta_seconds lease)) (lb_sources L)) L \<and>
        (\<forall>x \<in> set (lb_sources L'). \<forall>t. src_id x = src_id c \<and> t < clk e 0 + timedelta_seconds lease \<longrightarrow>
           \<not> claimable user t PROCESSABLE_MIME_TYPES attempts x)"
proof -
  have inv: "sources_inv L"
    using library_reachable_ok [OF assms(1)] by (simp add: library_ok_def)
  from assms(2) sources_keysD(1) [OF sources_invD(1) [OF inv]] show ?thesis
  proof (cases rule: claim_next_cases)
    case (taken c d)
    have "\<not> claimable user t PROCESSABLE_MIME_TYPES attempts x"
      if x: "x \<in> set (lb_sources L')" "src_id x = src_id c" and t: "t < clk e 0 + timedelta_seconds lease" for x t
    proof -
      obtain y where "x = claim_source owner (clk e 0) (clk e 0 + timedelta_seconds lease) y"
        using x unfolding taken(7) by (auto simp: set_upd)
      with t show ?thesis
        by (simp add: claimable_def claim_source_def)
    qed
    then show ?thesis
      using taken by auto
  qed simp
qed

text \<open>
  C10. A worker that lost a source is fenced: as soon as another worker claimed it, or it is ready or
  failed, or it was deleted (a deletion leaves the claim on the row), its renewal, its completion and its
  failure report change nothing and say so, in every reachable library.
\<close>

theorem stale_source_worker_is_refused:
  assumes "library_reachable L" "\<forall>x \<in> set (lb_sources L). src_id x = sid \<longrightarrow>
      src_claim_owner x \<noteq> Some owner \<or> src_processing_status x \<noteq> ProcessingStatus.PENDING \<or> src_deleted_at x \<noteq> None"
  shows "renew_processing_lease e sid owner lease L = Inr (False, L) \<and>
    fail_processing e sid owner code delay L = Inr (False, L) \<and>
    (case complete_processing e e' cfg sid owner content L of
       Inl err \<Rightarrow> True | Inr (completed, L') \<Rightarrow> \<not> completed \<and> L' = L)"
proof -
  have inv: "sources_inv L"
    using library_reachable_ok [OF assms(1)] by (simp add: library_ok_def)
  have none: "\<forall>x \<in> set (lb_sources L). \<not> held_by sid owner x"
    using assms(2) sources_invD(2) [OF inv] by (auto simp: held_by_def source_row_ok_def)
  then have "cnt (held_by sid owner) (lb_sources L) = 0"
    by (simp add: cnt_def filter_empty_conv)
  moreover have "\<not> b \<and> L' = L" if run: "complete_processing e e' cfg sid owner content L = Inr (b, L')" for b L'
    using inv run by (cases rule: complete_cases) (use none in auto)
  ultimately show ?thesis
    by (auto simp: renew_processing_lease_def sources_renew_processing_lease_def fail_processing_def
        sources_fail_processing_def held_update_def split: sum.splits)
qed

section \<open>Failures\<close>

text \<open>The row of a source after its claim's holder reported a failure.\<close>

lemma failed_row:
  assumes inv: "sources_inv L" and x: "x \<in> set (lb_sources L)" "held_by sid owner x"
    and run: "fail_processing e sid owner code delay L = Inr (b, L')"
  shows "b \<and> lb_sources L' = upd (\<lambda>y. src_id y = sid) (fail_source code (clk e 0)
      (map_option (\<lambda>d. clk e 0 + timedelta_seconds d) delay)) (lb_sources L)"
proof -
  note keys = sources_keysD [OF sources_invD(1) [OF inv]]
  have sid: "src_id x = sid"
    using x(2) by (simp add: held_by_def)
  have pinned: "held_by sid owner y \<longleftrightarrow> src_id y = sid" if "y \<in> set (lb_sources L)" for y
    using keyed_unique [OF keys(1) that x(1)] x(2) by (auto simp: held_by_def)
  have "cnt (held_by sid owner) (lb_sources L) = 1"
    using keyed_row [OF keys(1) x(1)] x(2) sid by (subst cnt_keyed [OF keys(1), of _ sid]) (auto simp: held_by_def)
  moreover have "upd (held_by sid owner) f (lb_sources L) = upd (\<lambda>y. src_id y = sid) f (lb_sources L)" for f
    using pinned by (auto simp: upd_def)
  ultimately show ?thesis
    using run by (auto simp: fail_processing_def sources_fail_processing_def held_update_def)
qed

text \<open>
  What makes a round fail once its source is claimed, by the error and the environment of the report:
  the document does not parse, or the extraction or the completion raised another exception.
\<close>

definition round_fails ::
  "source_worker \<Rightarrow> source_config \<Rightarrow> (nat \<Rightarrow> env) \<Rightarrow> SourceProcessingJobDTO \<Rightarrow> extraction \<Rightarrow> bool \<Rightarrow> library \<Rightarrow> bool" where
  "round_fails w cfg es j extracted lost M =
     (case extracted of ParsingFailed \<Rightarrow> True | ExtractionRaised \<Rightarrow> True
      | Extracted content \<Rightarrow> \<not> lost \<and>
          (\<exists>err. complete_processing (es 1) (es 2) cfg (spj_id j) (swk_id w) content M = Inl err))"

definition report_time :: "(nat \<Rightarrow> env) \<Rightarrow> extraction \<Rightarrow> time" where
  "report_time es extracted = (case extracted of Extracted _ \<Rightarrow> clk (es 3) 0 | _ \<Rightarrow> clk (es 1) 0)"

text \<open>
  The worker keeps its claim while the content is extracted: the other units of work may have done
  anything else, and its heartbeat may have renewed the lease.
\<close>

definition keeps_claim :: "uuid \<Rightarrow> library \<Rightarrow> library \<Rightarrow> bool" where
  "keeps_claim sid L1 M \<longleftrightarrow> (\<exists>x \<in> set (lb_sources L1). src_id x = sid \<and>
     (\<exists>beat lease. x\<lparr>src_heartbeat_at := beat, src_lease_expires_at := lease\<rparr> \<in> set (lb_sources M)))"

lemma reported_failure:
  assumes inv: "sources_inv M" and x: "x \<in> set (lb_sources M)" "held_by sid owner x"
  obtains L' where "fail_processing e sid owner code delay M = Inr (True, L')"
    "fail_source code (clk e 0) (map_option (\<lambda>d. clk e 0 + timedelta_seconds d) delay) x \<in> set (lb_sources L')"
proof -
  obtain b L' where fail: "fail_processing e sid owner code delay M = Inr (b, L')"
    by (cases "fail_processing e sid owner code delay M") (auto simp: fail_processing_def split: prod.splits bool.splits)
  have "src_id x = sid"
    using x(2) by (simp add: held_by_def)
  then show thesis
    using failed_row [OF inv x fail] fail x(1) by (intro that [of L']) (auto simp: set_upd)
qed

text \<open>
  C26. A round of the worker that cannot process the source it claimed leaves it failed and unclaimed: a
  document that does not parse is given up at once; after any other exception, of the extraction or of
  the completion, it is due again after the back-off while attempts are left, and given up as exhausted
  with the last one. The round itself returns normally, whatever the other units of work did while the
  content was extracted, as long as the worker keeps its claim.
\<close>

theorem failed_source_round:
  assumes "library_reachable L"
    and claim: "claim_next_processing (es 0) (swk_id w) None (swk_lease_seconds w) (swk_max_attempts w) L = Inr (Some j, L1)"
    and "library_reachable (between L1)" and kept: "keeps_claim (spj_id j) L1 (between L1)"
    and failed: "round_fails w cfg es j (extract j) lost (between L1)"
  shows "\<exists>L'. source_run_once w cfg es extract lost between L = (Inr True, L') \<and>
    (\<exists>x \<in> set (lb_sources L'). src_id x = spj_id j \<and> src_processing_status x = ProcessingStatus.FAILED \<and>
      src_claim_owner x = None \<and>
      (if extract j = ParsingFailed
       then src_processing_error x = Some (u ''SOURCE_PARSE_FAILED'') \<and> src_next_attempt_at x = None
       else if swk_max_attempts w \<le> spj_attempt_count j
       then src_processing_error x = Some (u ''SOURCE_PROCESSING_EXHAUSTED'') \<and> src_next_attempt_at x = None
       else src_processing_error x = Some (u ''SOURCE_PROCESSING_RETRYABLE'') \<and>
         (\<forall>t. claimable None t PROCESSABLE_MIME_TYPES (swk_max_attempts w) x \<longleftrightarrow>
            report_time es (extract j) + timedelta_seconds (source_retry_delay w (spj_attempt_count j)) \<le> t)))"
proof -
  have inv: "sources_inv L" "sources_inv (between L1)"
    using library_reachable_ok [OF assms(1)] library_reachable_ok [OF assms(3)] by (simp_all add: library_ok_def)
  note keys = sources_keysD(1) [OF sources_invD(1) [OF inv(1)]]
  from claim keys obtain c where
    c: "c \<in> set (lb_sources L)" "claimable None (clk (es 0) 0) PROCESSABLE_MIME_TYPES (swk_max_attempts w) c"
      "spj_id j = src_id c" "spj_attempt_count j = src_attempt_count c + 1"
    and L1: "L1 = set_sources (upd (\<lambda>x. src_id x = src_id c) (claim_source (swk_id w) (clk (es 0) 0)
       (clk (es 0) 0 + timedelta_seconds (swk_lease_seconds w))) (lb_sources L)) L"
    by (cases rule: claim_next_cases) auto
  obtain beat lease x where x: "x \<in> set (lb_sources (between L1))"
    and row: "x = (claim_source (swk_id w) (clk (es 0) 0) (clk (es 0) 0 + timedelta_seconds (swk_lease_seconds w)) c)
      \<lparr>src_heartbeat_at := beat, src_lease_expires_at := lease\<rparr>"
  proof -
    obtain y beat lease where y: "y \<in> set (lb_sources L1)" "src_id y = src_id c"
        "y\<lparr>src_heartbeat_at := beat, src_lease_expires_at := lease\<rparr> \<in> set (lb_sources (between L1))"
      using kept unfolding keeps_claim_def c(3) by blast
    have "y = claim_source (swk_id w) (clk (es 0) 0) (clk (es 0) 0 + timedelta_seconds (swk_lease_seconds w)) c"
      using y(1,2) keyed_unique [OF keys _ c(1)] unfolding L1 by (auto simp: set_upd claim_source_def)
    then show thesis
      using that y(3) by blast
  qed
  have held: "held_by (spj_id j) (swk_id w) x"
    by (simp add: row held_by_def claim_source_def c(3))
  define n :: nat where "n = (case extract j of Extracted _ \<Rightarrow> 3 | _ \<Rightarrow> 1)"
  define code where "code = (if extract j = ParsingFailed then u ''SOURCE_PARSE_FAILED''
      else if swk_max_attempts w \<le> spj_attempt_count j then u ''SOURCE_PROCESSING_EXHAUSTED'' else u ''SOURCE_PROCESSING_RETRYABLE'')"
  define delay where "delay = (if extract j = ParsingFailed \<or> swk_max_attempts w \<le> spj_attempt_count j then None
      else Some (source_retry_delay w (spj_attempt_count j)))"
  obtain L' where fail: "fail_processing (es n) (spj_id j) (swk_id w) code delay (between L1) = Inr (True, L')"
    and y: "fail_source code (clk (es n) 0) (map_option (\<lambda>d. clk (es n) 0 + timedelta_seconds d) delay) x \<in> set (lb_sources L')"
    by (rule reported_failure [OF inv(2) x held])
  have round: "source_run_once w cfg es extract lost between L = (Inr True, L')"
    using failed fail unfolding source_run_once_def claim round_fails_def
    by (cases "extract j") (auto simp: finish_source_def bindW_Inr commit_Inr give_up_source_def Let_def n_def code_def
        delay_def)
  have "src_deleted_at c = None" "src_mime_type c \<in> set PROCESSABLE_MIME_TYPES"
    using c(2) by (simp_all add: claimable_def)
  moreover have "report_time es (extract j) = clk (es n) 0"
    by (simp add: report_time_def n_def split: extraction.split)
  ultimately show ?thesis
    using y round c(3,4)
    by (intro exI [of _ L'] conjI bexI [OF _ y])
      (auto simp: row code_def delay_def fail_source_def claim_source_def claimable_def)
qed

section \<open>Purging\<close>

text \<open>
  C21. A purge spares what is not deleted: whatever a round of the purge worker removes from the object
  storage, the object of every source that is not deleted is as it was, and the library stays
  consistent.
\<close>

theorem purge_spares_live_objects:
  assumes "library_reachable (library_of S)" "purge_run_once owner lease e S = (r, S')"
    and "x \<in> set (lb_sources (library_of S'))" "src_deleted_at x = None"
  shows "objects_of S' (src_object_key x) = objects_of S (src_object_key x) \<and> library_ok (library_of S')"
proof (cases r)
  case (Inl err)
  then have "S' = S"
    using assms(2) by (auto simp: purge_run_once_def Let_def split: prod.splits list.splits sum.splits bool.splits)
  then show ?thesis
    using library_reachable_ok [OF assms(1)] by simp
next
  case (Inr b)
  have ok: "library_ok (library_of S)"
    by (rule library_reachable_ok [OF assms(1)])
  then have inv: "sources_inv (library_of S)" and jobs: "keyed job_id (db_jobs (lb_core (library_of S)))"
    by (simp_all add: library_ok_def system_ok_def runtime_ok_def keys_ok_def)
  have later: "library_ok (library_of S')"
    using library_step_ok [OF ok library_step.purge_file] assms(2) Inr by blast
  have "objects_of S' (src_object_key x) = objects_of S (src_object_key x)"
    using assms(2) [unfolded Inr] jobs
  proof (cases rule: purge_round_cases)
    case (purged j fid c c' key L1)
    obtain y where y: "y \<in> set (lb_sources (library_of S))" "src_deleted_at y \<noteq> None" "src_id y = fid"
      by (rule purged_source [OF inv purged(1,2)])
    have same: "lb_sources (set_core c (library_of S)) = lb_sources (library_of S)"
      using moves_jobs_auto [OF purged(4)] by simp
    have "lb_sources L1 = lb_sources (set_core c (library_of S))"
      using purged(3) by (auto simp: apply_physical_purge_def files_purge_segments_for_file_def
          files_mark_purged_def split: option.splits if_splits)
    then have x: "x \<in> set (lb_sources (library_of S))"
      using assms(3) same moves_jobs_auto [OF purged(5)] unfolding purged(6) by simp
    have key: "k = src_object_key y" if k: "key = Some k" for k
    proof -
      obtain f where f: "f \<in> set (lb_files (library_of S))" "fil_id f = fid" "fil_storage_key f = k"
        using purged(3) k
        by (auto simp: apply_physical_purge_def files_get_including_deleted_def dest!: sel1_Some
            split: option.splits if_splits)
      obtain h where h: "h \<in> set (lb_files (library_of S))" "mirrors h y"
        using sources_invD(3) [OF inv y(1)] by blast
      have "f = h"
        using keyed_unique [OF sources_keysD(2) [OF sources_invD(1) [OF inv]] f(1) h(1)] f(2) h(2) y(3)
        by (simp add: mirrors_def)
      then show ?thesis
        using f(3) h(2) by (simp add: mirrors_def)
    qed
    have "src_object_key x \<noteq> src_object_key y"
      using keyed_unique [OF sources_keysD(7) [OF sources_invD(1) [OF inv]] x y(1)] y(2) assms(4) by auto
    then show ?thesis
      unfolding purged(7) using key by (auto simp: object_delete_def split: option.splits)
  qed simp
  with later show ?thesis
    by simp
qed

section \<open>Consistency\<close>

text \<open>
  C24. The library is consistent in every reachable state: each source has the file that mirrors it
  (owner, object, deletion); a deleted source has no chunks left; the active segments of a file say
  exactly what the chunks of its source say, one active generation at most; every purge job is for a
  deleted source; a user has at most one active profile memory per key and every memory is well formed.
\<close>

theorem library_is_consistent:
  assumes "library_reachable L"
  shows "(\<forall>x \<in> set (lb_sources L). (\<exists>f \<in> set (lb_files L). mirrors f x) \<and>
      (src_deleted_at x \<noteq> None \<longrightarrow> source_chunks (src_id x) L = []) \<and>
      map segment_view (file_segments (src_id x) L) = map chunk_view (source_chunks (src_id x) L)) \<and>
    clash_free active_clash (lb_generations L) \<and>
    (\<forall>(uid, d) \<in> purge_jobs (lb_core L). \<exists>x \<in> set (lb_sources L).
       src_deleted_at x \<noteq> None \<and> d (u ''file_id'') = Some (juuid (src_id x))) \<and>
    clash_free profile_clash (lb_memories L) \<and> list_all memory_ok (lb_memories L)"
proof -
  have inv: "sources_inv L" "memories_inv L"
    using library_reachable_ok [OF assms] by (simp_all add: library_ok_def)
  have "\<forall>(uid, d) \<in> purge_jobs (lb_core L). \<exists>x \<in> set (lb_sources L).
       src_deleted_at x \<noteq> None \<and> d (u ''file_id'') = Some (juuid (src_id x))"
    using sources_invD(9) [OF inv(1)] by blast
  then show ?thesis
    using sources_invD(3,4) [OF inv(1)] sources_keysD(6) [OF sources_invD(1) [OF inv(1)]]
      memories_invD(2,4) [OF inv(2)] deleted_source_has_no_chunks(1) [OF inv(1)] by simp
qed

section \<open>Witnesses\<close>

theorem segments_answer_like_chunks_witness:
  "map anonymous (projr (get_context_chunks demo_texts demo_cfg 7 501 5 100 None lib3))
    = map anonymous (legacy_context demo_texts 7 501 5 100 None lib3) \<and>
   get_context_chunks demo_texts demo_cfg 7 501 5 100 None lib3 \<noteq> Inr []"
proof -
  have src: "sources_get 7 501 (lb_core lib3) = Some ready_src"
    by (simp add: lib3_def sources_get_def ready_src_def complete_source_def)
  have "active_generation lib3 800" "files_get 7 501 lib3 = Some (file_from_source demo_src)"
    by (simp_all add: lib3_def lib2_def lib1_def active_generation_def demo_generation_def new_generation_def generation_mark_ready_def
        files_get_def file_from_source_def demo_src_def set_sources_def set_core_def)
  then have "list_inspect_segments demo_texts 7 501 5 None None lib3 = [segment_of_chunk (demo_env 800 3100) 0 501 800 demo_chunk]"
    by (simp add: list_inspect_segments_def files_list_segments_def Let_def lib3_def segment_of_chunk_def)
  then obtain cs where cs: "get_context_chunks demo_texts demo_cfg 7 501 5 100 None lib3 = Inr cs" "cs \<noteq> []"
    by (simp add: get_context_chunks_def src Let_def)
  show ?thesis
    using segments_answer_like_chunks [OF lib3_reachable _ cs(1)] cs by (simp add: demo_cfg_def)
qed

theorem chunks_locate_the_text_witness:
  "\<exists>x \<in> set (lb_sources lib3). src_id x = 501 \<and> src_processing_status x = ProcessingStatus.READY \<and>
    src_extracted_text x = Some (u ''hi'')"
proof -
  have "strip (psc_text demo_content) = u ''hi''"
    by (simp add: demo_content_def demo_span)
  then show ?thesis
    using chunks_locate_the_text [OF lib2_reachable demo_parsed lib3_step] unfolding Let_def by metis
qed

theorem source_claim_takes_oldest_witness:
  "\<exists>c \<in> set (lb_sources lib1). claimable None 2000 PROCESSABLE_MIME_TYPES 3 c \<and> spj_id demo_spj = src_id c"
  using source_claim_takes_oldest [OF lib1_reachable lib2_step] by auto

theorem stale_source_worker_is_refused_witness:
  "renew_processing_lease (demo_env 650 2500) 501 (u ''w2'') 30 lib2 = Inr (False, lib2) \<and>
   fail_processing (demo_env 650 2500) 501 (u ''w2'') (u ''E'') None lib2 = Inr (False, lib2) \<and>
   renew_processing_lease (demo_env 850 3500) 501 (u ''w1'') 30 lib3 = Inr (False, lib3)"
proof -
  have "u ''w1'' \<noteq> u ''w2''" "lb_sources lib3 = [ready_src]" "src_processing_status ready_src = ProcessingStatus.READY"
    by (simp_all add: u_def lib3_def ready_src_def complete_source_def)
  then show ?thesis
    using stale_source_worker_is_refused [OF lib2_reachable, of 501 "u ''w2''"]
      stale_source_worker_is_refused [OF lib3_reachable, of 501 "u ''w1''"] by simp
qed

theorem failed_source_round_witness:
  "\<exists>L'. source_run_once demo_worker demo_cfg (\<lambda>n. demo_env 600 2000)
      (\<lambda>_. Extracted \<lparr>psc_text = [], psc_pages = []\<rparr>) False (\<lambda>M. M) lib1 = (Inr True, L') \<and>
    (\<exists>x \<in> set (lb_sources L'). src_id x = 501 \<and> src_processing_status x = ProcessingStatus.FAILED \<and>
      src_processing_error x = Some (u ''SOURCE_PROCESSING_RETRYABLE''))"
proof -
  have claim: "claim_next_processing (demo_env 600 2000) (swk_id demo_worker) None (swk_lease_seconds demo_worker)
      (swk_max_attempts demo_worker) lib1 = Inr (Some demo_spj, lib2)"
    using lib2_step by (simp add: demo_worker_def)
  have kept: "keeps_claim (spj_id demo_spj) lib2 lib2"
    unfolding keeps_claim_def
    by (intro bexI [of _ claimed_src] conjI exI [of _ "src_heartbeat_at claimed_src"] exI [of _ "src_lease_expires_at claimed_src"])
      (simp_all add: demo_spj_def)
  have fails: "round_fails demo_worker demo_cfg (\<lambda>n. demo_env 600 2000) demo_spj
      (Extracted \<lparr>psc_text = [], psc_pages = []\<rparr>) False lib2"
    by (simp add: round_fails_def complete_processing_def Let_def require_def)
  show ?thesis
    using failed_source_round [OF lib1_reachable, of "\<lambda>n. demo_env 600 2000" demo_worker demo_spj lib2 "\<lambda>M. M",
        OF claim lib2_reachable kept, of demo_cfg "\<lambda>_. Extracted \<lparr>psc_text = [], psc_pages = []\<rparr>", OF fails]
    by (simp add: demo_spj_def demo_worker_def) fastforce
qed

theorem purge_spares_live_objects_witness:
  "\<exists>L. purge_run_once (u ''p1'') 60 (demo_env 950 5000) stored5 =
      (Inr True, \<lparr>library_of = L, objects_of = demo_objects(u ''key2'' := None)\<rparr>) \<and>
    (demo_objects(u ''key2'' := None)) (u ''key'') = demo_objects (u ''key'') \<and> library_ok L"
proof -
  obtain L where L: "purge_run_once (u ''p1'') 60 (demo_env 950 5000) stored5 =
      (Inr True, \<lparr>library_of = L, objects_of = demo_objects(u ''key2'' := None)\<rparr>)"
    "lb_sources L = [demo_src, delete_source 4000 other_src]"
    using purge_round by blast
  have "library_reachable (library_of stored5)" "src_object_key demo_src = u ''key''" "src_deleted_at demo_src = None"
    using lib5_reachable by (simp_all add: stored5_def demo_src_def)
  then show ?thesis
    using purge_spares_live_objects [OF _ L(1), of demo_src] L by (simp add: stored5_def)
qed


theorem library_is_consistent_witness:
  "map segment_view (file_segments 501 lib3) = map chunk_view (source_chunks 501 lib3) \<and> source_chunks 501 lib3 \<noteq> []"
proof -
  have "ready_src \<in> set (lb_sources lib3)" "source_chunks 501 lib3 = [demo_chunk]"
    by (simp_all add: lib3_def source_chunks_def demo_chunk_def new_chunk_def)
  then show ?thesis
    using library_is_consistent [OF lib3_reachable] by force
qed

end
