(* ===== verification/Spec2Isabelle.thy ===== *)
theory Spec2Isabelle
  imports AgentContracts AgentPolicy AgentProperties AgentTools AutomationDue AutomationEntities
    AutomationMachine AutomationOps AutomationProperties AutomationReactions AutomationRefinement
    AutomationService AutomationStore AutomationWorkers ChangeProperties ClaimProperties
    DomainProperties FileOps IdentityMachine IdentityProperties IdentityRefinement IdentityService
    Interfaces JobProperties LibraryEntities LibraryFrames LibraryMachine LibraryScenario LibraryStore
    MemoryInvariants MemoryManager MemoryOps MemoryProperties MemoryScenario MemoryService MemoryStore
    PersonalStateEntities Prelude PyArgs PyDiff PyFloat PyTime RequestProperties ResolveProperties
    RunProperties RunWorkProperties RuntimeDto RuntimeEntities RuntimeHistory RuntimeInvariants
    RuntimeMachine RuntimeRefinement RuntimeSafety RuntimeService RuntimeStore RuntimeTransitions
    Scenario ServiceRefinement SourceCompletion SourceDeletion SourceInvariants SourceProperties
    SourceService SourceText SourceWorkers StateDetailOps StateMachine StateMutations StateOps
    StateProperties StateRefinement StateReports StateScenario StateService StateStore StateTools System
    ToolProperties UserFrames
begin

text \<open>
  A model of the backend of "laoshiren", a personal agent that keeps a user's things, tasks and dates
  (\<open>src/backend/src/laoshiren\<close>; paths below are relative to it), with the theorems that make it
  correct. The backend is a modular monolith: \<open>domain/\<close> holds entities and their state machines,
  \<open>application/\<close> the use cases with their units of work, \<open>infrastructure/\<close> the SQL repositories and
  adapters, \<open>agent/\<close> the executive graph with its tools and policy, \<open>workers/\<close> the background loops,
  \<open>presentation/\<close> the HTTP routes.

  \<^bold>\<open>Parts and theories.\<close>
  \<^item> Vocabulary: \<open>Prelude\<close> (texts as code points, UUIDs, JSON, exceptions, the relational operations),
    \<open>PyFloat\<close> (binary64 on the rationals), \<open>PyTime\<close> (texts of numbers and instants), \<open>PyArgs\<close> (how a
    tool reads JSON arguments), \<open>Interfaces\<close> (the contracts of the components, as locales).
  \<^item> Entities, \<open>domain/\<close>: \<open>RuntimeEntities\<close>, \<open>PersonalStateEntities\<close>, \<open>AutomationEntities\<close>,
    \<open>LibraryEntities\<close> (identity, sources, files, memories, evidence). A dataclass is a record, an
    enumeration a datatype, a method a function on the record that returns the changed record or an
    exception.
  \<^item> Tables and repositories, \<open>infrastructure/persistence/\<close>: \<open>RuntimeStore\<close> (record \<open>db\<close>), \<open>StateStore\<close>
    (record \<open>store\<close>, whose field \<open>core\<close> is a \<open>db\<close>) and \<open>AutomationStore\<close>. A table is a list of rows in
    the order of their insertion; one definition per repository method gives its SQL statement clause
    by clause, with the primary keys, unique and check constraints of \<open>orm/\<close>.
  \<^item> Use cases, \<open>application/\<close>: \<open>RuntimeService\<close> and \<open>RuntimeTransitions\<close> (threads, runs, jobs, leases, the
    tool ledger, the transitions of a run), \<open>RuntimeDto\<close>; \<open>StateOps\<close>, \<open>StateDetailOps\<close> and \<open>StateService\<close>
    (the personal state), \<open>StateTools\<close> (a mutation inside the completion of a tool); \<open>AutomationOps\<close>,
    \<open>AutomationService\<close> (scheduling, occurrences, notifications). One operation is one unit of work:
    it takes the state and an environment \<open>env\<close> with the readings of the clock and the fresh UUIDs it
    draws, in the order in which the code draws them, and returns an exception (rolled back) or a value,
    the committed state and, for the runtime, the effects beside the database. Where a call commits
    several units of work (\<open>'a work\<close>), it returns the store as all of them leave it.
  \<^item> The agent, \<open>agent/\<close>: \<open>AgentContracts\<close> (decisions, results, the tool registry), \<open>AgentTools\<close> (the
    tools over the personal state and the automations), \<open>AgentPolicy\<close> (policy matrix, parallel batches,
    the reading of a model's decision). \<open>AutomationWorkers\<close>: the passes of \<open>workers/automation.py\<close>,
    \<open>automation_occurrence.py\<close> and \<open>push_delivery.py\<close>.
  \<^item> The library of uploaded material and memories: \<open>LibraryStore\<close> (record \<open>library\<close>, whose field
    \<open>state\<close> is a \<open>store\<close>, with the repositories of sources and files) and \<open>MemoryStore\<close> (memories and
    suppressions); \<open>SourceText\<close> (from raw pages to chunks), \<open>FileOps\<close> (the files that mirror the sources),
    \<open>SourceService\<close> (with the object storage beside the library, record \<open>storage\<close>), \<open>SourceWorkers\<close>;
    \<open>MemoryOps\<close>, \<open>PyDiff\<close> (\<open>difflib\<close>), \<open>MemoryService\<close> and \<open>MemoryManager\<close> (creation, retrieval, forgetting,
    formation). \<open>LibraryFrames\<close> says what the inner system leaves alone; \<open>SourceInvariants\<close>,
    \<open>SourceCompletion\<close>, \<open>SourceDeletion\<close> and \<open>MemoryInvariants\<close> show that every unit of work keeps
    \<open>sources_inv\<close> and \<open>memories_inv\<close>.
  \<^item> Accounts: \<open>IdentityService\<close> (record \<open>accounts\<close>, a \<open>store\<close> with the tables of devices and sessions;
    login, sessions, devices, the check of a bearer token, the deletion of an account and its worker).

  \<^bold>\<open>Specifications and refinement.\<close> Three abstract machines say how one statement group may change
  the data: \<open>store_write\<close> (\<open>RuntimeMachine\<close>), \<open>state_write\<close> (\<open>StateMachine\<close>) and \<open>auto_write\<close>
  (\<open>AutomationMachine\<close>). Their invariants are \<open>runtime_ok\<close> (\<open>RuntimeInvariants\<close>, \<open>RuntimeSafety\<close>),
  \<open>state_ok\<close> and \<open>auto_ok\<close>. \<open>RuntimeRefinement\<close>, \<open>ServiceRefinement\<close>, \<open>StateRefinement\<close>, \<open>StateMutations\<close>,
  \<open>AutomationRefinement\<close>, \<open>AutomationDue\<close> and \<open>AutomationReactions\<close> show that every operation of the code
  is a sequence of such writes. \<open>service_step\<close> is one unit of work of the runtime with \<open>reachable\<close> its
  states from the empty database; \<open>system_step\<close> (\<open>System\<close>) is one of all components on the common
  store, and the runtime's part of every step is a \<open>service_step\<close>, so what holds of the runtime alone
  holds in the system. \<open>RuntimeHistory\<close> shows what steps never undo and discharges the contracts of
  \<open>Interfaces\<close>: \<open>invariant_system\<close>, \<open>persistent\<close> (records that stay), \<open>fenced\<close> (tokens only a claim
  issues), \<open>epochs\<close> (numbers that only grow), \<open>versioned_table\<close> and \<open>cas_store\<close> (updates guarded by a
  version).

  \<open>LibraryMachine\<close> puts the library on top: \<open>library_step\<close> is one unit of work of the system, of the
  sources and files, or of the memories, each the operation of the code, and every library reached from
  the empty one is \<open>library_ok\<close> (\<open>SourceInvariants\<close>, \<open>SourceCompletion\<close>, \<open>SourceDeletion\<close>,
  \<open>MemoryInvariants\<close>). A step of the inner system is asked to add no purge job, which no other part of
  the code enqueues. \<open>IdentityMachine\<close> does the same for the accounts: \<open>identity_step\<close> is one operation of
  the identity service, one round of the deletion worker, or any step of the library machine on the same
  store; every state reached is \<open>identity_ok\<close>. \<open>UserFrames\<close> shows that a step of the library machine only
  adds users, active ones without an external subject (as \<open>ensure_exists\<close> does), but for the rule
  \<open>accounts\<close> by which the runtime stands for the writes of the identity service, and \<open>IdentityRefinement\<close>
  that every operation of the identity service is a history of the system, so the invariants of the
  other components hold in every state of the accounts.

  \<^bold>\<open>Properties.\<close> The runtime: well-formed runs, the gapless event log, exclusive claims, fencing of
  lost claims, tools that run once, the job queue, accepted requests, answering, recovery (C1 to C3, C5, C7
  to C9, C12, C13, C15, C19, C20, C22, C23; \<open>RunProperties\<close>,
  \<open>ClaimProperties\<close>, \<open>ToolProperties\<close>, \<open>JobProperties\<close>, \<open>RequestProperties\<close>, \<open>ChangeProperties\<close>,
  \<open>RunWorkProperties\<close>). The uploaded material: claims in order, fencing, failed rounds, purges that spare
  what is live, the consistency of the library, segments that answer like chunks, chunks that locate the
  text (C4, C10, C21, C24, C26, C28, C29; \<open>SourceProperties\<close>). The memories: formation events, profiles
  that are replaced, forgetting that lasts (C6, C11, C17; \<open>MemoryProperties\<close>). The agent: the policy, an
  action that writes at most once, parallel batches (C25, C27, C40; \<open>AgentProperties\<close>). The personal
  state: the redirects of merged things, the composition with the runtime, mutations that run once,
  references, stale writes, merge and deletion (C30 to C36; \<open>ResolveProperties\<close>, \<open>StateProperties\<close>). The
  automations: the scheduler serves what is due, one occurrence per slot, settled occurrences are final
  (C37 to C39; \<open>AutomationProperties\<close>). The accounts: a deleted account stays closed, the deletion job
  closes one, a refreshed session replaces the one before it (C14, C16, C18; \<open>IdentityProperties\<close>). \<open>DomainProperties\<close> and the theories of the runtime hold further
  theorems without a number: settling a job, repeated requests, cancelling, pages of the event log, taking a claim, requeueing, competing changes,
  foreign runs, transitions of tasks, evidence references, active time. The witnesses are taken from
  \<open>Scenario\<close>, \<open>StateScenario\<close>, \<open>LibraryScenario\<close>, \<open>MemoryScenario\<close> and the scenarios of the property
  theories, whose steps the simplifier evaluates.

  \<^bold>\<open>Bounds and termination.\<close> The loops of the code are structural recursions over the rows a query
  returned, but for four with a measure: \<open>resolve_from\<close>, which passes every stored thing at most once,
  \<open>chunks_from\<close>, whose start moves on in the text, the matching blocks of \<open>PyDiff\<close>, and \<open>first_latin\<close>. No definition uses
  fuel. C37 asks for four fresh identifiers per due automation, the number a round may draw. Integers are
  Python's, unbounded; UUIDs are 128-bit words; instants are microseconds.

  \<^bold>\<open>Assumptions.\<close> A unit of work sees the committed state and commits at once: isolation levels, locks
  and retries of the database are not modelled. Foreign keys, column lengths and the time zone database
  are not checked. JSON numbers are integers. \<open>UUID(...)\<close> reads the spellings \<open>str(uuid)\<close> gives, \<open>int(...)\<close>
  the ASCII digits. \<open>show_json\<close> stands for \<open>str\<close> of a JSON list or object, \<open>submit\<close> for the answer of the
  notification adapter; \<open>texts_env\<close> carries case folding, SHA-256, the lower-casing of the database and the
  distance of embeddings, \<open>source_config\<close> the embedding provider, \<open>extract\<close> the parser's answer.

  \<^bold>\<open>Not modelled.\<close> The LangGraph graph (\<open>agent/graph.py\<close>) and its worker, whose control is in a library that is not
  under \<open>src\<close>; the memory, file and search tools, the search providers; the
  reading of PDF and DOCX files; asyncio, logging, Redis, model providers, the HTTP routes,
  configuration and migrations; the client under \<open>src/apps/\<close>, which is not Python.
\<close>

end
